(* ===== verification/Go_Prelude.thy ===== *)
theory Go_Prelude
  imports Main "HOL-Library.AList" "HOL-Library.Word" "HOL-Library.Char_ord"
    "HOL-Library.List_Lexorder" "HOL-Library.Multiset"
begin

text \<open>
  The part of Go and of its standard library that the modelled packages use.

  \<^item> Strings are byte lists (\<^typ>\<open>string\<close>); \<open>strings.TrimSpace\<close>, \<open>strings.ToLower\<close>,
    \<open>strings.EqualFold\<close>, \<open>strings.Contains\<close> are modelled on the ASCII range, where they agree
    with Go's Unicode versions.
  \<^item> A \<open>time.Time\<close> is the \<^typ>\<open>int\<close> number of nanoseconds since Go's zero time, so
    \<open>IsZero\<close> is \<open>t = 0\<close> and \<open>UTC()\<close> is the identity. A \<open>time.Duration\<close> is an \<^typ>\<open>int\<close> in
    the 64-bit signed range; arithmetic that can overflow goes through \<open>wrap64\<close>.
  \<^item> A Go map is an association list with distinct keys. Its order stands for the iteration order
    the runtime happens to choose: statements quantify over every list, hence over every order.
  \<^item> Values of type \<open>any\<close> are the datatype \<open>any\<close>; an \<open>error\<close> is a \<open>goerr\<close>, and a
    function that returns \<open>(T, error)\<close> returns \<open>goerr + T\<close>.
\<close>

named_theorems go_defs \<open>definitions unfolded by the component proofs\<close>

named_theorems frame \<open>what an operation leaves unchanged\<close>

section \<open>Strings\<close>

definition is_space :: "char \<Rightarrow> bool" where
  "is_space c \<longleftrightarrow> c \<in> {CHR 0x09, CHR 0x0A, CHR 0x0B, CHR 0x0C, CHR 0x0D, CHR '' ''}"

definition TrimSpace :: "string \<Rightarrow> string" where
  "TrimSpace s = rev (dropWhile is_space (rev (dropWhile is_space s)))"

definition char_lower :: "char \<Rightarrow> char" where
  "char_lower c =
     (if 65 \<le> (of_char c :: nat) \<and> (of_char c :: nat) \<le> 90 then char_of ((of_char c :: nat) + 32) else c)"

definition ToLower :: "string \<Rightarrow> string" where
  "ToLower s = map char_lower s"

definition char_upper :: "char \<Rightarrow> char" where
  "char_upper c =
     (if 97 \<le> (of_char c :: nat) \<and> (of_char c :: nat) \<le> 122 then char_of ((of_char c :: nat) - 32) else c)"

definition ToUpper :: "string \<Rightarrow> string" where
  "ToUpper s = map char_upper s"

definition EqualFold :: "string \<Rightarrow> string \<Rightarrow> bool" where
  "EqualFold a b \<longleftrightarrow> ToLower a = ToLower b"

fun Contains :: "string \<Rightarrow> string \<Rightarrow> bool" where
  "Contains [] sub = (sub = [])"
| "Contains (c # s) sub = (take (length sub) (c # s) = sub \<or> Contains s sub)"

lemma TrimSpace_Nil [simp]: "TrimSpace [] = []"
  by (simp add: TrimSpace_def)

lemma hd_rev_dropWhile_rev:
  "dropWhile P (rev ys) \<noteq> [] \<Longrightarrow> hd (rev (dropWhile P (rev ys))) = hd ys"
  by (induction ys rule: rev_induct) (auto simp: hd_append split: if_splits)

lemma dropWhile_rev_dropWhile:
  "dropWhile P (rev (dropWhile P (rev (dropWhile P xs)))) = rev (dropWhile P (rev (dropWhile P xs)))"
proof (cases "dropWhile P (rev (dropWhile P xs)) = []")
  case True
  show ?thesis by (simp only: True rev.simps dropWhile.simps)
next
  case False
  from False have "dropWhile P xs \<noteq> []" by (cases "dropWhile P xs") simp_all
  then have "\<not> P (hd (dropWhile P xs))" by (rule hd_dropWhile)
  then have "\<not> P (hd (rev (dropWhile P (rev (dropWhile P xs)))))"
    using hd_rev_dropWhile_rev [OF False] by simp
  then show ?thesis unfolding dropWhile_eq_self_iff by blast
qed

lemma TrimSpace_idem [simp]: "TrimSpace (TrimSpace s) = TrimSpace s"
  by (simp add: TrimSpace_def dropWhile_rev_dropWhile)


lemma is_space_char_lower [simp]: "is_space (char_lower c) = is_space c"
proof (cases "65 \<le> (of_char c :: nat) \<and> (of_char c :: nat) \<le> 90")
  case True
  then have "(of_char (char_lower c) :: nat) = of_char c + 32"
    by (simp add: char_lower_def)
  with True show ?thesis
    by (auto simp: is_space_def)
next
  case False
  then have "char_lower c = c" by (auto simp: char_lower_def)
  then show ?thesis by simp
qed

lemma char_lower_idem [simp]: "char_lower (char_lower c) = char_lower c"
  by (simp add: char_lower_def)

lemma ToLower_idem [simp]: "ToLower (ToLower s) = ToLower s"
  by (simp add: ToLower_def)

lemma ToLower_eq_Nil [simp]: "ToLower s = [] \<longleftrightarrow> s = []"
  by (simp add: ToLower_def)

lemma ToLower_Nil [simp]: "ToLower [] = []"
  by (simp add: ToLower_def)

lemma TrimSpace_ToLower: "TrimSpace (ToLower s) = ToLower (TrimSpace s)"
  by (simp add: TrimSpace_def ToLower_def dropWhile_map rev_map comp_def)

lemma EqualFold_refl [simp]: "EqualFold s s"
  by (simp add: EqualFold_def)

lemma EqualFold_ToLower_eq: "EqualFold a b \<Longrightarrow> ToLower a = ToLower b"
  by (simp add: EqualFold_def)

lemma TrimSpace_eq_Nil_iff: "TrimSpace s = [] \<longleftrightarrow> (\<forall>c \<in> set s. is_space c)"
proof -
  have "TrimSpace s = [] \<longleftrightarrow> (\<forall>c \<in> set (dropWhile is_space s). is_space c)"
    by (simp add: TrimSpace_def)
  also have "\<dots> \<longleftrightarrow> (\<forall>c \<in> set s. is_space c)"
    by (induction s) auto
  finally show ?thesis .
qed

lemma dropWhile_none: "(\<forall>x \<in> set xs. \<not> P x) \<Longrightarrow> dropWhile P xs = xs"
  by (cases xs) auto

lemma TrimSpace_id: "(\<forall>c \<in> set s. \<not> is_space c) \<Longrightarrow> TrimSpace s = s"
  by (simp add: TrimSpace_def dropWhile_none)

lemma of_char_less_256: "(of_char c :: nat) < 256"
  using range_nat_of_char rangeI [of of_char c] by auto

lemma count_list_distinct: "distinct xs \<Longrightarrow> x \<in> set xs \<Longrightarrow> count_list xs x = 1"
  by (induction xs) auto

lemma length_filter_all: "length (filter P xs) = length xs \<longleftrightarrow> (\<forall>x \<in> set xs. P x)"
  by (metis filter_True length_filter_less less_irrefl)

section \<open>Integers, durations and instants\<close>

text \<open>Two's complement wrap-around of Go's \<open>int64\<close> arithmetic (\<open>int\<close> and \<open>time.Duration\<close>).\<close>

definition wrap64 :: "int \<Rightarrow> int" where
  "wrap64 x = (x + 2 ^ 63) mod 2 ^ 64 - 2 ^ 63"

definition int64 :: "int \<Rightarrow> bool" where
  "int64 x \<longleftrightarrow> - (2 ^ 63) \<le> x \<and> x < 2 ^ 63"

lemma int64_wrap64 [simp]: "int64 (wrap64 x)"
  unfolding int64_def wrap64_def
  using pos_mod_bound [of "2 ^ 64" "x + 2 ^ 63"] pos_mod_sign [of "2 ^ 64" "x + 2 ^ 63"] by simp

lemma wrap64_id: "int64 x \<Longrightarrow> wrap64 x = x"
  by (simp add: int64_def wrap64_def)

lemma wrap64_eq_iff: "wrap64 x = x \<longleftrightarrow> int64 x"
  by (metis int64_wrap64 wrap64_id)

lemma wrap64_sint: "wrap64 x = sint (word_of_int x :: 64 word)"
  by (simp add: wrap64_def signed_take_bit_eq_take_bit_shift take_bit_eq_mod sint_sbintrunc')

text \<open>\<open>Time.Sub\<close> saturates at the ends of the \<open>Duration\<close> range.\<close>

definition time_Sub :: "int \<Rightarrow> int \<Rightarrow> int" where
  "time_Sub t u = max (- (2 ^ 63)) (min (2 ^ 63 - 1) (t - u))"

lemma time_Sub_eq: "int64 (t - u) \<Longrightarrow> time_Sub t u = t - u"
  by (simp add: time_Sub_def int64_def)

definition Millisecond :: int where "Millisecond = 1000000"

definition Second :: int where "Second = 1000000000"

definition Minute :: int where "Minute = 60 * Second"

lemmas duration_defs = Millisecond_def Second_def Minute_def

section \<open>Decimal numbers: \<open>strconv.Itoa\<close> / \<open>%d\<close> and \<open>strconv.Atoi\<close>\<close>

fun show_nat :: "nat \<Rightarrow> string" where
  "show_nat n =
     (if n < 10 then [char_of (48 + n)] else show_nat (n div 10) @ [char_of (48 + n mod 10)])"

declare show_nat.simps [simp del]

definition Itoa :: "int \<Rightarrow> string" where
  "Itoa i = (if i < 0 then CHR ''-'' # show_nat (nat (- i)) else show_nat (nat i))"

definition is_digit :: "char \<Rightarrow> bool" where
  "is_digit c \<longleftrightarrow> 48 \<le> (of_char c :: nat) \<and> (of_char c :: nat) \<le> 57"

fun parse_digits :: "nat \<Rightarrow> string \<Rightarrow> nat option" where
  "parse_digits acc [] = Some acc"
| "parse_digits acc (c # s) =
     (if is_digit c then parse_digits (10 * acc + (of_char c - 48)) s else None)"

text \<open>An optional sign, at least one digit, digits only, and the value in range.\<close>

definition Atoi :: "string \<Rightarrow> int option" where
  "Atoi s =
     (let neg = (s \<noteq> [] \<and> hd s = CHR ''-'');
          body = (if s \<noteq> [] \<and> (hd s = CHR ''-'' \<or> hd s = CHR ''+'') then tl s else s)
      in if body = [] then None
         else case parse_digits 0 body of
             None \<Rightarrow> None
           | Some n \<Rightarrow> (let i = (if neg then - int n else int n) in if int64 i then Some i else None))"

lemma parse_digits_append:
  "parse_digits acc (xs @ ys) =
     (case parse_digits acc xs of None \<Rightarrow> None | Some n \<Rightarrow> parse_digits n ys)"
  by (induction xs arbitrary: acc) auto

lemma of_char_digit: "d < 10 \<Longrightarrow> (of_char (char_of (48 + d :: nat)) :: nat) = 48 + d"
  by simp

lemma show_nat_digits: "\<forall>c \<in> set (show_nat n). is_digit c"
proof (induction n rule: show_nat.induct)
  case (1 n)
  then show ?case
    by (subst show_nat.simps) (auto simp: is_digit_def of_char_digit)
qed

lemma show_nat_nonempty [simp]: "show_nat n \<noteq> []"
  by (subst show_nat.simps) simp

lemma parse_show_nat: "parse_digits 0 (show_nat n) = Some n"
proof (induction n rule: show_nat.induct)
  case (1 n)
  show ?case
  proof (cases "n < 10")
    case True
    then show ?thesis by (subst show_nat.simps) (simp add: is_digit_def of_char_digit)
  next
    case False
    then show ?thesis
      by (subst show_nat.simps) (simp add: parse_digits_append 1 is_digit_def of_char_digit)
  qed
qed

lemma is_digit_not_sign: "is_digit c \<Longrightarrow> c \<noteq> CHR ''-'' \<and> c \<noteq> CHR ''+'' \<and> c \<noteq> CHR ''|'' \<and> \<not> is_space c"
  by (auto simp: is_digit_def is_space_def)

lemma hd_show_nat: "hd (show_nat n) \<noteq> CHR ''-'' \<and> hd (show_nat n) \<noteq> CHR ''+''"
  using show_nat_digits [of n] is_digit_not_sign [of "hd (show_nat n)"] by (simp add: hd_in_set)

lemma Atoi_Itoa: "int64 i \<Longrightarrow> Atoi (Itoa i) = Some i"
  using hd_show_nat [of "nat i"] by (simp add: Atoi_def Itoa_def Let_def parse_show_nat)

text \<open>\<open>Duration.String\<close>: units from hours down, fractions without trailing zeros.\<close>

definition fmtFrac :: "nat \<Rightarrow> nat \<Rightarrow> string" where
  "fmtFrac v prec =
     (let ds = show_nat (v mod 10 ^ prec);
          padded = replicate (prec - length ds) (CHR ''0'') @ ds;
          kept = rev (dropWhile (\<lambda>c. c = CHR ''0'') (rev padded))
      in if kept = [] then [] else CHR ''.'' # kept)"

definition Duration_String :: "int \<Rightarrow> string" where
  "Duration_String d =
     (let u = nat \<bar>d\<bar>;
          body =
            (if u = 0 then ''0s''
             else if u < 10 ^ 3 then show_nat u @ ''ns''
             else if u < 10 ^ 6 then show_nat (u div 10 ^ 3) @ fmtFrac u 3 @ [CHR 0xC2, CHR 0xB5, CHR ''s'']
             else if u < 10 ^ 9 then show_nat (u div 10 ^ 6) @ fmtFrac u 6 @ ''ms''
             else let secs = u div 10 ^ 9; mins = secs div 60; hours = mins div 60
                  in (if hours > 0 then show_nat hours @ ''h'' else []) @
                     (if mins > 0 then show_nat (mins mod 60) @ ''m'' else []) @
                     show_nat (secs mod 60) @ fmtFrac u 9 @ ''s'')
      in (if d < 0 then CHR ''-'' # body else body))"

section \<open>Maps\<close>

type_synonym ('k, 'v) gomap = "('k \<times> 'v) list"

abbreviation gomap_ok :: "('k, 'v) gomap \<Rightarrow> bool" where
  "gomap_ok m \<equiv> distinct (map fst m)"

text \<open>\<open>for k, v := range m { if p(k, v) { delete(m, k) } }\<close>\<close>

definition delete_where :: "('k \<Rightarrow> 'v \<Rightarrow> bool) \<Rightarrow> ('k, 'v) gomap \<Rightarrow> ('k, 'v) gomap" where
  "delete_where p m = filter (\<lambda>(k, v). \<not> p k v) m"

lemma map_of_filter_ok:
  "gomap_ok m \<Longrightarrow>
     map_of (filter (\<lambda>(k, v). q k v) m) k =
       (case map_of m k of None \<Rightarrow> None | Some v \<Rightarrow> if q k v then Some v else None)"
proof (induction m)
  case Nil
  then show ?case by simp
next
  case (Cons kv m)
  have "map_of m k' = None" if "k' = fst kv" for k'
    using Cons.prems that by (simp add: map_of_eq_None_iff)
  then show ?case using Cons by (cases kv) auto
qed

lemma map_of_delete_where:
  "gomap_ok m \<Longrightarrow>
     map_of (delete_where p m) k =
       (case map_of m k of None \<Rightarrow> None | Some v \<Rightarrow> if p k v then None else Some v)"
  by (auto simp: delete_where_def map_of_filter_ok split: option.splits)

lemma gomap_ok_filter: "gomap_ok m \<Longrightarrow> gomap_ok (filter p m)"
  by (simp add: distinct_map_filter)

lemma gomap_ok_delete_where [simp]: "gomap_ok m \<Longrightarrow> gomap_ok (delete_where p m)"
  by (simp add: delete_where_def gomap_ok_filter)

lemma length_delete_where: "length (delete_where p m) \<le> length m"
  by (simp add: delete_where_def)

lemma gomap_ok_update [simp]: "gomap_ok m \<Longrightarrow> gomap_ok (AList.update k v m)"
  by (rule AList.distinct_update)

lemma gomap_ok_delete [simp]: "gomap_ok m \<Longrightarrow> gomap_ok (AList.delete k m)"
  by (rule AList.distinct_delete)

lemma length_update:
  "length (AList.update k v m) = (if k \<in> fst ` set m then length m else Suc (length m))"
  by (induction m) auto

lemma length_delete_less: "k \<in> fst ` set m \<Longrightarrow> length (AList.delete k m) < length m"
  unfolding AList.delete_eq by (auto intro!: length_filter_less)

lemma map_of_update [simp]: "map_of (AList.update k v m) = (map_of m)(k \<mapsto> v)"
  by (rule AList.update_conv')

lemma map_of_delete [simp]: "map_of (AList.delete k m) = (map_of m)(k := None)"
  by (rule AList.delete_conv')

lemma set_delete_subset: "set (AList.delete k m) \<subseteq> set m"
  by (auto simp: AList.delete_eq)

section \<open>Values of type \<open>any\<close>\<close>

text \<open>
  The dynamic types the modelled code switches on or prints. A \<open>float64\<close> is the dyadic number
  mantissa times two to the exponent; its textual form (\<open>strconv\<close>'s shortest representation)
  is the argument \<open>ff\<close> of \<open>Sprint\<close>.
\<close>

datatype any =
    ANil
  | AStr string
  | AInt int
  | AInt64 int
  | AFloat64 int int
  | ABool bool
  | AArr "any list"
  | AObj "(string \<times> any) list"

type_synonym meta = "(string, any) gomap"

fun join_with :: "string \<Rightarrow> string list \<Rightarrow> string" where
  "join_with sep [] = []"
| "join_with sep [x] = x"
| "join_with sep (x # y # xs) = x @ sep @ join_with sep (y # xs)"

text \<open>\<open>fmt.Sprint\<close> of one operand; maps print in key order.\<close>

fun Sprint :: "(int \<Rightarrow> int \<Rightarrow> string) \<Rightarrow> any \<Rightarrow> string" where
  "Sprint ff ANil = ''<nil>''"
| "Sprint ff (AStr s) = s"
| "Sprint ff (AInt i) = Itoa i"
| "Sprint ff (AInt64 i) = Itoa i"
| "Sprint ff (AFloat64 m e) = ff m e"
| "Sprint ff (ABool b) = (if b then ''true'' else ''false'')"
| "Sprint ff (AArr xs) = ''['' @ join_with '' '' (map (Sprint ff) xs) @ '']''"
| "Sprint ff (AObj kvs) =
     ''map['' @ join_with '' ''
        (map snd (sort_key fst (map (\<lambda>(k, v). (k, k @ '':'' @ Sprint ff v)) kvs))) @ '']''"

text \<open>Indexing a map with a missing key yields the zero value, \<open>nil\<close> for \<open>any\<close>.\<close>

definition meta_get :: "meta \<Rightarrow> string \<Rightarrow> any" where
  "meta_get m k = (case map_of m k of None \<Rightarrow> ANil | Some v \<Rightarrow> v)"

text \<open>\<open>maps.Copy(dst, src)\<close>\<close>

definition maps_Copy :: "('k, 'v) gomap \<Rightarrow> ('k, 'v) gomap \<Rightarrow> ('k, 'v) gomap" where
  "maps_Copy dst src = fold (\<lambda>(k, v) m. AList.update k v m) src dst"

lemma gomap_ok_maps_Copy [simp]: "gomap_ok dst \<Longrightarrow> gomap_ok (maps_Copy dst src)"
  unfolding maps_Copy_def by (induction src arbitrary: dst) (auto simp: case_prod_beta)

lemma map_of_maps_Copy:
  "gomap_ok src \<Longrightarrow> map_of (maps_Copy dst src) = map_of dst ++ map_of src"
  unfolding maps_Copy_def
proof (induction src arbitrary: dst)
  case Nil
  then show ?case by simp
next
  case (Cons kv src)
  have "fst kv \<notin> dom (map_of src)"
    using Cons.prems by (simp add: dom_map_of_conv_image_fst)
  then show ?case
    using Cons by (cases kv) (auto simp: fun_eq_iff map_add_def split: option.splits)
qed

lemma update_fresh: "k \<notin> fst ` set m \<Longrightarrow> AList.update k v m = m @ [(k, v)]"
  by (induction m) auto

lemma maps_Copy_fresh:
  "gomap_ok (dst @ src) \<Longrightarrow> maps_Copy dst src = dst @ src"
  unfolding maps_Copy_def
proof (induction src arbitrary: dst)
  case Nil
  then show ?case by simp
next
  case (Cons kv src)
  have "AList.update (fst kv) (snd kv) dst = dst @ [kv]"
    using Cons.prems by (subst update_fresh) auto
  then show ?case using Cons.IH [of "dst @ [kv]"] Cons.prems by (cases kv) simp
qed

section \<open>Errors\<close>

text \<open>The sentinel errors the code compares with \<open>errors.Is\<close>.\<close>

datatype sentinel =
    ErrInvalidScopeType
  | ErrInvalidConnectionStatusTransition
  | ErrInvalidCredentialStatusTransition
  | ErrInvalidInstallationStatusTransition
  | ErrInvalidSubscriptionStatusTransition
  | ErrInvalidSyncJobStatusTransition
  | ErrInvalidSyncJobMode
  | ErrInvalidSyncJobScope
  | ErrSyncJobNotFound
  | ErrSyncCursorConflict
  | ErrEmbeddedAuthUnsupported
  | ErrStateNotFound
  | errSyncJobIdempotencyReplay
  | context_Canceled
  | context_DeadlineExceeded

datatype category =
    CategoryBadInput | CategoryValidation | CategoryNotFound | CategoryAuth | CategoryAuthz
  | CategoryConflict | CategoryRateLimit | CategoryOperation | CategoryExternal | CategoryInternal
  | CategoryOther string

text \<open>
  The fields of \<open>goerrors.Error\<close> that the repository reads and writes. That library is not part of
  the repository: a rich error is known here by the category, message, code, text code and metadata
  its constructor calls were given. How it renders is always an argument (\<open>text\<close>, \<open>render\<close>).
\<close>

record rich_error =
  Category :: category
  Code :: int
  TextCode :: string
  Message :: string
  ErrMeta :: meta

text \<open>
  \<open>Plain\<close> is an error that wraps nothing (\<open>errors.New\<close>, \<open>fmt.Errorf\<close> without \<open>%w\<close>, or an
  error of a third party with this text); \<open>Wrapped\<close> carries its rendered text and what it wraps
  (\<open>fmt.Errorf\<close> with \<open>%w\<close>); \<open>Joined\<close> is \<open>errors.Join\<close>; \<open>Rich\<close> is a \<open>*goerrors.Error\<close> with its source;
  \<open>Throttled\<close> is \<open>ratelimit.ThrottledError\<close> (provider, bucket, retry delay); \<open>Convertible\<close> is
  any other error with a method \<open>ToServiceError\<close>, given by its text, what that method returns
  (\<open>None\<close> for \<open>nil\<close>), and what it wraps.
\<close>

datatype goerr =
    Sentinel sentinel
  | Plain string
  | Wrapped string "goerr list"
  | Joined "goerr list"
  | Rich rich_error "goerr option"
  | Throttled string string int
  | Convertible string "rich_error option" "goerr list"

fun errors_Is :: "goerr \<Rightarrow> sentinel \<Rightarrow> bool" where
  "errors_Is (Sentinel s) t = (s = t)"
| "errors_Is (Plain _) t = False"
| "errors_Is (Wrapped _ es) t = (\<exists>e \<in> set es. errors_Is e t)"
| "errors_Is (Joined es) t = (\<exists>e \<in> set es. errors_Is e t)"
| "errors_Is (Rich _ src) t = (case src of None \<Rightarrow> False | Some e \<Rightarrow> errors_Is e t)"
| "errors_Is (Throttled _ _ _) t = False"
| "errors_Is (Convertible _ _ es) t = (\<exists>e \<in> set es. errors_Is e t)"

text \<open>\<open>goerrors.As(err, &richErr)\<close>: the first rich error of the tree, depth first.\<close>

fun as_rich :: "goerr \<Rightarrow> (rich_error \<times> goerr option) option" where
  "as_rich (Rich r src) = Some (r, src)"
| "as_rich (Wrapped _ es) = 
     (case filter (\<lambda>r. r \<noteq> None) (map as_rich es) of [] \<Rightarrow> None | r # _ \<Rightarrow> r)"
| "as_rich (Joined es) =
     (case filter (\<lambda>r. r \<noteq> None) (map as_rich es) of [] \<Rightarrow> None | r # _ \<Rightarrow> r)"
| "as_rich (Convertible _ _ es) =
     (case filter (\<lambda>r. r \<noteq> None) (map as_rich es) of [] \<Rightarrow> None | r # _ \<Rightarrow> r)"
| "as_rich _ = None"

type_synonym 'a result = "goerr + 'a"

text \<open>The database error of the \<open>n\<close>-th statement of an operation of a SQL store, if there is one.\<close>

type_synonym sql_faults = "nat \<Rightarrow> goerr option"

abbreviation no_faults :: sql_faults where
  "no_faults \<equiv> \<lambda>_. None"

section \<open>Helpers repeated in several packages\<close>

text \<open>
  The header lookup of the \<open>ratelimit\<close>, \<open>webhooks\<close> and \<open>inbound\<close> packages: the first entry, in
  iteration order, whose name matches up to case and surrounding space.
\<close>

fun headerValue :: "(string, string) gomap \<Rightarrow> string \<Rightarrow> string" where
  "headerValue [] key = []"
| "headerValue ((existing, value) # headers) key =
     (if EqualFold (TrimSpace existing) (TrimSpace key) then TrimSpace value
      else headerValue headers key)"

definition copyAnyMap :: "meta \<Rightarrow> meta" where
  "copyAnyMap m = (if m = [] then [] else maps_Copy [] m)"

definition ensureMetadata :: "meta \<Rightarrow> meta" where
  "ensureMetadata m = (if m = [] then [] else m)"

lemma copyAnyMap_id [simp]: "gomap_ok m \<Longrightarrow> copyAnyMap m = m"
  by (simp add: copyAnyMap_def maps_Copy_fresh)

lemma gomap_ok_copyAnyMap [simp]: "gomap_ok (copyAnyMap m)"
  by (simp add: copyAnyMap_def)

lemma ensureMetadata_id [simp]: "ensureMetadata m = m"
  by (simp add: ensureMetadata_def)

text \<open>
  When no two header names are the same up to case and space, the lookup does not depend on the
  iteration order of the map.
\<close>

definition canonical_header :: "string \<Rightarrow> string" where
  "canonical_header h = ToLower (TrimSpace h)"

lemma headerValue_map_of:
  "headerValue hs key =
     (case map_of (map (\<lambda>(k, v). (canonical_header k, v)) hs) (canonical_header key) of
        None \<Rightarrow> [] | Some v \<Rightarrow> TrimSpace v)"
  by (induction hs key rule: headerValue.induct)
    (auto simp: canonical_header_def EqualFold_def)

lemma headerValue_order_independent:
  assumes "distinct (map (canonical_header \<circ> fst) hs)" and "mset hs = mset hs'"
  shows "headerValue hs key = headerValue hs' key"
proof -
  let ?c = "\<lambda>(k, v). (canonical_header k, v)"
  have fst_c: "map fst (map ?c xs) = map (canonical_header \<circ> fst) xs" for xs :: "(string, string) gomap"
    by (simp add: case_prod_beta comp_def)
  have m: "mset (map ?c hs) = mset (map ?c hs')"
    using assms(2) by simp
  have d: "distinct (map fst (map ?c hs))" using assms(1) by (simp only: fst_c)
  moreover have "distinct (map fst (map ?c hs'))"
    using d m by (metis mset_eq_imp_distinct_iff mset_map)
  moreover have "set (map ?c hs) = set (map ?c hs')" using m by (metis set_mset_mset)
  ultimately have "map_of (map ?c hs) = map_of (map ?c hs')" by (metis map_of_inject_set)
  then show ?thesis by (simp only: headerValue_map_of)
qed

end
