(* ===== verification/Backoff.thy ===== *)
theory Backoff
  imports Go_Prelude "HOL-Library.Log_Nat"
begin

text \<open>
  The four exponential backoff computations of the repository:
  \<open>webhooks.ExponentialRetryPolicy.NextDelay\<close>, \<open>core.ExponentialBackoffScheduler.NextDelay\<close>,
  \<open>ratelimit.AdaptivePolicy.nextBackoff\<close> and \<open>core.OutboxDispatcher.nextBackoffDelay\<close>. The first
  three double a 64-bit duration in a loop, the last goes through \<open>float64\<close>. The locale
  \<open>exponential_backoff\<close> is their common contract: the delay of attempt \<open>n\<close> is
  \<open>initial * 2 ^ (n - 1)\<close>, capped at the maximum.
\<close>

section \<open>The contract\<close>

locale exponential_backoff =
  fixes next_delay :: "'p \<Rightarrow> int \<Rightarrow> int"
    and first_delay :: "'p \<Rightarrow> int"
    and cap :: "'p \<Rightarrow> int"
    and wf :: "'p \<Rightarrow> bool"
  assumes first_pos: "wf p \<Longrightarrow> 0 < first_delay p"
    and cap_pos: "wf p \<Longrightarrow> 0 < cap p"
    and exact: "wf p \<Longrightarrow> 1 \<le> n \<Longrightarrow> next_delay p n = min (cap p) (first_delay p * 2 ^ nat (n - 1))"
begin

lemma delay_pos: "wf p \<Longrightarrow> 1 \<le> n \<Longrightarrow> 0 < next_delay p n"
  by (simp add: exact first_pos cap_pos)

lemma delay_bounded: "wf p \<Longrightarrow> 1 \<le> n \<Longrightarrow> next_delay p n \<le> cap p"
  by (simp add: exact)

lemma delay_mono: "wf p \<Longrightarrow> 1 \<le> m \<Longrightarrow> m \<le> n \<Longrightarrow> next_delay p m \<le> next_delay p n"
proof -
  assume p: "wf p" and m: "1 \<le> m" and mn: "m \<le> n"
  have "(2::int) ^ nat (m - 1) \<le> 2 ^ nat (n - 1)"
    using mn by (simp add: power_increasing)
  then have "first_delay p * 2 ^ nat (m - 1) \<le> first_delay p * 2 ^ nat (n - 1)"
    using first_pos [OF p] by simp
  then show ?thesis using p m mn by (simp add: exact)
qed

lemma delay_saturates: "wf p \<Longrightarrow> cap p \<le> n \<Longrightarrow> next_delay p n = cap p"
proof -
  assume p: "wf p" and n: "cap p \<le> n"
  have n1: "1 \<le> n" using n cap_pos [OF p] by simp
  have less: "nat (n - 1) < 2 ^ nat (n - 1)" by (rule less_exp)
  have "int (nat (n - 1)) < int (2 ^ nat (n - 1))" using less by (simp only: of_nat_less_iff)
  then have "n \<le> 2 ^ nat (n - 1)" using n1 by simp
  also have "\<dots> \<le> first_delay p * 2 ^ nat (n - 1)" using first_pos [OF p] by simp
  finally show ?thesis using p n n1 by (simp add: exact)
qed

end

section \<open>The doubling loop\<close>

text \<open>
  \<open>for i := 1; i < attempt; i++ { delay *= 2; if delay >= maximum { return maximum } }\<close>, run
  for \<open>n\<close> iterations: \<open>None\<close> is the early return, \<open>Some\<close> the value after the loop.
\<close>

fun backoff_loop :: "int \<Rightarrow> nat \<Rightarrow> int \<Rightarrow> int option" where
  "backoff_loop maximum 0 delay = Some delay"
| "backoff_loop maximum (Suc n) delay =
     (let delay' = wrap64 (delay * 2)
      in if delay' \<ge> maximum then None else backoff_loop maximum n delay')"

text \<open>The doubling cannot overflow while both ends stay below a quarter of the 64-bit range.\<close>

definition small_delay :: "int \<Rightarrow> int \<Rightarrow> bool" where
  "small_delay initial maximum \<longleftrightarrow> initial < 2 ^ 62 \<and> maximum \<le> 2 ^ 62"

lemma wrap64_double: "0 < d \<Longrightarrow> d < 2 ^ 62 \<Longrightarrow> wrap64 (d * 2) = d * 2"
  by (rule wrap64_id) (simp add: int64_def)

lemma backoff_loop_exact:
  assumes "0 < delay" and "delay < 2 ^ 62" and "maximum \<le> 2 ^ 62"
  shows "(case backoff_loop maximum n delay of
            None \<Rightarrow> maximum
          | Some d \<Rightarrow> if d > maximum then maximum else d) = min maximum (delay * 2 ^ n)"
  using assms
proof (induction n arbitrary: delay)
  case 0
  then show ?case by simp
next
  case (Suc n)
  have w: "wrap64 (delay * 2) = delay * 2" using Suc.prems by (intro wrap64_double) auto
  show ?case
  proof (cases "delay * 2 \<ge> maximum")
    case True
    have "delay * 2 * 1 \<le> delay * 2 * 2 ^ n" using Suc.prems by (intro mult_left_mono) auto
    with True w show ?thesis by simp
  next
    case False
    with Suc.IH [of "delay * 2"] Suc.prems w show ?thesis by (simp add: mult.assoc)
  qed
qed

lemma backoff_loop_pos:
  assumes "0 < delay" and "delay < 2 ^ 62" and "maximum \<le> 2 ^ 62"
    and "backoff_loop maximum n delay = Some d"
  shows "0 < d"
  using assms
proof (induction n arbitrary: delay)
  case 0
  then show ?case by simp
next
  case (Suc n)
  have w: "wrap64 (delay * 2) = delay * 2" using Suc.prems by (intro wrap64_double) auto
  show ?case using Suc.IH [of "delay * 2"] Suc.prems w by (auto simp: Let_def split: if_splits)
qed

section \<open>The four policies\<close>

record ExponentialRetryPolicy =
  retry_Initial :: int
  retry_Max :: int

definition retry_initial :: "ExponentialRetryPolicy \<Rightarrow> int" where
  "retry_initial p = (if retry_Initial p \<le> 0 then Second else retry_Initial p)"

definition retry_maximum :: "ExponentialRetryPolicy \<Rightarrow> int" where
  "retry_maximum p = (if retry_Max p \<le> 0 then 30 * Second else retry_Max p)"

definition ExponentialRetryPolicy_NextDelay :: "ExponentialRetryPolicy \<Rightarrow> int \<Rightarrow> int" where
  "ExponentialRetryPolicy_NextDelay p attempt =
     (let initial = retry_initial p; maximum = retry_maximum p
      in case backoff_loop maximum (nat (attempt - 1)) initial of
           None \<Rightarrow> maximum
         | Some delay \<Rightarrow> if delay > maximum then maximum else delay)"

record ExponentialBackoffScheduler =
  sched_Initial :: int
  sched_Max :: int

definition defaultRefreshInitialBackoff :: int where
  "defaultRefreshInitialBackoff = 500 * Millisecond"

definition defaultRefreshMaxBackoff :: int where
  "defaultRefreshMaxBackoff = 10 * Second"

definition sched_initial :: "ExponentialBackoffScheduler \<Rightarrow> int" where
  "sched_initial s = (if sched_Initial s \<le> 0 then defaultRefreshInitialBackoff else sched_Initial s)"

definition sched_maximum :: "ExponentialBackoffScheduler \<Rightarrow> int" where
  "sched_maximum s = (if sched_Max s \<le> 0 then defaultRefreshMaxBackoff else sched_Max s)"

definition ExponentialBackoffScheduler_NextDelay :: "ExponentialBackoffScheduler \<Rightarrow> int \<Rightarrow> int" where
  "ExponentialBackoffScheduler_NextDelay s attempt =
     (let attempt = (if attempt < 1 then 1 else attempt);
          initial = sched_initial s; maximum = sched_maximum s
      in case backoff_loop maximum (nat (attempt - 1)) initial of
           None \<Rightarrow> maximum
         | Some delay \<Rightarrow> if delay > maximum then maximum else delay)"

text \<open>The backoff fields of \<open>ratelimit.AdaptivePolicy\<close>.\<close>

record AdaptiveBackoff =
  InitialBackoff :: int
  MaxBackoff :: int
  DefaultRetryHint :: int

definition defaultRetryHint :: "AdaptiveBackoff \<Rightarrow> int" where
  "defaultRetryHint p = (if DefaultRetryHint p > 0 then DefaultRetryHint p else 5 * Second)"

definition adaptive_initial :: "AdaptiveBackoff \<Rightarrow> int" where
  "adaptive_initial p = (if InitialBackoff p \<le> 0 then Second else InitialBackoff p)"

definition adaptive_maximum :: "AdaptiveBackoff \<Rightarrow> int" where
  "adaptive_maximum p = (if MaxBackoff p \<le> 0 then Minute else MaxBackoff p)"

definition nextBackoff :: "AdaptiveBackoff \<Rightarrow> int \<Rightarrow> int" where
  "nextBackoff p attempt =
     (let initial = adaptive_initial p; maximum = adaptive_maximum p
      in if attempt \<le> 0 then initial
         else case backoff_loop maximum (nat (attempt - 1)) initial of
                None \<Rightarrow> maximum
              | Some delay \<Rightarrow>
                  if delay \<le> 0 then defaultRetryHint p
                  else if delay > maximum then maximum else delay)"

text \<open>
  The outbox dispatcher computes in \<open>float64\<close>. \<open>float64(x)\<close> rounds to 53 significant bits, half
  to even; multiplying by a power of two is exact; converting back truncates when the value fits
  and is implementation-dependent (the argument \<open>oob\<close>) when it does not.
\<close>

definition f64_of_int :: "int \<Rightarrow> int" where
  "f64_of_int x =
     (if \<bar>x\<bar> \<le> 2 ^ 53 then x
      else (let e = floorlog 2 (nat \<bar>x\<bar>) - 53; q = \<bar>x\<bar> div 2 ^ e; r = \<bar>x\<bar> mod 2 ^ e;
                q' = (if 2 * r > 2 ^ e \<or> (2 * r = 2 ^ e \<and> odd q) then q + 1 else q)
            in sgn x * q' * 2 ^ e))"

definition duration_of_f64 :: "int \<Rightarrow> int \<Rightarrow> int" where
  "duration_of_f64 oob v = (if int64 v then v else oob)"

record OutboxDispatcherConfig =
  cfg_BatchSize :: int
  cfg_MaxAttempts :: int
  cfg_InitialBackoff :: int
  cfg_MaxBackoff :: int

definition nextBackoffDelay :: "int \<Rightarrow> OutboxDispatcherConfig \<Rightarrow> int \<Rightarrow> int" where
  "nextBackoffDelay oob c attempt =
     (let attempt = (if attempt < 1 then 1 else attempt);
          base = f64_of_int (cfg_InitialBackoff c);
          multiplier = 2 ^ nat (attempt - 1);
          next = duration_of_f64 oob (base * multiplier)
      in if next < 0 then cfg_MaxBackoff c
         else if next > cfg_MaxBackoff c then cfg_MaxBackoff c
         else next)"

section \<open>The policies meet the contract\<close>

lemmas backoff_cfg_defs = retry_initial_def retry_maximum_def sched_initial_def sched_maximum_def
  adaptive_initial_def adaptive_maximum_def defaultRefreshInitialBackoff_def
  defaultRefreshMaxBackoff_def duration_defs

interpretation retry: exponential_backoff ExponentialRetryPolicy_NextDelay retry_initial retry_maximum
  "\<lambda>p. small_delay (retry_initial p) (retry_maximum p)"
proof unfold_locales
  show pos: "0 < retry_initial p" "0 < retry_maximum p" for p
    by (simp_all add: backoff_cfg_defs)
  show "ExponentialRetryPolicy_NextDelay p n = min (retry_maximum p) (retry_initial p * 2 ^ nat (n - 1))"
    if "small_delay (retry_initial p) (retry_maximum p)" for p n
    using backoff_loop_exact [of "retry_initial p" "retry_maximum p" "nat (n - 1)"] that pos [of p]
    by (simp add: ExponentialRetryPolicy_NextDelay_def small_delay_def Let_def)
qed

interpretation sched: exponential_backoff ExponentialBackoffScheduler_NextDelay sched_initial
  sched_maximum "\<lambda>p. small_delay (sched_initial p) (sched_maximum p)"
proof unfold_locales
  show pos: "0 < sched_initial p" "0 < sched_maximum p" for p
    by (simp_all add: backoff_cfg_defs)
  show "ExponentialBackoffScheduler_NextDelay p n =
      min (sched_maximum p) (sched_initial p * 2 ^ nat (n - 1))"
    if "small_delay (sched_initial p) (sched_maximum p)" and "1 \<le> n" for p n
    using backoff_loop_exact [of "sched_initial p" "sched_maximum p" "nat (n - 1)"] that pos [of p]
    by (simp add: ExponentialBackoffScheduler_NextDelay_def small_delay_def Let_def)
qed

interpretation adaptive: exponential_backoff nextBackoff adaptive_initial adaptive_maximum
  "\<lambda>p. small_delay (adaptive_initial p) (adaptive_maximum p)"
proof unfold_locales
  show pos: "0 < adaptive_initial p" "0 < adaptive_maximum p" for p
    by (simp_all add: backoff_cfg_defs)
  show "nextBackoff p n = min (adaptive_maximum p) (adaptive_initial p * 2 ^ nat (n - 1))"
    if "small_delay (adaptive_initial p) (adaptive_maximum p)" and "1 \<le> n" for p n
    using backoff_loop_exact [of "adaptive_initial p" "adaptive_maximum p" "nat (n - 1)"]
      backoff_loop_pos [of "adaptive_initial p" "adaptive_maximum p" "nat (n - 1)"] that pos [of p]
    by (auto simp: nextBackoff_def small_delay_def Let_def split: option.splits)
qed

text \<open>
  For the float computation the contract holds on every platform whose out-of-range conversion
  yields one of the two ends of the \<open>int64\<close> range, for delays a \<open>float64\<close> holds exactly.
\<close>

definition outbox_backoff_ok :: "int \<times> OutboxDispatcherConfig \<Rightarrow> bool" where
  "outbox_backoff_ok = (\<lambda>(oob, c). oob \<in> {- (2 ^ 63), 2 ^ 63 - 1} \<and>
     0 < cfg_InitialBackoff c \<and> cfg_InitialBackoff c \<le> 2 ^ 53 \<and>
     0 < cfg_MaxBackoff c \<and> cfg_MaxBackoff c < 2 ^ 63)"

lemma duration_clip:
  assumes "oob \<in> {- (2 ^ 63), 2 ^ 63 - 1}" and "0 < v" and "0 < M" and "M < 2 ^ 63"
  shows "(if duration_of_f64 oob v < 0 then M
          else if duration_of_f64 oob v > M then M else duration_of_f64 oob v) = min M v"
  using assms by (auto simp: duration_of_f64_def int64_def)

interpretation outbox: exponential_backoff "\<lambda>(oob, c). nextBackoffDelay oob c"
  "\<lambda>(oob, c). cfg_InitialBackoff c" "\<lambda>(oob, c). cfg_MaxBackoff c" outbox_backoff_ok
proof unfold_locales
  fix p :: "int \<times> OutboxDispatcherConfig" and n :: int
  assume p: "outbox_backoff_ok p"
  obtain oob c where oc: "p = (oob, c)" by force
  show "0 < (case p of (oob, c) \<Rightarrow> cfg_InitialBackoff c)"
    and "0 < (case p of (oob, c) \<Rightarrow> cfg_MaxBackoff c)"
    using p oc by (auto simp: outbox_backoff_ok_def)
  assume n: "1 \<le> n"
  have f: "f64_of_int (cfg_InitialBackoff c) = cfg_InitialBackoff c"
    using p oc by (simp add: outbox_backoff_ok_def f64_of_int_def)
  have pos: "0 < cfg_InitialBackoff c * 2 ^ nat (n - 1)"
    using p oc by (simp add: outbox_backoff_ok_def)
  show "(case p of (oob, c) \<Rightarrow> nextBackoffDelay oob c) n =
     min (case p of (oob, c) \<Rightarrow> cfg_MaxBackoff c)
       ((case p of (oob, c) \<Rightarrow> cfg_InitialBackoff c) * 2 ^ nat (n - 1))"
    using p oc n duration_clip [of oob, OF _ pos, of "cfg_MaxBackoff c"]
    by (simp add: nextBackoffDelay_def f outbox_backoff_ok_def Let_def)
qed

section \<open>Properties\<close>

text \<open>
  the three loop-based backoff policies compute exactly \<open>initial * 2 ^ (attempt - 1)\<close> capped
  at the maximum, for every attempt number from one on, as long as the configured delays are below
  \<open>2 ^ 62\<close> nanoseconds (about 146 years), so that no doubling overflows \<open>int64\<close>.
\<close>

theorem backoff_policies_exact:
  assumes "1 \<le> n"
    and "small_delay (retry_initial p) (retry_maximum p)"
    and "small_delay (sched_initial q) (sched_maximum q)"
    and "small_delay (adaptive_initial a) (adaptive_maximum a)"
  shows "ExponentialRetryPolicy_NextDelay p n = min (retry_maximum p) (retry_initial p * 2 ^ nat (n - 1)) \<and>
    ExponentialBackoffScheduler_NextDelay q n = min (sched_maximum q) (sched_initial q * 2 ^ nat (n - 1)) \<and>
    nextBackoff a n = min (adaptive_maximum a) (adaptive_initial a * 2 ^ nat (n - 1))"
  using assms retry.exact sched.exact adaptive.exact by simp

theorem backoff_policies_exact_witness:
  "ExponentialRetryPolicy_NextDelay \<lparr>retry_Initial = 0, retry_Max = 0\<rparr> 4 = min (30 * Second) (Second * 8) \<and>
   ExponentialBackoffScheduler_NextDelay \<lparr>sched_Initial = 0, sched_Max = 0\<rparr> 4 =
     min (10 * Second) (500 * Millisecond * 8) \<and>
   nextBackoff \<lparr>InitialBackoff = Second, MaxBackoff = Minute, DefaultRetryHint = 5 * Second\<rparr> 4 =
     min Minute (Second * 8)"
  using backoff_policies_exact [of 4 "\<lparr>retry_Initial = 0, retry_Max = 0\<rparr>"
      "\<lparr>sched_Initial = 0, sched_Max = 0\<rparr>"
      "\<lparr>InitialBackoff = Second, MaxBackoff = Minute, DefaultRetryHint = 5 * Second\<rparr>"]
  by (simp add: backoff_cfg_defs small_delay_def)

text \<open>
  the outbox backoff is bounded on every platform. Whatever an out-of-range float conversion
  yields, for any attempt number and any configuration with a non-negative maximum, the delay lies
  between zero and the configured maximum; and where the conversion yields an end of the \<open>int64\<close>
  range (amd64, arm64) and the initial delay is exact in \<open>float64\<close>, later attempts never wait less
  than earlier ones.
\<close>

theorem outbox_backoff_bounded_monotone:
  assumes "0 \<le> cfg_MaxBackoff c"
  shows "0 \<le> nextBackoffDelay oob c n \<and> nextBackoffDelay oob c n \<le> cfg_MaxBackoff c \<and>
    (outbox_backoff_ok (oob, c) \<longrightarrow> 1 \<le> m \<longrightarrow> m \<le> n \<longrightarrow>
       nextBackoffDelay oob c m \<le> nextBackoffDelay oob c n)"
  using assms outbox.delay_mono [of "(oob, c)" m n]
  by (simp add: nextBackoffDelay_def Let_def)

theorem outbox_backoff_bounded_monotone_witness:
  "outbox_backoff_ok (- (2 ^ 63), \<lparr>cfg_BatchSize = 50, cfg_MaxAttempts = 5,
       cfg_InitialBackoff = 2 * Second, cfg_MaxBackoff = 5 * Minute\<rparr>) \<and>
   nextBackoffDelay (- (2 ^ 63)) \<lparr>cfg_BatchSize = 50, cfg_MaxAttempts = 5,
       cfg_InitialBackoff = 2 * Second, cfg_MaxBackoff = 5 * Minute\<rparr> 3 \<le>
   nextBackoffDelay (- (2 ^ 63)) \<lparr>cfg_BatchSize = 50, cfg_MaxAttempts = 5,
       cfg_InitialBackoff = 2 * Second, cfg_MaxBackoff = 5 * Minute\<rparr> 100"
  using outbox_backoff_bounded_monotone [of "\<lparr>cfg_BatchSize = 50, cfg_MaxAttempts = 5,
       cfg_InitialBackoff = 2 * Second, cfg_MaxBackoff = 5 * Minute\<rparr>" "- (2 ^ 63)" 100 3]
  by (simp add: outbox_backoff_ok_def duration_defs)

end
