(* ===== verification/Eviction.thy ===== *)
theory Eviction
  imports Go_Prelude
begin

text \<open>
  The scan for the entry to evict, shared by \<open>core.MemoryReplayLedger\<close> and
  \<open>core.MemoryOAuthStateStore\<close>: a loop over the map that keeps the first key whose instant is
  strictly before the best one so far, the empty key standing for ``none yet''.
\<close>

definition oldest_step :: "('v \<Rightarrow> int) \<Rightarrow> string \<times> 'v \<Rightarrow> string \<times> int \<Rightarrow> string \<times> int" where
  "oldest_step at = (\<lambda>(key, v) (oldestKey, oldestAt).
     if oldestKey = [] \<or> at v < oldestAt then (key, at v) else (oldestKey, oldestAt))"

definition oldest_scan :: "('v \<Rightarrow> int) \<Rightarrow> (string, 'v) gomap \<Rightarrow> string \<times> int" where
  "oldest_scan at m = fold (oldest_step at) m ([], 0)"

text \<open>No entry under the empty key: the methods reject it before they store anything.\<close>

definition keys_nonempty :: "(string, 'v) gomap \<Rightarrow> bool" where
  "keys_nonempty m \<longleftrightarrow> [] \<notin> fst ` set m"

lemma keys_nonempty_simps [simp]:
  "keys_nonempty []"
  "keys_nonempty ((k, v) # m) \<longleftrightarrow> k \<noteq> [] \<and> keys_nonempty m"
  by (auto simp: keys_nonempty_def)

lemma keys_nonempty_filter [simp]: "keys_nonempty m \<Longrightarrow> keys_nonempty (filter p m)"
  by (auto simp: keys_nonempty_def)

lemma keys_nonempty_delete_where [simp]: "keys_nonempty m \<Longrightarrow> keys_nonempty (delete_where p m)"
  by (simp add: delete_where_def)

lemma keys_nonempty_delete [simp]: "keys_nonempty m \<Longrightarrow> keys_nonempty (AList.delete k m)"
  by (simp add: AList.delete_eq)

lemma keys_nonempty_update [simp]:
  "keys_nonempty (AList.update k v m) \<longleftrightarrow> k \<noteq> [] \<and> keys_nonempty m"
proof -
  have "fst ` set (AList.update k v m) = insert k (fst ` set m)"
    by (simp add: AList.dom_update)
  then show ?thesis by (auto simp: keys_nonempty_def)
qed

lemma oldest_fold:
  assumes "k0 \<noteq> []" and "keys_nonempty m" and "fold (oldest_step at) m (k0, a0) = (k, a)"
  shows "k \<noteq> [] \<and> a \<le> a0 \<and> (\<forall>(k', v) \<in> set m. a \<le> at v) \<and>
    ((k, a) = (k0, a0) \<or> (\<exists>v. (k, v) \<in> set m \<and> at v = a))"
  using assms
proof (induction m arbitrary: k0 a0)
  case Nil
  then show ?case by simp
next
  case (Cons kv m)
  obtain k1 v1 where kv: "kv = (k1, v1)" by force
  show ?case
  proof (cases "at v1 < a0")
    case True
    then show ?thesis
      using Cons.IH [of k1 "at v1"] Cons.prems kv by (auto simp: oldest_step_def)
  next
    case False
    then show ?thesis
      using Cons.IH [of k0 a0] Cons.prems kv by (auto simp: oldest_step_def)
  qed
qed

lemma oldest_scan_min:
  assumes "m \<noteq> []" and "keys_nonempty m" and "oldest_scan at m = (k, a)"
  shows "k \<noteq> [] \<and> (\<exists>v. (k, v) \<in> set m \<and> at v = a) \<and> (\<forall>(k', v) \<in> set m. a \<le> at v)"
proof -
  obtain k1 v1 m' where m: "m = (k1, v1) # m'" using assms(1) by (cases m) auto
  then show ?thesis
    using assms oldest_fold [of k1 m' at "at v1" k a]
    by (auto simp: oldest_scan_def oldest_step_def)
qed

lemma oldest_scan_key_in:
  assumes "fst (oldest_scan at m) \<noteq> []"
  shows "fst (oldest_scan at m) \<in> fst ` set m"
proof -
  have "fst (fold (oldest_step at) m (k0, a0)) \<in> insert k0 (fst ` set m)" for k0 a0
    by (induction m arbitrary: k0 a0) (auto simp: oldest_step_def split: prod.splits if_splits)
  from this [of "[]" 0] assms show ?thesis by (auto simp: oldest_scan_def)
qed

end
