(* ===== verification/Replay_Ledger.thy ===== *)
theory Replay_Ledger
  imports Eviction
begin

text \<open>
  \<open>src/core/replay_ledger.go\<close>: the in-memory ledger that rejects replayed keys. Each method holds
  the mutex for its whole critical section, so it is one atomic step on the record; \<open>now\<close> is the
  clock reading of the call and \<open>None\<close> a nil receiver.
\<close>

definition defaultReplayLedgerTTL :: int where
  "defaultReplayLedgerTTL = 5 * Minute"

definition defaultReplayLedgerMaxEntries :: int where
  "defaultReplayLedgerMaxEntries = 8192"

record MemoryReplayLedger =
  rl_defaultTTL :: int
  rl_maxEntries :: int
  rl_entries :: "(string, int) gomap"

definition NewMemoryReplayLedgerWithLimits :: "int \<Rightarrow> int \<Rightarrow> MemoryReplayLedger" where
  "NewMemoryReplayLedgerWithLimits defaultTTL maxEntries =
     \<lparr>rl_defaultTTL = (if defaultTTL \<le> 0 then defaultReplayLedgerTTL else defaultTTL),
      rl_maxEntries = (if maxEntries \<le> 0 then defaultReplayLedgerMaxEntries else maxEntries),
      rl_entries = []\<rparr>"

definition NewMemoryReplayLedger :: "int \<Rightarrow> MemoryReplayLedger" where
  "NewMemoryReplayLedger defaultTTL =
     NewMemoryReplayLedgerWithLimits defaultTTL defaultReplayLedgerMaxEntries"

definition rl_pruneExpiredLocked :: "int \<Rightarrow> (string, int) gomap \<Rightarrow> (string, int) gomap" where
  "rl_pruneExpiredLocked now entries = delete_where (\<lambda>key expiresAt. \<not> now < expiresAt) entries"

definition rl_evictOldestLocked :: "(string, int) gomap \<Rightarrow> (string, int) gomap" where
  "rl_evictOldestLocked entries =
     (let oldestKey = fst (oldest_scan (\<lambda>expiry. expiry) entries)
      in if oldestKey \<noteq> [] then AList.delete oldestKey entries
         else case entries of [] \<Rightarrow> [] | (key, _) # _ \<Rightarrow> AList.delete key entries)"

lemma rl_evict_shorter: "entries \<noteq> [] \<Longrightarrow> length (rl_evictOldestLocked entries) < length entries"
  using oldest_scan_key_in [of "\<lambda>expiry. expiry" entries]
    length_delete_less [of "fst (hd entries)" entries]
  by (cases entries) (auto simp: rl_evictOldestLocked_def Let_def length_delete_less)

text \<open>\<open>for len(l.entries) > target { l.evictOldestLocked(now) }\<close>\<close>

function rl_evict_loop :: "int \<Rightarrow> (string, int) gomap \<Rightarrow> (string, int) gomap" where
  "rl_evict_loop target entries =
     (if entries \<noteq> [] \<and> int (length entries) > target
      then rl_evict_loop target (rl_evictOldestLocked entries) else entries)"
  by pat_completeness auto
termination
  by (relation "measure (\<lambda>(target, entries). length entries)") (simp_all add: rl_evict_shorter)

declare rl_evict_loop.simps [simp del]

definition rl_enforceCapacityLocked :: "int \<Rightarrow> int \<Rightarrow> (string, int) gomap \<Rightarrow> (string, int) gomap" where
  "rl_enforceCapacityLocked maxEntries incoming entries =
     (if maxEntries \<le> 0 then entries else rl_evict_loop (max (maxEntries - incoming) 0) entries)"

definition MemoryReplayLedger_Claim ::
  "MemoryReplayLedger option \<Rightarrow> string \<Rightarrow> int \<Rightarrow> int \<Rightarrow> (bool \<times> MemoryReplayLedger) result" where
  "MemoryReplayLedger_Claim receiver key ttl now =
     (case receiver of
        None \<Rightarrow> Inl (Plain ''core: replay ledger is not configured'')
      | Some l \<Rightarrow>
          let key = TrimSpace key in
          if key = [] then Inl (Plain ''core: replay key is required'')
          else
            let ttl = (if ttl \<le> 0 then rl_defaultTTL l else ttl);
                entries = rl_pruneExpiredLocked now (rl_entries l);
                claim = (\<lambda>entries. Inr (True, l\<lparr>rl_entries :=
                   AList.update key (now + ttl) (rl_enforceCapacityLocked (rl_maxEntries l) 1 entries)\<rparr>))
            in (case map_of entries key of
                  Some expiresAt \<Rightarrow>
                    if now < expiresAt then Inr (False, l\<lparr>rl_entries := entries\<rparr>)
                    else claim (AList.delete key entries)
                | None \<Rightarrow> claim entries))"

definition MemoryReplayLedger_PurgeExpired ::
  "MemoryReplayLedger option \<Rightarrow> int \<Rightarrow> (int \<times> MemoryReplayLedger) result" where
  "MemoryReplayLedger_PurgeExpired receiver now =
     (case receiver of
        None \<Rightarrow> Inl (Plain ''core: replay ledger is not configured'')
      | Some l \<Rightarrow>
          let kept = delete_where (\<lambda>key expiresAt. \<not> now < expiresAt) (rl_entries l)
          in Inr (int (length (rl_entries l)) - int (length kept), l\<lparr>rl_entries := kept\<rparr>))"

section \<open>The capacity loop\<close>

lemma rl_evict_is_delete: "\<exists>k. rl_evictOldestLocked entries = AList.delete k entries"
  unfolding rl_evictOldestLocked_def Let_def by (auto split: list.split simp del: AList.delete_simps)

lemma rl_evict_props:
  assumes "gomap_ok entries" and "keys_nonempty entries"
  shows "gomap_ok (rl_evictOldestLocked entries) \<and> keys_nonempty (rl_evictOldestLocked entries)"
  using assms rl_evict_is_delete [of entries] by auto

lemma rl_evict_loop_props:
  assumes "gomap_ok entries" and "keys_nonempty entries" and "0 \<le> target"
  shows "gomap_ok (rl_evict_loop target entries) \<and> keys_nonempty (rl_evict_loop target entries) \<and>
    int (length (rl_evict_loop target entries)) \<le> target \<and>
    (int (length entries) \<le> target \<longrightarrow> rl_evict_loop target entries = entries)"
  using assms
proof (induction target entries rule: rl_evict_loop.induct)
  case (1 target entries)
  show ?case
  proof (cases "entries \<noteq> [] \<and> int (length entries) > target")
    case True
    then show ?thesis
      using 1 rl_evict_props [of entries] by (simp add: rl_evict_loop.simps [of target entries])
  next
    case False
    with 1 show ?thesis by (auto simp: rl_evict_loop.simps [of target entries])
  qed
qed

section \<open>The invariant\<close>

definition ledger_inv :: "MemoryReplayLedger \<Rightarrow> bool" where
  "ledger_inv l \<longleftrightarrow> 0 < rl_maxEntries l \<and> 0 < rl_defaultTTL l \<and> gomap_ok (rl_entries l) \<and>
     keys_nonempty (rl_entries l) \<and> int (length (rl_entries l)) \<le> rl_maxEntries l"

lemma ledger_inv_new: "ledger_inv (NewMemoryReplayLedgerWithLimits ttl n)"
  by (simp add: ledger_inv_def NewMemoryReplayLedgerWithLimits_def defaultReplayLedgerTTL_def
      defaultReplayLedgerMaxEntries_def duration_defs)

text \<open>What pruning leaves: exactly the entries that have not expired.\<close>

lemma map_of_prune:
  "gomap_ok m \<Longrightarrow> map_of (rl_pruneExpiredLocked now m) k =
     (case map_of m k of Some e \<Rightarrow> if now < e then Some e else None | None \<Rightarrow> None)"
  by (auto simp: rl_pruneExpiredLocked_def map_of_delete_where split: option.splits)

text \<open>
  One equation for a successful call: the key was absent or expired, the new entry is the only one
  added, and every other entry of the result was there before.
\<close>

lemma Claim_cases:
  assumes inv: "ledger_inv l" and key: "TrimSpace key \<noteq> []"
  obtains (rejected) e where "map_of (rl_entries l) (TrimSpace key) = Some e" "now < e"
      "MemoryReplayLedger_Claim (Some l) key ttl now =
         Inr (False, l\<lparr>rl_entries := rl_pruneExpiredLocked now (rl_entries l)\<rparr>)"
    | (claimed) "map_of (rl_pruneExpiredLocked now (rl_entries l)) (TrimSpace key) = None"
      "MemoryReplayLedger_Claim (Some l) key ttl now =
         Inr (True, l\<lparr>rl_entries := AList.update (TrimSpace key)
           (now + (if ttl \<le> 0 then rl_defaultTTL l else ttl))
           (rl_enforceCapacityLocked (rl_maxEntries l) 1 (rl_pruneExpiredLocked now (rl_entries l)))\<rparr>)"
proof (cases "map_of (rl_pruneExpiredLocked now (rl_entries l)) (TrimSpace key)")
  case None
  with key show ?thesis by (intro claimed) (auto simp: MemoryReplayLedger_Claim_def Let_def)
next
  case (Some e)
  with inv have "map_of (rl_entries l) (TrimSpace key) = Some e \<and> now < e"
    by (auto simp: ledger_inv_def map_of_prune split: option.splits if_splits)
  with Some key show ?thesis by (intro rejected [of e]) (auto simp: MemoryReplayLedger_Claim_def Let_def)
qed

lemma ledger_inv_Claim:
  assumes inv: "ledger_inv l" and ok: "MemoryReplayLedger_Claim (Some l) key ttl now = Inr (b, l')"
  shows "ledger_inv l' \<and> rl_maxEntries l' = rl_maxEntries l \<and> rl_defaultTTL l' = rl_defaultTTL l"
proof -
  have key: "TrimSpace key \<noteq> []"
    using ok by (auto simp: MemoryReplayLedger_Claim_def Let_def split: if_splits)
  let ?m = "rl_pruneExpiredLocked now (rl_entries l)"
  have m: "gomap_ok ?m" "keys_nonempty ?m" "int (length ?m) \<le> rl_maxEntries l"
    using inv length_delete_where [of "\<lambda>key expiresAt. \<not> now < expiresAt" "rl_entries l"]
    by (simp_all add: ledger_inv_def rl_pruneExpiredLocked_def)
  note loop = rl_evict_loop_props [OF m(1,2), of "max (rl_maxEntries l - 1) 0"]
  show ?thesis
    using inv key
  proof (cases rule: Claim_cases [of l key now ttl])
    case (rejected e)
    with ok inv m show ?thesis by (auto simp: ledger_inv_def)
  next
    case claimed
    with ok inv key loop show ?thesis
      by (auto simp: ledger_inv_def rl_enforceCapacityLocked_def length_update)
  qed
qed

section \<open>Runs\<close>

text \<open>A sequence of \<open>Claim\<close> calls (key, ttl, time); a call that errors changes nothing.\<close>

fun ledger_run :: "MemoryReplayLedger \<Rightarrow> (string \<times> int \<times> int) list \<Rightarrow> MemoryReplayLedger" where
  "ledger_run l [] = l"
| "ledger_run l ((key, ttl, now) # calls) =
     (case MemoryReplayLedger_Claim (Some l) key ttl now of
        Inr (_, l') \<Rightarrow> ledger_run l' calls
      | Inl _ \<Rightarrow> ledger_run l calls)"

lemma ledger_run_inv: "ledger_inv l \<Longrightarrow> ledger_inv (ledger_run l calls)"
proof (induction calls arbitrary: l)
  case Nil
  then show ?case by simp
next
  case (Cons c calls)
  obtain key ttl now where c: "c = (key, ttl, now)" by (cases c) auto
  show ?case
  proof (cases "MemoryReplayLedger_Claim (Some l) key ttl now")
    case (Inl err)
    with Cons c show ?thesis by simp
  next
    case (Inr bl)
    obtain b l' where bl: "bl = (b, l')" by force
    have "ledger_inv l'" using ledger_inv_Claim [OF Cons.prems Inr [unfolded bl]] by simp
    then show ?thesis using Cons.IH c Inr bl by simp
  qed
qed

text \<open>A live entry survives a call made before it expires, if the ledger is not full.\<close>

lemma Claim_keeps_live:
  assumes inv: "ledger_inv l" and room: "int (length (rl_entries l)) < rl_maxEntries l"
    and live: "map_of (rl_entries l) k = Some e" "now < e"
    and ok: "MemoryReplayLedger_Claim (Some l) key ttl now = Inr (b, l')"
  shows "map_of (rl_entries l') k = Some e \<and> length (rl_entries l') \<le> Suc (length (rl_entries l))"
proof -
  let ?m = "rl_pruneExpiredLocked now (rl_entries l)"
  have key: "TrimSpace key \<noteq> []"
    using ok by (auto simp: MemoryReplayLedger_Claim_def Let_def split: if_splits)
  have m: "gomap_ok ?m" "keys_nonempty ?m" "length ?m \<le> length (rl_entries l)" "map_of ?m k = Some e"
    using inv live length_delete_where [of "\<lambda>key expiresAt. \<not> now < expiresAt" "rl_entries l"]
    by (simp_all add: ledger_inv_def map_of_prune) (simp_all add: rl_pruneExpiredLocked_def)
  have cap: "rl_enforceCapacityLocked (rl_maxEntries l) 1 ?m = ?m"
    using rl_evict_loop_props [OF m(1,2), of "max (rl_maxEntries l - 1) 0"] m(3) room inv
    by (simp add: rl_enforceCapacityLocked_def ledger_inv_def)
  show ?thesis
    using inv key
  proof (cases rule: Claim_cases [of l key now ttl])
    case (rejected e')
    with ok m show ?thesis by auto
  next
    case claimed
    with ok m cap show ?thesis by (auto simp: length_update)
  qed
qed

lemma ledger_run_keeps_live:
  assumes "ledger_inv l" and "map_of (rl_entries l) k = Some e"
    and "\<forall>(key, ttl, now) \<in> set calls. now < e"
    and "int (length (rl_entries l)) + int (length calls) \<le> rl_maxEntries l"
  shows "map_of (rl_entries (ledger_run l calls)) k = Some e"
  using assms
proof (induction calls arbitrary: l)
  case Nil
  then show ?case by simp
next
  case (Cons c calls)
  obtain key ttl now where c: "c = (key, ttl, now)" by (cases c) auto
  show ?case
  proof (cases "MemoryReplayLedger_Claim (Some l) key ttl now")
    case (Inl err)
    with Cons c show ?thesis by simp
  next
    case (Inr bl)
    obtain b l' where bl: "bl = (b, l')" by force
    note inv = ledger_inv_Claim [OF Cons.prems(1) Inr [unfolded bl]]
    have "map_of (rl_entries l') k = Some e \<and> length (rl_entries l') \<le> Suc (length (rl_entries l))"
      using Claim_keeps_live [OF Cons.prems(1) _ Cons.prems(2) _ Inr [unfolded bl]] Cons.prems(3,4) c
      by auto
    then have "map_of (rl_entries (ledger_run l' calls)) k = Some e"
      using inv Cons.prems(3,4) c by (intro Cons.IH) auto
    then show ?thesis using c Inr bl by simp
  qed
qed

section \<open>Properties\<close>

text \<open>
  the replay ledger never exceeds its capacity. Starting from a new ledger with any
  configuration, after any sequence of claims at any times the map holds at most \<open>maxEntries\<close>
  entries, under distinct non-empty keys.
\<close>

theorem replay_ledger_capacity:
  "let l = ledger_run (NewMemoryReplayLedgerWithLimits ttl maxEntries) calls
   in int (length (rl_entries l)) \<le> rl_maxEntries l \<and> distinct (map fst (rl_entries l)) \<and>
      keys_nonempty (rl_entries l)"
  using ledger_run_inv [OF ledger_inv_new, of ttl maxEntries calls]
  by (simp add: ledger_inv_def Let_def)

text \<open>
  replay protection. Once a key is claimed at time \<open>t\<close>, a second claim of the same key (up to
  surrounding space) before \<open>t + ttl\<close> is refused, whatever claims other callers make in between,
  provided those calls also happen before \<open>t + ttl\<close> and the ledger has room for one entry per call.
\<close>

theorem replay_rejected_until_expiry:
  assumes "ledger_inv l" and "0 < ttl"
    and claimed: "MemoryReplayLedger_Claim (Some l) key ttl t = Inr (True, l1)"
    and others: "\<forall>(key', ttl', now') \<in> set calls. now' < t + ttl"
    and room: "int (length (rl_entries l1)) + int (length calls) \<le> rl_maxEntries l1"
    and again: "now < t + ttl" and same: "TrimSpace key2 = TrimSpace key"
  shows "\<exists>l2. MemoryReplayLedger_Claim (Some (ledger_run l1 calls)) key2 ttl2 now = Inr (False, l2)"
proof -
  have key: "TrimSpace key \<noteq> []"
    using claimed by (auto simp: MemoryReplayLedger_Claim_def Let_def split: if_splits)
  have inv1: "ledger_inv l1" using ledger_inv_Claim [OF assms(1) claimed] by simp
  have "map_of (rl_entries l1) (TrimSpace key) = Some (t + ttl)"
    using assms(1) key
  proof (cases rule: Claim_cases [of l key t ttl])
    case (rejected e)
    with claimed show ?thesis by simp
  next
    case claimed
    with assms(2,3) show ?thesis by auto
  qed
  then have live: "map_of (rl_entries (ledger_run l1 calls)) (TrimSpace key) = Some (t + ttl)"
    by (rule ledger_run_keeps_live [OF inv1 _ others room])
  have inv2: "ledger_inv (ledger_run l1 calls)" by (rule ledger_run_inv [OF inv1])
  have key2: "TrimSpace key2 \<noteq> []" using key same by simp
  show ?thesis
    using inv2 key2
  proof (cases rule: Claim_cases [of _ key2 now ttl2])
    case (rejected e)
    then show ?thesis by blast
  next
    case claimed
    with live inv2 same again show ?thesis by (simp add: map_of_prune ledger_inv_def)
  qed
qed

theorem replay_rejected_until_expiry_witness:
  "\<exists>l1 l2. MemoryReplayLedger_Claim (Some (NewMemoryReplayLedgerWithLimits 0 10)) ''nonce'' 100 1000 =
       Inr (True, l1) \<and>
     MemoryReplayLedger_Claim (Some (ledger_run l1 [(''other'', 50, 1010)])) '' nonce '' 100 1099 =
       Inr (False, l2)"
proof -
  let ?l = "NewMemoryReplayLedgerWithLimits 0 10"
  let ?l1 = "?l\<lparr>rl_entries := [(''nonce'', 1100)]\<rparr>"
  have c: "MemoryReplayLedger_Claim (Some ?l) ''nonce'' 100 1000 = Inr (True, ?l1)"
    by (simp add: MemoryReplayLedger_Claim_def NewMemoryReplayLedgerWithLimits_def TrimSpace_def
        is_space_def rl_pruneExpiredLocked_def delete_where_def rl_enforceCapacityLocked_def
        rl_evict_loop.simps)
  have "\<exists>l2. MemoryReplayLedger_Claim (Some (ledger_run ?l1 [(''other'', 50, 1010)])) '' nonce '' 100 1099 =
     Inr (False, l2)"
    by (rule replay_rejected_until_expiry [OF ledger_inv_new _ c])
      (simp_all add: NewMemoryReplayLedgerWithLimits_def TrimSpace_def is_space_def)
  with c show ?thesis by blast
qed

text \<open>
  eviction removes an entry that expires first. When the map is not empty the evicted key is
  one of its keys, no remaining entry expires earlier, and every other entry stays.
\<close>

theorem replay_eviction_oldest:
  assumes "gomap_ok entries" and "keys_nonempty entries" and "entries \<noteq> []"
  shows "\<exists>k e. map_of entries k = Some e \<and>
    map_of (rl_evictOldestLocked entries) = (map_of entries)(k := None) \<and>
    (\<forall>k' e'. map_of entries k' = Some e' \<longrightarrow> e \<le> e')"
proof -
  obtain k a where ka: "oldest_scan (\<lambda>expiry. expiry) entries = (k, a)" by force
  have min: "k \<noteq> [] \<and> (\<exists>v. (k, v) \<in> set entries \<and> v = a) \<and> (\<forall>(k', v) \<in> set entries. a \<le> v)"
    by (rule oldest_scan_min [OF assms(3,2) ka])
  have "rl_evictOldestLocked entries = AList.delete k entries"
    using ka min by (simp add: rl_evictOldestLocked_def)
  moreover have "map_of entries k = Some a" using min assms(1) by auto
  moreover have "\<forall>k' e'. map_of entries k' = Some e' \<longrightarrow> a \<le> e'"
    using min by (auto dest: map_of_SomeD)
  ultimately show ?thesis by (intro exI [of _ k] exI [of _ a]) simp
qed

theorem replay_eviction_oldest_witness:
  "\<exists>k e. map_of [(''a'', 30), (''b'', 10), (''c'', 20 :: int)] k = Some e \<and>
    map_of (rl_evictOldestLocked [(''a'', 30), (''b'', 10), (''c'', 20)]) =
      (map_of [(''a'', 30), (''b'', 10), (''c'', 20)])(k := None) \<and>
    (\<forall>k' e'. map_of [(''a'', 30), (''b'', 10), (''c'', 20)] k' = Some e' \<longrightarrow> e \<le> e')"
  by (rule replay_eviction_oldest) simp_all

end
