(* ===== verification/Domain.thy ===== *)
theory Domain
  imports Go_Prelude
begin

text \<open>
  \<open>src/core/domain.go\<close>: the entities of the runtime and their status machines. A Go string enum
  is a datatype with the constants of the source and one constructor for any other string; each
  \<open>TransitionTo\<close> method takes the receiver (\<open>None\<close> for a nil pointer) and returns the receiver
  after the call, or the error. The locale \<open>status_machine\<close> states what the five methods have in
  common and derives what holds after any sequence of attempted transitions.
\<close>

section \<open>Scopes\<close>

record ScopeRef =
  scope_Type :: string
  scope_ID :: string

fun sentinel_msg :: "sentinel \<Rightarrow> string" where
  "sentinel_msg ErrInvalidScopeType = ''core: invalid scope type''"
| "sentinel_msg ErrInvalidConnectionStatusTransition = ''core: invalid connection status transition''"
| "sentinel_msg ErrInvalidCredentialStatusTransition = ''core: invalid credential status transition''"
| "sentinel_msg ErrInvalidInstallationStatusTransition = ''core: invalid installation status transition''"
| "sentinel_msg ErrInvalidSubscriptionStatusTransition = ''core: invalid subscription status transition''"
| "sentinel_msg ErrInvalidSyncJobStatusTransition = ''core: invalid sync job status transition''"
| "sentinel_msg ErrInvalidSyncJobMode = ''core: invalid sync job mode''"
| "sentinel_msg ErrInvalidSyncJobScope = ''core: invalid sync job scope''"
| "sentinel_msg ErrSyncJobNotFound = ''core: sync job not found''"
| "sentinel_msg ErrSyncCursorConflict = ''core: sync cursor advance conflict''"
| "sentinel_msg ErrEmbeddedAuthUnsupported = ''core: embedded auth not supported''"
| "sentinel_msg ErrStateNotFound = ''ratelimit: state not found''"
| "sentinel_msg errSyncJobIdempotencyReplay = ''sqlstore: sync job idempotency replay''"
| "sentinel_msg context_Canceled = ''context canceled''"
| "sentinel_msg context_DeadlineExceeded = ''context deadline exceeded''"

text \<open>\<open>fmt.Errorf("%w: ...", sentinel, ...)\<close>\<close>

definition errorf_w :: "sentinel \<Rightarrow> string \<Rightarrow> goerr" where
  "errorf_w s detail = Wrapped (sentinel_msg s @ '': '' @ detail) [Sentinel s]"

lemma errors_Is_errorf_w [simp]: "errors_Is (errorf_w s d) t \<longleftrightarrow> s = t"
  by (simp add: errorf_w_def)

text \<open>\<open>%q\<close> on printable ASCII: quotes and backslashes are escaped.\<close>

definition quote :: "string \<Rightarrow> string" where
  "quote s = [CHR 0x22] @ concat (map (\<lambda>c. if c = CHR 0x22 \<or> c = CHR 0x5C then [CHR 0x5C, c] else [c]) s)
             @ [CHR 0x22]"

definition ScopeRef_Validate :: "ScopeRef \<Rightarrow> goerr option" where
  "ScopeRef_Validate s =
     (let t = TrimSpace (ToLower (scope_Type s)) in
      if t \<noteq> ''user'' \<and> t \<noteq> ''org'' then Some (errorf_w ErrInvalidScopeType (quote (scope_Type s)))
      else if TrimSpace (scope_ID s) = [] then Some (errorf_w ErrInvalidScopeType ''empty id'')
      else None)"

section \<open>Status machines: what the five entities share\<close>

text \<open>
  Attempting a sequence of transitions: a rejected one leaves the record as it is. Each step
  carries its own arguments (reason and time).
\<close>

fun run_transitions ::
  "('r option \<Rightarrow> 's \<Rightarrow> 'a \<Rightarrow> ('r option) result) \<Rightarrow> 'r \<Rightarrow> ('s \<times> 'a) list \<Rightarrow> 'r" where
  "run_transitions transition r [] = r"
| "run_transitions transition r ((s, a) # steps) =
     (case transition (Some r) s a of
        Inr (Some r') \<Rightarrow> run_transitions transition r' steps
      | _ \<Rightarrow> run_transitions transition r steps)"

locale status_machine =
  fixes status :: "'r \<Rightarrow> 's"
    and allowed :: "'s \<Rightarrow> 's \<Rightarrow> bool"
    and transition :: "'r option \<Rightarrow> 's \<Rightarrow> 'a \<Rightarrow> ('r option) result"
  assumes transition_nil: "transition None s a = Inr None"
    and transition_ok: "status r = s \<or> allowed (status r) s \<Longrightarrow>
      \<exists>r'. transition (Some r) s a = Inr (Some r') \<and> status r' = s"
    and transition_rejected: "status r \<noteq> s \<Longrightarrow> \<not> allowed (status r) s \<Longrightarrow> \<exists>e. transition (Some r) s a = Inl e"
begin

lemma accepted_iff: "(\<exists>r'. transition (Some r) s a = Inr r') \<longleftrightarrow> status r = s \<or> allowed (status r) s"
  by (metis Inl_not_Inr transition_ok transition_rejected)

lemma accepted_status: "transition (Some r) s a = Inr r' \<Longrightarrow> \<exists>x. r' = Some x \<and> status x = s"
  using accepted_iff [of r s a] transition_ok [of r s a] by auto

lemma run_reaches: "allowed\<^sup>*\<^sup>* (status r) (status (run_transitions transition r steps))"
proof (induction steps arbitrary: r)
  case Nil
  show ?case by simp
next
  case (Cons step steps)
  obtain s a where step: "step = (s, a)" by force
  show ?case
  proof (cases "status r = s \<or> allowed (status r) s")
    case True
    then obtain r' where r': "transition (Some r) s a = Inr (Some r')" "status r' = s"
      using transition_ok by blast
    from True r' have "allowed\<^sup>*\<^sup>* (status r) (status r')" by auto
    also have "allowed\<^sup>*\<^sup>* (status r') (status (run_transitions transition r' steps))"
      by (rule Cons.IH)
    finally show ?thesis using step r' by simp
  next
    case False
    then obtain e where "transition (Some r) s a = Inl e" using transition_rejected by blast
    with Cons.IH [of r] step show ?thesis by simp
  qed
qed

lemma terminal_final:
  assumes "\<And>t. \<not> allowed (status r) t"
  shows "status (run_transitions transition r steps) = status r"
  using run_reaches [of r steps] assms by (auto elim: converse_rtranclpE)

end

section \<open>Connections\<close>

datatype ConnectionStatus =
    ConnectionStatusActive
  | ConnectionStatusDisconnected
  | ConnectionStatusErrored
  | ConnectionStatusPendingReauth
  | ConnectionStatusNeedsReconsent
  | ConnectionStatusOther string

fun connection_status_str :: "ConnectionStatus \<Rightarrow> string" where
  "connection_status_str ConnectionStatusActive = ''active''"
| "connection_status_str ConnectionStatusDisconnected = ''disconnected''"
| "connection_status_str ConnectionStatusErrored = ''errored''"
| "connection_status_str ConnectionStatusPendingReauth = ''pending_reauth''"
| "connection_status_str ConnectionStatusNeedsReconsent = ''needs_reconsent''"
| "connection_status_str (ConnectionStatusOther s) = s"

record Connection =
  conn_ID :: string
  conn_ProviderID :: string
  conn_ScopeType :: string
  conn_ScopeID :: string
  conn_ExternalAccountID :: string
  conn_Status :: ConnectionStatus
  conn_InheritsFrom :: string
  conn_LastError :: string
  conn_CreatedAt :: int
  conn_UpdatedAt :: int

fun connectionTransitionAllowed :: "ConnectionStatus \<Rightarrow> ConnectionStatus \<Rightarrow> bool" where
  "connectionTransitionAllowed ConnectionStatusActive next =
     (next \<in> {ConnectionStatusDisconnected, ConnectionStatusErrored,
              ConnectionStatusPendingReauth, ConnectionStatusNeedsReconsent})"
| "connectionTransitionAllowed ConnectionStatusDisconnected next =
     (next \<in> {ConnectionStatusActive})"
| "connectionTransitionAllowed ConnectionStatusErrored next =
     (next \<in> {ConnectionStatusActive, ConnectionStatusPendingReauth, ConnectionStatusDisconnected})"
| "connectionTransitionAllowed ConnectionStatusPendingReauth next =
     (next \<in> {ConnectionStatusActive, ConnectionStatusDisconnected})"
| "connectionTransitionAllowed ConnectionStatusNeedsReconsent next =
     (next \<in> {ConnectionStatusActive, ConnectionStatusDisconnected, ConnectionStatusPendingReauth})"
| "connectionTransitionAllowed (ConnectionStatusOther _) next = False"

fun Connection_TransitionTo ::
  "Connection option \<Rightarrow> ConnectionStatus \<Rightarrow> string \<times> int \<Rightarrow> (Connection option) result" where
  "Connection_TransitionTo None status (reason, now) = Inr None"
| "Connection_TransitionTo (Some c) status (reason, now) =
     (let with_reason = (\<lambda>c. if TrimSpace reason \<noteq> [] then c\<lparr>conn_LastError := TrimSpace reason\<rparr> else c)
      in if conn_Status c = status then Inr (Some (with_reason (c\<lparr>conn_UpdatedAt := now\<rparr>)))
         else if \<not> connectionTransitionAllowed (conn_Status c) status
         then Inl (errorf_w ErrInvalidConnectionStatusTransition
                (connection_status_str (conn_Status c) @ '' -> '' @ connection_status_str status))
         else (let c' = with_reason (c\<lparr>conn_Status := status, conn_UpdatedAt := now\<rparr>)
               in Inr (Some (if status = ConnectionStatusActive then c'\<lparr>conn_LastError := []\<rparr> else c'))))"

interpretation conn: status_machine conn_Status connectionTransitionAllowed Connection_TransitionTo
  by unfold_locales (auto simp: Let_def)

section \<open>Credentials\<close>

datatype CredentialStatus =
    CredentialStatusActive
  | CredentialStatusRevoked
  | CredentialStatusExpired
  | CredentialStatusOther string

fun credential_status_str :: "CredentialStatus \<Rightarrow> string" where
  "credential_status_str CredentialStatusActive = ''active''"
| "credential_status_str CredentialStatusRevoked = ''revoked''"
| "credential_status_str CredentialStatusExpired = ''expired''"
| "credential_status_str (CredentialStatusOther s) = s"

record Credential =
  cred_ID :: string
  cred_ConnectionID :: string
  cred_Version :: int
  cred_EncryptedPayload :: string
  cred_PayloadFormat :: string
  cred_PayloadVersion :: int
  cred_TokenType :: string
  cred_RequestedScopes :: "string list"
  cred_GrantedScopes :: "string list"
  cred_ExpiresAt :: int
  cred_Refreshable :: bool
  cred_RotatesAt :: int
  cred_Status :: CredentialStatus
  cred_CreatedAt :: int
  cred_UpdatedAt :: int

fun credentialTransitionAllowed :: "CredentialStatus \<Rightarrow> CredentialStatus \<Rightarrow> bool" where
  "credentialTransitionAllowed CredentialStatusActive next =
     (next \<in> {CredentialStatusRevoked, CredentialStatusExpired})"
| "credentialTransitionAllowed CredentialStatusExpired next =
     (next \<in> {CredentialStatusActive, CredentialStatusRevoked})"
| "credentialTransitionAllowed CredentialStatusRevoked next = False"
| "credentialTransitionAllowed (CredentialStatusOther _) next = False"

fun Credential_TransitionTo ::
  "Credential option \<Rightarrow> CredentialStatus \<Rightarrow> int \<Rightarrow> (Credential option) result" where
  "Credential_TransitionTo None status now = Inr None"
| "Credential_TransitionTo (Some c) status now =
     (if cred_Status c = status then Inr (Some (c\<lparr>cred_UpdatedAt := now\<rparr>))
      else if \<not> credentialTransitionAllowed (cred_Status c) status
      then Inl (errorf_w ErrInvalidCredentialStatusTransition
             (credential_status_str (cred_Status c) @ '' -> '' @ credential_status_str status))
      else Inr (Some (c\<lparr>cred_Status := status, cred_UpdatedAt := now\<rparr>)))"

interpretation cred: status_machine cred_Status credentialTransitionAllowed Credential_TransitionTo
  by unfold_locales auto

section \<open>Subscriptions\<close>

datatype SubscriptionStatus =
    SubscriptionStatusActive
  | SubscriptionStatusExpired
  | SubscriptionStatusCancelled
  | SubscriptionStatusErrored
  | SubscriptionStatusOther string

fun subscription_status_str :: "SubscriptionStatus \<Rightarrow> string" where
  "subscription_status_str SubscriptionStatusActive = ''active''"
| "subscription_status_str SubscriptionStatusExpired = ''expired''"
| "subscription_status_str SubscriptionStatusCancelled = ''cancelled''"
| "subscription_status_str SubscriptionStatusErrored = ''errored''"
| "subscription_status_str (SubscriptionStatusOther s) = s"

record Subscription =
  sub_ID :: string
  sub_ConnectionID :: string
  sub_ProviderID :: string
  sub_ResourceType :: string
  sub_ResourceID :: string
  sub_ChannelID :: string
  sub_RemoteSubscriptionID :: string
  sub_CallbackURL :: string
  sub_VerificationTokenRef :: string
  sub_Status :: SubscriptionStatus
  sub_ExpiresAt :: int
  sub_Metadata :: meta
  sub_CreatedAt :: int
  sub_UpdatedAt :: int

fun subscriptionTransitionAllowed :: "SubscriptionStatus \<Rightarrow> SubscriptionStatus \<Rightarrow> bool" where
  "subscriptionTransitionAllowed SubscriptionStatusActive next =
     (next \<in> {SubscriptionStatusExpired, SubscriptionStatusCancelled, SubscriptionStatusErrored})"
| "subscriptionTransitionAllowed SubscriptionStatusExpired next =
     (next \<in> {SubscriptionStatusActive, SubscriptionStatusCancelled})"
| "subscriptionTransitionAllowed SubscriptionStatusErrored next =
     (next \<in> {SubscriptionStatusActive, SubscriptionStatusCancelled})"
| "subscriptionTransitionAllowed SubscriptionStatusCancelled next = False"
| "subscriptionTransitionAllowed (SubscriptionStatusOther _) next = False"

fun Subscription_TransitionTo ::
  "Subscription option \<Rightarrow> SubscriptionStatus \<Rightarrow> int \<Rightarrow> (Subscription option) result" where
  "Subscription_TransitionTo None status now = Inr None"
| "Subscription_TransitionTo (Some s) status now =
     (if sub_Status s = status then Inr (Some (s\<lparr>sub_UpdatedAt := now\<rparr>))
      else if \<not> subscriptionTransitionAllowed (sub_Status s) status
      then Inl (errorf_w ErrInvalidSubscriptionStatusTransition
             (subscription_status_str (sub_Status s) @ '' -> '' @ subscription_status_str status))
      else Inr (Some (s\<lparr>sub_Status := status, sub_UpdatedAt := now\<rparr>)))"

interpretation subscr: status_machine sub_Status subscriptionTransitionAllowed Subscription_TransitionTo
  by unfold_locales auto

section \<open>Sync cursors\<close>

record SyncCursor =
  cur_ID :: string
  cur_ConnectionID :: string
  cur_ProviderID :: string
  cur_ResourceType :: string
  cur_ResourceID :: string
  cur_Cursor :: string
  cur_LastSyncedAt :: int
  cur_Status :: string
  cur_Metadata :: meta
  cur_CreatedAt :: int
  cur_UpdatedAt :: int

section \<open>Installations\<close>

datatype InstallationStatus =
    InstallationStatusActive
  | InstallationStatusSuspended
  | InstallationStatusUninstalled
  | InstallationStatusNeedsReconsent
  | InstallationStatusOther string

fun installation_status_str :: "InstallationStatus \<Rightarrow> string" where
  "installation_status_str InstallationStatusActive = ''active''"
| "installation_status_str InstallationStatusSuspended = ''suspended''"
| "installation_status_str InstallationStatusUninstalled = ''uninstalled''"
| "installation_status_str InstallationStatusNeedsReconsent = ''needs_reconsent''"
| "installation_status_str (InstallationStatusOther s) = s"

record Installation =
  inst_ID :: string
  inst_ProviderID :: string
  inst_ScopeType :: string
  inst_ScopeID :: string
  inst_InstallType :: string
  inst_Status :: InstallationStatus
  inst_GrantedAt :: "int option"
  inst_RevokedAt :: "int option"
  inst_Metadata :: meta
  inst_CreatedAt :: int
  inst_UpdatedAt :: int

fun installationTransitionAllowed :: "InstallationStatus \<Rightarrow> InstallationStatus \<Rightarrow> bool" where
  "installationTransitionAllowed InstallationStatusActive next =
     (next \<in> {InstallationStatusSuspended, InstallationStatusUninstalled,
              InstallationStatusNeedsReconsent})"
| "installationTransitionAllowed InstallationStatusSuspended next =
     (next \<in> {InstallationStatusActive, InstallationStatusUninstalled})"
| "installationTransitionAllowed InstallationStatusNeedsReconsent next =
     (next \<in> {InstallationStatusActive, InstallationStatusUninstalled})"
| "installationTransitionAllowed InstallationStatusUninstalled next = False"
| "installationTransitionAllowed (InstallationStatusOther _) next = False"

fun Installation_TransitionTo ::
  "Installation option \<Rightarrow> InstallationStatus \<Rightarrow> int \<Rightarrow> (Installation option) result" where
  "Installation_TransitionTo None status now = Inr None"
| "Installation_TransitionTo (Some i) status now =
     (if inst_Status i = status then Inr (Some (i\<lparr>inst_UpdatedAt := now\<rparr>))
      else if \<not> installationTransitionAllowed (inst_Status i) status
      then Inl (errorf_w ErrInvalidInstallationStatusTransition
             (installation_status_str (inst_Status i) @ '' -> '' @ installation_status_str status))
      else Inr (Some (i\<lparr>inst_Status := status, inst_UpdatedAt := now\<rparr>)))"

interpretation installation: status_machine inst_Status installationTransitionAllowed
  Installation_TransitionTo
  by unfold_locales auto

section \<open>Sync jobs\<close>

datatype SyncJobStatus =
    SyncJobStatusQueued
  | SyncJobStatusRunning
  | SyncJobStatusSucceeded
  | SyncJobStatusFailed
  | SyncJobStatusOther string

fun sync_job_status_str :: "SyncJobStatus \<Rightarrow> string" where
  "sync_job_status_str SyncJobStatusQueued = ''queued''"
| "sync_job_status_str SyncJobStatusRunning = ''running''"
| "sync_job_status_str SyncJobStatusSucceeded = ''succeeded''"
| "sync_job_status_str SyncJobStatusFailed = ''failed''"
| "sync_job_status_str (SyncJobStatusOther s) = s"

datatype SyncJobMode =
    SyncJobModeFull
  | SyncJobModeDelta
  | SyncJobModeBootstrap
  | SyncJobModeIncremental
  | SyncJobModeBackfill
  | SyncJobModeOther string

fun sync_job_mode_str :: "SyncJobMode \<Rightarrow> string" where
  "sync_job_mode_str SyncJobModeFull = ''full''"
| "sync_job_mode_str SyncJobModeDelta = ''delta''"
| "sync_job_mode_str SyncJobModeBootstrap = ''bootstrap''"
| "sync_job_mode_str SyncJobModeIncremental = ''incremental''"
| "sync_job_mode_str SyncJobModeBackfill = ''backfill''"
| "sync_job_mode_str (SyncJobModeOther s) = s"

text \<open>The conversion \<open>SyncJobMode(s)\<close> of a string.\<close>

definition sync_job_mode_of :: "string \<Rightarrow> SyncJobMode" where
  "sync_job_mode_of s =
     (if s = ''full'' then SyncJobModeFull else if s = ''delta'' then SyncJobModeDelta
      else if s = ''bootstrap'' then SyncJobModeBootstrap else if s = ''incremental'' then SyncJobModeIncremental
      else if s = ''backfill'' then SyncJobModeBackfill else SyncJobModeOther s)"

record SyncJob =
  job_ID :: string
  job_ConnectionID :: string
  job_ProviderID :: string
  job_Mode :: SyncJobMode
  job_Checkpoint :: string
  job_Status :: SyncJobStatus
  job_Attempts :: int
  job_NextAttemptAt :: "int option"
  job_Metadata :: meta
  job_CreatedAt :: int
  job_UpdatedAt :: int

fun syncJobTransitionAllowed :: "SyncJobStatus \<Rightarrow> SyncJobStatus \<Rightarrow> bool" where
  "syncJobTransitionAllowed SyncJobStatusQueued next =
     (next \<in> {SyncJobStatusRunning, SyncJobStatusFailed})"
| "syncJobTransitionAllowed SyncJobStatusRunning next =
     (next \<in> {SyncJobStatusSucceeded, SyncJobStatusFailed})"
| "syncJobTransitionAllowed SyncJobStatusFailed next =
     (next \<in> {SyncJobStatusQueued, SyncJobStatusRunning})"
| "syncJobTransitionAllowed SyncJobStatusSucceeded next = False"
| "syncJobTransitionAllowed (SyncJobStatusOther _) next = False"

fun SyncJob_TransitionTo :: "SyncJob option \<Rightarrow> SyncJobStatus \<Rightarrow> int \<Rightarrow> (SyncJob option) result" where
  "SyncJob_TransitionTo None status now = Inr None"
| "SyncJob_TransitionTo (Some j) status now =
     (if job_Status j = status then Inr (Some (j\<lparr>job_UpdatedAt := now\<rparr>))
      else if \<not> syncJobTransitionAllowed (job_Status j) status
      then Inl (errorf_w ErrInvalidSyncJobStatusTransition
             (sync_job_status_str (job_Status j) @ '' -> '' @ sync_job_status_str status))
      else Inr (Some (j\<lparr>job_Status := status, job_UpdatedAt := now\<rparr>)))"

interpretation sync_job: status_machine job_Status syncJobTransitionAllowed SyncJob_TransitionTo
  by unfold_locales auto

section \<open>Lifecycle events\<close>

record LifecycleEvent =
  ev_ID :: string
  ev_Name :: string
  ev_ProviderID :: string
  ev_ScopeType :: string
  ev_ScopeID :: string
  ev_ConnectionID :: string
  ev_Source :: string
  ev_OccurredAt :: int
  ev_Payload :: meta
  ev_Metadata :: meta

section \<open>Properties\<close>

text \<open>
  the final statuses are final. Whatever sequence of \<open>TransitionTo\<close> calls is attempted, with
  whatever arguments, a revoked credential stays revoked, a cancelled subscription cancelled, an
  uninstalled installation uninstalled and a succeeded sync job succeeded.
\<close>

theorem terminal_statuses_final:
  assumes "cred_Status c = CredentialStatusRevoked"
    and "sub_Status s = SubscriptionStatusCancelled"
    and "inst_Status i = InstallationStatusUninstalled"
    and "job_Status j = SyncJobStatusSucceeded"
  shows "cred_Status (run_transitions Credential_TransitionTo c steps1) = CredentialStatusRevoked \<and>
    sub_Status (run_transitions Subscription_TransitionTo s steps2) = SubscriptionStatusCancelled \<and>
    inst_Status (run_transitions Installation_TransitionTo i steps3) = InstallationStatusUninstalled \<and>
    job_Status (run_transitions SyncJob_TransitionTo j steps4) = SyncJobStatusSucceeded"
  using assms cred.terminal_final [of c steps1] subscr.terminal_final [of s steps2]
    installation.terminal_final [of i steps3] sync_job.terminal_final [of j steps4]
  by simp

definition sample_credential :: Credential where
  "sample_credential = \<lparr>cred_ID = ''cr'', cred_ConnectionID = ''c'', cred_Version = 1,
     cred_EncryptedPayload = [], cred_PayloadFormat = [], cred_PayloadVersion = 1, cred_TokenType = [],
     cred_RequestedScopes = [], cred_GrantedScopes = [], cred_ExpiresAt = 0, cred_Refreshable = False,
     cred_RotatesAt = 0, cred_Status = CredentialStatusRevoked, cred_CreatedAt = 1, cred_UpdatedAt = 1\<rparr>"

definition sample_subscription :: Subscription where
  "sample_subscription = \<lparr>sub_ID = ''s'', sub_ConnectionID = ''c'', sub_ProviderID = ''github'',
     sub_ResourceType = ''repo'', sub_ResourceID = ''r'', sub_ChannelID = [],
     sub_RemoteSubscriptionID = [], sub_CallbackURL = [], sub_VerificationTokenRef = [],
     sub_Status = SubscriptionStatusCancelled, sub_ExpiresAt = 0, sub_Metadata = [],
     sub_CreatedAt = 1, sub_UpdatedAt = 1\<rparr>"

definition sample_installation :: Installation where
  "sample_installation = \<lparr>inst_ID = ''i'', inst_ProviderID = ''github'', inst_ScopeType = ''org'',
     inst_ScopeID = ''o'', inst_InstallType = ''standard'', inst_Status = InstallationStatusUninstalled,
     inst_GrantedAt = None, inst_RevokedAt = None, inst_Metadata = [], inst_CreatedAt = 1,
     inst_UpdatedAt = 1\<rparr>"

definition sample_job :: SyncJob where
  "sample_job = \<lparr>job_ID = ''j'', job_ConnectionID = ''c'', job_ProviderID = ''github'',
     job_Mode = SyncJobModeFull, job_Checkpoint = [], job_Status = SyncJobStatusSucceeded,
     job_Attempts = 0, job_NextAttemptAt = None, job_Metadata = [], job_CreatedAt = 1,
     job_UpdatedAt = 1\<rparr>"

definition sample_connection :: Connection where
  "sample_connection = \<lparr>conn_ID = ''c'', conn_ProviderID = ''github'', conn_ScopeType = ''org'',
     conn_ScopeID = ''o'', conn_ExternalAccountID = [], conn_Status = ConnectionStatusErrored,
     conn_InheritsFrom = [], conn_LastError = ''boom'', conn_CreatedAt = 1, conn_UpdatedAt = 1\<rparr>"

theorem terminal_statuses_final_witness:
  "cred_Status (run_transitions Credential_TransitionTo sample_credential
     [(CredentialStatusActive, 2), (CredentialStatusExpired, 3)]) = CredentialStatusRevoked \<and>
   sub_Status (run_transitions Subscription_TransitionTo sample_subscription
     [(SubscriptionStatusActive, 2)]) = SubscriptionStatusCancelled \<and>
   inst_Status (run_transitions Installation_TransitionTo sample_installation
     [(InstallationStatusActive, 2)]) = InstallationStatusUninstalled \<and>
   job_Status (run_transitions SyncJob_TransitionTo sample_job
     [(SyncJobStatusRunning, 2)]) = SyncJobStatusSucceeded"
  by (rule terminal_statuses_final)
    (simp_all add: sample_credential_def sample_subscription_def sample_installation_def sample_job_def)

text \<open>
  \<open>Connection.TransitionTo\<close>, in full. A call on a non-nil connection is accepted exactly when
  the target is the current status or the table allows the move, and is otherwise rejected with
  \<open>ErrInvalidConnectionStatusTransition\<close>. An accepted call sets the status and the update time,
  keeps every other field but the last error, records a non-blank reason as the last error, and
  clears the last error when the connection becomes active again.
\<close>

theorem connection_transition_spec:
  "case Connection_TransitionTo (Some c) status (reason, now) of
     Inl e \<Rightarrow> conn_Status c \<noteq> status \<and> \<not> connectionTransitionAllowed (conn_Status c) status \<and>
              errors_Is e ErrInvalidConnectionStatusTransition
   | Inr r \<Rightarrow>
       (conn_Status c = status \<or> connectionTransitionAllowed (conn_Status c) status) \<and>
       r = Some (c\<lparr>conn_Status := status, conn_UpdatedAt := now,
                  conn_LastError :=
                    (if status = ConnectionStatusActive \<and> conn_Status c \<noteq> status then []
                     else if TrimSpace reason \<noteq> [] then TrimSpace reason else conn_LastError c)\<rparr>)"
  by (auto simp: Let_def)

lemma connection_allowed_known:
  "connectionTransitionAllowed\<^sup>*\<^sup>* s t \<Longrightarrow> \<forall>x. s \<noteq> ConnectionStatusOther x \<Longrightarrow>
     \<forall>x. t \<noteq> ConnectionStatusOther x"
proof (induction rule: rtranclp_induct)
  case base
  then show ?case by simp
next
  case (step y z)
  then show ?case by (cases y) auto
qed

text \<open>
  no named connection status is a dead end. From each of the five statuses a connection is
  active after one \<open>TransitionTo\<close> call, and every sequence of calls on a connection with a named
  status leaves it in a status from which that is so.
\<close>

theorem connection_recoverable:
  assumes "\<forall>x. conn_Status c \<noteq> ConnectionStatusOther x"
  shows "\<exists>c'. Connection_TransitionTo (Some (run_transitions Connection_TransitionTo c steps))
           ConnectionStatusActive (reason, now) = Inr (Some c') \<and> conn_Status c' = ConnectionStatusActive"
proof -
  let ?d = "run_transitions Connection_TransitionTo c steps"
  have "\<forall>x. conn_Status ?d \<noteq> ConnectionStatusOther x"
    using connection_allowed_known [OF conn.run_reaches assms] .
  then have "conn_Status ?d = ConnectionStatusActive \<or>
      connectionTransitionAllowed (conn_Status ?d) ConnectionStatusActive"
    by (cases "conn_Status ?d") auto
  then show ?thesis by (rule conn.transition_ok)
qed

theorem connection_recoverable_witness:
  "\<exists>c'. Connection_TransitionTo (Some (run_transitions Connection_TransitionTo sample_connection
       [(ConnectionStatusPendingReauth, (''expired'', 2)), (ConnectionStatusErrored, ([], 3))]))
     ConnectionStatusActive ([], 4) = Inr (Some c') \<and> conn_Status c' = ConnectionStatusActive"
  by (rule connection_recoverable) (simp add: sample_connection_def)

section \<open>Inbound requests\<close>

text \<open>\<open>core.InboundRequest\<close> and \<open>core.InboundResult\<close> (\<open>src/core/contracts.go\<close>); a body is its bytes.\<close>

record InboundRequest =
  ir_ProviderID :: string
  ir_Surface :: string
  ir_Headers :: "(string, string) gomap"
  ir_Body :: string
  ir_Metadata :: meta

record InboundResult =
  res_Accepted :: bool
  res_StatusCode :: int
  res_Metadata :: meta

definition empty_result :: InboundResult where
  "empty_result = \<lparr>res_Accepted = False, res_StatusCode = 0, res_Metadata = []\<rparr>"

end
