(* ===== verification/OAuth_State.thy ===== *)
theory OAuth_State
  imports Eviction Domain
begin

text \<open>
  \<open>src/core/oauth_state.go\<close>: the in-memory store of pending OAuth states. Saving prunes what has
  expired and evicts down to the capacity; consuming removes the state it returns. The eviction
  loop stops only because no state is stored under the empty key, so it is a
  \<^theory_text>\<open>partial_function\<close>: \<open>None\<close> is a call that does not return, and the theorems show that it
  does return.
\<close>

definition defaultOAuthStateTTL :: int where
  "defaultOAuthStateTTL = 15 * Minute"

definition defaultOAuthStateMaxEntries :: int where
  "defaultOAuthStateMaxEntries = 4096"

record OAuthStateRecord =
  os_State :: string
  os_ProviderID :: string
  os_Scope :: ScopeRef
  os_RedirectURI :: string
  os_RequestedGrants :: "string list"
  os_Metadata :: meta
  os_CreatedAt :: int
  os_ExpiresAt :: int

record MemoryOAuthStateStore =
  st_ttl :: int
  st_maxEntries :: int
  st_entries :: "(string, OAuthStateRecord) gomap"

definition NewMemoryOAuthStateStoreWithLimits :: "int \<Rightarrow> int \<Rightarrow> MemoryOAuthStateStore" where
  "NewMemoryOAuthStateStoreWithLimits ttl maxEntries =
     \<lparr>st_ttl = (if ttl \<le> 0 then defaultOAuthStateTTL else ttl),
      st_maxEntries = (if maxEntries \<le> 0 then defaultOAuthStateMaxEntries else maxEntries),
      st_entries = []\<rparr>"

definition NewMemoryOAuthStateStore :: "int \<Rightarrow> MemoryOAuthStateStore" where
  "NewMemoryOAuthStateStore ttl = NewMemoryOAuthStateStoreWithLimits ttl defaultOAuthStateMaxEntries"

definition cloneOAuthStateRecord :: "OAuthStateRecord \<Rightarrow> OAuthStateRecord" where
  "cloneOAuthStateRecord r = r\<lparr>os_Metadata := copyAnyMap (os_Metadata r)\<rparr>"

definition os_expired :: "int \<Rightarrow> OAuthStateRecord \<Rightarrow> bool" where
  "os_expired now r \<longleftrightarrow> os_ExpiresAt r \<noteq> 0 \<and> now > os_ExpiresAt r"

definition st_pruneExpiredLocked ::
  "int \<Rightarrow> (string, OAuthStateRecord) gomap \<Rightarrow> (string, OAuthStateRecord) gomap" where
  "st_pruneExpiredLocked now entries = delete_where (\<lambda>key r. os_expired now r) entries"

definition candidateAt :: "int \<Rightarrow> int \<Rightarrow> OAuthStateRecord \<Rightarrow> int" where
  "candidateAt ttl now r =
     (if os_ExpiresAt r = 0 then (if os_CreatedAt r = 0 then now else os_CreatedAt r + ttl)
      else os_ExpiresAt r)"

definition st_evictOldestLocked ::
  "int \<Rightarrow> int \<Rightarrow> (string, OAuthStateRecord) gomap \<Rightarrow> (string, OAuthStateRecord) gomap" where
  "st_evictOldestLocked ttl now entries =
     (let oldestKey = fst (oldest_scan (candidateAt ttl now) entries)
      in if oldestKey \<noteq> [] then AList.delete oldestKey entries else entries)"

partial_function (option) st_evict_loop ::
  "int \<Rightarrow> int \<Rightarrow> int \<Rightarrow> (string, OAuthStateRecord) gomap \<Rightarrow> ((string, OAuthStateRecord) gomap) option" where
  "st_evict_loop target ttl now entries =
     (if int (length entries) > target
      then st_evict_loop target ttl now (st_evictOldestLocked ttl now entries)
      else Some entries)"

definition st_enforceCapacityLocked ::
  "MemoryOAuthStateStore \<Rightarrow> int \<Rightarrow> int \<Rightarrow> (string, OAuthStateRecord) gomap \<Rightarrow>
     ((string, OAuthStateRecord) gomap) option" where
  "st_enforceCapacityLocked s now incoming entries =
     (if st_maxEntries s \<le> 0 then Some entries
      else st_evict_loop (max (st_maxEntries s - incoming) 0) (st_ttl s) now entries)"

text \<open>What \<open>Save\<close> stores: the record with its times filled in.\<close>

definition os_stamp :: "MemoryOAuthStateStore \<Rightarrow> int \<Rightarrow> OAuthStateRecord \<Rightarrow> OAuthStateRecord" where
  "os_stamp s now r =
     (let r = (if os_CreatedAt r = 0 then r\<lparr>os_CreatedAt := now\<rparr> else r)
      in if os_ExpiresAt r = 0 then r\<lparr>os_ExpiresAt := os_CreatedAt r + st_ttl s\<rparr> else r)"

definition MemoryOAuthStateStore_Save ::
  "MemoryOAuthStateStore option \<Rightarrow> OAuthStateRecord \<Rightarrow> int \<Rightarrow> (MemoryOAuthStateStore result) option" where
  "MemoryOAuthStateStore_Save receiver record now =
     (case receiver of
        None \<Rightarrow> Some (Inl (Plain ''core: oauth state store is not configured''))
      | Some s \<Rightarrow>
          let state = TrimSpace (os_State record) in
          if state = [] then Some (Inl (Plain ''core: oauth state is required''))
          else
            let record = os_stamp s now record;
                entries = st_pruneExpiredLocked now (st_entries s);
                room = (if map_of entries state = None then st_enforceCapacityLocked s now 1 entries
                        else Some entries)
            in map_option (\<lambda>entries. Inr (s\<lparr>st_entries :=
                 AList.update state (cloneOAuthStateRecord record) entries\<rparr>)) room)"

definition MemoryOAuthStateStore_Consume ::
  "MemoryOAuthStateStore option \<Rightarrow> string \<Rightarrow> int \<Rightarrow> (OAuthStateRecord result) \<times> MemoryOAuthStateStore option" where
  "MemoryOAuthStateStore_Consume receiver state now =
     (case receiver of
        None \<Rightarrow> (Inl (Plain ''core: oauth state store is not configured''), None)
      | Some s \<Rightarrow>
          let state = TrimSpace state in
          if state = [] then (Inl (Plain ''core: oauth state is required''), Some s)
          else
            let entries = st_pruneExpiredLocked now (st_entries s);
                found = map_of entries state;
                live = (case found of Some r \<Rightarrow> if os_expired now r then None else Some r | None \<Rightarrow> None);
                entries = (if found = None then entries else AList.delete state entries)
            in ((case live of
                   None \<Rightarrow> Inl (Plain ''core: oauth state not found'')
                 | Some r \<Rightarrow> Inr (cloneOAuthStateRecord r)),
                Some (s\<lparr>st_entries := entries\<rparr>)))"

section \<open>The eviction loop returns\<close>

lemma st_evict_props:
  assumes "gomap_ok entries" and "keys_nonempty entries" and "entries \<noteq> []"
  shows "gomap_ok (st_evictOldestLocked ttl now entries) \<and>
    keys_nonempty (st_evictOldestLocked ttl now entries) \<and>
    set (st_evictOldestLocked ttl now entries) \<subseteq> set entries \<and>
    length (st_evictOldestLocked ttl now entries) < length entries"
proof -
  obtain k a where ka: "oldest_scan (candidateAt ttl now) entries = (k, a)" by force
  have "k \<noteq> []" "k \<in> fst ` set entries"
    using oldest_scan_min [OF assms(3,2) ka] by force+
  then show ?thesis
    using ka assms by (simp add: st_evictOldestLocked_def length_delete_less set_delete_subset)
qed

lemma st_evict_loop_returns:
  assumes "gomap_ok entries" and "keys_nonempty entries" and "0 \<le> target"
  shows "\<exists>m. st_evict_loop target ttl now entries = Some m \<and> gomap_ok m \<and> keys_nonempty m \<and>
    set m \<subseteq> set entries \<and>
    int (length m) \<le> target \<and> (int (length entries) \<le> target \<longrightarrow> m = entries)"
  using assms
proof (induction "length entries" arbitrary: entries rule: less_induct)
  case less
  show ?case
  proof (cases "int (length entries) > target")
    case True
    then have ne: "entries \<noteq> []" using less.prems(3) by auto
    note ev = st_evict_props [OF less.prems(1,2) ne, of ttl now]
    show ?thesis
      using less.hyps [of "st_evictOldestLocked ttl now entries"] ev less.prems(3) True
      by (simp add: st_evict_loop.simps [of target ttl now entries]) (meson subset_trans)
  next
    case False
    with less.prems show ?thesis by (auto simp: st_evict_loop.simps [of target ttl now entries])
  qed
qed

section \<open>The invariant\<close>

definition oauth_inv :: "MemoryOAuthStateStore \<Rightarrow> bool" where
  "oauth_inv s \<longleftrightarrow> 0 < st_maxEntries s \<and> 0 < st_ttl s \<and> gomap_ok (st_entries s) \<and>
     keys_nonempty (st_entries s) \<and> int (length (st_entries s)) \<le> st_maxEntries s"

lemma oauth_inv_new: "oauth_inv (NewMemoryOAuthStateStoreWithLimits ttl n)"
  by (simp add: oauth_inv_def NewMemoryOAuthStateStoreWithLimits_def defaultOAuthStateTTL_def
      defaultOAuthStateMaxEntries_def duration_defs)

lemma map_of_st_prune:
  "gomap_ok m \<Longrightarrow> map_of (st_pruneExpiredLocked now m) k =
     (case map_of m k of Some r \<Rightarrow> if os_expired now r then None else Some r | None \<Rightarrow> None)"
  by (auto simp: st_pruneExpiredLocked_def map_of_delete_where split: option.splits)

lemma st_prune_props:
  assumes "oauth_inv s"
  shows "gomap_ok (st_pruneExpiredLocked now (st_entries s))"
    and "keys_nonempty (st_pruneExpiredLocked now (st_entries s))"
    and "length (st_pruneExpiredLocked now (st_entries s)) \<le> length (st_entries s)"
  using assms length_delete_where [of "\<lambda>key r. os_expired now r" "st_entries s"]
  by (simp_all add: oauth_inv_def st_pruneExpiredLocked_def)

text \<open>A call of \<open>Save\<close> with a non-blank state returns, keeps the invariant and stores the record.\<close>

lemma Save_returns:
  assumes inv: "oauth_inv s" and state: "TrimSpace (os_State r) \<noteq> []"
  obtains s' m where "MemoryOAuthStateStore_Save (Some s) r now = Some (Inr s')"
    "s' = s\<lparr>st_entries := AList.update (TrimSpace (os_State r)) (cloneOAuthStateRecord (os_stamp s now r)) m\<rparr>"
    "oauth_inv s'" "length m \<le> length (st_entries s)"
    "set m \<subseteq> set (st_pruneExpiredLocked now (st_entries s))"
    "int (length (st_entries s)) < st_maxEntries s \<Longrightarrow> m = st_pruneExpiredLocked now (st_entries s)"
proof -
  let ?p = "st_pruneExpiredLocked now (st_entries s)" and ?k = "TrimSpace (os_State r)"
  let ?t = "max (st_maxEntries s - 1) 0"
  note p = st_prune_props [OF inv, of now]
  have max: "0 < st_maxEntries s" "int (length (st_entries s)) \<le> st_maxEntries s"
    using inv by (simp_all add: oauth_inv_def)
  show ?thesis
  proof (cases "map_of ?p ?k = None")
    case True
    obtain m where m: "st_evict_loop ?t (st_ttl s) now ?p = Some m" "gomap_ok m" "keys_nonempty m"
      "set m \<subseteq> set ?p" "int (length m) \<le> ?t" "int (length ?p) \<le> ?t \<Longrightarrow> m = ?p"
      using st_evict_loop_returns [OF p(1,2), of ?t "st_ttl s" now] by auto
    have len: "length m \<le> length (st_entries s)"
      using m(5,6) p(3) max by (cases "int (length ?p) \<le> ?t") auto
    show ?thesis
    proof (rule that [OF _ refl _ len m(4)])
      show "MemoryOAuthStateStore_Save (Some s) r now = Some (Inr (s\<lparr>st_entries :=
          AList.update ?k (cloneOAuthStateRecord (os_stamp s now r)) m\<rparr>))"
        using state True m(1) max
        by (simp add: MemoryOAuthStateStore_Save_def st_enforceCapacityLocked_def)
      show "oauth_inv (s\<lparr>st_entries := AList.update ?k (cloneOAuthStateRecord (os_stamp s now r)) m\<rparr>)"
        using inv state m(2,3,5) max by (simp add: oauth_inv_def length_update)
      show "m = ?p" if "int (length (st_entries s)) < st_maxEntries s"
        using m(6) p(3) that max by simp
    qed
  next
    case False
    then have k: "?k \<in> fst ` set ?p" by (simp add: map_of_eq_None_iff)
    show ?thesis
    proof (rule that [OF _ refl _ p(3) subset_refl])
      show "MemoryOAuthStateStore_Save (Some s) r now = Some (Inr (s\<lparr>st_entries :=
          AList.update ?k (cloneOAuthStateRecord (os_stamp s now r)) ?p\<rparr>))"
        using state False by (auto simp: MemoryOAuthStateStore_Save_def)
      show "oauth_inv (s\<lparr>st_entries := AList.update ?k (cloneOAuthStateRecord (os_stamp s now r)) ?p\<rparr>)"
        using inv state p k max by (simp add: oauth_inv_def length_update)
    qed simp
  qed
qed

text \<open>\<open>Consume\<close>, in terms of the map before the call.\<close>

lemma Consume_eq:
  assumes inv: "oauth_inv s" and state: "TrimSpace state \<noteq> []"
  shows "fst (MemoryOAuthStateStore_Consume (Some s) state now) =
      (case map_of (st_entries s) (TrimSpace state) of
         None \<Rightarrow> Inl (Plain ''core: oauth state not found'')
       | Some r \<Rightarrow> if os_expired now r then Inl (Plain ''core: oauth state not found'')
                  else Inr (cloneOAuthStateRecord r))"
    and "\<exists>s'. snd (MemoryOAuthStateStore_Consume (Some s) state now) = Some s' \<and> oauth_inv s' \<and>
      st_maxEntries s' = st_maxEntries s \<and> st_ttl s' = st_ttl s \<and>
      length (st_entries s') \<le> length (st_entries s) \<and>
      map_of (st_entries s') = (map_of (st_pruneExpiredLocked now (st_entries s)))(TrimSpace state := None)"
proof -
  let ?p = "st_pruneExpiredLocked now (st_entries s)" and ?k = "TrimSpace state"
  note p = st_prune_props [OF inv, of now]
  have ok: "gomap_ok (st_entries s)" using inv by (simp add: oauth_inv_def)
  show "fst (MemoryOAuthStateStore_Consume (Some s) state now) =
      (case map_of (st_entries s) ?k of
         None \<Rightarrow> Inl (Plain ''core: oauth state not found'')
       | Some r \<Rightarrow> if os_expired now r then Inl (Plain ''core: oauth state not found'')
                  else Inr (cloneOAuthStateRecord r))"
    using state map_of_st_prune [OF ok, of now ?k]
    by (auto simp: MemoryOAuthStateStore_Consume_def split: option.splits if_splits)
  have len: "length (AList.delete ?k ?p) \<le> length ?p"
    by (simp add: AList.delete_eq)
  show "\<exists>s'. snd (MemoryOAuthStateStore_Consume (Some s) state now) = Some s' \<and> oauth_inv s' \<and>
      st_maxEntries s' = st_maxEntries s \<and> st_ttl s' = st_ttl s \<and>
      length (st_entries s') \<le> length (st_entries s) \<and>
      map_of (st_entries s') = (map_of ?p)(?k := None)"
  proof (cases "map_of ?p ?k = None")
    case True
    then show ?thesis
      using state p inv by (simp add: MemoryOAuthStateStore_Consume_def oauth_inv_def fun_upd_idem)
  next
    case False
    then obtain r where "map_of ?p ?k = Some r" by auto
    then show ?thesis
      using state p inv len by (simp add: MemoryOAuthStateStore_Consume_def oauth_inv_def Let_def)
  qed
qed

section \<open>Runs\<close>

datatype oauth_op = OpSave OAuthStateRecord int | OpConsume string int

fun oauth_step :: "MemoryOAuthStateStore \<Rightarrow> oauth_op \<Rightarrow> MemoryOAuthStateStore option" where
  "oauth_step s (OpSave r now) =
     (case MemoryOAuthStateStore_Save (Some s) r now of
        None \<Rightarrow> None | Some (Inl _) \<Rightarrow> Some s | Some (Inr s') \<Rightarrow> Some s')"
| "oauth_step s (OpConsume state now) = snd (MemoryOAuthStateStore_Consume (Some s) state now)"

fun oauth_run :: "MemoryOAuthStateStore \<Rightarrow> oauth_op list \<Rightarrow> MemoryOAuthStateStore option" where
  "oauth_run s [] = Some s"
| "oauth_run s (x # xs) = Option.bind (oauth_step s x) (\<lambda>s'. oauth_run s' xs)"

fun op_saves :: "string \<Rightarrow> oauth_op \<Rightarrow> bool" where
  "op_saves k (OpSave r _) = (TrimSpace (os_State r) = k)"
| "op_saves k (OpConsume _ _) = False"

fun op_touches :: "string \<Rightarrow> oauth_op \<Rightarrow> bool" where
  "op_touches k (OpSave r _) = (TrimSpace (os_State r) = k)"
| "op_touches k (OpConsume s _) = (TrimSpace s = k)"

fun op_time :: "oauth_op \<Rightarrow> int" where
  "op_time (OpSave _ now) = now"
| "op_time (OpConsume _ now) = now"

text \<open>One step returns, keeps the invariant, and never brings back a key it does not save.\<close>

lemma oauth_step_returns:
  assumes inv: "oauth_inv s"
  shows "\<exists>s'. oauth_step s x = Some s' \<and> oauth_inv s' \<and> st_maxEntries s' = st_maxEntries s \<and>
    st_ttl s' = st_ttl s \<and> length (st_entries s') \<le> Suc (length (st_entries s)) \<and>
    (map_of (st_entries s) k = None \<longrightarrow> \<not> op_saves k x \<longrightarrow> map_of (st_entries s') k = None) \<and>
    (int (length (st_entries s)) < st_maxEntries s \<longrightarrow> \<not> op_touches k x \<longrightarrow>
       map_of (st_entries s') k = map_of (st_pruneExpiredLocked (op_time x) (st_entries s)) k \<or>
       map_of (st_entries s') k = map_of (st_entries s) k)"
proof (cases x)
  case (OpSave r now)
  have ok: "gomap_ok (st_entries s)" using inv by (simp add: oauth_inv_def)
  show ?thesis
  proof (cases "TrimSpace (os_State r) = []")
    case True
    with OpSave inv show ?thesis by (simp add: MemoryOAuthStateStore_Save_def)
  next
    case False
    from Save_returns [OF inv False, of now] obtain s' m where
      sv: "MemoryOAuthStateStore_Save (Some s) r now = Some (Inr s')"
      "s' = s\<lparr>st_entries := AList.update (TrimSpace (os_State r))
         (cloneOAuthStateRecord (os_stamp s now r)) m\<rparr>"
      "oauth_inv s'" "length m \<le> length (st_entries s)"
      "set m \<subseteq> set (st_pruneExpiredLocked now (st_entries s))"
      "int (length (st_entries s)) < st_maxEntries s \<Longrightarrow> m = st_pruneExpiredLocked now (st_entries s)"
      by metis
    have absent: "map_of m k = None" if "map_of (st_entries s) k = None"
    proof -
      have "set m \<subseteq> set (st_entries s)"
        using sv(5) by (auto simp: st_pruneExpiredLocked_def delete_where_def)
      with that show ?thesis by (auto simp: map_of_eq_None_iff)
    qed
    show ?thesis using OpSave sv absent by (auto simp: length_update)
  qed
next
  case (OpConsume state now)
  show ?thesis
  proof (cases "TrimSpace state = []")
    case True
    with OpConsume inv show ?thesis by (simp add: MemoryOAuthStateStore_Consume_def)
  next
    case False
    have ok: "gomap_ok (st_entries s)" using inv by (simp add: oauth_inv_def)
    show ?thesis
      using Consume_eq(2) [OF inv False, of now] OpConsume map_of_st_prune [OF ok, of now k] by auto
  qed
qed

lemma oauth_run_returns:
  assumes "oauth_inv s"
  shows "\<exists>s'. oauth_run s xs = Some s' \<and> oauth_inv s' \<and> st_maxEntries s' = st_maxEntries s \<and>
    (map_of (st_entries s) k = None \<longrightarrow> (\<forall>x \<in> set xs. \<not> op_saves k x) \<longrightarrow>
       map_of (st_entries s') k = None)"
  using assms
proof (induction xs arbitrary: s)
  case Nil
  then show ?case by simp
next
  case (Cons x xs)
  from oauth_step_returns [OF Cons.prems, of x k] obtain s1 where
    s1: "oauth_step s x = Some s1" "oauth_inv s1" "st_maxEntries s1 = st_maxEntries s"
    "map_of (st_entries s) k = None \<longrightarrow> \<not> op_saves k x \<longrightarrow> map_of (st_entries s1) k = None"
    by (elim exE conjE)
  from Cons.IH [OF s1(2)] obtain s' where "oauth_run s1 xs = Some s'" "oauth_inv s'"
    "st_maxEntries s' = st_maxEntries s1"
    "map_of (st_entries s1) k = None \<longrightarrow> (\<forall>x \<in> set xs. \<not> op_saves k x) \<longrightarrow>
       map_of (st_entries s') k = None"
    by (elim exE conjE)
  with s1 show ?case by simp
qed

lemma oauth_run_keeps_live:
  assumes "oauth_inv s" and "map_of (st_entries s) k = Some r" and "os_ExpiresAt r = e"
    and "\<forall>x \<in> set xs. \<not> op_touches k x \<and> op_time x \<le> e"
    and "int (length (st_entries s)) + int (length xs) \<le> st_maxEntries s"
  shows "\<exists>s'. oauth_run s xs = Some s' \<and> oauth_inv s' \<and> map_of (st_entries s') k = Some r"
  using assms
proof (induction xs arbitrary: s)
  case Nil
  then show ?case by simp
next
  case (Cons x xs)
  have ok: "gomap_ok (st_entries s)" using Cons.prems(1) by (simp add: oauth_inv_def)
  have "map_of (st_pruneExpiredLocked (op_time x) (st_entries s)) k = Some r"
    using Cons.prems(2-4) map_of_st_prune [OF ok] by (simp add: os_expired_def)
  with oauth_step_returns [OF Cons.prems(1), of x k] Cons.prems obtain s1 where
    s1: "oauth_step s x = Some s1" "oauth_inv s1" "st_maxEntries s1 = st_maxEntries s"
    "length (st_entries s1) \<le> Suc (length (st_entries s))" "map_of (st_entries s1) k = Some r"
    by auto
  have "\<exists>s'. oauth_run s1 xs = Some s' \<and> oauth_inv s' \<and> map_of (st_entries s') k = Some r"
    using Cons.prems(3-5) s1 by (intro Cons.IH) auto
  with s1(1) show ?case by simp
qed

section \<open>Properties\<close>

text \<open>
  C12: the OAuth state store always returns and stays bounded. From a new store with any
  configuration, after any sequence of saves and consumes with any arguments, every call has
  returned (the eviction loop terminates) and the store holds at most \<open>maxEntries\<close> states.
\<close>

theorem oauth_store_total_and_bounded:
  "\<exists>s. oauth_run (NewMemoryOAuthStateStoreWithLimits ttl maxEntries) ops = Some s \<and>
     int (length (st_entries s)) \<le> st_maxEntries s \<and> distinct (map fst (st_entries s)) \<and>
     st_maxEntries s = (if maxEntries \<le> 0 then defaultOAuthStateMaxEntries else maxEntries)"
proof -
  let ?s = "NewMemoryOAuthStateStoreWithLimits ttl maxEntries"
  obtain s where "oauth_run ?s ops = Some s" "oauth_inv s" "st_maxEntries s = st_maxEntries ?s"
    using oauth_run_returns [OF oauth_inv_new] by blast
  moreover have "st_maxEntries ?s = (if maxEntries \<le> 0 then defaultOAuthStateMaxEntries else maxEntries)"
    by (simp add: NewMemoryOAuthStateStoreWithLimits_def)
  ultimately show ?thesis by (auto simp: oauth_inv_def)
qed

text \<open>
  C11: an OAuth state is consumed at most once. After a successful \<open>Consume\<close>, whatever saves of
  other states and whatever consumes follow, a second \<open>Consume\<close> of the same state (up to
  surrounding space) at any time reports that the state is not found.
\<close>

theorem oauth_state_single_use:
  assumes "oauth_inv s"
    and first: "MemoryOAuthStateStore_Consume (Some s) state now = (Inr r, Some s1)"
    and others: "\<forall>x \<in> set ops. \<not> op_saves (TrimSpace state) x"
    and run: "oauth_run s1 ops = Some s2" and same: "TrimSpace state2 = TrimSpace state"
  shows "fst (MemoryOAuthStateStore_Consume (Some s2) state2 now2) =
    Inl (Plain ''core: oauth state not found'')"
proof -
  have ne: "TrimSpace state \<noteq> []"
    using first by (auto simp: MemoryOAuthStateStore_Consume_def split: if_splits)
  have s1: "oauth_inv s1" "map_of (st_entries s1) (TrimSpace state) = None"
    using Consume_eq(2) [OF assms(1) ne, of now] first by auto
  have s2: "oauth_inv s2" "map_of (st_entries s2) (TrimSpace state) = None"
    using oauth_run_returns [OF s1(1), of ops "TrimSpace state"] s1(2) others run by auto
  have ne2: "TrimSpace state2 \<noteq> []" using ne same by simp
  show ?thesis unfolding Consume_eq(1) [OF s2(1) ne2] same by (simp add: s2(2))
qed

text \<open>
  save then consume is a round trip. A state saved at time \<open>t\<close> and consumed no later than its
  expiry is returned with every field as saved, the creation time defaulting to \<open>t\<close> and the
  expiry to the creation time plus the store's ttl, whatever other states are saved or consumed
  in between, while the store has room.
\<close>

theorem oauth_save_consume_roundtrip:
  assumes inv: "oauth_inv s" and meta: "gomap_ok (os_Metadata r)"
    and saved: "MemoryOAuthStateStore_Save (Some s) r t = Some (Inr s1)"
    and others: "\<forall>x \<in> set ops. \<not> op_touches (TrimSpace (os_State r)) x \<and>
      op_time x \<le> os_ExpiresAt (os_stamp s t r)"
    and room: "int (length (st_entries s1)) + int (length ops) \<le> st_maxEntries s1"
    and time: "now \<le> os_ExpiresAt (os_stamp s t r)"
  shows "\<exists>s2. oauth_run s1 ops = Some s2 \<and>
    fst (MemoryOAuthStateStore_Consume (Some s2) (os_State r) now) = Inr (os_stamp s t r)"
proof -
  let ?k = "TrimSpace (os_State r)" and ?r = "os_stamp s t r"
  have ne: "?k \<noteq> []"
    using saved by (auto simp: MemoryOAuthStateStore_Save_def split: if_splits)
  have clone: "cloneOAuthStateRecord ?r = ?r"
    using meta by (simp add: cloneOAuthStateRecord_def os_stamp_def Let_def)
  obtain s' m where sv: "MemoryOAuthStateStore_Save (Some s) r t = Some (Inr s')"
    "s' = s\<lparr>st_entries := AList.update ?k (cloneOAuthStateRecord ?r) m\<rparr>" "oauth_inv s'"
    using Save_returns [OF inv ne, of t] by metis
  have s1: "oauth_inv s1" "map_of (st_entries s1) ?k = Some ?r"
    using sv saved clone by auto
  obtain s2 where s2: "oauth_run s1 ops = Some s2" "oauth_inv s2" "map_of (st_entries s2) ?k = Some ?r"
    using oauth_run_keeps_live [OF s1 refl others room] by blast
  show ?thesis
    using s2 clone time Consume_eq(1) [OF s2(2) ne, of now] by (simp add: os_expired_def)
qed

definition sample_state :: "string \<Rightarrow> OAuthStateRecord" where
  "sample_state st = \<lparr>os_State = st, os_ProviderID = ''github'',
     os_Scope = \<lparr>scope_Type = ''org'', scope_ID = ''o''\<rparr>, os_RedirectURI = ''https'',
     os_RequestedGrants = [''repo''], os_Metadata = [], os_CreatedAt = 0, os_ExpiresAt = 0\<rparr>"

lemmas oauth_eval = MemoryOAuthStateStore_Save_def MemoryOAuthStateStore_Consume_def
  NewMemoryOAuthStateStoreWithLimits_def TrimSpace_def is_space_def st_pruneExpiredLocked_def
  delete_where_def st_enforceCapacityLocked_def st_evict_loop.simps os_stamp_def sample_state_def
  cloneOAuthStateRecord_def os_expired_def copyAnyMap_def Let_def

theorem oauth_save_consume_roundtrip_witness:
  "\<exists>s1 s2. MemoryOAuthStateStore_Save (Some (NewMemoryOAuthStateStoreWithLimits 100 5))
       (sample_state ''abc'') 1000 = Some (Inr s1) \<and>
     oauth_run s1 [OpSave (sample_state ''xyz'') 1050] = Some s2 \<and>
     fst (MemoryOAuthStateStore_Consume (Some s2) ''abc'' 1100) =
       Inr ((sample_state ''abc'')\<lparr>os_CreatedAt := 1000, os_ExpiresAt := 1100\<rparr>)"
proof -
  let ?s = "NewMemoryOAuthStateStoreWithLimits 100 5"
  let ?r = "(sample_state ''abc'')\<lparr>os_CreatedAt := 1000, os_ExpiresAt := 1100\<rparr>"
  have stamp: "os_stamp ?s 1000 (sample_state ''abc'') = ?r"
    by (simp add: oauth_eval)
  have sv: "MemoryOAuthStateStore_Save (Some ?s) (sample_state ''abc'') 1000 =
      Some (Inr (?s\<lparr>st_entries := [(''abc'', ?r)]\<rparr>))"
    by (simp add: oauth_eval)
  have "\<exists>s2. oauth_run (?s\<lparr>st_entries := [(''abc'', ?r)]\<rparr>) [OpSave (sample_state ''xyz'') 1050] = Some s2 \<and>
      fst (MemoryOAuthStateStore_Consume (Some s2) (os_State (sample_state ''abc'')) 1100) =
        Inr (os_stamp ?s 1000 (sample_state ''abc''))"
    by (rule oauth_save_consume_roundtrip [OF oauth_inv_new _ sv])
      (simp_all add: stamp, simp_all add: oauth_eval)
  with sv stamp show ?thesis by (auto simp: sample_state_def)
qed

theorem oauth_state_single_use_witness:
  "\<exists>r s1 s2. MemoryOAuthStateStore_Consume
       (Some \<lparr>st_ttl = 100, st_maxEntries = 5, st_entries = [(''abc'', sample_state ''abc'')]\<rparr>) ''abc'' 10 =
       (Inr r, Some s1) \<and>
     oauth_run s1 [OpSave (sample_state ''xyz'') 11] = Some s2 \<and>
     fst (MemoryOAuthStateStore_Consume (Some s2) '' abc'' 12) = Inl (Plain ''core: oauth state not found'')"
proof -
  let ?s = "\<lparr>st_ttl = 100, st_maxEntries = 5, st_entries = [(''abc'', sample_state ''abc'')]\<rparr>"
  let ?x = "OpSave (sample_state ''xyz'') 11"
  have inv: "oauth_inv ?s" by (simp add: oauth_inv_def)
  have c: "MemoryOAuthStateStore_Consume (Some ?s) ''abc'' 10 =
      (Inr (sample_state ''abc''), Some (?s\<lparr>st_entries := []\<rparr>))"
    by (simp add: oauth_eval)
  have "oauth_inv (?s\<lparr>st_entries := []\<rparr>)" by (simp add: oauth_inv_def)
  then obtain s2 where run: "oauth_run (?s\<lparr>st_entries := []\<rparr>) [?x] = Some s2"
    using oauth_run_returns by blast
  have "fst (MemoryOAuthStateStore_Consume (Some s2) '' abc'' 12) =
      Inl (Plain ''core: oauth state not found'')"
    by (rule oauth_state_single_use [OF inv c _ run]) (simp_all add: TrimSpace_def is_space_def sample_state_def)
  with c run show ?thesis by blast
qed

end
