(* ===== verification/Refresh_Runner.thy ===== *)
theory Refresh_Runner
  imports Domain Backoff
begin

text \<open>
  \<open>src/core/refresh_runner.go\<close>: the in-memory connection lock with a time to live, the handle that
  releases it, and the retry loop around a credential refresh. The lock is a state machine: an
  inductive step relation lets any number of clients acquire, release and let leases lapse while
  the clock advances.
\<close>

section \<open>The connection lock\<close>

definition defaultRefreshMaxAttempts :: int where
  "defaultRefreshMaxAttempts = 3"

definition defaultRefreshLockTTL :: int where
  "defaultRefreshLockTTL = 30 * Second"

record MemoryConnectionLocker =
  lk_locks :: "(string, int) gomap"

definition NewMemoryConnectionLocker :: MemoryConnectionLocker where
  "NewMemoryConnectionLocker = \<lparr>lk_locks = []\<rparr>"

text \<open>A handle remembers its connection and whether its \<open>sync.Once\<close> has run.\<close>

record memoryLockHandle =
  lh_connectionID :: string
  lh_done :: bool

definition lock_ttl :: "int \<Rightarrow> int" where
  "lock_ttl ttl = (if ttl \<le> 0 then defaultRefreshLockTTL else ttl)"

definition MemoryConnectionLocker_Acquire ::
  "MemoryConnectionLocker option \<Rightarrow> string \<Rightarrow> int \<Rightarrow> int \<Rightarrow>
     (memoryLockHandle \<times> MemoryConnectionLocker) result" where
  "MemoryConnectionLocker_Acquire receiver connectionID ttl now =
     (case receiver of
        None \<Rightarrow> Inl (Plain ''core: connection locker is not configured'')
      | Some l \<Rightarrow>
          let connectionID = TrimSpace connectionID in
          if connectionID = [] then Inl (Plain ''core: connection id is required for lock acquisition'')
          else if (case map_of (lk_locks l) connectionID of Some until \<Rightarrow> now < until | None \<Rightarrow> False)
          then Inl (Plain (''core: refresh lock already held for connection '' @ quote connectionID))
          else Inr (\<lparr>lh_connectionID = connectionID, lh_done = False\<rparr>,
                    l\<lparr>lk_locks := AList.update connectionID (now + lock_ttl ttl) (lk_locks l)\<rparr>))"

definition memoryLockHandle_Unlock ::
  "memoryLockHandle \<Rightarrow> MemoryConnectionLocker \<Rightarrow> memoryLockHandle \<times> MemoryConnectionLocker" where
  "memoryLockHandle_Unlock h l =
     (if lh_done h then (h, l)
      else (h\<lparr>lh_done := True\<rparr>, l\<lparr>lk_locks := AList.delete (lh_connectionID h) (lk_locks l)\<rparr>))"

text \<open>
  Clients of one locker. \<open>ls_held i\<close> is the handle client \<open>i\<close> got and the instant its lease ends.
  A client that finishes in time unlocks; one whose lease has lapsed drops its handle.
\<close>

record lock_sys =
  ls_now :: int
  ls_locker :: MemoryConnectionLocker
  ls_held :: "nat \<Rightarrow> (memoryLockHandle \<times> int) option"

inductive lock_step :: "lock_sys \<Rightarrow> lock_sys \<Rightarrow> bool" where
  tick: "0 \<le> d \<Longrightarrow> lock_step s (s\<lparr>ls_now := ls_now s + d\<rparr>)"
| acquire: "ls_held s i = None \<Longrightarrow>
    MemoryConnectionLocker_Acquire (Some (ls_locker s)) connectionID ttl (ls_now s) = Inr (h, l) \<Longrightarrow>
    lock_step s (s\<lparr>ls_locker := l, ls_held := (ls_held s)(i \<mapsto> (h, ls_now s + lock_ttl ttl))\<rparr>)"
| unlock: "ls_held s i = Some (h, until) \<Longrightarrow> ls_now s < until \<Longrightarrow>
    memoryLockHandle_Unlock h (ls_locker s) = (h', l) \<Longrightarrow>
    lock_step s (s\<lparr>ls_locker := l, ls_held := (ls_held s)(i := None)\<rparr>)"
| lapse: "ls_held s i = Some (h, until) \<Longrightarrow> until \<le> ls_now s \<Longrightarrow>
    lock_step s (s\<lparr>ls_held := (ls_held s)(i := None)\<rparr>)"

inductive lock_reachable :: "lock_sys \<Rightarrow> bool" where
  start: "lock_reachable \<lparr>ls_now = t, ls_locker = NewMemoryConnectionLocker, ls_held = (\<lambda>_. None)\<rparr>"
| step: "lock_reachable s \<Longrightarrow> lock_step s s' \<Longrightarrow> lock_reachable s'"

text \<open>A live lease is recorded in the locker and belongs to one client.\<close>

definition live :: "lock_sys \<Rightarrow> nat \<Rightarrow> memoryLockHandle \<Rightarrow> int \<Rightarrow> bool" where
  "live s i h until \<longleftrightarrow> ls_held s i = Some (h, until) \<and> ls_now s < until"

definition lock_inv :: "lock_sys \<Rightarrow> bool" where
  "lock_inv s \<longleftrightarrow>
     (\<forall>i h u. live s i h u \<longrightarrow> map_of (lk_locks (ls_locker s)) (lh_connectionID h) = Some u) \<and>
     (\<forall>i h u j h' u'. live s i h u \<longrightarrow> live s j h' u' \<longrightarrow>
        lh_connectionID h = lh_connectionID h' \<longrightarrow> i = j)"

lemma Acquire_Inr:
  assumes "MemoryConnectionLocker_Acquire (Some l) connectionID ttl now = Inr (h, l')"
  shows "lh_connectionID h = TrimSpace connectionID \<and> \<not> lh_done h \<and>
    lk_locks l' = AList.update (TrimSpace connectionID) (now + lock_ttl ttl) (lk_locks l) \<and>
    (\<forall>u. map_of (lk_locks l) (TrimSpace connectionID) = Some u \<longrightarrow> u \<le> now)"
  using assms
  by (auto simp: MemoryConnectionLocker_Acquire_def Let_def split: if_splits option.splits)

text \<open>Steps that create no lease keep the invariant if the recorded ends of live leases stay.\<close>

lemma lock_inv_no_new_lease:
  assumes inv: "lock_inv s"
    and sub: "\<And>j h u. live s' j h u \<Longrightarrow> live s j h u \<and>
      map_of (lk_locks (ls_locker s')) (lh_connectionID h) = map_of (lk_locks (ls_locker s)) (lh_connectionID h)"
  shows "lock_inv s'"
  unfolding lock_inv_def
proof (intro conjI allI impI)
  fix i h u assume "live s' i h u"
  with sub inv show "map_of (lk_locks (ls_locker s')) (lh_connectionID h) = Some u"
    unfolding lock_inv_def by metis
next
  fix i h u j h' u'
  assume "live s' i h u" "live s' j h' u'" "lh_connectionID h = lh_connectionID h'"
  with sub inv show "i = j" unfolding lock_inv_def by metis
qed

lemma lock_inv_acquire:
  assumes inv: "lock_inv s" and free: "ls_held s i = None"
    and acq: "MemoryConnectionLocker_Acquire (Some (ls_locker s)) connectionID ttl (ls_now s) = Inr (h, l)"
  shows "lock_inv (s\<lparr>ls_locker := l, ls_held := (ls_held s)(i \<mapsto> (h, ls_now s + lock_ttl ttl))\<rparr>)"
    (is "lock_inv ?s")
proof -
  note a = Acquire_Inr [OF acq]
  have others: "lh_connectionID h' \<noteq> lh_connectionID h \<and> live s j h' u \<and>
      map_of (lk_locks (ls_locker s)) (lh_connectionID h') = Some u"
    if "live ?s j h' u" "j \<noteq> i" for j h' u
  proof -
    have lv: "live s j h' u" using that by (simp add: live_def)
    then have "map_of (lk_locks (ls_locker s)) (lh_connectionID h') = Some u" "ls_now s < u"
      using inv by (auto simp: lock_inv_def live_def)
    with a lv show ?thesis by force
  qed
  have self: "h' = h \<and> u = ls_now s + lock_ttl ttl" if "live ?s i h' u" for h' u
    using that by (simp add: live_def)
  show ?thesis
    unfolding lock_inv_def
  proof (intro conjI allI impI)
    fix j h' u assume lv: "live ?s j h' u"
    show "map_of (lk_locks (ls_locker ?s)) (lh_connectionID h') = Some u"
      using lv self others [OF lv] a by (cases "j = i") auto
  next
    fix j h' u k h'' u' assume lv: "live ?s j h' u" "live ?s k h'' u'"
      and same: "lh_connectionID h' = lh_connectionID h''"
    show "j = k"
    proof (cases "j = i \<or> k = i")
      case True
      with others [OF lv(1)] others [OF lv(2)] self lv same show ?thesis by metis
    next
      case False
      then have "live s j h' u" "live s k h'' u'" using others lv by blast+
      with same inv show ?thesis unfolding lock_inv_def by blast
    qed
  qed
qed

lemma lock_inv_unlock:
  assumes inv: "lock_inv s" and held: "ls_held s i = Some (h, until)" "ls_now s < until"
    and unl: "memoryLockHandle_Unlock h (ls_locker s) = (h', l)"
  shows "lock_inv (s\<lparr>ls_locker := l, ls_held := (ls_held s)(i := None)\<rparr>)" (is "lock_inv ?s")
proof (rule lock_inv_no_new_lease [OF inv])
  fix j hj u assume lv: "live ?s j hj u"
  then have sub: "live s j hj u" "j \<noteq> i" by (auto simp: live_def split: if_splits)
  moreover have "live s i h until" using held by (simp add: live_def)
  ultimately have "lh_connectionID hj \<noteq> lh_connectionID h"
    using inv unfolding lock_inv_def by metis
  moreover have "lk_locks l = lk_locks (ls_locker s) \<or>
      lk_locks l = AList.delete (lh_connectionID h) (lk_locks (ls_locker s))"
    using unl by (auto simp: memoryLockHandle_Unlock_def split: if_splits)
  ultimately show "live s j hj u \<and> map_of (lk_locks (ls_locker ?s)) (lh_connectionID hj) =
      map_of (lk_locks (ls_locker s)) (lh_connectionID hj)"
    using sub by auto
qed

lemma lock_step_inv: "lock_step s s' \<Longrightarrow> lock_inv s \<Longrightarrow> lock_inv s'"
proof (induction rule: lock_step.induct)
  case (tick d s)
  show ?case by (rule lock_inv_no_new_lease [OF tick.prems]) (use tick.hyps in \<open>simp add: live_def\<close>)
next
  case (acquire s i connectionID ttl h l)
  then show ?case by (intro lock_inv_acquire) auto
next
  case (unlock s i h until h' l)
  then show ?case by (intro lock_inv_unlock) auto
next
  case (lapse s i h until)
  show ?case
    by (rule lock_inv_no_new_lease [OF lapse.prems]) (auto simp: live_def split: if_splits)
qed

lemma lock_reachable_inv: "lock_reachable s \<Longrightarrow> lock_inv s"
proof (induction rule: lock_reachable.induct)
  case (start t)
  show ?case by (simp add: lock_inv_def live_def)
next
  case (step s s')
  then show ?case by (blast intro: lock_step_inv)
qed

text \<open>
  C5: the refresh lock excludes. In every state that clients can reach by acquiring, releasing
  within their lease and letting leases lapse while time passes, two clients with a live lease on
  the same connection are the same client.
\<close>

theorem lock_mutual_exclusion:
  assumes "lock_reachable s"
    and "ls_held s i = Some (h, u)" and "ls_now s < u"
    and "ls_held s j = Some (h', u')" and "ls_now s < u'"
    and "lh_connectionID h = lh_connectionID h'"
  shows "i = j"
  using lock_reachable_inv [OF assms(1)] assms(2-) unfolding lock_inv_def live_def by blast

lemma Acquire_fresh:
  "TrimSpace c \<noteq> [] \<Longrightarrow> MemoryConnectionLocker_Acquire (Some NewMemoryConnectionLocker) c ttl now =
     Inr (\<lparr>lh_connectionID = TrimSpace c, lh_done = False\<rparr>,
          \<lparr>lk_locks = [(TrimSpace c, now + lock_ttl ttl)]\<rparr>)"
  by (simp add: MemoryConnectionLocker_Acquire_def NewMemoryConnectionLocker_def Let_def)

theorem lock_mutual_exclusion_witness:
  "\<exists>s h u. lock_reachable s \<and> ls_held s 7 = Some (h, u) \<and> ls_now s < u \<and> lh_connectionID h = ''c'' \<and>
     (\<forall>j h' u'. ls_held s j = Some (h', u') \<and> ls_now s < u' \<and> lh_connectionID h' = ''c'' \<longrightarrow> 7 = j)"
proof -
  let ?start = "\<lparr>ls_now = 100, ls_locker = NewMemoryConnectionLocker, ls_held = (\<lambda>_. None)\<rparr>"
  let ?h = "\<lparr>lh_connectionID = ''c'', lh_done = False\<rparr>"
  let ?fin = "?start\<lparr>ls_locker := \<lparr>lk_locks = [(''c'', 150)]\<rparr>, ls_held := (\<lambda>_. None)(7 \<mapsto> (?h, 150))\<rparr>"
  have t: "TrimSpace ''c'' = ''c''" by (simp add: TrimSpace_def is_space_def)
  have "lock_step ?start ?fin"
    using lock_step.acquire [of ?start 7 "''c''" 50 ?h "\<lparr>lk_locks = [(''c'', 150)]\<rparr>"]
      Acquire_fresh [of "''c''" 50 100] by (simp add: t lock_ttl_def)
  then have r: "lock_reachable ?fin" by (rule lock_reachable.step [OF lock_reachable.start])
  have "7 = j" if "ls_held ?fin j = Some (h', u')" "ls_now ?fin < u'" "lh_connectionID h' = ''c''" for j h' u'
    by (rule lock_mutual_exclusion [OF r, of 7 ?h 150 j h' u']) (use that in simp_all)
  then have all: "\<forall>j h' u'. ls_held ?fin j = Some (h', u') \<and> ls_now ?fin < u' \<and>
      lh_connectionID h' = ''c'' \<longrightarrow> 7 = j"
    by (intro allI impI) (elim conjE)
  show ?thesis
    by (rule exI [of _ ?fin], rule exI [of _ ?h], rule exI [of _ 150], intro conjI r all) simp_all
qed

text \<open>
  a late \<open>Unlock\<close> releases another client's lock. When a client's lease has lapsed and a second
  client has acquired the same connection, the first client's \<open>Unlock\<close> deletes the second client's
  entry, and a third \<open>Acquire\<close> succeeds while the second lease is still running: the handle does not
  check that the entry it deletes is its own.
\<close>

theorem stale_unlock_breaks_exclusion:
  assumes "TrimSpace c \<noteq> []"
    and first: "MemoryConnectionLocker_Acquire (Some l0) c ttl1 t1 = Inr (h1, l1)"
    and lapsed: "t1 + lock_ttl ttl1 \<le> t2"
    and third: "t2 \<le> t3" "t3 < t2 + lock_ttl ttl2"
  shows "\<exists>h2 l2 l3 h3 l4. MemoryConnectionLocker_Acquire (Some l1) c ttl2 t2 = Inr (h2, l2) \<and>
    memoryLockHandle_Unlock h1 l2 = (h1\<lparr>lh_done := True\<rparr>, l3) \<and>
    map_of (lk_locks l2) (TrimSpace c) = Some (t2 + lock_ttl ttl2) \<and>
    MemoryConnectionLocker_Acquire (Some l3) c ttl3 t3 = Inr (h3, l4)"
  using assms Acquire_Inr [OF first]
  by (auto simp: MemoryConnectionLocker_Acquire_def memoryLockHandle_Unlock_def Let_def
      split: option.splits)

theorem stale_unlock_breaks_exclusion_witness:
  "\<exists>h1 l1 h2 l2 l3 h3 l4.
     MemoryConnectionLocker_Acquire (Some NewMemoryConnectionLocker) ''c'' 10 0 = Inr (h1, l1) \<and>
     MemoryConnectionLocker_Acquire (Some l1) ''c'' 10 20 = Inr (h2, l2) \<and>
     memoryLockHandle_Unlock h1 l2 = (h1\<lparr>lh_done := True\<rparr>, l3) \<and>
     MemoryConnectionLocker_Acquire (Some l3) ''c'' 10 25 = Inr (h3, l4)"
proof -
  have ne: "TrimSpace ''c'' \<noteq> []" by (simp add: TrimSpace_def is_space_def)
  show ?thesis
    using Acquire_fresh [OF ne, of 10 0]
      stale_unlock_breaks_exclusion [OF ne Acquire_fresh [OF ne, of 10 0], of 20 25 10 10]
    by (auto simp: lock_ttl_def)
qed

section \<open>Errors that end a refresh\<close>

text \<open>
  \<open>text\<close> is \<open>err.Error()\<close>; for a rich error that text is the third-party library's, so it is an
  argument.
\<close>

definition isUnrecoverableRefreshError :: "(goerr \<Rightarrow> string) \<Rightarrow> goerr option \<Rightarrow> bool" where
  "isUnrecoverableRefreshError text err =
     (case err of
        None \<Rightarrow> False
      | Some e \<Rightarrow>
          (case as_rich e of
             None \<Rightarrow> False
           | Some (r, _) \<Rightarrow>
               Category r \<in> {CategoryAuth, CategoryAuthz, CategoryValidation, CategoryNotFound} \<or>
               TrimSpace (ToUpper (TextCode r)) \<in> {''TOKEN_EXPIRED'', ''UNAUTHORIZED'', ''FORBIDDEN''}) \<or>
          (let msg = ToLower (TrimSpace (text e))
           in Contains msg ''invalid_grant'' \<or> Contains msg ''invalid refresh token'' \<or>
              Contains msg ''reauthorization required'' \<or> Contains msg ''re-auth required''))"

section \<open>The retry loop\<close>

text \<open>
  What the loop calls, over a world \<open>'w\<close> that the calls read and change: the locker (\<open>None\<close> when
  the service has none; on success the action that unlocks), one refresh, the status update of the
  connection store (whose error is dropped), the backoff scheduler, the wait, the error mapper and
  the text of an error.
\<close>

record 'w refresh_env =
  env_locker :: "(string \<Rightarrow> int \<Rightarrow> 'w \<Rightarrow> (('w \<Rightarrow> 'w) result) \<times> 'w) option"
  env_Refresh :: "'w \<Rightarrow> goerr option \<times> 'w"
  env_connectionStore :: "(string \<Rightarrow> ConnectionStatus \<Rightarrow> string \<Rightarrow> 'w \<Rightarrow> 'w) option"
  env_scheduler :: "(int \<Rightarrow> int) option"
  env_wait :: "int \<Rightarrow> 'w \<Rightarrow> goerr option \<times> 'w"
  env_mapError :: "goerr \<Rightarrow> goerr"
  env_text :: "goerr \<Rightarrow> string"

record RefreshRunResult =
  rr_Attempts :: int
  rr_PendingReauth :: bool

definition waitWithContext :: "'w refresh_env \<Rightarrow> int \<Rightarrow> 'w \<Rightarrow> goerr option \<times> 'w" where
  "waitWithContext env delay w = (if delay \<le> 0 then (None, w) else env_wait env delay w)"

definition transitionConnectionToPendingReauth :: "'w refresh_env \<Rightarrow> string \<Rightarrow> goerr \<Rightarrow> 'w \<Rightarrow> 'w" where
  "transitionConnectionToPendingReauth env connectionID source w =
     (case env_connectionStore env of
        None \<Rightarrow> w
      | Some updateStatus \<Rightarrow>
          let reason = TrimSpace (env_text env source);
              reason = (if reason = [] then ''refresh failed'' else reason)
          in updateStatus connectionID ConnectionStatusPendingReauth reason w)"

text \<open>\<open>for attempt := 1; attempt <= maxAttempts; attempt++\<close>; the argument \<open>lastErr\<close> is the error of the attempt before.\<close>

function refresh_attempts ::
  "'w refresh_env \<Rightarrow> string \<Rightarrow> int \<Rightarrow> int \<Rightarrow> goerr \<Rightarrow> 'w \<Rightarrow> RefreshRunResult \<times> goerr option \<times> 'w" where
  "refresh_attempts env connectionID maxAttempts attempt lastErr w =
     (if attempt > maxAttempts
      then (\<lparr>rr_Attempts = maxAttempts, rr_PendingReauth = False\<rparr>, Some (env_mapError env lastErr), w)
      else case env_Refresh env w of
             (None, w1) \<Rightarrow> (\<lparr>rr_Attempts = attempt, rr_PendingReauth = False\<rparr>, None, w1)
           | (Some err, w1) \<Rightarrow>
               if isUnrecoverableRefreshError (env_text env) (Some err) \<or> attempt = maxAttempts
               then (\<lparr>rr_Attempts = attempt, rr_PendingReauth = True\<rparr>, Some (env_mapError env err),
                     transitionConnectionToPendingReauth env connectionID err w1)
               else
                 let delay = (case env_scheduler env of
                                None \<Rightarrow> defaultRefreshInitialBackoff | Some next \<Rightarrow> next attempt)
                 in (case waitWithContext env delay w1 of
                       (Some waitErr, w2) \<Rightarrow>
                         (\<lparr>rr_Attempts = attempt, rr_PendingReauth = False\<rparr>,
                          Some (env_mapError env waitErr), w2)
                     | (None, w2) \<Rightarrow>
                         refresh_attempts env connectionID maxAttempts (attempt + 1) err w2))"
  by pat_completeness auto
termination
  by (relation "measure (\<lambda>(env, c, maxAttempts, attempt, e, w). nat (maxAttempts + 1 - attempt))") auto

declare refresh_attempts.simps [simp del]

definition RunRefreshWithRetry ::
  "'w refresh_env \<Rightarrow> string \<Rightarrow> int \<Rightarrow> int \<Rightarrow> 'w \<Rightarrow> RefreshRunResult \<times> goerr option \<times> 'w" where
  "RunRefreshWithRetry env connectionID maxAttempts lockTTL w =
     (let connectionID = TrimSpace connectionID;
          failed = (\<lambda>e w. (\<lparr>rr_Attempts = 0, rr_PendingReauth = False\<rparr>, Some (env_mapError env e), w))
      in if connectionID = [] then failed (Plain ''core: connection id is required'') w
         else
           let maxAttempts = (if maxAttempts < 1 then defaultRefreshMaxAttempts else maxAttempts);
               lockTTL = (if lockTTL \<le> 0 then defaultRefreshLockTTL else lockTTL);
               lastErr = Plain []
           in case env_locker env of
                None \<Rightarrow> refresh_attempts env connectionID maxAttempts 1 lastErr w
              | Some acquire \<Rightarrow>
                  (case acquire connectionID lockTTL w of
                     (Inl lockErr, w1) \<Rightarrow> failed lockErr w1
                   | (Inr unlock, w1) \<Rightarrow>
                       (case refresh_attempts env connectionID maxAttempts 1 lastErr w1 of
                          (res, err, w2) \<Rightarrow> (res, err, unlock w2))))"

text \<open>What every way out of the loop guarantees.\<close>

lemma refresh_attempts_spec:
  assumes "1 \<le> attempt" and "attempt \<le> maxAttempts"
    and "refresh_attempts env c maxAttempts attempt lastErr w = (res, err, w')"
  shows "attempt \<le> rr_Attempts res \<and> rr_Attempts res \<le> maxAttempts \<and>
    (err = None \<longrightarrow> \<not> rr_PendingReauth res) \<and>
    (rr_PendingReauth res \<longrightarrow> (\<exists>e w1. err = Some (env_mapError env e) \<and>
       w' = transitionConnectionToPendingReauth env c e w1 \<and>
       (isUnrecoverableRefreshError (env_text env) (Some e) \<or> rr_Attempts res = maxAttempts)))"
  using assms
proof (induction env c maxAttempts attempt lastErr w rule: refresh_attempts.induct)
  case (1 env c maxAttempts attempt lastErr w)
  obtain r w1 where r: "env_Refresh env w = (r, w1)" by force
  note eq = refresh_attempts.simps [of env c maxAttempts attempt lastErr w]
  show ?case
  proof (cases r)
    case None
    with 1 r eq show ?thesis by auto
  next
    case (Some e)
    show ?thesis
    proof (cases "isUnrecoverableRefreshError (env_text env) (Some e) \<or> attempt = maxAttempts")
      case True
      with 1 r eq Some show ?thesis by auto
    next
      case False
      let ?d = "case env_scheduler env of None \<Rightarrow> defaultRefreshInitialBackoff | Some next \<Rightarrow> next attempt"
      obtain we w2 where we: "waitWithContext env ?d w1 = (we, w2)" by force
      show ?thesis
      proof (cases we)
        case None
        then have "refresh_attempts env c maxAttempts (attempt + 1) e w2 = (res, err, w')"
          using 1 r eq Some False we by (simp add: Let_def)
        then show ?thesis
          using "1.IH" [OF _ r [symmetric] Some False refl we [symmetric]] None "1.prems" False by auto
      next
        case (Some waitErr)
        with 1 r eq \<open>r = Some e\<close> False we show ?thesis by (auto simp: Let_def)
      qed
    qed
  qed
qed

text \<open>
  the retry loop is bounded and reports faithfully. With a non-blank connection id and an
  acquired lock, the run makes at least one and at most \<open>maxAttempts\<close> attempts (three when not
  configured); success never reports a pending re-authorisation; and when it is reported, the run
  failed with an unrecoverable error or on its last attempt, the connection was moved to
  \<open>pending_reauth\<close> after that failure, and the lock was released last.
\<close>

theorem refresh_retry_bounded:
  assumes "TrimSpace connectionID \<noteq> []" and "env_locker env = Some acquire"
    and "acquire (TrimSpace connectionID) (if lockTTL \<le> 0 then defaultRefreshLockTTL else lockTTL) w =
      (Inr unlock, w1)"
    and "RunRefreshWithRetry env connectionID maxAttempts lockTTL w = (res, err, w')"
  shows "1 \<le> rr_Attempts res \<and>
    rr_Attempts res \<le> (if maxAttempts < 1 then defaultRefreshMaxAttempts else maxAttempts) \<and>
    (err = None \<longrightarrow> \<not> rr_PendingReauth res) \<and> (\<exists>w2. w' = unlock w2) \<and>
    (rr_PendingReauth res \<longrightarrow> (\<exists>e w2. err = Some (env_mapError env e) \<and>
       w' = unlock (transitionConnectionToPendingReauth env (TrimSpace connectionID) e w2) \<and>
       (isUnrecoverableRefreshError (env_text env) (Some e) \<or>
        rr_Attempts res = (if maxAttempts < 1 then defaultRefreshMaxAttempts else maxAttempts))))"
proof -
  let ?m = "if maxAttempts < 1 then defaultRefreshMaxAttempts else maxAttempts"
  obtain w2 where w2: "refresh_attempts env (TrimSpace connectionID) ?m 1 (Plain []) w1 = (res, err, w2)"
    "w' = unlock w2"
    using assms by (auto simp: RunRefreshWithRetry_def Let_def split: prod.splits)
  have "1 \<le> ?m" by (simp add: defaultRefreshMaxAttempts_def)
  from refresh_attempts_spec [OF _ this w2(1)] w2(2) show ?thesis by auto
qed

text \<open>A world that counts refreshes and unlocks, with every refresh failing in a transient way.\<close>

definition demo_env :: "(nat \<times> nat) refresh_env" where
  "demo_env = \<lparr>env_locker = Some (\<lambda>c ttl w. (Inr (\<lambda>(r, u). (r, u + 1)), w)),
     env_Refresh = (\<lambda>(r, u). (Some (Plain ''timeout''), (r + 1, u))),
     env_connectionStore = None, env_scheduler = None, env_wait = (\<lambda>d w. (None, w)),
     env_mapError = (\<lambda>e. e), env_text = (\<lambda>e. ''timeout'')\<rparr>"

theorem refresh_retry_bounded_witness:
  "\<exists>res err w'. RunRefreshWithRetry demo_env ''c'' 2 0 (0, 0) = (res, err, w') \<and>
     1 \<le> rr_Attempts res \<and> rr_Attempts res \<le> 2"
proof -
  obtain res err w' where run: "RunRefreshWithRetry demo_env ''c'' 2 0 (0, 0) = (res, err, w')"
    by (metis prod_cases3)
  have "1 \<le> rr_Attempts res \<and> rr_Attempts res \<le> 2"
    using refresh_retry_bounded [of "''c''" demo_env "\<lambda>c ttl w. (Inr (\<lambda>(r, u). (r, u + 1)), w)" 0 "(0, 0)"
        "\<lambda>(r, u). (r, u + 1)" "(0, 0)" 2 res err w'] run
    by (simp add: demo_env_def TrimSpace_def is_space_def)
  with run show ?thesis by blast
qed

end
