(* ===== verification/Service_Errors.thy ===== *)
theory Service_Errors
  imports Domain
begin

text \<open>
  \<open>src/core/errors.go\<close>: how any error of the services is turned into an error envelope with a
  category, an HTTP status and a stable text code, and the constructors of
  \<open>src/inbound/errors.go\<close>. The third-party fallback \<open>goerrors.MapToError\<close> and the rendering of
  third-party errors are the arguments \<open>mapToError\<close> and \<open>render\<close>.
\<close>

section \<open>Codes\<close>

abbreviation "StatusOK \<equiv> 200 :: int"
abbreviation "StatusAccepted \<equiv> 202 :: int"
abbreviation "StatusBadRequest \<equiv> 400 :: int"
abbreviation "StatusUnauthorized \<equiv> 401 :: int"
abbreviation "StatusForbidden \<equiv> 403 :: int"
abbreviation "StatusNotFound \<equiv> 404 :: int"
abbreviation "StatusConflict \<equiv> 409 :: int"
abbreviation "StatusTooManyRequests \<equiv> 429 :: int"
abbreviation "StatusInternalServerError \<equiv> 500 :: int"
abbreviation "StatusBadGateway \<equiv> 502 :: int"

text \<open>The text codes of the envelope.\<close>

datatype service_code =
    ServiceErrorBadInput | ServiceErrorNotFound | ServiceErrorUnauthorized | ServiceErrorForbidden
  | ServiceErrorConflict | ServiceErrorOperationFailed | ServiceErrorExternalFailure
  | ServiceErrorProviderNotFound | ServiceErrorCapabilityUnsupported | ServiceErrorOAuthStateInvalid
  | ServiceErrorEmbeddedAuthUnsupported | ServiceErrorEmbeddedSessionInvalid
  | ServiceErrorEmbeddedExchangeFailed | ServiceErrorReplayDetected | ServiceErrorRefreshLocked
  | ServiceErrorPermissionDenied | ServiceErrorRateLimited | ServiceErrorProviderOperationFailed
  | ServiceErrorSyncJobNotFound | ServiceErrorSyncCursorConflict | ServiceErrorProfileNotFound
  | ServiceErrorInternal

fun code_text :: "service_code \<Rightarrow> string" where
  "code_text ServiceErrorBadInput = ''SERVICE_BAD_INPUT''"
| "code_text ServiceErrorNotFound = ''SERVICE_NOT_FOUND''"
| "code_text ServiceErrorUnauthorized = ''SERVICE_UNAUTHORIZED''"
| "code_text ServiceErrorForbidden = ''SERVICE_FORBIDDEN''"
| "code_text ServiceErrorConflict = ''SERVICE_CONFLICT''"
| "code_text ServiceErrorOperationFailed = ''SERVICE_OPERATION_FAILED''"
| "code_text ServiceErrorExternalFailure = ''SERVICE_EXTERNAL_FAILURE''"
| "code_text ServiceErrorProviderNotFound = ''SERVICE_PROVIDER_NOT_FOUND''"
| "code_text ServiceErrorCapabilityUnsupported = ''SERVICE_CAPABILITY_UNSUPPORTED''"
| "code_text ServiceErrorOAuthStateInvalid = ''SERVICE_OAUTH_STATE_INVALID''"
| "code_text ServiceErrorEmbeddedAuthUnsupported = ''SERVICE_EMBEDDED_AUTH_UNSUPPORTED''"
| "code_text ServiceErrorEmbeddedSessionInvalid = ''SERVICE_EMBEDDED_SESSION_INVALID''"
| "code_text ServiceErrorEmbeddedExchangeFailed = ''SERVICE_EMBEDDED_EXCHANGE_FAILED''"
| "code_text ServiceErrorReplayDetected = ''SERVICE_REPLAY_DETECTED''"
| "code_text ServiceErrorRefreshLocked = ''SERVICE_REFRESH_LOCKED''"
| "code_text ServiceErrorPermissionDenied = ''SERVICE_PERMISSION_DENIED''"
| "code_text ServiceErrorRateLimited = ''SERVICE_RATE_LIMITED''"
| "code_text ServiceErrorProviderOperationFailed = ''SERVICE_PROVIDER_OPERATION_FAILED''"
| "code_text ServiceErrorSyncJobNotFound = ''SERVICE_SYNC_JOB_NOT_FOUND''"
| "code_text ServiceErrorSyncCursorConflict = ''SERVICE_SYNC_CURSOR_CONFLICT''"
| "code_text ServiceErrorProfileNotFound = ''SERVICE_PROFILE_NOT_FOUND''"
| "code_text ServiceErrorInternal = ''SERVICE_INTERNAL_ERROR''"

lemma TrimSpace_code_text [simp]: "TrimSpace (code_text c) = code_text c"
  by (rule TrimSpace_id) (cases c; simp add: is_space_def)

lemma code_text_nonempty [simp]: "code_text c \<noteq> []"
  by (cases c) simp_all

fun serviceHTTPStatus :: "category \<Rightarrow> int" where
  "serviceHTTPStatus CategoryBadInput = StatusBadRequest"
| "serviceHTTPStatus CategoryValidation = StatusBadRequest"
| "serviceHTTPStatus CategoryNotFound = StatusNotFound"
| "serviceHTTPStatus CategoryAuth = StatusUnauthorized"
| "serviceHTTPStatus CategoryAuthz = StatusForbidden"
| "serviceHTTPStatus CategoryConflict = StatusConflict"
| "serviceHTTPStatus CategoryRateLimit = StatusTooManyRequests"
| "serviceHTTPStatus _ = StatusInternalServerError"

fun defaultServiceTextCode :: "category \<Rightarrow> string" where
  "defaultServiceTextCode CategoryBadInput = code_text ServiceErrorBadInput"
| "defaultServiceTextCode CategoryValidation = code_text ServiceErrorBadInput"
| "defaultServiceTextCode CategoryNotFound = code_text ServiceErrorNotFound"
| "defaultServiceTextCode CategoryAuth = code_text ServiceErrorUnauthorized"
| "defaultServiceTextCode CategoryAuthz = code_text ServiceErrorForbidden"
| "defaultServiceTextCode CategoryConflict = code_text ServiceErrorConflict"
| "defaultServiceTextCode CategoryRateLimit = code_text ServiceErrorRateLimited"
| "defaultServiceTextCode CategoryOperation = code_text ServiceErrorOperationFailed"
| "defaultServiceTextCode CategoryExternal = code_text ServiceErrorExternalFailure"
| "defaultServiceTextCode _ = code_text ServiceErrorInternal"

lemma defaultServiceTextCode_nonblank [simp]: "TrimSpace (defaultServiceTextCode c) \<noteq> []"
  by (cases c) (simp_all del: code_text.simps)

lemma serviceHTTPStatus_range [simp]: "400 \<le> serviceHTTPStatus c" "serviceHTTPStatus c < 600"
  by (cases c; simp)+

section \<open>The envelope\<close>

definition goerrors_New :: "string \<Rightarrow> category \<Rightarrow> rich_error" where
  "goerrors_New message category =
     \<lparr>Category = category, Code = 0, TextCode = [], Message = message, ErrMeta = []\<rparr>"

definition ensureServiceErrorEnvelope :: "rich_error \<Rightarrow> rich_error" where
  "ensureServiceErrorEnvelope e =
     (let e = (if Code e = 0 then e\<lparr>Code := serviceHTTPStatus (Category e)\<rparr> else e);
          e = (if TrimSpace (TextCode e) = []
               then e\<lparr>TextCode := defaultServiceTextCode (Category e)\<rparr> else e)
      in if Category e = CategoryInternal \<and> TrimSpace (Message e) = []
         then e\<lparr>Message := ''An unexpected error occurred''\<rparr> else e)"

definition newServiceError :: "string \<Rightarrow> category \<Rightarrow> string \<Rightarrow> rich_error" where
  "newServiceError message category textCode =
     ensureServiceErrorEnvelope ((goerrors_New message category)\<lparr>TextCode := textCode\<rparr>)"

text \<open>The text of an error; \<open>render\<close> is the rendering of rich errors.\<close>

definition ThrottledError_Error :: "string \<Rightarrow> string \<Rightarrow> int \<Rightarrow> string" where
  "ThrottledError_Error providerID bucketKey retryAfter =
     ''ratelimit: provider '' @ quote (TrimSpace providerID) @ '' bucket '' @
     quote (TrimSpace bucketKey) @ '' throttled for '' @ Duration_String retryAfter"

fun err_Error :: "(goerr \<Rightarrow> string) \<Rightarrow> goerr \<Rightarrow> string" where
  "err_Error render (Sentinel s) = sentinel_msg s"
| "err_Error render (Plain m) = m"
| "err_Error render (Wrapped m _) = m"
| "err_Error render (Joined es) = join_with [CHR 0x0A] (map (err_Error render) es)"
| "err_Error render (Throttled p b d) = ThrottledError_Error p b d"
| "err_Error render (Convertible m _ _) = m"
| "err_Error render (Rich r src) = render (Rich r src)"

definition newServiceErrorFromSource ::
  "(goerr \<Rightarrow> string) \<Rightarrow> goerr \<Rightarrow> category \<Rightarrow> string \<Rightarrow> goerr" where
  "newServiceErrorFromSource render source category textCode =
     Rich (ensureServiceErrorEnvelope
             ((goerrors_New (err_Error render source) category)\<lparr>TextCode := textCode\<rparr>)) (Some source)"

definition ThrottledError_ToServiceError :: "string \<Rightarrow> string \<Rightarrow> int \<Rightarrow> rich_error" where
  "ThrottledError_ToServiceError providerID bucketKey retryAfter =
     \<lparr>Category = CategoryRateLimit, Code = StatusTooManyRequests,
      TextCode = code_text ServiceErrorRateLimited,
      Message = ThrottledError_Error providerID bucketKey retryAfter,
      ErrMeta = [(''provider_id'', AStr (TrimSpace providerID)), (''bucket_key'', AStr (TrimSpace bucketKey))] @
        (if retryAfter > 0 then [(''retry_after_ms'', AInt64 (retryAfter div Millisecond))] else [])\<rparr>"

text \<open>\<open>errors.As(err, &convertible)\<close> and the conversion: the first convertible error of the tree.\<close>

fun as_convertible :: "goerr \<Rightarrow> rich_error option option" where
  "as_convertible (Throttled p b d) = Some (Some (ThrottledError_ToServiceError p b d))"
| "as_convertible (Convertible _ r _) = Some r"
| "as_convertible (Wrapped _ es) =
     (case filter (\<lambda>r. r \<noteq> None) (map as_convertible es) of [] \<Rightarrow> None | r # _ \<Rightarrow> r)"
| "as_convertible (Joined es) =
     (case filter (\<lambda>r. r \<noteq> None) (map as_convertible es) of [] \<Rightarrow> None | r # _ \<Rightarrow> r)"
| "as_convertible (Rich _ (Some e)) = as_convertible e"
| "as_convertible _ = None"

text \<open>The two \<open>switch\<close> statements of the mapper: by sentinel, then by the text of the error.\<close>

definition map_by_sentinel :: "(goerr \<Rightarrow> string) \<Rightarrow> goerr \<Rightarrow> goerr option" where
  "map_by_sentinel render err =
     (if errors_Is err ErrSyncJobNotFound
      then Some (newServiceErrorFromSource render err CategoryNotFound (code_text ServiceErrorSyncJobNotFound))
      else if errors_Is err ErrSyncCursorConflict
      then Some (newServiceErrorFromSource render err CategoryConflict (code_text ServiceErrorSyncCursorConflict))
      else if errors_Is err ErrInvalidSyncJobMode \<or> errors_Is err ErrInvalidSyncJobScope
      then Some (newServiceErrorFromSource render err CategoryBadInput (code_text ServiceErrorBadInput))
      else if errors_Is err ErrEmbeddedAuthUnsupported
      then Some (newServiceErrorFromSource render err CategoryOperation
                   (code_text ServiceErrorEmbeddedAuthUnsupported))
      else None)"

definition classify_text :: "string \<Rightarrow> (category \<times> service_code) option" where
  "classify_text msg =
     (if Contains msg ''provider'' \<and> Contains msg ''not registered''
      then Some (CategoryNotFound, ServiceErrorProviderNotFound)
      else if Contains msg ''capability'' \<and> Contains msg ''not supported''
      then Some (CategoryOperation, ServiceErrorCapabilityUnsupported)
      else if Contains msg ''oauth callback state'' \<or> Contains msg ''oauth state''
      then Some (CategoryAuth, ServiceErrorOAuthStateInvalid)
      else if Contains msg ''replay'' then Some (CategoryConflict, ServiceErrorReplayDetected)
      else if Contains msg ''lock already held'' \<or> Contains msg ''refresh lock''
      then Some (CategoryConflict, ServiceErrorRefreshLocked)
      else if Contains msg ''throttl'' \<or> Contains msg ''rate limit''
      then Some (CategoryRateLimit, ServiceErrorRateLimited)
      else if Contains msg ''required'' \<or> Contains msg ''invalid'' \<or> Contains msg ''mismatch''
      then Some (CategoryBadInput, ServiceErrorBadInput)
      else None)"

definition serviceErrorMapper ::
  "(goerr \<Rightarrow> string) \<Rightarrow> (goerr \<Rightarrow> (rich_error \<times> goerr option) option) \<Rightarrow> goerr option \<Rightarrow> goerr option" where
  "serviceErrorMapper render mapToError err =
     (case err of
        None \<Rightarrow> None
      | Some err \<Rightarrow>
          (case as_rich err of
             Some (r, src) \<Rightarrow> Some (Rich (ensureServiceErrorEnvelope r) src)
           | None \<Rightarrow>
               (case as_convertible err of
                  Some (Some mapped) \<Rightarrow> Some (Rich (ensureServiceErrorEnvelope mapped) None)
                | _ \<Rightarrow>
                    (case map_by_sentinel render err of
                       Some mapped \<Rightarrow> Some mapped
                     | None \<Rightarrow>
                         (case classify_text (ToLower (TrimSpace (err_Error render err))) of
                            Some (category, code) \<Rightarrow>
                              Some (Rich (newServiceError (err_Error render err) category (code_text code)) None)
                          | None \<Rightarrow>
                              (case mapToError err of
                                 None \<Rightarrow> None
                               | Some (r, src) \<Rightarrow> Some (Rich (ensureServiceErrorEnvelope r) src)))))))"

section \<open>The constructors of the \<open>inbound\<close> package\<close>

definition inboundError :: "string \<Rightarrow> category \<Rightarrow> int \<Rightarrow> service_code \<Rightarrow> meta \<Rightarrow> goerr" where
  "inboundError message category code textCode metadata =
     (let err = (goerrors_New message category)\<lparr>Code := code, TextCode := code_text textCode\<rparr>
      in Rich (if length metadata > 0 then err\<lparr>ErrMeta := metadata\<rparr> else err) None)"

definition inboundWrapError ::
  "goerr option \<Rightarrow> category \<Rightarrow> string \<Rightarrow> int \<Rightarrow> service_code \<Rightarrow> meta \<Rightarrow> goerr" where
  "inboundWrapError source category message code textCode metadata =
     (case source of
        None \<Rightarrow> inboundError message category code textCode metadata
      | Some src \<Rightarrow>
          let err = (goerrors_New message category)\<lparr>Code := code, TextCode := code_text textCode\<rparr>
          in Rich (if length metadata > 0 then err\<lparr>ErrMeta := metadata\<rparr> else err) (Some src))"

definition inboundBadInput :: "string \<Rightarrow> meta \<Rightarrow> goerr" where
  "inboundBadInput message metadata =
     inboundError message CategoryBadInput StatusBadRequest ServiceErrorBadInput metadata"

definition inboundInternal :: "string \<Rightarrow> meta \<Rightarrow> goerr" where
  "inboundInternal message metadata =
     inboundError message CategoryInternal StatusInternalServerError ServiceErrorInternal metadata"

section \<open>What every mapped error has\<close>

definition envelope_ok :: "rich_error \<Rightarrow> bool" where
  "envelope_ok e \<longleftrightarrow> Code e \<noteq> 0 \<and> TrimSpace (TextCode e) \<noteq> [] \<and>
     (Category e = CategoryInternal \<longrightarrow> TrimSpace (Message e) \<noteq> [])"

lemma ensure_envelope_ok [simp]: "envelope_ok (ensureServiceErrorEnvelope e)"
proof -
  have "TrimSpace ''An unexpected error occurred'' \<noteq> []"
    by (simp add: TrimSpace_eq_Nil_iff is_space_def)
  moreover have "serviceHTTPStatus c \<noteq> 0" for c using serviceHTTPStatus_range(1) [of c] by linarith
  ultimately show ?thesis
    by (simp add: envelope_ok_def ensureServiceErrorEnvelope_def Let_def del: defaultServiceTextCode.simps)
qed

lemma ensure_envelope_id: "envelope_ok e \<Longrightarrow> ensureServiceErrorEnvelope e = e"
  by (auto simp: envelope_ok_def ensureServiceErrorEnvelope_def Let_def)

lemma ensure_envelope_keeps [simp]:
  "Category (ensureServiceErrorEnvelope e) = Category e"
  "TrimSpace (TextCode e) \<noteq> [] \<Longrightarrow> TextCode (ensureServiceErrorEnvelope e) = TextCode e"
  "Code e \<noteq> 0 \<Longrightarrow> Code (ensureServiceErrorEnvelope e) = Code e"
  by (simp_all add: ensureServiceErrorEnvelope_def Let_def)

lemma newServiceError_parts:
  "TrimSpace code \<noteq> [] \<Longrightarrow> TextCode (newServiceError m c code) = code"
  "Category (newServiceError m c code) = c"
  by (simp_all add: newServiceError_def goerrors_New_def)

text \<open>The result of the mapper is always a rich error with a complete envelope.\<close>

lemma mapper_rich:
  assumes "serviceErrorMapper render mapToError err = Some e"
  obtains r src where "e = Rich r src" "envelope_ok r"
  using assms
  by (auto simp: serviceErrorMapper_def map_by_sentinel_def newServiceErrorFromSource_def newServiceError_def
      split: option.splits prod.splits if_splits)

text \<open>
  The envelope of every mapped error is complete: whatever error the services hand to the
  mapper, the result is a rich error with a non-zero status, a non-blank text code and, for an
  internal error, a non-blank message; and mapping a mapped error changes nothing.
\<close>

theorem mapped_errors_have_envelope:
  assumes "serviceErrorMapper render mapToError err = Some e"
  shows "(\<exists>r src. e = Rich r src \<and> envelope_ok r) \<and> serviceErrorMapper render mapToError (Some e) = Some e"
proof -
  obtain r src where "e = Rich r src" "envelope_ok r" using mapper_rich [OF assms] .
  then show ?thesis by (simp add: serviceErrorMapper_def ensure_envelope_id)
qed

theorem mapped_errors_have_envelope_witness:
  "serviceErrorMapper (\<lambda>_. []) (\<lambda>_. None) (Some (Plain ''core: replay key is required'')) =
     Some (Rich (newServiceError ''core: replay key is required'' CategoryConflict ''SERVICE_REPLAY_DETECTED'') None) \<and>
   (\<exists>r src. Rich (newServiceError ''core: replay key is required'' CategoryConflict ''SERVICE_REPLAY_DETECTED'') None
      = Rich r src \<and> envelope_ok r)"
proof -
  have "serviceErrorMapper (\<lambda>_. []) (\<lambda>_. None) (Some (Plain ''core: replay key is required'')) =
     Some (Rich (newServiceError ''core: replay key is required'' CategoryConflict ''SERVICE_REPLAY_DETECTED'') None)"
    by (simp add: serviceErrorMapper_def map_by_sentinel_def classify_text_def ToLower_def TrimSpace_def
        is_space_def char_lower_def)
  then show ?thesis using mapped_errors_have_envelope by blast
qed

end
