(* ===== verification/Claim_Store.thy ===== *)
theory Claim_Store
  imports Service_Errors
begin

text \<open>
  \<open>src/inbound/dispatcher.go\<close>, second half: the in-memory idempotency store that gives a caller
  the right to process a key (\<open>Claim\<close>), and records the outcome (\<open>Complete\<close>, \<open>Fail\<close>). What a
  client may rely on is the locale \<open>claim_store\<close>, stated over the phase a key is in at an instant:
  free, busy under a claim id, waiting for its retry time, or done. The theory ends with the
  interpretation of the locale on the model. The counter of claim ids is unbounded here.
\<close>

section \<open>The interface\<close>

datatype phase = Free | Busy string | Waiting | Done

locale claim_store =
  fixes claim :: "'s \<Rightarrow> string \<Rightarrow> int \<Rightarrow> int \<Rightarrow> (string \<times> bool \<times> 's) result"
    and complete :: "'s \<Rightarrow> string \<Rightarrow> int \<Rightarrow> 's result"
    and fail :: "'s \<Rightarrow> string \<Rightarrow> int \<Rightarrow> int \<Rightarrow> 's result"
    and inv :: "'s \<Rightarrow> bool"
    and phase_of :: "'s \<Rightarrow> string \<Rightarrow> int \<Rightarrow> phase"
    and ttl_of :: "'s \<Rightarrow> string \<Rightarrow> int"
  assumes claim_free: "inv s \<Longrightarrow> TrimSpace key \<noteq> [] \<Longrightarrow> 0 < lease \<Longrightarrow> phase_of s (TrimSpace key) now = Free \<Longrightarrow>
      \<exists>cid s'. claim s key lease now = Inr (cid, True, s') \<and> inv s' \<and> cid \<noteq> [] \<and>
        ttl_of s' (TrimSpace key) = lease \<and>
        (\<forall>t. now \<le> t \<longrightarrow> t < now + lease \<longrightarrow> phase_of s' (TrimSpace key) t = Busy cid) \<and>
        (\<forall>k t. k \<noteq> TrimSpace key \<longrightarrow> now \<le> t \<longrightarrow> phase_of s' k t = phase_of s k t)"
    and claim_taken: "inv s \<Longrightarrow> TrimSpace key \<noteq> [] \<Longrightarrow> 0 < lease \<Longrightarrow>
      phase_of s (TrimSpace key) now \<noteq> Free \<Longrightarrow>
      \<exists>s'. claim s key lease now = Inr ([], False, s') \<and> inv s' \<and>
        (\<forall>k t. now \<le> t \<longrightarrow> phase_of s' k t = phase_of s k t)"
    and complete_busy: "inv s \<Longrightarrow> phase_of s key now = Busy cid \<Longrightarrow> 0 \<le> now \<Longrightarrow>
      \<exists>s'. complete s cid now = Inr s' \<and> inv s' \<and>
        (\<forall>t. now \<le> t \<longrightarrow> t < now + ttl_of s key \<longrightarrow> phase_of s' key t = Done) \<and>
        (\<forall>k t. k \<noteq> key \<longrightarrow> phase_of s' k t = phase_of s k t)"
    and fail_busy: "inv s \<Longrightarrow> phase_of s key now = Busy cid \<Longrightarrow>
      \<exists>s'. fail s cid 0 now = Inr s' \<and> inv s' \<and>
        (\<forall>t. now \<le> t \<longrightarrow> phase_of s' key t = Free) \<and>
        (\<forall>k t. k \<noteq> key \<longrightarrow> phase_of s' k t = phase_of s k t)"
begin

text \<open>Two claims of one key within a lease: only the first is accepted.\<close>

lemma second_claim_refused:
  assumes "inv s" and "TrimSpace key \<noteq> []" and "0 < lease" and "0 < lease2"
    and "claim s key lease now = Inr (cid, True, s1)" and "now \<le> t" and "t < now + lease"
  shows "\<exists>s2. claim s1 key lease2 t = Inr ([], False, s2) \<and> inv s2"
proof -
  have "phase_of s (TrimSpace key) now = Free"
    using claim_taken [OF assms(1-3)] assms(5) by fastforce
  then have "inv s1" "phase_of s1 (TrimSpace key) t = Busy cid"
    using claim_free [OF assms(1-3)] assms(5-7) by fastforce+
  then show ?thesis using claim_taken [of s1 key lease2 t] assms(2,4) by fastforce
qed

end

section \<open>The store\<close>

datatype claimStatus =
    claimStatusProcessing | claimStatusRetryReady | claimStatusComplete

record claimEntry =
  ce_Key :: string
  ce_Status :: claimStatus
  ce_ClaimID :: string
  ce_Attempts :: int
  ce_KeyTTL :: int
  ce_LeaseExpiresAt :: int
  ce_RetryAt :: int

record InMemoryClaimStore =
  cs_entries :: "(string, claimEntry) gomap"
  cs_claims :: "(string, string) gomap"
  cs_nextID :: nat

definition NewInMemoryClaimStore :: InMemoryClaimStore where
  "NewInMemoryClaimStore = \<lparr>cs_entries = [], cs_claims = [], cs_nextID = 0\<rparr>"

definition claim_id :: "nat \<Rightarrow> string" where
  "claim_id n = ''claim_'' @ show_nat n"

definition nextClaimID :: "InMemoryClaimStore \<Rightarrow> string \<times> InMemoryClaimStore" where
  "nextClaimID s = (let n = cs_nextID s + 1 in (claim_id n, s\<lparr>cs_nextID := n\<rparr>))"

definition evictable :: "int \<Rightarrow> claimEntry \<Rightarrow> bool" where
  "evictable now e \<longleftrightarrow> ce_Status e = claimStatusComplete \<and>
     (ce_LeaseExpiresAt e = 0 \<or> \<not> now < ce_LeaseExpiresAt e)"

definition evictExpiredLocked :: "int \<Rightarrow> InMemoryClaimStore \<Rightarrow> InMemoryClaimStore" where
  "evictExpiredLocked now s =
     s\<lparr>cs_entries := delete_where (\<lambda>key e. evictable now e) (cs_entries s),
       cs_claims := fold (\<lambda>(key, e) claims.
           if evictable now e \<and> ce_ClaimID e \<noteq> [] then AList.delete (ce_ClaimID e) claims else claims)
         (cs_entries s) (cs_claims s)\<rparr>"

text \<open>The refusals of an existing entry, in the order of the \<open>switch\<close>.\<close>

fun claim_refused :: "int \<Rightarrow> claimEntry \<Rightarrow> bool" where
  "claim_refused now e =
     (case ce_Status e of
        claimStatusComplete \<Rightarrow> ce_LeaseExpiresAt e \<noteq> 0 \<and> now < ce_LeaseExpiresAt e
      | claimStatusProcessing \<Rightarrow> now < ce_LeaseExpiresAt e
      | claimStatusRetryReady \<Rightarrow> ce_RetryAt e \<noteq> 0 \<and> now < ce_RetryAt e)"

definition InMemoryClaimStore_Claim ::
  "InMemoryClaimStore option \<Rightarrow> string \<Rightarrow> int \<Rightarrow> int \<Rightarrow> (string \<times> bool \<times> InMemoryClaimStore) result" where
  "InMemoryClaimStore_Claim receiver key lease now =
     (case receiver of None \<Rightarrow> Inl (inboundInternal ''inbound: idempotency store is nil'' []) | Some s \<Rightarrow>
      let key = TrimSpace key in
      if key = [] then Inl (inboundBadInput ''inbound: idempotency key is required'' [])
      else
        let lease = (if lease \<le> 0 then 10 * Minute else lease);
            s = evictExpiredLocked now s
        in (case map_of (cs_entries s) key of
             None \<Rightarrow>
               (case nextClaimID s of
                  (claimID, s) \<Rightarrow>
                    Inr (claimID, True,
                      s\<lparr>cs_entries := AList.update key
                           \<lparr>ce_Key = key, ce_Status = claimStatusProcessing, ce_ClaimID = claimID,
                            ce_Attempts = 1, ce_KeyTTL = lease, ce_LeaseExpiresAt = now + lease,
                            ce_RetryAt = 0\<rparr> (cs_entries s),
                        cs_claims := AList.update claimID key (cs_claims s)\<rparr>))
           | Some entry \<Rightarrow>
               if claim_refused now entry then Inr ([], False, s)
               else
                 let s = (if ce_ClaimID entry \<noteq> []
                          then s\<lparr>cs_claims := AList.delete (ce_ClaimID entry) (cs_claims s)\<rparr> else s)
                 in (case nextClaimID s of
                       (claimID, s) \<Rightarrow>
                         Inr (claimID, True,
                           s\<lparr>cs_entries := AList.update key
                               (entry\<lparr>ce_Status := claimStatusProcessing, ce_ClaimID := claimID,
                                  ce_Attempts := ce_Attempts entry + 1, ce_KeyTTL := lease,
                                  ce_LeaseExpiresAt := now + lease, ce_RetryAt := 0\<rparr>) (cs_entries s),
                             cs_claims := AList.update claimID key (cs_claims s)\<rparr>))))"

text \<open>\<open>Complete\<close> and \<open>Fail\<close> share their guards; \<open>finish\<close> is what each does to the entry.\<close>

definition finish_claim ::
  "(claimEntry \<Rightarrow> claimEntry) \<Rightarrow> InMemoryClaimStore \<Rightarrow> string \<Rightarrow> InMemoryClaimStore result" where
  "finish_claim finish s claimID =
     (let claimID = TrimSpace claimID in
      if claimID = [] then Inl (inboundBadInput ''inbound: claim id is required'' [])
      else case map_of (cs_claims s) claimID of
             None \<Rightarrow> Inr s
           | Some key \<Rightarrow>
               let dropped = s\<lparr>cs_claims := AList.delete claimID (cs_claims s)\<rparr>
               in (case map_of (cs_entries s) key of
                     None \<Rightarrow> Inr dropped
                   | Some entry \<Rightarrow>
                       if ce_ClaimID entry \<noteq> claimID \<or> ce_Status entry \<noteq> claimStatusProcessing
                       then Inr dropped
                       else Inr (dropped\<lparr>cs_entries := AList.update key (finish entry) (cs_entries s)\<rparr>)))"

definition InMemoryClaimStore_Complete ::
  "InMemoryClaimStore option \<Rightarrow> string \<Rightarrow> int \<Rightarrow> InMemoryClaimStore result" where
  "InMemoryClaimStore_Complete receiver claimID now =
     (case receiver of None \<Rightarrow> Inl (inboundInternal ''inbound: idempotency store is nil'' []) | Some s \<Rightarrow>
        finish_claim (\<lambda>entry.
          let ttl = (if ce_KeyTTL entry \<le> 0 then 10 * Minute else ce_KeyTTL entry)
          in entry\<lparr>ce_Status := claimStatusComplete, ce_LeaseExpiresAt := now + ttl, ce_RetryAt := 0\<rparr>)
        s claimID)"

definition InMemoryClaimStore_Fail ::
  "InMemoryClaimStore option \<Rightarrow> string \<Rightarrow> int \<Rightarrow> int \<Rightarrow> InMemoryClaimStore result" where
  "InMemoryClaimStore_Fail receiver claimID retryAt now =
     (case receiver of None \<Rightarrow> Inl (inboundInternal ''inbound: idempotency store is nil'' []) | Some s \<Rightarrow>
        finish_claim (\<lambda>entry.
          let retryAt = (if retryAt = 0 then now else retryAt)
          in entry\<lparr>ce_Status := claimStatusRetryReady, ce_RetryAt := retryAt, ce_LeaseExpiresAt := 0\<rparr>)
        s claimID)"

section \<open>Claim ids\<close>

lemma claim_id_inj [simp]: "claim_id m = claim_id n \<longleftrightarrow> m = n"
  by (metis claim_id_def option.inject parse_show_nat same_append_eq)

lemma claim_id_nonempty [simp]: "claim_id n \<noteq> []"
  by (simp add: claim_id_def)

lemma TrimSpace_claim_id [simp]: "TrimSpace (claim_id n) = claim_id n"
proof (rule TrimSpace_id)
  show "\<forall>c \<in> set (claim_id n). \<not> is_space c"
    using show_nat_digits [of n] is_digit_not_sign by (auto simp: claim_id_def is_space_def)
qed

section \<open>The invariant\<close>

text \<open>
  Every entry carries a claim id of its own, drawn from the counter; an entry being processed is
  found from its claim id.
\<close>

definition claim_inv :: "InMemoryClaimStore \<Rightarrow> bool" where
  "claim_inv s \<longleftrightarrow> gomap_ok (cs_entries s) \<and> gomap_ok (cs_claims s) \<and>
     (\<forall>k e. map_of (cs_entries s) k = Some e \<longrightarrow> (\<exists>n \<le> cs_nextID s. ce_ClaimID e = claim_id n)) \<and>
     (\<forall>c k. map_of (cs_claims s) c = Some k \<longrightarrow> (\<exists>n \<le> cs_nextID s. c = claim_id n)) \<and>
     (\<forall>k e. map_of (cs_entries s) k = Some e \<longrightarrow> ce_Status e = claimStatusProcessing \<longrightarrow>
        map_of (cs_claims s) (ce_ClaimID e) = Some k) \<and>
     (\<forall>k e k' e'. map_of (cs_entries s) k = Some e \<longrightarrow> map_of (cs_entries s) k' = Some e' \<longrightarrow>
        ce_ClaimID e = ce_ClaimID e' \<longrightarrow> k = k')"

lemma claim_invI:
  assumes "gomap_ok (cs_entries s)" and "gomap_ok (cs_claims s)"
    and "\<And>k e. map_of (cs_entries s) k = Some e \<Longrightarrow> \<exists>n \<le> cs_nextID s. ce_ClaimID e = claim_id n"
    and "\<And>c k. map_of (cs_claims s) c = Some k \<Longrightarrow> \<exists>n \<le> cs_nextID s. c = claim_id n"
    and "\<And>k e. map_of (cs_entries s) k = Some e \<Longrightarrow> ce_Status e = claimStatusProcessing \<Longrightarrow>
      map_of (cs_claims s) (ce_ClaimID e) = Some k"
    and "\<And>k e k' e'. map_of (cs_entries s) k = Some e \<Longrightarrow> map_of (cs_entries s) k' = Some e' \<Longrightarrow>
      ce_ClaimID e = ce_ClaimID e' \<Longrightarrow> k = k'"
  shows "claim_inv s"
  unfolding claim_inv_def using assms by blast

lemma claim_invD:
  assumes "claim_inv s"
  shows "gomap_ok (cs_entries s)" and "gomap_ok (cs_claims s)"
    and "map_of (cs_entries s) k = Some e \<Longrightarrow> \<exists>n \<le> cs_nextID s. ce_ClaimID e = claim_id n"
    and "map_of (cs_claims s) c = Some k \<Longrightarrow> \<exists>n \<le> cs_nextID s. c = claim_id n"
    and "map_of (cs_entries s) k = Some e \<Longrightarrow> ce_Status e = claimStatusProcessing \<Longrightarrow>
      map_of (cs_claims s) (ce_ClaimID e) = Some k"
    and "map_of (cs_entries s) k = Some e \<Longrightarrow> map_of (cs_entries s) k' = Some e' \<Longrightarrow>
      ce_ClaimID e = ce_ClaimID e' \<Longrightarrow> k = k'"
  using assms unfolding claim_inv_def by blast+

lemma claim_inv_new: "claim_inv NewInMemoryClaimStore"
  by (simp add: claim_inv_def NewInMemoryClaimStore_def)

definition claim_phase :: "InMemoryClaimStore \<Rightarrow> string \<Rightarrow> int \<Rightarrow> phase" where
  "claim_phase s key now =
     (case map_of (cs_entries s) key of
        None \<Rightarrow> Free
      | Some e \<Rightarrow>
          if \<not> claim_refused now e then Free
          else case ce_Status e of
                 claimStatusProcessing \<Rightarrow> Busy (ce_ClaimID e)
               | claimStatusRetryReady \<Rightarrow> Waiting
               | claimStatusComplete \<Rightarrow> Done)"

definition claim_ttl :: "InMemoryClaimStore \<Rightarrow> string \<Rightarrow> int" where
  "claim_ttl s key =
     (case map_of (cs_entries s) key of
        None \<Rightarrow> 0
      | Some e \<Rightarrow> if ce_KeyTTL e \<le> 0 then 10 * Minute else ce_KeyTTL e)"

subsection \<open>Eviction\<close>

lemma map_of_fold_delete:
  "map_of (fold (\<lambda>(key, e) claims. if P e \<and> f e \<noteq> [] then AList.delete (f e) claims else claims) es cl) c =
     (if \<exists>(key, e) \<in> set es. P e \<and> f e \<noteq> [] \<and> f e = c then None else map_of cl c)"
  by (induction es arbitrary: cl) (auto split: if_splits)

lemma gomap_ok_fold_delete:
  "gomap_ok cl \<Longrightarrow> gomap_ok (fold (\<lambda>(key, e) claims.
     if P e \<and> f e \<noteq> [] then AList.delete (f e) claims else claims) es cl)"
  by (induction es arbitrary: cl) (auto simp: case_prod_beta)

lemma map_of_evict_entries:
  "claim_inv s \<Longrightarrow> map_of (cs_entries (evictExpiredLocked now s)) k =
     (case map_of (cs_entries s) k of None \<Rightarrow> None | Some e \<Rightarrow> if evictable now e then None else Some e)"
  by (simp add: evictExpiredLocked_def claim_inv_def map_of_delete_where)

lemma evict_nextID [simp]: "cs_nextID (evictExpiredLocked now s) = cs_nextID s"
  by (simp add: evictExpiredLocked_def)

text \<open>Eviction only drops claim ids of complete entries, so no entry in processing loses its id.\<close>

lemma map_of_evict_claims:
  assumes inv: "claim_inv s"
  shows "map_of (cs_claims (evictExpiredLocked now s)) c = map_of (cs_claims s) c \<or>
    (map_of (cs_claims (evictExpiredLocked now s)) c = None \<and>
     (\<exists>k e. map_of (cs_entries s) k = Some e \<and> evictable now e \<and> ce_ClaimID e = c))"
proof -
  have ok: "gomap_ok (cs_entries s)" using inv by (simp add: claim_inv_def)
  show ?thesis
    unfolding evictExpiredLocked_def using ok by (auto simp: map_of_fold_delete)
qed

lemma claim_inv_evict:
  assumes inv: "claim_inv s"
  shows "claim_inv (evictExpiredLocked now s)"
proof -
  let ?s = "evictExpiredLocked now s"
  have ent: "map_of (cs_entries s) k = Some e" "\<not> evictable now e"
    if "map_of (cs_entries ?s) k = Some e" for k e
    using that by (auto simp: map_of_evict_entries [OF inv] split: option.splits if_splits)
  have cl: "map_of (cs_claims s) c = Some k" if "map_of (cs_claims ?s) c = Some k" for c k
    using map_of_evict_claims [OF inv, of now c] that by auto
  show ?thesis
  proof (rule claim_invI)
    show "gomap_ok (cs_entries ?s)" "gomap_ok (cs_claims ?s)"
      using claim_invD(1,2) [OF inv] by (simp_all add: evictExpiredLocked_def gomap_ok_fold_delete)
    show "\<exists>n \<le> cs_nextID ?s. ce_ClaimID e = claim_id n" if "map_of (cs_entries ?s) k = Some e" for k e
      using claim_invD(3) [OF inv ent(1) [OF that]] by simp
    show "\<exists>n \<le> cs_nextID ?s. c = claim_id n" if "map_of (cs_claims ?s) c = Some k" for c k
      using claim_invD(4) [OF inv cl [OF that]] by simp
    show "k = k'" if "map_of (cs_entries ?s) k = Some e" "map_of (cs_entries ?s) k' = Some e'"
      "ce_ClaimID e = ce_ClaimID e'" for k e k' e'
      using claim_invD(6) [OF inv ent(1) [OF that(1)] ent(1) [OF that(2)] that(3)] .
    show "map_of (cs_claims ?s) (ce_ClaimID e) = Some k"
      if e: "map_of (cs_entries ?s) k = Some e" "ce_Status e = claimStatusProcessing" for k e
    proof -
      have "\<not> evictable now e'" if "map_of (cs_entries s) k' = Some e'" "ce_ClaimID e' = ce_ClaimID e" for k' e'
        using claim_invD(6) [OF inv that(1) ent(1) [OF e(1)] that(2)] that(1) ent [OF e(1)] by simp
      then have "map_of (cs_claims ?s) (ce_ClaimID e) = map_of (cs_claims s) (ce_ClaimID e)"
        using map_of_evict_claims [OF inv, of now "ce_ClaimID e"] by blast
      with claim_invD(5) [OF inv ent(1) [OF e(1)] e(2)] show ?thesis by simp
    qed
  qed
qed

text \<open>Eviction changes no phase from now on.\<close>

lemma phase_evict: "claim_inv s \<Longrightarrow> now \<le> t \<Longrightarrow> claim_phase (evictExpiredLocked now s) k t = claim_phase s k t"
  by (auto simp: claim_phase_def map_of_evict_entries evictable_def split: option.splits)

subsection \<open>Granting a claim\<close>

lemma fresh_claim_id: "n \<le> N \<Longrightarrow> claim_id n \<noteq> claim_id (Suc N)"
  by simp

lemma claim_inv_grant:
  assumes inv: "claim_inv s" and e: "ce_ClaimID e = claim_id (Suc (cs_nextID s))" and C: "gomap_ok C"
    and drop: "\<And>c. map_of C c = map_of (cs_claims s) c \<or>
      (map_of C c = None \<and> (\<exists>e0. map_of (cs_entries s) key = Some e0 \<and> ce_ClaimID e0 = c))"
  shows "claim_inv \<lparr>cs_entries = AList.update key e (cs_entries s),
    cs_claims = AList.update (claim_id (Suc (cs_nextID s))) key C, cs_nextID = Suc (cs_nextID s)\<rparr>"
    (is "claim_inv ?s")
proof (rule claim_invI)
  have old: "\<exists>n \<le> cs_nextID s. ce_ClaimID x = claim_id n" if "map_of (cs_entries s) k = Some x" for k x
    using claim_invD(3) [OF inv that] .
  show "gomap_ok (cs_entries ?s)" "gomap_ok (cs_claims ?s)"
    using claim_invD(1) [OF inv] C by simp_all
  show "\<exists>n \<le> cs_nextID ?s. ce_ClaimID x = claim_id n" if "map_of (cs_entries ?s) k = Some x" for k x
    using that old [of k x] e by (auto split: if_splits intro: le_SucI)
  show "\<exists>n \<le> cs_nextID ?s. c = claim_id n" if "map_of (cs_claims ?s) c = Some k" for c k
    using that drop [of c] claim_invD(4) [OF inv, of c k] by (auto split: if_splits intro: le_SucI)
  show "map_of (cs_claims ?s) (ce_ClaimID x) = Some k"
    if x: "map_of (cs_entries ?s) k = Some x" "ce_Status x = claimStatusProcessing" for k x
  proof (cases "k = key")
    case True
    with x e show ?thesis by simp
  next
    case False
    with x have kx: "map_of (cs_entries s) k = Some x" by simp
    then have "ce_ClaimID x \<noteq> claim_id (Suc (cs_nextID s))" using old by force
    moreover have "map_of C (ce_ClaimID x) = map_of (cs_claims s) (ce_ClaimID x)"
      using drop [of "ce_ClaimID x"] claim_invD(6) [OF inv _ kx] False by blast
    ultimately show ?thesis using claim_invD(5) [OF inv kx x(2)] by simp
  qed
  show "k = k'" if "map_of (cs_entries ?s) k = Some x" "map_of (cs_entries ?s) k' = Some x'"
    "ce_ClaimID x = ce_ClaimID x'" for k x k' x'
    using that old [of k x] old [of k' x'] e claim_invD(6) [OF inv, of k x k' x']
    by (auto split: if_splits)
qed

text \<open>A granted claim: a new entry in processing with a fresh id, everything else as after eviction.\<close>

lemma Claim_granted:
  assumes inv: "claim_inv s" and key: "TrimSpace key \<noteq> []" and lease: "0 < lease"
    and free: "claim_phase s (TrimSpace key) now = Free"
  obtains e s' where "InMemoryClaimStore_Claim (Some s) key lease now = Inr (ce_ClaimID e, True, s')"
    "claim_inv s'" "ce_ClaimID e = claim_id (Suc (cs_nextID s))"
    "ce_Status e = claimStatusProcessing" "ce_LeaseExpiresAt e = now + lease" "ce_KeyTTL e = lease"
    "map_of (cs_entries s') =
       (map_of (cs_entries (evictExpiredLocked now s)))(TrimSpace key \<mapsto> e)"
proof -
  let ?s = "evictExpiredLocked now s" and ?k = "TrimSpace key"
  let ?id = "claim_id (Suc (cs_nextID s))"
  note inv1 = claim_inv_evict [OF inv, of now]
  show ?thesis
  proof (cases "map_of (cs_entries ?s) ?k")
    case None
    let ?e = "\<lparr>ce_Key = ?k, ce_Status = claimStatusProcessing, ce_ClaimID = ?id, ce_Attempts = 1,
      ce_KeyTTL = lease, ce_LeaseExpiresAt = now + lease, ce_RetryAt = 0\<rparr>"
    show ?thesis
      by (rule that [of ?e "\<lparr>cs_entries = AList.update ?k ?e (cs_entries ?s),
            cs_claims = AList.update ?id ?k (cs_claims ?s), cs_nextID = Suc (cs_nextID s)\<rparr>"])
        (use None key lease claim_inv_grant [OF inv1, of ?e "cs_claims ?s" ?k] claim_invD(2) [OF inv1]
          in \<open>simp_all add: InMemoryClaimStore_Claim_def nextClaimID_def Let_def\<close>)
  next
    case (Some e0)
    have old: "ce_ClaimID e0 \<noteq> []" using claim_invD(3) [OF inv1 Some] by (metis claim_id_nonempty)
    have "claim_phase ?s ?k now = Free" using free phase_evict [OF inv] by simp
    then have ref: "\<not> claim_refused now e0"
      using Some by (auto simp: claim_phase_def split: if_splits claimStatus.splits)
    let ?e = "e0\<lparr>ce_Status := claimStatusProcessing, ce_ClaimID := ?id,
      ce_Attempts := ce_Attempts e0 + 1, ce_KeyTTL := lease,
      ce_LeaseExpiresAt := now + lease, ce_RetryAt := 0\<rparr>"
    let ?C = "AList.delete (ce_ClaimID e0) (cs_claims ?s)"
    have "claim_inv \<lparr>cs_entries = AList.update ?k ?e (cs_entries ?s),
        cs_claims = AList.update ?id ?k ?C, cs_nextID = Suc (cs_nextID ?s)\<rparr>"
      using claim_inv_grant [OF inv1, of ?e ?C ?k] claim_invD(2) [OF inv1] Some by simp
    then show ?thesis
      by (intro that [of ?e "\<lparr>cs_entries = AList.update ?k ?e (cs_entries ?s),
            cs_claims = AList.update ?id ?k ?C, cs_nextID = Suc (cs_nextID s)\<rparr>"])
        (use Some key lease ref old
          in \<open>simp_all add: InMemoryClaimStore_Claim_def nextClaimID_def Let_def\<close>)
  qed
qed

subsection \<open>Finishing a claim\<close>

lemma claim_inv_finish:
  assumes inv: "claim_inv s" and e: "map_of (cs_entries s) key = Some e"
    and fin: "ce_ClaimID (finish e) = ce_ClaimID e" "ce_Status (finish e) \<noteq> claimStatusProcessing"
  shows "claim_inv (s\<lparr>cs_claims := AList.delete (ce_ClaimID e) (cs_claims s),
    cs_entries := AList.update key (finish e) (cs_entries s)\<rparr>)" (is "claim_inv ?s")
proof (rule claim_invI)
  show "gomap_ok (cs_entries ?s)" "gomap_ok (cs_claims ?s)"
    using claim_invD(1,2) [OF inv] by simp_all
  show "\<exists>n \<le> cs_nextID ?s. ce_ClaimID x = claim_id n" if "map_of (cs_entries ?s) k = Some x" for k x
    using that claim_invD(3) [OF inv] e fin by (auto split: if_splits)
  show "\<exists>n \<le> cs_nextID ?s. c = claim_id n" if "map_of (cs_claims ?s) c = Some k" for c k
    using that claim_invD(4) [OF inv] by (auto split: if_splits)
  show "map_of (cs_claims ?s) (ce_ClaimID x) = Some k"
    if x: "map_of (cs_entries ?s) k = Some x" "ce_Status x = claimStatusProcessing" for k x
  proof -
    have "k \<noteq> key" and kx: "map_of (cs_entries s) k = Some x" using x fin by (auto split: if_splits)
    then have "ce_ClaimID x \<noteq> ce_ClaimID e" using claim_invD(6) [OF inv kx e] by blast
    then show ?thesis using claim_invD(5) [OF inv kx x(2)] by simp
  qed
  show "k = k'" if "map_of (cs_entries ?s) k = Some x" "map_of (cs_entries ?s) k' = Some x'"
    "ce_ClaimID x = ce_ClaimID x'" for k x k' x'
    using that e fin claim_invD(6) [OF inv] by (auto split: if_splits)
qed

lemma finish_busy:
  assumes inv: "claim_inv s" and busy: "claim_phase s key now = Busy c"
    and fin: "\<And>e. ce_ClaimID (finish e) = ce_ClaimID e \<and> ce_Status (finish e) \<noteq> claimStatusProcessing"
  obtains e s' where "map_of (cs_entries s) key = Some e" "finish_claim finish s c = Inr s'"
    "claim_inv s'" "map_of (cs_entries s') = (map_of (cs_entries s))(key \<mapsto> finish e)"
proof -
  obtain e where e: "map_of (cs_entries s) key = Some e" "ce_Status e = claimStatusProcessing"
    "ce_ClaimID e = c"
    using busy by (auto simp: claim_phase_def split: option.splits if_splits claimStatus.splits)
  obtain n where n: "c = claim_id n" using claim_invD(3) [OF inv e(1)] e(3) by auto
  have c: "map_of (cs_claims s) c = Some key" using claim_invD(5) [OF inv e(1,2)] e(3) by simp
  show ?thesis
    by (rule that [OF e(1), of "s\<lparr>cs_claims := AList.delete c (cs_claims s),
          cs_entries := AList.update key (finish e) (cs_entries s)\<rparr>"])
      (use c e n claim_inv_finish [OF inv e(1), of finish] fin in \<open>auto simp: finish_claim_def Let_def\<close>)
qed

section \<open>The store implements the interface\<close>

lemma phase_upd:
  "map_of (cs_entries s') = (map_of (cs_entries s))(key \<mapsto> e) \<Longrightarrow> k \<noteq> key \<Longrightarrow>
     claim_phase s' k t = claim_phase s k t"
  by (simp add: claim_phase_def)

interpretation mem: claim_store "\<lambda>s. InMemoryClaimStore_Claim (Some s)"
  "\<lambda>s. InMemoryClaimStore_Complete (Some s)" "\<lambda>s. InMemoryClaimStore_Fail (Some s)" claim_inv claim_phase claim_ttl
proof unfold_locales
  fix s key and lease now :: int
  assume inv: "claim_inv s" and key: "TrimSpace key \<noteq> []" and lease: "0 < lease"
  {
    assume free: "claim_phase s (TrimSpace key) now = Free"
    obtain e s' where r: "InMemoryClaimStore_Claim (Some s) key lease now = Inr (ce_ClaimID e, True, s')"
      "claim_inv s'" "ce_ClaimID e = claim_id (Suc (cs_nextID s))"
      "ce_Status e = claimStatusProcessing" "ce_LeaseExpiresAt e = now + lease" "ce_KeyTTL e = lease"
      "map_of (cs_entries s') = (map_of (cs_entries (evictExpiredLocked now s)))(TrimSpace key \<mapsto> e)"
      using Claim_granted [OF inv key lease free] by metis
    have "claim_phase s' k t = claim_phase s k t" if "k \<noteq> TrimSpace key" "now \<le> t" for k t
      using phase_upd [OF r(7) that(1), of t] phase_evict [OF inv that(2)] by simp
    moreover have "claim_ttl s' (TrimSpace key) = lease" using r lease by (simp add: claim_ttl_def)
    moreover have "claim_phase s' (TrimSpace key) t = Busy (ce_ClaimID e)" if "t < now + lease" for t
      using r that by (simp add: claim_phase_def)
    ultimately show "\<exists>cid s'. InMemoryClaimStore_Claim (Some s) key lease now = Inr (cid, True, s') \<and>
        claim_inv s' \<and> cid \<noteq> [] \<and> claim_ttl s' (TrimSpace key) = lease \<and>
        (\<forall>t. now \<le> t \<longrightarrow> t < now + lease \<longrightarrow> claim_phase s' (TrimSpace key) t = Busy cid) \<and>
        (\<forall>k t. k \<noteq> TrimSpace key \<longrightarrow> now \<le> t \<longrightarrow> claim_phase s' k t = claim_phase s k t)"
      using r by (intro exI [of _ "ce_ClaimID e"] exI [of _ s']) auto
  }
  assume taken: "claim_phase s (TrimSpace key) now \<noteq> Free"
  then have "claim_phase (evictExpiredLocked now s) (TrimSpace key) now \<noteq> Free"
    using phase_evict [OF inv] by simp
  then have "InMemoryClaimStore_Claim (Some s) key lease now = Inr ([], False, evictExpiredLocked now s)"
    using key lease by (auto simp: InMemoryClaimStore_Claim_def claim_phase_def Let_def
        simp del: claim_refused.simps split: option.splits if_splits)
  then show "\<exists>s'. InMemoryClaimStore_Claim (Some s) key lease now = Inr ([], False, s') \<and> claim_inv s' \<and>
      (\<forall>k t. now \<le> t \<longrightarrow> claim_phase s' k t = claim_phase s k t)"
    using claim_inv_evict [OF inv] phase_evict [OF inv] by auto
next
  fix s key cid and now :: int
  assume inv: "claim_inv s" and busy: "claim_phase s key now = Busy cid" and now: "0 \<le> now"
  let ?f = "\<lambda>e. let ttl = (if ce_KeyTTL e \<le> 0 then 10 * Minute else ce_KeyTTL e)
    in e\<lparr>ce_Status := claimStatusComplete, ce_LeaseExpiresAt := now + ttl, ce_RetryAt := 0\<rparr>"
  have fin: "ce_ClaimID (?f e) = ce_ClaimID e \<and> ce_Status (?f e) \<noteq> claimStatusProcessing" for e :: claimEntry
    by (simp add: Let_def)
  obtain e s' where r: "map_of (cs_entries s) key = Some e" "finish_claim ?f s cid = Inr s'" "claim_inv s'"
    "map_of (cs_entries s') = (map_of (cs_entries s))(key \<mapsto> ?f e)"
    by (rule finish_busy [OF inv busy fin]) blast
  have u: "ce_LeaseExpiresAt (?f e) = now + claim_ttl s key" "0 < claim_ttl s key"
    using r(1) by (simp_all add: claim_ttl_def Let_def duration_defs)
  have "claim_phase s' key t = Done" if "t < now + claim_ttl s key" for t
    using r(4) that u now by (simp add: claim_phase_def Let_def split: if_splits)
  then show "\<exists>s'. InMemoryClaimStore_Complete (Some s) cid now = Inr s' \<and> claim_inv s' \<and>
      (\<forall>t. now \<le> t \<longrightarrow> t < now + claim_ttl s key \<longrightarrow> claim_phase s' key t = Done) \<and>
      (\<forall>k t. k \<noteq> key \<longrightarrow> claim_phase s' k t = claim_phase s k t)"
    using r(2,3) phase_upd [OF r(4)]
    by (intro exI [of _ s']) (simp add: InMemoryClaimStore_Complete_def)
next
  fix s key cid and now :: int
  assume inv: "claim_inv s" and busy: "claim_phase s key now = Busy cid"
  let ?f = "\<lambda>e. e\<lparr>ce_Status := claimStatusRetryReady, ce_RetryAt := now, ce_LeaseExpiresAt := 0\<rparr>"
  have fin: "ce_ClaimID (?f e) = ce_ClaimID e \<and> ce_Status (?f e) \<noteq> claimStatusProcessing" for e :: claimEntry
    by simp
  obtain e s' where r: "finish_claim ?f s cid = Inr s'" "claim_inv s'"
    "map_of (cs_entries s') = (map_of (cs_entries s))(key \<mapsto> ?f e)"
    by (rule finish_busy [OF inv busy fin]) blast
  then show "\<exists>s'. InMemoryClaimStore_Fail (Some s) cid 0 now = Inr s' \<and> claim_inv s' \<and>
      (\<forall>t. now \<le> t \<longrightarrow> claim_phase s' key t = Free) \<and>
      (\<forall>k t. k \<noteq> key \<longrightarrow> claim_phase s' k t = claim_phase s k t)"
    using phase_upd [OF r(3)]
    by (intro exI [of _ s']) (simp add: InMemoryClaimStore_Fail_def Let_def claim_phase_def)
qed

text \<open>
  A key is processed by one caller at a time. After a claim of a key was accepted, every other
  claim of it before the lease ends is refused, and the claim id of the refused caller is empty.
\<close>

theorem claim_mutual_exclusion:
  assumes "claim_inv s" and "TrimSpace key \<noteq> []" and "0 < lease" and "0 < lease2"
    and "InMemoryClaimStore_Claim (Some s) key lease now = Inr (cid, True, s1)"
    and "now \<le> t" and "t < now + lease"
  shows "\<exists>s2. InMemoryClaimStore_Claim (Some s1) key lease2 t = Inr ([], False, s2) \<and> claim_inv s2"
  using mem.second_claim_refused [OF assms] .

theorem claim_mutual_exclusion_witness:
  "\<exists>s1 s2. InMemoryClaimStore_Claim (Some NewInMemoryClaimStore) ''k'' 10 5 = Inr (''claim_1'', True, s1) \<and>
     InMemoryClaimStore_Claim (Some s1) ''k'' 10 14 = Inr ([], False, s2)"
proof -
  have k: "TrimSpace ''k'' = ''k''" and i: "claim_id (Suc 0) = ''claim_1''" by code_simp+
  have "\<exists>s1. InMemoryClaimStore_Claim (Some NewInMemoryClaimStore) ''k'' 10 5 = Inr (''claim_1'', True, s1)"
    by (simp add: InMemoryClaimStore_Claim_def k NewInMemoryClaimStore_def evictExpiredLocked_def
        delete_where_def nextClaimID_def i Let_def)
  then show ?thesis using claim_mutual_exclusion [OF claim_inv_new, of "''k''" 10 10 5 "''claim_1''" _ 14] k
    by fastforce
qed

end
