(* ===== verification/Inbound_Dispatcher.thy ===== *)
theory Inbound_Dispatcher
  imports Claim_Store
begin

text \<open>
  \<open>src/inbound/dispatcher.go\<close>, first half: the dispatcher that validates an inbound request,
  verifies it, claims its idempotency key, runs the handler of its surface and records the outcome.
  The verifier, the store and the handlers are fields of the dispatcher, as in the source; a handler
  acts on a world \<open>'w\<close>. A call of \<open>Dispatch\<close> reads the clock of the store twice, when it claims the
  key and when it records the outcome: \<open>now1\<close> and \<open>now2\<close>. What a dispatcher does with the store is
  proved inside the locale \<open>claim_store\<close>.
\<close>

section \<open>Requests, handlers and the dispatcher\<close>

record 'w InboundHandler =
  h_Surface :: string
  h_Handle :: "InboundRequest \<Rightarrow> 'w \<Rightarrow> InboundResult result \<times> 'w"

text \<open>\<open>core.IdempotencyClaimStore\<close> over the state \<open>'s\<close> of a store.\<close>

record 's IdempotencyClaimStore =
  so_Claim :: "'s \<Rightarrow> string \<Rightarrow> int \<Rightarrow> int \<Rightarrow> (string \<times> bool \<times> 's) result"
  so_Complete :: "'s \<Rightarrow> string \<Rightarrow> int \<Rightarrow> 's result"
  so_Fail :: "'s \<Rightarrow> string \<Rightarrow> int \<Rightarrow> int \<Rightarrow> 's result"

record ('s, 'w) Dispatcher =
  d_Verifier :: "(InboundRequest \<Rightarrow> goerr option) option"
  d_Store :: "'s IdempotencyClaimStore option"
  d_ExtractKey :: "(InboundRequest \<Rightarrow> string result) option"
  d_KeyTTL :: int
  d_handlers :: "(string, 'w InboundHandler) gomap"

abbreviation "SurfaceWebhook \<equiv> ''webhook''"
abbreviation "SurfaceCommand \<equiv> ''command''"
abbreviation "SurfaceInteraction \<equiv> ''interaction''"
abbreviation "SurfaceEventCallback \<equiv> ''event_callback''"

definition normalizeSurface :: "string \<Rightarrow> string" where
  "normalizeSurface surface = TrimSpace (ToLower surface)"

definition isSupportedSurface :: "string \<Rightarrow> bool" where
  "isSupportedSurface surface \<longleftrightarrow>
     normalizeSurface surface \<in> {SurfaceWebhook, SurfaceCommand, SurfaceInteraction, SurfaceEventCallback}"

definition trimAny :: "(int \<Rightarrow> int \<Rightarrow> string) \<Rightarrow> any \<Rightarrow> string" where
  "trimAny ff value = (if value = ANil then [] else TrimSpace (Sprint ff value))"

definition DefaultIdempotencyKeyExtractor ::
  "(int \<Rightarrow> int \<Rightarrow> string) \<Rightarrow> InboundRequest \<Rightarrow> string result" where
  "DefaultIdempotencyKeyExtractor ff req =
     (let m = (\<lambda>k. trimAny ff (meta_get (ir_Metadata req) k)); h = headerValue (ir_Headers req) in
      if m ''idempotency_key'' \<noteq> [] then Inr (m ''idempotency_key'')
      else if m ''delivery_id'' \<noteq> [] then Inr (m ''delivery_id'')
      else if m ''message_id'' \<noteq> [] then Inr (m ''message_id'')
      else if h ''idempotency-key'' \<noteq> [] then Inr (h ''idempotency-key'')
      else if h ''x-idempotency-key'' \<noteq> [] then Inr (h ''x-idempotency-key'')
      else if h ''x-message-id'' \<noteq> [] then Inr (h ''x-message-id'')
      else Inl (inboundBadInput ''inbound: idempotency key is required''
             [(''provider_id'', AStr (ir_ProviderID req)), (''surface'', AStr (ir_Surface req))]))"

definition NewDispatcher ::
  "(int \<Rightarrow> int \<Rightarrow> string) \<Rightarrow> (InboundRequest \<Rightarrow> goerr option) option \<Rightarrow>
     's IdempotencyClaimStore option \<Rightarrow> ('s, 'w) Dispatcher" where
  "NewDispatcher ff verifier store =
     \<lparr>d_Verifier = verifier, d_Store = store, d_ExtractKey = Some (DefaultIdempotencyKeyExtractor ff),
      d_KeyTTL = 10 * Minute, d_handlers = []\<rparr>"

definition Dispatcher_Register ::
  "('s, 'w) Dispatcher option \<Rightarrow> 'w InboundHandler option \<Rightarrow> ('s, 'w) Dispatcher result" where
  "Dispatcher_Register receiver handler =
     (case receiver of None \<Rightarrow> Inl (inboundInternal ''inbound: dispatcher is nil'' []) | Some d \<Rightarrow>
     (case handler of None \<Rightarrow> Inl (inboundBadInput ''inbound: handler is nil'' []) | Some handler \<Rightarrow>
      let surface = normalizeSurface (h_Surface handler) in
      if \<not> isSupportedSurface surface
      then Inl (inboundBadInput (''inbound: unsupported surface '' @ quote surface) [(''surface'', AStr surface)])
      else case map_of (d_handlers d) surface of
             Some _ \<Rightarrow>
               Inl (inboundError (''inbound: handler already registered for surface '' @ quote surface)
                      CategoryConflict StatusConflict ServiceErrorConflict [(''surface'', AStr surface)])
           | None \<Rightarrow> Inr (d\<lparr>d_handlers := AList.update surface handler (d_handlers d)\<rparr>)))"

definition keyTTL :: "('s, 'w) Dispatcher \<Rightarrow> int" where
  "keyTTL d = (if d_KeyTTL d > 0 then d_KeyTTL d else 10 * Minute)"

definition handlerFor :: "('s, 'w) Dispatcher \<Rightarrow> string \<Rightarrow> 'w InboundHandler option" where
  "handlerFor d surface = map_of (d_handlers d) (normalizeSurface surface)"

section \<open>Dispatch\<close>

type_synonym ('s, 'w) dispatch_out = "(InboundResult \<times> goerr option) \<times> 's \<times> 'w"

definition req_meta :: "InboundRequest \<Rightarrow> meta" where
  "req_meta req = [(''provider_id'', AStr (ir_ProviderID req)), (''surface'', AStr (ir_Surface req))]"

text \<open>\<open>if d.Store != nil && claimID != ""\<close> the claim is failed; the error of that call is joined to \<open>err\<close>.\<close>

definition fail_claim ::
  "('s, 'w) Dispatcher \<Rightarrow> string \<Rightarrow> InboundRequest \<Rightarrow> goerr \<Rightarrow> int \<Rightarrow> 's \<Rightarrow> goerr \<times> 's" where
  "fail_claim d claimID req err now s =
     (case d_Store d of
        None \<Rightarrow> (err, s)
      | Some store \<Rightarrow>
          if claimID = [] then (err, s)
          else case so_Fail store s claimID 0 now of
                 Inr s' \<Rightarrow> (err, s')
               | Inl failErr \<Rightarrow>
                   (Joined [err, inboundWrapError (Some failErr) CategoryOperation
                      ''inbound: mark idempotency claim failed'' StatusInternalServerError ServiceErrorInternal
                      (req_meta req @ [(''claim_id'', AStr claimID)])], s))"

text \<open>The part of \<open>Dispatch\<close> after the claim: the handler and the recording of its outcome.\<close>

definition dispatch_handler ::
  "('s, 'w) Dispatcher \<Rightarrow> string \<Rightarrow> InboundRequest \<Rightarrow> int \<Rightarrow> 's \<Rightarrow> 'w \<Rightarrow> ('s, 'w) dispatch_out" where
  "dispatch_handler d claimID req now s w =
     (case handlerFor d (ir_Surface req) of
        None \<Rightarrow>
          ((empty_result, Some (inboundError
             (''inbound: no handler registered for surface '' @ quote (ir_Surface req))
             CategoryNotFound StatusNotFound ServiceErrorNotFound (req_meta req))), s, w)
      | Some handler \<Rightarrow>
          (case h_Handle handler req w of
             (Inl err, w) \<Rightarrow>
               let handlerErr = inboundWrapError (Some err) CategoryOperation
                     ''inbound: handler execution failed'' StatusBadGateway ServiceErrorOperationFailed (req_meta req)
               in (case fail_claim d claimID req handlerErr now s of
                     (err, s) \<Rightarrow> ((empty_result, Some err), s, w))
           | (Inr result, w) \<Rightarrow>
               if \<not> res_Accepted result \<or> res_StatusCode result \<ge> StatusInternalServerError
               then
                 let retryErr = inboundError
                       (''inbound: handler returned retryable status '' @ Itoa (res_StatusCode result))
                       CategoryOperation StatusBadGateway ServiceErrorOperationFailed
                       (req_meta req @ [(''status_code'', AInt (res_StatusCode result))])
                 in (case fail_claim d claimID req retryErr now s of
                       (err, s) \<Rightarrow> ((result, Some err), s, w))
               else
                 let answer = result\<lparr>res_Metadata :=
                       AList.update ''surface'' (AStr (ir_Surface req))
                         (AList.update ''provider_id'' (AStr (ir_ProviderID req))
                           (ensureMetadata (res_Metadata result)))\<rparr>
                 in (case d_Store d of
                       None \<Rightarrow> ((answer, None), s, w)
                     | Some store \<Rightarrow>
                         if claimID = [] then ((answer, None), s, w)
                         else case so_Complete store s claimID now of
                                Inr s' \<Rightarrow> ((answer, None), s', w)
                              | Inl err \<Rightarrow>
                                  ((empty_result, Some (inboundWrapError (Some err) CategoryOperation
                                     ''inbound: complete idempotency claim'' StatusInternalServerError
                                     ServiceErrorOperationFailed
                                     (req_meta req @ [(''claim_id'', AStr claimID)]))), s, w))))"

definition deduped_result :: "InboundRequest \<Rightarrow> InboundResult" where
  "deduped_result req =
     \<lparr>res_Accepted = True, res_StatusCode = StatusOK,
      res_Metadata = req_meta req @ [(''deduped'', ABool True)]\<rparr>"

definition claim_key :: "InboundRequest \<Rightarrow> string \<Rightarrow> string" where
  "claim_key req key = ir_ProviderID req @ '':'' @ ir_Surface req @ '':'' @ key"

definition dispatch_claim ::
  "(int \<Rightarrow> int \<Rightarrow> string) \<Rightarrow> ('s, 'w) Dispatcher \<Rightarrow> InboundRequest \<Rightarrow> int \<Rightarrow> int \<Rightarrow> 's \<Rightarrow> 'w \<Rightarrow>
     ('s, 'w) dispatch_out" where
  "dispatch_claim ff d req now1 now2 s w =
     (case d_Store d of
        None \<Rightarrow> dispatch_handler d [] req now2 s w
      | Some store \<Rightarrow>
          let extractor = (case d_ExtractKey d of None \<Rightarrow> DefaultIdempotencyKeyExtractor ff | Some f \<Rightarrow> f) in
          (case extractor req of
             Inl err \<Rightarrow>
               ((empty_result, Some (inboundWrapError (Some err) CategoryBadInput
                  ''inbound: resolve idempotency key'' StatusBadRequest ServiceErrorBadInput (req_meta req))), s, w)
           | Inr key \<Rightarrow>
               (case so_Claim store s (claim_key req key) (keyTTL d) now1 of
                  Inl err \<Rightarrow>
                    ((empty_result, Some (inboundWrapError (Some err) CategoryOperation
                       ''inbound: idempotency claim failed'' StatusInternalServerError ServiceErrorOperationFailed
                       (req_meta req @ [(''idempotency'', AStr key)]))), s, w)
                | Inr (claimID, accepted, s) \<Rightarrow>
                    if \<not> accepted
                    then ((deduped_result req, None), s, w)
                    else dispatch_handler d claimID req now2 s w)))"

definition normalize_request :: "InboundRequest \<Rightarrow> InboundRequest" where
  "normalize_request req =
     req\<lparr>ir_ProviderID := TrimSpace (ir_ProviderID req), ir_Surface := normalizeSurface (ir_Surface req)\<rparr>"

definition Dispatcher_Dispatch ::
  "(int \<Rightarrow> int \<Rightarrow> string) \<Rightarrow> ('s, 'w) Dispatcher option \<Rightarrow> InboundRequest \<Rightarrow> int \<Rightarrow> int \<Rightarrow> 's \<times> 'w \<Rightarrow>
     ('s, 'w) dispatch_out" where
  "Dispatcher_Dispatch ff receiver req now1 now2 sw =
     (let s = fst sw; w = snd sw in
      case receiver of
        None \<Rightarrow> ((empty_result, Some (inboundInternal ''inbound: dispatcher is nil'' [])), s, w)
      | Some d \<Rightarrow>
          let req = normalize_request req in
          if ir_ProviderID req = []
          then ((empty_result, Some (inboundBadInput ''inbound: provider id is required''
                  [(''surface'', AStr (ir_Surface req))])), s, w)
          else if \<not> isSupportedSurface (ir_Surface req)
          then ((empty_result, Some (inboundBadInput
                  (''inbound: unsupported surface '' @ quote (ir_Surface req)) (req_meta req))), s, w)
          else
            (case (case d_Verifier d of None \<Rightarrow> None | Some verify \<Rightarrow> verify req) of
               Some err \<Rightarrow>
                 ((\<lparr>res_Accepted = False, res_StatusCode = StatusUnauthorized,
                    res_Metadata = req_meta req @ [(''rejected'', ABool True)]\<rparr>,
                   Some (inboundWrapError (Some err) CategoryAuth ''inbound: request verification failed''
                     StatusUnauthorized ServiceErrorUnauthorized (req_meta req))), s, w)
             | None \<Rightarrow> dispatch_claim ff d req now1 now2 s w))"

section \<open>Requests that reach the store\<close>

text \<open>
  \<open>admits ff d req key\<close>: the request passes validation and verification, and \<open>key\<close> is the store
  key it claims.
\<close>

definition admits ::
  "(int \<Rightarrow> int \<Rightarrow> string) \<Rightarrow> ('s, 'w) Dispatcher \<Rightarrow> InboundRequest \<Rightarrow> string \<Rightarrow> bool" where
  "admits ff d req key =
     (let r = normalize_request req;
          extractor = (case d_ExtractKey d of None \<Rightarrow> DefaultIdempotencyKeyExtractor ff | Some f \<Rightarrow> f)
      in ir_ProviderID r \<noteq> [] \<and> isSupportedSurface (ir_Surface r) \<and>
         (case d_Verifier d of None \<Rightarrow> True | Some verify \<Rightarrow> verify r = None) \<and>
         (case extractor r of Inl _ \<Rightarrow> False | Inr k \<Rightarrow> key = TrimSpace (claim_key r k)))"

text \<open>\<open>handled d req w out\<close>: the handler of the request's surface, run in \<open>w\<close>, returns \<open>out\<close>.\<close>

definition handled ::
  "('s, 'w) Dispatcher \<Rightarrow> InboundRequest \<Rightarrow> 'w \<Rightarrow> InboundResult result \<times> 'w \<Rightarrow> bool" where
  "handled d req w out =
     (case handlerFor d (ir_Surface (normalize_request req)) of
        None \<Rightarrow> False
      | Some h \<Rightarrow> h_Handle h (normalize_request req) w = out)"

fun retryable :: "InboundResult result \<Rightarrow> bool" where
  "retryable (Inl _) = True"
| "retryable (Inr r) = (\<not> res_Accepted r \<or> res_StatusCode r \<ge> StatusInternalServerError)"

lemma keyTTL_pos [simp]: "0 < keyTTL d"
  by (simp add: keyTTL_def duration_defs)

lemma claim_key_nonblank [simp]: "TrimSpace (claim_key r k) \<noteq> []"
  unfolding TrimSpace_eq_Nil_iff claim_key_def by (auto simp: is_space_def)

lemma dispatch_admitted:
  assumes "admits ff d req key"
  obtains k where "key = TrimSpace (claim_key (normalize_request req) k)"
    and "\<And>store s w. d_Store d = Some store \<Longrightarrow>
      Dispatcher_Dispatch ff (Some d) req now1 now2 (s, w) =
        (case so_Claim store s (claim_key (normalize_request req) k) (keyTTL d) now1 of
           Inl err \<Rightarrow> Dispatcher_Dispatch ff (Some d) req now1 now2 (s, w)
         | Inr (claimID, accepted, s1) \<Rightarrow>
             if accepted then dispatch_handler d claimID (normalize_request req) now2 s1 w
             else ((deduped_result (normalize_request req), None), s1, w))"
  using assms
  by (auto simp: admits_def Dispatcher_Dispatch_def dispatch_claim_def Let_def
      split: option.splits sum.splits prod.splits if_splits)

section \<open>The dispatcher over a claim store\<close>

context claim_store
begin

lemma dispatch_duplicate:
  assumes adm: "admits ff d req key"
    and store: "d_Store d = Some \<lparr>so_Claim = claim, so_Complete = complete, so_Fail = fail\<rparr>"
    and inv: "inv s" and taken: "phase_of s key now1 \<noteq> Free"
  shows "\<exists>s'. Dispatcher_Dispatch ff (Some d) req now1 now2 (s, w) =
      ((deduped_result (normalize_request req), None), s', w) \<and> inv s' \<and>
      (\<forall>k t. now1 \<le> t \<longrightarrow> phase_of s' k t = phase_of s k t)"
proof -
  obtain k where key: "key = TrimSpace (claim_key (normalize_request req) k)"
    and D: "\<And>store s w. d_Store d = Some store \<Longrightarrow>
      Dispatcher_Dispatch ff (Some d) req now1 now2 (s, w) =
        (case so_Claim store s (claim_key (normalize_request req) k) (keyTTL d) now1 of
           Inl err \<Rightarrow> Dispatcher_Dispatch ff (Some d) req now1 now2 (s, w)
         | Inr (claimID, accepted, s1) \<Rightarrow>
             if accepted then dispatch_handler d claimID (normalize_request req) now2 s1 w
             else ((deduped_result (normalize_request req), None), s1, w))"
    using dispatch_admitted [OF adm] by blast
  obtain s' where "claim s (claim_key (normalize_request req) k) (keyTTL d) now1 = Inr ([], False, s')"
    "inv s'" "\<forall>k t. now1 \<le> t \<longrightarrow> phase_of s' k t = phase_of s k t"
    using claim_taken [OF inv claim_key_nonblank keyTTL_pos] taken key by blast
  then show ?thesis using D [OF store, of s w] by simp
qed

text \<open>An accepted claim: what the store holds when the handler starts.\<close>

lemma dispatch_granted:
  assumes adm: "admits ff d req key"
    and store: "d_Store d = Some \<lparr>so_Claim = claim, so_Complete = complete, so_Fail = fail\<rparr>"
    and inv: "inv s" and free: "phase_of s key now1 = Free"
  obtains cid s1 where "Dispatcher_Dispatch ff (Some d) req now1 now2 (s, w) =
      dispatch_handler d cid (normalize_request req) now2 s1 w"
    "inv s1" "cid \<noteq> []" "ttl_of s1 key = keyTTL d"
    "\<And>t. now1 \<le> t \<Longrightarrow> t < now1 + keyTTL d \<Longrightarrow> phase_of s1 key t = Busy cid"
    "\<And>k t. k \<noteq> key \<Longrightarrow> now1 \<le> t \<Longrightarrow> phase_of s1 k t = phase_of s k t"
proof -
  obtain k where key: "key = TrimSpace (claim_key (normalize_request req) k)"
    and D: "\<And>store s w. d_Store d = Some store \<Longrightarrow>
      Dispatcher_Dispatch ff (Some d) req now1 now2 (s, w) =
        (case so_Claim store s (claim_key (normalize_request req) k) (keyTTL d) now1 of
           Inl err \<Rightarrow> Dispatcher_Dispatch ff (Some d) req now1 now2 (s, w)
         | Inr (claimID, accepted, s1) \<Rightarrow>
             if accepted then dispatch_handler d claimID (normalize_request req) now2 s1 w
             else ((deduped_result (normalize_request req), None), s1, w))"
    using dispatch_admitted [OF adm] by blast
  obtain cid s1 where c: "claim s (claim_key (normalize_request req) k) (keyTTL d) now1 = Inr (cid, True, s1)"
    "inv s1" "cid \<noteq> []" "ttl_of s1 key = keyTTL d"
    "\<forall>t. now1 \<le> t \<longrightarrow> t < now1 + keyTTL d \<longrightarrow> phase_of s1 key t = Busy cid"
    "\<forall>k t. k \<noteq> key \<longrightarrow> now1 \<le> t \<longrightarrow> phase_of s1 k t = phase_of s k t"
    using claim_free [OF inv claim_key_nonblank keyTTL_pos] free key by blast
  show ?thesis
    by (rule that [of cid s1]) (use c D [OF store, of s w] in auto)
qed

lemma dispatch_success:
  assumes adm: "admits ff d req key"
    and store: "d_Store d = Some \<lparr>so_Claim = claim, so_Complete = complete, so_Fail = fail\<rparr>"
    and inv: "inv s" and free: "phase_of s key now1 = Free"
    and run: "handled d req w (out, w')" and ok: "\<not> retryable out"
    and time: "0 \<le> now1" "now1 \<le> now2" "now2 < now1 + keyTTL d"
  shows "\<exists>result s'. Dispatcher_Dispatch ff (Some d) req now1 now2 (s, w) = ((result, None), s', w') \<and>
      res_Accepted result \<and> inv s' \<and>
      (\<forall>t. now2 \<le> t \<longrightarrow> t < now2 + keyTTL d \<longrightarrow> phase_of s' key t = Done)"
proof -
  obtain cid s1 where D: "Dispatcher_Dispatch ff (Some d) req now1 now2 (s, w) =
      dispatch_handler d cid (normalize_request req) now2 s1 w"
    "inv s1" "cid \<noteq> []" "ttl_of s1 key = keyTTL d" "phase_of s1 key now2 = Busy cid"
    using dispatch_granted [OF adm store inv free] time(2,3) by metis
  obtain s' where C: "complete s1 cid now2 = Inr s'" "inv s'"
    "\<forall>t. now2 \<le> t \<longrightarrow> t < now2 + keyTTL d \<longrightarrow> phase_of s' key t = Done"
    using complete_busy [OF D(2,5)] D(4) time by auto
  have "\<exists>result. dispatch_handler d cid (normalize_request req) now2 s1 w = ((result, None), s', w') \<and>
      res_Accepted result"
    using run ok store C(1) D(3)
    by (cases out) (auto simp: handled_def dispatch_handler_def Let_def split: option.splits)
  then show ?thesis using C D(1) by auto
qed

lemma dispatch_failure:
  assumes adm: "admits ff d req key"
    and store: "d_Store d = Some \<lparr>so_Claim = claim, so_Complete = complete, so_Fail = fail\<rparr>"
    and inv: "inv s" and free: "phase_of s key now1 = Free"
    and run: "handled d req w (out, w')" and bad: "retryable out"
    and time: "now1 \<le> now2" "now2 < now1 + keyTTL d"
  shows "\<exists>result err s'. Dispatcher_Dispatch ff (Some d) req now1 now2 (s, w) = ((result, Some err), s', w') \<and>
      inv s' \<and> (\<forall>t. now2 \<le> t \<longrightarrow> phase_of s' key t = Free)"
proof -
  obtain cid s1 where D: "Dispatcher_Dispatch ff (Some d) req now1 now2 (s, w) =
      dispatch_handler d cid (normalize_request req) now2 s1 w"
    "inv s1" "cid \<noteq> []" "phase_of s1 key now2 = Busy cid"
    using dispatch_granted [OF adm store inv free] time by metis
  obtain s' where F: "fail s1 cid 0 now2 = Inr s'" "inv s'" "\<forall>t. now2 \<le> t \<longrightarrow> phase_of s' key t = Free"
    using fail_busy [OF D(2,4)] by auto
  have "\<exists>result err. dispatch_handler d cid (normalize_request req) now2 s1 w = ((result, Some err), s', w')"
    using run bad store F(1) D(3)
    by (cases out) (auto simp: handled_def dispatch_handler_def fail_claim_def Let_def split: option.splits)
  then show ?thesis using F D(1) by auto
qed

lemma dispatch_unroutable:
  assumes adm: "admits ff d req key"
    and store: "d_Store d = Some \<lparr>so_Claim = claim, so_Complete = complete, so_Fail = fail\<rparr>"
    and inv: "inv s" and free: "phase_of s key now1 = Free"
    and none: "handlerFor d (ir_Surface (normalize_request req)) = None"
  shows "\<exists>err s'. Dispatcher_Dispatch ff (Some d) req now1 now2 (s, w) = ((empty_result, Some err), s', w) \<and>
      inv s' \<and> (\<forall>t. now1 \<le> t \<longrightarrow> t < now1 + keyTTL d \<longrightarrow> phase_of s' key t \<noteq> Free)"
proof -
  obtain cid s1 where D: "Dispatcher_Dispatch ff (Some d) req now1 now2 (s, w) =
      dispatch_handler d cid (normalize_request req) now2 s1 w" "inv s1"
    "\<And>t. now1 \<le> t \<Longrightarrow> t < now1 + keyTTL d \<Longrightarrow> phase_of s1 key t = Busy cid"
    using dispatch_granted [OF adm store inv free] by metis
  then show ?thesis using none by (simp add: dispatch_handler_def)
qed

end

section \<open>The dispatcher over the in-memory store\<close>

definition mem_store :: "InMemoryClaimStore IdempotencyClaimStore" where
  "mem_store =
     \<lparr>so_Claim = (\<lambda>s. InMemoryClaimStore_Claim (Some s)), so_Complete = (\<lambda>s. InMemoryClaimStore_Complete (Some s)),
      so_Fail = (\<lambda>s. InMemoryClaimStore_Fail (Some s))\<rparr>"

text \<open>A dispatcher with one command handler, which counts its runs, fails on an empty body and
  accepts everything else.\<close>

definition sample_handler :: "nat InboundHandler" where
  "sample_handler =
     \<lparr>h_Surface = '' Command'',
      h_Handle = (\<lambda>req w. (if ir_Body req = [] then Inl (Plain ''empty body'')
         else Inr \<lparr>res_Accepted = True, res_StatusCode = StatusAccepted, res_Metadata = []\<rparr>, Suc w))\<rparr>"

definition sample_dispatcher :: "(InMemoryClaimStore, nat) Dispatcher" where
  "sample_dispatcher = (NewDispatcher (\<lambda>m e. []) None (Some mem_store))
     \<lparr>d_handlers := [(SurfaceCommand, sample_handler)]\<rparr>"

definition sample_request :: "string \<Rightarrow> InboundRequest" where
  "sample_request body =
     \<lparr>ir_ProviderID = ''shopify '', ir_Surface = ''COMMAND'', ir_Headers = [(''X-Message-Id'', ''m1'')],
      ir_Body = body, ir_Metadata = []\<rparr>"

lemma claim_phase_new [simp]: "claim_phase NewInMemoryClaimStore key t = Free"
  by (simp add: claim_phase_def NewInMemoryClaimStore_def)

lemma sample_surface [simp]:
  "normalizeSurface ''COMMAND'' = ''command''" "normalizeSurface ''command'' = ''command''"
  "normalizeSurface '' Command'' = ''command''"
  by code_simp+

lemma sample_key:
  "TrimSpace ''shopify '' = ''shopify''" "headerValue [(''X-Message-Id'', ''m1'')] ''idempotency-key'' = []"
  "headerValue [(''X-Message-Id'', ''m1'')] ''x-idempotency-key'' = []"
  "headerValue [(''X-Message-Id'', ''m1'')] ''x-message-id'' = ''m1''"
  "TrimSpace ''shopify:command:m1'' = ''shopify:command:m1''"
  by code_simp+

lemma sample_admits:
  "admits (\<lambda>m e. []) (sample_dispatcher\<lparr>d_handlers := hs\<rparr>) (sample_request body) ''shopify:command:m1''"
  by (simp add: admits_def sample_dispatcher_def NewDispatcher_def sample_request_def Let_def
      DefaultIdempotencyKeyExtractor_def trimAny_def meta_get_def normalize_request_def
      isSupportedSurface_def claim_key_def sample_key del: headerValue.simps)

lemma sample_admits_same: "admits (\<lambda>m e. []) sample_dispatcher (sample_request body) ''shopify:command:m1''"
  using sample_admits [of "d_handlers sample_dispatcher" body] by simp

lemma sample_handled:
  "handled sample_dispatcher (sample_request body) w
     (if body = [] then Inl (Plain ''empty body'')
      else Inr \<lparr>res_Accepted = True, res_StatusCode = StatusAccepted, res_Metadata = []\<rparr>, Suc w)"
  by (simp add: handled_def sample_dispatcher_def handlerFor_def sample_handler_def sample_request_def
      normalize_request_def)

lemma sample_store: "d_Store sample_dispatcher = Some mem_store" "keyTTL sample_dispatcher = 600000000000"
  by (simp_all add: sample_dispatcher_def NewDispatcher_def keyTTL_def duration_defs)

text \<open>
  C1: Once a request was processed, its redeliveries are not. Let a request whose key is free be
  dispatched, its handler accept it, and the outcome be recorded within the lease. Then any request
  that carries the same key, arriving within the key's time to live after that, is answered 200 with
  the \<open>deduped\<close> mark, and no handler runs (the world is unchanged).
\<close>

theorem inbound_processed_once:
  assumes inv: "claim_inv s" and store: "d_Store d = Some mem_store"
    and req: "admits ff d req key" and again: "admits ff d req2 key"
    and free: "claim_phase s key now1 = Free"
    and run: "handled d req w (out, w')" and ok: "\<not> retryable out"
    and time: "0 \<le> now1" "now1 \<le> now2" "now2 < now1 + keyTTL d" "now2 \<le> t" "t < now2 + keyTTL d"
  shows "\<exists>result s1 s2. Dispatcher_Dispatch ff (Some d) req now1 now2 (s, w) = ((result, None), s1, w') \<and>
    res_Accepted result \<and>
    Dispatcher_Dispatch ff (Some d) req2 t t2 (s1, w2) =
      ((deduped_result (normalize_request req2), None), s2, w2)"
proof -
  note st = store [unfolded mem_store_def]
  obtain result s1 where 1: "Dispatcher_Dispatch ff (Some d) req now1 now2 (s, w) = ((result, None), s1, w')"
    "res_Accepted result" "claim_inv s1" "claim_phase s1 key t = Done"
    using mem.dispatch_success [OF req st inv free run ok time(1-3)] time(4,5) by blast
  then have "claim_phase s1 key t \<noteq> Free" by simp
  from mem.dispatch_duplicate [OF again st 1(3) this, of t2 w2] 1(1,2) show ?thesis by blast
qed

theorem inbound_processed_once_witness:
  "\<exists>result s1 s2.
    Dispatcher_Dispatch (\<lambda>m e. []) (Some sample_dispatcher) (sample_request ''hi'') 5 7 (NewInMemoryClaimStore, 0) =
      ((result, None), s1, 1) \<and> res_Accepted result \<and>
    Dispatcher_Dispatch (\<lambda>m e. []) (Some sample_dispatcher) (sample_request ''again'') 8 9 (s1, 1) =
      ((deduped_result (normalize_request (sample_request ''again'')), None), s2, 1)"
  using inbound_processed_once [OF claim_inv_new sample_store(1) sample_admits_same sample_admits_same
      claim_phase_new sample_handled [of "''hi''" 0], of 5 7 8 "''again''" 9 1]
  by (simp add: sample_store)

text \<open>
  A failed request can be redelivered. Let the handler of a dispatched request return an error,
  not accept, or answer with a status of 500 or more. Then \<open>Dispatch\<close> reports an error, and the next
  delivery with the same key, however soon, runs the handler again; if that run succeeds, so does
  the delivery.
\<close>

theorem inbound_failure_redelivered:
  assumes inv: "claim_inv s" and store: "d_Store d = Some mem_store"
    and req: "admits ff d req key" and again: "admits ff d req2 key"
    and free: "claim_phase s key now1 = Free"
    and run: "handled d req w (out, w')" and bad: "retryable out"
    and time: "0 \<le> now1" "now1 \<le> now2" "now2 < now1 + keyTTL d" "now2 \<le> t" "t \<le> t2" "t2 < t + keyTTL d"
    and run2: "handled d req2 w2 (out2, w3)" and ok: "\<not> retryable out2"
  shows "\<exists>result err s1 result2 s2.
    Dispatcher_Dispatch ff (Some d) req now1 now2 (s, w) = ((result, Some err), s1, w') \<and>
    Dispatcher_Dispatch ff (Some d) req2 t t2 (s1, w2) = ((result2, None), s2, w3) \<and> res_Accepted result2"
proof -
  note st = store [unfolded mem_store_def]
  obtain result err s1 where 1: "Dispatcher_Dispatch ff (Some d) req now1 now2 (s, w) = ((result, Some err), s1, w')"
    "claim_inv s1" "claim_phase s1 key t = Free"
    using mem.dispatch_failure [OF req st inv free run bad time(2,3)] time(4) by blast
  from mem.dispatch_success [OF again st 1(2,3) run2 ok _ time(5,6)] time 1(1) show ?thesis by fastforce
qed

theorem inbound_failure_redelivered_witness:
  "\<exists>result err s1 result2 s2.
    Dispatcher_Dispatch (\<lambda>m e. []) (Some sample_dispatcher) (sample_request []) 5 7 (NewInMemoryClaimStore, 0) =
      ((result, Some err), s1, 1) \<and>
    Dispatcher_Dispatch (\<lambda>m e. []) (Some sample_dispatcher) (sample_request ''again'') 7 9 (s1, 1) =
      ((result2, None), s2, 2) \<and> res_Accepted result2"
  using inbound_failure_redelivered [OF claim_inv_new sample_store(1) sample_admits_same sample_admits_same
      claim_phase_new sample_handled [of "[]" 0] _ _ _ _ _ _ _ sample_handled [of "''again''" 1], of 5 7 7 9]
  by (simp add: sample_store numeral_2_eq_2)

text \<open>
  A request of a surface that has no handler is refused with an error, but its claim is neither
  completed nor failed: until the lease ends, a redelivery of it is answered 200 with the \<open>deduped\<close>
  mark and its handler is not run, even when the handler was registered in between.
\<close>

theorem inbound_unroutable_swallowed:
  assumes inv: "claim_inv s" and store: "d_Store d = Some mem_store" and req: "admits ff d req key"
    and free: "claim_phase s key now1 = Free"
    and none: "handlerFor d (ir_Surface (normalize_request req)) = None"
    and reg: "Dispatcher_Register (Some d) (Some h) = Inr d'"
    and time: "now1 \<le> t" "t < now1 + keyTTL d"
  shows "\<exists>err s1 s2. Dispatcher_Dispatch ff (Some d) req now1 now2 (s, w) = ((empty_result, Some err), s1, w) \<and>
    Dispatcher_Dispatch ff (Some d') req t t2 (s1, w) = ((deduped_result (normalize_request req), None), s2, w)"
proof -
  note st = store [unfolded mem_store_def]
  have d': "admits ff d' req key" "d_Store d' = d_Store d"
    using reg req by (auto simp: Dispatcher_Register_def admits_def Let_def split: if_splits option.splits)
  obtain err s1 where 1: "Dispatcher_Dispatch ff (Some d) req now1 now2 (s, w) = ((empty_result, Some err), s1, w)"
    "claim_inv s1" "claim_phase s1 key t \<noteq> Free"
    using mem.dispatch_unroutable [OF req st inv free none] time by blast
  from mem.dispatch_duplicate [OF d'(1) _ 1(2,3), of t2 w] d'(2) st 1(1) show ?thesis by auto
qed

theorem inbound_unroutable_swallowed_witness:
  "\<exists>err s1 s2.
    Dispatcher_Dispatch (\<lambda>m e. []) (Some (sample_dispatcher\<lparr>d_handlers := []\<rparr>)) (sample_request ''hi'') 5 7
      (NewInMemoryClaimStore, 0) = ((empty_result, Some err), s1, 0) \<and>
    Dispatcher_Dispatch (\<lambda>m e. []) (Some sample_dispatcher) (sample_request ''hi'') 8 9 (s1, 0) =
      ((deduped_result (normalize_request (sample_request ''hi'')), None), s2, 0)"
proof -
  let ?d = "sample_dispatcher\<lparr>d_handlers := []\<rparr>"
  have "Dispatcher_Register (Some ?d) (Some sample_handler) = Inr sample_dispatcher"
    by (simp add: Dispatcher_Register_def sample_handler_def sample_dispatcher_def isSupportedSurface_def
        NewDispatcher_def Let_def)
  moreover have "d_Store ?d = Some mem_store" "keyTTL ?d = 600000000000"
    by (simp_all add: sample_dispatcher_def NewDispatcher_def keyTTL_def duration_defs)
  ultimately show ?thesis
    using inbound_unroutable_swallowed [OF claim_inv_new _ sample_admits claim_phase_new, of "[]" "''hi''"
        sample_handler sample_dispatcher 5 8 7 0 9]
    by (simp add: handlerFor_def)
qed

end
