(* ===== verification/Delivery_Ledger.thy ===== *)
theory Delivery_Ledger
  imports Url_Encoding Service_Errors
begin

text \<open>
  The webhook delivery ledger: the types of \<open>src/webhooks/processor.go\<close>, the contract of its
  \<open>DeliveryLedger\<close> interface as the locale \<open>delivery_ledger\<close>, and the implementation
  \<open>src/store/sql/webhook_delivery_store.go\<close>. The SQL table is the list of its rows; every statement
  is one function on it. The argument \<open>flt\<close> of an operation gives the database error of its \<open>n\<close>-th
  statement, if there is one; a statement that fails changes nothing. \<open>uuid.NewString()\<close> is the
  argument \<open>uuid\<close>, the clock is \<open>now\<close>.
\<close>

section \<open>Deliveries\<close>

datatype DeliveryStatus =
    DeliveryStatusPending | DeliveryStatusProcessing | DeliveryStatusProcessed
  | DeliveryStatusRetryReady | DeliveryStatusDead

fun delivery_status_str :: "DeliveryStatus \<Rightarrow> string" where
  "delivery_status_str DeliveryStatusPending = ''pending''"
| "delivery_status_str DeliveryStatusProcessing = ''processing''"
| "delivery_status_str DeliveryStatusProcessed = ''processed''"
| "delivery_status_str DeliveryStatusRetryReady = ''retry_ready''"
| "delivery_status_str DeliveryStatusDead = ''dead''"

record DeliveryRecord =
  dr_ID :: string
  dr_ClaimID :: string
  dr_ProviderID :: string
  dr_DeliveryID :: string
  dr_Status :: DeliveryStatus
  dr_Attempts :: int
  dr_NextAttemptAt :: "int option"
  dr_CreatedAt :: int
  dr_UpdatedAt :: int

record webhookDeliveryRecord =
  wd_ID :: string
  wd_ProviderID :: string
  wd_DeliveryID :: string
  wd_Status :: DeliveryStatus
  wd_Attempts :: int
  wd_NextAttemptAt :: "int option"
  wd_Payload :: string
  wd_CreatedAt :: int
  wd_UpdatedAt :: int

definition webhookDeliveryToDomain :: "webhookDeliveryRecord \<Rightarrow> DeliveryRecord" where
  "webhookDeliveryToDomain r =
     \<lparr>dr_ID = wd_ID r, dr_ClaimID = [], dr_ProviderID = wd_ProviderID r, dr_DeliveryID = wd_DeliveryID r,
      dr_Status = wd_Status r, dr_Attempts = wd_Attempts r, dr_NextAttemptAt = wd_NextAttemptAt r,
      dr_CreatedAt = wd_CreatedAt r, dr_UpdatedAt = wd_UpdatedAt r\<rparr>"

section \<open>The contract\<close>

text \<open>What the contract says of a delivery: its status, its attempts and its next attempt time.\<close>

type_synonym delivery_view = "DeliveryStatus \<times> int \<times> int option"

definition due :: "int \<Rightarrow> int option \<Rightarrow> bool" where
  "due now next = (case next of None \<Rightarrow> True | Some t \<Rightarrow> t \<le> now)"

fun claimable :: "int \<Rightarrow> delivery_view option \<Rightarrow> bool" where
  "claimable now None = True"
| "claimable now (Some (st, n, next)) =
     (st = DeliveryStatusPending \<or> (st = DeliveryStatusRetryReady \<and> due now next) \<or>
      (st = DeliveryStatusProcessing \<and> due now next))"

fun attempts_after_claim :: "delivery_view option \<Rightarrow> int" where
  "attempts_after_claim None = 1"
| "attempts_after_claim (Some (st, n, next)) = (if n < 1 then 1 else n + 1)"

locale delivery_ledger =
  fixes claim :: "'s \<Rightarrow> string \<Rightarrow> string \<Rightarrow> string \<Rightarrow> string \<Rightarrow> int \<Rightarrow> int \<Rightarrow> (DeliveryRecord \<times> bool) result \<times> 's"
    and complete :: "'s \<Rightarrow> string \<Rightarrow> int \<Rightarrow> goerr option \<times> 's"
    and fail :: "'s \<Rightarrow> string \<Rightarrow> int \<Rightarrow> int \<Rightarrow> int \<Rightarrow> goerr option \<times> 's"
    and inv :: "'s \<Rightarrow> bool"
    and view :: "'s \<Rightarrow> string \<times> string \<Rightarrow> delivery_view option"
    and cid :: "string \<times> string \<Rightarrow> int \<Rightarrow> string"
  assumes claim_wins: "inv s \<Longrightarrow> TrimSpace p \<noteq> [] \<Longrightarrow> TrimSpace d \<noteq> [] \<Longrightarrow> key = (TrimSpace p, TrimSpace d) \<Longrightarrow>
      0 < lease \<Longrightarrow> claimable now (view s key) \<Longrightarrow> n = attempts_after_claim (view s key) \<Longrightarrow>
      \<exists>r s'. claim s uuid p d payload lease now = (Inr (r, True), s') \<and> inv s' \<and> dr_Attempts r = n \<and>
        dr_ClaimID r = cid key n \<and>
        view s' = (view s)(key \<mapsto> (DeliveryStatusProcessing, n, Some (now + lease)))"
    and claim_loses: "inv s \<Longrightarrow> TrimSpace p \<noteq> [] \<Longrightarrow> TrimSpace d \<noteq> [] \<Longrightarrow> key = (TrimSpace p, TrimSpace d) \<Longrightarrow>
      0 < lease \<Longrightarrow> \<not> claimable now (view s key) \<Longrightarrow> view s key = Some (st, n, next) \<Longrightarrow>
      \<exists>r s'. claim s uuid p d payload lease now = (Inr (r, False), s') \<and> inv s' \<and> dr_Status r = st \<and>
        dr_DeliveryID r = snd key \<and> view s' = view s"
    and complete_claim: "inv s \<Longrightarrow> view s key = Some (DeliveryStatusProcessing, n, next) \<Longrightarrow> int64 n \<Longrightarrow>
      \<exists>s'. complete s (cid key n) now = (None, s') \<and> inv s' \<and>
        view s' = (view s)(key \<mapsto> (DeliveryStatusProcessed, n, None))"
    and fail_claim: "inv s \<Longrightarrow> view s key = Some (DeliveryStatusProcessing, n, next) \<Longrightarrow> int64 n \<Longrightarrow>
      0 < max_attempts \<Longrightarrow> retry_at \<noteq> 0 \<Longrightarrow>
      \<exists>s'. fail s (cid key n) retry_at max_attempts now = (None, s') \<and> inv s' \<and>
        view s' = (view s)(key \<mapsto> (if n \<ge> max_attempts then (DeliveryStatusDead, n, None)
                                     else (DeliveryStatusRetryReady, n, Some retry_at)))"

section \<open>The claim id\<close>

definition buildDeliveryClaimID :: "string \<Rightarrow> string \<Rightarrow> int \<Rightarrow> string" where
  "buildDeliveryClaimID providerID deliveryID attempt =
     QueryEscape (TrimSpace providerID) @ ''|'' @ QueryEscape (TrimSpace deliveryID) @ ''|'' @ Itoa attempt"

text \<open>\<open>url.EscapeError\<close> is known here by its presence only; its text is the argument \<open>esc\<close>.\<close>

definition parseDeliveryClaimID :: "(string \<Rightarrow> string) \<Rightarrow> string \<Rightarrow> (string \<times> string \<times> int) result" where
  "parseDeliveryClaimID esc claimID =
     (case Split (TrimSpace claimID) (CHR ''|'') of
        [a, b, c] \<Rightarrow>
          (case QueryUnescape a of
             None \<Rightarrow> Inl (Wrapped (''sqlstore: invalid delivery claim id: '' @ esc a) [Plain (esc a)])
           | Some providerID \<Rightarrow>
               (case QueryUnescape b of
                  None \<Rightarrow> Inl (Wrapped (''sqlstore: invalid delivery claim id: '' @ esc b) [Plain (esc b)])
                | Some deliveryID \<Rightarrow>
                    (case Atoi c of
                       None \<Rightarrow> Inl (Plain ''sqlstore: invalid delivery claim id'')
                     | Some attempt \<Rightarrow>
                         if attempt \<le> 0 then Inl (Plain ''sqlstore: invalid delivery claim id'')
                         else Inr (TrimSpace providerID, TrimSpace deliveryID, attempt))))
      | _ \<Rightarrow> Inl (Plain ''sqlstore: invalid delivery claim id''))"

lemma Itoa_chars: "0 \<le> i \<Longrightarrow> \<forall>c \<in> set (Itoa i). c \<noteq> CHR ''|'' \<and> \<not> is_space c"
  using show_nat_digits [of "nat i"] is_digit_not_sign by (auto simp: Itoa_def)

lemma claim_id_parse:
  assumes "0 < attempt" and "int64 attempt"
  shows "parseDeliveryClaimID esc (buildDeliveryClaimID p d attempt) = Inr (TrimSpace p, TrimSpace d, attempt)"
proof -
  let ?a = "QueryEscape (TrimSpace p)" and ?b = "QueryEscape (TrimSpace d)" and ?c = "Itoa attempt"
  have bar: "CHR ''|'' \<notin> set ?a" "CHR ''|'' \<notin> set ?b" "CHR ''|'' \<notin> set ?c"
    using QueryEscape_chars Itoa_chars [of attempt] assms(1) by force+
  have "\<forall>c \<in> set ?a. \<not> is_space c" "\<forall>c \<in> set ?b. \<not> is_space c" "\<forall>c \<in> set ?c. \<not> is_space c"
    using QueryEscape_chars [of "TrimSpace p"] QueryEscape_chars [of "TrimSpace d"] Itoa_chars [of attempt] assms(1)
    by simp_all
  moreover have "\<not> is_space (CHR ''|'')" by (simp add: is_space_def)
  ultimately have "\<forall>c \<in> set (buildDeliveryClaimID p d attempt). \<not> is_space c"
    by (simp add: buildDeliveryClaimID_def ball_Un)
  then have "TrimSpace (buildDeliveryClaimID p d attempt) = buildDeliveryClaimID p d attempt"
    by (rule TrimSpace_id)
  then have "Split (TrimSpace (buildDeliveryClaimID p d attempt)) (CHR ''|'') = [?a, ?b, ?c]"
    using bar by (simp add: buildDeliveryClaimID_def Split_append Split_none)
  then show ?thesis using assms by (simp add: parseDeliveryClaimID_def Atoi_Itoa)
qed

text \<open>
  A claim id identifies one attempt of one delivery: what \<open>buildDeliveryClaimID\<close> prints,
  \<open>parseDeliveryClaimID\<close> reads back, whatever bytes the two ids contain (the separator included).
\<close>

theorem delivery_claim_id_roundtrip:
  assumes "0 < attempt" and "int64 attempt"
  shows "parseDeliveryClaimID esc (buildDeliveryClaimID p d attempt) = Inr (TrimSpace p, TrimSpace d, attempt)"
  using claim_id_parse [OF assms] .

theorem delivery_claim_id_roundtrip_witness:
  "parseDeliveryClaimID (\<lambda>s. s) (buildDeliveryClaimID ''a|b'' '' x y%'' 3) = Inr (''a|b'', ''x y%'', 3)"
  using delivery_claim_id_roundtrip [of 3 "\<lambda>s. s" "''a|b''" "'' x y%''"]
  by (simp add: int64_def TrimSpace_def is_space_def)

section \<open>The SQL store\<close>

type_synonym deliveries = "webhookDeliveryRecord list"

definition row_of :: "string \<Rightarrow> string \<Rightarrow> webhookDeliveryRecord \<Rightarrow> bool" where
  "row_of providerID deliveryID r \<longleftrightarrow> wd_ProviderID r = providerID \<and> wd_DeliveryID r = deliveryID"

text \<open>\<open>INSERT ... ON CONFLICT (provider_id, delivery_id) DO NOTHING\<close>\<close>

definition insert_delivery :: "webhookDeliveryRecord \<Rightarrow> deliveries \<Rightarrow> deliveries" where
  "insert_delivery r t =
     (if \<exists>x \<in> set t. row_of (wd_ProviderID r) (wd_DeliveryID r) x then t else t @ [r])"

text \<open>\<open>UPDATE ... SET f WHERE p\<close>, with the number of rows affected.\<close>

definition update_rows ::
  "(webhookDeliveryRecord \<Rightarrow> bool) \<Rightarrow> (webhookDeliveryRecord \<Rightarrow> webhookDeliveryRecord) \<Rightarrow> deliveries \<Rightarrow>
     deliveries \<times> nat" where
  "update_rows p f t = (map (\<lambda>r. if p r then f r else r) t, length (filter p t))"

text \<open>The update of \<open>Claim\<close>: its \<open>WHERE\<close> and its \<open>SET\<close>.\<close>

definition claim_where :: "string \<Rightarrow> string \<Rightarrow> int \<Rightarrow> webhookDeliveryRecord \<Rightarrow> bool" where
  "claim_where providerID deliveryID now r \<longleftrightarrow>
     row_of providerID deliveryID r \<and>
     (wd_Status r = DeliveryStatusPending \<or>
      (wd_Status r = DeliveryStatusRetryReady \<and> due now (wd_NextAttemptAt r)) \<or>
      (wd_Status r = DeliveryStatusProcessing \<and> due now (wd_NextAttemptAt r)))"

definition claim_set :: "int \<Rightarrow> int \<Rightarrow> webhookDeliveryRecord \<Rightarrow> webhookDeliveryRecord" where
  "claim_set leaseUntil now r =
     r\<lparr>wd_Status := DeliveryStatusProcessing,
       wd_Attempts := (if wd_Attempts r < 1 then 1 else wd_Attempts r + 1),
       wd_NextAttemptAt := Some leaseUntil, wd_UpdatedAt := now\<rparr>"

definition held :: "string \<Rightarrow> string \<Rightarrow> int \<Rightarrow> webhookDeliveryRecord \<Rightarrow> bool" where
  "held providerID deliveryID attempt r \<longleftrightarrow>
     row_of providerID deliveryID r \<and> wd_Status r = DeliveryStatusProcessing \<and> wd_Attempts r = attempt"

definition WebhookDeliveryStore_Get ::
  "deliveries option \<Rightarrow> goerr option \<Rightarrow> string \<Rightarrow> string \<Rightarrow> DeliveryRecord result" where
  "WebhookDeliveryStore_Get receiver flt providerID deliveryID =
     (case receiver of None \<Rightarrow> Inl (Plain ''sqlstore: webhook delivery store is not configured'') | Some t \<Rightarrow>
     (case flt of Some err \<Rightarrow> Inl err | None \<Rightarrow>
     (case find (row_of (TrimSpace providerID) (TrimSpace deliveryID)) t of
        None \<Rightarrow> Inl (Plain (''sqlstore: webhook delivery not found for provider '' @ quote providerID @
                  '' delivery '' @ quote deliveryID))
      | Some r \<Rightarrow> Inr (webhookDeliveryToDomain r))))"

definition WebhookDeliveryStore_Claim ::
  "deliveries option \<Rightarrow> sql_faults \<Rightarrow> string \<Rightarrow> string \<Rightarrow> string \<Rightarrow> string \<Rightarrow> int \<Rightarrow> int \<Rightarrow>
     (DeliveryRecord \<times> bool) result \<times> deliveries option" where
  "WebhookDeliveryStore_Claim receiver flt uuid providerID deliveryID payload lease now =
     (case receiver of
        None \<Rightarrow> (Inl (Plain ''sqlstore: webhook delivery store is not configured''), receiver)
      | Some t \<Rightarrow>
          let providerID = TrimSpace providerID; deliveryID = TrimSpace deliveryID in
          if providerID = [] \<or> deliveryID = []
          then (Inl (Plain ''sqlstore: provider id and delivery id are required''), receiver)
          else
            let lease = (if lease \<le> 0 then 30 * Second else lease);
                record = \<lparr>wd_ID = uuid, wd_ProviderID = providerID, wd_DeliveryID = deliveryID,
                  wd_Status = DeliveryStatusPending, wd_Attempts = 0, wd_NextAttemptAt = None,
                  wd_Payload = payload, wd_CreatedAt = now, wd_UpdatedAt = now\<rparr>
            in case flt 0 of Some err \<Rightarrow> (Inl err, receiver) | None \<Rightarrow>
               let t1 = insert_delivery record t
               in case flt 1 of Some err \<Rightarrow> (Inl err, Some t1) | None \<Rightarrow>
                  (case update_rows (claim_where providerID deliveryID now) (claim_set (now + lease) now) t1 of
                     (t2, rowsAffected) \<Rightarrow>
                       (case WebhookDeliveryStore_Get (Some t2) (flt 2) providerID deliveryID of
                          Inl getErr \<Rightarrow> (Inl getErr, Some t2)
                        | Inr claimed \<Rightarrow>
                            if rowsAffected = 0 then (Inr (claimed, False), Some t2)
                            else (Inr (claimed\<lparr>dr_ClaimID :=
                                    buildDeliveryClaimID providerID deliveryID (dr_Attempts claimed)\<rparr>, True),
                                  Some t2))))"

definition WebhookDeliveryStore_Complete ::
  "(string \<Rightarrow> string) \<Rightarrow> deliveries option \<Rightarrow> sql_faults \<Rightarrow> string \<Rightarrow> int \<Rightarrow> goerr option \<times> deliveries option" where
  "WebhookDeliveryStore_Complete esc receiver flt claimID now =
     (case receiver of
        None \<Rightarrow> (Some (Plain ''sqlstore: webhook delivery store is not configured''), receiver)
      | Some t \<Rightarrow>
          (case parseDeliveryClaimID esc claimID of
             Inl err \<Rightarrow> (Some err, receiver)
           | Inr (providerID, deliveryID, attempt) \<Rightarrow>
               (case flt 0 of
                  Some err \<Rightarrow> (Some err, receiver)
                | None \<Rightarrow>
                    (None, Some (fst (update_rows (held providerID deliveryID attempt)
                       (\<lambda>r. r\<lparr>wd_Status := DeliveryStatusProcessed, wd_NextAttemptAt := None,
                              wd_UpdatedAt := now\<rparr>) t))))))"

definition WebhookDeliveryStore_Fail ::
  "(string \<Rightarrow> string) \<Rightarrow> deliveries option \<Rightarrow> sql_faults \<Rightarrow> string \<Rightarrow> int \<Rightarrow> int \<Rightarrow> int \<Rightarrow>
     goerr option \<times> deliveries option" where
  "WebhookDeliveryStore_Fail esc receiver flt claimID nextAttemptAt maxAttempts now =
     (case receiver of
        None \<Rightarrow> (Some (Plain ''sqlstore: webhook delivery store is not configured''), receiver)
      | Some t \<Rightarrow>
          (case parseDeliveryClaimID esc claimID of
             Inl err \<Rightarrow> (Some err, receiver)
           | Inr (providerID, deliveryID, attempt) \<Rightarrow>
               let maxAttempts = (if maxAttempts \<le> 0 then 8 else maxAttempts) in
               (case WebhookDeliveryStore_Get receiver (flt 0) providerID deliveryID of
                  Inl err \<Rightarrow> (Some err, receiver)
                | Inr record \<Rightarrow>
                    if dr_Status record \<noteq> DeliveryStatusProcessing \<or> dr_Attempts record \<noteq> attempt
                    then (None, receiver)
                    else
                      let dead = dr_Attempts record \<ge> maxAttempts;
                          nextAttemptAt = (if nextAttemptAt = 0 then now else nextAttemptAt)
                      in (case flt 1 of
                            Some err \<Rightarrow> (Some err, receiver)
                          | None \<Rightarrow>
                              (None, Some (fst (update_rows (held providerID deliveryID attempt)
                                 (\<lambda>r. r\<lparr>wd_Status := (if dead then DeliveryStatusDead else DeliveryStatusRetryReady),
                                        wd_UpdatedAt := now,
                                        wd_NextAttemptAt := (if dead then None else Some nextAttemptAt)\<rparr>) t)))))))"

section \<open>Rows by key\<close>

definition table_ok :: "deliveries \<Rightarrow> bool" where
  "table_ok t \<longleftrightarrow> distinct (map (\<lambda>r. (wd_ProviderID r, wd_DeliveryID r)) t) \<and>
     (\<forall>r \<in> set t. TrimSpace (wd_ProviderID r) = wd_ProviderID r \<and> TrimSpace (wd_DeliveryID r) = wd_DeliveryID r \<and>
        (wd_Status r = DeliveryStatusProcessing \<longrightarrow> 1 \<le> wd_Attempts r))"

definition row_view :: "webhookDeliveryRecord \<Rightarrow> delivery_view" where
  "row_view r = (wd_Status r, wd_Attempts r, wd_NextAttemptAt r)"

definition table_view :: "deliveries \<Rightarrow> string \<times> string \<Rightarrow> delivery_view option" where
  "table_view t key = map_option row_view (find (row_of (fst key) (snd key)) t)"

definition keeps_key :: "(webhookDeliveryRecord \<Rightarrow> webhookDeliveryRecord) \<Rightarrow> bool" where
  "keeps_key f \<longleftrightarrow> (\<forall>r. wd_ProviderID (f r) = wd_ProviderID r \<and> wd_DeliveryID (f r) = wd_DeliveryID r)"

lemma find_row: "find (row_of p d) t = Some r \<Longrightarrow> r \<in> set t \<and> wd_ProviderID r = p \<and> wd_DeliveryID r = d"
  by (induction t) (auto simp: row_of_def split: if_splits)

lemma find_row_iff:
  assumes "table_ok t"
  shows "find (row_of p d) t = Some r \<longleftrightarrow> r \<in> set t \<and> row_of p d r"
proof
  assume r: "r \<in> set t \<and> row_of p d r"
  then obtain x where x: "find (row_of p d) t = Some x" by (cases "find (row_of p d) t") (auto simp: find_None_iff)
  then have "x \<in> set t" "row_of p d x" using find_row [OF x] by (auto simp: row_of_def)
  then have "x = r" using r assms by (auto simp: table_ok_def row_of_def distinct_map inj_on_def)
  then show "find (row_of p d) t = Some r" using x by simp
next
  assume "find (row_of p d) t = Some r"
  from find_row [OF this] show "r \<in> set t \<and> row_of p d r" by (simp add: row_of_def)
qed

lemma find_insert_delivery:
  "find (row_of p d) (insert_delivery r t) =
     (case find (row_of p d) t of Some x \<Rightarrow> Some x | None \<Rightarrow> if row_of p d r then Some r else None)"
proof -
  have "find q (xs @ [y]) = (case find q xs of Some x \<Rightarrow> Some x | None \<Rightarrow> if q y then Some y else None)"
    for q and xs and y :: webhookDeliveryRecord
    by (induction xs) auto
  then show ?thesis
    by (auto simp: insert_delivery_def find_None_iff row_of_def split: option.splits)
qed

lemma find_update_rows:
  "keeps_key f \<Longrightarrow> find (row_of p d) (fst (update_rows q f t)) =
     map_option (\<lambda>r. if q r then f r else r) (find (row_of p d) t)"
  by (induction t) (auto simp: update_rows_def keeps_key_def row_of_def)

lemma affected_zero:
  assumes "table_ok t" and "\<And>r. q r \<Longrightarrow> row_of p d r"
  shows "snd (update_rows q f t) = 0 \<longleftrightarrow> (case find (row_of p d) t of None \<Rightarrow> True | Some r \<Rightarrow> \<not> q r)"
proof (cases "find (row_of p d) t")
  case None
  then have "\<not> row_of p d x" if "x \<in> set t" for x using that by (auto simp: find_None_iff)
  then show ?thesis using None assms(2) by (auto simp: update_rows_def filter_empty_conv)
next
  case (Some r)
  then have "x = r" if "x \<in> set t" "q x" for x
    using find_row_iff [OF assms(1), of p d x] that assms(2) by auto
  moreover have "r \<in> set t" using find_row [OF Some] by simp
  ultimately show ?thesis using Some by (auto simp: update_rows_def filter_empty_conv)
qed

lemma table_ok_insert:
  "table_ok t \<Longrightarrow> TrimSpace (wd_ProviderID r) = wd_ProviderID r \<Longrightarrow> TrimSpace (wd_DeliveryID r) = wd_DeliveryID r \<Longrightarrow>
     wd_Status r \<noteq> DeliveryStatusProcessing \<Longrightarrow> table_ok (insert_delivery r t)"
  by (auto simp: table_ok_def insert_delivery_def row_of_def)

lemma table_ok_update:
  assumes "table_ok t" and "keeps_key f"
    and "\<And>r. wd_Status (f r) = DeliveryStatusProcessing \<Longrightarrow> 1 \<le> wd_Attempts (f r)"
  shows "table_ok (fst (update_rows q f t))"
proof -
  have "map (\<lambda>r. (wd_ProviderID r, wd_DeliveryID r)) (fst (update_rows q f t)) =
      map (\<lambda>r. (wd_ProviderID r, wd_DeliveryID r)) t"
    using assms(2) by (auto simp: update_rows_def keeps_key_def)
  moreover have "\<forall>r \<in> set (fst (update_rows q f t)). TrimSpace (wd_ProviderID r) = wd_ProviderID r \<and>
      TrimSpace (wd_DeliveryID r) = wd_DeliveryID r \<and> (wd_Status r = DeliveryStatusProcessing \<longrightarrow> 1 \<le> wd_Attempts r)"
    using assms by (auto simp: update_rows_def keeps_key_def table_ok_def)
  ultimately show ?thesis using assms(1) by (simp add: table_ok_def)
qed

lemma claim_where_row: "claim_where p d now r \<Longrightarrow> row_of p d r"
  and held_row: "held p d n r \<Longrightarrow> row_of p d r"
  by (simp_all add: claim_where_def held_def)

lemma keeps_key_claim_set [simp]: "keeps_key (claim_set u now)"
  by (simp add: keeps_key_def claim_set_def)

lemma claim_set_attempts: "1 \<le> wd_Attempts (claim_set u now r)"
  by (simp add: claim_set_def)

lemma claim_where_view:
  "find (row_of p d) t = Some r \<Longrightarrow> claim_where p d now r \<longleftrightarrow> claimable now (table_view t (p, d))"
  using find_row [of p d t r] by (simp add: claim_where_def table_view_def row_view_def row_of_def)

text \<open>An update of the row of one key changes the view of that key only.\<close>

lemma view_update:
  assumes "keeps_key f" and "\<And>r. q r \<Longrightarrow> row_of p d r"
    and "find (row_of p d) t = Some r" and "q r"
  shows "table_view (fst (update_rows q f t)) = (table_view t)((p, d) \<mapsto> row_view (f r))"
proof
  fix key :: "string \<times> string"
  show "table_view (fst (update_rows q f t)) key = ((table_view t)((p, d) \<mapsto> row_view (f r))) key"
  proof (cases "key = (p, d)")
    case True
    then show ?thesis using assms by (simp add: table_view_def find_update_rows)
  next
    case False
    have "\<not> q x" if "find (row_of (fst key) (snd key)) t = Some x" for x
      using find_row [OF that] assms(2) [of x] False by (cases key) (auto simp: row_of_def)
    then show ?thesis
      using False assms(1)
      by (cases "find (row_of (fst key) (snd key)) t") (simp_all add: table_view_def find_update_rows)
  qed
qed

lemma update_rows_none:
  assumes "\<And>r. q r \<Longrightarrow> row_of p d r" and "table_ok t" and "find (row_of p d) t = Some r" and "\<not> q r"
  shows "fst (update_rows q f t) = t"
proof -
  have "\<not> q x" if "x \<in> set t" for x
    using find_row_iff [OF assms(2), of p d x] that assms(1,3,4) by auto
  then show ?thesis by (auto simp: update_rows_def intro!: map_idI)
qed

section \<open>The store implements the contract\<close>

text \<open>The row a claim looks at: the one of the table, or the new pending one.\<close>

definition new_row :: "string \<Rightarrow> string \<Rightarrow> string \<Rightarrow> string \<Rightarrow> int \<Rightarrow> webhookDeliveryRecord" where
  "new_row uuid p d payload now =
     \<lparr>wd_ID = uuid, wd_ProviderID = p, wd_DeliveryID = d, wd_Status = DeliveryStatusPending, wd_Attempts = 0,
      wd_NextAttemptAt = None, wd_Payload = payload, wd_CreatedAt = now, wd_UpdatedAt = now\<rparr>"

lemma Claim_no_faults:
  assumes "table_ok t" and "TrimSpace p \<noteq> []" and "TrimSpace d \<noteq> []" and "0 < lease"
    and "t1 = insert_delivery (new_row uuid (TrimSpace p) (TrimSpace d) payload now) t"
    and "update_rows (claim_where (TrimSpace p) (TrimSpace d) now) (claim_set (now + lease) now) t1 = (t2, k)"
    and "find (row_of (TrimSpace p) (TrimSpace d)) t2 = Some r"
  shows "WebhookDeliveryStore_Claim (Some t) no_faults uuid p d payload lease now =
    (if k = 0 then (Inr (webhookDeliveryToDomain r, False), Some t2)
     else (Inr ((webhookDeliveryToDomain r)\<lparr>dr_ClaimID := buildDeliveryClaimID (TrimSpace p) (TrimSpace d)
                  (wd_Attempts r)\<rparr>, True), Some t2))"
  using assms
  by (simp add: WebhookDeliveryStore_Claim_def WebhookDeliveryStore_Get_def new_row_def
      webhookDeliveryToDomain_def Let_def)

fun store_view :: "deliveries option \<Rightarrow> string \<times> string \<Rightarrow> delivery_view option" where
  "store_view None = (\<lambda>_. None)"
| "store_view (Some t) = table_view t"

fun store_ok :: "deliveries option \<Rightarrow> bool" where
  "store_ok None = False"
| "store_ok (Some t) = table_ok t"

definition claim_id_of :: "string \<times> string \<Rightarrow> int \<Rightarrow> string" where
  "claim_id_of key n = buildDeliveryClaimID (fst key) (snd key) n"

lemma view_insert:
  assumes "table_ok t" and "r = new_row uuid p d payload now"
  shows "table_view (insert_delivery r t) =
    (case table_view t (p, d) of None \<Rightarrow> (table_view t)((p, d) \<mapsto> (DeliveryStatusPending, 0, None))
     | Some _ \<Rightarrow> table_view t)"
proof -
  have "row_of (fst key) (snd key) r \<longleftrightarrow> key = (p, d)" for key
    using assms(2) by (cases key) (auto simp: row_of_def new_row_def)
  then show ?thesis
    using assms(2)
    by (auto simp: fun_eq_iff table_view_def find_insert_delivery row_view_def new_row_def split: option.splits)
qed

lemma sql_claim_wins:
  assumes ok: "table_ok t" and p: "TrimSpace p \<noteq> []" "TrimSpace d \<noteq> []" and key: "key = (TrimSpace p, TrimSpace d)"
    and lease: "0 < lease" and can: "claimable now (table_view t key)"
    and n: "n = attempts_after_claim (table_view t key)"
  shows "\<exists>r t2. WebhookDeliveryStore_Claim (Some t) no_faults uuid p d payload lease now = (Inr (r, True), Some t2) \<and>
    table_ok t2 \<and> dr_Attempts r = n \<and> dr_ClaimID r = claim_id_of key n \<and>
    table_view t2 = (table_view t)(key \<mapsto> (DeliveryStatusProcessing, n, Some (now + lease)))"
proof -
  let ?p = "TrimSpace p" and ?d = "TrimSpace d" and ?f = "claim_set (now + lease) now"
  let ?q = "claim_where ?p ?d now"
  define t1 where t1: "t1 = insert_delivery (new_row uuid ?p ?d payload now) t"
  have ok1: "table_ok t1" using table_ok_insert [OF ok] by (simp add: t1 new_row_def)
  obtain r1 where r1: "find (row_of ?p ?d) t1 = Some r1"
    by (cases "find (row_of ?p ?d) t") (auto simp: t1 find_insert_delivery row_of_def new_row_def)
  have v1: "table_view t1 = (case table_view t key of
      None \<Rightarrow> (table_view t)(key \<mapsto> (DeliveryStatusPending, 0, None)) | Some _ \<Rightarrow> table_view t)"
    unfolding t1 key by (rule view_insert [OF ok refl])
  have v1k: "table_view t1 key = Some (row_view r1)" using r1 key by (simp add: table_view_def)
  have q1: "?q r1" using claim_where_view [OF r1, of now] v1 can key by (auto split: option.splits)
  obtain t2 k where u: "update_rows ?q ?f t1 = (t2, k)" by fastforce
  have k: "k \<noteq> 0" using affected_zero [OF ok1, of ?q ?p ?d ?f] claim_where_row r1 q1 u by auto
  have t2: "table_view t2 = (table_view t1)(key \<mapsto> row_view (?f r1))"
    using view_update [of ?f ?q ?p ?d t1 r1, OF keeps_key_claim_set claim_where_row [of ?p ?d now] r1 q1] key u by simp
  have n1: "wd_Attempts (?f r1) = n"
    using v1k v1 n by (auto simp: row_view_def claim_set_def split: option.splits)
  have f2: "find (row_of ?p ?d) t2 = Some (?f r1)"
    using find_update_rows [OF keeps_key_claim_set, of ?p ?d ?q "now + lease" now t1] r1 q1 u by simp
  have "table_ok t2" using table_ok_update [OF ok1 keeps_key_claim_set claim_set_attempts] u by (metis fst_conv)
  moreover have "row_view (?f r1) = (DeliveryStatusProcessing, n, Some (now + lease))"
    using n1 by (simp add: row_view_def claim_set_def)
  moreover have "(table_view t1)(key \<mapsto> x) = (table_view t)(key \<mapsto> x)" for x
    using v1 by (simp split: option.splits)
  ultimately show ?thesis
    using Claim_no_faults [OF ok p lease t1 u f2] k t2 n1 key
    by (simp add: claim_id_of_def webhookDeliveryToDomain_def)
qed

lemma sql_claim_loses:
  assumes ok: "table_ok t" and p: "TrimSpace p \<noteq> []" "TrimSpace d \<noteq> []" and key: "key = (TrimSpace p, TrimSpace d)"
    and lease: "0 < lease" and cannot: "\<not> claimable now (table_view t key)"
    and v: "table_view t key = Some (st, n, next)"
  shows "\<exists>r. WebhookDeliveryStore_Claim (Some t) no_faults uuid p d payload lease now = (Inr (r, False), Some t) \<and>
    dr_Status r = st \<and> dr_DeliveryID r = snd key"
proof -
  let ?p = "TrimSpace p" and ?d = "TrimSpace d" and ?f = "claim_set (now + lease) now"
  let ?q = "claim_where ?p ?d now"
  obtain r where r: "find (row_of ?p ?d) t = Some r" "row_view r = (st, n, next)"
    using v key by (auto simp: table_view_def)
  have nq: "\<not> ?q r" using claim_where_view [OF r(1), of now] cannot key by simp
  have t1: "t = insert_delivery (new_row uuid ?p ?d payload now) t"
    using find_row [OF r(1)] by (auto simp: insert_delivery_def row_of_def new_row_def)
  have "snd (update_rows ?q ?f t) = 0"
    using affected_zero [OF ok, of ?q ?p ?d ?f] claim_where_row r(1) nq by auto
  then have u: "update_rows ?q ?f t = (t, 0)"
    using update_rows_none [of ?q ?p ?d t r ?f, OF claim_where_row [of ?p ?d now] ok r(1) nq] by (metis prod.collapse)
  show ?thesis
    using Claim_no_faults [OF ok p lease t1 u r(1)] r(2) find_row [OF r(1)] key
    by (simp add: webhookDeliveryToDomain_def row_view_def)
qed

text \<open>The claim id of a row in processing is read back as the row's key and attempt.\<close>

lemma parse_claim_id_of:
  assumes ok: "table_ok t" and v: "table_view t key = Some (DeliveryStatusProcessing, n, next)" and n: "int64 n"
  shows "\<exists>r. find (row_of (fst key) (snd key)) t = Some r \<and> row_view r = (DeliveryStatusProcessing, n, next) \<and>
    held (fst key) (snd key) n r \<and> parseDeliveryClaimID esc (claim_id_of key n) = Inr (fst key, snd key, n)"
proof -
  obtain r where r: "find (row_of (fst key) (snd key)) t = Some r" "row_view r = (DeliveryStatusProcessing, n, next)"
    using v by (auto simp: table_view_def)
  have "0 < n" and t: "TrimSpace (fst key) = fst key" "TrimSpace (snd key) = snd key"
    using find_row [OF r(1)] r(2) ok by (auto simp: table_ok_def row_view_def)
  moreover have "parseDeliveryClaimID esc (buildDeliveryClaimID (fst key) (snd key) n) =
      Inr (TrimSpace (fst key), TrimSpace (snd key), n)" if "0 < n"
    using claim_id_parse that n by simp
  ultimately show ?thesis
    using r find_row [OF r(1)] by (auto simp: held_def row_of_def row_view_def claim_id_of_def)
qed

interpretation sql: delivery_ledger "\<lambda>s. WebhookDeliveryStore_Claim s no_faults"
  "\<lambda>s. WebhookDeliveryStore_Complete esc s no_faults" "\<lambda>s. WebhookDeliveryStore_Fail esc s no_faults"
  store_ok store_view claim_id_of for esc
proof unfold_locales
  fix s :: "deliveries option" and p d uuid payload :: string and key and lease now n :: int and st nx
  assume "store_ok s" and p: "TrimSpace p \<noteq> []" "TrimSpace d \<noteq> []" and key: "key = (TrimSpace p, TrimSpace d)"
    and lease: "0 < lease"
  then obtain t where t: "s = Some t" "table_ok t" by (cases s) auto
  {
    assume "claimable now (store_view s key)" and "n = attempts_after_claim (store_view s key)"
    then have "\<exists>r t2. WebhookDeliveryStore_Claim (Some t) no_faults uuid p d payload lease now =
        (Inr (r, True), Some t2) \<and> table_ok t2 \<and> dr_Attempts r = n \<and> dr_ClaimID r = claim_id_of key n \<and>
        table_view t2 = (table_view t)(key \<mapsto> (DeliveryStatusProcessing, n, Some (now + lease)))"
      using t by (intro sql_claim_wins [OF t(2) p key lease]) simp_all
    then show "\<exists>r s'. WebhookDeliveryStore_Claim s no_faults uuid p d payload lease now = (Inr (r, True), s') \<and>
        store_ok s' \<and> dr_Attempts r = n \<and> dr_ClaimID r = claim_id_of key n \<and>
        store_view s' = (store_view s)(key \<mapsto> (DeliveryStatusProcessing, n, Some (now + lease)))"
      using t by (elim exE conjE) (rule exI, rule exI [of _ "Some _"], simp)
  next
    assume "\<not> claimable now (store_view s key)" and "store_view s key = Some (st, n, nx)"
    then show "\<exists>r s'. WebhookDeliveryStore_Claim s no_faults uuid p d payload lease now = (Inr (r, False), s') \<and>
        store_ok s' \<and> dr_Status r = st \<and> dr_DeliveryID r = snd key \<and> store_view s' = store_view s"
      using sql_claim_loses [OF t(2) p key lease, of now st n nx uuid payload] t by auto
  }
next
  fix s :: "deliveries option" and key and n now :: int and nx
  assume "store_ok s" and v: "store_view s key = Some (DeliveryStatusProcessing, n, nx)" and n: "int64 n"
  then obtain t where t: "s = Some t" "table_ok t" by (cases s) auto
  have "table_view t key = Some (DeliveryStatusProcessing, n, nx)" using v t by simp
  from parse_claim_id_of [OF t(2) this n, of esc] obtain r where
    r: "find (row_of (fst key) (snd key)) t = Some r" "row_view r = (DeliveryStatusProcessing, n, nx)"
    "held (fst key) (snd key) n r" "parseDeliveryClaimID esc (claim_id_of key n) = Inr (fst key, snd key, n)" by blast
  let ?f = "\<lambda>r. r\<lparr>wd_Status := DeliveryStatusProcessed, wd_NextAttemptAt := None, wd_UpdatedAt := now\<rparr>"
  have kk: "keeps_key ?f" by (simp add: keeps_key_def)
  have "table_view (fst (update_rows (held (fst key) (snd key) n) ?f t)) = (table_view t)(key \<mapsto> row_view (?f r))"
    using view_update [of ?f "held (fst key) (snd key) n" "fst key" "snd key" t r, OF kk held_row [of "fst key" "snd key" n] r(1,3)] by simp
  moreover have "table_ok (fst (update_rows (held (fst key) (snd key) n) ?f t))"
    by (rule table_ok_update [OF t(2) kk]) simp
  ultimately show "\<exists>s'. WebhookDeliveryStore_Complete esc s no_faults (claim_id_of key n) now = (None, s') \<and> store_ok s' \<and>
      store_view s' = (store_view s)(key \<mapsto> (DeliveryStatusProcessed, n, None))"
    using t r(2,4) by (simp add: WebhookDeliveryStore_Complete_def row_view_def)
  fix max_attempts retry_at :: int
  assume pos: "0 < max_attempts" "retry_at \<noteq> 0"
  let ?g = "\<lambda>r. r\<lparr>wd_Status := (if n \<ge> max_attempts then DeliveryStatusDead else DeliveryStatusRetryReady),
    wd_UpdatedAt := now, wd_NextAttemptAt := (if n \<ge> max_attempts then None else Some retry_at)\<rparr>"
  have kg: "keeps_key ?g" by (simp add: keeps_key_def)
  have "table_view (fst (update_rows (held (fst key) (snd key) n) ?g t)) = (table_view t)(key \<mapsto> row_view (?g r))"
    using view_update [of ?g "held (fst key) (snd key) n" "fst key" "snd key" t r, OF kg held_row [of "fst key" "snd key" n] r(1,3)] by simp
  moreover have "table_ok (fst (update_rows (held (fst key) (snd key) n) ?g t))"
    by (rule table_ok_update [OF t(2) kg]) (simp split: if_splits)
  moreover have "TrimSpace (fst key) = fst key" "TrimSpace (snd key) = snd key"
    using find_row [OF r(1)] t(2) by (auto simp: table_ok_def)
  ultimately show "\<exists>s'. WebhookDeliveryStore_Fail esc s no_faults (claim_id_of key n) retry_at max_attempts now = (None, s') \<and>
      store_ok s' \<and> store_view s' = (store_view s)(key \<mapsto>
        (if n \<ge> max_attempts then (DeliveryStatusDead, n, None) else (DeliveryStatusRetryReady, n, Some retry_at)))"
    using t r pos
    by (simp add: WebhookDeliveryStore_Fail_def WebhookDeliveryStore_Get_def webhookDeliveryToDomain_def
        row_view_def Let_def)
qed

section \<open>Interleaved workers\<close>

text \<open>
  Each operation of the store is a sequence of statements, and the statements of concurrent calls
  interleave. These are the statements that write, with the values each worker has computed before.
\<close>

datatype delivery_stmt =
    InsertStmt string string string string int
  | ClaimStmt string string int int
  | CompleteStmt string string int int
  | FailStmt string string int bool int int

fun exec_stmt :: "delivery_stmt \<Rightarrow> deliveries \<Rightarrow> deliveries" where
  "exec_stmt (InsertStmt uuid p d payload now) t =
     insert_delivery (new_row uuid (TrimSpace p) (TrimSpace d) payload now) t"
| "exec_stmt (ClaimStmt p d lease now) t =
     fst (update_rows (claim_where p d now) (claim_set (now + lease) now) t)"
| "exec_stmt (CompleteStmt p d n now) t =
     fst (update_rows (held p d n)
       (\<lambda>r. r\<lparr>wd_Status := DeliveryStatusProcessed, wd_NextAttemptAt := None, wd_UpdatedAt := now\<rparr>) t)"
| "exec_stmt (FailStmt p d n dead nextAttemptAt now) t =
     fst (update_rows (held p d n)
       (\<lambda>r. r\<lparr>wd_Status := (if dead then DeliveryStatusDead else DeliveryStatusRetryReady), wd_UpdatedAt := now,
              wd_NextAttemptAt := (if dead then None else Some nextAttemptAt)\<rparr>) t)"

text \<open>The attempt number a claim update wins for a delivery, if it affects its row.\<close>

definition attempts_of :: "string \<Rightarrow> string \<Rightarrow> deliveries \<Rightarrow> int" where
  "attempts_of p d t = (case find (row_of p d) t of None \<Rightarrow> 0 | Some r \<Rightarrow> wd_Attempts r)"

fun won :: "string \<Rightarrow> string \<Rightarrow> delivery_stmt \<Rightarrow> deliveries \<Rightarrow> int option" where
  "won p d (ClaimStmt p' d' lease now) t =
     (if p' = p \<and> d' = d \<and> snd (update_rows (claim_where p d now) (claim_set (now + lease) now) t) \<noteq> 0
      then Some (attempts_of p d (exec_stmt (ClaimStmt p d lease now) t)) else None)"
| "won p d _ t = None"

fun wins :: "string \<Rightarrow> string \<Rightarrow> delivery_stmt list \<Rightarrow> deliveries \<Rightarrow> int list" where
  "wins p d [] t = []"
| "wins p d (x # xs) t = (case won p d x t of None \<Rightarrow> [] | Some n \<Rightarrow> [n]) @ wins p d xs (exec_stmt x t)"

lemma exec_stmt_ok: "table_ok t \<Longrightarrow> table_ok (exec_stmt x t)"
  by (cases x)
    (auto intro!: table_ok_insert table_ok_update simp: new_row_def keeps_key_def claim_set_def split: if_splits)

lemma attempts_of_update:
  "keeps_key f \<Longrightarrow> (\<And>r. wd_Attempts r \<le> wd_Attempts (f r)) \<Longrightarrow>
     attempts_of p d t \<le> attempts_of p d (fst (update_rows q f t))"
  by (auto simp: attempts_of_def find_update_rows split: option.splits)

lemma attempts_of_exec: "attempts_of p d t \<le> attempts_of p d (exec_stmt x t)"
proof (cases x)
  case (InsertStmt uuid p' d' payload now)
  then show ?thesis
    by (auto simp: attempts_of_def find_insert_delivery new_row_def split: option.splits)
qed (auto intro!: attempts_of_update simp: keeps_key_def claim_set_def)

lemma won_attempts:
  assumes "table_ok t" and "won p d x t = Some n"
  shows "attempts_of p d t < n \<and> n = attempts_of p d (exec_stmt x t)"
proof -
  obtain lease now where x: "x = ClaimStmt p d lease now"
    and hit: "snd (update_rows (claim_where p d now) (claim_set (now + lease) now) t) \<noteq> 0"
    and n: "n = attempts_of p d (exec_stmt x t)"
    using assms(2) by (cases x) (auto split: if_splits)
  obtain r where "find (row_of p d) t = Some r" "claim_where p d now r"
    using hit affected_zero [OF assms(1), of "claim_where p d now" p d] claim_where_row by (auto split: option.splits)
  then show ?thesis using x n by (simp add: attempts_of_def find_update_rows claim_set_def)
qed

lemma wins_above: "table_ok t \<Longrightarrow> n \<in> set (wins p d xs t) \<Longrightarrow> attempts_of p d t < n"
proof (induction xs arbitrary: t)
  case (Cons x xs)
  have "attempts_of p d t \<le> attempts_of p d (exec_stmt x t)" by (rule attempts_of_exec)
  then show ?case
    using Cons exec_stmt_ok [OF Cons.prems(1)] won_attempts [OF Cons.prems(1), of p d x]
    by (fastforce split: option.splits)
qed simp



text \<open>
  \<open>Claim\<close> reads the attempt number of its claim id back after its update. When the lease ends
  between the two statements and another worker claims the delivery in between, both workers hold
  the claim id of the second attempt: here the first worker claims at 1, the second at 12, and both
  then read attempt 2.
\<close>

lemma claim_id_read_late:
  "let t = exec_stmt (ClaimStmt ''p'' ''d'' 10 12) (exec_stmt (ClaimStmt ''p'' ''d'' 10 1)
             (exec_stmt (InsertStmt ''u'' ''p'' ''d'' [] 0) []))
   in wins ''p'' ''d'' [InsertStmt ''u'' ''p'' ''d'' [] 0, ClaimStmt ''p'' ''d'' 10 1, ClaimStmt ''p'' ''d'' 10 12] [] = [1, 2]
      \<and> map_option wd_Attempts (find (row_of ''p'' ''d'') t) = Some 2"
  by code_simp

end
