(* ===== verification/Burst_Control.thy ===== *)
theory Burst_Control
  imports Domain
begin

text \<open>
  \<open>src/webhooks/burst_control.go\<close>: the controller that suppresses bursts of webhook events of one
  key. Its map of last-seen times is swept on every event; the reference it is compared with looks
  at the whole history of events.
\<close>

section \<open>The controller\<close>

datatype BurstMode = BurstModeNone | BurstModeCoalesce | BurstModeDebounce

fun burst_mode_str :: "BurstMode \<Rightarrow> string" where
  "burst_mode_str BurstModeNone = ''none''"
| "burst_mode_str BurstModeCoalesce = ''coalesce''"
| "burst_mode_str BurstModeDebounce = ''debounce''"

definition normalizeBurstMode :: "string \<Rightarrow> BurstMode" where
  "normalizeBurstMode mode =
     (let m = ToLower (TrimSpace mode) in
      if m = ''coalesce'' then BurstModeCoalesce
      else if m = ''debounce'' then BurstModeDebounce
      else BurstModeNone)"

record BurstDecision =
  bd_Allow :: bool
  bd_Metadata :: meta

record BurstOptions =
  bo_Mode :: string
  bo_Window :: int
  bo_MaxEntries :: int
  bo_ExtractKey :: "(InboundRequest \<Rightarrow> string option) option"

record DefaultBurstController =
  bc_mode :: BurstMode
  bc_window :: int
  bc_maxEntries :: int
  bc_extractKey :: "InboundRequest \<Rightarrow> string option"
  bc_entries :: "(string, int) gomap"

text \<open>The first usable value among the given keys; \<open>(key, ok)\<close> is an option.\<close>

definition first_value :: "(string \<Rightarrow> string) \<Rightarrow> (string \<Rightarrow> bool) \<Rightarrow> string list \<Rightarrow> string option" where
  "first_value get usable keys = find usable (map get keys)"

definition DefaultBurstKeyExtractor :: "(int \<Rightarrow> int \<Rightarrow> string) \<Rightarrow> InboundRequest \<Rightarrow> string option" where
  "DefaultBurstKeyExtractor ff req =
     (let providerID = TrimSpace (ToLower (ir_ProviderID req)) in
      if providerID = [] then None
      else case first_value (\<lambda>k. TrimSpace (Sprint ff (meta_get (ir_Metadata req) k)))
                  (\<lambda>v. v \<noteq> [] \<and> v \<noteq> ''<nil>'') [''burst_key'', ''channel_id'', ''resource_id''] of
             Some value \<Rightarrow> Some (providerID @ '':'' @ ToLower value)
           | None \<Rightarrow>
               (case first_value (\<lambda>k. TrimSpace (headerValue (ir_Headers req) k)) (\<lambda>v. v \<noteq> [])
                       [''x-goog-channel-id'', ''x-channel-id'', ''x-resource-id''] of
                  Some value \<Rightarrow> Some (providerID @ '':'' @ ToLower value)
                | None \<Rightarrow> None))"

definition NewBurstController :: "(int \<Rightarrow> int \<Rightarrow> string) \<Rightarrow> BurstOptions \<Rightarrow> DefaultBurstController" where
  "NewBurstController ff opts =
     \<lparr>bc_mode = normalizeBurstMode (bo_Mode opts),
      bc_window = (if bo_Window opts \<le> 0 then 2 * Second else bo_Window opts),
      bc_maxEntries = (if bo_MaxEntries opts \<le> 0 then 4096 else bo_MaxEntries opts),
      bc_extractKey = (case bo_ExtractKey opts of None \<Rightarrow> DefaultBurstKeyExtractor ff | Some f \<Rightarrow> f),
      bc_entries = []\<rparr>"

text \<open>
  The sweep of a map that is over its limit: entries in iteration order, deleting the expired ones,
  until the map (of \<open>n\<close> entries) is within the limit.
\<close>

fun sweep :: "int \<Rightarrow> int \<Rightarrow> int \<Rightarrow> int \<Rightarrow> (string, int) gomap \<Rightarrow> (string, int) gomap" where
  "sweep now window maxEntries n [] = []"
| "sweep now window maxEntries n ((key, seenAt) # es) =
     (if time_Sub now seenAt > window
      then (if n - 1 \<le> maxEntries then es else sweep now window maxEntries (n - 1) es)
      else (key, seenAt) # (if n \<le> maxEntries then es else sweep now window maxEntries n es))"

definition burst_cleanup :: "int \<Rightarrow> int \<Rightarrow> int \<Rightarrow> (string, int) gomap \<Rightarrow> (string, int) gomap" where
  "burst_cleanup now window maxEntries es =
     (if int (length es) \<le> maxEntries
      then delete_where (\<lambda>key seenAt. time_Sub now seenAt > wrap64 (window * 4)) es
      else sweep now window maxEntries (int (length es)) es)"

definition allowed :: BurstDecision where
  "allowed = \<lparr>bd_Allow = True, bd_Metadata = []\<rparr>"

definition suppressed :: "DefaultBurstController \<Rightarrow> string \<Rightarrow> string \<Rightarrow> BurstDecision" where
  "suppressed c key mark =
     \<lparr>bd_Allow = False,
      bd_Metadata = [(''burst_mode'', AStr (burst_mode_str (bc_mode c))), (''burst_key'', AStr key),
        (''burst_window_ms'', AInt64 (bc_window c div Millisecond)), (mark, ABool True)]\<rparr>"

definition DefaultBurstController_Allow ::
  "DefaultBurstController option \<Rightarrow> InboundRequest \<Rightarrow> int \<Rightarrow> BurstDecision \<times> DefaultBurstController option" where
  "DefaultBurstController_Allow receiver req now =
     (case receiver of None \<Rightarrow> (allowed, None) | Some c \<Rightarrow>
      if bc_mode c = BurstModeNone then (allowed, receiver)
      else case bc_extractKey c req of
             None \<Rightarrow> (allowed, receiver)
           | Some k \<Rightarrow>
               let key = TrimSpace k in
               if key = [] then (allowed, receiver)
               else
                 let seen = map_of (bc_entries c) key;
                     c' = c\<lparr>bc_entries := burst_cleanup now (bc_window c) (bc_maxEntries c)
                              (AList.update key now (bc_entries c))\<rparr>
                 in (case seen of
                       None \<Rightarrow> (allowed, Some c')
                     | Some lastSeen \<Rightarrow>
                         if time_Sub now lastSeen \<ge> bc_window c then (allowed, Some c')
                         else (case bc_mode c of
                                 BurstModeCoalesce \<Rightarrow> (suppressed c key ''coalesced'', Some c')
                               | BurstModeDebounce \<Rightarrow> (suppressed c key ''debounced'', Some c')
                               | BurstModeNone \<Rightarrow> (allowed, Some c'))))"

section \<open>The sweep only drops entries outside the window\<close>

lemma sweep_subset: "x \<in> set (sweep now window maxE n es) \<Longrightarrow> x \<in> set es"
  by (induction es arbitrary: n) (auto split: if_splits, blast+)

lemma sweep_ok: "gomap_ok es \<Longrightarrow> gomap_ok (sweep now window maxE n es)"
proof (induction es arbitrary: n)
  case (Cons e es)
  have "fst e \<notin> fst ` set (sweep now window maxE m es)" for m
    using Cons.prems by (auto simp: image_iff dest: sweep_subset)
  with Cons show ?case by (cases e) auto
qed simp

lemma sweep_dropped:
  "(k, t) \<in> set es \<Longrightarrow> (k, t) \<notin> set (sweep now window maxE n es) \<Longrightarrow> time_Sub now t > window"
  by (induction es arbitrary: n) (auto split: if_splits)

definition burst_window_ok :: "int \<Rightarrow> bool" where
  "burst_window_ok window \<longleftrightarrow> 0 < window \<and> window < 2 ^ 61"

lemma cleanup_props:
  assumes "gomap_ok es" and "burst_window_ok window"
  shows "gomap_ok (burst_cleanup now window maxE es)"
    and "set (burst_cleanup now window maxE es) \<subseteq> set es"
    and "(k, t) \<in> set es \<Longrightarrow> (k, t) \<notin> set (burst_cleanup now window maxE es) \<Longrightarrow> now - t > window"
proof -
  have w: "wrap64 (window * 4) = window * 4"
    by (rule wrap64_id) (use assms(2) in \<open>auto simp: burst_window_ok_def int64_def\<close>)
  have big: "time_Sub now u > b \<Longrightarrow> - (2 ^ 63) \<le> b \<Longrightarrow> now - u > b" for u b by (simp add: time_Sub_def)
  show "gomap_ok (burst_cleanup now window maxE es)"
    using assms sweep_ok by (auto simp: burst_cleanup_def)
  show "set (burst_cleanup now window maxE es) \<subseteq> set es"
    using sweep_subset by (auto simp: burst_cleanup_def delete_where_def)
  show "(k, t) \<in> set es \<Longrightarrow> (k, t) \<notin> set (burst_cleanup now window maxE es) \<Longrightarrow> now - t > window"
    using sweep_dropped [of k t es now window maxE] big [of "window * 4" t] big [of window t] assms(2) w
    by (auto simp: burst_cleanup_def delete_where_def burst_window_ok_def split: if_splits)
qed

section \<open>The controller against the history\<close>

text \<open>
  \<open>tracks c hist now\<close>: the entries of the controller are the latest events of the history, and an
  event it has forgotten lies outside the window from now on.
\<close>

definition tracks :: "DefaultBurstController \<Rightarrow> (string \<times> int) list \<Rightarrow> int \<Rightarrow> bool" where
  "tracks c hist T \<longleftrightarrow> gomap_ok (bc_entries c) \<and> (\<forall>(k, t) \<in> set hist. t \<le> T) \<and>
     (\<forall>k t. map_of (bc_entries c) k = Some t \<longrightarrow> (k, t) \<in> set hist \<and> (\<forall>t'. (k, t') \<in> set hist \<longrightarrow> t' \<le> t)) \<and>
     (\<forall>k t. (k, t) \<in> set hist \<longrightarrow> map_of (bc_entries c) k = None \<longrightarrow> T - t \<ge> bc_window c)"

text \<open>The reference: an event is let through when no earlier event of its key lies within the window.\<close>

definition recent :: "int \<Rightarrow> (string \<times> int) list \<Rightarrow> string \<Rightarrow> int \<Rightarrow> bool" where
  "recent window hist key now \<longleftrightarrow> (\<exists>(k, t) \<in> set hist. k = key \<and> now - t < window)"

fun burst_reference :: "int \<Rightarrow> (string \<times> int) list \<Rightarrow> (string \<times> int) list \<Rightarrow> bool list" where
  "burst_reference window hist [] = []"
| "burst_reference window hist ((key, now) # events) =
     (\<not> recent window hist key now) # burst_reference window ((key, now) # hist) events"

text \<open>The decisions of the controller on a sequence of requests and the instants they arrive at.\<close>

fun burst_run :: "DefaultBurstController option \<Rightarrow> (InboundRequest \<times> int) list \<Rightarrow> bool list" where
  "burst_run c [] = []"
| "burst_run c ((req, now) # events) =
     (case DefaultBurstController_Allow c req now of (d, c') \<Rightarrow> bd_Allow d # burst_run c' events)"

lemma tracks_step:
  assumes tr: "tracks c hist T" and w: "burst_window_ok (bc_window c)" and now: "T \<le> now"
  shows "tracks (c\<lparr>bc_entries := burst_cleanup now (bc_window c) (bc_maxEntries c)
      (AList.update key now (bc_entries c))\<rparr>) ((key, now) # hist) now" (is "tracks ?c ?h now")
proof -
  let ?es = "AList.update key now (bc_entries c)"
  let ?cl = "burst_cleanup now (bc_window c) (bc_maxEntries c) ?es"
  have ok: "gomap_ok (bc_entries c)" using tr by (simp add: tracks_def)
  then have ok1: "gomap_ok ?es" by simp
  note cl = cleanup_props [OF ok1 w, where now = now and maxE = "bc_maxEntries c"]
  have old: "map_of ?es k = Some t" if "map_of ?cl k = Some t" for k t
    using that cl(2) ok1 by (meson map_of_SomeD map_of_is_SomeI subsetD)
  have gone: "map_of ?es k = None \<or> (\<exists>t. map_of ?es k = Some t \<and> now - t > bc_window c)"
    if "map_of ?cl k = None" for k
  proof (cases "map_of ?es k")
    case (Some t)
    then have "(k, t) \<in> set ?es" by (rule map_of_SomeD)
    moreover have "(k, t) \<notin> set ?cl" using that by (metis map_of_eq_None_iff fst_conv image_eqI)
    ultimately show ?thesis using cl(3) Some by blast
  qed simp
  have times: "t \<le> now" if "(k, t) \<in> set hist" for k t using tr that now by (force simp: tracks_def)
  have latest: "(k, t) \<in> set hist" "(k, t') \<in> set hist \<Longrightarrow> t' \<le> t" if "map_of (bc_entries c) k = Some t" for k t t'
    using tr that unfolding tracks_def by blast+
  have lost: "T - t \<ge> bc_window c" if "(k, t) \<in> set hist" "map_of (bc_entries c) k = None" for k t
    using tr that unfolding tracks_def by blast
  have "now - t \<ge> bc_window c" if "(k, t) \<in> set ?h" "map_of ?cl k = None" for k t
  proof -
    have "k \<noteq> key" using gone [OF that(2)] w by (auto simp: burst_window_ok_def)
    then have h: "(k, t) \<in> set hist" using that(1) by simp
    show ?thesis using gone [OF that(2)] \<open>k \<noteq> key\<close> lost [OF h] latest(2) [OF _ h] now by fastforce
  qed
  moreover have "(k, t) \<in> set ?h \<and> (\<forall>t'. (k, t') \<in> set ?h \<longrightarrow> t' \<le> t)" if "map_of ?cl k = Some t" for k t
    using old [OF that] latest times by (auto split: if_splits)
  ultimately show ?thesis using cl(1) times by (auto simp: tracks_def)
qed

lemma Allow_decision:
  assumes tr: "tracks c hist T" and w: "burst_window_ok (bc_window c)" and now: "T \<le> now"
    and mode: "bc_mode c \<noteq> BurstModeNone" and key: "bc_extractKey c req = Some k" "TrimSpace k \<noteq> []"
  shows "\<exists>d. DefaultBurstController_Allow (Some c) req now =
    (d, Some (c\<lparr>bc_entries := burst_cleanup now (bc_window c) (bc_maxEntries c)
                 (AList.update (TrimSpace k) now (bc_entries c))\<rparr>)) \<and>
    bd_Allow d = (\<not> recent (bc_window c) hist (TrimSpace k) now)"
proof (cases "map_of (bc_entries c) (TrimSpace k)")
  case None
  have "now - t \<ge> bc_window c" if "(TrimSpace k, t) \<in> set hist" for t
    using tr None that now unfolding tracks_def by fastforce
  then have "\<not> recent (bc_window c) hist (TrimSpace k) now" by (fastforce simp: recent_def)
  then show ?thesis using None mode key by (simp add: DefaultBurstController_Allow_def allowed_def Let_def)
next
  case (Some t)
  have h: "(TrimSpace k, t) \<in> set hist" "\<And>t'. (TrimSpace k, t') \<in> set hist \<Longrightarrow> t' \<le> t"
    using tr Some unfolding tracks_def by blast+
  then have "recent (bc_window c) hist (TrimSpace k) now \<longleftrightarrow> now - t < bc_window c"
    unfolding recent_def by fastforce
  moreover have "time_Sub now t \<ge> bc_window c \<longleftrightarrow> now - t \<ge> bc_window c"
    using w by (auto simp: time_Sub_def burst_window_ok_def)
  ultimately show ?thesis
    using Some mode key
    by (cases "bc_mode c") (auto simp: DefaultBurstController_Allow_def allowed_def suppressed_def Let_def)
qed

lemma burst_run_reference:
  assumes "tracks c hist T" and "burst_window_ok (bc_window c)" and "bc_mode c \<noteq> BurstModeNone"
    and "sorted (T # map snd events)"
    and "\<forall>(req, now) \<in> set events. \<exists>k. bc_extractKey c req = Some k \<and> TrimSpace k \<noteq> []"
  shows "burst_run (Some c) events = burst_reference (bc_window c) hist
    (map (\<lambda>(req, now). (TrimSpace (the (bc_extractKey c req)), now)) events)"
  using assms
proof (induction events arbitrary: c hist T)
  case (Cons e events)
  obtain req now where e: "e = (req, now)" by fastforce
  have now: "T \<le> now" and sorted: "sorted (now # map snd events)" using Cons.prems(4) e by auto
  obtain k where k: "bc_extractKey c req = Some k" "TrimSpace k \<noteq> []" using Cons.prems(5) e by auto
  let ?c = "c\<lparr>bc_entries := burst_cleanup now (bc_window c) (bc_maxEntries c)
    (AList.update (TrimSpace k) now (bc_entries c))\<rparr>"
  have IH: "burst_run (Some ?c) events = burst_reference (bc_window c) ((TrimSpace k, now) # hist)
      (map (\<lambda>(req, now). (TrimSpace (the (bc_extractKey c req)), now)) events)"
    using Cons.IH [OF tracks_step [OF Cons.prems(1,2) now, of "TrimSpace k"]] Cons.prems sorted by simp
  obtain d where "DefaultBurstController_Allow (Some c) req now = (d, Some ?c)"
    "bd_Allow d = (\<not> recent (bc_window c) hist (TrimSpace k) now)"
    using Allow_decision [OF Cons.prems(1,2) now Cons.prems(3) k] by blast
  then show ?case using IH e k by simp
qed simp

lemma tracks_new: "tracks (NewBurstController ff opts) [] T"
  by (simp add: tracks_def NewBurstController_def)

text \<open>
  The burst controller suppresses an event exactly when an earlier event of its key, let through
  or not, lies less than the window before it. Sweeping the map of last-seen times, whatever its
  limit and in whatever order the map is iterated, changes no decision.
\<close>

theorem burst_decisions_exact:
  assumes "c = NewBurstController ff opts" and "burst_window_ok (bc_window c)" and "bc_mode c \<noteq> BurstModeNone"
    and "sorted (map snd events)"
    and "\<forall>(req, now) \<in> set events. \<exists>k. bc_extractKey c req = Some k \<and> TrimSpace k \<noteq> []"
  shows "burst_run (Some c) events = burst_reference (bc_window c) []
    (map (\<lambda>(req, now). (TrimSpace (the (bc_extractKey c req)), now)) events)"
proof (cases events)
  case (Cons e es)
  have "sorted (snd e # map snd events)" using assms(4) Cons by auto
  then show ?thesis using burst_run_reference [of c "[]" "snd e"] tracks_new assms by blast
qed simp

text \<open>A controller in coalesce mode with a window of 10, keyed by the provider id.\<close>

definition sample_burst_opts :: BurstOptions where
  "sample_burst_opts =
     \<lparr>bo_Mode = '' Coalesce'', bo_Window = 10, bo_MaxEntries = 0, bo_ExtractKey = Some (\<lambda>req. Some (ir_ProviderID req))\<rparr>"

definition sample_event :: "string \<Rightarrow> InboundRequest" where
  "sample_event p = \<lparr>ir_ProviderID = p, ir_Surface = [], ir_Headers = [], ir_Body = [], ir_Metadata = []\<rparr>"

theorem burst_decisions_exact_witness:
  "burst_run (Some (NewBurstController (\<lambda>m e. []) sample_burst_opts))
     [(sample_event ''a'', 0), (sample_event ''a'', 6), (sample_event ''b'', 7), (sample_event ''a'', 12),
      (sample_event ''a'', 22)] = [True, False, True, False, True]"
proof -
  have mode: "normalizeBurstMode '' Coalesce'' = BurstModeCoalesce" by code_simp
  have ab: "TrimSpace ''a'' = ''a''" "TrimSpace ''b'' = ''b''" by code_simp+
  show ?thesis
    using burst_decisions_exact [OF refl, of "\<lambda>m e. []" sample_burst_opts "[(sample_event ''a'', 0),
        (sample_event ''a'', 6), (sample_event ''b'', 7), (sample_event ''a'', 12), (sample_event ''a'', 22)]"]
    by (simp add: NewBurstController_def sample_burst_opts_def burst_window_ok_def mode ab sample_event_def recent_def
        del: burst_run.simps)
qed

end
