(* ===== verification/Webhook_Processor.thy ===== *)
theory Webhook_Processor
  imports Delivery_Ledger Burst_Control Backoff
begin

text \<open>
  \<open>src/webhooks/processor.go\<close>: the processor of webhook deliveries. It verifies a request, claims its
  delivery in the ledger, asks the burst controller, runs the handler and records the outcome. The
  verifier, ledger, handler, burst controller and retry policy are fields, as in the source; handler
  and burst controller act on a world \<open>'w\<close>. A call reads three clocks: the ledger's when it claims,
  the processor's when it schedules a retry, the ledger's when it records the outcome. What the
  processor does with its ledger is proved inside the locale \<open>delivery_ledger\<close>.
\<close>

section \<open>The processor\<close>

record 's DeliveryLedger =
  dl_Claim :: "'s \<Rightarrow> string \<Rightarrow> string \<Rightarrow> string \<Rightarrow> string \<Rightarrow> int \<Rightarrow> int \<Rightarrow> (DeliveryRecord \<times> bool) result \<times> 's"
  dl_Complete :: "'s \<Rightarrow> string \<Rightarrow> int \<Rightarrow> goerr option \<times> 's"
  dl_Fail :: "'s \<Rightarrow> string \<Rightarrow> int \<Rightarrow> int \<Rightarrow> int \<Rightarrow> goerr option \<times> 's"

record ('s, 'w) Processor =
  p_Verifier :: "(InboundRequest \<Rightarrow> goerr option) option"
  p_Ledger :: "'s DeliveryLedger option"
  p_Handler :: "(InboundRequest \<Rightarrow> 'w \<Rightarrow> InboundResult result \<times> 'w) option"
  p_ExtractID :: "(InboundRequest \<Rightarrow> string result) option"
  p_Burst :: "(InboundRequest \<Rightarrow> 'w \<Rightarrow> BurstDecision result \<times> 'w) option"
  p_RetryPolicy :: "(int \<Rightarrow> int) option"
  p_AllowAcceptedServerErrors :: bool
  p_ClaimLease :: int
  p_MaxAttempts :: int

record clocks =
  at_claim :: int
  at_retry :: int
  at_record :: int

definition DefaultDeliveryIDExtractor :: "(int \<Rightarrow> int \<Rightarrow> string) \<Rightarrow> InboundRequest \<Rightarrow> string result" where
  "DefaultDeliveryIDExtractor ff req =
     (let m = (\<lambda>k. TrimSpace (Sprint ff (meta_get (ir_Metadata req) k)));
          usable = (\<lambda>v. v \<noteq> [] \<and> v \<noteq> ''<nil>''); h = headerValue (ir_Headers req) in
      if usable (m ''delivery_id'') then Inr (m ''delivery_id'')
      else if usable (m ''message_id'') then Inr (m ''message_id'')
      else if h ''x-delivery-id'' \<noteq> [] then Inr (h ''x-delivery-id'')
      else if h ''x-github-delivery'' \<noteq> [] then Inr (h ''x-github-delivery'')
      else if h ''x-goog-message-number'' \<noteq> [] then Inr (h ''x-goog-message-number'')
      else Inl (Plain ''webhooks: delivery id is required for dedupe''))"

definition zero_retry_policy :: "int \<Rightarrow> int" where
  "zero_retry_policy = ExponentialRetryPolicy_NextDelay \<lparr>retry_Initial = 0, retry_Max = 0\<rparr>"

definition NewProcessor ::
  "(int \<Rightarrow> int \<Rightarrow> string) \<Rightarrow> (InboundRequest \<Rightarrow> goerr option) option \<Rightarrow> 's DeliveryLedger option \<Rightarrow>
     (InboundRequest \<Rightarrow> 'w \<Rightarrow> InboundResult result \<times> 'w) option \<Rightarrow> ('s, 'w) Processor" where
  "NewProcessor ff verifier ledger handler =
     \<lparr>p_Verifier = verifier, p_Ledger = ledger, p_Handler = handler,
      p_ExtractID = Some (DefaultDeliveryIDExtractor ff), p_Burst = None, p_RetryPolicy = Some zero_retry_policy,
      p_AllowAcceptedServerErrors = False, p_ClaimLease = 30 * Second, p_MaxAttempts = 8\<rparr>"

definition retryPolicy :: "('s, 'w) Processor \<Rightarrow> int \<Rightarrow> int" where
  "retryPolicy p = (case p_RetryPolicy p of None \<Rightarrow> zero_retry_policy | Some f \<Rightarrow> f)"

definition claimLease :: "('s, 'w) Processor \<Rightarrow> int" where
  "claimLease p = (if p_ClaimLease p > 0 then p_ClaimLease p else 30 * Second)"

definition maxAttempts :: "('s, 'w) Processor \<Rightarrow> int" where
  "maxAttempts p = (if p_MaxAttempts p > 0 then p_MaxAttempts p else 8)"

type_synonym ('s, 'w) process_out = "(InboundResult \<times> goerr option) \<times> 's \<times> 'w"

text \<open>The failure branches: the delivery is failed in the ledger, a second error is joined to the first.\<close>

definition fail_delivery ::
  "(goerr \<Rightarrow> string) \<Rightarrow> ('s, 'w) Processor \<Rightarrow> 's DeliveryLedger \<Rightarrow> DeliveryRecord \<Rightarrow> goerr \<Rightarrow> clocks \<Rightarrow> 's \<Rightarrow>
     goerr \<times> 's" where
  "fail_delivery render p ledger delivery err clk s =
     (let nextAttemptAt = at_retry clk + retryPolicy p (dr_Attempts delivery)
      in case dl_Fail ledger s (dr_ClaimID delivery) nextAttemptAt (maxAttempts p) (at_record clk) of
           (None, s') \<Rightarrow> (err, s')
         | (Some failErr, s') \<Rightarrow>
             (Joined [err, Wrapped (''webhooks: mark delivery failed: '' @ err_Error render failErr) [failErr]], s'))"

definition retryable_result :: "('s, 'w) Processor \<Rightarrow> InboundResult \<Rightarrow> bool" where
  "retryable_result p result \<longleftrightarrow>
     \<not> res_Accepted result \<or>
     (res_StatusCode result \<ge> StatusInternalServerError \<and>
      (\<not> res_Accepted result \<or> \<not> p_AllowAcceptedServerErrors p))"

definition process_handler ::
  "(goerr \<Rightarrow> string) \<Rightarrow> ('s, 'w) Processor \<Rightarrow> 's DeliveryLedger \<Rightarrow>
     (InboundRequest \<Rightarrow> 'w \<Rightarrow> InboundResult result \<times> 'w) \<Rightarrow> InboundRequest \<Rightarrow> string \<Rightarrow> DeliveryRecord \<Rightarrow> clocks \<Rightarrow>
     's \<Rightarrow> 'w \<Rightarrow> ('s, 'w) process_out" where
  "process_handler render p ledger handle req deliveryID delivery clk s w =
     (case handle req w of
        (Inl err, w) \<Rightarrow>
          (case fail_delivery render p ledger delivery err clk s of (err, s) \<Rightarrow> ((empty_result, Some err), s, w))
      | (Inr result, w) \<Rightarrow>
          if retryable_result p result
          then
            let retryErr = Plain (''webhooks: delivery handler returned retryable status '' @ Itoa (res_StatusCode result))
            in (case fail_delivery render p ledger delivery retryErr clk s of (err, s) \<Rightarrow> ((result, Some err), s, w))
          else
            (case dl_Complete ledger s (dr_ClaimID delivery) (at_record clk) of
               (Some err, s) \<Rightarrow> ((empty_result, Some err), s, w)
             | (None, s) \<Rightarrow>
                 ((result\<lparr>res_Metadata :=
                     AList.update ''delivery_id'' (AStr deliveryID)
                       (AList.update ''provider_id'' (AStr (ir_ProviderID req))
                         (ensureMetadata (res_Metadata result)))\<rparr>, None), s, w)))"

definition process_claimed ::
  "(goerr \<Rightarrow> string) \<Rightarrow> ('s, 'w) Processor \<Rightarrow> 's DeliveryLedger \<Rightarrow>
     (InboundRequest \<Rightarrow> 'w \<Rightarrow> InboundResult result \<times> 'w) \<Rightarrow> InboundRequest \<Rightarrow> string \<Rightarrow> DeliveryRecord \<Rightarrow> clocks \<Rightarrow>
     's \<Rightarrow> 'w \<Rightarrow> ('s, 'w) process_out" where
  "process_claimed render p ledger handle req deliveryID delivery clk s w =
     (case p_Burst p of
        None \<Rightarrow> process_handler render p ledger handle req deliveryID delivery clk s w
      | Some burst \<Rightarrow>
          (case burst req w of
             (Inl burstErr, w) \<Rightarrow> ((empty_result, Some burstErr), s, w)
           | (Inr decision, w) \<Rightarrow>
               if bd_Allow decision
               then process_handler render p ledger handle req deliveryID delivery clk s w
               else
                 (case dl_Complete ledger s (dr_ClaimID delivery) (at_record clk) of
                    (Some markErr, s) \<Rightarrow> ((empty_result, Some markErr), s, w)
                  | (None, s) \<Rightarrow>
                      ((\<lparr>res_Accepted = True, res_StatusCode = StatusOK,
                         res_Metadata = AList.update ''deduped'' (ABool True)
                           (AList.update ''delivery_id'' (AStr deliveryID)
                             (AList.update ''provider_id'' (AStr (ir_ProviderID req))
                               (ensureMetadata (bd_Metadata decision))))\<rparr>, None), s, w))))"

definition duplicate_result :: "string \<Rightarrow> DeliveryRecord \<Rightarrow> InboundResult" where
  "duplicate_result providerID delivery =
     \<lparr>res_Accepted = True, res_StatusCode = StatusOK,
      res_Metadata = [(''provider_id'', AStr providerID), (''delivery_id'', AStr (dr_DeliveryID delivery)),
        (''status'', AStr (delivery_status_str (dr_Status delivery))), (''deduped'', ABool True)]\<rparr>"

definition Processor_Process ::
  "(goerr \<Rightarrow> string) \<Rightarrow> (int \<Rightarrow> int \<Rightarrow> string) \<Rightarrow> ('s, 'w) Processor option \<Rightarrow> string \<Rightarrow> InboundRequest \<Rightarrow> clocks \<Rightarrow>
     's \<times> 'w \<Rightarrow> ('s, 'w) process_out" where
  "Processor_Process render ff receiver uuid req clk sw =
     (let s = fst sw; w = snd sw; unusable = ((empty_result,
            Some (Plain ''webhooks: processor requires handler and ledger'')), s, w) in
      case receiver of None \<Rightarrow> unusable | Some p \<Rightarrow>
      (case p_Handler p of None \<Rightarrow> unusable | Some handle \<Rightarrow>
      (case p_Ledger p of None \<Rightarrow> unusable | Some ledger \<Rightarrow>
       let providerID = TrimSpace (ir_ProviderID req) in
       if providerID = [] then ((empty_result, Some (Plain ''webhooks: provider id is required'')), s, w)
       else
         let req = req\<lparr>ir_ProviderID := providerID\<rparr> in
         (case (case p_Verifier p of None \<Rightarrow> None | Some verify \<Rightarrow> verify req) of
            Some err \<Rightarrow>
              ((\<lparr>res_Accepted = False, res_StatusCode = StatusUnauthorized,
                 res_Metadata = [(''provider_id'', AStr providerID), (''rejected'', ABool True)]\<rparr>, Some err), s, w)
          | None \<Rightarrow>
              (case (case p_ExtractID p of None \<Rightarrow> DefaultDeliveryIDExtractor ff | Some f \<Rightarrow> f) req of
                 Inl err \<Rightarrow> ((empty_result, Some err), s, w)
               | Inr deliveryID \<Rightarrow>
                   (case dl_Claim ledger s uuid providerID deliveryID (ir_Body req) (claimLease p) (at_claim clk) of
                      (Inl err, s) \<Rightarrow> ((empty_result, Some err), s, w)
                    | (Inr (delivery, claimed), s) \<Rightarrow>
                        if \<not> claimed then ((duplicate_result providerID delivery, None), s, w)
                        else process_claimed render p ledger handle req deliveryID delivery clk s w))))))"

section \<open>Deliveries that reach the ledger\<close>

definition trimmed :: "InboundRequest \<Rightarrow> InboundRequest" where
  "trimmed req = req\<lparr>ir_ProviderID := TrimSpace (ir_ProviderID req)\<rparr>"

lemma trimmed_Body [simp]: "ir_Body (trimmed req) = ir_Body req"
  by (simp add: trimmed_def)

text \<open>\<open>delivers ff p req key\<close>: the request passes verification and names the delivery \<open>key\<close>.\<close>

definition delivers :: "(int \<Rightarrow> int \<Rightarrow> string) \<Rightarrow> ('s, 'w) Processor \<Rightarrow> InboundRequest \<Rightarrow> string \<times> string \<Rightarrow> bool" where
  "delivers ff p req key =
     (TrimSpace (ir_ProviderID req) \<noteq> [] \<and>
      (case p_Verifier p of None \<Rightarrow> True | Some verify \<Rightarrow> verify (trimmed req) = None) \<and>
      (case (case p_ExtractID p of None \<Rightarrow> DefaultDeliveryIDExtractor ff | Some f \<Rightarrow> f) (trimmed req) of
         Inl _ \<Rightarrow> False
       | Inr d \<Rightarrow> TrimSpace d \<noteq> [] \<and> key = (TrimSpace (ir_ProviderID req), TrimSpace d)))"

fun failing :: "('s, 'w) Processor \<Rightarrow> InboundResult result \<Rightarrow> bool" where
  "failing p (Inl _) = True"
| "failing p (Inr r) = retryable_result p r"

lemma claimLease_pos [simp]: "0 < claimLease p"
  by (simp add: claimLease_def duration_defs)

lemma maxAttempts_pos [simp]: "0 < maxAttempts p"
  by (simp add: maxAttempts_def)

lemma maxAttempts_ge_1 [simp]: "1 \<le> maxAttempts p"
  by (simp add: maxAttempts_def)

lemma process_delivers:
  assumes "delivers ff p req key" and "p_Handler p = Some handle" and "p_Ledger p = Some ledger"
  obtains d where "TrimSpace d \<noteq> []" "key = (TrimSpace (ir_ProviderID req), TrimSpace d)"
    and "\<And>s w. Processor_Process render ff (Some p) uuid req clk (s, w) =
      (case dl_Claim ledger s uuid (TrimSpace (ir_ProviderID req)) d (ir_Body req) (claimLease p) (at_claim clk) of
         (Inl err, s) \<Rightarrow> ((empty_result, Some err), s, w)
       | (Inr (delivery, claimed), s) \<Rightarrow>
           if \<not> claimed then ((duplicate_result (TrimSpace (ir_ProviderID req)) delivery, None), s, w)
           else process_claimed render p ledger handle (trimmed req) d delivery clk s w)"
proof -
  obtain d where d: "(case p_ExtractID p of None \<Rightarrow> DefaultDeliveryIDExtractor ff | Some f \<Rightarrow> f) (trimmed req) = Inr d"
    "TrimSpace d \<noteq> []" "key = (TrimSpace (ir_ProviderID req), TrimSpace d)"
    using assms(1) by (auto simp: delivers_def split: sum.splits)
  have v: "(case p_Verifier p of None \<Rightarrow> None | Some verify \<Rightarrow> verify (trimmed req)) = None"
    using assms(1) by (auto simp: delivers_def split: option.splits)
  have p: "TrimSpace (ir_ProviderID req) \<noteq> []" using assms(1) by (simp add: delivers_def)
  show ?thesis
    by (rule that [OF d(2,3)])
      (use d(1,3) v p assms(2,3) in \<open>simp add: Processor_Process_def Let_def flip: trimmed_def\<close>)
qed

context delivery_ledger
begin

text \<open>A delivery that is not claimable is answered as a duplicate; nothing runs and nothing changes.\<close>

lemma process_duplicate:
  assumes del: "delivers ff p req key" and h: "p_Handler p = Some handle"
    and l: "p_Ledger p = Some \<lparr>dl_Claim = claim, dl_Complete = complete, dl_Fail = fail\<rparr>"
    and inv: "inv s" and no: "\<not> claimable (at_claim clk) (view s key)"
  shows "\<exists>r s'. Processor_Process render ff (Some p) uuid req clk (s, w) = ((duplicate_result (fst key) r, None), s', w) \<and>
    inv s' \<and> view s' = view s"
proof -
  obtain d where d: "TrimSpace d \<noteq> []" "key = (TrimSpace (ir_ProviderID req), TrimSpace d)"
    and P: "\<And>s w. Processor_Process render ff (Some p) uuid req clk (s, w) =
      (case claim s uuid (TrimSpace (ir_ProviderID req)) d (ir_Body req) (claimLease p) (at_claim clk) of
         (Inl err, s) \<Rightarrow> ((empty_result, Some err), s, w)
       | (Inr (delivery, claimed), s) \<Rightarrow>
           if \<not> claimed then ((duplicate_result (TrimSpace (ir_ProviderID req)) delivery, None), s, w)
           else process_claimed render p \<lparr>dl_Claim = claim, dl_Complete = complete, dl_Fail = fail\<rparr>
             handle (trimmed req) d delivery clk s w)"
    using process_delivers [OF del h l, of render uuid clk] by auto
  obtain st n nx where v: "view s key = Some (st, n, nx)" using no by (cases "view s key") auto
  have "TrimSpace (ir_ProviderID req) \<noteq> []" using del by (simp add: delivers_def)
  then obtain r s' where "claim s uuid (TrimSpace (ir_ProviderID req)) d (ir_Body req) (claimLease p) (at_claim clk) =
      (Inr (r, False), s')" "inv s'" "view s' = view s"
    using claim_loses [OF inv _ d(1) _ claimLease_pos no v, of "TrimSpace (ir_ProviderID req)" uuid "ir_Body req" p] d(2)
    by auto
  then show ?thesis using P [of s w] d(2) by auto
qed

lemma process_granted:
  assumes del: "delivers ff p req key" and h: "p_Handler p = Some handle" and b: "p_Burst p = None"
    and l: "p_Ledger p = Some \<lparr>dl_Claim = claim, dl_Complete = complete, dl_Fail = fail\<rparr>"
    and inv: "inv s" and can: "claimable (at_claim clk) (view s key)" and n: "n = attempts_after_claim (view s key)"
  obtains d r s1 where "Processor_Process render ff (Some p) uuid req clk (s, w) =
      process_handler render p \<lparr>dl_Claim = claim, dl_Complete = complete, dl_Fail = fail\<rparr> handle (trimmed req) d r clk s1 w"
    "inv s1" "dr_Attempts r = n" "dr_ClaimID r = cid key n"
    "view s1 = (view s)(key \<mapsto> (DeliveryStatusProcessing, n, Some (at_claim clk + claimLease p)))"
proof -
  let ?L = "\<lparr>dl_Claim = claim, dl_Complete = complete, dl_Fail = fail\<rparr>"
  obtain d where d: "TrimSpace d \<noteq> []" "key = (TrimSpace (ir_ProviderID req), TrimSpace d)"
    and P: "\<And>s w. Processor_Process render ff (Some p) uuid req clk (s, w) =
      (case claim s uuid (TrimSpace (ir_ProviderID req)) d (ir_Body req) (claimLease p) (at_claim clk) of
         (Inl err, s) \<Rightarrow> ((empty_result, Some err), s, w)
       | (Inr (delivery, claimed), s) \<Rightarrow>
           if \<not> claimed then ((duplicate_result (TrimSpace (ir_ProviderID req)) delivery, None), s, w)
           else process_claimed render p ?L handle (trimmed req) d delivery clk s w)"
    using process_delivers [OF del h l, of render uuid clk] by auto
  have "TrimSpace (ir_ProviderID req) \<noteq> []" using del by (simp add: delivers_def)
  then obtain r s1 where C: "claim s uuid (TrimSpace (ir_ProviderID req)) d (ir_Body req) (claimLease p) (at_claim clk) =
      (Inr (r, True), s1)" "inv s1" "dr_Attempts r = n" "dr_ClaimID r = cid key n"
    "view s1 = (view s)(key \<mapsto> (DeliveryStatusProcessing, n, Some (at_claim clk + claimLease p)))"
    using claim_wins [OF inv _ d(1) _ claimLease_pos can n, of "TrimSpace (ir_ProviderID req)" uuid "ir_Body req" p] d(2)
    by auto
  show ?thesis
    by (rule that [of d r s1]) (use C P [of s w] b in \<open>auto simp: process_claimed_def\<close>)
qed

lemma process_success:
  assumes del: "delivers ff p req key" and h: "p_Handler p = Some handle" and b: "p_Burst p = None"
    and l: "p_Ledger p = Some \<lparr>dl_Claim = claim, dl_Complete = complete, dl_Fail = fail\<rparr>"
    and inv: "inv s" and can: "claimable (at_claim clk) (view s key)" and n: "n = attempts_after_claim (view s key)"
    and small: "int64 n" and run: "handle (trimmed req) w = (out, w')" and ok: "\<not> failing p out"
  shows "\<exists>result s'. Processor_Process render ff (Some p) uuid req clk (s, w) = ((result, None), s', w') \<and>
    res_Accepted result \<and> inv s' \<and> view s' = (view s)(key \<mapsto> (DeliveryStatusProcessed, n, None))"
proof -
  obtain d r s1 where G: "Processor_Process render ff (Some p) uuid req clk (s, w) =
      process_handler render p \<lparr>dl_Claim = claim, dl_Complete = complete, dl_Fail = fail\<rparr> handle (trimmed req) d r clk s1 w"
    "inv s1" "dr_Attempts r = n" "dr_ClaimID r = cid key n"
    "view s1 = (view s)(key \<mapsto> (DeliveryStatusProcessing, n, Some (at_claim clk + claimLease p)))"
    using process_granted [OF del h b l inv can n] .
  have "view s1 key = Some (DeliveryStatusProcessing, n, Some (at_claim clk + claimLease p))" using G(5) by simp
  from complete_claim [OF G(2) this small, of "at_record clk"] obtain s' where
    "complete s1 (cid key n) (at_record clk) = (None, s')" "inv s'"
    "view s' = (view s1)(key \<mapsto> (DeliveryStatusProcessed, n, None))" by blast
  moreover obtain res where "out = Inr res" "\<not> retryable_result p res" using ok by (cases out) auto
  ultimately show ?thesis
    using G run by (auto simp: process_handler_def retryable_result_def)
qed

lemma process_failure:
  assumes del: "delivers ff p req key" and h: "p_Handler p = Some handle" and b: "p_Burst p = None"
    and l: "p_Ledger p = Some \<lparr>dl_Claim = claim, dl_Complete = complete, dl_Fail = fail\<rparr>"
    and inv: "inv s" and can: "claimable (at_claim clk) (view s key)" and n: "n = attempts_after_claim (view s key)"
    and small: "int64 n" and run: "handle (trimmed req) w = (out, w')" and bad: "failing p out"
    and at: "retry_at = at_retry clk + retryPolicy p n" "retry_at \<noteq> 0"
  shows "\<exists>result err s'. Processor_Process render ff (Some p) uuid req clk (s, w) = ((result, Some err), s', w') \<and>
    inv s' \<and> view s' = (view s)(key \<mapsto>
      (if n \<ge> maxAttempts p then (DeliveryStatusDead, n, None) else (DeliveryStatusRetryReady, n, Some retry_at)))"
proof -
  let ?L = "\<lparr>dl_Claim = claim, dl_Complete = complete, dl_Fail = fail\<rparr>"
  obtain d r s1 where G: "Processor_Process render ff (Some p) uuid req clk (s, w) =
      process_handler render p ?L handle (trimmed req) d r clk s1 w"
    "inv s1" "dr_Attempts r = n" "dr_ClaimID r = cid key n"
    "view s1 = (view s)(key \<mapsto> (DeliveryStatusProcessing, n, Some (at_claim clk + claimLease p)))"
    using process_granted [OF del h b l inv can n] .
  have "view s1 key = Some (DeliveryStatusProcessing, n, Some (at_claim clk + claimLease p))" using G(5) by simp
  from fail_claim [OF G(2) this small maxAttempts_pos at(2), of p "at_record clk"] obtain s' where
    F: "fail s1 (cid key n) retry_at (maxAttempts p) (at_record clk) = (None, s')" "inv s'"
    "view s' = (view s1)(key \<mapsto> (if n \<ge> maxAttempts p then (DeliveryStatusDead, n, None)
                                 else (DeliveryStatusRetryReady, n, Some retry_at)))" by blast
  have "fail_delivery render p ?L r err clk s1 = (err, s')" for err
    using F(1) G(3,4) at(1) by (simp add: fail_delivery_def)
  then have "\<exists>result err. Processor_Process render ff (Some p) uuid req clk (s, w) = ((result, Some err), s', w')"
    using G(1) run bad by (cases out) (auto simp: process_handler_def Let_def)
  moreover have "view s' = (view s)(key \<mapsto> (if n \<ge> maxAttempts p then (DeliveryStatusDead, n, None)
      else (DeliveryStatusRetryReady, n, Some retry_at)))" using F(3) G(5) by simp
  ultimately show ?thesis using F(2) by blast
qed

text \<open>
  Deliveries of one key to a handler that always fails and counts its runs in the world: the count is
  the number of attempts, and a delivery that is still retried has attempts left.
\<close>

definition counted :: "('s, nat) Processor \<Rightarrow> string \<times> string \<Rightarrow> 's \<Rightarrow> nat \<Rightarrow> bool" where
  "counted p key s w \<longleftrightarrow> inv s \<and>
     (case view s key of
        None \<Rightarrow> w = 0
      | Some (st, n, nx) \<Rightarrow> int w = n \<and> 1 \<le> n \<and> n \<le> maxAttempts p \<and>
          (st = DeliveryStatusDead \<or> (st = DeliveryStatusRetryReady \<and> n < maxAttempts p)))"

lemma counted_step:
  assumes del: "delivers ff p req key" and h: "p_Handler p = Some (\<lambda>req w. (out req, Suc w))" and b: "p_Burst p = None"
    and l: "p_Ledger p = Some \<lparr>dl_Claim = claim, dl_Complete = complete, dl_Fail = fail\<rparr>"
    and bad: "failing p (out (trimmed req))" and small: "int64 (maxAttempts p)"
    and at: "0 < at_retry clk" "\<And>n. 0 \<le> retryPolicy p n" and J: "counted p key s w"
  shows "\<exists>res s' w'. Processor_Process render ff (Some p) uuid req clk (s, w) = (res, s', w') \<and> counted p key s' w'"
proof (cases "claimable (at_claim clk) (view s key)")
  have inv: "inv s" using J by (simp add: counted_def)
  case False
  obtain r s' where "Processor_Process render ff (Some p) uuid req clk (s, w) = ((duplicate_result (fst key) r, None), s', w)"
    "inv s'" "view s' = view s"
    using process_duplicate [OF del h l inv False] by blast
  then show ?thesis using J by (auto simp: counted_def)
next
  have inv: "inv s" using J by (simp add: counted_def)
  case True
  define n where n: "n = attempts_after_claim (view s key)"
  have w: "int (Suc w) = n" "1 \<le> n" "n \<le> maxAttempts p"
    using J True n by (auto simp: counted_def split: option.splits)
  have i: "int64 n" using w(2,3) small by (auto simp: int64_def)
  have r0: "at_retry clk + retryPolicy p n \<noteq> 0" using at(1) at(2) [of n] by linarith
  obtain result err s' where
    P: "Processor_Process render ff (Some p) uuid req clk (s, w) = ((result, Some err), s', Suc w)" "inv s'"
    "view s' = (view s)(key \<mapsto> (if n \<ge> maxAttempts p then (DeliveryStatusDead, n, None)
      else (DeliveryStatusRetryReady, n, Some (at_retry clk + retryPolicy p n))))"
    using process_failure [OF del h b l inv True n i refl bad refl r0] by blast
  then have "counted p key s' (Suc w)" using w by (simp add: counted_def)
  then show ?thesis using P(1) by blast
qed

end

text \<open>A sequence of deliveries, each with the id drawn for it and its clocks.\<close>

fun process_all ::
  "(goerr \<Rightarrow> string) \<Rightarrow> (int \<Rightarrow> int \<Rightarrow> string) \<Rightarrow> ('s, 'w) Processor \<Rightarrow> (string \<times> InboundRequest \<times> clocks) list \<Rightarrow>
     's \<times> 'w \<Rightarrow> 's \<times> 'w" where
  "process_all render ff p [] sw = sw"
| "process_all render ff p ((uuid, req, clk) # ds) sw =
     process_all render ff p ds (snd (Processor_Process render ff (Some p) uuid req clk sw))"

context delivery_ledger
begin

lemma attempts_bounded:
  assumes "p_Handler p = Some (\<lambda>req w. (out req, Suc w))" and "p_Burst p = None"
    and "p_Ledger p = Some \<lparr>dl_Claim = claim, dl_Complete = complete, dl_Fail = fail\<rparr>"
    and "\<And>req. failing p (out req)" and "int64 (maxAttempts p)" and "\<And>n. 0 \<le> retryPolicy p n"
    and "\<forall>(uuid, req, clk) \<in> set ds. delivers ff p req key \<and> 0 < at_retry clk" and "counted p key s w"
  shows "int (snd (process_all render ff p ds (s, w))) \<le> maxAttempts p"
  using assms(7,8)
proof (induction ds arbitrary: s w)
  case Nil
  show ?case
    using Nil less_imp_le [OF maxAttempts_pos, of p] by (auto simp: counted_def simp del: maxAttempts_pos split: option.splits)
next
  case (Cons x ds)
  obtain uuid req clk where x: "x = (uuid, req, clk)" by (cases x)
  have d: "delivers ff p req key" "0 < at_retry clk" using Cons.prems(1) x by auto
  obtain res s' w' where "Processor_Process render ff (Some p) uuid req clk (s, w) = (res, s', w')" "counted p key s' w'"
    using counted_step [OF d(1) assms(1,2,3,4,5) d(2) assms(6) Cons.prems(2)] by blast
  then show ?case using Cons.IH [of s' w'] Cons.prems(1) x by simp
qed

end

section \<open>The processor over the SQL ledger\<close>

definition sql_ledger :: "(string \<Rightarrow> string) \<Rightarrow> deliveries option DeliveryLedger" where
  "sql_ledger esc =
     \<lparr>dl_Claim = (\<lambda>s. WebhookDeliveryStore_Claim s no_faults), dl_Complete = (\<lambda>s. WebhookDeliveryStore_Complete esc s no_faults),
      dl_Fail = (\<lambda>s. WebhookDeliveryStore_Fail esc s no_faults)\<rparr>"

text \<open>A processor of the default configuration whose handler fails on an empty body.\<close>

definition sample_webhook_handler :: "InboundRequest \<Rightarrow> nat \<Rightarrow> InboundResult result \<times> nat" where
  "sample_webhook_handler req w =
     (if ir_Body req = [] then Inl (Plain ''no body'')
      else Inr \<lparr>res_Accepted = True, res_StatusCode = StatusOK, res_Metadata = []\<rparr>, Suc w)"

definition sample_processor :: "(deliveries option, nat) Processor" where
  "sample_processor = NewProcessor (\<lambda>m e. []) None (Some (sql_ledger (\<lambda>s. s))) (Some sample_webhook_handler)"

definition sample_delivery :: "string \<Rightarrow> InboundRequest" where
  "sample_delivery body =
     \<lparr>ir_ProviderID = '' github'', ir_Surface = ''webhook'', ir_Headers = [], ir_Body = body,
      ir_Metadata = [(''delivery_id'', AStr ''d1'')]\<rparr>"

lemma sample_key_facts: "TrimSpace '' github'' = ''github''" "TrimSpace ''d1'' = ''d1''"
  by code_simp+

lemma sample_processor_fields:
  "p_Handler sample_processor = Some sample_webhook_handler" "p_Burst sample_processor = None"
  "p_Ledger sample_processor = Some (sql_ledger (\<lambda>s. s))" "maxAttempts sample_processor = 8"
  "retryPolicy sample_processor = zero_retry_policy"
  by (simp_all add: sample_processor_def NewProcessor_def maxAttempts_def retryPolicy_def)

lemma sample_delivers: "delivers (\<lambda>m e. []) sample_processor (sample_delivery body) (''github'', ''d1'')"
  by (simp add: delivers_def sample_processor_def NewProcessor_def sample_delivery_def trimmed_def sample_key_facts
      DefaultDeliveryIDExtractor_def meta_get_def Let_def)

lemma sample_store_ok: "store_ok (Some [])" "table_view [] key = None"
  by (simp_all add: table_ok_def table_view_def)

text \<open>
  C2: A delivery is processed once. When the handler accepts a claimed delivery, the delivery is
  recorded as processed, and every later delivery of the same id, at any time, is answered 200 as a
  duplicate without running the handler.
\<close>

theorem webhook_processed_once:
  assumes ok: "store_ok s" and del: "delivers ff p req key" and again: "delivers ff p req2 key"
    and p: "p_Handler p = Some handle" "p_Burst p = None" "p_Ledger p = Some (sql_ledger esc)"
    and can: "claimable (at_claim clk) (store_view s key)" and small: "int64 (attempts_after_claim (store_view s key))"
    and run: "handle (trimmed req) w = (out, w')" and good: "\<not> failing p out"
  shows "\<exists>result s1 r s2. Processor_Process render ff (Some p) uuid req clk (s, w) = ((result, None), s1, w') \<and>
    res_Accepted result \<and>
    Processor_Process render ff (Some p) uuid2 req2 clk2 (s1, w2) = ((duplicate_result (fst key) r, None), s2, w2)"
proof -
  note L = p(3) [unfolded sql_ledger_def]
  obtain result s1 where 1: "Processor_Process render ff (Some p) uuid req clk (s, w) = ((result, None), s1, w')"
    "res_Accepted result" "store_ok s1"
    "store_view s1 = (store_view s)(key \<mapsto> (DeliveryStatusProcessed, attempts_after_claim (store_view s key), None))"
    using sql.process_success [OF del p(1,2) L ok can refl small run good] by blast
  have "\<not> claimable (at_claim clk2) (store_view s1 key)" using 1(4) by simp
  from sql.process_duplicate [OF again p(1) L 1(3) this] 1(1,2) show ?thesis by blast
qed

theorem webhook_processed_once_witness:
  "\<exists>result s1 r s2.
     Processor_Process (\<lambda>_. []) (\<lambda>m e. []) (Some sample_processor) ''u1'' (sample_delivery ''x'')
       \<lparr>at_claim = 1, at_retry = 2, at_record = 3\<rparr> (Some [], 0) = ((result, None), s1, 1) \<and> res_Accepted result \<and>
     Processor_Process (\<lambda>_. []) (\<lambda>m e. []) (Some sample_processor) ''u2'' (sample_delivery ''y'')
       \<lparr>at_claim = 99, at_retry = 99, at_record = 99\<rparr> (s1, 1) = ((duplicate_result ''github'' r, None), s2, 1)"
  using webhook_processed_once [OF sample_store_ok(1) sample_delivers sample_delivers sample_processor_fields(1-3),
      of "\<lparr>at_claim = 1, at_retry = 2, at_record = 3\<rparr>" "''x''" 0
        "Inr \<lparr>res_Accepted = True, res_StatusCode = StatusOK, res_Metadata = []\<rparr>" 1 "\<lambda>_. []" "''u1''" "''u2''" "''y''"
        "\<lparr>at_claim = 99, at_retry = 99, at_record = 99\<rparr>" 1]
  by (simp add: sample_store_ok int64_def sample_webhook_handler_def sample_delivery_def trimmed_def retryable_result_def)

text \<open>
  A failed delivery is retried on schedule. When the handler fails a claimed delivery for the
  \<open>n\<close>-th time and attempts are left, \<open>Process\<close> reports an error; a redelivery before the policy's delay
  for attempt \<open>n\<close> has passed does not run the handler, and a redelivery after it does, and succeeds
  when the handler does.
\<close>

theorem webhook_retry_schedule:
  assumes ok: "store_ok s" and del: "delivers ff p req key" and again: "delivers ff p req2 key"
    and p: "p_Handler p = Some handle" "p_Burst p = None" "p_Ledger p = Some (sql_ledger esc)"
    and can: "claimable (at_claim clk) (store_view s key)"
    and n: "n = attempts_after_claim (store_view s key)" "n < maxAttempts p" "int64 n" "int64 (n + 1)" "1 \<le> n"
    and run: "handle (trimmed req) w = (out, w')" and bad: "failing p out"
    and at: "retry_at = at_retry clk + retryPolicy p n" "retry_at \<noteq> 0"
    and run2: "handle (trimmed req2) w2 = (out2, w3)" and good: "\<not> failing p out2"
  shows "\<exists>result err s1. Processor_Process render ff (Some p) uuid req clk (s, w) = ((result, Some err), s1, w') \<and>
    (if at_claim clk2 < retry_at
     then \<exists>r s2. Processor_Process render ff (Some p) uuid2 req2 clk2 (s1, w2) =
            ((duplicate_result (fst key) r, None), s2, w2)
     else \<exists>result2 s2. Processor_Process render ff (Some p) uuid2 req2 clk2 (s1, w2) = ((result2, None), s2, w3) \<and>
            res_Accepted result2)"
proof -
  note L = p(3) [unfolded sql_ledger_def]
  obtain result err s1 where 1: "Processor_Process render ff (Some p) uuid req clk (s, w) = ((result, Some err), s1, w')"
    "store_ok s1" "store_view s1 key = Some (DeliveryStatusRetryReady, n, Some retry_at)"
    using sql.process_failure [OF del p(1,2) L ok can n(1,3) run bad at] n(2) by fastforce
  have c: "claimable (at_claim clk2) (store_view s1 key) \<longleftrightarrow> \<not> at_claim clk2 < retry_at"
    using 1(3) by (auto simp: due_def)
  have a: "int64 (attempts_after_claim (store_view s1 key))" using 1(3) n(4,5) by simp
  show ?thesis
    using sql.process_duplicate [OF again p(1) L 1(2), of clk2 render uuid2 w2]
      sql.process_success [OF again p(1,2) L 1(2) _ refl a run2 good, of clk2 render uuid2] c 1(1) by fastforce
qed

theorem webhook_retry_schedule_witness:
  "\<exists>result err s1.
     Processor_Process (\<lambda>_. []) (\<lambda>m e. []) (Some sample_processor) ''u1'' (sample_delivery [])
       \<lparr>at_claim = 1, at_retry = 2, at_record = 3\<rparr> (Some [], 0) = ((result, Some err), s1, 1) \<and>
     (\<exists>r s2. Processor_Process (\<lambda>_. []) (\<lambda>m e. []) (Some sample_processor) ''u2'' (sample_delivery ''y'')
       \<lparr>at_claim = 999, at_retry = 1000, at_record = 1000\<rparr> (s1, 1) = ((duplicate_result ''github'' r, None), s2, 1))"
proof -
  have z: "zero_retry_policy 1 = 1000000000" by code_simp
  show ?thesis
    using webhook_retry_schedule [OF sample_store_ok(1) sample_delivers sample_delivers sample_processor_fields(1-3),
        of "\<lparr>at_claim = 1, at_retry = 2, at_record = 3\<rparr>" 1 "[]" 0 "Inl (Plain ''no body'')" 1 1000000002 "''y''" 1
          "Inr \<lparr>res_Accepted = True, res_StatusCode = StatusOK, res_Metadata = []\<rparr>" 2 "\<lambda>_. []" "''u1''"
          "\<lparr>at_claim = 999, at_retry = 1000, at_record = 1000\<rparr>" "''u2''"]
    by (simp add: sample_store_ok sample_processor_fields z int64_def sample_webhook_handler_def sample_delivery_def
        trimmed_def retryable_result_def numeral_2_eq_2)
qed

text \<open>
  A delivery whose handler always fails is attempted at most \<open>MaxAttempts\<close> times, however often
  and whenever it is redelivered; the count of handler runs is the world of the handler.
\<close>

theorem webhook_attempts_bounded:
  assumes "p_Handler p = Some (\<lambda>req w. (out req, Suc w))" and "p_Burst p = None" and "p_Ledger p = Some (sql_ledger esc)"
    and "\<And>req. failing p (out req)" and "int64 (maxAttempts p)" and "\<And>n. 0 \<le> retryPolicy p n"
    and "\<forall>(uuid, req, clk) \<in> set ds. delivers ff p req key \<and> 0 < at_retry clk"
    and "store_ok s" and "store_view s key = None"
  shows "int (snd (process_all render ff p ds (s, 0))) \<le> maxAttempts p"
proof -
  have "sql.counted p key s 0" using assms(8,9) by (simp add: sql.counted_def)
  then show ?thesis
    using sql.attempts_bounded [OF assms(1,2) assms(3) [unfolded sql_ledger_def] assms(4-7)] by blast
qed

lemma zero_retry_policy_pos: "0 < zero_retry_policy n"
proof (cases "1 \<le> n")
  case True
  have "small_delay (retry_initial \<lparr>retry_Initial = 0, retry_Max = 0\<rparr>) (retry_maximum \<lparr>retry_Initial = 0, retry_Max = 0\<rparr>)"
    by (simp add: small_delay_def retry_initial_def retry_maximum_def duration_defs)
  then show ?thesis unfolding zero_retry_policy_def using True by (rule retry.delay_pos)
next
  case False
  then show ?thesis
    by (simp add: zero_retry_policy_def ExponentialRetryPolicy_NextDelay_def retry_initial_def retry_maximum_def
        duration_defs Let_def)
qed

theorem webhook_attempts_bounded_witness:
  "let p = sample_processor\<lparr>p_Handler := Some (\<lambda>req w. (Inl (Plain ''down''), Suc w)), p_MaxAttempts := 2\<rparr>;
       clk = \<lparr>at_claim = 1, at_retry = 2, at_record = 3\<rparr>
   in int (snd (process_all (\<lambda>_. []) (\<lambda>m e. []) p
        [(''u1'', sample_delivery [], clk), (''u2'', sample_delivery [], clk\<lparr>at_claim := 2000000000\<rparr>),
         (''u3'', sample_delivery [], clk\<lparr>at_claim := 9000000000\<rparr>)] (Some [], 0))) \<le> maxAttempts p"
  unfolding Let_def
proof (rule webhook_attempts_bounded)
  let ?p = "sample_processor\<lparr>p_Handler := Some (\<lambda>req w. (Inl (Plain ''down''), Suc w)), p_MaxAttempts := 2\<rparr>"
  let ?clk = "\<lparr>at_claim = 1, at_retry = 2, at_record = 3\<rparr>"
  show "p_Handler ?p = Some (\<lambda>req w. (Inl (Plain ''down''), Suc w))" "p_Burst ?p = None"
    "p_Ledger ?p = Some (sql_ledger (\<lambda>s. s))" "failing ?p (Inl (Plain ''down''))" for req :: InboundRequest
    by (simp_all add: sample_processor_fields)
  show "int64 (maxAttempts ?p)" by (simp add: maxAttempts_def int64_def)
  show "0 \<le> retryPolicy ?p n" for n
    using zero_retry_policy_pos [of n] by (simp add: retryPolicy_def sample_processor_def NewProcessor_def)
  have "delivers (\<lambda>m e. []) ?p (sample_delivery []) (''github'', ''d1'')"
    using sample_delivers [of "[]"] by (simp add: delivers_def)
  then show "\<forall>(uuid, req, clk) \<in> set [(''u1'', sample_delivery [], ?clk),
      (''u2'', sample_delivery [], ?clk\<lparr>at_claim := 2000000000\<rparr>),
      (''u3'', sample_delivery [], ?clk\<lparr>at_claim := 9000000000\<rparr>)].
      delivers (\<lambda>m e. []) ?p req (''github'', ''d1'') \<and> 0 < at_retry clk" by simp
  show "store_ok (Some [])" "store_view (Some []) (''github'', ''d1'') = None" by (simp_all add: sample_store_ok(2) table_ok_def)
qed

end
