(* ===== verification/Rate_Limit.thy ===== *)
theory Rate_Limit
  imports Backoff Service_Errors Url_Encoding
begin

text \<open>
  \<open>src/ratelimit/policy.go\<close>: the adaptive rate-limit policy, which keeps what a provider's responses
  say about its limits per key and refuses calls that would exceed them, and the in-memory store of
  these states. The contract of a state store is the locale \<open>state_store\<close>; what the policy
  guarantees is proved inside it. \<open>time.Parse\<close> is the argument \<open>parse\<close> (layout, text). Instants are
  counted from Go's zero time, so a Unix time is shifted by \<open>unix_epoch\<close>.
\<close>

section \<open>States and responses\<close>

record RateLimitKey =
  rk_ProviderID :: string
  rk_ScopeType :: string
  rk_ScopeID :: string
  rk_BucketKey :: string

record ProviderResponseMeta =
  pr_StatusCode :: int
  pr_Headers :: "(string, string) gomap"
  pr_RetryAfter :: "int option"
  pr_Metadata :: meta

record RateLimitState =
  rs_Key :: RateLimitKey
  rs_Limit :: int
  rs_Remaining :: int
  rs_ResetAt :: "int option"
  rs_RetryAfter :: "int option"
  rs_ThrottledUntil :: "int option"
  rs_LastStatus :: int
  rs_Attempts :: int
  rs_UpdatedAt :: int
  rs_Metadata :: meta

definition zero_state :: "RateLimitKey \<Rightarrow> RateLimitState" where
  "zero_state key =
     \<lparr>rs_Key = key, rs_Limit = 0, rs_Remaining = 0, rs_ResetAt = None, rs_RetryAfter = None,
      rs_ThrottledUntil = None, rs_LastStatus = 0, rs_Attempts = 0, rs_UpdatedAt = 0, rs_Metadata = []\<rparr>"

definition rl_normalizeKey :: "RateLimitKey \<Rightarrow> RateLimitKey" where
  "rl_normalizeKey key =
     \<lparr>rk_ProviderID = TrimSpace (ToLower (rk_ProviderID key)), rk_ScopeType = TrimSpace (ToLower (rk_ScopeType key)),
      rk_ScopeID = TrimSpace (rk_ScopeID key), rk_BucketKey = TrimSpace (ToLower (rk_BucketKey key))\<rparr>"

definition cloneMap :: "meta \<Rightarrow> meta" where
  "cloneMap input = (if length input = 0 then [] else maps_Copy [] input)"

definition parseHeaderInt :: "(string, string) gomap \<Rightarrow> string \<Rightarrow> int option" where
  "parseHeaderInt headers key =
     (let value = headerValue headers key in if value = [] then None else Atoi value)"

definition unix_epoch :: int where
  "unix_epoch = 62135596800 * Second"

definition parseHeaderResetAt :: "(string, string) gomap \<Rightarrow> int option" where
  "parseHeaderResetAt headers =
     (let value = headerValue headers ''x-ratelimit-reset'' in
      if value = [] then None
      else case Atoi value of
             None \<Rightarrow> None
           | Some unix \<Rightarrow> if unix \<le> 0 then None else Some (unix_epoch + unix * Second))"

definition httpDate :: "(string \<Rightarrow> string \<Rightarrow> int option) \<Rightarrow> string \<Rightarrow> int option" where
  "httpDate parse value =
     (let value = TrimSpace value in
      if value = [] then None
      else case parse ''Mon, 02 Jan 2006 15:04:05 MST'' value of
             Some t \<Rightarrow> Some t
           | None \<Rightarrow> parse ''Mon, 02 Jan 2006 15:04:05 -0700'' value)"

definition parse_retry_header ::
  "(string \<Rightarrow> string \<Rightarrow> int option) \<Rightarrow> ProviderResponseMeta \<Rightarrow> int \<Rightarrow> int option" where
  "parse_retry_header parse res now =
     (let raw = headerValue (pr_Headers res) ''retry-after'' in
      if raw = [] then None
      else case Atoi raw of
             Some seconds \<Rightarrow> if seconds \<le> 0 then None else Some (wrap64 (seconds * Second))
           | None \<Rightarrow>
               (case httpDate parse raw of
                  Some retryAt \<Rightarrow> if retryAt > now then Some (time_Sub retryAt now) else None
                | None \<Rightarrow> None))"

definition parseRetryAfter ::
  "(string \<Rightarrow> string \<Rightarrow> int option) \<Rightarrow> ProviderResponseMeta \<Rightarrow> int \<Rightarrow> int option" where
  "parseRetryAfter parse res now =
     (case pr_RetryAfter res of
        Some d \<Rightarrow> if d > 0 then Some d else parse_retry_header parse res now
      | None \<Rightarrow> parse_retry_header parse res now)"

definition isThrottledResponse :: "int \<Rightarrow> int \<Rightarrow> bool \<Rightarrow> bool \<Rightarrow> bool \<Rightarrow> bool \<Rightarrow> bool" where
  "isThrottledResponse statusCode remaining hasRemaining hasResetAt hasLimit hasRetryAfter =
     (if statusCode = 429 then True
      else if statusCode \<ge> 500 then False
      else remaining = 0 \<and> (hasRemaining \<or> hasResetAt \<or> hasLimit \<or> hasRetryAfter))"

section \<open>The policy\<close>

text \<open>\<open>StateStore\<close> over the state \<open>'s\<close> of a store.\<close>

record 's StateStore =
  ss_Get :: "'s \<Rightarrow> RateLimitKey \<Rightarrow> RateLimitState result"
  ss_Upsert :: "'s \<Rightarrow> RateLimitState \<Rightarrow> goerr option \<times> 's"

record 's AdaptivePolicy =
  ap_Store :: "'s StateStore option"
  ap_Backoff :: AdaptiveBackoff

definition NewAdaptivePolicy :: "'s StateStore option \<Rightarrow> 's AdaptivePolicy" where
  "NewAdaptivePolicy store =
     \<lparr>ap_Store = store,
      ap_Backoff = \<lparr>InitialBackoff = Second, MaxBackoff = Minute, DefaultRetryHint = 5 * Second\<rparr>\<rparr>"

text \<open>What \<open>BeforeCall\<close> answers for a state it has read.\<close>

definition verdict :: "RateLimitState \<Rightarrow> int \<Rightarrow> goerr option" where
  "verdict st now =
     (let refuse = (\<lambda>until. Some (Throttled (rk_ProviderID (rs_Key st)) (rk_BucketKey (rs_Key st)) (time_Sub until now)));
          by_reset = (case rs_ResetAt st of
             Some reset \<Rightarrow> if rs_Remaining st = 0 \<and> now < reset then refuse reset else None
           | None \<Rightarrow> None)
      in case rs_ThrottledUntil st of
           Some until \<Rightarrow> if now < until then refuse until else by_reset
         | None \<Rightarrow> by_reset)"

definition AdaptivePolicy_BeforeCall :: "'s AdaptivePolicy option \<Rightarrow> 's \<Rightarrow> RateLimitKey \<Rightarrow> int \<Rightarrow> goerr option" where
  "AdaptivePolicy_BeforeCall receiver s key now =
     (case receiver of None \<Rightarrow> None | Some p \<Rightarrow>
     (case ap_Store p of None \<Rightarrow> None | Some store \<Rightarrow>
     (case ss_Get store s (rl_normalizeKey key) of
        Inl err \<Rightarrow> if errors_Is err ErrStateNotFound then None else Some err
      | Inr st \<Rightarrow> verdict st now)))"

text \<open>The state \<open>AfterCall\<close> writes, from the state it has read and the response.\<close>

definition note_headers :: "int \<Rightarrow> ProviderResponseMeta \<Rightarrow> RateLimitState \<Rightarrow> RateLimitState" where
  "note_headers now res st =
     (let st = st\<lparr>rs_LastStatus := pr_StatusCode res, rs_UpdatedAt := now,
                rs_Metadata := maps_Copy (cloneMap (rs_Metadata st)) (cloneMap (pr_Metadata res))\<rparr>;
          st = (case parseHeaderInt (pr_Headers res) ''x-ratelimit-limit'' of
                  Some limit \<Rightarrow> st\<lparr>rs_Limit := limit\<rparr> | None \<Rightarrow> st);
          st = (case parseHeaderInt (pr_Headers res) ''x-ratelimit-remaining'' of
                  Some remaining \<Rightarrow> st\<lparr>rs_Remaining := remaining\<rparr> | None \<Rightarrow> st)
      in case parseHeaderResetAt (pr_Headers res) of
           Some resetAt \<Rightarrow> st\<lparr>rs_ResetAt := Some resetAt\<rparr> | None \<Rightarrow> st)"

definition observe ::
  "(string \<Rightarrow> string \<Rightarrow> int option) \<Rightarrow> AdaptiveBackoff \<Rightarrow> int \<Rightarrow> ProviderResponseMeta \<Rightarrow> RateLimitState \<Rightarrow> RateLimitState" where
  "observe parse backoff now res st =
     (let st = note_headers now res st;
          hint = parseRetryAfter parse res now;
          st = st\<lparr>rs_RetryAfter := hint\<rparr>
      in if isThrottledResponse (pr_StatusCode res) (rs_Remaining st)
              (parseHeaderInt (pr_Headers res) ''x-ratelimit-remaining'' \<noteq> None)
              (parseHeaderResetAt (pr_Headers res) \<noteq> None)
              (parseHeaderInt (pr_Headers res) ''x-ratelimit-limit'' \<noteq> None) (hint \<noteq> None)
         then
           let st = st\<lparr>rs_Attempts := rs_Attempts st + 1\<rparr>;
               delay = (case hint of Some d \<Rightarrow> d | None \<Rightarrow> nextBackoff backoff (rs_Attempts st))
           in st\<lparr>rs_ThrottledUntil := Some (now + delay)\<rparr>
         else st\<lparr>rs_Attempts := 0, rs_ThrottledUntil := None\<rparr>)"

definition AdaptivePolicy_AfterCall ::
  "(string \<Rightarrow> string \<Rightarrow> int option) \<Rightarrow> 's AdaptivePolicy option \<Rightarrow> 's \<Rightarrow> RateLimitKey \<Rightarrow> ProviderResponseMeta \<Rightarrow> int \<Rightarrow>
     goerr option \<times> 's" where
  "AdaptivePolicy_AfterCall parse receiver s key res now =
     (case receiver of None \<Rightarrow> (None, s) | Some p \<Rightarrow>
     (case ap_Store p of None \<Rightarrow> (None, s) | Some store \<Rightarrow>
      let key = rl_normalizeKey key in
      (case ss_Get store s key of
         Inl err \<Rightarrow>
           if errors_Is err ErrStateNotFound
           then ss_Upsert store s (observe parse (ap_Backoff p) now res (zero_state key))
           else (Some err, s)
       | Inr st \<Rightarrow> ss_Upsert store s (observe parse (ap_Backoff p) now res st))))"

section \<open>The in-memory store\<close>

record MemoryStateStore =
  ms_items :: "(string, RateLimitState) gomap"

definition NewMemoryStateStore :: MemoryStateStore where
  "NewMemoryStateStore = \<lparr>ms_items = []\<rparr>"

definition stateKey :: "RateLimitKey \<Rightarrow> string" where
  "stateKey key =
     rk_ProviderID key @ ''|'' @ rk_ScopeType key @ ''|'' @ rk_ScopeID key @ ''|'' @ rk_BucketKey key"

definition MemoryStateStore_Get :: "MemoryStateStore option \<Rightarrow> RateLimitKey \<Rightarrow> RateLimitState result" where
  "MemoryStateStore_Get receiver key =
     (case receiver of None \<Rightarrow> Inl (Plain ''ratelimit: state store is nil'') | Some s \<Rightarrow>
     (case map_of (ms_items s) (stateKey (rl_normalizeKey key)) of
        None \<Rightarrow> Inl (Sentinel ErrStateNotFound)
      | Some st \<Rightarrow> Inr (st\<lparr>rs_Metadata := cloneMap (rs_Metadata st)\<rparr>)))"

definition MemoryStateStore_Upsert ::
  "MemoryStateStore option \<Rightarrow> RateLimitState \<Rightarrow> goerr option \<times> MemoryStateStore option" where
  "MemoryStateStore_Upsert receiver st =
     (case receiver of None \<Rightarrow> (Some (Plain ''ratelimit: state store is nil''), receiver) | Some s \<Rightarrow>
      let st = st\<lparr>rs_Key := rl_normalizeKey (rs_Key st), rs_Metadata := cloneMap (rs_Metadata st)\<rparr>
      in (None, Some (s\<lparr>ms_items := AList.update (stateKey (rs_Key st)) st (ms_items s)\<rparr>)))"

section \<open>The contract of a state store\<close>

locale state_store =
  fixes get :: "'s \<Rightarrow> RateLimitKey \<Rightarrow> RateLimitState result"
    and upsert :: "'s \<Rightarrow> RateLimitState \<Rightarrow> goerr option \<times> 's"
    and inv :: "'s \<Rightarrow> bool"
    and good :: "RateLimitKey \<Rightarrow> bool"
  assumes get_missing: "inv s \<Longrightarrow> get s k = Inl e \<Longrightarrow> errors_Is e ErrStateNotFound"
    and get_found: "inv s \<Longrightarrow> good k \<Longrightarrow> get s k = Inr st \<Longrightarrow>
      rs_Key st = rl_normalizeKey k \<and> gomap_ok (rs_Metadata st)"
    and upsert_get: "inv s \<Longrightarrow> good k \<Longrightarrow> rs_Key st = rl_normalizeKey k \<Longrightarrow> gomap_ok (rs_Metadata st) \<Longrightarrow>
      \<exists>s'. upsert s st = (None, s') \<and> inv s' \<and>
        (\<forall>k'. good k' \<longrightarrow> get s' k' = (if rl_normalizeKey k' = rl_normalizeKey k then Inr st else get s k'))"
    and good_normalize: "good k \<Longrightarrow> good (rl_normalizeKey k)"

lemma TrimSpace_ToLower_idem: "TrimSpace (ToLower (TrimSpace (ToLower x))) = TrimSpace (ToLower x)"
  by (metis TrimSpace_ToLower TrimSpace_idem ToLower_idem)

lemma normalizeKey_idem [simp]: "rl_normalizeKey (rl_normalizeKey k) = rl_normalizeKey k"
  by (simp add: rl_normalizeKey_def TrimSpace_ToLower_idem)

lemma note_headers_Key [simp]: "rs_Key (note_headers now res st) = rs_Key st"
  by (simp add: note_headers_def Let_def split: option.splits)

lemma note_headers_Attempts [simp]: "rs_Attempts (note_headers now res st) = rs_Attempts st"
  by (simp add: note_headers_def Let_def split: option.splits)

lemma gomap_ok_cloneMap [simp]: "gomap_ok (cloneMap m)"
  by (simp add: cloneMap_def)

lemma cloneMap_id [simp]: "gomap_ok m \<Longrightarrow> cloneMap m = m"
  by (simp add: cloneMap_def maps_Copy_fresh)

lemma note_headers_Metadata [simp]: "gomap_ok (rs_Metadata (note_headers now res st))"
  by (simp add: note_headers_def Let_def split: option.splits)

lemma observe_Key [simp]: "rs_Key (observe parse b now res st) = rs_Key st"
  by (simp add: observe_def Let_def)

lemma observe_Metadata [simp]: "gomap_ok (rs_Metadata (observe parse b now res st))"
  by (simp add: observe_def Let_def)

lemma observe_other [simp]:
  "rs_Remaining (observe parse b now res st) = rs_Remaining (note_headers now res st)"
  "rs_ResetAt (observe parse b now res st) = rs_ResetAt (note_headers now res st)"
  by (simp_all add: observe_def Let_def)

text \<open>A status of 429 throttles, for the hint when there is one and else for the next backoff.\<close>

lemma observe_429:
  "pr_StatusCode res = 429 \<Longrightarrow> rs_Attempts (observe parse b now res st) = rs_Attempts st + 1 \<and>
     rs_ThrottledUntil (observe parse b now res st) =
       Some (now + (case parseRetryAfter parse res now of Some d \<Rightarrow> d | None \<Rightarrow> nextBackoff b (rs_Attempts st + 1)))"
  by (simp add: observe_def isThrottledResponse_def Let_def split: option.splits)

lemma verdict_None_iff:
  "verdict st t = None \<longleftrightarrow>
     (\<forall>u. rs_ThrottledUntil st = Some u \<longrightarrow> u \<le> t) \<and> (rs_Remaining st = 0 \<longrightarrow> (\<forall>r. rs_ResetAt st = Some r \<longrightarrow> r \<le> t))"
  by (auto simp: verdict_def Let_def split: option.splits)

context state_store
begin

definition current :: "'s \<Rightarrow> RateLimitKey \<Rightarrow> RateLimitState" where
  "current s key = (case get s (rl_normalizeKey key) of Inr st \<Rightarrow> st | Inl _ \<Rightarrow> zero_state (rl_normalizeKey key))"

lemma after_call:
  assumes inv: "inv s" and key: "good key" and p: "ap_Store p = Some \<lparr>ss_Get = get, ss_Upsert = upsert\<rparr>"
  obtains s' where "AdaptivePolicy_AfterCall parse (Some p) s key res now = (None, s')" "inv s'"
    "current s' key = observe parse (ap_Backoff p) now res (current s key)"
    "\<And>k t. good k \<Longrightarrow> rl_normalizeKey k \<noteq> rl_normalizeKey key \<Longrightarrow>
       AdaptivePolicy_BeforeCall (Some p) s' k t = AdaptivePolicy_BeforeCall (Some p) s k t"
    "\<And>t. AdaptivePolicy_BeforeCall (Some p) s' key t = verdict (current s' key) t"
proof -
  let ?k = "rl_normalizeKey key" and ?st = "observe parse (ap_Backoff p) now res (current s key)"
  have g: "good ?k" using key by (rule good_normalize)
  have "rs_Key ?st = rl_normalizeKey ?k"
    using get_found [OF inv g] by (auto simp: current_def zero_state_def split: sum.splits)
  then obtain s' where u: "upsert s ?st = (None, s')" "inv s'"
    "\<And>k'. good k' \<Longrightarrow> get s' k' = (if rl_normalizeKey k' = rl_normalizeKey ?k then Inr ?st else get s k')"
    using upsert_get [OF inv g, of ?st] by auto
  have "AdaptivePolicy_AfterCall parse (Some p) s key res now = (None, s')"
    using u(1) p get_missing [OF inv, of ?k]
    by (auto simp: AdaptivePolicy_AfterCall_def current_def Let_def split: sum.splits)
  moreover have "get s' ?k = Inr ?st" using u(3) [OF g] by simp
  moreover have "get s' (rl_normalizeKey k) = get s (rl_normalizeKey k)"
    if "good k" "rl_normalizeKey k \<noteq> ?k" for k
    using u(3) [OF good_normalize [OF that(1)]] that(2) by simp
  ultimately show ?thesis
    using u(2) p by (intro that [of s']) (auto simp: current_def AdaptivePolicy_BeforeCall_def)
qed

end

section \<open>The in-memory store implements the contract\<close>

definition bar_free :: "RateLimitKey \<Rightarrow> bool" where
  "bar_free k = (let n = rl_normalizeKey k in
     CHR ''|'' \<notin> set (rk_ProviderID n) \<and> CHR ''|'' \<notin> set (rk_ScopeType n) \<and>
     CHR ''|'' \<notin> set (rk_ScopeID n) \<and> CHR ''|'' \<notin> set (rk_BucketKey n))"

lemma stateKey_inj:
  assumes "bar_free a" and "bar_free b" and "stateKey (rl_normalizeKey a) = stateKey (rl_normalizeKey b)"
  shows "rl_normalizeKey a = rl_normalizeKey b"
proof -
  have split: "Split (stateKey (rl_normalizeKey k)) (CHR ''|'') =
      [rk_ProviderID (rl_normalizeKey k), rk_ScopeType (rl_normalizeKey k), rk_ScopeID (rl_normalizeKey k),
       rk_BucketKey (rl_normalizeKey k)]" if "bar_free k" for k
    using that by (simp add: bar_free_def stateKey_def Split_append Split_none Let_def)
  show ?thesis using split [OF assms(1)] split [OF assms(2)] assms(3) by simp
qed

fun state_store_ok :: "MemoryStateStore option \<Rightarrow> bool" where
  "state_store_ok None = False"
| "state_store_ok (Some s) =
     (\<forall>key st. map_of (ms_items s) key = Some st \<longrightarrow> bar_free (rs_Key st) \<and>
        rl_normalizeKey (rs_Key st) = rs_Key st \<and> stateKey (rs_Key st) = key \<and> gomap_ok (rs_Metadata st))"

interpretation mem_state: state_store MemoryStateStore_Get MemoryStateStore_Upsert state_store_ok bar_free
proof unfold_locales
  fix s k e assume "state_store_ok s" "MemoryStateStore_Get s k = Inl e"
  then show "errors_Is e ErrStateNotFound"
    by (cases s) (auto simp: MemoryStateStore_Get_def split: option.splits)
next
  fix s k and st :: RateLimitState
  assume ok: "state_store_ok s" and k: "bar_free k" and get: "MemoryStateStore_Get s k = Inr st"
  then obtain m st0 where m: "s = Some m" "map_of (ms_items m) (stateKey (rl_normalizeKey k)) = Some st0"
    "st = st0\<lparr>rs_Metadata := cloneMap (rs_Metadata st0)\<rparr>"
    by (cases s) (auto simp: MemoryStateStore_Get_def split: option.splits)
  then have "bar_free (rs_Key st0)" "rl_normalizeKey (rs_Key st0) = rs_Key st0"
    "stateKey (rs_Key st0) = stateKey (rl_normalizeKey k)" using ok by auto
  then have "rs_Key st0 = rl_normalizeKey k" using stateKey_inj [OF _ k, of "rs_Key st0"] by simp
  then show "rs_Key st = rl_normalizeKey k \<and> gomap_ok (rs_Metadata st)" using m(3) by simp
next
  fix s k and st :: RateLimitState
  assume ok: "state_store_ok s" and k: "bar_free k" and st: "rs_Key st = rl_normalizeKey k"
    "gomap_ok (rs_Metadata st)"
  obtain m where m: "s = Some m" using ok by (cases s) auto
  let ?m = "m\<lparr>ms_items := AList.update (stateKey (rl_normalizeKey k)) st (ms_items m)\<rparr>"
  have st': "st\<lparr>rs_Key := rl_normalizeKey (rs_Key st), rs_Metadata := cloneMap (rs_Metadata st)\<rparr> = st"
    using st by simp
  have "MemoryStateStore_Upsert s st = (None, Some ?m)"
    using m st' st(1) by (simp add: MemoryStateStore_Upsert_def Let_def)
  moreover have "bar_free (rs_Key st)" using k st(1) by (simp add: bar_free_def)
  then have "state_store_ok (Some ?m)" using ok m st by auto
  moreover have "MemoryStateStore_Get (Some ?m) k' =
      (if rl_normalizeKey k' = rl_normalizeKey k then Inr st else MemoryStateStore_Get s k')" if "bar_free k'" for k'
    using stateKey_inj [OF that k] m st by (auto simp: MemoryStateStore_Get_def)
  ultimately show "\<exists>s'. MemoryStateStore_Upsert s st = (None, s') \<and> state_store_ok s' \<and>
      (\<forall>k'. bar_free k' \<longrightarrow> MemoryStateStore_Get s' k' =
        (if rl_normalizeKey k' = rl_normalizeKey k then Inr st else MemoryStateStore_Get s k'))" by blast
next
  show "bar_free k \<Longrightarrow> bar_free (rl_normalizeKey k)" for k by (simp add: bar_free_def)
qed

section \<open>What the policy guarantees\<close>

definition mem_state_store :: "MemoryStateStore option StateStore" where
  "mem_state_store = \<lparr>ss_Get = MemoryStateStore_Get, ss_Upsert = MemoryStateStore_Upsert\<rparr>"

text \<open>The state the store holds for a key, and the call sequences of the statements below.\<close>

definition state_for :: "MemoryStateStore option \<Rightarrow> RateLimitKey \<Rightarrow> RateLimitState" where
  "state_for s key =
     (case MemoryStateStore_Get s (rl_normalizeKey key) of Inr st \<Rightarrow> st | Inl _ \<Rightarrow> zero_state (rl_normalizeKey key))"

lemma state_for_current: "state_for = mem_state.current"
  by (simp add: fun_eq_iff state_for_def mem_state.current_def)

fun after_calls ::
  "(string \<Rightarrow> string \<Rightarrow> int option) \<Rightarrow> 's AdaptivePolicy \<Rightarrow> RateLimitKey \<Rightarrow> (ProviderResponseMeta \<times> int) list \<Rightarrow> 's \<Rightarrow> 's" where
  "after_calls parse p key [] s = s"
| "after_calls parse p key ((res, now) # calls) s =
     after_calls parse p key calls (snd (AdaptivePolicy_AfterCall parse (Some p) s key res now))"

definition sample_limit_key :: RateLimitKey where
  "sample_limit_key = \<lparr>rk_ProviderID = ''p'', rk_ScopeType = ''user'', rk_ScopeID = ''u'', rk_BucketKey = ''b''\<rparr>"

definition sample_response :: "int \<Rightarrow> (string, string) gomap \<Rightarrow> ProviderResponseMeta" where
  "sample_response status headers =
     \<lparr>pr_StatusCode = status, pr_Headers = headers, pr_RetryAfter = None, pr_Metadata = []\<rparr>"

definition sample_policy :: "MemoryStateStore option AdaptivePolicy" where
  "sample_policy = NewAdaptivePolicy (Some mem_state_store)"

lemma sample_limit_facts:
  "state_store_ok (Some NewMemoryStateStore)" "ap_Store sample_policy = Some mem_state_store"
  "ap_Backoff sample_policy = \<lparr>InitialBackoff = Second, MaxBackoff = Minute, DefaultRetryHint = 5 * Second\<rparr>"
  by (simp_all add: NewMemoryStateStore_def sample_policy_def NewAdaptivePolicy_def)

lemma sample_limit_bar_free: "bar_free sample_limit_key"
  by code_simp

lemma sample_state_for: "state_for (Some NewMemoryStateStore) key = zero_state (rl_normalizeKey key)"
  by (simp add: state_for_def MemoryStateStore_Get_def NewMemoryStateStore_def)



text \<open>
  Consecutive 429 responses without a hint back off exponentially: after the \<open>n\<close>-th in a row the
  key is throttled for the initial backoff doubled \<open>n - 1\<close> times, capped at the maximum.
\<close>

theorem rate_limit_backoff_doubles:
  assumes "state_store_ok s" and "bar_free key" and "ap_Store p = Some mem_state_store"
    and "small_delay (adaptive_initial (ap_Backoff p)) (adaptive_maximum (ap_Backoff p))"
    and "rs_Attempts (state_for s key) = 0" and "calls \<noteq> []"
    and "\<forall>(res, now) \<in> set calls. pr_StatusCode res = 429 \<and> parseRetryAfter parse res now = None"
  shows "rs_ThrottledUntil (state_for (after_calls parse p key calls s) key) =
    Some (snd (last calls) + min (adaptive_maximum (ap_Backoff p))
      (adaptive_initial (ap_Backoff p) * 2 ^ (length calls - 1)))"
proof -
  have run: "state_store_ok (after_calls parse p key calls s) \<and>
      rs_Attempts (state_for (after_calls parse p key calls s) key) = rs_Attempts (state_for s key) + int (length calls) \<and>
      (calls \<noteq> [] \<longrightarrow> rs_ThrottledUntil (state_for (after_calls parse p key calls s) key) =
        Some (snd (last calls) + nextBackoff (ap_Backoff p) (rs_Attempts (state_for s key) + int (length calls))))"
    using assms(1,7)
  proof (induction calls arbitrary: s)
    case (Cons c calls)
    obtain res now where c: "c = (res, now)" by fastforce
    have r: "pr_StatusCode res = 429" "parseRetryAfter parse res now = None" using Cons.prems(2) c by auto
    obtain s' where 1: "AdaptivePolicy_AfterCall parse (Some p) s key res now = (None, s')" "state_store_ok s'"
      "state_for s' key = observe parse (ap_Backoff p) now res (state_for s key)"
      using mem_state.after_call [OF Cons.prems(1) assms(2), of p parse res now] assms(3)
      unfolding mem_state_store_def state_for_current by metis
    note o = observe_429 [OF r(1), of parse "ap_Backoff p" now "state_for s key"]
    have "\<forall>(res, now) \<in> set calls. pr_StatusCode res = 429 \<and> parseRetryAfter parse res now = None"
      using Cons.prems(2) by simp
    from Cons.IH [OF 1(2) this] show ?case
      using 1 c r(2) o by (cases "calls = []") (simp_all add: algebra_simps)
  qed simp
  have n: "1 \<le> int (length calls)" using assms(6) by (cases calls) auto
  have "nextBackoff (ap_Backoff p) (int (length calls)) =
      min (adaptive_maximum (ap_Backoff p)) (adaptive_initial (ap_Backoff p) * 2 ^ (length calls - 1))"
    using adaptive.exact [OF assms(4) n] n by (simp add: nat_diff_distrib)
  then show ?thesis using run assms(5,6) by simp
qed

theorem rate_limit_backoff_doubles_witness:
  "rs_ThrottledUntil (state_for (after_calls (\<lambda>_ _. None) sample_policy sample_limit_key
     [(sample_response 429 [], 10), (sample_response 429 [], 20), (sample_response 429 [], 30)]
     (Some NewMemoryStateStore)) sample_limit_key) = Some 4000000030"
proof -
  have h: "parseRetryAfter (\<lambda>_ _. None) (sample_response 429 []) now = None"
    "pr_StatusCode (sample_response 429 []) = 429" for now
    by (simp_all add: parseRetryAfter_def parse_retry_header_def sample_response_def)
  have b: "adaptive_initial (ap_Backoff sample_policy) = 1000000000" "adaptive_maximum (ap_Backoff sample_policy) = 60000000000"
    by code_simp+
  show ?thesis
    using rate_limit_backoff_doubles [OF sample_limit_facts(1) sample_limit_bar_free sample_limit_facts(2), of
        "[(sample_response 429 [], 10), (sample_response 429 [], 20), (sample_response 429 [], 30)]" "\<lambda>_ _. None"]
    by (simp add: h b small_delay_def sample_state_for zero_state_def del: after_calls.simps)
qed

text \<open>
  The first successful response of a provider that states its limit but not what remains of it
  throttles the key: the remaining count the policy has never seen is taken for zero.
\<close>

theorem rate_limit_fresh_limit_throttles:
  assumes "state_store_ok s" and "bar_free key" and "ap_Store p = Some mem_state_store"
    and "MemoryStateStore_Get s (rl_normalizeKey key) = Inl e"
    and "pr_StatusCode res = 200" and "parseHeaderInt (pr_Headers res) ''x-ratelimit-limit'' = Some limit"
    and "parseHeaderInt (pr_Headers res) ''x-ratelimit-remaining'' = None"
    and "parseHeaderResetAt (pr_Headers res) = None" and "parseRetryAfter parse res now = None"
    and "small_delay (adaptive_initial (ap_Backoff p)) (adaptive_maximum (ap_Backoff p))"
  shows "\<exists>s'. AdaptivePolicy_AfterCall parse (Some p) s key res now = (None, s') \<and>
    AdaptivePolicy_BeforeCall (Some p) s' key now \<noteq> None"
proof -
  obtain s' where 1: "AdaptivePolicy_AfterCall parse (Some p) s key res now = (None, s')"
    "state_for s' key = observe parse (ap_Backoff p) now res (state_for s key)"
    "\<And>t. AdaptivePolicy_BeforeCall (Some p) s' key t = verdict (state_for s' key) t"
    using mem_state.after_call [OF assms(1,2), of p parse res now] assms(3)
    unfolding mem_state_store_def state_for_current by metis
  have "state_for s key = zero_state (rl_normalizeKey key)" using assms(4) by (simp add: state_for_def)
  then have "rs_ThrottledUntil (state_for s' key) = Some (now + nextBackoff (ap_Backoff p) 1)"
    using 1(2) assms(5-9)
    by (simp add: observe_def note_headers_def isThrottledResponse_def zero_state_def Let_def)
  moreover have "0 < nextBackoff (ap_Backoff p) 1" by (rule adaptive.delay_pos [OF assms(10)]) simp
  ultimately have "verdict (state_for s' key) now \<noteq> None" by (auto simp: verdict_None_iff simp del: not_None_eq)
  then show ?thesis using 1(1,3) by simp
qed

theorem rate_limit_fresh_limit_throttles_witness:
  "\<exists>s'. AdaptivePolicy_AfterCall (\<lambda>_ _. None) (Some sample_policy) (Some NewMemoryStateStore) sample_limit_key
      (sample_response 200 [(''X-RateLimit-Limit'', ''100'')]) 5 = (None, s') \<and>
    AdaptivePolicy_BeforeCall (Some sample_policy) s' sample_limit_key 5 \<noteq> None"
proof (rule rate_limit_fresh_limit_throttles [OF sample_limit_facts(1) sample_limit_bar_free sample_limit_facts(2)])
  show "MemoryStateStore_Get (Some NewMemoryStateStore) (rl_normalizeKey sample_limit_key) = Inl (Sentinel ErrStateNotFound)"
    by (simp add: MemoryStateStore_Get_def NewMemoryStateStore_def)
  show "small_delay (adaptive_initial (ap_Backoff sample_policy)) (adaptive_maximum (ap_Backoff sample_policy))"
    by code_simp
qed (code_simp+)

text \<open>
  The store key joins the parts of a rate-limit key with bars and does not escape them: the states of
  these two different keys are the same entry.
\<close>

lemma stateKey_collision:
  "let a = \<lparr>rk_ProviderID = ''p'', rk_ScopeType = ''org'', rk_ScopeID = ''x|y'', rk_BucketKey = ''b''\<rparr>;
       b = \<lparr>rk_ProviderID = ''p'', rk_ScopeType = ''org'', rk_ScopeID = ''x'', rk_BucketKey = ''y|b''\<rparr>
   in rl_normalizeKey a \<noteq> rl_normalizeKey b \<and> stateKey (rl_normalizeKey a) = stateKey (rl_normalizeKey b)"
  by code_simp

end
