(* ===== verification/Sql_Table.thy ===== *)
theory Sql_Table
  imports Service_Errors
begin

text \<open>
  What the SQL stores have in common. A table is the list of its rows; a select of one row by a key is
  \<open>find\<close>, an update by a condition maps over the rows, and an insert that violates a unique constraint
  fails with the database's error \<open>uniq\<close>. A transaction either returns its new table or leaves the old
  one. The lemmas say what a select finds after an insert or an update.
\<close>

lemma find_unique:
  "distinct (map k t) \<Longrightarrow> find (\<lambda>r. k r = x) t = Some r \<longleftrightarrow> r \<in> set t \<and> k r = x"
  by (induction t) auto

lemma find_key: "find (\<lambda>r. k r = x) t = Some r \<Longrightarrow> k r = x"
  by (induction t) (auto split: if_splits)

lemma find_append: "find P (xs @ ys) = (case find P xs of None \<Rightarrow> find P ys | Some x \<Rightarrow> Some x)"
  by (induction xs) auto

lemma find_map_upd:
  assumes "\<And>r. k (f r) = k r"
  shows "find (\<lambda>r. k r = x) (map f t) = map_option f (find (\<lambda>r. k r = x) t)"
  using assms by (induction t) auto

lemma find_none: "find (\<lambda>r. k r = x) t = None \<longleftrightarrow> x \<notin> k ` set t"
  by (auto simp: find_None_iff)

lemma filter_key_distinct:
  assumes "distinct (map k xs)"
  shows "filter (\<lambda>r. k r = x) xs = (case find (\<lambda>r. k r = x) xs of None \<Rightarrow> [] | Some r \<Rightarrow> [r])"
  using assms
proof (induction xs)
  case (Cons y xs)
  show ?case
  proof (cases "k y = x")
    case True
    then have "filter (\<lambda>r. k r = x) xs = []" using Cons.prems by (simp add: filter_empty_conv) (metis imageI)
    with True show ?thesis by simp
  qed (use Cons in simp)
qed simp

lemma find_map: "find P (map f xs) = map_option f (find (\<lambda>x. P (f x)) xs)"
  by (induction xs) auto

lemma sort_find:
  assumes "\<And>x y. x \<in> set xs \<Longrightarrow> y \<in> set xs \<Longrightarrow> P x \<Longrightarrow> P y \<Longrightarrow> x = y"
  shows "find P (sort_key f xs) = find P xs"
proof (cases "find P xs")
  case None
  then have "find P (sort_key f xs) = None" by (simp add: find_None_iff)
  with None show ?thesis by simp
next
  case (Some x)
  then have x: "x \<in> set xs" "P x" by (auto simp: find_Some_iff)
  then obtain y where y: "find P (sort_key f xs) = Some y"
    by (cases "find P (sort_key f xs)") (auto simp: find_None_iff)
  then have "y \<in> set xs" "P y" by (auto simp: find_Some_iff) (metis nth_mem set_sort length_sort)
  with x assms y Some show ?thesis by metis
qed

definition update_where :: "('r \<Rightarrow> bool) \<Rightarrow> ('r \<Rightarrow> 'r) \<Rightarrow> 'r list \<Rightarrow> 'r list" where
  "update_where p f t = map (\<lambda>r. if p r then f r else r) t"

lemma map_key_update_where: "(\<And>r. p r \<Longrightarrow> k (f r) = k r) \<Longrightarrow> map k (update_where p f t) = map k t"
  by (simp add: update_where_def)

lemma filter_update_where:
  assumes "\<forall>x \<in> set t. P x \<longleftrightarrow> L x \<and> Q x" and "L r'"
  shows "filter L (update_where P (\<lambda>_. r') t) = update_where Q (\<lambda>_. r') (filter L t)"
  using assms by (induction t) (auto simp: update_where_def)

lemma find_update_where:
  assumes "\<And>r. k (f r) = x"
  shows "find (\<lambda>r. k r = y) (update_where (\<lambda>r. k r = x) f t) =
    (if y = x then map_option f (find (\<lambda>r. k r = x) t) else find (\<lambda>r. k r = y) t)"
  unfolding update_where_def using assms by (induction t) auto

definition isUniqueViolation :: "(goerr \<Rightarrow> string) \<Rightarrow> goerr \<Rightarrow> bool" where
  "isUniqueViolation render err =
     (let message = ToLower (TrimSpace (err_Error render err)) in
      Contains message ''unique constraint failed'' \<or>
      Contains message ''duplicate key value violates unique constraint'')"

text \<open>What one call draws from outside: fresh ids, the time, database errors and their texts.\<close>

record sql_env =
  se_id :: string
  se_id2 :: string
  se_now :: int
  se_uniq :: goerr
  se_render :: "goerr \<Rightarrow> string"
  se_flt :: sql_faults

definition id_ok :: "string \<Rightarrow> bool" where
  "id_ok x \<longleftrightarrow> x \<noteq> [] \<and> TrimSpace x = x"

end
