(* ===== verification/Outbox.thy ===== *)
theory Outbox
  imports Backoff Sql_Table
begin

text \<open>
  The transactional outbox of lifecycle events: the SQL store of \<open>src/store/sql/outbox_store.go\<close> and the
  dispatcher of \<open>src/core/outbox_dispatcher.go\<close>. The table is a list of rows. The statement of
  \<open>ClaimBatch\<close> is one update whose sub-select orders by the time of occurrence; rows of the same time are
  taken in table order here. \<open>json\<close> is what the database makes of a document between writing and reading
  it. The projectors of the dispatcher act on a world \<open>'w\<close>, from which it reads its clock. What the
  dispatcher does with its store is proved inside the locale \<open>outbox_store\<close>.
\<close>

section \<open>The SQL store\<close>

datatype outboxStatus = outboxStatusPending | outboxStatusProcessing | outboxStatusDelivered | outboxStatusFailed

record lifecycleOutboxRecord =
  ob_ID :: string
  ob_EventID :: string
  ob_EventName :: string
  ob_ProviderID :: string
  ob_ScopeType :: string
  ob_ScopeID :: string
  ob_ConnectionID :: "string option"
  ob_Payload :: meta
  ob_Metadata :: meta
  ob_Status :: outboxStatus
  ob_Attempts :: int
  ob_NextAttempt :: "int option"
  ob_LastError :: string
  ob_OccurredAt :: int
  ob_CreatedAt :: int
  ob_UpdatedAt :: int

type_synonym outbox_table = "lifecycleOutboxRecord list"

abbreviation outbox_not_configured :: goerr where
  "outbox_not_configured \<equiv> Plain ''sqlstore: outbox store is not configured''"

definition outbox_record :: "string \<Rightarrow> LifecycleEvent \<Rightarrow> int \<Rightarrow> lifecycleOutboxRecord" where
  "outbox_record uuid event now =
     \<lparr>ob_ID = uuid, ob_EventID = TrimSpace (ev_ID event), ob_EventName = TrimSpace (ev_Name event),
      ob_ProviderID = TrimSpace (ev_ProviderID event), ob_ScopeType = TrimSpace (ev_ScopeType event),
      ob_ScopeID = TrimSpace (ev_ScopeID event),
      ob_ConnectionID = (let trimmed = TrimSpace (ev_ConnectionID event) in if trimmed \<noteq> [] then Some trimmed else None),
      ob_Payload = copyAnyMap (ev_Payload event), ob_Metadata = copyAnyMap (ev_Metadata event),
      ob_Status = outboxStatusPending, ob_Attempts = 0, ob_NextAttempt = None, ob_LastError = [],
      ob_OccurredAt = (if ev_OccurredAt event = 0 then now else ev_OccurredAt event),
      ob_CreatedAt = now, ob_UpdatedAt = now\<rparr>"

text \<open>The insert fails with \<open>uniq\<close> when the primary key or the event id is taken.\<close>

definition OutboxStore_Enqueue ::
  "goerr \<Rightarrow> goerr option \<Rightarrow> string \<Rightarrow> outbox_table option \<Rightarrow> LifecycleEvent \<Rightarrow> int \<Rightarrow>
     goerr option \<times> outbox_table option" where
  "OutboxStore_Enqueue uniq flt uuid receiver event now =
     (case receiver of None \<Rightarrow> (Some outbox_not_configured, receiver) | Some t \<Rightarrow>
      if TrimSpace (ev_ID event) = [] then (Some (Plain ''sqlstore: outbox event id is required''), receiver)
      else if TrimSpace (ev_Name event) = [] then (Some (Plain ''sqlstore: outbox event name is required''), receiver)
      else if TrimSpace (ev_ProviderID event) = [] then (Some (Plain ''sqlstore: outbox provider id is required''), receiver)
      else if TrimSpace (ev_ScopeType event) = [] \<or> TrimSpace (ev_ScopeID event) = []
      then (Some (Plain ''sqlstore: outbox scope type and scope id are required''), receiver)
      else
        let record = outbox_record uuid event now in
        case flt of Some err \<Rightarrow> (Some err, receiver) | None \<Rightarrow>
        if \<exists>r \<in> set t. ob_ID r = ob_ID record \<or> ob_EventID r = ob_EventID record then (Some uniq, receiver)
        else (None, Some (t @ [record])))"

definition outbox_due :: "int \<Rightarrow> int option \<Rightarrow> bool" where
  "outbox_due now next_attempt_at = (case next_attempt_at of None \<Rightarrow> True | Some t \<Rightarrow> t \<le> now)"

text \<open>\<open>WITH claimed AS (SELECT id ... ORDER BY occurred_at ASC LIMIT ?)\<close>\<close>

definition claimed_ids :: "int \<Rightarrow> int \<Rightarrow> outbox_table \<Rightarrow> string list" where
  "claimed_ids now limit t =
     map ob_ID (take (nat limit) (sort_key ob_OccurredAt
       (filter (\<lambda>r. ob_Status r = outboxStatusPending \<and> outbox_due now (ob_NextAttempt r)) t)))"

text \<open>\<open>UPDATE ... SET status, updated_at WHERE id IN (...) AND status = ? RETURNING ...\<close>\<close>

definition claims :: "string list \<Rightarrow> lifecycleOutboxRecord \<Rightarrow> bool" where
  "claims ids r \<longleftrightarrow> ob_ID r \<in> set ids \<and> ob_Status r = outboxStatusPending"

definition claim_row :: "int \<Rightarrow> lifecycleOutboxRecord \<Rightarrow> lifecycleOutboxRecord" where
  "claim_row now r = r\<lparr>ob_Status := outboxStatusProcessing, ob_UpdatedAt := now\<rparr>"

definition claim_update :: "string list \<Rightarrow> int \<Rightarrow> outbox_table \<Rightarrow> lifecycleOutboxRecord list \<times> outbox_table" where
  "claim_update ids now t =
     (map (claim_row now) (filter (claims ids) t), map (\<lambda>r. if claims ids r then claim_row now r else r) t)"

abbreviation "MetadataKeyOutboxAttempts \<equiv> ''_outbox_attempts''"

definition outboxRecordToEvent :: "lifecycleOutboxRecord \<Rightarrow> LifecycleEvent" where
  "outboxRecordToEvent record =
     \<lparr>ev_ID = ob_EventID record, ev_Name = ob_EventName record, ev_ProviderID = ob_ProviderID record,
      ev_ScopeType = ob_ScopeType record, ev_ScopeID = ob_ScopeID record,
      ev_ConnectionID = (case ob_ConnectionID record of None \<Rightarrow> [] | Some c \<Rightarrow> TrimSpace c),
      ev_Source = [], ev_OccurredAt = ob_OccurredAt record, ev_Payload = copyAnyMap (ob_Payload record),
      ev_Metadata = AList.update MetadataKeyOutboxAttempts (AInt (ob_Attempts record)) (copyAnyMap (ob_Metadata record))\<rparr>"

definition scan_row :: "(meta \<Rightarrow> meta) \<Rightarrow> lifecycleOutboxRecord \<Rightarrow> lifecycleOutboxRecord" where
  "scan_row json r = r\<lparr>ob_Payload := json (ob_Payload r), ob_Metadata := json (ob_Metadata r)\<rparr>"

definition OutboxStore_ClaimBatch ::
  "(meta \<Rightarrow> meta) \<Rightarrow> goerr option \<Rightarrow> outbox_table option \<Rightarrow> int \<Rightarrow> int \<Rightarrow> LifecycleEvent list result \<times> outbox_table option" where
  "OutboxStore_ClaimBatch json flt receiver limit now =
     (case receiver of None \<Rightarrow> (Inl outbox_not_configured, receiver) | Some t \<Rightarrow>
      let limit = (if limit \<le> 0 then 1 else limit) in
      case flt of Some err \<Rightarrow> (Inl err, receiver) | None \<Rightarrow>
      (case claim_update (claimed_ids now limit t) now t of
         (records, t') \<Rightarrow> (Inr (map (\<lambda>r. outboxRecordToEvent (scan_row json r)) records), Some t')))"

definition update_event ::
  "string \<Rightarrow> (lifecycleOutboxRecord \<Rightarrow> lifecycleOutboxRecord) \<Rightarrow> outbox_table \<Rightarrow> outbox_table" where
  "update_event eventID f t = map (\<lambda>r. if ob_EventID r = eventID then f r else r) t"

definition OutboxStore_Ack ::
  "goerr option \<Rightarrow> outbox_table option \<Rightarrow> string \<Rightarrow> int \<Rightarrow> goerr option \<times> outbox_table option" where
  "OutboxStore_Ack flt receiver eventID now =
     (case receiver of None \<Rightarrow> (Some outbox_not_configured, receiver) | Some t \<Rightarrow>
      let eventID = TrimSpace eventID in
      if eventID = [] then (Some (Plain ''sqlstore: event id is required''), receiver)
      else case flt of Some err \<Rightarrow> (Some err, receiver) | None \<Rightarrow>
        (None, Some (update_event eventID
           (\<lambda>r. r\<lparr>ob_Status := outboxStatusDelivered, ob_LastError := [], ob_NextAttempt := None, ob_UpdatedAt := now\<rparr>) t)))"

definition OutboxStore_Retry ::
  "(goerr \<Rightarrow> string) \<Rightarrow> goerr option \<Rightarrow> outbox_table option \<Rightarrow> string \<Rightarrow> goerr option \<Rightarrow> int \<Rightarrow> int \<Rightarrow>
     goerr option \<times> outbox_table option" where
  "OutboxStore_Retry render flt receiver eventID cause nextAttemptAt now =
     (case receiver of None \<Rightarrow> (Some outbox_not_configured, receiver) | Some t \<Rightarrow>
      let eventID = TrimSpace eventID in
      if eventID = [] then (Some (Plain ''sqlstore: event id is required''), receiver)
      else
        let status = (if nextAttemptAt \<noteq> 0 then outboxStatusPending else outboxStatusFailed);
            next_at = (if nextAttemptAt \<noteq> 0 then Some nextAttemptAt else None);
            lastError = (case cause of None \<Rightarrow> [] | Some e \<Rightarrow> TrimSpace (err_Error render e))
        in case flt of Some err \<Rightarrow> (Some err, receiver) | None \<Rightarrow>
          (None, Some (update_event eventID
             (\<lambda>r. r\<lparr>ob_Status := status, ob_Attempts := ob_Attempts r + 1, ob_NextAttempt := next_at,
                   ob_LastError := lastError, ob_UpdatedAt := now\<rparr>) t)))"

section \<open>The dispatcher\<close>

record 's OutboxStore =
  os_ClaimBatch :: "'s \<Rightarrow> int \<Rightarrow> int \<Rightarrow> LifecycleEvent list result \<times> 's"
  os_Ack :: "'s \<Rightarrow> string \<Rightarrow> int \<Rightarrow> goerr option \<times> 's"
  os_Retry :: "'s \<Rightarrow> string \<Rightarrow> goerr option \<Rightarrow> int \<Rightarrow> int \<Rightarrow> goerr option \<times> 's"

type_synonym 'w projector = "LifecycleEvent \<Rightarrow> 'w \<Rightarrow> goerr option \<times> 'w"

definition DefaultOutboxDispatcherConfig :: OutboxDispatcherConfig where
  "DefaultOutboxDispatcherConfig =
     \<lparr>cfg_BatchSize = 50, cfg_MaxAttempts = 5, cfg_InitialBackoff = 2 * Second, cfg_MaxBackoff = 5 * Minute\<rparr>"

record ('s, 'w) OutboxDispatcher =
  od_store :: "'s OutboxStore option"
  od_registry :: "'w projector option list option"
  od_config :: OutboxDispatcherConfig
  od_now :: "'w \<Rightarrow> int"

definition NewOutboxDispatcher ::
  "('w \<Rightarrow> int) \<Rightarrow> 's OutboxStore option \<Rightarrow> 'w projector option list option \<Rightarrow> OutboxDispatcherConfig \<Rightarrow>
     ('s, 'w) OutboxDispatcher result" where
  "NewOutboxDispatcher clock store registry config =
     (case store of None \<Rightarrow> Inl (Plain ''core: outbox store is required'') | Some _ \<Rightarrow>
      let dflt = DefaultOutboxDispatcherConfig;
          config = \<lparr>cfg_BatchSize = (if cfg_BatchSize config \<le> 0 then cfg_BatchSize dflt else cfg_BatchSize config),
            cfg_MaxAttempts = (if cfg_MaxAttempts config \<le> 0 then cfg_MaxAttempts dflt else cfg_MaxAttempts config),
            cfg_InitialBackoff = (if cfg_InitialBackoff config \<le> 0 then cfg_InitialBackoff dflt else cfg_InitialBackoff config),
            cfg_MaxBackoff = (if cfg_MaxBackoff config \<le> 0 then cfg_MaxBackoff dflt else cfg_MaxBackoff config)\<rparr>
      in Inr \<lparr>od_store = store, od_registry = registry, od_config = config, od_now = clock\<rparr>)"

text \<open>\<open>int(x)\<close> of a non-negative \<open>float64\<close>; out of range the result depends on the platform.\<close>

definition int_of_f64 :: "int \<Rightarrow> int \<Rightarrow> int \<Rightarrow> int" where
  "int_of_f64 oob m e =
     (let v = (if e \<ge> 0 then m * 2 ^ nat e else m div 2 ^ nat (- e)) in if int64 v then v else oob)"

definition nextAttemptIndex :: "int \<Rightarrow> LifecycleEvent \<Rightarrow> int" where
  "nextAttemptIndex oob event =
     (if length (ev_Metadata event) = 0 then 0
      else case map_of (ev_Metadata event) MetadataKeyOutboxAttempts of
        None \<Rightarrow> 0
      | Some (AInt typed) \<Rightarrow> if typed < 0 then 0 else typed
      | Some (AInt64 typed) \<Rightarrow> if typed < 0 then 0 else typed
      | Some (AFloat64 m e) \<Rightarrow> if m < 0 then 0 else int_of_f64 oob m e
      | Some (AStr typed) \<Rightarrow>
          (case Atoi (TrimSpace typed) of None \<Rightarrow> 0 | Some parsed \<Rightarrow> if parsed \<ge> 0 then parsed else 0)
      | Some _ \<Rightarrow> 0)"

definition joinErrors :: "(goerr \<Rightarrow> string) \<Rightarrow> goerr option \<Rightarrow> goerr option \<Rightarrow> goerr option" where
  "joinErrors render existing next_err =
     (case existing of None \<Rightarrow> next_err | Some e \<Rightarrow>
      case next_err of None \<Rightarrow> existing | Some n \<Rightarrow>
        Some (Wrapped (err_Error render e @ ''; '' @ err_Error render n) [e]))"

fun run_handlers ::
  "(goerr \<Rightarrow> string) \<Rightarrow> nat \<Rightarrow> 'w projector option list \<Rightarrow> LifecycleEvent \<Rightarrow> 'w \<Rightarrow> goerr option \<times> 'w" where
  "run_handlers render i [] event w = (None, w)"
| "run_handlers render i (None # handlers) event w = run_handlers render (Suc i) handlers event w"
| "run_handlers render i (Some handler # handlers) event w =
     (case handler event w of
        (Some err, w) \<Rightarrow>
          (Some (Wrapped (''core: lifecycle projector '' @ Itoa (int i) @ '' failed for event '' @ quote (ev_ID event) @
             '': '' @ err_Error render err) [err]), w)
      | (None, w) \<Rightarrow> run_handlers render (Suc i) handlers event w)"

definition dispatchOne ::
  "(goerr \<Rightarrow> string) \<Rightarrow> ('s, 'w) OutboxDispatcher \<Rightarrow> LifecycleEvent \<Rightarrow> 'w \<Rightarrow> goerr option \<times> 'w" where
  "dispatchOne render d event w =
     (case od_registry d of
        None \<Rightarrow> (Some (Plain ''core: outbox projector registry is not configured''), w)
      | Some handlers \<Rightarrow>
          if length handlers = 0 then (Some (Plain ''core: outbox projector registry has no handlers''), w)
          else run_handlers render 0 handlers event w)"

definition retryEvent ::
  "int \<Rightarrow> ('s, 'w) OutboxDispatcher \<Rightarrow> 's OutboxStore \<Rightarrow> LifecycleEvent \<Rightarrow> goerr \<Rightarrow> 's \<Rightarrow> 'w \<Rightarrow> goerr option \<times> 's" where
  "retryEvent oob d store event cause s w =
     (let attempt = nextAttemptIndex oob event in
      if wrap64 (attempt + 1) \<ge> cfg_MaxAttempts (od_config d)
      then os_Retry store s (TrimSpace (ev_ID event)) (Some cause) 0 (od_now d w)
      else
        let nextAttemptAt = od_now d w + nextBackoffDelay oob (od_config d) (wrap64 (attempt + 1))
        in os_Retry store s (TrimSpace (ev_ID event)) (Some cause) nextAttemptAt (od_now d w))"

record DispatchStats =
  Claimed :: int
  Delivered :: int
  Retried :: int
  Failed :: int

fun dispatch_events ::
  "(goerr \<Rightarrow> string) \<Rightarrow> int \<Rightarrow> ('s, 'w) OutboxDispatcher \<Rightarrow> 's OutboxStore \<Rightarrow> LifecycleEvent list \<Rightarrow>
     DispatchStats \<Rightarrow> goerr option \<Rightarrow> 's \<Rightarrow> 'w \<Rightarrow> (DispatchStats \<times> goerr option) \<times> 's \<times> 'w" where
  "dispatch_events render oob d store [] stats dispatchErr s w = ((stats, dispatchErr), s, w)"
| "dispatch_events render oob d store (event # events) stats dispatchErr s w =
     (case dispatchOne render d event w of
        (Some err, w) \<Rightarrow>
          (case retryEvent oob d store event err s w of
             (retryErr, s) \<Rightarrow>
               let dispatchErr = (case retryErr of None \<Rightarrow> dispatchErr | Some _ \<Rightarrow> joinErrors render dispatchErr retryErr);
                   stats = (if wrap64 (nextAttemptIndex oob event + 1) \<ge> cfg_MaxAttempts (od_config d)
                            then stats\<lparr>Failed := Failed stats + 1\<rparr> else stats\<lparr>Retried := Retried stats + 1\<rparr>)
               in dispatch_events render oob d store events stats (joinErrors render dispatchErr (Some err)) s w)
      | (None, w) \<Rightarrow>
          (case os_Ack store s (TrimSpace (ev_ID event)) (od_now d w) of
             (Some err, s) \<Rightarrow> dispatch_events render oob d store events stats (joinErrors render dispatchErr (Some err)) s w
           | (None, s) \<Rightarrow>
               dispatch_events render oob d store events (stats\<lparr>Delivered := Delivered stats + 1\<rparr>) dispatchErr s w))"

definition DispatchPending ::
  "(goerr \<Rightarrow> string) \<Rightarrow> int \<Rightarrow> ('s, 'w) OutboxDispatcher option \<Rightarrow> int \<Rightarrow> 's \<Rightarrow> 'w \<Rightarrow>
     (DispatchStats \<times> goerr option) \<times> 's \<times> 'w" where
  "DispatchPending render oob receiver batchSize s w =
     (let none = \<lparr>Claimed = 0, Delivered = 0, Retried = 0, Failed = 0\<rparr>;
          unset = ((none, Some (Plain ''core: outbox dispatcher is not configured'')), s, w) in
      case receiver of None \<Rightarrow> unset | Some d \<Rightarrow>
      (case od_store d of None \<Rightarrow> unset | Some store \<Rightarrow>
       let limit = (if batchSize \<le> 0 then cfg_BatchSize (od_config d) else batchSize) in
       (case os_ClaimBatch store s limit (od_now d w) of
          (Inl err, s) \<Rightarrow> ((none, Some err), s, w)
        | (Inr events, s) \<Rightarrow>
            dispatch_events render oob d store events (none\<lparr>Claimed := int (length events)\<rparr>) None s w)))"

section \<open>What the dispatcher relies on\<close>

text \<open>
  A store is seen as a map from event ids to the status, the number of failed attempts and the time of
  the next one. A claim marks some due pending events as in process and says how often each has
  failed; acknowledging and retrying an event settle it and leave the others alone.
\<close>

type_synonym outbox_view = "string \<Rightarrow> (outboxStatus \<times> int \<times> int option) option"

definition mark_claimed :: "string set \<Rightarrow> outbox_view \<Rightarrow> outbox_view" where
  "mark_claimed ids v = (\<lambda>x. if x \<in> ids then map_option (\<lambda>(_, n, na). (outboxStatusProcessing, n, na)) (v x) else v x)"

text \<open>What becomes of one claimed event, given the outcome of its projectors and the time they were done.\<close>

definition settle :: "int \<Rightarrow> OutboxDispatcherConfig \<Rightarrow> int \<Rightarrow> goerr option \<Rightarrow> int \<Rightarrow> outboxStatus \<times> int \<times> int option" where
  "settle oob c n outcome t =
     (case outcome of
        None \<Rightarrow> (outboxStatusDelivered, n, None)
      | Some _ \<Rightarrow>
          if wrap64 (n + 1) \<ge> cfg_MaxAttempts c then (outboxStatusFailed, n + 1, None)
          else (outboxStatusPending, n + 1, Some (t + nextBackoffDelay oob c (wrap64 (n + 1)))))"

text \<open>The outcomes of the events of a batch, in order: the projectors never see the store.\<close>

fun outcomes ::
  "(goerr \<Rightarrow> string) \<Rightarrow> ('s, 'w) OutboxDispatcher \<Rightarrow> LifecycleEvent list \<Rightarrow> 'w \<Rightarrow> (string \<times> goerr option \<times> int) list" where
  "outcomes render d [] w = []"
| "outcomes render d (event # events) w =
     (case dispatchOne render d event w of
        (outcome, w') \<Rightarrow> (ev_ID event, outcome, od_now d w') # outcomes render d events w')"

lemma map_fst_outcomes [simp]: "map fst (outcomes render d events w) = map ev_ID events"
  by (induction events arbitrary: w) (auto split: prod.splits)

text \<open>
  Repeated calls of \<open>DispatchPending\<close>, each with its batch size and what happens to the world before it;
  the result is the ids of the events dispatched, in order.
\<close>

fun dispatch_all ::
  "(goerr \<Rightarrow> string) \<Rightarrow> int \<Rightarrow> ('s, 'w) OutboxDispatcher \<Rightarrow> 's OutboxStore \<Rightarrow> (int \<times> ('w \<Rightarrow> 'w)) list \<Rightarrow> 's \<Rightarrow> 'w \<Rightarrow>
     string list" where
  "dispatch_all render oob d store [] s w = []"
| "dispatch_all render oob d store ((batch, pass) # calls) s w =
     (let limit = (if batch \<le> 0 then cfg_BatchSize (od_config d) else batch);
          dispatched = (case os_ClaimBatch store s limit (od_now d (pass w)) of
            (Inl _, _) \<Rightarrow> [] | (Inr events, _) \<Rightarrow> map ev_ID events)
      in case DispatchPending render oob (Some d) batch s (pass w) of
           (_, s', w') \<Rightarrow> dispatched @ dispatch_all render oob d store calls s' w')"

definition settled_view ::
  "int \<Rightarrow> OutboxDispatcherConfig \<Rightarrow> (string \<times> goerr option \<times> int) list \<Rightarrow> outbox_view \<Rightarrow> outbox_view" where
  "settled_view oob c trace v =
     (\<lambda>x. case map_of trace x of None \<Rightarrow> v x
          | Some (outcome, t) \<Rightarrow> map_option (\<lambda>(_, n, _). settle oob c n outcome t) (v x))"

text \<open>How the counters follow from the outcomes.\<close>

definition tally ::
  "OutboxDispatcherConfig \<Rightarrow> outbox_view \<Rightarrow> (string \<times> goerr option \<times> int) list \<Rightarrow> DispatchStats \<Rightarrow> DispatchStats" where
  "tally c v trace stats =
     (let last_try = (\<lambda>x. case v x of Some (_, n, _) \<Rightarrow> wrap64 (n + 1) \<ge> cfg_MaxAttempts c | None \<Rightarrow> False) in
      stats\<lparr>Delivered := Delivered stats + int (length (filter (\<lambda>(x, outcome, _). outcome = None) trace)),
        Retried := Retried stats + int (length (filter (\<lambda>(x, outcome, _). outcome \<noteq> None \<and> \<not> last_try x) trace)),
        Failed := Failed stats + int (length (filter (\<lambda>(x, outcome, _). outcome \<noteq> None \<and> last_try x) trace))\<rparr>)"

lemma nextAttemptIndex_claimed:
  "0 \<le> n \<Longrightarrow> map_of (ev_Metadata event) MetadataKeyOutboxAttempts = Some (AInt n) \<Longrightarrow> nextAttemptIndex oob event = n"
  by (cases "ev_Metadata event") (auto simp: nextAttemptIndex_def)

lemma settled_view_Cons:
  assumes "map_of trace x = None" and "v x = Some (st, n, na)"
  shows "settled_view oob c trace (v(x \<mapsto> settle oob c n outcome t)) = settled_view oob c ((x, outcome, t) # trace) v"
proof
  show "settled_view oob c trace (v(x \<mapsto> settle oob c n outcome t)) y = settled_view oob c ((x, outcome, t) # trace) v y" for y
    using assms by (cases "y = x"; cases "map_of trace y") (simp_all add: settled_view_def case_prod_beta)
qed

lemma tally_cong: "(\<And>x. x \<in> fst ` set trace \<Longrightarrow> v x = v' x) \<Longrightarrow> tally c v trace stats = tally c v' trace stats"
proof -
  assume eq: "\<And>x. x \<in> fst ` set trace \<Longrightarrow> v x = v' x"
  have "filter (\<lambda>(x, outcome, _). outcome \<noteq> None \<and> Q (v x)) trace =
      filter (\<lambda>(x, outcome, _). outcome \<noteq> None \<and> Q (v' x)) trace" for Q
    using eq by (intro filter_cong refl) (simp add: case_prod_beta)
  from this [of "\<lambda>y. \<not> (case y of Some (_, n, _) \<Rightarrow> wrap64 (n + 1) \<ge> cfg_MaxAttempts c | None \<Rightarrow> False)"]
    this [of "\<lambda>y. case y of Some (_, n, _) \<Rightarrow> wrap64 (n + 1) \<ge> cfg_MaxAttempts c | None \<Rightarrow> False"]
  show ?thesis by (simp only: tally_def Let_def)
qed

lemma tally_Cons:
  assumes "v x = Some (st, n, na)"
  shows "tally c v ((x, outcome, t) # trace) stats = tally c v trace
    (case outcome of None \<Rightarrow> stats\<lparr>Delivered := Delivered stats + 1\<rparr>
     | Some _ \<Rightarrow> if wrap64 (n + 1) \<ge> cfg_MaxAttempts c then stats\<lparr>Failed := Failed stats + 1\<rparr>
                else stats\<lparr>Retried := Retried stats + 1\<rparr>)"
  using assms by (cases outcome) (simp_all add: tally_def Let_def algebra_simps)

text \<open>How often an event may still be dispatched.\<close>

definition budget :: "OutboxDispatcherConfig \<Rightarrow> outbox_view \<Rightarrow> string \<Rightarrow> int" where
  "budget c v x =
     (case v x of Some (outboxStatusPending, n, _) \<Rightarrow> cfg_MaxAttempts c - n | _ \<Rightarrow> 0)"

definition attempts_left :: "OutboxDispatcherConfig \<Rightarrow> outbox_view \<Rightarrow> bool" where
  "attempts_left c v \<longleftrightarrow> (\<forall>x n na. v x = Some (outboxStatusPending, n, na) \<longrightarrow> 0 \<le> n \<and> n < cfg_MaxAttempts c)"

lemma settle_budget:
  assumes "0 \<le> n" and "n < cfg_MaxAttempts c" and "int64 (cfg_MaxAttempts c)"
  shows "settle oob c n outcome t \<noteq> (outboxStatusProcessing, k, na)"
    and "settle oob c n outcome t = (outboxStatusPending, k, na) \<Longrightarrow> k = n + 1 \<and> k < cfg_MaxAttempts c"
proof -
  have "wrap64 (n + 1) = n + 1" using assms by (intro wrap64_id) (simp add: int64_def)
  then show "settle oob c n outcome t \<noteq> (outboxStatusProcessing, k, na)"
    and "settle oob c n outcome t = (outboxStatusPending, k, na) \<Longrightarrow> k = n + 1 \<and> k < cfg_MaxAttempts c"
    by (auto simp: settle_def split: option.splits if_splits)
qed

lemma dispatch_budget:
  assumes "attempts_left c v" and "int64 (cfg_MaxAttempts c)" and "distinct (map fst trace)"
    and "\<forall>x \<in> fst ` set trace. \<exists>n na. v x = Some (outboxStatusPending, n, na)"
  shows "attempts_left c (settled_view oob c trace v)"
    and "0 \<le> budget c (settled_view oob c trace v) x"
    and "int (count_list (map fst trace) x) + budget c (settled_view oob c trace v) x \<le> budget c v x"
proof -
  have hit: "\<exists>n na out t. v y = Some (outboxStatusPending, n, na) \<and> 0 \<le> n \<and> n < cfg_MaxAttempts c \<and>
      settled_view oob c trace v y = Some (settle oob c n out t)" if y: "y \<in> fst ` set trace" for y
  proof -
    obtain n na where v: "v y = Some (outboxStatusPending, n, na)" using assms(4) y by blast
    obtain out t where "map_of trace y = Some (out, t)"
      using y map_of_eq_None_iff [of trace y] by (cases "map_of trace y") auto
    then have "settled_view oob c trace v y = Some (settle oob c n out t)" using v by (simp add: settled_view_def)
    then show ?thesis using v assms(1) unfolding attempts_left_def by blast
  qed
  have miss: "settled_view oob c trace v y = v y" if "y \<notin> fst ` set trace" for y
    using that map_of_eq_None_iff [of trace y] by (simp add: settled_view_def)
  show left: "attempts_left c (settled_view oob c trace v)"
    unfolding attempts_left_def
  proof (intro allI impI)
    fix y n na assume a: "settled_view oob c trace v y = Some (outboxStatusPending, n, na)"
    show "0 \<le> n \<and> n < cfg_MaxAttempts c"
    proof (cases "y \<in> fst ` set trace")
      case True
      then obtain m out t where m: "0 \<le> m" "m < cfg_MaxAttempts c"
        "settled_view oob c trace v y = Some (settle oob c m out t)" using hit by blast
      then show ?thesis using a settle_budget(2) [OF m(1,2) assms(2), of oob out t n na] by simp
    next
      case False
      then show ?thesis using a assms(1) miss unfolding attempts_left_def by metis
    qed
  qed
  have nonneg: "0 \<le> budget c u y" if "attempts_left c u" for u y
    using that unfolding attempts_left_def budget_def by (cases "u y") (fastforce split: outboxStatus.splits)+
  show "0 \<le> budget c (settled_view oob c trace v) x" using nonneg left by blast
  show "int (count_list (map fst trace) x) + budget c (settled_view oob c trace v) x \<le> budget c v x"
  proof (cases "x \<in> fst ` set trace")
    case True
    then obtain m na out t where m: "v x = Some (outboxStatusPending, m, na)" "0 \<le> m" "m < cfg_MaxAttempts c"
      "settled_view oob c trace v x = Some (settle oob c m out t)" using hit by blast
    obtain st k na' where k: "settle oob c m out t = (st, k, na')" by (cases "settle oob c m out t")
    have "count_list (map fst trace) x = 1" using True by (intro count_list_distinct assms(3)) simp
    then show ?thesis
      using m k settle_budget(2) [OF m(2,3) assms(2), of oob out t k na'] by (cases st) (auto simp: budget_def)
  next
    case False
    then have "count_list (map fst trace) x = 0" by (simp add: count_list_0_iff)
    then show ?thesis using miss [OF False] by (simp add: budget_def)
  qed
qed

locale outbox_store =
  fixes claim_batch :: "'s \<Rightarrow> int \<Rightarrow> int \<Rightarrow> LifecycleEvent list result \<times> 's"
    and ack :: "'s \<Rightarrow> string \<Rightarrow> int \<Rightarrow> goerr option \<times> 's"
    and retry :: "'s \<Rightarrow> string \<Rightarrow> goerr option \<Rightarrow> int \<Rightarrow> int \<Rightarrow> goerr option \<times> 's"
    and inv :: "'s \<Rightarrow> bool"
    and view :: "'s \<Rightarrow> outbox_view"
  assumes claim_law: "inv s \<Longrightarrow> 0 < limit \<Longrightarrow>
      \<exists>events s'. claim_batch s limit now = (Inr events, s') \<and> inv s' \<and> distinct (map ev_ID events) \<and>
        int (length events) \<le> limit \<and> view s' = mark_claimed (ev_ID ` set events) (view s) \<and>
        (\<forall>event \<in> set events. \<exists>n na. view s (ev_ID event) = Some (outboxStatusPending, n, na) \<and> outbox_due now na \<and>
           0 \<le> n \<and> map_of (ev_Metadata event) MetadataKeyOutboxAttempts = Some (AInt n)) \<and>
        (int (card {x. \<exists>n na. view s x = Some (outboxStatusPending, n, na) \<and> outbox_due now na}) \<le> limit \<longrightarrow>
         (\<forall>x n na. view s x = Some (outboxStatusPending, n, na) \<longrightarrow> outbox_due now na \<longrightarrow> x \<in> ev_ID ` set events))"
    and trimmed: "inv s \<Longrightarrow> view s x = Some entry \<Longrightarrow> TrimSpace x = x"
    and ack_law: "inv s \<Longrightarrow> view s x = Some (st, n, na) \<Longrightarrow>
      \<exists>s'. ack s x now = (None, s') \<and> inv s' \<and> view s' = (view s)(x \<mapsto> (outboxStatusDelivered, n, None))"
    and retry_law: "inv s \<Longrightarrow> view s x = Some (st, n, na) \<Longrightarrow>
      \<exists>s'. retry s x cause t now = (None, s') \<and> inv s' \<and>
        view s' = (view s)(x \<mapsto> (if t \<noteq> 0 then (outboxStatusPending, n + 1, Some t) else (outboxStatusFailed, n + 1, None)))"
begin

text \<open>A dispatcher whose store is this one, with the configuration its constructor gives it.\<close>

definition dispatches_here :: "('s, 'w) OutboxDispatcher \<Rightarrow> bool" where
  "dispatches_here d \<longleftrightarrow>
     od_store d = Some \<lparr>os_ClaimBatch = claim_batch, os_Ack = ack, os_Retry = retry\<rparr> \<and>
     0 < cfg_BatchSize (od_config d) \<and> 0 < cfg_MaxAttempts (od_config d) \<and> 0 \<le> cfg_MaxBackoff (od_config d) \<and>
     (\<forall>w. 0 < od_now d w)"

lemma retry_settles:
  assumes "dispatches_here d" and "inv s" and "view s (ev_ID event) = Some (st, n, na)" and "0 \<le> n"
    and "map_of (ev_Metadata event) MetadataKeyOutboxAttempts = Some (AInt n)"
  shows "\<exists>s'. retryEvent oob d \<lparr>os_ClaimBatch = claim_batch, os_Ack = ack, os_Retry = retry\<rparr> event err s w = (None, s') \<and>
    inv s' \<and> view s' = (view s)(ev_ID event \<mapsto> settle oob (od_config d) n (Some err) (od_now d w))"
proof -
  let ?c = "od_config d"
  let ?t = "if wrap64 (n + 1) \<ge> cfg_MaxAttempts ?c then 0 else od_now d w + nextBackoffDelay oob ?c (wrap64 (n + 1))"
  have "0 \<le> nextBackoffDelay oob ?c m" for m
    using assms(1) by (simp add: dispatches_here_def nextBackoffDelay_def Let_def)
  then have "0 < od_now d w + nextBackoffDelay oob ?c (wrap64 (n + 1))"
    using assms(1) by (metis dispatches_here_def add_pos_nonneg)
  then have t: "?t \<noteq> 0 \<longleftrightarrow> \<not> wrap64 (n + 1) \<ge> cfg_MaxAttempts ?c" by auto
  have run: "retryEvent oob d \<lparr>os_ClaimBatch = claim_batch, os_Ack = ack, os_Retry = retry\<rparr> event err s w =
      retry s (ev_ID event) (Some err) ?t (od_now d w)"
    unfolding retryEvent_def nextAttemptIndex_claimed [OF assms(4,5)] trimmed [OF assms(2,3)] by (simp add: Let_def)
  from retry_law [OF assms(2,3), of "Some err" ?t "od_now d w"] show ?thesis
    unfolding run t settle_def by auto
qed

lemma dispatch_events_settle:
  assumes "dispatches_here d"
  shows "inv s \<Longrightarrow> distinct (map ev_ID events) \<Longrightarrow>
    \<forall>event \<in> set events. \<exists>st n na. view s (ev_ID event) = Some (st, n, na) \<and> 0 \<le> n \<and>
      map_of (ev_Metadata event) MetadataKeyOutboxAttempts = Some (AInt n) \<Longrightarrow>
    \<exists>err' s' w'. dispatch_events render oob d \<lparr>os_ClaimBatch = claim_batch, os_Ack = ack, os_Retry = retry\<rparr>
        events stats err s w = ((tally (od_config d) (view s) (outcomes render d events w) stats, err'), s', w') \<and>
      inv s' \<and> view s' = settled_view oob (od_config d) (outcomes render d events w) (view s) \<and>
      (err' = None \<longleftrightarrow> err = None \<and> (\<forall>x \<in> set (outcomes render d events w). fst (snd x) = None))"
proof (induction events arbitrary: stats err s w)
  case Nil
  then show ?case by (simp add: tally_def settled_view_def Let_def)
next
  case (Cons event events)
  let ?ops = "\<lparr>os_ClaimBatch = claim_batch, os_Ack = ack, os_Retry = retry\<rparr>" and ?c = "od_config d"
  obtain st n na where v: "view s (ev_ID event) = Some (st, n, na)" "0 \<le> n"
    "map_of (ev_Metadata event) MetadataKeyOutboxAttempts = Some (AInt n)" using Cons.prems(3) by auto
  obtain outcome w1 where o: "dispatchOne render d event w = (outcome, w1)" by force
  let ?tl = "outcomes render d events w1"
  have fresh: "ev_ID event \<notin> fst ` set ?tl"
    using Cons.prems(2) by (metis distinct.simps(2) list.set_map list.simps(9) map_fst_outcomes)
  define v1 where "v1 = (view s)(ev_ID event \<mapsto> settle oob ?c n outcome (od_now d w1))"
  have keep: "v1 (ev_ID ev) = view s (ev_ID ev)" if "ev \<in> set events" for ev
    using imageI [OF that, of ev_ID] Cons.prems(2) by (auto simp: v1_def)
  have rest: "\<forall>ev \<in> set events. \<exists>st n na. v1 (ev_ID ev) = Some (st, n, na) \<and> 0 \<le> n \<and>
      map_of (ev_Metadata ev) MetadataKeyOutboxAttempts = Some (AInt n)"
    using Cons.prems(3) by (simp add: keep)
  have sv: "settled_view oob ?c ?tl v1 = settled_view oob ?c ((ev_ID event, outcome, od_now d w1) # ?tl) (view s)"
    using settled_view_Cons [of ?tl "ev_ID event" "view s"] v(1) fresh o by (simp add: v1_def map_of_eq_None_iff)
  have "v1 x = view s x" if "x \<in> fst ` set ?tl" for x
    using that fresh by (cases "x = ev_ID event") (simp_all add: v1_def)
  then have ty: "tally ?c v1 ?tl stats' = tally ?c (view s) ?tl stats'" for stats'
    by (rule tally_cong)
  have ids: "distinct (map ev_ID events)" using Cons.prems(2) by simp
  have tr: "outcomes render d (event # events) w = (ev_ID event, outcome, od_now d w1) # ?tl" using o by simp
  note run = tr tally_Cons [of "view s" "ev_ID event", OF v(1)]
  show ?case
  proof (cases outcome)
    case None
    obtain s1 where s1: "ack s (ev_ID event) (od_now d w1) = (None, s1)" "inv s1" "view s1 = v1"
      using ack_law [OF Cons.prems(1) v(1)] None unfolding v1_def settle_def by auto
    from Cons.IH [OF s1(2) ids, of "stats\<lparr>Delivered := Delivered stats + 1\<rparr>" err w1, OF rest [folded s1(3)]]
    show ?thesis
      unfolding run using s1(1) o None trimmed [OF Cons.prems(1) v(1)] by (simp add: s1(3) sv ty)
  next
    case (Some e)
    obtain s1 where s1: "retryEvent oob d ?ops event e s w1 = (None, s1)" "inv s1" "view s1 = v1"
      using retry_settles [OF assms Cons.prems(1) v, of oob e w1] Some unfolding v1_def by auto
    let ?stats = "if wrap64 (n + 1) \<ge> cfg_MaxAttempts ?c then stats\<lparr>Failed := Failed stats + 1\<rparr>
      else stats\<lparr>Retried := Retried stats + 1\<rparr>"
    have j: "joinErrors render err (Some e) \<noteq> None" by (simp add: joinErrors_def split: option.splits)
    from Cons.IH [OF s1(2) ids, of ?stats "joinErrors render err (Some e)" w1, OF rest [folded s1(3)]]
    show ?thesis
      unfolding run using s1(1) o Some nextAttemptIndex_claimed [OF v(2,3)] j by (simp add: s1(3) sv ty)
  qed
qed

lemma dispatch_pending:
  assumes "dispatches_here d" and "inv s" and limit_def: "limit = (if batch \<le> 0 then cfg_BatchSize (od_config d) else batch)"
  shows "\<exists>events s0 err s' w'. claim_batch s limit (od_now d w) = (Inr events, s0) \<and>
    DispatchPending render oob (Some d) batch s w =
      ((tally (od_config d) (view s) (outcomes render d events w)
          \<lparr>Claimed = int (length events), Delivered = 0, Retried = 0, Failed = 0\<rparr>, err), s', w') \<and> inv s' \<and>
    view s' = settled_view oob (od_config d) (outcomes render d events w) (view s) \<and>
    (err = None \<longleftrightarrow> (\<forall>x \<in> set (outcomes render d events w). fst (snd x) = None)) \<and>
    distinct (map ev_ID events) \<and>
    (\<forall>event \<in> set events. \<exists>n na. view s (ev_ID event) = Some (outboxStatusPending, n, na) \<and> outbox_due (od_now d w) na \<and> 0 \<le> n) \<and>
    (int (card {x. \<exists>n na. view s x = Some (outboxStatusPending, n, na) \<and> outbox_due (od_now d w) na}) \<le> limit \<longrightarrow>
     (\<forall>x n na. view s x = Some (outboxStatusPending, n, na) \<longrightarrow> outbox_due (od_now d w) na \<longrightarrow> x \<in> ev_ID ` set events))"
proof -
  have pos: "0 < limit" using assms(1) by (simp add: limit_def dispatches_here_def)
  obtain events s0 where c: "claim_batch s limit (od_now d w) = (Inr events, s0)" "inv s0" "distinct (map ev_ID events)"
    "view s0 = mark_claimed (ev_ID ` set events) (view s)"
    "\<forall>event \<in> set events. \<exists>n na. view s (ev_ID event) = Some (outboxStatusPending, n, na) \<and> outbox_due (od_now d w) na \<and>
       0 \<le> n \<and> map_of (ev_Metadata event) MetadataKeyOutboxAttempts = Some (AInt n)"
    "int (card {x. \<exists>n na. view s x = Some (outboxStatusPending, n, na) \<and> outbox_due (od_now d w) na}) \<le> limit \<longrightarrow>
     (\<forall>x n na. view s x = Some (outboxStatusPending, n, na) \<longrightarrow> outbox_due (od_now d w) na \<longrightarrow> x \<in> ev_ID ` set events)"
    using claim_law [OF assms(2) pos, of "od_now d w"] by (elim exE conjE) (rule that)
  let ?trace = "outcomes render d events w"
  have ids: "fst ` set ?trace = ev_ID ` set events" by (metis list.set_map map_fst_outcomes)
  have at0: "\<forall>event \<in> set events. \<exists>st n na. view s0 (ev_ID event) = Some (st, n, na) \<and> 0 \<le> n \<and>
      map_of (ev_Metadata event) MetadataKeyOutboxAttempts = Some (AInt n)"
  proof
    fix event assume e: "event \<in> set events"
    obtain n na where n: "view s (ev_ID event) = Some (outboxStatusPending, n, na)" "0 \<le> n"
      "map_of (ev_Metadata event) MetadataKeyOutboxAttempts = Some (AInt n)" using c(5) e by blast
    then show "\<exists>st n na. view s0 (ev_ID event) = Some (st, n, na) \<and> 0 \<le> n \<and>
        map_of (ev_Metadata event) MetadataKeyOutboxAttempts = Some (AInt n)"
      using e by (simp add: c(4) mark_claimed_def)
  qed
  have sv: "settled_view oob (od_config d) ?trace (view s0) = settled_view oob (od_config d) ?trace (view s)"
  proof
    show "settled_view oob (od_config d) ?trace (view s0) x = settled_view oob (od_config d) ?trace (view s) x" for x
      by (cases "map_of ?trace x"; cases "view s x")
        (auto simp: settled_view_def c(4) mark_claimed_def ids [symmetric] map_of_eq_None_iff)
  qed
  have ty: "tally (od_config d) (view s0) ?trace stats = tally (od_config d) (view s) ?trace stats" for stats
  proof -
    have "(case view s0 x of Some (_, n, _) \<Rightarrow> Q n | None \<Rightarrow> False) = (case view s x of Some (_, n, _) \<Rightarrow> Q n | None \<Rightarrow> False)"
      for x and Q :: "int \<Rightarrow> bool"
      by (cases "view s x") (auto simp: c(4) mark_claimed_def)
    then show ?thesis by (simp only: tally_def)
  qed
  from dispatch_events_settle [OF assms(1) c(2,3) at0, of render oob
      "\<lparr>Claimed = int (length events), Delivered = 0, Retried = 0, Failed = 0\<rparr>" None w]
  obtain err s' w' where run: "dispatch_events render oob d \<lparr>os_ClaimBatch = claim_batch, os_Ack = ack, os_Retry = retry\<rparr>
      events \<lparr>Claimed = int (length events), Delivered = 0, Retried = 0, Failed = 0\<rparr> None s0 w =
      ((tally (od_config d) (view s) ?trace \<lparr>Claimed = int (length events), Delivered = 0, Retried = 0, Failed = 0\<rparr>, err), s', w')"
    "inv s'" "view s' = settled_view oob (od_config d) ?trace (view s)"
    "err = None \<longleftrightarrow> (\<forall>x \<in> set ?trace. fst (snd x) = None)"
    unfolding sv ty by auto
  have D: "DispatchPending render oob (Some d) batch s w = dispatch_events render oob d
      \<lparr>os_ClaimBatch = claim_batch, os_Ack = ack, os_Retry = retry\<rparr> events
      \<lparr>Claimed = int (length events), Delivered = 0, Retried = 0, Failed = 0\<rparr> None s0 w"
    using assms(1) c(1) by (simp add: DispatchPending_def dispatches_here_def limit_def Let_def)
  have c5: "\<forall>event \<in> set events. \<exists>n na. view s (ev_ID event) = Some (outboxStatusPending, n, na) \<and>
      outbox_due (od_now d w) na \<and> 0 \<le> n" using c(5) by blast
  show ?thesis by (intro exI conjI) (rule c(1) D [unfolded run(1)] run(2-4) c(3) c5 c(6))+
qed

lemma dispatch_all_bounded:
  assumes "dispatches_here d" and "int64 (cfg_MaxAttempts (od_config d))"
  shows "inv s \<Longrightarrow> attempts_left (od_config d) (view s) \<Longrightarrow>
    int (count_list (dispatch_all render oob d \<lparr>os_ClaimBatch = claim_batch, os_Ack = ack, os_Retry = retry\<rparr> calls s w) x)
      \<le> budget (od_config d) (view s) x"
proof (induction calls arbitrary: s w)
  case Nil
  then show ?case unfolding attempts_left_def budget_def
    by (cases "view s x") (fastforce split: outboxStatus.splits)+
next
  case (Cons call calls)
  obtain batch pass where call: "call = (batch, pass)" by force
  let ?w = "pass w" and ?c = "od_config d"
  let ?limit = "if batch \<le> 0 then cfg_BatchSize ?c else batch"
  from dispatch_pending [OF assms(1) Cons.prems(1) refl, of batch ?w render oob]
  obtain events s0 err s' w' stats where D: "claim_batch s ?limit (od_now d ?w) = (Inr events, s0)"
    "DispatchPending render oob (Some d) batch s ?w = ((stats, err), s', w')" "inv s'"
    "view s' = settled_view oob ?c (outcomes render d events ?w) (view s)" "distinct (map ev_ID events)"
    "\<forall>event \<in> set events. \<exists>n na. view s (ev_ID event) = Some (outboxStatusPending, n, na) \<and>
       outbox_due (od_now d ?w) na \<and> 0 \<le> n" by (elim exE conjE) (rule that)
  let ?trace = "outcomes render d events ?w"
  have ids: "fst ` set ?trace = ev_ID ` set events" by (metis list.set_map map_fst_outcomes)
  have pend: "\<forall>x \<in> fst ` set ?trace. \<exists>n na. view s x = Some (outboxStatusPending, n, na)"
    using D(6) unfolding ids by blast
  have b: "attempts_left ?c (view s')"
    "int (count_list (map ev_ID events) x) + budget ?c (view s') x \<le> budget ?c (view s) x"
    unfolding D(4) using dispatch_budget(1,3) [where oob = oob, OF Cons.prems(2) assms(2) _ pend] D(5) by simp_all
  have "dispatch_all render oob d \<lparr>os_ClaimBatch = claim_batch, os_Ack = ack, os_Retry = retry\<rparr> (call # calls) s w =
      map ev_ID events @
      dispatch_all render oob d \<lparr>os_ClaimBatch = claim_batch, os_Ack = ack, os_Retry = retry\<rparr> calls s' w'"
    using D(1,2) by (simp add: call Let_def)
  then show ?case using b(2) Cons.IH [OF D(3) b(1), of w'] by simp
qed

end

section \<open>The SQL store meets the contract\<close>

fun outbox_ok :: "outbox_table option \<Rightarrow> bool" where
  "outbox_ok None = False"
| "outbox_ok (Some t) \<longleftrightarrow> distinct (map ob_ID t) \<and> distinct (map ob_EventID t) \<and>
     (\<forall>r \<in> set t. TrimSpace (ob_EventID r) = ob_EventID r \<and> ob_EventID r \<noteq> [] \<and> 0 \<le> ob_Attempts r)"

fun table_status :: "outbox_table option \<Rightarrow> outbox_view" where
  "table_status None x = None"
| "table_status (Some t) x =
     map_option (\<lambda>r. (ob_Status r, ob_Attempts r, ob_NextAttempt r)) (find (\<lambda>r. ob_EventID r = x) t)"

lemma table_status_Some:
  assumes "outbox_ok (Some t)"
  shows "table_status (Some t) x = Some (st, n, na) \<longleftrightarrow>
    (\<exists>r \<in> set t. ob_EventID r = x \<and> ob_Status r = st \<and> ob_Attempts r = n \<and> ob_NextAttempt r = na)"
  using find_unique [of ob_EventID t x] assms by auto

lemma Enqueue_ok: "outbox_ok s \<Longrightarrow> outbox_ok (snd (OutboxStore_Enqueue uniq flt uuid s event now))"
  by (cases s) (auto simp: OutboxStore_Enqueue_def outbox_record_def Let_def image_iff split: option.splits)

lemma update_event_ok:
  assumes "outbox_ok (Some t)" and "\<And>r. ob_ID (f r) = ob_ID r \<and> ob_EventID (f r) = ob_EventID r"
    and "\<And>r. 0 \<le> ob_Attempts r \<Longrightarrow> 0 \<le> ob_Attempts (f r)"
  shows "outbox_ok (Some (update_event x f t))"
proof -
  have "map ob_ID (update_event x f t) = map ob_ID t" "map ob_EventID (update_event x f t) = map ob_EventID t"
    using assms(2) by (simp_all add: update_event_def)
  moreover have "\<forall>r \<in> set (update_event x f t). TrimSpace (ob_EventID r) = ob_EventID r \<and> ob_EventID r \<noteq> [] \<and>
      0 \<le> ob_Attempts r"
    using assms by (auto simp: update_event_def)
  ultimately show ?thesis using assms(1) by simp
qed

lemma update_event_status:
  assumes "\<And>r. ob_EventID (f r) = ob_EventID r" and "find (\<lambda>r. ob_EventID r = x) t = Some r0"
  shows "table_status (Some (update_event x f t)) = (table_status (Some t))
    (x \<mapsto> (ob_Status (f r0), ob_Attempts (f r0), ob_NextAttempt (f r0)))"
proof
  fix y
  have f: "find (\<lambda>r. ob_EventID r = y) (update_event x f t) =
      map_option (\<lambda>r. if ob_EventID r = x then f r else r) (find (\<lambda>r. ob_EventID r = y) t)"
    unfolding update_event_def by (rule find_map_upd) (simp add: assms(1))
  show "table_status (Some (update_event x f t)) y = ((table_status (Some t))
      (x \<mapsto> (ob_Status (f r0), ob_Attempts (f r0), ob_NextAttempt (f r0)))) y"
  proof (cases "find (\<lambda>r. ob_EventID r = y) t")
    case None
    then show ?thesis using assms(2) f by auto
  next
    case (Some r)
    then show ?thesis using assms(2) f find_key [OF Some] by (cases "y = x") auto
  qed
qed

abbreviation due_row :: "int \<Rightarrow> lifecycleOutboxRecord \<Rightarrow> bool" where
  "due_row now r \<equiv> ob_Status r = outboxStatusPending \<and> outbox_due now (ob_NextAttempt r)"

lemma claimed_rows:
  assumes "outbox_ok (Some t)" and "r \<in> set t" and "claims (claimed_ids now limit t) r"
  shows "due_row now r"
proof -
  obtain r' where r': "r' \<in> set t" "due_row now r'" "ob_ID r = ob_ID r'"
    using assms(3) unfolding claims_def claimed_ids_def by (auto dest!: in_set_takeD)
  then have "r = r'" using assms(1,2) by (auto simp: distinct_map dest: inj_onD)
  then show ?thesis using r' by simp
qed

lemma claimed_length:
  assumes "outbox_ok (Some t)" and "0 < limit"
  shows "int (length (filter (claims (claimed_ids now limit t)) t)) \<le> limit"
proof -
  let ?rows = "filter (claims (claimed_ids now limit t)) t"
  have "distinct (map ob_ID ?rows)" using assms(1) by (simp add: distinct_map_filter)
  then have "length ?rows = card (set (map ob_ID ?rows))" by (metis distinct_card length_map)
  also have "\<dots> \<le> card (set (claimed_ids now limit t))" by (rule card_mono) (auto simp: claims_def)
  also have "\<dots> \<le> length (claimed_ids now limit t)" by (rule card_length)
  also have "\<dots> \<le> nat limit" by (simp add: claimed_ids_def)
  finally show ?thesis using assms(2) by simp
qed

lemma claimed_all:
  assumes "outbox_ok (Some t)" and "r \<in> set t" and "due_row now r"
    and "int (card {x. \<exists>n na. table_status (Some t) x = Some (outboxStatusPending, n, na) \<and> outbox_due now na}) \<le> limit"
  shows "claims (claimed_ids now limit t) r"
proof -
  let ?due = "filter (due_row now) t"
  have "{x. \<exists>n na. table_status (Some t) x = Some (outboxStatusPending, n, na) \<and> outbox_due now na} = set (map ob_EventID ?due)"
    unfolding table_status_Some [OF assms(1)] by auto
  moreover have "distinct (map ob_EventID ?due)" using assms(1) by (simp add: distinct_map_filter)
  ultimately have "int (length ?due) \<le> limit"
    using assms(4) distinct_card [of "map ob_EventID ?due"] by (simp only: length_map)
  then have "length ?due \<le> nat limit" by simp
  then have "claimed_ids now limit t = map ob_ID (sort_key ob_OccurredAt ?due)" by (simp add: claimed_ids_def)
  then show ?thesis using assms(2,3) by (simp add: claims_def)
qed

lemma claim_update_ok: "outbox_ok (Some t) \<Longrightarrow> outbox_ok (Some (snd (claim_update ids now t)))"
proof -
  assume ok: "outbox_ok (Some t)"
  have "map ob_ID (snd (claim_update ids now t)) = map ob_ID t"
    "map ob_EventID (snd (claim_update ids now t)) = map ob_EventID t"
    by (simp_all add: claim_update_def claim_row_def)
  moreover have "\<forall>r \<in> set (snd (claim_update ids now t)). TrimSpace (ob_EventID r) = ob_EventID r \<and> ob_EventID r \<noteq> [] \<and>
      0 \<le> ob_Attempts r"
    using ok by (auto simp: claim_update_def claim_row_def)
  ultimately show ?thesis using ok by simp
qed

lemma claim_update_status:
  assumes "outbox_ok (Some t)"
  shows "table_status (Some (snd (claim_update ids now t))) =
    mark_claimed (ob_EventID ` set (filter (claims ids) t)) (table_status (Some t))"
proof
  fix x
  have f: "find (\<lambda>r. ob_EventID r = x) (snd (claim_update ids now t)) =
      map_option (\<lambda>r. if claims ids r then claim_row now r else r) (find (\<lambda>r. ob_EventID r = x) t)"
    unfolding claim_update_def snd_conv by (rule find_map_upd) (simp add: claim_row_def)
  show "table_status (Some (snd (claim_update ids now t))) x =
      mark_claimed (ob_EventID ` set (filter (claims ids) t)) (table_status (Some t)) x"
  proof (cases "find (\<lambda>r. ob_EventID r = x) t")
    case None
    then show ?thesis using f by (simp add: mark_claimed_def)
  next
    case (Some r)
    have "x \<in> ob_EventID ` set (filter (claims ids) t) \<longleftrightarrow> claims ids r"
      using find_unique [of ob_EventID t x r] Some assms by (auto simp: distinct_map dest: inj_onD)
    then show ?thesis using f Some by (simp add: mark_claimed_def claim_row_def)
  qed
qed

interpretation sqlo: outbox_store "OutboxStore_ClaimBatch json None" "OutboxStore_Ack None"
  "OutboxStore_Retry render None" outbox_ok table_status
  for json :: "meta \<Rightarrow> meta" and render :: "goerr \<Rightarrow> string"
proof unfold_locales
  fix s limit now
  assume ok: "outbox_ok s" and pos: "0 < (limit :: int)"
  obtain t where t: "s = Some t" using ok by (cases s) simp_all
  let ?ids = "claimed_ids now limit t"
  let ?rows = "filter (claims ?ids) t" and ?event = "\<lambda>r. outboxRecordToEvent (scan_row json (claim_row now r))"
  let ?events = "map ?event ?rows"
  have e: "ev_ID (?event r) = ob_EventID r" for r by (simp add: outboxRecordToEvent_def scan_row_def claim_row_def)
  have m: "map_of (ev_Metadata (?event r)) MetadataKeyOutboxAttempts = Some (AInt (ob_Attempts r))" for r
    by (simp add: outboxRecordToEvent_def scan_row_def claim_row_def)
  have ids: "map ev_ID ?events = map ob_EventID ?rows" by (simp add: e)
  have idset: "ev_ID ` set ?events = ob_EventID ` set ?rows" by (simp only: list.set_map [symmetric] ids)
  have run: "OutboxStore_ClaimBatch json None s limit now = (Inr ?events, Some (snd (claim_update ?ids now t)))"
    using pos t by (simp add: OutboxStore_ClaimBatch_def claim_update_def comp_def)
  have row: "\<exists>n na. table_status s (ev_ID event) = Some (outboxStatusPending, n, na) \<and> outbox_due now na \<and> 0 \<le> n \<and>
      map_of (ev_Metadata event) MetadataKeyOutboxAttempts = Some (AInt n)" if ev: "event \<in> set ?events" for event
  proof -
    obtain r where r: "r \<in> set t" "claims ?ids r" "event = ?event r" using ev by auto
    have "due_row now r" using claimed_rows [OF _ r(1,2)] ok t by simp
    then have "table_status s (ev_ID event) = Some (outboxStatusPending, ob_Attempts r, ob_NextAttempt r)"
      using table_status_Some [of t "ob_EventID r"] ok t r(1,3) e by auto
    then show ?thesis using \<open>due_row now r\<close> ok t r m by auto
  qed
  have all: "x \<in> ev_ID ` set ?events" if h: "table_status s x = Some (outboxStatusPending, n, na)" "outbox_due now na"
    "int (card {x. \<exists>n na. table_status s x = Some (outboxStatusPending, n, na) \<and> outbox_due now na}) \<le> limit" for x n na
  proof -
    obtain r where r: "r \<in> set t" "ob_EventID r = x" "due_row now r"
      using h(1,2) table_status_Some [of t x] ok t by auto
    have "claims ?ids r" using claimed_all [OF _ r(1,3)] h(3) ok t by simp
    then show ?thesis unfolding idset using r by auto
  qed
  show "\<exists>events s'. OutboxStore_ClaimBatch json None s limit now = (Inr events, s') \<and> outbox_ok s' \<and>
      distinct (map ev_ID events) \<and> int (length events) \<le> limit \<and>
      table_status s' = mark_claimed (ev_ID ` set events) (table_status s) \<and>
      (\<forall>event \<in> set events. \<exists>n na. table_status s (ev_ID event) = Some (outboxStatusPending, n, na) \<and> outbox_due now na \<and>
         0 \<le> n \<and> map_of (ev_Metadata event) MetadataKeyOutboxAttempts = Some (AInt n)) \<and>
      (int (card {x. \<exists>n na. table_status s x = Some (outboxStatusPending, n, na) \<and> outbox_due now na}) \<le> limit \<longrightarrow>
       (\<forall>x n na. table_status s x = Some (outboxStatusPending, n, na) \<longrightarrow> outbox_due now na \<longrightarrow> x \<in> ev_ID ` set events))"
  proof (intro exI conjI)
    show "OutboxStore_ClaimBatch json None s limit now = (Inr ?events, Some (snd (claim_update ?ids now t)))" by (rule run)
    show "outbox_ok (Some (snd (claim_update ?ids now t)))" using claim_update_ok ok t by blast
    show "distinct (map ev_ID ?events)" unfolding ids using ok t by (simp add: distinct_map_filter)
    show "int (length ?events) \<le> limit" using claimed_length [of t limit now] ok t pos by simp
    show "table_status (Some (snd (claim_update ?ids now t))) = mark_claimed (ev_ID ` set ?events) (table_status s)"
      unfolding idset using claim_update_status [of t ?ids now] ok t by simp
  qed (use row all in blast)+
next
  fix s x entry
  assume "outbox_ok s" "table_status s x = Some entry"
  then show "TrimSpace x = x" by (cases s) (auto dest: find_key simp: find_Some_iff)
next
  fix s x st n na now
  assume a: "outbox_ok s" "table_status s x = Some (st, n, na)"
  obtain t where t: "s = Some t" using a(1) by (cases s) simp_all
  then obtain r where r: "find (\<lambda>r. ob_EventID r = x) t = Some r" "ob_Attempts r = n" using a(2) by auto
  have x: "TrimSpace x = x" "x \<noteq> []" using r(1) a(1) t by (auto simp: find_Some_iff)
  show "\<exists>s'. OutboxStore_Ack None s x now = (None, s') \<and> outbox_ok s' \<and>
      table_status s' = (table_status s)(x \<mapsto> (outboxStatusDelivered, n, None))"
    using x t r a(1) update_event_status [OF _ r(1)] update_event_ok [of t]
    by (auto simp: OutboxStore_Ack_def simp del: table_status.simps outbox_ok.simps)
next
  fix s x st n na cause t' now
  assume a: "outbox_ok s" "table_status s x = Some (st, n, na)"
  obtain t where t: "s = Some t" using a(1) by (cases s) simp_all
  then obtain r where r: "find (\<lambda>r. ob_EventID r = x) t = Some r" "ob_Attempts r = n" using a(2) by auto
  have x: "TrimSpace x = x" "x \<noteq> []" using r(1) a(1) t by (auto simp: find_Some_iff)
  show "\<exists>s'. OutboxStore_Retry render None s x cause t' now = (None, s') \<and> outbox_ok s' \<and>
      table_status s' = (table_status s)(x \<mapsto> (if t' \<noteq> 0 then (outboxStatusPending, n + 1, Some t')
        else (outboxStatusFailed, n + 1, None)))"
    using x t r a(1) update_event_status [OF _ r(1)] update_event_ok [of t]
    by (auto simp: OutboxStore_Retry_def Let_def simp del: table_status.simps outbox_ok.simps)
qed

section \<open>Concurrent workers\<close>

text \<open>
  The statements of several workers, interleaved. The sub-select of a claim may have read an older
  state of the table than the update that follows it, so a claim comes with any list of ids.
\<close>

datatype outbox_action =
    EnqueueAction goerr string LifecycleEvent int
  | ClaimAction "string list" int
  | AckAction string int
  | RetryAction "goerr \<Rightarrow> string" string "goerr option" int int

fun outbox_act :: "outbox_action \<Rightarrow> outbox_table option \<Rightarrow> string list \<times> outbox_table option" where
  "outbox_act (EnqueueAction uniq uuid event now) s = ([], snd (OutboxStore_Enqueue uniq None uuid s event now))"
| "outbox_act (ClaimAction ids now) s =
     (case s of None \<Rightarrow> ([], s)
      | Some t \<Rightarrow> (case claim_update ids now t of (records, t') \<Rightarrow> (map ob_EventID records, Some t')))"
| "outbox_act (AckAction x now) s = ([], snd (OutboxStore_Ack None s x now))"
| "outbox_act (RetryAction render x cause t now) s = ([], snd (OutboxStore_Retry render None s x cause t now))"

text \<open>The event ids handed out by the claims of a run, and the number of retries of an event in it.\<close>

fun claimed_events :: "outbox_action list \<Rightarrow> outbox_table option \<Rightarrow> string list" where
  "claimed_events [] s = []"
| "claimed_events (a # as) s = (case outbox_act a s of (ids, s') \<Rightarrow> ids @ claimed_events as s')"

fun retries_of :: "string \<Rightarrow> outbox_action list \<Rightarrow> nat" where
  "retries_of x [] = 0"
| "retries_of x (RetryAction _ y _ _ _ # as) = (if TrimSpace y = x then Suc (retries_of x as) else retries_of x as)"
| "retries_of x (_ # as) = retries_of x as"

text \<open>An event that is in the table and not pending cannot be claimed.\<close>

definition open_to_claim :: "outbox_table option \<Rightarrow> string \<Rightarrow> nat" where
  "open_to_claim s x =
     (case table_status s x of Some (st, _, _) \<Rightarrow> if st = outboxStatusPending then 1 else 0 | None \<Rightarrow> 1)"

lemma open_to_claim_le: "open_to_claim s x \<le> 1"
  by (auto simp: open_to_claim_def split: option.splits)

lemma find_update_event:
  assumes "\<And>r. ob_EventID (f r) = ob_EventID r"
  shows "find (\<lambda>r. ob_EventID r = y) (update_event x f t) =
    map_option (\<lambda>r. if ob_EventID r = x then f r else r) (find (\<lambda>r. ob_EventID r = y) t)"
  unfolding update_event_def by (rule find_map_upd) (simp add: assms)

lemma open_to_claim_act:
  assumes "outbox_ok s" and "\<And>ids now. a \<noteq> ClaimAction ids now"
  shows "outbox_ok (snd (outbox_act a s)) \<and>
    open_to_claim (snd (outbox_act a s)) x + retries_of x as \<le> open_to_claim s x + retries_of x (a # as)"
proof -
  obtain t where t: "s = Some t" using assms(1) by (cases s) simp_all
  show ?thesis
  proof (cases a)
    case (EnqueueAction uniq uuid event now)
    have "open_to_claim (snd (OutboxStore_Enqueue uniq None uuid (Some t) event now)) x \<le> open_to_claim (Some t) x"
      by (cases "find (\<lambda>r. ob_EventID r = x) t")
        (auto simp: OutboxStore_Enqueue_def open_to_claim_def find_append Let_def outbox_record_def split: if_splits)
    then show ?thesis using Enqueue_ok [OF assms(1)] t EnqueueAction by simp
  next
    case (AckAction y now)
    then show ?thesis
      using assms(1) t update_event_ok [of t] find_update_event
      by (cases "find (\<lambda>r. ob_EventID r = x) t")
        (auto simp: OutboxStore_Ack_def open_to_claim_def Let_def find_update_event simp del: outbox_ok.simps)
  next
    case (RetryAction render y cause at' now)
    then show ?thesis
      using assms(1) t update_event_ok [of t] open_to_claim_le
      by (cases "find (\<lambda>r. ob_EventID r = x) t")
        (auto simp: OutboxStore_Retry_def open_to_claim_def Let_def find_update_event dest: find_key simp del: outbox_ok.simps)
  qed (use assms(2) in blast)
qed

lemma open_to_claim_claim:
  assumes "outbox_ok (Some t)"
  shows "count_list (map ob_EventID (fst (claim_update ids now t))) x + open_to_claim (Some (snd (claim_update ids now t))) x
    \<le> open_to_claim (Some t) x"
proof -
  let ?rows = "filter (claims ids) t"
  have m: "map ob_EventID (fst (claim_update ids now t)) = map ob_EventID ?rows"
    by (simp add: claim_update_def claim_row_def)
  have d: "distinct (map ob_EventID ?rows)" using assms by (simp add: distinct_map_filter)
  show ?thesis
  proof (cases "x \<in> ob_EventID ` set ?rows")
    case True
    then obtain r where r: "r \<in> set t" "claims ids r" "ob_EventID r = x" by auto
    then have "table_status (Some t) x = Some (outboxStatusPending, ob_Attempts r, ob_NextAttempt r)"
      unfolding table_status_Some [OF assms] by (auto simp: claims_def)
    moreover have "count_list (map ob_EventID ?rows) x = 1" using True by (intro count_list_distinct [OF d]) simp
    ultimately show ?thesis
      using True by (simp add: m claim_update_status [OF assms] open_to_claim_def mark_claimed_def del: table_status.simps)
  next
    case False
    then show ?thesis
      by (simp add: m claim_update_status [OF assms] open_to_claim_def mark_claimed_def del: table_status.simps)
  qed
qed

lemma claims_bounded: "outbox_ok s \<Longrightarrow> count_list (claimed_events as s) x \<le> open_to_claim s x + retries_of x as"
proof (induction as arbitrary: s)
  case (Cons a as)
  show ?case
  proof (cases "\<exists>ids now. a = ClaimAction ids now")
    case True
    then obtain ids now t where a: "a = ClaimAction ids now" "s = Some t" using Cons.prems by (cases s) auto
    have ok: "outbox_ok (Some (snd (claim_update ids now t)))" using claim_update_ok Cons.prems a(2) by blast
    show ?thesis
      using Cons.IH [OF ok] open_to_claim_claim [of t ids now x] Cons.prems a
      by (simp add: case_prod_beta del: outbox_ok.simps)
  next
    case False
    then have n: "\<And>ids now. a \<noteq> ClaimAction ids now" by blast
    have "fst (outbox_act a s) = []" using n by (cases a) auto
    then show ?thesis
      using Cons.IH [of "snd (outbox_act a s)"] open_to_claim_act [OF Cons.prems n, of x as]
      by (simp add: case_prod_beta)
  qed
qed simp

text \<open>
  C4: However the statements of concurrent workers interleave, an event is handed out at most once for
  its enqueueing and once for every retry recorded for it; an event that is being processed is handed
  out again only by a retry. (So an event whose worker stops before it records an outcome is never
  dispatched again.)
\<close>

theorem outbox_claims_bounded_by_retries:
  assumes "outbox_ok s"
  shows "count_list (claimed_events as s) x \<le> 1 + retries_of x as \<and>
    (\<forall>n next_at. table_status s x = Some (outboxStatusProcessing, n, next_at) \<longrightarrow>
       count_list (claimed_events as s) x \<le> retries_of x as)"
  using claims_bounded [OF assms, of as x] open_to_claim_le [of s x] by (auto simp: open_to_claim_def)

definition sample_event :: LifecycleEvent where
  "sample_event = \<lparr>ev_ID = ''e1'', ev_Name = ''connected'', ev_ProviderID = ''github'', ev_ScopeType = ''user'',
     ev_ScopeID = ''u1'', ev_ConnectionID = [], ev_Source = ''api'', ev_OccurredAt = 5, ev_Payload = [], ev_Metadata = []\<rparr>"

definition sample_outbox :: outbox_table where
  "sample_outbox = [outbox_record ''r1'' sample_event 7]"

lemma sample_outbox_ok: "outbox_ok (Some sample_outbox)"
  by code_simp

theorem outbox_claims_bounded_by_retries_witness:
  "count_list (claimed_events [ClaimAction [''r1''] 8, ClaimAction [''r1''] 9] (Some sample_outbox)) ''e1'' \<le> 1"
  using outbox_claims_bounded_by_retries [OF sample_outbox_ok, of "[ClaimAction [''r1''] 8, ClaimAction [''r1''] 9]" "''e1''"]
  by simp

section \<open>Dispatching from the SQL store\<close>

definition sql_outbox :: "(meta \<Rightarrow> meta) \<Rightarrow> (goerr \<Rightarrow> string) \<Rightarrow> outbox_table option OutboxStore" where
  "sql_outbox json render = \<lparr>os_ClaimBatch = OutboxStore_ClaimBatch json None, os_Ack = OutboxStore_Ack None,
     os_Retry = OutboxStore_Retry render None\<rparr>"

lemma NewOutboxDispatcher_ok:
  assumes "NewOutboxDispatcher clock (Some (sql_outbox json render)) registry config = Inr d" and "\<forall>w. 0 < clock w"
  shows "sqlo.dispatches_here json render d" and "od_now d = clock"
  using assms by (auto simp: NewOutboxDispatcher_def sqlo.dispatches_here_def sql_outbox_def
      DefaultOutboxDispatcherConfig_def duration_defs Let_def)

lemma tally_sum:
  "length (filter (\<lambda>(x, out, _). out = None) trace) + length (filter (\<lambda>(x, out, _). out \<noteq> None \<and> \<not> Q x) trace) +
     length (filter (\<lambda>(x, out, _). out \<noteq> None \<and> Q x) trace) = length trace"
  by (induction trace) auto

lemma tally_balance:
  fixes c :: OutboxDispatcherConfig and v trace
  defines "stats \<equiv> tally c v trace \<lparr>Claimed = int (length trace), Delivered = 0, Retried = 0, Failed = 0\<rparr>"
  shows "Claimed stats = int (length trace)" and "Claimed stats = Delivered stats + Retried stats + Failed stats"
    and "Delivered stats = int (length (filter (\<lambda>x. fst (snd x) = None) trace))"
proof -
  have f: "(\<lambda>(x :: string, out :: goerr option, _ :: int). out = None) = (\<lambda>x. fst (snd x) = None)" by auto
  show "Claimed stats = int (length trace)" by (simp add: stats_def tally_def Let_def)
  show "Delivered stats = int (length (filter (\<lambda>x. fst (snd x) = None) trace))"
    unfolding f [symmetric] by (simp add: stats_def tally_def Let_def)
  show "Claimed stats = Delivered stats + Retried stats + Failed stats"
    using tally_sum [of trace "\<lambda>x. case v x of Some (_, n, _) \<Rightarrow> wrap64 (n + 1) \<ge> cfg_MaxAttempts c | None \<Rightarrow> False"]
    by (simp add: stats_def tally_def Let_def flip: of_nat_add)
qed

text \<open>
  One call of \<open>DispatchPending\<close> settles exactly the events it claims. It claims distinct due events,
  all of them if they fit the batch; each is delivered if its projectors succeed, and else gets one
  more attempt, after the configured backoff or, at the limit, never; no other event changes. The
  counters add up, and the call fails exactly when some event does.
\<close>

theorem outbox_dispatch_settles:
  assumes "NewOutboxDispatcher clock (Some (sql_outbox json render)) registry config = Inr d"
    and "\<forall>w. 0 < clock w" and "outbox_ok s"
  shows "\<exists>events stats err s' w'.
    DispatchPending render oob (Some d) batch s w = ((stats, err), s', w') \<and> outbox_ok s' \<and> distinct (map ev_ID events) \<and>
    (\<forall>x. case map_of (outcomes render d events w) x of
        None \<Rightarrow> table_status s' x = table_status s x
      | Some (outcome, t) \<Rightarrow> \<exists>n next_at. table_status s x = Some (outboxStatusPending, n, next_at) \<and>
          outbox_due (clock w) next_at \<and> table_status s' x = Some (settle oob (od_config d) n outcome t)) \<and>
    (int (card {x. \<exists>n next_at. table_status s x = Some (outboxStatusPending, n, next_at) \<and> outbox_due (clock w) next_at})
        \<le> (if batch \<le> 0 then cfg_BatchSize (od_config d) else batch) \<longrightarrow>
     (\<forall>x n next_at. table_status s x = Some (outboxStatusPending, n, next_at) \<longrightarrow> outbox_due (clock w) next_at \<longrightarrow>
        x \<in> ev_ID ` set events)) \<and>
    Claimed stats = int (length events) \<and> Claimed stats = Delivered stats + Retried stats + Failed stats \<and>
    (err = None \<longleftrightarrow> Delivered stats = Claimed stats)"
proof -
  note d = NewOutboxDispatcher_ok [OF assms(1,2)]
  from sqlo.dispatch_pending [OF d(1) assms(3) refl, of batch w render oob]
  obtain events err s' w' where D: "DispatchPending render oob (Some d) batch s w =
      ((tally (od_config d) (table_status s) (outcomes render d events w)
          \<lparr>Claimed = int (length events), Delivered = 0, Retried = 0, Failed = 0\<rparr>, err), s', w')" "outbox_ok s'"
    "table_status s' = settled_view oob (od_config d) (outcomes render d events w) (table_status s)"
    "err = None \<longleftrightarrow> (\<forall>x \<in> set (outcomes render d events w). fst (snd x) = None)" "distinct (map ev_ID events)"
    "\<forall>event \<in> set events. \<exists>n na. table_status s (ev_ID event) = Some (outboxStatusPending, n, na) \<and>
       outbox_due (clock w) na \<and> 0 \<le> n"
    "int (card {x. \<exists>n na. table_status s x = Some (outboxStatusPending, n, na) \<and> outbox_due (clock w) na})
        \<le> (if batch \<le> 0 then cfg_BatchSize (od_config d) else batch) \<longrightarrow>
     (\<forall>x n na. table_status s x = Some (outboxStatusPending, n, na) \<longrightarrow> outbox_due (clock w) na \<longrightarrow> x \<in> ev_ID ` set events)"
    unfolding d(2) by (elim exE conjE) (rule that)
  let ?trace = "outcomes render d events w"
  have len: "length ?trace = length events" by (metis length_map map_fst_outcomes)
  let ?stats = "tally (od_config d) (table_status s) ?trace
    \<lparr>Claimed = int (length events), Delivered = 0, Retried = 0, Failed = 0\<rparr>"
  note sums = tally_balance [of "od_config d" "table_status s" ?trace, unfolded len]
  have rows: "case map_of ?trace x of None \<Rightarrow> table_status s' x = table_status s x
      | Some (outcome, t) \<Rightarrow> \<exists>n next_at. table_status s x = Some (outboxStatusPending, n, next_at) \<and>
          outbox_due (clock w) next_at \<and> table_status s' x = Some (settle oob (od_config d) n outcome t)" for x
  proof (cases "map_of ?trace x")
    case (Some ot)
    then have "x \<in> fst ` set ?trace" by (metis dom_map_of_conv_image_fst domI)
    then have "x \<in> set (map ev_ID events)" by (metis list.set_map map_fst_outcomes)
    then obtain event where "event \<in> set events" "x = ev_ID event" by auto
    then obtain n na where "table_status s x = Some (outboxStatusPending, n, na)" "outbox_due (clock w) na"
      using D(6) by blast
    then show ?thesis using Some by (auto simp: D(3) settled_view_def)
  qed (simp add: D(3) settled_view_def)
  have "err = None \<longleftrightarrow> Delivered ?stats = Claimed ?stats"
    unfolding D(4) sums(1,3) using length_filter_all [of "\<lambda>x. fst (snd x) = None" ?trace] len by simp
  then show ?thesis using D(1,2,5,7) rows sums(1,2) by blast
qed

text \<open>World and projector of the examples: the world is the clock, the projector fails.\<close>

definition sample_dispatcher :: "(outbox_table option, int) OutboxDispatcher" where
  "sample_dispatcher = \<lparr>od_store = Some (sql_outbox (\<lambda>m. m) (\<lambda>_. [])),
     od_registry = Some [Some (\<lambda>event w. (Some (Plain ''down''), w + 1))],
     od_config = DefaultOutboxDispatcherConfig, od_now = (\<lambda>w. max 1 w)\<rparr>"

lemma sample_dispatcher_new:
  "NewOutboxDispatcher (\<lambda>w. max 1 w) (Some (sql_outbox (\<lambda>m. m) (\<lambda>_. [])))
     (Some [Some (\<lambda>event w. (Some (Plain ''down''), w + 1))]) DefaultOutboxDispatcherConfig = Inr sample_dispatcher"
  by (simp add: NewOutboxDispatcher_def sample_dispatcher_def DefaultOutboxDispatcherConfig_def duration_defs Let_def)

theorem outbox_dispatch_settles_witness:
  "\<exists>stats err s' w'. DispatchPending (\<lambda>_. []) 0 (Some sample_dispatcher) 0 (Some sample_outbox) 10 = ((stats, err), s', w') \<and>
     outbox_ok s' \<and> Claimed stats = Delivered stats + Retried stats + Failed stats"
proof -
  have "\<forall>w :: int. 0 < max 1 w" by (simp add: less_max_iff_disj)
  from outbox_dispatch_settles [OF sample_dispatcher_new this sample_outbox_ok, of 0 0 10]
  show ?thesis by blast
qed

text \<open>
  C15: An event is dispatched at most \<open>MaxAttempts\<close> times, whatever its projectors do and however often
  the dispatcher runs: an event that has failed \<open>n\<close> times is dispatched at most \<open>MaxAttempts - n\<close> times
  more, and one that was delivered or given up is not dispatched again.
\<close>

theorem outbox_attempts_bounded:
  assumes "NewOutboxDispatcher clock (Some (sql_outbox json render)) registry config = Inr d"
    and "\<forall>w. 0 < clock w" and "int64 (cfg_MaxAttempts config)" and "outbox_ok s"
    and "\<forall>x n next_at. table_status s x = Some (outboxStatusPending, n, next_at) \<longrightarrow> n < cfg_MaxAttempts (od_config d)"
  shows "int (count_list (dispatch_all render oob d (sql_outbox json render) calls s w) x) \<le>
    (case table_status s x of
       Some (outboxStatusPending, n, _) \<Rightarrow> cfg_MaxAttempts (od_config d) - n
     | _ \<Rightarrow> 0)"
proof -
  have "int64 (cfg_MaxAttempts (od_config d))"
    using assms(1,3) by (auto simp: NewOutboxDispatcher_def DefaultOutboxDispatcherConfig_def int64_def Let_def)
  moreover have "attempts_left (od_config d) (table_status s)"
    unfolding attempts_left_def
  proof (intro allI impI)
    fix y n na assume y: "table_status s y = Some (outboxStatusPending, n, na)"
    obtain t where t: "s = Some t" using assms(4) by (cases s) simp_all
    have "0 \<le> n" using table_status_Some [of t y] y assms(4) t by auto
    then show "0 \<le> n \<and> n < cfg_MaxAttempts (od_config d)" using assms(5) y by blast
  qed
  ultimately show ?thesis
    using sqlo.dispatch_all_bounded [OF NewOutboxDispatcher_ok(1) [OF assms(1,2)] _ assms(4), of render oob calls w x]
    unfolding sql_outbox_def budget_def by simp
qed

theorem outbox_attempts_bounded_witness:
  "int (count_list (dispatch_all (\<lambda>_. []) 0 sample_dispatcher (sql_outbox (\<lambda>m. m) (\<lambda>_. []))
     [(0, \<lambda>w. w), (0, \<lambda>w. w + Minute), (0, \<lambda>w. w + Minute)] (Some sample_outbox) 10) ''e1'') \<le> 5"
proof -
  have pos: "\<forall>w :: int. 0 < max 1 w" by (simp add: less_max_iff_disj)
  have st: "table_status (Some sample_outbox) x = (if x = ''e1'' then Some (outboxStatusPending, 0, None) else None)" for x
    by (simp add: sample_outbox_def outbox_record_def sample_event_def TrimSpace_def is_space_def)
  have m: "cfg_MaxAttempts (od_config sample_dispatcher) = 5" by code_simp
  show ?thesis
    using outbox_attempts_bounded [OF sample_dispatcher_new pos _ sample_outbox_ok, of 0
        "[(0, \<lambda>w. w), (0, \<lambda>w. w + Minute), (0, \<lambda>w. w + Minute)]" 10 "''e1''"]
    unfolding st m by (simp add: DefaultOutboxDispatcherConfig_def int64_def)
qed

end
