(* ===== verification/Lifecycle.thy ===== *)
theory Lifecycle
  imports Outbox
begin

text \<open>
  The consumers of lifecycle events: the commit hooks of \<open>src/core/lifecycle_hooks.go\<close>, the projector
  registry and the activity and notification projectors of \<open>src/core/lifecycle_projectors.go\<close>, and the
  ledger of sent notifications of \<open>src/store/sql/notification_dispatch_store.go\<close>. Hooks, senders and
  sinks act on a world \<open>'w\<close>. \<open>digest\<close> is SHA-256, \<open>fmt_time\<close> the rendering of an instant and
  \<open>ff\<close> that of a float. The locale \<open>dispatch_ledger\<close> is what the notification projector relies on.
\<close>

section \<open>Commit hooks\<close>

record 'w LifecycleHook =
  hk_Name :: string
  hk_OnEvent :: "LifecycleEvent \<Rightarrow> 'w \<Rightarrow> goerr option \<times> 'w"

record 'w LifecycleHookCoordinator =
  co_preCommit :: "'w LifecycleHook list"
  co_postCommit :: "'w LifecycleHook list"

definition NewLifecycleHookCoordinator :: "'w LifecycleHookCoordinator" where
  "NewLifecycleHookCoordinator = \<lparr>co_preCommit = [], co_postCommit = []\<rparr>"

text \<open>A nil hook is dropped, so the hooks of a coordinator are never nil.\<close>

definition RegisterPreCommit ::
  "'w LifecycleHookCoordinator option \<Rightarrow> 'w LifecycleHook option \<Rightarrow> 'w LifecycleHookCoordinator option" where
  "RegisterPreCommit receiver hook =
     (case (receiver, hook) of (Some c, Some h) \<Rightarrow> Some (c\<lparr>co_preCommit := co_preCommit c @ [h]\<rparr>) | _ \<Rightarrow> receiver)"

definition RegisterPostCommit ::
  "'w LifecycleHookCoordinator option \<Rightarrow> 'w LifecycleHook option \<Rightarrow> 'w LifecycleHookCoordinator option" where
  "RegisterPostCommit receiver hook =
     (case (receiver, hook) of (Some c, Some h) \<Rightarrow> Some (c\<lparr>co_postCommit := co_postCommit c @ [h]\<rparr>) | _ \<Rightarrow> receiver)"

definition preHooks :: "'w LifecycleHookCoordinator option \<Rightarrow> 'w LifecycleHook list" where
  "preHooks receiver = (case receiver of None \<Rightarrow> [] | Some c \<Rightarrow> co_preCommit c)"

definition postHooks :: "'w LifecycleHookCoordinator option \<Rightarrow> 'w LifecycleHook list" where
  "postHooks receiver = (case receiver of None \<Rightarrow> [] | Some c \<Rightarrow> co_postCommit c)"

definition hookName :: "'w LifecycleHook option \<Rightarrow> string" where
  "hookName hook =
     (case hook of None \<Rightarrow> ''unknown''
      | Some h \<Rightarrow> (let name = TrimSpace (hk_Name h) in if name = [] then ''unnamed'' else name))"

fun run_pre_hooks ::
  "(goerr \<Rightarrow> string) \<Rightarrow> 'w LifecycleHook list \<Rightarrow> LifecycleEvent \<Rightarrow> 'w \<Rightarrow> goerr option \<times> 'w" where
  "run_pre_hooks render [] event w = (None, w)"
| "run_pre_hooks render (hook # hooks) event w =
     (case hk_OnEvent hook event w of
        (Some err, w) \<Rightarrow>
          (Some (Wrapped (''core: pre-commit lifecycle hook '' @ quote (hookName (Some hook)) @ '' failed: '' @
             err_Error render err) [err]), w)
      | (None, w) \<Rightarrow> run_pre_hooks render hooks event w)"

definition ExecutePreCommit ::
  "(goerr \<Rightarrow> string) \<Rightarrow> 'w LifecycleHookCoordinator option \<Rightarrow> LifecycleEvent \<Rightarrow> 'w \<Rightarrow> goerr option \<times> 'w" where
  "ExecutePreCommit render c event w = run_pre_hooks render (preHooks c) event w"

definition ExecutePreCommitAndEnqueue ::
  "(goerr \<Rightarrow> string) \<Rightarrow> 'w LifecycleHookCoordinator option \<Rightarrow> LifecycleEvent \<Rightarrow>
     ('s \<Rightarrow> LifecycleEvent \<Rightarrow> goerr option \<times> 's) option \<Rightarrow> 's \<Rightarrow> 'w \<Rightarrow> goerr option \<times> 's \<times> 'w" where
  "ExecutePreCommitAndEnqueue render c event outbox s w =
     (case outbox of None \<Rightarrow> (Some (Plain ''core: outbox store is required''), s, w) | Some enqueue \<Rightarrow>
      (case ExecutePreCommit render c event w of
         (Some err, w) \<Rightarrow> (Some err, s, w)
       | (None, w) \<Rightarrow>
           (case enqueue s event of
              (Some err, s) \<Rightarrow>
                (Some (Wrapped (''core: enqueue lifecycle outbox event failed: '' @ err_Error render err) [err]), s, w)
            | (None, s) \<Rightarrow> (None, s, w))))"

fun run_post_hooks ::
  "(goerr \<Rightarrow> string) \<Rightarrow> 'w LifecycleHook list \<Rightarrow> LifecycleEvent \<Rightarrow> goerr option \<Rightarrow> 'w \<Rightarrow> goerr option \<times> 'w" where
  "run_post_hooks render [] event hookErr w = (hookErr, w)"
| "run_post_hooks render (hook # hooks) event hookErr w =
     (case hk_OnEvent hook event w of
        (Some err, w) \<Rightarrow>
          let e = Wrapped (''post-commit lifecycle hook '' @ quote (hookName (Some hook)) @ '' failed: '' @
                err_Error render err) [err]
          in run_post_hooks render hooks event (Some (Joined ((case hookErr of None \<Rightarrow> [] | Some h \<Rightarrow> [h]) @ [e]))) w
      | (None, w) \<Rightarrow> run_post_hooks render hooks event hookErr w)"

definition ExecutePostCommit ::
  "(goerr \<Rightarrow> string) \<Rightarrow> 'w LifecycleHookCoordinator option \<Rightarrow> LifecycleEvent \<Rightarrow> 'w \<Rightarrow> goerr option \<times> 'w" where
  "ExecutePostCommit render c event w = run_post_hooks render (postHooks c) event None w"

lemma enqueue_only_after_hooks:
  assumes "ExecutePreCommitAndEnqueue render c event (Some enqueue) s w = (err, s', w')"
  shows "(\<exists>e. ExecutePreCommit render c event w = (Some e, w') \<and> err = Some e \<and> s' = s) \<or>
    (ExecutePreCommit render c event w = (None, w') \<and> s' = snd (enqueue s event) \<and>
     (err = None \<longleftrightarrow> fst (enqueue s event) = None))"
  using assms by (auto simp: ExecutePreCommitAndEnqueue_def split: prod.splits option.splits)

section \<open>The projector registry\<close>

record 'w LifecycleProjectorRegistry =
  pr_handlers :: "(string, 'w projector) gomap"
  pr_order :: "string list"

definition NewLifecycleProjectorRegistry :: "'w LifecycleProjectorRegistry" where
  "NewLifecycleProjectorRegistry = \<lparr>pr_handlers = [], pr_order = []\<rparr>"

definition LifecycleProjectorRegistry_Register ::
  "'w LifecycleProjectorRegistry option \<Rightarrow> string \<Rightarrow> 'w projector option \<Rightarrow> 'w LifecycleProjectorRegistry option" where
  "LifecycleProjectorRegistry_Register receiver name handler =
     (case (receiver, handler) of
        (Some r, Some h) \<Rightarrow>
          (let key = TrimSpace name in
           if key = [] then receiver
           else Some (r\<lparr>pr_order := (if map_of (pr_handlers r) key = None then sort (pr_order r @ [key]) else pr_order r),
                       pr_handlers := AList.update key h (pr_handlers r)\<rparr>))
      | _ \<Rightarrow> receiver)"

definition LifecycleProjectorRegistry_Handlers :: "'w LifecycleProjectorRegistry option \<Rightarrow> 'w projector list" where
  "LifecycleProjectorRegistry_Handlers receiver =
     (case receiver of None \<Rightarrow> []
      | Some r \<Rightarrow> concat (map (\<lambda>key. case map_of (pr_handlers r) key of None \<Rightarrow> [] | Some h \<Rightarrow> [h]) (pr_order r)))"

definition projector_order_ok :: "'w LifecycleProjectorRegistry \<Rightarrow> bool" where
  "projector_order_ok r \<longleftrightarrow> sorted (pr_order r) \<and> distinct (pr_order r) \<and> set (pr_order r) = dom (map_of (pr_handlers r))"

lemma projector_order_Register:
  "projector_order_ok r \<Longrightarrow> LifecycleProjectorRegistry_Register (Some r) name h = Some r' \<Longrightarrow> projector_order_ok r'"
  by (auto simp: LifecycleProjectorRegistry_Register_def projector_order_ok_def Let_def split: option.splits if_splits)

text \<open>Every registered projector is run, in the order of the names.\<close>

lemma Handlers_complete:
  assumes "projector_order_ok r"
  shows "LifecycleProjectorRegistry_Handlers (Some r) = map (\<lambda>key. the (map_of (pr_handlers r) key)) (pr_order r)"
proof -
  have "concat (map (\<lambda>key. case map_of m key of None \<Rightarrow> [] | Some h \<Rightarrow> [h]) ks) = map (\<lambda>key. the (map_of m key)) ks"
    if "set ks \<subseteq> dom (map_of m)" for m :: "(string, 'a projector) gomap" and ks
    using that by (induction ks) auto
  then show ?thesis using assms by (simp add: LifecycleProjectorRegistry_Handlers_def projector_order_ok_def)
qed

section \<open>The activity projector\<close>

datatype ServiceActivityStatus = ServiceActivityStatusOK | ServiceActivityStatusWarn | ServiceActivityStatusError

record ServiceActivityEntry =
  sa_ID :: string
  sa_Actor :: string
  sa_Action :: string
  sa_Object :: string
  sa_Channel :: string
  sa_Status :: ServiceActivityStatus
  sa_Metadata :: meta
  sa_CreatedAt :: int

definition activityActor :: "LifecycleEvent \<Rightarrow> string" where
  "activityActor event = (let actor = TrimSpace (ev_Source event) in if actor = [] then ''system'' else actor)"

definition activityObject :: "LifecycleEvent \<Rightarrow> string" where
  "activityObject event =
     (if TrimSpace (ev_ConnectionID event) \<noteq> [] then ''connection:'' @ TrimSpace (ev_ConnectionID event)
      else ''provider:'' @ TrimSpace (ev_ProviderID event))"

definition activityTime :: "LifecycleEvent \<Rightarrow> int \<Rightarrow> int" where
  "activityTime event now = (if ev_OccurredAt event \<noteq> 0 then ev_OccurredAt event else now)"

definition activityStatus :: "(int \<Rightarrow> int \<Rightarrow> string) \<Rightarrow> LifecycleEvent \<Rightarrow> ServiceActivityStatus" where
  "activityStatus ff event =
     (let stated = (case map_of (ev_Metadata event) ''status'' of None \<Rightarrow> []
                    | Some raw \<Rightarrow> ToLower (TrimSpace (Sprint ff raw)));
          name = ToLower (TrimSpace (ev_Name event)) in
      if stated = ''error'' then ServiceActivityStatusError
      else if stated = ''warn'' then ServiceActivityStatusWarn
      else if Contains name ''fail'' \<or> Contains name ''error'' then ServiceActivityStatusError
      else if Contains name ''retry'' \<or> Contains name ''degrad'' then ServiceActivityStatusWarn
      else ServiceActivityStatusOK)"

definition activityMetadata :: "LifecycleEvent \<Rightarrow> meta" where
  "activityMetadata event =
     (let metadata = AList.update ''event_name'' (AStr (TrimSpace (ev_Name event)))
            (AList.update ''connection_id'' (AStr (TrimSpace (ev_ConnectionID event)))
              (AList.update ''scope_id'' (AStr (TrimSpace (ev_ScopeID event)))
                (AList.update ''scope_type'' (AStr (TrimSpace (ev_ScopeType event)))
                  (AList.update ''provider_id'' (AStr (TrimSpace (ev_ProviderID event))) (copyAnyMap (ev_Metadata event))))))
      in if length (ev_Payload event) > 0 then AList.update ''payload'' (AObj (copyAnyMap (ev_Payload event))) metadata
         else metadata)"

record 'w LifecycleActivityProjector =
  ap_sink :: "(ServiceActivityEntry \<Rightarrow> 'w \<Rightarrow> goerr option \<times> 'w) option"
  ap_enricher :: "(ServiceActivityEntry \<Rightarrow> ServiceActivityEntry result) option"
  ap_now :: "'w \<Rightarrow> int"

definition activity_entry :: "(int \<Rightarrow> int \<Rightarrow> string) \<Rightarrow> LifecycleEvent \<Rightarrow> int \<Rightarrow> ServiceActivityEntry" where
  "activity_entry ff event now =
     \<lparr>sa_ID = TrimSpace (ev_ID event), sa_Actor = activityActor event, sa_Action = TrimSpace (ev_Name event),
      sa_Object = activityObject event, sa_Channel = ''services.lifecycle'', sa_Status = activityStatus ff event,
      sa_Metadata = activityMetadata event, sa_CreatedAt = activityTime event now\<rparr>"

definition LifecycleActivityProjector_Handle ::
  "(int \<Rightarrow> int \<Rightarrow> string) \<Rightarrow> 'w LifecycleActivityProjector option \<Rightarrow> 'w projector" where
  "LifecycleActivityProjector_Handle ff receiver event w =
     (let unset = (Some (Plain ''core: activity sink is required''), w) in
      case receiver of None \<Rightarrow> unset | Some p \<Rightarrow>
      (case ap_sink p of None \<Rightarrow> unset | Some sink \<Rightarrow>
       let entry = activity_entry ff event (ap_now p w) in
       (case ap_enricher p of
          None \<Rightarrow> sink entry w
        | Some enrich \<Rightarrow> (case enrich entry of Inl err \<Rightarrow> (Some err, w) | Inr enriched \<Rightarrow> sink enriched w))))"

text \<open>The outbox does not keep the source of an event: behind it every actor is the system.\<close>

lemma outbox_loses_actor: "activityActor (outboxRecordToEvent record) = ''system''"
  by (simp add: activityActor_def outboxRecordToEvent_def TrimSpace_def)

section \<open>The notification projector\<close>

record Recipient =
  rc_Type :: string
  rc_ID :: string

record NotificationSendRequest =
  nr_DefinitionCode :: string
  nr_Recipients :: "Recipient list"
  nr_Event :: LifecycleEvent
  nr_Metadata :: meta

record NotificationDispatchRecord =
  nd_EventID :: string
  nd_Projector :: string
  nd_DefinitionCode :: string
  nd_RecipientKey :: string
  nd_IdempotencyKey :: string
  nd_Status :: string
  nd_Error :: string
  nd_Metadata :: meta

definition formatRecipientKey :: "Recipient \<Rightarrow> string" where
  "formatRecipientKey recipient =
     (let x = TrimSpace (rc_ID recipient); kind = TrimSpace (rc_Type recipient) in
      if x = [] then [] else if kind = [] then x else ToLower kind @ '':'' @ x)"

definition hex_lower :: "nat \<Rightarrow> char" where
  "hex_lower n = ''0123456789abcdef'' ! n"

text \<open>\<open>hex.EncodeToString\<close>\<close>

definition hex_EncodeToString :: "string \<Rightarrow> string" where
  "hex_EncodeToString bs = concat (map (\<lambda>b. [hex_lower (of_char b div 16), hex_lower (of_char b mod 16)]) bs)"

definition buildDispatchID ::
  "(string \<Rightarrow> string) \<Rightarrow> (int \<Rightarrow> string) \<Rightarrow> string \<Rightarrow> string \<Rightarrow> LifecycleEvent \<Rightarrow> string \<Rightarrow> string" where
  "buildDispatchID digest fmt_time projectorName definitionCode event recipientKey =
     (let trimmed = TrimSpace (ev_ID event);
          eventID = (if trimmed = [] then TrimSpace (ev_Name event) @ ''|'' @ fmt_time (ev_OccurredAt event) else trimmed);
          raw = join_with ''|'' [TrimSpace projectorName, TrimSpace definitionCode, eventID, TrimSpace recipientKey]
      in hex_EncodeToString (digest raw))"

record 's NotificationDispatchLedger =
  nl_Seen :: "'s \<Rightarrow> string \<Rightarrow> bool result"
  nl_Record :: "'s \<Rightarrow> NotificationDispatchRecord \<Rightarrow> goerr option \<times> 's"

record ('s, 'w) GoNotificationsProjector =
  np_ProjectorName :: string
  np_DefinitionResolver :: "(LifecycleEvent \<Rightarrow> 'w \<Rightarrow> (string \<times> bool) result) option"
  np_RecipientResolver :: "(LifecycleEvent \<Rightarrow> 'w \<Rightarrow> Recipient list result) option"
  np_Sender :: "(NotificationSendRequest \<Rightarrow> 'w \<Rightarrow> goerr option \<times> 'w) option"
  np_Ledger :: "'s NotificationDispatchLedger option"

abbreviation "DefaultProjectorName \<equiv> ''go-notifications''"

definition projector_name :: "('s, 'w) GoNotificationsProjector \<Rightarrow> string" where
  "projector_name p = (let n = TrimSpace (np_ProjectorName p) in if n = [] then DefaultProjectorName else n)"

definition send_request :: "string \<Rightarrow> LifecycleEvent \<Rightarrow> Recipient \<Rightarrow> NotificationSendRequest" where
  "send_request definitionCode event recipient =
     \<lparr>nr_DefinitionCode = definitionCode, nr_Recipients = [recipient], nr_Event = event,
      nr_Metadata = copyAnyMap (ev_Metadata event)\<rparr>"

definition dispatch_record ::
  "(goerr \<Rightarrow> string) \<Rightarrow> string \<Rightarrow> string \<Rightarrow> string \<Rightarrow> string \<Rightarrow> LifecycleEvent \<Rightarrow> goerr option \<Rightarrow> NotificationDispatchRecord" where
  "dispatch_record render projectorName definitionCode recipientKey idempotencyKey event sendErr =
     \<lparr>nd_EventID = TrimSpace (ev_ID event), nd_Projector = projectorName, nd_DefinitionCode = definitionCode,
      nd_RecipientKey = recipientKey, nd_IdempotencyKey = idempotencyKey,
      nd_Status = (case sendErr of None \<Rightarrow> ''sent'' | Some _ \<Rightarrow> ''failed''),
      nd_Error = (case sendErr of None \<Rightarrow> [] | Some e \<Rightarrow> err_Error render e),
      nd_Metadata = copyAnyMap (ev_Metadata event)\<rparr>"

fun notify_each ::
  "(string \<Rightarrow> string) \<Rightarrow> (int \<Rightarrow> string) \<Rightarrow> (goerr \<Rightarrow> string) \<Rightarrow> string \<Rightarrow> string \<Rightarrow>
     (NotificationSendRequest \<Rightarrow> 'w \<Rightarrow> goerr option \<times> 'w) \<Rightarrow> 's NotificationDispatchLedger \<Rightarrow> LifecycleEvent \<Rightarrow>
     Recipient list \<Rightarrow> 's \<Rightarrow> 'w \<Rightarrow> goerr option \<times> 's \<times> 'w" where
  "notify_each digest fmt_time render projectorName definitionCode send ledger event [] s w = (None, s, w)"
| "notify_each digest fmt_time render projectorName definitionCode send ledger event (recipient # recipients) s w =
     (let recipientKey = formatRecipientKey recipient;
          more = notify_each digest fmt_time render projectorName definitionCode send ledger event recipients in
      if recipientKey = [] then more s w
      else
        let idempotencyKey = buildDispatchID digest fmt_time projectorName definitionCode event recipientKey in
        (case nl_Seen ledger s idempotencyKey of
           Inl err \<Rightarrow> (Some err, s, w)
         | Inr True \<Rightarrow> more s w
         | Inr False \<Rightarrow>
             (case send (send_request definitionCode event recipient) w of
                (sendErr, w) \<Rightarrow>
                  (case nl_Record ledger s (dispatch_record render projectorName definitionCode recipientKey
                      idempotencyKey event sendErr) of
                     (Some err, s) \<Rightarrow> (Some err, s, w)
                   | (None, s) \<Rightarrow> (case sendErr of Some e \<Rightarrow> (Some e, s, w) | None \<Rightarrow> more s w)))))"

definition GoNotificationsProjector_Handle ::
  "(string \<Rightarrow> string) \<Rightarrow> (int \<Rightarrow> string) \<Rightarrow> (goerr \<Rightarrow> string) \<Rightarrow> ('s, 'w) GoNotificationsProjector option \<Rightarrow>
     LifecycleEvent \<Rightarrow> 's \<Rightarrow> 'w \<Rightarrow> goerr option \<times> 's \<times> 'w" where
  "GoNotificationsProjector_Handle digest fmt_time render receiver event s w =
     (let unset = (Some (Plain ''core: go-notifications projector dependencies are required''), s, w) in
      case receiver of None \<Rightarrow> unset | Some p \<Rightarrow>
      (case np_DefinitionResolver p of None \<Rightarrow> unset | Some resolveDefinition \<Rightarrow>
      (case np_RecipientResolver p of None \<Rightarrow> unset | Some resolveRecipients \<Rightarrow>
      (case np_Sender p of None \<Rightarrow> unset | Some send \<Rightarrow>
      (case np_Ledger p of None \<Rightarrow> unset | Some ledger \<Rightarrow>
      (case resolveDefinition event w of
         Inl err \<Rightarrow> (Some err, s, w)
       | Inr (code, ok) \<Rightarrow>
           let definitionCode = TrimSpace code in
           if \<not> ok \<or> definitionCode = [] then (None, s, w)
           else
             (case resolveRecipients event w of
                Inl err \<Rightarrow> (Some err, s, w)
              | Inr recipients \<Rightarrow>
                  if length recipients = 0 then (None, s, w)
                  else notify_each digest fmt_time render (projector_name p) definitionCode send ledger event recipients s w)))))))"

section \<open>The SQL ledger of notifications\<close>

record notificationDispatchRecord =
  ns_ID :: string
  ns_EventID :: string
  ns_Projector :: string
  ns_Definition :: string
  ns_RecipientKey :: string
  ns_Idempotency :: string
  ns_Status :: string
  ns_Error :: string
  ns_Metadata :: meta
  ns_CreatedAt :: int

type_synonym dispatch_table = "notificationDispatchRecord list"

abbreviation notify_not_configured :: goerr where
  "notify_not_configured \<equiv> Plain ''sqlstore: notification dispatch store is not configured''"

definition isUniqueConstraintError :: "(goerr \<Rightarrow> string) \<Rightarrow> goerr option \<Rightarrow> bool" where
  "isUniqueConstraintError render err =
     (case err of None \<Rightarrow> False
      | Some e \<Rightarrow> (let t = ToLower (err_Error render e) in Contains t ''unique'' \<or> Contains t ''duplicate''))"

definition NotificationDispatchStore_Seen :: "goerr option \<Rightarrow> dispatch_table option \<Rightarrow> string \<Rightarrow> bool result" where
  "NotificationDispatchStore_Seen flt receiver idempotencyKey =
     (case receiver of None \<Rightarrow> Inl notify_not_configured | Some t \<Rightarrow>
      let key = TrimSpace idempotencyKey in
      if key = [] then Inl (Plain ''sqlstore: idempotency key is required'')
      else case flt of Some err \<Rightarrow> Inl err | None \<Rightarrow> Inr (\<exists>r \<in> set t. ns_Idempotency r = key))"

text \<open>The insert fails with \<open>uniq\<close> when the idempotency key is taken; fresh uuids do not collide.\<close>

definition NotificationDispatchStore_Record ::
  "(goerr \<Rightarrow> string) \<Rightarrow> goerr \<Rightarrow> goerr option \<Rightarrow> string \<Rightarrow> int \<Rightarrow> dispatch_table option \<Rightarrow> NotificationDispatchRecord \<Rightarrow>
     goerr option \<times> dispatch_table option" where
  "NotificationDispatchStore_Record render uniq flt uuid now receiver input =
     (case receiver of None \<Rightarrow> (Some notify_not_configured, receiver) | Some t \<Rightarrow>
      if TrimSpace (nd_EventID input) = [] then (Some (Plain ''sqlstore: event id is required''), receiver)
      else if TrimSpace (nd_Projector input) = [] then (Some (Plain ''sqlstore: projector is required''), receiver)
      else if TrimSpace (nd_DefinitionCode input) = [] then (Some (Plain ''sqlstore: definition code is required''), receiver)
      else if TrimSpace (nd_RecipientKey input) = [] then (Some (Plain ''sqlstore: recipient key is required''), receiver)
      else if TrimSpace (nd_IdempotencyKey input) = [] then (Some (Plain ''sqlstore: idempotency key is required''), receiver)
      else
        let status = (if TrimSpace (nd_Status input) = [] then ''sent'' else TrimSpace (nd_Status input));
            record = \<lparr>ns_ID = uuid, ns_EventID = TrimSpace (nd_EventID input), ns_Projector = TrimSpace (nd_Projector input),
              ns_Definition = TrimSpace (nd_DefinitionCode input), ns_RecipientKey = TrimSpace (nd_RecipientKey input),
              ns_Idempotency = TrimSpace (nd_IdempotencyKey input), ns_Status = status,
              ns_Error = TrimSpace (nd_Error input), ns_Metadata = copyAnyMap (nd_Metadata input), ns_CreatedAt = now\<rparr>;
            (err, t') = (case flt of Some e \<Rightarrow> (Some e, t)
              | None \<Rightarrow> if \<exists>r \<in> set t. ns_Idempotency r = ns_Idempotency record then (Some uniq, t)
                       else (None, t @ [record]))
        in (if isUniqueConstraintError render err then None else err, Some t'))"

section \<open>What the projector relies on\<close>

text \<open>A ledger is seen as the set of the keys recorded in it.\<close>

definition proper_record :: "NotificationDispatchRecord \<Rightarrow> bool" where
  "proper_record r \<longleftrightarrow> TrimSpace (nd_EventID r) \<noteq> [] \<and> TrimSpace (nd_Projector r) \<noteq> [] \<and>
     TrimSpace (nd_DefinitionCode r) \<noteq> [] \<and> TrimSpace (nd_RecipientKey r) \<noteq> [] \<and>
     TrimSpace (nd_IdempotencyKey r) = nd_IdempotencyKey r \<and> nd_IdempotencyKey r \<noteq> []"

lemma formatRecipientKey_nonblank: "formatRecipientKey r \<noteq> [] \<Longrightarrow> TrimSpace (formatRecipientKey r) \<noteq> []"
proof -
  have "\<not> is_space (CHR '':'')" by (simp add: is_space_def)
  then have "TrimSpace (xs @ '':'' @ ys) \<noteq> []" for xs ys by (auto simp: TrimSpace_eq_Nil_iff)
  then show "formatRecipientKey r \<noteq> [] \<Longrightarrow> ?thesis" by (auto simp: formatRecipientKey_def Let_def split: if_splits)
qed

locale dispatch_ledger =
  fixes seen :: "'s \<Rightarrow> string \<Rightarrow> bool result"
    and note_sent :: "'s \<Rightarrow> NotificationDispatchRecord \<Rightarrow> goerr option \<times> 's"
    and inv :: "'s \<Rightarrow> bool"
    and keys :: "'s \<Rightarrow> string set"
  assumes seen_law: "inv s \<Longrightarrow> TrimSpace key = key \<Longrightarrow> key \<noteq> [] \<Longrightarrow> seen s key = Inr (key \<in> keys s)"
    and record_law: "inv s \<Longrightarrow> proper_record r \<Longrightarrow> nd_IdempotencyKey r \<notin> keys s \<Longrightarrow>
      \<exists>s'. note_sent s r = (None, s') \<and> inv s' \<and> keys s' = insert (nd_IdempotencyKey r) (keys s)"
begin

abbreviation ledger_ops :: "'s NotificationDispatchLedger" where
  "ledger_ops \<equiv> \<lparr>nl_Seen = seen, nl_Record = note_sent\<rparr>"

text \<open>
  Nothing is sent under a key that is recorded, and what is sent is recorded, whether it arrived or
  not. The world is the list of the requests sent so far; \<open>outcome\<close> says how each ends.
\<close>

lemma notify_each_once:
  fixes outcome :: "NotificationSendRequest \<Rightarrow> NotificationSendRequest list \<Rightarrow> goerr option"
  assumes key: "\<And>r. TrimSpace (k r) = k r \<and> k r \<noteq> []"
    and k: "\<And>r. k r = buildDispatchID digest fmt_time name code event (formatRecipientKey r)"
    and "TrimSpace (ev_ID event) \<noteq> []" and "TrimSpace name \<noteq> []" and "TrimSpace code \<noteq> []"
  shows "inv s \<Longrightarrow> \<exists>err s' sent. notify_each digest fmt_time render name code (\<lambda>req reqs. (outcome req reqs, reqs @ [req]))
      ledger_ops event recipients s reqs = (err, s', reqs @ map (send_request code event) sent) \<and> inv s' \<and>
    distinct (map k sent) \<and> k ` set sent \<inter> keys s = {} \<and> keys s' = keys s \<union> k ` set sent"
proof (induction recipients arbitrary: s reqs)
  case (Cons r recipients)
  let ?go = "notify_each digest fmt_time render name code (\<lambda>req reqs. (outcome req reqs, reqs @ [req])) ledger_ops event"
  show ?case
  proof (cases "formatRecipientKey r = [] \<or> k r \<in> keys s")
    case True
    then have "?go (r # recipients) s reqs = ?go recipients s reqs"
      using seen_law [OF Cons.prems, of "k r"] key [of r] k [of r] by (auto simp: Let_def)
    then show ?thesis using Cons.IH [OF Cons.prems, of reqs] by simp
  next
    case False
    let ?req = "send_request code event r" and ?out = "outcome (send_request code event r) reqs"
    let ?rec = "dispatch_record render name code (formatRecipientKey r) (k r) event ?out"
    have "proper_record ?rec" using assms(3-5) formatRecipientKey_nonblank [of r] key [of r] False by (simp add: proper_record_def dispatch_record_def)
    moreover have id: "nd_IdempotencyKey ?rec = k r" by (simp add: dispatch_record_def)
    ultimately obtain s1 where s1: "note_sent s ?rec = (None, s1)" "inv s1" "keys s1 = insert (k r) (keys s)"
      using record_law [OF Cons.prems, of ?rec] False by auto
    have run: "?go (r # recipients) s reqs =
        (case ?out of Some e \<Rightarrow> (Some e, s1, reqs @ [?req]) | None \<Rightarrow> ?go recipients s1 (reqs @ [?req]))"
      using seen_law [OF Cons.prems, of "k r"] key [of r] k [of r] False s1(1) by (simp add: Let_def)
    show ?thesis
    proof (cases ?out)
      case (Some e)
      then show ?thesis using run s1 False by (intro exI [of _ "Some e"] exI [of _ s1] exI [of _ "[r]"]) simp
    next
      case None
      obtain err s' sent where t: "?go recipients s1 (reqs @ [?req]) =
          (err, s', (reqs @ [?req]) @ map (send_request code event) sent)" "inv s'" "distinct (map k sent)"
        "k ` set sent \<inter> keys s1 = {}" "keys s' = keys s1 \<union> k ` set sent"
        using Cons.IH [OF s1(2), of "reqs @ [?req]"] by (elim exE conjE) (rule that)
      then show ?thesis using run None s1(3) False
        by (intro exI [of _ err] exI [of _ s'] exI [of _ "r # sent"]) auto
    qed
  qed
qed simp

end

lemma hex_lower_not_space:
  assumes "n < 16"
  shows "\<not> is_space (hex_lower n)"
proof -
  have "hex_lower n \<in> set ''0123456789abcdef''" unfolding hex_lower_def using assms by (intro nth_mem) simp
  moreover have "list_all (\<lambda>c. \<not> is_space c) ''0123456789abcdef''" by code_simp
  ultimately show ?thesis unfolding list_all_iff by (rule bspec [rotated])
qed

lemma hex_EncodeToString_trim: "TrimSpace (hex_EncodeToString bs) = hex_EncodeToString bs"
proof (rule TrimSpace_id)
  have "of_char b div 16 < (16 :: nat)" for b :: char
    using of_char_less_256 [of b] by (simp add: less_mult_imp_div_less)
  then show "\<forall>c \<in> set (hex_EncodeToString bs). \<not> is_space c"
    by (auto simp: hex_EncodeToString_def hex_lower_not_space)
qed

lemma hex_EncodeToString_nonempty: "bs \<noteq> [] \<Longrightarrow> hex_EncodeToString bs \<noteq> []"
  by (cases bs) (simp_all add: hex_EncodeToString_def)

lemma projector_name_nonblank [simp]: "TrimSpace (projector_name p) \<noteq> []"
proof -
  have "TrimSpace DefaultProjectorName \<noteq> []" by code_simp
  then show ?thesis by (simp add: projector_name_def Let_def)
qed

fun dispatch_keys :: "dispatch_table option \<Rightarrow> string set" where
  "dispatch_keys None = {}"
| "dispatch_keys (Some t) = ns_Idempotency ` set t"

interpretation sqln: dispatch_ledger "NotificationDispatchStore_Seen None"
  "NotificationDispatchStore_Record render uniq None uuid now" "\<lambda>s. s \<noteq> None" dispatch_keys
  for render :: "goerr \<Rightarrow> string" and uniq :: goerr and uuid :: string and now :: int
proof unfold_locales
  fix s :: "dispatch_table option" and key
  assume "s \<noteq> None" "TrimSpace key = key" "key \<noteq> []"
  then show "NotificationDispatchStore_Seen None s key = Inr (key \<in> dispatch_keys s)"
    by (auto simp: NotificationDispatchStore_Seen_def)
next
  fix s :: "dispatch_table option" and r
  assume a: "s \<noteq> None" "proper_record r" "nd_IdempotencyKey r \<notin> dispatch_keys s"
  then obtain t where t: "s = Some t" by blast
  have "\<not> (\<exists>x \<in> set t. ns_Idempotency x = nd_IdempotencyKey r)" using a(3) t by (auto simp: image_iff)
  with a t show "\<exists>s'. NotificationDispatchStore_Record render uniq None uuid now s r = (None, s') \<and> s' \<noteq> None \<and>
      dispatch_keys s' = insert (nd_IdempotencyKey r) (dispatch_keys s)"
    by (simp add: NotificationDispatchStore_Record_def proper_record_def isUniqueConstraintError_def Let_def)
qed

section \<open>Notifications through the SQL ledger\<close>

definition sql_notifications ::
  "(goerr \<Rightarrow> string) \<Rightarrow> goerr \<Rightarrow> string \<Rightarrow> int \<Rightarrow> dispatch_table option NotificationDispatchLedger" where
  "sql_notifications render uniq uuid now =
     \<lparr>nl_Seen = NotificationDispatchStore_Seen None, nl_Record = NotificationDispatchStore_Record render uniq None uuid now\<rparr>"

fun handle_all ::
  "(string \<Rightarrow> string) \<Rightarrow> (int \<Rightarrow> string) \<Rightarrow> (goerr \<Rightarrow> string) \<Rightarrow> ('s, 'w) GoNotificationsProjector \<Rightarrow> LifecycleEvent list \<Rightarrow>
     's \<Rightarrow> 'w \<Rightarrow> 's \<times> 'w" where
  "handle_all digest fmt_time render p [] s w = (s, w)"
| "handle_all digest fmt_time render p (event # events) s w =
     (case GoNotificationsProjector_Handle digest fmt_time render (Some p) event s w of
        (_, s', w') \<Rightarrow> handle_all digest fmt_time render p events s' w')"

definition request_key ::
  "(string \<Rightarrow> string) \<Rightarrow> (int \<Rightarrow> string) \<Rightarrow> ('s, 'w) GoNotificationsProjector \<Rightarrow> NotificationSendRequest \<Rightarrow> string" where
  "request_key digest fmt_time p req =
     buildDispatchID digest fmt_time (projector_name p) (nr_DefinitionCode req) (nr_Event req)
       (formatRecipientKey (hd (nr_Recipients req)))"

text \<open>A projector that writes to the SQL ledger and whose sender keeps the list of its requests.\<close>

definition logging_projector ::
  "(goerr \<Rightarrow> string) \<Rightarrow> goerr \<Rightarrow> string \<Rightarrow> int \<Rightarrow> (NotificationSendRequest \<Rightarrow> NotificationSendRequest list \<Rightarrow> goerr option) \<Rightarrow>
     (dispatch_table option, NotificationSendRequest list) GoNotificationsProjector \<Rightarrow> bool" where
  "logging_projector render uniq uuid now outcome p \<longleftrightarrow>
     np_Ledger p = Some (sql_notifications render uniq uuid now) \<and>
     np_Sender p = Some (\<lambda>req reqs. (outcome req reqs, reqs @ [req])) \<and>
     np_DefinitionResolver p \<noteq> None \<and> np_RecipientResolver p \<noteq> None"

lemma buildDispatchID_proper:
  assumes "\<forall>raw. length (digest raw) = (32 :: nat)"
  shows "TrimSpace (buildDispatchID digest fmt_time name code event key) = buildDispatchID digest fmt_time name code event key \<and>
    buildDispatchID digest fmt_time name code event key \<noteq> []"
proof -
  have "digest raw \<noteq> []" for raw using assms by (metis list.size(3) zero_neq_numeral)
  then show ?thesis
    by (simp add: buildDispatchID_def Let_def hex_EncodeToString_trim hex_EncodeToString_nonempty)
qed

lemma handle_once:
  assumes "\<forall>raw. length (digest raw) = (32 :: nat)" and p: "logging_projector render uniq uuid now outcome p"
    and "TrimSpace (ev_ID event) \<noteq> []" and "s \<noteq> None" and k_def: "k = request_key digest fmt_time p"
  shows "\<exists>err s' new. GoNotificationsProjector_Handle digest fmt_time render (Some p) event s reqs = (err, s', reqs @ new) \<and>
    s' \<noteq> None \<and> distinct (map k new) \<and> k ` set new \<inter> dispatch_keys s = {} \<and> dispatch_keys s' = dispatch_keys s \<union> k ` set new"
proof -
  obtain rd rr where r: "np_DefinitionResolver p = Some rd" "np_RecipientResolver p = Some rr"
    using p by (auto simp: logging_projector_def)
  have run: "GoNotificationsProjector_Handle digest fmt_time render (Some p) event s reqs =
      (case rd event reqs of Inl err \<Rightarrow> (Some err, s, reqs)
       | Inr (code, ok) \<Rightarrow> if \<not> ok \<or> TrimSpace code = [] then (None, s, reqs)
           else (case rr event reqs of Inl err \<Rightarrow> (Some err, s, reqs)
             | Inr recipients \<Rightarrow> if length recipients = 0 then (None, s, reqs)
                 else notify_each digest fmt_time render (projector_name p) (TrimSpace code)
                   (\<lambda>req reqs. (outcome req reqs, reqs @ [req])) (sql_notifications render uniq uuid now) event recipients s reqs))"
    using p r unfolding GoNotificationsProjector_Handle_def Let_def logging_projector_def by simp
  have idle: "\<exists>err' s' new. (err, s, reqs) = (err', s', reqs @ new) \<and> s' \<noteq> None \<and> distinct (map k new) \<and>
      k ` set new \<inter> dispatch_keys s = {} \<and> dispatch_keys s' = dispatch_keys s \<union> k ` set new" for err :: "goerr option"
    using assms(4) by auto
  have active: "\<exists>err s' new. notify_each digest fmt_time render (projector_name p) code
      (\<lambda>req reqs. (outcome req reqs, reqs @ [req])) (sql_notifications render uniq uuid now) event recipients s reqs =
        (err, s', reqs @ new) \<and> s' \<noteq> None \<and> distinct (map k new) \<and> k ` set new \<inter> dispatch_keys s = {} \<and>
      dispatch_keys s' = dispatch_keys s \<union> k ` set new" if code: "TrimSpace code \<noteq> []" for code recipients
  proof -
    let ?k = "\<lambda>r. buildDispatchID digest fmt_time (projector_name p) code event (formatRecipientKey r)"
    have same: "k (send_request code event r) = ?k r" for r by (simp add: k_def request_key_def send_request_def)
    from sqln.notify_each_once [where k = ?k and digest = digest and fmt_time = fmt_time and name = "projector_name p" and
        code = code and event = event, OF buildDispatchID_proper [OF assms(1)] refl assms(3) projector_name_nonblank code
        assms(4), of render outcome render uniq uuid now recipients reqs, folded sql_notifications_def]
    obtain err s' sent where "notify_each digest fmt_time render (projector_name p) code
        (\<lambda>req reqs. (outcome req reqs, reqs @ [req])) (sql_notifications render uniq uuid now) event recipients s reqs =
        (err, s', reqs @ map (send_request code event) sent)" "s' \<noteq> None" "distinct (map ?k sent)"
      "?k ` set sent \<inter> dispatch_keys s = {}" "dispatch_keys s' = dispatch_keys s \<union> ?k ` set sent"
      by (elim exE conjE) (rule that)
    then show ?thesis
      by (intro exI [of _ err] exI [of _ s'] exI [of _ "map (send_request code event) sent"])
        (simp add: comp_def same image_image)
  qed
  show ?thesis unfolding run using idle active by (auto split: sum.split)
qed

lemma handle_all_once:
  assumes "\<forall>raw. length (digest raw) = (32 :: nat)" and "logging_projector render uniq uuid now outcome p"
    and k_def: "k = request_key digest fmt_time p"
  shows "\<forall>event \<in> set events. TrimSpace (ev_ID event) \<noteq> [] \<Longrightarrow> s \<noteq> None \<Longrightarrow> distinct (map k reqs) \<Longrightarrow>
    k ` set reqs \<subseteq> dispatch_keys s \<Longrightarrow>
    \<exists>s' new. handle_all digest fmt_time render p events s reqs = (s', reqs @ new) \<and> distinct (map k (reqs @ new)) \<and>
      k ` set new \<inter> dispatch_keys s = {}"
proof (induction events arbitrary: s reqs)
  case (Cons event events)
  have ev: "TrimSpace (ev_ID event) \<noteq> []" using Cons.prems(1) by simp
  obtain err s1 new where h: "GoNotificationsProjector_Handle digest fmt_time render (Some p) event s reqs = (err, s1, reqs @ new)"
    "s1 \<noteq> None" "distinct (map k new)" "k ` set new \<inter> dispatch_keys s = {}" "dispatch_keys s1 = dispatch_keys s \<union> k ` set new"
    using handle_once [OF assms(1,2) ev Cons.prems(2) k_def, of reqs] by (elim exE conjE) (rule that)
  have d: "distinct (map k (reqs @ new))" "k ` set (reqs @ new) \<subseteq> dispatch_keys s1"
    using h(3-5) Cons.prems(3,4) by auto
  have evs: "\<forall>event \<in> set events. TrimSpace (ev_ID event) \<noteq> []" using Cons.prems(1) by simp
  obtain s' more where "handle_all digest fmt_time render p events s1 (reqs @ new) = (s', (reqs @ new) @ more)"
    "distinct (map k ((reqs @ new) @ more))" "k ` set more \<inter> dispatch_keys s1 = {}"
    using Cons.IH [OF evs h(2) d] by (elim exE conjE) (rule that)
  then show ?case using h(1,4,5) by (intro exI [of _ s'] exI [of _ "new @ more"]) auto
qed simp


definition sample_notifier ::
  "goerr option \<Rightarrow> (dispatch_table option, NotificationSendRequest list) GoNotificationsProjector" where
  "sample_notifier outcome = \<lparr>np_ProjectorName = [], np_DefinitionResolver = Some (\<lambda>_ _. Inr (''welcome'', True)),
     np_RecipientResolver = Some (\<lambda>_ _. Inr [\<lparr>rc_Type = ''User'', rc_ID = ''u1''\<rparr>]),
     np_Sender = Some (\<lambda>req reqs. (outcome, reqs @ [req])),
     np_Ledger = Some (sql_notifications (\<lambda>_. []) (Plain ''unique'') ''id'' 3)\<rparr>"

lemma sample_notifier_logs:
  "logging_projector (\<lambda>_. []) (Plain ''unique'') ''id'' 3 (\<lambda>_ _. outcome) (sample_notifier outcome)"
  by (simp add: logging_projector_def sample_notifier_def)


text \<open>
  A notification whose sending failed is never sent again. Its failure is recorded under the same key,
  so when the event is handled once more, by a sender that would now succeed, nothing is sent and the
  handler reports success.
\<close>

theorem notification_failure_final:
  assumes "\<forall>raw. length (digest raw) = (32 :: nat)" and "TrimSpace (ev_ID event) \<noteq> []"
    and "logging_projector render uniq uuid now (\<lambda>_ _. Some e) p" and "logging_projector render uniq uuid now outcome q"
    and "np_DefinitionResolver p = Some (\<lambda>_ _. Inr (code, True))" and "TrimSpace code \<noteq> []"
    and "np_RecipientResolver p = Some (\<lambda>_ _. Inr [r])" and "formatRecipientKey r \<noteq> []"
    and "np_ProjectorName q = np_ProjectorName p" and "np_DefinitionResolver q = np_DefinitionResolver p"
    and "np_RecipientResolver q = np_RecipientResolver p"
  shows "\<exists>s. GoNotificationsProjector_Handle digest fmt_time render (Some p) event (Some []) [] =
      (Some e, s, [send_request (TrimSpace code) event r]) \<and>
    GoNotificationsProjector_Handle digest fmt_time render (Some q) event s reqs = (None, s, reqs)"
proof -
  let ?k = "buildDispatchID digest fmt_time (projector_name p) (TrimSpace code) event (formatRecipientKey r)"
  let ?rec = "dispatch_record render (projector_name p) (TrimSpace code) (formatRecipientKey r) ?k event (Some e)"
  note k = buildDispatchID_proper [OF assms(1)]
  have name: "projector_name q = projector_name p" using assms(9) by (simp add: projector_name_def)
  have "proper_record ?rec"
    using assms(2,6) formatRecipientKey_nonblank [OF assms(8)] k by (simp add: proper_record_def dispatch_record_def)
  then obtain s where s: "NotificationDispatchStore_Record render uniq None uuid now (Some []) ?rec = (None, s)" "s \<noteq> None"
    "dispatch_keys s = {?k}"
    using sqln.record_law [of "Some []" ?rec render uniq uuid now] by (auto simp: dispatch_record_def)
  have "NotificationDispatchStore_Seen None (Some []) ?k = Inr False" "NotificationDispatchStore_Seen None s ?k = Inr True"
    using sqln.seen_law [of "Some []" ?k] sqln.seen_law [OF s(2), of ?k] k s(3) by simp_all
  then show ?thesis
    using assms(3-11) s(1) name unfolding GoNotificationsProjector_Handle_def logging_projector_def sql_notifications_def Let_def
    by (intro exI [of _ s]) simp
qed

theorem notification_failure_final_witness:
  "\<exists>s. GoNotificationsProjector_Handle (\<lambda>_. replicate 32 (CHR ''x'')) (\<lambda>_. []) (\<lambda>_. [])
      (Some (sample_notifier (Some (Plain ''down'')))) sample_event (Some []) [] =
      (Some (Plain ''down''), s, [send_request (TrimSpace ''welcome'') sample_event \<lparr>rc_Type = ''User'', rc_ID = ''u1''\<rparr>]) \<and>
    GoNotificationsProjector_Handle (\<lambda>_. replicate 32 (CHR ''x'')) (\<lambda>_. []) (\<lambda>_. []) (Some (sample_notifier None)) sample_event s [] =
      (None, s, [])"
proof -
  have "TrimSpace (ev_ID sample_event) \<noteq> []" "TrimSpace ''welcome'' \<noteq> []"
    "formatRecipientKey \<lparr>rc_Type = ''User'', rc_ID = ''u1''\<rparr> \<noteq> []" by code_simp+
  then show ?thesis
    using notification_failure_final [OF _ _ sample_notifier_logs sample_notifier_logs, of
        "\<lambda>_. replicate 32 (CHR ''x'')" sample_event "Plain ''down''" "''welcome''" "\<lparr>rc_Type = ''User'', rc_ID = ''u1''\<rparr>"
        None "\<lambda>_. []" "[]"]
    by (simp add: sample_notifier_def)
qed

end
