(* ===== verification/Redaction.thy ===== *)
theory Redaction
  imports Go_Prelude
begin

text \<open>
  The two redaction walks of the repository: \<open>src/core/redaction.go\<close>, used by the services, and
  \<open>src/store/sql/redaction.go\<close>, used by the SQL stores before they write metadata. They are the same
  recursion over a value with different lists of sensitive keys, so the recursion is one function of
  the key predicate.
\<close>

definition RedactedValue :: string where
  "RedactedValue = ''[REDACTED]''"

fun redact_any :: "(string \<Rightarrow> bool) \<Rightarrow> any \<Rightarrow> any" where
  "redact_any sensitive (AObj kvs) =
     AObj (map (\<lambda>(key, value). (key, if sensitive key then AStr RedactedValue else redact_any sensitive value)) kvs)"
| "redact_any sensitive (AArr xs) = AArr (map (redact_any sensitive) xs)"
| "redact_any sensitive value = value"

definition redact_map :: "(string \<Rightarrow> bool) \<Rightarrow> meta \<Rightarrow> meta" where
  "redact_map sensitive source =
     map (\<lambda>(key, value). (key, if sensitive key then AStr RedactedValue else redact_any sensitive value)) source"

definition contains_any :: "string \<Rightarrow> string list \<Rightarrow> bool" where
  "contains_any key tokens \<longleftrightarrow> (\<exists>token \<in> set tokens. Contains key token)"

definition isTraceabilityKey :: "string \<Rightarrow> bool" where
  "isTraceabilityKey key \<longleftrightarrow>
     key \<in> {''provider_id'', ''scope_type'', ''scope_id'', ''connection_id'', ''sync_binding_id'', ''external_id'',
            ''source_version'', ''idempotency_key'', ''trace_id'', ''request_id''}"

definition shouldRedactKey :: "string \<Rightarrow> bool" where
  "shouldRedactKey key =
     (let key = ToLower (TrimSpace key) in
      if key = [] \<or> isTraceabilityKey key then False
      else contains_any key [''password'', ''secret'', ''token'', ''authorization'', ''api_key'', ''apikey'',
             ''access_key'', ''refresh'', ''credential'', ''private_key'', ''signing_key'', ''signature''])"

definition isSensitiveKey :: "string \<Rightarrow> bool" where
  "isSensitiveKey key =
     (let key = ToLower (TrimSpace key) in
      if key = [] then False
      else contains_any key [''password'', ''secret'', ''token'', ''authorization'', ''api_key'', ''apikey'',
             ''access_key'', ''refresh'', ''credential'', ''signature''])"

definition redactSensitiveValue :: "any \<Rightarrow> any" where
  "redactSensitiveValue = redact_any shouldRedactKey"

definition RedactSensitiveMap :: "meta \<Rightarrow> meta" where
  "RedactSensitiveMap metadata = (if metadata = [] then [] else redact_map shouldRedactKey metadata)"

definition redactValue :: "any \<Rightarrow> any" where
  "redactValue = redact_any isSensitiveKey"

definition RedactMetadata :: "meta \<Rightarrow> meta" where
  "RedactMetadata metadata = (if metadata = [] then [] else redact_map isSensitiveKey metadata)"

section \<open>What redaction leaves\<close>

text \<open>\<open>leaks sensitive v\<close>: somewhere in the value a sensitive key holds something else than the mark.\<close>

fun leaks :: "(string \<Rightarrow> bool) \<Rightarrow> any \<Rightarrow> bool" where
  "leaks sensitive (AObj kvs) =
     (\<exists>(key, value) \<in> set kvs. if sensitive key then value \<noteq> AStr RedactedValue else leaks sensitive value)"
| "leaks sensitive (AArr xs) = (\<exists>x \<in> set xs. leaks sensitive x)"
| "leaks sensitive _ = False"

lemma redact_any_no_leak: "\<not> leaks sensitive (redact_any sensitive v)"
  by (induction sensitive v rule: redact_any.induct) (auto split: if_splits)

lemma redact_any_unchanged: "\<not> leaks sensitive v \<Longrightarrow> redact_any sensitive v = v"
proof (induction sensitive v rule: redact_any.induct)
  case (1 sensitive kvs)
  have "(case kv of (key, value) \<Rightarrow>
      (key, if sensitive key then AStr RedactedValue else redact_any sensitive value)) = kv" if "kv \<in> set kvs" for kv
    using 1 that by (cases kv) (fastforce split: if_splits)
  then show ?case by (simp add: map_idI)
next
  case (2 sensitive xs)
  then show ?case by (simp add: map_idI)
qed simp_all

lemma redact_map_any: "AObj (redact_map sensitive m) = redact_any sensitive (AObj m)"
  by (simp add: redact_map_def)

lemma redact_map_keys [simp]: "map fst (redact_map sensitive m) = map fst m"
  by (simp add: redact_map_def comp_def case_prod_beta)

lemma redact_map_idem [simp]: "redact_map sensitive (redact_map sensitive m) = redact_map sensitive m"
  using redact_any_unchanged [OF redact_any_no_leak, of sensitive "AObj m"]
  by (simp add: redact_map_any [symmetric] del: redact_any.simps)

lemma Redact_maps: "RedactSensitiveMap m = redact_map shouldRedactKey m" "RedactMetadata m = redact_map isSensitiveKey m"
  by (simp_all add: RedactSensitiveMap_def RedactMetadata_def redact_map_def)

lemma redact_map_unchanged: "\<not> leaks sensitive (AObj m) \<Longrightarrow> redact_map sensitive m = m"
  using redact_any_unchanged [of sensitive "AObj m"] by (simp add: redact_map_any [symmetric] del: redact_any.simps)

lemma redact_map_no_leak: "\<not> leaks sensitive (AObj (redact_map sensitive m))"
  by (simp only: redact_map_any redact_any_no_leak not_False_eq_True)

lemma RedactMetadata_keys [simp]: "map fst (RedactMetadata m) = map fst m"
  by (simp add: RedactMetadata_def)

lemma RedactMetadata_idem [simp]: "RedactMetadata (RedactMetadata m) = RedactMetadata m"
  by (simp add: RedactMetadata_def)



text \<open>
  The services redact everything the SQL stores redact, and more: a value the SQL walk leaves in
  place under \<open>private_key\<close> or \<open>signing_key\<close> is redacted by the services' walk.
\<close>

theorem redaction_lists_differ:
  "(\<forall>key. isSensitiveKey key \<longrightarrow> shouldRedactKey key) \<and>
   RedactSensitiveMap [(''private_key'', AStr s), (''signing_key'', AStr s)] =
     [(''private_key'', AStr RedactedValue), (''signing_key'', AStr RedactedValue)] \<and>
   RedactMetadata [(''private_key'', AStr s), (''signing_key'', AStr s)] =
     [(''private_key'', AStr s), (''signing_key'', AStr s)]"
proof -
  have trace: "\<not> contains_any key [''password'', ''secret'', ''token'', ''authorization'', ''api_key'', ''apikey'',
      ''access_key'', ''refresh'', ''credential'', ''signature'']" if "isTraceabilityKey key" for key
  proof -
    have "list_all (\<lambda>key. \<not> contains_any key [''password'', ''secret'', ''token'', ''authorization'', ''api_key'',
        ''apikey'', ''access_key'', ''refresh'', ''credential'', ''signature''])
      [''provider_id'', ''scope_type'', ''scope_id'', ''connection_id'', ''sync_binding_id'', ''external_id'',
       ''source_version'', ''idempotency_key'', ''trace_id'', ''request_id'']" by code_simp
    then show ?thesis using that unfolding isTraceabilityKey_def by auto
  qed
  have "shouldRedactKey key" if "isSensitiveKey key" for key
  proof -
    have "contains_any (ToLower (TrimSpace key)) [''password'', ''secret'', ''token'', ''authorization'', ''api_key'',
        ''apikey'', ''access_key'', ''refresh'', ''credential'', ''signature'']" "ToLower (TrimSpace key) \<noteq> []"
      using that by (auto simp: isSensitiveKey_def Let_def split: if_splits)
    then show ?thesis
      using trace [of "ToLower (TrimSpace key)"] by (auto simp: shouldRedactKey_def contains_any_def Let_def)
  qed
  moreover have "shouldRedactKey ''private_key''" "shouldRedactKey ''signing_key''" "\<not> isSensitiveKey ''private_key''"
    "\<not> isSensitiveKey ''signing_key''" by code_simp+
  ultimately show ?thesis by (simp add: RedactSensitiveMap_def RedactMetadata_def redact_map_def)
qed

theorem redaction_lists_differ_witness:
  "shouldRedactKey ''X-Api_Key'' \<and> isSensitiveKey ''X-Api_Key''"
proof -
  have "isSensitiveKey ''X-Api_Key''" by code_simp
  then show ?thesis using redaction_lists_differ by blast
qed

end
