(* ===== verification/Grants.thy ===== *)
theory Grants
  imports Domain Redaction "HOL-Library.Product_Lexorder"
begin

text \<open>
  \<open>src/core/grants.go\<close>: sets of granted permissions, their difference as an event, and the
  reconciliation that writes a new snapshot and its event to a grant store; and the SQL grant store of
  \<open>src/store/sql/event_stores.go\<close>. A Go set of strings is a list without repetitions, in any order.
  The locale \<open>grant_store\<close> is what reconciliation relies on. \<open>fmt_time\<close> is the RFC 3339 rendering of
  an instant, \<open>uniq\<close> the database error of a violated unique constraint, \<open>norows\<close> that of an empty
  select.
\<close>

section \<open>Grant sets\<close>

abbreviation "GrantEventExpanded \<equiv> ''expanded''"
abbreviation "GrantEventDowngraded \<equiv> ''downgraded''"
abbreviation "GrantEventRevoked \<equiv> ''revoked''"

definition norm_grant :: "string \<Rightarrow> string" where
  "norm_grant value = TrimSpace (ToLower value)"

definition toGrantSet :: "string list \<Rightarrow> string list" where
  "toGrantSet vs = remdups (filter (\<lambda>g. g \<noteq> []) (map norm_grant vs))"

definition normalizeGrants :: "string list \<Rightarrow> string list" where
  "normalizeGrants vs = (if vs = [] then [] else sort (toGrantSet vs))"

record GrantDelta =
  gd_EventType :: string
  gd_Added :: "string list"
  gd_Removed :: "string list"

definition ComputeGrantDelta :: "string list \<Rightarrow> string list \<Rightarrow> GrantDelta" where
  "ComputeGrantDelta previous current =
     (let prevSet = toGrantSet previous; currSet = toGrantSet current;
          added = sort (filter (\<lambda>g. g \<notin> set prevSet) currSet);
          removed = sort (filter (\<lambda>g. g \<notin> set currSet) prevSet)
      in \<lparr>gd_EventType =
            (if length removed > 0 \<and> length currSet = 0 then GrantEventRevoked
             else if length removed > 0 then GrantEventDowngraded
             else if length added > 0 then GrantEventExpanded
             else []),
          gd_Added = added, gd_Removed = removed\<rparr>)"

text \<open>The set a list of permissions denotes.\<close>

definition grants_of :: "string list \<Rightarrow> string set" where
  "grants_of vs = {g. g \<noteq> [] \<and> g \<in> norm_grant ` set vs}"

lemma norm_grant_idem [simp]: "norm_grant (norm_grant g) = norm_grant g"
  unfolding norm_grant_def by (metis TrimSpace_ToLower TrimSpace_idem ToLower_idem)

lemma set_toGrantSet [simp]: "set (toGrantSet vs) = grants_of vs"
  by (auto simp: toGrantSet_def grants_of_def)

lemma finite_grants_of [simp]: "finite (grants_of vs)"
  by (metis List.finite_set set_toGrantSet)

lemma toGrantSet_distinct [simp]: "distinct (toGrantSet vs)"
  by (simp add: toGrantSet_def)

lemma sort_distinct_set: "distinct xs \<Longrightarrow> sort xs = sorted_list_of_set (set xs)"
  by (simp add: sorted_list_of_set_sort_remdups distinct_remdups_id)

text \<open>The result does not depend on the order in which the set is iterated.\<close>

lemma normalizeGrants_sorted: "normalizeGrants vs = sorted_list_of_set (grants_of vs)"
proof -
  have "grants_of [] = {}" by (simp add: grants_of_def)
  then show ?thesis by (simp add: normalizeGrants_def sort_distinct_set)
qed

lemma grants_of_normalized [simp]: "grants_of (normalizeGrants vs) = grants_of vs"
proof -
  have "norm_grant ` grants_of vs = grants_of vs"
    by (rule image_cong [where f = norm_grant and g = id, simplified]) (auto simp: grants_of_def)
  moreover have "set (normalizeGrants vs) = grants_of vs" by (simp add: normalizeGrants_sorted)
  ultimately show ?thesis unfolding grants_of_def [of "normalizeGrants vs"] by (auto simp: grants_of_def)
qed

lemma delta_sets:
  "gd_Added (ComputeGrantDelta previous current) = sorted_list_of_set (grants_of current - grants_of previous)"
  "gd_Removed (ComputeGrantDelta previous current) = sorted_list_of_set (grants_of previous - grants_of current)"
proof -
  have f: "sort (filter P (toGrantSet v)) = sorted_list_of_set {g \<in> grants_of v. P g}" for P v
    using sort_distinct_set [of "filter P (toGrantSet v)"] by simp
  show "gd_Added (ComputeGrantDelta previous current) = sorted_list_of_set (grants_of current - grants_of previous)"
    "gd_Removed (ComputeGrantDelta previous current) = sorted_list_of_set (grants_of previous - grants_of current)"
    by (simp_all add: ComputeGrantDelta_def Let_def f set_diff_eq)
qed

lemma delta_event:
  "gd_EventType (ComputeGrantDelta previous current) =
     (if \<not> grants_of previous \<subseteq> grants_of current
      then if grants_of current = {} then GrantEventRevoked else GrantEventDowngraded
      else if grants_of current \<noteq> grants_of previous then GrantEventExpanded else [])"
proof -
  have len: "length (toGrantSet v) = 0 \<longleftrightarrow> grants_of v = {}" for v
    by (metis length_0_conv set_empty set_toGrantSet)
  have a: "length (gd_Added (ComputeGrantDelta previous current)) > 0 \<longleftrightarrow> \<not> grants_of current \<subseteq> grants_of previous"
    and r: "length (gd_Removed (ComputeGrantDelta previous current)) > 0 \<longleftrightarrow> \<not> grants_of previous \<subseteq> grants_of current"
    by (auto simp: delta_sets card_gt_0_iff)
  have "gd_EventType (ComputeGrantDelta previous current) =
      (if length (gd_Removed (ComputeGrantDelta previous current)) > 0 \<and> length (toGrantSet current) = 0 then GrantEventRevoked
       else if length (gd_Removed (ComputeGrantDelta previous current)) > 0 then GrantEventDowngraded
       else if length (gd_Added (ComputeGrantDelta previous current)) > 0 then GrantEventExpanded else [])"
    by (simp only: ComputeGrantDelta_def Let_def GrantDelta.select_convs)
  then show ?thesis unfolding a r len by auto
qed

text \<open>
  A grant delta is the exact difference of the two permission sets, compared without case and
  surrounding space: applied to the previous set it gives the current one, what it adds was absent and
  what it removes was present, both lists are in order and without repetitions, and its event is
  \<open>revoked\<close> when everything is gone, \<open>downgraded\<close> when something is, \<open>expanded\<close> when only something
  came, and empty when nothing changed.
\<close>

theorem grant_delta_exact:
  "let d = ComputeGrantDelta previous current in
     (grants_of previous - set (gd_Removed d)) \<union> set (gd_Added d) = grants_of current \<and>
     set (gd_Added d) \<inter> grants_of previous = {} \<and> set (gd_Removed d) \<subseteq> grants_of previous \<and>
     sorted (gd_Added d) \<and> distinct (gd_Added d) \<and> sorted (gd_Removed d) \<and> distinct (gd_Removed d) \<and>
     gd_EventType d =
       (if \<not> grants_of previous \<subseteq> grants_of current
        then if grants_of current = {} then GrantEventRevoked else GrantEventDowngraded
        else if grants_of current \<noteq> grants_of previous then GrantEventExpanded else [])"
  unfolding Let_def delta_event by (auto simp: delta_sets)

section \<open>Reconciliation\<close>

record SaveGrantSnapshotInput =
  sg_ConnectionID :: string
  sg_Version :: int
  sg_Requested :: "string list"
  sg_Granted :: "string list"
  sg_CapturedAt :: int
  sg_Metadata :: meta

record AppendGrantEventInput =
  ge_ConnectionID :: string
  ge_EventType :: string
  ge_Added :: "string list"
  ge_Removed :: "string list"
  ge_OccurredAt :: int
  ge_Metadata :: meta

text \<open>\<open>GrantSnapshot\<close> has the fields of the save input.\<close>

type_synonym GrantSnapshot = SaveGrantSnapshotInput

text \<open>A grant store over a state \<open>'s\<close>; \<open>gs_SaveBoth\<close> is there when the store is transactional.\<close>

record 's GrantStore_ops =
  gs_GetLatestSnapshot :: "'s \<Rightarrow> string \<Rightarrow> GrantSnapshot option result"
  gs_SaveSnapshot :: "'s \<Rightarrow> SaveGrantSnapshotInput \<Rightarrow> goerr option \<times> 's"
  gs_AppendEvent :: "'s \<Rightarrow> AppendGrantEventInput \<Rightarrow> goerr option \<times> 's"
  gs_SaveBoth :: "('s \<Rightarrow> SaveGrantSnapshotInput \<Rightarrow> AppendGrantEventInput option \<Rightarrow> goerr option \<times> 's) option"

definition save_both_or_each ::
  "'s GrantStore_ops \<Rightarrow> SaveGrantSnapshotInput \<Rightarrow> AppendGrantEventInput option \<Rightarrow> 's \<Rightarrow> goerr option \<times> 's" where
  "save_both_or_each store snapshotInput eventInput s =
     (case gs_SaveBoth store of
        Some saveBoth \<Rightarrow> saveBoth s snapshotInput eventInput
      | None \<Rightarrow>
          (case gs_SaveSnapshot store s snapshotInput of
             (Some saveErr, s) \<Rightarrow> (Some saveErr, s)
           | (None, s) \<Rightarrow> (case eventInput of None \<Rightarrow> (None, s) | Some ev \<Rightarrow> gs_AppendEvent store s ev)))"

definition reconcileGrantSnapshot ::
  "'s GrantStore_ops option \<Rightarrow> (string list \<Rightarrow> string list result) option \<Rightarrow> string \<Rightarrow> string list \<Rightarrow> string list \<Rightarrow>
     meta \<Rightarrow> int \<Rightarrow> 's \<Rightarrow> (GrantSnapshot option \<times> GrantDelta) result \<times> 's" where
  "reconcileGrantSnapshot grantStore aware connectionID requested granted metadata now s =
     (case grantStore of
        None \<Rightarrow> (Inr (None, \<lparr>gd_EventType = [], gd_Added = [], gd_Removed = []\<rparr>), s)
      | Some store \<Rightarrow>
          let requested = normalizeGrants requested; granted = normalizeGrants granted in
          (case (case aware of None \<Rightarrow> Inr granted | Some f \<Rightarrow>
                   (case f granted of Inl err \<Rightarrow> Inl err | Inr normalized \<Rightarrow> Inr (normalizeGrants normalized))) of
             Inl err \<Rightarrow> (Inl err, s)
           | Inr granted \<Rightarrow>
               (case gs_GetLatestSnapshot store s connectionID of
                  Inl err \<Rightarrow> (Inl err, s)
                | Inr previous \<Rightarrow>
                    let version = (case previous of None \<Rightarrow> 1 | Some p \<Rightarrow> sg_Version p + 1);
                        snapshotInput = \<lparr>sg_ConnectionID = connectionID, sg_Version = version, sg_Requested = requested,
                          sg_Granted = granted, sg_CapturedAt = now, sg_Metadata = copyAnyMap metadata\<rparr>;
                        delta = ComputeGrantDelta (case previous of None \<Rightarrow> [] | Some p \<Rightarrow> sg_Granted p) granted;
                        eventInput = (if gd_EventType delta \<noteq> []
                          then Some \<lparr>ge_ConnectionID = connectionID, ge_EventType = gd_EventType delta,
                                 ge_Added = gd_Added delta, ge_Removed = gd_Removed delta, ge_OccurredAt = now,
                                 ge_Metadata = copyAnyMap metadata\<rparr>
                          else None)
                    in (case save_both_or_each store snapshotInput eventInput s of
                          (Some err, s) \<Rightarrow> (Inl err, s)
                        | (None, s) \<Rightarrow> (Inr (Some snapshotInput, delta), s)))))"

text \<open>A reconciliation changes nothing that saving does not change.\<close>

lemma reconcile_frame:
  assumes "gs_SaveBoth store = Some save" and "\<And>s i ev. f (snd (save s i ev)) = f s"
    and "reconcileGrantSnapshot (Some store) aware c requested granted metadata now s = (r, s')"
  shows "f s' = f s"
proof -
  have "f s1 = f s" if "save s i ev = (e, s1)" for i ev e s1 using assms(2) [of s i ev] that by simp
  then show ?thesis
    using assms(3) unfolding reconcileGrantSnapshot_def save_both_or_each_def
    by (auto simp: assms(1) Let_def split: sum.splits option.splits prod.splits)
qed

section \<open>The contract of a transactional grant store\<close>

text \<open>
  \<open>latest\<close> is the version and the granted permissions of the newest snapshot of a connection,
  \<open>changes\<close> the added and removed permissions of its events, oldest first; \<open>replay_grants\<close> is what
  remains when such changes are replayed from nothing.
\<close>

definition replay_grants :: "(string list \<times> string list) list \<Rightarrow> string set" where
  "replay_grants cs = fold (\<lambda>(added, removed) G. (G - set removed) \<union> set added) cs {}"

locale grant_store =
  fixes get :: "'s \<Rightarrow> string \<Rightarrow> GrantSnapshot option result"
    and save_both :: "'s \<Rightarrow> SaveGrantSnapshotInput \<Rightarrow> AppendGrantEventInput option \<Rightarrow> goerr option \<times> 's"
    and inv :: "'s \<Rightarrow> bool"
    and known :: "'s \<Rightarrow> string \<Rightarrow> bool"
    and latest :: "'s \<Rightarrow> string \<Rightarrow> (int \<times> string list) option"
    and changes :: "'s \<Rightarrow> string \<Rightarrow> (string list \<times> string list) list"
  assumes get_latest: "inv s \<Longrightarrow>
      \<exists>r. get s c = Inr r \<and> map_option (\<lambda>p. (sg_Version p, sg_Granted p)) r = latest s (TrimSpace c)"
    and save_next: "inv s \<Longrightarrow> TrimSpace c \<noteq> [] \<Longrightarrow> known s (TrimSpace c) \<Longrightarrow> sg_ConnectionID i = c \<Longrightarrow>
      sg_Version i = (case latest s (TrimSpace c) of None \<Rightarrow> 1 | Some (v, g) \<Rightarrow> v + 1) \<Longrightarrow>
      (\<forall>e. ev = Some e \<longrightarrow> TrimSpace (ge_EventType e) \<noteq> []) \<Longrightarrow>
      \<exists>s'. save_both s i ev = (None, s') \<and> inv s' \<and> (\<forall>c'. known s' c' = known s c') \<and>
        latest s' = (latest s)(TrimSpace c \<mapsto> (sg_Version i, sg_Granted i)) \<and>
        changes s' = (changes s)(TrimSpace c := changes s (TrimSpace c) @
          (case ev of None \<Rightarrow> [] | Some e \<Rightarrow> [(ge_Added e, ge_Removed e)]))"
begin

definition in_step :: "'s \<Rightarrow> string \<Rightarrow> bool" where
  "in_step s c \<longleftrightarrow> replay_grants (changes s c) = (case latest s c of None \<Rightarrow> {} | Some (v, g) \<Rightarrow> grants_of g)"

lemma event_type_nonblank:
  "gd_EventType (ComputeGrantDelta p g) \<noteq> [] \<Longrightarrow> TrimSpace (gd_EventType (ComputeGrantDelta p g)) \<noteq> []"
  unfolding delta_event by (auto simp: TrimSpace_eq_Nil_iff is_space_def)

text \<open>What a reconciliation saves: the next version of the snapshot, and the delta to the one before.\<close>

lemma reconcile_saves:
  assumes inv: "inv s" and c: "TrimSpace c \<noteq> []" "known s (TrimSpace c)"
    and store: "gs_GetLatestSnapshot store = get" "gs_SaveBoth store = Some save_both"
    and pg: "pg = (case latest s (TrimSpace c) of None \<Rightarrow> [] | Some (v, g) \<Rightarrow> g)"
    and d: "d = ComputeGrantDelta pg (normalizeGrants granted)"
  shows "\<exists>snap s'. reconcileGrantSnapshot (Some store) None c requested granted metadata now s = (Inr (Some snap, d), s') \<and>
      inv s' \<and> (\<forall>c'. known s' c' = known s c') \<and> sg_Granted snap = normalizeGrants granted \<and>
      sg_Version snap = (case latest s (TrimSpace c) of None \<Rightarrow> 1 | Some (v, g) \<Rightarrow> v + 1) \<and>
      latest s' = (latest s)(TrimSpace c \<mapsto> (sg_Version snap, sg_Granted snap)) \<and>
      changes s' = (changes s)(TrimSpace c := changes s (TrimSpace c) @
        (if gd_EventType d = [] then [] else [(gd_Added d, gd_Removed d)]))"
proof -
  obtain prev where prev: "get s c = Inr prev" "map_option (\<lambda>p. (sg_Version p, sg_Granted p)) prev = latest s (TrimSpace c)"
    using get_latest [OF inv] by blast
  let ?g = "normalizeGrants granted"
  let ?i = "\<lparr>sg_ConnectionID = c, sg_Version = (case prev of None \<Rightarrow> 1 | Some p \<Rightarrow> sg_Version p + 1),
    sg_Requested = normalizeGrants requested, sg_Granted = ?g, sg_CapturedAt = now, sg_Metadata = copyAnyMap metadata\<rparr>"
  let ?ev = "if gd_EventType d \<noteq> [] then Some \<lparr>ge_ConnectionID = c, ge_EventType = gd_EventType d, ge_Added = gd_Added d,
    ge_Removed = gd_Removed d, ge_OccurredAt = now, ge_Metadata = copyAnyMap metadata\<rparr> else None"
  have v: "sg_Version ?i = (case latest s (TrimSpace c) of None \<Rightarrow> 1 | Some (v, g) \<Rightarrow> v + 1)"
    and old: "(case prev of None \<Rightarrow> [] | Some p \<Rightarrow> sg_Granted p) = pg"
    by (cases prev; simp add: prev(2) [symmetric] pg)+
  have nb: "\<forall>e. ?ev = Some e \<longrightarrow> TrimSpace (ge_EventType e) \<noteq> []"
    using event_type_nonblank unfolding d by auto
  obtain s' where s': "save_both s ?i ?ev = (None, s')" "inv s'" "\<forall>c'. known s' c' = known s c'"
    "latest s' = (latest s)(TrimSpace c \<mapsto> (sg_Version ?i, ?g))"
    "changes s' = (changes s)(TrimSpace c := changes s (TrimSpace c) @
      (case ?ev of None \<Rightarrow> [] | Some e \<Rightarrow> [(ge_Added e, ge_Removed e)]))"
    using save_next [OF inv c _ v nb] by auto
  have "reconcileGrantSnapshot (Some store) None c requested granted metadata now s = (Inr (Some ?i, d), s')"
    using s'(1) prev(1) store
    by (cases "gd_EventType d = []") (simp_all add: reconcileGrantSnapshot_def save_both_or_each_def Let_def old d [symmetric])
  moreover have "changes s' = (changes s)(TrimSpace c := changes s (TrimSpace c) @
        (if gd_EventType d = [] then [] else [(gd_Added d, gd_Removed d)]))" using s'(5) by simp
  ultimately show ?thesis using s'(2,3,4) v by (intro exI [of _ ?i] exI [of _ s']) simp
qed

lemma reconcile_step:
  assumes inv: "inv s" and c: "TrimSpace c \<noteq> []" "known s (TrimSpace c)" and J: "in_step s (TrimSpace c)"
    and store: "gs_GetLatestSnapshot store = get" "gs_SaveBoth store = Some save_both"
  shows "\<exists>snap delta s'. reconcileGrantSnapshot (Some store) None c requested granted metadata now s =
      (Inr (Some snap, delta), s') \<and> inv s' \<and> known s' (TrimSpace c) \<and> in_step s' (TrimSpace c) \<and>
      latest s' (TrimSpace c) = Some (sg_Version snap, sg_Granted snap) \<and>
      sg_Version snap = (case latest s (TrimSpace c) of None \<Rightarrow> 1 | Some (v, g) \<Rightarrow> v + 1) \<and>
      grants_of (sg_Granted snap) = grants_of granted"
proof -
  let ?pg = "case latest s (TrimSpace c) of None \<Rightarrow> [] | Some (v, g) \<Rightarrow> g"
  let ?d = "ComputeGrantDelta ?pg (normalizeGrants granted)"
  from reconcile_saves [OF inv c store refl refl, of requested granted metadata now] obtain snap s' where
    r: "reconcileGrantSnapshot (Some store) None c requested granted metadata now s = (Inr (Some snap, ?d), s')"
      "inv s'" "\<forall>c'. known s' c' = known s c'" "sg_Granted snap = normalizeGrants granted"
      "sg_Version snap = (case latest s (TrimSpace c) of None \<Rightarrow> 1 | Some (v, g) \<Rightarrow> v + 1)"
      "latest s' = (latest s)(TrimSpace c \<mapsto> (sg_Version snap, sg_Granted snap))"
      "changes s' = (changes s)(TrimSpace c := changes s (TrimSpace c) @
        (if gd_EventType ?d = [] then [] else [(gd_Added ?d, gd_Removed ?d)]))"
    by blast
  have old: "replay_grants (changes s (TrimSpace c)) = grants_of ?pg"
    using J by (simp add: in_step_def split: option.split prod.split) (simp add: grants_of_def)
  have "replay_grants (changes s' (TrimSpace c)) = grants_of (normalizeGrants granted)"
  proof (cases "gd_EventType ?d = []")
    case True
    then have "grants_of ?pg = grants_of (normalizeGrants granted)" by (simp add: delta_event split: if_splits)
    then show ?thesis using True r(7) old by (simp add: replay_grants_def)
  next
    case False
    then show ?thesis using r(7) old by (auto simp: replay_grants_def delta_sets)
  qed
  then have "in_step s' (TrimSpace c)" using r(4,6) by (simp add: in_step_def)
  then show ?thesis using r c(2) by (intro exI [of _ snap]) auto
qed

end

section \<open>The SQL grant store\<close>

text \<open>The columns of the connections table that the grant store copies.\<close>

record connection_row =
  cr_ID :: string
  cr_ProviderID :: string
  cr_ScopeType :: string
  cr_ScopeID :: string

record grantSnapshotRecord =
  gr_ID :: string
  gr_ConnectionID :: string
  gr_ProviderID :: string
  gr_ScopeType :: string
  gr_ScopeID :: string
  gr_Version :: int
  gr_RequestedGrants :: "string list"
  gr_GrantedGrants :: "string list"
  gr_Metadata :: meta
  gr_CapturedAt :: int
  gr_CreatedAt :: int
  gr_UpdatedAt :: int

record grantEventRecord =
  er_ID :: string
  er_ConnectionID :: string
  er_ProviderID :: string
  er_ScopeType :: string
  er_ScopeID :: string
  er_EventType :: string
  er_RequestedGrants :: "string list"
  er_GrantedGrants :: "string list"
  er_AddedGrants :: "string list"
  er_RemovedGrants :: "string list"
  er_Metadata :: meta
  er_CreatedAt :: int

record GrantStore =
  gt_connections :: "connection_row list"
  gt_snapshots :: "grantSnapshotRecord list"
  gt_events :: "grantEventRecord list"

text \<open>What the operations take from outside: ids, clock, time format, and the database's errors.\<close>

record grant_env =
  env_id :: string
  env_id2 :: string
  env_now :: int
  env_fmt_time :: "int \<Rightarrow> string"
  env_uniq :: goerr
  env_norows :: goerr
  env_flt :: sql_faults

definition loadConnectionTx :: "grant_env \<Rightarrow> GrantStore \<Rightarrow> string \<Rightarrow> connection_row result" where
  "loadConnectionTx env t connectionID =
     (let id = TrimSpace connectionID in
      if id = [] then Inl (Plain ''sqlstore: connection id is required'')
      else case env_flt env 0 of
             Some err \<Rightarrow> Inl err
           | None \<Rightarrow>
               (case find (\<lambda>r. cr_ID r = id) (gt_connections t) of
                  None \<Rightarrow> Inl (env_norows env)
                | Some r \<Rightarrow> Inr r))"

definition saveSnapshotTx ::
  "grant_env \<Rightarrow> connection_row \<Rightarrow> SaveGrantSnapshotInput \<Rightarrow> GrantStore \<Rightarrow> GrantStore result" where
  "saveSnapshotTx env connection i t =
     (let version = sg_Version i in
      if version \<le> 0 then Inl (Plain ''sqlstore: snapshot version must be greater than zero'')
      else
        let capturedAt = (if sg_CapturedAt i = 0 then env_now env else sg_CapturedAt i);
            metadata = AList.update ''captured_at'' (AStr (env_fmt_time env capturedAt))
              (AList.update ''snapshot_version'' (AInt version) (RedactMetadata (sg_Metadata i)));
            record = \<lparr>gr_ID = env_id env, gr_ConnectionID = cr_ID connection, gr_ProviderID = cr_ProviderID connection,
              gr_ScopeType = cr_ScopeType connection, gr_ScopeID = cr_ScopeID connection, gr_Version = version,
              gr_RequestedGrants = sg_Requested i, gr_GrantedGrants = sg_Granted i, gr_Metadata = metadata,
              gr_CapturedAt = capturedAt, gr_CreatedAt = env_now env, gr_UpdatedAt = env_now env\<rparr>
        in case env_flt env 1 of
             Some err \<Rightarrow> Inl err
           | None \<Rightarrow>
               if \<exists>r \<in> set (gt_snapshots t). gr_ConnectionID r = cr_ID connection \<and> gr_Version r = version
               then Inl (env_uniq env)
               else Inr (t\<lparr>gt_snapshots := gt_snapshots t @ [record]\<rparr>))"

definition appendEventTx ::
  "grant_env \<Rightarrow> connection_row \<Rightarrow> AppendGrantEventInput \<Rightarrow> GrantStore \<Rightarrow> GrantStore result" where
  "appendEventTx env connection i t =
     (let eventType = TrimSpace (ge_EventType i) in
      if eventType = [] then Inl (Plain ''sqlstore: grant event type is required'')
      else
        let occurredAt = (if ge_OccurredAt i = 0 then env_now env else ge_OccurredAt i);
            record = \<lparr>er_ID = env_id2 env, er_ConnectionID = cr_ID connection, er_ProviderID = cr_ProviderID connection,
              er_ScopeType = cr_ScopeType connection, er_ScopeID = cr_ScopeID connection, er_EventType = eventType,
              er_RequestedGrants = [], er_GrantedGrants = [], er_AddedGrants = ge_Added i, er_RemovedGrants = ge_Removed i,
              er_Metadata = RedactMetadata (ge_Metadata i), er_CreatedAt = occurredAt\<rparr>
        in case env_flt env 2 of
             Some err \<Rightarrow> Inl err
           | None \<Rightarrow> Inr (t\<lparr>gt_events := gt_events t @ [record]\<rparr>))"

text \<open>\<open>RunInTx\<close>: the changes of the body are kept when it and the commit (statement 3) succeed.\<close>

definition RunInTx ::
  "grant_env \<Rightarrow> (GrantStore \<Rightarrow> GrantStore result) \<Rightarrow> GrantStore \<Rightarrow> goerr option \<times> GrantStore option" where
  "RunInTx env body t =
     (case body t of
        Inl err \<Rightarrow> (Some err, Some t)
      | Inr t' \<Rightarrow> (case env_flt env 3 of Some err \<Rightarrow> (Some err, Some t) | None \<Rightarrow> (None, Some t')))"

definition not_configured :: goerr where
  "not_configured = Plain ''sqlstore: grant store is not configured''"

definition GrantStore_SaveSnapshot ::
  "grant_env \<Rightarrow> GrantStore option \<Rightarrow> SaveGrantSnapshotInput \<Rightarrow> goerr option \<times> GrantStore option" where
  "GrantStore_SaveSnapshot env receiver i =
     (case receiver of None \<Rightarrow> (Some not_configured, receiver) | Some t \<Rightarrow>
        RunInTx env (\<lambda>t. case loadConnectionTx env t (sg_ConnectionID i) of
           Inl err \<Rightarrow> Inl err | Inr connection \<Rightarrow> saveSnapshotTx env connection i t) t)"

definition GrantStore_AppendEvent ::
  "grant_env \<Rightarrow> GrantStore option \<Rightarrow> AppendGrantEventInput \<Rightarrow> goerr option \<times> GrantStore option" where
  "GrantStore_AppendEvent env receiver i =
     (case receiver of None \<Rightarrow> (Some not_configured, receiver) | Some t \<Rightarrow>
        RunInTx env (\<lambda>t. case loadConnectionTx env t (ge_ConnectionID i) of
           Inl err \<Rightarrow> Inl err | Inr connection \<Rightarrow> appendEventTx env connection i t) t)"

definition GrantStore_SaveSnapshotAndEvent ::
  "grant_env \<Rightarrow> GrantStore option \<Rightarrow> SaveGrantSnapshotInput \<Rightarrow> AppendGrantEventInput option \<Rightarrow>
     goerr option \<times> GrantStore option" where
  "GrantStore_SaveSnapshotAndEvent env receiver snapshot event =
     (case receiver of None \<Rightarrow> (Some not_configured, receiver) | Some t \<Rightarrow>
        RunInTx env (\<lambda>t. case loadConnectionTx env t (sg_ConnectionID snapshot) of
           Inl err \<Rightarrow> Inl err
         | Inr connection \<Rightarrow>
             (case saveSnapshotTx env connection snapshot t of
                Inl err \<Rightarrow> Inl err
              | Inr t \<Rightarrow>
                  (case event of
                     None \<Rightarrow> Inr t
                   | Some ev \<Rightarrow> appendEventTx env connection (ev\<lparr>ge_ConnectionID := sg_ConnectionID snapshot\<rparr>) t))) t)"

text \<open>\<open>ORDER BY version DESC, captured_at DESC LIMIT 1\<close>\<close>

definition newest :: "grantSnapshotRecord list \<Rightarrow> grantSnapshotRecord option" where
  "newest rows =
     (case sort_key (\<lambda>r. (- gr_Version r, - gr_CapturedAt r)) rows of [] \<Rightarrow> None | r # _ \<Rightarrow> Some r)"

definition GrantStore_GetLatestSnapshot ::
  "grant_env \<Rightarrow> GrantStore option \<Rightarrow> string \<Rightarrow> GrantSnapshot option result" where
  "GrantStore_GetLatestSnapshot env receiver connectionID =
     (case receiver of None \<Rightarrow> Inl not_configured | Some t \<Rightarrow>
     (case env_flt env 0 of Some err \<Rightarrow> Inl err | None \<Rightarrow>
        Inr (map_option (\<lambda>r. \<lparr>sg_ConnectionID = gr_ConnectionID r, sg_Version = gr_Version r,
               sg_Requested = gr_RequestedGrants r, sg_Granted = gr_GrantedGrants r, sg_CapturedAt = gr_CapturedAt r,
               sg_Metadata = RedactMetadata (gr_Metadata r)\<rparr>)
             (newest (filter (\<lambda>r. gr_ConnectionID r = TrimSpace connectionID) (gt_snapshots t))))))"

section \<open>The SQL store implements the contract\<close>

lemma newest_Some:
  assumes "newest rows = Some r"
  shows "r \<in> set rows \<and> (\<forall>x \<in> set rows. gr_Version x \<le> gr_Version r)"
proof -
  let ?k = "\<lambda>r. (- gr_Version r, - gr_CapturedAt r)"
  obtain rs where s: "sort_key ?k rows = r # rs" using assms by (auto simp: newest_def split: list.splits)
  have "set rows = insert r (set rs)" using arg_cong [OF s, of set] by simp
  moreover have "sorted (map ?k (r # rs))" using s sorted_sort_key [of ?k rows] by simp
  ultimately show ?thesis by auto
qed

lemma newest_None [simp]: "newest rows = None \<longleftrightarrow> rows = []"
  by (metis (no_types, lifting) list.case_eq_if list.simps(8) newest_def option.distinct(1) sort_key_simps(1)
      set_empty set_sort)

lemma newest_Nil [simp]: "newest [] = None"
  by simp

lemma newest_append:
  assumes "\<forall>x \<in> set rows. gr_Version x < gr_Version r"
  shows "newest (rows @ [r]) = Some r"
proof -
  obtain x where x: "newest (rows @ [r]) = Some x" by (cases "newest (rows @ [r])") auto
  from newest_Some [OF x] assms have "x = r" by auto
  then show ?thesis using x by simp
qed

fun grant_tables_ok :: "GrantStore option \<Rightarrow> bool" where
  "grant_tables_ok None = False"
| "grant_tables_ok (Some t) = (\<forall>r \<in> set (gt_snapshots t). 0 < gr_Version r)"

fun grant_known :: "GrantStore option \<Rightarrow> string \<Rightarrow> bool" where
  "grant_known None c = False"
| "grant_known (Some t) c = (\<exists>r \<in> set (gt_connections t). cr_ID r = c)"

fun grant_latest :: "GrantStore option \<Rightarrow> string \<Rightarrow> (int \<times> string list) option" where
  "grant_latest None c = None"
| "grant_latest (Some t) c =
     map_option (\<lambda>r. (gr_Version r, gr_GrantedGrants r)) (newest (filter (\<lambda>r. gr_ConnectionID r = c) (gt_snapshots t)))"

fun grant_changes :: "GrantStore option \<Rightarrow> string \<Rightarrow> (string list \<times> string list) list" where
  "grant_changes None c = []"
| "grant_changes (Some t) c =
     map (\<lambda>r. (er_AddedGrants r, er_RemovedGrants r)) (filter (\<lambda>r. er_ConnectionID r = c) (gt_events t))"

abbreviation rows_of :: "GrantStore \<Rightarrow> string \<Rightarrow> grantSnapshotRecord list" where
  "rows_of t c \<equiv> filter (\<lambda>r. gr_ConnectionID r = c) (gt_snapshots t)"

text \<open>The next version of a connection is positive and above those it has, so it violates no constraint.\<close>

lemma next_version:
  assumes "v = (case grant_latest (Some t) c of None \<Rightarrow> 1 | Some (v, g) \<Rightarrow> v + 1)" and "grant_tables_ok (Some t)"
  shows "0 < v" and "\<forall>r \<in> set (rows_of t c). gr_Version r < v"
proof -
  have "0 < v \<and> (\<forall>r \<in> set (rows_of t c). gr_Version r < v)"
  proof (cases "newest (rows_of t c)")
    case None
    then have "rows_of t c = []" by (simp only: newest_None)
    then have "set (rows_of t c) = {}" "v = 1" using assms(1) by simp_all
    then show ?thesis by (metis empty_iff zero_less_one)
  next
    case (Some m)
    then have "v = gr_Version m + 1" using assms(1) by simp
    then show ?thesis using newest_Some [OF Some] assms(2) by fastforce
  qed
  then show "0 < v" and "\<forall>r \<in> set (rows_of t c). gr_Version r < v" by blast+
qed

lemma latest_saved:
  assumes "\<forall>x \<in> set (rows_of t c). gr_Version x < gr_Version r" and "gr_ConnectionID r = c"
  shows "grant_latest (Some (t\<lparr>gt_snapshots := gt_snapshots t @ [r], gt_events := es\<rparr>)) =
    (grant_latest (Some t))(c \<mapsto> (gr_Version r, gr_GrantedGrants r))"
proof
  fix c' :: string
  show "grant_latest (Some (t\<lparr>gt_snapshots := gt_snapshots t @ [r], gt_events := es\<rparr>)) c' =
      ((grant_latest (Some t))(c \<mapsto> (gr_Version r, gr_GrantedGrants r))) c'"
    using newest_append [OF assms(1)] assms(2) by auto
qed

lemma sql_save_next:
  assumes ok: "grant_tables_ok (Some t)" and flt: "env_flt env = no_faults" and c: "TrimSpace c \<noteq> []"
    and known: "grant_known (Some t) (TrimSpace c)" and i: "sg_ConnectionID i = c"
    and v: "sg_Version i = (case grant_latest (Some t) (TrimSpace c) of None \<Rightarrow> 1 | Some (v, g) \<Rightarrow> v + 1)"
    and ev: "\<forall>e. ev = Some e \<longrightarrow> TrimSpace (ge_EventType e) \<noteq> []"
  shows "\<exists>r ers. GrantStore_SaveSnapshotAndEvent env (Some t) i ev =
      (None, Some (t\<lparr>gt_snapshots := gt_snapshots t @ [r], gt_events := gt_events t @ ers\<rparr>)) \<and>
    gr_ConnectionID r = TrimSpace c \<and> gr_Version r = sg_Version i \<and> gr_GrantedGrants r = sg_Granted i \<and>
    (\<forall>er \<in> set ers. er_ConnectionID er = TrimSpace c) \<and>
    map (\<lambda>er. (er_AddedGrants er, er_RemovedGrants er)) ers = (case ev of None \<Rightarrow> [] | Some e \<Rightarrow> [(ge_Added e, ge_Removed e)])"
proof -
  obtain conn where conn: "find (\<lambda>r. cr_ID r = TrimSpace c) (gt_connections t) = Some conn" "cr_ID conn = TrimSpace c"
    using known by (cases "find (\<lambda>r. cr_ID r = TrimSpace c) (gt_connections t)") (auto simp: find_None_iff find_Some_iff)
  have load: "loadConnectionTx env t c = Inr conn" using c conn flt by (simp add: loadConnectionTx_def Let_def)
  have "\<not> (\<exists>r \<in> set (gt_snapshots t). gr_ConnectionID r = TrimSpace c \<and> gr_Version r = sg_Version i)"
    using next_version(2) [OF v ok] by fastforce
  then obtain r where save: "saveSnapshotTx env conn i t = Inr (t\<lparr>gt_snapshots := gt_snapshots t @ [r]\<rparr>)"
    "gr_ConnectionID r = TrimSpace c" "gr_Version r = sg_Version i" "gr_GrantedGrants r = sg_Granted i"
    using next_version(1) [OF v ok] conn(2) flt unfolding saveSnapshotTx_def Let_def by auto
  let ?t1 = "t\<lparr>gt_snapshots := gt_snapshots t @ [r]\<rparr>"
  have "\<exists>ers. (case ev of None \<Rightarrow> Inr ?t1 | Some e \<Rightarrow> appendEventTx env conn (e\<lparr>ge_ConnectionID := c\<rparr>) ?t1) =
      Inr (?t1\<lparr>gt_events := gt_events t @ ers\<rparr>) \<and> (\<forall>er \<in> set ers. er_ConnectionID er = TrimSpace c) \<and>
      map (\<lambda>er. (er_AddedGrants er, er_RemovedGrants er)) ers = (case ev of None \<Rightarrow> [] | Some e \<Rightarrow> [(ge_Added e, ge_Removed e)])"
  proof (cases ev)
    case (Some e)
    let ?er = "\<lparr>er_ID = env_id2 env, er_ConnectionID = cr_ID conn, er_ProviderID = cr_ProviderID conn,
      er_ScopeType = cr_ScopeType conn, er_ScopeID = cr_ScopeID conn, er_EventType = TrimSpace (ge_EventType e),
      er_RequestedGrants = [], er_GrantedGrants = [], er_AddedGrants = ge_Added e, er_RemovedGrants = ge_Removed e,
      er_Metadata = RedactMetadata (ge_Metadata e),
      er_CreatedAt = if ge_OccurredAt e = 0 then env_now env else ge_OccurredAt e\<rparr>"
    show ?thesis
      using ev Some conn(2) flt by (intro exI [of _ "[?er]"]) (auto simp: appendEventTx_def Let_def)
  qed (simp add: exI [of _ "[]"])
  then show ?thesis
    using load save i flt
    by (elim exE) (intro exI [of _ r], auto simp: GrantStore_SaveSnapshotAndEvent_def RunInTx_def split: option.splits)
qed

interpretation sqlg: grant_store "GrantStore_GetLatestSnapshot env" "GrantStore_SaveSnapshotAndEvent env"
  "\<lambda>s. grant_tables_ok s \<and> env_flt env = no_faults" grant_known grant_latest grant_changes for env
proof unfold_locales
  fix s c assume "grant_tables_ok s \<and> env_flt env = no_faults"
  then show "\<exists>r. GrantStore_GetLatestSnapshot env s c = Inr r \<and>
      map_option (\<lambda>p. (sg_Version p, sg_Granted p)) r = grant_latest s (TrimSpace c)"
    by (cases s) (auto simp: GrantStore_GetLatestSnapshot_def option.map_comp comp_def)
next
  fix s c and i :: SaveGrantSnapshotInput and ev :: "AppendGrantEventInput option"
  assume "grant_tables_ok s \<and> env_flt env = no_faults" and c: "TrimSpace c \<noteq> []" and known: "grant_known s (TrimSpace c)"
    and i: "sg_ConnectionID i = c" and v: "sg_Version i = (case grant_latest s (TrimSpace c) of None \<Rightarrow> 1 | Some (v, g) \<Rightarrow> v + 1)"
    and ev: "\<forall>e. ev = Some e \<longrightarrow> TrimSpace (ge_EventType e) \<noteq> []"
  then obtain t where t: "s = Some t" and ok: "grant_tables_ok (Some t)" and flt: "env_flt env = no_faults"
    by (cases s) auto
  obtain r ers where S: "GrantStore_SaveSnapshotAndEvent env (Some t) i ev =
      (None, Some (t\<lparr>gt_snapshots := gt_snapshots t @ [r], gt_events := gt_events t @ ers\<rparr>))"
    "gr_ConnectionID r = TrimSpace c" "gr_Version r = sg_Version i" "gr_GrantedGrants r = sg_Granted i"
    "\<forall>er \<in> set ers. er_ConnectionID er = TrimSpace c"
    "map (\<lambda>er. (er_AddedGrants er, er_RemovedGrants er)) ers = (case ev of None \<Rightarrow> [] | Some e \<Rightarrow> [(ge_Added e, ge_Removed e)])"
    using sql_save_next [OF ok flt c known [unfolded t] i v [unfolded t] ev] by blast
  let ?t' = "t\<lparr>gt_snapshots := gt_snapshots t @ [r], gt_events := gt_events t @ ers\<rparr>"
  note nv = next_version [OF v [unfolded t] ok]
  have "grant_latest (Some ?t') = (grant_latest s)(TrimSpace c \<mapsto> (sg_Version i, sg_Granted i))"
    using latest_saved [of "TrimSpace c" t r] nv(2) S(2-4) t by simp
  moreover have "grant_changes (Some ?t') = (grant_changes s)(TrimSpace c := grant_changes s (TrimSpace c) @
      (case ev of None \<Rightarrow> [] | Some e \<Rightarrow> [(ge_Added e, ge_Removed e)]))"
    using S(5) unfolding S(6) [symmetric] t by (auto simp: fun_eq_iff filter_empty_conv filter_id_conv)
  moreover have "grant_tables_ok (Some ?t')" using ok nv(1) S(3) by auto
  ultimately show "\<exists>s'. GrantStore_SaveSnapshotAndEvent env s i ev = (None, s') \<and>
      (grant_tables_ok s' \<and> env_flt env = no_faults) \<and> (\<forall>c'. grant_known s' c' = grant_known s c') \<and>
      grant_latest s' = (grant_latest s)(TrimSpace c \<mapsto> (sg_Version i, sg_Granted i)) \<and>
      grant_changes s' = (grant_changes s)(TrimSpace c := grant_changes s (TrimSpace c) @
        (case ev of None \<Rightarrow> [] | Some e \<Rightarrow> [(ge_Added e, ge_Removed e)]))"
    using S(1) t flt by (intro exI [of _ "Some ?t'"]) auto
qed

definition sql_grant_store :: "grant_env \<Rightarrow> GrantStore option GrantStore_ops" where
  "sql_grant_store env =
     \<lparr>gs_GetLatestSnapshot = GrantStore_GetLatestSnapshot env, gs_SaveSnapshot = GrantStore_SaveSnapshot env,
      gs_AppendEvent = GrantStore_AppendEvent env, gs_SaveBoth = Some (GrantStore_SaveSnapshotAndEvent env)\<rparr>"

text \<open>A sequence of reconciliations of one connection, each with its environment.\<close>

fun reconcile_all ::
  "string \<Rightarrow> (grant_env \<times> string list \<times> string list \<times> meta) list \<Rightarrow> GrantStore option \<Rightarrow> GrantStore option" where
  "reconcile_all c [] s = s"
| "reconcile_all c ((env, requested, granted, metadata) # calls) s =
     reconcile_all c calls (snd (reconcileGrantSnapshot (Some (sql_grant_store env)) None c requested granted metadata
       (env_now env) s))"

lemma reconcile_all_in_step:
  assumes "grant_tables_ok s" and "TrimSpace c \<noteq> []" and "grant_known s (TrimSpace c)"
    and "replay_grants (grant_changes s (TrimSpace c)) =
      (case grant_latest s (TrimSpace c) of None \<Rightarrow> {} | Some (v, g) \<Rightarrow> grants_of g)"
    and "\<forall>call \<in> set calls. env_flt (fst call) = no_faults" and "calls \<noteq> []"
  shows "\<exists>g. grant_latest (reconcile_all c calls s) (TrimSpace c) =
      Some ((case grant_latest s (TrimSpace c) of None \<Rightarrow> 0 | Some (v, g) \<Rightarrow> v) + int (length calls), g) \<and>
    grants_of g = grants_of (fst (snd (snd (last calls)))) \<and>
    replay_grants (grant_changes (reconcile_all c calls s) (TrimSpace c)) = grants_of g"
  using assms
proof (induction calls arbitrary: s)
  case (Cons x calls)
  obtain env rq gr md where x: "x = (env, rq, gr, md)" by (cases x)
  have flt: "grant_tables_ok s \<and> env_flt env = no_faults" using Cons.prems(1,5) x by simp
  obtain snap delta s' where r: "reconcileGrantSnapshot (Some (sql_grant_store env)) None c rq gr md (env_now env) s =
      (Inr (Some snap, delta), s')" "grant_tables_ok s'" "grant_known s' (TrimSpace c)"
    "replay_grants (grant_changes s' (TrimSpace c)) =
      (case grant_latest s' (TrimSpace c) of None \<Rightarrow> {} | Some (v, g) \<Rightarrow> grants_of g)"
    "grant_latest s' (TrimSpace c) = Some (sg_Version snap, sg_Granted snap)"
    "sg_Version snap = (case grant_latest s (TrimSpace c) of None \<Rightarrow> 1 | Some (v, g) \<Rightarrow> v + 1)"
    "grants_of (sg_Granted snap) = grants_of gr"
    using sqlg.reconcile_step [OF flt Cons.prems(2,3), of "sql_grant_store env" rq gr md "env_now env"] Cons.prems(4)
    unfolding sqlg.in_step_def by (auto simp: sql_grant_store_def)
  have v: "sg_Version snap = (case grant_latest s (TrimSpace c) of None \<Rightarrow> 0 | Some (v, g) \<Rightarrow> v) + 1"
    using r(6) by (auto split: option.splits)
  show ?case
  proof (cases "calls = []")
    case True
    then show ?thesis using r v x by simp
  next
    case False
    have "\<forall>call \<in> set calls. env_flt (fst call) = no_faults" using Cons.prems(5) by simp
    from Cons.IH [OF r(2) Cons.prems(2) r(3,4) this False] show ?thesis
      using r(1,5) v x False by (simp add: algebra_simps)
  qed
qed simp

text \<open>
  C18: Grant history and grant state agree. After any sequence of reconciliations of a connection, the
  newest snapshot holds the permissions of the last call, its version is the number of calls, and
  replaying the recorded events from nothing gives exactly these permissions.
\<close>

theorem grant_events_replay:
  assumes "grant_tables_ok s" and "TrimSpace c \<noteq> []" and "grant_known s (TrimSpace c)"
    and "grant_latest s (TrimSpace c) = None" and "grant_changes s (TrimSpace c) = []"
    and "\<forall>call \<in> set calls. env_flt (fst call) = no_faults" and "calls \<noteq> []"
  shows "\<exists>g. grant_latest (reconcile_all c calls s) (TrimSpace c) = Some (int (length calls), g) \<and>
    grants_of g = grants_of (fst (snd (snd (last calls)))) \<and>
    replay_grants (grant_changes (reconcile_all c calls s) (TrimSpace c)) = grants_of g"
  using reconcile_all_in_step [OF assms(1-3) _ assms(6,7)] assms(4,5) by (simp add: replay_grants_def)

definition sample_grant_env :: grant_env where
  "sample_grant_env = \<lparr>env_id = ''i'', env_id2 = ''j'', env_now = 5, env_fmt_time = (\<lambda>_. ''t''),
     env_uniq = Plain ''unique'', env_norows = Plain ''no rows'', env_flt = no_faults\<rparr>"

definition sample_grant_tables :: GrantStore where
  "sample_grant_tables =
     \<lparr>gt_connections = [\<lparr>cr_ID = ''c1'', cr_ProviderID = ''p'', cr_ScopeType = ''user'', cr_ScopeID = ''u''\<rparr>],
      gt_snapshots = [], gt_events = []\<rparr>"

theorem grant_events_replay_witness:
  "let s = reconcile_all ''c1'' [(sample_grant_env, [], ['' Read '', ''write''], []), (sample_grant_env, [], [''read''], [])]
             (Some sample_grant_tables)
   in \<exists>g. grant_latest s ''c1'' = Some (2, g) \<and> grants_of g = grants_of [''read''] \<and>
          replay_grants (grant_changes s ''c1'') = grants_of g"
proof -
  have c: "TrimSpace ''c1'' = ''c1''" by code_simp
  show ?thesis
    using grant_events_replay [of "Some sample_grant_tables" "''c1''"
        "[(sample_grant_env, [], ['' Read '', ''write''], []), (sample_grant_env, [], [''read''], [])]"]
    by (simp add: c sample_grant_tables_def sample_grant_env_def Let_def del: reconcile_all.simps)
qed

end
