(* ===== verification/Permissions.thy ===== *)
theory Permissions
  imports Grants
begin

text \<open>
  Who may do what: the provider registry (\<open>src/core/registry.go\<close>), the evaluation of a capability
  against the granted permissions of a connection (\<open>src/core/permission_evaluator.go\<close> and
  \<open>findCapabilityDescriptor\<close> of \<open>src/core/service.go\<close>), and the resolution of a connection under
  strict isolation (\<open>src/core/inheritance.go\<close>). The stores the code calls are function fields.
\<close>

section \<open>Capabilities and providers\<close>

record CapabilityDescriptor =
  cd_Name :: string
  cd_RequiredGrants :: "string list"
  cd_OptionalGrants :: "string list"
  cd_DeniedBehavior :: string

abbreviation "CapabilityDeniedBehaviorBlock \<equiv> ''block''"
abbreviation "CapabilityDeniedBehaviorDegrade \<equiv> ''degrade''"

record Provider =
  prov_ID :: string
  prov_Capabilities :: "CapabilityDescriptor list"

fun findCapabilityDescriptor :: "CapabilityDescriptor list \<Rightarrow> string \<Rightarrow> CapabilityDescriptor option" where
  "findCapabilityDescriptor [] capability = None"
| "findCapabilityDescriptor (descriptor # capabilities) capability =
     (if EqualFold (TrimSpace (cd_Name descriptor)) (TrimSpace capability) then Some descriptor
      else findCapabilityDescriptor capabilities capability)"

definition missingRequiredProviderGrants :: "CapabilityDescriptor list \<Rightarrow> string list \<Rightarrow> string list" where
  "missingRequiredProviderGrants capabilities granted =
     (let requiredSet = remdups (concat (map (\<lambda>d. normalizeGrants (cd_RequiredGrants d)) capabilities)) in
      if length requiredSet = 0 then []
      else sort (filter (\<lambda>g. g \<notin> set (toGrantSet granted)) requiredSet))"

section \<open>The registry\<close>

record ProviderRegistry =
  reg_providers :: "(string, Provider) gomap"

definition NewProviderRegistry :: ProviderRegistry where
  "NewProviderRegistry = \<lparr>reg_providers = []\<rparr>"

definition ProviderRegistry_Register :: "ProviderRegistry \<Rightarrow> Provider option \<Rightarrow> ProviderRegistry result" where
  "ProviderRegistry_Register r provider =
     (case provider of
        None \<Rightarrow> Inl (Plain ''core: provider is nil'')
      | Some p \<Rightarrow>
          let id = TrimSpace (prov_ID p) in
          if id = [] then Inl (Plain ''core: provider id is required'')
          else if map_of (reg_providers r) id \<noteq> None then Inl (Plain (''core: provider already registered: '' @ id))
          else Inr (r\<lparr>reg_providers := AList.update id p (reg_providers r)\<rparr>))"

definition ProviderRegistry_Get :: "ProviderRegistry \<Rightarrow> string \<Rightarrow> Provider option" where
  "ProviderRegistry_Get r providerID =
     (let id = TrimSpace providerID in if id = [] then None else map_of (reg_providers r) id)"

text \<open>A key read under the first lock is still there under the second: nothing is ever unregistered.\<close>

definition ProviderRegistry_List :: "ProviderRegistry \<Rightarrow> Provider list" where
  "ProviderRegistry_List r =
     (let keys = sort (map fst (reg_providers r)) in map (\<lambda>id. the (map_of (reg_providers r) id)) keys)"

fun register_all :: "Provider list \<Rightarrow> ProviderRegistry \<Rightarrow> ProviderRegistry" where
  "register_all [] r = r"
| "register_all (p # ps) r =
     register_all ps (case ProviderRegistry_Register r (Some p) of Inl _ \<Rightarrow> r | Inr r' \<Rightarrow> r')"

definition registry_ok :: "ProviderRegistry \<Rightarrow> bool" where
  "registry_ok r \<longleftrightarrow> gomap_ok (reg_providers r) \<and>
     (\<forall>x p. map_of (reg_providers r) x = Some p \<longrightarrow> TrimSpace (prov_ID p) = x) \<and>
     map_of (reg_providers r) [] = None"

lemma registry_ok_Register: "registry_ok r \<Longrightarrow> ProviderRegistry_Register r (Some p) = Inr r' \<Longrightarrow> registry_ok r'"
  by (auto simp: ProviderRegistry_Register_def registry_ok_def Let_def update_conv' simp del: map_of_eq_Some_iff
      split: if_splits)

lemma registry_ok_register_all: "registry_ok r \<Longrightarrow> registry_ok (register_all ps r)"
proof (induction ps arbitrary: r)
  case (Cons p ps)
  show ?case
  proof (cases "ProviderRegistry_Register r (Some p)")
    case (Inr r')
    then show ?thesis using Cons.IH [OF registry_ok_Register [OF Cons.prems Inr]] by simp
  qed (simp add: Cons)
qed simp

lemma Get_Register:
  assumes "registry_ok r"
  shows "ProviderRegistry_Get (case ProviderRegistry_Register r (Some p) of Inl _ \<Rightarrow> r | Inr r' \<Rightarrow> r') x =
    (case ProviderRegistry_Get r x of Some q \<Rightarrow> Some q
     | None \<Rightarrow> if TrimSpace x \<noteq> [] \<and> TrimSpace (prov_ID p) = TrimSpace x then Some p else None)"
  using assms
  by (auto simp: ProviderRegistry_Register_def ProviderRegistry_Get_def Let_def split: option.splits)

lemma Get_register_all:
  "registry_ok r \<Longrightarrow> ProviderRegistry_Get (register_all ps r) x =
     (case ProviderRegistry_Get r x of Some q \<Rightarrow> Some q
      | None \<Rightarrow> if TrimSpace x = [] then None else find (\<lambda>p. TrimSpace (prov_ID p) = TrimSpace x) ps)"
proof (induction ps arbitrary: r)
  case Nil
  then show ?case by (auto split: option.splits)
next
  case (Cons p ps)
  let ?r = "case ProviderRegistry_Register r (Some p) of Inl _ \<Rightarrow> r | Inr r' \<Rightarrow> r'"
  have "registry_ok ?r" using Cons.prems registry_ok_Register by (auto split: sum.splits)
  from Cons.IH [OF this] show ?case
    using Get_Register [OF Cons.prems, of p x] by (auto split: option.splits)
qed

lemma List_ids:
  assumes "registry_ok r"
  shows "map (\<lambda>p. TrimSpace (prov_ID p)) (ProviderRegistry_List r) = sort (map fst (reg_providers r))"
proof -
  have "TrimSpace (prov_ID (the (map_of (reg_providers r) x))) = x" if key: "x \<in> fst ` set (reg_providers r)" for x
  proof -
    obtain p where "map_of (reg_providers r) x = Some p"
      using key map_of_eq_None_iff [of "reg_providers r" x] by (cases "map_of (reg_providers r) x") auto
    then show ?thesis using assms unfolding registry_ok_def by simp
  qed
  then show ?thesis by (auto simp: ProviderRegistry_List_def Let_def intro!: map_idI)
qed

text \<open>
  The registry keeps the first provider of each id. After any sequence of registrations, looking
  up an id gives the first registered provider with that id (up to surrounding space), and listing
  gives each of them once, in the order of their ids.
\<close>

theorem registry_first_wins:
  "let r = register_all ps NewProviderRegistry in
     ProviderRegistry_Get r x = (if TrimSpace x = [] then None else find (\<lambda>p. TrimSpace (prov_ID p) = TrimSpace x) ps) \<and>
     sorted (map (\<lambda>p. TrimSpace (prov_ID p)) (ProviderRegistry_List r)) \<and>
     distinct (map (\<lambda>p. TrimSpace (prov_ID p)) (ProviderRegistry_List r))"
proof -
  have ok: "registry_ok NewProviderRegistry" by (simp add: registry_ok_def NewProviderRegistry_def)
  have get: "ProviderRegistry_Get NewProviderRegistry x = None"
    by (simp add: ProviderRegistry_Get_def NewProviderRegistry_def Let_def)
  note ok' = registry_ok_register_all [OF ok, of ps]
  show ?thesis
    using Get_register_all [OF ok, of ps x] get List_ids [OF ok'] ok' by (simp add: registry_ok_def Let_def)
qed

section \<open>The evaluation of a capability\<close>

record PermissionDecision =
  pd_Allowed :: bool
  pd_Capability :: string
  pd_Reason :: string
  pd_MissingGrants :: "string list"
  pd_Mode :: string

record GrantPermissionEvaluator =
  ev_ConnectionStore :: "(string \<Rightarrow> Connection result) option"
  ev_GrantStore :: "(string \<Rightarrow> GrantSnapshot option result) option"
  ev_Registry :: "ProviderRegistry option"

definition missingGrants :: "string list \<Rightarrow> string list \<Rightarrow> string list" where
  "missingGrants required granted =
     (if length required = 0 then []
      else sort (filter (\<lambda>g. g \<notin> set granted) (normalizeGrants required)))"

definition decide :: "string \<Rightarrow> CapabilityDescriptor \<Rightarrow> string list \<Rightarrow> PermissionDecision" where
  "decide capability descriptor granted =
     (let missingRequired = missingGrants (cd_RequiredGrants descriptor) granted in
      if length missingRequired > 0
      then \<lparr>pd_Allowed = False, pd_Capability = capability, pd_Reason = ''required grants are missing'',
            pd_MissingGrants = missingRequired, pd_Mode = CapabilityDeniedBehaviorBlock\<rparr>
      else
        let missingOptional = missingGrants (cd_OptionalGrants descriptor) granted in
        if length missingOptional > 0 \<and> cd_DeniedBehavior descriptor = CapabilityDeniedBehaviorDegrade
        then \<lparr>pd_Allowed = True, pd_Capability = capability,
              pd_Reason = ''optional grants missing; degrade behavior selected'',
              pd_MissingGrants = missingOptional, pd_Mode = CapabilityDeniedBehaviorDegrade\<rparr>
        else \<lparr>pd_Allowed = True, pd_Capability = capability, pd_Reason = [], pd_MissingGrants = [],
              pd_Mode = (if cd_DeniedBehavior descriptor = [] then CapabilityDeniedBehaviorBlock
                         else cd_DeniedBehavior descriptor)\<rparr>)"

definition EvaluateCapability ::
  "GrantPermissionEvaluator option \<Rightarrow> string \<Rightarrow> string \<Rightarrow> PermissionDecision result" where
  "EvaluateCapability receiver connectionID capability =
     (let allow = Inr \<lparr>pd_Allowed = True, pd_Capability = capability, pd_Reason = [], pd_MissingGrants = [], pd_Mode = []\<rparr> in
      case receiver of None \<Rightarrow> allow | Some e \<Rightarrow>
      if TrimSpace connectionID = [] then Inl (Plain ''core: connection id is required'')
      else if TrimSpace capability = [] then Inl (Plain ''core: capability is required'')
      else
        (case ev_ConnectionStore e of None \<Rightarrow> allow | Some getConnection \<Rightarrow>
        (case ev_Registry e of None \<Rightarrow> allow | Some registry \<Rightarrow>
        (case getConnection connectionID of Inl err \<Rightarrow> Inl err | Inr connection \<Rightarrow>
        (case ProviderRegistry_Get registry (conn_ProviderID connection) of
           None \<Rightarrow> Inl (Plain (''core: provider '' @ quote (conn_ProviderID connection) @
                     '' not found for capability evaluation''))
         | Some provider \<Rightarrow>
             (case findCapabilityDescriptor (prov_Capabilities provider) capability of
                None \<Rightarrow>
                  Inr \<lparr>pd_Allowed = False, pd_Capability = capability, pd_Reason = ''capability is not supported by provider'',
                       pd_MissingGrants = [], pd_Mode = CapabilityDeniedBehaviorBlock\<rparr>
              | Some descriptor \<Rightarrow>
                  (case (case ev_GrantStore e of None \<Rightarrow> Inr None | Some latest \<Rightarrow> latest connectionID) of
                     Inl snapshotErr \<Rightarrow> Inl snapshotErr
                   | Inr None \<Rightarrow> Inr (decide capability descriptor [])
                   | Inr (Some snapshot) \<Rightarrow>
                       Inr (decide capability descriptor (normalizeGrants (sg_Granted snapshot))))))))))"

lemma missingGrants_sorted: "missingGrants required granted = sorted_list_of_set (grants_of required - set granted)"
proof -
  have "grants_of [] = {}" by (simp add: grants_of_def)
  moreover have "sort (filter (\<lambda>g. g \<notin> set granted) (sorted_list_of_set (grants_of required))) =
      sorted_list_of_set (grants_of required - set granted)"
    using sort_distinct_set [of "filter (\<lambda>g. g \<notin> set granted) (sorted_list_of_set (grants_of required))"]
    by (simp add: set_diff_eq)
  ultimately show ?thesis by (simp add: missingGrants_def normalizeGrants_sorted)
qed

lemma decide_Allowed:
  "pd_Allowed (decide capability d granted) \<longleftrightarrow> grants_of (cd_RequiredGrants d) \<subseteq> set granted"
  by (auto simp: decide_def missingGrants_sorted Let_def card_gt_0_iff)

lemma decide_Missing:
  "\<not> pd_Allowed (decide capability d granted) \<Longrightarrow>
     set (pd_MissingGrants (decide capability d granted)) = grants_of (cd_RequiredGrants d) - set granted"
  by (auto simp: decide_def missingGrants_sorted Let_def split: if_splits)

lemma evaluate_allowed:
  assumes "EvaluateCapability (Some e) connectionID capability = Inr d" and "pd_Allowed d"
    and "ev_ConnectionStore e = Some getConnection" and "ev_Registry e = Some registry" and "ev_GrantStore e = Some latest"
  shows "\<exists>connection provider descriptor snapshot. getConnection connectionID = Inr connection \<and>
    ProviderRegistry_Get registry (conn_ProviderID connection) = Some provider \<and>
    findCapabilityDescriptor (prov_Capabilities provider) capability = Some descriptor \<and>
    latest connectionID = Inr snapshot \<and>
    grants_of (cd_RequiredGrants descriptor) \<subseteq> (case snapshot of None \<Rightarrow> {} | Some s \<Rightarrow> grants_of (sg_Granted s))"
proof -
  from assms(1,2) obtain connection where c: "getConnection connectionID = Inr connection"
    by (auto simp: EvaluateCapability_def Let_def assms(3-5) split: if_splits sum.splits)
  from assms(1,2) c obtain provider where p: "ProviderRegistry_Get registry (conn_ProviderID connection) = Some provider"
    by (auto simp: EvaluateCapability_def Let_def assms(3-5) split: if_splits option.splits)
  from assms(1,2) c p obtain descriptor where d: "findCapabilityDescriptor (prov_Capabilities provider) capability = Some descriptor"
    by (auto simp: EvaluateCapability_def Let_def assms(3-5) split: if_splits option.splits)
  from assms(1,2) c p d obtain snapshot where s: "latest connectionID = Inr snapshot"
    by (auto simp: EvaluateCapability_def Let_def assms(3-5) split: if_splits sum.splits)
  have "pd_Allowed (decide capability descriptor (case snapshot of None \<Rightarrow> [] | Some s \<Rightarrow> normalizeGrants (sg_Granted s)))"
    using assms(1,2) c p d s by (cases snapshot) (auto simp: EvaluateCapability_def Let_def assms(3-5) split: if_splits)
  then show ?thesis
    using c p d s by (cases snapshot) (auto simp: decide_Allowed normalizeGrants_sorted)
qed

text \<open>
  A capability is allowed exactly when its required permissions are granted. For a connection whose
  provider has the capability, the decision follows the newest grant snapshot (nothing is granted when
  there is none): it allows the call if and only if every required permission is in it, names exactly
  the missing ones when it refuses, and refuses in the mode \<open>block\<close>.
\<close>

theorem capability_allowed_iff_granted:
  assumes "TrimSpace connectionID \<noteq> []" and "TrimSpace capability \<noteq> []"
    and "ev_ConnectionStore e = Some getConnection" and "getConnection connectionID = Inr connection"
    and "ev_Registry e = Some registry" and "ProviderRegistry_Get registry (conn_ProviderID connection) = Some provider"
    and "findCapabilityDescriptor (prov_Capabilities provider) capability = Some descriptor"
    and "ev_GrantStore e = Some latest" and "latest connectionID = Inr snapshot"
  shows "\<exists>d. EvaluateCapability (Some e) connectionID capability = Inr d \<and>
    (let G = (case snapshot of None \<Rightarrow> {} | Some s \<Rightarrow> grants_of (sg_Granted s)) in
     (pd_Allowed d \<longleftrightarrow> grants_of (cd_RequiredGrants descriptor) \<subseteq> G) \<and>
     (\<not> pd_Allowed d \<longrightarrow> set (pd_MissingGrants d) = grants_of (cd_RequiredGrants descriptor) - G \<and>
        pd_Mode d = CapabilityDeniedBehaviorBlock))"
proof -
  define granted where "granted = (case snapshot of None \<Rightarrow> [] | Some s \<Rightarrow> normalizeGrants (sg_Granted s))"
  have E: "EvaluateCapability (Some e) connectionID capability = Inr (decide capability descriptor granted)"
    using assms by (cases snapshot) (simp_all add: EvaluateCapability_def granted_def)
  have G: "set granted = (case snapshot of None \<Rightarrow> {} | Some s \<Rightarrow> grants_of (sg_Granted s))"
    by (cases snapshot) (simp_all add: granted_def normalizeGrants_sorted)
  have M: "\<not> pd_Allowed (decide capability descriptor granted) \<Longrightarrow>
      pd_Mode (decide capability descriptor granted) = CapabilityDeniedBehaviorBlock"
    by (simp add: decide_def Let_def split: if_splits)
  show ?thesis
    unfolding E Let_def G [symmetric]
    using decide_Allowed [of capability descriptor granted] decide_Missing [of capability descriptor granted] M by simp
qed

definition sample_capability :: CapabilityDescriptor where
  "sample_capability =
     \<lparr>cd_Name = ''files'', cd_RequiredGrants = ['' Read'', ''write''], cd_OptionalGrants = [], cd_DeniedBehavior = []\<rparr>"

definition sample_provider :: Provider where
  "sample_provider = \<lparr>prov_ID = conn_ProviderID sample_connection, prov_Capabilities = [sample_capability]\<rparr>"

definition sample_snapshot :: GrantSnapshot where
  "sample_snapshot = \<lparr>sg_ConnectionID = ''c'', sg_Version = 1, sg_Requested = [], sg_Granted = [''read''],
     sg_CapturedAt = 1, sg_Metadata = []\<rparr>"

definition sample_evaluator :: GrantPermissionEvaluator where
  "sample_evaluator =
     \<lparr>ev_ConnectionStore = Some (\<lambda>_. Inr sample_connection),
      ev_GrantStore = Some (\<lambda>_. Inr (Some sample_snapshot)),
      ev_Registry = Some (register_all [sample_provider] NewProviderRegistry)\<rparr>"

theorem capability_allowed_iff_granted_witness:
  "\<exists>d. EvaluateCapability (Some sample_evaluator) ''c'' ''Files'' = Inr d \<and> \<not> pd_Allowed d \<and>
    set (pd_MissingGrants d) = {''write''}"
proof -
  have c: "TrimSpace ''c'' \<noteq> []" "TrimSpace ''Files'' \<noteq> []" by code_simp+
  have conn: "ev_ConnectionStore sample_evaluator = Some (\<lambda>_. Inr sample_connection)"
    and reg: "ev_Registry sample_evaluator = Some (register_all [sample_provider] NewProviderRegistry)"
    and store: "ev_GrantStore sample_evaluator = Some (\<lambda>_. Inr (Some sample_snapshot))"
    by (simp_all add: sample_evaluator_def)
  have get: "ProviderRegistry_Get (register_all [sample_provider] NewProviderRegistry)
      (conn_ProviderID sample_connection) = Some sample_provider" by code_simp
  have f: "findCapabilityDescriptor (prov_Capabilities sample_provider) ''Files'' = Some sample_capability" by code_simp
  have n: "norm_grant '' Read'' = ''read''" "norm_grant ''write'' = ''write''" "norm_grant ''read'' = ''read''" by code_simp+
  have g: "grants_of (cd_RequiredGrants sample_capability) = {''read'', ''write''}"
    "grants_of (sg_Granted sample_snapshot) = {''read''}"
    using n by (auto simp: grants_of_def sample_capability_def sample_snapshot_def)
  have "\<exists>d. EvaluateCapability (Some sample_evaluator) ''c'' ''Files'' = Inr d \<and>
      (pd_Allowed d \<longleftrightarrow> {''read'', ''write''} \<subseteq> {''read''}) \<and>
      (\<not> pd_Allowed d \<longrightarrow> set (pd_MissingGrants d) = {''read'', ''write''} - {''read''})"
    using capability_allowed_iff_granted [OF c conn refl reg get f store refl] unfolding g Let_def option.case by blast
  then show ?thesis by auto
qed

section \<open>Strict isolation\<close>

datatype ConnectionResolutionKind =
    ConnectionResolutionDirect | ConnectionResolutionInherited | ConnectionResolutionAmbiguous | ConnectionResolutionNotFound

text \<open>The zero value of the connection field is \<open>None\<close>.\<close>

record ConnectionResolution =
  cn_Outcome :: ConnectionResolutionKind
  cn_Connection :: "Connection option"
  cn_Reason :: string

definition resolution :: "ConnectionResolutionKind \<Rightarrow> Connection option \<Rightarrow> string \<Rightarrow> ConnectionResolution" where
  "resolution outcome connection reason = \<lparr>cn_Outcome = outcome, cn_Connection = connection, cn_Reason = reason\<rparr>"

text \<open>\<open>text\<close> is \<open>err.Error()\<close>; the policy's field is \<open>FindByScope\<close> of its connection store.\<close>

definition StrictIsolationPolicy_ResolveConnection ::
  "(goerr \<Rightarrow> string) \<Rightarrow> (string \<Rightarrow> ScopeRef \<Rightarrow> Connection list result) option \<Rightarrow> string \<Rightarrow> ScopeRef \<Rightarrow>
     ConnectionResolution result" where
  "StrictIsolationPolicy_ResolveConnection text store providerID requested =
     (case ScopeRef_Validate requested of
        Some err \<Rightarrow> Inr (resolution ConnectionResolutionNotFound None (text err))
      | None \<Rightarrow>
          (case store of
             None \<Rightarrow> Inr (resolution ConnectionResolutionNotFound None ''connection store unavailable'')
           | Some findByScope \<Rightarrow>
               (case findByScope (TrimSpace providerID) requested of
                  Inl err \<Rightarrow> Inl err
                | Inr connections \<Rightarrow>
                    (case filter (\<lambda>c. conn_Status c = ConnectionStatusActive) connections of
                       [c] \<Rightarrow> Inr (resolution ConnectionResolutionDirect (Some c) [])
                     | _ # _ # _ \<Rightarrow> Inr (resolution ConnectionResolutionAmbiguous None
                         ''multiple active direct connections found; connection_id is required'')
                     | [] \<Rightarrow> Inr (resolution ConnectionResolutionNotFound None ''no active direct connection'')))))"

definition allowProviderInheritance :: "string \<Rightarrow> string list \<Rightarrow> bool" where
  "allowProviderInheritance providerID enabledProviders =
     (let id = TrimSpace providerID in
      id \<noteq> [] \<and> (\<exists>candidate \<in> set enabledProviders. EqualFold (TrimSpace candidate) id))"

lemma filter_single_iff:
  "filter P xs = [c] \<longleftrightarrow>
     (\<exists>before after. xs = before @ c # after \<and> P c \<and> \<not> (\<exists>d \<in> set (before @ after). P d))" (is "?lhs \<longleftrightarrow> ?rhs")
proof
  assume ?lhs
  then obtain us vs where "xs = us @ c # vs" "\<forall>u\<in>set us. \<not> P u" "P c" "filter P vs = []"
    unfolding filter_eq_Cons_iff by metis
  then show ?rhs by (intro exI [of _ us] exI [of _ vs]) (auto simp: filter_empty_conv)
next
  assume ?rhs
  then show ?lhs by (auto simp: filter_empty_conv)
qed

lemma direct_iff_single_active:
  "StrictIsolationPolicy_ResolveConnection text store providerID requested =
      Inr (resolution ConnectionResolutionDirect (Some c) reason) \<longleftrightarrow>
   reason = [] \<and> ScopeRef_Validate requested = None \<and>
   (\<exists>findByScope connections. store = Some findByScope \<and> findByScope (TrimSpace providerID) requested = Inr connections \<and>
      filter (\<lambda>c. conn_Status c = ConnectionStatusActive) connections = [c])"
  by (auto simp: StrictIsolationPolicy_ResolveConnection_def resolution_def split: option.splits sum.splits list.splits)

text \<open>
  Strict isolation hands out a connection only when it is the one active connection of the scope:
  the resolution is \<open>direct\<close> with a connection exactly when that connection is active and the store lists
  no other active one for the requested scope.
\<close>

theorem strict_isolation_unique:
  "StrictIsolationPolicy_ResolveConnection text store providerID requested =
      Inr (resolution ConnectionResolutionDirect (Some c) reason) \<longleftrightarrow>
   reason = [] \<and> ScopeRef_Validate requested = None \<and>
   (\<exists>findByScope before after. store = Some findByScope \<and>
      findByScope (TrimSpace providerID) requested = Inr (before @ c # after) \<and> conn_Status c = ConnectionStatusActive \<and>
      \<not> (\<exists>d \<in> set (before @ after). conn_Status d = ConnectionStatusActive))"
  unfolding direct_iff_single_active filter_single_iff by blast

section \<open>Error mapping and resolution in the service\<close>

text \<open>\<open>Service.mapError\<close>: a mapper that is not configured, or that gives nothing, leaves the error as it is.\<close>

definition Service_mapError :: "(goerr \<Rightarrow> goerr option) option \<Rightarrow> goerr \<Rightarrow> goerr" where
  "Service_mapError errorMapper err =
     (case errorMapper of None \<Rightarrow> err | Some f \<Rightarrow> (case f err of None \<Rightarrow> err | Some mapped \<Rightarrow> mapped))"

definition Service_resolveConnection ::
  "(goerr \<Rightarrow> string) \<Rightarrow> (string \<Rightarrow> ScopeRef \<Rightarrow> Connection list result) option \<Rightarrow> string list \<Rightarrow>
     (string \<Rightarrow> ScopeRef \<Rightarrow> ConnectionResolution result) option \<Rightarrow> string \<Rightarrow> ScopeRef \<Rightarrow> ConnectionResolution result" where
  "Service_resolveConnection text strictStore enabledProviders inheritancePolicy providerID requested =
     (if \<not> allowProviderInheritance providerID enabledProviders
      then StrictIsolationPolicy_ResolveConnection text strictStore providerID requested
      else case inheritancePolicy of
        None \<Rightarrow> StrictIsolationPolicy_ResolveConnection text strictStore providerID requested
      | Some policy \<Rightarrow> policy providerID requested)"

lemma resolve_without_inheritance:
  "\<not> allowProviderInheritance providerID enabled \<Longrightarrow>
     Service_resolveConnection text strictStore enabled policy providerID requested =
       StrictIsolationPolicy_ResolveConnection text strictStore providerID requested"
  by (simp add: Service_resolveConnection_def)

end
