(* ===== verification/Sync_Jobs.thy ===== *)
theory Sync_Jobs
  imports Permissions Sql_Table
begin

text \<open>
  Sync jobs: the SQL store with its table of idempotency keys (\<open>src/store/sql/sync_job_store.go\<close>), the
  service operations that create and read jobs (\<open>src/core/service_sync_jobs.go\<close>) and the orchestrator that
  drives them (\<open>src/sync/orchestrator.go\<close>). The abstract specification of creation is a map from keys to
  jobs; the store refines it. The locale \<open>job_store\<close> is what the orchestrator relies on.
\<close>

section \<open>The SQL store\<close>

record syncJobRecord =
  sj_ID :: string
  sj_ConnectionID :: string
  sj_ProviderID :: string
  sj_Mode :: SyncJobMode
  sj_Checkpoint :: string
  sj_Status :: SyncJobStatus
  sj_Attempts :: int
  sj_NextAttemptAt :: "int option"
  sj_Metadata :: meta
  sj_CreatedAt :: int
  sj_UpdatedAt :: int

record syncJobIdempotencyRecord =
  si_ID :: string
  si_ScopeType :: string
  si_ScopeID :: string
  si_ProviderID :: string
  si_ConnectionID :: string
  si_Mode :: string
  si_IdempotencyKey :: string
  si_SyncJobID :: string
  si_RequestedBy :: string
  si_CreatedAt :: int
  si_UpdatedAt :: int

record sync_tables =
  tb_jobs :: "syncJobRecord list"
  tb_keys :: "syncJobIdempotencyRecord list"

record CreateSyncJobStoreInput =
  cs_ProviderID :: string
  cs_Scope :: ScopeRef
  cs_ConnectionID :: string
  cs_Mode :: SyncJobMode
  cs_IdempotencyKey :: string
  cs_RequestedBy :: string
  cs_Metadata :: meta

record CreateSyncJobResult =
  cr_Job :: SyncJob
  cr_Created :: bool

definition newSyncJobRecord :: "SyncJob \<Rightarrow> int \<Rightarrow> syncJobRecord" where
  "newSyncJobRecord job now =
     \<lparr>sj_ID = job_ID job, sj_ConnectionID = job_ConnectionID job, sj_ProviderID = job_ProviderID job,
      sj_Mode = job_Mode job, sj_Checkpoint = job_Checkpoint job, sj_Status = job_Status job,
      sj_Attempts = job_Attempts job, sj_NextAttemptAt = job_NextAttemptAt job,
      sj_Metadata = copyAnyMap (job_Metadata job), sj_CreatedAt = now, sj_UpdatedAt = now\<rparr>"

definition syncJobRecord_toDomain :: "syncJobRecord \<Rightarrow> SyncJob" where
  "syncJobRecord_toDomain r =
     \<lparr>job_ID = sj_ID r, job_ConnectionID = sj_ConnectionID r, job_ProviderID = sj_ProviderID r,
      job_Mode = sj_Mode r, job_Checkpoint = sj_Checkpoint r, job_Status = sj_Status r,
      job_Attempts = sj_Attempts r, job_NextAttemptAt = sj_NextAttemptAt r,
      job_Metadata = copyAnyMap (sj_Metadata r), job_CreatedAt = sj_CreatedAt r, job_UpdatedAt = sj_UpdatedAt r\<rparr>"

abbreviation jobs_not_configured :: goerr where
  "jobs_not_configured \<equiv> Plain ''sqlstore: sync job store is not configured''"

text \<open>\<open>INSERT\<close> into the jobs; the primary key is unique.\<close>

definition insert_job :: "goerr \<Rightarrow> syncJobRecord \<Rightarrow> syncJobRecord list \<Rightarrow> (syncJobRecord list) result" where
  "insert_job uniq r t = (if sj_ID r \<in> sj_ID ` set t then Inl uniq else Inr (t @ [r]))"

definition SyncJobStore_Create ::
  "sql_env \<Rightarrow> sync_tables option \<Rightarrow> SyncJob \<Rightarrow> SyncJob result \<times> sync_tables option" where
  "SyncJobStore_Create env receiver job =
     (case receiver of None \<Rightarrow> (Inl jobs_not_configured, receiver) | Some t \<Rightarrow>
      let job = job\<lparr>job_ConnectionID := TrimSpace (job_ConnectionID job), job_ProviderID := TrimSpace (job_ProviderID job)\<rparr> in
      if job_ConnectionID job = [] \<or> job_ProviderID job = []
      then (Inl (Plain ''sqlstore: connection id and provider id are required''), receiver)
      else
        let now = se_now env;
            job = job\<lparr>job_ID := (if TrimSpace (job_ID job) = [] then se_id env else job_ID job),
              job_Mode := (if job_Mode job = SyncJobModeOther [] then SyncJobModeIncremental else job_Mode job),
              job_Status := (if job_Status job = SyncJobStatusOther [] then SyncJobStatusQueued else job_Status job),
              job_CreatedAt := (if job_CreatedAt job = 0 then now else job_CreatedAt job), job_UpdatedAt := now\<rparr>;
            record = newSyncJobRecord job now
        in case se_flt env 0 of Some err \<Rightarrow> (Inl err, receiver) | None \<Rightarrow>
           (case insert_job (se_uniq env) record (tb_jobs t) of
              Inl err \<Rightarrow> (Inl err, receiver)
            | Inr jobs \<Rightarrow> (Inr (syncJobRecord_toDomain record), Some (t\<lparr>tb_jobs := jobs\<rparr>))))"

definition SyncJobStore_GetSyncJob ::
  "goerr option \<Rightarrow> sync_tables option \<Rightarrow> string \<Rightarrow> SyncJob result" where
  "SyncJobStore_GetSyncJob flt receiver x =
     (case receiver of None \<Rightarrow> Inl jobs_not_configured | Some t \<Rightarrow>
      case flt of Some err \<Rightarrow> Inl err | None \<Rightarrow>
      (case find (\<lambda>r. sj_ID r = TrimSpace x) (tb_jobs t) of
         None \<Rightarrow> Inl (errorf_w ErrSyncJobNotFound (''id '' @ quote x))
       | Some r \<Rightarrow> Inr (syncJobRecord_toDomain r)))"

text \<open>An update of a job that is not there affects no row and still succeeds.\<close>

definition SyncJobStore_Update ::
  "sql_env \<Rightarrow> sync_tables option \<Rightarrow> SyncJob \<Rightarrow> SyncJob result \<times> sync_tables option" where
  "SyncJobStore_Update env receiver job =
     (case receiver of None \<Rightarrow> (Inl jobs_not_configured, receiver) | Some t \<Rightarrow>
      let job = job\<lparr>job_ID := TrimSpace (job_ID job)\<rparr> in
      if job_ID job = [] then (Inl (Plain ''sqlstore: job id is required''), receiver)
      else
        let record = (newSyncJobRecord (job\<lparr>job_UpdatedAt := se_now env\<rparr>) (se_now env))\<lparr>sj_CreatedAt := job_CreatedAt job\<rparr>
        in case se_flt env 0 of Some err \<Rightarrow> (Inl err, receiver) | None \<Rightarrow>
           (Inr (syncJobRecord_toDomain record),
            Some (t\<lparr>tb_jobs := update_where (\<lambda>r. sj_ID r = sj_ID record) (\<lambda>_. record) (tb_jobs t)\<rparr>)))"

definition normalizeCreateSyncJobStoreInput ::
  "(goerr \<Rightarrow> string) \<Rightarrow> CreateSyncJobStoreInput \<Rightarrow> CreateSyncJobStoreInput result" where
  "normalizeCreateSyncJobStoreInput render input =
     (let n = \<lparr>cs_ProviderID = TrimSpace (cs_ProviderID input),
            cs_Scope = \<lparr>scope_Type = TrimSpace (ToLower (scope_Type (cs_Scope input))), scope_ID = TrimSpace (scope_ID (cs_Scope input))\<rparr>,
            cs_ConnectionID = TrimSpace (cs_ConnectionID input),
            cs_Mode = sync_job_mode_of (TrimSpace (ToLower (sync_job_mode_str (cs_Mode input)))),
            cs_IdempotencyKey = TrimSpace (cs_IdempotencyKey input), cs_RequestedBy = TrimSpace (cs_RequestedBy input),
            cs_Metadata = copyAnyMap (cs_Metadata input)\<rparr> in
      if cs_ProviderID n = [] then Inl (Plain ''sqlstore: provider id is required'')
      else case ScopeRef_Validate (cs_Scope n) of
        Some err \<Rightarrow> Inl (errorf_w ErrInvalidSyncJobScope (err_Error render err))
      | None \<Rightarrow>
          if cs_ConnectionID n = [] then Inl (Plain ''sqlstore: connection id is required'')
          else if cs_Mode n = SyncJobModeFull \<or> cs_Mode n = SyncJobModeDelta then Inr n
          else Inl (errorf_w ErrInvalidSyncJobMode (quote (sync_job_mode_str (cs_Mode input)))))"

text \<open>The unique tuple of the idempotency table.\<close>

definition key_tuple :: "syncJobIdempotencyRecord \<Rightarrow> string \<times> string \<times> string \<times> string \<times> string" where
  "key_tuple r = (si_ScopeType r, si_ScopeID r, si_ProviderID r, si_Mode r, si_IdempotencyKey r)"

definition input_tuple :: "CreateSyncJobStoreInput \<Rightarrow> string \<times> string \<times> string \<times> string \<times> string" where
  "input_tuple i = (scope_Type (cs_Scope i), scope_ID (cs_Scope i), cs_ProviderID i, sync_job_mode_str (cs_Mode i), cs_IdempotencyKey i)"

definition insert_key ::
  "goerr \<Rightarrow> syncJobIdempotencyRecord \<Rightarrow> syncJobIdempotencyRecord list \<Rightarrow> (syncJobIdempotencyRecord list) result" where
  "insert_key uniq r t = 
     (if si_ID r \<in> si_ID ` set t \<or> key_tuple r \<in> key_tuple ` set t then Inl uniq else Inr (t @ [r]))"

definition createSyncJobWithIdempotency ::
  "sql_env \<Rightarrow> sync_tables \<Rightarrow> CreateSyncJobStoreInput \<Rightarrow> SyncJob \<Rightarrow> SyncJob result \<times> sync_tables" where
  "createSyncJobWithIdempotency env t input job =
     (let now = se_now env;
          job = job\<lparr>job_ID := se_id env, job_Attempts := 0, job_CreatedAt := now, job_UpdatedAt := now\<rparr>;
          jobRecord = newSyncJobRecord job now;
          keyRecord = \<lparr>si_ID = se_id2 env, si_ScopeType = scope_Type (cs_Scope input), si_ScopeID = scope_ID (cs_Scope input),
            si_ProviderID = cs_ProviderID input, si_ConnectionID = cs_ConnectionID input,
            si_Mode = sync_job_mode_str (cs_Mode input), si_IdempotencyKey = cs_IdempotencyKey input,
            si_SyncJobID = se_id env, si_RequestedBy = cs_RequestedBy input, si_CreatedAt = now, si_UpdatedAt = now\<rparr>
      in case (case se_flt env 0 of Some err \<Rightarrow> Inl err | None \<Rightarrow> insert_job (se_uniq env) jobRecord (tb_jobs t)) of
           Inl insertErr \<Rightarrow> (Inl insertErr, t)
         | Inr jobs \<Rightarrow>
             (case (case se_flt env 1 of Some err \<Rightarrow> Inl err | None \<Rightarrow> insert_key (se_uniq env) keyRecord (tb_keys t)) of
                Inl insertErr \<Rightarrow>
                  (Inl (if isUniqueViolation (se_render env) insertErr then Sentinel errSyncJobIdempotencyReplay else insertErr), t)
              | Inr keys \<Rightarrow> (Inr (syncJobRecord_toDomain jobRecord), \<lparr>tb_jobs = jobs, tb_keys = keys\<rparr>)))"

definition findSyncJobIdempotency ::
  "goerr option \<Rightarrow> sync_tables \<Rightarrow> ScopeRef \<Rightarrow> string \<Rightarrow> SyncJobMode \<Rightarrow> string \<Rightarrow> (syncJobIdempotencyRecord option) result" where
  "findSyncJobIdempotency flt t scope providerID mode idempotencyKey =
     (case flt of Some err \<Rightarrow> Inl err | None \<Rightarrow>
      (case find (\<lambda>r. key_tuple r = (TrimSpace (ToLower (scope_Type scope)), TrimSpace (scope_ID scope), TrimSpace providerID,
          TrimSpace (ToLower (sync_job_mode_str mode)), TrimSpace idempotencyKey)) (tb_keys t) of
         None \<Rightarrow> Inr None
       | Some r \<Rightarrow> Inr (if TrimSpace (si_ID r) = [] then None else Some r)))"

definition SyncJobStore_CreateSyncJob ::
  "sql_env \<Rightarrow> sync_tables option \<Rightarrow> CreateSyncJobStoreInput \<Rightarrow> CreateSyncJobResult result \<times> sync_tables option" where
  "SyncJobStore_CreateSyncJob env receiver input =
     (case receiver of None \<Rightarrow> (Inl jobs_not_configured, receiver) | Some t \<Rightarrow>
      (case normalizeCreateSyncJobStoreInput (se_render env) input of
         Inl err \<Rightarrow> (Inl err, receiver)
       | Inr n \<Rightarrow>
           let metadata = (if cs_RequestedBy n \<noteq> [] then AList.update ''requested_by'' (AStr (cs_RequestedBy n)) (copyAnyMap (cs_Metadata n))
                 else copyAnyMap (cs_Metadata n));
               job = \<lparr>job_ID = [], job_ConnectionID = cs_ConnectionID n, job_ProviderID = cs_ProviderID n, job_Mode = cs_Mode n,
                 job_Checkpoint = [], job_Status = SyncJobStatusQueued, job_Attempts = 0, job_NextAttemptAt = None,
                 job_Metadata = metadata, job_CreatedAt = 0, job_UpdatedAt = 0\<rparr> in
           if TrimSpace (cs_IdempotencyKey n) = []
           then (case SyncJobStore_Create env receiver job of
                   (Inl err, s) \<Rightarrow> (Inl err, s)
                 | (Inr created, s) \<Rightarrow> (Inr \<lparr>cr_Job = created, cr_Created = True\<rparr>, s))
           else
             (case createSyncJobWithIdempotency env t n job of
                (Inr created, t') \<Rightarrow> (Inr \<lparr>cr_Job = created, cr_Created = True\<rparr>, Some t')
              | (Inl createErr, t') \<Rightarrow>
                  if \<not> errors_Is createErr errSyncJobIdempotencyReplay then (Inl createErr, Some t')
                  else
                    (case findSyncJobIdempotency (se_flt env 2) t' (cs_Scope n) (cs_ProviderID n) (cs_Mode n)
                        (TrimSpace (cs_IdempotencyKey n)) of
                       Inl err \<Rightarrow> (Inl err, Some t')
                     | Inr found \<Rightarrow>
                         (case found of
                            Some record \<Rightarrow>
                              if TrimSpace (si_SyncJobID record) = []
                              then (Inl (Wrapped (''sqlstore: '' @ sentinel_msg ErrSyncJobNotFound @ '': idempotency tuple has no sync job binding'')
                                [Sentinel ErrSyncJobNotFound]), Some t')
                              else
                                (case SyncJobStore_GetSyncJob (se_flt env 3) (Some t') (si_SyncJobID record) of
                                   Inl err \<Rightarrow> (Inl err, Some t')
                                 | Inr existing \<Rightarrow> (Inr \<lparr>cr_Job = existing, cr_Created = False\<rparr>, Some t'))
                          | None \<Rightarrow>
                              (Inl (Wrapped (''sqlstore: '' @ sentinel_msg ErrSyncJobNotFound @ '': idempotency tuple has no sync job binding'')
                                [Sentinel ErrSyncJobNotFound]), Some t'))))))"

section \<open>The well-formed tables\<close>

text \<open>
  The primary keys and the unique tuple hold, ids are trimmed and not blank, and every idempotency key
  is bound to a job of the table.
\<close>

definition sync_ok :: "sync_tables \<Rightarrow> bool" where
  "sync_ok t \<longleftrightarrow> distinct (map sj_ID (tb_jobs t)) \<and> distinct (map key_tuple (tb_keys t)) \<and>
     (\<forall>k \<in> set (tb_keys t). id_ok (si_ID k) \<and> id_ok (si_SyncJobID k) \<and> si_SyncJobID k \<in> sj_ID ` set (tb_jobs t))"

lemma sync_ok_insert_job:
  "sync_ok t \<Longrightarrow> insert_job uniq r (tb_jobs t) = Inr jobs \<Longrightarrow> sync_ok (t\<lparr>tb_jobs := jobs\<rparr>)"
  by (auto simp: sync_ok_def insert_job_def split: if_splits)

lemma sync_ok_Create:
  "sync_ok t \<Longrightarrow> SyncJobStore_Create env (Some t) job = (r, Some t') \<Longrightarrow> sync_ok t'"
  by (auto simp: SyncJobStore_Create_def Let_def sync_ok_insert_job split: if_splits option.splits sum.splits)

lemma set_update_where_key:
  assumes "\<And>r. p r \<Longrightarrow> k (f r) = k r"
  shows "k ` set (update_where p f t) = k ` set t"
  using map_key_update_where [of p k f t] assms by (metis set_map)

lemma sync_ok_replace:
  assumes "sync_ok t" and "sj_ID rec = x"
  shows "sync_ok (t\<lparr>tb_jobs := update_where (\<lambda>r. sj_ID r = x) (\<lambda>_. rec) (tb_jobs t)\<rparr>)"
proof -
  have "map sj_ID (update_where (\<lambda>r. sj_ID r = x) (\<lambda>_. rec) (tb_jobs t)) = map sj_ID (tb_jobs t)"
    using assms(2) by (intro map_key_update_where) simp
  moreover have "sj_ID ` set (update_where (\<lambda>r. sj_ID r = x) (\<lambda>_. rec) (tb_jobs t)) = sj_ID ` set (tb_jobs t)"
    using assms(2) by (intro set_update_where_key) simp
  ultimately show ?thesis using assms(1) by (simp add: sync_ok_def)
qed

lemma sync_ok_Update:
  "sync_ok t \<Longrightarrow> SyncJobStore_Update env (Some t) job = (r, Some t') \<Longrightarrow> sync_ok t'"
  by (auto simp: SyncJobStore_Update_def Let_def sync_ok_replace split: if_splits option.splits)

lemma sync_ok_with_key:
  assumes "sync_ok t" and "id_ok (se_id env)" and "id_ok (se_id2 env)"
  shows "sync_ok (snd (createSyncJobWithIdempotency env t input job))"
  using assms unfolding createSyncJobWithIdempotency_def Let_def
  by (auto simp: sync_ok_def insert_job_def insert_key_def newSyncJobRecord_def split: option.splits if_splits)

lemma with_key_table:
  assumes "snd (SyncJobStore_CreateSyncJob env (Some t) input) = Some t'"
  shows "t' = t \<or> (\<exists>job. snd (SyncJobStore_Create env (Some t) job) = Some t') \<or>
     (\<exists>n job. t' = snd (createSyncJobWithIdempotency env t n job))"
proof (cases "normalizeCreateSyncJobStoreInput (se_render env) input")
  case (Inr n)
  show ?thesis
  proof (cases "TrimSpace (cs_IdempotencyKey n) = []")
    case True
    then show ?thesis using assms Inr
      by (auto simp: SyncJobStore_CreateSyncJob_def Let_def split: sum.splits prod.splits) (metis snd_conv)+
  next
    case False
    then show ?thesis using assms Inr
      by (auto simp: SyncJobStore_CreateSyncJob_def Let_def split: sum.splits prod.splits option.splits if_splits)
        (metis snd_conv)+
  qed
qed (use assms in \<open>simp add: SyncJobStore_CreateSyncJob_def\<close>)

text \<open>The operations of the store that change it, and the tables they reach.\<close>

inductive sync_step :: "sync_tables \<Rightarrow> sync_tables \<Rightarrow> bool" where
  step_Create: "SyncJobStore_Create env (Some t) job = (r, Some t') \<Longrightarrow> sync_step t t'"
| step_Update: "SyncJobStore_Update env (Some t) job = (r, Some t') \<Longrightarrow> sync_step t t'"
| step_CreateSyncJob: "id_ok (se_id env) \<Longrightarrow> id_ok (se_id2 env) \<Longrightarrow>
    SyncJobStore_CreateSyncJob env (Some t) input = (r, Some t') \<Longrightarrow> sync_step t t'"

inductive_cases sync_stepE: "sync_step t t'"

lemma sync_ok_CreateSyncJob:
  assumes "sync_ok t" and "id_ok (se_id env)" and "id_ok (se_id2 env)"
    and "SyncJobStore_CreateSyncJob env (Some t) input = (r, Some t')"
  shows "sync_ok t'"
proof -
  have "snd (SyncJobStore_CreateSyncJob env (Some t) input) = Some t'" using assms(4) by simp
  from with_key_table [OF this] show ?thesis
    using assms(1) sync_ok_with_key [OF assms(1-3)] sync_ok_Create [OF assms(1)]
    by (metis prod.collapse)
qed

lemma sync_ok_step: "sync_step t t' \<Longrightarrow> sync_ok t \<Longrightarrow> sync_ok t'"
  by (elim sync_stepE) (blast intro: sync_ok_Create sync_ok_Update sync_ok_CreateSyncJob)+

text \<open>
  The tables of the sync jobs stay well-formed. From empty tables, whatever sequence of creations,
  updates and keyed creations runs, with whatever database errors, job ids stay unique, at most one row
  exists for each idempotency tuple, and every idempotency row points at a job that exists.
\<close>

theorem sync_tables_well_formed:
  assumes "sync_step\<^sup>*\<^sup>* \<lparr>tb_jobs = [], tb_keys = []\<rparr> t"
  shows "sync_ok t"
  using assms by induction (auto simp: sync_ok_def [of "\<lparr>tb_jobs = [], tb_keys = []\<rparr>"] intro: sync_ok_step)

definition sample_env :: sql_env where
  "sample_env = \<lparr>se_id = ''j1'', se_id2 = ''k1'', se_now = 5, se_uniq = Plain ''UNIQUE constraint failed'',
     se_render = (\<lambda>_. []), se_flt = no_faults\<rparr>"

definition sample_input :: CreateSyncJobStoreInput where
  "sample_input = \<lparr>cs_ProviderID = ''github'', cs_Scope = \<lparr>scope_Type = ''Org'', scope_ID = ''o1''\<rparr>, cs_ConnectionID = ''c1'',
     cs_Mode = SyncJobModeFull, cs_IdempotencyKey = '' key '', cs_RequestedBy = [], cs_Metadata = []\<rparr>"

abbreviation no_jobs :: sync_tables where
  "no_jobs \<equiv> \<lparr>tb_jobs = [], tb_keys = []\<rparr>"

lemma sample_created:
  "SyncJobStore_CreateSyncJob sample_env (Some no_jobs) sample_input =
     (fst (SyncJobStore_CreateSyncJob sample_env (Some no_jobs) sample_input),
      Some (the (snd (SyncJobStore_CreateSyncJob sample_env (Some no_jobs) sample_input))))"
  by code_simp

theorem sync_tables_well_formed_witness:
  "sync_ok (the (snd (SyncJobStore_CreateSyncJob sample_env (Some no_jobs) sample_input)))"
proof -
  have "id_ok (se_id sample_env)" "id_ok (se_id2 sample_env)" by code_simp+
  from step_CreateSyncJob [OF this sample_created]
  show ?thesis by (intro sync_tables_well_formed r_into_rtranclp)
qed

section \<open>Creation refines get-or-create\<close>

text \<open>
  The abstract state: the jobs by id, and the job id bound to each tuple. Creating under a tuple returns
  the job bound to it, and binds a new job when there is none.
\<close>

type_synonym sync_spec = "(string \<rightharpoonup> SyncJob) \<times> (string \<times> string \<times> string \<times> string \<times> string \<rightharpoonup> string)"

definition sync_abs :: "sync_tables \<Rightarrow> sync_spec" where
  "sync_abs t = (\<lambda>x. map_option syncJobRecord_toDomain (find (\<lambda>r. sj_ID r = x) (tb_jobs t)),
     \<lambda>k. map_option si_SyncJobID (find (\<lambda>r. key_tuple r = k) (tb_keys t)))"

fun get_or_create :: "sync_spec \<Rightarrow> string \<times> string \<times> string \<times> string \<times> string \<Rightarrow> SyncJob \<Rightarrow> SyncJob option \<times> bool \<times> sync_spec" where
  "get_or_create (jobs, keys) k new =
     (case keys k of
        Some x \<Rightarrow> (jobs x, False, (jobs, keys))
      | None \<Rightarrow> (Some new, True, (jobs(job_ID new \<mapsto> new), keys(k \<mapsto> job_ID new))))"

definition new_job :: "sql_env \<Rightarrow> CreateSyncJobStoreInput \<Rightarrow> SyncJob" where
  "new_job env n =
     \<lparr>job_ID = se_id env, job_ConnectionID = cs_ConnectionID n, job_ProviderID = cs_ProviderID n, job_Mode = cs_Mode n,
      job_Checkpoint = [], job_Status = SyncJobStatusQueued, job_Attempts = 0, job_NextAttemptAt = None,
      job_Metadata = (if cs_RequestedBy n \<noteq> [] then AList.update ''requested_by'' (AStr (cs_RequestedBy n)) (cs_Metadata n) else cs_Metadata n),
      job_CreatedAt = se_now env, job_UpdatedAt = se_now env\<rparr>"

text \<open>What the database and \<open>uuid\<close> promise: fresh ids, no failing statement, and a recognisable unique violation.\<close>

definition sane_env :: "sql_env \<Rightarrow> sync_tables \<Rightarrow> bool" where
  "sane_env env t \<longleftrightarrow> id_ok (se_id env) \<and> id_ok (se_id2 env) \<and> se_id env \<notin> sj_ID ` set (tb_jobs t) \<and>
     se_id2 env \<notin> si_ID ` set (tb_keys t) \<and> isUniqueViolation (se_render env) (se_uniq env) \<and>
     se_flt env 0 = None \<and> se_flt env 1 = None \<and> se_flt env 2 = None \<and> se_flt env 3 = None"

lemma lower_trim_idem [simp]: "TrimSpace (ToLower (TrimSpace (ToLower s))) = TrimSpace (ToLower s)"
  by (simp add: TrimSpace_ToLower)

lemma lower_trim_mode [simp]:
  "TrimSpace (ToLower (sync_job_mode_str SyncJobModeFull)) = sync_job_mode_str SyncJobModeFull"
  "TrimSpace (ToLower (sync_job_mode_str SyncJobModeDelta)) = sync_job_mode_str SyncJobModeDelta"
  by code_simp+

lemma normalized_input:
  assumes "normalizeCreateSyncJobStoreInput render input = Inr n"
  shows "(TrimSpace (ToLower (scope_Type (cs_Scope n))), TrimSpace (scope_ID (cs_Scope n)), TrimSpace (cs_ProviderID n),
      TrimSpace (ToLower (sync_job_mode_str (cs_Mode n))), TrimSpace (TrimSpace (cs_IdempotencyKey n))) = input_tuple n"
    and "gomap_ok (cs_Metadata n)" and "TrimSpace (cs_IdempotencyKey n) = cs_IdempotencyKey n"
proof -
  from assms have m: "cs_Mode n = SyncJobModeFull \<or> cs_Mode n = SyncJobModeDelta"
    and n: "TrimSpace (ToLower (scope_Type (cs_Scope n))) = scope_Type (cs_Scope n)"
      "TrimSpace (scope_ID (cs_Scope n)) = scope_ID (cs_Scope n)" "TrimSpace (cs_ProviderID n) = cs_ProviderID n"
    and k: "TrimSpace (cs_IdempotencyKey n) = cs_IdempotencyKey n" and g: "gomap_ok (cs_Metadata n)"
    by (auto simp: normalizeCreateSyncJobStoreInput_def Let_def split: if_splits option.splits)
  show "gomap_ok (cs_Metadata n)" by (rule g)
  show "TrimSpace (cs_IdempotencyKey n) = cs_IdempotencyKey n" by (rule k)
  from m n k show "(TrimSpace (ToLower (scope_Type (cs_Scope n))), TrimSpace (scope_ID (cs_Scope n)), TrimSpace (cs_ProviderID n),
      TrimSpace (ToLower (sync_job_mode_str (cs_Mode n))), TrimSpace (TrimSpace (cs_IdempotencyKey n))) = input_tuple n"
    unfolding input_tuple_def by (elim disjE) (simp_all del: sync_job_mode_str.simps)
qed

lemma keyed_creation_new:
  assumes "sane_env env t" and "input_tuple n \<notin> key_tuple ` set (tb_keys t)" and "gomap_ok (cs_Metadata n)"
    and "job = (new_job env n)\<lparr>job_ID := [], job_CreatedAt := 0, job_UpdatedAt := 0\<rparr>"
  shows "\<exists>t'. createSyncJobWithIdempotency env t n job = (Inr (new_job env n), t') \<and>
    get_or_create (sync_abs t) (input_tuple n) (new_job env n) = (Some (new_job env n), True, sync_abs t')"
proof -
  have fresh: "find (\<lambda>r. sj_ID r = se_id env) (tb_jobs t) = None" "find (\<lambda>r. key_tuple r = input_tuple n) (tb_keys t) = None"
    using assms(1,2) by (simp_all add: find_none sane_env_def)
  have n: "gomap_ok (job_Metadata (new_job env n))" using assms(3) by (simp add: new_job_def)
  show ?thesis
    using assms fresh n
    by (auto simp: createSyncJobWithIdempotency_def Let_def sane_env_def insert_job_def insert_key_def sync_abs_def
        find_append newSyncJobRecord_def syncJobRecord_toDomain_def new_job_def key_tuple_def input_tuple_def fun_eq_iff
        split: option.splits)
qed

lemma keyed_creation_replay:
  assumes "sane_env env t" and "input_tuple n \<in> key_tuple ` set (tb_keys t)"
  shows "createSyncJobWithIdempotency env t n job = (Inl (Sentinel errSyncJobIdempotencyReplay), t)"
proof -
  have "insert_key (se_uniq env) rec (tb_keys t) = Inl (se_uniq env)" if "key_tuple rec = input_tuple n" for rec
    using assms(2) that by (simp add: insert_key_def)
  then show ?thesis
    using assms(1) by (simp add: createSyncJobWithIdempotency_def Let_def sane_env_def insert_job_def newSyncJobRecord_def
        key_tuple_def input_tuple_def)
qed

lemma bound_key:
  assumes "sync_ok t" and "k \<in> key_tuple ` set (tb_keys t)"
  obtains r j where "find (\<lambda>r. key_tuple r = k) (tb_keys t) = Some r" and "id_ok (si_ID r)" and "id_ok (si_SyncJobID r)"
    and "find (\<lambda>x. sj_ID x = si_SyncJobID r) (tb_jobs t) = Some j"
proof -
  obtain r where r: "find (\<lambda>r. key_tuple r = k) (tb_keys t) = Some r"
    using assms(2) find_none [of key_tuple k "tb_keys t"] by fastforce
  then have in_t: "r \<in> set (tb_keys t)" by (simp add: find_Some_iff in_set_conv_nth) blast
  then have ok: "id_ok (si_ID r)" "id_ok (si_SyncJobID r)" "si_SyncJobID r \<in> sj_ID ` set (tb_jobs t)"
    using assms(1) by (auto simp: sync_ok_def)
  then obtain j where "find (\<lambda>x. sj_ID x = si_SyncJobID r) (tb_jobs t) = Some j"
    using find_none [of sj_ID "si_SyncJobID r" "tb_jobs t"] by fastforce
  with r ok show ?thesis by (intro that)
qed

abbreviation draft_job :: "sql_env \<Rightarrow> CreateSyncJobStoreInput \<Rightarrow> SyncJob" where
  "draft_job env n \<equiv> (new_job env n)\<lparr>job_ID := [], job_CreatedAt := 0, job_UpdatedAt := 0\<rparr>"

lemma CreateSyncJob_created:
  assumes "normalizeCreateSyncJobStoreInput (se_render env) input = Inr n" and "cs_IdempotencyKey n \<noteq> []"
    and "createSyncJobWithIdempotency env t n (draft_job env n) = (Inr created, t')"
  shows "SyncJobStore_CreateSyncJob env (Some t) input = (Inr \<lparr>cr_Job = created, cr_Created = True\<rparr>, Some t')"
  using assms normalized_input [OF assms(1)]
  by (cases "cs_RequestedBy n = []") (simp_all add: SyncJobStore_CreateSyncJob_def Let_def new_job_def)

lemma CreateSyncJob_replayed:
  assumes "normalizeCreateSyncJobStoreInput (se_render env) input = Inr n" and "cs_IdempotencyKey n \<noteq> []"
    and "createSyncJobWithIdempotency env t n (draft_job env n) = (Inl (Sentinel errSyncJobIdempotencyReplay), t)"
    and "findSyncJobIdempotency (se_flt env 2) t (cs_Scope n) (cs_ProviderID n) (cs_Mode n) (cs_IdempotencyKey n) = Inr (Some r)"
    and "id_ok (si_SyncJobID r)" and "SyncJobStore_GetSyncJob (se_flt env 3) (Some t) (si_SyncJobID r) = Inr existing"
  shows "SyncJobStore_CreateSyncJob env (Some t) input = (Inr \<lparr>cr_Job = existing, cr_Created = False\<rparr>, Some t)"
  using assms normalized_input [OF assms(1)]
  by (cases "cs_RequestedBy n = []") (simp_all add: SyncJobStore_CreateSyncJob_def Let_def new_job_def id_ok_def)

text \<open>
  C13: Creating a sync job under an idempotency key implements get-or-create. On well-formed tables, with
  a key, ids not yet in use and a database that reports its unique violations, the call succeeds; it
  returns the job the tuple of scope, provider, mode and key is bound to, or creates a queued job and binds
  it; and the tables it leaves represent the state the specification moves to.
\<close>

theorem create_sync_job_refines:
  assumes "sync_ok t" and "sane_env env t"
    and "normalizeCreateSyncJobStoreInput (se_render env) input = Inr n" and "cs_IdempotencyKey n \<noteq> []"
  shows "\<exists>res t'. SyncJobStore_CreateSyncJob env (Some t) input = (Inr res, Some t') \<and>
    get_or_create (sync_abs t) (input_tuple n) (new_job env n) = (Some (cr_Job res), cr_Created res, sync_abs t')"
proof (cases "input_tuple n \<in> key_tuple ` set (tb_keys t)")
  case False
  from keyed_creation_new [OF assms(2) False normalized_input(2) [OF assms(3)] refl] obtain t' where
    "createSyncJobWithIdempotency env t n (draft_job env n) = (Inr (new_job env n), t')"
    and spec: "get_or_create (sync_abs t) (input_tuple n) (new_job env n) = (Some (new_job env n), True, sync_abs t')" by blast
  from CreateSyncJob_created [OF assms(3,4) this(1)] spec show ?thesis by auto
next
  case True
  from bound_key [OF assms(1) True] obtain r j where
    r: "find (\<lambda>r. key_tuple r = input_tuple n) (tb_keys t) = Some r" "id_ok (si_ID r)" "id_ok (si_SyncJobID r)"
    and j: "find (\<lambda>x. sj_ID x = si_SyncJobID r) (tb_jobs t) = Some j" .
  have f: "findSyncJobIdempotency (se_flt env 2) t (cs_Scope n) (cs_ProviderID n) (cs_Mode n) (cs_IdempotencyKey n) = Inr (Some r)"
    using normalized_input(1,3) [OF assms(3)] r assms(2)
    by (simp add: findSyncJobIdempotency_def sane_env_def id_ok_def)
  have g: "SyncJobStore_GetSyncJob (se_flt env 3) (Some t) (si_SyncJobID r) = Inr (syncJobRecord_toDomain j)"
    using r(3) j assms(2) by (simp add: SyncJobStore_GetSyncJob_def sane_env_def id_ok_def)
  from CreateSyncJob_replayed [OF assms(3,4) keyed_creation_replay [OF assms(2) True] f r(3) g]
  show ?thesis using r(1) j by (simp add: sync_abs_def)
qed

theorem create_sync_job_refines_witness:
  "\<exists>res t'. SyncJobStore_CreateSyncJob sample_env (Some no_jobs) sample_input = (Inr res, Some t') \<and>
    get_or_create (sync_abs no_jobs) (''org'', ''o1'', ''github'', ''full'', ''key'')
      (new_job sample_env (sample_input\<lparr>cs_Scope := \<lparr>scope_Type = ''org'', scope_ID = ''o1''\<rparr>, cs_IdempotencyKey := ''key''\<rparr>)) =
      (Some (cr_Job res), cr_Created res, sync_abs t')"
proof -
  let ?n = "sample_input\<lparr>cs_Scope := \<lparr>scope_Type = ''org'', scope_ID = ''o1''\<rparr>, cs_IdempotencyKey := ''key''\<rparr>"
  have t: "input_tuple ?n = (''org'', ''o1'', ''github'', ''full'', ''key'')" by code_simp
  have "sync_ok no_jobs" "sane_env sample_env no_jobs" by code_simp+
  moreover have "normalizeCreateSyncJobStoreInput (se_render sample_env) sample_input = Inr ?n" by code_simp
  moreover have "cs_IdempotencyKey ?n \<noteq> []" by code_simp
  ultimately show ?thesis using create_sync_job_refines [of no_jobs sample_env sample_input ?n] unfolding t by blast
qed

section \<open>The service operations\<close>

text \<open>
  \<open>src/core/service_sync_jobs.go\<close>. The service is the stores it was built with; \<open>sv_resolve\<close> is
  \<open>resolveConnection\<close>, \<open>sv_mapError\<close> is \<open>mapError\<close> and \<open>sv_text\<close> the text of an error. Logging and metrics are left out.
\<close>

record CreateSyncJobRequest =
  cq_ProviderID :: string
  cq_ScopeType :: string
  cq_ScopeID :: string
  cq_ConnectionID :: string
  cq_Mode :: SyncJobMode
  cq_IdempotencyKey :: string
  cq_RequestedBy :: string
  cq_Metadata :: meta

record GetSyncJobRequest =
  gq_SyncJobID :: string
  gq_ProviderID :: string
  gq_ScopeType :: string
  gq_ScopeID :: string
  gq_ConnectionID :: string

record sync_service =
  sv_syncJobStore :: "sync_tables option"
  sv_getConnection :: "(string \<Rightarrow> Connection result) option"
  sv_resolve :: "string \<Rightarrow> ScopeRef \<Rightarrow> ConnectionResolution result"
  sv_mapError :: "goerr \<Rightarrow> goerr"
  sv_text :: "goerr \<Rightarrow> string"

definition parseSyncJobCreateMode :: "SyncJobMode \<Rightarrow> SyncJobMode result" where
  "parseSyncJobCreateMode mode =
     (let normalized = sync_job_mode_of (TrimSpace (ToLower (sync_job_mode_str mode))) in
      if normalized = SyncJobModeFull \<or> normalized = SyncJobModeDelta then Inr normalized
      else Inl (errorf_w ErrInvalidSyncJobMode (quote (sync_job_mode_str mode))))"

definition normalizeCreateSyncJobRequest ::
  "(goerr \<Rightarrow> string) \<Rightarrow> CreateSyncJobRequest \<Rightarrow> (CreateSyncJobRequest \<times> ScopeRef) result" where
  "normalizeCreateSyncJobRequest text req =
     (let n = \<lparr>cq_ProviderID = TrimSpace (cq_ProviderID req), cq_ScopeType = TrimSpace (ToLower (cq_ScopeType req)),
            cq_ScopeID = TrimSpace (cq_ScopeID req), cq_ConnectionID = TrimSpace (cq_ConnectionID req),
            cq_Mode = sync_job_mode_of (TrimSpace (ToLower (sync_job_mode_str (cq_Mode req)))),
            cq_IdempotencyKey = TrimSpace (cq_IdempotencyKey req), cq_RequestedBy = TrimSpace (cq_RequestedBy req),
            cq_Metadata = copyAnyMap (cq_Metadata req)\<rparr> in
      if cq_ProviderID n = [] then Inl (Plain ''core: provider id is required'')
      else
        let scope = \<lparr>scope_Type = cq_ScopeType n, scope_ID = cq_ScopeID n\<rparr> in
        case ScopeRef_Validate scope of
          Some err \<Rightarrow> Inl (errorf_w ErrInvalidSyncJobScope (text err))
        | None \<Rightarrow>
            (case parseSyncJobCreateMode (cq_Mode n) of
               Inl err \<Rightarrow> Inl err
             | Inr mode \<Rightarrow> Inr (n\<lparr>cq_Mode := mode\<rparr>, scope)))"

text \<open>The scope is \<open>None\<close> when the request has no scope guard.\<close>

definition normalizeGetSyncJobRequest ::
  "(goerr \<Rightarrow> string) \<Rightarrow> GetSyncJobRequest \<Rightarrow> (GetSyncJobRequest \<times> ScopeRef option) result" where
  "normalizeGetSyncJobRequest text req =
     (let n = \<lparr>gq_SyncJobID = TrimSpace (gq_SyncJobID req), gq_ProviderID = TrimSpace (gq_ProviderID req),
            gq_ScopeType = TrimSpace (ToLower (gq_ScopeType req)), gq_ScopeID = TrimSpace (gq_ScopeID req),
            gq_ConnectionID = TrimSpace (gq_ConnectionID req)\<rparr> in
      if gq_SyncJobID n = [] then Inl (Plain ''core: sync job id is required'')
      else if (gq_ScopeType n \<noteq> []) \<noteq> (gq_ScopeID n \<noteq> [])
      then Inl (errorf_w ErrInvalidSyncJobScope ''scope type and scope id must both be provided'')
      else if gq_ScopeType n = [] then Inr (n, None)
      else
        let scope = \<lparr>scope_Type = gq_ScopeType n, scope_ID = gq_ScopeID n\<rparr> in
        case ScopeRef_Validate scope of
          Some err \<Rightarrow> Inl (errorf_w ErrInvalidSyncJobScope (text err))
        | None \<Rightarrow> Inr (n, Some scope))"

text \<open>The connection is \<open>None\<close> when the policy resolved to the zero connection.\<close>

definition resolveSyncJobConnection ::
  "sync_service \<Rightarrow> string \<Rightarrow> ScopeRef \<Rightarrow> string \<Rightarrow> (Connection option) result" where
  "resolveSyncJobConnection s providerID scope connectionID =
     (let connectionID = TrimSpace connectionID in
      if connectionID \<noteq> [] then
        (case sv_getConnection s of
           None \<Rightarrow> Inl (Plain ''core: connection store is required for explicit sync job connection'')
         | Some get \<Rightarrow>
             (case get connectionID of
                Inl err \<Rightarrow> Inl err
              | Inr connection \<Rightarrow>
                  if \<not> EqualFold (TrimSpace (conn_ProviderID connection)) (TrimSpace providerID) \<or>
                     \<not> EqualFold (TrimSpace (conn_ScopeType connection)) (TrimSpace (scope_Type scope)) \<or>
                     TrimSpace (conn_ScopeID connection) \<noteq> TrimSpace (scope_ID scope)
                  then Inl (errorf_w ErrInvalidSyncJobScope ''connection does not match provider/scope'')
                  else Inr (Some connection)))
      else
        (case sv_resolve s providerID scope of
           Inl err \<Rightarrow> Inl err
         | Inr res \<Rightarrow>
             (case cn_Outcome res of
                ConnectionResolutionDirect \<Rightarrow> Inr (cn_Connection res)
              | ConnectionResolutionInherited \<Rightarrow> Inr (cn_Connection res)
              | ConnectionResolutionAmbiguous \<Rightarrow> Inl (errorf_w ErrInvalidSyncJobScope ''ambiguous connection for provider/scope'')
              | _ \<Rightarrow> Inl (errorf_w ErrInvalidSyncJobScope ''no connection found for provider/scope''))))"

definition Service_CreateSyncJob ::
  "sql_env \<Rightarrow> sync_service \<Rightarrow> CreateSyncJobRequest \<Rightarrow> CreateSyncJobResult result \<times> sync_service" where
  "Service_CreateSyncJob env s req =
     (if sv_syncJobStore s = None then (Inl (sv_mapError s (Plain ''core: sync job store is required'')), s)
      else case normalizeCreateSyncJobRequest (sv_text s) req of
        Inl parseErr \<Rightarrow> (Inl (sv_mapError s parseErr), s)
      | Inr (n, scope) \<Rightarrow>
          (case resolveSyncJobConnection s (cq_ProviderID n) scope (cq_ConnectionID n) of
             Inl resolveErr \<Rightarrow> (Inl (sv_mapError s resolveErr), s)
           | Inr connection \<Rightarrow>
               (case SyncJobStore_CreateSyncJob env (sv_syncJobStore s)
                    \<lparr>cs_ProviderID = cq_ProviderID n, cs_Scope = scope,
                     cs_ConnectionID = (case connection of None \<Rightarrow> [] | Some c \<Rightarrow> conn_ID c), cs_Mode = cq_Mode n,
                     cs_IdempotencyKey = cq_IdempotencyKey n, cs_RequestedBy = cq_RequestedBy n,
                     cs_Metadata = copyAnyMap (cq_Metadata n)\<rparr> of
                  (Inl createErr, st) \<Rightarrow> (Inl (sv_mapError s createErr), s\<lparr>sv_syncJobStore := st\<rparr>)
                | (Inr storeResult, st) \<Rightarrow> (Inr storeResult, s\<lparr>sv_syncJobStore := st\<rparr>))))"

definition Service_GetSyncJob :: "goerr option \<Rightarrow> sync_service \<Rightarrow> GetSyncJobRequest \<Rightarrow> SyncJob result" where
  "Service_GetSyncJob flt s req =
     (if sv_syncJobStore s = None then Inl (sv_mapError s (Plain ''core: sync job store is required''))
      else case normalizeGetSyncJobRequest (sv_text s) req of
        Inl parseErr \<Rightarrow> Inl (sv_mapError s parseErr)
      | Inr (n, guard) \<Rightarrow>
          let notFound = Inl (sv_mapError s (errorf_w ErrSyncJobNotFound (''id '' @ quote (gq_SyncJobID n)))) in
          (case SyncJobStore_GetSyncJob flt (sv_syncJobStore s) (gq_SyncJobID n) of
             Inl err \<Rightarrow> Inl (sv_mapError s err)
           | Inr job \<Rightarrow>
               if gq_ProviderID n \<noteq> [] \<and> \<not> EqualFold (TrimSpace (job_ProviderID job)) (gq_ProviderID n) then notFound
               else if gq_ConnectionID n \<noteq> [] \<and> \<not> EqualFold (TrimSpace (job_ConnectionID job)) (gq_ConnectionID n) then notFound
               else case guard of
                 None \<Rightarrow> Inr job
               | Some scope \<Rightarrow>
                   (case sv_getConnection s of
                      None \<Rightarrow> Inl (sv_mapError s (Plain ''core: connection store is required for sync job scope guard''))
                    | Some get \<Rightarrow>
                        (case get (TrimSpace (job_ConnectionID job)) of
                           Inl _ \<Rightarrow> notFound
                         | Inr connection \<Rightarrow>
                             if \<not> EqualFold (TrimSpace (conn_ScopeType connection)) (scope_Type scope) \<or>
                                TrimSpace (conn_ScopeID connection) \<noteq> scope_ID scope then notFound
                             else Inr job))))"

text \<open>
  Reading a sync job never crosses scopes. When a request that names a scope gets a job, the connection
  of that job, as the connection store has it, belongs to the scope of the request.
\<close>

theorem get_sync_job_scope_guard:
  assumes "Service_GetSyncJob flt s req = Inr job" and "TrimSpace (gq_ScopeType req) \<noteq> []"
  shows "\<exists>get c. sv_getConnection s = Some get \<and> get (TrimSpace (job_ConnectionID job)) = Inr c \<and>
    EqualFold (TrimSpace (conn_ScopeType c)) (TrimSpace (gq_ScopeType req)) \<and>
    TrimSpace (conn_ScopeID c) = TrimSpace (gq_ScopeID req)"
proof -
  have "TrimSpace (ToLower (gq_ScopeType req)) \<noteq> []" using assms(2) by (simp add: TrimSpace_ToLower)
  moreover have "EqualFold x (TrimSpace (ToLower y)) = EqualFold x (TrimSpace y)" for x y
    by (simp add: EqualFold_def TrimSpace_ToLower)
  ultimately show ?thesis
    using assms(1)
    by (auto simp: Service_GetSyncJob_def normalizeGetSyncJobRequest_def Let_def split: if_splits sum.splits option.splits)
qed

definition sample_service :: sync_service where
  "sample_service =
     \<lparr>sv_syncJobStore = Some \<lparr>tb_jobs = [newSyncJobRecord (sample_job\<lparr>job_ID := ''j1'', job_ConnectionID := ''c1''\<rparr>) 5], tb_keys = []\<rparr>,
      sv_getConnection = Some (\<lambda>x. if x = ''c1'' then Inr (sample_connection\<lparr>conn_ScopeType := ''org'', conn_ScopeID := ''o1''\<rparr>)
        else Inl (Plain ''not found'')),
      sv_resolve = (\<lambda>_ _. Inr (resolution ConnectionResolutionNotFound None [])), sv_mapError = (\<lambda>e. e), sv_text = (\<lambda>_. [])\<rparr>"

definition sample_get :: GetSyncJobRequest where
  "sample_get = \<lparr>gq_SyncJobID = ''j1 '', gq_ProviderID = [], gq_ScopeType = ''Org'', gq_ScopeID = ''o1'', gq_ConnectionID = []\<rparr>"

theorem get_sync_job_scope_guard_witness:
  "\<exists>job. Service_GetSyncJob None sample_service sample_get = Inr job \<and>
    (\<exists>get c. sv_getConnection sample_service = Some get \<and> get (TrimSpace (job_ConnectionID job)) = Inr c \<and>
      EqualFold (TrimSpace (conn_ScopeType c)) (TrimSpace ''Org'') \<and> TrimSpace (conn_ScopeID c) = TrimSpace ''o1'')"
proof -
  let ?job = "projr (Service_GetSyncJob None sample_service sample_get)"
  have r: "Service_GetSyncJob None sample_service sample_get = Inr ?job" by code_simp
  moreover have "TrimSpace (gq_ScopeType sample_get) \<noteq> []" by code_simp
  ultimately show ?thesis
    using get_sync_job_scope_guard [of None sample_service sample_get ?job]
    by (intro exI [of _ ?job]) (simp add: sample_get_def)
qed

end
