(* ===== verification/Sync_Cursors.thy ===== *)
theory Sync_Cursors
  imports Sql_Table
begin

text \<open>
  Sync cursors: the SQL store of \<open>src/store/sql/sync_cursor_store.go\<close> with its adapters, and the service
  operations of \<open>src/core/service_sync_cursor.go\<close>. \<open>Advance\<close> is a compare-and-set on the cursor of a
  resource. It is written here as the read of its transaction followed by the write, so that two calls
  can also be interleaved.
\<close>

section \<open>The SQL store\<close>

record syncCursorRecord =
  sc_ID :: string
  sc_ConnectionID :: string
  sc_ProviderID :: string
  sc_ResourceType :: string
  sc_ResourceID :: string
  sc_Cursor :: string
  sc_Status :: string
  sc_LastSyncedAt :: "int option"
  sc_Metadata :: meta
  sc_CreatedAt :: int
  sc_UpdatedAt :: int

type_synonym cursor_table = "syncCursorRecord list"

type_synonym cursor_key = "string \<times> string \<times> string \<times> string"

record UpsertSyncCursorInput =
  uc_ConnectionID :: string
  uc_ProviderID :: string
  uc_ResourceType :: string
  uc_ResourceID :: string
  uc_Cursor :: string
  uc_LastSyncedAt :: "int option"
  uc_Status :: string
  uc_Metadata :: meta

record AdvanceSyncCursorInput = UpsertSyncCursorInput +
  ac_ExpectedCursor :: string

definition newSyncCursorRecord :: "UpsertSyncCursorInput \<Rightarrow> int \<Rightarrow> syncCursorRecord" where
  "newSyncCursorRecord i now =
     \<lparr>sc_ID = [], sc_ConnectionID = uc_ConnectionID i, sc_ProviderID = uc_ProviderID i, sc_ResourceType = uc_ResourceType i,
      sc_ResourceID = uc_ResourceID i, sc_Cursor = uc_Cursor i, sc_Status = uc_Status i, sc_LastSyncedAt = uc_LastSyncedAt i,
      sc_Metadata = copyAnyMap (uc_Metadata i), sc_CreatedAt = now, sc_UpdatedAt = now\<rparr>"

definition syncCursorRecord_toDomain :: "syncCursorRecord \<Rightarrow> SyncCursor" where
  "syncCursorRecord_toDomain r =
     \<lparr>cur_ID = sc_ID r, cur_ConnectionID = sc_ConnectionID r, cur_ProviderID = sc_ProviderID r,
      cur_ResourceType = sc_ResourceType r, cur_ResourceID = sc_ResourceID r, cur_Cursor = sc_Cursor r,
      cur_LastSyncedAt = (case sc_LastSyncedAt r of None \<Rightarrow> 0 | Some value \<Rightarrow> value), cur_Status = sc_Status r,
      cur_Metadata = copyAnyMap (sc_Metadata r), cur_CreatedAt = sc_CreatedAt r, cur_UpdatedAt = sc_UpdatedAt r\<rparr>"

abbreviation cursors_not_configured :: goerr where
  "cursors_not_configured \<equiv> Plain ''sqlstore: sync cursor store is not configured''"

text \<open>The columns under the unique constraint.\<close>

definition cursor_key :: "syncCursorRecord \<Rightarrow> cursor_key" where
  "cursor_key r = (sc_ConnectionID r, sc_ProviderID r, sc_ResourceType r, sc_ResourceID r)"

definition input_key :: "'a UpsertSyncCursorInput_scheme \<Rightarrow> cursor_key" where
  "input_key i = (uc_ConnectionID i, uc_ProviderID i, uc_ResourceType i, uc_ResourceID i)"

definition insert_cursor :: "goerr \<Rightarrow> syncCursorRecord \<Rightarrow> cursor_table \<Rightarrow> cursor_table result" where
  "insert_cursor uniq r t =
     (if sc_ID r \<in> sc_ID ` set t \<or> cursor_key r \<in> cursor_key ` set t then Inl uniq else Inr (t @ [r]))"

text \<open>The lookup does not name the provider: the row changed last wins.\<close>

definition SyncCursorStore_Get ::
  "goerr option \<Rightarrow> cursor_table option \<Rightarrow> string \<Rightarrow> string \<Rightarrow> string \<Rightarrow> SyncCursor result" where
  "SyncCursorStore_Get flt receiver connectionID resourceType resourceID =
     (case receiver of None \<Rightarrow> Inl cursors_not_configured | Some t \<Rightarrow>
      let connectionID = TrimSpace connectionID; resourceType = TrimSpace resourceType; resourceID = TrimSpace resourceID in
      if connectionID = [] \<or> resourceType = [] \<or> resourceID = []
      then Inl (Plain ''sqlstore: connection id, resource type, and resource id are required'')
      else case flt of Some err \<Rightarrow> Inl err | None \<Rightarrow>
        (case sort_key (\<lambda>r. - sc_UpdatedAt r)
            (filter (\<lambda>r. sc_ConnectionID r = connectionID \<and> sc_ResourceType r = resourceType \<and> sc_ResourceID r = resourceID) t) of
           [] \<Rightarrow> Inl (Plain ''sqlstore: sync cursor not found'')
         | record # _ \<Rightarrow> Inr (syncCursorRecord_toDomain record)))"

definition findSyncCursorTx ::
  "goerr option \<Rightarrow> cursor_table \<Rightarrow> string \<Rightarrow> string \<Rightarrow> string \<Rightarrow> string \<Rightarrow> (syncCursorRecord option) result" where
  "findSyncCursorTx flt t connectionID providerID resourceType resourceID =
     (case flt of Some err \<Rightarrow> Inl err | None \<Rightarrow>
      Inr (find (\<lambda>r. cursor_key r = (TrimSpace connectionID, TrimSpace providerID, TrimSpace resourceType, TrimSpace resourceID)) t))"

definition SyncCursorStore_Upsert ::
  "sql_env \<Rightarrow> cursor_table option \<Rightarrow> UpsertSyncCursorInput \<Rightarrow> SyncCursor result \<times> cursor_table option" where
  "SyncCursorStore_Upsert env receiver input =
     (case receiver of None \<Rightarrow> (Inl cursors_not_configured, receiver) | Some t \<Rightarrow>
      let i = input\<lparr>uc_ConnectionID := TrimSpace (uc_ConnectionID input), uc_ProviderID := TrimSpace (uc_ProviderID input),
            uc_ResourceType := TrimSpace (uc_ResourceType input), uc_ResourceID := TrimSpace (uc_ResourceID input),
            uc_Cursor := TrimSpace (uc_Cursor input), uc_Status := TrimSpace (uc_Status input)\<rparr> in
      if uc_ConnectionID i = [] \<or> uc_ProviderID i = []
      then (Inl (Plain ''sqlstore: connection id and provider id are required''), receiver)
      else if uc_ResourceType i = [] \<or> uc_ResourceID i = []
      then (Inl (Plain ''sqlstore: resource type and resource id are required''), receiver)
      else if uc_Cursor i = [] then (Inl (Plain ''sqlstore: cursor is required''), receiver)
      else
        let i = (if uc_Status i = [] then i\<lparr>uc_Status := ''active''\<rparr> else i); now = se_now env;
            look = (\<lambda>n. findSyncCursorTx (se_flt env n) t (uc_ConnectionID i) (uc_ProviderID i) (uc_ResourceType i) (uc_ResourceID i))
        in case look 0 of
             Inl err \<Rightarrow> (Inl err, receiver)
           | Inr None \<Rightarrow>
               let record = (newSyncCursorRecord i now)\<lparr>sc_ID := se_id env\<rparr> in
               (case (case se_flt env 1 of Some err \<Rightarrow> Inl err | None \<Rightarrow> insert_cursor (se_uniq env) record t) of
                  Inr t' \<Rightarrow> (Inr (syncCursorRecord_toDomain record), Some t')
                | Inl insertErr \<Rightarrow>
                    if isUniqueViolation (se_render env) insertErr
                    then (case look 2 of
                            Inl err \<Rightarrow> (Inl err, receiver)
                          | Inr None \<Rightarrow> (Inl insertErr, receiver)
                          | Inr (Some existing) \<Rightarrow> (Inr (syncCursorRecord_toDomain existing), receiver))
                    else (Inl insertErr, receiver))
           | Inr (Some record) \<Rightarrow>
               let record = record\<lparr>sc_Cursor := uc_Cursor i, sc_Status := uc_Status i, sc_Metadata := copyAnyMap (uc_Metadata i),
                     sc_UpdatedAt := now, sc_LastSyncedAt := uc_LastSyncedAt i\<rparr> in
               (case se_flt env 1 of
                  Some updateErr \<Rightarrow> (Inl updateErr, receiver)
                | None \<Rightarrow> (Inr (syncCursorRecord_toDomain record),
                    Some (update_where (\<lambda>r. sc_ID r = sc_ID record) (\<lambda>_. record) t))))"

text \<open>
  The two halves of the transaction of \<open>Advance\<close>: what it does after its read, as the row to insert or
  the row to write, and the statement that does it.
\<close>

datatype cursor_write = InsertCursor syncCursorRecord | WriteCursor syncCursorRecord

definition advance_read ::
  "sql_env \<Rightarrow> cursor_table \<Rightarrow> UpsertSyncCursorInput \<Rightarrow> string \<Rightarrow> cursor_write result" where
  "advance_read env t i expectedCursor =
     (case findSyncCursorTx (se_flt env 0) t (uc_ConnectionID i) (uc_ProviderID i) (uc_ResourceType i) (uc_ResourceID i) of
        Inl err \<Rightarrow> Inl err
      | Inr None \<Rightarrow>
          if expectedCursor \<noteq> [] then Inl (Sentinel ErrSyncCursorConflict)
          else Inr (InsertCursor ((newSyncCursorRecord i (se_now env))\<lparr>sc_ID := se_id env\<rparr>))
      | Inr (Some record) \<Rightarrow>
          if expectedCursor \<noteq> [] \<and> \<not> EqualFold (sc_Cursor record) expectedCursor then Inl (Sentinel ErrSyncCursorConflict)
          else Inr (WriteCursor (record\<lparr>sc_Cursor := uc_Cursor i, sc_Status := uc_Status i,
                 sc_Metadata := copyAnyMap (uc_Metadata i), sc_UpdatedAt := se_now env,
                 sc_LastSyncedAt := (case uc_LastSyncedAt i of Some value \<Rightarrow> Some value | None \<Rightarrow> sc_LastSyncedAt record)\<rparr>)))"

fun advance_write :: "sql_env \<Rightarrow> cursor_table \<Rightarrow> cursor_write \<Rightarrow> SyncCursor result \<times> cursor_table" where
  "advance_write env t (InsertCursor record) =
     (case (case se_flt env 1 of Some err \<Rightarrow> Inl err | None \<Rightarrow> insert_cursor (se_uniq env) record t) of
        Inl insertErr \<Rightarrow> (Inl insertErr, t)
      | Inr t' \<Rightarrow> (Inr (syncCursorRecord_toDomain record), t'))"
| "advance_write env t (WriteCursor record) =
     (case se_flt env 1 of
        Some updateErr \<Rightarrow> (Inl updateErr, t)
      | None \<Rightarrow> (Inr (syncCursorRecord_toDomain record), update_where (\<lambda>r. sc_ID r = sc_ID record) (\<lambda>_. record) t))"

definition advance_input :: "AdvanceSyncCursorInput \<Rightarrow> UpsertSyncCursorInput" where
  "advance_input input =
     \<lparr>uc_ConnectionID = TrimSpace (uc_ConnectionID input), uc_ProviderID = TrimSpace (uc_ProviderID input),
      uc_ResourceType = TrimSpace (uc_ResourceType input), uc_ResourceID = TrimSpace (uc_ResourceID input),
      uc_Cursor = TrimSpace (uc_Cursor input), uc_LastSyncedAt = uc_LastSyncedAt input,
      uc_Status = (if TrimSpace (uc_Status input) = [] then ''active'' else TrimSpace (uc_Status input)),
      uc_Metadata = copyAnyMap (uc_Metadata input)\<rparr>"

definition SyncCursorStore_Advance ::
  "sql_env \<Rightarrow> cursor_table option \<Rightarrow> AdvanceSyncCursorInput \<Rightarrow> SyncCursor result \<times> cursor_table option" where
  "SyncCursorStore_Advance env receiver input =
     (case receiver of None \<Rightarrow> (Inl cursors_not_configured, receiver) | Some t \<Rightarrow>
      let i = advance_input input; expectedCursor = TrimSpace (ac_ExpectedCursor input) in
      if uc_ConnectionID i = [] \<or> uc_ProviderID i = []
      then (Inl (Plain ''sqlstore: connection id and provider id are required''), receiver)
      else if uc_ResourceType i = [] \<or> uc_ResourceID i = []
      then (Inl (Plain ''sqlstore: resource type and resource id are required''), receiver)
      else if uc_Cursor i = [] then (Inl (Plain ''sqlstore: cursor is required''), receiver)
      else case advance_read env t i expectedCursor of
          Inl err \<Rightarrow> (Inl err, receiver)
        | Inr write \<Rightarrow> (case advance_write env t write of (r, t') \<Rightarrow> (r, Some t')))"

section \<open>The service operations\<close>

record ('s) cursor_store_ops =
  co_Get :: "'s \<Rightarrow> string \<Rightarrow> string \<Rightarrow> string \<Rightarrow> SyncCursor result"
  co_Advance :: "'s \<Rightarrow> AdvanceSyncCursorInput \<Rightarrow> SyncCursor result \<times> 's"

definition Service_LoadSyncCursor ::
  "(goerr \<Rightarrow> goerr) \<Rightarrow> ('s cursor_store_ops \<times> 's) option \<Rightarrow> string \<Rightarrow> string \<Rightarrow> string \<Rightarrow> SyncCursor result" where
  "Service_LoadSyncCursor mapError store connectionID resourceType resourceID =
     (case store of
        None \<Rightarrow> Inl (mapError (Plain ''core: sync cursor store is required''))
      | Some (ops, s) \<Rightarrow> co_Get ops s (TrimSpace connectionID) (TrimSpace resourceType) (TrimSpace resourceID))"

definition Service_AdvanceSyncCursor ::
  "(goerr \<Rightarrow> goerr) \<Rightarrow> ('s cursor_store_ops \<times> 's) option \<Rightarrow> AdvanceSyncCursorInput \<Rightarrow>
     SyncCursor result \<times> ('s cursor_store_ops \<times> 's) option" where
  "Service_AdvanceSyncCursor mapError store input =
     (case store of
        None \<Rightarrow> (Inl (mapError (Plain ''core: sync cursor store is required'')), store)
      | Some (ops, s) \<Rightarrow>
          let i = input\<lparr>uc_ConnectionID := TrimSpace (uc_ConnectionID input), uc_ProviderID := TrimSpace (uc_ProviderID input),
                uc_ResourceType := TrimSpace (uc_ResourceType input), uc_ResourceID := TrimSpace (uc_ResourceID input),
                ac_ExpectedCursor := TrimSpace (ac_ExpectedCursor input), uc_Cursor := TrimSpace (uc_Cursor input),
                uc_Status := TrimSpace (uc_Status input)\<rparr> in
          if uc_ConnectionID i = [] \<or> uc_ProviderID i = []
          then (Inl (mapError (Plain ''core: connection id and provider id are required'')), store)
          else if uc_ResourceType i = [] \<or> uc_ResourceID i = []
          then (Inl (mapError (Plain ''core: resource type and resource id are required'')), store)
          else if uc_Cursor i = [] then (Inl (mapError (Plain ''core: cursor is required'')), store)
          else (case co_Advance ops s i of
                  (Inl err, s') \<Rightarrow> (Inl (mapError err), Some (ops, s'))
                | (Inr cursor, s') \<Rightarrow> (Inr cursor, Some (ops, s'))))"

section \<open>The abstract compare-and-set\<close>

definition cas_matches :: "string option \<Rightarrow> string \<Rightarrow> bool" where
  "cas_matches current expected \<longleftrightarrow>
     expected = [] \<or> (case current of None \<Rightarrow> False | Some c \<Rightarrow> EqualFold c expected)"

text \<open>What a cursor store owes its clients, on inputs that are trimmed and complete.\<close>

definition complete_input :: "AdvanceSyncCursorInput \<Rightarrow> bool" where
  "complete_input i \<longleftrightarrow> uc_ConnectionID i \<noteq> [] \<and> uc_ProviderID i \<noteq> [] \<and> uc_ResourceType i \<noteq> [] \<and>
     uc_ResourceID i \<noteq> [] \<and> uc_Cursor i \<noteq> []"

definition trim_input :: "AdvanceSyncCursorInput \<Rightarrow> AdvanceSyncCursorInput" where
  "trim_input input = input\<lparr>uc_ConnectionID := TrimSpace (uc_ConnectionID input), uc_ProviderID := TrimSpace (uc_ProviderID input),
     uc_ResourceType := TrimSpace (uc_ResourceType input), uc_ResourceID := TrimSpace (uc_ResourceID input),
     ac_ExpectedCursor := TrimSpace (ac_ExpectedCursor input), uc_Cursor := TrimSpace (uc_Cursor input),
     uc_Status := TrimSpace (uc_Status input)\<rparr>"

locale cas_store =
  fixes ops :: "'s cursor_store_ops"
    and inv :: "'s \<Rightarrow> bool"
    and view :: "'s \<Rightarrow> cursor_key \<Rightarrow> string option"
  assumes advance_match: "inv s \<Longrightarrow> complete_input (trim_input i) \<Longrightarrow>
      cas_matches (view s (input_key (trim_input i))) (TrimSpace (ac_ExpectedCursor i)) \<Longrightarrow>
      \<exists>c s'. co_Advance ops s (trim_input i) = (Inr c, s') \<and> cur_Cursor c = TrimSpace (uc_Cursor i) \<and>
        view s' = (view s)(input_key (trim_input i) \<mapsto> TrimSpace (uc_Cursor i))"
    and advance_conflict: "inv s \<Longrightarrow> complete_input (trim_input i) \<Longrightarrow>
      \<not> cas_matches (view s (input_key (trim_input i))) (TrimSpace (ac_ExpectedCursor i)) \<Longrightarrow>
      co_Advance ops s (trim_input i) = (Inl (Sentinel ErrSyncCursorConflict), s)"
begin

lemma service_advance_complete:
  assumes "complete_input (trim_input i)"
  shows "Service_AdvanceSyncCursor mapError (Some (ops, s)) i =
    (case co_Advance ops s (trim_input i) of
       (Inl err, s') \<Rightarrow> (Inl (mapError err), Some (ops, s')) | (Inr cursor, s') \<Rightarrow> (Inr cursor, Some (ops, s')))"
  using assms by (simp add: Service_AdvanceSyncCursor_def complete_input_def trim_input_def Let_def)

lemma service_advance_cas:
  assumes "inv s" and "complete_input (trim_input i)"
  shows "\<exists>r s'. Service_AdvanceSyncCursor mapError (Some (ops, s)) i = (r, Some (ops, s')) \<and>
    (let k = input_key (trim_input i) in
     if cas_matches (view s k) (TrimSpace (ac_ExpectedCursor i))
     then (\<exists>c. r = Inr c \<and> cur_Cursor c = TrimSpace (uc_Cursor i)) \<and> view s' = (view s)(k \<mapsto> TrimSpace (uc_Cursor i))
     else r = Inl (mapError (Sentinel ErrSyncCursorConflict)) \<and> s' = s)"
proof (cases "cas_matches (view s (input_key (trim_input i))) (TrimSpace (ac_ExpectedCursor i))")
  case True
  then show ?thesis
    using advance_match [OF assms True] by (auto simp: service_advance_complete [OF assms(2)] Let_def)
next
  case False
  then show ?thesis
    using advance_conflict [OF assms False] by (auto simp: service_advance_complete [OF assms(2)] Let_def)
qed

end

text \<open>The SQL store is such a store, on tables whose constraints hold and with a database that does not fail.\<close>

definition cursors_ok :: "sql_env \<Rightarrow> cursor_table option \<Rightarrow> bool" where
  "cursors_ok env s \<longleftrightarrow> (\<exists>t. s = Some t \<and> distinct (map sc_ID t) \<and> distinct (map cursor_key t) \<and> se_id env \<notin> sc_ID ` set t) \<and>
     se_flt env 0 = None \<and> se_flt env 1 = None"

definition cursor_view :: "cursor_table option \<Rightarrow> cursor_key \<Rightarrow> string option" where
  "cursor_view s k = (case s of None \<Rightarrow> None | Some t \<Rightarrow> map_option sc_Cursor (find (\<lambda>r. cursor_key r = k) t))"

definition sql_cursor_ops :: "sql_env \<Rightarrow> cursor_table option cursor_store_ops" where
  "sql_cursor_ops env = \<lparr>co_Get = SyncCursorStore_Get (se_flt env 0), co_Advance = SyncCursorStore_Advance env\<rparr>"

lemma advance_input_trim [simp]:
  "uc_ConnectionID (advance_input (trim_input i)) = TrimSpace (uc_ConnectionID i)"
  "uc_ProviderID (advance_input (trim_input i)) = TrimSpace (uc_ProviderID i)"
  "uc_ResourceType (advance_input (trim_input i)) = TrimSpace (uc_ResourceType i)"
  "uc_ResourceID (advance_input (trim_input i)) = TrimSpace (uc_ResourceID i)"
  "uc_Cursor (advance_input (trim_input i)) = TrimSpace (uc_Cursor i)"
  "TrimSpace (ac_ExpectedCursor (trim_input i)) = TrimSpace (ac_ExpectedCursor i)"
  by (simp_all add: advance_input_def trim_input_def)

lemma input_key_trim: "input_key (trim_input i) = (TrimSpace (uc_ConnectionID i), TrimSpace (uc_ProviderID i),
    TrimSpace (uc_ResourceType i), TrimSpace (uc_ResourceID i))"
  by (simp add: input_key_def trim_input_def)

lemma Advance_complete:
  assumes "complete_input (trim_input i)"
  shows "SyncCursorStore_Advance env (Some t) (trim_input i) =
    (case advance_read env t (advance_input (trim_input i)) (TrimSpace (ac_ExpectedCursor i)) of
       Inl err \<Rightarrow> (Inl err, Some t)
     | Inr write \<Rightarrow> (case advance_write env t write of (r, t') \<Rightarrow> (r, Some t')))"
  using assms by (simp add: SyncCursorStore_Advance_def complete_input_def Let_def) (simp add: trim_input_def)

lemma find_update_row:
  assumes "distinct (map ident t)" and "distinct (map key t)" and "find (\<lambda>r. key r = k) t = Some row"
    and "ident row' = ident row" and "key row' = key row"
  shows "find (\<lambda>r. key r = y) (update_where (\<lambda>r. ident r = ident row') (\<lambda>_. row') t) =
    (if y = k then Some row' else find (\<lambda>r. key r = y) t)"
proof -
  have row: "row \<in> set t" "key row = k" using assms(2,3) by (simp_all add: find_unique)
  have same: "(ident r = ident row') = (key r = k)" if "r \<in> set t" for r
    using that row assms(1,2,4) by (metis distinct_map inj_on_def)
  then have "update_where (\<lambda>r. ident r = ident row') (\<lambda>_. row') t = update_where (\<lambda>r. key r = k) (\<lambda>_. row') t"
    by (simp add: update_where_def)
  then show ?thesis
    using find_update_where [of key "\<lambda>_. row'" k y t] row assms(3,5) by simp
qed

lemma map_key_update_row:
  assumes "distinct (map ident t)" and "row \<in> set t" and "ident row' = ident row" and "key row' = key row"
  shows "map key (update_where (\<lambda>r. ident r = ident row') (\<lambda>_. row') t) = map key t"
proof -
  have "r = row" if "r \<in> set t" "ident r = ident row'" for r
    using that assms by (simp add: distinct_map inj_on_def)
  then show ?thesis using assms(4) by (auto simp: update_where_def)
qed

lemma sql_advance_match:
  assumes ok: "cursors_ok env s" and c: "complete_input (trim_input i)"
    and m: "cas_matches (cursor_view s (input_key (trim_input i))) (TrimSpace (ac_ExpectedCursor i))"
  shows "\<exists>c s'. SyncCursorStore_Advance env s (trim_input i) = (Inr c, s') \<and> cur_Cursor c = TrimSpace (uc_Cursor i) \<and>
    cursor_view s' = (cursor_view s)(input_key (trim_input i) \<mapsto> TrimSpace (uc_Cursor i))"
proof -
  let ?k = "input_key (trim_input i)"
  obtain t where t: "s = Some t" "distinct (map sc_ID t)" "distinct (map cursor_key t)" "se_id env \<notin> sc_ID ` set t"
    and flt: "se_flt env 0 = None" "se_flt env 1 = None"
    using ok by (auto simp: cursors_ok_def)
  show ?thesis
  proof (cases "find (\<lambda>r. cursor_key r = ?k) t")
    case None
    let ?r = "(newSyncCursorRecord (advance_input (trim_input i)) (se_now env))\<lparr>sc_ID := se_id env\<rparr>"
    have k: "cursor_key ?r = ?k" by (simp add: cursor_key_def newSyncCursorRecord_def input_key_trim)
    then have "cursor_key ?r \<notin> cursor_key ` set t" using None by (simp add: find_none)
    then have "SyncCursorStore_Advance env s (trim_input i) = (Inr (syncCursorRecord_toDomain ?r), Some (t @ [?r]))"
      using None m t flt
      by (simp add: Advance_complete [OF c] advance_read_def findSyncCursorTx_def input_key_trim cas_matches_def cursor_view_def
          insert_cursor_def)
    moreover have "cursor_view (Some (t @ [?r])) = (cursor_view s)(?k \<mapsto> TrimSpace (uc_Cursor i))"
      using None k t(1) by (auto simp: cursor_view_def find_append fun_eq_iff newSyncCursorRecord_def split: option.splits)
    ultimately show ?thesis by (simp add: syncCursorRecord_toDomain_def newSyncCursorRecord_def)
  next
    case (Some row)
    let ?i = "advance_input (trim_input i)"
    let ?r = "row\<lparr>sc_Cursor := uc_Cursor ?i, sc_Status := uc_Status ?i, sc_Metadata := copyAnyMap (uc_Metadata ?i),
      sc_UpdatedAt := se_now env, sc_LastSyncedAt := (case uc_LastSyncedAt ?i of Some v \<Rightarrow> Some v | None \<Rightarrow> sc_LastSyncedAt row)\<rparr>"
    let ?t = "update_where (\<lambda>r. sc_ID r = sc_ID ?r) (\<lambda>_. ?r) t"
    have "SyncCursorStore_Advance env s (trim_input i) = (Inr (syncCursorRecord_toDomain ?r), Some ?t)"
      using Some m t flt
      by (auto simp: Advance_complete [OF c] advance_read_def findSyncCursorTx_def input_key_trim cas_matches_def cursor_view_def)
    moreover have "find (\<lambda>r. cursor_key r = y) ?t = (if y = ?k then Some ?r else find (\<lambda>r. cursor_key r = y) t)" for y
      by (rule find_update_row [OF t(2,3) Some]) (simp_all add: cursor_key_def)
    then have "cursor_view (Some ?t) = (cursor_view s)(?k \<mapsto> TrimSpace (uc_Cursor i))"
      using t(1) by (simp add: cursor_view_def fun_eq_iff)
    ultimately show ?thesis by (simp add: syncCursorRecord_toDomain_def)
  qed
qed

lemma sql_advance_conflict:
  assumes ok: "cursors_ok env s" and c: "complete_input (trim_input i)"
    and m: "\<not> cas_matches (cursor_view s (input_key (trim_input i))) (TrimSpace (ac_ExpectedCursor i))"
  shows "SyncCursorStore_Advance env s (trim_input i) = (Inl (Sentinel ErrSyncCursorConflict), s)"
  using ok m
  by (auto simp: cursors_ok_def Advance_complete [OF c] advance_read_def findSyncCursorTx_def input_key_trim cas_matches_def
      cursor_view_def split: option.splits)

interpretation sqlc: cas_store "sql_cursor_ops env" "cursors_ok env" cursor_view
  by unfold_locales (simp_all add: sql_cursor_ops_def sql_advance_match sql_advance_conflict)


definition sample_cursor_env :: sql_env where
  "sample_cursor_env = \<lparr>se_id = ''n1'', se_id2 = [], se_now = 9, se_uniq = Plain ''UNIQUE constraint failed'',
     se_render = (\<lambda>_. []), se_flt = no_faults\<rparr>"

definition sample_row :: syncCursorRecord where
  "sample_row = \<lparr>sc_ID = ''r1'', sc_ConnectionID = ''c'', sc_ProviderID = ''p'', sc_ResourceType = ''drive'', sc_ResourceID = ''d'',
     sc_Cursor = ''aBc'', sc_Status = ''active'', sc_LastSyncedAt = None, sc_Metadata = [], sc_CreatedAt = 1, sc_UpdatedAt = 1\<rparr>"

definition sample_advance :: "string \<Rightarrow> string \<Rightarrow> AdvanceSyncCursorInput" where
  "sample_advance expected cursor = \<lparr>uc_ConnectionID = ''c'', uc_ProviderID = ''p'', uc_ResourceType = ''drive'',
     uc_ResourceID = ''d'', uc_Cursor = cursor, uc_LastSyncedAt = None, uc_Status = [], uc_Metadata = [],
     ac_ExpectedCursor = expected\<rparr>"

lemma sample_cursors_ok: "cursors_ok sample_cursor_env (Some [sample_row])"
  by (simp add: cursors_ok_def sample_cursor_env_def sample_row_def)


text \<open>
  The compare-and-set holds only between transactions that do not overlap. The check is made on the row
  as it was read, and the write names the row by its id alone: when two calls that expect the same cursor
  both read before either writes, and they start from the cursor they expect, both succeed and the first
  write is lost.
\<close>

theorem cursor_advance_lost_update:
  assumes "distinct (map sc_ID t)" and "distinct (map cursor_key t)"
    and "find (\<lambda>r. cursor_key r = input_key i) t = Some row" and "input_key j = input_key i"
    and "input_key i = (TrimSpace (uc_ConnectionID i), TrimSpace (uc_ProviderID i), TrimSpace (uc_ResourceType i), TrimSpace (uc_ResourceID i))"
    and "se_flt env = no_faults"
  shows "\<exists>w v t1 t2 a b. advance_read env t i (sc_Cursor row) = Inr w \<and> advance_read env t j (sc_Cursor row) = Inr v \<and>
    advance_write env t w = (Inr a, t1) \<and> advance_write env t1 v = (Inr b, t2) \<and>
    cursor_view (Some t2) (input_key i) = Some (uc_Cursor j)"
proof -
  let ?w = "\<lambda>i. row\<lparr>sc_Cursor := uc_Cursor i, sc_Status := uc_Status i, sc_Metadata := copyAnyMap (uc_Metadata i),
      sc_UpdatedAt := se_now env, sc_LastSyncedAt := (case uc_LastSyncedAt i of Some v \<Rightarrow> Some v | None \<Rightarrow> sc_LastSyncedAt row)\<rparr>"
  let ?upd = "\<lambda>r t. update_where (\<lambda>x. sc_ID x = sc_ID r) (\<lambda>_. r) t"
  have w: "advance_read env t i (sc_Cursor row) = Inr (WriteCursor (?w i))"
    "advance_read env t j (sc_Cursor row) = Inr (WriteCursor (?w j))"
    using assms(3-6) by (auto simp: advance_read_def findSyncCursorTx_def input_key_def)
  have row: "row \<in> set t" "cursor_key row = input_key i" using assms(2,3) by (simp_all add: find_unique)
  have "map sc_ID (?upd (?w i) t) = map sc_ID t" "map cursor_key (?upd (?w i) t) = map cursor_key t"
    by (rule map_key_update_row [OF assms(1) row(1)]; simp add: cursor_key_def)+
  then have d: "distinct (map sc_ID (?upd (?w i) t))" "distinct (map cursor_key (?upd (?w i) t))" using assms(1,2) by metis+
  have f1: "find (\<lambda>r. cursor_key r = input_key i) (?upd (?w i) t) = Some (?w i)"
    using find_update_row [OF assms(1-3), of "?w i" "input_key i"] by (simp add: cursor_key_def)
  have f2: "find (\<lambda>r. cursor_key r = input_key i) (?upd (?w j) (?upd (?w i) t)) = Some (?w j)"
    using find_update_row [OF d f1, of "?w j" "input_key i"] by (simp add: cursor_key_def)
  show ?thesis using w f2 assms(6) by (simp add: cursor_view_def)
qed

theorem cursor_advance_lost_update_witness:
  "\<exists>w v t1 t2 a b. advance_read sample_cursor_env [sample_row] (advance_input (sample_advance ''aBc'' ''x'')) ''aBc'' = Inr w \<and>
    advance_read sample_cursor_env [sample_row] (advance_input (sample_advance ''aBc'' ''y'')) ''aBc'' = Inr v \<and>
    advance_write sample_cursor_env [sample_row] w = (Inr a, t1) \<and> advance_write sample_cursor_env t1 v = (Inr b, t2) \<and>
    cursor_view (Some t2) (''c'', ''p'', ''drive'', ''d'') = Some ''y''"
proof -
  let ?i = "advance_input (sample_advance ''aBc'' ''x'')" and ?j = "advance_input (sample_advance ''aBc'' ''y'')"
  have k: "input_key ?i = (''c'', ''p'', ''drive'', ''d'')" and y: "uc_Cursor ?j = ''y''" and c: "sc_Cursor sample_row = ''aBc''" by code_simp+
  have "distinct (map sc_ID [sample_row])" "distinct (map cursor_key [sample_row])" by simp_all
  moreover have "find (\<lambda>r. cursor_key r = input_key ?i) [sample_row] = Some sample_row" by code_simp
  moreover have "input_key ?j = input_key ?i" by code_simp
  moreover have "input_key ?i = (TrimSpace (uc_ConnectionID ?i), TrimSpace (uc_ProviderID ?i), TrimSpace (uc_ResourceType ?i),
      TrimSpace (uc_ResourceID ?i))" by code_simp
  moreover have "se_flt sample_cursor_env = no_faults" by (simp add: sample_cursor_env_def)
  ultimately show ?thesis
    using cursor_advance_lost_update [of "[sample_row]" ?i sample_row ?j sample_cursor_env] unfolding k y c by blast
qed

end
