(* ===== verification/Sync_Orchestrator.thy ===== *)
theory Sync_Orchestrator
  imports Sync_Jobs Sync_Cursors
begin

text \<open>
  The sync orchestrator of \<open>src/sync/orchestrator.go\<close>: it starts jobs, resumes them, and records
  checkpoints, completion and failure. What it needs of its job store is the locale \<open>job_store\<close>, which the
  SQL store of \<open>Sync_Jobs\<close> satisfies. The clock of each call is the argument \<open>now\<close>, the id that \<open>uuid\<close>
  draws is \<open>uuid\<close>, and \<open>rfc3339\<close> is the textual form of an instant.
\<close>

section \<open>The orchestrator\<close>

record 's job_store_ops =
  jo_Create :: "'s \<Rightarrow> SyncJob \<Rightarrow> SyncJob result \<times> 's"
  jo_Get :: "'s \<Rightarrow> string \<Rightarrow> SyncJob result"
  jo_Update :: "'s \<Rightarrow> SyncJob \<Rightarrow> SyncJob result \<times> 's"

record 's Orchestrator =
  orc_Jobs :: "'s job_store_ops option"
  orc_Cursors :: "(string \<Rightarrow> string \<Rightarrow> string \<Rightarrow> SyncCursor result) option"

record BootstrapRequest =
  br_ConnectionID :: string
  br_ProviderID :: string
  br_ResourceType :: string
  br_ResourceID :: string
  br_Metadata :: meta

record BackfillRequest = BootstrapRequest +
  br_From :: "int option"
  br_To :: "int option"

abbreviation orchestrator_unconfigured :: goerr where
  "orchestrator_unconfigured \<equiv> Plain ''sync: orchestrator requires sync job store''"

definition mergeAnyMap :: "meta \<Rightarrow> meta \<Rightarrow> meta" where
  "mergeAnyMap left right =
     (if length left = 0 \<and> length right = 0 then [] else maps_Copy (maps_Copy [] left) right)"

definition Orchestrator_start ::
  "string \<Rightarrow> int \<Rightarrow> 's Orchestrator option \<Rightarrow> 's \<Rightarrow> SyncJob \<Rightarrow> string \<Rightarrow> string \<Rightarrow> meta \<Rightarrow> SyncJob result \<times> 's" where
  "Orchestrator_start uuid now receiver s job resourceType resourceID metadata =
     (case (case receiver of None \<Rightarrow> None | Some orc \<Rightarrow> map_option (\<lambda>jobs. (orc, jobs)) (orc_Jobs orc)) of
        None \<Rightarrow> (Inl orchestrator_unconfigured, s)
      | Some (orc, jobs) \<Rightarrow>
          if TrimSpace (job_ConnectionID job) = [] \<or> TrimSpace (job_ProviderID job) = []
          then (Inl (Plain ''sync: connection id and provider id are required''), s)
          else
            let job = job\<lparr>job_ID := uuid, job_Attempts := 0, job_CreatedAt := now, job_UpdatedAt := now,
                  job_Metadata := mergeAnyMap (job_Metadata job) metadata\<rparr>;
                resourceType = TrimSpace resourceType; resourceID = TrimSpace resourceID;
                job = (case orc_Cursors orc of
                    None \<Rightarrow> job
                  | Some get \<Rightarrow>
                      if resourceType \<noteq> [] \<and> resourceID \<noteq> []
                      then (case get (job_ConnectionID job) resourceType resourceID of
                              Inl _ \<Rightarrow> job | Inr cursor \<Rightarrow> job\<lparr>job_Checkpoint := TrimSpace (cur_Cursor cursor)\<rparr>)
                      else job)
            in jo_Create jobs s job)"

definition queued_job :: "string \<Rightarrow> string \<Rightarrow> SyncJobMode \<Rightarrow> meta \<Rightarrow> SyncJob" where
  "queued_job connectionID providerID mode metadata =
     \<lparr>job_ID = [], job_ConnectionID = TrimSpace connectionID, job_ProviderID = TrimSpace providerID, job_Mode = mode,
      job_Checkpoint = [], job_Status = SyncJobStatusQueued, job_Attempts = 0, job_NextAttemptAt = None,
      job_Metadata = metadata, job_CreatedAt = 0, job_UpdatedAt = 0\<rparr>"

definition resource_meta :: "string \<Rightarrow> string \<Rightarrow> meta" where
  "resource_meta resourceType resourceID =
     [(''resource_type'', AStr (TrimSpace resourceType)), (''resource_id'', AStr (TrimSpace resourceID))]"

definition Orchestrator_StartBootstrap ::
  "string \<Rightarrow> int \<Rightarrow> 's Orchestrator option \<Rightarrow> 's \<Rightarrow> BootstrapRequest \<Rightarrow> SyncJob result \<times> 's" where
  "Orchestrator_StartBootstrap uuid now receiver s req =
     Orchestrator_start uuid now receiver s
       (queued_job (br_ConnectionID req) (br_ProviderID req) SyncJobModeBootstrap
          (resource_meta (br_ResourceType req) (br_ResourceID req)))
       (br_ResourceType req) (br_ResourceID req) (br_Metadata req)"

definition Orchestrator_StartBackfill ::
  "(int \<Rightarrow> string) \<Rightarrow> string \<Rightarrow> int \<Rightarrow> 's Orchestrator option \<Rightarrow> 's \<Rightarrow> BackfillRequest \<Rightarrow> SyncJob result \<times> 's" where
  "Orchestrator_StartBackfill rfc3339 uuid now receiver s req =
     (let metadata = resource_meta (br_ResourceType req) (br_ResourceID req);
          metadata = (case br_From req of None \<Rightarrow> metadata | Some t \<Rightarrow> AList.update ''from'' (AStr (rfc3339 t)) metadata);
          metadata = (case br_To req of None \<Rightarrow> metadata | Some t \<Rightarrow> AList.update ''to'' (AStr (rfc3339 t)) metadata)
      in Orchestrator_start uuid now receiver s
           (queued_job (br_ConnectionID req) (br_ProviderID req) SyncJobModeBackfill metadata)
           (br_ResourceType req) (br_ResourceID req) (br_Metadata req))"

definition Orchestrator_StartIncremental ::
  "string \<Rightarrow> int \<Rightarrow> 's Orchestrator option \<Rightarrow> 's \<Rightarrow> string \<Rightarrow> string \<Rightarrow> string \<Rightarrow> string \<Rightarrow> meta \<Rightarrow> SyncJob result \<times> 's" where
  "Orchestrator_StartIncremental uuid now receiver s connectionID providerID resourceType resourceID metadata =
     Orchestrator_start uuid now receiver s
       (queued_job connectionID providerID SyncJobModeIncremental (resource_meta resourceType resourceID))
       resourceType resourceID metadata"

text \<open>The store of a configured orchestrator.\<close>

definition orc_store :: "'s Orchestrator option \<Rightarrow> 's job_store_ops option" where
  "orc_store receiver = (case receiver of None \<Rightarrow> None | Some orc \<Rightarrow> orc_Jobs orc)"

definition Orchestrator_Resume :: "int \<Rightarrow> 's Orchestrator option \<Rightarrow> 's \<Rightarrow> string \<Rightarrow> goerr option \<times> 's" where
  "Orchestrator_Resume now receiver s jobID =
     (case orc_store receiver of None \<Rightarrow> (Some orchestrator_unconfigured, s) | Some jobs \<Rightarrow>
      let jobID = TrimSpace jobID in
      if jobID = [] then (Some (Plain ''sync: job id is required''), s)
      else case jo_Get jobs s jobID of
        Inl err \<Rightarrow> (Some err, s)
      | Inr job \<Rightarrow>
          if job_Status job = SyncJobStatusSucceeded then (None, s)
          else
            let job = (if job_Status job = SyncJobStatusFailed then job\<lparr>job_Status := SyncJobStatusQueued\<rparr> else job);
                job = job\<lparr>job_Attempts := job_Attempts job + 1, job_UpdatedAt := now\<rparr>
            in case jo_Update jobs s job of
                 (Inl err, s') \<Rightarrow> (Some err, s')
               | (Inr _, s') \<Rightarrow> (None, s'))"

definition Orchestrator_SaveCheckpoint ::
  "int \<Rightarrow> 's Orchestrator option \<Rightarrow> 's \<Rightarrow> string \<Rightarrow> string \<Rightarrow> meta \<Rightarrow> SyncJob result \<times> 's" where
  "Orchestrator_SaveCheckpoint now receiver s jobID checkpoint metadata =
     (case orc_store receiver of None \<Rightarrow> (Inl orchestrator_unconfigured, s) | Some jobs \<Rightarrow>
      (case jo_Get jobs s (TrimSpace jobID) of
         Inl err \<Rightarrow> (Inl err, s)
       | Inr job \<Rightarrow>
           jo_Update jobs s (job\<lparr>job_Checkpoint := TrimSpace checkpoint, job_Status := SyncJobStatusRunning,
             job_UpdatedAt := now, job_Metadata := mergeAnyMap (job_Metadata job) metadata\<rparr>)))"

text \<open>With no store, the checkpoint has already failed.\<close>

definition Orchestrator_Complete ::
  "int \<Rightarrow> int \<Rightarrow> 's Orchestrator option \<Rightarrow> 's \<Rightarrow> string \<Rightarrow> string \<Rightarrow> meta \<Rightarrow> SyncJob result \<times> 's" where
  "Orchestrator_Complete now now' receiver s jobID checkpoint metadata =
     (case Orchestrator_SaveCheckpoint now receiver s jobID checkpoint metadata of
        (Inl err, s') \<Rightarrow> (Inl err, s')
      | (Inr job, s') \<Rightarrow>
          (case orc_store receiver of None \<Rightarrow> (Inl orchestrator_unconfigured, s') | Some jobs \<Rightarrow>
           jo_Update jobs s' (job\<lparr>job_Status := SyncJobStatusSucceeded, job_UpdatedAt := now'\<rparr>)))"

definition Orchestrator_Fail ::
  "(goerr \<Rightarrow> string) \<Rightarrow> int \<Rightarrow> 's Orchestrator option \<Rightarrow> 's \<Rightarrow> string \<Rightarrow> goerr option \<Rightarrow> int option \<Rightarrow> SyncJob result \<times> 's" where
  "Orchestrator_Fail render now receiver s jobID cause nextAttemptAt =
     (case orc_store receiver of None \<Rightarrow> (Inl orchestrator_unconfigured, s) | Some jobs \<Rightarrow>
      (case jo_Get jobs s (TrimSpace jobID) of
         Inl err \<Rightarrow> (Inl err, s)
       | Inr job \<Rightarrow>
           let job = job\<lparr>job_Status := SyncJobStatusFailed, job_Attempts := job_Attempts job + 1, job_UpdatedAt := now,
                 job_Metadata := mergeAnyMap (job_Metadata job)
                   [(''last_error'', AStr (TrimSpace (case cause of None \<Rightarrow> ''<nil>'' | Some err \<Rightarrow> err_Error render err)))]\<rparr>;
               job = (case nextAttemptAt of None \<Rightarrow> job | Some t \<Rightarrow> job\<lparr>job_NextAttemptAt := Some t\<rparr>)
           in jo_Update jobs s job))"

section \<open>The contract of the job store and what it gives\<close>

text \<open>
  A store shows its jobs by id. An update stores the given job with the store's own clock, which
  \<open>stamp\<close> stands for; creating a job under a fresh id shows it.
\<close>

locale job_store =
  fixes ops :: "'s job_store_ops"
    and inv :: "'s \<Rightarrow> bool"
    and view :: "'s \<Rightarrow> string \<Rightarrow> SyncJob option"
    and stamp :: "SyncJob \<Rightarrow> SyncJob"
  assumes get_law: "inv s \<Longrightarrow> TrimSpace x = x \<Longrightarrow> view s x = Some job \<Longrightarrow> jo_Get ops s x = Inr job"
    and view_id: "inv s \<Longrightarrow> view s x = Some job \<Longrightarrow> job_ID job = x"
    and update_law: "inv s \<Longrightarrow> view s (job_ID job) = Some old \<Longrightarrow> id_ok (job_ID job) \<Longrightarrow>
      \<exists>s'. jo_Update ops s job = (Inr (stamp job), s') \<and> inv s' \<and> view s' = (view s)(job_ID job \<mapsto> stamp job)"
    and create_law: "inv s \<Longrightarrow> view s (job_ID job) = None \<Longrightarrow> id_ok (job_ID job) \<Longrightarrow>
      TrimSpace (job_ConnectionID job) \<noteq> [] \<Longrightarrow> TrimSpace (job_ProviderID job) \<noteq> [] \<Longrightarrow> job_Status job = SyncJobStatusQueued \<Longrightarrow>
      \<exists>j s'. jo_Create ops s job = (Inr j, s') \<and> inv s' \<and> view s' = (view s)(job_ID job \<mapsto> j) \<and>
        job_Status j = SyncJobStatusQueued \<and> job_Attempts j = job_Attempts job \<and> job_Checkpoint j = job_Checkpoint job"
    and stamp_fields: "job_ID (stamp job) = job_ID job" "job_Status (stamp job) = job_Status job"
      "job_Attempts (stamp job) = job_Attempts job" "job_Checkpoint (stamp job) = job_Checkpoint job"
      "job_NextAttemptAt (stamp job) = job_NextAttemptAt job"
begin

definition runs_here :: "'s Orchestrator \<Rightarrow> bool" where
  "runs_here orc \<longleftrightarrow> orc_Jobs orc = Some ops"

lemma store_here [simp]: "runs_here orc \<Longrightarrow> orc_store (Some orc) = Some ops"
  by (simp add: runs_here_def orc_store_def)

lemma checkpoint:
  assumes "runs_here orc" and "inv s" and "id_ok x" and "view s x = Some job"
  shows "\<exists>job' s'. Orchestrator_SaveCheckpoint now (Some orc) s x c m = (Inr job', s') \<and> inv s' \<and>
    view s' = (view s)(x \<mapsto> job') \<and> job_ID job' = x \<and> job_Status job' = SyncJobStatusRunning \<and>
    job_Checkpoint job' = TrimSpace c \<and> job_Attempts job' = job_Attempts job"
proof -
  let ?j = "job\<lparr>job_Checkpoint := TrimSpace c, job_Status := SyncJobStatusRunning, job_UpdatedAt := now,
    job_Metadata := mergeAnyMap (job_Metadata job) m\<rparr>"
  have x: "TrimSpace x = x" "job_ID ?j = x" using assms view_id by (simp_all add: id_ok_def)
  then obtain s' where "jo_Update ops s ?j = (Inr (stamp ?j), s')" "inv s'" "view s' = (view s)(x \<mapsto> stamp ?j)"
    using update_law [of s ?j job] assms by auto
  moreover have "job_ID (stamp ?j) = x" using stamp_fields(1) [of ?j] x assms(3) by simp
  ultimately show ?thesis
    using assms(1) get_law [OF assms(2) x(1) assms(4)] x(1) stamp_fields [of ?j] by (simp add: Orchestrator_SaveCheckpoint_def)
qed

lemma complete:
  assumes "runs_here orc" and "inv s" and "id_ok x" and "view s x = Some job"
  shows "\<exists>job' s'. Orchestrator_Complete now now' (Some orc) s x c m = (Inr job', s') \<and> inv s' \<and>
    view s' = (view s)(x \<mapsto> job') \<and> job_Status job' = SyncJobStatusSucceeded \<and> job_Checkpoint job' = TrimSpace c \<and>
    job_Attempts job' = job_Attempts job"
proof -
  from checkpoint [OF assms, of now c m] obtain j s' where j: "Orchestrator_SaveCheckpoint now (Some orc) s x c m = (Inr j, s')"
    "inv s'" "view s' = (view s)(x \<mapsto> j)" "job_ID j = x" "job_Checkpoint j = TrimSpace c" "job_Attempts j = job_Attempts job"
    by blast
  let ?j = "j\<lparr>job_Status := SyncJobStatusSucceeded, job_UpdatedAt := now'\<rparr>"
  obtain s2 where "jo_Update ops s' ?j = (Inr (stamp ?j), s2)" "inv s2" "view s2 = (view s')(x \<mapsto> stamp ?j)"
    using update_law [of s' ?j j] j assms(3) by auto
  then show ?thesis using j assms(1) stamp_fields [of ?j] by (simp add: Orchestrator_Complete_def)
qed

lemma fail:
  assumes "runs_here orc" and "inv s" and "id_ok x" and "view s x = Some job"
  shows "\<exists>job' s'. Orchestrator_Fail render now (Some orc) s x cause nextAttemptAt = (Inr job', s') \<and> inv s' \<and>
    view s' = (view s)(x \<mapsto> job') \<and> job_Status job' = SyncJobStatusFailed \<and> job_Attempts job' = job_Attempts job + 1 \<and>
    job_NextAttemptAt job' = (case nextAttemptAt of None \<Rightarrow> job_NextAttemptAt job | Some t \<Rightarrow> Some t) \<and>
    job_Checkpoint job' = job_Checkpoint job"
proof -
  let ?j0 = "job\<lparr>job_Status := SyncJobStatusFailed, job_Attempts := job_Attempts job + 1, job_UpdatedAt := now,
    job_Metadata := mergeAnyMap (job_Metadata job)
      [(''last_error'', AStr (TrimSpace (case cause of None \<Rightarrow> ''<nil>'' | Some err \<Rightarrow> err_Error render err)))]\<rparr>"
  let ?j = "case nextAttemptAt of None \<Rightarrow> ?j0 | Some t \<Rightarrow> ?j0\<lparr>job_NextAttemptAt := Some t\<rparr>"
  have x: "TrimSpace x = x" "job_ID ?j = x" using assms view_id by (simp_all add: id_ok_def split: option.split)
  then obtain s' where "jo_Update ops s ?j = (Inr (stamp ?j), s')" "inv s'" "view s' = (view s)(x \<mapsto> stamp ?j)"
    using update_law [of s ?j job] assms by auto
  then show ?thesis
    using assms(1) get_law [OF assms(2) x(1) assms(4)] x(1) stamp_fields [of ?j]
    by (cases nextAttemptAt) (simp_all add: Orchestrator_Fail_def)
qed

lemma resume:
  assumes "runs_here orc" and "inv s" and "id_ok x" and "view s x = Some job" and "job_Status job \<noteq> SyncJobStatusSucceeded"
  shows "\<exists>job' s'. Orchestrator_Resume now (Some orc) s x = (None, s') \<and> inv s' \<and> view s' = (view s)(x \<mapsto> job') \<and>
    job_Status job' = (if job_Status job = SyncJobStatusFailed then SyncJobStatusQueued else job_Status job) \<and>
    job_Attempts job' = job_Attempts job + 1 \<and> job_Checkpoint job' = job_Checkpoint job"
proof -
  let ?j0 = "if job_Status job = SyncJobStatusFailed then job\<lparr>job_Status := SyncJobStatusQueued\<rparr> else job"
  let ?j = "?j0\<lparr>job_Attempts := job_Attempts ?j0 + 1, job_UpdatedAt := now\<rparr>"
  have x: "TrimSpace x = x" "x \<noteq> []" "job_ID ?j = x" using assms view_id by (simp_all add: id_ok_def)
  then obtain s' where u: "jo_Update ops s ?j = (Inr (stamp ?j), s')" "inv s'" "view s' = (view s)(x \<mapsto> stamp ?j)"
    using update_law [of s ?j job] assms by auto
  have "Orchestrator_Resume now (Some orc) s x = (None, s')"
    using assms(1,5) get_law [OF assms(2) x(1) assms(4)] x(1,2) u(1) by (simp add: Orchestrator_Resume_def Let_def)
  then show ?thesis using u(2,3) stamp_fields [of ?j] by auto
qed

lemma resume_succeeded:
  assumes "runs_here orc" and "inv s" and "id_ok x" and "view s x = Some job" and "job_Status job = SyncJobStatusSucceeded"
  shows "Orchestrator_Resume now (Some orc) s x = (None, s)"
  using assms get_law [of s x job] by (simp add: Orchestrator_Resume_def id_ok_def Let_def)

end

section \<open>The SQL store satisfies the contract\<close>

definition sql_job_ops :: "sql_env \<Rightarrow> sync_tables option job_store_ops" where
  "sql_job_ops env = \<lparr>jo_Create = SyncJobStore_Create env, jo_Get = SyncJobStore_GetSyncJob (se_flt env 0),
     jo_Update = SyncJobStore_Update env\<rparr>"

definition jobs_ok :: "sql_env \<Rightarrow> sync_tables option \<Rightarrow> bool" where
  "jobs_ok env s \<longleftrightarrow> (\<exists>t. s = Some t \<and> sync_ok t) \<and> se_flt env 0 = None"

definition job_view :: "sync_tables option \<Rightarrow> string \<Rightarrow> SyncJob option" where
  "job_view s x = (case s of None \<Rightarrow> None | Some t \<Rightarrow> fst (sync_abs t) x)"

definition restamp :: "sql_env \<Rightarrow> SyncJob \<Rightarrow> SyncJob" where
  "restamp env job = job\<lparr>job_Metadata := copyAnyMap (job_Metadata job), job_UpdatedAt := se_now env\<rparr>"

lemma toDomain_update_record:
  "syncJobRecord_toDomain ((newSyncJobRecord job now)\<lparr>sj_CreatedAt := job_CreatedAt job\<rparr>) =
     job\<lparr>job_Metadata := copyAnyMap (job_Metadata job), job_UpdatedAt := now\<rparr>"
  by (cases job) (simp add: syncJobRecord_toDomain_def newSyncJobRecord_def)

lemma sql_update_law:
  assumes "jobs_ok env s" and "job_view s (job_ID job) = Some old" and "id_ok (job_ID job)"
  shows "\<exists>s'. SyncJobStore_Update env s job = (Inr (restamp env job), s') \<and> jobs_ok env s' \<and>
    job_view s' = (job_view s)(job_ID job \<mapsto> restamp env job)"
proof -
  obtain t where t: "s = Some t" "sync_ok t" "se_flt env 0 = None" using assms(1) by (auto simp: jobs_ok_def)
  let ?r = "(newSyncJobRecord (job\<lparr>job_UpdatedAt := se_now env\<rparr>) (se_now env))\<lparr>sj_CreatedAt := job_CreatedAt job\<rparr>"
  let ?t = "t\<lparr>tb_jobs := update_where (\<lambda>r. sj_ID r = job_ID job) (\<lambda>_. ?r) (tb_jobs t)\<rparr>"
  have x: "job\<lparr>job_ID := TrimSpace (job_ID job)\<rparr> = job" "TrimSpace (job_ID job) \<noteq> []" "sj_ID ?r = job_ID job"
    using assms(3) by (simp_all add: id_ok_def newSyncJobRecord_def)
  have d: "syncJobRecord_toDomain ?r = restamp env job"
    using toDomain_update_record [of "job\<lparr>job_UpdatedAt := se_now env\<rparr>" "se_now env"] by (simp add: restamp_def)
  have u: "SyncJobStore_Update env s job = (Inr (restamp env job), Some ?t)"
    using t x d assms(3) by (simp add: SyncJobStore_Update_def Let_def id_ok_def)
  obtain old' where "find (\<lambda>r. sj_ID r = job_ID job) (tb_jobs t) = Some old'"
    using assms(2) t(1) by (auto simp: job_view_def sync_abs_def)
  then have "job_view (Some ?t) = (job_view s)(job_ID job \<mapsto> restamp env job)"
    using t(1) d find_update_where [of sj_ID "\<lambda>_. ?r" "job_ID job" _ "tb_jobs t"] x(3)
    by (simp add: job_view_def sync_abs_def fun_eq_iff)
  then show ?thesis using u t sync_ok_replace [OF t(2) x(3)] by (simp add: jobs_ok_def)
qed

lemma sql_create_law:
  assumes "jobs_ok env s" and "job_view s (job_ID job) = None" and "id_ok (job_ID job)"
    and "TrimSpace (job_ConnectionID job) \<noteq> []" and "TrimSpace (job_ProviderID job) \<noteq> []" and "job_Status job = SyncJobStatusQueued"
  shows "\<exists>j s'. SyncJobStore_Create env s job = (Inr j, s') \<and> jobs_ok env s' \<and> job_view s' = (job_view s)(job_ID job \<mapsto> j) \<and>
    job_Status j = SyncJobStatusQueued \<and> job_Attempts j = job_Attempts job \<and> job_Checkpoint j = job_Checkpoint job"
proof -
  obtain t where t: "s = Some t" "sync_ok t" "se_flt env 0 = None" using assms(1) by (auto simp: jobs_ok_def)
  let ?job = "job\<lparr>job_ConnectionID := TrimSpace (job_ConnectionID job), job_ProviderID := TrimSpace (job_ProviderID job),
    job_Mode := (if job_Mode job = SyncJobModeOther [] then SyncJobModeIncremental else job_Mode job),
    job_CreatedAt := (if job_CreatedAt job = 0 then se_now env else job_CreatedAt job), job_UpdatedAt := se_now env\<rparr>"
  let ?r = "newSyncJobRecord ?job (se_now env)"
  have none: "find (\<lambda>r. sj_ID r = job_ID job) (tb_jobs t) = None"
    using assms(2) t(1) by (simp add: job_view_def sync_abs_def)
  have c: "SyncJobStore_Create env s job = (Inr (syncJobRecord_toDomain ?r), Some (t\<lparr>tb_jobs := tb_jobs t @ [?r]\<rparr>))"
    using assms(3-6) t none [unfolded find_none]
    by (simp add: SyncJobStore_Create_def Let_def id_ok_def insert_job_def newSyncJobRecord_def)
  moreover have "job_view (Some (t\<lparr>tb_jobs := tb_jobs t @ [?r]\<rparr>)) = (job_view s)(job_ID job \<mapsto> syncJobRecord_toDomain ?r)"
    using none t(1) by (auto simp: job_view_def sync_abs_def find_append newSyncJobRecord_def fun_eq_iff split: option.splits)
  ultimately show ?thesis
    using sync_ok_Create [OF t(2) c [unfolded t(1)]] t assms(6)
    by (simp add: jobs_ok_def syncJobRecord_toDomain_def newSyncJobRecord_def)
qed

interpretation sqlj: job_store "sql_job_ops env" "jobs_ok env" job_view "restamp env"
proof (unfold_locales, goal_cases)
  case (1 s x job)
  then show ?case
    by (auto simp: sql_job_ops_def jobs_ok_def SyncJobStore_GetSyncJob_def job_view_def sync_abs_def)
next
  case (2 s x job)
  then obtain t :: sync_tables and r where "find (\<lambda>r. sj_ID r = x) (tb_jobs t) = Some r" "job = syncJobRecord_toDomain r"
    by (auto simp: jobs_ok_def job_view_def sync_abs_def)
  then show ?case using find_key [of sj_ID x "tb_jobs t" r] by (simp add: syncJobRecord_toDomain_def)
next
  case (3 s job old)
  then show ?case using sql_update_law by (simp add: sql_job_ops_def)
next
  case (4 s job)
  then show ?case using sql_create_law by (simp add: sql_job_ops_def)
qed (simp_all add: restamp_def)

text \<open>
  Completing a job is final for resumption. With the SQL store, \<open>Complete\<close> of a stored job succeeds and
  leaves it succeeded with the given checkpoint and no other job changed; resuming it afterwards reports no
  error and changes nothing.
\<close>

theorem complete_then_resume:
  assumes "orc_Jobs orc = Some (sql_job_ops env)" and "jobs_ok env s" and "id_ok x" and "job_view s x = Some job"
  shows "\<exists>job' s'. Orchestrator_Complete now now' (Some orc) s x c m = (Inr job', s') \<and>
    job_view s' = (job_view s)(x \<mapsto> job') \<and> job_Status job' = SyncJobStatusSucceeded \<and> job_Checkpoint job' = TrimSpace c \<and>
    Orchestrator_Resume later (Some orc) s' x = (None, s')"
proof -
  have here: "sqlj.runs_here env orc" using assms(1) by (simp add: sqlj.runs_here_def)
  from sqlj.complete [OF here assms(2-4), of now now' c m] obtain job' s' where
    c: "Orchestrator_Complete now now' (Some orc) s x c m = (Inr job', s')" "jobs_ok env s'"
      "job_view s' = (job_view s)(x \<mapsto> job')" "job_Status job' = SyncJobStatusSucceeded" "job_Checkpoint job' = TrimSpace c" by blast
  then have "Orchestrator_Resume later (Some orc) s' x = (None, s')"
    by (intro sqlj.resume_succeeded [OF here c(2) assms(3)]) simp_all
  with c show ?thesis by blast
qed

definition sample_orchestrator :: "sync_tables option Orchestrator" where
  "sample_orchestrator = \<lparr>orc_Jobs = Some (sql_job_ops sample_env), orc_Cursors = None\<rparr>"

definition sample_tables :: "sync_tables option" where
  "sample_tables = Some \<lparr>tb_jobs = [newSyncJobRecord sample_job 5], tb_keys = []\<rparr>"

lemma sample_tables_facts:
  "jobs_ok sample_env sample_tables" "id_ok ''j''" "job_view sample_tables ''j'' = Some (sample_job\<lparr>job_CreatedAt := 5, job_UpdatedAt := 5\<rparr>)"
  by (simp add: jobs_ok_def sync_ok_def sample_tables_def sample_env_def) code_simp+

theorem complete_then_resume_witness:
  "\<exists>job' s'. Orchestrator_Complete 6 7 (Some sample_orchestrator) sample_tables ''j'' '' cp '' [] = (Inr job', s') \<and>
    job_view s' = (job_view sample_tables)(''j'' \<mapsto> job') \<and> job_Status job' = SyncJobStatusSucceeded \<and>
    job_Checkpoint job' = TrimSpace '' cp '' \<and> Orchestrator_Resume 8 (Some sample_orchestrator) s' ''j'' = (None, s')"
  by (rule complete_then_resume [OF _ sample_tables_facts]) (simp add: sample_orchestrator_def)

text \<open>
  The orchestrator does not respect the status machine of sync jobs: recording a checkpoint, or a failure,
  of a job that has succeeded puts it back to running, or to failed, although no transition leaves the
  status succeeded.
\<close>

theorem orchestrator_reopens_succeeded:
  assumes "orc_Jobs orc = Some (sql_job_ops env)" and "jobs_ok env s" and "id_ok x" and "job_view s x = Some job"
    and "job_Status job = SyncJobStatusSucceeded"
  shows "\<exists>a b s1 s2. Orchestrator_SaveCheckpoint now (Some orc) s x c m = (Inr a, s1) \<and> job_view s1 x = Some a \<and>
    Orchestrator_Fail render now (Some orc) s x cause t = (Inr b, s2) \<and> job_view s2 x = Some b \<and>
    job_Status a = SyncJobStatusRunning \<and> job_Status b = SyncJobStatusFailed \<and>
    \<not> syncJobTransitionAllowed (job_Status job) (job_Status a) \<and> \<not> syncJobTransitionAllowed (job_Status job) (job_Status b)"
proof -
  have here: "sqlj.runs_here env orc" using assms(1) by (simp add: sqlj.runs_here_def)
  show ?thesis
    using sqlj.checkpoint [OF here assms(2-4), of now c m] sqlj.fail [OF here assms(2-4), of render now cause t] assms(5)
    by (auto intro: fun_upd_same)
qed

theorem orchestrator_reopens_succeeded_witness:
  "\<exists>a b s1 s2. Orchestrator_SaveCheckpoint 6 (Some sample_orchestrator) sample_tables ''j'' [] [] = (Inr a, s1) \<and> job_view s1 ''j'' = Some a \<and>
    Orchestrator_Fail (\<lambda>_. []) 6 (Some sample_orchestrator) sample_tables ''j'' None None = (Inr b, s2) \<and> job_view s2 ''j'' = Some b \<and>
    job_Status a = SyncJobStatusRunning \<and> job_Status b = SyncJobStatusFailed \<and>
    \<not> syncJobTransitionAllowed SyncJobStatusSucceeded (job_Status a) \<and> \<not> syncJobTransitionAllowed SyncJobStatusSucceeded (job_Status b)"
  using orchestrator_reopens_succeeded [OF _ sample_tables_facts, of sample_orchestrator 6 "[]" "[]" "\<lambda>_. []" None None]
  by (simp add: sample_orchestrator_def sample_job_def)

end
