(* ===== verification/Effects.thy ===== *)
theory Effects
  imports Go_Prelude
begin

text \<open>
  Calls that change a state and may return an error. The state is changed even by a call that fails. A Go
  function that calls, checks the error and goes on is a \<open>bindE\<close>.
\<close>

type_synonym ('w, 'a) effect = "'w \<Rightarrow> 'a result \<times> 'w"

definition ret :: "'a \<Rightarrow> ('w, 'a) effect" where
  "ret a = (\<lambda>w. (Inr a, w))"

definition fail :: "goerr \<Rightarrow> ('w, 'a) effect" where
  "fail e = (\<lambda>w. (Inl e, w))"

definition lift :: "'a result \<Rightarrow> ('w, 'a) effect" where
  "lift r = (\<lambda>w. (r, w))"

definition reads :: "('w \<Rightarrow> 'a result) \<Rightarrow> ('w, 'a) effect" where
  "reads f = (\<lambda>w. (f w, w))"

definition bindE :: "('w, 'a) effect \<Rightarrow> ('a \<Rightarrow> ('w, 'b) effect) \<Rightarrow> ('w, 'b) effect" where
  "bindE m f = (\<lambda>w. case m w of (Inl e, w') \<Rightarrow> (Inl e, w') | (Inr a, w') \<Rightarrow> f a w')"

text \<open>A call that returns only an error, and a call whose error is dropped.\<close>

definition errE :: "('w \<Rightarrow> goerr option \<times> 'w) \<Rightarrow> ('w, unit) effect" where
  "errE m = (\<lambda>w. case m w of (None, w') \<Rightarrow> (Inr (), w') | (Some e, w') \<Rightarrow> (Inl e, w'))"

definition ignoreE :: "('w \<Rightarrow> goerr option \<times> 'w) \<Rightarrow> ('w, unit) effect" where
  "ignoreE m = (\<lambda>w. (Inr (), snd (m w)))"

definition mapE :: "(goerr \<Rightarrow> goerr) \<Rightarrow> ('w, 'a) effect \<Rightarrow> ('w, 'a) effect" where
  "mapE g m = (\<lambda>w. case m w of (Inl e, w') \<Rightarrow> (Inl (g e), w') | (Inr a, w') \<Rightarrow> (Inr a, w'))"

named_theorems effects \<open>the outcomes of the effect combinators\<close>

lemma ret_app [effects]: "ret a w = (Inr a, w)"
  by (simp add: ret_def)

lemma fail_app [effects]: "fail e w = (Inl e, w)"
  by (simp add: fail_def)

lemma lift_app [effects]: "lift r w = (r, w)"
  by (simp add: lift_def)

lemma reads_app [effects]: "reads f w = (f w, w)"
  by (simp add: reads_def)

lemma bindE_Inr [effects]: "m w = (Inr a, w') \<Longrightarrow> bindE m f w = f a w'"
  by (simp add: bindE_def)

lemma bindE_Inl [effects]: "m w = (Inl e, w') \<Longrightarrow> bindE m f w = (Inl e, w')"
  by (simp add: bindE_def)

lemma errE_None [effects]: "m w = (None, w') \<Longrightarrow> errE m w = (Inr (), w')"
  by (simp add: errE_def)

lemma errE_Some [effects]: "m w = (Some e, w') \<Longrightarrow> errE m w = (Inl e, w')"
  by (simp add: errE_def)

lemma ignoreE_app [effects]: "ignoreE m w = (Inr (), snd (m w))"
  by (simp add: ignoreE_def)

lemma mapE_Inr [effects]: "m w = (Inr a, w') \<Longrightarrow> mapE g m w = (Inr a, w')"
  by (simp add: mapE_def)

lemma mapE_Inl [effects]: "m w = (Inl e, w') \<Longrightarrow> mapE g m w = (Inl (g e), w')"
  by (simp add: mapE_def)

lemma bindE_eq_Inr:
  "bindE m f w = (Inr b, w'') \<longleftrightarrow> (\<exists>a w'. m w = (Inr a, w') \<and> f a w' = (Inr b, w''))"
  by (auto simp: bindE_def split: prod.splits sum.splits)

lemma mapE_eq_Inr: "mapE g m w = (Inr a, w') \<longleftrightarrow> m w = (Inr a, w')"
  by (auto simp: mapE_def split: prod.splits sum.splits)

lemma errE_eq_Inr: "errE m w = (Inr u, w') \<longleftrightarrow> m w = (None, w')"
  by (auto simp: errE_def split: prod.splits option.splits)

lemmas effects_eq_Inr = bindE_eq_Inr mapE_eq_Inr errE_eq_Inr ret_app fail_app lift_app reads_app ignoreE_app

end
