(* ===== verification/Connection_Store.thy ===== *)
theory Connection_Store
  imports Sql_Table "HOL-Library.Product_Lexorder"
begin

text \<open>
  Connections: the SQL store of \<open>src/store/sql/connection_store.go\<close> with its adapters. The repository
  library is taken to run the statement its method names; \<open>norows\<close> is its error for a row that is not
  there, and its insert draws the id, which is \<open>se_id\<close>. Rows marked deleted are not seen.
\<close>

definition connection_status_of :: "string \<Rightarrow> ConnectionStatus" where
  "connection_status_of s =
     (if s = ''active'' then ConnectionStatusActive else if s = ''disconnected'' then ConnectionStatusDisconnected
      else if s = ''errored'' then ConnectionStatusErrored else if s = ''pending_reauth'' then ConnectionStatusPendingReauth
      else if s = ''needs_reconsent'' then ConnectionStatusNeedsReconsent else ConnectionStatusOther s)"

record connectionRecord =
  xr_ID :: string
  xr_ProviderID :: string
  xr_ScopeType :: string
  xr_ScopeID :: string
  xr_ExternalAccountID :: string
  xr_Status :: ConnectionStatus
  xr_InheritsFrom :: "string option"
  xr_LastError :: string
  xr_CreatedAt :: int
  xr_UpdatedAt :: int
  xr_DeletedAt :: "int option"

type_synonym connection_table = "connectionRecord list"

record CreateConnectionInput =
  xi_ProviderID :: string
  xi_Scope :: ScopeRef
  xi_ExternalAccountID :: string
  xi_Status :: ConnectionStatus

definition newConnectionRecord :: "CreateConnectionInput \<Rightarrow> int \<Rightarrow> connectionRecord" where
  "newConnectionRecord i now =
     \<lparr>xr_ID = [], xr_ProviderID = xi_ProviderID i, xr_ScopeType = scope_Type (xi_Scope i), xr_ScopeID = scope_ID (xi_Scope i),
      xr_ExternalAccountID = xi_ExternalAccountID i, xr_Status = xi_Status i, xr_InheritsFrom = None, xr_LastError = [],
      xr_CreatedAt = now, xr_UpdatedAt = now, xr_DeletedAt = None\<rparr>"

definition connectionRecord_toDomain :: "connectionRecord \<Rightarrow> Connection" where
  "connectionRecord_toDomain r =
     \<lparr>conn_ID = xr_ID r, conn_ProviderID = xr_ProviderID r, conn_ScopeType = xr_ScopeType r, conn_ScopeID = xr_ScopeID r,
      conn_ExternalAccountID = xr_ExternalAccountID r, conn_Status = xr_Status r,
      conn_InheritsFrom = (case xr_InheritsFrom r of None \<Rightarrow> [] | Some x \<Rightarrow> x), conn_LastError = xr_LastError r,
      conn_CreatedAt = xr_CreatedAt r, conn_UpdatedAt = xr_UpdatedAt r\<rparr>"

abbreviation connections_not_configured :: goerr where
  "connections_not_configured \<equiv> Plain ''sqlstore: connection store is not configured''"

type_synonym account_key = "string \<times> string \<times> string \<times> string"

definition account_key :: "connectionRecord \<Rightarrow> account_key" where
  "account_key r = (xr_ProviderID r, xr_ScopeType r, xr_ScopeID r, xr_ExternalAccountID r)"

abbreviation live_rows :: "connection_table \<Rightarrow> connection_table" where
  "live_rows t \<equiv> filter (\<lambda>r. xr_DeletedAt r = None) t"

definition insert_connection :: "goerr \<Rightarrow> connectionRecord \<Rightarrow> connection_table \<Rightarrow> connection_table result" where
  "insert_connection uniq r t =
     (if xr_ID r \<in> xr_ID ` set t \<or> account_key r \<in> account_key ` set (live_rows t) then Inl uniq else Inr (t @ [r]))"

definition ConnectionStore_Create ::
  "sql_env \<Rightarrow> connection_table option \<Rightarrow> CreateConnectionInput \<Rightarrow> Connection result \<times> connection_table option" where
  "ConnectionStore_Create env receiver i =
     (case receiver of None \<Rightarrow> (Inl connections_not_configured, receiver) | Some t \<Rightarrow>
      (case ScopeRef_Validate (xi_Scope i) of
         Some err \<Rightarrow> (Inl err, receiver)
       | None \<Rightarrow>
           if TrimSpace (xi_ProviderID i) = [] then (Inl (Plain ''sqlstore: provider id is required''), receiver)
           else if TrimSpace (xi_ExternalAccountID i) = []
           then (Inl (Plain ''sqlstore: external account id is required''), receiver)
           else
             let status = (if TrimSpace (connection_status_str (xi_Status i)) = [] then ConnectionStatusActive else xi_Status i);
                 record = (newConnectionRecord (i\<lparr>xi_Status := status\<rparr>) (se_now env))\<lparr>xr_ID := se_id env\<rparr>
             in case (case se_flt env 0 of Some err \<Rightarrow> Inl err | None \<Rightarrow> insert_connection (se_uniq env) record t) of
                  Inl err \<Rightarrow> (Inl err, receiver)
                | Inr t' \<Rightarrow> (Inr (connectionRecord_toDomain record), Some t')))"

definition find_connection :: "connection_table \<Rightarrow> string \<Rightarrow> connectionRecord option" where
  "find_connection t x = find (\<lambda>r. xr_ID r = x) (live_rows t)"

definition ConnectionStore_Get ::
  "goerr \<Rightarrow> goerr option \<Rightarrow> connection_table option \<Rightarrow> string \<Rightarrow> Connection result" where
  "ConnectionStore_Get norows flt receiver x =
     (case receiver of None \<Rightarrow> Inl connections_not_configured | Some t \<Rightarrow>
      case flt of Some err \<Rightarrow> Inl err | None \<Rightarrow>
      (case find_connection t (TrimSpace x) of None \<Rightarrow> Inl norows | Some r \<Rightarrow> Inr (connectionRecord_toDomain r)))"

definition ConnectionStore_FindByScope ::
  "goerr option \<Rightarrow> connection_table option \<Rightarrow> string \<Rightarrow> ScopeRef \<Rightarrow> Connection list result" where
  "ConnectionStore_FindByScope flt receiver providerID scope =
     (case receiver of None \<Rightarrow> Inl connections_not_configured | Some t \<Rightarrow>
      (case ScopeRef_Validate scope of
         Some err \<Rightarrow> Inl err
       | None \<Rightarrow>
           (case flt of Some err \<Rightarrow> Inl err | None \<Rightarrow>
            Inr (map connectionRecord_toDomain (sort_key xr_CreatedAt
              (filter (\<lambda>r. xr_ProviderID r = TrimSpace providerID \<and> xr_ScopeType r = TrimSpace (scope_Type scope) \<and>
                 xr_ScopeID r = TrimSpace (scope_ID scope)) (live_rows t)))))))"

definition ConnectionStore_FindByScopeAndExternalAccount ::
  "goerr option \<Rightarrow> connection_table option \<Rightarrow> string \<Rightarrow> ScopeRef \<Rightarrow> string \<Rightarrow> (Connection option) result" where
  "ConnectionStore_FindByScopeAndExternalAccount flt receiver providerID scope externalAccountID =
     (case receiver of None \<Rightarrow> Inl connections_not_configured | Some t \<Rightarrow>
      (case ScopeRef_Validate scope of
         Some err \<Rightarrow> Inl err
       | None \<Rightarrow>
           let providerID = TrimSpace providerID; externalAccountID = TrimSpace externalAccountID in
           if providerID = [] then Inl (Plain ''sqlstore: provider id is required'')
           else if externalAccountID = [] then Inl (Plain ''sqlstore: external account id is required'')
           else case flt of Some err \<Rightarrow> Inl err | None \<Rightarrow>
             (case sort_key (\<lambda>r. (xr_CreatedAt r, xr_ID r))
                 (filter (\<lambda>r. account_key r = (providerID, TrimSpace (scope_Type scope), TrimSpace (scope_ID scope), externalAccountID))
                    (live_rows t)) of
                [] \<Rightarrow> Inr None
              | r # _ \<Rightarrow> Inr (Some (connectionRecord_toDomain r)))))"

definition ConnectionStore_UpdateStatus ::
  "goerr \<Rightarrow> sql_faults \<Rightarrow> int \<Rightarrow> connection_table option \<Rightarrow> string \<Rightarrow> ConnectionStatus \<Rightarrow> string \<Rightarrow>
     goerr option \<times> connection_table option" where
  "ConnectionStore_UpdateStatus norows flt now receiver x status reason =
     (case receiver of None \<Rightarrow> (Some connections_not_configured, receiver) | Some t \<Rightarrow>
      let x = TrimSpace x in
      if x = [] then (Some (Plain ''sqlstore: connection id is required''), receiver)
      else case flt 0 of Some err \<Rightarrow> (Some err, receiver) | None \<Rightarrow>
        (case find_connection t x of
           None \<Rightarrow> (Some norows, receiver)
         | Some current \<Rightarrow>
             let current = current\<lparr>xr_Status := connection_status_of (TrimSpace (connection_status_str status)),
                   xr_LastError := TrimSpace reason, xr_UpdatedAt := now\<rparr>
             in case flt 1 of
                  Some err \<Rightarrow> (Some err, receiver)
                | None \<Rightarrow> (None, Some (update_where (\<lambda>r. xr_ID r = x) (\<lambda>_. current) t))))"

section \<open>What the store shows its clients\<close>

definition connections_ok :: "connection_table \<Rightarrow> bool" where
  "connections_ok t \<longleftrightarrow> distinct (map xr_ID t) \<and> distinct (map account_key (live_rows t))"

fun connection_store_ok :: "connection_table option \<Rightarrow> bool" where
  "connection_store_ok None = False"
| "connection_store_ok (Some t) = connections_ok t"

definition connection_view :: "connection_table option \<Rightarrow> string \<Rightarrow> Connection option" where
  "connection_view s x = (case s of None \<Rightarrow> None | Some t \<Rightarrow> map_option connectionRecord_toDomain (find_connection t x))"

definition conn_account :: "Connection \<Rightarrow> account_key" where
  "conn_account c = (conn_ProviderID c, conn_ScopeType c, conn_ScopeID c, conn_ExternalAccountID c)"

lemma conn_account_toDomain [simp]: "conn_account (connectionRecord_toDomain r) = account_key r"
  by (simp add: conn_account_def connectionRecord_toDomain_def account_key_def)

lemma conn_ID_toDomain [simp]: "conn_ID (connectionRecord_toDomain r) = xr_ID r"
  by (simp add: connectionRecord_toDomain_def)

definition named_status :: "ConnectionStatus \<Rightarrow> bool" where
  "named_status st \<longleftrightarrow> (\<forall>s. st \<noteq> ConnectionStatusOther s)"

lemma status_roundtrip: "named_status st \<Longrightarrow> connection_status_of (TrimSpace (connection_status_str st)) = st"
  by (cases st) (simp_all add: named_status_def connection_status_of_def TrimSpace_id is_space_def)

lemma Get_shows:
  "ConnectionStore_Get norows None s x =
     (case s of None \<Rightarrow> Inl connections_not_configured | Some t \<Rightarrow>
      (case connection_view s (TrimSpace x) of None \<Rightarrow> Inl norows | Some c \<Rightarrow> Inr c))"
  by (auto simp: ConnectionStore_Get_def connection_view_def split: option.splits)

lemma find_live:
  assumes "distinct (map xr_ID t)"
  shows "find_connection t x = Some r \<longleftrightarrow> r \<in> set t \<and> xr_ID r = x \<and> xr_DeletedAt r = None"
proof -
  have "distinct (map xr_ID (live_rows t))" using assms by (rule distinct_map_filter)
  then show ?thesis by (auto simp: find_connection_def find_unique)
qed

lemma view_id: "connection_view s x = Some c \<Longrightarrow> conn_ID c = x"
  by (auto simp: connection_view_def find_connection_def connectionRecord_toDomain_def dest!: find_key [of xr_ID] split: option.splits)

lemma live_update:
  assumes "distinct (map xr_ID t)" and "find_connection t x = Some r" and "xr_ID r' = x" and "xr_DeletedAt r' = None"
  shows "live_rows (update_where (\<lambda>r. xr_ID r = x) (\<lambda>_. r') t) = update_where (\<lambda>r. xr_ID r = x) (\<lambda>_. r') (live_rows t)"
proof -
  have "xr_DeletedAt y = None" if "y \<in> set t" "xr_ID y = x" for y
    using that assms(1,2) find_live [OF assms(1), of x r] by (metis distinct_map inj_onD)
  then show ?thesis using assms(4) by (induction t) (auto simp: update_where_def)
qed

lemma UpdateStatus_shows:
  assumes ok: "connection_store_ok s" and c: "connection_view s x = Some c" and x: "id_ok x"
  shows "\<exists>s'. ConnectionStore_UpdateStatus norows no_faults now s x status reason = (None, s') \<and> connection_store_ok s' \<and>
    connection_view s' = (connection_view s)(x \<mapsto>
      c\<lparr>conn_Status := connection_status_of (TrimSpace (connection_status_str status)), conn_LastError := TrimSpace reason, conn_UpdatedAt := now\<rparr>)"
proof -
  obtain t r where t: "s = Some t" "find_connection t x = Some r" "c = connectionRecord_toDomain r"
    using c by (auto simp: connection_view_def split: option.splits)
  have d: "distinct (map xr_ID t)" "distinct (map account_key (live_rows t))" using ok t(1) by (simp_all add: connections_ok_def)
  let ?r = "r\<lparr>xr_Status := connection_status_of (TrimSpace (connection_status_str status)), xr_LastError := TrimSpace reason, xr_UpdatedAt := now\<rparr>"
  let ?t = "update_where (\<lambda>r. xr_ID r = x) (\<lambda>_. ?r) t"
  have r: "xr_ID ?r = x" "xr_DeletedAt ?r = None" "account_key ?r = account_key r"
    using t(2) find_live [OF d(1)] by (simp_all add: account_key_def)
  note live = live_update [OF d(1) t(2) r(1,2)]
  have upd: "ConnectionStore_UpdateStatus norows no_faults now s x status reason = (None, Some ?t)"
    using t(1,2) x by (simp add: ConnectionStore_UpdateStatus_def id_ok_def Let_def)
  have ids: "map xr_ID ?t = map xr_ID t" by (rule map_key_update_where) (use r(1) in simp)
  have same: "y = r" if "y \<in> set t" "xr_ID y = x" for y
    using that d(1) t(2) find_live [OF d(1), of x r] by (metis distinct_map inj_onD)
  have keys: "map account_key (live_rows ?t) = map account_key (live_rows t)"
    unfolding live using r(3) same by (auto simp: update_where_def)
  have "find_connection ?t y = (if y = x then Some ?r else find_connection t y)" for y
    using find_update_where [of xr_ID "\<lambda>_. ?r" x y "live_rows t"] r(1) t(2)
    unfolding find_connection_def live by simp
  then have "connection_view (Some ?t) = (connection_view s)(x \<mapsto>
      c\<lparr>conn_Status := connection_status_of (TrimSpace (connection_status_str status)), conn_LastError := TrimSpace reason, conn_UpdatedAt := now\<rparr>)"
    using t by (auto simp: connection_view_def connectionRecord_toDomain_def fun_eq_iff)
  moreover have "connections_ok ?t" unfolding connections_ok_def ids keys using d by simp
  ultimately show ?thesis using upd by simp
qed

definition account_of :: "string \<Rightarrow> ScopeRef \<Rightarrow> string \<Rightarrow> account_key" where
  "account_of providerID scope externalAccountID =
     (TrimSpace providerID, TrimSpace (scope_Type scope), TrimSpace (scope_ID scope), TrimSpace externalAccountID)"

lemma Find_shows:
  assumes "connection_store_ok s" and "ScopeRef_Validate scope = None" and "TrimSpace p \<noteq> []" and "TrimSpace e \<noteq> []"
  shows "\<exists>found. ConnectionStore_FindByScopeAndExternalAccount None s p scope e = Inr found \<and>
    (\<forall>c. found = Some c \<longleftrightarrow> connection_view s (conn_ID c) = Some c \<and> conn_account c = account_of p scope e)"
proof -
  obtain t where t: "s = Some t" "distinct (map xr_ID t)" "distinct (map account_key (live_rows t))"
    using assms(1) by (cases s) (simp_all add: connections_ok_def)
  let ?k = "account_of p scope e"
  let ?f = "find (\<lambda>r. account_key r = ?k) (live_rows t)"
  have "filter (\<lambda>r. account_key r = ?k) (live_rows t) = (case ?f of None \<Rightarrow> [] | Some r \<Rightarrow> [r])"
    using t(3) by (rule filter_key_distinct)
  then have F: "ConnectionStore_FindByScopeAndExternalAccount None s p scope e = Inr (map_option connectionRecord_toDomain ?f)"
    using assms(2-4) t(1)
    by (cases ?f) (simp_all add: ConnectionStore_FindByScopeAndExternalAccount_def Let_def account_of_def del: filter_filter)
  have f: "?f = Some r \<longleftrightarrow> r \<in> set (live_rows t) \<and> account_key r = ?k" for r
    using t(3) by (rule find_unique)
  have v: "connection_view s (conn_ID c) = Some c \<longleftrightarrow> (\<exists>r \<in> set (live_rows t). c = connectionRecord_toDomain r)" for c
    using find_live [OF t(2)] t(1) by (force simp: connection_view_def)
  have "map_option connectionRecord_toDomain ?f = Some c \<longleftrightarrow> (\<exists>r. ?f = Some r \<and> c = connectionRecord_toDomain r)" for c
    by auto
  then have "map_option connectionRecord_toDomain ?f = Some c \<longleftrightarrow>
      connection_view s (conn_ID c) = Some c \<and> conn_account c = ?k" for c
    unfolding v f by auto
  with F show ?thesis by blast
qed

lemma Create_shows:
  assumes "connection_store_ok s" and "ScopeRef_Validate (xi_Scope i) = None" and "TrimSpace (xi_ProviderID i) \<noteq> []"
    and "TrimSpace (xi_ExternalAccountID i) \<noteq> []" and "xi_Status i = ConnectionStatusActive" and "se_flt env 0 = None"
    and "\<forall>t. s = Some t \<longrightarrow> se_id env \<notin> xr_ID ` set t"
    and "\<not> (\<exists>x c. connection_view s x = Some c \<and>
      conn_account c = (xi_ProviderID i, scope_Type (xi_Scope i), scope_ID (xi_Scope i), xi_ExternalAccountID i))"
  shows "\<exists>c s'. ConnectionStore_Create env s i = (Inr c, s') \<and> connection_store_ok s' \<and> conn_ID c = se_id env \<and>
    conn_account c = (xi_ProviderID i, scope_Type (xi_Scope i), scope_ID (xi_Scope i), xi_ExternalAccountID i) \<and>
    conn_Status c = ConnectionStatusActive \<and> connection_view s' = (connection_view s)(se_id env \<mapsto> c)"
proof -
  obtain t where t: "s = Some t" "distinct (map xr_ID t)" "distinct (map account_key (live_rows t))"
    using assms(1) by (cases s) (simp_all add: connections_ok_def)
  let ?r = "(newConnectionRecord i (se_now env))\<lparr>xr_ID := se_id env\<rparr>"
  let ?k = "(xi_ProviderID i, scope_Type (xi_Scope i), scope_ID (xi_Scope i), xi_ExternalAccountID i)"
  have r: "xr_ID ?r = se_id env" "xr_DeletedAt ?r = None" "account_key ?r = ?k" "xr_Status ?r = ConnectionStatusActive"
    using assms(5) by (simp_all add: newConnectionRecord_def account_key_def)
  have fresh: "se_id env \<notin> xr_ID ` set t" using assms(7) t(1) by blast
  have key: "?k \<notin> account_key ` set (live_rows t)"
  proof
    assume "?k \<in> account_key ` set (live_rows t)"
    then obtain y where "y \<in> set t" "xr_DeletedAt y = None" "account_key y = ?k" by auto
    then have "connection_view s (xr_ID y) = Some (connectionRecord_toDomain y) \<and> conn_account (connectionRecord_toDomain y) = ?k"
      using find_live [OF t(2), of "xr_ID y" y] t(1) by (simp add: connection_view_def)
    with assms(8) show False by blast
  qed
  have st: "TrimSpace (connection_status_str ConnectionStatusActive) \<noteq> []" by code_simp
  have i: "i\<lparr>xi_Status := ConnectionStatusActive\<rparr> = i" using assms(5) by simp
  have ins: "insert_connection (se_uniq env) ?r t = Inr (t @ [?r])"
    unfolding insert_connection_def r using fresh key by simp
  have C: "ConnectionStore_Create env s i = (Inr (connectionRecord_toDomain ?r), Some (t @ [?r]))"
    using assms(2-6) t(1) st ins by (simp add: ConnectionStore_Create_def Let_def i del: connection_status_str.simps)
  have none: "find_connection t (se_id env) = None"
    using fresh by (force simp: find_connection_def find_None_iff)
  have "connection_view (Some (t @ [?r])) = (connection_view s)(se_id env \<mapsto> connectionRecord_toDomain ?r)"
    using r none t(1) by (auto simp: connection_view_def find_connection_def find_append fun_eq_iff split: option.splits)
  moreover have "connections_ok (t @ [?r])" using t fresh key r by (auto simp: connections_ok_def)
  ultimately show ?thesis using C r by (simp add: connectionRecord_toDomain_def conn_account_def account_key_def)
qed

text \<open>
  The store writes the provider, the scope and the account as they are given, but looks them up trimmed: a
  connection created with a space around one of them is never found by its account.
\<close>

lemma untrimmed_never_found:
  assumes "connection_store_ok s" and "ScopeRef_Validate scope = None" and "TrimSpace p \<noteq> []" and "TrimSpace e \<noteq> []"
    and "connection_view s x = Some c" and "TrimSpace (conn_ProviderID c) \<noteq> conn_ProviderID c"
  shows "ConnectionStore_FindByScopeAndExternalAccount None s p scope e \<noteq> Inr (Some c)"
proof
  assume "ConnectionStore_FindByScopeAndExternalAccount None s p scope e = Inr (Some c)"
  then have "conn_account c = account_of p scope e" using Find_shows [OF assms(1-4)] by auto
  then show False using assms(6) by (auto simp: conn_account_def account_of_def)
qed

end
