(* ===== verification/Credential_Store.thy ===== *)
theory Credential_Store
  imports Sql_Table
begin

text \<open>
  Credentials: the SQL store of \<open>src/store/sql/credential_store.go\<close> with its adapters, the payload codecs
  of \<open>src/core/credential_codec.go\<close>, and the pure part of \<open>src/core/credential_freshness.go\<close>. The
  repository library is taken to run the statement its method names: its insert draws the id, which is
  \<open>se_id\<close>. \<open>marshal\<close> and \<open>unmarshal\<close> are the JSON encoder and decoder of the payload structure.
\<close>

section \<open>The SQL store\<close>

abbreviation "CredentialPayloadFormatLegacyToken \<equiv> ''legacy_token''"
abbreviation "CredentialPayloadFormatJSONV1 \<equiv> ''active_credential_json''"
abbreviation "CredentialPayloadVersionV1 \<equiv> 1 :: int"

record credentialRecord =
  kr_ID :: string
  kr_ConnectionID :: string
  kr_Version :: int
  kr_EncryptedPayload :: string
  kr_PayloadFormat :: string
  kr_PayloadVersion :: int
  kr_TokenType :: string
  kr_RequestedScopes :: "string list"
  kr_GrantedScopes :: "string list"
  kr_ExpiresAt :: "int option"
  kr_RotatesAt :: "int option"
  kr_Refreshable :: bool
  kr_Status :: CredentialStatus
  kr_GrantVersion :: int
  kr_EncryptionKeyID :: string
  kr_EncryptionVersion :: int
  kr_RevocationReason :: string
  kr_CreatedAt :: int
  kr_UpdatedAt :: int

type_synonym credential_table = "credentialRecord list"

record SaveCredentialInput =
  ki_ConnectionID :: string
  ki_EncryptedPayload :: string
  ki_PayloadFormat :: string
  ki_PayloadVersion :: int
  ki_TokenType :: string
  ki_RequestedScopes :: "string list"
  ki_GrantedScopes :: "string list"
  ki_ExpiresAt :: "int option"
  ki_Refreshable :: bool
  ki_RotatesAt :: "int option"
  ki_Status :: CredentialStatus
  ki_EncryptionKeyID :: string
  ki_EncryptionVersion :: int

definition newCredentialRecord :: "SaveCredentialInput \<Rightarrow> int \<Rightarrow> int \<Rightarrow> credentialRecord" where
  "newCredentialRecord i version now =
     \<lparr>kr_ID = [], kr_ConnectionID = ki_ConnectionID i, kr_Version = version, kr_EncryptedPayload = ki_EncryptedPayload i,
      kr_PayloadFormat = (if ki_PayloadFormat i = [] then CredentialPayloadFormatLegacyToken else ki_PayloadFormat i),
      kr_PayloadVersion = (if ki_PayloadVersion i \<le> 0 then CredentialPayloadVersionV1 else ki_PayloadVersion i),
      kr_TokenType = ki_TokenType i, kr_RequestedScopes = ki_RequestedScopes i, kr_GrantedScopes = ki_GrantedScopes i,
      kr_ExpiresAt = ki_ExpiresAt i, kr_RotatesAt = ki_RotatesAt i, kr_Refreshable = ki_Refreshable i,
      kr_Status = ki_Status i, kr_GrantVersion = version, kr_EncryptionKeyID = ki_EncryptionKeyID i,
      kr_EncryptionVersion = ki_EncryptionVersion i, kr_RevocationReason = [], kr_CreatedAt = now, kr_UpdatedAt = now\<rparr>"

definition credentialRecord_toDomain :: "credentialRecord \<Rightarrow> Credential" where
  "credentialRecord_toDomain r =
     \<lparr>cred_ID = kr_ID r, cred_ConnectionID = kr_ConnectionID r, cred_Version = kr_Version r,
      cred_EncryptedPayload = kr_EncryptedPayload r, cred_PayloadFormat = kr_PayloadFormat r,
      cred_PayloadVersion = kr_PayloadVersion r, cred_TokenType = kr_TokenType r,
      cred_RequestedScopes = kr_RequestedScopes r, cred_GrantedScopes = kr_GrantedScopes r,
      cred_ExpiresAt = (case kr_ExpiresAt r of None \<Rightarrow> 0 | Some t \<Rightarrow> t), cred_Refreshable = kr_Refreshable r,
      cred_RotatesAt = (case kr_RotatesAt r of None \<Rightarrow> 0 | Some t \<Rightarrow> t), cred_Status = kr_Status r,
      cred_CreatedAt = kr_CreatedAt r, cred_UpdatedAt = kr_UpdatedAt r\<rparr>"

abbreviation credentials_not_configured :: goerr where
  "credentials_not_configured \<equiv> Plain ''sqlstore: credential store is not configured''"

definition nextVersion :: "credential_table \<Rightarrow> string \<Rightarrow> int" where
  "nextVersion t connectionID =
     fold max (map kr_Version (filter (\<lambda>r. kr_ConnectionID r = connectionID) t)) 0 + 1"

text \<open>\<open>UPDATE ... SET status = revoked ... WHERE connection_id = ? AND status = active\<close>\<close>

definition revoke_rows :: "string \<Rightarrow> string \<Rightarrow> int \<Rightarrow> credential_table \<Rightarrow> credential_table" where
  "revoke_rows connectionID reason now t =
     update_where (\<lambda>r. kr_ConnectionID r = connectionID \<and> kr_Status r = CredentialStatusActive)
       (\<lambda>r. r\<lparr>kr_Status := CredentialStatusRevoked, kr_RevocationReason := reason, kr_UpdatedAt := now\<rparr>) t"

text \<open>The unique constraints: the id, the version of a connection, and one active row of a connection.\<close>

definition insert_credential :: "goerr \<Rightarrow> credentialRecord \<Rightarrow> credential_table \<Rightarrow> credential_table result" where
  "insert_credential uniq r t =
     (if \<exists>x \<in> set t. kr_ID x = kr_ID r \<or>
          kr_ConnectionID x = kr_ConnectionID r \<and> kr_Version x = kr_Version r \<or>
          kr_ConnectionID x = kr_ConnectionID r \<and> kr_Status x = CredentialStatusActive \<and> kr_Status r = CredentialStatusActive
      then Inl uniq else Inr (t @ [r]))"

definition CredentialStore_SaveNewVersion ::
  "sql_env \<Rightarrow> credential_table option \<Rightarrow> SaveCredentialInput \<Rightarrow> Credential result \<times> credential_table option" where
  "CredentialStore_SaveNewVersion env receiver input =
     (case receiver of None \<Rightarrow> (Inl credentials_not_configured, receiver) | Some t \<Rightarrow>
      let connectionID = TrimSpace (ki_ConnectionID input) in
      if connectionID = [] then (Inl (Plain ''sqlstore: connection id is required''), receiver)
      else
        let status = (if TrimSpace (credential_status_str (ki_Status input)) = [] then CredentialStatusActive else ki_Status input);
            i = input\<lparr>ki_ConnectionID := connectionID, ki_Status := status,
                  ki_EncryptionKeyID := TrimSpace (ki_EncryptionKeyID input),
                  ki_PayloadFormat := (if TrimSpace (ki_PayloadFormat input) = [] then CredentialPayloadFormatLegacyToken
                     else TrimSpace (ki_PayloadFormat input)),
                  ki_PayloadVersion := (if ki_PayloadVersion input \<le> 0 then CredentialPayloadVersionV1 else ki_PayloadVersion input)\<rparr> in
        if length (ki_EncryptedPayload i) = 0 then (Inl (Plain ''sqlstore: encrypted payload is required''), receiver)
        else if ki_PayloadFormat i = [] then (Inl (Plain ''sqlstore: payload format is required''), receiver)
        else if ki_PayloadVersion i \<le> 0 then (Inl (Plain ''sqlstore: payload version must be greater than zero''), receiver)
        else if ki_EncryptionKeyID i = [] then (Inl (Plain ''sqlstore: encryption key id is required''), receiver)
        else if ki_EncryptionVersion i \<le> 0 then (Inl (Plain ''sqlstore: encryption version must be greater than zero''), receiver)
        else
          let now = se_now env in
          (case se_flt env 0 of Some versionErr \<Rightarrow> (Inl versionErr, receiver) | None \<Rightarrow>
           let version = nextVersion t connectionID in
           (case (if status = CredentialStatusActive then se_flt env 1 else None) of
              Some updateErr \<Rightarrow> (Inl updateErr, receiver)
            | None \<Rightarrow>
                let t1 = (if status = CredentialStatusActive then revoke_rows connectionID ''rotated'' now t else t);
                    record = (newCredentialRecord i version now)\<lparr>kr_ID := se_id env\<rparr> in
                (case (case se_flt env 2 of Some err \<Rightarrow> Inl err | None \<Rightarrow> insert_credential (se_uniq env) record t1) of
                   Inl createErr \<Rightarrow> (Inl createErr, receiver)
                 | Inr t2 \<Rightarrow> (Inr (credentialRecord_toDomain record), Some t2)))))"

definition CredentialStore_GetActiveByConnection ::
  "goerr option \<Rightarrow> credential_table option \<Rightarrow> string \<Rightarrow> Credential result" where
  "CredentialStore_GetActiveByConnection flt receiver connectionID =
     (case receiver of None \<Rightarrow> Inl credentials_not_configured | Some t \<Rightarrow>
      case flt of Some err \<Rightarrow> Inl err | None \<Rightarrow>
      (case sort_key (\<lambda>r. - kr_Version r)
          (filter (\<lambda>r. kr_ConnectionID r = TrimSpace connectionID \<and> kr_Status r = CredentialStatusActive) t) of
         [] \<Rightarrow> Inl (Plain (''sqlstore: active credential not found for connection '' @ quote connectionID))
       | record # _ \<Rightarrow> Inr (credentialRecord_toDomain record)))"

definition CredentialStore_RevokeActive ::
  "goerr option \<Rightarrow> int \<Rightarrow> credential_table option \<Rightarrow> string \<Rightarrow> string \<Rightarrow> goerr option \<times> credential_table option" where
  "CredentialStore_RevokeActive flt now receiver connectionID reason =
     (case receiver of None \<Rightarrow> (Some credentials_not_configured, receiver) | Some t \<Rightarrow>
      let connectionID = TrimSpace connectionID; reason = TrimSpace reason in
      if connectionID = [] then (Some (Plain ''sqlstore: connection id is required''), receiver)
      else
        let reason = (if reason = [] then ''revoked'' else reason) in
        case flt of
          Some err \<Rightarrow> (Some err, receiver)
        | None \<Rightarrow> (None, Some (revoke_rows connectionID reason now t)))"

section \<open>Payload codecs\<close>

record ActiveCredential =
  ak_ConnectionID :: string
  ak_TokenType :: string
  ak_AccessToken :: string
  ak_RefreshToken :: string
  ak_RequestedScopes :: "string list"
  ak_GrantedScopes :: "string list"
  ak_ExpiresAt :: "int option"
  ak_Refreshable :: bool
  ak_RotatesAt :: "int option"
  ak_Metadata :: meta

definition zero_credential :: ActiveCredential where
  "zero_credential = \<lparr>ak_ConnectionID = [], ak_TokenType = [], ak_AccessToken = [], ak_RefreshToken = [],
     ak_RequestedScopes = [], ak_GrantedScopes = [], ak_ExpiresAt = None, ak_Refreshable = False, ak_RotatesAt = None,
     ak_Metadata = []\<rparr>"

text \<open>The payload structure of the JSON codec has the fields of the credential.\<close>

definition json_payload :: "ActiveCredential \<Rightarrow> ActiveCredential" where
  "json_payload c =
     c\<lparr>ak_ConnectionID := TrimSpace (ak_ConnectionID c), ak_TokenType := TrimSpace (ak_TokenType c),
       ak_AccessToken := TrimSpace (ak_AccessToken c), ak_RefreshToken := TrimSpace (ak_RefreshToken c),
       ak_Metadata := copyAnyMap (ak_Metadata c)\<rparr>"

record CredentialCodec =
  cc_Format :: string
  cc_Version :: int
  cc_Encode :: "ActiveCredential \<Rightarrow> string result"
  cc_Decode :: "string \<Rightarrow> ActiveCredential result"

definition wrapf :: "(goerr \<Rightarrow> string) \<Rightarrow> string \<Rightarrow> goerr \<Rightarrow> goerr" where
  "wrapf text prefix err = Wrapped (prefix @ text err) [err]"

definition JSONCredentialCodec ::
  "(goerr \<Rightarrow> string) \<Rightarrow> (ActiveCredential \<Rightarrow> string result) \<Rightarrow> (string \<Rightarrow> ActiveCredential result) \<Rightarrow> CredentialCodec" where
  "JSONCredentialCodec text marshal unmarshal =
     \<lparr>cc_Format = CredentialPayloadFormatJSONV1, cc_Version = CredentialPayloadVersionV1,
      cc_Encode = (\<lambda>c. case marshal (json_payload c) of
         Inl err \<Rightarrow> Inl (wrapf text ''core: encode credential payload: '' err) | Inr encoded \<Rightarrow> Inr encoded),
      cc_Decode = (\<lambda>payload. if length payload = 0 then Inl (Plain ''core: credential payload is empty'')
         else case unmarshal payload of
             Inl err \<Rightarrow> Inl (wrapf text ''core: decode credential payload: '' err)
           | Inr decoded \<Rightarrow> Inr (json_payload decoded))\<rparr>"

definition LegacyTokenCredentialCodec :: CredentialCodec where
  "LegacyTokenCredentialCodec =
     \<lparr>cc_Format = CredentialPayloadFormatLegacyToken, cc_Version = CredentialPayloadVersionV1,
      cc_Encode = (\<lambda>c.
         let token = TrimSpace (ak_AccessToken c);
             token = (if token = [] then TrimSpace (ak_RefreshToken c) else token)
         in if token = [] then Inl (Plain ''core: legacy credential payload requires a token'') else Inr token),
      cc_Decode = (\<lambda>payload.
         let token = TrimSpace payload in
         if token = [] then Inl (Plain ''core: legacy credential payload is empty'')
         else Inr (zero_credential\<lparr>ak_AccessToken := token\<rparr>))\<rparr>"

section \<open>Freshness\<close>

definition DefaultCredentialExpiringSoonWindow :: int where
  "DefaultCredentialExpiringSoonWindow = 5 * Minute"

definition DefaultCredentialRefreshLeadWindow :: int where
  "DefaultCredentialRefreshLeadWindow = 5 * Minute"

record CredentialTokenState =
  ts_ExpiresAt :: "int option"
  ts_HasAccessToken :: bool
  ts_HasRefreshToken :: bool
  ts_CanAutoRefresh :: bool
  ts_IsExpired :: bool
  ts_IsExpiringSoon :: bool

text \<open>A zero \<open>now\<close> is replaced by the clock.\<close>

definition ResolveCredentialTokenState :: "int \<Rightarrow> int \<Rightarrow> ActiveCredential \<Rightarrow> int \<Rightarrow> CredentialTokenState" where
  "ResolveCredentialTokenState clock now c expiringSoonWindow =
     (let now = (if now = 0 then clock else now);
          window = (if expiringSoonWindow \<le> 0 then DefaultCredentialExpiringSoonWindow else expiringSoonWindow);
          state = \<lparr>ts_ExpiresAt = None, ts_HasAccessToken = (TrimSpace (ak_AccessToken c) \<noteq> []),
            ts_HasRefreshToken = (TrimSpace (ak_RefreshToken c) \<noteq> []),
            ts_CanAutoRefresh = (ak_Refreshable c \<and> TrimSpace (ak_RefreshToken c) \<noteq> []),
            ts_IsExpired = False, ts_IsExpiringSoon = False\<rparr>
      in case ak_ExpiresAt c of
           None \<Rightarrow> state
         | Some expiresAt \<Rightarrow>
             let state = state\<lparr>ts_ExpiresAt := Some expiresAt\<rparr> in
             if \<not> expiresAt > now then state\<lparr>ts_IsExpired := True\<rparr>
             else state\<lparr>ts_IsExpiringSoon := (\<not> expiresAt > now + window)\<rparr>)"

definition ShouldRefreshCredential :: "int \<Rightarrow> int \<Rightarrow> CredentialTokenState \<Rightarrow> int \<Rightarrow> bool" where
  "ShouldRefreshCredential clock now state refreshLeadWindow =
     (if \<not> ts_CanAutoRefresh state then False
      else if \<not> ts_HasAccessToken state then True
      else case ts_ExpiresAt state of
        None \<Rightarrow> False
      | Some expiresAt \<Rightarrow>
          let window = (if refreshLeadWindow \<le> 0 then DefaultCredentialRefreshLeadWindow else refreshLeadWindow);
              now = (if now = 0 then clock else now)
          in \<not> expiresAt > now + window)"

section \<open>Versions and the active credential\<close>

abbreviation rows_for :: "credential_table \<Rightarrow> string \<Rightarrow> credential_table" where
  "rows_for t c \<equiv> filter (\<lambda>r. kr_ConnectionID r = c) t"

abbreviation active_rows :: "credential_table \<Rightarrow> string \<Rightarrow> credential_table" where
  "active_rows t c \<equiv> filter (\<lambda>r. kr_ConnectionID r = c \<and> kr_Status r = CredentialStatusActive) t"

definition numbered :: "int list \<Rightarrow> bool" where
  "numbered vs \<longleftrightarrow> vs = map (\<lambda>i. int i + 1) [0..<length vs]"

definition credentials_ok :: "credential_table \<Rightarrow> bool" where
  "credentials_ok t \<longleftrightarrow> distinct (map kr_ID t) \<and>
     (\<forall>c. numbered (map kr_Version (rows_for t c)) \<and> length (active_rows t c) \<le> 1)"

lemma fold_max_count: "fold max (map (\<lambda>i. int i + 1) [0..<n]) 0 = int n"
  by (induction n) auto

lemma numbered_fold: "numbered vs \<Longrightarrow> fold max vs 0 = int (length vs)"
  unfolding numbered_def by (metis fold_max_count)

lemma numbered_append: "numbered vs \<Longrightarrow> numbered (vs @ [int (length vs) + 1])"
  by (simp add: numbered_def)

lemma numbered_range:
  assumes "numbered vs" and "v \<in> set vs"
  shows "v \<le> int (length vs)"
proof -
  have "v \<in> set (map (\<lambda>i. int i + 1) [0..<length vs])" using assms unfolding numbered_def by metis
  then show ?thesis by auto
qed

lemma nextVersion_eq:
  assumes "credentials_ok t"
  shows "nextVersion t c = int (length (rows_for t c)) + 1"
  using assms numbered_fold [of "map kr_Version (rows_for t c)"] by (simp add: credentials_ok_def nextVersion_def)

lemma revoke_rows_facts:
  "map kr_ID (revoke_rows c reason now t) = map kr_ID t"
  "map kr_Version (rows_for (revoke_rows c reason now t) d) = map kr_Version (rows_for t d)"
  "active_rows (revoke_rows c reason now t) d = (if d = c then [] else active_rows t d)"
proof -
  let ?p = "\<lambda>r. kr_ConnectionID r = c \<and> kr_Status r = CredentialStatusActive"
  let ?g = "\<lambda>r. if ?p r then r\<lparr>kr_Status := CredentialStatusRevoked, kr_RevocationReason := reason, kr_UpdatedAt := now\<rparr> else r"
  have g: "revoke_rows c reason now t = map ?g t" by (simp add: revoke_rows_def update_where_def)
  have keep: "kr_ConnectionID (?g r) = kr_ConnectionID r" "kr_Version (?g r) = kr_Version r" "kr_ID (?g r) = kr_ID r"
    and act: "(kr_ConnectionID (?g r) = d \<and> kr_Status (?g r) = CredentialStatusActive) =
      (d \<noteq> c \<and> kr_ConnectionID r = d \<and> kr_Status r = CredentialStatusActive)"
    and same: "kr_ConnectionID r = d \<Longrightarrow> d \<noteq> c \<Longrightarrow> ?g r = r" for r d by auto
  show "map kr_ID (revoke_rows c reason now t) = map kr_ID t" unfolding g by (simp add: keep(3) del: if_split_asm cong: if_cong)
  show "map kr_Version (rows_for (revoke_rows c reason now t) d) = map kr_Version (rows_for t d)"
    unfolding g filter_map comp_def keep(1) map_map keep(2) ..
  show "active_rows (revoke_rows c reason now t) d = (if d = c then [] else active_rows t d)"
  proof (cases "d = c")
    case True
    then show ?thesis unfolding g filter_map comp_def act by simp
  next
    case False
    then have "map ?g (active_rows t d) = active_rows t d" by (intro map_idI) (auto intro: same)
    with False show ?thesis unfolding g filter_map comp_def act by simp
  qed
qed

lemma credentials_ok_revoke: "credentials_ok t \<Longrightarrow> credentials_ok (revoke_rows c reason now t)"
  by (simp add: credentials_ok_def revoke_rows_facts)

lemma credentials_ok_insert:
  assumes ok: "credentials_ok t" and ins: "insert_credential uniq r t = Inr t'" and v: "kr_Version r = int (length (rows_for t (kr_ConnectionID r))) + 1"
  shows "credentials_ok t'"
proof -
  have t': "t' = t @ [r]" and fresh: "kr_ID r \<notin> kr_ID ` set t"
    and act: "kr_Status r = CredentialStatusActive \<Longrightarrow> active_rows t (kr_ConnectionID r) = []"
    using ins by (auto simp: insert_credential_def filter_empty_conv split: if_splits)
  have "numbered (map kr_Version (rows_for t' c))" for c
    using ok v numbered_append [of "map kr_Version (rows_for t c)"] by (auto simp: t' credentials_ok_def)
  moreover have "length (active_rows t' c) \<le> 1" for c
    using ok act by (auto simp: t' credentials_ok_def)
  ultimately show ?thesis using ok fresh by (simp add: credentials_ok_def t')
qed

lemma credentials_ok_Save:
  assumes "credentials_ok t" and "CredentialStore_SaveNewVersion env (Some t) i = (r, Some t')"
  shows "credentials_ok t'"
proof -
  let ?t1 = "\<lambda>c. revoke_rows c ''rotated'' (se_now env) t"
  have len: "length (rows_for (?t1 c) d) = length (rows_for t d)" for c d
    by (metis length_map revoke_rows_facts(2))
  have ok1: "credentials_ok (?t1 c)" for c using assms(1) by (rule credentials_ok_revoke)
  from assms(2) show ?thesis
    using assms(1) nextVersion_eq [OF assms(1)] credentials_ok_insert [OF ok1] credentials_ok_insert [OF assms(1)]
    by (auto simp: CredentialStore_SaveNewVersion_def Let_def newCredentialRecord_def len split: if_splits option.splits sum.splits)
qed

inductive credential_step :: "credential_table \<Rightarrow> credential_table \<Rightarrow> bool" where
  step_Save: "CredentialStore_SaveNewVersion env (Some t) i = (r, Some t') \<Longrightarrow> credential_step t t'"
| step_Revoke: "CredentialStore_RevokeActive flt now (Some t) c reason = (e, Some t') \<Longrightarrow> credential_step t t'"

inductive_cases credential_stepE: "credential_step t t'"

lemma credentials_ok_step: "credential_step t t' \<Longrightarrow> credentials_ok t \<Longrightarrow> credentials_ok t'"
  by (elim credential_stepE)
    (auto simp: CredentialStore_RevokeActive_def Let_def intro: credentials_ok_Save credentials_ok_revoke
      split: if_splits option.splits)

text \<open>
  C10: Whatever sequence of saves and revocations runs, with whatever database errors, the credentials of a
  connection are numbered from one in the order they were saved, without a gap, and at most one of them is
  active.
\<close>

theorem credential_versions_numbered:
  assumes "credential_step\<^sup>*\<^sup>* [] t"
  shows "map kr_Version (rows_for t c) = map (\<lambda>i. int i + 1) [0..<length (rows_for t c)] \<and> length (active_rows t c) \<le> 1"
proof -
  have "credentials_ok []" by (simp add: credentials_ok_def numbered_def)
  with assms have "credentials_ok t" by induction (auto intro: credentials_ok_step)
  then show ?thesis by (simp add: credentials_ok_def numbered_def)
qed

definition sample_save :: SaveCredentialInput where
  "sample_save = \<lparr>ki_ConnectionID = '' c '', ki_EncryptedPayload = ''x'', ki_PayloadFormat = [], ki_PayloadVersion = 0, ki_TokenType = [],
     ki_RequestedScopes = [], ki_GrantedScopes = [], ki_ExpiresAt = None, ki_Refreshable = False, ki_RotatesAt = None,
     ki_Status = CredentialStatusActive, ki_EncryptionKeyID = ''k'', ki_EncryptionVersion = 1\<rparr>"

definition credential_env :: "string \<Rightarrow> sql_env" where
  "credential_env x = \<lparr>se_id = x, se_id2 = [], se_now = 5, se_uniq = Plain ''UNIQUE constraint failed'', se_render = (\<lambda>_. []), se_flt = no_faults\<rparr>"

definition sample_saves :: "credential_table option" where
  "sample_saves = snd (CredentialStore_SaveNewVersion (credential_env ''b'')
     (snd (CredentialStore_SaveNewVersion (credential_env ''a'') (Some []) sample_save)) sample_save)"

theorem credential_versions_numbered_witness:
  "map kr_Version (rows_for (the sample_saves) ''c'') = [1, 2] \<and> length (active_rows (the sample_saves) ''c'') \<le> 1"
proof -
  let ?s1 = "the (snd (CredentialStore_SaveNewVersion (credential_env ''a'') (Some []) sample_save))"
  have "CredentialStore_SaveNewVersion (credential_env ''a'') (Some []) sample_save =
      (fst (CredentialStore_SaveNewVersion (credential_env ''a'') (Some []) sample_save), Some ?s1)"
    "CredentialStore_SaveNewVersion (credential_env ''b'') (Some ?s1) sample_save =
      (fst (CredentialStore_SaveNewVersion (credential_env ''b'') (Some ?s1) sample_save), Some (the sample_saves))" by code_simp+
  then have "credential_step [] ?s1" "credential_step ?s1 (the sample_saves)" by (blast intro: step_Save)+
  then have "credential_step\<^sup>*\<^sup>* [] (the sample_saves)" by (meson r_into_rtranclp rtranclp.rtrancl_into_rtrancl)
  moreover have "map (\<lambda>i. int i + 1) [0..<length (rows_for (the sample_saves) ''c'')] = [1, 2]" by code_simp
  ultimately show ?thesis using credential_versions_numbered [of "the sample_saves" "''c''"] by simp
qed

section \<open>What the store shows its clients\<close>

definition active_credential :: "credential_table option \<Rightarrow> string \<Rightarrow> Credential option" where
  "active_credential s c = (case s of None \<Rightarrow> None | Some t \<Rightarrow>
     map_option credentialRecord_toDomain (find (\<lambda>r. kr_ConnectionID r = c \<and> kr_Status r = CredentialStatusActive) t))"

fun credential_store_ok :: "credential_table option \<Rightarrow> bool" where
  "credential_store_ok None = False"
| "credential_store_ok (Some t) = credentials_ok t"

definition savable :: "SaveCredentialInput \<Rightarrow> bool" where
  "savable i \<longleftrightarrow> TrimSpace (ki_ConnectionID i) \<noteq> [] \<and> ki_EncryptedPayload i \<noteq> [] \<and> TrimSpace (ki_EncryptionKeyID i) \<noteq> [] \<and>
     0 < ki_EncryptionVersion i \<and> ki_Status i = CredentialStatusActive"

text \<open>The credential a saved input becomes.\<close>

definition saves_as :: "SaveCredentialInput \<Rightarrow> Credential \<Rightarrow> bool" where
  "saves_as i k \<longleftrightarrow> cred_ConnectionID k = TrimSpace (ki_ConnectionID i) \<and> cred_EncryptedPayload k = ki_EncryptedPayload i \<and>
     cred_PayloadFormat k = (if TrimSpace (ki_PayloadFormat i) = [] then CredentialPayloadFormatLegacyToken else TrimSpace (ki_PayloadFormat i)) \<and>
     cred_PayloadVersion k = (if ki_PayloadVersion i \<le> 0 then CredentialPayloadVersionV1 else ki_PayloadVersion i) \<and>
     cred_TokenType k = ki_TokenType i \<and> cred_RequestedScopes k = ki_RequestedScopes i \<and> cred_GrantedScopes k = ki_GrantedScopes i \<and>
     cred_Refreshable k = ki_Refreshable i \<and> cred_ExpiresAt k = (case ki_ExpiresAt i of None \<Rightarrow> 0 | Some t \<Rightarrow> t) \<and>
     cred_RotatesAt k = (case ki_RotatesAt i of None \<Rightarrow> 0 | Some t \<Rightarrow> t) \<and> cred_Status k = CredentialStatusActive"

lemma find_filter_hd: "find P xs = (case filter P xs of [] \<Rightarrow> None | x # _ \<Rightarrow> Some x)"
  by (induction xs) auto

lemma active_credential_rows:
  "active_credential (Some t) c = (case active_rows t c of [] \<Rightarrow> None | r # _ \<Rightarrow> Some (credentialRecord_toDomain r))"
  by (auto simp: active_credential_def find_filter_hd split: list.splits)

lemma GetActive_shows:
  assumes "credential_store_ok s"
  shows "CredentialStore_GetActiveByConnection None s c =
    (case active_credential s (TrimSpace c) of
       None \<Rightarrow> Inl (Plain (''sqlstore: active credential not found for connection '' @ quote c)) | Some k \<Rightarrow> Inr k)"
proof -
  obtain t where s: "s = Some t" "credentials_ok t" using assms by (cases s) auto
  then have "length (active_rows t (TrimSpace c)) \<le> 1" by (simp add: credentials_ok_def)
  then consider "active_rows t (TrimSpace c) = []" | r where "active_rows t (TrimSpace c) = [r]"
    by (cases "active_rows t (TrimSpace c)") auto
  then show ?thesis
    by cases (simp_all add: s CredentialStore_GetActiveByConnection_def active_credential_rows)
qed

lemma Revoke_shows:
  assumes "credential_store_ok s" and "TrimSpace c \<noteq> []"
  shows "\<exists>s'. CredentialStore_RevokeActive None now s c reason = (None, s') \<and> credential_store_ok s' \<and>
    active_credential s' = (active_credential s)(TrimSpace c := None)"
proof -
  obtain t where s: "s = Some t" "credentials_ok t" using assms(1) by (cases s) auto
  then show ?thesis
    using assms(2) credentials_ok_revoke [OF s(2)]
    by (auto simp: CredentialStore_RevokeActive_def Let_def active_credential_rows revoke_rows_facts fun_eq_iff)
qed

lemma trim_status_active: "TrimSpace (credential_status_str CredentialStatusActive) \<noteq> []"
  by code_simp

lemma Save_shows:
  assumes "credential_store_ok s" and "savable i" and "se_flt env = no_faults"
    and "\<forall>t. s = Some t \<longrightarrow> se_id env \<notin> kr_ID ` set t"
  shows "\<exists>k s'. CredentialStore_SaveNewVersion env s i = (Inr k, s') \<and> credential_store_ok s' \<and> saves_as i k \<and>
    active_credential s' = (active_credential s)(TrimSpace (ki_ConnectionID i) \<mapsto> k)"
proof -
  obtain t where s: "s = Some t" "credentials_ok t" using assms(1) by (cases s) auto
  let ?c = "TrimSpace (ki_ConnectionID i)" and ?now = "se_now env"
  let ?i = "i\<lparr>ki_ConnectionID := ?c, ki_Status := CredentialStatusActive, ki_EncryptionKeyID := TrimSpace (ki_EncryptionKeyID i),
    ki_PayloadFormat := (if TrimSpace (ki_PayloadFormat i) = [] then CredentialPayloadFormatLegacyToken else TrimSpace (ki_PayloadFormat i)),
    ki_PayloadVersion := (if ki_PayloadVersion i \<le> 0 then CredentialPayloadVersionV1 else ki_PayloadVersion i)\<rparr>"
  let ?r = "(newCredentialRecord ?i (nextVersion t ?c) ?now)\<lparr>kr_ID := se_id env\<rparr>"
  let ?t1 = "revoke_rows ?c ''rotated'' ?now t"
  have r: "kr_ConnectionID ?r = ?c" "kr_Version ?r = nextVersion t ?c" "kr_ID ?r = se_id env" "kr_Status ?r = CredentialStatusActive"
    by (simp_all add: newCredentialRecord_def)
  have ids: "kr_ID ` set ?t1 = kr_ID ` set t" by (metis revoke_rows_facts(1) set_map)
  have none: "active_rows ?t1 ?c = []" by (simp add: revoke_rows_facts)
  have "kr_Version x \<noteq> nextVersion t ?c" if "x \<in> set ?t1" "kr_ConnectionID x = ?c" for x
  proof -
    have "kr_Version x \<in> set (map kr_Version (rows_for ?t1 ?c))" using that by simp
    then have "kr_Version x \<in> set (map kr_Version (rows_for t ?c))" by (simp only: revoke_rows_facts(2))
    then have "kr_Version x \<le> int (length (map kr_Version (rows_for t ?c)))"
      using s(2) by (intro numbered_range) (simp_all add: credentials_ok_def)
    then show ?thesis by (simp add: nextVersion_eq [OF s(2)])
  qed
  then have ins: "insert_credential (se_uniq env) ?r ?t1 = Inr (?t1 @ [?r])"
    using assms(4) s(1) ids none unfolding insert_credential_def r by (force simp: filter_empty_conv)
  have save: "CredentialStore_SaveNewVersion env s i = (Inr (credentialRecord_toDomain ?r), Some (?t1 @ [?r]))"
    using assms(2,3) ins trim_status_active
    by (simp add: s CredentialStore_SaveNewVersion_def Let_def savable_def del: credential_status_str.simps)
  have "saves_as i (credentialRecord_toDomain ?r)"
    by (simp add: saves_as_def credentialRecord_toDomain_def newCredentialRecord_def)
  moreover have "active_credential (Some (?t1 @ [?r])) = (active_credential s)(?c \<mapsto> credentialRecord_toDomain ?r)"
    using r none by (auto simp: s active_credential_rows revoke_rows_facts fun_eq_iff split: list.splits)
  moreover have "credential_store_ok (Some (?t1 @ [?r]))" using credentials_ok_Save [OF s(2)] save s(1) by simp
  ultimately show ?thesis using save by blast
qed

section \<open>Round trips of the codecs\<close>

text \<open>
  Decoding what a codec encoded gives the credential with its strings trimmed, under the JSON codec; the
  legacy codec keeps only the access token, or the refresh token in its place.
\<close>

lemma json_payload_idem [simp]: "json_payload (json_payload c) = json_payload c"
  by (simp add: json_payload_def)

lemma json_codec_roundtrip:
  assumes "\<And>p. \<exists>s. marshal p = Inr s \<and> s \<noteq> [] \<and> unmarshal s = Inr p"
  shows "\<exists>s. cc_Encode (JSONCredentialCodec text marshal unmarshal) c = Inr s \<and>
    cc_Decode (JSONCredentialCodec text marshal unmarshal) s = Inr (json_payload c)"
proof -
  from assms [of "json_payload c"] obtain s where "marshal (json_payload c) = Inr s" "s \<noteq> []" "unmarshal s = Inr (json_payload c)" by blast
  then show ?thesis by (intro exI [of _ s]) (simp add: JSONCredentialCodec_def)
qed

lemma legacy_codec_roundtrip:
  "cc_Encode LegacyTokenCredentialCodec c = Inr s \<Longrightarrow>
     cc_Decode LegacyTokenCredentialCodec s = Inr (zero_credential\<lparr>ak_AccessToken := s\<rparr>) \<and>
     s = (if TrimSpace (ak_AccessToken c) \<noteq> [] then TrimSpace (ak_AccessToken c) else TrimSpace (ak_RefreshToken c))"
  by (auto simp: LegacyTokenCredentialCodec_def Let_def split: if_splits)

end
