(* ===== verification/Service_Flows.thy ===== *)
theory Service_Flows
  imports Effects OAuth_State Refresh_Runner Permissions Connection_Store Credential_Store
begin

text \<open>
  The flows of \<open>src/core/service.go\<close>: connecting, completing the callback, re-consent, refreshing,
  revoking, and deciding on a capability, with \<open>src/core/auth_strategy_runtime.go\<close>,
  \<open>src/core/callback_url_resolver.go\<close> and \<open>EnsureCredentialFresh\<close> of \<open>src/core/credential_freshness.go\<close>.
  The service is a record of the interfaces it was built with, over a state \<open>'w\<close> that holds whatever they
  change; providers, the secret provider and the random state are such interfaces too. An interface that
  is not configured is \<open>None\<close>. Logging and metrics are left out.
\<close>

section \<open>Requests and interfaces\<close>

abbreviation "GrantEventReconsentRequested \<equiv> ''reconsent_requested''"
abbreviation "GrantEventReconsentCompleted \<equiv> ''reconsent_completed''"

record AuthBeginRequest =
  ab_Scope :: ScopeRef
  ab_RedirectURI :: string
  ab_State :: string
  ab_RequestedRaw :: "string list"
  ab_Metadata :: meta

record BeginAuthRequest =
  ba_ProviderID :: string
  ba_Scope :: ScopeRef
  ba_RedirectURI :: string
  ba_State :: string
  ba_RequestedGrants :: "string list"
  ba_Metadata :: meta

record BeginAuthResponse =
  bp_URL :: string
  bp_State :: string
  bp_RequestedGrants :: "string list"
  bp_Metadata :: meta

record AuthCompleteRequest =
  ac_Scope :: ScopeRef
  ac_Code :: string
  ac_State :: string
  ac_RedirectURI :: string
  ac_Metadata :: meta

record CompleteAuthRequest =
  ca_ProviderID :: string
  ca_Scope :: ScopeRef
  ca_Code :: string
  ca_State :: string
  ca_RedirectURI :: string
  ca_Metadata :: meta

record CompleteAuthResponse =
  cp_ExternalAccountID :: string
  cp_Credential :: ActiveCredential
  cp_RequestedGrants :: "string list"
  cp_GrantedGrants :: "string list"
  cp_Metadata :: meta

record RefreshResult =
  rs_Credential :: ActiveCredential
  rs_GrantedGrants :: "string list"
  rs_Metadata :: meta

record ConnectRequest =
  co_ProviderID :: string
  co_Scope :: ScopeRef
  co_RedirectURI :: string
  co_State :: string
  co_RequestedGrants :: "string list"
  co_Metadata :: meta

record ReconsentRequest =
  rc_ConnectionID :: string
  rc_RedirectURI :: string
  rc_State :: string
  rc_RequestedGrants :: "string list"
  rc_Metadata :: meta

record CallbackCompletion =
  cb_Connection :: Connection
  cb_Credential :: Credential

record RefreshRequest =
  rq_ProviderID :: string
  rq_ConnectionID :: string
  rq_Credential :: "ActiveCredential option"

record InvokeCapabilityRequest =
  iq_ProviderID :: string
  iq_Scope :: ScopeRef
  iq_Capability :: string
  iq_ConnectionID :: string

record CapabilityResult =
  cs_Allowed :: bool
  cs_Mode :: string
  cs_Reason :: string
  cs_Connection :: "Connection option"
  cs_Metadata :: meta

datatype CallbackURLResolveFlow = CallbackURLResolveFlowConnect | CallbackURLResolveFlowReconsent

record CallbackURLResolveRequest =
  cu_ProviderID :: string
  cu_Scope :: ScopeRef
  cu_ConnectionID :: string
  cu_Flow :: CallbackURLResolveFlow
  cu_RequestedGrants :: "string list"
  cu_Metadata :: meta

datatype EmbeddedRequestedTokenType =
    EmbeddedRequestedTokenTypeOffline | EmbeddedRequestedTokenTypeOnline | EmbeddedRequestedTokenTypeOther string

record EmbeddedAuthRequest =
  er_ProviderID :: string
  er_Scope :: ScopeRef
  er_SessionToken :: string
  er_ExpectedShopDomain :: string
  er_RequestedTokenType :: EmbeddedRequestedTokenType
  er_ReplayTTL :: int
  er_Metadata :: meta

record EmbeddedSessionClaims =
  ec_Issuer :: string
  ec_Destination :: string
  ec_Audience :: string
  ec_Subject :: string
  ec_JTI :: string
  ec_ShopDomain :: string
  ec_IssuedAt :: int
  ec_NotBefore :: int
  ec_ExpiresAt :: int
  ec_Raw :: meta

record EmbeddedAccessToken =
  et_AccessToken :: string
  et_TokenType :: string
  et_Scope :: "string list"
  et_ExpiresAt :: "int option"
  et_Metadata :: meta

record EmbeddedAuthResult =
  ea_ProviderID :: string
  ea_Scope :: ScopeRef
  ea_ShopDomain :: string
  ea_ExternalAccountID :: string
  ea_Claims :: EmbeddedSessionClaims
  ea_Token :: EmbeddedAccessToken
  ea_Credential :: ActiveCredential
  ea_Metadata :: meta

record 'w AuthStrategy =
  as_Type :: string
  as_Begin :: "AuthBeginRequest \<Rightarrow> ('w, BeginAuthResponse) effect"
  as_Complete :: "AuthCompleteRequest \<Rightarrow> ('w, CompleteAuthResponse) effect"
  as_Refresh :: "ActiveCredential \<Rightarrow> ('w, RefreshResult) effect"

text \<open>
  The methods of a provider; the optional interfaces \<open>AuthStrategyProvider\<close>, \<open>GrantAwareProvider\<close> and
  \<open>EmbeddedAuthProvider\<close> are \<open>None\<close> when it does not implement them (or has no strategy).
\<close>

record 'w provider_ops =
  pv_AuthKind :: string
  pv_BeginAuth :: "BeginAuthRequest \<Rightarrow> ('w, BeginAuthResponse) effect"
  pv_CompleteAuth :: "CompleteAuthRequest \<Rightarrow> ('w, CompleteAuthResponse) effect"
  pv_Refresh :: "ActiveCredential \<Rightarrow> ('w, RefreshResult) effect"
  pv_AuthStrategy :: "'w AuthStrategy option"
  pv_NormalizeGranted :: "(string list \<Rightarrow> string list result) option"
  pv_Embedded :: "(EmbeddedAuthRequest \<Rightarrow> ('w, EmbeddedAuthResult) effect) option"

record 'w OAuthStateStore =
  sta_Save :: "OAuthStateRecord \<Rightarrow> ('w, unit) effect"
  sta_Consume :: "string \<Rightarrow> ('w, OAuthStateRecord) effect"

record 'w ConnectionStore =
  cst_Create :: "CreateConnectionInput \<Rightarrow> ('w, Connection) effect"
  cst_Get :: "string \<Rightarrow> 'w \<Rightarrow> Connection result"
  cst_FindByScope :: "string \<Rightarrow> ScopeRef \<Rightarrow> 'w \<Rightarrow> Connection list result"
  cst_FindAccount :: "string \<Rightarrow> ScopeRef \<Rightarrow> string \<Rightarrow> 'w \<Rightarrow> (Connection option) result"
  cst_UpdateStatus :: "string \<Rightarrow> ConnectionStatus \<Rightarrow> string \<Rightarrow> ('w, unit) effect"

record 'w CredentialStore =
  kst_Save :: "SaveCredentialInput \<Rightarrow> ('w, Credential) effect"
  kst_GetActive :: "string \<Rightarrow> 'w \<Rightarrow> Credential result"
  kst_Revoke :: "string \<Rightarrow> string \<Rightarrow> ('w, unit) effect"

record 'w SecretProvider =
  sp_Encrypt :: "string \<Rightarrow> ('w, string) effect"
  sp_Decrypt :: "string \<Rightarrow> string result"
  sp_Metadata :: "(string \<times> int) option"

record 'w Service =
  svc_errorMapper :: "(goerr \<Rightarrow> goerr option) option"
  svc_errorFactory :: "string \<Rightarrow> category \<Rightarrow> rich_error"
  svc_registry :: "ProviderRegistry option"
  svc_ops :: "Provider \<Rightarrow> 'w provider_ops"
  svc_oauthStateStore :: "'w OAuthStateStore option"
  svc_connectionLocker :: "(string \<Rightarrow> int \<Rightarrow> ('w, 'w \<Rightarrow> 'w) effect) option"
  svc_connectionStore :: "'w ConnectionStore option"
  svc_credentialStore :: "'w CredentialStore option"
  svc_grantStore :: "'w GrantStore_ops option"
  svc_permissionEvaluator :: "(string \<Rightarrow> string \<Rightarrow> 'w \<Rightarrow> PermissionDecision result) option"
  svc_secretProvider :: "'w SecretProvider option"
  svc_credentialCodec :: "CredentialCodec option"
  svc_callbackURLResolver :: "(CallbackURLResolveRequest \<Rightarrow> ('w, string) effect) option"
  svc_inheritancePolicy :: "(string \<Rightarrow> ScopeRef \<Rightarrow> 'w \<Rightarrow> ConnectionResolution result) option"
  svc_enabledProviders :: "string list"
  svc_requireRedirect :: bool
  svc_generateState :: "('w, string) effect"
  svc_now :: "'w \<Rightarrow> int"
  svc_text :: "goerr \<Rightarrow> string"
  svc_json :: CredentialCodec
  svc_ff :: "int \<Rightarrow> int \<Rightarrow> string"

abbreviation svc_mapError :: "'w Service \<Rightarrow> goerr \<Rightarrow> goerr" where
  "svc_mapError s \<equiv> Service_mapError (svc_errorMapper s)"

abbreviation failS :: "'w Service \<Rightarrow> string \<Rightarrow> ('w, 'a) effect" where
  "failS s m \<equiv> fail (svc_mapError s (Plain m))"

section \<open>Strategies\<close>

definition normalizeAuthKind :: "string \<Rightarrow> string" where
  "normalizeAuthKind kind = TrimSpace (ToLower kind)"

definition authKindRequiresCallbackState :: "string \<Rightarrow> bool" where
  "authKindRequiresCallbackState kind \<longleftrightarrow>
     normalizeAuthKind kind = ''oauth2_auth_code'' \<or> normalizeAuthKind kind = ''oauth2''"

definition strategyRequiresCallbackState :: "'w AuthStrategy option \<Rightarrow> bool" where
  "strategyRequiresCallbackState strategy =
     (case strategy of None \<Rightarrow> False | Some st \<Rightarrow> authKindRequiresCallbackState (as_Type st))"

definition providerBackedAuthStrategy :: "string \<Rightarrow> 'w provider_ops \<Rightarrow> 'w AuthStrategy" where
  "providerBackedAuthStrategy providerID ops =
     \<lparr>as_Type = normalizeAuthKind (pv_AuthKind ops),
      as_Begin = (\<lambda>req. bindE (pv_BeginAuth ops \<lparr>ba_ProviderID = providerID, ba_Scope = ab_Scope req,
          ba_RedirectURI = ab_RedirectURI req, ba_State = ab_State req, ba_RequestedGrants = ab_RequestedRaw req,
          ba_Metadata = copyAnyMap (ab_Metadata req)\<rparr>)
        (\<lambda>r. ret (r\<lparr>bp_Metadata := copyAnyMap (bp_Metadata r)\<rparr>))),
      as_Complete = (\<lambda>req. bindE (pv_CompleteAuth ops \<lparr>ca_ProviderID = providerID, ca_Scope = ac_Scope req, ca_Code = ac_Code req,
          ca_State = ac_State req, ca_RedirectURI = ac_RedirectURI req, ca_Metadata = copyAnyMap (ac_Metadata req)\<rparr>)
        (\<lambda>r. ret (r\<lparr>cp_Metadata := copyAnyMap (cp_Metadata r)\<rparr>))),
      as_Refresh = pv_Refresh ops\<rparr>"

definition resolveAuthStrategy :: "'w Service \<Rightarrow> Provider option \<Rightarrow> 'w AuthStrategy option" where
  "resolveAuthStrategy s provider =
     (case provider of
        None \<Rightarrow> None
      | Some p \<Rightarrow>
          (case pv_AuthStrategy (svc_ops s p) of
             Some strategy \<Rightarrow> Some strategy
           | None \<Rightarrow> Some (providerBackedAuthStrategy (prov_ID p) (svc_ops s p))))"

definition resolveProvider :: "'w Service \<Rightarrow> string \<Rightarrow> Provider result" where
  "resolveProvider s providerID =
     (case svc_registry s of
        None \<Rightarrow> Inl (svc_mapError s (Plain ''core: registry unavailable''))
      | Some registry \<Rightarrow>
          let providerID = TrimSpace providerID in
          (case ProviderRegistry_Get registry providerID of
             Some provider \<Rightarrow> Inr provider
           | None \<Rightarrow>
               Inl (Rich ((svc_errorFactory s (''provider '' @ quote providerID @ '' is not registered'') CategoryNotFound)
                 \<lparr>TextCode := ''SERVICE_PROVIDER_NOT_FOUND'', ErrMeta := [(''provider_id'', AStr providerID)]\<rparr>) None)))"

definition resolveCallbackURL :: "'w Service \<Rightarrow> CallbackURLResolveRequest \<Rightarrow> ('w, string) effect" where
  "resolveCallbackURL s req =
     (case svc_callbackURLResolver s of
        None \<Rightarrow> ret []
      | Some resolve \<Rightarrow> bindE (resolve req) (\<lambda>resolved. ret (TrimSpace resolved)))"

section \<open>Connecting\<close>

definition save_state ::
  "'w Service \<Rightarrow> 'w AuthStrategy option \<Rightarrow> ConnectRequest \<Rightarrow> BeginAuthResponse \<Rightarrow> ('w, unit) effect" where
  "save_state s strategy req response =
     (case svc_oauthStateStore s of
        None \<Rightarrow> ret ()
      | Some store \<Rightarrow>
          if \<not> strategyRequiresCallbackState strategy then ret ()
          else (\<lambda>w. mapE (svc_mapError s) (sta_Save store
              \<lparr>os_State = bp_State response, os_ProviderID = co_ProviderID req, os_Scope = co_Scope req,
               os_RedirectURI = co_RedirectURI req, os_RequestedGrants = bp_RequestedGrants response,
               os_Metadata = copyAnyMap (co_Metadata req), os_CreatedAt = svc_now s w, os_ExpiresAt = 0\<rparr>) w))"

definition Service_Connect :: "'w Service \<Rightarrow> ConnectRequest \<Rightarrow> ('w, BeginAuthResponse) effect" where
  "Service_Connect s req =
     (case ScopeRef_Validate (co_Scope req) of
        Some err \<Rightarrow> fail (svc_mapError s err)
      | None \<Rightarrow>
          let redirect = TrimSpace (co_RedirectURI req) in
          bindE (if redirect \<noteq> [] then ret redirect
                 else mapE (svc_mapError s) (resolveCallbackURL s \<lparr>cu_ProviderID = co_ProviderID req, cu_Scope = co_Scope req,
                   cu_ConnectionID = [], cu_Flow = CallbackURLResolveFlowConnect,
                   cu_RequestedGrants = co_RequestedGrants req, cu_Metadata = copyAnyMap (co_Metadata req)\<rparr>)) (\<lambda>redirect.
          let req = req\<lparr>co_RedirectURI := redirect\<rparr> in
          bindE (lift (resolveProvider s (co_ProviderID req))) (\<lambda>provider.
          let strategy = resolveAuthStrategy s (Some provider) in
          (case strategy of
             None \<Rightarrow> failS s ''core: auth strategy is not configured''
           | Some st \<Rightarrow>
               bindE (let state = TrimSpace (co_State req) in
                      if state = [] \<and> strategyRequiresCallbackState strategy then mapE (svc_mapError s) (svc_generateState s)
                      else ret state) (\<lambda>state.
               bindE (mapE (svc_mapError s) (as_Begin st \<lparr>ab_Scope = co_Scope req, ab_RedirectURI = co_RedirectURI req,
                      ab_State = state, ab_RequestedRaw = co_RequestedGrants req, ab_Metadata = co_Metadata req\<rparr>)) (\<lambda>begun.
               let response = \<lparr>bp_URL = bp_URL begun,
                     bp_State = (if TrimSpace (bp_State begun) = [] then state else bp_State begun),
                     bp_RequestedGrants = (if bp_RequestedGrants begun = [] then co_RequestedGrants req else bp_RequestedGrants begun),
                     bp_Metadata = copyAnyMap (bp_Metadata begun)\<rparr> in
               bindE (save_state s strategy req response) (\<lambda>_. ret response)))))))"

section \<open>The callback\<close>

text \<open>\<open>strconv.ParseBool\<close>\<close>

definition ParseBool :: "string \<Rightarrow> bool option" where
  "ParseBool v =
     (if v \<in> {''1'', ''t'', ''T'', ''TRUE'', ''true'', ''True''} then Some True
      else if v \<in> {''0'', ''f'', ''F'', ''FALSE'', ''false'', ''False''} then Some False else None)"

fun parseBoolOverride :: "any \<Rightarrow> bool option" where
  "parseBoolOverride (ABool b) = Some b"
| "parseBoolOverride (AStr v) = ParseBool (TrimSpace v)"
| "parseBoolOverride _ = None"

definition requireCallbackRedirect :: "'w Service \<Rightarrow> meta \<Rightarrow> bool" where
  "requireCallbackRedirect s metadata =
     (if metadata = [] then svc_requireRedirect s
      else if parseBoolOverride (meta_get metadata ''require_callback_redirect'') = Some True then True
      else if parseBoolOverride (meta_get metadata ''strict_redirect_validation'') = Some True then True
      else svc_requireRedirect s)"

text \<open>The checks on a consumed state; \<open>None\<close> is a state that passes.\<close>

definition state_mismatch :: "'w Service \<Rightarrow> OAuthStateRecord \<Rightarrow> CompleteAuthRequest \<Rightarrow> goerr option" where
  "state_mismatch s record req =
     (if \<not> EqualFold (TrimSpace (os_ProviderID record)) (TrimSpace (ca_ProviderID req))
      then Some (Plain ''core: oauth callback state provider mismatch'')
      else if \<not> EqualFold (TrimSpace (scope_Type (os_Scope record))) (TrimSpace (scope_Type (ca_Scope req))) \<or>
              TrimSpace (scope_ID (os_Scope record)) \<noteq> TrimSpace (scope_ID (ca_Scope req))
      then Some (Plain ''core: oauth callback state scope mismatch'')
      else
        let savedRedirect = TrimSpace (os_RedirectURI record); requestRedirect = TrimSpace (ca_RedirectURI req) in
        if savedRedirect \<noteq> [] \<and> requestRedirect \<noteq> [] \<and> savedRedirect \<noteq> requestRedirect
        then Some (Plain ''core: oauth callback state redirect mismatch'')
        else if savedRedirect \<noteq> [] \<and> requestRedirect = [] \<and> requireCallbackRedirect s (ca_Metadata req)
        then Some (Plain ''core: oauth callback redirect uri is required'')
        else None)"

definition zero_state :: OAuthStateRecord where
  "zero_state = \<lparr>os_State = [], os_ProviderID = [], os_Scope = \<lparr>scope_Type = [], scope_ID = []\<rparr>, os_RedirectURI = [],
     os_RequestedGrants = [], os_Metadata = [], os_CreatedAt = 0, os_ExpiresAt = 0\<rparr>"

definition restore_state :: "'w Service \<Rightarrow> 'w OAuthStateStore \<Rightarrow> OAuthStateRecord \<Rightarrow> goerr \<Rightarrow> ('w, OAuthStateRecord) effect" where
  "restore_state s store record validationErr =
     (\<lambda>w. case sta_Save store (cloneOAuthStateRecord record) w of
        (Inl saveErr, w') \<Rightarrow> (Inl (Joined [validationErr, wrapf (svc_text s) ''core: restore oauth callback state: '' saveErr]), w')
      | (Inr _, w') \<Rightarrow> (Inl validationErr, w'))"

definition consumeOAuthCallbackState :: "'w Service \<Rightarrow> CompleteAuthRequest \<Rightarrow> ('w, OAuthStateRecord) effect" where
  "consumeOAuthCallbackState s req =
     (case svc_oauthStateStore s of
        None \<Rightarrow> ret zero_state
      | Some store \<Rightarrow>
          let state = TrimSpace (ca_State req) in
          if state = [] then fail (Plain ''core: oauth callback state is required'')
          else bindE (sta_Consume store state) (\<lambda>record.
            case state_mismatch s record req of
              Some validationErr \<Rightarrow> restore_state s store record validationErr
            | None \<Rightarrow> ret (cloneOAuthStateRecord record)))"

definition applyOAuthStateContext :: "CompleteAuthRequest \<Rightarrow> OAuthStateRecord \<Rightarrow> CompleteAuthRequest" where
  "applyOAuthStateContext req record =
     (let redirect = (if TrimSpace (ca_RedirectURI req) = [] \<and> TrimSpace (os_RedirectURI record) \<noteq> []
            then TrimSpace (os_RedirectURI record) else ca_RedirectURI req);
          merged = maps_Copy (copyAnyMap (os_Metadata record)) (ca_Metadata req);
          merged = (if length (os_RequestedGrants record) > 0
            then AList.update ''requested_grants'' (AArr (map AStr (os_RequestedGrants record))) merged else merged)
      in req\<lparr>ca_RedirectURI := redirect, ca_Metadata := merged\<rparr>)"

fun readStringMetadata :: "(int \<Rightarrow> int \<Rightarrow> string) \<Rightarrow> meta \<Rightarrow> string list \<Rightarrow> string" where
  "readStringMetadata ff metadata [] = []"
| "readStringMetadata ff metadata (key # keys) =
     (case map_of metadata key of
        None \<Rightarrow> readStringMetadata ff metadata keys
      | Some value \<Rightarrow>
          if value = ANil then readStringMetadata ff metadata keys
          else let trimmed = TrimSpace (Sprint ff value) in
            if trimmed \<noteq> [] \<and> trimmed \<noteq> ''<nil>'' then trimmed else readStringMetadata ff metadata keys)"

definition findCallbackConnection ::
  "'w Service \<Rightarrow> string \<Rightarrow> ScopeRef \<Rightarrow> string \<Rightarrow> string \<Rightarrow> 'w \<Rightarrow> (Connection option) result" where
  "findCallbackConnection s providerID scope externalAccountID targetConnectionID w =
     (case svc_connectionStore s of
        None \<Rightarrow> Inr None
      | Some store \<Rightarrow>
          let targetConnectionID = TrimSpace targetConnectionID in
          if targetConnectionID \<noteq> [] then
            (case cst_Get store targetConnectionID w of
               Inl err \<Rightarrow> Inl err
             | Inr target \<Rightarrow>
                 if \<not> EqualFold (TrimSpace (conn_ProviderID target)) (TrimSpace providerID) \<or>
                    \<not> EqualFold (TrimSpace (conn_ScopeType target)) (TrimSpace (scope_Type scope)) \<or>
                    TrimSpace (conn_ScopeID target) \<noteq> TrimSpace (scope_ID scope)
                 then Inl (Plain ''core: callback target connection does not match provider/scope'')
                 else if TrimSpace (conn_ExternalAccountID target) \<noteq> TrimSpace externalAccountID
                 then Inl (Plain ''core: callback external account id does not match target connection'')
                 else Inr (Some target))
          else cst_FindAccount store providerID scope externalAccountID w)"

definition encryptCredentialPayload ::
  "'w Service \<Rightarrow> ActiveCredential \<Rightarrow> ('w, string \<times> string \<times> int \<times> string \<times> int) effect" where
  "encryptCredentialPayload s credential =
     (case svc_secretProvider s of
        None \<Rightarrow> fail (Plain ''core: secret provider is required to persist credential payloads'')
      | Some secret \<Rightarrow>
          let codec = (case svc_credentialCodec s of None \<Rightarrow> svc_json s | Some c \<Rightarrow> c) in
          bindE (lift (cc_Encode codec credential)) (\<lambda>plaintext.
          if length plaintext = 0 then fail (Plain ''core: credential payload codec encoded an empty payload'')
          else bindE (mapE (wrapf (svc_text s) ''core: encrypt credential payload: '') (sp_Encrypt secret plaintext)) (\<lambda>encrypted.
          if length encrypted = 0 then fail (Plain ''core: encrypted credential payload is empty'')
          else if encrypted = plaintext then fail (Plain ''core: encrypted credential payload is not encrypted'')
          else
            let keyID = (case sp_Metadata secret of Some (x, _) \<Rightarrow> if TrimSpace x \<noteq> [] then TrimSpace x else ''managed'' | None \<Rightarrow> ''managed'');
                version = (case sp_Metadata secret of Some (_, v) \<Rightarrow> if v > 0 then v else 1 | None \<Rightarrow> 1)
            in ret (encrypted, keyID, version, cc_Format codec, cc_Version codec))))"

definition codecForCredential :: "'w Service \<Rightarrow> Credential \<Rightarrow> CredentialCodec result" where
  "codecForCredential s credential =
     (let format = ToLower (TrimSpace (cred_PayloadFormat credential));
          format = (if format = [] then CredentialPayloadFormatLegacyToken else format);
          version = (if cred_PayloadVersion credential \<le> 0 then CredentialPayloadVersionV1 else cred_PayloadVersion credential);
          unsupported = Inl (Plain (''core: unsupported credential payload version '' @ Itoa version @ '' for format '' @ quote format));
          legacy = LegacyTokenCredentialCodec;
          fallback = (if format = cc_Format legacy then (if version \<noteq> cc_Version legacy then unsupported else Inr legacy)
            else Inl (Plain (''core: unsupported credential payload format '' @ quote format)))
      in case svc_credentialCodec s of
           None \<Rightarrow> fallback
         | Some codec \<Rightarrow>
             if format = ToLower (TrimSpace (cc_Format codec))
             then (if version \<noteq> cc_Version codec then unsupported else Inr codec)
             else fallback)"

definition credentialToActive :: "'w Service \<Rightarrow> Credential \<Rightarrow> ActiveCredential result" where
  "credentialToActive s credential =
     (case (if length (cred_EncryptedPayload credential) > 0 then
              (case svc_secretProvider s of
                 None \<Rightarrow> Inl (Plain ''core: secret provider is required to decrypt credential payloads'')
               | Some secret \<Rightarrow>
                   (case sp_Decrypt secret (cred_EncryptedPayload credential) of
                      Inl err \<Rightarrow> Inl (wrapf (svc_text s) ''core: decrypt credential payload: '' err)
                    | Inr decrypted \<Rightarrow>
                        (case codecForCredential s credential of
                           Inl codecErr \<Rightarrow> Inl codecErr
                         | Inr codec \<Rightarrow> cc_Decode codec decrypted)))
            else Inr (zero_credential\<lparr>ak_ConnectionID := cred_ConnectionID credential\<rparr>)) of
        Inl err \<Rightarrow> Inl err
      | Inr a \<Rightarrow>
          Inr (a\<lparr>ak_ConnectionID := (if TrimSpace (ak_ConnectionID a) = [] then cred_ConnectionID credential else ak_ConnectionID a),
            ak_TokenType := (if TrimSpace (ak_TokenType a) = [] then cred_TokenType credential else ak_TokenType a),
            ak_RequestedScopes := (if ak_RequestedScopes a = [] then cred_RequestedScopes credential else ak_RequestedScopes a),
            ak_GrantedScopes := (if ak_GrantedScopes a = [] then cred_GrantedScopes credential else ak_GrantedScopes a),
            ak_Refreshable := (cred_Refreshable credential \<or> ak_Refreshable a),
            ak_ExpiresAt := (if ak_ExpiresAt a = None \<and> cred_ExpiresAt credential \<noteq> 0 then Some (cred_ExpiresAt credential) else ak_ExpiresAt a),
            ak_RotatesAt := (if ak_RotatesAt a = None \<and> cred_RotatesAt credential \<noteq> 0 then Some (cred_RotatesAt credential) else ak_RotatesAt a)\<rparr>))"

text \<open>The input that \<open>CompleteCallback\<close> and \<open>Refresh\<close> save.\<close>

definition save_input :: "string \<Rightarrow> ActiveCredential \<Rightarrow> string \<times> string \<times> int \<times> string \<times> int \<Rightarrow> SaveCredentialInput" where
  "save_input connectionID c enc =
     (case enc of (payload, keyID, keyVersion, format, version) \<Rightarrow>
        \<lparr>ki_ConnectionID = connectionID, ki_EncryptedPayload = payload, ki_PayloadFormat = format, ki_PayloadVersion = version,
         ki_TokenType = ak_TokenType c, ki_RequestedScopes = ak_RequestedScopes c, ki_GrantedScopes = ak_GrantedScopes c,
         ki_ExpiresAt = ak_ExpiresAt c, ki_Refreshable = ak_Refreshable c, ki_RotatesAt = ak_RotatesAt c,
         ki_Status = CredentialStatusActive, ki_EncryptionKeyID = keyID, ki_EncryptionVersion = keyVersion\<rparr>)"

definition reconcile ::
  "'w Service \<Rightarrow> Provider \<Rightarrow> string \<Rightarrow> string list \<Rightarrow> string list \<Rightarrow> meta \<Rightarrow> ('w, GrantSnapshot option \<times> GrantDelta) effect" where
  "reconcile s provider connectionID requested granted metadata =
     (\<lambda>w. reconcileGrantSnapshot (svc_grantStore s) (pv_NormalizeGranted (svc_ops s provider)) connectionID requested granted
        metadata (svc_now s w) w)"

definition append_event :: "'w Service \<Rightarrow> (int \<Rightarrow> AppendGrantEventInput) \<Rightarrow> ('w, unit) effect" where
  "append_event s event =
     (case svc_grantStore s of None \<Rightarrow> ret () | Some store \<Rightarrow> ignoreE (\<lambda>w. gs_AppendEvent store w (event (svc_now s w))))"

definition find_or_create_connection ::
  "'w Service \<Rightarrow> string \<Rightarrow> ScopeRef \<Rightarrow> string \<Rightarrow> string \<Rightarrow> ('w, Connection \<times> bool) effect" where
  "find_or_create_connection s providerID scope externalAccountID target =
     (case svc_connectionStore s of
        None \<Rightarrow>
          ret (\<lparr>conn_ID = [], conn_ProviderID = providerID, conn_ScopeType = scope_Type scope, conn_ScopeID = scope_ID scope,
            conn_ExternalAccountID = externalAccountID, conn_Status = ConnectionStatusActive, conn_InheritsFrom = [],
            conn_LastError = [], conn_CreatedAt = 0, conn_UpdatedAt = 0\<rparr>, False)
      | Some store \<Rightarrow>
          bindE (mapE (svc_mapError s) (reads (findCallbackConnection s providerID scope externalAccountID target))) (\<lambda>found.
          case found of
            Some existing \<Rightarrow>
              bindE (mapE (svc_mapError s) (cst_UpdateStatus store (conn_ID existing) ConnectionStatusActive [])) (\<lambda>_.
              ret (existing\<lparr>conn_Status := ConnectionStatusActive, conn_LastError := []\<rparr>,
                conn_Status existing = ConnectionStatusNeedsReconsent))
          | None \<Rightarrow>
              bindE (mapE (svc_mapError s) (cst_Create store \<lparr>xi_ProviderID = providerID, xi_Scope = scope,
                xi_ExternalAccountID = externalAccountID, xi_Status = ConnectionStatusActive\<rparr>)) (\<lambda>c. ret (c, False))))"

definition store_credential :: "'w Service \<Rightarrow> string \<Rightarrow> ActiveCredential \<Rightarrow> ('w, Credential) effect" where
  "store_credential s connectionID c =
     (case svc_credentialStore s of
        None \<Rightarrow>
          ret \<lparr>cred_ID = [], cred_ConnectionID = connectionID, cred_Version = 0, cred_EncryptedPayload = [], cred_PayloadFormat = [],
            cred_PayloadVersion = 0, cred_TokenType = ak_TokenType c, cred_RequestedScopes = ak_RequestedScopes c,
            cred_GrantedScopes = ak_GrantedScopes c, cred_ExpiresAt = (case ak_ExpiresAt c of None \<Rightarrow> 0 | Some t \<Rightarrow> t),
            cred_Refreshable = False, cred_RotatesAt = (case ak_RotatesAt c of None \<Rightarrow> 0 | Some t \<Rightarrow> t),
            cred_Status = CredentialStatusActive, cred_CreatedAt = 0, cred_UpdatedAt = 0\<rparr>
      | Some store \<Rightarrow>
          bindE (mapE (svc_mapError s) (encryptCredentialPayload s c)) (\<lambda>enc.
          mapE (svc_mapError s) (kst_Save store (save_input connectionID c enc))))"

text \<open>The first half of \<open>CompleteCallback\<close> gives the request its state, the second half stores what the exchange returned.\<close>

definition callback_request :: "'w Service \<Rightarrow> 'w AuthStrategy option \<Rightarrow> CompleteAuthRequest \<Rightarrow> ('w, CompleteAuthRequest) effect" where
  "callback_request s strategy req =
     (if strategyRequiresCallbackState strategy
      then mapE (svc_mapError s) (bindE (consumeOAuthCallbackState s req) (\<lambda>r. ret (applyOAuthStateContext req r)))
      else ret req)"

definition finish_callback ::
  "'w Service \<Rightarrow> Provider \<Rightarrow> CompleteAuthRequest \<Rightarrow> CompleteAuthResponse \<Rightarrow> ('w, CallbackCompletion) effect" where
  "finish_callback s provider req result =
     (let providerID = TrimSpace (prov_ID provider);
          scope = \<lparr>scope_Type = TrimSpace (ToLower (scope_Type (ca_Scope req))), scope_ID = TrimSpace (scope_ID (ca_Scope req))\<rparr>;
          externalAccountID = TrimSpace (cp_ExternalAccountID result) in
      if externalAccountID = [] then failS s ''core: external account id is required''
      else
        bindE (find_or_create_connection s providerID scope externalAccountID
          (readStringMetadata (svc_ff s) (ca_Metadata req) [''connection_id''])) (\<lambda>(connection, wasNeedsReconsent).
        bindE (store_credential s (conn_ID connection) (cp_Credential result)) (\<lambda>credential.
        let requested = (if cp_RequestedGrants result = [] then ak_RequestedScopes (cp_Credential result) else cp_RequestedGrants result);
            granted = (if cp_GrantedGrants result = [] then ak_GrantedScopes (cp_Credential result) else cp_GrantedGrants result) in
        bindE (mapE (svc_mapError s) (reconcile s provider (conn_ID connection) requested granted (ca_Metadata req))) (\<lambda>(_, delta).
        bindE (if wasNeedsReconsent then append_event s (\<lambda>now. \<lparr>ge_ConnectionID = conn_ID connection,
                 ge_EventType = GrantEventReconsentCompleted, ge_Added = gd_Added delta, ge_Removed = gd_Removed delta,
                 ge_OccurredAt = now, ge_Metadata = copyAnyMap (ca_Metadata req)\<rparr>) else ret ()) (\<lambda>_.
        ret \<lparr>cb_Connection = connection, cb_Credential = credential\<rparr>)))))"

definition Service_CompleteCallback :: "'w Service \<Rightarrow> CompleteAuthRequest \<Rightarrow> ('w, CallbackCompletion) effect" where
  "Service_CompleteCallback s req =
     (case ScopeRef_Validate (ca_Scope req) of
        Some err \<Rightarrow> fail (svc_mapError s err)
      | None \<Rightarrow>
          bindE (lift (resolveProvider s (ca_ProviderID req))) (\<lambda>provider.
          let strategy = resolveAuthStrategy s (Some provider) in
          (case strategy of
             None \<Rightarrow> failS s ''core: auth strategy is not configured''
           | Some st \<Rightarrow>
               bindE (callback_request s strategy req) (\<lambda>req.
               bindE (mapE (svc_mapError s) (as_Complete st \<lparr>ac_Scope = ca_Scope req, ac_Code = ca_Code req, ac_State = ca_State req,
                      ac_RedirectURI = ca_RedirectURI req, ac_Metadata = copyAnyMap (ca_Metadata req)\<rparr>)) (\<lambda>result.
               finish_callback s provider req result)))))"

section \<open>Re-consent and embedded authentication\<close>

definition Service_StartReconsent :: "'w Service \<Rightarrow> ReconsentRequest \<Rightarrow> ('w, BeginAuthResponse) effect" where
  "Service_StartReconsent s req =
     (case svc_connectionStore s of
        None \<Rightarrow> failS s ''core: connection store is required for re-consent''
      | Some store \<Rightarrow>
          let connectionID = TrimSpace (rc_ConnectionID req) in
          if connectionID = [] then failS s ''core: connection id is required for re-consent''
          else
            bindE (mapE (svc_mapError s) (reads (cst_Get store connectionID))) (\<lambda>connection.
            bindE (mapE (svc_mapError s) (cst_UpdateStatus store connectionID ConnectionStatusNeedsReconsent ''re-consent requested'')) (\<lambda>_.
            bindE (\<lambda>w. (Inr (if rc_RequestedGrants req = [] then
                      (case svc_grantStore s of
                         None \<Rightarrow> []
                       | Some grants \<Rightarrow>
                           (case gs_GetLatestSnapshot grants w connectionID of
                              Inr (Some snapshot) \<Rightarrow> sg_Requested snapshot | _ \<Rightarrow> []))
                    else rc_RequestedGrants req), w)) (\<lambda>requested.
            bindE (append_event s (\<lambda>now. \<lparr>ge_ConnectionID = connectionID, ge_EventType = GrantEventReconsentRequested,
                     ge_Added = normalizeGrants requested, ge_Removed = [], ge_OccurredAt = now,
                     ge_Metadata = copyAnyMap (rc_Metadata req)\<rparr>)) (\<lambda>_.
            let metadata = AList.update ''connection_id'' (AStr connectionID) (copyAnyMap (rc_Metadata req));
                scope = \<lparr>scope_Type = conn_ScopeType connection, scope_ID = conn_ScopeID connection\<rparr>;
                redirectURI = TrimSpace (rc_RedirectURI req) in
            bindE (if redirectURI \<noteq> [] then ret redirectURI
                   else mapE (svc_mapError s) (resolveCallbackURL s \<lparr>cu_ProviderID = conn_ProviderID connection, cu_Scope = scope,
                     cu_ConnectionID = connectionID, cu_Flow = CallbackURLResolveFlowReconsent,
                     cu_RequestedGrants = requested, cu_Metadata = copyAnyMap metadata\<rparr>)) (\<lambda>redirectURI.
            Service_Connect s \<lparr>co_ProviderID = conn_ProviderID connection, co_Scope = scope, co_RedirectURI = redirectURI,
              co_State = rc_State req, co_RequestedGrants = requested, co_Metadata = metadata\<rparr>))))))"

definition Service_CompleteReconsent :: "'w Service \<Rightarrow> CompleteAuthRequest \<Rightarrow> ('w, CallbackCompletion) effect" where
  "Service_CompleteReconsent s req = Service_CompleteCallback s req"

definition Service_AuthenticateEmbedded :: "'w Service \<Rightarrow> EmbeddedAuthRequest \<Rightarrow> ('w, EmbeddedAuthResult) effect" where
  "Service_AuthenticateEmbedded s req =
     (case ScopeRef_Validate (er_Scope req) of
        Some err \<Rightarrow> fail (svc_mapError s err)
      | None \<Rightarrow>
          let providerID = TrimSpace (er_ProviderID req) in
          if providerID = [] then failS s ''core: provider id is required''
          else bindE (lift (resolveProvider s providerID)) (\<lambda>provider.
            case pv_Embedded (svc_ops s provider) of
              None \<Rightarrow> fail (svc_mapError s (Wrapped (sentinel_msg ErrEmbeddedAuthUnsupported @ '' for provider '' @ quote providerID)
                [Sentinel ErrEmbeddedAuthUnsupported]))
            | Some authenticate \<Rightarrow>
                bindE (mapE (svc_mapError s) (authenticate (req\<lparr>er_ProviderID := prov_ID provider\<rparr>))) (\<lambda>result.
                ret (if TrimSpace (ea_ProviderID result) = [] then result\<lparr>ea_ProviderID := prov_ID provider\<rparr> else result))))"

section \<open>Refreshing\<close>

definition isRefreshLockHeld :: "string option \<Rightarrow> string \<Rightarrow> bool" where
  "isRefreshLockHeld held connectionID =
     (TrimSpace (case held of None \<Rightarrow> [] | Some value \<Rightarrow> value) = TrimSpace connectionID)"

definition transitionConnectionToNeedsReconsent :: "'w Service \<Rightarrow> string \<Rightarrow> string \<Rightarrow> ('w, unit) effect" where
  "transitionConnectionToNeedsReconsent s connectionID reason =
     (case svc_connectionStore s of
        None \<Rightarrow> ret ()
      | Some store \<Rightarrow>
          let reason = (if TrimSpace reason = [] then ''re-consent required'' else TrimSpace reason) in
          bindE (cst_UpdateStatus store connectionID ConnectionStatusNeedsReconsent reason) (\<lambda>_.
          append_event s (\<lambda>now. \<lparr>ge_ConnectionID = connectionID, ge_EventType = GrantEventReconsentRequested, ge_Added = [],
            ge_Removed = [], ge_OccurredAt = now, ge_Metadata = [(''reason'', AStr reason)]\<rparr>)))"

definition sameStringSliceSet :: "string list \<Rightarrow> string list \<Rightarrow> bool" where
  "sameStringSliceSet left right =
     (length (toGrantSet left) = length (toGrantSet right) \<and> (\<forall>g \<in> set (toGrantSet left). g \<in> set (toGrantSet right)))"

fun sameTimePointer :: "int option \<Rightarrow> int option \<Rightarrow> bool" where
  "sameTimePointer None None = True"
| "sameTimePointer (Some l) (Some r) = (l = r)"
| "sameTimePointer _ _ = False"

definition shouldPersistRefreshedCredential :: "ActiveCredential \<Rightarrow> ActiveCredential \<Rightarrow> bool" where
  "shouldPersistRefreshedCredential current refreshed =
     (if \<not> EqualFold (TrimSpace (ak_TokenType current)) (TrimSpace (ak_TokenType refreshed)) then True
      else
        let currentToken = TrimSpace (ak_AccessToken current); refreshedToken = TrimSpace (ak_AccessToken refreshed) in
        if refreshedToken \<noteq> [] \<and> currentToken \<noteq> refreshedToken then True
        else if refreshedToken = [] \<and> currentToken = [] \<and> TrimSpace (ak_RefreshToken refreshed) \<noteq> [] \<and>
                TrimSpace (ak_RefreshToken current) \<noteq> TrimSpace (ak_RefreshToken refreshed) then True
        else if ak_Refreshable current \<noteq> ak_Refreshable refreshed then True
        else if \<not> sameStringSliceSet (ak_RequestedScopes current) (ak_RequestedScopes refreshed) then True
        else if \<not> sameStringSliceSet (ak_GrantedScopes current) (ak_GrantedScopes refreshed) then True
        else if \<not> sameTimePointer (ak_ExpiresAt current) (ak_ExpiresAt refreshed) then True
        else \<not> sameTimePointer (ak_RotatesAt current) (ak_RotatesAt refreshed))"

definition resolveRefreshGrantedGrants :: "RefreshResult \<Rightarrow> string list" where
  "resolveRefreshGrantedGrants result =
     (if length (rs_GrantedGrants result) > 0 then rs_GrantedGrants result
      else if length (ak_GrantedScopes (rs_Credential result)) > 0 then ak_GrantedScopes (rs_Credential result)
      else [])"

text \<open>The provider of the request, checked against the one of the connection.\<close>

definition refresh_provider_id :: "'w Service \<Rightarrow> RefreshRequest \<Rightarrow> 'w \<Rightarrow> string result" where
  "refresh_provider_id s req w =
     (let resolved = TrimSpace (rq_ProviderID req) in
      case (case svc_connectionStore s of
          None \<Rightarrow> Inr resolved
        | Some store \<Rightarrow>
            (case cst_Get store (rq_ConnectionID req) w of
               Inl loadErr \<Rightarrow> Inl (svc_mapError s loadErr)
             | Inr connection \<Rightarrow>
                 let owner = TrimSpace (conn_ProviderID connection) in
                 if owner = [] then Inl (svc_mapError s (Plain (''core: connection '' @ quote (rq_ConnectionID req) @ '' has no provider id'')))
                 else if resolved = [] then Inr owner
                 else if \<not> EqualFold resolved owner
                 then Inl (svc_mapError s (Plain (''core: provider mismatch for connection '' @ quote (rq_ConnectionID req) @
                   '': got '' @ quote resolved @ '' want '' @ quote owner)))
                 else Inr resolved)) of
        Inl err \<Rightarrow> Inl err
      | Inr resolved \<Rightarrow> if resolved = [] then Inl (svc_mapError s (Plain ''core: provider id is required'')) else Inr resolved)"

definition refresh_input :: "'w Service \<Rightarrow> RefreshRequest \<Rightarrow> 'w \<Rightarrow> ActiveCredential result" where
  "refresh_input s req w =
     (case rq_Credential req of
        Some c \<Rightarrow> Inr c
      | None \<Rightarrow>
          (case svc_credentialStore s of
             None \<Rightarrow> Inl (svc_mapError s (Plain ''core: refresh requires credential input or credential store''))
           | Some store \<Rightarrow>
               (case kst_GetActive store (rq_ConnectionID req) w of
                  Inl loadErr \<Rightarrow> Inl (svc_mapError s loadErr)
                | Inr stored \<Rightarrow>
                    (case credentialToActive s stored of Inl err \<Rightarrow> Inl (svc_mapError s err) | Inr a \<Rightarrow> Inr a))))"

definition refresh_body :: "'w Service \<Rightarrow> RefreshRequest \<Rightarrow> ('w, RefreshResult) effect" where
  "refresh_body s req =
     (let connectionID = rq_ConnectionID req in
      bindE (reads (refresh_provider_id s req)) (\<lambda>providerID.
      bindE (lift (resolveProvider s providerID)) (\<lambda>provider.
      (case resolveAuthStrategy s (Some provider) of
         None \<Rightarrow> failS s ''core: auth strategy is not configured''
       | Some strategy \<Rightarrow>
           bindE (reads (refresh_input s req)) (\<lambda>activeCred.
           bindE (mapE (svc_mapError s) (as_Refresh strategy activeCred)) (\<lambda>result.
           bindE (case svc_credentialStore s of
                    None \<Rightarrow> ret ()
                  | Some _ \<Rightarrow>
                      if shouldPersistRefreshedCredential activeCred (rs_Credential result)
                      then bindE (store_credential s connectionID (rs_Credential result)) (\<lambda>_. ret ()) else ret ()) (\<lambda>_.
           bindE (case svc_connectionStore s of
                    None \<Rightarrow> ret ()
                  | Some store \<Rightarrow> mapE (svc_mapError s) (cst_UpdateStatus store connectionID ConnectionStatusActive [])) (\<lambda>_.
           bindE (mapE (svc_mapError s) (reconcile s provider connectionID (ak_RequestedScopes (rs_Credential result))
                    (resolveRefreshGrantedGrants result) (rs_Metadata result))) (\<lambda>(snapshot, _).
           let granted = (case snapshot of None \<Rightarrow> [] | Some sn \<Rightarrow> sg_Granted sn) in
           bindE (if length (missingRequiredProviderGrants (prov_Capabilities provider) granted) > 0
                  then mapE (svc_mapError s) (transitionConnectionToNeedsReconsent s connectionID ''required grants missing after refresh'')
                  else ret ()) (\<lambda>_.
           ret result))))))))))"

text \<open>\<open>held\<close> is the connection whose lock the context already carries.\<close>

definition Service_Refresh :: "'w Service \<Rightarrow> string option \<Rightarrow> RefreshRequest \<Rightarrow> ('w, RefreshResult) effect" where
  "Service_Refresh s held req =
     (let connectionID = TrimSpace (rq_ConnectionID req) in
      if connectionID = [] then failS s ''core: connection id is required''
      else
        let req = req\<lparr>rq_ConnectionID := connectionID\<rparr> in
        (case svc_connectionLocker s of
           None \<Rightarrow> refresh_body s req
         | Some acquire \<Rightarrow>
             if isRefreshLockHeld held connectionID then refresh_body s req
             else bindE (mapE (svc_mapError s) (acquire connectionID defaultRefreshLockTTL)) (\<lambda>unlock w.
               case refresh_body s req w of (r, w') \<Rightarrow> (r, unlock w'))))"

section \<open>Revoking and deciding\<close>

definition Service_Revoke :: "'w Service \<Rightarrow> string \<Rightarrow> string \<Rightarrow> ('w, unit) effect" where
  "Service_Revoke s connectionID reason =
     (if TrimSpace connectionID = [] then failS s ''core: connection id is required''
      else
        bindE (case svc_credentialStore s of
                 None \<Rightarrow> ret () | Some store \<Rightarrow> mapE (svc_mapError s) (kst_Revoke store connectionID reason)) (\<lambda>_.
        (case svc_connectionStore s of
           None \<Rightarrow> ret ()
         | Some store \<Rightarrow> mapE (svc_mapError s) (cst_UpdateStatus store connectionID ConnectionStatusDisconnected reason))))"

definition resolution_text :: "ConnectionResolutionKind \<Rightarrow> string" where
  "resolution_text k = (case k of ConnectionResolutionDirect \<Rightarrow> ''direct'' | ConnectionResolutionInherited \<Rightarrow> ''inherited''
     | ConnectionResolutionAmbiguous \<Rightarrow> ''ambiguous'' | ConnectionResolutionNotFound \<Rightarrow> ''not_found'')"

definition capability_resolution :: "'w Service \<Rightarrow> InvokeCapabilityRequest \<Rightarrow> 'w \<Rightarrow> ConnectionResolution result" where
  "capability_resolution s req w =
     (let requestedID = TrimSpace (iq_ConnectionID req) in
      if requestedID \<noteq> [] then
        (case svc_connectionStore s of
           None \<Rightarrow> Inl (svc_mapError s (Plain ''core: connection store unavailable''))
         | Some store \<Rightarrow>
             (case cst_Get store requestedID w of
                Inl loadErr \<Rightarrow> Inl (svc_mapError s loadErr)
              | Inr connection \<Rightarrow>
                  if \<not> EqualFold (TrimSpace (conn_ProviderID connection)) (TrimSpace (iq_ProviderID req))
                  then Inl (svc_mapError s (Plain (''core: provider mismatch for connection '' @ quote requestedID)))
                  else if (TrimSpace (scope_Type (iq_Scope req)) \<noteq> [] \<or> TrimSpace (scope_ID (iq_Scope req)) \<noteq> []) \<and>
                     (\<not> EqualFold (TrimSpace (conn_ScopeType connection)) (TrimSpace (scope_Type (iq_Scope req))) \<or>
                      TrimSpace (conn_ScopeID connection) \<noteq> TrimSpace (scope_ID (iq_Scope req)))
                  then Inl (svc_mapError s (Plain (''core: scope mismatch for connection '' @ quote requestedID)))
                  else if conn_Status connection \<noteq> ConnectionStatusActive
                  then Inr (resolution ConnectionResolutionNotFound None ''connection is not active'')
                  else Inr (resolution ConnectionResolutionDirect (Some connection) [])))
      else
        (case Service_resolveConnection (svc_text s)
            (map_option (\<lambda>store p scope. cst_FindByScope store p scope w) (svc_connectionStore s)) (svc_enabledProviders s)
            (map_option (\<lambda>policy p scope. policy p scope w) (svc_inheritancePolicy s)) (iq_ProviderID req) (iq_Scope req) of
           Inl err \<Rightarrow> Inl (svc_mapError s err)
         | Inr r \<Rightarrow> Inr r))"

text \<open>\<open>resolution.Connection.ID\<close>\<close>

definition resolved_id :: "ConnectionResolution \<Rightarrow> string" where
  "resolved_id res = (case cn_Connection res of None \<Rightarrow> [] | Some c \<Rightarrow> conn_ID c)"

definition Service_InvokeCapability :: "'w Service \<Rightarrow> InvokeCapabilityRequest \<Rightarrow> ('w, CapabilityResult) effect" where
  "Service_InvokeCapability s req =
     bindE (lift (resolveProvider s (iq_ProviderID req))) (\<lambda>provider.
     case findCapabilityDescriptor (prov_Capabilities provider) (iq_Capability req) of
       None \<Rightarrow>
         fail (Rich ((svc_errorFactory s (''capability '' @ quote (iq_Capability req) @ '' is not supported by provider '' @
           quote (iq_ProviderID req)) CategoryOperation)
           \<lparr>TextCode := ''SERVICE_CAPABILITY_UNSUPPORTED'',
            ErrMeta := [(''provider_id'', AStr (iq_ProviderID req)), (''capability'', AStr (iq_Capability req))]\<rparr>) None)
     | Some descriptor \<Rightarrow>
         bindE (reads (capability_resolution s req)) (\<lambda>res.
         if cn_Outcome res = ConnectionResolutionNotFound \<or> cn_Outcome res = ConnectionResolutionAmbiguous
         then ret \<lparr>cs_Allowed = False, cs_Mode = CapabilityDeniedBehaviorBlock, cs_Reason = cn_Reason res, cs_Connection = None, cs_Metadata = []\<rparr>
         else
           bindE (case svc_permissionEvaluator s of
                    None \<Rightarrow> ret \<lparr>pd_Allowed = True, pd_Capability = iq_Capability req, pd_Reason = [], pd_MissingGrants = [],
                      pd_Mode = cd_DeniedBehavior descriptor\<rparr>
                  | Some evaluate \<Rightarrow>
                      bindE (mapE (svc_mapError s) (reads (evaluate (resolved_id res) (iq_Capability req)))) (\<lambda>d.
                      ret (if pd_Mode d = [] then d\<lparr>pd_Mode := cd_DeniedBehavior descriptor\<rparr> else d))) (\<lambda>decision.
           ret \<lparr>cs_Allowed = pd_Allowed decision, cs_Mode = pd_Mode decision, cs_Reason = pd_Reason decision,
             cs_Connection = cn_Connection res,
             cs_Metadata = (''resolution'', AStr (resolution_text (cn_Outcome res))) #
               (if length (pd_MissingGrants decision) > 0 then [(''missing_grants'', AArr (map AStr (pd_MissingGrants decision)))] else [])\<rparr>)))"

section \<open>Keeping a credential fresh\<close>

record EnsureCredentialFreshRequest =
  ef_ProviderID :: string
  ef_ConnectionID :: string
  ef_Credential :: "ActiveCredential option"
  ef_RefreshLeadWindow :: int
  ef_ExpiringSoonWindow :: int

record EnsureCredentialFreshResult =
  fr_Credential :: ActiveCredential
  fr_State :: CredentialTokenState
  fr_RefreshAttempted :: bool
  fr_Refreshed :: bool

definition fresh_input :: "'w Service \<Rightarrow> EnsureCredentialFreshRequest \<Rightarrow> string \<Rightarrow> 'w \<Rightarrow> ActiveCredential result" where
  "fresh_input s req connectionID w =
     (case (case ef_Credential req of
          Some c \<Rightarrow> Inr c
        | None \<Rightarrow>
            (case svc_credentialStore s of
               None \<Rightarrow> Inl (svc_mapError s (Plain ''core: credential store is not configured''))
             | Some store \<Rightarrow>
                 (case kst_GetActive store connectionID w of
                    Inl err \<Rightarrow> Inl (svc_mapError s err)
                  | Inr stored \<Rightarrow> (case credentialToActive s stored of Inl err \<Rightarrow> Inl (svc_mapError s err) | Inr a \<Rightarrow> Inr a)))) of
        Inl err \<Rightarrow> Inl err
      | Inr a \<Rightarrow> Inr (if TrimSpace (ak_ConnectionID a) = [] then a\<lparr>ak_ConnectionID := connectionID\<rparr> else a))"

text \<open>The second component is the error; on a failed refresh the result is returned beside it.\<close>

definition Service_EnsureCredentialFresh ::
  "'w Service \<Rightarrow> string option \<Rightarrow> EnsureCredentialFreshRequest \<Rightarrow> 'w \<Rightarrow>
     (EnsureCredentialFreshResult option \<times> goerr option) \<times> 'w" where
  "Service_EnsureCredentialFresh s held req w =
     (let connectionID = TrimSpace (ef_ConnectionID req);
          connectionID = (case ef_Credential req of
              Some c \<Rightarrow> if connectionID = [] then TrimSpace (ak_ConnectionID c) else connectionID | None \<Rightarrow> connectionID) in
      if connectionID = [] then ((None, Some (svc_mapError s (Plain ''core: connection id is required''))), w)
      else
        let soon = (if ef_ExpiringSoonWindow req \<le> 0 then DefaultCredentialExpiringSoonWindow else ef_ExpiringSoonWindow req);
            lead = (if ef_RefreshLeadWindow req \<le> 0 then DefaultCredentialRefreshLeadWindow else ef_RefreshLeadWindow req) in
        (case fresh_input s req connectionID w of
           Inl err \<Rightarrow> ((None, Some err), w)
         | Inr active \<Rightarrow>
             let now = svc_now s w;
                 state = ResolveCredentialTokenState now now active soon;
                 result = \<lparr>fr_Credential = active, fr_State = state, fr_RefreshAttempted = False, fr_Refreshed = False\<rparr> in
             if \<not> ShouldRefreshCredential now now state lead then ((Some result, None), w)
             else
               let result = result\<lparr>fr_RefreshAttempted := True\<rparr> in
               (case Service_Refresh s held \<lparr>rq_ProviderID = TrimSpace (ef_ProviderID req), rq_ConnectionID = connectionID,
                    rq_Credential = Some active\<rparr> w of
                  (Inl err, w') \<Rightarrow> ((Some result, Some err), w')
                | (Inr refreshResult, w') \<Rightarrow>
                    let refreshed = rs_Credential refreshResult;
                        refreshed = (if TrimSpace (ak_ConnectionID refreshed) = [] then refreshed\<lparr>ak_ConnectionID := connectionID\<rparr> else refreshed)
                    in ((Some (result\<lparr>fr_Credential := refreshed, fr_State := ResolveCredentialTokenState now now refreshed soon,
                          fr_Refreshed := True\<rparr>), None), w'))))"

section \<open>A service with nothing configured\<close>

definition bare_service :: "'w Service" where
  "bare_service =
     \<lparr>svc_errorMapper = None, svc_errorFactory = (\<lambda>m cat. \<lparr>Category = cat, Code = 0, TextCode = [], Message = m, ErrMeta = []\<rparr>),
      svc_registry = None,
      svc_ops = (\<lambda>_. \<lparr>pv_AuthKind = [], pv_BeginAuth = (\<lambda>_. fail (Plain [])), pv_CompleteAuth = (\<lambda>_. fail (Plain [])),
        pv_Refresh = (\<lambda>_. fail (Plain [])), pv_AuthStrategy = None, pv_NormalizeGranted = None, pv_Embedded = None\<rparr>),
      svc_oauthStateStore = None, svc_connectionLocker = None, svc_connectionStore = None, svc_credentialStore = None,
      svc_grantStore = None, svc_permissionEvaluator = None, svc_secretProvider = None, svc_credentialCodec = None,
      svc_callbackURLResolver = None, svc_inheritancePolicy = None, svc_enabledProviders = [], svc_requireRedirect = False,
      svc_generateState = ret [], svc_now = (\<lambda>_. 5), svc_text = (\<lambda>_. []), svc_json = LegacyTokenCredentialCodec,
      svc_ff = (\<lambda>_ _. [])\<rparr>"

end
