(* ===== verification/Account_Stores.thy ===== *)
theory Account_Stores
  imports Service_Flows
begin

text \<open>
  What the flows of the service rely on in their connection, credential and grant stores, as a locale, what
  the flows guarantee over every such stores, and the SQL stores over one database as an instance.
\<close>

section \<open>Deciding on a capability\<close>

text \<open>A decision reads the stores only.\<close>

lemma invoke_reads: "snd (Service_InvokeCapability s req w) = w"
  by (simp add: Service_InvokeCapability_def bindE_def lift_def reads_def ret_def fail_def mapE_def
      split: sum.split option.split prod.split)

lemma resolution_Direct [simp]:
  "cn_Outcome (resolution k c r) = k" "cn_Connection (resolution k c r) = c" "cn_Reason (resolution k c r) = r"
  by (simp_all add: resolution_def)

lemma invoke_allowed:
  assumes "fst (Service_InvokeCapability s req w) = Inr res" and "cs_Allowed res"
  shows "\<exists>provider d r. resolveProvider s (iq_ProviderID req) = Inr provider \<and>
    findCapabilityDescriptor (prov_Capabilities provider) (iq_Capability req) = Some d \<and>
    capability_resolution s req w = Inr r \<and> cn_Outcome r \<noteq> ConnectionResolutionNotFound \<and>
    cn_Outcome r \<noteq> ConnectionResolutionAmbiguous \<and> cs_Connection res = cn_Connection r \<and>
    (\<forall>evaluate. svc_permissionEvaluator s = Some evaluate \<longrightarrow>
       (\<exists>pd. evaluate (resolved_id r) (iq_Capability req) w = Inr pd \<and> pd_Allowed pd))"
proof -
  have "Service_InvokeCapability s req w = (Inr res, w)" using assms(1) invoke_reads [of s req w] by (metis prod.collapse)
  then show ?thesis
    using assms(2) unfolding Service_InvokeCapability_def
    by (fastforce simp: effects_eq_Inr split: option.splits if_splits)
qed


lemma filter_single: "filter P xs = [c] \<Longrightarrow> c \<in> set xs \<and> P c"
  by (metis filter_single_iff in_set_conv_decomp)

text \<open>Where the connection of a resolution comes from, when no inheritance policy applies.\<close>

definition resolved_from :: "'w Service \<Rightarrow> 'w ConnectionStore \<Rightarrow> InvokeCapabilityRequest \<Rightarrow> 'w \<Rightarrow> Connection \<Rightarrow> bool" where
  "resolved_from s store req w c \<longleftrightarrow>
     (if TrimSpace (iq_ConnectionID req) \<noteq> []
      then cst_Get store (TrimSpace (iq_ConnectionID req)) w = Inr c \<and>
        EqualFold (TrimSpace (conn_ProviderID c)) (TrimSpace (iq_ProviderID req)) \<and>
        (TrimSpace (scope_Type (iq_Scope req)) = [] \<and> TrimSpace (scope_ID (iq_Scope req)) = [] \<or>
         EqualFold (TrimSpace (conn_ScopeType c)) (TrimSpace (scope_Type (iq_Scope req))) \<and>
         TrimSpace (conn_ScopeID c) = TrimSpace (scope_ID (iq_Scope req)))
      else \<exists>cs. cst_FindByScope store (TrimSpace (iq_ProviderID req)) (iq_Scope req) w = Inr cs \<and>
        filter (\<lambda>c. conn_Status c = ConnectionStatusActive) cs = [c])"

lemma resolution_from:
  assumes "capability_resolution s req w = Inr r" and "cn_Outcome r \<noteq> ConnectionResolutionNotFound"
    and "cn_Outcome r \<noteq> ConnectionResolutionAmbiguous" and "svc_connectionStore s = Some store"
    and "\<not> allowProviderInheritance (iq_ProviderID req) (svc_enabledProviders s)"
  shows "\<exists>c. cn_Connection r = Some c \<and> conn_Status c = ConnectionStatusActive \<and> resolved_from s store req w c"
proof (cases "TrimSpace (iq_ConnectionID req) = []")
  case True
  let ?find = "\<lambda>p scope. cst_FindByScope store p scope w"
  from True assms(1) have R: "StrictIsolationPolicy_ResolveConnection (svc_text s) (Some ?find) (iq_ProviderID req) (iq_Scope req) = Inr r"
    by (simp add: capability_resolution_def assms(4) resolve_without_inheritance [OF assms(5)] split: sum.splits)
  with assms(2,3) obtain c where c: "r = resolution ConnectionResolutionDirect (Some c) []"
    by (auto simp: StrictIsolationPolicy_ResolveConnection_def split: option.splits sum.splits list.splits)
  with R obtain cs where cs: "?find (TrimSpace (iq_ProviderID req)) (iq_Scope req) = Inr cs"
      "filter (\<lambda>c. conn_Status c = ConnectionStatusActive) cs = [c]"
    by (auto simp: direct_iff_single_active)
  from filter_single [OF cs(2)] have "conn_Status c = ConnectionStatusActive" by simp
  then show ?thesis using c cs True by (simp add: resolved_from_def)
next
  case False
  from False assms(1,4) obtain c where c: "cst_Get store (TrimSpace (iq_ConnectionID req)) w = Inr c"
    by (auto simp: capability_resolution_def Let_def split: sum.splits)
  then show ?thesis
    using assms(1-3) False by (auto simp: capability_resolution_def resolved_from_def Let_def assms(4) split: if_splits)
qed


text \<open>The evaluator that \<open>NewService\<close> builds when none is given.\<close>

definition default_evaluator :: "'w Service \<Rightarrow> 'w \<Rightarrow> GrantPermissionEvaluator" where
  "default_evaluator s w =
     \<lparr>ev_ConnectionStore = map_option (\<lambda>store c. cst_Get store c w) (svc_connectionStore s),
      ev_GrantStore = map_option (\<lambda>store c. gs_GetLatestSnapshot store w c) (svc_grantStore s),
      ev_Registry = svc_registry s\<rparr>"

text \<open>
  C6: A capability is allowed only on an active connection that has every permission it requires. With the
  default evaluator and no inheritance, a call of \<open>InvokeCapability\<close> that answers \<open>allowed\<close> names a
  connection that is active and was either loaded by the requested id with a matching provider and scope or
  is the only active one of the scope, and the permissions which the provider of that connection
  requires for the capability are all in the newest grant snapshot of the connection.
\<close>

theorem invoke_capability_safe:
  assumes "svc_connectionStore s = Some store" and "svc_grantStore s = Some grants" and "svc_registry s = Some registry"
    and "svc_permissionEvaluator s = Some (\<lambda>c capability w. EvaluateCapability (Some (default_evaluator s w)) c capability)"
    and "\<not> allowProviderInheritance (iq_ProviderID req) (svc_enabledProviders s)"
    and "fst (Service_InvokeCapability s req w) = Inr res" and "cs_Allowed res"
  shows "\<exists>c stored provider d snapshot. cs_Connection res = Some c \<and> conn_Status c = ConnectionStatusActive \<and>
    resolved_from s store req w c \<and> cst_Get store (conn_ID c) w = Inr stored \<and>
    ProviderRegistry_Get registry (conn_ProviderID stored) = Some provider \<and>
    findCapabilityDescriptor (prov_Capabilities provider) (iq_Capability req) = Some d \<and>
    gs_GetLatestSnapshot grants w (conn_ID c) = Inr snapshot \<and>
    grants_of (cd_RequiredGrants d) \<subseteq> (case snapshot of None \<Rightarrow> {} | Some sn \<Rightarrow> grants_of (sg_Granted sn))"
proof -
  from invoke_allowed [OF assms(6,7)] assms(4) obtain r pd where r: "capability_resolution s req w = Inr r"
      "cn_Outcome r \<noteq> ConnectionResolutionNotFound" "cn_Outcome r \<noteq> ConnectionResolutionAmbiguous"
      "cs_Connection res = cn_Connection r"
    and pd: "EvaluateCapability (Some (default_evaluator s w)) (resolved_id r) (iq_Capability req) = Inr pd" "pd_Allowed pd"
    by blast
  from resolution_from [OF r(1-3) assms(1,5)] obtain c where c: "cn_Connection r = Some c"
    "conn_Status c = ConnectionStatusActive" "resolved_from s store req w c" by blast
  have "resolved_id r = conn_ID c" using c(1) by (simp add: resolved_id_def)
  with evaluate_allowed [OF pd, of "\<lambda>c. cst_Get store c w" registry "\<lambda>c. gs_GetLatestSnapshot grants w c"] assms(1-3)
  obtain stored provider d snapshot where "cst_Get store (conn_ID c) w = Inr stored"
    "ProviderRegistry_Get registry (conn_ProviderID stored) = Some provider"
    "findCapabilityDescriptor (prov_Capabilities provider) (iq_Capability req) = Some d"
    "gs_GetLatestSnapshot grants w (conn_ID c) = Inr snapshot"
    "grants_of (cd_RequiredGrants d) \<subseteq> (case snapshot of None \<Rightarrow> {} | Some sn \<Rightarrow> grants_of (sg_Granted sn))"
    by (auto simp: default_evaluator_def)
  with c r(4) show ?thesis by (intro exI conjI) simp_all
qed

definition invoke_service :: "unit Service" where
  "invoke_service = bare_service
     \<lparr>svc_registry := Some (register_all [sample_provider] NewProviderRegistry),
      svc_connectionStore := Some \<lparr>cst_Create = (\<lambda>_. fail (Plain [])), cst_Get = (\<lambda>_ _. Inr (sample_connection\<lparr>conn_Status := ConnectionStatusActive\<rparr>)),
        cst_FindByScope = (\<lambda>_ _ _. Inr []), cst_FindAccount = (\<lambda>_ _ _ _. Inr None), cst_UpdateStatus = (\<lambda>_ _ _. ret ())\<rparr>,
      svc_grantStore := Some \<lparr>gs_GetLatestSnapshot = (\<lambda>_ _. Inr (Some (sample_snapshot\<lparr>sg_Granted := [''read'', ''write'']\<rparr>))),
        gs_SaveSnapshot = (\<lambda>s _. (None, s)), gs_AppendEvent = (\<lambda>s _. (None, s)), gs_SaveBoth = None\<rparr>\<rparr>"

definition with_evaluator :: "unit Service" where
  "with_evaluator = invoke_service\<lparr>svc_permissionEvaluator :=
     Some (\<lambda>c capability w. EvaluateCapability (Some (default_evaluator invoke_service w)) c capability)\<rparr>"

definition invoke_request :: InvokeCapabilityRequest where
  "invoke_request = \<lparr>iq_ProviderID = ''github'', iq_Scope = \<lparr>scope_Type = [], scope_ID = []\<rparr>, iq_Capability = ''files'', iq_ConnectionID = ''c''\<rparr>"

theorem invoke_capability_safe_witness:
  "\<exists>res c. fst (Service_InvokeCapability with_evaluator invoke_request ()) = Inr res \<and> cs_Allowed res \<and>
     cs_Connection res = Some c \<and> conn_Status c = ConnectionStatusActive"
proof -
  have "case fst (Service_InvokeCapability with_evaluator invoke_request ()) of Inl _ \<Rightarrow> False | Inr res \<Rightarrow> cs_Allowed res"
    by code_simp
  then have r: "\<exists>res. fst (Service_InvokeCapability with_evaluator invoke_request ()) = Inr res \<and> cs_Allowed res"
    by (cases "fst (Service_InvokeCapability with_evaluator invoke_request ())") auto
  have e: "default_evaluator with_evaluator = default_evaluator invoke_service"
    by (simp add: with_evaluator_def default_evaluator_def fun_eq_iff)
  have a: "\<not> allowProviderInheritance (iq_ProviderID invoke_request) (svc_enabledProviders with_evaluator)" by code_simp
  have p: "svc_permissionEvaluator with_evaluator =
      Some (\<lambda>c capability w. EvaluateCapability (Some (default_evaluator with_evaluator w)) c capability)"
    unfolding e by (simp add: with_evaluator_def)
  obtain store grants registry where s: "svc_connectionStore with_evaluator = Some store" "svc_grantStore with_evaluator = Some grants"
    "svc_registry with_evaluator = Some registry" by (simp add: with_evaluator_def invoke_service_def)
  from r invoke_capability_safe [OF s p a] show ?thesis by blast
qed

section \<open>The contract of the account stores\<close>

text \<open>
  \<open>conns\<close> is the connection stored under an id, \<open>creds\<close> the active credential of a connection, \<open>grants\<close>
  the version and the permissions of its newest snapshot; \<open>now\<close> is the clock.
\<close>

locale account_stores =
  fixes cst :: "'w ConnectionStore" and kst :: "'w CredentialStore" and gst :: "'w GrantStore_ops"
    and inv :: "'w \<Rightarrow> bool" and conns :: "'w \<Rightarrow> string \<Rightarrow> Connection option"
    and creds :: "'w \<Rightarrow> string \<Rightarrow> Credential option" and grants :: "'w \<Rightarrow> string \<Rightarrow> (int \<times> string list) option"
  assumes conn_id: "inv w \<Longrightarrow> conns w x = Some c \<Longrightarrow> conn_ID c = x \<and> id_ok x"
    and conn_get: "inv w \<Longrightarrow> (case conns w (TrimSpace x) of
        None \<Rightarrow> \<exists>e. cst_Get cst x w = Inl e | Some c \<Rightarrow> cst_Get cst x w = Inr c)"
    and conn_find_scope: "inv w \<Longrightarrow> cst_FindByScope cst p scope w = Inr cs \<Longrightarrow> c \<in> set cs \<Longrightarrow> conns w (conn_ID c) = Some c"
    and conn_find: "inv w \<Longrightarrow> ScopeRef_Validate scope = None \<Longrightarrow> TrimSpace p \<noteq> [] \<Longrightarrow> TrimSpace e \<noteq> [] \<Longrightarrow>
      \<exists>found. cst_FindAccount cst p scope e w = Inr found \<and>
        (\<forall>c. found = Some c \<longleftrightarrow> conns w (conn_ID c) = Some c \<and> conn_account c = account_of p scope e)"
    and conn_create: "inv w \<Longrightarrow> ScopeRef_Validate (xi_Scope i) = None \<Longrightarrow> xi_Status i = ConnectionStatusActive \<Longrightarrow>
      TrimSpace (xi_ProviderID i) \<noteq> [] \<Longrightarrow> TrimSpace (xi_ExternalAccountID i) \<noteq> [] \<Longrightarrow>
      \<nexists>x c. conns w x = Some c \<and>
        conn_account c = (xi_ProviderID i, scope_Type (xi_Scope i), scope_ID (xi_Scope i), xi_ExternalAccountID i) \<Longrightarrow>
      \<exists>c w'. cst_Create cst i w = (Inr c, w') \<and> inv w' \<and> conn_Status c = ConnectionStatusActive \<and>
        conn_account c = (xi_ProviderID i, scope_Type (xi_Scope i), scope_ID (xi_Scope i), xi_ExternalAccountID i) \<and>
        conns w' = (conns w)(conn_ID c \<mapsto> c) \<and> creds w' = creds w \<and> grants w' = grants w"
    and conn_update: "inv w \<Longrightarrow> conns w x = Some c \<Longrightarrow> named_status st \<Longrightarrow>
      \<exists>w' t. cst_UpdateStatus cst x st reason w = (Inr (), w') \<and> inv w' \<and> creds w' = creds w \<and> grants w' = grants w \<and>
        conns w' = (conns w)(x \<mapsto> c\<lparr>conn_Status := st, conn_LastError := TrimSpace reason, conn_UpdatedAt := t\<rparr>)"
    and cred_get: "inv w \<Longrightarrow> (case creds w (TrimSpace x) of
        None \<Rightarrow> \<exists>e. kst_GetActive kst x w = Inl e | Some k \<Rightarrow> kst_GetActive kst x w = Inr k)"
    and cred_save: "inv w \<Longrightarrow> savable j \<Longrightarrow> conns w (TrimSpace (ki_ConnectionID j)) \<noteq> None \<Longrightarrow>
      \<exists>k w'. kst_Save kst j w = (Inr k, w') \<and> inv w' \<and> saves_as j k \<and> conns w' = conns w \<and> grants w' = grants w \<and>
        creds w' = (creds w)(TrimSpace (ki_ConnectionID j) \<mapsto> k)"
    and cred_revoke: "inv w \<Longrightarrow> TrimSpace x \<noteq> [] \<Longrightarrow>
      \<exists>w'. kst_Revoke kst x reason w = (Inr (), w') \<and> inv w' \<and> conns w' = conns w \<and> grants w' = grants w \<and>
        creds w' = (creds w)(TrimSpace x := None)"
    and grants_save: "inv w \<Longrightarrow> conns w x \<noteq> None \<Longrightarrow>
      \<exists>snap d w'. reconcileGrantSnapshot (Some gst) None x requested granted metadata now w = (Inr (Some snap, d), w') \<and>
        inv w' \<and> conns w' = conns w \<and> creds w' = creds w \<and>
        grants w' = (grants w)(x \<mapsto> (sg_Version snap, normalizeGrants granted))"
    and grants_event: "inv w \<Longrightarrow> gs_AppendEvent gst w ev = (err, w') \<Longrightarrow>
      inv w' \<and> conns w' = conns w \<and> creds w' = creds w \<and> grants w' = grants w"
begin

text \<open>A service over these stores.\<close>

definition over :: "'w Service \<Rightarrow> bool" where
  "over s \<longleftrightarrow> svc_connectionStore s = Some cst \<and> svc_credentialStore s = Some kst \<and> svc_grantStore s = Some gst"

lemma revoke_effect:
  assumes "over s" and "inv w" and c: "conns w x = Some c"
  shows "\<exists>w' t. Service_Revoke s x reason w = (Inr (), w') \<and> inv w' \<and> creds w' = (creds w)(x := None) \<and>
    conns w' = (conns w)(x \<mapsto> c\<lparr>conn_Status := ConnectionStatusDisconnected, conn_LastError := TrimSpace reason, conn_UpdatedAt := t\<rparr>)"
proof -
  have x: "TrimSpace x = x" "x \<noteq> []" using conn_id [OF assms(2) c] by (simp_all add: id_ok_def)
  obtain w1 where w1: "kst_Revoke kst x reason w = (Inr (), w1)" "inv w1" "conns w1 = conns w" "creds w1 = (creds w)(x := None)"
    using cred_revoke [OF assms(2), of x reason] x by auto
  have "conns w1 x = Some c" "named_status ConnectionStatusDisconnected" using w1(3) c by (simp_all add: named_status_def)
  from conn_update [OF w1(2) this, of reason] obtain w2 t where
    w2: "cst_UpdateStatus cst x ConnectionStatusDisconnected reason w1 = (Inr (), w2)" "inv w2" "creds w2 = creds w1"
      "conns w2 = (conns w1)(x \<mapsto> c\<lparr>conn_Status := ConnectionStatusDisconnected, conn_LastError := TrimSpace reason, conn_UpdatedAt := t\<rparr>)"
    by blast
  have "Service_Revoke s x reason w = (Inr (), w2)"
    using assms(1) x w1(1) w2(1) by (simp add: Service_Revoke_def over_def effects)
  with w1 w2 show ?thesis by auto
qed

text \<open>A connection that is not active is not resolved, by its id or by its scope.\<close>

lemma inactive_not_resolved:
  assumes "over s" and "inv w" and "conns w x = Some c" and "conn_Status c \<noteq> ConnectionStatusActive"
    and "\<not> allowProviderInheritance (iq_ProviderID req) (svc_enabledProviders s)"
    and "fst (Service_InvokeCapability s req w) = Inr res" and "cs_Allowed res"
  shows "\<exists>c'. cs_Connection res = Some c' \<and> conn_ID c' \<noteq> x"
proof -
  from invoke_allowed [OF assms(6,7)] obtain r where r: "capability_resolution s req w = Inr r"
    "cn_Outcome r \<noteq> ConnectionResolutionNotFound" "cn_Outcome r \<noteq> ConnectionResolutionAmbiguous"
    "cs_Connection res = cn_Connection r" by blast
  from resolution_from [OF r(1-3) _ assms(5), of cst] assms(1) obtain c' where
    c': "cn_Connection r = Some c'" "conn_Status c' = ConnectionStatusActive" "resolved_from s cst req w c'"
    by (auto simp: over_def)
  have "conn_ID c' \<noteq> x"
  proof
    assume x: "conn_ID c' = x"
    show False
    proof (cases "TrimSpace (iq_ConnectionID req) = []")
      case True
      with c'(3) obtain cs where "cst_FindByScope cst (TrimSpace (iq_ProviderID req)) (iq_Scope req) w = Inr cs" "c' \<in> set cs"
        by (auto simp: resolved_from_def dest: filter_single)
      then have "conns w x = Some c'" using conn_find_scope [OF assms(2)] x by blast
      then show False using assms(3,4) c'(2) by simp
    next
      case False
      then have get: "cst_Get cst (TrimSpace (iq_ConnectionID req)) w = Inr c'" using c'(3) by (simp add: resolved_from_def)
      from conn_get [OF assms(2), of "TrimSpace (iq_ConnectionID req)"] get
      have "conns w (TrimSpace (iq_ConnectionID req)) = Some c'" by (auto split: option.splits)
      then show False using conn_id [OF assms(2)] x assms(3,4) c'(2) by force
    qed
  qed
  with c' r(4) show ?thesis by simp
qed

text \<open>Without a credential of its own, a refresh needs the stored one.\<close>

lemma refresh_needs_credential:
  assumes "over s" and "inv w" and "rq_Credential req = None" and "creds w (TrimSpace (rq_ConnectionID req)) = None"
    and locks: "\<And>acquire r w'. svc_connectionLocker s = Some acquire \<Longrightarrow>
      acquire (TrimSpace (rq_ConnectionID req)) defaultRefreshLockTTL w = (r, w') \<Longrightarrow> inv w' \<and> creds w' = creds w"
  shows "\<exists>e. fst (Service_Refresh s held req w) = Inl e"
proof -
  let ?x = "TrimSpace (rq_ConnectionID req)"
  let ?req = "req\<lparr>rq_ConnectionID := ?x\<rparr>"
  have body: "\<exists>e. refresh_body s ?req w' = (Inl e, w')" if w': "inv w'" "creds w' = creds w" for w'
  proof -
    obtain e where "kst_GetActive kst ?x w' = Inl e" using cred_get [OF w'(1), of ?x] assms(4) w'(2) by auto
    then have "refresh_input s ?req w' = Inl (svc_mapError s e)" using assms(1,3) by (simp add: refresh_input_def over_def)
    then show ?thesis
      by (simp add: refresh_body_def Let_def bindE_def reads_def lift_def fail_def split: sum.split option.split)
  qed
  show ?thesis
  proof (cases "svc_connectionLocker s")
    case None
    then show ?thesis using body [OF assms(2) refl] by (auto simp: Service_Refresh_def Let_def fail_def)
  next
    case (Some acquire)
    obtain r w1 where r: "acquire ?x defaultRefreshLockTTL w = (r, w1)" by fastforce
    obtain e e1 where "refresh_body s ?req w = (Inl e, w)" "refresh_body s ?req w1 = (Inl e1, w1)"
      using body locks [OF Some r] assms(2) by blast
    then show ?thesis
      using Some r by (cases r) (simp_all add: Service_Refresh_def Let_def effects bindE_def mapE_def)
  qed
qed

text \<open>A credential is stored encrypted, as the active one of its connection.\<close>

lemma store_credential_ok:
  assumes "over s" and "inv w" and x: "conns w x = Some c"
    and secret: "svc_secretProvider s = Some secret" and codec: "svc_credentialCodec s = Some codec"
    and plain: "cc_Encode codec a = Inr plain" "plain \<noteq> []"
    and enc: "\<And>w. sp_Encrypt secret plain w = (Inr enc, w)" "enc \<noteq> []" "enc \<noteq> plain"
  shows "\<exists>k w' key v. store_credential s x a w = (Inr k, w') \<and> inv w' \<and> conns w' = conns w \<and> grants w' = grants w \<and>
    creds w' = (creds w)(x \<mapsto> k) \<and> saves_as (save_input x a (enc, key, v, cc_Format codec, cc_Version codec)) k"
proof -
  define key where "key = (case sp_Metadata secret of Some (x, _) \<Rightarrow> if TrimSpace x \<noteq> [] then TrimSpace x else ''managed'' | None \<Rightarrow> ''managed'')"
  define v where "v = (case sp_Metadata secret of Some (_, v) \<Rightarrow> if v > 0 then v else 1 | None \<Rightarrow> (1::int))"
  let ?e = "(enc, key, v, cc_Format codec, cc_Version codec)"
  have e: "encryptCredentialPayload s a w = (Inr ?e, w)"
    using secret codec plain enc by (simp add: encryptCredentialPayload_def Let_def effects bindE_def mapE_def key_def v_def)
  have "TrimSpace ''managed'' \<noteq> []" by code_simp
  then have k: "TrimSpace key \<noteq> []" "0 < v" by (auto simp: key_def v_def split: option.splits)
  have t: "TrimSpace x = x" "x \<noteq> []" using conn_id [OF assms(2) x] by (simp_all add: id_ok_def)
  have "savable (save_input x a ?e)" "conns w (TrimSpace (ki_ConnectionID (save_input x a ?e))) \<noteq> None"
    using t k enc(2) x by (simp_all add: savable_def save_input_def)
  from cred_save [OF assms(2) this] obtain cr w' where
    "kst_Save kst (save_input x a ?e) w = (Inr cr, w')" "inv w'" "saves_as (save_input x a ?e) cr" "conns w' = conns w"
    "grants w' = grants w" "creds w' = (creds w)(x \<mapsto> cr)"
    using t by (auto simp: save_input_def)
  moreover from this(1) have "store_credential s x a w = (Inr cr, w')"
    using assms(1) e by (simp add: store_credential_def over_def effects bindE_def mapE_def)
  ultimately show ?thesis by blast
qed

end

text \<open>What reading a stored credential gives back.\<close>

definition restored :: "string \<Rightarrow> ActiveCredential \<Rightarrow> ActiveCredential" where
  "restored x a = (json_payload a)
     \<lparr>ak_ConnectionID := (if TrimSpace (ak_ConnectionID a) = [] then x else TrimSpace (ak_ConnectionID a)),
      ak_TokenType := (if TrimSpace (ak_TokenType a) = [] then ak_TokenType a else TrimSpace (ak_TokenType a))\<rparr>"

lemma credential_restored:
  assumes "saves_as (save_input x a (enc, key, v, cc_Format codec, cc_Version codec)) k" and "TrimSpace x = x"
    and "svc_secretProvider s = Some secret" and "svc_credentialCodec s = Some codec"
    and "codec = JSONCredentialCodec render marshal unmarshal" and "sp_Decrypt secret enc = Inr plain"
    and "plain \<noteq> []" and "unmarshal plain = Inr (json_payload a)" and "enc \<noteq> []"
    and "ak_ExpiresAt a \<noteq> Some 0" and "ak_RotatesAt a \<noteq> Some 0"
  shows "credentialToActive s k = Inr (restored x a)"
proof -
  have n: "TrimSpace CredentialPayloadFormatJSONV1 = CredentialPayloadFormatJSONV1"
    "ToLower CredentialPayloadFormatJSONV1 = CredentialPayloadFormatJSONV1" by code_simp+
  have c: "cc_Format codec = CredentialPayloadFormatJSONV1" "cc_Version codec = CredentialPayloadVersionV1"
    "cc_Decode codec plain = Inr (json_payload a)" using assms(5,7,8) by (simp_all add: JSONCredentialCodec_def)
  have k: "cred_EncryptedPayload k = enc" "cred_PayloadFormat k = CredentialPayloadFormatJSONV1"
    "cred_PayloadVersion k = CredentialPayloadVersionV1"
    using assms(1) c n by (simp_all add: saves_as_def save_input_def)
  have "codecForCredential s k = Inr codec"
    using assms(4) c(1,2) n by (simp add: codecForCredential_def Let_def k)
  then show ?thesis
    using assms(1-3,6,9-11) c(3) k(1)
    by (auto simp: credentialToActive_def restored_def saves_as_def save_input_def json_payload_def split: option.splits)
qed

context account_stores
begin

text \<open>The connection of an account is found and activated, or created.\<close>

lemma find_or_create_ok:
  assumes "over s" and "inv w" and scope: "ScopeRef_Validate scope = None"
    and p: "TrimSpace p = p" "p \<noteq> []" and e: "TrimSpace e = e" "e \<noteq> []"
    and t: "TrimSpace (scope_Type scope) = scope_Type scope" "TrimSpace (scope_ID scope) = scope_ID scope"
  shows "\<exists>c b w' d. find_or_create_connection s p scope e [] w = (Inr (c, b), w') \<and> inv w' \<and> creds w' = creds w \<and>
    grants w' = grants w \<and> conns w' = (conns w)(conn_ID c \<mapsto> d) \<and> conn_Status c = ConnectionStatusActive \<and>
    conn_Status d = ConnectionStatusActive \<and> conn_account d = (p, scope_Type scope, scope_ID scope, e)"
proof -
  have acc: "account_of p scope e = (p, scope_Type scope, scope_ID scope, e)" using p e t by (simp add: account_of_def)
  obtain found where f: "cst_FindAccount cst p scope e w = Inr found"
    "\<And>c. found = Some c \<longleftrightarrow> conns w (conn_ID c) = Some c \<and> conn_account c = (p, scope_Type scope, scope_ID scope, e)"
    using conn_find [OF assms(2) scope, of p e] p e acc by auto
  have r: "findCallbackConnection s p scope e [] w = Inr found"
    using assms(1) f(1) by (simp add: findCallbackConnection_def over_def)
  show ?thesis
  proof (cases found)
    case (Some c)
    have ns: "named_status ConnectionStatusActive" by (simp add: named_status_def)
    have c: "conns w (conn_ID c) = Some c" "conn_account c = (p, scope_Type scope, scope_ID scope, e)"
      using f(2) [of c] Some by blast+
    obtain w' t where w': "cst_UpdateStatus cst (conn_ID c) ConnectionStatusActive [] w = (Inr (), w')" "inv w'" "creds w' = creds w"
      "grants w' = grants w"
      "conns w' = (conns w)(conn_ID c \<mapsto> c\<lparr>conn_Status := ConnectionStatusActive, conn_LastError := TrimSpace [], conn_UpdatedAt := t\<rparr>)"
      using conn_update [OF assms(2) c(1) ns, of "[]"] by blast
    have "find_or_create_connection s p scope e [] w = (Inr (c\<lparr>conn_Status := ConnectionStatusActive, conn_LastError := []\<rparr>,
        conn_Status c = ConnectionStatusNeedsReconsent), w')"
      using assms(1) r Some w'(1) by (simp add: find_or_create_connection_def over_def effects bindE_def mapE_def)
    then show ?thesis
      using w' c(2) by (intro exI conjI) (assumption | simp add: conn_account_def)+
  next
    case None
    let ?i = "\<lparr>xi_ProviderID = p, xi_Scope = scope, xi_ExternalAccountID = e, xi_Status = ConnectionStatusActive\<rparr>"
    have "\<nexists>x c. conns w x = Some c \<and> conn_account c = (p, scope_Type scope, scope_ID scope, e)"
      using f(2) None conn_id [OF assms(2)] by (metis option.distinct(1))
    then obtain c w' where w': "cst_Create cst ?i w = (Inr c, w')" "inv w'" "conn_Status c = ConnectionStatusActive"
      "conn_account c = (p, scope_Type scope, scope_ID scope, e)" "conns w' = (conns w)(conn_ID c \<mapsto> c)" "creds w' = creds w" "grants w' = grants w"
      using conn_create [OF assms(2), of ?i] scope p e by auto
    have "find_or_create_connection s p scope e [] w = (Inr (c, False), w')"
      using assms(1) r None w'(1) by (simp add: find_or_create_connection_def over_def effects bindE_def mapE_def)
    then show ?thesis using w' by blast
  qed
qed

lemma append_event_frame:
  assumes "over s" and "inv w"
  shows "\<exists>w'. append_event s f w = (Inr (), w') \<and> inv w' \<and> conns w' = conns w \<and> creds w' = creds w \<and> grants w' = grants w"
proof -
  obtain err w' where "gs_AppendEvent gst w (f (svc_now s w)) = (err, w')" by fastforce
  with grants_event [OF assms(2) this] show ?thesis using assms(1) by (simp add: append_event_def over_def ignoreE_def)
qed

text \<open>What a callback leaves behind, once the provider has answered with a credential.\<close>

lemma finish_callback_ok:
  assumes s: "over s" and inv: "inv w" and scope: "ScopeRef_Validate (ca_Scope req) = None"
    and p: "TrimSpace (prov_ID provider) \<noteq> []" and e: "TrimSpace (cp_ExternalAccountID result) \<noteq> []"
    and target: "readStringMetadata (svc_ff s) (ca_Metadata req) [''connection_id''] = []"
    and norm: "pv_NormalizeGranted (svc_ops s provider) = None"
    and secret: "svc_secretProvider s = Some secret" and codec: "svc_credentialCodec s = Some codec"
    and plain: "cc_Encode codec (cp_Credential result) = Inr plain" "plain \<noteq> []"
    and enc: "\<And>w. sp_Encrypt secret plain w = (Inr enc, w)" "enc \<noteq> []" "enc \<noteq> plain"
  shows "\<exists>c k w' d key v ver. finish_callback s provider req result w = (Inr \<lparr>cb_Connection = c, cb_Credential = k\<rparr>, w') \<and> inv w' \<and>
    conns w' = (conns w)(conn_ID c \<mapsto> d) \<and> conn_Status c = ConnectionStatusActive \<and> conn_Status d = ConnectionStatusActive \<and>
    conn_account d = (TrimSpace (prov_ID provider), TrimSpace (ToLower (scope_Type (ca_Scope req))),
      TrimSpace (scope_ID (ca_Scope req)), TrimSpace (cp_ExternalAccountID result)) \<and>
    creds w' = (creds w)(conn_ID c \<mapsto> k) \<and>
    saves_as (save_input (conn_ID c) (cp_Credential result) (enc, key, v, cc_Format codec, cc_Version codec)) k \<and>
    grants w' = (grants w)(conn_ID c \<mapsto> (ver, normalizeGrants
      (if cp_GrantedGrants result = [] then ak_GrantedScopes (cp_Credential result) else cp_GrantedGrants result)))"
proof -
  let ?scope = "\<lparr>scope_Type = TrimSpace (ToLower (scope_Type (ca_Scope req))), scope_ID = TrimSpace (scope_ID (ca_Scope req))\<rparr>"
  let ?g = "if cp_GrantedGrants result = [] then ak_GrantedScopes (cp_Credential result) else cp_GrantedGrants result"
  let ?r = "if cp_RequestedGrants result = [] then ak_RequestedScopes (cp_Credential result) else cp_RequestedGrants result"
  have sc: "ScopeRef_Validate ?scope = None"
    using scope by (simp add: ScopeRef_Validate_def Let_def TrimSpace_ToLower split: if_splits)
  obtain c b w1 d where 1: "find_or_create_connection s (TrimSpace (prov_ID provider)) ?scope (TrimSpace (cp_ExternalAccountID result)) [] w =
      (Inr (c, b), w1)" "inv w1" "creds w1 = creds w" "grants w1 = grants w" "conns w1 = (conns w)(conn_ID c \<mapsto> d)"
    "conn_Status c = ConnectionStatusActive" "conn_Status d = ConnectionStatusActive"
    "conn_account d = (TrimSpace (prov_ID provider), scope_Type ?scope, scope_ID ?scope, TrimSpace (cp_ExternalAccountID result))"
    using find_or_create_ok [OF s inv sc, of "TrimSpace (prov_ID provider)" "TrimSpace (cp_ExternalAccountID result)"] p e by auto
  have cd: "conns w1 (conn_ID c) = Some d" using 1(5) by simp
  obtain k w2 key v where 2: "store_credential s (conn_ID c) (cp_Credential result) w1 = (Inr k, w2)" "inv w2" "conns w2 = conns w1"
    "grants w2 = grants w1" "creds w2 = (creds w1)(conn_ID c \<mapsto> k)"
    "saves_as (save_input (conn_ID c) (cp_Credential result) (enc, key, v, cc_Format codec, cc_Version codec)) k"
    using store_credential_ok [OF s 1(2) cd secret codec plain enc] by blast
  have "conns w2 (conn_ID c) \<noteq> None" using cd 2(3) by simp
  from grants_save [OF 2(2) this, of ?r ?g "ca_Metadata req" "svc_now s w2"] obtain snap dl w3 where
    3: "reconcileGrantSnapshot (Some gst) None (conn_ID c) ?r ?g (ca_Metadata req) (svc_now s w2) w2 = (Inr (Some snap, dl), w3)"
      "inv w3" "conns w3 = conns w2" "creds w3 = creds w2" "grants w3 = (grants w2)(conn_ID c \<mapsto> (sg_Version snap, normalizeGrants ?g))"
    by blast
  then have rec: "reconcile s provider (conn_ID c) ?r ?g (ca_Metadata req) w2 = (Inr (Some snap, dl), w3)"
    using s norm by (simp add: reconcile_def over_def)
  define ev where "ev = (if b then append_event s (\<lambda>now. \<lparr>ge_ConnectionID = conn_ID c, ge_EventType = GrantEventReconsentCompleted,
    ge_Added = gd_Added dl, ge_Removed = gd_Removed dl, ge_OccurredAt = now, ge_Metadata = copyAnyMap (ca_Metadata req)\<rparr>) else ret ())"
  obtain w4 where 4: "ev w3 = (Inr (), w4)" "inv w4" "conns w4 = conns w3" "creds w4 = creds w3" "grants w4 = grants w3"
    unfolding ev_def using append_event_frame [OF s 3(2)] 3(2) by (cases b) (auto simp: ret_def)
  have "finish_callback s provider req result w = (Inr \<lparr>cb_Connection = c, cb_Credential = k\<rparr>, w4)"
    using e 1(1) 2(1) rec 4(1) target unfolding finish_callback_def Let_def ev_def [symmetric]
    by (simp add: effects bindE_def mapE_def ev_def)
  then show ?thesis
    using 1 2 3 4 by (intro exI conjI) (assumption | simp)+
qed

end

section \<open>Refreshed credentials\<close>

text \<open>
  Whether a refreshed credential is stored does not depend on its refresh token when the access token stays:
  a provider that rotates the refresh token and returns the same access token, or none, loses the new one.
\<close>

theorem rotated_refresh_token_dropped:
  assumes "TrimSpace (ak_AccessToken current) \<noteq> []" and "a = ak_AccessToken current \<or> TrimSpace a = []"
  shows "\<not> shouldPersistRefreshedCredential current (current\<lparr>ak_AccessToken := a, ak_RefreshToken := t\<rparr>)"
proof -
  have "sameTimePointer x x" for x by (cases x) simp_all
  then show ?thesis
    using assms by (auto simp: shouldPersistRefreshedCredential_def sameStringSliceSet_def EqualFold_def Let_def)
qed

text \<open>Without a grant store nothing counts as granted after a refresh.\<close>

lemma reconcile_without_store:
  "svc_grantStore s = None \<Longrightarrow>
     reconcile s provider c requested granted metadata w = (Inr (None, \<lparr>gd_EventType = [], gd_Added = [], gd_Removed = []\<rparr>), w)"
  by (simp add: reconcile_def reconcileGrantSnapshot_def)

end
