(* ===== verification/Account_World.thy ===== *)
theory Account_World
  imports Account_Stores
begin

text \<open>
  The SQL connection, credential and grant stores over one database, as an instance of the contract of
  \<open>Account_Stores\<close>, and what the flows of the service do to such a database. The database answers every
  statement; ids are drawn from a supply that does not repeat.
\<close>

section \<open>One database for the three stores\<close>

record database =
  db_connections :: connection_table
  db_credentials :: credential_table
  db_snapshots :: "grantSnapshotRecord list"
  db_events :: "grantEventRecord list"
  db_next :: nat

record outside =
  ou_ids :: "nat \<Rightarrow> string"
  ou_now :: int
  ou_norows :: goerr
  ou_uniq :: goerr
  ou_render :: "goerr \<Rightarrow> string"
  ou_fmt_time :: "int \<Rightarrow> string"

definition db_env :: "outside \<Rightarrow> 'm database_scheme \<Rightarrow> sql_env" where
  "db_env E w = \<lparr>se_id = ou_ids E (db_next w), se_id2 = ou_ids E (db_next w + 1), se_now = ou_now E, se_uniq = ou_uniq E,
     se_render = ou_render E, se_flt = no_faults\<rparr>"

definition db_grant_env :: "outside \<Rightarrow> 'm database_scheme \<Rightarrow> grant_env" where
  "db_grant_env E w = \<lparr>env_id = ou_ids E (db_next w), env_id2 = ou_ids E (db_next w + 1), env_now = ou_now E,
     env_fmt_time = ou_fmt_time E, env_uniq = ou_uniq E, env_norows = ou_norows E, env_flt = no_faults\<rparr>"

definition put_connections :: "connection_table option \<Rightarrow> 'm database_scheme \<Rightarrow> 'm database_scheme" where
  "put_connections s w = w\<lparr>db_connections := (case s of None \<Rightarrow> db_connections w | Some t \<Rightarrow> t), db_next := db_next w + 2\<rparr>"

definition put_credentials :: "credential_table option \<Rightarrow> 'm database_scheme \<Rightarrow> 'm database_scheme" where
  "put_credentials s w = w\<lparr>db_credentials := (case s of None \<Rightarrow> db_credentials w | Some t \<Rightarrow> t), db_next := db_next w + 2\<rparr>"

definition grants_view :: "'m database_scheme \<Rightarrow> GrantStore" where
  "grants_view w =
     \<lparr>gt_connections = map (\<lambda>r. \<lparr>cr_ID = xr_ID r, cr_ProviderID = xr_ProviderID r, cr_ScopeType = xr_ScopeType r, cr_ScopeID = xr_ScopeID r\<rparr>)
        (live_rows (db_connections w)), gt_snapshots = db_snapshots w, gt_events = db_events w\<rparr>"

definition put_grants :: "GrantStore option \<Rightarrow> 'm database_scheme \<Rightarrow> 'm database_scheme" where
  "put_grants s w = (case s of None \<Rightarrow> w
     | Some g \<Rightarrow> w\<lparr>db_snapshots := gt_snapshots g, db_events := gt_events g, db_next := db_next w + 2\<rparr>)"

definition err_result :: "goerr option \<Rightarrow> unit result" where
  "err_result e = (case e of None \<Rightarrow> Inr () | Some err \<Rightarrow> Inl err)"

definition db_connection_store :: "outside \<Rightarrow> 'm database_scheme ConnectionStore" where
  "db_connection_store E =
     \<lparr>cst_Create = (\<lambda>i w. case ConnectionStore_Create (db_env E w) (Some (db_connections w)) i of (r, s) \<Rightarrow> (r, put_connections s w)),
      cst_Get = (\<lambda>x w. ConnectionStore_Get (ou_norows E) None (Some (db_connections w)) x),
      cst_FindByScope = (\<lambda>p scope w. ConnectionStore_FindByScope None (Some (db_connections w)) p scope),
      cst_FindAccount = (\<lambda>p scope e w. ConnectionStore_FindByScopeAndExternalAccount None (Some (db_connections w)) p scope e),
      cst_UpdateStatus = (\<lambda>x st reason w.
        case ConnectionStore_UpdateStatus (ou_norows E) no_faults (ou_now E) (Some (db_connections w)) x st reason of
          (e, s) \<Rightarrow> (err_result e, put_connections s w))\<rparr>"

definition db_credential_store :: "outside \<Rightarrow> 'm database_scheme CredentialStore" where
  "db_credential_store E =
     \<lparr>kst_Save = (\<lambda>i w. case CredentialStore_SaveNewVersion (db_env E w) (Some (db_credentials w)) i of (r, s) \<Rightarrow> (r, put_credentials s w)),
      kst_GetActive = (\<lambda>x w. CredentialStore_GetActiveByConnection None (Some (db_credentials w)) x),
      kst_Revoke = (\<lambda>x reason w. case CredentialStore_RevokeActive None (ou_now E) (Some (db_credentials w)) x reason of
        (e, s) \<Rightarrow> (err_result e, put_credentials s w))\<rparr>"

definition db_grant_store :: "outside \<Rightarrow> 'm database_scheme GrantStore_ops" where
  "db_grant_store E =
     \<lparr>gs_GetLatestSnapshot = (\<lambda>w c. GrantStore_GetLatestSnapshot (db_grant_env E w) (Some (grants_view w)) c),
      gs_SaveSnapshot = (\<lambda>w i. case GrantStore_SaveSnapshot (db_grant_env E w) (Some (grants_view w)) i of (e, s) \<Rightarrow> (e, put_grants s w)),
      gs_AppendEvent = (\<lambda>w ev. case GrantStore_AppendEvent (db_grant_env E w) (Some (grants_view w)) ev of (e, s) \<Rightarrow> (e, put_grants s w)),
      gs_SaveBoth = Some (\<lambda>w i ev.
        case GrantStore_SaveSnapshotAndEvent (db_grant_env E w) (Some (grants_view w)) i ev of (e, s) \<Rightarrow> (e, put_grants s w))\<rparr>"

text \<open>Ids are well-formed and never repeat, and the tables satisfy their constraints.\<close>

definition database_ok :: "outside \<Rightarrow> 'm database_scheme \<Rightarrow> bool" where
  "database_ok E w \<longleftrightarrow> connections_ok (db_connections w) \<and> credentials_ok (db_credentials w) \<and>
     (\<forall>r \<in> set (db_snapshots w). 0 < gr_Version r) \<and> inj (ou_ids E) \<and> (\<forall>n. id_ok (ou_ids E n)) \<and>
     (\<forall>r \<in> set (db_connections w). id_ok (xr_ID r)) \<and>
     (\<forall>n \<ge> db_next w. ou_ids E n \<notin> xr_ID ` set (db_connections w) \<and> ou_ids E n \<notin> kr_ID ` set (db_credentials w))"

abbreviation db_conns :: "'m database_scheme \<Rightarrow> string \<Rightarrow> Connection option" where
  "db_conns w \<equiv> connection_view (Some (db_connections w))"

abbreviation db_creds :: "'m database_scheme \<Rightarrow> string \<Rightarrow> Credential option" where
  "db_creds w \<equiv> active_credential (Some (db_credentials w))"

abbreviation db_grants :: "'m database_scheme \<Rightarrow> string \<Rightarrow> (int \<times> string list) option" where
  "db_grants w \<equiv> grant_latest (Some (grants_view w))"

section \<open>The database implements the contracts\<close>

lemma grants_view_put [simp]:
  "db_connections (put_grants s w) = db_connections w" "db_credentials (put_grants s w) = db_credentials w"
  "grant_latest (Some (grants_view (put_grants (Some g) w))) = grant_latest (Some g)"
  "grant_changes (Some (grants_view (put_grants (Some g) w))) = grant_changes (Some g)"
  "grant_known (Some (grants_view (put_grants s w))) = grant_known (Some (grants_view w))"
  by (auto simp: put_grants_def grants_view_def fun_eq_iff split: option.split)

lemma database_ok_put_grants:
  "database_ok E w \<Longrightarrow> grant_tables_ok s \<Longrightarrow> database_ok E (put_grants s w)"
  by (cases s) (auto simp: put_grants_def database_ok_def)

lemma grants_view_ok: "database_ok E w \<Longrightarrow> grant_tables_ok (Some (grants_view w))"
  by (simp add: database_ok_def grants_view_def)

lemma db_grant_env_flt [simp]: "env_flt (db_grant_env E w) = no_faults"
  by (simp add: db_grant_env_def)

interpretation dbg: grant_store "gs_GetLatestSnapshot (db_grant_store E)" "the (gs_SaveBoth (db_grant_store E))"
  "database_ok E" "\<lambda>w. grant_known (Some (grants_view w))" db_grants "\<lambda>w. grant_changes (Some (grants_view w))" for E
proof unfold_locales
  fix w :: "'a database_scheme" and c
  assume "database_ok E w"
  from grants_view_ok [OF this] show "\<exists>r. gs_GetLatestSnapshot (db_grant_store E) w c = Inr r \<and>
      map_option (\<lambda>p. (sg_Version p, sg_Granted p)) r = db_grants w (TrimSpace c)"
    using sqlg.get_latest [of "Some (grants_view w)" "db_grant_env E w" c] by (simp add: db_grant_store_def)
next
  fix w :: "'a database_scheme" and c and i :: SaveGrantSnapshotInput and ev :: "AppendGrantEventInput option"
  assume inv: "database_ok E w" and a: "TrimSpace c \<noteq> []" "grant_known (Some (grants_view w)) (TrimSpace c)" "sg_ConnectionID i = c"
    "sg_Version i = (case db_grants w (TrimSpace c) of None \<Rightarrow> 1 | Some (v, g) \<Rightarrow> v + 1)"
    "\<forall>e. ev = Some e \<longrightarrow> TrimSpace (ge_EventType e) \<noteq> []"
  have ok: "grant_tables_ok (Some (grants_view w)) \<and> env_flt (db_grant_env E w) = no_faults" using grants_view_ok [OF inv] by simp
  obtain s where s: "GrantStore_SaveSnapshotAndEvent (db_grant_env E w) (Some (grants_view w)) i ev = (None, s)" "grant_tables_ok s"
    "grant_latest s = (db_grants w)(TrimSpace c \<mapsto> (sg_Version i, sg_Granted i))"
    "grant_changes s = (grant_changes (Some (grants_view w)))(TrimSpace c := grant_changes (Some (grants_view w)) (TrimSpace c) @
        (case ev of None \<Rightarrow> [] | Some e \<Rightarrow> [(ge_Added e, ge_Removed e)]))"
    using sqlg.save_next [OF ok a] by blast
  then obtain g where g: "s = Some g" by (cases s) auto
  show "\<exists>w'. the (gs_SaveBoth (db_grant_store E)) w i ev = (None, w') \<and> database_ok E w' \<and>
      (\<forall>c'. grant_known (Some (grants_view w')) c' = grant_known (Some (grants_view w)) c') \<and>
      db_grants w' = (db_grants w)(TrimSpace c \<mapsto> (sg_Version i, sg_Granted i)) \<and>
      grant_changes (Some (grants_view w')) = (grant_changes (Some (grants_view w)))(TrimSpace c :=
        grant_changes (Some (grants_view w)) (TrimSpace c) @ (case ev of None \<Rightarrow> [] | Some e \<Rightarrow> [(ge_Added e, ge_Removed e)]))"
    using s g database_ok_put_grants [OF inv s(2)]
    by (intro exI [of _ "put_grants s w"]) (simp add: db_grant_store_def del: grant_latest.simps grant_changes.simps)
qed

lemma known_conn:
  assumes "db_conns w x \<noteq> None"
  shows "grant_known (Some (grants_view w)) x"
proof -
  have "x \<in> xr_ID ` set (live_rows (db_connections w))"
    using assms find_none [of xr_ID x "live_rows (db_connections w)"] by (auto simp: connection_view_def find_connection_def)
  then show ?thesis by (force simp: grants_view_def)
qed

lemma conns_put_conn [simp]:
  "db_connections (put_connections (Some t) w) = t" "db_credentials (put_connections s w) = db_credentials w"
  "grant_latest (Some (grants_view (put_connections s w))) = grant_latest (Some (grants_view w))"
  "db_connections (put_credentials k w) = db_connections w" "db_credentials (put_credentials (Some u) w) = u"
  "grant_latest (Some (grants_view (put_credentials k w))) = grant_latest (Some (grants_view w))"
  by (auto simp: put_connections_def put_credentials_def grants_view_def fun_eq_iff split: option.split)

text \<open>An operation adds no id but the one it draws.\<close>

lemma database_ok_connections:
  assumes "database_ok E w" and "connections_ok t" and "xr_ID ` set t \<subseteq> insert (ou_ids E (db_next w)) (xr_ID ` set (db_connections w))"
  shows "database_ok E (put_connections (Some t) w)"
proof -
  have new: "id_ok (ou_ids E (db_next w))" and old: "\<forall>x \<in> xr_ID ` set (db_connections w). id_ok x"
    using assms(1) by (auto simp: database_ok_def)
  have i: "id_ok (xr_ID r)" if r: "r \<in> set t" for r
  proof -
    have "xr_ID r \<in> insert (ou_ids E (db_next w)) (xr_ID ` set (db_connections w))"
      using assms(3) imageI [OF r] by (rule subsetD)
    then show ?thesis by (rule insertE) (simp add: new, rule bspec [OF old])
  qed
  have "ou_ids E n \<notin> xr_ID ` set t" if "db_next w + 2 \<le> n" for n
  proof -
    have "ou_ids E n \<noteq> ou_ids E (db_next w)" using assms(1) that by (auto simp: database_ok_def dest: injD)
    moreover have "ou_ids E n \<notin> xr_ID ` set (db_connections w)" using assms(1) that by (simp add: database_ok_def)
    ultimately show ?thesis using assms(3) by blast
  qed
  then show ?thesis using assms(1,2) i by (simp add: database_ok_def put_connections_def)
qed

lemma database_ok_credentials:
  assumes "database_ok E w" and "credentials_ok t" and "kr_ID ` set t \<subseteq> insert (ou_ids E (db_next w)) (kr_ID ` set (db_credentials w))"
  shows "database_ok E (put_credentials (Some t) w)"
proof -
  have "ou_ids E n \<notin> kr_ID ` set t" if "db_next w + 2 \<le> n" for n
  proof -
    have "ou_ids E n \<noteq> ou_ids E (db_next w)" using assms(1) that by (auto simp: database_ok_def dest: injD)
    moreover have "ou_ids E n \<notin> kr_ID ` set (db_credentials w)" using assms(1) that by (simp add: database_ok_def)
    ultimately show ?thesis using assms(3) by blast
  qed
  then show ?thesis using assms(1,2) by (simp add: database_ok_def put_credentials_def)
qed

lemma Create_ids:
  "ConnectionStore_Create env (Some t) i = (r, s) \<Longrightarrow> \<exists>t'. s = Some t' \<and> xr_ID ` set t' \<subseteq> insert (se_id env) (xr_ID ` set t)"
  by (auto simp: ConnectionStore_Create_def insert_connection_def Let_def split: option.splits if_splits sum.splits)

lemma UpdateStatus_ids:
  "ConnectionStore_UpdateStatus norows flt now (Some t) x st reason = (e, s) \<Longrightarrow> \<exists>t'. s = Some t' \<and> xr_ID ` set t' \<subseteq> xr_ID ` set t"
  by (auto simp: ConnectionStore_UpdateStatus_def update_where_def find_connection_def Let_def dest!: find_key [of xr_ID]
      split: option.splits if_splits) (metis imageI)

lemma Save_ids:
  "CredentialStore_SaveNewVersion env (Some t) i = (r, s) \<Longrightarrow> \<exists>t'. s = Some t' \<and> kr_ID ` set t' \<subseteq> insert (se_id env) (kr_ID ` set t)"
proof -
  assume a: "CredentialStore_SaveNewVersion env (Some t) i = (r, s)"
  have "kr_ID ` set (revoke_rows c m now t) = kr_ID ` set t" for c m now by (metis revoke_rows_facts(1) set_map)
  then show ?thesis
    using a by (auto simp: CredentialStore_SaveNewVersion_def insert_credential_def Let_def split: option.splits if_splits sum.splits)
qed

lemma Revoke_ids:
  "CredentialStore_RevokeActive flt now (Some t) x reason = (e, s) \<Longrightarrow> \<exists>t'. s = Some t' \<and> kr_ID ` set t' \<subseteq> kr_ID ` set t"
proof -
  assume a: "CredentialStore_RevokeActive flt now (Some t) x reason = (e, s)"
  have "kr_ID ` set (revoke_rows c m now t) = kr_ID ` set t" for c m now by (metis revoke_rows_facts(1) set_map)
  then show ?thesis
    using a by (auto simp: CredentialStore_RevokeActive_def Let_def split: option.splits if_splits)
qed

lemma store_ok: "database_ok E w \<Longrightarrow> connection_store_ok (Some (db_connections w)) \<and> credential_store_ok (Some (db_credentials w))"
  by (simp add: database_ok_def)

lemma db_env_facts [simp]: "se_flt (db_env E w) = no_faults" "se_id (db_env E w) = ou_ids E (db_next w)"
  by (simp_all add: db_env_def)

lemma fresh_ids:
  assumes "database_ok E w"
  shows "ou_ids E (db_next w) \<notin> xr_ID ` set (db_connections w)" "ou_ids E (db_next w) \<notin> kr_ID ` set (db_credentials w)"
  using assms by (simp_all add: database_ok_def)

lemma db_id_ok:
  assumes "database_ok E w" and "db_conns w x = Some c"
  shows "id_ok x"
  using assms find_live [of "db_connections w" x] by (auto simp: database_ok_def connections_ok_def connection_view_def)

lemma db_create:
  assumes "database_ok E w" and "ScopeRef_Validate (xi_Scope i) = None" and "xi_Status i = ConnectionStatusActive"
    and "TrimSpace (xi_ProviderID i) \<noteq> []" and "TrimSpace (xi_ExternalAccountID i) \<noteq> []"
    and "\<nexists>x c. db_conns w x = Some c \<and>
      conn_account c = (xi_ProviderID i, scope_Type (xi_Scope i), scope_ID (xi_Scope i), xi_ExternalAccountID i)"
  shows "\<exists>c w'. cst_Create (db_connection_store E) i w = (Inr c, w') \<and> database_ok E w' \<and> conn_Status c = ConnectionStatusActive \<and>
    conn_account c = (xi_ProviderID i, scope_Type (xi_Scope i), scope_ID (xi_Scope i), xi_ExternalAccountID i) \<and>
    db_conns w' = (db_conns w)(conn_ID c \<mapsto> c) \<and> db_creds w' = db_creds w \<and> db_grants w' = db_grants w"
proof -
  obtain c s where C: "ConnectionStore_Create (db_env E w) (Some (db_connections w)) i = (Inr c, s)" "connection_store_ok s"
    "conn_ID c = ou_ids E (db_next w)"
    "conn_account c = (xi_ProviderID i, scope_Type (xi_Scope i), scope_ID (xi_Scope i), xi_ExternalAccountID i)"
    "conn_Status c = ConnectionStatusActive" "connection_view s = (db_conns w)(conn_ID c \<mapsto> c)"
    using Create_shows [of "Some (db_connections w)" i "db_env E w"] assms store_ok [OF assms(1)] fresh_ids(1) [OF assms(1)] by auto
  obtain t where t: "s = Some t" "xr_ID ` set t \<subseteq> insert (ou_ids E (db_next w)) (xr_ID ` set (db_connections w))"
    using Create_ids [OF C(1)] by auto
  have "database_ok E (put_connections s w)" using database_ok_connections [OF assms(1) _ t(2)] C(2) t(1) by simp
  with C t(1) show ?thesis
    by (intro exI [of _ c] exI [of _ "put_connections s w"]) (simp add: db_connection_store_def del: grant_latest.simps)
qed

lemma db_update:
  assumes "database_ok E w" and "db_conns w x = Some c" and "named_status st"
  shows "\<exists>w' t. cst_UpdateStatus (db_connection_store E) x st reason w = (Inr (), w') \<and> database_ok E w' \<and>
    db_creds w' = db_creds w \<and> db_grants w' = db_grants w \<and>
    db_conns w' = (db_conns w)(x \<mapsto> c\<lparr>conn_Status := st, conn_LastError := TrimSpace reason, conn_UpdatedAt := t\<rparr>)"
proof -
  note x = db_id_ok [OF assms(1,2)]
  obtain s where U: "ConnectionStore_UpdateStatus (ou_norows E) no_faults (ou_now E) (Some (db_connections w)) x st reason = (None, s)"
    "connection_store_ok s" "connection_view s = (db_conns w)(x \<mapsto>
      c\<lparr>conn_Status := st, conn_LastError := TrimSpace reason, conn_UpdatedAt := ou_now E\<rparr>)"
    using UpdateStatus_shows [OF _ assms(2) x, of "ou_norows E" "ou_now E" st reason] store_ok [OF assms(1)]
    by (auto simp: status_roundtrip [OF assms(3)])
  obtain t where t: "s = Some t" "xr_ID ` set t \<subseteq> xr_ID ` set (db_connections w)" using UpdateStatus_ids [OF U(1)] by auto
  have "database_ok E (put_connections s w)" using database_ok_connections [OF assms(1)] U(2) t by (simp add: subset_insertI2)
  with U t(1) show ?thesis
    by (intro exI [of _ "put_connections s w"] exI [of _ "ou_now E"])
      (simp add: db_connection_store_def err_result_def del: grant_latest.simps)
qed

lemma db_save:
  assumes "database_ok E w" and "savable i"
  shows "\<exists>k w'. kst_Save (db_credential_store E) i w = (Inr k, w') \<and> database_ok E w' \<and> saves_as i k \<and> db_conns w' = db_conns w \<and>
    db_grants w' = db_grants w \<and> db_creds w' = (db_creds w)(TrimSpace (ki_ConnectionID i) \<mapsto> k)"
proof -
  obtain k s where S: "CredentialStore_SaveNewVersion (db_env E w) (Some (db_credentials w)) i = (Inr k, s)" "credential_store_ok s"
    "saves_as i k" "active_credential s = (db_creds w)(TrimSpace (ki_ConnectionID i) \<mapsto> k)"
    using Save_shows [of "Some (db_credentials w)" i "db_env E w"] assms store_ok [OF assms(1)] fresh_ids(2) [OF assms(1)] by auto
  obtain t where t: "s = Some t" "kr_ID ` set t \<subseteq> insert (ou_ids E (db_next w)) (kr_ID ` set (db_credentials w))"
    using Save_ids [OF S(1)] by auto
  have "database_ok E (put_credentials s w)" using database_ok_credentials [OF assms(1) _ t(2)] S(2) t(1) by simp
  with S t(1) show ?thesis
    by (intro exI [of _ k] exI [of _ "put_credentials s w"]) (simp add: db_credential_store_def del: grant_latest.simps)
qed

lemma db_revoke:
  assumes "database_ok E w" and "TrimSpace x \<noteq> []"
  shows "\<exists>w'. kst_Revoke (db_credential_store E) x reason w = (Inr (), w') \<and> database_ok E w' \<and> db_conns w' = db_conns w \<and>
    db_grants w' = db_grants w \<and> db_creds w' = (db_creds w)(TrimSpace x := None)"
proof -
  obtain s where R: "CredentialStore_RevokeActive None (ou_now E) (Some (db_credentials w)) x reason = (None, s)" "credential_store_ok s"
    "active_credential s = (db_creds w)(TrimSpace x := None)"
    using Revoke_shows [of "Some (db_credentials w)" x "ou_now E" reason] assms store_ok [OF assms(1)] by auto
  obtain t where t: "s = Some t" "kr_ID ` set t \<subseteq> kr_ID ` set (db_credentials w)" using Revoke_ids [OF R(1)] by auto
  have "database_ok E (put_credentials s w)" using database_ok_credentials [OF assms(1)] R(2) t by (simp add: subset_insertI2)
  with R t(1) show ?thesis
    by (intro exI [of _ "put_credentials s w"]) (simp add: db_credential_store_def err_result_def del: grant_latest.simps)
qed

lemma db_reconcile:
  assumes inv: "database_ok E w" and x: "db_conns w x \<noteq> None"
  shows "\<exists>snap d w'. reconcileGrantSnapshot (Some (db_grant_store E)) None x requested granted metadata now w = (Inr (Some snap, d), w') \<and>
    database_ok E w' \<and> db_conns w' = db_conns w \<and> db_creds w' = db_creds w \<and>
    db_grants w' = (db_grants w)(x \<mapsto> (sg_Version snap, normalizeGrants granted))"
proof -
  from x have "id_ok x" using db_id_ok [OF inv] by blast
  then have t: "TrimSpace x = x" "TrimSpace x \<noteq> []" by (simp_all add: id_ok_def)
  let ?save = "the (gs_SaveBoth (db_grant_store E))"
  have s: "gs_SaveBoth (db_grant_store E) = Some ?save" by (simp add: db_grant_store_def)
  have known: "grant_known (Some (grants_view w)) (TrimSpace x)" using known_conn [OF x] t(1) by simp
  from dbg.reconcile_saves [OF inv t(2) known refl s refl refl, of requested granted metadata now] obtain snap d w' where
    r: "reconcileGrantSnapshot (Some (db_grant_store E)) None x requested granted metadata now w = (Inr (Some snap, d), w')"
      "database_ok E w'" "sg_Granted snap = normalizeGrants granted" "db_grants w' = (db_grants w)(x \<mapsto> (sg_Version snap, sg_Granted snap))"
    unfolding t(1) by blast
  have "db_connections (snd (?save v i ev)) = db_connections v" "db_credentials (snd (?save v i ev)) = db_credentials v"
    for v :: "'a database_scheme" and i ev
    by (simp_all add: db_grant_store_def split: prod.splits)
  from reconcile_frame [where f = db_connections, OF s this(1) r(1)] reconcile_frame [where f = db_credentials, OF s this(2) r(1)]
  show ?thesis using r by (intro exI [of _ snap] exI [of _ d] exI [of _ w']) (simp del: grant_latest.simps)
qed

lemma append_event_tables:
  assumes "GrantStore_AppendEvent env (Some g) ev = (e, s)" and "grant_tables_ok (Some g)"
  shows "grant_tables_ok s \<and> grant_latest s = grant_latest (Some g) \<and> s \<noteq> None"
proof -
  have snap: "gt_snapshots t = gt_snapshots g" if "appendEventTx env c ev g = Inr t" for c t
    using that by (auto simp: appendEventTx_def Let_def split: if_splits option.splits)
  have "\<exists>t. s = Some t \<and> gt_snapshots t = gt_snapshots g"
    using assms(1) by (auto simp: GrantStore_AppendEvent_def RunInTx_def dest: snap split: sum.splits option.splits)
  then show ?thesis using assms(2) by (auto simp: fun_eq_iff)
qed

interpretation db: account_stores "db_connection_store E" "db_credential_store E" "db_grant_store E" "database_ok E" db_conns db_creds db_grants
  for E
proof unfold_locales
  fix w :: "'a database_scheme" and x c
  assume "database_ok E w" "db_conns w x = Some c"
  then show "conn_ID c = x \<and> id_ok x" using view_id db_id_ok by blast
next
  fix w :: "'a database_scheme" and x
  show "case db_conns w (TrimSpace x) of None \<Rightarrow> \<exists>e. cst_Get (db_connection_store E) x w = Inl e
      | Some c \<Rightarrow> cst_Get (db_connection_store E) x w = Inr c"
    by (simp add: db_connection_store_def Get_shows split: option.split)
next
  fix w :: "'a database_scheme" and p scope cs c
  assume w: "database_ok E w" and f: "cst_FindByScope (db_connection_store E) p scope w = Inr cs" "c \<in> set cs"
  from f obtain r where "r \<in> set (db_connections w)" "xr_DeletedAt r = None" "c = connectionRecord_toDomain r"
    by (auto simp: db_connection_store_def ConnectionStore_FindByScope_def split: option.splits)
  then show "db_conns w (conn_ID c) = Some c"
    using w find_live [of "db_connections w" "xr_ID r" r] by (simp add: database_ok_def connections_ok_def connection_view_def)
next
  fix w :: "'a database_scheme" and scope p e
  assume "database_ok E w" and a: "ScopeRef_Validate scope = None" "TrimSpace p \<noteq> []" "TrimSpace e \<noteq> []"
  then have "connection_store_ok (Some (db_connections w))" using store_ok by blast
  from Find_shows [OF this a] show "\<exists>found. cst_FindAccount (db_connection_store E) p scope e w = Inr found \<and>
      (\<forall>c. found = Some c \<longleftrightarrow> db_conns w (conn_ID c) = Some c \<and> conn_account c = account_of p scope e)"
    by (simp add: db_connection_store_def)
next
  fix w :: "'a database_scheme" and x
  assume "database_ok E w"
  then show "case db_creds w (TrimSpace x) of None \<Rightarrow> \<exists>e. kst_GetActive (db_credential_store E) x w = Inl e
      | Some k \<Rightarrow> kst_GetActive (db_credential_store E) x w = Inr k"
    using store_ok [of E w] by (simp add: db_credential_store_def GetActive_shows split: option.split)
next
  fix w w' :: "'a database_scheme" and ev err
  assume w: "database_ok E w" and e: "gs_AppendEvent (db_grant_store E) w ev = (err, w')"
  obtain s where s: "GrantStore_AppendEvent (db_grant_env E w) (Some (grants_view w)) ev = (err, s)" "w' = put_grants s w"
    using e by (auto simp: db_grant_store_def split: prod.splits)
  from append_event_tables [OF s(1) grants_view_ok [OF w]] obtain g where g: "s = Some g" "grant_tables_ok s" "grant_latest s = db_grants w"
    by auto
  show "database_ok E w' \<and> db_conns w' = db_conns w \<and> db_creds w' = db_creds w \<and> db_grants w' = db_grants w"
    using g database_ok_put_grants [OF w g(2)] s(2) by (simp del: grant_latest.simps)
qed (rule db_create db_update db_save db_revoke db_reconcile; assumption)+

section \<open>What the flows leave in the database\<close>

lemma callback_request_scope: "callback_request s strategy req w = (Inr req', w') \<Longrightarrow> ca_Scope req' = ca_Scope req"
  by (auto simp: callback_request_def effects_eq_Inr applyOAuthStateContext_def Let_def split: if_splits)

text \<open>
  C8: A completed callback installs the account. When the provider answers the exchange with a credential and
  an account id, \<open>CompleteCallback\<close> over the SQL stores succeeds and leaves in the database: a connection
  of that provider, scope and account that is active; an active credential of the connection which
  decrypts to the credential obtained, its strings trimmed; and a newest grant snapshot with the granted
  permissions, normalized.
\<close>

theorem callback_installs_account:
  assumes "svc_connectionStore s = Some (db_connection_store E)" and "svc_credentialStore s = Some (db_credential_store E)"
    and "svc_grantStore s = Some (db_grant_store E)" and "ScopeRef_Validate (ca_Scope req) = None"
    and "resolveProvider s (ca_ProviderID req) = Inr provider" and "resolveAuthStrategy s (Some provider) = Some st"
    and "callback_request s (Some st) req w = (Inr req', w1)"
    and "as_Complete st \<lparr>ac_Scope = ca_Scope req', ac_Code = ca_Code req', ac_State = ca_State req', ac_RedirectURI = ca_RedirectURI req',
      ac_Metadata = copyAnyMap (ca_Metadata req')\<rparr> w1 = (Inr result, w2)" and "database_ok E w2"
    and "TrimSpace (prov_ID provider) \<noteq> []" and "TrimSpace (cp_ExternalAccountID result) \<noteq> []"
    and "readStringMetadata (svc_ff s) (ca_Metadata req') [''connection_id''] = []"
    and "pv_NormalizeGranted (svc_ops s provider) = None"
    and "svc_secretProvider s = Some secret" and "svc_credentialCodec s = Some (JSONCredentialCodec render marshal unmarshal)"
    and "marshal (json_payload (cp_Credential result)) = Inr plain" and "unmarshal plain = Inr (json_payload (cp_Credential result))"
    and "plain \<noteq> []" and "\<And>w. sp_Encrypt secret plain w = (Inr enc, w)" and "sp_Decrypt secret enc = Inr plain"
    and "enc \<noteq> []" and "enc \<noteq> plain"
    and "ak_ExpiresAt (cp_Credential result) \<noteq> Some 0" and "ak_RotatesAt (cp_Credential result) \<noteq> Some 0"
  shows "\<exists>c k d v w'. Service_CompleteCallback s req w = (Inr \<lparr>cb_Connection = c, cb_Credential = k\<rparr>, w') \<and> database_ok E w' \<and>
    db_conns w' (conn_ID c) = Some d \<and> conn_Status d = ConnectionStatusActive \<and>
    conn_account d = (TrimSpace (prov_ID provider), TrimSpace (ToLower (scope_Type (ca_Scope req))),
      TrimSpace (scope_ID (ca_Scope req)), TrimSpace (cp_ExternalAccountID result)) \<and>
    kst_GetActive (db_credential_store E) (conn_ID c) w' = Inr k \<and>
    credentialToActive s k = Inr (restored (conn_ID c) (cp_Credential result)) \<and>
    db_grants w' (conn_ID c) = Some (v, normalizeGrants
      (if cp_GrantedGrants result = [] then ak_GrantedScopes (cp_Credential result) else cp_GrantedGrants result))"
proof -
  let ?codec = "JSONCredentialCodec render marshal unmarshal"
  note scope = callback_request_scope [OF assms(7)]
  have over: "db.over E s" using assms(1-3) by (simp add: db.over_def)
  have plain: "cc_Encode ?codec (cp_Credential result) = Inr plain" using assms(16) by (simp add: JSONCredentialCodec_def)
  have sc: "ScopeRef_Validate (ca_Scope req') = None" using assms(4) scope by simp
  from db.finish_callback_ok [OF over assms(9) sc assms(10-15) plain assms(18,19,21,22)] obtain c k w' d key v ver where
    f: "finish_callback s provider req' result w2 = (Inr \<lparr>cb_Connection = c, cb_Credential = k\<rparr>, w')" "database_ok E w'"
      "db_conns w' = (db_conns w2)(conn_ID c \<mapsto> d)" "conn_Status d = ConnectionStatusActive"
      "conn_account d = (TrimSpace (prov_ID provider), TrimSpace (ToLower (scope_Type (ca_Scope req))),
        TrimSpace (scope_ID (ca_Scope req)), TrimSpace (cp_ExternalAccountID result))"
      "db_creds w' = (db_creds w2)(conn_ID c \<mapsto> k)"
      "saves_as (save_input (conn_ID c) (cp_Credential result) (enc, key, v, cc_Format ?codec, cc_Version ?codec)) k"
      "db_grants w' = (db_grants w2)(conn_ID c \<mapsto> (ver, normalizeGrants
        (if cp_GrantedGrants result = [] then ak_GrantedScopes (cp_Credential result) else cp_GrantedGrants result)))"
    unfolding scope by blast
  have d: "db_conns w' (conn_ID c) = Some d" using f(3) by simp
  have x: "TrimSpace (conn_ID c) = conn_ID c" using db_id_ok [OF f(2) d] by (simp add: id_ok_def)
  have get: "kst_GetActive (db_credential_store E) (conn_ID c) w' = Inr k"
    using db.cred_get [OF f(2), of "conn_ID c"] f(6) x by simp
  have dec: "credentialToActive s k = Inr (restored (conn_ID c) (cp_Credential result))"
    using credential_restored [OF f(7) x assms(14,15) refl assms(20,18,17,21,23,24)] .
  have "Service_CompleteCallback s req w = (Inr \<lparr>cb_Connection = c, cb_Credential = k\<rparr>, w')"
    using assms(4-8) f(1) by (simp add: Service_CompleteCallback_def Let_def effects bindE_def mapE_def)
  then show ?thesis using f(2,4,5,8) d get dec by (intro exI conjI) (assumption | simp)+
qed

text \<open>
  C7: Revoking a connection locks it out. \<open>Revoke\<close> over the SQL stores succeeds on a stored connection and
  leaves it without an active credential and disconnected; from then on no call of \<open>InvokeCapability\<close>
  without inheritance is allowed on it, and a refresh that brings no credential of its own fails.
\<close>

theorem revoke_locks_out:
  assumes "svc_connectionStore s = Some (db_connection_store E)" and "svc_credentialStore s = Some (db_credential_store E)"
    and "svc_grantStore s = Some (db_grant_store E)" and "database_ok E w" and "db_conns w x = Some c"
    and "\<And>acquire r u u'. svc_connectionLocker s = Some acquire \<Longrightarrow> database_ok E u \<Longrightarrow>
      acquire x defaultRefreshLockTTL u = (r, u') \<Longrightarrow> database_ok E u' \<and> db_creds u' = db_creds u"
  shows "\<exists>w'. Service_Revoke s x reason w = (Inr (), w') \<and> database_ok E w' \<and> db_creds w' x = None \<and>
    map_option conn_Status (db_conns w' x) = Some ConnectionStatusDisconnected \<and>
    (\<forall>req res. \<not> allowProviderInheritance (iq_ProviderID req) (svc_enabledProviders s) \<longrightarrow>
       fst (Service_InvokeCapability s req w') = Inr res \<longrightarrow> cs_Allowed res \<longrightarrow> (\<exists>c'. cs_Connection res = Some c' \<and> conn_ID c' \<noteq> x)) \<and>
    (\<forall>held req. rq_Credential req = None \<longrightarrow> TrimSpace (rq_ConnectionID req) = x \<longrightarrow>
       (\<exists>e. fst (Service_Refresh s held req w') = Inl e))"
proof -
  have over: "db.over E s" using assms(1-3) by (simp add: db.over_def)
  from db.revoke_effect [OF over assms(4,5), of reason] obtain w' t where
    r: "Service_Revoke s x reason w = (Inr (), w')" "database_ok E w'" "db_creds w' = (db_creds w)(x := None)"
      "db_conns w' = (db_conns w)(x \<mapsto> c\<lparr>conn_Status := ConnectionStatusDisconnected, conn_LastError := TrimSpace reason, conn_UpdatedAt := t\<rparr>)"
    by blast
  let ?d = "c\<lparr>conn_Status := ConnectionStatusDisconnected, conn_LastError := TrimSpace reason, conn_UpdatedAt := t\<rparr>"
  have d: "db_conns w' x = Some ?d" "conn_Status ?d \<noteq> ConnectionStatusActive" using r(4) by simp_all
  have none: "db_creds w' x = None" using r(3) by simp
  have ref: "\<exists>e. fst (Service_Refresh s held req w') = Inl e" if "rq_Credential req = None" "TrimSpace (rq_ConnectionID req) = x" for held req
    by (rule db.refresh_needs_credential [OF over r(2) that(1)]) (use that(2) none assms(6) r(2) in auto)
  show ?thesis
    using r(1,2) d none db.inactive_not_resolved [OF over r(2) d] ref by (intro exI [of _ w']) auto
qed

section \<open>A service over a database\<close>

definition sample_outside :: outside where
  "sample_outside = \<lparr>ou_ids = (\<lambda>n. replicate (Suc n) CHR ''i''), ou_now = 5, ou_norows = Plain ''no rows'', ou_uniq = Plain ''unique'',
     ou_render = (\<lambda>_. []), ou_fmt_time = (\<lambda>_. [])\<rparr>"

definition empty_database :: database where
  "empty_database = \<lparr>db_connections = [], db_credentials = [], db_snapshots = [], db_events = [], db_next = 0\<rparr>"

definition sample_token :: ActiveCredential where
  "sample_token = zero_credential\<lparr>ak_TokenType := ''bearer'', ak_AccessToken := ''tok'', ak_GrantedScopes := ['' Read'']\<rparr>"

definition sample_answer :: CompleteAuthResponse where
  "sample_answer = \<lparr>cp_ExternalAccountID = ''acct'', cp_Credential = sample_token, cp_RequestedGrants = [], cp_GrantedGrants = [], cp_Metadata = []\<rparr>"

definition sample_strategy :: "database AuthStrategy" where
  "sample_strategy = \<lparr>as_Type = ''api_key'', as_Begin = (\<lambda>_. fail (Plain [])), as_Complete = (\<lambda>_. ret sample_answer), as_Refresh = (\<lambda>_. fail (Plain []))\<rparr>"

definition sample_ops :: "database provider_ops" where
  "sample_ops = \<lparr>pv_AuthKind = ''api_key'', pv_BeginAuth = (\<lambda>_. fail (Plain [])), pv_CompleteAuth = (\<lambda>_. fail (Plain [])),
     pv_Refresh = (\<lambda>_. fail (Plain [])), pv_AuthStrategy = Some sample_strategy, pv_NormalizeGranted = None, pv_Embedded = None\<rparr>"

definition sample_secret :: "database SecretProvider" where
  "sample_secret = \<lparr>sp_Encrypt = (\<lambda>p. ret (CHR ''#'' # p)), sp_Decrypt = (\<lambda>p. Inr (tl p)), sp_Metadata = None\<rparr>"

definition sample_codec :: CredentialCodec where
  "sample_codec = JSONCredentialCodec (\<lambda>_. []) (\<lambda>_. Inr ''{}'') (\<lambda>_. Inr (json_payload sample_token))"

definition sample_service :: "database Service" where
  "sample_service = bare_service
     \<lparr>svc_registry := Some (register_all [sample_provider] NewProviderRegistry), svc_ops := (\<lambda>_. sample_ops),
      svc_connectionStore := Some (db_connection_store sample_outside), svc_credentialStore := Some (db_credential_store sample_outside),
      svc_grantStore := Some (db_grant_store sample_outside), svc_secretProvider := Some sample_secret,
      svc_credentialCodec := Some sample_codec\<rparr>"

definition sample_callback :: CompleteAuthRequest where
  "sample_callback = \<lparr>ca_ProviderID = prov_ID sample_provider, ca_Scope = \<lparr>scope_Type = ''User'', scope_ID = ''u''\<rparr>, ca_Code = ''code'', ca_State = [],
     ca_RedirectURI = [], ca_Metadata = []\<rparr>"

lemma sample_ids: "inj (ou_ids sample_outside)" "id_ok (ou_ids sample_outside n)"
proof -
  show "inj (ou_ids sample_outside)"
    by (rule injI) (metis sample_outside_def outside.select_convs(1) length_replicate Suc_inject)
  have "TrimSpace (replicate (Suc n) CHR ''i'') = replicate (Suc n) CHR ''i''" by (rule TrimSpace_id) (simp_all add: is_space_def)
  then show "id_ok (ou_ids sample_outside n)" by (simp add: sample_outside_def id_ok_def)
qed

lemma empty_database_ok: "database_ok sample_outside empty_database"
  by (simp add: database_ok_def sample_ids empty_database_def connections_ok_def credentials_ok_def numbered_def)

theorem callback_installs_account_witness:
  "\<exists>c k w'. Service_CompleteCallback sample_service sample_callback empty_database = (Inr \<lparr>cb_Connection = c, cb_Credential = k\<rparr>, w') \<and>
    credentialToActive sample_service k = Inr (restored (conn_ID c) sample_token)"
proof -
  let ?s = sample_service and ?r = sample_callback
  have s: "svc_connectionStore ?s = Some (db_connection_store sample_outside)" "svc_credentialStore ?s = Some (db_credential_store sample_outside)"
    "svc_grantStore ?s = Some (db_grant_store sample_outside)" "svc_secretProvider ?s = Some sample_secret"
    "svc_credentialCodec ?s = Some (JSONCredentialCodec (\<lambda>_. []) (\<lambda>_. Inr ''{}'') (\<lambda>_. Inr (json_payload sample_token)))"
    "pv_NormalizeGranted (svc_ops ?s sample_provider) = None" "resolveAuthStrategy ?s (Some sample_provider) = Some sample_strategy"
    by (simp_all add: sample_service_def sample_ops_def sample_codec_def resolveAuthStrategy_def)
  have g: "ProviderRegistry_Get (register_all [sample_provider] NewProviderRegistry) (TrimSpace (prov_ID sample_provider)) = Some sample_provider"
    by code_simp
  have v: "ScopeRef_Validate (ca_Scope ?r) = None" "resolveProvider ?s (ca_ProviderID ?r) = Inr sample_provider"
    by code_simp (simp add: resolveProvider_def sample_service_def sample_callback_def Let_def g del: register_all.simps)
  have "\<not> strategyRequiresCallbackState (Some sample_strategy)" by code_simp
  then have c: "callback_request ?s (Some sample_strategy) ?r empty_database = (Inr ?r, empty_database)"
    by (simp add: callback_request_def ret_def)
  have a: "as_Complete sample_strategy q empty_database = (Inr sample_answer, empty_database)" for q by (simp add: sample_strategy_def ret_def)
  have i: "TrimSpace (prov_ID sample_provider) \<noteq> []" "TrimSpace (cp_ExternalAccountID sample_answer) \<noteq> []"
    "readStringMetadata (svc_ff ?s) (ca_Metadata ?r) [''connection_id''] = []" by code_simp+
  have e: "sp_Encrypt sample_secret ''{}'' w = (Inr ''#{}'', w)" "sp_Decrypt sample_secret ''#{}'' = Inr ''{}''" for w
    by (simp_all add: sample_secret_def ret_def)
  have t: "cp_Credential sample_answer = sample_token" "ak_ExpiresAt (cp_Credential sample_answer) \<noteq> Some 0"
    "ak_RotatesAt (cp_Credential sample_answer) \<noteq> Some 0"
    by (simp_all add: sample_answer_def sample_token_def zero_credential_def)
  from callback_installs_account [OF s(1-3) v s(7) c a empty_database_ok i s(6,4,5) refl _ _ e(1,2) _ _ t(2,3)] t(1)
  show ?thesis by auto
qed

definition sample_row :: connectionRecord where
  "sample_row = \<lparr>xr_ID = ''i'', xr_ProviderID = ''github'', xr_ScopeType = ''user'', xr_ScopeID = ''u'', xr_ExternalAccountID = ''acct'',
     xr_Status = ConnectionStatusActive, xr_InheritsFrom = None, xr_LastError = [], xr_CreatedAt = 1, xr_UpdatedAt = 1, xr_DeletedAt = None\<rparr>"

theorem revoke_locks_out_witness:
  "\<exists>w'. Service_Revoke sample_service ''i'' ''gone'' (empty_database\<lparr>db_connections := [sample_row], db_next := 1\<rparr>) = (Inr (), w') \<and>
     map_option conn_Status (db_conns w' ''i'') = Some ConnectionStatusDisconnected"
proof -
  let ?w = "empty_database\<lparr>db_connections := [sample_row], db_next := 1\<rparr>"
  have s: "svc_connectionStore sample_service = Some (db_connection_store sample_outside)"
    "svc_credentialStore sample_service = Some (db_credential_store sample_outside)"
    "svc_grantStore sample_service = Some (db_grant_store sample_outside)" by (simp_all add: sample_service_def)
  have n: "ou_ids sample_outside n \<noteq> ''i''" if "1 \<le> n" for n
    using that by (cases n) (simp_all add: sample_outside_def)
  have "database_ok sample_outside ?w"
    using n sample_ids sample_ids(2) [of 0] empty_database_ok
    by (simp add: database_ok_def empty_database_def sample_row_def connections_ok_def sample_outside_def)
  moreover have "db_conns ?w ''i'' = Some (connectionRecord_toDomain sample_row)"
    by (simp add: connection_view_def find_connection_def sample_row_def)
  ultimately show ?thesis
    using revoke_locks_out [OF s, of ?w "''i''" "connectionRecord_toDomain sample_row" "''gone''"]
    by (auto simp: sample_service_def bare_service_def)
qed

end
