(* ===== verification/Callback_State.thy ===== *)
theory Callback_State
  imports Service_Flows
begin

text \<open>The OAuth callback over the in-memory state store: a request that does not match the state does not use it up.\<close>

definition memory_states :: "int \<Rightarrow> MemoryOAuthStateStore OAuthStateStore" where
  "memory_states now =
     \<lparr>sta_Save = (\<lambda>r w. case MemoryOAuthStateStore_Save (Some w) r now of
         Some (Inr w') \<Rightarrow> (Inr (), w') | Some (Inl e) \<Rightarrow> (Inl e, w) | None \<Rightarrow> (Inl (Plain ''save does not return''), w)),
      sta_Consume = (\<lambda>state w. case MemoryOAuthStateStore_Consume (Some w) state now of
         (r, Some w') \<Rightarrow> (r, w') | (r, None) \<Rightarrow> (r, w))\<rparr>"

lemma memory_consume:
  assumes "oauth_inv w" and "TrimSpace state \<noteq> []" and "map_of (st_entries w) (TrimSpace state) = Some r" and "\<not> os_expired now r"
  obtains w' where "sta_Consume (memory_states now) state w = (Inr (cloneOAuthStateRecord r), w')" "oauth_inv w'"
proof -
  obtain w' where w': "snd (MemoryOAuthStateStore_Consume (Some w) state now) = Some w'" "oauth_inv w'"
    using Consume_eq(2) [OF assms(1,2), of now] by blast
  moreover have "fst (MemoryOAuthStateStore_Consume (Some w) state now) = Inr (cloneOAuthStateRecord r)"
    using Consume_eq(1) [OF assms(1,2), of now] assms(3,4) by simp
  ultimately have "sta_Consume (memory_states now) state w = (Inr (cloneOAuthStateRecord r), w')"
    by (cases "MemoryOAuthStateStore_Consume (Some w) state now") (simp add: memory_states_def)
  then show ?thesis using w'(2) that by blast
qed

lemma memory_save:
  assumes "oauth_inv w" and "TrimSpace (os_State r) \<noteq> []" and "os_CreatedAt r \<noteq> 0" and "os_ExpiresAt r \<noteq> 0"
  obtains w' where "sta_Save (memory_states now) r w = (Inr (), w')" "oauth_inv w'"
    "map_of (st_entries w') (TrimSpace (os_State r)) = Some (cloneOAuthStateRecord r)"
proof -
  obtain w' m where s: "MemoryOAuthStateStore_Save (Some w) r now = Some (Inr w')" "oauth_inv w'"
    "w' = w\<lparr>st_entries := AList.update (TrimSpace (os_State r)) (cloneOAuthStateRecord (os_stamp w now r)) m\<rparr>"
    using Save_returns [OF assms(1,2), of now] by metis
  have "os_stamp w now r = r" using assms(3,4) by (simp add: os_stamp_def)
  with s show ?thesis using that by (simp add: memory_states_def update_conv')
qed

text \<open>
  C9: A callback that does not match its state does not use the state up. When the provider, the scope or the
  redirect of a callback request does not match the record saved for its state, the in-memory store ends
  with the record restored: the request fails with the mismatch, and a matching request for the same
  state that comes later, before the state expires, is accepted with the saved record.
\<close>

theorem callback_mismatch_keeps_state:
  assumes "svc_oauthStateStore s = Some (memory_states now)" and "oauth_inv w"
    and "TrimSpace (ca_State req) \<noteq> []" and "TrimSpace (ca_State later) = TrimSpace (ca_State req)"
    and "map_of (st_entries w) (TrimSpace (ca_State req)) = Some r" and "\<not> os_expired now r"
    and "TrimSpace (os_State r) = TrimSpace (ca_State req)" and "os_CreatedAt r \<noteq> 0" and "os_ExpiresAt r \<noteq> 0"
    and "gomap_ok (os_Metadata r)"
    and "state_mismatch s r req = Some err" and "state_mismatch s r later = None"
  shows "\<exists>w'. consumeOAuthCallbackState s req w = (Inl err, w') \<and> oauth_inv w' \<and>
    fst (consumeOAuthCallbackState s later w') = Inr r"
proof -
  have c: "cloneOAuthStateRecord r = r" using assms(10) by (simp add: cloneOAuthStateRecord_def)
  have st: "TrimSpace (TrimSpace (ca_State req)) \<noteq> []" using assms(3) by simp
  obtain w1 where w1: "sta_Consume (memory_states now) (TrimSpace (ca_State req)) w = (Inr r, w1)" "oauth_inv w1"
    using memory_consume [OF assms(2) st _ assms(6)] assms(5) c by (metis TrimSpace_idem)
  obtain w2 where w2: "sta_Save (memory_states now) r w1 = (Inr (), w2)" "oauth_inv w2"
    "map_of (st_entries w2) (TrimSpace (ca_State req)) = Some r"
    using memory_save [OF w1(2) _ assms(8,9)] assms(3,7) c by metis
  obtain w3 where w3: "sta_Consume (memory_states now) (TrimSpace (ca_State req)) w2 = (Inr r, w3)"
    using memory_consume [OF w2(2) st _ assms(6)] w2(3) c by (metis TrimSpace_idem)
  have "consumeOAuthCallbackState s req w = (Inl err, w2)"
    using assms(1,3,11) w1(1) w2(1) c by (simp add: consumeOAuthCallbackState_def effects restore_state_def Let_def)
  moreover have "consumeOAuthCallbackState s later w2 = (Inr r, w3)"
    using assms(1,3,4,12) w3 c by (simp add: consumeOAuthCallbackState_def effects Let_def)
  ultimately show ?thesis using w2(2) by simp
qed

definition state_service :: "MemoryOAuthStateStore Service" where
  "state_service = bare_service\<lparr>svc_oauthStateStore := Some (memory_states 20)\<rparr>"

definition saved_state :: OAuthStateRecord where
  "saved_state = (sample_state ''abc'')\<lparr>os_CreatedAt := 10, os_ExpiresAt := 110\<rparr>"

definition state_request :: "string \<Rightarrow> CompleteAuthRequest" where
  "state_request p = \<lparr>ca_ProviderID = p, ca_Scope = \<lparr>scope_Type = ''org'', scope_ID = ''o''\<rparr>, ca_Code = ''code'', ca_State = ''abc'',
     ca_RedirectURI = [], ca_Metadata = []\<rparr>"

theorem callback_mismatch_keeps_state_witness:
  "\<exists>w'. consumeOAuthCallbackState state_service (state_request ''other'') \<lparr>st_ttl = 100, st_maxEntries = 5, st_entries = [(''abc'', saved_state)]\<rparr> =
      (Inl (Plain ''core: oauth callback state provider mismatch''), w') \<and>
    fst (consumeOAuthCallbackState state_service (state_request ''GitHub'') w') = Inr saved_state"
proof -
  let ?w = "\<lparr>st_ttl = 100, st_maxEntries = 5, st_entries = [(''abc'', saved_state)]\<rparr>"
  have s: "svc_oauthStateStore state_service = Some (memory_states 20)" by (simp add: state_service_def)
  have inv: "oauth_inv ?w" by (simp add: oauth_inv_def keys_nonempty_def)
  have r: "TrimSpace (ca_State (state_request p)) = ''abc''" for p
    by (simp add: state_request_def TrimSpace_id is_space_def)
  have e: "map_of (st_entries ?w) ''abc'' = Some saved_state" "\<not> os_expired 20 saved_state" "TrimSpace (os_State saved_state) = ''abc''"
    "os_CreatedAt saved_state \<noteq> 0" "os_ExpiresAt saved_state \<noteq> 0" "gomap_ok (os_Metadata saved_state)"
    by (simp_all add: saved_state_def sample_state_def os_expired_def TrimSpace_id is_space_def)
  have m: "state_mismatch state_service saved_state (state_request ''other'') = Some (Plain ''core: oauth callback state provider mismatch'')"
    "state_mismatch state_service saved_state (state_request ''GitHub'') = None"
    by code_simp+
  show ?thesis
    using callback_mismatch_keeps_state [OF s inv, of "state_request ''other''" "state_request ''GitHub''" saved_state] r e m by auto
qed

end
