(* ===== verification/Installations.thy ===== *)
theory Installations
  imports Sql_Table Permissions
begin

text \<open>
  Installations: the SQL store of \<open>src/store/sql/installation_store.go\<close> and the operations of the service in
  \<open>src/core/service_installations.go\<close>. The store is shown to implement a map from the installation's key to
  its status that changes only along the status machine.
\<close>

section \<open>The store\<close>

record installationRecord =
  il_ID :: string
  il_ProviderID :: string
  il_ScopeType :: string
  il_ScopeID :: string
  il_InstallType :: string
  il_Status :: InstallationStatus
  il_GrantedAt :: "int option"
  il_RevokedAt :: "int option"
  il_Metadata :: meta
  il_CreatedAt :: int
  il_UpdatedAt :: int

type_synonym installation_table = "installationRecord list"

record UpsertInstallationInput =
  ii_ProviderID :: string
  ii_Scope :: ScopeRef
  ii_InstallType :: string
  ii_Status :: InstallationStatus
  ii_GrantedAt :: "int option"
  ii_RevokedAt :: "int option"
  ii_Metadata :: meta

definition newInstallationRecord :: "UpsertInstallationInput \<Rightarrow> int \<Rightarrow> installationRecord" where
  "newInstallationRecord i now =
     \<lparr>il_ID = [], il_ProviderID = ii_ProviderID i, il_ScopeType = scope_Type (ii_Scope i), il_ScopeID = scope_ID (ii_Scope i),
      il_InstallType = ii_InstallType i, il_Status = ii_Status i, il_GrantedAt = ii_GrantedAt i, il_RevokedAt = ii_RevokedAt i,
      il_Metadata = copyAnyMap (ii_Metadata i), il_CreatedAt = now, il_UpdatedAt = now\<rparr>"

definition installationRecord_toDomain :: "installationRecord \<Rightarrow> Installation" where
  "installationRecord_toDomain r =
     \<lparr>inst_ID = il_ID r, inst_ProviderID = il_ProviderID r, inst_ScopeType = il_ScopeType r, inst_ScopeID = il_ScopeID r,
      inst_InstallType = il_InstallType r, inst_Status = il_Status r, inst_GrantedAt = il_GrantedAt r, inst_RevokedAt = il_RevokedAt r,
      inst_Metadata = copyAnyMap (il_Metadata r), inst_CreatedAt = il_CreatedAt r, inst_UpdatedAt = il_UpdatedAt r\<rparr>"

text \<open>The status with this text; \<open>parse\<close> fails with the component's own message.\<close>

definition installation_status_of :: "string \<Rightarrow> InstallationStatus" where
  "installation_status_of s =
     (if s = ''active'' then InstallationStatusActive else if s = ''suspended'' then InstallationStatusSuspended
      else if s = ''uninstalled'' then InstallationStatusUninstalled
      else if s = ''needs_reconsent'' then InstallationStatusNeedsReconsent else InstallationStatusOther s)"

definition parse_installation_status :: "string \<Rightarrow> InstallationStatus \<Rightarrow> InstallationStatus result" where
  "parse_installation_status component status =
     (let normalized = TrimSpace (ToLower (installation_status_str status)) in
      if normalized = [] then Inr InstallationStatusActive
      else case installation_status_of normalized of
          InstallationStatusOther _ \<Rightarrow>
            Inl (Plain (component @ '': invalid installation status '' @ quote (installation_status_str status)))
        | st \<Rightarrow> Inr st)"

definition parseInstallationStatusValue :: "InstallationStatus \<Rightarrow> InstallationStatus result" where
  "parseInstallationStatusValue = parse_installation_status ''sqlstore''"

definition parseInstallationStatus :: "InstallationStatus \<Rightarrow> InstallationStatus result" where
  "parseInstallationStatus = parse_installation_status ''core''"

type_synonym install_key = "string \<times> string \<times> string \<times> string"

definition install_key :: "installationRecord \<Rightarrow> install_key" where
  "install_key r = (il_ProviderID r, il_ScopeType r, il_ScopeID r, il_InstallType r)"

text \<open>\<open>ORDER BY updated_at DESC LIMIT 1\<close>\<close>

definition findInstallationTx :: "installation_table \<Rightarrow> install_key \<Rightarrow> installationRecord option" where
  "findInstallationTx t k =
     (case sort_key (\<lambda>r. - il_UpdatedAt r) (filter (\<lambda>r. install_key r = k) t) of [] \<Rightarrow> None | r # _ \<Rightarrow> Some r)"

text \<open>The primary key, and the unique index on the active rows.\<close>

definition install_violation :: "installationRecord \<Rightarrow> installation_table \<Rightarrow> bool" where
  "install_violation r others \<longleftrightarrow> il_ID r \<in> il_ID ` set others \<or>
     (il_Status r = InstallationStatusActive \<and>
      (\<exists>o' \<in> set others. il_Status o' = InstallationStatusActive \<and> install_key o' = install_key r))"

definition installs_not_configured :: goerr where
  "installs_not_configured = Plain ''sqlstore: installation store is not configured''"

definition write_installation :: "sql_env \<Rightarrow> installationRecord \<Rightarrow> installation_table \<Rightarrow> installation_table result" where
  "write_installation env r t =
     (case se_flt env 1 of Some err \<Rightarrow> Inl err | None \<Rightarrow>
      if install_violation r (filter (\<lambda>o'. il_ID o' \<noteq> il_ID r) t) then Inl (se_uniq env)
      else Inr (update_where (\<lambda>o'. il_ID o' = il_ID r) (\<lambda>_. r) t))"

definition normalized_install :: "UpsertInstallationInput \<Rightarrow> UpsertInstallationInput" where
  "normalized_install i = i
     \<lparr>ii_ProviderID := TrimSpace (ii_ProviderID i),
      ii_Scope := \<lparr>scope_Type = TrimSpace (ToLower (scope_Type (ii_Scope i))), scope_ID = TrimSpace (scope_ID (ii_Scope i))\<rparr>,
      ii_InstallType := TrimSpace (ToLower (ii_InstallType i))\<rparr>"

definition input_key :: "UpsertInstallationInput \<Rightarrow> install_key" where
  "input_key i = (ii_ProviderID i, scope_Type (ii_Scope i), scope_ID (ii_Scope i), ii_InstallType i)"

text \<open>The row that \<open>Upsert\<close> and \<open>UpdateStatus\<close> write back.\<close>

definition upserted_row :: "UpsertInstallationInput \<Rightarrow> int \<Rightarrow> installationRecord \<Rightarrow> installationRecord" where
  "upserted_row i now record =
     (let revoked = (case ii_RevokedAt i of None \<Rightarrow> il_RevokedAt record | Some v \<Rightarrow> Some v) in
      record\<lparr>il_Status := ii_Status i, il_Metadata := copyAnyMap (ii_Metadata i), il_UpdatedAt := now,
        il_GrantedAt := (case ii_GrantedAt i of None \<Rightarrow> il_GrantedAt record | Some v \<Rightarrow> Some v),
        il_RevokedAt := (if ii_Status i = InstallationStatusUninstalled \<and> revoked = None then Some now else revoked)\<rparr>)"

definition restatus_row :: "(int \<Rightarrow> string) \<Rightarrow> int \<Rightarrow> InstallationStatus \<Rightarrow> string \<Rightarrow> installationRecord \<Rightarrow> installationRecord" where
  "restatus_row fmt now targetStatus reason record = record
     \<lparr>il_Status := targetStatus, il_UpdatedAt := now,
      il_Metadata := (if TrimSpace reason \<noteq> []
        then AList.update ''status_reason_at'' (AStr (fmt now))
          (AList.update ''status_reason'' (AStr (TrimSpace reason)) (copyAnyMap (il_Metadata record)))
        else copyAnyMap (il_Metadata record)),
      il_RevokedAt := (if targetStatus = InstallationStatusUninstalled then Some now else il_RevokedAt record)\<rparr>"

lemma written_row [simp]:
  "il_ID (upserted_row i now r) = il_ID r" "install_key (upserted_row i now r) = install_key r" "il_Status (upserted_row i now r) = ii_Status i"
  "il_ID (restatus_row fmt now st reason r) = il_ID r" "install_key (restatus_row fmt now st reason r) = install_key r"
  "il_Status (restatus_row fmt now st reason r) = st"
  by (simp_all add: upserted_row_def restatus_row_def install_key_def Let_def)

text \<open>The transaction of \<open>Upsert\<close> on a normalized input; the returned table is committed as statement 2.\<close>

definition upsert_tx :: "sql_env \<Rightarrow> UpsertInstallationInput \<Rightarrow> installation_table \<Rightarrow> (Installation \<times> installation_table) result" where
  "upsert_tx env i t =
     (case se_flt env 0 of Some err \<Rightarrow> Inl err | None \<Rightarrow>
      let status = ii_Status i; now = se_now env in
      (case findInstallationTx t (input_key i) of
         None \<Rightarrow>
           if status \<noteq> InstallationStatusActive then Inl (Plain ''sqlstore: installation must be created with status active'')
           else
             let record = (newInstallationRecord i now)\<lparr>il_ID := se_id env\<rparr> in
             (case se_flt env 1 of Some err \<Rightarrow> Inl err | None \<Rightarrow>
              if install_violation record t then Inl (se_uniq env)
              else Inr (installationRecord_toDomain record, t @ [record]))
       | Some record \<Rightarrow>
           (case Installation_TransitionTo (Some (installationRecord_toDomain record)) status now of
              Inl transitionErr \<Rightarrow> Inl transitionErr
            | Inr _ \<Rightarrow>
                let record = upserted_row i now record
                in case write_installation env record t of
                     Inl err \<Rightarrow> Inl err | Inr t' \<Rightarrow> Inr (installationRecord_toDomain record, t'))))"

definition InstallationStore_Upsert ::
  "sql_env \<Rightarrow> installation_table option \<Rightarrow> UpsertInstallationInput \<Rightarrow> Installation result \<times> installation_table option" where
  "InstallationStore_Upsert env receiver input =
     (case receiver of None \<Rightarrow> (Inl installs_not_configured, receiver) | Some t \<Rightarrow>
      let i = normalized_install input in
      if ii_ProviderID i = [] then (Inl (Plain ''sqlstore: provider id is required''), receiver)
      else case ScopeRef_Validate (ii_Scope i) of
        Some err \<Rightarrow> (Inl err, receiver)
      | None \<Rightarrow>
          if ii_InstallType i = [] then (Inl (Plain ''sqlstore: install type is required''), receiver)
          else case parseInstallationStatusValue (ii_Status i) of
            Inl err \<Rightarrow> (Inl err, receiver)
          | Inr status \<Rightarrow>
              (case upsert_tx env (i\<lparr>ii_Status := status\<rparr>) t of
                 Inl err \<Rightarrow> (Inl err, receiver)
               | Inr (out, t') \<Rightarrow>
                   (case se_flt env 2 of Some err \<Rightarrow> (Inl err, receiver) | None \<Rightarrow> (Inr out, Some t'))))"

definition InstallationStore_Get ::
  "goerr \<Rightarrow> goerr option \<Rightarrow> installation_table option \<Rightarrow> string \<Rightarrow> Installation result" where
  "InstallationStore_Get norows flt receiver x =
     (case receiver of None \<Rightarrow> Inl installs_not_configured | Some t \<Rightarrow>
      case flt of Some err \<Rightarrow> Inl err | None \<Rightarrow>
      (case find (\<lambda>r. il_ID r = TrimSpace x) t of None \<Rightarrow> Inl norows | Some r \<Rightarrow> Inr (installationRecord_toDomain r)))"

definition InstallationStore_ListByScope ::
  "goerr option \<Rightarrow> installation_table option \<Rightarrow> string \<Rightarrow> ScopeRef \<Rightarrow> Installation list result" where
  "InstallationStore_ListByScope flt receiver provider s =
     (case receiver of None \<Rightarrow> Inl installs_not_configured | Some t \<Rightarrow>
      let providerID = TrimSpace provider;
          scope = \<lparr>scope_Type = TrimSpace (ToLower (scope_Type s)), scope_ID = TrimSpace (scope_ID s)\<rparr> in
      if providerID = [] then Inl (Plain ''sqlstore: provider id is required'')
      else case ScopeRef_Validate scope of
        Some err \<Rightarrow> Inl err
      | None \<Rightarrow>
          (case flt of Some err \<Rightarrow> Inl err | None \<Rightarrow>
           Inr (map installationRecord_toDomain (sort_key (\<lambda>r. - il_UpdatedAt r)
             (filter (\<lambda>r. il_ProviderID r = providerID \<and> il_ScopeType r = scope_Type scope \<and> il_ScopeID r = scope_ID scope) t)))))"

definition InstallationStore_UpdateStatus ::
  "sql_env \<Rightarrow> goerr \<Rightarrow> (int \<Rightarrow> string) \<Rightarrow> installation_table option \<Rightarrow> string \<Rightarrow> InstallationStatus \<Rightarrow> string \<Rightarrow>
     goerr option \<times> installation_table option" where
  "InstallationStore_UpdateStatus env norows fmt receiver ident status reason =
     (case receiver of None \<Rightarrow> (Some installs_not_configured, receiver) | Some t \<Rightarrow>
      let x = TrimSpace ident in
      if x = [] \<or> installation_status_str status = [] then (Some (Plain ''sqlstore: installation id and status are required''), receiver)
      else case parseInstallationStatusValue status of
        Inl err \<Rightarrow> (Some err, receiver)
      | Inr targetStatus \<Rightarrow>
          (case se_flt env 0 of Some err \<Rightarrow> (Some err, receiver) | None \<Rightarrow>
           (case find (\<lambda>r. il_ID r = x) t of
              None \<Rightarrow> (Some norows, receiver)
            | Some record \<Rightarrow>
                let now = se_now env in
                (case Installation_TransitionTo (Some (installationRecord_toDomain record)) targetStatus now of
                   Inl transitionErr \<Rightarrow> (Some transitionErr, receiver)
                 | Inr _ \<Rightarrow>
                     let record = restatus_row fmt now targetStatus reason record
                     in case write_installation env record t of
                          Inl err \<Rightarrow> (Some err, receiver) | Inr t' \<Rightarrow> (None, Some t')))))"

section \<open>What the store implements\<close>

definition installs_ok :: "installation_table \<Rightarrow> bool" where
  "installs_ok t \<longleftrightarrow> distinct (map il_ID t) \<and> distinct (map install_key t)"

definition install_view :: "installation_table \<Rightarrow> install_key \<Rightarrow> InstallationStatus option" where
  "install_view t k = map_option il_Status (find (\<lambda>r. install_key r = k) t)"

text \<open>The next status of a key: it is created active, kept, or moved along the status machine.\<close>

definition next_status :: "InstallationStatus option \<Rightarrow> InstallationStatus \<Rightarrow> InstallationStatus option" where
  "next_status current st =
     (case current of
        None \<Rightarrow> if st = InstallationStatusActive then Some st else None
      | Some s \<Rightarrow> if s = st \<or> installationTransitionAllowed s st then Some st else None)"

lemma findInstallationTx_unique:
  assumes "distinct (map install_key t)"
  shows "findInstallationTx t k = find (\<lambda>r. install_key r = k) t"
  using filter_key_distinct [OF assms, of k]
  by (cases "find (\<lambda>r. install_key r = k) t") (simp_all add: findInstallationTx_def)

lemma transition_iff:
  "(\<exists>x. Installation_TransitionTo (Some d) st now = Inr x) \<longleftrightarrow> inst_Status d = st \<or> installationTransitionAllowed (inst_Status d) st"
  by auto

lemma toDomain_status [simp]: "inst_Status (installationRecord_toDomain r) = il_Status r"
  by (simp add: installationRecord_toDomain_def)

text \<open>Writing back a row of the table under its key violates no constraint and changes the status of that key only.\<close>

lemma write_row:
  assumes ok: "installs_ok t" and r: "r \<in> set t" and r': "il_ID r' = il_ID r" "install_key r' = install_key r"
    and flt: "se_flt env 1 = None"
  shows "\<exists>t'. write_installation env r' t = Inr t' \<and> installs_ok t' \<and> install_view t' = (install_view t)(install_key r \<mapsto> il_Status r')"
proof -
  have d: "distinct (map il_ID t)" "distinct (map install_key t)" using ok by (simp_all add: installs_ok_def)
  have same: "x = r" if "x \<in> set t" "il_ID x = il_ID r \<or> install_key x = install_key r" for x
    using that d r by (metis distinct_map inj_onD)
  let ?t = "update_where (\<lambda>x. il_ID x = il_ID r') (\<lambda>_. r') t"
  have "\<not> install_violation r' (filter (\<lambda>x. il_ID x \<noteq> il_ID r') t)"
    using same r' unfolding install_violation_def by auto
  then have w: "write_installation env r' t = Inr ?t" using flt by (simp add: write_installation_def)
  have u: "?t = update_where (\<lambda>x. install_key x = install_key r) (\<lambda>_. r') t"
    using same r' by (auto simp: update_where_def)
  have ids: "map il_ID ?t = map il_ID t" by (rule map_key_update_where) (simp add: r')
  have keys: "map install_key ?t = map install_key t" unfolding u by (rule map_key_update_where) (simp add: r')
  have f: "find (\<lambda>x. install_key x = install_key r) t = Some r" using find_unique [OF d(2)] r by blast
  have "install_view ?t = (install_view t)(install_key r \<mapsto> il_Status r')"
  proof
    fix k
    show "install_view ?t k = ((install_view t)(install_key r \<mapsto> il_Status r')) k"
      unfolding u install_view_def
      using find_update_where [of install_key "\<lambda>_. r'" "install_key r" k t] r'(2) f by simp
  qed
  then show ?thesis using w d ids keys by (simp add: installs_ok_def)
qed

lemma upsert_tx_view:
  assumes ok: "installs_ok t" and fresh: "se_id env \<notin> il_ID ` set t" and flt: "se_flt env = no_faults"
  shows "case next_status (install_view t (input_key i)) (ii_Status i) of
      None \<Rightarrow> \<exists>e. upsert_tx env i t = Inl e
    | Some st \<Rightarrow> \<exists>x t'. upsert_tx env i t = Inr (x, t') \<and> installs_ok t' \<and> inst_Status x = st \<and>
        install_view t' = (install_view t)(input_key i \<mapsto> st)"
proof -
  have d: "distinct (map il_ID t)" "distinct (map install_key t)" using ok by (simp_all add: installs_ok_def)
  show ?thesis
  proof (cases "find (\<lambda>r. install_key r = input_key i) t")
    case None
    let ?r = "(newInstallationRecord i (se_now env))\<lparr>il_ID := se_id env\<rparr>"
    have k: "install_key ?r = input_key i" "il_Status ?r = ii_Status i"
      by (simp_all add: install_key_def input_key_def newInstallationRecord_def)
    have new: "input_key i \<notin> install_key ` set t" using None by (simp add: find_none)
    then have "\<not> install_violation ?r t" using fresh k unfolding install_violation_def by (auto simp: image_iff)
    moreover have "installs_ok (t @ [?r])" using d fresh new k(1) by (simp add: installs_ok_def)
    moreover have "install_view (t @ [?r]) = (install_view t)(input_key i \<mapsto> ii_Status i)"
      using k None by (auto simp: install_view_def find_append fun_eq_iff split: option.splits)
    ultimately show ?thesis
      using None flt k(2) by (simp add: upsert_tx_def findInstallationTx_unique [OF d(2)] install_view_def next_status_def Let_def)
  next
    case (Some r)
    then have r: "r \<in> set t" "install_key r = input_key i" using find_unique [OF d(2)] by blast+
    let ?r = "upserted_row i (se_now env) r"
    have s: "il_ID ?r = il_ID r" "install_key ?r = install_key r" "se_flt env 1 = None" using flt by simp_all
    obtain t' where t': "write_installation env ?r t = Inr t'" "installs_ok t'" "install_view t' = (install_view t)(input_key i \<mapsto> ii_Status i)"
      using write_row [OF ok r(1) s] r(2) by auto
    have v: "install_view t (input_key i) = Some (il_Status r)" using Some by (simp add: install_view_def)
    have U: "upsert_tx env i t = (case Installation_TransitionTo (Some (installationRecord_toDomain r)) (ii_Status i) (se_now env) of
        Inl e \<Rightarrow> Inl e | Inr _ \<Rightarrow> Inr (installationRecord_toDomain ?r, t'))"
      using t'(1) flt Some by (simp add: upsert_tx_def findInstallationTx_unique [OF d(2)] Let_def split: sum.split)
    show ?thesis
    proof (cases "il_Status r = ii_Status i \<or> installationTransitionAllowed (il_Status r) (ii_Status i)")
      case True
      then obtain y where y: "Installation_TransitionTo (Some (installationRecord_toDomain r)) (ii_Status i) (se_now env) = Inr y"
        using transition_iff by fastforce
      have x: "upsert_tx env i t = Inr (installationRecord_toDomain ?r, t')" unfolding U y by simp
      show ?thesis unfolding v next_status_def x using True t' by simp
    next
      case False
      then obtain e where "Installation_TransitionTo (Some (installationRecord_toDomain r)) (ii_Status i) (se_now env) = Inl e" by simp
      with U have "upsert_tx env i t = Inl e" by simp
      then show ?thesis using False by (simp add: v next_status_def)
    qed
  qed
qed

lemma store_upsert_view:
  assumes "installs_ok t" and "se_id env \<notin> il_ID ` set t" and "se_flt env = no_faults"
    and "ii_ProviderID (normalized_install i) \<noteq> []" and "ScopeRef_Validate (ii_Scope (normalized_install i)) = None"
    and "ii_InstallType (normalized_install i) \<noteq> []" and "parseInstallationStatusValue (ii_Status i) = Inr st"
  shows "case next_status (install_view t (input_key (normalized_install i))) st of
      None \<Rightarrow> \<exists>e. InstallationStore_Upsert env (Some t) i = (Inl e, Some t)
    | Some st' \<Rightarrow> \<exists>x t'. InstallationStore_Upsert env (Some t) i = (Inr x, Some t') \<and> installs_ok t' \<and> inst_Status x = st' \<and>
        install_view t' = (install_view t)(input_key (normalized_install i) \<mapsto> st')"
proof -
  let ?i = "(normalized_install i)\<lparr>ii_Status := st\<rparr>"
  have p: "parseInstallationStatusValue (ii_Status (normalized_install i)) = Inr st" using assms(7) by (simp add: normalized_install_def)
  have k: "input_key ?i = input_key (normalized_install i)" "ii_Status ?i = st" by (simp_all add: input_key_def)
  have U: "InstallationStore_Upsert env (Some t) i = (case upsert_tx env ?i t of Inl e \<Rightarrow> (Inl e, Some t) | Inr (x, t') \<Rightarrow> (Inr x, Some t'))"
    using assms(3-6) p by (simp add: InstallationStore_Upsert_def Let_def split: sum.split)
  show ?thesis
    using upsert_tx_view [OF assms(1-3), of ?i] unfolding U k by (auto split: option.splits)
qed

text \<open>A step of the table: any call that succeeds, under any database.\<close>

inductive install_step :: "installation_table \<Rightarrow> installation_table \<Rightarrow> bool" where
  upsert: "InstallationStore_Upsert env (Some t) i = (Inr x, Some t') \<Longrightarrow> install_step t t'"
| update: "InstallationStore_UpdateStatus env norows fmt (Some t) ident status reason = (None, Some t') \<Longrightarrow> install_step t t'"

text \<open>Every successful call writes one row, new under a new key or moved along the machine.\<close>

definition one_row :: "installation_table \<Rightarrow> installation_table \<Rightarrow> bool" where
  "one_row t t' \<longleftrightarrow> (\<exists>r. t' = t @ [r] \<and> il_ID r \<notin> il_ID ` set t \<and> install_key r \<notin> install_key ` set t \<and> il_Status r = InstallationStatusActive) \<or>
     (\<exists>r r'. r \<in> set t \<and> il_ID r' = il_ID r \<and> install_key r' = install_key r \<and>
        (il_Status r' = il_Status r \<or> installationTransitionAllowed (il_Status r) (il_Status r')) \<and>
        t' = update_where (\<lambda>x. il_ID x = il_ID r) (\<lambda>_. r') t)"

lemma one_row_write:
  assumes "write_installation env r' t = Inr t'" and "r \<in> set t" and "il_ID r' = il_ID r" and "install_key r' = install_key r"
    and "Installation_TransitionTo (Some (installationRecord_toDomain r)) (il_Status r') now = Inr y"
  shows "one_row t t'"
proof -
  have "t' = update_where (\<lambda>x. il_ID x = il_ID r) (\<lambda>_. r') t"
    using assms(1,3) by (auto simp: write_installation_def split: option.splits if_splits)
  moreover have "il_Status r' = il_Status r \<or> installationTransitionAllowed (il_Status r) (il_Status r')"
    using assms(5) by (auto split: if_splits)
  ultimately show ?thesis using assms(2-4) unfolding one_row_def by blast
qed

lemma upsert_tx_row:
  assumes "distinct (map install_key t)" and "upsert_tx env i t = Inr (x, t')"
  shows "one_row t t'"
proof (cases "find (\<lambda>r. install_key r = input_key i) t")
  case None
  let ?r = "(newInstallationRecord i (se_now env))\<lparr>il_ID := se_id env\<rparr>"
  have "install_key ?r = input_key i" "il_Status ?r = ii_Status i"
    by (simp_all add: install_key_def input_key_def newInstallationRecord_def)
  moreover have "input_key i \<notin> install_key ` set t" using None by (simp add: find_none)
  moreover have "t' = t @ [?r] \<and> \<not> install_violation ?r t \<and> ii_Status i = InstallationStatusActive"
    using assms(2) by (cases "se_flt env 0"; cases "se_flt env 1")
      (auto simp: upsert_tx_def findInstallationTx_unique [OF assms(1)] None Let_def split: if_splits)
  ultimately show ?thesis unfolding one_row_def install_violation_def by auto
next
  case (Some r)
  then have r: "r \<in> set t" "install_key r = input_key i" using find_unique [OF assms(1)] by blast+
  from assms(2) obtain y where w: "Installation_TransitionTo (Some (installationRecord_toDomain r)) (ii_Status i) (se_now env) = Inr y"
    "write_installation env (upserted_row i (se_now env) r) t = Inr t'"
    by (cases "se_flt env 0") (auto simp: upsert_tx_def findInstallationTx_unique [OF assms(1)] Some Let_def
        split: sum.splits simp del: Installation_TransitionTo.simps)
  show ?thesis using one_row_write [OF w(2) r(1)] w(1) by simp
qed

lemma install_step_row: "install_step t t' \<Longrightarrow> installs_ok t \<Longrightarrow> one_row t t'"
proof (induction rule: install_step.induct)
  case (upsert env t i x t')
  then obtain j y where "upsert_tx env j t = Inr (y, t')"
    by (auto simp: InstallationStore_Upsert_def Let_def split: if_splits option.splits sum.splits prod.splits)
  then show ?case using upsert_tx_row upsert.prems by (auto simp: installs_ok_def)
next
  case (update env norows fmt t ident status reason t')
  from update.hyps obtain r y st where r: "find (\<lambda>r. il_ID r = TrimSpace ident) t = Some r"
    "Installation_TransitionTo (Some (installationRecord_toDomain r)) st (se_now env) = Inr y"
    "write_installation env (restatus_row fmt (se_now env) st reason r) t = Inr t'"
    by (auto simp: InstallationStore_UpdateStatus_def Let_def split: if_splits option.splits sum.splits
        simp del: Installation_TransitionTo.simps)
  from r(1) have "r \<in> set t" by (auto simp: find_Some_iff)
  then show ?case using one_row_write [OF r(3)] r(2) by simp
qed

lemma one_row_ok:
  assumes "one_row t t'" and "installs_ok t"
  shows "installs_ok t'" and "\<And>s. install_view t k = Some s \<Longrightarrow>
    \<exists>s'. install_view t' k = Some s' \<and> (s' = s \<or> installationTransitionAllowed s s')"
proof -
  have d: "distinct (map il_ID t)" "distinct (map install_key t)" using assms(2) by (simp_all add: installs_ok_def)
  consider (new) r where "t' = t @ [r]" "il_ID r \<notin> il_ID ` set t" "install_key r \<notin> install_key ` set t"
    | (moved) r r' where "r \<in> set t" "il_ID r' = il_ID r" "install_key r' = install_key r"
        "il_Status r' = il_Status r \<or> installationTransitionAllowed (il_Status r) (il_Status r')"
        "t' = update_where (\<lambda>x. il_ID x = il_ID r) (\<lambda>_. r') t"
    using assms(1) unfolding one_row_def by blast
  then have "installs_ok t' \<and> (\<forall>s. install_view t k = Some s \<longrightarrow>
      (\<exists>s'. install_view t' k = Some s' \<and> (s' = s \<or> installationTransitionAllowed s s')))"
  proof cases
    case new
    then show ?thesis using d by (auto simp: installs_ok_def install_view_def find_append)
  next
    case moved
    have same: "x = r" if "x \<in> set t" "il_ID x = il_ID r \<or> install_key x = install_key r" for x
      using that d moved(1) by (metis distinct_map inj_onD)
    have u: "t' = update_where (\<lambda>x. install_key x = install_key r) (\<lambda>_. r') t"
      using same moved(5) by (auto simp: update_where_def)
    have ids: "map il_ID t' = map il_ID t" unfolding moved(5) by (rule map_key_update_where) (simp add: moved(2))
    have keys: "map install_key t' = map install_key t" unfolding u by (rule map_key_update_where) (simp add: moved(3))
    have f: "find (\<lambda>x. install_key x = install_key r) t = Some r" using find_unique [OF d(2)] moved(1) by blast
    show ?thesis
      using d ids keys f moved(3,4) find_update_where [of install_key "\<lambda>_. r'" "install_key r" k t]
      unfolding installs_ok_def install_view_def u [symmetric] by auto
  qed
  then show "installs_ok t'" and "\<And>s. install_view t k = Some s \<Longrightarrow>
    \<exists>s'. install_view t' k = Some s' \<and> (s' = s \<or> installationTransitionAllowed s s')" by blast+
qed

lemma install_steps:
  assumes "install_step\<^sup>*\<^sup>* t t'" and "installs_ok t"
  shows "installs_ok t' \<and> (install_view t k = Some InstallationStatusUninstalled \<longrightarrow> install_view t' k = Some InstallationStatusUninstalled)"
  using assms
proof (induction rule: rtranclp_induct)
  case (step u v)
  have ok: "installs_ok u" and un: "install_view t k = Some InstallationStatusUninstalled \<Longrightarrow> install_view u k = Some InstallationStatusUninstalled"
    using step by blast+
  have row: "one_row u v" using install_step_row [OF step.hyps(2) ok] .
  show ?case using one_row_ok(1) [OF row ok] one_row_ok(2) [OF row ok, of k InstallationStatusUninstalled] un by auto
qed simp

text \<open>
  An uninstalled installation cannot be installed again. From a table in which a key is uninstalled, whatever
  calls succeed afterwards, every later \<open>Upsert\<close> of that key with another status fails, whatever the
  database answers, although the unique index of the table covers active rows only.
\<close>

theorem reinstall_refused:
  assumes "installs_ok t" and "install_view t (input_key (normalized_install i)) = Some InstallationStatusUninstalled"
    and "install_step\<^sup>*\<^sup>* t t'" and "parseInstallationStatusValue (ii_Status i) \<noteq> Inr InstallationStatusUninstalled"
  shows "\<exists>e. InstallationStore_Upsert env (Some t') i = (Inl e, Some t')"
proof -
  let ?k = "input_key (normalized_install i)"
  have ok: "installs_ok t'" "install_view t' ?k = Some InstallationStatusUninstalled" using install_steps [OF assms(3,1), of ?k] assms(2) by blast+
  obtain r where r: "findInstallationTx t' ?k = Some r" "il_Status r = InstallationStatusUninstalled"
    using ok findInstallationTx_unique [of t' ?k] by (auto simp: installs_ok_def install_view_def)
  have "\<exists>e. upsert_tx env ((normalized_install i)\<lparr>ii_Status := st\<rparr>) t' = Inl e" if st: "st \<noteq> InstallationStatusUninstalled" for st
  proof -
    let ?i = "(normalized_install i)\<lparr>ii_Status := st\<rparr>"
    have k: "input_key ?i = ?k" by (simp add: input_key_def)
    show ?thesis using r st by (cases "se_flt env 0") (auto simp: upsert_tx_def k Let_def)
  qed
  then show ?thesis
    using assms(4) unfolding InstallationStore_Upsert_def Let_def
    by (fastforce simp: normalized_install_def split: option.splits sum.splits prod.splits)
qed

section \<open>The operations of the service\<close>

text \<open>The store behind its interface, over a state.\<close>

record 'w InstallationStore =
  ist_Upsert :: "'w \<Rightarrow> UpsertInstallationInput \<Rightarrow> Installation result \<times> 'w"
  ist_Get :: "'w \<Rightarrow> string \<Rightarrow> Installation result"
  ist_ListByScope :: "'w \<Rightarrow> string \<Rightarrow> ScopeRef \<Rightarrow> Installation list result"
  ist_UpdateStatus :: "'w \<Rightarrow> string \<Rightarrow> InstallationStatus \<Rightarrow> string \<Rightarrow> goerr option \<times> 'w"

abbreviation install_store_required :: goerr where
  "install_store_required \<equiv> Plain ''core: installation store is required''"

text \<open>The loop over the installations of the scope: the first of the type decides.\<close>

definition check_existing :: "UpsertInstallationInput \<Rightarrow> InstallationStatus \<Rightarrow> int \<Rightarrow> Installation list \<Rightarrow> goerr option" where
  "check_existing i status now existing =
     (case find (\<lambda>item. EqualFold (TrimSpace (inst_InstallType item)) (ii_InstallType i)) existing of
        Some item \<Rightarrow> (case Installation_TransitionTo (Some item) status now of Inl err \<Rightarrow> Some err | Inr _ \<Rightarrow> None)
      | None \<Rightarrow> if status \<noteq> InstallationStatusActive
          then Some (Plain ''core: installation must be created with status active'') else None)"

definition Service_UpsertInstallation ::
  "(goerr \<Rightarrow> goerr) \<Rightarrow> 'w InstallationStore option \<Rightarrow> int \<Rightarrow> UpsertInstallationInput \<Rightarrow> 'w \<Rightarrow> Installation result \<times> 'w" where
  "Service_UpsertInstallation mapError receiver now input w =
     (case receiver of None \<Rightarrow> (Inl (mapError install_store_required), w) | Some store \<Rightarrow>
      let i = normalized_install input in
      if ii_ProviderID i = [] then (Inl (mapError (Plain ''core: provider id is required'')), w)
      else case ScopeRef_Validate (ii_Scope i) of
        Some err \<Rightarrow> (Inl (mapError err), w)
      | None \<Rightarrow>
          if ii_InstallType i = [] then (Inl (mapError (Plain ''core: install type is required'')), w)
          else case parseInstallationStatus (ii_Status i) of
            Inl parseErr \<Rightarrow> (Inl (mapError parseErr), w)
          | Inr status \<Rightarrow>
              let i = i\<lparr>ii_Status := status\<rparr> in
              (case ist_ListByScope store w (ii_ProviderID i) (ii_Scope i) of
                 Inl err \<Rightarrow> (Inl (mapError err), w)
               | Inr existing \<Rightarrow>
                   (case check_existing i status now existing of
                      Some err \<Rightarrow> (Inl (mapError err), w)
                    | None \<Rightarrow>
                        (case ist_Upsert store w i of
                           (Inl err, w') \<Rightarrow> (Inl (mapError err), w') | (Inr record, w') \<Rightarrow> (Inr record, w')))))"

definition Service_GetInstallation ::
  "(goerr \<Rightarrow> goerr) \<Rightarrow> 'w InstallationStore option \<Rightarrow> string \<Rightarrow> 'w \<Rightarrow> Installation result" where
  "Service_GetInstallation mapError receiver ident w =
     (case receiver of None \<Rightarrow> Inl (mapError install_store_required) | Some store \<Rightarrow>
      let x = TrimSpace ident in
      if x = [] then Inl (mapError (Plain ''core: installation id is required''))
      else case ist_Get store w x of Inl err \<Rightarrow> Inl (mapError err) | Inr record \<Rightarrow> Inr record)"

definition Service_ListInstallations ::
  "(goerr \<Rightarrow> goerr) \<Rightarrow> 'w InstallationStore option \<Rightarrow> string \<Rightarrow> ScopeRef \<Rightarrow> 'w \<Rightarrow> Installation list result" where
  "Service_ListInstallations mapError receiver provider s w =
     (case receiver of None \<Rightarrow> Inl (mapError install_store_required) | Some store \<Rightarrow>
      let providerID = TrimSpace provider;
          scope = \<lparr>scope_Type = TrimSpace (ToLower (scope_Type s)), scope_ID = TrimSpace (scope_ID s)\<rparr> in
      if providerID = [] then Inl (mapError (Plain ''core: provider id is required''))
      else case ScopeRef_Validate scope of
        Some err \<Rightarrow> Inl (mapError err)
      | None \<Rightarrow> (case ist_ListByScope store w providerID scope of Inl err \<Rightarrow> Inl (mapError err) | Inr items \<Rightarrow> Inr items))"

definition Service_UpdateInstallationStatus ::
  "(goerr \<Rightarrow> goerr) \<Rightarrow> 'w InstallationStore option \<Rightarrow> int \<Rightarrow> string \<Rightarrow> InstallationStatus \<Rightarrow> string \<Rightarrow> 'w \<Rightarrow> goerr option \<times> 'w" where
  "Service_UpdateInstallationStatus mapError receiver now ident status reason w =
     (case receiver of None \<Rightarrow> (Some (mapError install_store_required), w) | Some store \<Rightarrow>
      let x = TrimSpace ident in
      if x = [] \<or> installation_status_str status = [] then (Some (mapError (Plain ''core: installation id and status are required'')), w)
      else case parseInstallationStatus status of
        Inl parseErr \<Rightarrow> (Some (mapError parseErr), w)
      | Inr targetStatus \<Rightarrow>
          (case ist_Get store w x of
             Inl err \<Rightarrow> (Some (mapError err), w)
           | Inr current \<Rightarrow>
               (case Installation_TransitionTo (Some current) targetStatus now of
                  Inl transitionErr \<Rightarrow> (Some (mapError transitionErr), w)
                | Inr _ \<Rightarrow>
                    (case ist_UpdateStatus store w x targetStatus (TrimSpace reason) of
                       (Some err, w') \<Rightarrow> (Some (mapError err), w') | (None, w') \<Rightarrow> (None, w')))))"

section \<open>The service over the SQL store\<close>

definition sql_installations ::
  "sql_env \<Rightarrow> goerr \<Rightarrow> (int \<Rightarrow> string) \<Rightarrow> installation_table option InstallationStore" where
  "sql_installations env norows fmt =
     \<lparr>ist_Upsert = InstallationStore_Upsert env, ist_Get = InstallationStore_Get norows (se_flt env 0),
      ist_ListByScope = InstallationStore_ListByScope (se_flt env 0), ist_UpdateStatus = InstallationStore_UpdateStatus env norows fmt\<rparr>"

text \<open>Install types are stored trimmed and in lower case.\<close>

definition types_lower :: "installation_table \<Rightarrow> bool" where
  "types_lower t \<longleftrightarrow> (\<forall>r \<in> set t. TrimSpace (ToLower (il_InstallType r)) = il_InstallType r)"

lemma parse_named: "parse_installation_status c s = Inr st \<Longrightarrow> parse_installation_status c' st = Inr st"
  by (auto simp: parse_installation_status_def installation_status_of_def Let_def TrimSpace_id is_space_def ToLower_def char_lower_def
      split: if_splits)

lemma normalized_idem: "normalized_install (normalized_install i\<lparr>ii_Status := st\<rparr>) = normalized_install i\<lparr>ii_Status := st\<rparr>"
  by (simp add: normalized_install_def TrimSpace_ToLower)

text \<open>The service's own check decides as the store will.\<close>

lemma check_existing_view:
  assumes "installs_ok t" and "types_lower t" and i: "normalized_install i = i" "ScopeRef_Validate (ii_Scope i) = None" "ii_ProviderID i \<noteq> []"
    and l: "InstallationStore_ListByScope None (Some t) (ii_ProviderID i) (ii_Scope i) = Inr existing"
  shows "check_existing i st now existing = None \<longleftrightarrow> next_status (install_view t (input_key i)) st \<noteq> None"
proof -
  let ?in = "\<lambda>r. il_ProviderID r = ii_ProviderID i \<and> il_ScopeType r = scope_Type (ii_Scope i) \<and> il_ScopeID r = scope_ID (ii_Scope i)"
  let ?P = "\<lambda>item. EqualFold (TrimSpace (inst_InstallType item)) (ii_InstallType i)"
  have d: "distinct (map install_key t)" using assms(1) by (simp add: installs_ok_def)
  have n: "TrimSpace (ii_ProviderID i) = ii_ProviderID i" "TrimSpace (ToLower (ii_InstallType i)) = ii_InstallType i"
    "\<lparr>scope_Type = TrimSpace (ToLower (scope_Type (ii_Scope i))), scope_ID = TrimSpace (scope_ID (ii_Scope i))\<rparr> = ii_Scope i"
    using arg_cong [OF i(1), of ii_ProviderID] arg_cong [OF i(1), of ii_InstallType] arg_cong [OF i(1), of ii_Scope]
    by (simp_all add: normalized_install_def)
  have e: "existing = map installationRecord_toDomain (sort_key (\<lambda>r. - il_UpdatedAt r) (filter ?in t))"
    using l i(2,3) n by (simp add: InstallationStore_ListByScope_def Let_def)
  have P: "?P (installationRecord_toDomain r) \<longleftrightarrow> il_InstallType r = ii_InstallType i" if r: "r \<in> set t" for r
  proof -
    have "TrimSpace (ToLower (il_InstallType r)) = il_InstallType r" using assms(2) r by (simp add: types_lower_def)
    then show ?thesis using n(2) unfolding EqualFold_def installationRecord_toDomain_def
      by (simp add: TrimSpace_ToLower) (metis TrimSpace_ToLower TrimSpace_idem ToLower_idem)
  qed
  have key: "?in r \<and> il_InstallType r = ii_InstallType i \<longleftrightarrow> install_key r = input_key i" for r
    by (auto simp: install_key_def input_key_def)
  let ?Q = "\<lambda>r. ?P (installationRecord_toDomain r)"
  have "find ?P existing = map_option installationRecord_toDomain (find ?Q (sort_key (\<lambda>r. - il_UpdatedAt r) (filter ?in t)))"
    unfolding e by (simp add: find_map)
  also have "find ?Q (sort_key (\<lambda>r. - il_UpdatedAt r) (filter ?in t)) = find ?Q (filter ?in t)"
    using P key d by (intro sort_find) (metis (mono_tags, lifting) distinct_map filter_is_subset inj_onD mem_Collect_eq set_filter subsetD)
  also have "find ?Q (filter ?in t) = find (\<lambda>r. install_key r = input_key i) t"
    using P key by (induction t) auto
  finally have f: "find ?P existing = map_option installationRecord_toDomain (find (\<lambda>r. install_key r = input_key i) t)" .
  show ?thesis
    unfolding check_existing_def f install_view_def next_status_def by (auto split: option.splits)
qed

text \<open>
  Through the service, the installations are a map from the installation's key (provider, scope and type) to its
  status. \<open>UpsertInstallation\<close> over the SQL store, with a valid input, creates a missing key as active,
  otherwise moves its status along the status machine; a status the machine does not allow is refused and
  changes nothing; no other key changes, and the table keeps one row per key and unique ids.
\<close>

theorem installation_upsert_refines:
  assumes "installs_ok t" and "types_lower t" and "se_id env \<notin> il_ID ` set t" and "se_flt env = no_faults"
    and "ii_ProviderID (normalized_install i) \<noteq> []" and "ScopeRef_Validate (ii_Scope (normalized_install i)) = None"
    and "ii_InstallType (normalized_install i) \<noteq> []" and "parseInstallationStatus (ii_Status i) = Inr st"
  shows "case next_status (install_view t (input_key (normalized_install i))) st of
      None \<Rightarrow> \<exists>e. Service_UpsertInstallation mapError (Some (sql_installations env norows fmt)) now i (Some t) = (Inl e, Some t)
    | Some st' \<Rightarrow> \<exists>x t'. Service_UpsertInstallation mapError (Some (sql_installations env norows fmt)) now i (Some t) = (Inr x, Some t') \<and>
        installs_ok t' \<and> inst_Status x = st' \<and> install_view t' = (install_view t)(input_key (normalized_install i) \<mapsto> st')"
proof -
  let ?i = "(normalized_install i)\<lparr>ii_Status := st\<rparr>"
  have i: "normalized_install ?i = ?i" by (rule normalized_idem)
  have v: "ScopeRef_Validate (ii_Scope ?i) = None" "ii_ProviderID ?i \<noteq> []" "ii_InstallType ?i \<noteq> []" "ii_Status ?i = st"
    "input_key ?i = input_key (normalized_install i)" using assms(5-7) by (simp_all add: input_key_def)
  have p: "parseInstallationStatus (ii_Status (normalized_install i)) = Inr st" "parseInstallationStatusValue (ii_Status ?i) = Inr st"
    using assms(8) parse_named [of "''core''" "ii_Status i" st]
    by (simp_all add: normalized_install_def parseInstallationStatus_def parseInstallationStatusValue_def)
  obtain existing where l: "InstallationStore_ListByScope None (Some t) (ii_ProviderID ?i) (ii_Scope ?i) = Inr existing"
    using v i by (simp add: InstallationStore_ListByScope_def Let_def normalized_install_def TrimSpace_ToLower)
  note ch = check_existing_view [OF assms(1,2) i v(1,2) l, of st now]
  note up = store_upsert_view [OF assms(1,3,4), of ?i st, unfolded i, OF v(2,1,3) p(2)]
  have S: "Service_UpsertInstallation mapError (Some (sql_installations env norows fmt)) now i (Some t) =
      (case check_existing ?i st now existing of
         Some err \<Rightarrow> (Inl (mapError err), Some t)
       | None \<Rightarrow> (case InstallationStore_Upsert env (Some t) ?i of
           (Inl err, w') \<Rightarrow> (Inl (mapError err), w') | (Inr record, w') \<Rightarrow> (Inr record, w')))"
    using assms(4-7) p(1) l by (simp add: Service_UpsertInstallation_def sql_installations_def Let_def split: option.split)
  show ?thesis
  proof (cases "next_status (install_view t (input_key (normalized_install i))) st")
    case None
    then obtain err where "check_existing ?i st now existing = Some err" using ch v(5) by auto
    with None show ?thesis unfolding S by simp
  next
    case (Some st')
    then have "check_existing ?i st now existing = None" using ch v(5) by simp
    with Some up show ?thesis unfolding S v(5) by auto
  qed
qed

definition sample_install :: "InstallationStatus \<Rightarrow> UpsertInstallationInput" where
  "sample_install st = \<lparr>ii_ProviderID = '' github'', ii_Scope = \<lparr>scope_Type = ''Org'', scope_ID = ''o''\<rparr>, ii_InstallType = ''App'',
     ii_Status = st, ii_GrantedAt = None, ii_RevokedAt = None, ii_Metadata = []\<rparr>"

definition install_env :: sql_env where
  "install_env = \<lparr>se_id = ''n'', se_id2 = [], se_now = 9, se_uniq = Plain ''unique'', se_render = (\<lambda>_. []), se_flt = no_faults\<rparr>"

definition uninstalled_row :: installationRecord where
  "uninstalled_row = \<lparr>il_ID = ''i'', il_ProviderID = ''github'', il_ScopeType = ''org'', il_ScopeID = ''o'', il_InstallType = ''app'',
     il_Status = InstallationStatusUninstalled, il_GrantedAt = None, il_RevokedAt = Some 3, il_Metadata = [], il_CreatedAt = 1, il_UpdatedAt = 3\<rparr>"

lemma sample_install_facts:
  "normalized_install (sample_install st) = \<lparr>ii_ProviderID = ''github'', ii_Scope = \<lparr>scope_Type = ''org'', scope_ID = ''o''\<rparr>,
     ii_InstallType = ''app'', ii_Status = st, ii_GrantedAt = None, ii_RevokedAt = None, ii_Metadata = []\<rparr>"
  "ScopeRef_Validate \<lparr>scope_Type = ''org'', scope_ID = ''o''\<rparr> = None"
  "parseInstallationStatus InstallationStatusActive = Inr InstallationStatusActive"
  "parseInstallationStatusValue InstallationStatusActive = Inr InstallationStatusActive"
proof -
  have t: "TrimSpace '' github'' = ''github''" "TrimSpace (ToLower ''Org'') = ''org''" "TrimSpace ''o'' = ''o''" "TrimSpace (ToLower ''App'') = ''app''"
    by code_simp+
  show "normalized_install (sample_install st) = \<lparr>ii_ProviderID = ''github'', ii_Scope = \<lparr>scope_Type = ''org'', scope_ID = ''o''\<rparr>,
     ii_InstallType = ''app'', ii_Status = st, ii_GrantedAt = None, ii_RevokedAt = None, ii_Metadata = []\<rparr>"
    by (simp add: normalized_install_def sample_install_def t)
  show "ScopeRef_Validate \<lparr>scope_Type = ''org'', scope_ID = ''o''\<rparr> = None" by code_simp
  show "parseInstallationStatus InstallationStatusActive = Inr InstallationStatusActive"
    "parseInstallationStatusValue InstallationStatusActive = Inr InstallationStatusActive" by code_simp+
qed

theorem installation_upsert_refines_witness:
  "\<exists>x t. Service_UpsertInstallation (\<lambda>e. e) (Some (sql_installations install_env (Plain []) (\<lambda>_. []))) 9
      (sample_install InstallationStatusActive) (Some []) = (Inr x, Some t) \<and> inst_Status x = InstallationStatusActive \<and>
    install_view t (''github'', ''org'', ''o'', ''app'') = Some InstallationStatusActive"
proof -
  have k: "input_key (normalized_install (sample_install InstallationStatusActive)) = (''github'', ''org'', ''o'', ''app'')"
    by (simp add: sample_install_facts input_key_def)
  have empty: "installs_ok []" "install_view [] key = None" for key by (simp_all add: installs_ok_def install_view_def)
  have "ii_Status (sample_install InstallationStatusActive) = InstallationStatusActive" by (simp add: sample_install_def)
  then show ?thesis
    using installation_upsert_refines [of "[]" install_env "sample_install InstallationStatusActive" InstallationStatusActive "\<lambda>e. e" "Plain []" "\<lambda>_. []" 9]
    unfolding k by (auto simp: empty next_status_def types_lower_def install_env_def sample_install_facts)
qed

theorem reinstall_refused_witness:
  "\<exists>e. InstallationStore_Upsert install_env (Some [uninstalled_row]) (sample_install InstallationStatusActive) = (Inl e, Some [uninstalled_row])"
proof -
  have "installs_ok [uninstalled_row]" by (simp add: installs_ok_def)
  moreover have "install_view [uninstalled_row] (input_key (normalized_install (sample_install InstallationStatusActive))) = Some InstallationStatusUninstalled"
    by (simp add: sample_install_facts input_key_def install_view_def install_key_def uninstalled_row_def)
  moreover have "parseInstallationStatusValue (ii_Status (sample_install InstallationStatusActive)) \<noteq> Inr InstallationStatusUninstalled"
    by (simp add: sample_install_def sample_install_facts)
  ultimately show ?thesis using reinstall_refused [of "[uninstalled_row]"] by blast
qed

end
