(* ===== verification/Subscriptions.thy ===== *)
theory Subscriptions
  imports Service_Flows
begin

text \<open>
  Subscriptions: the SQL store of \<open>src/store/sql/subscription_store.go\<close> and the operations of the service in
  \<open>src/core/service_subscriptions.go\<close>. The subscribable side of a provider is a function from providers to
  its operations, \<open>None\<close> for a provider that is not subscribable.
\<close>

section \<open>The store\<close>

record subscriptionRecord =
  sr_ID :: string
  sr_ConnectionID :: string
  sr_ProviderID :: string
  sr_ResourceType :: string
  sr_ResourceID :: string
  sr_ChannelID :: string
  sr_RemoteSubscriptionID :: string
  sr_CallbackURL :: string
  sr_VerificationTokenRef :: string
  sr_Status :: SubscriptionStatus
  sr_ExpiresAt :: "int option"
  sr_Metadata :: meta
  sr_LastNotifiedAt :: "int option"
  sr_CreatedAt :: int
  sr_UpdatedAt :: int
  sr_DeletedAt :: "int option"

type_synonym subscription_table = "subscriptionRecord list"

record UpsertSubscriptionInput =
  us_ConnectionID :: string
  us_ProviderID :: string
  us_ResourceType :: string
  us_ResourceID :: string
  us_ChannelID :: string
  us_RemoteSubscriptionID :: string
  us_CallbackURL :: string
  us_VerificationTokenRef :: string
  us_Status :: SubscriptionStatus
  us_ExpiresAt :: "int option"
  us_Metadata :: meta

definition newSubscriptionRecord :: "UpsertSubscriptionInput \<Rightarrow> int \<Rightarrow> subscriptionRecord" where
  "newSubscriptionRecord i now =
     \<lparr>sr_ID = [], sr_ConnectionID = us_ConnectionID i, sr_ProviderID = us_ProviderID i, sr_ResourceType = us_ResourceType i,
      sr_ResourceID = us_ResourceID i, sr_ChannelID = us_ChannelID i, sr_RemoteSubscriptionID = us_RemoteSubscriptionID i,
      sr_CallbackURL = us_CallbackURL i, sr_VerificationTokenRef = us_VerificationTokenRef i, sr_Status = us_Status i,
      sr_ExpiresAt = us_ExpiresAt i, sr_Metadata = copyAnyMap (us_Metadata i), sr_LastNotifiedAt = None,
      sr_CreatedAt = now, sr_UpdatedAt = now, sr_DeletedAt = None\<rparr>"

definition subscriptionRecord_toDomain :: "subscriptionRecord \<Rightarrow> Subscription" where
  "subscriptionRecord_toDomain r =
     \<lparr>sub_ID = sr_ID r, sub_ConnectionID = sr_ConnectionID r, sub_ProviderID = sr_ProviderID r, sub_ResourceType = sr_ResourceType r,
      sub_ResourceID = sr_ResourceID r, sub_ChannelID = sr_ChannelID r, sub_RemoteSubscriptionID = sr_RemoteSubscriptionID r,
      sub_CallbackURL = sr_CallbackURL r, sub_VerificationTokenRef = sr_VerificationTokenRef r, sub_Status = sr_Status r,
      sub_ExpiresAt = (case sr_ExpiresAt r of None \<Rightarrow> 0 | Some t \<Rightarrow> t), sub_Metadata = copyAnyMap (sr_Metadata r),
      sub_CreatedAt = sr_CreatedAt r, sub_UpdatedAt = sr_UpdatedAt r\<rparr>"

abbreviation subs_not_configured :: goerr where
  "subs_not_configured \<equiv> Plain ''sqlstore: subscription store is not configured''"

definition channel_key :: "subscriptionRecord \<Rightarrow> string \<times> string" where
  "channel_key r = (sr_ProviderID r, sr_ChannelID r)"

text \<open>Soft-deleted rows are invisible to every select; the unique index is on the live channels.\<close>

abbreviation live_subs :: "subscription_table \<Rightarrow> subscription_table" where
  "live_subs t \<equiv> filter (\<lambda>r. sr_DeletedAt r = None) t"

text \<open>\<open>ORDER BY updated_at DESC LIMIT 1\<close>\<close>

definition newest_channel :: "subscription_table \<Rightarrow> string \<Rightarrow> string \<Rightarrow> subscriptionRecord option" where
  "newest_channel t p c =
     (case sort_key (\<lambda>r. - sr_UpdatedAt r) (filter (\<lambda>r. channel_key r = (TrimSpace p, TrimSpace c)) (live_subs t)) of
        [] \<Rightarrow> None | r # _ \<Rightarrow> Some r)"

definition findByProviderChannelTx :: "subscription_table \<Rightarrow> string \<Rightarrow> string \<Rightarrow> subscriptionRecord option" where
  "findByProviderChannelTx t p c =
     (case newest_channel t p c of None \<Rightarrow> None | Some r \<Rightarrow> if TrimSpace (sr_ID r) = [] then None else Some r)"

definition normalized_subscription :: "UpsertSubscriptionInput \<Rightarrow> UpsertSubscriptionInput" where
  "normalized_subscription i = i
     \<lparr>us_ConnectionID := TrimSpace (us_ConnectionID i), us_ProviderID := TrimSpace (us_ProviderID i),
      us_ResourceType := TrimSpace (us_ResourceType i), us_ResourceID := TrimSpace (us_ResourceID i),
      us_ChannelID := TrimSpace (us_ChannelID i), us_CallbackURL := TrimSpace (us_CallbackURL i),
      us_RemoteSubscriptionID := TrimSpace (us_RemoteSubscriptionID i), us_VerificationTokenRef := TrimSpace (us_VerificationTokenRef i)\<rparr>"

definition subscription_input_error :: "UpsertSubscriptionInput \<Rightarrow> goerr option" where
  "subscription_input_error i =
     (if us_ConnectionID i = [] \<or> us_ProviderID i = [] then Some (Plain ''sqlstore: connection id and provider id are required'')
      else if us_ResourceType i = [] \<or> us_ResourceID i = [] then Some (Plain ''sqlstore: resource type and resource id are required'')
      else if us_ChannelID i = [] then Some (Plain ''sqlstore: channel id is required'')
      else if us_CallbackURL i = [] then Some (Plain ''sqlstore: callback url is required'')
      else None)"

definition upserted_sub :: "UpsertSubscriptionInput \<Rightarrow> int \<Rightarrow> subscriptionRecord \<Rightarrow> subscriptionRecord" where
  "upserted_sub i now existing = existing
     \<lparr>sr_ConnectionID := us_ConnectionID i, sr_ProviderID := us_ProviderID i, sr_ResourceType := us_ResourceType i,
      sr_ResourceID := us_ResourceID i, sr_ChannelID := us_ChannelID i, sr_RemoteSubscriptionID := us_RemoteSubscriptionID i,
      sr_CallbackURL := us_CallbackURL i, sr_VerificationTokenRef := us_VerificationTokenRef i, sr_Status := us_Status i,
      sr_Metadata := copyAnyMap (us_Metadata i), sr_UpdatedAt := now, sr_DeletedAt := None, sr_ExpiresAt := us_ExpiresAt i\<rparr>"

text \<open>The transaction: select is statement 0, the write statement 1, the commit statement 2.\<close>

definition upsert_sub_tx :: "sql_env \<Rightarrow> UpsertSubscriptionInput \<Rightarrow> subscription_table \<Rightarrow> (subscriptionRecord \<times> subscription_table) result" where
  "upsert_sub_tx env i t =
     (case se_flt env 0 of Some err \<Rightarrow> Inl err | None \<Rightarrow>
      (case findByProviderChannelTx t (us_ProviderID i) (us_ChannelID i) of
         None \<Rightarrow>
           let record = (newSubscriptionRecord i (se_now env))\<lparr>sr_ID := se_id env\<rparr> in
           (case se_flt env 1 of Some err \<Rightarrow> Inl err | None \<Rightarrow>
            if sr_ID record \<in> sr_ID ` set t \<or> channel_key record \<in> channel_key ` set (live_subs t) then Inl (se_uniq env)
            else Inr (record, t @ [record]))
       | Some existing \<Rightarrow>
           let record = upserted_sub i (se_now env) existing in
           (case se_flt env 1 of Some err \<Rightarrow> Inl err | None \<Rightarrow>
            if channel_key record \<in> channel_key ` set (live_subs (filter (\<lambda>r. sr_ID r \<noteq> sr_ID existing) t)) then Inl (se_uniq env)
            else Inr (record, update_where (\<lambda>r. sr_ID r = sr_ID existing) (\<lambda>_. record) t))))"

definition SubscriptionStore_Upsert ::
  "sql_env \<Rightarrow> subscription_table option \<Rightarrow> UpsertSubscriptionInput \<Rightarrow> Subscription result \<times> subscription_table option" where
  "SubscriptionStore_Upsert env receiver input =
     (case receiver of None \<Rightarrow> (Inl subs_not_configured, receiver) | Some t \<Rightarrow>
      let i = normalized_subscription input in
      (case subscription_input_error i of
         Some err \<Rightarrow> (Inl err, receiver)
       | None \<Rightarrow>
           let i = (if TrimSpace (subscription_status_str (us_Status i)) = [] then i\<lparr>us_Status := SubscriptionStatusActive\<rparr> else i) in
           (case upsert_sub_tx env i t of
              Inl err \<Rightarrow> (Inl err, receiver)
            | Inr (record, t') \<Rightarrow>
                (case se_flt env 2 of
                   Some err \<Rightarrow> (Inl err, receiver) | None \<Rightarrow> (Inr (subscriptionRecord_toDomain record), Some t')))))"

definition SubscriptionStore_Get ::
  "goerr \<Rightarrow> goerr option \<Rightarrow> subscription_table option \<Rightarrow> string \<Rightarrow> Subscription result" where
  "SubscriptionStore_Get norows flt receiver x =
     (case receiver of None \<Rightarrow> Inl subs_not_configured | Some t \<Rightarrow>
      case flt of Some err \<Rightarrow> Inl err | None \<Rightarrow>
      (case find (\<lambda>r. sr_ID r = TrimSpace x) (live_subs t) of None \<Rightarrow> Inl norows | Some r \<Rightarrow> Inr (subscriptionRecord_toDomain r)))"

definition SubscriptionStore_GetByChannelID ::
  "goerr option \<Rightarrow> subscription_table option \<Rightarrow> string \<Rightarrow> string \<Rightarrow> Subscription result" where
  "SubscriptionStore_GetByChannelID flt receiver p c =
     (case receiver of None \<Rightarrow> Inl subs_not_configured | Some t \<Rightarrow>
      case flt of Some err \<Rightarrow> Inl err | None \<Rightarrow>
      (case newest_channel t p c of
         None \<Rightarrow> Inl (Plain (''sqlstore: subscription not found for provider '' @ quote p @ '' channel '' @ quote c))
       | Some r \<Rightarrow> Inr (subscriptionRecord_toDomain r)))"

definition SubscriptionStore_ListExpiring ::
  "goerr option \<Rightarrow> subscription_table option \<Rightarrow> int \<Rightarrow> Subscription list result" where
  "SubscriptionStore_ListExpiring flt receiver before =
     (case receiver of None \<Rightarrow> Inl subs_not_configured | Some t \<Rightarrow>
      case flt of Some err \<Rightarrow> Inl err | None \<Rightarrow>
      Inr (map subscriptionRecord_toDomain (sort_key (\<lambda>r. the (sr_ExpiresAt r))
        (filter (\<lambda>r. sr_Status r = SubscriptionStatusActive \<and> (case sr_ExpiresAt r of None \<Rightarrow> False | Some e \<Rightarrow> e \<le> before)) (live_subs t)))))"

definition subscription_status_of :: "string \<Rightarrow> SubscriptionStatus" where
  "subscription_status_of s =
     (if s = ''active'' then SubscriptionStatusActive else if s = ''expired'' then SubscriptionStatusExpired
      else if s = ''cancelled'' then SubscriptionStatusCancelled else if s = ''errored'' then SubscriptionStatusErrored
      else SubscriptionStatusOther s)"

definition restated_sub :: "(int \<Rightarrow> string) \<Rightarrow> int \<Rightarrow> SubscriptionStatus \<Rightarrow> string \<Rightarrow> subscriptionRecord \<Rightarrow> subscriptionRecord" where
  "restated_sub fmt now status reason record = record
     \<lparr>sr_Status := subscription_status_of (TrimSpace (subscription_status_str status)), sr_UpdatedAt := now,
      sr_Metadata := (if TrimSpace reason \<noteq> []
        then AList.update ''status_reason_at'' (AStr (fmt now))
          (AList.update ''status_reason'' (AStr (TrimSpace reason)) (copyAnyMap (sr_Metadata record)))
        else copyAnyMap (sr_Metadata record))\<rparr>"

definition SubscriptionStore_UpdateState ::
  "sql_env \<Rightarrow> goerr \<Rightarrow> (int \<Rightarrow> string) \<Rightarrow> subscription_table option \<Rightarrow> string \<Rightarrow> SubscriptionStatus \<Rightarrow> string \<Rightarrow>
     goerr option \<times> subscription_table option" where
  "SubscriptionStore_UpdateState env norows fmt receiver ident status reason =
     (case receiver of None \<Rightarrow> (Some subs_not_configured, receiver) | Some t \<Rightarrow>
      let x = TrimSpace ident in
      if x = [] then (Some (Plain ''sqlstore: subscription id is required''), receiver)
      else case se_flt env 0 of
        Some err \<Rightarrow> (Some err, receiver)
      | None \<Rightarrow>
          (case find (\<lambda>r. sr_ID r = x) (live_subs t) of
             None \<Rightarrow> (Some norows, receiver)
           | Some record \<Rightarrow>
               let record = restated_sub fmt (se_now env) status reason record in
               (case se_flt env 1 of
                  Some err \<Rightarrow> (Some err, receiver)
                | None \<Rightarrow> (None, Some (update_where (\<lambda>r. sr_ID r = x) (\<lambda>_. record) t)))))"

section \<open>The operations of the service\<close>

record SubscribeRequest =
  sq_ConnectionID :: string
  sq_ResourceType :: string
  sq_ResourceID :: string
  sq_CallbackURL :: string
  sq_Metadata :: meta

record RenewSubscriptionRequest =
  nq_SubscriptionID :: string
  nq_Metadata :: meta

record CancelSubscriptionRequest =
  xq_SubscriptionID :: string
  xq_Reason :: string

record SubscriptionResult =
  sres_ChannelID :: string
  sres_RemoteSubscriptionID :: string
  sres_ExpiresAt :: "int option"
  sres_Metadata :: meta

record 'w SubscriptionStore =
  sst_Upsert :: "UpsertSubscriptionInput \<Rightarrow> ('w, Subscription) effect"
  sst_Get :: "string \<Rightarrow> 'w \<Rightarrow> Subscription result"
  sst_UpdateState :: "string \<Rightarrow> SubscriptionStatus \<Rightarrow> string \<Rightarrow> 'w \<Rightarrow> goerr option \<times> 'w"

record 'w SubscribableProvider =
  sb_Subscribe :: "SubscribeRequest \<Rightarrow> ('w, SubscriptionResult) effect"
  sb_Renew :: "RenewSubscriptionRequest \<Rightarrow> ('w, SubscriptionResult) effect"
  sb_Cancel :: "CancelSubscriptionRequest \<Rightarrow> 'w \<Rightarrow> goerr option \<times> 'w"

definition mergeAnyMap :: "string \<Rightarrow> meta \<Rightarrow> meta \<Rightarrow> meta" where
  "mergeAnyMap now left right =
     (if left = [] \<and> right = [] then []
      else
        let merged = maps_Copy (maps_Copy [] left) right in
        (case map_of merged ''renewed_at'' of None \<Rightarrow> AList.update ''renewed_at'' (AStr now) merged | Some _ \<Rightarrow> merged))"

definition not_subscribable :: "'w Service \<Rightarrow> string \<Rightarrow> ('w, 'a) effect" where
  "not_subscribable s p = failS s (''core: provider '' @ quote p @ '' is not subscribable'')"

definition Service_Subscribe ::
  "'w Service \<Rightarrow> 'w SubscriptionStore option \<Rightarrow> (Provider \<Rightarrow> 'w SubscribableProvider option) \<Rightarrow> SubscribeRequest \<Rightarrow> ('w, Subscription) effect" where
  "Service_Subscribe s subs subscribable req =
     (case (svc_connectionStore s, subs) of
        (Some connections, Some store) \<Rightarrow>
          let connectionID = TrimSpace (sq_ConnectionID req) in
          if connectionID = [] then failS s ''core: connection id is required''
          else if TrimSpace (sq_ResourceType req) = [] then failS s ''core: resource type is required''
          else if TrimSpace (sq_ResourceID req) = [] then failS s ''core: resource id is required''
          else if TrimSpace (sq_CallbackURL req) = [] then failS s ''core: callback url is required''
          else
            let req = req\<lparr>sq_ConnectionID := connectionID\<rparr> in
            bindE (mapE (svc_mapError s) (reads (cst_Get connections connectionID))) (\<lambda>connection.
            bindE (lift (resolveProvider s (conn_ProviderID connection))) (\<lambda>provider.
            case subscribable provider of
              None \<Rightarrow> not_subscribable s (conn_ProviderID connection)
            | Some ops \<Rightarrow>
                bindE (mapE (svc_mapError s) (sb_Subscribe ops req)) (\<lambda>result.
                mapE (svc_mapError s) (sst_Upsert store
                  \<lparr>us_ConnectionID = conn_ID connection, us_ProviderID = conn_ProviderID connection,
                   us_ResourceType = TrimSpace (sq_ResourceType req), us_ResourceID = TrimSpace (sq_ResourceID req),
                   us_ChannelID = TrimSpace (sres_ChannelID result), us_RemoteSubscriptionID = TrimSpace (sres_RemoteSubscriptionID result),
                   us_CallbackURL = TrimSpace (sq_CallbackURL req), us_VerificationTokenRef = [], us_Status = SubscriptionStatusActive,
                   us_ExpiresAt = sres_ExpiresAt result, us_Metadata = copyAnyMap (sres_Metadata result)\<rparr>))))
      | _ \<Rightarrow> failS s ''core: subscribe requires connection and subscription stores'')"

definition renewal_input :: "string \<Rightarrow> Subscription \<Rightarrow> SubscriptionResult \<Rightarrow> UpsertSubscriptionInput" where
  "renewal_input now existing result =
     \<lparr>us_ConnectionID = sub_ConnectionID existing, us_ProviderID = sub_ProviderID existing, us_ResourceType = sub_ResourceType existing,
      us_ResourceID = sub_ResourceID existing,
      us_ChannelID = (if TrimSpace (sres_ChannelID result) = [] then sub_ChannelID existing else TrimSpace (sres_ChannelID result)),
      us_RemoteSubscriptionID = (if TrimSpace (sres_RemoteSubscriptionID result) = [] then sub_RemoteSubscriptionID existing
        else TrimSpace (sres_RemoteSubscriptionID result)),
      us_CallbackURL = sub_CallbackURL existing, us_VerificationTokenRef = sub_VerificationTokenRef existing,
      us_Status = SubscriptionStatusActive,
      us_ExpiresAt = (if sres_ExpiresAt result = None \<and> sub_ExpiresAt existing \<noteq> 0 then Some (sub_ExpiresAt existing) else sres_ExpiresAt result),
      us_Metadata = mergeAnyMap now (sub_Metadata existing) (sres_Metadata result)\<rparr>"

text \<open>\<open>on_error\<close>: a provider's error marks the subscription as errored, and that call's own error is dropped.\<close>

definition on_error :: "'w Service \<Rightarrow> 'w SubscriptionStore \<Rightarrow> string \<Rightarrow> ('w, 'a) effect \<Rightarrow> ('w, 'a) effect" where
  "on_error s store ident m =
     (\<lambda>w. case m w of
        (Inl err, w') \<Rightarrow> (Inl (svc_mapError s err), snd (sst_UpdateState store ident SubscriptionStatusErrored (svc_text s err) w'))
      | (Inr a, w') \<Rightarrow> (Inr a, w'))"

definition Service_RenewSubscription ::
  "'w Service \<Rightarrow> 'w SubscriptionStore option \<Rightarrow> (Provider \<Rightarrow> 'w SubscribableProvider option) \<Rightarrow> (int \<Rightarrow> string) \<Rightarrow>
     RenewSubscriptionRequest \<Rightarrow> ('w, Subscription) effect" where
  "Service_RenewSubscription s subs subscribable fmt req =
     (case subs of
        None \<Rightarrow> failS s ''core: subscription store is required''
      | Some store \<Rightarrow>
          let subscriptionID = TrimSpace (nq_SubscriptionID req) in
          if subscriptionID = [] then failS s ''core: subscription id is required''
          else
            bindE (mapE (svc_mapError s) (reads (sst_Get store subscriptionID))) (\<lambda>existing.
            bindE (lift (resolveProvider s (sub_ProviderID existing))) (\<lambda>provider.
            case subscribable provider of
              None \<Rightarrow> not_subscribable s (sub_ProviderID existing)
            | Some ops \<Rightarrow>
                bindE (on_error s store (sub_ID existing) (sb_Renew ops req)) (\<lambda>result w.
                mapE (svc_mapError s) (sst_Upsert store (renewal_input (fmt (svc_now s w)) existing result)) w))))"

definition Service_CancelSubscription ::
  "'w Service \<Rightarrow> 'w SubscriptionStore option \<Rightarrow> (Provider \<Rightarrow> 'w SubscribableProvider option) \<Rightarrow> CancelSubscriptionRequest \<Rightarrow>
     ('w, unit) effect" where
  "Service_CancelSubscription s subs subscribable req =
     (case subs of
        None \<Rightarrow> failS s ''core: subscription store is required''
      | Some store \<Rightarrow>
          let subscriptionID = TrimSpace (xq_SubscriptionID req);
              reason = (if TrimSpace (xq_Reason req) = [] then ''cancelled'' else TrimSpace (xq_Reason req)) in
          if subscriptionID = [] then failS s ''core: subscription id is required''
          else
            bindE (mapE (svc_mapError s) (reads (sst_Get store subscriptionID))) (\<lambda>existing.
            bindE (lift (resolveProvider s (sub_ProviderID existing))) (\<lambda>provider.
            case subscribable provider of
              None \<Rightarrow> not_subscribable s (sub_ProviderID existing)
            | Some ops \<Rightarrow>
                bindE (on_error s store (sub_ID existing)
                  (errE (sb_Cancel ops \<lparr>xq_SubscriptionID = subscriptionID, xq_Reason = reason\<rparr>))) (\<lambda>_.
                mapE (svc_mapError s) (errE (sst_UpdateState store (sub_ID existing) SubscriptionStatusCancelled reason))))))"

section \<open>Routing by channel\<close>

definition subs_ok :: "subscription_table \<Rightarrow> bool" where
  "subs_ok t \<longleftrightarrow> distinct (map sr_ID t) \<and> distinct (map channel_key (live_subs t)) \<and> (\<forall>r \<in> set t. id_ok (sr_ID r))"

definition channel_row :: "subscription_table \<Rightarrow> string \<times> string \<Rightarrow> subscriptionRecord option" where
  "channel_row t k = find (\<lambda>r. channel_key r = k) (live_subs t)"

lemma newest_channel_row:
  assumes "subs_ok t"
  shows "newest_channel t p c = channel_row t (TrimSpace p, TrimSpace c)"
proof -
  let ?k = "(TrimSpace p, TrimSpace c)"
  have "filter (\<lambda>r. channel_key r = ?k) (live_subs t) = (case channel_row t ?k of None \<Rightarrow> [] | Some r \<Rightarrow> [r])"
    unfolding channel_row_def using assms by (intro filter_key_distinct) (simp add: subs_ok_def)
  then show ?thesis unfolding newest_channel_def by (cases "channel_row t ?k") (simp_all del: filter_filter)
qed

lemma channel_row_iff:
  assumes "subs_ok t"
  shows "channel_row t k = Some r \<longleftrightarrow> r \<in> set t \<and> sr_DeletedAt r = None \<and> channel_key r = k"
proof -
  have "distinct (map channel_key (live_subs t))" using assms by (simp add: subs_ok_def)
  from find_unique [OF this, of k r] show ?thesis by (auto simp: channel_row_def)
qed

lemma find_channel_row:
  assumes "subs_ok t"
  shows "findByProviderChannelTx t p c = channel_row t (TrimSpace p, TrimSpace c)"
proof -
  have "TrimSpace (sr_ID r) \<noteq> []" if "channel_row t k = Some r" for r k
    using channel_row_iff [OF assms] that assms by (auto simp: subs_ok_def id_ok_def)
  then show ?thesis by (simp add: findByProviderChannelTx_def newest_channel_row [OF assms] split: option.split)
qed

text \<open>What the transaction writes is the one row of its channel afterwards, and no other channel changes.\<close>

lemma upsert_sub_row:
  assumes ok: "subs_ok t" and new: "se_id env \<notin> sr_ID ` set t" "id_ok (se_id env)" and flt: "se_flt env = no_faults"
    and i: "TrimSpace (us_ProviderID i) = us_ProviderID i" "TrimSpace (us_ChannelID i) = us_ChannelID i"
  shows "\<exists>r t'. upsert_sub_tx env i t = Inr (r, t') \<and> subs_ok t' \<and>
    channel_row t' = (channel_row t)((us_ProviderID i, us_ChannelID i) \<mapsto> r) \<and> sr_Status r = us_Status i \<and>
    sr_ConnectionID r = us_ConnectionID i \<and> sr_ResourceType r = us_ResourceType i \<and> sr_ResourceID r = us_ResourceID i \<and>
    sr_ProviderID r = us_ProviderID i \<and> sr_ChannelID r = us_ChannelID i"
proof -
  let ?k = "(us_ProviderID i, us_ChannelID i)"
  have d: "distinct (map sr_ID t)" "distinct (map channel_key (live_subs t))" "\<forall>r \<in> set t. id_ok (sr_ID r)"
    using ok by (simp_all add: subs_ok_def)
  have f: "findByProviderChannelTx t (us_ProviderID i) (us_ChannelID i) = channel_row t ?k" using find_channel_row [OF ok] i by simp
  show ?thesis
  proof (cases "channel_row t ?k")
    case None
    let ?r = "(newSubscriptionRecord i (se_now env))\<lparr>sr_ID := se_id env\<rparr>"
    have r: "channel_key ?r = ?k" "sr_DeletedAt ?r = None" "sr_ID ?r = se_id env" by (simp_all add: channel_key_def newSubscriptionRecord_def)
    have k: "?k \<notin> channel_key ` set (live_subs t)" using None find_none [of channel_key ?k] by (simp add: channel_row_def)
    have U: "upsert_sub_tx env i t = Inr (?r, t @ [?r])"
      unfolding upsert_sub_tx_def f None Let_def r using flt new(1) k by simp
    have "subs_ok (t @ [?r])" using d new k r by (auto simp: subs_ok_def)
    moreover have "channel_row (t @ [?r]) = (channel_row t)(?k \<mapsto> ?r)"
      using r None by (auto simp: channel_row_def find_append fun_eq_iff split: option.splits)
    ultimately show ?thesis using U by (intro exI conjI) (assumption | simp add: newSubscriptionRecord_def)+
  next
    case (Some e)
    let ?r = "upserted_sub i (se_now env) e"
    have e: "e \<in> set t" "sr_DeletedAt e = None" "channel_key e = ?k" using channel_row_iff [OF ok] Some by blast+
    have r: "channel_key ?r = ?k" "sr_DeletedAt ?r = None" "sr_ID ?r = sr_ID e" by (simp_all add: channel_key_def upserted_sub_def)
    let ?t = "update_where (\<lambda>x. sr_ID x = sr_ID e) (\<lambda>_. ?r) t"
    have same: "x = e" if "x \<in> set t" "sr_ID x = sr_ID e" for x using that d(1) e(1) by (metis distinct_map inj_onD)
    have chan: "x = e" if "x \<in> set t" "sr_DeletedAt x = None" "channel_key x = ?k" for x
      using that channel_row_iff [OF ok, of ?k] Some by (metis option.inject)
    have "?k \<notin> channel_key ` set (live_subs (filter (\<lambda>x. sr_ID x \<noteq> sr_ID e) t))"
      by (intro notI; elim imageE) (use chan in \<open>simp; blast\<close>)
    then have U: "upsert_sub_tx env i t = Inr (?r, ?t)" unfolding upsert_sub_tx_def f Some Let_def using flt r by simp
    have iff: "\<forall>x \<in> set t. sr_ID x = sr_ID e \<longleftrightarrow> sr_DeletedAt x = None \<and> channel_key x = ?k"
      using same chan e by blast
    have live: "live_subs ?t = update_where (\<lambda>x. channel_key x = ?k) (\<lambda>_. ?r) (live_subs t)"
      by (rule filter_update_where) (rule iff, rule r(2))
    have ids: "map sr_ID ?t = map sr_ID t" by (rule map_key_update_where) (simp add: r)
    have keys: "map channel_key (live_subs ?t) = map channel_key (live_subs t)" unfolding live by (rule map_key_update_where) (simp only: r)
    have "set (map sr_ID ?t) = set (map sr_ID t)" unfolding ids ..
    then have "\<forall>x \<in> set ?t. id_ok (sr_ID x)" using d(3) by (auto simp: image_iff dest: equalityD1 [THEN subsetD])
    then have "subs_ok ?t" unfolding subs_ok_def ids keys using d by blast
    moreover have "channel_row ?t = (channel_row t)(?k \<mapsto> ?r)"
      unfolding channel_row_def live fun_eq_iff
      using find_update_where [of channel_key "\<lambda>_. ?r" ?k _ "live_subs t"] r(1) Some by (auto simp: channel_row_def)
    ultimately show ?thesis using U by (intro exI conjI) (assumption | simp add: upserted_sub_def)+
  qed
qed

lemma subscription_stored:
  assumes "subs_ok t" and "se_id env \<notin> sr_ID ` set t" and "id_ok (se_id env)" and "se_flt env = no_faults"
    and "subscription_input_error (normalized_subscription i) = None" and "TrimSpace (subscription_status_str (us_Status i)) \<noteq> []"
  shows "\<exists>x t'. SubscriptionStore_Upsert env (Some t) i = (Inr x, Some t') \<and> subs_ok t' \<and> sub_Status x = us_Status i \<and>
    sub_ConnectionID x = TrimSpace (us_ConnectionID i) \<and> sub_ResourceType x = TrimSpace (us_ResourceType i) \<and>
    sub_ResourceID x = TrimSpace (us_ResourceID i) \<and>
    (\<forall>p c. SubscriptionStore_GetByChannelID None (Some t') p c =
       (if TrimSpace p = TrimSpace (us_ProviderID i) \<and> TrimSpace c = TrimSpace (us_ChannelID i) then Inr x
        else SubscriptionStore_GetByChannelID None (Some t) p c))"
proof -
  let ?i = "normalized_subscription i"
  have n: "TrimSpace (us_ProviderID ?i) = us_ProviderID ?i" "TrimSpace (us_ChannelID ?i) = us_ChannelID ?i" "us_Status ?i = us_Status i"
    "us_ProviderID ?i = TrimSpace (us_ProviderID i)" "us_ChannelID ?i = TrimSpace (us_ChannelID i)" "us_ConnectionID ?i = TrimSpace (us_ConnectionID i)"
    "us_ResourceType ?i = TrimSpace (us_ResourceType i)" "us_ResourceID ?i = TrimSpace (us_ResourceID i)"
    by (simp_all add: normalized_subscription_def)
  from upsert_sub_row [OF assms(1-4) n(1,2)] obtain r t' where r: "upsert_sub_tx env ?i t = Inr (r, t')" "subs_ok t'"
    "channel_row t' = (channel_row t)((us_ProviderID ?i, us_ChannelID ?i) \<mapsto> r)" "sr_Status r = us_Status ?i"
    "sr_ConnectionID r = us_ConnectionID ?i" "sr_ResourceType r = us_ResourceType ?i" "sr_ResourceID r = us_ResourceID ?i" by blast
  have U: "SubscriptionStore_Upsert env (Some t) i = (Inr (subscriptionRecord_toDomain r), Some t')"
    using assms(4-6) r(1) n(3) by (simp add: SubscriptionStore_Upsert_def Let_def)
  have "SubscriptionStore_GetByChannelID None (Some t') p c =
       (if TrimSpace p = TrimSpace (us_ProviderID i) \<and> TrimSpace c = TrimSpace (us_ChannelID i) then Inr (subscriptionRecord_toDomain r)
        else SubscriptionStore_GetByChannelID None (Some t) p c)" for p c
    using r(3) n(4,5)
    by (simp add: SubscriptionStore_GetByChannelID_def newest_channel_row [OF assms(1)] newest_channel_row [OF r(2)])
  then show ?thesis using U r(2,4-7) n(3,6-8) by (intro exI conjI) (assumption | simp add: subscriptionRecord_toDomain_def)+
qed

text \<open>
  A stored subscription is found by its channel. \<open>Upsert\<close> with a valid input succeeds and leaves exactly one
  live subscription for the provider and channel; \<open>GetByChannelID\<close> returns it, with the connection, the
  resource and the status of the input, until it is stored again, and answers as before for every other channel.
\<close>

theorem subscription_upsert_roundtrip:
  assumes "subs_ok t" and "se_id env \<notin> sr_ID ` set t" and "id_ok (se_id env)" and "se_flt env = no_faults"
    and "subscription_input_error (normalized_subscription i) = None" and "TrimSpace (subscription_status_str (us_Status i)) \<noteq> []"
  shows "\<exists>x t'. SubscriptionStore_Upsert env (Some t) i = (Inr x, Some t') \<and> subs_ok t' \<and> sub_Status x = us_Status i \<and>
    sub_ConnectionID x = TrimSpace (us_ConnectionID i) \<and> sub_ResourceType x = TrimSpace (us_ResourceType i) \<and>
    sub_ResourceID x = TrimSpace (us_ResourceID i) \<and>
    (\<forall>p c. SubscriptionStore_GetByChannelID None (Some t') p c =
       (if TrimSpace p = TrimSpace (us_ProviderID i) \<and> TrimSpace c = TrimSpace (us_ChannelID i) then Inr x
        else SubscriptionStore_GetByChannelID None (Some t) p c))"
  using assms by (rule subscription_stored)

section \<open>Renewing a cancelled subscription\<close>

definition sql_subscriptions ::
  "sql_env \<Rightarrow> goerr \<Rightarrow> (int \<Rightarrow> string) \<Rightarrow> (subscription_table option) SubscriptionStore" where
  "sql_subscriptions env norows fmt =
     \<lparr>sst_Upsert = (\<lambda>i w. SubscriptionStore_Upsert env w i), sst_Get = (\<lambda>x w. SubscriptionStore_Get norows (se_flt env 0) w x),
      sst_UpdateState = (\<lambda>x st reason w. SubscriptionStore_UpdateState env norows fmt w x st reason)\<rparr>"

text \<open>
  A renewal undoes a cancellation. Although the status machine has no way out of \<open>cancelled\<close>, renewing a
  cancelled subscription over the SQL store, when the provider renews it, stores and returns it as active.
\<close>

theorem renew_reactivates_cancelled:
  assumes "subs_ok t" and "se_id env \<notin> sr_ID ` set t" and "id_ok (se_id env)" and "se_flt env = no_faults"
    and "r \<in> set t" and "sr_DeletedAt r = None" and "sr_Status r = SubscriptionStatusCancelled"
    and "TrimSpace (nq_SubscriptionID req) = sr_ID r"
    and "resolveProvider s (sr_ProviderID r) = Inr provider" and "subscribable provider = Some ops"
    and "sb_Renew ops req (Some t) = (Inr result, Some t)"
    and "subscription_input_error (normalized_subscription (renewal_input (fmt (svc_now s (Some t))) (subscriptionRecord_toDomain r) result)) = None"
  shows "\<not> subscriptionTransitionAllowed (sr_Status r) SubscriptionStatusActive \<and>
    (\<exists>x t'. Service_RenewSubscription s (Some (sql_subscriptions env norows fmt)) subscribable fmt req (Some t) = (Inr x, Some t') \<and>
       sub_Status x = SubscriptionStatusActive \<and> sub_ResourceID x = TrimSpace (sr_ResourceID r) \<and>
       SubscriptionStore_GetByChannelID None (Some t') (sr_ProviderID r) (us_ChannelID (renewal_input (fmt (svc_now s (Some t))) (subscriptionRecord_toDomain r) result)) = Inr x)"
proof -
  let ?e = "subscriptionRecord_toDomain r" and ?i = "renewal_input (fmt (svc_now s (Some t))) (subscriptionRecord_toDomain r) result"
  have i: "us_Status ?i = SubscriptionStatusActive" "us_ProviderID ?i = sr_ProviderID r" "us_ResourceID ?i = sr_ResourceID r"
    by (simp_all add: renewal_input_def subscriptionRecord_toDomain_def)
  have st: "TrimSpace (subscription_status_str (us_Status ?i)) \<noteq> []" unfolding i by code_simp
  have "distinct (map sr_ID (live_subs t))" using assms(1) by (auto simp: subs_ok_def intro: distinct_map_filter)
  then have f: "find (\<lambda>x. sr_ID x = sr_ID r) (live_subs t) = Some r" using assms(5,6) by (simp add: find_unique)
  have id: "TrimSpace (sr_ID r) = sr_ID r" "sr_ID r \<noteq> []" using assms(1,5) by (auto simp: subs_ok_def id_ok_def)
  have get: "sst_Get (sql_subscriptions env norows fmt) (sr_ID r) (Some t) = Inr ?e"
    using assms(4) f id by (simp add: sql_subscriptions_def SubscriptionStore_Get_def)
  have e: "sub_ProviderID ?e = sr_ProviderID r" by (simp add: subscriptionRecord_toDomain_def)
  from subscription_stored [OF assms(1-4,12) st] i obtain x t' where x: "SubscriptionStore_Upsert env (Some t) ?i = (Inr x, Some t')"
    "sub_Status x = SubscriptionStatusActive" "sub_ResourceID x = TrimSpace (sr_ResourceID r)"
    "SubscriptionStore_GetByChannelID None (Some t') (sr_ProviderID r) (us_ChannelID ?i) = Inr x" by auto
  have "Service_RenewSubscription s (Some (sql_subscriptions env norows fmt)) subscribable fmt req (Some t) = (Inr x, Some t')"
    using assms(8-11) id get x(1) e
    by (simp add: Service_RenewSubscription_def Let_def bindE_def mapE_def reads_def lift_def on_error_def) (simp add: sql_subscriptions_def)
  with x assms(7) show ?thesis by simp
qed

section \<open>Witnesses\<close>

definition sub_env :: sql_env where
  "sub_env = \<lparr>se_id = ''n'', se_id2 = [], se_now = 9, se_uniq = Plain ''unique'', se_render = (\<lambda>_. []), se_flt = no_faults\<rparr>"

definition sample_sub_input :: UpsertSubscriptionInput where
  "sample_sub_input = \<lparr>us_ConnectionID = ''c'', us_ProviderID = ''github'', us_ResourceType = ''repo'', us_ResourceID = ''r'', us_ChannelID = ''ch '',
     us_RemoteSubscriptionID = [], us_CallbackURL = ''url'', us_VerificationTokenRef = [], us_Status = SubscriptionStatusActive,
     us_ExpiresAt = None, us_Metadata = []\<rparr>"

theorem subscription_upsert_roundtrip_witness:
  "\<exists>x t'. SubscriptionStore_Upsert sub_env (Some []) sample_sub_input = (Inr x, Some t') \<and>
     SubscriptionStore_GetByChannelID None (Some t') ''github'' ''ch'' = Inr x \<and> sub_ConnectionID x = ''c''"
proof -
  have e: "subscription_input_error (normalized_subscription sample_sub_input) = None"
    "TrimSpace (subscription_status_str (us_Status sample_sub_input)) \<noteq> []" by code_simp+
  have t: "TrimSpace (us_ProviderID sample_sub_input) = TrimSpace ''github''" "TrimSpace (us_ChannelID sample_sub_input) = TrimSpace ''ch''"
    "TrimSpace (us_ConnectionID sample_sub_input) = ''c''" "id_ok (se_id sub_env)" by code_simp+
  show ?thesis
    using subscription_upsert_roundtrip [of "[]" sub_env sample_sub_input, OF _ _ t(4) _ e] t(1-3)
    by (auto simp: subs_ok_def sub_env_def)
qed

definition cancelled_row :: subscriptionRecord where
  "cancelled_row = (newSubscriptionRecord (sample_sub_input\<lparr>us_ChannelID := ''ch'', us_Status := SubscriptionStatusCancelled\<rparr>) 3)\<lparr>sr_ID := ''x''\<rparr>"

definition renewing :: "(subscription_table option) SubscribableProvider" where
  "renewing = \<lparr>sb_Subscribe = (\<lambda>_. fail (Plain [])),
     sb_Renew = (\<lambda>_. ret \<lparr>sres_ChannelID = [], sres_RemoteSubscriptionID = [], sres_ExpiresAt = None, sres_Metadata = []\<rparr>),
     sb_Cancel = (\<lambda>_ w. (None, w))\<rparr>"

definition renew_service :: "(subscription_table option) Service" where
  "renew_service = bare_service\<lparr>svc_registry := Some (register_all [sample_provider] NewProviderRegistry)\<rparr>"

theorem renew_reactivates_cancelled_witness:
  "\<exists>x t'. Service_RenewSubscription renew_service (Some (sql_subscriptions sub_env (Plain []) (\<lambda>_. []))) (\<lambda>_. Some renewing) (\<lambda>_. [])
      \<lparr>nq_SubscriptionID = ''x'', nq_Metadata = []\<rparr> (Some [cancelled_row]) = (Inr x, Some t') \<and> sub_Status x = SubscriptionStatusActive"
proof -
  let ?req = "\<lparr>nq_SubscriptionID = ''x'', nq_Metadata = []\<rparr>"
  let ?res = "\<lparr>sres_ChannelID = [], sres_RemoteSubscriptionID = [], sres_ExpiresAt = None, sres_Metadata = []\<rparr>"
  have g: "ProviderRegistry_Get (register_all [sample_provider] NewProviderRegistry) (TrimSpace (sr_ProviderID cancelled_row)) = Some sample_provider"
    by code_simp
  have p: "resolveProvider renew_service (sr_ProviderID cancelled_row) = Inr sample_provider"
    by (simp add: resolveProvider_def renew_service_def Let_def g del: register_all.simps)
  have i: "id_ok ''x''" "id_ok (se_id sub_env)" "TrimSpace (nq_SubscriptionID ?req) = ''x''" by code_simp+
  have e: "subscription_input_error (normalized_subscription (renewal_input [] (subscriptionRecord_toDomain cancelled_row) ?res)) = None" by code_simp
  have r: "sr_ID cancelled_row = ''x''" "sr_DeletedAt cancelled_row = None" "sr_Status cancelled_row = SubscriptionStatusCancelled"
    by (simp_all add: cancelled_row_def newSubscriptionRecord_def)
  have w: "sb_Renew renewing ?req (Some [cancelled_row]) = (Inr ?res, Some [cancelled_row])" by (simp add: renewing_def ret_def)
  have ok: "subs_ok [cancelled_row]" "se_id sub_env \<notin> sr_ID ` set [cancelled_row]" "se_flt sub_env = no_faults"
    using r i by (simp_all add: subs_ok_def sub_env_def)
  have x: "TrimSpace (nq_SubscriptionID ?req) = sr_ID cancelled_row" using i(3) r(1) by simp
  from renew_reactivates_cancelled [OF ok(1,2) i(2) ok(3) _ r(2,3) x p refl w, of "\<lambda>_. []" "Plain []"] e show ?thesis by auto
qed

end
