(* ===== verification/Http_Values.thy ===== *)
theory Http_Values
  imports Url_Encoding
begin

text \<open>
  The part of \<open>net/url\<close>, \<open>net/http\<close>, \<open>strings\<close> and \<open>encoding/hex\<close> that the signers, the transports and the
  provider runtime use: query parameters and their encoding, headers under canonical names, requests. Parsing
  and printing whole URLs are arguments of the definitions that use them.
\<close>

section \<open>Strings\<close>

text \<open>\<open>strings.ReplaceAll(s, old, new)\<close> with a non-empty \<open>old\<close>.\<close>

function ReplaceAll :: "string \<Rightarrow> string \<Rightarrow> string \<Rightarrow> string" where
  "ReplaceAll old new [] = []"
| "ReplaceAll old new (c # s) =
     (if old \<noteq> [] \<and> take (length old) (c # s) = old then new @ ReplaceAll old new (drop (length old - 1) s)
      else c # ReplaceAll old new s)"
  by pat_completeness auto
termination
  by (relation "measure (\<lambda>(old, new, s). length s)") auto

lemma ReplaceAll_char: "ReplaceAll [c] new s = concat (map (\<lambda>d. if d = c then new else [d]) s)"
  by (induction s) auto

text \<open>The maximal pieces without a space; \<open>strings.Fields\<close> drops the empty ones.\<close>

fun split_space :: "string \<Rightarrow> string list" where
  "split_space [] = [[]]"
| "split_space (c # s) =
     (if is_space c then [] # split_space s
      else case split_space s of [] \<Rightarrow> [[c]] | p # ps \<Rightarrow> (c # p) # ps)"

definition Fields :: "string \<Rightarrow> string list" where
  "Fields s = filter (\<lambda>p. p \<noteq> []) (split_space s)"

text \<open>\<open>strings.Cut\<close> at a one-byte separator.\<close>

definition Cut :: "string \<Rightarrow> char \<Rightarrow> string \<times> string" where
  "Cut s sep = (takeWhile (\<lambda>c. c \<noteq> sep) s, drop 1 (dropWhile (\<lambda>c. c \<noteq> sep) s))"

lemma Cut_append: "sep \<notin> set a \<Longrightarrow> Cut (a @ sep # b) sep = (a, b)"
  by (induction a) (auto simp: Cut_def)

lemma Cut_none: "sep \<notin> set a \<Longrightarrow> Cut a sep = (a, [])"
  by (induction a) (auto simp: Cut_def)

text \<open>\<open>strings.HasPrefix\<close>, \<open>strings.TrimPrefix\<close> and \<open>strings.TrimSuffix\<close>\<close>

definition HasPrefix :: "string \<Rightarrow> string \<Rightarrow> bool" where
  "HasPrefix s p \<longleftrightarrow> take (length p) s = p"

definition TrimPrefix :: "string \<Rightarrow> string \<Rightarrow> string" where
  "TrimPrefix s p = (if HasPrefix s p then drop (length p) s else s)"

definition TrimSuffix :: "string \<Rightarrow> string \<Rightarrow> string" where
  "TrimSuffix s p = rev (TrimPrefix (rev s) (rev p))"

lemma HasPrefix_append [simp]: "HasPrefix (p @ s) p"
  by (simp add: HasPrefix_def)

lemma TrimPrefix_append [simp]: "TrimPrefix (p @ s) p = s"
  by (simp add: TrimPrefix_def)

text \<open>\<open>hex.EncodeToString\<close>\<close>

definition hex_lower :: "nat \<Rightarrow> char" where
  "hex_lower n = char_of (if n < 10 then 48 + n else 87 + n)"

definition hex_encode :: "string \<Rightarrow> string" where
  "hex_encode s = concat (map (\<lambda>c. [hex_lower (of_char c div 16), hex_lower (of_char c mod 16)]) s)"

section \<open>Query parameters\<close>

type_synonym url_values = "(string, string list) gomap"

definition Values_Set :: "string \<Rightarrow> string \<Rightarrow> url_values \<Rightarrow> url_values" where
  "Values_Set k v m = AList.update k [v] m"

definition Values_Get :: "url_values \<Rightarrow> string \<Rightarrow> string" where
  "Values_Get m k = (case map_of m k of Some (v # _) \<Rightarrow> v | _ \<Rightarrow> [])"

definition values_list :: "url_values \<Rightarrow> string \<Rightarrow> string list" where
  "values_list m k = (case map_of m k of None \<Rightarrow> [] | Some vs \<Rightarrow> vs)"

definition values_add :: "string \<times> string \<Rightarrow> url_values \<Rightarrow> url_values" where
  "values_add kv m = AList.update (fst kv) (values_list m (fst kv) @ [snd kv]) m"

text \<open>One piece of a query between two \<open>&\<close>; a piece that does not parse is skipped.\<close>

definition query_pair :: "string \<Rightarrow> (string \<times> string) option" where
  "query_pair piece =
     (if CHR '';'' \<in> set piece \<or> piece = [] then None
      else case Cut piece (CHR ''='') of
        (k, v) \<Rightarrow> (case (QueryUnescape k, QueryUnescape v) of (Some k', Some v') \<Rightarrow> Some (k', v') | _ \<Rightarrow> None))"

definition ParseQuery :: "string \<Rightarrow> url_values" where
  "ParseQuery q = fold values_add (List.map_filter query_pair (Split q (CHR ''&''))) []"

text \<open>\<open>Values.Encode\<close>: sorted by key.\<close>

definition values_pairs :: "url_values \<Rightarrow> (string \<times> string) list" where
  "values_pairs m = concat (map (\<lambda>(k, vs). map (Pair k) vs) m)"

definition Values_Encode :: "url_values \<Rightarrow> string" where
  "Values_Encode m =
     join_with ''&'' (map (\<lambda>(k, v). QueryEscape k @ ''='' @ QueryEscape v) (values_pairs (sort_key fst m)))"

text \<open>
  A query printed from pairs, with any escaping that \<open>QueryUnescape\<close> undoes, parses to these pairs.
\<close>

definition escaper :: "(string \<Rightarrow> string) \<Rightarrow> bool" where
  "escaper esc \<longleftrightarrow> (\<forall>s. QueryUnescape (esc s) = Some s \<and> set (esc s) \<inter> set ''&;='' = {})"

definition query_of :: "(string \<Rightarrow> string) \<Rightarrow> (string \<times> string) list \<Rightarrow> string" where
  "query_of esc ps = join_with ''&'' (map (\<lambda>(k, v). esc k @ ''='' @ esc v) ps)"

lemma query_pair_escaped: "escaper esc \<Longrightarrow> query_pair (esc k @ CHR ''='' # esc v) = Some (k, v)"
  by (auto simp: query_pair_def escaper_def Cut_append)

lemma Split_query_of:
  assumes "escaper esc"
  shows "Split (query_of esc ps) (CHR ''&'') = (if ps = [] then [[]] else map (\<lambda>(k, v). esc k @ CHR ''='' # esc v) ps)"
proof -
  have e: "CHR ''&'' \<notin> set (esc k @ CHR ''='' # esc v)" for k v using assms by (auto simp: escaper_def)
  show ?thesis
  proof (induction ps rule: induct_list012)
    case (2 kv) then show ?case using Split_none [OF e] by (simp add: query_of_def case_prod_beta)
  next
    case (3 kv kv' ps)
    have "query_of esc (kv # kv' # ps) = (esc (fst kv) @ CHR ''='' # esc (snd kv)) @ CHR ''&'' # query_of esc (kv' # ps)"
      by (simp add: query_of_def case_prod_beta)
    then show ?case using Split_append [OF e [of "fst kv" "snd kv"]] 3(2) by (simp add: case_prod_beta)
  qed (simp add: query_of_def)
qed

lemma ParseQuery_query_of:
  assumes "escaper esc"
  shows "ParseQuery (query_of esc ps) = fold values_add ps []"
proof -
  have "List.map_filter query_pair (map (\<lambda>(k, v). esc k @ CHR ''='' # esc v) ps) = ps" for ps
    by (induction ps) (auto simp: query_pair_escaped [OF assms])
  then show ?thesis by (cases "ps = []") (simp_all add: ParseQuery_def Split_query_of [OF assms] query_pair_def)
qed

lemma gomap_ok_values_add [simp]: "gomap_ok m \<Longrightarrow> gomap_ok (fold values_add ps m)"
  by (induction ps arbitrary: m) (simp_all add: values_add_def)

lemma mset_values_add:
  assumes "gomap_ok m"
  shows "mset (values_pairs (values_add kv m)) = add_mset kv (mset (values_pairs m))"
  using assms
proof (induction m)
  case Nil then show ?case by (simp add: values_add_def values_list_def values_pairs_def)
next
  case (Cons e m)
  then show ?case
    by (cases e; cases kv) (auto simp: values_add_def values_list_def values_pairs_def)
qed

lemma mset_values_pairs:
  "gomap_ok m \<Longrightarrow> mset (values_pairs (fold values_add ps m)) = mset (values_pairs m) + mset ps"
  by (induction ps arbitrary: m) (simp_all add: mset_values_add values_add_def [symmetric] gomap_ok_values_add [of _ "[_]", simplified])

section \<open>Headers\<close>

text \<open>\<open>textproto.CanonicalMIMEHeaderKey\<close>: a name with a byte that no header name may have is left alone.\<close>

definition header_byte :: "char \<Rightarrow> bool" where
  "header_byte c =
     (let n = of_char c :: nat in
      (48 \<le> n \<and> n \<le> 57) \<or> (65 \<le> n \<and> n \<le> 90) \<or> (97 \<le> n \<and> n \<le> 122) \<or> c \<in> set ''!#$%&*+-.^_`|~'' \<or> n = 39)"

fun canonical_case :: "bool \<Rightarrow> string \<Rightarrow> string" where
  "canonical_case up [] = []"
| "canonical_case up (c # s) = (if up then char_upper c else char_lower c) # canonical_case (c = CHR ''-'') s"

definition CanonicalHeaderKey :: "string \<Rightarrow> string" where
  "CanonicalHeaderKey k = (if k \<noteq> [] \<and> list_all header_byte k then canonical_case True k else k)"

type_synonym http_header = "(string, string list) gomap"

definition Header_Set :: "string \<Rightarrow> string \<Rightarrow> http_header \<Rightarrow> http_header" where
  "Header_Set k v h = AList.update (CanonicalHeaderKey k) [v] h"

definition Header_Del :: "string \<Rightarrow> http_header \<Rightarrow> http_header" where
  "Header_Del k h = AList.delete (CanonicalHeaderKey k) h"

definition Header_Get :: "http_header \<Rightarrow> string \<Rightarrow> string" where
  "Header_Get h k = (case map_of h (CanonicalHeaderKey k) of Some (v # _) \<Rightarrow> v | _ \<Rightarrow> [])"

section \<open>Requests\<close>

record URL =
  u_Scheme :: string
  u_Host :: string
  u_Path :: string
  u_EscapedPath :: string
  u_RawQuery :: string
  u_Fragment :: string

abbreviation URL_Query :: "URL \<Rightarrow> url_values" where
  "URL_Query u \<equiv> ParseQuery (u_RawQuery u)"

text \<open>The body is what reading it to the end returns.\<close>

record http_request =
  hr_Method :: string
  hr_URL :: URL
  hr_Header :: http_header
  hr_Body :: "(string result) option"

end
