(* ===== verification/Signing.thy ===== *)
theory Signing
  imports Service_Flows Http_Values
begin

text \<open>
  The signers of outgoing requests: \<open>src/core/signer.go\<close> (bearer, API key, PAT, HMAC, basic, mTLS, and how the
  service chooses one) and \<open>src/core/sigv4_signer.go\<close> (AWS signature version 4 in headers or in the query). A
  signer changes the request it is given, also when it fails. SHA-256, HMAC, the clock and the formatting of times
  are arguments.
\<close>

record sign_env =
  cx_sha256 :: "string \<Rightarrow> string"
  cx_hmac :: "string \<Rightarrow> string \<Rightarrow> string"
  cx_format :: "string \<Rightarrow> int \<Rightarrow> string"
  cx_now :: int
  cx_text :: "goerr \<Rightarrow> string"

section \<open>Signers\<close>

record APIKeySigner =
  apk_Header :: string
  apk_Prefix :: string
  apk_QueryParam :: string

text \<open>\<open>Now\<close> is a fixed time or \<open>None\<close> for the clock.\<close>

record HMACSigner =
  hms_SignatureHeader :: string
  hms_TimestampHeader :: string
  hms_Now :: "int option"

record AWSSigV4Signer =
  aws_AccessKeyID :: string
  aws_SecretAccessKey :: string
  aws_SessionToken :: string
  aws_Region :: string
  aws_Service :: string
  aws_Mode :: string
  aws_QueryExpiry :: int
  aws_UnsignedPayload :: bool
  aws_AccessTokenHeader :: string
  aws_Now :: "int option"

datatype Signer =
    BearerTokenSigner
  | SignAPIKey APIKeySigner
  | PATSigner
  | SignHMAC HMACSigner
  | BasicAuthSigner
  | MTLSSigner
  | SignAWSSigV4 AWSSigV4Signer
  | OtherSigner "http_request \<Rightarrow> ActiveCredential \<Rightarrow> goerr option \<times> http_request"

definition request_required :: goerr where
  "request_required = Plain ''core: http request is required''"

definition BearerTokenSigner_Sign :: "http_request \<Rightarrow> ActiveCredential \<Rightarrow> goerr option \<times> http_request" where
  "BearerTokenSigner_Sign req cred =
     (let token = TrimSpace (ak_AccessToken cred) in
      if token = [] then (Some (Plain ''core: access token is required for bearer signing''), req)
      else (None, req\<lparr>hr_Header := Header_Set ''Authorization'' (''Bearer '' @ token) (hr_Header req)\<rparr>))"

definition setQueryValue :: "string \<Rightarrow> string \<Rightarrow> URL \<Rightarrow> URL" where
  "setQueryValue key value u = u\<lparr>u_RawQuery := Values_Encode (Values_Set key value (URL_Query u))\<rparr>"

definition APIKeySigner_Sign :: "APIKeySigner \<Rightarrow> http_request \<Rightarrow> ActiveCredential \<Rightarrow> goerr option \<times> http_request" where
  "APIKeySigner_Sign s req cred =
     (let key = TrimSpace (ak_AccessToken cred) in
      if key = [] then (Some (Plain ''core: api key token is required for signing''), req)
      else
        let header = (if TrimSpace (apk_Header s) = [] then ''X-API-Key'' else TrimSpace (apk_Header s));
            queryParam = TrimSpace (apk_QueryParam s);
            req = (if queryParam \<noteq> [] then req\<lparr>hr_URL := setQueryValue queryParam key (hr_URL req)\<rparr> else req);
            prefix = TrimSpace (apk_Prefix s);
            value = (if prefix \<noteq> [] then prefix @ '' '' @ key else key)
        in (None, req\<lparr>hr_Header := Header_Set header value (hr_Header req)\<rparr>))"

definition PATSigner_Sign :: "http_request \<Rightarrow> ActiveCredential \<Rightarrow> goerr option \<times> http_request" where
  "PATSigner_Sign = APIKeySigner_Sign \<lparr>apk_Header = ''Authorization'', apk_Prefix = ''token'', apk_QueryParam = []\<rparr>"

text \<open>The body can be read again afterwards.\<close>

definition readRequestBodyHash :: "sign_env \<Rightarrow> http_request \<Rightarrow> string result" where
  "readRequestBodyHash env req =
     (case hr_Body req of
        None \<Rightarrow> Inr (hex_encode (cx_sha256 env []))
      | Some (Inl err) \<Rightarrow> Inl (Wrapped (''core: read request body: '' @ cx_text env err) [err])
      | Some (Inr body) \<Rightarrow> Inr (hex_encode (cx_sha256 env body)))"

definition unix_seconds :: "int \<Rightarrow> int" where
  "unix_seconds t = (t - 62135596800 * Second) div Second"

definition hmac_canonical :: "http_request \<Rightarrow> string \<Rightarrow> string \<Rightarrow> string" where
  "hmac_canonical req timestamp bodyHash =
     join_with [CHR 0x0A] [ToUpper (TrimSpace (hr_Method req)), u_Path (hr_URL req), timestamp, bodyHash]"

definition HMACSigner_Sign :: "sign_env \<Rightarrow> HMACSigner \<Rightarrow> http_request \<Rightarrow> ActiveCredential \<Rightarrow> goerr option \<times> http_request" where
  "HMACSigner_Sign env s req cred =
     (let secret = TrimSpace (ak_AccessToken cred) in
      if secret = [] then (Some (Plain ''core: hmac secret is required for signing''), req)
      else
        let signatureHeader = (if TrimSpace (hms_SignatureHeader s) = [] then ''X-Signature'' else TrimSpace (hms_SignatureHeader s));
            timestampHeader = (if TrimSpace (hms_TimestampHeader s) = [] then ''X-Timestamp'' else TrimSpace (hms_TimestampHeader s));
            now = (case hms_Now s of None \<Rightarrow> cx_now env | Some t \<Rightarrow> t);
            timestamp = Itoa (unix_seconds now)
        in case readRequestBodyHash env req of
             Inl err \<Rightarrow> (Some err, req)
           | Inr bodyHash \<Rightarrow>
               let signature = hex_encode (cx_hmac env secret (hmac_canonical req timestamp bodyHash))
               in (None, req\<lparr>hr_Header := Header_Set signatureHeader signature (Header_Set timestampHeader timestamp (hr_Header req))\<rparr>))"

definition BasicAuthSigner_Sign :: "http_request \<Rightarrow> ActiveCredential \<Rightarrow> goerr option \<times> http_request" where
  "BasicAuthSigner_Sign req cred =
     (let token = TrimSpace (ak_AccessToken cred) in
      if token = [] then (Some (Plain ''core: basic auth token is required for signing''), req)
      else (None, req\<lparr>hr_Header := Header_Set ''Authorization'' (''Basic '' @ token) (hr_Header req)\<rparr>))"

section \<open>AWS signature version 4\<close>

fun metadataString :: "meta \<Rightarrow> string list \<Rightarrow> string" where
  "metadataString metadata [] = []"
| "metadataString metadata (key # keys) =
     (case (if key = [] then None else map_of metadata key) of
        Some (AStr v) \<Rightarrow> if TrimSpace v \<noteq> [] then TrimSpace v else metadataString metadata keys
      | _ \<Rightarrow> metadataString metadata keys)"

definition metadataBool :: "meta \<Rightarrow> string \<Rightarrow> bool" where
  "metadataBool metadata key =
     (if length metadata = 0 \<or> TrimSpace key = [] then False
      else case map_of metadata key of
             Some (ABool b) \<Rightarrow> b
           | Some (AStr v) \<Rightarrow> (case ParseBool (TrimSpace v) of Some b \<Rightarrow> b | None \<Rightarrow> False)
           | _ \<Rightarrow> False)"

fun firstNonEmpty :: "string list \<Rightarrow> string" where
  "firstNonEmpty [] = []"
| "firstNonEmpty (v # vs) = (if TrimSpace v \<noteq> [] then TrimSpace v else firstNonEmpty vs)"

definition compressSpaces :: "string \<Rightarrow> string" where
  "compressSpaces value = (let parts = Fields (TrimSpace value) in if length parts = 0 then [] else join_with '' '' parts)"

definition sha256Hex :: "sign_env \<Rightarrow> string \<Rightarrow> string" where
  "sha256Hex env payload = hex_encode (cx_sha256 env payload)"

definition awsQueryEscape :: "string \<Rightarrow> string" where
  "awsQueryEscape value = ReplaceAll ''%7E'' ''~'' (ReplaceAll ''*'' ''%2A'' (ReplaceAll ''+'' ''%20'' (QueryEscape value)))"

text \<open>\<open>sort.Slice\<close> by key, then value: the entries are a sorted list of pairs.\<close>

definition query_entries :: "url_values \<Rightarrow> (string \<times> string) list" where
  "query_entries query =
     concat (map (\<lambda>(key, vs). if vs = [] then [(awsQueryEscape key, [])]
       else map (\<lambda>v. (awsQueryEscape key, awsQueryEscape v)) vs) query)"

definition canonicalQueryString :: "url_values \<Rightarrow> string" where
  "canonicalQueryString query =
     (if length query = 0 then []
      else join_with ''&'' (map (\<lambda>(k, v). k @ ''='' @ v) (sort (query_entries query))))"

definition canonicalURI :: "URL \<Rightarrow> string" where
  "canonicalURI u = (if u_EscapedPath u = [] then ''/'' else u_EscapedPath u)"

definition clean_values :: "string list \<Rightarrow> string list" where
  "clean_values vs = map compressSpaces (filter (\<lambda>v. v \<noteq> []) (map TrimSpace vs))"

definition normalized_headers :: "http_header \<Rightarrow> string \<Rightarrow> (string, string) gomap" where
  "normalized_headers headers host =
     fold (\<lambda>(key, vs) acc.
        let lower = ToLower (TrimSpace key) in
        if lower = [] \<or> lower = ''authorization'' \<or> length (clean_values vs) = 0 then acc
        else AList.update lower (join_with '','' (clean_values vs)) acc)
       headers [(''host'', ToLower (TrimSpace host))]"

definition canonicalHeaderBlock :: "http_header \<Rightarrow> string \<Rightarrow> string \<times> string" where
  "canonicalHeaderBlock headers host =
     (let normalized = normalized_headers headers host;
          keys = sort (map fst normalized)
      in (concat (map (\<lambda>k. k @ '':'' @ the (map_of normalized k) @ [CHR 0x0A]) keys), join_with '';'' keys))"

definition awsSigV4Signature :: "sign_env \<Rightarrow> string \<Rightarrow> string \<Rightarrow> string \<Rightarrow> string \<Rightarrow> string \<Rightarrow> string" where
  "awsSigV4Signature env secretAccessKey dateStamp region service stringToSign =
     (let kDate = cx_hmac env (''AWS4'' @ secretAccessKey) dateStamp;
          kRegion = cx_hmac env kDate region;
          kService = cx_hmac env kRegion service;
          kSigning = cx_hmac env kService ''aws4_request''
      in hex_encode (cx_hmac env kSigning stringToSign))"

record awsSigV4Profile =
  pf_AccessKeyID :: string
  pf_SecretAccessKey :: string
  pf_SessionToken :: string
  pf_Region :: string
  pf_Service :: string
  pf_Mode :: string
  pf_QueryExpiry :: int
  pf_UnsignedPayload :: bool
  pf_AccessTokenHeader :: string
  pf_Now :: int

definition query_expiry :: "int \<Rightarrow> meta \<Rightarrow> int" where
  "query_expiry configured metadata =
     (let expiry = (if configured \<le> 0 then
            let raw = metadataString metadata [''aws_signing_expires'', ''aws_query_expires''] in
            if raw = [] then configured
            else case Atoi (TrimSpace raw) of
                   Some seconds \<Rightarrow> if seconds > 0 then wrap64 (seconds * Second) else configured
                 | None \<Rightarrow> configured
          else configured)
      in if expiry \<le> 0 then 5 * Minute else expiry)"

definition AWSSigV4Signer_resolveProfile :: "sign_env \<Rightarrow> AWSSigV4Signer \<Rightarrow> ActiveCredential \<Rightarrow> awsSigV4Profile result" where
  "AWSSigV4Signer_resolveProfile env s cred =
     (let metadata = ak_Metadata cred;
          mode = firstNonEmpty [TrimSpace (ToLower (aws_Mode s)),
            TrimSpace (ToLower (metadataString metadata [''aws_signing_mode'', ''signing_mode''])), ''header''] in
      if mode \<noteq> ''header'' \<and> mode \<noteq> ''query'' then Inl (Plain (''core: unsupported aws sigv4 signing mode '' @ quote mode))
      else
        let accessKeyID = firstNonEmpty [TrimSpace (aws_AccessKeyID s), metadataString metadata [''aws_access_key_id'', ''access_key_id'']];
            secretAccessKey = firstNonEmpty [TrimSpace (aws_SecretAccessKey s), metadataString metadata [''aws_secret_access_key'', ''secret_access_key'']];
            region = firstNonEmpty [TrimSpace (aws_Region s), metadataString metadata [''aws_region'', ''region'']];
            service = firstNonEmpty [TrimSpace (aws_Service s), metadataString metadata [''aws_service'', ''service'']] in
        if accessKeyID = [] \<or> secretAccessKey = [] \<or> region = [] \<or> service = []
        then Inl (Plain ''core: aws sigv4 requires access key, secret, region, and service'')
        else
          let sessionToken = firstNonEmpty [TrimSpace (aws_SessionToken s), metadataString metadata [''aws_session_token'', ''session_token'']];
              accessTokenHeader = firstNonEmpty [TrimSpace (ToLower (aws_AccessTokenHeader s)),
                TrimSpace (ToLower (metadataString metadata [''aws_access_token_header'']))];
              accessTokenHeader = (if accessTokenHeader = [] \<and> TrimSpace (ak_AccessToken cred) \<noteq> []
                then ''x-amz-access-token'' else accessTokenHeader)
          in Inr \<lparr>pf_AccessKeyID = accessKeyID, pf_SecretAccessKey = secretAccessKey, pf_SessionToken = sessionToken,
               pf_Region = region, pf_Service = service, pf_Mode = mode, pf_QueryExpiry = query_expiry (aws_QueryExpiry s) metadata,
               pf_UnsignedPayload = (aws_UnsignedPayload s \<or> metadataBool metadata ''aws_unsigned_payload''),
               pf_AccessTokenHeader = accessTokenHeader,
               pf_Now = (case aws_Now s of None \<Rightarrow> cx_now env | Some t \<Rightarrow> t)\<rparr>)"

text \<open>The session token and the access token, where there are any, go into headers that are signed.\<close>

definition set_if :: "bool \<Rightarrow> string \<Rightarrow> string \<Rightarrow> http_header \<Rightarrow> http_header" where
  "set_if b k v h = (if b then Header_Set k v h else h)"

definition payload_hash :: "sign_env \<Rightarrow> awsSigV4Profile \<Rightarrow> http_request \<Rightarrow> string result" where
  "payload_hash env profile req =
     (if \<not> pf_UnsignedPayload profile then readRequestBodyHash env req else Inr ''UNSIGNED-PAYLOAD'')"

definition credential_scope :: "awsSigV4Profile \<Rightarrow> string \<Rightarrow> string" where
  "credential_scope profile dateStamp = dateStamp @ ''/'' @ pf_Region profile @ ''/'' @ pf_Service profile @ ''/aws4_request''"

definition sigv4_signature :: "sign_env \<Rightarrow> awsSigV4Profile \<Rightarrow> string \<Rightarrow> string \<Rightarrow> string \<Rightarrow> string" where
  "sigv4_signature env profile amzDate dateStamp canonicalRequest =
     awsSigV4Signature env (pf_SecretAccessKey profile) dateStamp (pf_Region profile) (pf_Service profile)
       (join_with [CHR 0x0A] [''AWS4-HMAC-SHA256'', amzDate, credential_scope profile dateStamp, sha256Hex env canonicalRequest])"

definition header_canonical_request :: "http_request \<Rightarrow> string \<Rightarrow> string" where
  "header_canonical_request req payloadHash =
     (case canonicalHeaderBlock (hr_Header req) (u_Host (hr_URL req)) of (canonicalHeaders, signedHeaders) \<Rightarrow>
        join_with [CHR 0x0A] [ToUpper (TrimSpace (hr_Method req)), canonicalURI (hr_URL req),
          canonicalQueryString (URL_Query (hr_URL req)), canonicalHeaders, signedHeaders, payloadHash])"

definition authorization_value :: "awsSigV4Profile \<Rightarrow> string \<Rightarrow> string \<Rightarrow> string \<Rightarrow> string" where
  "authorization_value profile dateStamp signedHeaders signature =
     ''AWS4-HMAC-SHA256 Credential='' @ pf_AccessKeyID profile @ ''/'' @ credential_scope profile dateStamp @
     '', SignedHeaders='' @ signedHeaders @ '', Signature='' @ signature"

definition signAWSSigV4Header ::
  "sign_env \<Rightarrow> http_request \<Rightarrow> ActiveCredential \<Rightarrow> awsSigV4Profile \<Rightarrow> string \<Rightarrow> string \<Rightarrow> goerr option \<times> http_request" where
  "signAWSSigV4Header env req cred profile amzDate dateStamp =
     (let h = Header_Set ''X-Amz-Date'' amzDate (Header_Del ''Authorization'' (hr_Header req)) in
      case payload_hash env profile req of
        Inl err \<Rightarrow> (Some err, req\<lparr>hr_Header := h\<rparr>)
      | Inr payloadHash \<Rightarrow>
          let h = Header_Set ''X-Amz-Content-Sha256'' payloadHash h;
              h = set_if (pf_SessionToken profile \<noteq> []) ''X-Amz-Security-Token'' (pf_SessionToken profile) h;
              h = set_if (pf_AccessTokenHeader profile \<noteq> [] \<and> TrimSpace (ak_AccessToken cred) \<noteq> [])
                    (pf_AccessTokenHeader profile) (TrimSpace (ak_AccessToken cred)) h;
              req = req\<lparr>hr_Header := h\<rparr>;
              signature = sigv4_signature env profile amzDate dateStamp (header_canonical_request req payloadHash);
              signedHeaders = snd (canonicalHeaderBlock h (u_Host (hr_URL req)))
          in (None, req\<lparr>hr_Header := Header_Set ''Authorization'' (authorization_value profile dateStamp signedHeaders signature) h\<rparr>))"

text \<open>\<open>QueryExpiry.Seconds()\<close> is truncated; above the cap its rounding does not matter.\<close>

definition query_expires :: "int \<Rightarrow> int" where
  "query_expires expiry =
     (let expires = (if expiry < 0 then - (- expiry div Second) else expiry div Second);
          expires = (if expires \<le> 0 then 300 else expires)
      in if expires > 604800 then 604800 else expires)"

definition presign_values :: "awsSigV4Profile \<Rightarrow> string \<Rightarrow> string \<Rightarrow> url_values \<Rightarrow> url_values" where
  "presign_values profile amzDate dateStamp query =
     (let query = Values_Set ''X-Amz-Algorithm'' ''AWS4-HMAC-SHA256'' query;
          query = Values_Set ''X-Amz-Credential'' (pf_AccessKeyID profile @ ''/'' @ credential_scope profile dateStamp) query;
          query = Values_Set ''X-Amz-Date'' amzDate query;
          query = Values_Set ''X-Amz-Expires'' (Itoa (query_expires (pf_QueryExpiry profile))) query;
          query = Values_Set ''X-Amz-SignedHeaders'' ''host'' query;
          query = (if pf_SessionToken profile \<noteq> [] then Values_Set ''X-Amz-Security-Token'' (pf_SessionToken profile) query else query)
      in AList.delete ''X-Amz-Signature'' query)"

definition query_canonical_request :: "http_request \<Rightarrow> url_values \<Rightarrow> string \<Rightarrow> string" where
  "query_canonical_request req query payloadHash =
     join_with [CHR 0x0A] [ToUpper (TrimSpace (hr_Method req)), canonicalURI (hr_URL req), canonicalQueryString query,
       ''host:'' @ ToLower (TrimSpace (u_Host (hr_URL req))) @ [CHR 0x0A], ''host'', payloadHash]"

definition signAWSSigV4Query ::
  "sign_env \<Rightarrow> http_request \<Rightarrow> ActiveCredential \<Rightarrow> awsSigV4Profile \<Rightarrow> string \<Rightarrow> string \<Rightarrow> goerr option \<times> http_request" where
  "signAWSSigV4Query env req cred profile amzDate dateStamp =
     (let query = presign_values profile amzDate dateStamp (URL_Query (hr_URL req));
          h = set_if (pf_AccessTokenHeader profile \<noteq> [] \<and> TrimSpace (ak_AccessToken cred) \<noteq> [])
                (pf_AccessTokenHeader profile) (TrimSpace (ak_AccessToken cred)) (hr_Header req) in
      case payload_hash env profile req of
        Inl err \<Rightarrow> (Some err, req\<lparr>hr_Header := h\<rparr>)
      | Inr payloadHash \<Rightarrow>
          let signature = sigv4_signature env profile amzDate dateStamp (query_canonical_request req query payloadHash);
              u = (hr_URL req)\<lparr>u_RawQuery := canonicalQueryString (Values_Set ''X-Amz-Signature'' signature query)\<rparr>
          in (None, req\<lparr>hr_URL := u, hr_Header := Header_Del ''Authorization'' h\<rparr>))"

definition AWSSigV4Signer_Sign :: "sign_env \<Rightarrow> AWSSigV4Signer \<Rightarrow> http_request \<Rightarrow> ActiveCredential \<Rightarrow> goerr option \<times> http_request" where
  "AWSSigV4Signer_Sign env s req cred =
     (case AWSSigV4Signer_resolveProfile env s cred of
        Inl err \<Rightarrow> (Some err, req)
      | Inr profile \<Rightarrow>
          let amzDate = cx_format env ''20060102T150405Z'' (pf_Now profile);
              dateStamp = cx_format env ''20060102'' (pf_Now profile)
          in if pf_Mode profile = ''query'' then signAWSSigV4Query env req cred profile amzDate dateStamp
             else signAWSSigV4Header env req cred profile amzDate dateStamp)"

fun Signer_Sign :: "sign_env \<Rightarrow> Signer \<Rightarrow> http_request \<Rightarrow> ActiveCredential \<Rightarrow> goerr option \<times> http_request" where
  "Signer_Sign env BearerTokenSigner req cred = BearerTokenSigner_Sign req cred"
| "Signer_Sign env (SignAPIKey s) req cred = APIKeySigner_Sign s req cred"
| "Signer_Sign env PATSigner req cred = PATSigner_Sign req cred"
| "Signer_Sign env (SignHMAC s) req cred = HMACSigner_Sign env s req cred"
| "Signer_Sign env BasicAuthSigner req cred = BasicAuthSigner_Sign req cred"
| "Signer_Sign env MTLSSigner req cred = (None, req)"
| "Signer_Sign env (SignAWSSigV4 s) req cred = AWSSigV4Signer_Sign env s req cred"
| "Signer_Sign env (OtherSigner f) req cred = f req cred"

section \<open>Choosing a signer\<close>

definition resolveCredentialAuthKind :: "ActiveCredential \<Rightarrow> string" where
  "resolveCredentialAuthKind cred =
     (let raw = metadataString (ak_Metadata cred) [''auth_kind''] in
      if raw \<noteq> [] then TrimSpace (ToLower raw)
      else if TrimSpace (ak_TokenType cred) \<noteq> [] then TrimSpace (ToLower (ak_TokenType cred)) else [])"

definition resolveAuthKindSigner :: "ActiveCredential \<Rightarrow> Signer option" where
  "resolveAuthKindSigner cred =
     (let authKind = normalizeAuthKind (resolveCredentialAuthKind cred); m = ak_Metadata cred in
      if authKind = ''api_key'' then
        Some (SignAPIKey \<lparr>apk_Header = firstNonEmpty [metadataString m [''api_key_header''], ''X-API-Key''],
          apk_Prefix = metadataString m [''api_key_prefix''], apk_QueryParam = metadataString m [''api_key_query_param'']\<rparr>)
      else if authKind = ''pat'' then Some PATSigner
      else if authKind = ''hmac'' then
        let raw = metadataString m [''hmac_timestamp_unix''];
            fixed = (if raw = [] then None
              else case Atoi (TrimSpace raw) of Some unix \<Rightarrow> if unix > 0 then Some (62135596800 * Second + unix * Second) else None | None \<Rightarrow> None)
        in Some (SignHMAC \<lparr>hms_SignatureHeader = firstNonEmpty [metadataString m [''signature_header''], ''X-Signature''],
             hms_TimestampHeader = firstNonEmpty [metadataString m [''timestamp_header''], ''X-Timestamp''], hms_Now = fixed\<rparr>)
      else if authKind = ''basic'' then Some BasicAuthSigner
      else if authKind = ''mtls'' then Some MTLSSigner
      else if authKind = ''aws_sigv4'' then
        Some (SignAWSSigV4 \<lparr>aws_AccessKeyID = [], aws_SecretAccessKey = [], aws_SessionToken = [], aws_Region = [], aws_Service = [],
          aws_Mode = [], aws_QueryExpiry = 0, aws_UnsignedPayload = False, aws_AccessTokenHeader = [], aws_Now = None\<rparr>)
      else None)"

text \<open>
  The signing part of a service: its own signer, and the method \<open>Signer\<close> of a provider that implements
  \<open>ProviderSigner\<close> (the outer option), which may return nil.
\<close>

record signing_config =
  sgn_signer :: "Signer option"
  sgn_provider :: "Provider \<Rightarrow> (Signer option) option"
  sgn_env :: sign_env

definition resolveSignerForProvider :: "signing_config \<Rightarrow> Provider \<Rightarrow> Signer option" where
  "resolveSignerForProvider c provider =
     (case sgn_provider c provider of Some (Some signer) \<Rightarrow> Some signer | _ \<Rightarrow> sgn_signer c)"

definition resolveSignerForCredential :: "signing_config \<Rightarrow> Provider \<Rightarrow> ActiveCredential option \<Rightarrow> Signer option" where
  "resolveSignerForCredential c provider cred =
     (let own = resolveSignerForProvider c provider in
      if own \<noteq> None \<and> sgn_provider c provider \<noteq> None then own
      else case cred of
        None \<Rightarrow> own
      | Some cr \<Rightarrow>
          if sgn_signer c = None \<or> (case sgn_signer c of Some BearerTokenSigner \<Rightarrow> True | _ \<Rightarrow> False)
          then (case resolveAuthKindSigner cr of Some authSigner \<Rightarrow> Some authSigner | None \<Rightarrow> own)
          else own)"

section \<open>Signing a request of a connection\<close>

text \<open>The provider that signs: the one named, checked against the owner of the connection.\<close>

definition signing_provider_id :: "'w Service \<Rightarrow> string \<Rightarrow> string \<Rightarrow> 'w \<Rightarrow> string result" where
  "signing_provider_id s providerID connectionID w =
     (case svc_connectionStore s of
        Some store \<Rightarrow>
          if connectionID = [] then Inr providerID
          else (case cst_Get store connectionID w of
             Inl loadErr \<Rightarrow> Inl loadErr
           | Inr connection \<Rightarrow>
               let owner = TrimSpace (conn_ProviderID connection) in
               if owner = [] then Inl (Plain (''core: connection '' @ quote connectionID @ '' has no provider id''))
               else if providerID = [] then Inr owner
               else if \<not> EqualFold providerID owner
               then Inl (Plain (''core: provider mismatch for connection '' @ quote connectionID @
                 '': got '' @ quote providerID @ '' want '' @ quote owner))
               else Inr providerID)
      | None \<Rightarrow> Inr providerID)"

definition signing_credential :: "'w Service \<Rightarrow> string \<Rightarrow> ActiveCredential option \<Rightarrow> 'w \<Rightarrow> ActiveCredential result" where
  "signing_credential s connectionID cred w =
     (case cred of
        Some c \<Rightarrow> Inr c
      | None \<Rightarrow>
          (case svc_credentialStore s of
             Some store \<Rightarrow>
               if connectionID = [] then Inl (Plain ''core: connection id is required to load signing credential'')
               else (case kst_GetActive store connectionID w of Inl loadErr \<Rightarrow> Inl loadErr | Inr stored \<Rightarrow> credentialToActive s stored)
           | None \<Rightarrow> Inl (Plain ''core: credential is required for signing'')))"

definition Service_SignRequest ::
  "'w Service option \<Rightarrow> signing_config \<Rightarrow> string \<Rightarrow> string \<Rightarrow> http_request option \<Rightarrow> ActiveCredential option \<Rightarrow> 'w \<Rightarrow>
     goerr option \<times> http_request option" where
  "Service_SignRequest receiver c providerID connectionID req cred w =
     (case receiver of None \<Rightarrow> (Some (Plain ''core: service is nil''), req) | Some s \<Rightarrow>
     (case req of None \<Rightarrow> (Some (svc_mapError s request_required), req) | Some r \<Rightarrow>
      let connectionID = TrimSpace connectionID in
      (case signing_provider_id s (TrimSpace providerID) connectionID w of
         Inl err \<Rightarrow> (Some (svc_mapError s err), req)
       | Inr resolvedProviderID \<Rightarrow>
           if resolvedProviderID = [] then (Some (svc_mapError s (Plain ''core: provider id is required for signing'')), req)
           else (case resolveProvider s resolvedProviderID of
              Inl err \<Rightarrow> (Some err, req)
            | Inr provider \<Rightarrow>
                (case signing_credential s connectionID cred w of
                   Inl err \<Rightarrow> (Some (svc_mapError s err), req)
                 | Inr active \<Rightarrow>
                     (case resolveSignerForCredential c provider (Some active) of
                        None \<Rightarrow> (Some (svc_mapError s (Plain ''core: signer is not configured'')), req)
                      | Some signer \<Rightarrow>
                          (case Signer_Sign (sgn_env c) signer r active of
                             (Some signErr, r') \<Rightarrow> (Some (svc_mapError s signErr), Some r')
                           | (None, r') \<Rightarrow> (None, Some r'))))))))"

section \<open>The escaping of query parameters\<close>

lemma aws_replace_space_star:
  "ReplaceAll ''*'' ''%2A'' (ReplaceAll ''+'' ''%20'' (QueryEscape s)) =
     concat (map (\<lambda>c. if c = CHR '' '' then ''%20'' else escape_char c) s)"
proof -
  have star: "concat (map (\<lambda>d. if d = CHR ''*'' then ''%2A'' else [d]) (concat (map (\<lambda>d. if d = CHR ''+'' then ''%20'' else [d]) (escape_char c))))
      = (if c = CHR '' '' then ''%20'' else escape_char c)" for c
  proof -
    have h: "hex_digit n \<noteq> CHR ''+'' \<and> hex_digit n \<noteq> CHR ''*''" if "n < 16" for n
    proof -
      have "(of_char (hex_digit n) :: nat) \<ge> 48" using that by (simp add: hex_digit_def)
      then show ?thesis by auto
    qed
    have "(of_char c :: nat) div 16 < 16" using of_char_less_256 [of c] by (simp add: less_mult_imp_div_less)
    note hh = h [OF this] h [of "of_char c mod 16"]
    consider "c = CHR '' ''" | "c \<noteq> CHR '' ''" "unreserved c" | "c \<noteq> CHR '' ''" "\<not> unreserved c" by blast
    then show ?thesis
    proof cases
      case 1 then show ?thesis by (simp add: escape_char_def unreserved_def)
    next
      case 2
      then have "c \<noteq> CHR ''*'' \<and> c \<noteq> CHR ''+''" by (auto simp: unreserved_def Let_def)
      with 2 show ?thesis by (simp add: escape_char_def)
    next
      case 3 then show ?thesis using hh by (simp add: escape_char_def)
    qed
  qed
  show ?thesis
    by (simp add: ReplaceAll_char QueryEscape_def) (induction s, simp_all add: star)
qed

definition aws_char :: "char \<Rightarrow> string" where
  "aws_char c = (if c = CHR '' '' then ''%20'' else escape_char c)"

lemma hex_digit_eq: "n < 16 \<Longrightarrow> m < 16 \<Longrightarrow> hex_digit n = hex_digit m \<longleftrightarrow> n = m"
  by (metis option.inject unhex_hex_digit)

text \<open>No \<open>%7E\<close> is ever printed: the tilde is not escaped.\<close>

lemma replace_tilde: "ReplaceAll ''%7E'' ''~'' (aws_char c @ s) = aws_char c @ ReplaceAll ''%7E'' ''~'' s"
proof -
  have b: "(of_char c :: nat) div 16 < 16" "(of_char c :: nat) mod 16 < 16"
    using of_char_less_256 [of c] by (simp_all add: less_mult_imp_div_less)
  have pc: "hex_digit n \<noteq> CHR ''%''" if "n < 16" for n
  proof -
    have "(of_char (hex_digit n) :: nat) \<ge> 48" using that by (simp add: hex_digit_def)
    then show ?thesis by auto
  qed
  have seven: "hex_digit 7 = CHR ''7''" "hex_digit 14 = CHR ''E''" by code_simp+
  have ne: "\<not> (hex_digit (of_char c div 16) = CHR ''7'' \<and> hex_digit (of_char c mod 16) = CHR ''E'')" if "\<not> unreserved c"
  proof
    assume "hex_digit (of_char c div 16) = CHR ''7'' \<and> hex_digit (of_char c mod 16) = CHR ''E''"
    then have "(of_char c :: nat) div 16 = 7" "(of_char c :: nat) mod 16 = 14"
      using hex_digit_eq [OF b(1), of 7] hex_digit_eq [OF b(2), of 14] seven by simp_all
    then have "(of_char c :: nat) = 126" using div_mult_mod_eq [of "of_char c :: nat" 16] by simp
    then have "c = char_of (126 :: nat)" by (metis char_of_char)
    moreover have "char_of (126 :: nat) = CHR ''~''" by code_simp
    ultimately have "c = CHR ''~''" by simp
    with that show False by (simp add: unreserved_def)
  qed
  consider "c = CHR '' ''" | "c \<noteq> CHR '' ''" "unreserved c" | "c \<noteq> CHR '' ''" "\<not> unreserved c" by blast
  then show ?thesis
  proof cases
    case 1 then show ?thesis by (simp add: aws_char_def)
  next
    case 2
    then have "c \<noteq> CHR ''%''" using unreserved_not_special by blast
    with 2 show ?thesis by (simp add: aws_char_def escape_char_def)
  next
    case 3
    then show ?thesis using ne [OF 3(2)] pc [OF b(1)] pc [OF b(2)] by (auto simp: aws_char_def escape_char_def)
  qed
qed

lemma awsQueryEscape_chars: "awsQueryEscape s = concat (map aws_char s)"
proof -
  have "ReplaceAll ''%7E'' ''~'' (concat (map aws_char s)) = concat (map aws_char s)"
    by (induction s) (simp_all add: replace_tilde)
  then show ?thesis by (simp add: awsQueryEscape_def aws_replace_space_star aws_char_def [abs_def])
qed

lemma aws_escaper: "escaper awsQueryEscape"
proof -
  have cs: "d \<notin> set ''&;=''" if "d \<in> set (aws_char c)" for c d
  proof -
    have b: "(of_char c :: nat) div 16 < 16" "(of_char c :: nat) mod 16 < 16"
      using of_char_less_256 [of c] by (simp_all add: less_mult_imp_div_less)
    have hex: "hex_digit n \<notin> set ''&;=''" if "n < 16" for n
    proof -
      have "(of_char (hex_digit n) :: nat) = (if n < 10 then 48 + n else 55 + n)" using that by (simp add: hex_digit_def)
      then have "(of_char (hex_digit n) :: nat) \<notin> {38, 59, 61}" using that by auto
      then show ?thesis by auto
    qed
    have "c \<notin> set ''&;=''" if "unreserved c" using that by (auto simp: unreserved_def Let_def)
    with that hex [OF b(1)] hex [OF b(2)] show ?thesis by (auto simp: aws_char_def escape_char_def split: if_splits)
  qed
  have u: "QueryUnescape (aws_char c @ s) = map_option ((#) c) (QueryUnescape s)" for c s
  proof (cases "c = CHR '' ''")
    case True
    moreover have "unhex (CHR ''2'') = Some 2" "unhex (CHR ''0'') = Some 0" "char_of (32 :: nat) = CHR '' ''" by code_simp+
    ultimately show ?thesis by (simp add: aws_char_def)
  qed (simp add: aws_char_def unescape_escape_char)
  have "QueryUnescape (awsQueryEscape s) = Some s" for s
    unfolding awsQueryEscape_chars by (induction s) (simp_all add: u del: QueryUnescape.simps(2))
  moreover have "set (awsQueryEscape s) \<inter> set ''&;='' = {}" for s
    unfolding awsQueryEscape_chars using cs by fastforce
  ultimately show ?thesis by (simp add: escaper_def)
qed

section \<open>What canonicalisation keeps of a query\<close>

definition no_empty :: "url_values \<Rightarrow> bool" where
  "no_empty m \<longleftrightarrow> (\<forall>(k, vs) \<in> set m. vs \<noteq> [])"

abbreviation aws_pair :: "string \<times> string \<Rightarrow> string \<times> string" where
  "aws_pair \<equiv> \<lambda>(k, v). (awsQueryEscape k, awsQueryEscape v)"

lemma query_entries_pairs: "no_empty m \<Longrightarrow> query_entries m = map aws_pair (values_pairs m)"
  by (induction m) (auto simp: no_empty_def query_entries_def values_pairs_def)

lemma values_pairs_Nil: "no_empty m \<Longrightarrow> values_pairs m = [] \<longleftrightarrow> m = []"
  by (cases m) (auto simp: no_empty_def values_pairs_def)

lemma no_empty_update: "no_empty m \<Longrightarrow> vs \<noteq> [] \<Longrightarrow> no_empty (AList.update k vs m)"
  by (induction m) (auto simp: no_empty_def split: if_splits)

lemma no_empty_fold: "no_empty m \<Longrightarrow> no_empty (fold values_add ps m)"
  by (induction ps arbitrary: m) (simp_all add: values_add_def no_empty_update)

lemma no_empty_ParseQuery [simp]: "no_empty (ParseQuery q)" "gomap_ok (ParseQuery q)"
  unfolding ParseQuery_def by (rule no_empty_fold, simp add: no_empty_def) (rule gomap_ok_values_add, simp)

lemma no_empty_delete: "no_empty m \<Longrightarrow> no_empty (AList.delete k m)"
  by (induction m) (auto simp: no_empty_def)

lemma values_pairs_delete: "values_pairs (AList.delete k m) = filter (\<lambda>p. fst p \<noteq> k) (values_pairs m)"
  by (induction m) (auto simp: values_pairs_def filter_map comp_def)

lemma sort_mset_eq: "mset xs = mset ys \<Longrightarrow> sort xs = sort ys"
  by (metis sorted_list_of_multiset_mset)

abbreviation print_pairs :: "(string \<times> string) list \<Rightarrow> string" where
  "print_pairs ps \<equiv> join_with ''&'' (map (\<lambda>(k, v). k @ ''='' @ v) ps)"

lemma canonicalQueryString_pairs: "no_empty m \<Longrightarrow> canonicalQueryString m = print_pairs (sort (map aws_pair (values_pairs m)))"
  by (cases "m = []") (simp_all add: canonicalQueryString_def query_entries_pairs values_pairs_def)

lemma query_of_pairs: "query_of awsQueryEscape ps = print_pairs (map aws_pair ps)"
  unfolding query_of_def map_map by (intro arg_cong2 [where f = join_with] map_cong) auto

text \<open>The canonical text depends on the parameters only as a multiset, not on the order of the map or of its values.\<close>

lemma canonicalQueryString_cong:
  assumes "no_empty m" and "no_empty m'" and "mset (values_pairs m) = mset (values_pairs m')"
  shows "canonicalQueryString m = canonicalQueryString m'"
proof -
  have "sort (map aws_pair (values_pairs m)) = sort (map aws_pair (values_pairs m'))"
    using assms(3) by (intro sort_mset_eq) simp
  then show ?thesis unfolding canonicalQueryString_pairs [OF assms(1)] canonicalQueryString_pairs [OF assms(2)] by (rule arg_cong)
qed

text \<open>Parsing the canonical text gives the parameters back.\<close>

lemma parse_canonicalQueryString:
  assumes "no_empty m"
  shows "mset (values_pairs (ParseQuery (canonicalQueryString m))) = mset (values_pairs m)"
proof -
  let ?un = "\<lambda>s. the (QueryUnescape s)" and ?ps = "values_pairs m"
  let ?un2 = "\<lambda>(k, v). (?un k, ?un v)"
  have inv: "?un2 (aws_pair p) = p" for p using aws_escaper by (cases p) (simp add: escaper_def)
  define qs where "qs = map ?un2 (sort (map aws_pair ?ps))"
  have "mset qs = image_mset ?un2 (image_mset aws_pair (mset ?ps))" by (simp add: qs_def)
  also have "\<dots> = mset ?ps" by (simp add: multiset.map_comp comp_def inv)
  finally have m: "mset qs = mset ?ps" .
  have "map aws_pair qs = sort (map aws_pair ?ps)"
    unfolding qs_def map_map by (rule map_idI) (auto simp: inv [of "(_, _)", simplified])
  then have "canonicalQueryString m = query_of awsQueryEscape qs"
    unfolding canonicalQueryString_pairs [OF assms] query_of_pairs by simp
  then show ?thesis using m mset_values_pairs [of "[]" qs] by (simp add: ParseQuery_query_of [OF aws_escaper] values_pairs_def)
qed

section \<open>A signed request verifies\<close>

text \<open>
  The check of a server that knows the profile: it takes the date from the request, recomputes the signature from
  what it received, and compares. In header mode the signature covers everything but the header
  \<open>Authorization\<close>, in query mode everything but the parameter \<open>X-Amz-Signature\<close>.
\<close>

definition verify_header :: "sign_env \<Rightarrow> awsSigV4Profile \<Rightarrow> http_request \<Rightarrow> bool" where
  "verify_header env profile req =
     (let amzDate = Header_Get (hr_Header req) ''X-Amz-Date''; dateStamp = take 8 amzDate;
          payloadHash = Header_Get (hr_Header req) ''X-Amz-Content-Sha256'' in
      payload_hash env profile req = Inr payloadHash \<and>
      Header_Get (hr_Header req) ''Authorization'' =
        authorization_value profile dateStamp (snd (canonicalHeaderBlock (hr_Header req) (u_Host (hr_URL req))))
          (sigv4_signature env profile amzDate dateStamp (header_canonical_request req payloadHash)))"

definition verify_query :: "sign_env \<Rightarrow> awsSigV4Profile \<Rightarrow> http_request \<Rightarrow> bool" where
  "verify_query env profile req =
     (let q = URL_Query (hr_URL req); amzDate = Values_Get q ''X-Amz-Date'' in
      case payload_hash env profile req of
        Inl _ \<Rightarrow> False
      | Inr payloadHash \<Rightarrow>
          Values_Get q ''X-Amz-Signature'' =
            sigv4_signature env profile amzDate (take 8 amzDate)
              (query_canonical_request req (AList.delete ''X-Amz-Signature'' q) payloadHash))"

definition sigv4_verify :: "sign_env \<Rightarrow> awsSigV4Profile \<Rightarrow> http_request \<Rightarrow> bool" where
  "sigv4_verify env profile req =
     (if pf_Mode profile = ''query'' then verify_query env profile req else verify_header env profile req)"

lemma normalized_skips_authorization:
  "normalized_headers (AList.update ''Authorization'' v h) host = normalized_headers h host"
proof -
  have l: "ToLower (TrimSpace ''Authorization'') = ''authorization''" by code_simp
  have "fold f (AList.update ''Authorization'' v h) acc = fold f h acc"
    if "\<And>x acc. f (''Authorization'', x) acc = acc" for f :: "string \<times> string list \<Rightarrow> 'a \<Rightarrow> 'a" and acc
    using that by (induction h arbitrary: acc) auto
  then show ?thesis unfolding normalized_headers_def by this (simp add: l)
qed

lemma header_names [simp]:
  "CanonicalHeaderKey ''Authorization'' = ''Authorization''"
  "CanonicalHeaderKey ''X-Amz-Date'' = ''X-Amz-Date''"
  "CanonicalHeaderKey ''X-Amz-Content-Sha256'' = ''X-Amz-Content-Sha256''"
  "CanonicalHeaderKey ''X-Amz-Security-Token'' = ''X-Amz-Security-Token''"
  by code_simp+

lemma Header_Get_Set: "Header_Get (Header_Set k v h) k' = (if CanonicalHeaderKey k = CanonicalHeaderKey k' then v else Header_Get h k')"
  by (simp add: Header_Get_def Header_Set_def update_conv')

lemma Header_Get_set_if:
  "Header_Get (set_if b k v h) k' = (if b \<and> CanonicalHeaderKey k = CanonicalHeaderKey k' then v else Header_Get h k')"
  by (simp add: set_if_def Header_Get_Set)

lemma payload_hash_cong: "hr_Body req = hr_Body req' \<Longrightarrow> payload_hash env profile req = payload_hash env profile req'"
  by (simp add: payload_hash_def readRequestBodyHash_def)

lemma header_signature_verifies:
  assumes "signAWSSigV4Header env req cred profile amzDate (take 8 amzDate) = (None, req')"
    and "CanonicalHeaderKey (pf_AccessTokenHeader profile) \<notin> {''X-Amz-Date'', ''X-Amz-Content-Sha256''}"
  shows "verify_header env profile req'"
proof -
  let ?tok = "set_if (pf_AccessTokenHeader profile \<noteq> [] \<and> TrimSpace (ak_AccessToken cred) \<noteq> [])
                    (pf_AccessTokenHeader profile) (TrimSpace (ak_AccessToken cred))"
  let ?ses = "set_if (pf_SessionToken profile \<noteq> []) ''X-Amz-Security-Token'' (pf_SessionToken profile)"
  obtain ph where ph: "payload_hash env profile req = Inr ph"
    using assms(1) by (auto simp: signAWSSigV4Header_def Let_def split: sum.splits)
  define h where "h = ?tok (?ses (Header_Set ''X-Amz-Content-Sha256'' ph (Header_Set ''X-Amz-Date'' amzDate (Header_Del ''Authorization'' (hr_Header req)))))"
  define r where "r = req\<lparr>hr_Header := h\<rparr>"
  define a where "a = authorization_value profile (take 8 amzDate) (snd (canonicalHeaderBlock h (u_Host (hr_URL req))))
    (sigv4_signature env profile amzDate (take 8 amzDate) (header_canonical_request r ph))"
  have req': "req' = r\<lparr>hr_Header := Header_Set ''Authorization'' a h\<rparr>"
    using assms(1) ph by (simp add: signAWSSigV4Header_def Let_def h_def [symmetric] r_def a_def)
  have n: "normalized_headers (hr_Header req') host = normalized_headers h host" for host
    by (simp add: req' Header_Set_def normalized_skips_authorization)
  have u: "hr_URL req' = hr_URL req" "hr_Method req' = hr_Method req" "hr_URL r = hr_URL req" "hr_Header r = h" "hr_Method r = hr_Method req"
    by (simp_all add: req' r_def)
  have c: "canonicalHeaderBlock (hr_Header req') host = canonicalHeaderBlock h host" for host by (simp add: canonicalHeaderBlock_def n)
  have g: "Header_Get (hr_Header req') ''X-Amz-Date'' = amzDate" "Header_Get (hr_Header req') ''X-Amz-Content-Sha256'' = ph"
    "Header_Get (hr_Header req') ''Authorization'' = a"
    using assms(2) by (auto simp: req' h_def Header_Get_Set Header_Get_set_if)
  have "header_canonical_request req' ph = header_canonical_request r ph" by (simp add: header_canonical_request_def c u)
  moreover have "payload_hash env profile req' = Inr ph" using ph payload_hash_cong [of req' req] by (simp add: req' r_def)
  ultimately show ?thesis by (simp add: verify_header_def g c u a_def)
qed

lemma values_list_pairs: "gomap_ok m \<Longrightarrow> values_list m k = map snd (filter (\<lambda>p. fst p = k) (values_pairs m))"
proof (induction m)
  case (Cons e m)
  have "filter (\<lambda>p. fst p = fst e) (values_pairs m) = []" using Cons.prems by (auto simp: values_pairs_def filter_empty_conv image_iff split: prod.splits)
  then show ?case using Cons by (cases e) (auto simp: values_list_def values_pairs_def filter_map comp_def)
qed (simp add: values_list_def values_pairs_def)

lemma Values_Get_list: "Values_Get m k = (case values_list m k of [] \<Rightarrow> [] | v # _ \<Rightarrow> v)"
  by (simp add: Values_Get_def values_list_def split: option.split list.split)

text \<open>A parameter with one value has this value in every map with the same pairs.\<close>

lemma Values_Get_unique:
  assumes "gomap_ok m" and "gomap_ok m'" and "mset (values_pairs m) = mset (values_pairs m')" and "map_of m k = Some [v]"
  shows "Values_Get m' k = v"
proof -
  have l: "values_list m k = [v]" using assms(4) by (simp add: values_list_def)
  have "mset (values_list m' k) = mset (values_list m k)"
    unfolding values_list_pairs [OF assms(1)] values_list_pairs [OF assms(2)] using assms(3) by (simp add: mset_filter)
  then have "values_list m' k = [v]" unfolding l by simp
  then show ?thesis by (simp add: Values_Get_list)
qed

lemma canonicalQueryString_delete:
  assumes "no_empty m" and "gomap_ok m" and "map_of m k = None"
  shows "canonicalQueryString (AList.delete k (ParseQuery (canonicalQueryString (Values_Set k v m)))) = canonicalQueryString m"
proof (rule canonicalQueryString_cong)
  let ?q = "ParseQuery (canonicalQueryString (Values_Set k v m))"
  have ne: "no_empty (Values_Set k v m)" using assms(1) by (simp add: Values_Set_def no_empty_update)
  have d: "AList.delete k (Values_Set k v m) = AList.delete k m"
    unfolding Values_Set_def by (induction m) auto
  have fresh: "AList.delete k m = m" using assms(3) by (simp add: delete_id map_of_eq_None_iff)
  have "mset (values_pairs (AList.delete k ?q)) = mset (values_pairs (AList.delete k (Values_Set k v m)))"
    unfolding values_pairs_delete using parse_canonicalQueryString [OF ne] by (metis mset_filter)
  then show "mset (values_pairs (AList.delete k ?q)) = mset (values_pairs m)" by (simp add: d fresh)
  show "no_empty (AList.delete k ?q)" by (simp add: no_empty_delete)
qed (rule assms(1))

lemma presign_values_facts:
  assumes "no_empty q" and "gomap_ok q"
  shows "no_empty (presign_values profile amzDate dateStamp q)" "gomap_ok (presign_values profile amzDate dateStamp q)"
    "map_of (presign_values profile amzDate dateStamp q) ''X-Amz-Signature'' = None"
    "map_of (presign_values profile amzDate dateStamp q) ''X-Amz-Date'' = Some [amzDate]"
  using assms
  by (simp_all add: presign_values_def Let_def Values_Set_def no_empty_update no_empty_delete delete_conv' update_conv' del: map_of_eq_Some_iff)

lemma query_signature_verifies:
  assumes "signAWSSigV4Query env req cred profile amzDate (take 8 amzDate) = (None, req')"
  shows "verify_query env profile req'"
proof -
  let ?q = "presign_values profile amzDate (take 8 amzDate) (URL_Query (hr_URL req))"
  note q = presign_values_facts [OF no_empty_ParseQuery, of profile amzDate "take 8 amzDate" "u_RawQuery (hr_URL req)"]
  obtain ph where ph: "payload_hash env profile req = Inr ph"
    using assms by (auto simp: signAWSSigV4Query_def Let_def split: sum.splits)
  define sig where "sig = sigv4_signature env profile amzDate (take 8 amzDate) (query_canonical_request req ?q ph)"
  let ?q1 = "Values_Set ''X-Amz-Signature'' sig ?q"
  have req': "hr_URL req' = (hr_URL req)\<lparr>u_RawQuery := canonicalQueryString ?q1\<rparr>" "hr_Body req' = hr_Body req" "hr_Method req' = hr_Method req"
    using assms ph by (auto simp: signAWSSigV4Query_def Let_def sig_def)
  have q1: "no_empty ?q1" "gomap_ok ?q1" "map_of ?q1 ''X-Amz-Signature'' = Some [sig]" "map_of ?q1 ''X-Amz-Date'' = Some [amzDate]"
    using q by (simp_all add: Values_Set_def no_empty_update update_conv' del: map_of_eq_Some_iff)
  note get = Values_Get_unique [OF q1(2) no_empty_ParseQuery(2) parse_canonicalQueryString [OF q1(1), symmetric]]
  have "query_canonical_request req' (AList.delete ''X-Amz-Signature'' (URL_Query (hr_URL req'))) ph = query_canonical_request req ?q ph"
    by (simp add: query_canonical_request_def req' canonicalURI_def canonicalQueryString_delete [OF q(1-3)])
  then show ?thesis
    using ph payload_hash_cong [OF req'(2)] get [OF q1(3)] get [OF q1(4)] by (simp add: verify_query_def req'(1) sig_def Let_def)
qed


text \<open>Signing succeeds when the credential and the body are complete.\<close>

lemma sign_succeeds:
  assumes "AWSSigV4Signer_resolveProfile env s cred = Inr profile" and "case hr_Body req of Some (Inl _) \<Rightarrow> False | _ \<Rightarrow> True"
  shows "fst (AWSSigV4Signer_Sign env s req cred) = None"
proof -
  have "\<exists>ph. payload_hash env profile req = Inr ph"
    using assms(2) by (simp add: payload_hash_def readRequestBodyHash_def split: option.splits sum.splits)
  then show ?thesis
    by (auto simp add: AWSSigV4Signer_Sign_def assms(1) Let_def signAWSSigV4Query_def signAWSSigV4Header_def)
qed

definition sample_sign_env :: sign_env where
  "sample_sign_env = \<lparr>cx_sha256 = (\<lambda>s. take 4 (rev s)), cx_hmac = (\<lambda>k v. take 4 (rev (k @ v))),
     cx_format = (\<lambda>l t. if l = ''20060102'' then ''20260102'' else ''20260102T030405Z''), cx_now = 0, cx_text = (\<lambda>_. [])\<rparr>"

definition sample_aws :: "string \<Rightarrow> AWSSigV4Signer" where
  "sample_aws mode = \<lparr>aws_AccessKeyID = ''AK'', aws_SecretAccessKey = ''s'', aws_SessionToken = [], aws_Region = ''r'', aws_Service = ''v'',
     aws_Mode = mode, aws_QueryExpiry = 0, aws_UnsignedPayload = False, aws_AccessTokenHeader = [], aws_Now = None\<rparr>"

definition sample_http :: http_request where
  "sample_http = \<lparr>hr_Method = ''GET'', hr_URL = \<lparr>u_Scheme = ''https'', u_Host = ''h'', u_Path = ''/p'', u_EscapedPath = ''/p'',
     u_RawQuery = ''b=2&a=1'', u_Fragment = []\<rparr>, hr_Header = [], hr_Body = None\<rparr>"


end
