(* ===== verification/Provider_Operation.thy ===== *)
theory Provider_Operation
  imports Signing Rate_Limit
begin

text \<open>
  Calls of a provider: \<open>src/core/provider_operation_runtime.go\<close>, which resolves what a call needs, signs it, sends
  it under the rate-limit policy and retries it, and \<open>src/core/capability_operation_runtime.go\<close>, which runs the
  call of a capability after its permissions were checked. The transport, the rate-limit policy, the waiting between
  attempts and the callbacks of a request act on a state \<open>'w\<close>.
\<close>

section \<open>Requests and responses\<close>

record TransportRequest =
  tr_Method :: string
  tr_URL :: string
  tr_Headers :: "(string, string) gomap"
  tr_Query :: "(string, string) gomap"
  tr_Body :: string
  tr_Metadata :: meta
  tr_Timeout :: int
  tr_MaxResponseBodyBytes :: int
  tr_Idempotency :: string

record TransportResponse =
  tp_StatusCode :: int
  tp_Headers :: "(string, string) gomap"
  tp_Body :: string
  tp_Metadata :: meta

record 'w ProviderOperationRetryPolicy =
  op_MaxAttempts :: int
  op_InitialBackoff :: int
  op_MaxBackoff :: int
  op_RetryableStatusCodes :: "int list"
  op_Sleep :: "(int \<Rightarrow> 'w \<Rightarrow> goerr option \<times> 'w) option"
  op_ShouldRetry :: "(Provider \<Rightarrow> int \<Rightarrow> int \<Rightarrow> goerr option \<Rightarrow> ProviderResponseMeta \<Rightarrow> bool \<times> int) option"

record 'w TransportAdapter =
  ta_Kind :: string
  ta_Do :: "TransportRequest \<Rightarrow> ('w, TransportResponse) effect"

record 'w ProviderOperationRequest =
  oq_ProviderID :: string
  oq_ConnectionID :: string
  oq_Scope :: ScopeRef
  oq_Operation :: string
  oq_BucketKey :: string
  oq_TransportKind :: string
  oq_TransportConfig :: meta
  oq_TransportRequest :: TransportRequest
  oq_Adapter :: "'w TransportAdapter option"
  oq_Credential :: "ActiveCredential option"
  oq_IdempotencyKey :: string
  oq_Retry :: "'w ProviderOperationRetryPolicy"
  oq_Metadata :: meta
  oq_Normalize :: "(TransportResponse \<Rightarrow> ProviderResponseMeta result) option"

record ProviderOperationResult =
  or_ProviderID :: string
  or_ConnectionID :: string
  or_Operation :: string
  or_TransportKind :: string
  or_AuthStrategy :: string
  or_Idempotency :: string
  or_Response :: TransportResponse
  or_Meta :: ProviderResponseMeta
  or_Attempts :: int
  or_Retried :: bool
  or_Metadata :: meta

text \<open>
  The fields of the service that only these calls use. \<open>rt_parse\<close> is \<open>time.Parse\<close>, \<open>rt_parseURL\<close> and
  \<open>rt_printURL\<close> are \<open>url.Parse\<close> and \<open>URL.String\<close>, \<open>rt_wait\<close> is the timer that the end of the
  context interrupts.
\<close>

record 'w operation_runtime =
  rt_service :: "'w Service"
  rt_signing :: signing_config
  rt_BeforeCall :: "(RateLimitKey \<Rightarrow> 'w \<Rightarrow> goerr option \<times> 'w) option"
  rt_AfterCall :: "RateLimitKey \<Rightarrow> ProviderResponseMeta \<Rightarrow> 'w \<Rightarrow> goerr option \<times> 'w"
  rt_transportResolver :: "(string \<Rightarrow> meta \<Rightarrow> 'w TransportAdapter result) option"
  rt_wait :: "int \<Rightarrow> 'w \<Rightarrow> goerr option \<times> 'w"
  rt_parse :: "string \<Rightarrow> string \<Rightarrow> int option"
  rt_parseURL :: "string \<Rightarrow> URL result"
  rt_printURL :: "URL \<Rightarrow> string"
  rt_now :: int

definition copyStringMap :: "(string, string) gomap \<Rightarrow> (string, string) gomap" where
  "copyStringMap m = (if m = [] then [] else maps_Copy [] m)"

definition cloneTransportRequest :: "TransportRequest \<Rightarrow> TransportRequest" where
  "cloneTransportRequest r =
     \<lparr>tr_Method = tr_Method r, tr_URL = tr_URL r, tr_Headers = copyStringMap (tr_Headers r), tr_Query = copyStringMap (tr_Query r),
      tr_Body = tr_Body r, tr_Metadata = copyAnyMap (tr_Metadata r), tr_Timeout = tr_Timeout r,
      tr_MaxResponseBodyBytes = tr_MaxResponseBodyBytes r, tr_Idempotency = tr_Idempotency r\<rparr>"

section \<open>Retrying\<close>

definition defaultProviderOperationRetryStatuses :: "int list" where
  "defaultProviderOperationRetryStatuses = [429, 500, 502, 503, 504]"

definition normalizeProviderRetryPolicy :: "'w ProviderOperationRetryPolicy \<Rightarrow> 'w ProviderOperationRetryPolicy" where
  "normalizeProviderRetryPolicy policy =
     (let policy = (if op_MaxAttempts policy \<le> 0 then policy\<lparr>op_MaxAttempts := 1\<rparr> else policy);
          policy = (if op_InitialBackoff policy \<le> 0 then policy\<lparr>op_InitialBackoff := 200 * Millisecond\<rparr> else policy);
          policy = (if op_MaxBackoff policy \<le> 0 then policy\<lparr>op_MaxBackoff := 5 * Second\<rparr> else policy);
          policy = (if op_MaxBackoff policy < op_InitialBackoff policy then policy\<lparr>op_MaxBackoff := op_InitialBackoff policy\<rparr> else policy)
      in if length (op_RetryableStatusCodes policy) = 0
         then policy\<lparr>op_RetryableStatusCodes := defaultProviderOperationRetryStatuses\<rparr> else policy)"

definition defaultRetryDelayForAttempt :: "'w ProviderOperationRetryPolicy \<Rightarrow> int \<Rightarrow> int option \<Rightarrow> int" where
  "defaultRetryDelayForAttempt policy attempt retryAfter =
     (case retryAfter of
        Some d \<Rightarrow> if d > 0 then d
          else (case backoff_loop (op_MaxBackoff policy) (nat (attempt - 1)) (op_InitialBackoff policy) of
                  None \<Rightarrow> op_MaxBackoff policy | Some d \<Rightarrow> if d > op_MaxBackoff policy then op_MaxBackoff policy else d)
      | None \<Rightarrow>
          (case backoff_loop (op_MaxBackoff policy) (nat (attempt - 1)) (op_InitialBackoff policy) of
             None \<Rightarrow> op_MaxBackoff policy | Some d \<Rightarrow> if d > op_MaxBackoff policy then op_MaxBackoff policy else d))"

definition isContextCancellation :: "goerr \<Rightarrow> bool" where
  "isContextCancellation err \<longleftrightarrow> errors_Is err context_Canceled \<or> errors_Is err context_DeadlineExceeded"

definition shouldRetryProviderOperation ::
  "Provider \<Rightarrow> 'w ProviderOperationRetryPolicy \<Rightarrow> int \<Rightarrow> goerr option \<Rightarrow> ProviderResponseMeta \<Rightarrow> bool \<times> int" where
  "shouldRetryProviderOperation provider policy attempt opErr m =
     (if attempt \<ge> op_MaxAttempts policy then (False, 0)
      else case op_ShouldRetry policy of
        Some f \<Rightarrow>
          (case f provider attempt (op_MaxAttempts policy) opErr m of (retry, delay) \<Rightarrow>
             if \<not> retry then (False, 0)
             else (True, if delay \<le> 0 then defaultRetryDelayForAttempt policy attempt (pr_RetryAfter m) else delay))
      | None \<Rightarrow>
          (case opErr of
             Some err \<Rightarrow> if isContextCancellation err then (False, 0)
               else (True, defaultRetryDelayForAttempt policy attempt (pr_RetryAfter m))
           | None \<Rightarrow>
               if pr_StatusCode m \<in> set (op_RetryableStatusCodes policy)
               then (True, defaultRetryDelayForAttempt policy attempt (pr_RetryAfter m)) else (False, 0)))"

definition sleepProviderRetry ::
  "'w operation_runtime \<Rightarrow> (int \<Rightarrow> 'w \<Rightarrow> goerr option \<times> 'w) option \<Rightarrow> int \<Rightarrow> 'w \<Rightarrow> goerr option \<times> 'w" where
  "sleepProviderRetry rt sleepFn delay w =
     (if delay \<le> 0 then (None, w)
      else case sleepFn of Some f \<Rightarrow> f delay w | None \<Rightarrow> rt_wait rt delay w)"

section \<open>Errors of a call\<close>

record ProviderOperationError =
  oe_ProviderID :: string
  oe_Operation :: string
  oe_Attempt :: int
  oe_MaxAttempts :: int
  oe_StatusCode :: int
  oe_Retryable :: bool
  oe_Idempotency :: string
  oe_TransportKind :: string
  oe_Cause :: "goerr option"

definition ProviderOperationError_Error :: "ProviderOperationError \<Rightarrow> string" where
  "ProviderOperationError_Error e =
     ''core: provider operation failed'' @
     (if oe_ProviderID e \<noteq> [] then '' provider='' @ oe_ProviderID e else []) @
     (if oe_Operation e \<noteq> [] then '' operation='' @ oe_Operation e else []) @
     (if oe_StatusCode e > 0 then '' status='' @ Itoa (oe_StatusCode e) else [])"

definition operation_error_metadata :: "ProviderOperationError \<Rightarrow> meta" where
  "operation_error_metadata e =
     [(''provider_id'', AStr (oe_ProviderID e)), (''operation'', AStr (oe_Operation e)), (''attempt'', AInt (oe_Attempt e)),
      (''max_attempts'', AInt (oe_MaxAttempts e)), (''status_code'', AInt (oe_StatusCode e)), (''retryable'', ABool (oe_Retryable e)),
      (''idempotency'', AStr (oe_Idempotency e)), (''transport_kind'', AStr (oe_TransportKind e))]"

definition ProviderOperationError_ToServiceError :: "(goerr \<Rightarrow> string) \<Rightarrow> ProviderOperationError \<Rightarrow> rich_error" where
  "ProviderOperationError_ToServiceError txt e =
     (let (category, textCode, code) =
            (if oe_StatusCode e = 429 then (CategoryRateLimit, ServiceErrorRateLimited, 429)
             else if oe_StatusCode e = 401 then (CategoryAuth, ServiceErrorUnauthorized, 401)
             else if oe_StatusCode e = 403 then (CategoryAuthz, ServiceErrorForbidden, 403)
             else (CategoryExternal, ServiceErrorProviderOperationFailed, if oe_StatusCode e \<ge> 400 then oe_StatusCode e else 502));
          message = (case oe_Cause e of Some cause \<Rightarrow> txt cause | None \<Rightarrow> ProviderOperationError_Error e)
      in (goerrors_New message category)\<lparr>Code := code, TextCode := code_text textCode, ErrMeta := operation_error_metadata e\<rparr>)"

text \<open>The error as a Go error value: it converts to a service error and wraps its cause.\<close>

definition operation_error :: "(goerr \<Rightarrow> string) \<Rightarrow> ProviderOperationError \<Rightarrow> goerr" where
  "operation_error txt e =
     Convertible (ProviderOperationError_Error e) (Some (ProviderOperationError_ToServiceError txt e))
       (case oe_Cause e of None \<Rightarrow> [] | Some cause \<Rightarrow> [cause])"

record 'w resolvedProviderOperationRequest =
  rv_provider :: Provider
  rv_adapter :: "'w TransportAdapter"
  rv_signer :: "Signer option"
  rv_credential :: "ActiveCredential option"
  rv_connectionID :: string
  rv_operation :: string
  rv_transportKind :: string
  rv_authStrategy :: string
  rv_transportRequest :: TransportRequest
  rv_idempotencyKey :: string
  rv_rateLimitKey :: RateLimitKey
  rv_rateLimitEnabled :: bool

definition wrapProviderOperationError ::
  "'w operation_runtime \<Rightarrow> 'w resolvedProviderOperationRequest \<Rightarrow> int \<Rightarrow> int \<Rightarrow> int \<Rightarrow> goerr \<Rightarrow> bool \<Rightarrow> goerr" where
  "wrapProviderOperationError rt resolved attempt maxAttempts statusCode source retryable =
     (let txt = svc_text (rt_service rt);
          limited = (statusCode = 429 \<or> Contains (ToLower (txt source)) ''throttl'');
          opErr = \<lparr>oe_ProviderID = prov_ID (rv_provider resolved), oe_Operation = rv_operation resolved, oe_Attempt = attempt,
            oe_MaxAttempts = maxAttempts, oe_StatusCode = statusCode, oe_Retryable = retryable,
            oe_Idempotency = rv_idempotencyKey resolved, oe_TransportKind = rv_transportKind resolved, oe_Cause = Some source\<rparr>;
          wrapped = (goerrors_New (txt source) (if limited then CategoryRateLimit else CategoryExternal))
            \<lparr>TextCode := code_text (if limited then ServiceErrorRateLimited else ServiceErrorProviderOperationFailed),
             ErrMeta := operation_error_metadata opErr\<rparr>
      in Rich (ensureServiceErrorEnvelope wrapped) (Some (operation_error txt opErr)))"

section \<open>Reading a response\<close>

definition parseRetryAfterHeader :: "'w operation_runtime \<Rightarrow> (string, string) gomap \<Rightarrow> int option" where
  "parseRetryAfterHeader rt headers =
     (let raw = headerValue headers ''retry-after'' in
      if raw = [] then None
      else
        let later = (\<lambda>layout. case rt_parse rt layout raw of
              Some retryAt \<Rightarrow> if retryAt > rt_now rt then Some (time_Sub retryAt (rt_now rt)) else None | None \<Rightarrow> None);
            dates = (case later ''Mon, 02 Jan 2006 15:04:05 MST'' of
              Some d \<Rightarrow> Some d | None \<Rightarrow> later ''Mon, 02 Jan 2006 15:04:05 -0700'')
        in case Atoi raw of
             Some seconds \<Rightarrow> if seconds > 0 then Some (wrap64 (seconds * Second)) else dates
           | None \<Rightarrow> dates)"

definition normalizeProviderOperationResponse ::
  "'w operation_runtime \<Rightarrow> (TransportResponse \<Rightarrow> ProviderResponseMeta result) option \<Rightarrow> TransportResponse \<Rightarrow> ProviderResponseMeta result" where
  "normalizeProviderOperationResponse rt normalizer response =
     (case normalizer of
        Some f \<Rightarrow> f response
      | None \<Rightarrow> Inr \<lparr>pr_StatusCode = tp_StatusCode response, pr_Headers = copyStringMap (tp_Headers response),
          pr_RetryAfter = parseRetryAfterHeader rt (tp_Headers response), pr_Metadata = copyAnyMap (tp_Metadata response)\<rparr>)"

definition mergeProviderOperationMetadata :: "meta \<Rightarrow> meta \<Rightarrow> meta" where
  "mergeProviderOperationMetadata base extras =
     (if length base = 0 \<and> length extras = 0 then [] else maps_Copy (copyAnyMap base) extras)"

section \<open>Signing a call\<close>

definition transportToHTTPRequest :: "'w operation_runtime \<Rightarrow> TransportRequest \<Rightarrow> http_request result" where
  "transportToHTTPRequest rt request =
     (let m = TrimSpace (ToUpper (tr_Method request));
          m = (if m = [] then ''GET'' else m);
          rawURL = TrimSpace (tr_URL request) in
      if rawURL = [] then Inl (Plain ''core: transport request url is required'')
      else case rt_parseURL rt rawURL of
        Inl err \<Rightarrow> Inl err
      | Inr parsedURL \<Rightarrow>
          let query = fold (\<lambda>(k, v). Values_Set (TrimSpace k) (TrimSpace v)) (tr_Query request) (URL_Query parsedURL);
              parsedURL = parsedURL\<lparr>u_RawQuery := Values_Encode query\<rparr> in
          if \<not> list_all header_byte m then Inl (Plain (''net/http: invalid method '' @ quote m))
          else case rt_parseURL rt (rt_printURL rt parsedURL) of
            Inl err \<Rightarrow> Inl err
          | Inr u \<Rightarrow>
              Inr \<lparr>hr_Method = m, hr_URL = u\<lparr>u_Host := TrimSuffix (u_Host u) '':''\<rparr>,
                hr_Header = fold (\<lambda>(k, v). Header_Set k v) (tr_Headers request) [], hr_Body = Some (Inr (tr_Body request))\<rparr>)"

definition last_values :: "(string, string list) gomap \<Rightarrow> (string, string) gomap" where
  "last_values m = map (\<lambda>(k, vs). (k, last vs)) (filter (\<lambda>(k, vs). vs \<noteq> []) m)"

definition httpToTransportRequest :: "'w operation_runtime \<Rightarrow> http_request \<Rightarrow> TransportRequest \<Rightarrow> TransportRequest result" where
  "httpToTransportRequest rt httpRequest original =
     (let out = (cloneTransportRequest original)\<lparr>tr_Method := hr_Method httpRequest, tr_URL := rt_printURL rt (hr_URL httpRequest),
            tr_Headers := last_values (hr_Header httpRequest), tr_Query := last_values (URL_Query (hr_URL httpRequest))\<rparr> in
      case hr_Body httpRequest of
        None \<Rightarrow> Inr out
      | Some (Inl err) \<Rightarrow> Inl err
      | Some (Inr payload) \<Rightarrow> Inr (out\<lparr>tr_Body := payload\<rparr>))"

definition parseAuthDirective :: "string \<Rightarrow> string \<Rightarrow> string" where
  "parseAuthDirective header key =
     (let target = ToLower (TrimSpace key);
          directive = (\<lambda>part. let p = TrimSpace part in
            if CHR ''='' \<notin> set p then None
            else case Cut p (CHR ''='') of (k, v) \<Rightarrow>
              if ToLower (TrimSpace (TrimPrefix k ''AWS4-HMAC-SHA256 '')) = target then Some (TrimSpace v) else None)
      in case List.map_filter directive (Split header (CHR '','')) of [] \<Rightarrow> [] | v # _ \<Rightarrow> v)"

definition parseSigV4CredentialScope :: "string \<Rightarrow> (string \<times> string) option" where
  "parseSigV4CredentialScope value =
     (let parts = Split (TrimSpace value) (CHR ''/'') in
      if length parts < 5 then None
      else
        let region = TrimSpace (parts ! 2); service = TrimSpace (parts ! 3)
        in if region = [] \<or> service = [] then None else Some (region, service))"

definition meta_if :: "string \<Rightarrow> string \<Rightarrow> meta" where
  "meta_if key value = (if value \<noteq> [] then [(key, AStr value)] else [])"

text \<open>A map literal with entries added where their value is not empty. The result is nil for other kinds of credential.\<close>

definition collectSigningMetadata :: "http_request \<Rightarrow> ActiveCredential \<Rightarrow> meta" where
  "collectSigningMetadata req credential =
     (if normalizeAuthKind (resolveCredentialAuthKind credential) \<noteq> ''aws_sigv4'' then []
      else
        let q = URL_Query (hr_URL req);
            fallback = (metadataString (ak_Metadata credential) [''aws_region'', ''region''],
              metadataString (ak_Metadata credential) [''aws_service'', ''service'']);
            authHeader = TrimSpace (Header_Get (hr_Header req) ''Authorization'');
            querySigned = TrimSpace (Values_Get q ''X-Amz-SignedHeaders'');
            (mode, (region, service)) =
              (if HasPrefix authHeader ''AWS4-HMAC-SHA256'' then
                 ((''signing_mode'', AStr ''header'') # meta_if ''signed_headers'' (parseAuthDirective authHeader ''SignedHeaders''),
                  case parseSigV4CredentialScope (parseAuthDirective authHeader ''Credential'') of Some rs \<Rightarrow> rs | None \<Rightarrow> fallback)
               else if querySigned \<noteq> [] then
                 ([(''signing_mode'', AStr ''query''), (''signed_headers'', AStr querySigned)],
                  case parseSigV4CredentialScope (Values_Get q ''X-Amz-Credential'') of Some rs \<Rightarrow> rs | None \<Rightarrow> fallback)
               else ([], fallback))
        in [(''signing_profile'', AStr ''aws_sigv4''), (''signed_host'', AStr (u_Host (hr_URL req)))] @ mode @
           meta_if ''signed_region'' region @ meta_if ''signed_service'' service @
           meta_if ''signed_at'' (firstNonEmpty [TrimSpace (Header_Get (hr_Header req) ''X-Amz-Date''), TrimSpace (Values_Get q ''X-Amz-Date'')]) @
           meta_if ''signing_expires_seconds'' (TrimSpace (Values_Get q ''X-Amz-Expires'')))"

definition signProviderTransportRequest ::
  "'w operation_runtime \<Rightarrow> Signer \<Rightarrow> TransportRequest \<Rightarrow> ActiveCredential \<Rightarrow> (TransportRequest \<times> meta) result" where
  "signProviderTransportRequest rt signer request credential =
     (case transportToHTTPRequest rt request of
        Inl err \<Rightarrow> Inl err
      | Inr httpRequest \<Rightarrow>
          (case Signer_Sign (sgn_env (rt_signing rt)) signer httpRequest credential of
             (Some err, _) \<Rightarrow> Inl err
           | (None, httpRequest) \<Rightarrow>
               (case httpToTransportRequest rt httpRequest request of
                  Inl err \<Rightarrow> Inl err
                | Inr sent \<Rightarrow> Inr (sent, collectSigningMetadata httpRequest credential))))"

text \<open>A difference of at least 30 seconds between the signing time and the date of the response.\<close>

definition computeSigningClockSkewHint :: "'w operation_runtime \<Rightarrow> meta \<Rightarrow> (string, string) gomap \<Rightarrow> int option" where
  "computeSigningClockSkewHint rt signing headers =
     (case map_of signing ''signed_at'' of
        None \<Rightarrow> None
      | Some raw \<Rightarrow>
          let signedAtValue = TrimSpace (Sprint (svc_ff (rt_service rt)) raw);
              rawResponseDate = headerValue headers ''date'' in
          (case (if signedAtValue = [] then None else rt_parse rt ''20060102T150405Z'' signedAtValue) of
             None \<Rightarrow> None
           | Some signedAt \<Rightarrow>
               if rawResponseDate = [] then None
               else (case (case rt_parse rt ''Mon, 02 Jan 2006 15:04:05 MST'' rawResponseDate of
                      Some t \<Rightarrow> Some t | None \<Rightarrow> rt_parse rt ''Mon, 02 Jan 2006 15:04:05 -0700'' rawResponseDate) of
                  None \<Rightarrow> None
                | Some responseDate \<Rightarrow>
                    let diff = time_Sub responseDate signedAt in
                    if \<bar>diff\<bar> < 30 * Second then None
                    else Some (if diff < 0 then - (- diff div Second) else diff div Second))))"

section \<open>Resolving a call\<close>

definition normalizeOperation :: "string \<Rightarrow> string" where
  "normalizeOperation operation = ReplaceAll ''-'' ''_'' (ReplaceAll '' '' ''_'' (TrimSpace (ToLower operation)))"

definition canonicalTransportRequestURL :: "'w operation_runtime \<Rightarrow> string \<Rightarrow> (string, string) gomap \<Rightarrow> string" where
  "canonicalTransportRequestURL rt rawURL query =
     (let trimmedURL = TrimSpace rawURL in
      case rt_parseURL rt trimmedURL of
        Inl _ \<Rightarrow> trimmedURL
      | Inr parsedURL \<Rightarrow>
          let vs = fold (\<lambda>(k, v) m. if TrimSpace k = [] then m else Values_Set (TrimSpace k) (TrimSpace v) m) query (URL_Query parsedURL)
          in rt_printURL rt (parsedURL\<lparr>u_RawQuery := Values_Encode vs\<rparr>))"

definition idempotency_text :: "'w operation_runtime \<Rightarrow> string \<Rightarrow> string \<Rightarrow> string \<Rightarrow> TransportRequest \<Rightarrow> string" where
  "idempotency_text rt providerID connectionID operation request =
     TrimSpace (ToLower providerID) @ ''|'' @ TrimSpace connectionID @ ''|'' @ TrimSpace (ToLower operation) @ ''|'' @
     TrimSpace (ToUpper (tr_Method request)) @ ''|'' @ canonicalTransportRequestURL rt (tr_URL request) (tr_Query request) @ ''|'' @
     tr_Body request"

definition generateIdempotencyKey :: "'w operation_runtime \<Rightarrow> string \<Rightarrow> string \<Rightarrow> string \<Rightarrow> TransportRequest \<Rightarrow> string" where
  "generateIdempotencyKey rt providerID connectionID operation request =
     hex_encode (cx_sha256 (sgn_env (rt_signing rt)) (idempotency_text rt providerID connectionID operation request))"

definition resolveProviderOperationAdapter ::
  "'w operation_runtime \<Rightarrow> 'w ProviderOperationRequest \<Rightarrow> ('w TransportAdapter \<times> string) result" where
  "resolveProviderOperationAdapter rt req =
     (let kind = TrimSpace (ToLower (oq_TransportKind req)) in
      case oq_Adapter req of
        Some adapter \<Rightarrow>
          let kind = (if kind = [] then TrimSpace (ToLower (ta_Kind adapter)) else kind)
          in Inr (adapter, if kind = [] then ''rest'' else kind)
      | None \<Rightarrow>
          (case rt_transportResolver rt of
             None \<Rightarrow> Inl (Plain ''core: transport resolver is required'')
           | Some build \<Rightarrow>
               let kind = (if kind = [] then ''rest'' else kind) in
               (case build kind (copyAnyMap (oq_TransportConfig req)) of Inl err \<Rightarrow> Inl err | Inr adapter \<Rightarrow> Inr (adapter, kind))))"

definition resolveProviderOperationCredential ::
  "'w operation_runtime \<Rightarrow> 'w ProviderOperationRequest \<Rightarrow> string \<Rightarrow> 'w \<Rightarrow> (ActiveCredential option) result" where
  "resolveProviderOperationCredential rt req connectionID w =
     (case oq_Credential req of
        Some c \<Rightarrow> Inr (Some c)
      | None \<Rightarrow>
          (case svc_credentialStore (rt_service rt) of
             None \<Rightarrow> Inr None
           | Some store \<Rightarrow>
               if TrimSpace connectionID = [] then Inr None
               else (case kst_GetActive store connectionID w of
                  Inl err \<Rightarrow> Inl err
                | Inr stored \<Rightarrow> (case credentialToActive (rt_service rt) stored of Inl err \<Rightarrow> Inl err | Inr active \<Rightarrow> Inr (Some active)))))"

definition rv_owner :: "'w operation_runtime \<Rightarrow> 'w ProviderOperationRequest \<Rightarrow> 'w \<Rightarrow> (string \<times> Connection option) result" where
  "rv_owner rt req w =
     (let s = rt_service rt; providerID = TrimSpace (oq_ProviderID req); connectionID = TrimSpace (oq_ConnectionID req) in
      case (if connectionID = [] then Inr (providerID, None)
            else case svc_connectionStore s of
              None \<Rightarrow> Inr (providerID, None)
            | Some store \<Rightarrow>
                (case cst_Get store connectionID w of
                   Inl err \<Rightarrow> Inl (svc_mapError s err)
                 | Inr connection \<Rightarrow>
                     let providerID = (if providerID = [] then TrimSpace (conn_ProviderID connection) else providerID) in
                     if \<not> EqualFold providerID (conn_ProviderID connection)
                     then Inl (svc_mapError s (Plain (''core: provider mismatch for connection '' @ quote connectionID @
                       '': got '' @ quote providerID @ '' want '' @ quote (conn_ProviderID connection))))
                     else Inr (providerID, Some connection))) of
        Inl err \<Rightarrow> Inl err
      | Inr (providerID, connection) \<Rightarrow>
          if providerID = [] then Inl (svc_mapError s (Plain ''core: provider id is required'')) else Inr (providerID, connection))"

definition keyed_request :: "'w operation_runtime \<Rightarrow> 'w ProviderOperationRequest \<Rightarrow> string \<Rightarrow> string \<Rightarrow> TransportRequest" where
  "keyed_request rt req providerID connectionID =
     (let request = cloneTransportRequest (oq_TransportRequest req);
          key = TrimSpace (oq_IdempotencyKey req);
          key = (if key = [] then TrimSpace (tr_Idempotency request) else key);
          key = (if key = [] then generateIdempotencyKey rt providerID connectionID (oq_Operation req) request else key);
          headers = copyStringMap (tr_Headers request)
      in request\<lparr>tr_Idempotency := key,
           tr_Headers := (if map_of headers ''Idempotency-Key'' = None then AList.update ''Idempotency-Key'' key headers else headers)\<rparr>)"

definition operation_name :: "'w ProviderOperationRequest \<Rightarrow> TransportRequest \<Rightarrow> string \<Rightarrow> string" where
  "operation_name req request kind =
     (let operation = TrimSpace (oq_Operation req) in
      if operation \<noteq> [] then operation
      else
        let m = TrimSpace (ToUpper (tr_Method request))
        in normalizeOperation ((if m = [] then ''GET'' else m) @ ''_'' @ kind))"

definition operation_scope :: "'w ProviderOperationRequest \<Rightarrow> Connection option \<Rightarrow> ScopeRef" where
  "operation_scope req connection =
     (let scope = \<lparr>scope_Type = TrimSpace (ToLower (scope_Type (oq_Scope req))), scope_ID = TrimSpace (scope_ID (oq_Scope req))\<rparr> in
      if scope_Type scope = [] \<and> scope_ID scope = [] then
        (case connection of
           Some c \<Rightarrow> if conn_ID c \<noteq> [] then \<lparr>scope_Type = conn_ScopeType c, scope_ID = conn_ScopeID c\<rparr> else scope
         | None \<Rightarrow> scope)
      else scope)"

definition bucket_key :: "'w ProviderOperationRequest \<Rightarrow> string \<Rightarrow> string" where
  "bucket_key req operation =
     (let key = TrimSpace (ToLower (oq_BucketKey req));
          key = (if key = [] then normalizeOperation operation else key)
      in if key = [] then ''default'' else key)"

definition resolveProviderOperationRequest ::
  "'w operation_runtime \<Rightarrow> 'w ProviderOperationRequest \<Rightarrow> 'w \<Rightarrow> 'w resolvedProviderOperationRequest result" where
  "resolveProviderOperationRequest rt req w =
     (let s = rt_service rt; connectionID = TrimSpace (oq_ConnectionID req) in
      case rv_owner rt req w of
        Inl err \<Rightarrow> Inl err
      | Inr (providerID, connection) \<Rightarrow>
      (case resolveProvider s providerID of
        Inl err \<Rightarrow> Inl err
      | Inr provider \<Rightarrow>
          let authStrategy = (case resolveAuthStrategy s (Some provider) of Some st \<Rightarrow> normalizeAuthKind (as_Type st) | None \<Rightarrow> []) in
          (case resolveProviderOperationAdapter rt req of
             Inl err \<Rightarrow> Inl (svc_mapError s err)
           | Inr (adapter, kind) \<Rightarrow>
               let request = keyed_request rt req providerID connectionID in
               (case resolveProviderOperationCredential rt req connectionID w of
                  Inl err \<Rightarrow> Inl (svc_mapError s err)
                | Inr credential \<Rightarrow>
                    let operation = operation_name req request kind;
                        scope = operation_scope req connection;
                        enabled = (rt_BeforeCall rt \<noteq> None \<and> scope_Type scope \<noteq> [] \<and> scope_ID scope \<noteq> [] \<and> ScopeRef_Validate scope = None)
                    in Inr \<lparr>rv_provider = provider, rv_adapter = adapter,
                         rv_signer = resolveSignerForCredential (rt_signing rt) provider credential, rv_credential = credential,
                         rv_connectionID = connectionID, rv_operation = operation, rv_transportKind = kind, rv_authStrategy = authStrategy,
                         rv_transportRequest = request, rv_idempotencyKey = tr_Idempotency request,
                         rv_rateLimitKey = (if enabled then \<lparr>rk_ProviderID = providerID, rk_ScopeType = scope_Type scope,
                             rk_ScopeID = scope_ID scope, rk_BucketKey = bucket_key req operation\<rparr>
                           else \<lparr>rk_ProviderID = [], rk_ScopeType = [], rk_ScopeID = [], rk_BucketKey = []\<rparr>),
                         rv_rateLimitEnabled = enabled\<rparr>))))"

section \<open>The call\<close>

text \<open>
  One turn of the loop: the call is over, with an error or without, or it goes on after the waiting that the retry
  asks for. An error of the waiting ends the call.
\<close>

datatype turn = Over ProviderOperationResult "goerr option" | Again ProviderOperationResult goerr int

definition zero_meta :: ProviderResponseMeta where
  "zero_meta = \<lparr>pr_StatusCode = 0, pr_Headers = [], pr_RetryAfter = None, pr_Metadata = []\<rparr>"

definition retry_or_stop ::
  "'w operation_runtime \<Rightarrow> 'w resolvedProviderOperationRequest \<Rightarrow> 'w ProviderOperationRetryPolicy \<Rightarrow> int \<Rightarrow> int \<Rightarrow>
     goerr option \<Rightarrow> ProviderResponseMeta \<Rightarrow> goerr \<Rightarrow> goerr option \<Rightarrow> ProviderOperationResult \<Rightarrow> 'w \<Rightarrow> turn \<times> 'w" where
  "retry_or_stop rt resolved retry attempt lastStatus opErr m again stop result w =
     (case shouldRetryProviderOperation (rv_provider resolved) retry attempt opErr m of
        (False, _) \<Rightarrow> (Over result stop, w)
      | (True, delay) \<Rightarrow>
          let result = result\<lparr>or_Retried := True\<rparr> in
          (case sleepProviderRetry rt (op_Sleep retry) delay w of
             (Some sleepErr, w') \<Rightarrow> (Over result (Some sleepErr), w')
           | (None, w') \<Rightarrow> (Again result again lastStatus, w')))"

definition status_error :: "'w operation_runtime \<Rightarrow> 'w resolvedProviderOperationRequest \<Rightarrow> int \<Rightarrow> int \<Rightarrow> int \<Rightarrow> goerr option" where
  "status_error rt resolved attempt maxAttempts status =
     (if status \<ge> 400
      then Some (wrapProviderOperationError rt resolved attempt maxAttempts status (Plain (''provider operation returned status '' @ Itoa status)) False)
      else None)"

text \<open>What is sent: the resolved request, signed when there are a signer and a credential.\<close>

definition outgoing :: "'w operation_runtime \<Rightarrow> 'w resolvedProviderOperationRequest \<Rightarrow> (TransportRequest \<times> meta) result" where
  "outgoing rt resolved =
     (let request = cloneTransportRequest (rv_transportRequest resolved) in
      case (rv_signer resolved, rv_credential resolved) of
        (Some signer, Some credential) \<Rightarrow> signProviderTransportRequest rt signer request credential
      | _ \<Rightarrow> Inr (request, []))"

text \<open>After the response: its meta data, the rate-limit policy, and the decision on the status.\<close>

definition after_response ::
  "'w operation_runtime \<Rightarrow> 'w ProviderOperationRequest \<Rightarrow> 'w resolvedProviderOperationRequest \<Rightarrow> 'w ProviderOperationRetryPolicy \<Rightarrow>
     int \<Rightarrow> int \<Rightarrow> meta \<Rightarrow> TransportResponse \<Rightarrow> ProviderOperationResult \<Rightarrow> 'w \<Rightarrow> turn \<times> 'w" where
  "after_response rt req resolved retry attempt lastStatus signing response result w =
     (let wrap = wrapProviderOperationError rt resolved attempt (op_MaxAttempts retry) in
      case normalizeProviderOperationResponse rt (oq_Normalize req) response of
        Inl err \<Rightarrow> (Over result (Some (wrap (tp_StatusCode response) err False)), w)
      | Inr m \<Rightarrow>
          let merged = mergeProviderOperationMetadata (pr_Metadata m) signing;
              m = m\<lparr>pr_Metadata := (case computeSigningClockSkewHint rt signing (tp_Headers response) of
                    Some skew \<Rightarrow> AList.update ''clock_skew_hint_seconds'' (AInt64 skew) merged | None \<Rightarrow> merged)\<rparr>;
              result = result\<lparr>or_Response := response, or_Meta := m\<rparr>;
              status = pr_StatusCode m;
              decide = retry_or_stop rt resolved retry attempt status None m
                (wrap status (Plain (''provider operation status '' @ Itoa status @ '' marked retryable'')) True)
                (status_error rt resolved attempt (op_MaxAttempts retry) status) result in
          if rv_rateLimitEnabled resolved then
            (case rt_AfterCall rt (rv_rateLimitKey resolved) m w of
               (Some afterErr, w') \<Rightarrow>
                 retry_or_stop rt resolved retry attempt status (Some afterErr) m (wrap status afterErr True)
                   (Some (wrap status afterErr True)) result w'
             | (None, w') \<Rightarrow> decide w')
          else decide w)"

definition operation_attempt ::
  "'w operation_runtime \<Rightarrow> 'w ProviderOperationRequest \<Rightarrow> 'w resolvedProviderOperationRequest \<Rightarrow> 'w ProviderOperationRetryPolicy \<Rightarrow>
     int \<Rightarrow> int \<Rightarrow> ProviderOperationResult \<Rightarrow> 'w \<Rightarrow> turn \<times> 'w" where
  "operation_attempt rt req resolved retry attempt lastStatus result w =
     (let result = result\<lparr>or_Attempts := attempt\<rparr>;
          wrap = wrapProviderOperationError rt resolved attempt (op_MaxAttempts retry);
          failed = (\<lambda>err. retry_or_stop rt resolved retry attempt lastStatus (Some err) zero_meta (wrap 0 err True) (Some (wrap 0 err True)) result);
          call = (\<lambda>w. case outgoing rt resolved of
              Inl signErr \<Rightarrow> (Over result (Some (wrap 0 signErr False)), w)
            | Inr (request, signing) \<Rightarrow>
                (case ta_Do (rv_adapter resolved) request w of
                   (Inl callErr, w') \<Rightarrow> failed callErr w'
                 | (Inr response, w') \<Rightarrow> after_response rt req resolved retry attempt lastStatus signing response result w'))
      in case (if rv_rateLimitEnabled resolved then rt_BeforeCall rt else None) of
           None \<Rightarrow> call w
         | Some before \<Rightarrow>
             (case before (rv_rateLimitKey resolved) w of
                (Some beforeErr, w') \<Rightarrow> failed beforeErr w'
              | (None, w') \<Rightarrow> call w'))"

text \<open>\<open>for attempt := 1; attempt <= retry.MaxAttempts; attempt++\<close>, with \<open>n\<close> attempts left.\<close>

fun operation_loop ::
  "'w operation_runtime \<Rightarrow> 'w ProviderOperationRequest \<Rightarrow> 'w resolvedProviderOperationRequest \<Rightarrow> 'w ProviderOperationRetryPolicy \<Rightarrow>
     nat \<Rightarrow> int \<Rightarrow> int \<Rightarrow> goerr option \<Rightarrow> ProviderOperationResult \<Rightarrow> 'w \<Rightarrow> (ProviderOperationResult \<times> goerr option) \<times> 'w" where
  "operation_loop rt req resolved retry 0 attempt lastStatus lastErr result w =
     ((result, Some (case lastErr of
         Some err \<Rightarrow> err
       | None \<Rightarrow> wrapProviderOperationError rt resolved (op_MaxAttempts retry) (op_MaxAttempts retry) lastStatus
           (Plain ''provider operation exceeded retry attempts'') True)), w)"
| "operation_loop rt req resolved retry (Suc n) attempt lastStatus lastErr result w =
     (case operation_attempt rt req resolved retry attempt lastStatus result w of
        (Over result' err, w') \<Rightarrow> ((result', err), w')
      | (Again result' err status, w') \<Rightarrow> operation_loop rt req resolved retry n (attempt + 1) status (Some err) result' w')"

definition zero_response :: TransportResponse where
  "zero_response = \<lparr>tp_StatusCode = 0, tp_Headers = [], tp_Body = [], tp_Metadata = []\<rparr>"

definition zero_operation_result :: ProviderOperationResult where
  "zero_operation_result =
     \<lparr>or_ProviderID = [], or_ConnectionID = [], or_Operation = [], or_TransportKind = [], or_AuthStrategy = [], or_Idempotency = [],
      or_Response = zero_response, or_Meta = zero_meta, or_Attempts = 0, or_Retried = False, or_Metadata = []\<rparr>"

definition initial_result :: "'w ProviderOperationRequest \<Rightarrow> 'w resolvedProviderOperationRequest \<Rightarrow> ProviderOperationResult" where
  "initial_result req resolved =
     zero_operation_result\<lparr>or_ProviderID := prov_ID (rv_provider resolved), or_ConnectionID := rv_connectionID resolved,
       or_Operation := rv_operation resolved, or_TransportKind := rv_transportKind resolved,
       or_AuthStrategy := rv_authStrategy resolved, or_Idempotency := rv_idempotencyKey resolved,
       or_Metadata := copyAnyMap (oq_Metadata req)\<rparr>"

definition ExecuteProviderOperation ::
  "'w operation_runtime option \<Rightarrow> 'w ProviderOperationRequest \<Rightarrow> 'w \<Rightarrow> (ProviderOperationResult \<times> goerr option) \<times> 'w" where
  "ExecuteProviderOperation receiver req w =
     (case receiver of
        None \<Rightarrow> ((zero_operation_result, Some (Plain ''core: service is nil'')), w)
      | Some rt \<Rightarrow>
          (case resolveProviderOperationRequest rt req w of
             Inl err \<Rightarrow> ((zero_operation_result, Some err), w)
           | Inr resolved \<Rightarrow>
               let retry = normalizeProviderRetryPolicy (oq_Retry req)
               in operation_loop rt req resolved retry (nat (op_MaxAttempts retry)) 1 0 None (initial_result req resolved) w))"

section \<open>What a call sends\<close>

text \<open>
  A record of the requests that were sent, kept anywhere in the state: the transport adds to it, everything else
  leaves it alone.
\<close>

definition records_sent :: "('w \<Rightarrow> TransportRequest list) \<Rightarrow> 'w operation_runtime \<Rightarrow> 'w ProviderOperationRequest \<Rightarrow> 'w TransportAdapter \<Rightarrow> bool" where
  "records_sent sent rt req adapter \<longleftrightarrow>
     (\<forall>r w. sent (snd (ta_Do adapter r w)) = sent w @ [r]) \<and>
     (\<forall>before k w. rt_BeforeCall rt = Some before \<longrightarrow> sent (snd (before k w)) = sent w) \<and>
     (\<forall>k m w. sent (snd (rt_AfterCall rt k m w)) = sent w) \<and>
     (\<forall>d w. sent (snd (rt_wait rt d w)) = sent w) \<and>
     (\<forall>f d w. op_Sleep (oq_Retry req) = Some f \<longrightarrow> sent (snd (f d w)) = sent w)"

lemma normalize_policy [simp]:
  "op_Sleep (normalizeProviderRetryPolicy p) = op_Sleep p" "op_ShouldRetry (normalizeProviderRetryPolicy p) = op_ShouldRetry p"
  "op_MaxAttempts (normalizeProviderRetryPolicy p) = max 1 (op_MaxAttempts p)"
  by (simp_all add: normalizeProviderRetryPolicy_def Let_def)

lemma clone_idempotency [simp]: "tr_Idempotency (cloneTransportRequest r) = tr_Idempotency r"
  by (simp add: cloneTransportRequest_def)

lemma outgoing_idempotency:
  assumes "outgoing rt resolved = Inr (q, m)"
  shows "tr_Idempotency q = tr_Idempotency (rv_transportRequest resolved)"
  using assms
  by (auto simp: outgoing_def signProviderTransportRequest_def httpToTransportRequest_def Let_def
      split: option.splits sum.splits prod.splits)

text \<open>What one turn does to the record and to the result.\<close>

definition turn_result :: "turn \<Rightarrow> ProviderOperationResult" where
  "turn_result t = (case t of Over r _ \<Rightarrow> r | Again r _ _ \<Rightarrow> r)"

definition turn_ok :: "turn \<Rightarrow> bool" where
  "turn_ok t = (case t of Over r err \<Rightarrow> err = None | Again _ _ _ \<Rightarrow> False)"

definition settles :: "ProviderOperationResult \<Rightarrow> turn \<Rightarrow> bool" where
  "settles result t \<longleftrightarrow> or_Attempts (turn_result t) = or_Attempts result \<and> or_Idempotency (turn_result t) = or_Idempotency result \<and>
     (turn_ok t \<longrightarrow> pr_StatusCode (or_Meta (turn_result t)) < 400)"

lemma retry_or_stop_settles:
  assumes "stop = None \<Longrightarrow> pr_StatusCode (or_Meta result) < 400"
  shows "settles result (fst (retry_or_stop rt resolved retry attempt st opErr m again stop result w))"
  using assms
  by (auto simp: retry_or_stop_def settles_def turn_result_def turn_ok_def Let_def split: prod.split bool.split option.split)

lemma retry_or_stop_sent:
  assumes "records_sent sent rt req adapter" and "op_Sleep retry = op_Sleep (oq_Retry req)"
  shows "sent (snd (retry_or_stop rt resolved retry attempt st opErr m again stop result w)) = sent w"
proof -
  have "sent (snd (sleepProviderRetry rt (op_Sleep retry) d w)) = sent w" for d
    using assms by (auto simp: sleepProviderRetry_def records_sent_def split: option.split)
  then show ?thesis
    by (auto simp: retry_or_stop_def Let_def split: prod.split bool.split option.split) (metis snd_conv)+
qed

lemma after_response_settles: "settles result (fst (after_response rt req resolved retry attempt st signing response result w))"
proof -
  have s: "settles result t" if "settles (result\<lparr>or_Response := response, or_Meta := m\<rparr>) t" for t m
    using that by (simp add: settles_def)
  show ?thesis
    unfolding after_response_def Let_def
    by (auto simp: status_error_def settles_def [of result "Over _ _"] turn_result_def turn_ok_def
        intro!: s retry_or_stop_settles split: sum.split prod.split option.split if_splits)
qed

lemma after_response_sent:
  assumes "records_sent sent rt req adapter" and "op_Sleep retry = op_Sleep (oq_Retry req)"
  shows "sent (snd (after_response rt req resolved retry attempt st signing response result w)) = sent w"
proof -
  have a: "sent w' = sent w" if "rt_AfterCall rt k m w = (e, w')" for k m e w'
    using assms(1) that by (metis records_sent_def snd_conv)
  show ?thesis
    unfolding after_response_def Let_def
    by (auto simp: retry_or_stop_sent [OF assms] dest: a split: sum.split prod.split option.split)
qed

text \<open>A turn sends at most one request, the one that was resolved; a turn that ends without an error sent it.\<close>

lemma attempt_sent:
  assumes "records_sent sent rt req (rv_adapter resolved)" and "op_Sleep retry = op_Sleep (oq_Retry req)"
  shows "\<exists>rs. sent (snd (operation_attempt rt req resolved retry attempt st result w)) = sent w @ rs \<and> length rs \<le> 1 \<and>
    (\<forall>r \<in> set rs. tr_Idempotency r = tr_Idempotency (rv_transportRequest resolved)) \<and>
    (turn_ok (fst (operation_attempt rt req resolved retry attempt st result w)) \<longrightarrow> rs \<noteq> [])"
    (is "?P (operation_attempt rt req resolved retry attempt st result w)")
    and "settles (result\<lparr>or_Attempts := attempt\<rparr>) (fst (operation_attempt rt req resolved retry attempt st result w))"
    (is "?Q (operation_attempt rt req resolved retry attempt st result w)")
proof -
  let ?res = "result\<lparr>or_Attempts := attempt\<rparr>"
  let ?wrap = "wrapProviderOperationError rt resolved attempt (op_MaxAttempts retry)"
  let ?failed = "\<lambda>err. retry_or_stop rt resolved retry attempt st (Some err) zero_meta (?wrap 0 err True) (Some (?wrap 0 err True)) ?res"
  let ?call = "\<lambda>w. case outgoing rt resolved of
              Inl signErr \<Rightarrow> (Over ?res (Some (?wrap 0 signErr False)), w)
            | Inr (request, signing) \<Rightarrow>
                (case ta_Do (rv_adapter resolved) request w of
                   (Inl callErr, w') \<Rightarrow> ?failed callErr w'
                 | (Inr response, w') \<Rightarrow> after_response rt req resolved retry attempt st signing response ?res w')"
  have nok: "\<not> turn_ok (fst (?failed err v))" for err v
    by (auto simp: retry_or_stop_def turn_ok_def Let_def split: prod.split bool.split option.split)
  have failed: "sent (snd (?failed err v)) = sent v" "settles ?res (fst (?failed err v))" for err v
    by (rule retry_or_stop_sent [OF assms], rule retry_or_stop_settles) simp
  have call: "(\<exists>rs. sent (snd (?call v)) = sent v @ rs \<and> length rs \<le> 1 \<and>
      (\<forall>r \<in> set rs. tr_Idempotency r = tr_Idempotency (rv_transportRequest resolved)) \<and> (turn_ok (fst (?call v)) \<longrightarrow> rs \<noteq> [])) \<and>
      settles ?res (fst (?call v))" for v
  proof (cases "outgoing rt resolved")
    case (Inl e) then show ?thesis by (simp add: turn_ok_def settles_def turn_result_def)
  next
    case (Inr qm)
    obtain q m where q: "outgoing rt resolved = Inr (q, m)" using Inr by (cases qm) simp
    obtain a v' where d: "ta_Do (rv_adapter resolved) q v = (a, v')" by fastforce
    have v': "sent v' = sent v @ [q]" using assms(1) d by (metis records_sent_def snd_conv)
    show ?thesis
      using v' outgoing_idempotency [OF q] failed after_response_sent [OF assms] after_response_settles
      by (cases a) (simp_all add: q d)
  qed
  have "?P x \<and> ?Q x" if "x = operation_attempt rt req resolved retry attempt st result w" for x
  proof (cases "if rv_rateLimitEnabled resolved then rt_BeforeCall rt else None")
    case None then show ?thesis using call [of w] that by (simp add: operation_attempt_def Let_def)
  next
    case (Some before)
    obtain e v where b: "before (rv_rateLimitKey resolved) w = (e, v)" by fastforce
    have v: "sent v = sent w" using assms(1) Some b by (metis (full_types) option.distinct(1) records_sent_def snd_conv)
    have x: "x = (case e of Some beforeErr \<Rightarrow> ?failed beforeErr v | None \<Rightarrow> ?call v)"
      using Some b that by (simp add: operation_attempt_def Let_def)
    show ?thesis
    proof (cases e)
      case None then show ?thesis using call [of v] x v by simp
    next
      case (Some err) then show ?thesis using failed nok x v by simp
    qed
  qed
  then show "?P (operation_attempt rt req resolved retry attempt st result w)" "?Q (operation_attempt rt req resolved retry attempt st result w)"
    by blast+
qed

lemma loop_sent:
  assumes "records_sent sent rt req (rv_adapter resolved)" and "op_Sleep retry = op_Sleep (oq_Retry req)" and "n = 0 \<Longrightarrow> lastErr \<noteq> None"
    and "operation_loop rt req resolved retry n attempt st lastErr result w = ((result', err), w')"
  shows "\<exists>rs. sent w' = sent w @ rs \<and> (\<forall>r \<in> set rs. tr_Idempotency r = tr_Idempotency (rv_transportRequest resolved)) \<and>
    or_Idempotency result' = or_Idempotency result \<and>
    (0 < n \<longrightarrow> attempt \<le> or_Attempts result' \<and> or_Attempts result' < attempt + int n \<and> int (length rs) \<le> or_Attempts result' - attempt + 1 \<and>
       (err = None \<longrightarrow> rs \<noteq> [] \<and> pr_StatusCode (or_Meta result') < 400)) \<and>
    (n = 0 \<longrightarrow> rs = [] \<and> result' = result \<and> err \<noteq> None)"
  using assms(3,4)
proof (induction n arbitrary: attempt st lastErr result w)
  case 0 then show ?case by auto
next
  case (Suc n)
  obtain t v where t: "operation_attempt rt req resolved retry attempt st result w = (t, v)" by fastforce
  note one = attempt_sent [OF assms(1,2), where attempt = attempt and st = st and result = result and w = w, unfolded t fst_conv snd_conv]
  obtain rs where rs: "sent v = sent w @ rs" "length rs \<le> 1" "turn_ok t \<longrightarrow> rs \<noteq> []"
    "\<forall>r \<in> set rs. tr_Idempotency r = tr_Idempotency (rv_transportRequest resolved)" using one(1) by blast
  show ?case
  proof (cases t)
    case (Over r e)
    then have "result' = r" "err = e" "w' = v" using Suc.prems(2) t by simp_all
    with one(2) rs Over show ?thesis by (intro exI [of _ rs]) (auto simp: settles_def turn_result_def turn_ok_def)
  next
    case (Again r e s)
    then have loop: "operation_loop rt req resolved retry n (attempt + 1) s (Some e) r v = ((result', err), w')" using Suc.prems(2) t by simp
    have r: "or_Attempts r = attempt" "or_Idempotency r = or_Idempotency result" using one(2) Again by (simp_all add: settles_def turn_result_def)
    from Suc.IH [OF _ loop] obtain rs' where rs': "sent w' = sent v @ rs'" "\<forall>r \<in> set rs'. tr_Idempotency r = tr_Idempotency (rv_transportRequest resolved)"
      "or_Idempotency result' = or_Idempotency r"
      "0 < n \<longrightarrow> attempt + 1 \<le> or_Attempts result' \<and> or_Attempts result' < attempt + 1 + int n \<and>
         int (length rs') \<le> or_Attempts result' - (attempt + 1) + 1 \<and> (err = None \<longrightarrow> rs' \<noteq> [] \<and> pr_StatusCode (or_Meta result') < 400)"
      "n = 0 \<longrightarrow> rs' = [] \<and> result' = r \<and> err \<noteq> None" by blast
    show ?thesis using rs rs' r by (cases "n = 0") (intro exI [of _ "rs @ rs'"]; auto)+
  qed
qed

lemma resolved_key:
  "resolveProviderOperationRequest rt req w = Inr resolved \<Longrightarrow> rv_idempotencyKey resolved = tr_Idempotency (rv_transportRequest resolved)"
  by (auto simp: resolveProviderOperationRequest_def Let_def split: sum.splits prod.splits)

text \<open>
  C21: One call of \<open>ExecuteProviderOperation\<close> sends at most one request per attempt and makes between one and
  \<open>MaxAttempts\<close> attempts; every request of all its attempts, signed or not, carries the idempotency key that the
  result names; and when the call reports success, a request was sent and the status of the response is below 400.
\<close>

theorem operation_sends_one_key:
  assumes "resolveProviderOperationRequest rt req w = Inr resolved" and "records_sent sent rt req (rv_adapter resolved)"
    and "ExecuteProviderOperation (Some rt) req w = ((result, err), w')"
  shows "1 \<le> or_Attempts result \<and> or_Attempts result \<le> max 1 (op_MaxAttempts (oq_Retry req)) \<and>
    (\<exists>rs. sent w' = sent w @ rs \<and> int (length rs) \<le> or_Attempts result \<and> (\<forall>r \<in> set rs. tr_Idempotency r = or_Idempotency result) \<and>
       (err = None \<longrightarrow> rs \<noteq> [] \<and> pr_StatusCode (or_Meta result) < 400))"
proof -
  let ?retry = "normalizeProviderRetryPolicy (oq_Retry req)"
  let ?n = "nat (op_MaxAttempts ?retry)"
  have n: "0 < ?n" "int ?n = max 1 (op_MaxAttempts (oq_Retry req))" by simp_all
  have r0: "or_Idempotency (initial_result req resolved) = rv_idempotencyKey resolved" by (simp add: initial_result_def)
  have loop: "operation_loop rt req resolved ?retry ?n 1 0 None (initial_result req resolved) w = ((result, err), w')"
    using assms(1,3) by (simp add: ExecuteProviderOperation_def Let_def)
  from loop_sent [OF assms(2) _ _ loop] n obtain rs where
    "sent w' = sent w @ rs" "\<forall>r \<in> set rs. tr_Idempotency r = tr_Idempotency (rv_transportRequest resolved)"
    "or_Idempotency result = or_Idempotency (initial_result req resolved)" "1 \<le> or_Attempts result" "or_Attempts result < 1 + int ?n"
    "int (length rs) \<le> or_Attempts result - 1 + 1" "err = None \<longrightarrow> rs \<noteq> [] \<and> pr_StatusCode (or_Meta result) < 400" by auto
  then show ?thesis using resolved_key [OF assms(1)] r0 n(2) by (intro conjI exI [of _ rs]) auto
qed

text \<open>A runtime over the list of the requests sent and a list of answers, for a provider that needs no credential.\<close>

definition sample_rest :: "(TransportRequest list \<times> int list) TransportAdapter" where
  "sample_rest = \<lparr>ta_Kind = ''rest'', ta_Do = (\<lambda>r (rs, as). (Inr (zero_response\<lparr>tp_StatusCode := (case as of [] \<Rightarrow> 200 | a # _ \<Rightarrow> a)\<rparr>), (rs @ [r], tl as)))\<rparr>"

definition acme_provider :: Provider where
  "acme_provider = \<lparr>prov_ID = ''acme'', prov_Capabilities = []\<rparr>"

definition sample_runtime :: "goerr option \<Rightarrow> (TransportRequest list \<times> int list) operation_runtime" where
  "sample_runtime accounting =
     \<lparr>rt_service = bare_service\<lparr>svc_registry := Some (register_all [acme_provider] NewProviderRegistry)\<rparr>,
      rt_signing = \<lparr>sgn_signer = None, sgn_provider = (\<lambda>_. None), sgn_env = sample_sign_env\<rparr>,
      rt_BeforeCall = Some (\<lambda>_ w. (None, w)), rt_AfterCall = (\<lambda>_ _ w. (accounting, w)), rt_transportResolver = Some (\<lambda>_ _. Inr sample_rest),
      rt_wait = (\<lambda>_ w. (None, w)), rt_parse = (\<lambda>_ _. None),
      rt_parseURL = (\<lambda>s. Inr \<lparr>u_Scheme = [], u_Host = s, u_Path = [], u_EscapedPath = [], u_RawQuery = [], u_Fragment = []\<rparr>),
      rt_printURL = u_Host, rt_now = 0\<rparr>"

definition sample_operation :: "(TransportRequest list \<times> int list) ProviderOperationRequest" where
  "sample_operation =
     \<lparr>oq_ProviderID = ''acme'', oq_ConnectionID = [], oq_Scope = \<lparr>scope_Type = ''user'', scope_ID = ''u1''\<rparr>, oq_Operation = ''send'',
      oq_BucketKey = [], oq_TransportKind = [], oq_TransportConfig = [],
      oq_TransportRequest = \<lparr>tr_Method = ''POST'', tr_URL = ''h'', tr_Headers = [], tr_Query = [], tr_Body = ''b'', tr_Metadata = [],
        tr_Timeout = 0, tr_MaxResponseBodyBytes = 0, tr_Idempotency = []\<rparr>,
      oq_Adapter = None, oq_Credential = None, oq_IdempotencyKey = ''k1'',
      oq_Retry = \<lparr>op_MaxAttempts = 3, op_InitialBackoff = 0, op_MaxBackoff = 0, op_RetryableStatusCodes = [], op_Sleep = None, op_ShouldRetry = None\<rparr>,
      oq_Metadata = [], oq_Normalize = None\<rparr>"

lemma sample_runtime_records: "records_sent fst (sample_runtime e) sample_operation sample_rest"
  by (auto simp: records_sent_def sample_rest_def sample_runtime_def sample_operation_def)

lemma sample_resolved:
  "rv_adapter (projr (resolveProviderOperationRequest (sample_runtime e) sample_operation w)) = sample_rest"
  "isl (resolveProviderOperationRequest (sample_runtime e) sample_operation w) = False"
proof -
  let ?s = "bare_service\<lparr>svc_registry := Some (register_all [acme_provider] NewProviderRegistry)\<rparr> :: (TransportRequest list \<times> int list) Service"
  have p: "resolveProvider ?s ''acme'' = Inr acme_provider" by code_simp
  have "TrimSpace ''acme'' = ''acme''" "TrimSpace [] = []" by code_simp+
  then show "rv_adapter (projr (resolveProviderOperationRequest (sample_runtime e) sample_operation w)) = sample_rest"
    "isl (resolveProviderOperationRequest (sample_runtime e) sample_operation w) = False"
    using p by (simp_all add: resolveProviderOperationRequest_def rv_owner_def sample_runtime_def sample_operation_def bare_service_def
        resolveProviderOperationAdapter_def resolveProviderOperationCredential_def Let_def del: register_all.simps)
qed

theorem operation_sends_one_key_witness:
  "\<exists>rs. fst (snd (ExecuteProviderOperation (Some (sample_runtime None)) sample_operation ([], [503]))) = [] @ rs \<and>
     (\<forall>r \<in> set rs. tr_Idempotency r = or_Idempotency (fst (fst (ExecuteProviderOperation (Some (sample_runtime None)) sample_operation ([], [503])))))"
proof -
  obtain x where x: "resolveProviderOperationRequest (sample_runtime None) sample_operation ([], [503]) = Inr x" "rv_adapter x = sample_rest"
    using sample_resolved [of None "([], [503])"] by (cases "resolveProviderOperationRequest (sample_runtime None) sample_operation ([], [503])") simp_all
  show ?thesis
    using operation_sends_one_key [OF x(1) sample_runtime_records [of None, folded x(2)], of
        "fst (fst (ExecuteProviderOperation (Some (sample_runtime None)) sample_operation ([], [503])))"
        "snd (fst (ExecuteProviderOperation (Some (sample_runtime None)) sample_operation ([], [503])))"
        "snd (ExecuteProviderOperation (Some (sample_runtime None)) sample_operation ([], [503]))"] by auto
qed

section \<open>A call that succeeded is sent again\<close>

lemma accounting_turn:
  assumes "rv_rateLimitEnabled resolved" and "rt_BeforeCall rt = Some before" and "\<And>k w. before k w = (None, w)"
    and "outgoing rt resolved = Inr (q, m)" and "\<And>w. \<exists>response. fst (ta_Do (rv_adapter resolved) q w) = Inr response"
    and "\<And>k m w. rt_AfterCall rt k m w = (Some e, w)" and "oq_Normalize req = None"
    and "\<And>d w. rt_wait rt d w = (None, w)" and "op_Sleep retry = None" and "op_ShouldRetry retry = None" and "\<not> isContextCancellation e"
  shows "\<exists>r' e' c. operation_attempt rt req resolved retry attempt st result w =
    (if attempt < op_MaxAttempts retry then Again r' e' c else Over r' (Some e'), snd (ta_Do (rv_adapter resolved) q w))"
proof -
  obtain response v where d: "ta_Do (rv_adapter resolved) q w = (Inr response, v)" using assms(5) by (metis prod.collapse)
  have sl: "sleepProviderRetry rt None d w = (None, w)" for d w using assms(8) by (simp add: sleepProviderRetry_def)
  show ?thesis
    using assms(1,2,3,4,6,7,9-11)
    by (simp add: operation_attempt_def Let_def d after_response_def normalizeProviderOperationResponse_def retry_or_stop_def
        shouldRetryProviderOperation_def sl)
qed

text \<open>The calls of the transport in a sequence.\<close>

fun do_times :: "nat \<Rightarrow> 'w TransportAdapter \<Rightarrow> TransportRequest \<Rightarrow> 'w \<Rightarrow> 'w" where
  "do_times 0 adapter q w = w"
| "do_times (Suc n) adapter q w = do_times n adapter q (snd (ta_Do adapter q w))"

lemma accounting_loop:
  assumes "\<And>attempt st result w. \<exists>r' e' c. operation_attempt rt req resolved retry attempt st result w =
    (if attempt < op_MaxAttempts retry then Again r' e' c else Over r' (Some e'), snd (ta_Do (rv_adapter resolved) q w))"
    and "attempt + int n = op_MaxAttempts retry + 1"
  shows "0 < n \<Longrightarrow> \<exists>r' e'. operation_loop rt req resolved retry n attempt st lastErr result w = ((r', Some e'), do_times n (rv_adapter resolved) q w)"
  using assms(2)
proof (induction n arbitrary: attempt st lastErr result w)
  case (Suc n)
  obtain r' e' c where t: "operation_attempt rt req resolved retry attempt st result w =
    (if attempt < op_MaxAttempts retry then Again r' e' c else Over r' (Some e'), snd (ta_Do (rv_adapter resolved) q w))" using assms(1) by blast
  show ?case
  proof (cases "n = 0")
    case True then show ?thesis using t Suc.prems(2) by simp
  next
    case False
    then have "attempt < op_MaxAttempts retry" using Suc.prems(2) by simp
    then show ?thesis using t Suc.IH [of "attempt + 1" c "Some e'" r' "snd (ta_Do (rv_adapter resolved) q w)"] False Suc.prems(2) by simp
  qed
qed simp

text \<open>
  C23: A failure to account for a call repeats the call. When the rate-limit policy cannot store what it learned from
  a response, the request, which the provider has answered with whatever status, is sent again until the attempts
  are used up, and the call then fails: with the default retry policy it sends \<open>MaxAttempts\<close> requests.
\<close>

theorem accounting_failure_repeats_call:
  assumes "resolveProviderOperationRequest rt req w = Inr resolved" and "rv_rateLimitEnabled resolved"
    and "rt_BeforeCall rt = Some before" and "\<And>k w. before k w = (None, w)"
    and "outgoing rt resolved = Inr (q, m)" and "\<And>w. \<exists>response. fst (ta_Do (rv_adapter resolved) q w) = Inr response"
    and "\<And>k m w. rt_AfterCall rt k m w = (Some e, w)" and "oq_Normalize req = None"
    and "\<And>d w. rt_wait rt d w = (None, w)" and "op_Sleep (oq_Retry req) = None" and "op_ShouldRetry (oq_Retry req) = None"
    and "\<not> isContextCancellation e"
  shows "\<exists>result err. ExecuteProviderOperation (Some rt) req w =
    ((result, Some err), do_times (nat (max 1 (op_MaxAttempts (oq_Retry req)))) (rv_adapter resolved) q w)"
proof -
  let ?retry = "normalizeProviderRetryPolicy (oq_Retry req)"
  note turn = accounting_turn [where rt = rt and req = req and retry = ?retry, OF assms(2-9) _ _ assms(12)]
  have "0 < nat (op_MaxAttempts ?retry)" "1 + int (nat (op_MaxAttempts ?retry)) = op_MaxAttempts ?retry + 1" by simp_all
  then show ?thesis
    using accounting_loop [where retry = ?retry and attempt = 1, OF turn] assms(1,10,11)
    by (simp add: ExecuteProviderOperation_def Let_def)
qed

lemma sample_resolved_facts:
  "rv_rateLimitEnabled (projr (resolveProviderOperationRequest (sample_runtime (Some (Plain ''disk full''))) sample_operation ([], [])))"
  "rv_credential (projr (resolveProviderOperationRequest (sample_runtime (Some (Plain ''disk full''))) sample_operation ([], []))) = None"
  by code_simp+

theorem accounting_failure_repeats_call_witness:
  "\<exists>result err q. ExecuteProviderOperation (Some (sample_runtime (Some (Plain ''disk full'')))) sample_operation ([], []) =
     ((result, Some err), ([q, q, q], []))"
proof -
  let ?rt = "sample_runtime (Some (Plain ''disk full''))"
  obtain x where x: "resolveProviderOperationRequest ?rt sample_operation ([], []) = Inr x" "rv_adapter x = sample_rest"
    "rv_rateLimitEnabled x" "rv_credential x = None"
    using sample_resolved [of "Some (Plain ''disk full'')" "([], [])"] sample_resolved_facts
    by (cases "resolveProviderOperationRequest ?rt sample_operation ([], [])") simp_all
  let ?q = "cloneTransportRequest (rv_transportRequest x)"
  have o: "outgoing ?rt x = Inr (?q, [])" using x(4) by (simp add: outgoing_def Let_def split: option.split)
  have three: "nat (max 1 (op_MaxAttempts (oq_Retry sample_operation))) = Suc (Suc (Suc 0))" by (simp add: sample_operation_def)
  have do3: "do_times (Suc (Suc (Suc 0))) (rv_adapter x) ?q ([], []) = ([?q, ?q, ?q], [])" by (simp add: x(2) sample_rest_def)
  have "\<exists>result err. ExecuteProviderOperation (Some ?rt) sample_operation ([], []) = ((result, Some err), ([?q, ?q, ?q], []))"
    unfolding do3 [symmetric] three [symmetric]
  proof (rule accounting_failure_repeats_call [where e = "Plain ''disk full''", OF x(1,3) _ _ o])
    show "\<exists>response. fst (ta_Do (rv_adapter x) ?q w) = Inr response" for w by (cases w) (simp add: x(2) sample_rest_def)
  qed (simp_all add: sample_runtime_def sample_operation_def isContextCancellation_def)
  then show ?thesis by blast
qed

section \<open>Whose credential a call uses\<close>

lemma rv_owner_EqualFold:
  assumes "rv_owner rt req w = Inr (pid, c)" and "TrimSpace (oq_ConnectionID req) \<noteq> []" and "svc_connectionStore (rt_service rt) = Some store"
  shows "\<exists>conn. cst_Get store (TrimSpace (oq_ConnectionID req)) w = Inr conn \<and> c = Some conn \<and> EqualFold pid (conn_ProviderID conn)"
  using assms by (auto simp: rv_owner_def Let_def split: sum.splits if_splits)

text \<open>
  C22: A call under a connection goes to the provider that owns it. Whenever a call that names a connection is
  resolved, the connection exists, the provider is the registered one under the connection's provider id up to case,
  and the credential that signs the call is the one of the request or the active credential stored for this very
  connection.
\<close>

theorem operation_credential_confined:
  assumes "resolveProviderOperationRequest rt req w = Inr resolved" and "TrimSpace (oq_ConnectionID req) \<noteq> []"
    and "svc_connectionStore (rt_service rt) = Some store"
  shows "\<exists>conn pid. cst_Get store (TrimSpace (oq_ConnectionID req)) w = Inr conn \<and> EqualFold pid (conn_ProviderID conn) \<and>
    resolveProvider (rt_service rt) pid = Inr (rv_provider resolved) \<and>
    (\<forall>a. oq_Credential req = None \<and> rv_credential resolved = Some a \<longrightarrow>
       (\<exists>cs stored. svc_credentialStore (rt_service rt) = Some cs \<and> kst_GetActive cs (TrimSpace (oq_ConnectionID req)) w = Inr stored \<and>
          credentialToActive (rt_service rt) stored = Inr a))"
proof -
  obtain pid c where o: "rv_owner rt req w = Inr (pid, c)" and p: "resolveProvider (rt_service rt) pid = Inr (rv_provider resolved)"
    and k: "resolveProviderOperationCredential rt req (TrimSpace (oq_ConnectionID req)) w = Inr (rv_credential resolved)"
    using assms(1) by (auto simp: resolveProviderOperationRequest_def Let_def split: sum.splits prod.splits)
  have "\<exists>cs stored. svc_credentialStore (rt_service rt) = Some cs \<and> kst_GetActive cs (TrimSpace (oq_ConnectionID req)) w = Inr stored \<and>
      credentialToActive (rt_service rt) stored = Inr a" if "oq_Credential req = None" "rv_credential resolved = Some a" for a
    using k that by (auto simp: resolveProviderOperationCredential_def split: option.splits sum.splits if_splits)
  then show ?thesis using rv_owner_EqualFold [OF o assms(2,3)] p by blast
qed

definition connected_runtime :: "(TransportRequest list \<times> int list) operation_runtime" where
  "connected_runtime = (sample_runtime None)\<lparr>rt_service := (rt_service (sample_runtime None))\<lparr>
     svc_connectionStore := Some \<lparr>cst_Create = (\<lambda>_. fail (Plain [])), cst_Get = (\<lambda>_ _. Inr (sample_connection\<lparr>conn_ProviderID := ''ACME''\<rparr>)),
       cst_FindByScope = (\<lambda>_ _ _. Inr []), cst_FindAccount = (\<lambda>_ _ _ _. Inr None), cst_UpdateStatus = (\<lambda>_ _ _. ret ())\<rparr>,
     svc_credentialStore := Some \<lparr>kst_Save = (\<lambda>_. fail (Plain [])), kst_GetActive = (\<lambda>_ _. Inr (sample_credential\<lparr>cred_EncryptedPayload := []\<rparr>)),
       kst_Revoke = (\<lambda>_ _. ret ())\<rparr>\<rparr>\<rparr>"

definition connected_operation :: "(TransportRequest list \<times> int list) ProviderOperationRequest" where
  "connected_operation = sample_operation\<lparr>oq_ConnectionID := '' c ''\<rparr>"

lemma connected_resolved:
  "isl (resolveProviderOperationRequest connected_runtime connected_operation ([], [])) = False"
  "rv_credential (projr (resolveProviderOperationRequest connected_runtime connected_operation ([], []))) \<noteq> None"
  "TrimSpace (oq_ConnectionID connected_operation) = ''c''" "oq_Credential connected_operation = None"
  by code_simp+

theorem operation_credential_confined_witness:
  "\<exists>cs stored a. svc_credentialStore (rt_service connected_runtime) = Some cs \<and> kst_GetActive cs ''c'' ([], []) = Inr stored \<and>
     rv_credential (projr (resolveProviderOperationRequest connected_runtime connected_operation ([], []))) = Some a \<and>
     credentialToActive (rt_service connected_runtime) stored = Inr a"
proof -
  obtain x where x: "resolveProviderOperationRequest connected_runtime connected_operation ([], []) = Inr x"
    using connected_resolved(1) by (cases "resolveProviderOperationRequest connected_runtime connected_operation ([], [])") simp_all
  obtain a where a: "rv_credential x = Some a" using connected_resolved(2) x by auto
  obtain store where s: "svc_connectionStore (rt_service connected_runtime) = Some store" by (simp add: connected_runtime_def)
  show ?thesis using operation_credential_confined [OF x _ s] connected_resolved(3,4) a x by auto
qed

section \<open>The call of a capability\<close>

record 'w InvokeCapabilityOperationRequest =
  cq_ProviderID :: string
  cq_Scope :: ScopeRef
  cq_Capability :: string
  cq_ConnectionID :: string
  cq_Payload :: meta
  cq_Operation :: string
  cq_BucketKey :: string
  cq_TransportKind :: string
  cq_TransportConfig :: meta
  cq_Retry :: "'w ProviderOperationRetryPolicy"
  cq_Metadata :: meta

record CapabilityOperationResult =
  cr_Capability :: CapabilityResult
  cr_Executed :: bool
  cr_Operation :: ProviderOperationResult

record CapabilityOperationResolveRequest =
  cv_ProviderID :: string
  cv_Scope :: ScopeRef
  cv_Capability :: string
  cv_Payload :: meta
  cv_Connection :: "Connection option"
  cv_Decision :: CapabilityResult
  cv_Operation :: string
  cv_BucketKey :: string
  cv_TransportKind :: string
  cv_TransportConfig :: meta
  cv_Metadata :: meta

fun firstNonEmptyTrimmed :: "string list \<Rightarrow> string" where
  "firstNonEmptyTrimmed [] = []"
| "firstNonEmptyTrimmed (v # vs) = (if TrimSpace v \<noteq> [] then TrimSpace v else firstNonEmptyTrimmed vs)"

definition isZeroProviderRetryPolicy :: "'w ProviderOperationRetryPolicy \<Rightarrow> bool" where
  "isZeroProviderRetryPolicy policy \<longleftrightarrow>
     \<not> (op_MaxAttempts policy > 0) \<and> \<not> (op_InitialBackoff policy > 0 \<or> op_MaxBackoff policy > 0) \<and>
     \<not> (length (op_RetryableStatusCodes policy) > 0) \<and> \<not> (op_Sleep policy \<noteq> None \<or> op_ShouldRetry policy \<noteq> None)"

text \<open>A connection that was not resolved is the zero connection, whose fields are empty.\<close>

definition decided :: "(Connection \<Rightarrow> string) \<Rightarrow> CapabilityResult \<Rightarrow> string" where
  "decided field decision = (case cs_Connection decision of None \<Rightarrow> [] | Some c \<Rightarrow> field c)"

definition complete_operation ::
  "'w InvokeCapabilityOperationRequest \<Rightarrow> CapabilityResult \<Rightarrow> 'w ProviderOperationRequest \<Rightarrow> 'w ProviderOperationRequest" where
  "complete_operation req decision opr =
     (let scope = (if TrimSpace (scope_Type (oq_Scope opr)) = [] \<and> TrimSpace (scope_ID (oq_Scope opr)) = [] then
            let own = \<lparr>scope_Type = TrimSpace (decided conn_ScopeType decision), scope_ID = TrimSpace (decided conn_ScopeID decision)\<rparr>
            in if TrimSpace (scope_Type own) = [] \<or> TrimSpace (scope_ID own) = [] then cq_Scope req else own
          else oq_Scope opr)
      in opr\<lparr>oq_ProviderID := firstNonEmptyTrimmed [oq_ProviderID opr, cq_ProviderID req],
          oq_ConnectionID := firstNonEmptyTrimmed [oq_ConnectionID opr, decided conn_ID decision, cq_ConnectionID req],
          oq_Scope := scope,
          oq_Operation := firstNonEmptyTrimmed [oq_Operation opr, cq_Operation req, cq_Capability req],
          oq_BucketKey := firstNonEmptyTrimmed [oq_BucketKey opr, cq_BucketKey req],
          oq_TransportKind := firstNonEmptyTrimmed [oq_TransportKind opr, cq_TransportKind req],
          oq_TransportConfig := (if length (oq_TransportConfig opr) = 0 then copyAnyMap (cq_TransportConfig req) else oq_TransportConfig opr),
          oq_Metadata := mergeProviderOperationMetadata (oq_Metadata opr) (cq_Metadata req),
          oq_Retry := (if isZeroProviderRetryPolicy (oq_Retry opr) then cq_Retry req else oq_Retry opr)\<rparr>)"

text \<open>\<open>resolver\<close> is the method \<open>ResolveCapabilityOperation\<close> of a provider that has it.\<close>

definition InvokeCapabilityOperation ::
  "'w operation_runtime \<Rightarrow>
     (Provider \<Rightarrow> (CapabilityOperationResolveRequest \<Rightarrow> ('w, 'w ProviderOperationRequest) effect) option) \<Rightarrow>
     'w InvokeCapabilityOperationRequest \<Rightarrow> ('w, CapabilityOperationResult) effect" where
  "InvokeCapabilityOperation rt resolver req =
     (let s = rt_service rt in
      bindE (Service_InvokeCapability s \<lparr>iq_ProviderID = cq_ProviderID req, iq_Scope = cq_Scope req,
        iq_Capability = cq_Capability req, iq_ConnectionID = cq_ConnectionID req\<rparr>) (\<lambda>decision.
      if \<not> cs_Allowed decision \<and> cs_Mode decision = CapabilityDeniedBehaviorBlock
      then ret \<lparr>cr_Capability = decision, cr_Executed = False, cr_Operation = zero_operation_result\<rparr>
      else
        bindE (lift (resolveProvider s (cq_ProviderID req))) (\<lambda>provider.
        case resolver provider of
          None \<Rightarrow> failS s (''core: provider '' @ quote (cq_ProviderID req) @ '' does not support capability operation runtime'')
        | Some resolve \<Rightarrow>
            bindE (mapE (svc_mapError s) (resolve \<lparr>cv_ProviderID = cq_ProviderID req, cv_Scope = cq_Scope req, cv_Capability = cq_Capability req,
              cv_Payload = copyAnyMap (cq_Payload req), cv_Connection = cs_Connection decision, cv_Decision = decision,
              cv_Operation = cq_Operation req, cv_BucketKey = cq_BucketKey req, cv_TransportKind = cq_TransportKind req,
              cv_TransportConfig = copyAnyMap (cq_TransportConfig req), cv_Metadata = copyAnyMap (cq_Metadata req)\<rparr>)) (\<lambda>opr w.
            case ExecuteProviderOperation (Some rt) (complete_operation req decision opr) w of
              ((_, Some execErr), w') \<Rightarrow> (Inl execErr, w')
            | ((operation, None), w') \<Rightarrow>
                (Inr \<lparr>cr_Capability = decision, cr_Executed = True, cr_Operation = operation\<rparr>, w')))))"

text \<open>A capability that is denied and blocks leaves everything as it was; only the decision is returned.\<close>

lemma denied_capability_sends_nothing:
  assumes "Service_InvokeCapability (rt_service rt) \<lparr>iq_ProviderID = cq_ProviderID req, iq_Scope = cq_Scope req,
      iq_Capability = cq_Capability req, iq_ConnectionID = cq_ConnectionID req\<rparr> w = (Inr decision, w)"
    and "\<not> cs_Allowed decision" and "cs_Mode decision = CapabilityDeniedBehaviorBlock"
  shows "InvokeCapabilityOperation rt resolver req w =
    (Inr \<lparr>cr_Capability = decision, cr_Executed = False, cr_Operation = zero_operation_result\<rparr>, w)"
  using assms by (simp add: InvokeCapabilityOperation_def Let_def effects)

text \<open>
  The generated idempotency keys are hashes of a text whose parts are joined without escaping, so an operation name
  that contains the separator can make two different calls share their key.
\<close>

lemma idempotency_key_collision:
  "generateIdempotencyKey rt ''p'' ''c'' ''a|POST'' \<lparr>tr_Method = ''X'', tr_URL = u, tr_Headers = h, tr_Query = q, tr_Body = b,
     tr_Metadata = m, tr_Timeout = t, tr_MaxResponseBodyBytes = k, tr_Idempotency = i\<rparr> =
   generateIdempotencyKey rt ''p'' ''c|a'' ''post'' \<lparr>tr_Method = ''X'', tr_URL = u, tr_Headers = h, tr_Query = q, tr_Body = b,
     tr_Metadata = m, tr_Timeout = t, tr_MaxResponseBodyBytes = k, tr_Idempotency = i\<rparr>"
proof -
  have "TrimSpace (ToLower ''a|POST'') = ''a|post''" "TrimSpace ''c|a'' = ''c|a''" "TrimSpace (ToLower ''post'') = ''post''" "TrimSpace ''c'' = ''c''"
    by code_simp+
  then show ?thesis by (simp add: generateIdempotencyKey_def idempotency_text_def)
qed

end
