(* ===== verification/Formdata.thy ===== *)
theory Formdata
  imports Complex_Main Effects Domain Redaction
begin

text \<open>
  \<open>src/core/formdata_contracts.go\<close>: the data of mapping specifications and of the synchronisation of external
  records (schemas, rules, bindings, checkpoints, conflicts, plans, results), their validation, and the stores
  behind interfaces that the services use. The enums are Go strings and stay strings. Confidences are rational
  numbers; what a float64 operation rounds is an argument where one is used.
\<close>

section \<open>Enums\<close>

type_synonym MappingSpecStatus = string
type_synonym SyncDirection = string
type_synonym SyncRunMode = string
type_synonym SyncRunStatus = string
type_synonym SyncBindingStatus = string
type_synonym IdentityBindingMatchKind = string
type_synonym SyncConflictStatus = string
type_synonym SyncConflictResolutionAction = string

abbreviation MappingSpecStatusDraft :: MappingSpecStatus where "MappingSpecStatusDraft \<equiv> ''draft''"
abbreviation MappingSpecStatusValidated :: MappingSpecStatus where "MappingSpecStatusValidated \<equiv> ''validated''"
abbreviation MappingSpecStatusPublished :: MappingSpecStatus where "MappingSpecStatusPublished \<equiv> ''published''"
abbreviation SyncDirectionImport :: SyncDirection where "SyncDirectionImport \<equiv> ''import''"
abbreviation SyncDirectionExport :: SyncDirection where "SyncDirectionExport \<equiv> ''export''"
abbreviation SyncRunModeDryRun :: SyncRunMode where "SyncRunModeDryRun \<equiv> ''dry_run''"
abbreviation SyncRunModeApply :: SyncRunMode where "SyncRunModeApply \<equiv> ''apply''"
abbreviation SyncRunStatusRunning :: SyncRunStatus where "SyncRunStatusRunning \<equiv> ''running''"
abbreviation SyncRunStatusSucceeded :: SyncRunStatus where "SyncRunStatusSucceeded \<equiv> ''succeeded''"
abbreviation SyncRunStatusFailed :: SyncRunStatus where "SyncRunStatusFailed \<equiv> ''failed''"
abbreviation SyncBindingStatusActive :: SyncBindingStatus where "SyncBindingStatusActive \<equiv> ''active''"
abbreviation IdentityBindingMatchExact :: IdentityBindingMatchKind where "IdentityBindingMatchExact \<equiv> ''exact''"
abbreviation IdentityBindingMatchConfident :: IdentityBindingMatchKind where "IdentityBindingMatchConfident \<equiv> ''confident''"
abbreviation IdentityBindingMatchAmbiguous :: IdentityBindingMatchKind where "IdentityBindingMatchAmbiguous \<equiv> ''ambiguous''"
abbreviation IdentityBindingMatchUnresolved :: IdentityBindingMatchKind where "IdentityBindingMatchUnresolved \<equiv> ''unresolved''"
abbreviation SyncConflictStatusPending :: SyncConflictStatus where "SyncConflictStatusPending \<equiv> ''pending''"
abbreviation SyncConflictStatusResolved :: SyncConflictStatus where "SyncConflictStatusResolved \<equiv> ''resolved''"
abbreviation SyncConflictStatusIgnored :: SyncConflictStatus where "SyncConflictStatusIgnored \<equiv> ''ignored''"
abbreviation SyncConflictResolutionIgnore :: SyncConflictResolutionAction where "SyncConflictResolutionIgnore \<equiv> ''ignore''"
abbreviation SyncConflictResolutionRetry :: SyncConflictResolutionAction where "SyncConflictResolutionRetry \<equiv> ''retry''"

definition MappingSpecStatus_IsValid :: "MappingSpecStatus \<Rightarrow> bool" where
  "MappingSpecStatus_IsValid s \<longleftrightarrow> s \<in> {MappingSpecStatusDraft, MappingSpecStatusValidated, MappingSpecStatusPublished}"

definition SyncDirection_IsValid :: "SyncDirection \<Rightarrow> bool" where
  "SyncDirection_IsValid d \<longleftrightarrow> d \<in> {SyncDirectionImport, SyncDirectionExport}"

definition SyncRunMode_IsValid :: "SyncRunMode \<Rightarrow> bool" where
  "SyncRunMode_IsValid m \<longleftrightarrow> m \<in> {SyncRunModeDryRun, SyncRunModeApply}"

definition SyncBindingStatus_IsValid :: "SyncBindingStatus \<Rightarrow> bool" where
  "SyncBindingStatus_IsValid s \<longleftrightarrow> s \<in> {SyncBindingStatusActive, ''paused''}"

definition IdentityBindingMatchKind_IsValid :: "IdentityBindingMatchKind \<Rightarrow> bool" where
  "IdentityBindingMatchKind_IsValid m \<longleftrightarrow> m \<in> {IdentityBindingMatchExact, IdentityBindingMatchConfident,
     IdentityBindingMatchAmbiguous, IdentityBindingMatchUnresolved}"

definition SyncConflictStatus_IsValid :: "SyncConflictStatus \<Rightarrow> bool" where
  "SyncConflictStatus_IsValid s \<longleftrightarrow> s \<in> {SyncConflictStatusPending, SyncConflictStatusResolved, SyncConflictStatusIgnored}"

definition SyncConflictResolutionAction_IsValid :: "SyncConflictResolutionAction \<Rightarrow> bool" where
  "SyncConflictResolutionAction_IsValid a \<longleftrightarrow> a \<in> {''resolve'', SyncConflictResolutionIgnore, SyncConflictResolutionRetry}"

section \<open>Validation\<close>

text \<open>A validation is a sequence of checks that stops at the first that fails.\<close>

fun first_error :: "goerr option list \<Rightarrow> goerr option" where
  "first_error [] = None"
| "first_error (c # cs) = (case c of Some e \<Rightarrow> Some e | None \<Rightarrow> first_error cs)"

definition required :: "string \<Rightarrow> string \<Rightarrow> goerr option" where
  "required value message = (if TrimSpace value = [] then Some (Plain (''core: '' @ message)) else None)"

definition unless :: "bool \<Rightarrow> string \<Rightarrow> goerr option" where
  "unless b message = (if b then None else Some (Plain (''core: '' @ message)))"

lemma first_error_None: "first_error cs = None \<longleftrightarrow> (\<forall>c \<in> set cs. c = None)"
  by (induction cs) (auto split: option.splits)

lemma check_None [simp]: "required v m = None \<longleftrightarrow> TrimSpace v \<noteq> []" "unless b m = None \<longleftrightarrow> b"
  by (simp_all add: required_def unless_def)

section \<open>Schemas and mapping specifications\<close>

record ExternalField =
  xf_Path :: string
  xf_Type :: string
  xf_Required :: bool
  xf_Repeatable :: bool
  xf_Format :: string
  xf_Constraints :: meta
  xf_Metadata :: meta

record ExternalObjectSchema =
  xo_Name :: string
  xo_PrimaryKey :: "string list"
  xo_Fields :: "ExternalField list"
  xo_Metadata :: meta

record ExternalSchema =
  xs_ID :: string
  xs_ProviderID :: string
  xs_Scope :: ScopeRef
  xs_Name :: string
  xs_Version :: string
  xs_Objects :: "ExternalObjectSchema list"
  xs_Metadata :: meta
  xs_CreatedAt :: int
  xs_UpdatedAt :: int

definition ExternalSchema_Validate :: "ExternalSchema \<Rightarrow> goerr option" where
  "ExternalSchema_Validate s =
     first_error [required (xs_ProviderID s) ''provider id is required'', ScopeRef_Validate (xs_Scope s),
       required (xs_Name s) ''schema name is required'', unless (length (xs_Objects s) \<noteq> 0) ''schema must define at least one object'']"

record MappingRule =
  mr_ID :: string
  mr_SourcePath :: string
  mr_TargetPath :: string
  mr_Transform :: string
  mr_Required :: bool
  mr_Default :: any
  mr_Constraints :: meta
  mr_Metadata :: meta

definition MappingRule_Validate :: "MappingRule \<Rightarrow> goerr option" where
  "MappingRule_Validate r =
     first_error [required (mr_SourcePath r) ''rule source path is required'', required (mr_TargetPath r) ''rule target path is required'']"

record MappingSpec =
  ms_ID :: string
  ms_SpecID :: string
  ms_ProviderID :: string
  ms_Scope :: ScopeRef
  ms_Name :: string
  ms_Description :: string
  ms_SourceObject :: string
  ms_TargetModel :: string
  ms_SchemaRef :: string
  ms_Version :: int
  ms_Status :: MappingSpecStatus
  ms_Rules :: "MappingRule list"
  ms_Metadata :: meta
  ms_CreatedAt :: int
  ms_UpdatedAt :: int
  ms_PublishedAt :: "int option"

fun rules_error :: "(goerr \<Rightarrow> string) \<Rightarrow> nat \<Rightarrow> MappingRule list \<Rightarrow> goerr option" where
  "rules_error txt idx [] = None"
| "rules_error txt idx (r # rs) =
     (case MappingRule_Validate r of
        Some err \<Rightarrow> Some (Wrapped (''core: invalid mapping rule at index '' @ Itoa (int idx) @ '': '' @ txt err) [err])
      | None \<Rightarrow> rules_error txt (Suc idx) rs)"

definition MappingSpec_Validate :: "(goerr \<Rightarrow> string) \<Rightarrow> MappingSpec \<Rightarrow> goerr option" where
  "MappingSpec_Validate txt s =
     first_error [required (ms_SpecID s) ''mapping spec id is required'', required (ms_ProviderID s) ''provider id is required'',
       ScopeRef_Validate (ms_Scope s), required (ms_Name s) ''mapping spec name is required'',
       required (ms_SourceObject s) ''source object is required'', required (ms_TargetModel s) ''target model is required'',
       unless (\<not> ms_Version s < 1) ''mapping spec version must be >= 1'',
       unless (MappingSpecStatus_IsValid (ms_Status s)) (''invalid mapping spec status '' @ quote (ms_Status s)),
       rules_error txt 0 (ms_Rules s)]"

lemma rule_valid: "MappingRule_Validate r = None \<longleftrightarrow> TrimSpace (mr_SourcePath r) \<noteq> [] \<and> TrimSpace (mr_TargetPath r) \<noteq> []"
  unfolding MappingRule_Validate_def first_error_None by auto

lemma rules_error_None: "rules_error txt idx rs = None \<longleftrightarrow> (\<forall>r \<in> set rs. TrimSpace (mr_SourcePath r) \<noteq> [] \<and> TrimSpace (mr_TargetPath r) \<noteq> [])"
proof (induction rs arbitrary: idx)
  case (Cons r rs) then show ?case using rule_valid [of r] by (cases "MappingRule_Validate r") auto
qed simp

section \<open>Bindings, conflicts and checkpoints\<close>

record IdentityBinding =
  ib_ID :: string
  ib_ProviderID :: string
  ib_Scope :: ScopeRef
  ib_ConnectionID :: string
  ib_SyncBindingID :: string
  ib_SourceObject :: string
  ib_ExternalID :: string
  ib_InternalType :: string
  ib_InternalID :: string
  ib_MatchKind :: IdentityBindingMatchKind
  ib_Confidence :: rat
  ib_Metadata :: meta
  ib_CreatedAt :: int
  ib_UpdatedAt :: int

definition IdentityBinding_Validate :: "IdentityBinding \<Rightarrow> goerr option" where
  "IdentityBinding_Validate b =
     first_error [required (ib_ProviderID b) ''provider id is required'', ScopeRef_Validate (ib_Scope b),
       required (ib_ConnectionID b) ''connection id is required'', required (ib_SourceObject b) ''source object is required'',
       required (ib_ExternalID b) ''external id is required'', required (ib_InternalID b) ''internal id is required'',
       unless (IdentityBindingMatchKind_IsValid (ib_MatchKind b)) (''invalid identity match kind '' @ quote (ib_MatchKind b)),
       unless (\<not> (ib_Confidence b < 0 \<or> ib_Confidence b > 1)) ''identity confidence must be in [0,1]'']"

record SyncBinding =
  sb_ID :: string
  sb_ProviderID :: string
  sb_Scope :: ScopeRef
  sb_ConnectionID :: string
  sb_MappingSpecID :: string
  sb_SourceObject :: string
  sb_TargetModel :: string
  sb_Direction :: SyncDirection
  sb_Status :: SyncBindingStatus
  sb_Metadata :: meta
  sb_CreatedAt :: int
  sb_UpdatedAt :: int

definition SyncBinding_Validate :: "SyncBinding \<Rightarrow> goerr option" where
  "SyncBinding_Validate b =
     first_error [required (sb_ProviderID b) ''provider id is required'', ScopeRef_Validate (sb_Scope b),
       required (sb_ConnectionID b) ''connection id is required'', required (sb_MappingSpecID b) ''mapping spec id is required'',
       required (sb_SourceObject b) ''source object is required'', required (sb_TargetModel b) ''target model is required'',
       unless (SyncDirection_IsValid (sb_Direction b)) (''invalid sync direction '' @ quote (sb_Direction b)),
       unless (SyncBindingStatus_IsValid (sb_Status b)) (''invalid sync binding status '' @ quote (sb_Status b))]"

record SyncConflict =
  sc_ID :: string
  sc_ProviderID :: string
  sc_Scope :: ScopeRef
  sc_ConnectionID :: string
  sc_SyncBindingID :: string
  sc_CheckpointID :: string
  sc_SourceObject :: string
  sc_ExternalID :: string
  sc_SourceVersion :: string
  sc_IdempotencyKey :: string
  sc_Policy :: string
  sc_Reason :: string
  sc_Status :: SyncConflictStatus
  sc_SourcePayload :: meta
  sc_TargetPayload :: meta
  sc_Resolution :: meta
  sc_ResolvedBy :: string
  sc_ResolvedAt :: "int option"
  sc_Metadata :: meta
  sc_CreatedAt :: int
  sc_UpdatedAt :: int

definition SyncConflict_Validate :: "SyncConflict \<Rightarrow> goerr option" where
  "SyncConflict_Validate c =
     first_error [required (sc_ProviderID c) ''provider id is required'', ScopeRef_Validate (sc_Scope c),
       required (sc_ConnectionID c) ''connection id is required'', required (sc_SyncBindingID c) ''sync binding id is required'',
       required (sc_SourceObject c) ''source object is required'', required (sc_ExternalID c) ''external id is required'',
       required (sc_Reason c) ''conflict reason is required'',
       unless (SyncConflictStatus_IsValid (sc_Status c)) (''invalid sync conflict status '' @ quote (sc_Status c))]"

record SyncCheckpoint =
  ck_ID :: string
  ck_ProviderID :: string
  ck_Scope :: ScopeRef
  ck_ConnectionID :: string
  ck_SyncBindingID :: string
  ck_Direction :: SyncDirection
  ck_Cursor :: string
  ck_Sequence :: int
  ck_SourceVersion :: string
  ck_IdempotencySeed :: string
  ck_Metadata :: meta
  ck_LastEventAt :: "int option"
  ck_CreatedAt :: int
  ck_UpdatedAt :: int

definition SyncCheckpoint_Validate :: "SyncCheckpoint \<Rightarrow> goerr option" where
  "SyncCheckpoint_Validate c =
     first_error [required (ck_ProviderID c) ''provider id is required'', ScopeRef_Validate (ck_Scope c),
       required (ck_ConnectionID c) ''connection id is required'', required (ck_SyncBindingID c) ''sync binding id is required'',
       unless (SyncDirection_IsValid (ck_Direction c)) (''invalid checkpoint direction '' @ quote (ck_Direction c)),
       unless (\<not> ck_Sequence c < 0) ''checkpoint sequence must be >= 0'']"

section \<open>Requests and results\<close>

record MappingValidationIssue =
  vi_Code :: string
  vi_Message :: string
  vi_Severity :: string
  vi_RuleID :: string
  vi_SourcePath :: string
  vi_TargetPath :: string

abbreviation MappingValidationIssueError :: string where "MappingValidationIssueError \<equiv> ''error''"
abbreviation MappingValidationIssueWarning :: string where "MappingValidationIssueWarning \<equiv> ''warning''"

record ValidateMappingSpecRequest =
  vq_Spec :: MappingSpec
  vq_Schema :: ExternalSchema

record CompiledMappingRule =
  cm_Rule :: MappingRule
  cm_SourceType :: string
  cm_TargetType :: string
  cm_Transform :: string

record CompiledMappingSpec =
  cp_SpecID :: string
  cp_Version :: int
  cp_SourceObject :: string
  cp_Rules :: "CompiledMappingRule list"
  cp_DeterministicHash :: string

record ValidateMappingSpecResult =
  vr_Valid :: bool
  vr_Issues :: "MappingValidationIssue list"
  vr_NormalizedSpec :: MappingSpec
  vr_Compiled :: CompiledMappingSpec

record PreviewMappingSpecRequest =
  pq_Spec :: MappingSpec
  pq_Schema :: ExternalSchema
  pq_Samples :: "meta list"

record PreviewFieldDiff =
  pd_RuleID :: string
  pd_SourcePath :: string
  pd_TargetPath :: string
  pd_InputValue :: any
  pd_OutputValue :: any
  pd_Changed :: bool

record PreviewRecord =
  pc_Input :: meta
  pc_Output :: meta
  pc_Diff :: "PreviewFieldDiff list"
  pc_Issues :: "MappingValidationIssue list"

record PreviewReport =
  pp_SampleCount :: int
  pp_IssueCount :: int
  pp_AppliedRuleCount :: int

record PreviewMappingSpecResult =
  pm_Issues :: "MappingValidationIssue list"
  pm_Records :: "PreviewRecord list"
  pm_Report :: PreviewReport
  pm_DeterministicHash :: string
  pm_GeneratedAt :: int

record PlanSyncRunRequest =
  pl_Binding :: SyncBinding
  pl_Mode :: SyncRunMode
  pl_FromCheckpointID :: string
  pl_Limit :: int
  pl_Metadata :: meta

record SyncRunPlan =
  sp_ID :: string
  sp_BindingID :: string
  sp_Mode :: SyncRunMode
  sp_Checkpoint :: SyncCheckpoint
  sp_EstimatedChanges :: int
  sp_IdempotencySeed :: string
  sp_DeterministicHash :: string
  sp_Metadata :: meta
  sp_GeneratedAt :: int

record SyncChange =
  sg_SourceObject :: string
  sg_ExternalID :: string
  sg_SourceVersion :: string
  sg_Payload :: meta
  sg_Metadata :: meta

record SyncRunResult =
  ru_RunID :: string
  ru_Status :: SyncRunStatus
  ru_ProcessedCount :: int
  ru_SkippedCount :: int
  ru_ConflictCount :: int
  ru_FailedCount :: int
  ru_NextCheckpoint :: "SyncCheckpoint option"
  ru_Metadata :: meta

record SyncChangeLogEntry =
  cl_ID :: string
  cl_ProviderID :: string
  cl_Scope :: ScopeRef
  cl_ConnectionID :: string
  cl_SyncBindingID :: string
  cl_Direction :: SyncDirection
  cl_SourceObject :: string
  cl_ExternalID :: string
  cl_SourceVersion :: string
  cl_IdempotencyKey :: string
  cl_Payload :: meta
  cl_Metadata :: meta
  cl_OccurredAt :: int

record SyncConflictResolution =
  rz_Action :: SyncConflictResolutionAction
  rz_Patch :: meta
  rz_Reason :: string
  rz_ResolvedBy :: string

record ResolveSyncConflictRequest =
  rx_ProviderID :: string
  rx_Scope :: ScopeRef
  rx_ConflictID :: string
  rx_Resolution :: SyncConflictResolution

record RecordSyncConflictRequest =
  rd_Conflict :: SyncConflict
  rd_Metadata :: meta

record IdentityCandidate =
  ic_InternalType :: string
  ic_InternalID :: string
  ic_Confidence :: rat
  ic_Metadata :: meta

record ReconcileIdentityRequest =
  ri_ProviderID :: string
  ri_Scope :: ScopeRef
  ri_ConnectionID :: string
  ri_SyncBindingID :: string
  ri_SourceObject :: string
  ri_ExternalID :: string
  ri_Candidates :: "IdentityCandidate list"
  ri_Metadata :: meta

record ReconcileIdentityResult =
  rr_Binding :: IdentityBinding
  rr_Created :: bool

section \<open>Stores and helpers shared by the services\<close>

text \<open>\<open>(T, bool, error)\<close> is a result of an option.\<close>

record 'w MappingSpecStore =
  mst_CreateDraft :: "MappingSpec \<Rightarrow> ('w, MappingSpec) effect"
  mst_UpdateDraft :: "MappingSpec \<Rightarrow> ('w, MappingSpec) effect"
  mst_SetStatus :: "string \<Rightarrow> ScopeRef \<Rightarrow> string \<Rightarrow> int \<Rightarrow> MappingSpecStatus \<Rightarrow> int \<Rightarrow> ('w, MappingSpec) effect"
  mst_GetVersion :: "string \<Rightarrow> ScopeRef \<Rightarrow> string \<Rightarrow> int \<Rightarrow> 'w \<Rightarrow> (MappingSpec option) result"
  mst_GetLatest :: "string \<Rightarrow> ScopeRef \<Rightarrow> string \<Rightarrow> 'w \<Rightarrow> (MappingSpec option) result"
  mst_ListByScope :: "string \<Rightarrow> ScopeRef \<Rightarrow> 'w \<Rightarrow> (MappingSpec list) result"
  mst_PublishVersion :: "string \<Rightarrow> ScopeRef \<Rightarrow> string \<Rightarrow> int \<Rightarrow> int \<Rightarrow> ('w, MappingSpec) effect"

record 'w IdentityBindingStore =
  ist_Upsert :: "IdentityBinding \<Rightarrow> ('w, IdentityBinding) effect"
  ist_GetByExternalID :: "string \<Rightarrow> string \<Rightarrow> 'w \<Rightarrow> (IdentityBinding option) result"

record 'w SyncConflictStore =
  cfs_Append :: "SyncConflict \<Rightarrow> ('w, SyncConflict) effect"
  cfs_Get :: "string \<Rightarrow> ScopeRef \<Rightarrow> string \<Rightarrow> 'w \<Rightarrow> SyncConflict result"
  cfs_Resolve :: "string \<Rightarrow> ScopeRef \<Rightarrow> string \<Rightarrow> SyncConflictResolution \<Rightarrow> int \<Rightarrow> ('w, SyncConflict) effect"

record 'w SyncCheckpointStore =
  chk_Save :: "SyncCheckpoint \<Rightarrow> ('w, SyncCheckpoint) effect"
  chk_GetByID :: "string \<Rightarrow> ScopeRef \<Rightarrow> string \<Rightarrow> 'w \<Rightarrow> (SyncCheckpoint option) result"
  chk_GetLatest :: "string \<Rightarrow> ScopeRef \<Rightarrow> string \<Rightarrow> SyncDirection \<Rightarrow> 'w \<Rightarrow> (SyncCheckpoint option) result"

text \<open>\<open>Append\<close> of the change log, and \<open>LifecycleEventBus.Publish\<close>, where there is one.\<close>

type_synonym 'w change_log = "SyncChangeLogEntry \<Rightarrow> ('w, bool) effect"
type_synonym 'w event_bus = "(LifecycleEvent \<Rightarrow> ('w, unit) effect) option"

definition copyMetadata :: "meta \<Rightarrow> meta" where
  "copyMetadata m = (if length m = 0 then [] else maps_Copy [] m)"

definition mergeMetadata :: "meta \<Rightarrow> meta \<Rightarrow> meta" where
  "mergeMetadata left right = (if length left + length right = 0 then [] else maps_Copy (maps_Copy [] right) left)"

definition sameProviderScope :: "string \<Rightarrow> ScopeRef \<Rightarrow> string \<Rightarrow> ScopeRef \<Rightarrow> bool" where
  "sameProviderScope actualProviderID actualScope expectedProviderID expectedScope \<longleftrightarrow>
     EqualFold (TrimSpace actualProviderID) (TrimSpace expectedProviderID) \<and>
     EqualFold (TrimSpace (scope_Type actualScope)) (TrimSpace (scope_Type expectedScope)) \<and>
     TrimSpace (scope_ID actualScope) = TrimSpace (scope_ID expectedScope)"

definition normalized_scope :: "ScopeRef \<Rightarrow> ScopeRef" where
  "normalized_scope scope = \<lparr>scope_Type = TrimSpace (ToLower (scope_Type scope)), scope_ID = TrimSpace (scope_ID scope)\<rparr>"

definition normalizeProviderScope :: "string \<Rightarrow> ScopeRef \<Rightarrow> (string \<times> ScopeRef) result" where
  "normalizeProviderScope providerID scope =
     (let providerID = TrimSpace providerID; scope = normalized_scope scope in
      if providerID = [] then Inl (Plain ''core: provider id is required'')
      else case ScopeRef_Validate scope of Some err \<Rightarrow> Inl err | None \<Rightarrow> Inr (providerID, scope))"

end
