(* ===== verification/Mapping_Compiler.thy ===== *)
theory Mapping_Compiler
  imports Formdata Http_Values "HOL-Library.Product_Lexorder"
begin

text \<open>
  The compiler of mapping specifications (\<open>src/core/mapping_compiler.go\<close>), the transforms of values
  (\<open>src/core/mapping_transforms.go\<close>) and the preview of a specification on samples
  (\<open>src/core/mapping_previewer.go\<close>). JSON encoding, SHA-256, the parsing and the conversion of floats and the
  printing of times are arguments.
\<close>

record mapping_env =
  me_text :: "goerr \<Rightarrow> string"
  me_sha256 :: "string \<Rightarrow> string"
  me_marshal :: "CompiledMappingSpec \<Rightarrow> string result"
  me_ff :: "int \<Rightarrow> int \<Rightarrow> string"
  me_int_of_float :: "int \<Rightarrow> int \<Rightarrow> int"
  me_float_of_int :: "int \<Rightarrow> int \<times> int"
  me_parse_float :: "string \<Rightarrow> (int \<times> int) result"
  me_parse_int_error :: "string \<Rightarrow> goerr"
  me_rfc3339 :: "int \<Rightarrow> string"

section \<open>Normal forms\<close>

definition normalizePath :: "string \<Rightarrow> string" where
  "normalizePath path = TrimSpace path"

definition normalizeTransform :: "string \<Rightarrow> string" where
  "normalizeTransform transform =
     (let candidate = TrimSpace (ToLower transform) in if candidate = [] then ''identity'' else candidate)"

definition normalizeMappingRule :: "MappingRule \<Rightarrow> MappingRule" where
  "normalizeMappingRule rule =
     rule\<lparr>mr_ID := TrimSpace (mr_ID rule), mr_SourcePath := normalizePath (mr_SourcePath rule),
       mr_TargetPath := normalizePath (mr_TargetPath rule), mr_Transform := normalizeTransform (mr_Transform rule)\<rparr>"

definition trimmed_rule :: "MappingRule \<Rightarrow> MappingRule" where
  "trimmed_rule rule =
     rule\<lparr>mr_ID := TrimSpace (mr_ID rule), mr_SourcePath := TrimSpace (mr_SourcePath rule),
       mr_TargetPath := TrimSpace (mr_TargetPath rule), mr_Transform := TrimSpace (mr_Transform rule)\<rparr>"

definition normalizeMappingSpec :: "MappingSpec \<Rightarrow> MappingSpec" where
  "normalizeMappingSpec spec =
     spec\<lparr>ms_ID := TrimSpace (ms_ID spec), ms_SpecID := TrimSpace (ms_SpecID spec), ms_ProviderID := TrimSpace (ms_ProviderID spec),
       ms_Scope := normalized_scope (ms_Scope spec), ms_Name := TrimSpace (ms_Name spec), ms_Description := TrimSpace (ms_Description spec),
       ms_SourceObject := TrimSpace (ms_SourceObject spec), ms_TargetModel := TrimSpace (ms_TargetModel spec),
       ms_SchemaRef := TrimSpace (ms_SchemaRef spec), ms_Rules := map trimmed_rule (ms_Rules spec)\<rparr>"

definition canonicalFieldType :: "string \<Rightarrow> string" where
  "canonicalFieldType raw =
     (let value = TrimSpace (ToLower raw) in
      if value \<in> {''int'', ''integer''} then ''integer''
      else if value \<in> {''float'', ''double'', ''decimal'', ''number''} then ''number''
      else if value \<in> {''bool'', ''boolean''} then ''boolean''
      else if value \<in> {''str'', ''string'', ''text''} then ''string''
      else if value \<in> {''timestamp'', ''datetime'', ''date_time''} then ''datetime''
      else value)"

definition isSupportedMappingTransform :: "string \<Rightarrow> bool" where
  "isSupportedMappingTransform transform \<longleftrightarrow>
     transform \<in> {''identity'', ''to_string'', ''to_int'', ''to_float'', ''to_bool'', ''trim'', ''lowercase'', ''uppercase'', ''unix_time_to_rfc3339''}"

fun resolve_target_type :: "meta \<Rightarrow> string list \<Rightarrow> string" where
  "resolve_target_type constraints [] = []"
| "resolve_target_type constraints (key # keys) =
     (case map_of constraints key of Some (AStr text) \<Rightarrow> canonicalFieldType text | _ \<Rightarrow> resolve_target_type constraints keys)"

definition resolveTargetType :: "MappingRule \<Rightarrow> string" where
  "resolveTargetType rule = resolve_target_type (mr_Constraints rule) [''target_type'', ''targetType'', ''type'']"

definition isMappingTypeCompatible :: "string \<Rightarrow> string \<Rightarrow> string \<Rightarrow> bool" where
  "isMappingTypeCompatible sourceType targetType transform =
     (let t = canonicalFieldType targetType; s = canonicalFieldType sourceType; tr = normalizeTransform transform in
      if t = [] \<or> s = [] then True
      else if tr = ''identity'' then s = t
      else if tr = ''to_string'' then t = ''string''
      else if tr = ''to_int'' then t = ''integer'' \<and> s \<in> {''string'', ''integer'', ''number'', ''boolean''}
      else if tr = ''to_float'' then t = ''number'' \<and> s \<in> {''string'', ''integer'', ''number''}
      else if tr = ''to_bool'' then t = ''boolean'' \<and> s \<in> {''string'', ''integer'', ''boolean''}
      else if tr \<in> {''trim'', ''lowercase'', ''uppercase''} then s = ''string'' \<and> t = ''string''
      else if tr = ''unix_time_to_rfc3339'' then t = ''string'' \<and> s \<in> {''integer'', ''number'', ''string''}
      else False)"

definition deriveExternalSchemaReference :: "ExternalSchema \<Rightarrow> string" where
  "deriveExternalSchemaReference schema =
     (if TrimSpace (xs_ID schema) \<noteq> [] then TrimSpace (xs_ID schema)
      else
        let name = TrimSpace (xs_Name schema); version = TrimSpace (xs_Version schema) in
        if name = [] then [] else if version = [] then name else name @ ''@'' @ version)"

definition findExternalObject :: "ExternalSchema \<Rightarrow> string \<Rightarrow> ExternalObjectSchema option" where
  "findExternalObject schema objectName = find (\<lambda>object. normalizePath (xo_Name object) = normalizePath objectName) (xs_Objects schema)"

definition buildSourceFieldIndexes :: "ExternalObjectSchema \<Rightarrow> (string, ExternalField) gomap \<times> (string, ExternalField) gomap" where
  "buildSourceFieldIndexes object =
     (fold (\<lambda>field m. AList.update (normalizePath (xf_Path field)) field m) (xo_Fields object) [],
      fold (\<lambda>field m. if xf_Required field then AList.update (normalizePath (xf_Path field)) field m else m) (xo_Fields object) [])"

section \<open>Issues\<close>

definition mappingIssue :: "string \<Rightarrow> string \<Rightarrow> string \<Rightarrow> string \<Rightarrow> string \<Rightarrow> string \<Rightarrow> MappingValidationIssue" where
  "mappingIssue code message ruleID sourcePath targetPath severity =
     \<lparr>vi_Code = TrimSpace (ToLower code), vi_Message = TrimSpace message, vi_Severity = severity, vi_RuleID = TrimSpace ruleID,
      vi_SourcePath = TrimSpace sourcePath, vi_TargetPath = TrimSpace targetPath\<rparr>"

definition containsMappingErrors :: "MappingValidationIssue list \<Rightarrow> bool" where
  "containsMappingErrors issues \<longleftrightarrow> (\<exists>issue \<in> set issues. vi_Severity issue = MappingValidationIssueError)"

definition sortMappingValidationIssues :: "MappingValidationIssue list \<Rightarrow> MappingValidationIssue list" where
  "sortMappingValidationIssues issues =
     sort_key (\<lambda>i. (vi_Severity i, vi_Code i, vi_RuleID i, vi_SourcePath i, vi_TargetPath i, vi_Message i)) issues"

section \<open>Compilation\<close>

record compile_state =
  st_issues :: "MappingValidationIssue list"
  st_mapped :: "string list"
  st_targets :: "(string, string) gomap"
  st_rules :: "CompiledMappingRule list"

text \<open>One turn of the loop over the rules. The field of a source that is not found is the zero field.\<close>

definition compile_rule :: "(string, ExternalField) gomap \<Rightarrow> string \<Rightarrow> MappingRule \<Rightarrow> compile_state \<Rightarrow> compile_state" where
  "compile_rule fieldByPath objectName rule0 st =
     (let rule = normalizeMappingRule rule0;
          issue = (\<lambda>code message. mappingIssue code message (mr_ID rule) (mr_SourcePath rule) (mr_TargetPath rule) MappingValidationIssueError);
          sourcePath = normalizePath (mr_SourcePath rule); targetPath = normalizePath (mr_TargetPath rule);
          field = map_of fieldByPath sourcePath;
          sourceType = canonicalFieldType (case field of Some f \<Rightarrow> xf_Type f | None \<Rightarrow> []);
          transform = normalizeTransform (mr_Transform rule);
          targetType = resolveTargetType rule;
          i1 = (if field = None then [issue ''source_field_not_found'' (''core: source field '' @ quote (mr_SourcePath rule) @
                 '' not found in object '' @ quote objectName)] else []);
          i2 = (if \<not> isSupportedMappingTransform transform then [issue ''transform_unknown'' (''core: unsupported transform '' @ quote (mr_Transform rule))] else []);
          i3 = (if isSupportedMappingTransform transform \<and> field \<noteq> None \<and> targetType \<noteq> [] \<and> \<not> isMappingTypeCompatible sourceType targetType transform
                then [issue ''type_incompatible'' (''core: source type '' @ quote sourceType @ '' is not compatible with target type '' @
                  quote targetType @ '' using transform '' @ quote transform)] else []);
          i4 = (case map_of (st_targets st) targetPath of
                  Some existing \<Rightarrow> [issue ''target_path_duplicate'' (''core: duplicate target path '' @ quote (mr_TargetPath rule) @
                    '' for rules '' @ quote existing @ '' and '' @ quote (mr_ID rule))]
                | None \<Rightarrow> [])
      in \<lparr>st_issues = st_issues st @ i1 @ i2 @ i3 @ i4,
          st_mapped = (case field of Some f \<Rightarrow> if xf_Required f then sourcePath # st_mapped st else st_mapped st | None \<Rightarrow> st_mapped st),
          st_targets = (if map_of (st_targets st) targetPath = None \<and> targetPath \<noteq> [] then AList.update targetPath (mr_ID rule) (st_targets st) else st_targets st),
          st_rules = st_rules st @ [\<lparr>cm_Rule = rule, cm_SourceType = sourceType, cm_TargetType = targetType, cm_Transform = transform\<rparr>]\<rparr>)"

definition mappingCompiledHash :: "mapping_env \<Rightarrow> CompiledMappingSpec \<Rightarrow> string result" where
  "mappingCompiledHash env compiled =
     (case me_marshal env compiled of
        Inl err \<Rightarrow> Inl (Wrapped (''core: marshal compiled mapping spec: '' @ me_text env err) [err])
      | Inr payload \<Rightarrow> Inr (hex_encode (me_sha256 env payload)))"

text \<open>The issues that do not come from a rule.\<close>

definition spec_issues :: "mapping_env \<Rightarrow> MappingSpec \<Rightarrow> ExternalSchema \<Rightarrow> MappingValidationIssue list" where
  "spec_issues env spec schema =
     (let err = (\<lambda>code e. case e of Some err \<Rightarrow> [mappingIssue code (me_text env err) [] [] [] MappingValidationIssueError] | None \<Rightarrow> []);
          ref = deriveExternalSchemaReference schema
      in err ''invalid_schema'' (ExternalSchema_Validate schema) @ err ''invalid_spec'' (MappingSpec_Validate (me_text env) spec) @
         (if ref \<noteq> [] \<and> TrimSpace (ms_SchemaRef spec) \<noteq> [] \<and> normalizePath ref \<noteq> normalizePath (ms_SchemaRef spec)
          then [mappingIssue ''schema_drift_detected'' (''core: mapping spec schema_ref '' @ quote (ms_SchemaRef spec) @
            '' differs from active schema '' @ quote ref) [] [] [] MappingValidationIssueWarning] else []))"

definition unmapped_issues :: "(string, ExternalField) gomap \<Rightarrow> string list \<Rightarrow> MappingValidationIssue list" where
  "unmapped_issues requiredFields mapped =
     map (\<lambda>path. let p = xf_Path (the (map_of requiredFields path)) in
         mappingIssue ''required_field_unmapped'' (''core: required source field '' @ quote p @ '' is not mapped'') [] p [] MappingValidationIssueError)
       (filter (\<lambda>path. path \<notin> set mapped) (sort (map fst requiredFields)))"

definition sort_rules :: "CompiledMappingRule list \<Rightarrow> CompiledMappingRule list" where
  "sort_rules rules = sort_key (\<lambda>c. (mr_TargetPath (cm_Rule c), mr_SourcePath (cm_Rule c), mr_ID (cm_Rule c))) rules"

definition CompileMappingSpec ::
  "mapping_env \<Rightarrow> ValidateMappingSpecRequest \<Rightarrow> (CompiledMappingSpec \<times> MappingValidationIssue list) result" where
  "CompileMappingSpec env req =
     (let spec = normalizeMappingSpec (vq_Spec req); schema = vq_Schema req;
          issues = spec_issues env spec schema;
          empty = \<lparr>cp_SpecID = ms_SpecID spec, cp_Version = ms_Version spec, cp_SourceObject = ms_SourceObject spec,
            cp_Rules = [], cp_DeterministicHash = []\<rparr> in
      case findExternalObject schema (ms_SourceObject spec) of
        None \<Rightarrow>
          Inr (empty, sortMappingValidationIssues (issues @ [mappingIssue ''source_object_not_found''
            (''core: source object '' @ quote (ms_SourceObject spec) @ '' not found in schema'') [] [] [] MappingValidationIssueError]))
      | Some object \<Rightarrow>
          (case buildSourceFieldIndexes object of (fieldByPath, requiredFields) \<Rightarrow>
           let st = fold (compile_rule fieldByPath (xo_Name object)) (ms_Rules spec)
                 \<lparr>st_issues = issues, st_mapped = [], st_targets = [], st_rules = []\<rparr>;
               issues = st_issues st @ unmapped_issues requiredFields (st_mapped st);
               compiled = empty\<lparr>cp_Rules := sort_rules (st_rules st)\<rparr>
           in case mappingCompiledHash env compiled of
                Inl err \<Rightarrow> Inl err
              | Inr hash \<Rightarrow> Inr (compiled\<lparr>cp_DeterministicHash := hash\<rparr>, sortMappingValidationIssues issues)))"

definition ValidateMappingSpec :: "mapping_env \<Rightarrow> ValidateMappingSpecRequest \<Rightarrow> ValidateMappingSpecResult result" where
  "ValidateMappingSpec env req =
     (case CompileMappingSpec env req of
        Inl err \<Rightarrow> Inl err
      | Inr (compiled, issues) \<Rightarrow>
          Inr \<lparr>vr_Valid = (\<not> containsMappingErrors issues), vr_Issues = sortMappingValidationIssues issues,
            vr_NormalizedSpec = normalizeMappingSpec (vq_Spec req), vr_Compiled = compiled\<rparr>)"

section \<open>What a valid specification is\<close>

text \<open>
  A specification fits a schema: both are well formed, the source object exists, every rule reads a field of it with
  a transform that exists and that gives the type the rule asks for, no two rules write the same target, and
  every required field is read by a rule.
\<close>

definition source_field :: "ExternalObjectSchema \<Rightarrow> string \<Rightarrow> ExternalField option" where
  "source_field object path = find (\<lambda>f. normalizePath (xf_Path f) = path) (rev (xo_Fields object))"

definition rule_fits :: "(string \<Rightarrow> ExternalField option) \<Rightarrow> MappingRule \<Rightarrow> bool" where
  "rule_fits src rule \<longleftrightarrow>
     (case src (normalizePath (mr_SourcePath rule)) of
        None \<Rightarrow> False
      | Some f \<Rightarrow> isSupportedMappingTransform (normalizeTransform (mr_Transform rule)) \<and>
          (resolveTargetType rule \<noteq> [] \<longrightarrow> isMappingTypeCompatible (xf_Type f) (resolveTargetType rule) (mr_Transform rule)))"

definition reads_required :: "(string \<Rightarrow> ExternalField option) \<Rightarrow> MappingRule list \<Rightarrow> string set" where
  "reads_required src rules = {path. \<exists>rule \<in> set rules. path = normalizePath (mr_SourcePath rule) \<and> (\<exists>f. src path = Some f \<and> xf_Required f)}"

definition spec_fits :: "mapping_env \<Rightarrow> MappingSpec \<Rightarrow> ExternalSchema \<Rightarrow> bool" where
  "spec_fits env spec schema \<longleftrightarrow>
     ExternalSchema_Validate schema = None \<and> MappingSpec_Validate (me_text env) spec = None \<and>
     (case findExternalObject schema (ms_SourceObject spec) of
        None \<Rightarrow> False
      | Some object \<Rightarrow>
          (\<forall>rule \<in> set (ms_Rules spec). rule_fits (source_field object) rule) \<and>
          distinct (map (normalizePath \<circ> mr_TargetPath) (ms_Rules spec)) \<and>
          (\<forall>f \<in> set (xo_Fields object). xf_Required f \<longrightarrow> normalizePath (xf_Path f) \<in> reads_required (source_field object) (ms_Rules spec)))"

lemma canonicalFieldType_idem [simp]: "canonicalFieldType (canonicalFieldType t) = canonicalFieldType t"
proof -
  define v where "v = TrimSpace (ToLower t)"
  have v: "TrimSpace (ToLower v) = v" by (metis TrimSpace_ToLower TrimSpace_idem ToLower_idem v_def)
  have fixed: "canonicalFieldType ''integer'' = ''integer''" "canonicalFieldType ''number'' = ''number''" "canonicalFieldType ''boolean'' = ''boolean''"
    "canonicalFieldType ''string'' = ''string''" "canonicalFieldType ''datetime'' = ''datetime''" by code_simp+
  have d: "canonicalFieldType v = canonicalFieldType t" by (simp add: canonicalFieldType_def v v_def [symmetric])
  have "canonicalFieldType t \<in> {''integer'', ''number'', ''boolean'', ''string'', ''datetime'', v}"
    by (simp add: canonicalFieldType_def v_def [symmetric] Let_def)
  then show ?thesis using fixed d by auto
qed

lemma compatible_canonical [simp]: "isMappingTypeCompatible (canonicalFieldType s) t tr = isMappingTypeCompatible s t tr"
  by (simp add: isMappingTypeCompatible_def)

lemma normalizeTransform_idem [simp]: "normalizeTransform (normalizeTransform t) = normalizeTransform t"
proof -
  have i: "normalizeTransform ''identity'' = ''identity''" by code_simp
  define v where "v = TrimSpace (ToLower t)"
  have v: "TrimSpace (ToLower v) = v" by (metis TrimSpace_ToLower TrimSpace_idem ToLower_idem v_def)
  have n: "normalizeTransform t = (if v = [] then ''identity'' else v)" by (simp add: normalizeTransform_def Let_def v_def)
  show ?thesis by (cases "v = []") (simp_all add: n i, simp add: normalizeTransform_def Let_def v)
qed

lemma compatible_transform [simp]: "isMappingTypeCompatible s t (normalizeTransform tr) = isMappingTypeCompatible s t tr"
  by (simp add: isMappingTypeCompatible_def)

lemma normalizePath_idem [simp]: "normalizePath (normalizePath p) = normalizePath p"
  by (simp add: normalizePath_def)

lemma normalized_rule [simp]:
  "normalizePath (mr_SourcePath (normalizeMappingRule r)) = normalizePath (mr_SourcePath r)"
  "normalizePath (mr_TargetPath (normalizeMappingRule r)) = normalizePath (mr_TargetPath r)"
  "normalizeTransform (mr_Transform (normalizeMappingRule r)) = normalizeTransform (mr_Transform r)"
  "resolveTargetType (normalizeMappingRule r) = resolveTargetType r"
  by (simp_all add: normalizeMappingRule_def resolveTargetType_def)

lemma errors_append [simp]: "containsMappingErrors (xs @ ys) \<longleftrightarrow> containsMappingErrors xs \<or> containsMappingErrors ys"
  by (auto simp: containsMappingErrors_def)

lemma errors_sorted [simp]: "containsMappingErrors (sortMappingValidationIssues xs) = containsMappingErrors xs"
  by (simp add: containsMappingErrors_def sortMappingValidationIssues_def)

lemma errors_Cons [simp]:
  "containsMappingErrors (i # is) \<longleftrightarrow> vi_Severity i = MappingValidationIssueError \<or> containsMappingErrors is" "\<not> containsMappingErrors []"
  "vi_Severity (mappingIssue c m r s t sev) = sev"
  by (simp_all add: containsMappingErrors_def mappingIssue_def)

text \<open>One rule adds an error exactly when it does not fit or writes a target that was written before.\<close>

lemma compile_rule_effect:
  fixes F :: "(string, ExternalField) gomap" and object :: string and st :: compile_state
  assumes "normalizePath (mr_TargetPath rule) \<noteq> []"
  defines "st' \<equiv> compile_rule F object rule st"
  shows "containsMappingErrors (st_issues st') \<longleftrightarrow> containsMappingErrors (st_issues st) \<or> \<not> rule_fits (map_of F) rule \<or>
      normalizePath (mr_TargetPath rule) \<in> dom (map_of (st_targets st))"
    and "set (st_mapped st') = set (st_mapped st) \<union> reads_required (map_of F) [rule]"
    and "dom (map_of (st_targets st')) = insert (normalizePath (mr_TargetPath rule)) (dom (map_of (st_targets st)))"
proof -
  show "containsMappingErrors (st_issues st') \<longleftrightarrow> containsMappingErrors (st_issues st) \<or> \<not> rule_fits (map_of F) rule \<or>
      normalizePath (mr_TargetPath rule) \<in> dom (map_of (st_targets st))"
    unfolding st'_def compile_rule_def Let_def normalized_rule
    by (cases "map_of F (normalizePath (mr_SourcePath rule))"; cases "map_of (st_targets st) (normalizePath (mr_TargetPath rule))")
      (auto simp: rule_fits_def domIff)
  show "set (st_mapped st') = set (st_mapped st) \<union> reads_required (map_of F) [rule]"
    unfolding st'_def compile_rule_def Let_def normalized_rule by (auto simp: reads_required_def split: option.split)
  show "dom (map_of (st_targets st')) = insert (normalizePath (mr_TargetPath rule)) (dom (map_of (st_targets st)))"
    unfolding st'_def compile_rule_def Let_def normalized_rule using assms(1)
    by (cases "map_of (st_targets st) (normalizePath (mr_TargetPath rule))") (auto simp: update_conv' domIff)
qed

lemma compile_rules_effect:
  assumes "\<forall>rule \<in> set rules. normalizePath (mr_TargetPath rule) \<noteq> []"
  shows "containsMappingErrors (st_issues (fold (compile_rule F object) rules st)) \<longleftrightarrow>
      containsMappingErrors (st_issues st) \<or> (\<exists>rule \<in> set rules. \<not> rule_fits (map_of F) rule) \<or>
      \<not> distinct (map (normalizePath \<circ> mr_TargetPath) rules) \<or>
      set (map (normalizePath \<circ> mr_TargetPath) rules) \<inter> dom (map_of (st_targets st)) \<noteq> {}"
    and "set (st_mapped (fold (compile_rule F object) rules st)) = set (st_mapped st) \<union> reads_required (map_of F) rules"
  using assms
proof (induction rules arbitrary: st)
  case Nil
  { case 1 then show ?case by simp }
  { case 2 then show ?case by (simp add: reads_required_def) }
next
  case (Cons rule rules)
  { case 1
    then have IH: "containsMappingErrors (st_issues (fold (compile_rule F object) rules (compile_rule F object rule st))) \<longleftrightarrow>
        containsMappingErrors (st_issues (compile_rule F object rule st)) \<or> (\<exists>rule \<in> set rules. \<not> rule_fits (map_of F) rule) \<or>
        \<not> distinct (map (normalizePath \<circ> mr_TargetPath) rules) \<or>
        set (map (normalizePath \<circ> mr_TargetPath) rules) \<inter> dom (map_of (st_targets (compile_rule F object rule st))) \<noteq> {}" by (intro Cons.IH(1)) simp
    have t: "normalizePath (mr_TargetPath rule) \<noteq> []" using 1 by simp
    show ?case unfolding fold_simps IH compile_rule_effect(1,3) [OF t] by (auto simp: comp_def) }
  { case 2
    have "reads_required (map_of F) (rule # rules) = reads_required (map_of F) [rule] \<union> reads_required (map_of F) rules"
      by (auto simp: reads_required_def)
    then show ?case using 2 Cons.IH(2) [of "compile_rule F object rule st"] compile_rule_effect(2) [of rule F object st] by auto }
qed

lemma compile_rules_keep:
  "containsMappingErrors (st_issues st) \<Longrightarrow> containsMappingErrors (st_issues (fold (compile_rule F object) rules st))"
proof (induction rules arbitrary: st)
  case (Cons rule rules)
  have "containsMappingErrors (st_issues (compile_rule F object rule st))" using Cons.prems by (simp add: compile_rule_def Let_def)
  then show ?case using Cons.IH by simp
qed simp

lemma find_two_lists: "find P (xs @ ys) = (case find P xs of Some x \<Rightarrow> Some x | None \<Rightarrow> find P ys)"
  by (induction xs) auto

lemma field_index: "map_of (fst (buildSourceFieldIndexes object)) = source_field object"
proof -
  have "map_of (fold (\<lambda>f m. AList.update (normalizePath (xf_Path f)) f m) fs m0) path =
      (case find (\<lambda>f. normalizePath (xf_Path f) = path) (rev fs) of Some f \<Rightarrow> Some f | None \<Rightarrow> map_of m0 path)" for fs :: "ExternalField list" and m0 path
    by (induction fs arbitrary: m0) (auto simp: find_two_lists update_conv' split: option.splits)
  then show ?thesis by (auto simp: buildSourceFieldIndexes_def source_field_def fun_eq_iff split: option.splits)
qed

lemma required_index:
  "fst ` set (snd (buildSourceFieldIndexes object)) = {normalizePath (xf_Path f) |f. f \<in> set (xo_Fields object) \<and> xf_Required f}"
proof -
  have "fst ` set (fold (\<lambda>f m. if xf_Required f then AList.update (normalizePath (xf_Path f)) f m else m) fs m0) =
      fst ` set m0 \<union> {normalizePath (xf_Path f) |f. f \<in> set fs \<and> xf_Required f}" for fs :: "ExternalField list" and m0
    by (induction fs arbitrary: m0) (auto simp: dom_update)
  then show ?thesis by (simp add: buildSourceFieldIndexes_def)
qed

lemma unmapped_errors: "containsMappingErrors (unmapped_issues R mapped) \<longleftrightarrow> \<not> fst ` set R \<subseteq> set mapped"
  by (auto simp: unmapped_issues_def containsMappingErrors_def mappingIssue_def Let_def)

lemma spec_issue_errors:
  "containsMappingErrors (spec_issues env spec schema) \<longleftrightarrow>
     ExternalSchema_Validate schema \<noteq> None \<or> MappingSpec_Validate (me_text env) spec \<noteq> None"
  by (simp add: spec_issues_def Let_def split: option.split)

lemma valid_targets:
  assumes "MappingSpec_Validate txt spec = None"
  shows "\<forall>rule \<in> set (ms_Rules spec). normalizePath (mr_TargetPath rule) \<noteq> []"
  using assms unfolding MappingSpec_Validate_def first_error_None by (auto simp: rules_error_None normalizePath_def)

text \<open>
  C24: \<open>ValidateMappingSpec\<close> accepts a specification exactly when it fits the schema: nothing it accepts has a rule
  without a source field, with an unknown transform or an incompatible type, two rules for one target, or a
  required field that no rule reads; and nothing that fits is refused.
\<close>

theorem validate_iff_spec_fits:
  assumes "ValidateMappingSpec env req = Inr r"
  shows "vr_Valid r \<longleftrightarrow> spec_fits env (normalizeMappingSpec (vq_Spec req)) (vq_Schema req)"
proof -
  let ?spec = "normalizeMappingSpec (vq_Spec req)" and ?schema = "vq_Schema req"
  obtain c iss where c: "CompileMappingSpec env req = Inr (c, iss)" and r: "vr_Valid r = (\<not> containsMappingErrors iss)"
    using assms by (auto simp: ValidateMappingSpec_def split: sum.splits)
  show ?thesis
  proof (cases "findExternalObject ?schema (ms_SourceObject ?spec)")
    case None then show ?thesis using c r by (auto simp: CompileMappingSpec_def Let_def spec_fits_def)
  next
    case (Some object)
    obtain F R where FR: "buildSourceFieldIndexes object = (F, R)" by fastforce
    have F: "map_of F = source_field object" and R: "fst ` set R = {normalizePath (xf_Path f) |f. f \<in> set (xo_Fields object) \<and> xf_Required f}"
      using field_index [of object] required_index [of object] FR by simp_all
    let ?st = "fold (compile_rule F (xo_Name object)) (ms_Rules ?spec) \<lparr>st_issues = spec_issues env ?spec ?schema, st_mapped = [], st_targets = [], st_rules = []\<rparr>"
    have e: "containsMappingErrors iss \<longleftrightarrow> containsMappingErrors (st_issues ?st) \<or> containsMappingErrors (unmapped_issues R (st_mapped ?st))"
      using c Some FR by (auto simp: CompileMappingSpec_def Let_def split: sum.splits)
    show ?thesis
    proof (cases "MappingSpec_Validate (me_text env) ?spec = None")
      case True
      note loop = compile_rules_effect [OF valid_targets [OF True], where F = F and object = "xo_Name object"]
      show ?thesis unfolding r e loop unmapped_errors R F spec_fits_def Some
        by (auto simp: spec_issue_errors)
    next
      case False
      have "containsMappingErrors (st_issues ?st)" by (rule compile_rules_keep) (simp add: spec_issue_errors False)
      then show ?thesis using False by (simp add: r e spec_fits_def)
    qed
  qed
qed

definition sample_mapping_env :: mapping_env where
  "sample_mapping_env = \<lparr>me_text = (\<lambda>_. []), me_sha256 = (\<lambda>s. s), me_marshal = (\<lambda>_. Inr []), me_ff = (\<lambda>_ _. []),
     me_int_of_float = (\<lambda>m e. m), me_float_of_int = (\<lambda>i. (i, 0)), me_parse_float = (\<lambda>_. Inl (Plain [])), me_parse_int_error = (\<lambda>_. Plain []), me_rfc3339 = (\<lambda>_. [])\<rparr>"

definition sample_rule :: MappingRule where
  "sample_rule = \<lparr>mr_ID = ''r1'', mr_SourcePath = '' age '', mr_TargetPath = ''years'', mr_Transform = ''TO_INT'', mr_Required = False, mr_Default = ANil,
     mr_Constraints = [(''target_type'', AStr ''int'')], mr_Metadata = []\<rparr>"

definition sample_mapping :: "MappingRule list \<Rightarrow> MappingSpec" where
  "sample_mapping rules = \<lparr>ms_ID = [], ms_SpecID = ''s'', ms_ProviderID = ''p'', ms_Scope = \<lparr>scope_Type = ''org'', scope_ID = ''o''\<rparr>, ms_Name = ''n'',
     ms_Description = [], ms_SourceObject = ''contact'', ms_TargetModel = ''m'', ms_SchemaRef = [], ms_Version = 1, ms_Status = ''draft'',
     ms_Rules = rules, ms_Metadata = [], ms_CreatedAt = 0, ms_UpdatedAt = 0, ms_PublishedAt = None\<rparr>"

definition sample_schema :: ExternalSchema where
  "sample_schema = \<lparr>xs_ID = ''x'', xs_ProviderID = ''p'', xs_Scope = \<lparr>scope_Type = ''org'', scope_ID = ''o''\<rparr>, xs_Name = ''n'', xs_Version = [],
     xs_Objects = [\<lparr>xo_Name = ''contact'', xo_PrimaryKey = [], xo_Fields = [\<lparr>xf_Path = ''age'', xf_Type = ''text'', xf_Required = True,
       xf_Repeatable = False, xf_Format = [], xf_Constraints = [], xf_Metadata = []\<rparr>], xo_Metadata = []\<rparr>],
     xs_Metadata = [], xs_CreatedAt = 0, xs_UpdatedAt = 0\<rparr>"

theorem validate_iff_spec_fits_witness:
  "spec_fits sample_mapping_env (normalizeMappingSpec (sample_mapping [sample_rule])) sample_schema \<and>
   \<not> spec_fits sample_mapping_env (normalizeMappingSpec (sample_mapping [])) sample_schema"
proof -
  have a: "case ValidateMappingSpec sample_mapping_env \<lparr>vq_Spec = sample_mapping [sample_rule], vq_Schema = sample_schema\<rparr> of Inr r \<Rightarrow> vr_Valid r | Inl _ \<Rightarrow> False"
    by code_simp
  have b: "case ValidateMappingSpec sample_mapping_env \<lparr>vq_Spec = sample_mapping [], vq_Schema = sample_schema\<rparr> of Inr r \<Rightarrow> \<not> vr_Valid r | Inl _ \<Rightarrow> False"
    by code_simp
  show ?thesis
    using validate_iff_spec_fits [of sample_mapping_env "\<lparr>vq_Spec = sample_mapping [sample_rule], vq_Schema = sample_schema\<rparr>"]
      validate_iff_spec_fits [of sample_mapping_env "\<lparr>vq_Spec = sample_mapping [], vq_Schema = sample_schema\<rparr>"] a b
    by (auto split: sum.splits)
qed

section \<open>Transforms\<close>

text \<open>\<open>%T\<close>\<close>

fun type_name :: "any \<Rightarrow> string" where
  "type_name ANil = ''<nil>''"
| "type_name (AStr _) = ''string''"
| "type_name (AInt _) = ''int''"
| "type_name (AInt64 _) = ''int64''"
| "type_name (AFloat64 _ _) = ''float64''"
| "type_name (ABool _) = ''bool''"
| "type_name (AArr _) = ''[]interface {}''"
| "type_name (AObj _) = ''map[string]interface {}''"

fun toIntValue :: "mapping_env \<Rightarrow> any \<Rightarrow> int result" where
  "toIntValue env (AInt i) = Inr i"
| "toIntValue env (AInt64 i) = Inr i"
| "toIntValue env (AFloat64 m e) = Inr (me_int_of_float env m e)"
| "toIntValue env (ABool b) = Inr (if b then 1 else 0)"
| "toIntValue env (AStr s) =
     (let candidate = TrimSpace s in
      if candidate = [] then Inl (Plain ''core: empty string cannot convert to int'')
      else case Atoi candidate of
        Some i \<Rightarrow> Inr i
      | None \<Rightarrow> let err = me_parse_int_error env candidate in Inl (Wrapped (''core: parse string as int: '' @ me_text env err) [err]))"
| "toIntValue env v = Inl (Plain (''core: unsupported int conversion from '' @ type_name v))"

fun toFloatValue :: "mapping_env \<Rightarrow> any \<Rightarrow> (int \<times> int) result" where
  "toFloatValue env (AInt i) = Inr (me_float_of_int env i)"
| "toFloatValue env (AInt64 i) = Inr (me_float_of_int env i)"
| "toFloatValue env (AFloat64 m e) = Inr (m, e)"
| "toFloatValue env (ABool b) = Inr (if b then (1, 0) else (0, 0))"
| "toFloatValue env (AStr s) =
     (let candidate = TrimSpace s in
      if candidate = [] then Inl (Plain ''core: empty string cannot convert to float'')
      else case me_parse_float env candidate of
        Inr f \<Rightarrow> Inr f
      | Inl err \<Rightarrow> Inl (Wrapped (''core: parse string as float: '' @ me_text env err) [err]))"
| "toFloatValue env v = Inl (Plain (''core: unsupported float conversion from '' @ type_name v))"

fun toBoolValue :: "any \<Rightarrow> bool result" where
  "toBoolValue (ABool b) = Inr b"
| "toBoolValue (AInt i) = Inr (i \<noteq> 0)"
| "toBoolValue (AInt64 i) = Inr (i \<noteq> 0)"
| "toBoolValue (AFloat64 m e) = Inr (m \<noteq> 0)"
| "toBoolValue (AStr s) =
     (let candidate = TrimSpace (ToLower s) in
      if candidate \<in> {''true'', ''1'', ''yes'', ''y''} then Inr True
      else if candidate \<in> {''false'', ''0'', ''no'', ''n''} then Inr False
      else Inl (Plain (''core: parse string as bool: '' @ quote s)))"
| "toBoolValue v = Inl (Plain (''core: unsupported bool conversion from '' @ type_name v))"

fun toStringStrict :: "any \<Rightarrow> string result" where
  "toStringStrict (AStr s) = Inr s"
| "toStringStrict v = Inl (Plain (''core: expected string input for text transform, got '' @ type_name v))"

definition map_result :: "('a \<Rightarrow> 'b) \<Rightarrow> 'a result \<Rightarrow> 'b result" where
  "map_result f r = (case r of Inl e \<Rightarrow> Inl e | Inr a \<Rightarrow> Inr (f a))"

definition applyMappingTransform :: "mapping_env \<Rightarrow> string \<Rightarrow> any \<Rightarrow> any result" where
  "applyMappingTransform env transform value =
     (let tr = normalizeTransform transform in
      if tr = ''identity'' then Inr value
      else if tr = ''to_string'' then Inr (AStr (Sprint (me_ff env) value))
      else if tr = ''to_int'' then map_result AInt64 (toIntValue env value)
      else if tr = ''to_float'' then map_result (\<lambda>(m, e). AFloat64 m e) (toFloatValue env value)
      else if tr = ''to_bool'' then map_result ABool (toBoolValue value)
      else if tr = ''trim'' then map_result (AStr \<circ> TrimSpace) (toStringStrict value)
      else if tr = ''lowercase'' then map_result (AStr \<circ> ToLower) (toStringStrict value)
      else if tr = ''uppercase'' then map_result (AStr \<circ> ToUpper) (toStringStrict value)
      else if tr = ''unix_time_to_rfc3339'' then map_result (AStr \<circ> me_rfc3339 env) (toIntValue env value)
      else Inl (Plain (''core: unsupported transform '' @ quote transform)))"

text \<open>
  The values of a field type. Numbers that come from JSON are floats, also for a field of type integer; every other
  type name (for instance a date) says nothing about the value.
\<close>

definition value_of_type :: "string \<Rightarrow> any \<Rightarrow> bool" where
  "value_of_type t v =
     (if t = ''string'' then (\<exists>s. v = AStr s)
      else if t = ''integer'' \<or> t = ''number'' then (\<exists>i. v = AInt i) \<or> (\<exists>i. v = AInt64 i) \<or> (\<exists>m e. v = AFloat64 m e)
      else if t = ''boolean'' then (\<exists>b. v = ABool b)
      else True)"

lemma map_result_Inr: "map_result f r = Inr b \<longleftrightarrow> (\<exists>a. r = Inr a \<and> b = f a)"
  by (auto simp: map_result_def split: sum.split)



section \<open>Preview\<close>

fun lookup_parts :: "any \<Rightarrow> string list \<Rightarrow> any option" where
  "lookup_parts current [] = Some current"
| "lookup_parts current (part # parts) =
     (let part = TrimSpace part in
      if part = [] then None
      else case current of
        AObj m \<Rightarrow> (case map_of m part of Some v \<Rightarrow> lookup_parts v parts | None \<Rightarrow> None)
      | _ \<Rightarrow> None)"

definition lookupPathValue :: "meta \<Rightarrow> string \<Rightarrow> any option" where
  "lookupPathValue tree path = lookup_parts (AObj tree) (Split (normalizePath path) (CHR ''.''))"

text \<open>
  A map that is created on the way stays when a later part is empty. The values are trees: where an \<open>identity\<close>
  rule puts a nested map of the sample into the output and a later target lies below it, the code writes into the
  map that sample and output share, and the sample changes too; the theorem on previews excludes such targets.
\<close>

fun set_parts :: "string list \<Rightarrow> any \<Rightarrow> meta \<Rightarrow> meta" where
  "set_parts [] value tree = tree"
| "set_parts (part # parts) value tree =
     (let part = TrimSpace part in
      if part = [] then tree
      else if parts = [] then AList.update part value tree
      else
        let child = (case map_of tree part of Some (AObj m) \<Rightarrow> m | _ \<Rightarrow> [])
        in AList.update part (AObj (set_parts parts value child)) tree)"

definition setPathValue :: "string \<Rightarrow> any \<Rightarrow> meta \<Rightarrow> meta" where
  "setPathValue path value tree = set_parts (Split (normalizePath path) (CHR ''.'')) value tree"

record preview_state =
  ps_output :: meta
  ps_diffs :: "PreviewFieldDiff list"
  ps_issues :: "MappingValidationIssue list"
  ps_applied :: int

definition preview_rule :: "mapping_env \<Rightarrow> meta \<Rightarrow> CompiledMappingRule \<Rightarrow> preview_state \<Rightarrow> preview_state" where
  "preview_rule env sample c st =
     (let rule = cm_Rule c;
          issue = (\<lambda>code message. mappingIssue code message (mr_ID rule) (mr_SourcePath rule) (mr_TargetPath rule)) in
      case lookupPathValue sample (mr_SourcePath rule) of
        None \<Rightarrow> st\<lparr>ps_issues := ps_issues st @ [issue ''preview_source_missing''
          (''core: source value for path '' @ quote (mr_SourcePath rule) @ '' was not found in sample'') MappingValidationIssueWarning]\<rparr>
      | Some sourceValue \<Rightarrow>
          (case applyMappingTransform env (cm_Transform c) sourceValue of
             Inl err \<Rightarrow> st\<lparr>ps_issues := ps_issues st @ [issue ''preview_transform_failed''
               (''core: transform '' @ quote (cm_Transform c) @ '' failed: '' @ me_text env err) MappingValidationIssueError]\<rparr>
           | Inr transformed \<Rightarrow>
               st\<lparr>ps_output := setPathValue (mr_TargetPath rule) transformed (ps_output st),
                 ps_diffs := ps_diffs st @ [\<lparr>pd_RuleID = mr_ID rule, pd_SourcePath = mr_SourcePath rule, pd_TargetPath = mr_TargetPath rule,
                   pd_InputValue = sourceValue, pd_OutputValue = transformed,
                   pd_Changed = (sourceValue \<noteq> transformed \<or> normalizePath (mr_SourcePath rule) \<noteq> normalizePath (mr_TargetPath rule))\<rparr>],
                 ps_applied := ps_applied st + 1\<rparr>))"

definition preview_sample :: "mapping_env \<Rightarrow> CompiledMappingRule list \<Rightarrow> meta \<Rightarrow> preview_state" where
  "preview_sample env rules sample =
     fold (preview_rule env sample) rules \<lparr>ps_output = [], ps_diffs = [], ps_issues = [], ps_applied = 0\<rparr>"

definition preview_record :: "meta \<Rightarrow> preview_state \<Rightarrow> PreviewRecord" where
  "preview_record sample st =
     \<lparr>pc_Input = sample, pc_Output = ps_output st,
      pc_Diff = sort_key (\<lambda>d. (pd_TargetPath d, pd_SourcePath d, pd_RuleID d)) (ps_diffs st),
      pc_Issues = sortMappingValidationIssues (ps_issues st)\<rparr>"

definition previewDeterministicHash ::
  "mapping_env \<Rightarrow> (MappingValidationIssue list \<Rightarrow> PreviewRecord list \<Rightarrow> string \<Rightarrow> PreviewReport \<Rightarrow> string result) \<Rightarrow>
     MappingValidationIssue list \<Rightarrow> PreviewRecord list \<Rightarrow> string \<Rightarrow> PreviewReport \<Rightarrow> string result" where
  "previewDeterministicHash env marshal issues records compiledHash report =
     (case marshal issues records compiledHash report of
        Inl err \<Rightarrow> Inl (Wrapped (''core: marshal preview payload: '' @ me_text env err) [err])
      | Inr payload \<Rightarrow> Inr (hex_encode (me_sha256 env payload)))"

text \<open>\<open>validator\<close> is the \<open>MappingSpecValidator\<close> of the previewer, by default the compiler.\<close>

definition PreviewMappingSpec ::
  "mapping_env \<Rightarrow> (MappingValidationIssue list \<Rightarrow> PreviewRecord list \<Rightarrow> string \<Rightarrow> PreviewReport \<Rightarrow> string result) \<Rightarrow> int \<Rightarrow>
     (ValidateMappingSpecRequest \<Rightarrow> ValidateMappingSpecResult result) option \<Rightarrow> PreviewMappingSpecRequest \<Rightarrow> PreviewMappingSpecResult result" where
  "PreviewMappingSpec env marshal now validator req =
     (case validator of
        None \<Rightarrow> Inl (Plain ''core: mapping previewer compiler is required'')
      | Some validate \<Rightarrow>
          (case validate \<lparr>vq_Spec = pq_Spec req, vq_Schema = pq_Schema req\<rparr> of
             Inl err \<Rightarrow> Inl err
           | Inr validation \<Rightarrow>
               let states = map (preview_sample env (cp_Rules (vr_Compiled validation))) (pq_Samples req);
                   records = map2 preview_record (pq_Samples req) states;
                   report = \<lparr>pp_SampleCount = int (length (pq_Samples req)),
                     pp_IssueCount = int (length (vr_Issues validation)) + (\<Sum>st\<leftarrow>states. int (length (ps_issues st))),
                     pp_AppliedRuleCount = (\<Sum>st\<leftarrow>states. ps_applied st)\<rparr>
               in case previewDeterministicHash env marshal (vr_Issues validation) records (cp_DeterministicHash (vr_Compiled validation)) report of
                    Inl err \<Rightarrow> Inl err
                  | Inr hash \<Rightarrow> Inr \<lparr>pm_Issues = vr_Issues validation, pm_Records = records, pm_Report = report,
                      pm_DeterministicHash = hash, pm_GeneratedAt = now\<rparr>))"

subsection \<open>Paths\<close>

definition path_ok :: "string list \<Rightarrow> bool" where
  "path_ok parts \<longleftrightarrow> parts \<noteq> [] \<and> (\<forall>p \<in> set parts. TrimSpace p \<noteq> [])"

lemma lookup_set_parts: "path_ok parts \<Longrightarrow> lookup_parts (AObj (set_parts parts v tree)) parts = Some v"
proof (induction parts arbitrary: tree)
  case (Cons p ps)
  then show ?case by (cases "ps = []") (auto simp: path_ok_def Let_def update_conv')
qed (simp add: path_ok_def)

text \<open>Two paths that part at some name do not touch each other.\<close>

fun diverge :: "string list \<Rightarrow> string list \<Rightarrow> bool" where
  "diverge (p # ps) (q # qs) \<longleftrightarrow> TrimSpace p \<noteq> TrimSpace q \<or> diverge ps qs"
| "diverge _ _ \<longleftrightarrow> False"

lemma lookup_set_other: "diverge ps qs \<Longrightarrow> lookup_parts (AObj (set_parts ps v tree)) qs = lookup_parts (AObj tree) qs"
proof (induction ps qs arbitrary: tree rule: diverge.induct)
  case (1 p ps q qs)
  let ?child = "case map_of tree (TrimSpace p) of Some (AObj m) \<Rightarrow> m | _ \<Rightarrow> []"
  show ?case
  proof (cases "TrimSpace p = TrimSpace q")
    case True
    then have d: "diverge ps qs" using 1(2) by simp
    then have ne: "ps \<noteq> []" "qs \<noteq> []" by (cases ps; cases qs; simp)+
    have IH: "lookup_parts (AObj (set_parts ps v ?child)) qs = lookup_parts (AObj ?child) qs" using 1(1) d by simp
    have nil: "lookup_parts (AObj []) qs = None" "\<And>x. (\<forall>m. x \<noteq> AObj m) \<Longrightarrow> lookup_parts x qs = None" 
      using ne by (cases qs; simp add: Let_def split: any.split)+
    show ?thesis using IH ne True nil by (auto simp: Let_def update_conv' split: option.splits any.splits)
  next
    case False then show ?thesis by (simp add: Let_def update_conv')
  qed
qed simp_all

subsection \<open>What a preview shows\<close>

abbreviation target_parts :: "CompiledMappingRule \<Rightarrow> string list" where
  "target_parts c \<equiv> Split (normalizePath (mr_TargetPath (cm_Rule c))) (CHR ''.'')"

text \<open>The value of a rule on a sample.\<close>

definition mapped_value :: "mapping_env \<Rightarrow> meta \<Rightarrow> CompiledMappingRule \<Rightarrow> any option" where
  "mapped_value env sample c =
     (case lookupPathValue sample (mr_SourcePath (cm_Rule c)) of
        None \<Rightarrow> None
      | Some v \<Rightarrow> (case applyMappingTransform env (cm_Transform c) v of Inr v' \<Rightarrow> Some v' | Inl _ \<Rightarrow> None))"

lemma preview_rule_output:
  "ps_output (preview_rule env sample c st) =
     (case mapped_value env sample c of Some v \<Rightarrow> set_parts (target_parts c) v (ps_output st) | None \<Rightarrow> ps_output st)"
  by (simp add: preview_rule_def mapped_value_def setPathValue_def Let_def split: option.split sum.split)

lemma preview_elsewhere:
  assumes "\<forall>c \<in> set rules. diverge (target_parts c) qs"
  shows "lookup_parts (AObj (ps_output (fold (preview_rule env sample) rules st))) qs = lookup_parts (AObj (ps_output st)) qs"
  using assms by (induction rules arbitrary: st) (simp_all add: preview_rule_output lookup_set_other split: option.split)

lemma preview_fold_output:
  assumes "sorted_wrt (\<lambda>c d. diverge (target_parts c) (target_parts d) \<and> diverge (target_parts d) (target_parts c)) rules"
    and "\<forall>c \<in> set rules. path_ok (target_parts c)" and "c \<in> set rules"
    and "\<forall>c \<in> set rules. lookup_parts (AObj (ps_output st)) (target_parts c) = None"
  shows "lookup_parts (AObj (ps_output (fold (preview_rule env sample) rules st))) (target_parts c) = mapped_value env sample c"
  using assms
proof (induction rules arbitrary: st)
  case (Cons d rules)
  let ?st = "preview_rule env sample d st"
  show ?case
  proof (cases "c = d")
    case True
    have "lookup_parts (AObj (ps_output (fold (preview_rule env sample) rules ?st))) (target_parts c) = lookup_parts (AObj (ps_output ?st)) (target_parts c)"
      using Cons.prems(1) True by (intro preview_elsewhere) auto
    then show ?thesis using Cons.prems(2,4) True by (auto simp: preview_rule_output lookup_set_parts split: option.split)
  next
    case False
    have "\<forall>c \<in> set rules. lookup_parts (AObj (ps_output ?st)) (target_parts c) = None"
      using Cons.prems(1,4) by (auto simp: preview_rule_output lookup_set_other split: option.split)
    then show ?thesis using Cons False by simp
  qed
qed simp

text \<open>
  C26: A preview shows what the rules do. When no target path of the compiled rules is a prefix of another, the output
  of every sample holds, at the target of each rule, the transformed value of its source, and nothing where the
  source is missing or the transform fails.
\<close>

theorem preview_output_exact:
  assumes "PreviewMappingSpec env marshal now (Some validate) req = Inr r"
    and "validate \<lparr>vq_Spec = pq_Spec req, vq_Schema = pq_Schema req\<rparr> = Inr v"
    and "sorted_wrt (\<lambda>c d. diverge (target_parts c) (target_parts d) \<and> diverge (target_parts d) (target_parts c)) (cp_Rules (vr_Compiled v))"
    and "\<forall>c \<in> set (cp_Rules (vr_Compiled v)). path_ok (target_parts c)"
    and "i < length (pq_Samples req)" and "c \<in> set (cp_Rules (vr_Compiled v))"
  shows "lookupPathValue (pc_Output (pm_Records r ! i)) (mr_TargetPath (cm_Rule c)) = mapped_value env (pq_Samples req ! i) c"
proof -
  have "pm_Records r = map2 preview_record (pq_Samples req) (map (preview_sample env (cp_Rules (vr_Compiled v))) (pq_Samples req))"
    using assms(1,2) by (auto simp: PreviewMappingSpec_def Let_def split: sum.splits)
  then have "pc_Output (pm_Records r ! i) = ps_output (preview_sample env (cp_Rules (vr_Compiled v)) (pq_Samples req ! i))"
    using assms(5) by (simp add: preview_record_def)
  moreover have "lookup_parts (AObj []) ps = None" if "path_ok ps" for ps using that by (cases ps) (auto simp: path_ok_def Let_def)
  ultimately show ?thesis
    using preview_fold_output [OF assms(3,4,6), of "\<lparr>ps_output = [], ps_diffs = [], ps_issues = [], ps_applied = 0\<rparr>" env "pq_Samples req ! i"] assms(4)
    by (simp add: lookupPathValue_def preview_sample_def)
qed

definition sample_preview :: PreviewMappingSpecRequest where
  "sample_preview = \<lparr>pq_Spec = sample_mapping [sample_rule], pq_Schema = sample_schema, pq_Samples = [[(''age'', AStr ''42'')]]\<rparr>"

definition sample_marshal :: "MappingValidationIssue list \<Rightarrow> PreviewRecord list \<Rightarrow> string \<Rightarrow> PreviewReport \<Rightarrow> string result" where
  "sample_marshal issues records hash report = Inr []"

theorem preview_output_exact_witness:
  "case PreviewMappingSpec sample_mapping_env sample_marshal 0 (Some (ValidateMappingSpec sample_mapping_env)) sample_preview of
     Inr r \<Rightarrow> lookupPathValue (pc_Output (pm_Records r ! 0)) ''years'' = Some (AInt64 42)
   | Inl _ \<Rightarrow> False"
proof -
  let ?q = "\<lparr>vq_Spec = pq_Spec sample_preview, vq_Schema = pq_Schema sample_preview\<rparr>"
  let ?rules = "cp_Rules (vr_Compiled (projr (ValidateMappingSpec sample_mapping_env ?q)))"
  let ?c = "\<lparr>cm_Rule = sample_rule\<lparr>mr_SourcePath := ''age'', mr_Transform := ''to_int''\<rparr>, cm_SourceType = ''string'', cm_TargetType = ''integer'', cm_Transform = ''to_int''\<rparr>"
  have v: "isl (ValidateMappingSpec sample_mapping_env ?q) = False" "?rules = [?c]" by code_simp+
  have p: "isl (PreviewMappingSpec sample_mapping_env sample_marshal 0 (Some (ValidateMappingSpec sample_mapping_env)) sample_preview) = False" by code_simp
  have t: "path_ok (target_parts ?c)" "mr_TargetPath (cm_Rule ?c) = ''years''"
    "mapped_value sample_mapping_env (pq_Samples sample_preview ! 0) ?c = Some (AInt64 42)" "0 < length (pq_Samples sample_preview)" by code_simp+
  obtain r where r: "PreviewMappingSpec sample_mapping_env sample_marshal 0 (Some (ValidateMappingSpec sample_mapping_env)) sample_preview = Inr r"
    using p by (cases "PreviewMappingSpec sample_mapping_env sample_marshal 0 (Some (ValidateMappingSpec sample_mapping_env)) sample_preview") simp_all
  obtain v' where v': "ValidateMappingSpec sample_mapping_env ?q = Inr v'" using v(1) by (cases "ValidateMappingSpec sample_mapping_env ?q") simp_all
  have rules: "cp_Rules (vr_Compiled v') = [?c]" using v(2) v' by simp
  show ?thesis using preview_output_exact [OF r v', of 0 ?c] t unfolding r rules by simp
qed

end
