(* ===== verification/Mapping_Lifecycle.thy ===== *)
theory Mapping_Lifecycle
  imports Mapping_Compiler
begin

text \<open>
  The lifecycle of mapping specifications (\<open>src/core/mapping_spec_lifecycle.go\<close>): drafts, their validation and
  publication, with the store and the event bus behind their interfaces. The clock is read once for the store and
  once for the event; both readings are arguments. The only \<open>MappingSpecStore\<close> of the repository is the one in
  memory that the tests use; it is modelled too and satisfies the contract the theorems rest on.
\<close>

record 'w MappingSpecLifecycle =
  lc_store :: "'w MappingSpecStore option"
  lc_eventBus :: "'w event_bus"
  lc_text :: "goerr \<Rightarrow> string"
  lc_sha256 :: "string \<Rightarrow> string"
  lc_rfc3339nano :: "int \<Rightarrow> string"

section \<open>Operations\<close>

definition buildMappingSpecLifecycleEventID :: "'w MappingSpecLifecycle \<Rightarrow> string \<Rightarrow> int \<Rightarrow> string \<Rightarrow> int \<Rightarrow> string" where
  "buildMappingSpecLifecycleEventID s specID version eventName occurredAt =
     hex_encode (lc_sha256 s (join_with ''|'' [TrimSpace specID, Itoa version, TrimSpace eventName, lc_rfc3339nano s occurredAt]))"

definition mapping_event :: "'w MappingSpecLifecycle \<Rightarrow> MappingSpec \<Rightarrow> string \<Rightarrow> int \<Rightarrow> LifecycleEvent" where
  "mapping_event s spec eventName occurredAt =
     \<lparr>ev_ID = buildMappingSpecLifecycleEventID s (ms_SpecID spec) (ms_Version spec) eventName occurredAt, ev_Name = eventName,
      ev_ProviderID = ms_ProviderID spec, ev_ScopeType = scope_Type (ms_Scope spec), ev_ScopeID = scope_ID (ms_Scope spec),
      ev_ConnectionID = [], ev_Source = ''services.mapping_specs'', ev_OccurredAt = occurredAt,
      ev_Payload = [(''spec_id'', AStr (ms_SpecID spec)), (''version'', AInt (ms_Version spec)), (''status'', AStr (ms_Status spec)),
        (''name'', AStr (ms_Name spec)), (''schema_ref'', AStr (ms_SchemaRef spec)), (''provider_id'', AStr (ms_ProviderID spec))],
      ev_Metadata = copyMetadata (ms_Metadata spec)\<rparr>"

definition publishMappingSpecEvent :: "'w MappingSpecLifecycle \<Rightarrow> MappingSpec \<Rightarrow> string \<Rightarrow> int \<Rightarrow> ('w, unit) effect" where
  "publishMappingSpecEvent s spec eventName occurredAt =
     (case lc_eventBus s of None \<Rightarrow> ret () | Some publish \<Rightarrow> publish (mapping_event s spec eventName occurredAt))"

text \<open>The write of the store, then the event; an error of the bus is returned after the write.\<close>

definition announced :: "'w MappingSpecLifecycle \<Rightarrow> string \<Rightarrow> int \<Rightarrow> ('w, MappingSpec) effect \<Rightarrow> ('w, MappingSpec) effect" where
  "announced s eventName occurredAt act =
     bindE act (\<lambda>saved. bindE (publishMappingSpecEvent s saved eventName occurredAt) (\<lambda>_. ret saved))"

abbreviation store_missing :: goerr where
  "store_missing \<equiv> Plain ''core: mapping spec lifecycle store is required''"

definition version_error :: "string \<Rightarrow> int \<Rightarrow> string \<Rightarrow> goerr" where
  "version_error specID version message = Plain (''core: mapping spec '' @ specID @ '' version '' @ Itoa version @ message)"

definition next_version :: "'w MappingSpecStore \<Rightarrow> MappingSpec \<Rightarrow> 'w \<Rightarrow> int result" where
  "next_version store spec w =
     (if ms_Version spec \<noteq> 0 then Inr (ms_Version spec)
      else case mst_GetLatest store (ms_ProviderID spec) (ms_Scope spec) (ms_SpecID spec) w of
        Inl err \<Rightarrow> Inl err
      | Inr None \<Rightarrow> Inr 1
      | Inr (Some latest) \<Rightarrow>
          if ms_Status latest \<noteq> MappingSpecStatusPublished
          then Inl (Plain ''core: latest mapping spec version must be published before creating a new draft'')
          else Inr (wrap64 (ms_Version latest + 1)))"

definition CreateDraft :: "'w MappingSpecLifecycle \<Rightarrow> int \<Rightarrow> MappingSpec \<Rightarrow> ('w, MappingSpec) effect" where
  "CreateDraft s occurredAt spec0 w =
     (case lc_store s of
        None \<Rightarrow> (Inl store_missing, w)
      | Some store \<Rightarrow>
          (let spec = (normalizeMappingSpec spec0)\<lparr>ms_Status := MappingSpecStatusDraft, ms_PublishedAt := None\<rparr> in
           case next_version store spec w of
             Inl err \<Rightarrow> (Inl err, w)
           | Inr v \<Rightarrow>
               let spec = spec\<lparr>ms_Version := v\<rparr> in
               case mst_GetVersion store (ms_ProviderID spec) (ms_Scope spec) (ms_SpecID spec) v w of
                 Inl err \<Rightarrow> (Inl err, w)
               | Inr (Some existing) \<Rightarrow>
                   (Inl (version_error (ms_SpecID spec) v
                     (if ms_Status existing = MappingSpecStatusPublished then '' is immutable once published'' else '' already exists'')), w)
               | Inr None \<Rightarrow>
                   (case MappingSpec_Validate (lc_text s) spec of
                      Some err \<Rightarrow> (Inl err, w)
                    | None \<Rightarrow> announced s ''services.mapping_spec.draft_created'' occurredAt (mst_CreateDraft store spec) w)))"

definition UpdateDraft :: "'w MappingSpecLifecycle \<Rightarrow> int \<Rightarrow> MappingSpec \<Rightarrow> ('w, MappingSpec) effect" where
  "UpdateDraft s occurredAt spec0 w =
     (case lc_store s of
        None \<Rightarrow> (Inl store_missing, w)
      | Some store \<Rightarrow>
          (let spec = normalizeMappingSpec spec0 in
           if ms_Version spec < 1 then (Inl (Plain ''core: mapping spec version must be >= 1''), w)
           else case mst_GetVersion store (ms_ProviderID spec) (ms_Scope spec) (ms_SpecID spec) (ms_Version spec) w of
             Inl err \<Rightarrow> (Inl err, w)
           | Inr None \<Rightarrow> (Inl (version_error (ms_SpecID spec) (ms_Version spec) '' not found''), w)
           | Inr (Some existing) \<Rightarrow>
               if ms_Status existing = MappingSpecStatusPublished
               then (Inl (version_error (ms_SpecID spec) (ms_Version spec) '' is immutable once published''), w)
               else
                 let spec = spec\<lparr>ms_Status := MappingSpecStatusDraft, ms_PublishedAt := None\<rparr> in
                 case MappingSpec_Validate (lc_text s) spec of
                   Some err \<Rightarrow> (Inl err, w)
                 | None \<Rightarrow> announced s ''services.mapping_spec.draft_updated'' occurredAt (mst_UpdateDraft store spec) w))"

text \<open>The arguments of an operation on one version, checked and normalised; then the version that is stored.\<close>

definition version_args :: "string \<Rightarrow> ScopeRef \<Rightarrow> string \<Rightarrow> int \<Rightarrow> (string \<times> ScopeRef \<times> string) result" where
  "version_args providerID scope specID version =
     (case normalizeProviderScope providerID scope of
        Inl err \<Rightarrow> Inl err
      | Inr (providerID, scope) \<Rightarrow>
          if TrimSpace specID = [] \<or> version < 1 then Inl (Plain ''core: mapping spec id and version are required'')
          else Inr (providerID, scope, TrimSpace specID))"

definition current_version :: "'w MappingSpecStore \<Rightarrow> string \<Rightarrow> ScopeRef \<Rightarrow> string \<Rightarrow> int \<Rightarrow> 'w \<Rightarrow> MappingSpec result" where
  "current_version store providerID scope specID version w =
     (case mst_GetVersion store providerID scope specID version w of
        Inl err \<Rightarrow> Inl err
      | Inr None \<Rightarrow> Inl (version_error specID version '' not found for provider/scope'')
      | Inr (Some current) \<Rightarrow>
          if \<not> sameProviderScope (ms_ProviderID current) (ms_Scope current) providerID scope
          then Inl (Plain ''core: mapping spec scope mismatch'') else Inr current)"

definition MarkValidated :: "'w MappingSpecLifecycle \<Rightarrow> int \<Rightarrow> int \<Rightarrow> string \<Rightarrow> ScopeRef \<Rightarrow> string \<Rightarrow> int \<Rightarrow> ('w, MappingSpec) effect" where
  "MarkValidated s now occurredAt providerID scope specID version w =
     (case lc_store s of
        None \<Rightarrow> (Inl store_missing, w)
      | Some store \<Rightarrow>
          (case version_args providerID scope specID version of
             Inl err \<Rightarrow> (Inl err, w)
           | Inr (providerID, scope, specID) \<Rightarrow>
               (case current_version store providerID scope specID version w of
                  Inl err \<Rightarrow> (Inl err, w)
                | Inr current \<Rightarrow>
                    if ms_Status current = MappingSpecStatusPublished
                    then (Inl (version_error specID version '' is already published and immutable''), w)
                    else if ms_Status current \<noteq> MappingSpecStatusDraft \<and> ms_Status current \<noteq> MappingSpecStatusValidated
                    then (Inl (version_error specID version ('' cannot transition to validated from '' @ ms_Status current)), w)
                    else announced s ''services.mapping_spec.validated'' occurredAt
                      (mst_SetStatus store providerID scope specID version MappingSpecStatusValidated now) w)))"

definition Publish :: "'w MappingSpecLifecycle \<Rightarrow> int \<Rightarrow> int \<Rightarrow> string \<Rightarrow> ScopeRef \<Rightarrow> string \<Rightarrow> int \<Rightarrow> ('w, MappingSpec) effect" where
  "Publish s now occurredAt providerID scope specID version w =
     (case lc_store s of
        None \<Rightarrow> (Inl store_missing, w)
      | Some store \<Rightarrow>
          (case version_args providerID scope specID version of
             Inl err \<Rightarrow> (Inl err, w)
           | Inr (providerID, scope, specID) \<Rightarrow>
               (case current_version store providerID scope specID version w of
                  Inl err \<Rightarrow> (Inl err, w)
                | Inr current \<Rightarrow>
                    if ms_Status current = MappingSpecStatusPublished then (Inr current, w)
                    else if ms_Status current \<noteq> MappingSpecStatusValidated
                    then (Inl (version_error specID version '' must be validated before publish''), w)
                    else announced s ''services.mapping_spec.published'' occurredAt
                      (mst_PublishVersion store providerID scope specID version now) w)))"

definition GetVersion :: "'w MappingSpecLifecycle \<Rightarrow> string \<Rightarrow> ScopeRef \<Rightarrow> string \<Rightarrow> int \<Rightarrow> 'w \<Rightarrow> MappingSpec option result" where
  "GetVersion s providerID scope specID version w =
     (case lc_store s of
        None \<Rightarrow> Inl store_missing
      | Some store \<Rightarrow>
          (case version_args providerID scope specID version of
             Inl err \<Rightarrow> Inl err
           | Inr (providerID, scope, specID) \<Rightarrow> mst_GetVersion store providerID scope specID version w))"

definition GetLatest :: "'w MappingSpecLifecycle \<Rightarrow> string \<Rightarrow> ScopeRef \<Rightarrow> string \<Rightarrow> 'w \<Rightarrow> MappingSpec option result" where
  "GetLatest s providerID scope specID w =
     (case lc_store s of
        None \<Rightarrow> Inl store_missing
      | Some store \<Rightarrow>
          (case normalizeProviderScope providerID scope of
             Inl err \<Rightarrow> Inl err
           | Inr (providerID, scope) \<Rightarrow>
               if TrimSpace specID = [] then Inl (Plain ''core: mapping spec id is required'')
               else mst_GetLatest store providerID scope (TrimSpace specID) w))"

definition ListByScope :: "'w MappingSpecLifecycle \<Rightarrow> string \<Rightarrow> ScopeRef \<Rightarrow> 'w \<Rightarrow> MappingSpec list result" where
  "ListByScope s providerID scope w =
     (case lc_store s of
        None \<Rightarrow> Inl store_missing
      | Some store \<Rightarrow>
          (let providerID = TrimSpace providerID; scope = normalized_scope scope in
           if providerID = [] then Inl (Plain ''core: provider id is required'')
           else case ScopeRef_Validate scope of Some err \<Rightarrow> Inl err | None \<Rightarrow> mst_ListByScope store providerID scope w))"

section \<open>The contract of the store\<close>

text \<open>
  \<open>same_content\<close>: the same specification apart from the record id, the status and the times. A store keeps its
  specifications under keys; \<open>GetVersion\<close> returns what is stored under the key of its arguments when provider and
  scope match, \<open>CreateDraft\<close> adds a version and never replaces one, and the other writes change the addressed
  version only. A write that fails, and every event, leaves the specifications as they are.
\<close>

definition same_content :: "MappingSpec \<Rightarrow> MappingSpec \<Rightarrow> bool" where
  "same_content s t \<longleftrightarrow>
     t = s\<lparr>ms_ID := ms_ID t, ms_Status := ms_Status t, ms_CreatedAt := ms_CreatedAt t, ms_UpdatedAt := ms_UpdatedAt t, ms_PublishedAt := ms_PublishedAt t\<rparr>"

definition in_scope :: "string \<Rightarrow> ScopeRef \<Rightarrow> MappingSpec \<Rightarrow> bool" where
  "in_scope providerID scope spec \<longleftrightarrow> sameProviderScope (ms_ProviderID spec) (ms_Scope spec) providerID scope"

locale mapping_store =
  fixes store :: "'w MappingSpecStore" and bus :: "'w event_bus"
    and key :: "string \<Rightarrow> ScopeRef \<Rightarrow> string \<Rightarrow> int \<Rightarrow> 'k" and specs :: "'w \<Rightarrow> 'k \<Rightarrow> MappingSpec option"
  assumes get_version: "mst_GetVersion store p sc i v w = Inr found \<Longrightarrow>
      found = (case specs w (key p sc i v) of Some s \<Rightarrow> if in_scope p sc s then Some s else None | None \<Rightarrow> None)"
    and create_draft: "mst_CreateDraft store s w = (r, w') \<Longrightarrow> specs w' \<noteq> specs w \<Longrightarrow>
      \<exists>t. specs w (key (ms_ProviderID s) (ms_Scope s) (ms_SpecID s) (ms_Version s)) = None \<and> same_content s t \<and> ms_Status t = ms_Status s \<and>
        specs w' = (specs w)(key (ms_ProviderID s) (ms_Scope s) (ms_SpecID s) (ms_Version s) \<mapsto> t)"
    and update_draft: "mst_UpdateDraft store s w = (r, w') \<Longrightarrow> specs w' \<noteq> specs w \<Longrightarrow>
      \<exists>t. same_content s t \<and> ms_Status t = ms_Status s \<and>
        specs w' = (specs w)(key (ms_ProviderID s) (ms_Scope s) (ms_SpecID s) (ms_Version s) \<mapsto> t)"
    and set_status: "mst_SetStatus store p sc i v st now w = (r, w') \<Longrightarrow> specs w' \<noteq> specs w \<Longrightarrow>
      \<exists>s t. specs w (key p sc i v) = Some s \<and> same_content s t \<and> ms_Status t = st \<and> specs w' = (specs w)(key p sc i v \<mapsto> t)"
    and publish_version: "mst_PublishVersion store p sc i v now w = (r, w') \<Longrightarrow> specs w' \<noteq> specs w \<Longrightarrow>
      \<exists>s t. specs w (key p sc i v) = Some s \<and> same_content s t \<and> ms_Status t = MappingSpecStatusPublished \<and>
        ms_PublishedAt t = Some now \<and> specs w' = (specs w)(key p sc i v \<mapsto> t)"
    and events: "bus = Some publish \<Longrightarrow> publish e w = (u, w') \<Longrightarrow> specs w' = specs w"

section \<open>The machine of one version\<close>

text \<open>What may happen to one version: it is created as a draft, a draft or validated version is edited and becomes a
  draft again, it is validated as it is, and a validated version is published as it is. Nothing leads on from
  published.\<close>

inductive version_step :: "MappingSpec option \<Rightarrow> MappingSpec option \<Rightarrow> bool" where
  created: "ms_Status t = MappingSpecStatusDraft \<Longrightarrow> version_step None (Some t)"
| edited: "ms_Status s \<noteq> MappingSpecStatusPublished \<Longrightarrow> ms_Status t = MappingSpecStatusDraft \<Longrightarrow> version_step (Some s) (Some t)"
| validated: "ms_Status s \<in> {MappingSpecStatusDraft, MappingSpecStatusValidated} \<Longrightarrow> same_content s t \<Longrightarrow>
    ms_Status t = MappingSpecStatusValidated \<Longrightarrow> version_step (Some s) (Some t)"
| published: "ms_Status s = MappingSpecStatusValidated \<Longrightarrow> same_content s t \<Longrightarrow> ms_Status t = MappingSpecStatusPublished \<Longrightarrow>
    ms_PublishedAt t = Some now \<Longrightarrow> version_step (Some s) (Some t)"

inductive_cases version_step_from_Some: "version_step (Some s) r"

lemma published_no_step: "ms_Status s = MappingSpecStatusPublished \<Longrightarrow> \<not> version_step (Some s) r"
  by (auto elim: version_step_from_Some)

datatype lifecycle_call =
    Create MappingSpec
  | Update MappingSpec
  | Validate string ScopeRef string int
  | Release string ScopeRef string int

text \<open>A call with the two readings of its clock.\<close>

fun run_call :: "'w MappingSpecLifecycle \<Rightarrow> lifecycle_call \<times> int \<times> int \<Rightarrow> ('w, MappingSpec) effect" where
  "run_call s (Create spec, now, occurredAt) = CreateDraft s occurredAt spec"
| "run_call s (Update spec, now, occurredAt) = UpdateDraft s occurredAt spec"
| "run_call s (Validate p sc i v, now, occurredAt) = MarkValidated s now occurredAt p sc i v"
| "run_call s (Release p sc i v, now, occurredAt) = Publish s now occurredAt p sc i v"

definition run_calls :: "'w MappingSpecLifecycle \<Rightarrow> (lifecycle_call \<times> int \<times> int) list \<Rightarrow> 'w \<Rightarrow> 'w" where
  "run_calls s calls w = fold (\<lambda>c w. snd (run_call s c w)) calls w"

section \<open>What a call can do\<close>

text \<open>Each operation either leaves the world alone or makes its write under the condition it checked.\<close>

lemma create_outcome:
  assumes "lc_store s = Some store" and "P w"
    and "\<And>d. ms_Status d = MappingSpecStatusDraft \<Longrightarrow> P (snd (announced s ''services.mapping_spec.draft_created'' t (mst_CreateDraft store d) w))"
  shows "P (snd (CreateDraft s t spec w))"
  using assms by (simp add: CreateDraft_def Let_def split: sum.split option.split)

lemma update_outcome:
  assumes "lc_store s = Some store" and "P w"
    and "\<And>d e. ms_Status d = MappingSpecStatusDraft \<Longrightarrow> ms_Status e \<noteq> MappingSpecStatusPublished \<Longrightarrow>
      mst_GetVersion store (ms_ProviderID d) (ms_Scope d) (ms_SpecID d) (ms_Version d) w = Inr (Some e) \<Longrightarrow>
      P (snd (announced s ''services.mapping_spec.draft_updated'' t (mst_UpdateDraft store d) w))"
  shows "P (snd (UpdateDraft s t spec w))"
  using assms(1,2) assms(3) [of "(normalizeMappingSpec spec)\<lparr>ms_Status := MappingSpecStatusDraft, ms_PublishedAt := None\<rparr>"]
  by (simp add: UpdateDraft_def Let_def split: sum.split option.split)

lemma validate_outcome:
  assumes "lc_store s = Some store" and "P w"
    and "\<And>p sc i c. current_version store p sc i v w = Inr c \<Longrightarrow> ms_Status c \<in> {MappingSpecStatusDraft, MappingSpecStatusValidated} \<Longrightarrow>
      P (snd (announced s ''services.mapping_spec.validated'' t (mst_SetStatus store p sc i v MappingSpecStatusValidated now) w))"
  shows "P (snd (MarkValidated s now t p0 sc0 i0 v w))"
  using assms by (auto simp: MarkValidated_def split: sum.split prod.split)

lemma publish_outcome:
  assumes "lc_store s = Some store" and "P w"
    and "\<And>p sc i c. current_version store p sc i v w = Inr c \<Longrightarrow> ms_Status c = MappingSpecStatusValidated \<Longrightarrow>
      P (snd (announced s ''services.mapping_spec.published'' t (mst_PublishVersion store p sc i v now) w))"
  shows "P (snd (Publish s now t p0 sc0 i0 v w))"
  using assms by (auto simp: Publish_def split: sum.split prod.split)

context mapping_store
begin

lemma publish_event_keeps: "specs (snd (publishMappingSpecEvent s spec n t w)) = specs w" if "lc_eventBus s = bus"
  using that events [OF _ prod.collapse [symmetric], of _ "mapping_event s spec n t" w]
  by (cases bus) (auto simp: publishMappingSpecEvent_def effects)

lemma announced_specs: "specs (snd (announced s n t act w)) = specs (snd (act w))" if "lc_eventBus s = bus"
  using publish_event_keeps [OF that]
  by (auto simp: announced_def bindE_def effects split: prod.splits sum.splits) (metis snd_conv)+

lemma announced_step:
  assumes "lc_eventBus s = bus"
    and "specs (snd (act w)) \<noteq> specs w \<Longrightarrow> \<exists>t. specs (snd (act w)) = (specs w)(k0 \<mapsto> t) \<and> version_step (specs w k0) (Some t)"
  shows "version_step\<^sup>=\<^sup>= (specs w k) (specs (snd (announced s n t0 act w)) k)"
proof (cases "specs (snd (act w)) = specs w")
  case True then show ?thesis using announced_specs [OF assms(1), of n t0 act w] by simp
next
  case False
  then obtain t where t: "specs (snd (act w)) = (specs w)(k0 \<mapsto> t)" "version_step (specs w k0) (Some t)" using assms(2) by auto
  show ?thesis using t announced_specs [OF assms(1), of n t0 act w] by simp
qed

lemma create_refines:
  assumes "lc_store s = Some store" "lc_eventBus s = bus"
  shows "version_step\<^sup>=\<^sup>= (specs w k) (specs (snd (CreateDraft s t spec w)) k)"
proof -
  have "version_step\<^sup>=\<^sup>= (specs w k) (specs (snd (announced s n t (mst_CreateDraft store d) w)) k)" if d: "ms_Status d = MappingSpecStatusDraft" for d n
  proof (rule announced_step [OF assms(2)])
    assume "specs (snd (mst_CreateDraft store d w)) \<noteq> specs w"
    from create_draft [OF prod.collapse [symmetric] this] d
    show "\<exists>t. specs (snd (mst_CreateDraft store d w)) = (specs w)(key (ms_ProviderID d) (ms_Scope d) (ms_SpecID d) (ms_Version d) \<mapsto> t) \<and>
        version_step (specs w (key (ms_ProviderID d) (ms_Scope d) (ms_SpecID d) (ms_Version d))) (Some t)"
      by (auto intro: version_step.created)
  qed
  then show ?thesis by (rule create_outcome [OF assms(1), where P = "\<lambda>w'. version_step\<^sup>=\<^sup>= (specs w k) (specs w' k)", rotated]) auto
qed

lemma stored_version:
  assumes "mst_GetVersion store p sc i v w = Inr (Some s)"
  shows "specs w (key p sc i v) = Some s"
  using get_version [OF assms] by (auto split: option.splits if_splits)

lemma update_refines:
  assumes "lc_store s = Some store" "lc_eventBus s = bus"
  shows "version_step\<^sup>=\<^sup>= (specs w k) (specs (snd (UpdateDraft s t spec w)) k)"
proof -
  have "version_step\<^sup>=\<^sup>= (specs w k) (specs (snd (announced s n t (mst_UpdateDraft store d) w)) k)"
    if d: "ms_Status d = MappingSpecStatusDraft" and e: "ms_Status e \<noteq> MappingSpecStatusPublished"
      "mst_GetVersion store (ms_ProviderID d) (ms_Scope d) (ms_SpecID d) (ms_Version d) w = Inr (Some e)" for d e n
  proof (rule announced_step [OF assms(2)])
    assume "specs (snd (mst_UpdateDraft store d w)) \<noteq> specs w"
    from update_draft [OF prod.collapse [symmetric] this] d e stored_version [OF e(2)]
    show "\<exists>t. specs (snd (mst_UpdateDraft store d w)) = (specs w)(key (ms_ProviderID d) (ms_Scope d) (ms_SpecID d) (ms_Version d) \<mapsto> t) \<and>
        version_step (specs w (key (ms_ProviderID d) (ms_Scope d) (ms_SpecID d) (ms_Version d))) (Some t)"
      by (auto intro: version_step.edited)
  qed
  then show ?thesis by (rule update_outcome [OF assms(1), where P = "\<lambda>w'. version_step\<^sup>=\<^sup>= (specs w k) (specs w' k)", rotated]) auto
qed

lemma current_stored: "current_version store p sc i v w = Inr s \<Longrightarrow> specs w (key p sc i v) = Some s"
  by (auto simp: current_version_def split: sum.splits option.splits if_splits dest: stored_version)

lemma validate_refines:
  assumes "lc_store s = Some store" "lc_eventBus s = bus"
  shows "version_step\<^sup>=\<^sup>= (specs w k) (specs (snd (MarkValidated s now t p0 sc0 i0 v w)) k)"
proof -
  have "version_step\<^sup>=\<^sup>= (specs w k) (specs (snd (announced s n t (mst_SetStatus store p sc i v MappingSpecStatusValidated now) w)) k)"
    if c: "current_version store p sc i v w = Inr c" "ms_Status c \<in> {MappingSpecStatusDraft, MappingSpecStatusValidated}" for p sc i c n
  proof (rule announced_step [OF assms(2)])
    assume "specs (snd (mst_SetStatus store p sc i v MappingSpecStatusValidated now w)) \<noteq> specs w"
    from set_status [OF prod.collapse [symmetric] this] c(2) current_stored [OF c(1)]
    show "\<exists>t. specs (snd (mst_SetStatus store p sc i v MappingSpecStatusValidated now w)) = (specs w)(key p sc i v \<mapsto> t) \<and>
        version_step (specs w (key p sc i v)) (Some t)"
      by (auto intro: version_step.validated)
  qed
  then show ?thesis by (rule validate_outcome [OF assms(1), where P = "\<lambda>w'. version_step\<^sup>=\<^sup>= (specs w k) (specs w' k)", rotated]) auto
qed

lemma publish_refines:
  assumes "lc_store s = Some store" "lc_eventBus s = bus"
  shows "version_step\<^sup>=\<^sup>= (specs w k) (specs (snd (Publish s now t p0 sc0 i0 v w)) k)"
proof -
  have "version_step\<^sup>=\<^sup>= (specs w k) (specs (snd (announced s n t (mst_PublishVersion store p sc i v now) w)) k)"
    if c: "current_version store p sc i v w = Inr c" "ms_Status c = MappingSpecStatusValidated" for p sc i c n
  proof (rule announced_step [OF assms(2)])
    assume "specs (snd (mst_PublishVersion store p sc i v now w)) \<noteq> specs w"
    from publish_version [OF prod.collapse [symmetric] this] c(2) current_stored [OF c(1)]
    show "\<exists>t. specs (snd (mst_PublishVersion store p sc i v now w)) = (specs w)(key p sc i v \<mapsto> t) \<and>
        version_step (specs w (key p sc i v)) (Some t)"
      by (auto intro: version_step.published)
  qed
  then show ?thesis by (rule publish_outcome [OF assms(1), where P = "\<lambda>w'. version_step\<^sup>=\<^sup>= (specs w k) (specs w' k)", rotated]) auto
qed

lemma call_refines:
  assumes "lc_store s = Some store" "lc_eventBus s = bus"
  shows "version_step\<^sup>=\<^sup>= (specs w k) (specs (snd (run_call s c w)) k)"
  using create_refines [OF assms] update_refines [OF assms] validate_refines [OF assms] publish_refines [OF assms]
  by (cases "(s, c)" rule: run_call.cases) (simp_all only: run_call.simps prod.inject)

lemma calls_refine:
  assumes "lc_store s = Some store" "lc_eventBus s = bus"
  shows "version_step\<^sup>*\<^sup>* (specs w k) (specs (run_calls s calls w) k)"
proof (induction calls arbitrary: w)
  case (Cons c cs)
  have "version_step\<^sup>*\<^sup>* (specs w k) (specs (snd (run_call s c w)) k)"
    using call_refines [OF assms, of w k c] by auto
  with Cons.IH [of "snd (run_call s c w)"] show ?case by (simp add: run_calls_def)
qed (simp add: run_calls_def)

end

section \<open>The store in memory\<close>

text \<open>
  \<open>inMemoryMappingSpecStore\<close> and \<open>recordingLifecycleEventBus\<close> of the tests: versions under the id of the
  specification, looked up with provider and scope as a filter.
\<close>

record memory_world =
  mw_records :: "(string, (int, MappingSpec) gomap) gomap"
  mw_events :: "LifecycleEvent list"

definition memory_version :: "memory_world \<Rightarrow> string \<times> int \<Rightarrow> MappingSpec option" where
  "memory_version w k = (case map_of (mw_records w) (fst k) of None \<Rightarrow> None | Some versions \<Rightarrow> map_of versions (snd k))"

definition memory_put :: "MappingSpec \<Rightarrow> string \<Rightarrow> int \<Rightarrow> memory_world \<Rightarrow> memory_world" where
  "memory_put spec specID version w =
     w\<lparr>mw_records := AList.update specID (AList.update version spec (case map_of (mw_records w) specID of Some vs \<Rightarrow> vs | None \<Rightarrow> [])) (mw_records w)\<rparr>"

definition memory_CreateDraft :: "MappingSpec \<Rightarrow> (memory_world, MappingSpec) effect" where
  "memory_CreateDraft spec w0 =
     (let w = (if map_of (mw_records w0) (ms_SpecID spec) = None then w0\<lparr>mw_records := AList.update (ms_SpecID spec) [] (mw_records w0)\<rparr> else w0) in
      if memory_version w (ms_SpecID spec, ms_Version spec) \<noteq> None then (Inl (Plain ''duplicate version''), w)
      else (Inr spec, memory_put spec (ms_SpecID spec) (ms_Version spec) w))"

definition memory_UpdateDraft :: "MappingSpec \<Rightarrow> (memory_world, MappingSpec) effect" where
  "memory_UpdateDraft spec w =
     (if map_of (mw_records w) (ms_SpecID spec) = None then (Inl (Plain ''missing spec''), w)
      else if memory_version w (ms_SpecID spec, ms_Version spec) = None then (Inl (Plain ''missing version''), w)
      else (Inr spec, memory_put spec (ms_SpecID spec) (ms_Version spec) w))"

definition memory_GetVersion :: "string \<Rightarrow> ScopeRef \<Rightarrow> string \<Rightarrow> int \<Rightarrow> memory_world \<Rightarrow> MappingSpec option result" where
  "memory_GetVersion providerID scope specID version w =
     (case memory_version w (specID, version) of
        None \<Rightarrow> Inr None
      | Some spec \<Rightarrow> if \<not> sameProviderScope (ms_ProviderID spec) (ms_Scope spec) providerID scope then Inr None else Inr (Some spec))"

definition memory_change ::
  "string \<Rightarrow> ScopeRef \<Rightarrow> string \<Rightarrow> int \<Rightarrow> (MappingSpec \<Rightarrow> MappingSpec) \<Rightarrow> (memory_world, MappingSpec) effect" where
  "memory_change providerID scope specID version f w =
     (case memory_GetVersion providerID scope specID version w of
        Inl err \<Rightarrow> (Inl err, w)
      | Inr None \<Rightarrow> (Inl (Plain ''missing version''), w)
      | Inr (Some spec) \<Rightarrow> (Inr (f spec), memory_put (f spec) specID version w))"

definition memory_SetStatus :: "string \<Rightarrow> ScopeRef \<Rightarrow> string \<Rightarrow> int \<Rightarrow> MappingSpecStatus \<Rightarrow> int \<Rightarrow> (memory_world, MappingSpec) effect" where
  "memory_SetStatus providerID scope specID version status now =
     memory_change providerID scope specID version (\<lambda>spec. spec\<lparr>ms_Status := status, ms_UpdatedAt := now,
       ms_PublishedAt := (if status \<noteq> MappingSpecStatusPublished then None else ms_PublishedAt spec)\<rparr>)"

definition memory_PublishVersion :: "string \<Rightarrow> ScopeRef \<Rightarrow> string \<Rightarrow> int \<Rightarrow> int \<Rightarrow> (memory_world, MappingSpec) effect" where
  "memory_PublishVersion providerID scope specID version publishedAt =
     memory_change providerID scope specID version (\<lambda>spec. spec\<lparr>ms_Status := MappingSpecStatusPublished,
       ms_PublishedAt := Some publishedAt, ms_UpdatedAt := publishedAt\<rparr>)"

definition memory_GetLatest :: "string \<Rightarrow> ScopeRef \<Rightarrow> string \<Rightarrow> memory_world \<Rightarrow> MappingSpec option result" where
  "memory_GetLatest providerID scope specID w =
     (case map_of (mw_records w) specID of
        None \<Rightarrow> Inr None
      | Some versions \<Rightarrow>
          if versions = [] then Inr None
          else case map_of versions (last (sort (map fst versions))) of
            None \<Rightarrow> Inr None
          | Some latest \<Rightarrow>
              if \<not> sameProviderScope (ms_ProviderID latest) (ms_Scope latest) providerID scope then Inr None else Inr (Some latest))"

definition memory_ListByScope :: "string \<Rightarrow> ScopeRef \<Rightarrow> memory_world \<Rightarrow> MappingSpec list result" where
  "memory_ListByScope providerID scope w =
     Inr (filter (\<lambda>spec. ms_ProviderID spec = providerID \<and> scope_Type (ms_Scope spec) = scope_Type scope \<and> scope_ID (ms_Scope spec) = scope_ID scope)
       (concat (map (\<lambda>(_, versions). map snd versions) (mw_records w))))"

definition memory_spec_store :: "memory_world MappingSpecStore" where
  "memory_spec_store =
     \<lparr>mst_CreateDraft = memory_CreateDraft, mst_UpdateDraft = memory_UpdateDraft, mst_SetStatus = memory_SetStatus,
      mst_GetVersion = memory_GetVersion, mst_GetLatest = memory_GetLatest, mst_ListByScope = memory_ListByScope,
      mst_PublishVersion = memory_PublishVersion\<rparr>"

definition recording_bus :: "memory_world event_bus" where
  "recording_bus = Some (\<lambda>event w. (Inr (), w\<lparr>mw_events := mw_events w @ [event]\<rparr>))"

lemma memory_put_version: "memory_version (memory_put spec i v w) = (memory_version w)((i, v) \<mapsto> spec)"
  by (auto simp: memory_version_def memory_put_def fun_eq_iff update_conv' split: option.splits)

lemma memory_change_version:
  assumes "memory_change p sc i v f w = (r, w')" and "memory_version w' \<noteq> memory_version w"
  shows "\<exists>s. memory_version w (i, v) = Some s \<and> memory_version w' = (memory_version w)((i, v) \<mapsto> f s)"
  using assms by (auto simp: memory_change_def memory_GetVersion_def memory_put_version split: option.splits if_splits)

lemma memory_empty_entry:
  assumes "map_of (mw_records w) i = None"
  shows "memory_version (w\<lparr>mw_records := AList.update i [] (mw_records w)\<rparr>) = memory_version w"
  using assms by (auto simp: memory_version_def fun_eq_iff update_conv' split: option.splits)

interpretation memory_specs: mapping_store memory_spec_store recording_bus "\<lambda>p sc i v. (i, v)" memory_version
proof (unfold_locales, goal_cases)
  case (1 p sc i v w found)
  then show ?case by (auto simp: memory_spec_store_def memory_GetVersion_def in_scope_def split: option.splits if_splits)
next
  case (2 s w r w')
  then have "memory_version w (ms_SpecID s, ms_Version s) = None \<and> memory_version w' = (memory_version w)((ms_SpecID s, ms_Version s) \<mapsto> s)"
    by (auto simp: memory_spec_store_def memory_CreateDraft_def Let_def memory_put_version memory_empty_entry split: if_splits)
  moreover have "same_content s s" by (simp add: same_content_def)
  ultimately show ?case by blast
next
  case (3 s w r w')
  then have "memory_version w' = (memory_version w)((ms_SpecID s, ms_Version s) \<mapsto> s)"
    by (auto simp: memory_spec_store_def memory_UpdateDraft_def memory_put_version split: if_splits)
  moreover have "same_content s s" by (simp add: same_content_def)
  ultimately show ?case by blast
next
  case (4 p sc i v st now w r w')
  then have "\<exists>s. memory_version w (i, v) = Some s \<and> memory_version w' = (memory_version w)((i, v) \<mapsto>
      s\<lparr>ms_Status := st, ms_UpdatedAt := now, ms_PublishedAt := (if st \<noteq> MappingSpecStatusPublished then None else ms_PublishedAt s)\<rparr>)"
    using memory_change_version by (simp add: memory_spec_store_def memory_SetStatus_def)
  then obtain s where "memory_version w (i, v) = Some s" "memory_version w' = (memory_version w)((i, v) \<mapsto>
      s\<lparr>ms_Status := st, ms_UpdatedAt := now, ms_PublishedAt := (if st \<noteq> MappingSpecStatusPublished then None else ms_PublishedAt s)\<rparr>)" by blast
  then show ?case by (intro exI conjI) (auto simp: same_content_def)
next
  case (5 p sc i v now w r w')
  then have "\<exists>s. memory_version w (i, v) = Some s \<and> memory_version w' = (memory_version w)((i, v) \<mapsto>
      s\<lparr>ms_Status := MappingSpecStatusPublished, ms_PublishedAt := Some now, ms_UpdatedAt := now\<rparr>)"
    using memory_change_version by (simp add: memory_spec_store_def memory_PublishVersion_def)
  then obtain s where "memory_version w (i, v) = Some s" "memory_version w' = (memory_version w)((i, v) \<mapsto>
      s\<lparr>ms_Status := MappingSpecStatusPublished, ms_PublishedAt := Some now, ms_UpdatedAt := now\<rparr>)" by blast
  then show ?case by (intro exI conjI) (auto simp: same_content_def)
next
  case (6 publish e w u w')
  then have "w' = w\<lparr>mw_events := mw_events w @ [e]\<rparr>" unfolding recording_bus_def by auto
  then show ?case by (simp add: memory_version_def fun_eq_iff)
qed

section \<open>Properties\<close>


definition memory_lifecycle :: "memory_world MappingSpecLifecycle" where
  "memory_lifecycle = \<lparr>lc_store = Some memory_spec_store, lc_eventBus = recording_bus, lc_text = (\<lambda>_. []), lc_sha256 = (\<lambda>x. []), lc_rfc3339nano = (\<lambda>t. [])\<rparr>"

definition sample_draft :: MappingSpec where
  "sample_draft = (sample_mapping [sample_rule])\<lparr>ms_Version := 0\<rparr>"

abbreviation sample_calls :: "(lifecycle_call \<times> int \<times> int) list" where
  "sample_calls \<equiv> let p = ms_ProviderID sample_draft; sc = ms_Scope sample_draft; i = ms_SpecID sample_draft in
     [(Create sample_draft, 1, 1), (Validate p sc i 1, 2, 2), (Release p sc i 1, 3, 3)]"

lemma sample_published:
  "map_option (\<lambda>t. (ms_Status t, ms_Version t, ms_PublishedAt t))
     (memory_version (run_calls memory_lifecycle sample_calls \<lparr>mw_records = [], mw_events = []\<rparr>) (ms_SpecID sample_draft, 1)) =
   Some (MappingSpecStatusPublished, 1, Some 3)"
  by code_simp


text \<open>
  C28: A published version is immutable: no sequence of calls, whatever their arguments and outcomes, changes or
  removes it.
\<close>

theorem published_spec_immutable:
  assumes "mapping_store store bus key specs" and "lc_store s = Some store" and "lc_eventBus s = bus"
    and "specs w k = Some spec" and "ms_Status spec = MappingSpecStatusPublished"
  shows "specs (run_calls s calls w) k = Some spec"
proof -
  have "version_step\<^sup>*\<^sup>* (Some spec) (specs (run_calls s calls w) k)"
    using mapping_store.calls_refine [OF assms(1-3), of w k calls] assms(4) by simp
  then show ?thesis by (cases rule: converse_rtranclpE) (use published_no_step [OF assms(5)] in auto)
qed

theorem published_spec_immutable_witness:
  "let w = run_calls memory_lifecycle sample_calls \<lparr>mw_records = [], mw_events = []\<rparr>; k = (ms_SpecID sample_draft, 1) in
   memory_version (run_calls memory_lifecycle [(Update (sample_draft\<lparr>ms_Version := 1, ms_Rules := []\<rparr>), 4, 4)] w) k = memory_version w k \<and>
   memory_version w k \<noteq> None"
proof -
  let ?w = "run_calls memory_lifecycle sample_calls \<lparr>mw_records = [], mw_events = []\<rparr>" and ?k = "(ms_SpecID sample_draft, 1::int)"
  obtain t where t: "memory_version ?w ?k = Some t" "ms_Status t = MappingSpecStatusPublished"
    using sample_published by (cases "memory_version ?w ?k") auto
  show ?thesis
    using published_spec_immutable [OF memory_specs.mapping_store_axioms, where s = memory_lifecycle, OF _ _ t] t
    by (simp add: memory_lifecycle_def Let_def)
qed

end
