(* ===== verification/Sync_Runs.thy ===== *)
theory Sync_Runs
  imports Formdata Http_Values
begin

text \<open>
  Planning and running a synchronisation: \<open>src/core/sync_planner_service.go\<close> and
  \<open>src/core/sync_execution_service.go\<close>. Stores, change log and event bus are behind their interfaces. The clock is
  a function of the change that is worked on and of the reading within it. SHA-256, the JSON encoding of a plan and
  the printing of times are arguments.
\<close>

record 'w sync_env =
  sy_checkpoints :: "'w SyncCheckpointStore"
  sy_log :: "'w change_log"
  sy_eventBus :: "'w event_bus"
  sy_text :: "goerr \<Rightarrow> string"
  sy_sha256 :: "string \<Rightarrow> string"
  sy_marshal :: "SyncRunPlan \<Rightarrow> string result"
  sy_rfc3339nano :: "int \<Rightarrow> string"

section \<open>Keys and normal forms\<close>

definition BuildSyncIdempotencyKey :: "(string \<Rightarrow> string) \<Rightarrow> string \<Rightarrow> SyncDirection \<Rightarrow> string \<Rightarrow> string \<Rightarrow> string" where
  "BuildSyncIdempotencyKey sha256 syncBindingID direction externalID sourceVersion =
     (let syncBindingID = TrimSpace (ToLower syncBindingID); externalID = TrimSpace (ToLower externalID);
          sourceVersion = TrimSpace (ToLower sourceVersion);
          sourceVersion = (if sourceVersion = [] then ''_'' else sourceVersion)
      in hex_encode (sha256 (join_with ''|'' [syncBindingID, direction, externalID, sourceVersion])))"

definition normalizeSyncChange :: "SyncChange \<Rightarrow> SyncChange" where
  "normalizeSyncChange change =
     change\<lparr>sg_SourceObject := TrimSpace (sg_SourceObject change), sg_ExternalID := TrimSpace (sg_ExternalID change),
       sg_SourceVersion := TrimSpace (sg_SourceVersion change)\<rparr>"

definition normalizeSyncBinding :: "SyncBinding \<Rightarrow> SyncBinding" where
  "normalizeSyncBinding b =
     b\<lparr>sb_ID := TrimSpace (sb_ID b), sb_ProviderID := TrimSpace (sb_ProviderID b), sb_Scope := normalized_scope (sb_Scope b),
       sb_ConnectionID := TrimSpace (sb_ConnectionID b), sb_MappingSpecID := TrimSpace (sb_MappingSpecID b),
       sb_SourceObject := TrimSpace (sb_SourceObject b), sb_TargetModel := TrimSpace (sb_TargetModel b),
       sb_Status := TrimSpace (ToLower (sb_Status b)), sb_Direction := TrimSpace (ToLower (sb_Direction b))\<rparr>"

definition checkpointMatchesBinding :: "SyncCheckpoint \<Rightarrow> SyncBinding \<Rightarrow> bool" where
  "checkpointMatchesBinding checkpoint binding \<longleftrightarrow>
     sameProviderScope (ck_ProviderID checkpoint) (ck_Scope checkpoint) (sb_ProviderID binding) (sb_Scope binding) \<and>
     TrimSpace (ck_ConnectionID checkpoint) = TrimSpace (sb_ConnectionID binding)"

definition buildSyncConflictAuditEventID :: "(string \<Rightarrow> string) \<Rightarrow> (int \<Rightarrow> string) \<Rightarrow> string \<Rightarrow> string \<Rightarrow> int \<Rightarrow> string" where
  "buildSyncConflictAuditEventID sha256 rfc3339nano conflictID eventName occurredAt =
     hex_encode (sha256 (join_with ''|'' [TrimSpace conflictID, TrimSpace eventName, rfc3339nano occurredAt]))"

section \<open>Planning\<close>

definition resolvePlanCheckpoint :: "'w SyncCheckpointStore \<Rightarrow> PlanSyncRunRequest \<Rightarrow> SyncBinding \<Rightarrow> SyncDirection \<Rightarrow> 'w \<Rightarrow> SyncCheckpoint option result" where
  "resolvePlanCheckpoint store req binding direction w =
     (let fromCheckpointID = TrimSpace (pl_FromCheckpointID req) in
      if fromCheckpointID \<noteq> [] then
        (case chk_GetByID store (sb_ProviderID binding) (sb_Scope binding) fromCheckpointID w of
           Inl err \<Rightarrow> Inl err
         | Inr None \<Rightarrow> Inl (Plain (''core: checkpoint '' @ quote fromCheckpointID @ '' not found''))
         | Inr (Some checkpoint) \<Rightarrow>
             if \<not> checkpointMatchesBinding checkpoint binding then Inl (Plain ''core: checkpoint scope/provider mismatch'')
             else if ck_SyncBindingID checkpoint \<noteq> sb_ID binding then Inl (Plain ''core: checkpoint binding id does not match plan binding id'')
             else if ck_Direction checkpoint \<noteq> direction then Inl (Plain ''core: checkpoint direction does not match plan direction'')
             else Inr (Some checkpoint))
      else
        (case chk_GetLatest store (sb_ProviderID binding) (sb_Scope binding) (sb_ID binding) direction w of
           Inl err \<Rightarrow> Inl err
         | Inr found \<Rightarrow>
             (case found of
                Some checkpoint \<Rightarrow> if \<not> checkpointMatchesBinding checkpoint binding then Inl (Plain ''core: checkpoint scope/provider mismatch'') else Inr found
              | None \<Rightarrow> Inr None)))"

definition buildSyncRunPlanHash :: "'w sync_env \<Rightarrow> SyncRunPlan \<Rightarrow> string result" where
  "buildSyncRunPlanHash env plan =
     (case sy_marshal env (plan\<lparr>sp_ID := [], sp_DeterministicHash := [], sp_GeneratedAt := 0\<rparr>) of
        Inl err \<Rightarrow> Inl (Wrapped (''core: marshal sync run plan payload: '' @ sy_text env err) [err])
      | Inr payload \<Rightarrow> Inr (hex_encode (sy_sha256 env payload)))"

definition first_checkpoint :: "SyncBinding \<Rightarrow> SyncDirection \<Rightarrow> SyncCheckpoint" where
  "first_checkpoint binding direction =
     \<lparr>ck_ID = [], ck_ProviderID = sb_ProviderID binding, ck_Scope = sb_Scope binding, ck_ConnectionID = sb_ConnectionID binding,
      ck_SyncBindingID = sb_ID binding, ck_Direction = direction, ck_Cursor = [], ck_Sequence = 0, ck_SourceVersion = [],
      ck_IdempotencySeed = [], ck_Metadata = [], ck_LastEventAt = None, ck_CreatedAt = 0, ck_UpdatedAt = 0\<rparr>"

definition plan_limit :: "int \<Rightarrow> int" where
  "plan_limit limit0 = (let limit = (if limit0 \<le> 0 then 100 else limit0) in if limit > 1000 then 1000 else limit)"

definition PlanSyncRun :: "'w sync_env \<Rightarrow> int \<Rightarrow> PlanSyncRunRequest \<Rightarrow> 'w \<Rightarrow> SyncRunPlan result" where
  "PlanSyncRun env now req w =
     (let binding = normalizeSyncBinding (pl_Binding req); direction = sb_Direction binding in
      case SyncBinding_Validate binding of
        Some err \<Rightarrow> Inl err
      | None \<Rightarrow>
          if \<not> SyncRunMode_IsValid (pl_Mode req) then Inl (Plain (''core: invalid sync run mode '' @ quote (pl_Mode req)))
          else case resolvePlanCheckpoint (sy_checkpoints env) req binding direction w of
            Inl err \<Rightarrow> Inl err
          | Inr found \<Rightarrow>
              let checkpoint = (case found of Some c \<Rightarrow> c | None \<Rightarrow> first_checkpoint binding direction);
                  plan = \<lparr>sp_ID = [], sp_BindingID = sb_ID binding, sp_Mode = pl_Mode req, sp_Checkpoint = checkpoint,
                    sp_EstimatedChanges = plan_limit (pl_Limit req),
                    sp_IdempotencySeed = BuildSyncIdempotencyKey (sy_sha256 env) (sb_ID binding) direction (ck_Cursor checkpoint) (ck_SourceVersion checkpoint),
                    sp_DeterministicHash = [],
                    sp_Metadata = AList.update ''planner.from_checkpoint_id'' (AStr (TrimSpace (pl_FromCheckpointID req)))
                      (AList.update ''planner.limit'' (AInt (plan_limit (pl_Limit req))) (copyMetadata (pl_Metadata req))),
                    sp_GeneratedAt = now\<rparr>
              in case buildSyncRunPlanHash env plan of
                   Inl err \<Rightarrow> Inl err
                 | Inr planHash \<Rightarrow> Inr (plan\<lparr>sp_DeterministicHash := planHash, sp_ID := ''plan_'' @ take 24 planHash\<rparr>))"

section \<open>Running\<close>

definition sync_run_event :: "'w sync_env \<Rightarrow> string \<Rightarrow> SyncCheckpoint \<Rightarrow> string \<Rightarrow> meta \<Rightarrow> int \<Rightarrow> LifecycleEvent" where
  "sync_run_event env runID checkpoint eventName payload occurredAt =
     \<lparr>ev_ID = buildSyncConflictAuditEventID (sy_sha256 env) (sy_rfc3339nano env)
        (runID @ ''|'' @ eventName @ ''|'' @ Itoa (ck_Sequence checkpoint)) eventName occurredAt,
      ev_Name = eventName, ev_ProviderID = ck_ProviderID checkpoint, ev_ScopeType = scope_Type (ck_Scope checkpoint),
      ev_ScopeID = scope_ID (ck_Scope checkpoint), ev_ConnectionID = ck_ConnectionID checkpoint, ev_Source = ''services.sync.runs'',
      ev_OccurredAt = occurredAt,
      ev_Payload = mergeMetadata payload [(''run_id'', AStr runID), (''sync_binding_id'', AStr (ck_SyncBindingID checkpoint)),
        (''direction'', AStr (ck_Direction checkpoint)), (''sequence'', AInt64 (ck_Sequence checkpoint))],
      ev_Metadata = RedactSensitiveMap (ck_Metadata checkpoint)\<rparr>"

definition publishSyncRunEvent :: "'w sync_env \<Rightarrow> string \<Rightarrow> SyncCheckpoint \<Rightarrow> string \<Rightarrow> meta \<Rightarrow> int \<Rightarrow> ('w, unit) effect" where
  "publishSyncRunEvent env runID checkpoint eventName payload occurredAt =
     (case sy_eventBus env of None \<Rightarrow> ret () | Some publish \<Rightarrow> publish (sync_run_event env runID checkpoint eventName payload occurredAt))"

definition empty_result :: SyncRunResult where
  "empty_result = \<lparr>ru_RunID = [], ru_Status = [], ru_ProcessedCount = 0, ru_SkippedCount = 0, ru_ConflictCount = 0, ru_FailedCount = 0,
     ru_NextCheckpoint = None, ru_Metadata = []\<rparr>"

record run_state =
  rs_result :: SyncRunResult
  rs_checkpoint :: SyncCheckpoint
  rs_sequence :: int

text \<open>A run that fails reports its counts with the error; the error of the last event is dropped.\<close>

definition fail_run :: "'w sync_env \<Rightarrow> run_state \<Rightarrow> string \<Rightarrow> goerr \<Rightarrow> int \<Rightarrow> 'w \<Rightarrow> (SyncRunResult \<times> goerr option) \<times> 'w" where
  "fail_run env st message err occurredAt w =
     (let result = (rs_result st)\<lparr>ru_Status := SyncRunStatusFailed, ru_FailedCount := ru_FailedCount (rs_result st) + 1,
            ru_NextCheckpoint := Some (rs_checkpoint st)\<rparr>
      in ((result, Some err),
          snd (publishSyncRunEvent env (ru_RunID result) (rs_checkpoint st) ''services.sync.run.failed''
            [(''status'', AStr (ru_Status result)), (''error'', AStr message)] occurredAt w)))"

definition change_entry :: "'w sync_env \<Rightarrow> SyncRunPlan \<Rightarrow> meta \<Rightarrow> SyncDirection \<Rightarrow> SyncCheckpoint \<Rightarrow> SyncChange \<Rightarrow> int \<Rightarrow> SyncChangeLogEntry" where
  "change_entry env plan runMetadata direction checkpoint change occurredAt =
     \<lparr>cl_ID = [], cl_ProviderID = ck_ProviderID checkpoint, cl_Scope = ck_Scope checkpoint, cl_ConnectionID = ck_ConnectionID checkpoint,
      cl_SyncBindingID = sp_BindingID plan, cl_Direction = direction, cl_SourceObject = sg_SourceObject change,
      cl_ExternalID = sg_ExternalID change, cl_SourceVersion = sg_SourceVersion change,
      cl_IdempotencyKey = BuildSyncIdempotencyKey (sy_sha256 env) (sp_BindingID plan) direction (sg_ExternalID change) (sg_SourceVersion change),
      cl_Payload = RedactSensitiveMap (sg_Payload change),
      cl_Metadata = RedactSensitiveMap (mergeMetadata (sg_Metadata change) runMetadata), cl_OccurredAt = occurredAt\<rparr>"

definition count_applied :: "bool \<Rightarrow> SyncRunResult \<Rightarrow> SyncRunResult" where
  "count_applied applied r =
     (if applied then r\<lparr>ru_ProcessedCount := ru_ProcessedCount r + 1\<rparr> else r\<lparr>ru_SkippedCount := ru_SkippedCount r + 1\<rparr>)"

definition advance :: "(nat \<Rightarrow> int) \<Rightarrow> SyncRunPlan \<Rightarrow> SyncDirection \<Rightarrow> SyncChange \<Rightarrow> run_state \<Rightarrow> run_state" where
  "advance now plan direction change st =
     (let sequence = wrap64 (rs_sequence st + 1)
      in st\<lparr>rs_sequence := sequence,
          rs_checkpoint := (rs_checkpoint st)\<lparr>ck_Sequence := sequence, ck_SyncBindingID := sp_BindingID plan, ck_Direction := direction,
            ck_SourceVersion := sg_SourceVersion change, ck_UpdatedAt := now 0\<rparr>\<rparr>)"

text \<open>One turn of the loop: the state of the next turn, or what the run returns.\<close>

definition run_change :: "'w sync_env \<Rightarrow> (nat \<Rightarrow> int) \<Rightarrow> SyncRunPlan \<Rightarrow> meta \<Rightarrow> SyncDirection \<Rightarrow> SyncChange \<Rightarrow> run_state \<Rightarrow> 'w \<Rightarrow>
    ((SyncRunResult \<times> goerr option) + run_state) \<times> 'w" where
  "run_change env now plan runMetadata direction change0 st0 w =
     (let change = normalizeSyncChange change0; stop = apfst Inl in
      if sg_ExternalID change = [] then
        stop (fail_run env st0 ''core: sync change external id is required'' (Plain ''core: sync change external id is required'') (now 0) w)
      else
        let st = advance now plan direction change st0 in
        if sp_Mode plan = SyncRunModeDryRun then (Inr (st\<lparr>rs_result := count_applied True (rs_result st)\<rparr>), w)
        else case sy_log env (change_entry env plan runMetadata direction (rs_checkpoint st) change (now 1)) w of
          (Inl err, w) \<Rightarrow> stop (fail_run env st (sy_text env err) err (now 2) w)
        | (Inr applied, w) \<Rightarrow>
            (let st = st\<lparr>rs_result := count_applied applied (rs_result st)\<rparr> in
             case chk_Save (sy_checkpoints env) (rs_checkpoint st) w of
               (Inl err, w) \<Rightarrow> stop (fail_run env st (sy_text env err) err (now 2) w)
             | (Inr saved, w) \<Rightarrow>
                 (case publishSyncRunEvent env (ru_RunID (rs_result st)) saved ''services.sync.run.checkpoint''
                     [(''status'', AStr SyncRunStatusRunning), (''sequence'', AInt64 (ck_Sequence saved)), (''source_version'', AStr (ck_SourceVersion saved))]
                     (now 2) w of
                    (Inl err, w) \<Rightarrow> (Inl (empty_result, Some err), w)
                  | (Inr _, w) \<Rightarrow> (Inr (st\<lparr>rs_checkpoint := saved\<rparr>), w))))"

fun run_changes :: "'w sync_env \<Rightarrow> (nat \<Rightarrow> nat \<Rightarrow> int) \<Rightarrow> nat \<Rightarrow> SyncRunPlan \<Rightarrow> meta \<Rightarrow> SyncDirection \<Rightarrow> SyncChange list \<Rightarrow> run_state \<Rightarrow> 'w \<Rightarrow>
    ((SyncRunResult \<times> goerr option) + run_state) \<times> 'w" where
  "run_changes env now i plan runMetadata direction [] st w = (Inr st, w)"
| "run_changes env now i plan runMetadata direction (change # changes) st w =
     (case run_change env (now i) plan runMetadata direction change st w of
        (Inl stop, w) \<Rightarrow> (Inl stop, w)
      | (Inr st, w) \<Rightarrow> run_changes env now (Suc i) plan runMetadata direction changes st w)"

text \<open>The checks of the plan and the checkpoint the run starts from.\<close>

definition run_start :: "SyncRunPlan \<Rightarrow> SyncDirection \<Rightarrow> (SyncRunPlan \<times> SyncCheckpoint) result" where
  "run_start plan0 direction =
     (let plan = plan0\<lparr>sp_BindingID := TrimSpace (sp_BindingID plan0)\<rparr> in
      if sp_BindingID plan = [] then Inl (Plain ''core: sync run plan binding id is required'')
      else if \<not> SyncRunMode_IsValid (sp_Mode plan) then Inl (Plain (''core: invalid sync run mode '' @ quote (sp_Mode plan)))
      else
        let checkpoint = sp_Checkpoint plan;
            checkpoint = (if ck_SyncBindingID checkpoint = [] then checkpoint\<lparr>ck_SyncBindingID := sp_BindingID plan\<rparr> else checkpoint) in
        if ck_SyncBindingID checkpoint \<noteq> sp_BindingID plan then Inl (Plain ''core: checkpoint binding id does not match plan binding id'')
        else
          let checkpoint = (if ck_Direction checkpoint = [] then checkpoint\<lparr>ck_Direction := direction\<rparr> else checkpoint) in
          if ck_Direction checkpoint \<noteq> direction
          then Inl (Plain (''core: checkpoint direction '' @ quote (ck_Direction checkpoint) @ '' does not match run direction '' @ quote direction))
          else Inr (plan, checkpoint))"

definition run_id :: "'w sync_env \<Rightarrow> SyncRunPlan \<Rightarrow> SyncDirection \<Rightarrow> SyncCheckpoint \<Rightarrow> string" where
  "run_id env plan direction checkpoint =
     (if TrimSpace (sp_ID plan) \<noteq> [] then TrimSpace (sp_ID plan)
      else ''run_'' @ take 16 (BuildSyncIdempotencyKey (sy_sha256 env) (sp_BindingID plan) direction (ck_Cursor checkpoint) (ck_SourceVersion checkpoint)))"

definition finish_run :: "'w sync_env \<Rightarrow> int \<Rightarrow> run_state \<Rightarrow> 'w \<Rightarrow> (SyncRunResult \<times> goerr option) \<times> 'w" where
  "finish_run env occurredAt st w =
     (let result = (rs_result st)\<lparr>ru_NextCheckpoint := Some (rs_checkpoint st)\<rparr> in
      case publishSyncRunEvent env (ru_RunID result) (rs_checkpoint st) ''services.sync.run.succeeded''
          [(''status'', AStr SyncRunStatusSucceeded), (''processed'', AInt (ru_ProcessedCount result)), (''skipped'', AInt (ru_SkippedCount result)),
           (''failed'', AInt (ru_FailedCount result)), (''sequence'', AInt64 (ck_Sequence (rs_checkpoint st)))] occurredAt w of
        (Inl err, w) \<Rightarrow> ((empty_result, Some err), w)
      | (Inr _, w) \<Rightarrow> ((result, None), w))"

definition initial_state :: "'w sync_env \<Rightarrow> SyncRunPlan \<Rightarrow> SyncDirection \<Rightarrow> SyncCheckpoint \<Rightarrow> meta \<Rightarrow> run_state" where
  "initial_state env plan direction checkpoint runMetadata =
     \<lparr>rs_result = empty_result\<lparr>ru_RunID := run_id env plan direction checkpoint, ru_Status := SyncRunStatusSucceeded,
        ru_Metadata := copyMetadata runMetadata\<rparr>,
      rs_checkpoint = checkpoint, rs_sequence = ck_Sequence checkpoint\<rparr>"

definition run :: "'w sync_env \<Rightarrow> (nat \<Rightarrow> nat \<Rightarrow> int) \<Rightarrow> SyncRunPlan \<Rightarrow> SyncChange list \<Rightarrow> meta \<Rightarrow> SyncDirection \<Rightarrow> 'w \<Rightarrow> (SyncRunResult \<times> goerr option) \<times> 'w" where
  "run env now plan0 changes runMetadata direction w =
     (case run_start plan0 direction of
        Inl err \<Rightarrow> ((empty_result, Some err), w)
      | Inr (plan, checkpoint) \<Rightarrow>
          (let st = initial_state env plan direction checkpoint runMetadata in
           case publishSyncRunEvent env (ru_RunID (rs_result st)) checkpoint ''services.sync.run.started''
               [(''status'', AStr SyncRunStatusRunning), (''mode'', AStr (sp_Mode plan)), (''direction'', AStr direction)] (now 0 0) w of
             (Inl err, w) \<Rightarrow> ((empty_result, Some err), w)
           | (Inr _, w) \<Rightarrow>
               (case run_changes env now 1 plan runMetadata direction changes st w of
                  (Inl stop, w) \<Rightarrow> (stop, w)
                | (Inr st, w) \<Rightarrow> finish_run env (now (Suc (length changes)) 0) st w)))"

definition RunSyncImport :: "'w sync_env \<Rightarrow> (nat \<Rightarrow> nat \<Rightarrow> int) \<Rightarrow> SyncRunPlan \<Rightarrow> SyncChange list \<Rightarrow> meta \<Rightarrow> 'w \<Rightarrow> (SyncRunResult \<times> goerr option) \<times> 'w" where
  "RunSyncImport env now plan changes metadata = run env now plan changes metadata SyncDirectionImport"

definition RunSyncExport :: "'w sync_env \<Rightarrow> (nat \<Rightarrow> nat \<Rightarrow> int) \<Rightarrow> SyncRunPlan \<Rightarrow> SyncChange list \<Rightarrow> meta \<Rightarrow> 'w \<Rightarrow> (SyncRunResult \<times> goerr option) \<times> 'w" where
  "RunSyncExport env now plan changes metadata = run env now plan changes metadata SyncDirectionExport"

section \<open>What a run does to the log\<close>

text \<open>
  The contract of the change log (\<open>Append\<close> of \<open>SyncChangeLogStore\<close>): it records an entry unless its idempotency key
  is already there, says whether it did, and a failed call records nothing. Checkpoints and events do not touch it.
\<close>

locale sync_log =
  fixes append :: "'w change_log" and checkpoints :: "'w SyncCheckpointStore" and bus :: "'w event_bus" and keys :: "'w \<Rightarrow> string set"
  assumes append_ok: "append e w = (Inr applied, w') \<Longrightarrow> applied = (cl_IdempotencyKey e \<notin> keys w) \<and> keys w' = insert (cl_IdempotencyKey e) (keys w)"
    and append_failed: "append e w = (Inl err, w') \<Longrightarrow> keys w' = keys w"
    and save_keys: "keys (snd (chk_Save checkpoints c w)) = keys w"
    and event_keys: "bus = Some publish \<Longrightarrow> keys (snd (publish ev w)) = keys w"

definition change_key :: "'w sync_env \<Rightarrow> string \<Rightarrow> SyncDirection \<Rightarrow> SyncChange \<Rightarrow> string" where
  "change_key env bindingID direction change =
     BuildSyncIdempotencyKey (sy_sha256 env) bindingID direction (sg_ExternalID (normalizeSyncChange change)) (sg_SourceVersion (normalizeSyncChange change))"

abbreviation counted :: "SyncRunResult \<Rightarrow> int" where
  "counted r \<equiv> ru_ProcessedCount r + ru_SkippedCount r"

lemma count_applied_counts [simp]:
  "ru_ProcessedCount (count_applied b r) = ru_ProcessedCount r + of_bool b" "ru_SkippedCount (count_applied b r) = ru_SkippedCount r + of_bool (\<not> b)"
  "ru_Status (count_applied b r) = ru_Status r" "ru_FailedCount (count_applied b r) = ru_FailedCount r"
  by (simp_all add: count_applied_def)

lemma advance_simps [simp]: "rs_result (advance now plan direction change st) = rs_result st"
  by (simp add: advance_def Let_def)

lemma entry_key [simp]: "cl_IdempotencyKey (change_entry env plan m d k (normalizeSyncChange c) t) = change_key env (sp_BindingID plan) d c"
  by (simp add: change_entry_def change_key_def)

lemma fail_run_result:
  "fst (fail_run env st m err t w) = ((rs_result st)\<lparr>ru_Status := SyncRunStatusFailed, ru_FailedCount := ru_FailedCount (rs_result st) + 1,
     ru_NextCheckpoint := Some (rs_checkpoint st)\<rparr>, Some err)"
  by (simp add: fail_run_def Let_def)

text \<open>How a turn of an apply run can end.\<close>

lemma run_change_cases:
  fixes env :: "'w sync_env" and plan :: SyncRunPlan and now :: "nat \<Rightarrow> int" and m :: meta and d :: SyncDirection
  defines "st' \<equiv> \<lambda>c st. advance now plan d (normalizeSyncChange c) st" and "entry \<equiv> \<lambda>c st. change_entry env plan m d (rs_checkpoint st) (normalizeSyncChange c) (now 1)"
  assumes "sp_Mode plan = SyncRunModeApply"
  obtains (failed) msg err t st1 w1 applied where "run_change env now plan m d c st w = apfst Inl (fail_run env st1 msg err t w1)"
      and "w1 = w \<and> rs_result st1 = rs_result st \<or>
        (\<exists>e. sy_log env (entry c (st' c st)) w = (Inl e, w1)) \<and> rs_result st1 = rs_result st \<or>
        (\<exists>w0. sy_log env (entry c (st' c st)) w = (Inr applied, w0) \<and> w1 = snd (chk_Save (sy_checkpoints env) (rs_checkpoint (st' c st)) w0)) \<and>
          rs_result st1 = count_applied applied (rs_result st)"
  | (event_failed) err w1 where "run_change env now plan m d c st w = (Inl (empty_result, Some err), w1)"
  | (goes_on) applied w0 saved p t where "sy_log env (entry c (st' c st)) w = (Inr applied, w0)"
      and "run_change env now plan m d c st w = (Inr ((st' c st)\<lparr>rs_result := count_applied applied (rs_result st), rs_checkpoint := saved\<rparr>),
        snd (publishSyncRunEvent env (ru_RunID (count_applied applied (rs_result st))) saved ''services.sync.run.checkpoint'' p t
          (snd (chk_Save (sy_checkpoints env) (rs_checkpoint (st' c st)) w0))))"
proof (cases "sg_ExternalID (normalizeSyncChange c) = []")
  case True
  then have "run_change env now plan m d c st w = apfst Inl (fail_run env st ''core: sync change external id is required''
      (Plain ''core: sync change external id is required'') (now 0) w)" by (simp add: run_change_def Let_def)
  then show ?thesis by (rule failed) simp
next
  case id: False
  let ?st = "st' c st"
  note start = run_change_def [of env now plan m d c st w, unfolded Let_def]
  show ?thesis
  proof (cases "sy_log env (entry c ?st) w")
    case (Pair a w0)
    show ?thesis
    proof (cases a)
      case (Inl err)
      then have "run_change env now plan m d c st w = apfst Inl (fail_run env ?st (sy_text env err) err (now 2) w0)"
        using id assms(3) Pair by (simp add: start st'_def entry_def)
      then show ?thesis by (rule failed [where applied = False]) (use Pair Inl in \<open>simp add: st'_def\<close>)
    next
      case applied: (Inr applied)
      obtain b w1 where s: "chk_Save (sy_checkpoints env) (rs_checkpoint ?st) w0 = (b, w1)" by fastforce
      show ?thesis
      proof (cases b)
        case (Inl err)
        then have "run_change env now plan m d c st w =
            apfst Inl (fail_run env (?st\<lparr>rs_result := count_applied applied (rs_result ?st)\<rparr>) (sy_text env err) err (now 2) w1)"
          using id assms(3) Pair applied s by (simp add: start st'_def entry_def)
        then show ?thesis by (rule failed [where applied = applied]) (use Pair applied s in \<open>simp add: st'_def\<close>)
      next
        case (Inr saved)
        let ?pub = "publishSyncRunEvent env (ru_RunID (count_applied applied (rs_result ?st))) saved ''services.sync.run.checkpoint''
          [(''status'', AStr SyncRunStatusRunning), (''sequence'', AInt64 (ck_Sequence saved)), (''source_version'', AStr (ck_SourceVersion saved))] (now 2) w1"
        have r: "run_change env now plan m d c st w = (case ?pub of (Inl err, w) \<Rightarrow> (Inl (empty_result, Some err), w)
            | (Inr _, w) \<Rightarrow> (Inr (?st\<lparr>rs_result := count_applied applied (rs_result ?st), rs_checkpoint := saved\<rparr>), w))"
          using id assms(3) Pair applied s Inr unfolding st'_def entry_def by (simp add: start)
        show ?thesis
        proof (cases "fst ?pub")
          case (Inl err) then show ?thesis using r event_failed by (simp add: case_prod_beta)
        next
          case (Inr u)
          then have "run_change env now plan m d c st w = (Inr (?st\<lparr>rs_result := count_applied applied (rs_result st), rs_checkpoint := saved\<rparr>), snd ?pub)"
            using r by (simp add: case_prod_beta st'_def)
          then show ?thesis
            using Pair applied s by (intro goes_on [where applied = applied and ?w0.0 = w0 and saved = saved and t = "now 2"
              and p = "[(''status'', AStr SyncRunStatusRunning), (''sequence'', AInt64 (ck_Sequence saved)), (''source_version'', AStr (ck_SourceVersion saved))]"])
              (simp_all add: st'_def)
        qed
      qed
    qed
  qed
qed

lemma stops_have_errors: "run_changes env now i plan m d cs st w = (Inl (r, e), w') \<Longrightarrow> e \<noteq> None"
proof (induction cs arbitrary: i st w)
  case (Cons c cs)
  have "e' \<noteq> None" if "run_change env (now i) plan m d c st w = (Inl (r', e'), w1)" for r' e' w1
    using that fail_run_result by (auto simp: run_change_def Let_def apfst_def map_prod_def fail_run_def split: if_splits prod.splits sum.splits)
  then show ?case using Cons by (auto split: prod.splits sum.splits)
qed simp

text \<open>With stores and a bus that do not fail, a run over changes that have an id completes.\<close>

definition working :: "'w sync_env \<Rightarrow> bool" where
  "working env \<longleftrightarrow> (\<forall>e w. \<not> isl (fst (sy_log env e w))) \<and> (\<forall>c w. \<not> isl (fst (chk_Save (sy_checkpoints env) c w))) \<and>
     (\<forall>publish. sy_eventBus env = Some publish \<longrightarrow> (\<forall>ev w. \<not> isl (fst (publish ev w))))"

lemma not_isl_fst: "\<not> isl (fst p) \<Longrightarrow> \<exists>a w. p = (Inr a, w)"
  by (cases p, cases "fst p") auto

lemma working_publish: "\<exists>u w'. publishSyncRunEvent env r c n p t w = (Inr u, w')" if "working env"
proof (cases "sy_eventBus env")
  case None then show ?thesis by (simp add: publishSyncRunEvent_def effects)
next
  case (Some publish)
  then have "\<not> isl (fst (publish (sync_run_event env r c n p t) w))" using that by (simp add: working_def)
  from not_isl_fst [OF this] show ?thesis using Some by (simp add: publishSyncRunEvent_def)
qed

lemma turn_completes:
  assumes "working env" and "TrimSpace (sg_ExternalID c) \<noteq> []"
  shows "\<exists>st' w'. run_change env now plan m d c st w = (Inr st', w') \<and> ru_Status (rs_result st') = ru_Status (rs_result st)"
proof -
  let ?st = "advance now plan d (normalizeSyncChange c) st"
  have i: "sg_ExternalID (normalizeSyncChange c) \<noteq> []" using assms(2) by (simp add: normalizeSyncChange_def)
  obtain applied w1 where a: "sy_log env (change_entry env plan m d (rs_checkpoint ?st) (normalizeSyncChange c) (now 1)) w = (Inr applied, w1)"
    using not_isl_fst assms(1) [unfolded working_def, THEN conjunct1] by blast
  obtain saved w2 where s: "chk_Save (sy_checkpoints env) (rs_checkpoint ?st) w1 = (Inr saved, w2)"
    using not_isl_fst assms(1) [unfolded working_def, THEN conjunct2, THEN conjunct1] by blast
  obtain u w3 where p: "publishSyncRunEvent env (ru_RunID (count_applied applied (rs_result ?st))) saved ''services.sync.run.checkpoint''
      [(''status'', AStr SyncRunStatusRunning), (''sequence'', AInt64 (ck_Sequence saved)), (''source_version'', AStr (ck_SourceVersion saved))] (now 2) w2 = (Inr u, w3)"
    using working_publish [OF assms(1)] by blast
  show ?thesis
    using i a s p unfolding run_change_def Let_def by simp
qed

lemma turns_complete:
  assumes "working env" and "\<forall>c \<in> set cs. TrimSpace (sg_ExternalID c) \<noteq> []"
  shows "\<exists>st' w'. run_changes env now i plan m d cs st w = (Inr st', w') \<and> ru_Status (rs_result st') = ru_Status (rs_result st)"
  using assms(2)
proof (induction cs arbitrary: i st w)
  case (Cons c cs)
  obtain st1 w1 where "run_change env (now i) plan m d c st w = (Inr st1, w1)" "ru_Status (rs_result st1) = ru_Status (rs_result st)"
    using turn_completes [OF assms(1)] Cons.prems by fastforce
  then show ?case using Cons by fastforce
qed simp

lemma run_completes:
  assumes "working env" and "\<forall>c \<in> set cs. TrimSpace (sg_ExternalID c) \<noteq> []" and "\<not> isl (run_start plan0 d)"
  shows "\<exists>r w'. run env now plan0 cs m d w = ((r, None), w') \<and> ru_Status r = SyncRunStatusSucceeded"
proof -
  obtain plan k where s: "run_start plan0 d = Inr (plan, k)" using assms(3) by (cases "run_start plan0 d") auto
  obtain u w0 where u: "publishSyncRunEvent env (ru_RunID (rs_result (initial_state env plan d k m))) k ''services.sync.run.started''
      [(''status'', AStr SyncRunStatusRunning), (''mode'', AStr (sp_Mode plan)), (''direction'', AStr d)] (now 0 0) w = (Inr u, w0)"
    using working_publish [OF assms(1)] by blast
  obtain st w1 where l: "run_changes env now 1 plan m d cs (initial_state env plan d k m) w0 = (Inr st, w1)" "ru_Status (rs_result st) = SyncRunStatusSucceeded"
    using turns_complete [OF assms(1,2), of now 1 plan m d "initial_state env plan d k m" w0] by (auto simp: initial_state_def)
  have f: "\<exists>w'. finish_run env t st w1 = (((rs_result st)\<lparr>ru_NextCheckpoint := Some (rs_checkpoint st)\<rparr>, None), w')" for t
    using working_publish [OF assms(1)] unfolding finish_run_def Let_def by (auto split: prod.splits sum.splits) (metis Inl_Inr_False Pair_inject)
  show ?thesis using f [of "now (Suc (length cs)) 0"] s u l by (auto simp: run_def Let_def)
qed

text \<open>The effect of a stretch of a run on the keys of the log and on the counts.\<close>

definition applied_keys :: "string set \<Rightarrow> string set \<Rightarrow> SyncRunResult \<Rightarrow> SyncRunResult \<Rightarrow> bool" where
  "applied_keys K K' r r' \<longleftrightarrow> K \<subseteq> K' \<and> finite (K' - K) \<and> ru_ProcessedCount r' = ru_ProcessedCount r + int (card (K' - K))"

lemma applied_keys_refl: "ru_ProcessedCount r' = ru_ProcessedCount r \<Longrightarrow> applied_keys K K r r'"
  by (simp add: applied_keys_def)

lemma applied_keys_insert: "applied_keys K (insert k K) r (count_applied (k \<notin> K) r)"
proof -
  have "insert k K - K = (if k \<in> K then {} else {k})" by auto
  then show ?thesis by (auto simp: applied_keys_def)
qed

lemma applied_keys_trans:
  assumes "applied_keys K L r s" and "applied_keys L M s t"
  shows "applied_keys K M r t"
proof -
  have "M - K = (L - K) \<union> (M - L)" "(L - K) \<inter> (M - L) = {}" using assms by (auto simp: applied_keys_def)
  then have "finite (M - K) \<and> card (M - K) = card (L - K) + card (M - L)"
    using assms by (simp add: applied_keys_def card_Un_disjoint)
  then show ?thesis using assms by (auto simp: applied_keys_def)
qed

text \<open>A run is refused, or loses its first event, or is its loop.\<close>

lemma run_outcome:
  assumes "run env now plan0 cs m d w = ((r, e), w')" and "r \<noteq> empty_result \<or> e = None"
  obtains plan k w0 p where "run_start plan0 d = Inr (plan, k)" and "plan = plan0\<lparr>sp_BindingID := TrimSpace (sp_BindingID plan0)\<rparr>"
    and "w0 = snd (publishSyncRunEvent env (ru_RunID (rs_result (initial_state env plan d k m))) k ''services.sync.run.started'' p (now 0 0) w)"
    and "(case run_changes env now 1 plan m d cs (initial_state env plan d k m) w0 of
        (Inl stop, w) \<Rightarrow> (stop, w) | (Inr st, w) \<Rightarrow> finish_run env (now (Suc (length cs)) 0) st w) = ((r, e), w')"
proof (cases "run_start plan0 d")
  case (Inl err) then show ?thesis using assms by (simp add: run_def)
next
  case (Inr a)
  then obtain plan k where s: "run_start plan0 d = Inr (plan, k)" by (cases a) simp
  then have plan: "plan = plan0\<lparr>sp_BindingID := TrimSpace (sp_BindingID plan0)\<rparr>" by (auto simp: run_start_def Let_def split: if_splits)
  let ?st = "initial_state env plan d k m" and ?p = "[(''status'', AStr SyncRunStatusRunning), (''mode'', AStr (sp_Mode plan)), (''direction'', AStr d)]"
  obtain u w0 where u: "publishSyncRunEvent env (ru_RunID (rs_result ?st)) k ''services.sync.run.started'' ?p (now 0 0) w = (u, w0)" by fastforce
  show ?thesis
  proof (cases u)
    case (Inl err) then show ?thesis using assms s u by (simp add: run_def Let_def)
  next
    case (Inr v)
    then show ?thesis using assms(1) s u by (intro that [OF s plan, of w0 ?p]) (simp_all add: run_def Let_def)
  qed
qed

lemma finish_run_result:
  "r \<noteq> empty_result \<or> e = None \<Longrightarrow> finish_run env t st w = ((r, e), w') \<Longrightarrow> r = (rs_result st)\<lparr>ru_NextCheckpoint := Some (rs_checkpoint st)\<rparr> \<and> e = None"
  by (auto simp: finish_run_def Let_def split: prod.splits sum.splits)

context sync_log
begin

lemma publish_keys: "keys (snd (publishSyncRunEvent env r c n p t w)) = keys w" if "sy_eventBus env = bus"
  using that by (cases bus) (auto simp: publishSyncRunEvent_def effects event_keys)

lemma fail_run_keys: "keys (snd (fail_run env st m err t w)) = keys w" if "sy_eventBus env = bus"
  using publish_keys [OF that] by (simp add: fail_run_def Let_def)

lemma finish_run_keys: "sy_eventBus env = bus \<Longrightarrow> finish_run env t st w = (x, w') \<Longrightarrow> keys w' = keys w"
  using publish_keys [of env] by (auto simp: finish_run_def Let_def split: prod.splits sum.splits) (metis snd_conv)+

text \<open>A turn of the loop that goes on, and one that ends the run with its counts.\<close>

lemma turn_goes_on:
  assumes "sy_log env = append" "sy_checkpoints env = checkpoints" "sy_eventBus env = bus" "sp_Mode plan = SyncRunModeApply"
    and "run_change env now plan m d c st w = (Inr st', w')"
  shows "keys w' = insert (change_key env (sp_BindingID plan) d c) (keys w)"
    and "rs_result st' = count_applied (change_key env (sp_BindingID plan) d c \<notin> keys w) (rs_result st)"
proof -
  have "keys w' = insert (change_key env (sp_BindingID plan) d c) (keys w) \<and>
      rs_result st' = count_applied (change_key env (sp_BindingID plan) d c \<notin> keys w) (rs_result st)"
    using assms(4)
  proof (cases rule: run_change_cases [where env = env and now = now and m = m and d = d and c = c and st = st and w = w])
    case (goes_on applied w0 saved p t)
    then show ?thesis
      using assms(5) append_ok [OF goes_on(1) [unfolded assms(1)]] publish_keys [OF assms(3)] save_keys
      by (auto simp: assms(2))
  qed (use assms(5) in \<open>auto simp: apfst_def map_prod_def split: prod.splits\<close>)
  then show "keys w' = insert (change_key env (sp_BindingID plan) d c) (keys w)"
    and "rs_result st' = count_applied (change_key env (sp_BindingID plan) d c \<notin> keys w) (rs_result st)" by simp_all
qed

lemma turn_applied:
  assumes "sy_log env = append" "sy_checkpoints env = checkpoints" "sy_eventBus env = bus" "sp_Mode plan = SyncRunModeApply"
    and "run_change env now plan m d c st w = (Inl (r, e), w')" and "ru_Status r \<noteq> []"
  shows "applied_keys (keys w) (keys w') (rs_result st) r \<and> keys w' \<subseteq> insert (change_key env (sp_BindingID plan) d c) (keys w) \<and> e \<noteq> None"
  using assms(4)
proof (cases rule: run_change_cases [where env = env and now = now and m = m and d = d and c = c and st = st and w = w])
  case (failed msg err t st1 w1 applied)
  let ?k = "change_key env (sp_BindingID plan) d c"
  have r: "ru_ProcessedCount r = ru_ProcessedCount (rs_result st1)" "e = Some err" and w': "keys w' = keys w1"
    using assms(5) failed(1) fail_run_result [of env st1 msg err t w1] fail_run_keys [OF assms(3), of st1 msg err t w1]
    by (auto simp: apfst_def map_prod_def split: prod.splits)
  have "keys w1 = keys w \<and> rs_result st1 = rs_result st \<or> keys w1 = insert ?k (keys w) \<and> rs_result st1 = count_applied (?k \<notin> keys w) (rs_result st)"
    using failed(2) unfolding assms(1,2) by (auto dest: append_ok append_failed simp: save_keys)
  then show ?thesis
  proof
    assume "keys w1 = keys w \<and> rs_result st1 = rs_result st"
    then show ?thesis using r w' by (auto intro: applied_keys_refl)
  next
    assume "keys w1 = insert ?k (keys w) \<and> rs_result st1 = count_applied (?k \<notin> keys w) (rs_result st)"
    then show ?thesis using r w' applied_keys_insert [of "keys w" ?k "rs_result st"] by (auto simp: applied_keys_def)
  qed
qed (use assms(5,6) in \<open>auto simp: empty_result_def\<close>)

lemma turns_go_on:
  assumes "sy_log env = append" "sy_checkpoints env = checkpoints" "sy_eventBus env = bus" "sp_Mode plan = SyncRunModeApply"
    and "run_changes env now i plan m d cs st w = (Inr st', w')"
  shows "keys w' = keys w \<union> change_key env (sp_BindingID plan) d ` set cs \<and> applied_keys (keys w) (keys w') (rs_result st) (rs_result st') \<and>
    counted (rs_result st') = counted (rs_result st) + int (length cs) \<and> ru_FailedCount (rs_result st') = ru_FailedCount (rs_result st)"
  using assms(5)
proof (induction cs arbitrary: i st w)
  case Nil then show ?case by (simp add: applied_keys_refl)
next
  case (Cons c cs)
  let ?k = "change_key env (sp_BindingID plan) d c"
  obtain st1 w1 where t: "run_change env (now i) plan m d c st w = (Inr st1, w1)" and rest: "run_changes env now (Suc i) plan m d cs st1 w1 = (Inr st', w')"
    using Cons.prems by (auto split: prod.splits sum.splits)
  note one = turn_goes_on [OF assms(1-4) t]
  have "applied_keys (keys w) (keys w') (rs_result st) (rs_result st')"
    using applied_keys_insert [of "keys w" ?k "rs_result st"] Cons.IH [OF rest] one by (auto intro: applied_keys_trans)
  then show ?case using Cons.IH [OF rest] one by (simp add: algebra_simps)
qed

lemma turns_applied:
  assumes "sy_log env = append" "sy_checkpoints env = checkpoints" "sy_eventBus env = bus" "sp_Mode plan = SyncRunModeApply"
    and "run_changes env now i plan m d cs st w = (Inl (r, e), w')" and "ru_Status r \<noteq> []"
  shows "applied_keys (keys w) (keys w') (rs_result st) r \<and> keys w' \<subseteq> keys w \<union> change_key env (sp_BindingID plan) d ` set cs"
  using assms(5)
proof (induction cs arbitrary: i st w)
  case (Cons c cs)
  let ?k = "change_key env (sp_BindingID plan) d c"
  show ?case
  proof (cases "fst (run_change env (now i) plan m d c st w)")
    case (Inl a)
    then have "run_change env (now i) plan m d c st w = (Inl (r, e), w')" using Cons.prems by (auto split: prod.splits)
    from turn_applied [OF assms(1-4) this assms(6)] show ?thesis by auto
  next
    case (Inr st1)
    then obtain w1 where t: "run_change env (now i) plan m d c st w = (Inr st1, w1)" and rest: "run_changes env now (Suc i) plan m d cs st1 w1 = (Inl (r, e), w')"
      using Cons.prems by (auto split: prod.splits sum.splits)
    note one = turn_goes_on [OF assms(1-4) t]
    have "applied_keys (keys w) (keys w') (rs_result st) r"
      using applied_keys_insert [of "keys w" ?k "rs_result st"] Cons.IH [OF rest] one by (auto intro: applied_keys_trans)
    then show ?thesis using Cons.IH [OF rest] one by auto
  qed
qed simp

lemma run_succeeded:
  assumes "sy_log env = append" "sy_checkpoints env = checkpoints" "sy_eventBus env = bus" "sp_Mode plan = SyncRunModeApply"
    and "run env now plan cs m d w = ((r, None), w')"
  shows "keys w' = keys w \<union> change_key env (TrimSpace (sp_BindingID plan)) d ` set cs \<and>
    ru_ProcessedCount r = int (card (keys w' - keys w)) \<and> counted r = int (length cs) \<and> ru_FailedCount r = 0"
proof -
  obtain p k w0 q where "run_start plan d = Inr (p, k)" and p: "p = plan\<lparr>sp_BindingID := TrimSpace (sp_BindingID plan)\<rparr>"
    and w0: "w0 = snd (publishSyncRunEvent env (ru_RunID (rs_result (initial_state env p d k m))) k ''services.sync.run.started'' q (now 0 0) w)"
    and loop: "(case run_changes env now 1 p m d cs (initial_state env p d k m) w0 of
        (Inl stop, w) \<Rightarrow> (stop, w) | (Inr st, w) \<Rightarrow> finish_run env (now (Suc (length cs)) 0) st w) = ((r, None), w')"
    by (rule run_outcome [OF assms(5)]) simp
  obtain st w1 where st: "run_changes env now 1 p m d cs (initial_state env p d k m) w0 = (Inr st, w1)" and f: "finish_run env (now (Suc (length cs)) 0) st w1 = ((r, None), w')"
    using loop by (auto split: prod.splits sum.splits dest: stops_have_errors)
  have "keys w' = keys w1" using finish_run_keys [OF assms(3) f] .
  moreover have "keys w0 = keys w" using w0 publish_keys [OF assms(3)] by simp
  moreover have "sp_Mode p = SyncRunModeApply" using p assms(4) by simp
  ultimately show ?thesis
    using turns_go_on [OF assms(1-3) _ st] finish_run_result [OF _ f] p
    by (clarsimp simp: applied_keys_def empty_result_def initial_state_def)
qed

text \<open>A run that reports its counts, failed or not.\<close>

lemma run_counted:
  assumes "sy_log env = append" "sy_checkpoints env = checkpoints" "sy_eventBus env = bus" "sp_Mode plan = SyncRunModeApply"
    and "run env now plan cs m d w = ((r, e), w')" and "ru_Status r \<noteq> []"
  shows "keys w \<subseteq> keys w' \<and> keys w' \<subseteq> keys w \<union> change_key env (TrimSpace (sp_BindingID plan)) d ` set cs \<and>
    ru_ProcessedCount r = int (card (keys w' - keys w))"
proof (cases "e = None")
  case True then show ?thesis using run_succeeded [OF assms(1-4)] assms(5) by blast
next
  case False
  have r: "r \<noteq> empty_result" using assms(6) by (auto simp: empty_result_def)
  obtain p k w0 q where "run_start plan d = Inr (p, k)" and p: "p = plan\<lparr>sp_BindingID := TrimSpace (sp_BindingID plan)\<rparr>"
    and w0: "w0 = snd (publishSyncRunEvent env (ru_RunID (rs_result (initial_state env p d k m))) k ''services.sync.run.started'' q (now 0 0) w)"
    and loop: "(case run_changes env now 1 p m d cs (initial_state env p d k m) w0 of
        (Inl stop, w) \<Rightarrow> (stop, w) | (Inr st, w) \<Rightarrow> finish_run env (now (Suc (length cs)) 0) st w) = ((r, e), w')"
    by (rule run_outcome [OF assms(5)]) (use r in simp)
  have st: "run_changes env now 1 p m d cs (initial_state env p d k m) w0 = (Inl (r, e), w')"
    using loop False r finish_run_result [of r e env] by (auto split: prod.splits sum.splits)
  moreover have "keys w0 = keys w" using w0 publish_keys [OF assms(3)] by simp
  moreover have "sp_Mode p = SyncRunModeApply" using p assms(4) by simp
  ultimately show ?thesis
    using turns_applied [OF assms(1-3) _ st assms(6)] p by (simp add: applied_keys_def empty_result_def initial_state_def)
qed

end

section \<open>The stores in memory\<close>

text \<open>
  The stores of the tests: a change log keyed by idempotency key and checkpoints by id and by provider, scope,
  binding and direction. \<open>yw_events\<close> is the recording bus.
\<close>

record sync_world =
  yw_saveCount :: int
  yw_latest :: "(string, SyncCheckpoint) gomap"
  yw_byID :: "(string, SyncCheckpoint) gomap"
  yw_entries :: "(string, SyncChangeLogEntry) gomap"
  yw_events :: "LifecycleEvent list"

definition checkpointStoreKey :: "string \<Rightarrow> ScopeRef \<Rightarrow> string \<Rightarrow> SyncDirection \<Rightarrow> string" where
  "checkpointStoreKey providerID scope syncBindingID direction =
     ToLower (TrimSpace providerID) @ ''::'' @ ToLower (TrimSpace (scope_Type scope)) @ ''::'' @ TrimSpace (scope_ID scope) @ ''::'' @
     TrimSpace syncBindingID @ ''::'' @ direction"

definition memory_Save :: "SyncCheckpoint \<Rightarrow> (sync_world, SyncCheckpoint) effect" where
  "memory_Save checkpoint0 w =
     (let n = yw_saveCount w + 1;
          checkpoint = (if ck_ID checkpoint0 = [] then checkpoint0\<lparr>ck_ID := ''checkpoint_'' @ Itoa n\<rparr> else checkpoint0);
          key = checkpointStoreKey (ck_ProviderID checkpoint) (ck_Scope checkpoint) (ck_SyncBindingID checkpoint) (ck_Direction checkpoint)
      in (Inr checkpoint, w\<lparr>yw_saveCount := n, yw_latest := AList.update key checkpoint (yw_latest w), yw_byID := AList.update (ck_ID checkpoint) checkpoint (yw_byID w)\<rparr>))"

definition memory_GetByID :: "string \<Rightarrow> ScopeRef \<Rightarrow> string \<Rightarrow> sync_world \<Rightarrow> SyncCheckpoint option result" where
  "memory_GetByID providerID scope i w =
     (case map_of (yw_byID w) i of
        Some checkpoint \<Rightarrow> if \<not> sameProviderScope (ck_ProviderID checkpoint) (ck_Scope checkpoint) providerID scope then Inr None else Inr (Some checkpoint)
      | None \<Rightarrow> Inr None)"

definition memory_GetLatestCheckpoint :: "string \<Rightarrow> ScopeRef \<Rightarrow> string \<Rightarrow> SyncDirection \<Rightarrow> sync_world \<Rightarrow> SyncCheckpoint option result" where
  "memory_GetLatestCheckpoint providerID scope syncBindingID direction w =
     Inr (map_of (yw_latest w) (checkpointStoreKey providerID scope syncBindingID direction))"

definition memory_Append :: "SyncChangeLogEntry \<Rightarrow> (sync_world, bool) effect" where
  "memory_Append entry w =
     (if map_of (yw_entries w) (cl_IdempotencyKey entry) \<noteq> None then (Inr False, w)
      else (Inr True, w\<lparr>yw_entries := AList.update (cl_IdempotencyKey entry) entry (yw_entries w)\<rparr>))"

definition memory_checkpoints :: "sync_world SyncCheckpointStore" where
  "memory_checkpoints = \<lparr>chk_Save = memory_Save, chk_GetByID = memory_GetByID, chk_GetLatest = memory_GetLatestCheckpoint\<rparr>"

definition sync_bus :: "sync_world event_bus" where
  "sync_bus = Some (\<lambda>event w. (Inr (), w\<lparr>yw_events := yw_events w @ [event]\<rparr>))"

definition logged_keys :: "sync_world \<Rightarrow> string set" where
  "logged_keys w = fst ` set (yw_entries w)"

interpretation memory_log: sync_log memory_Append memory_checkpoints sync_bus logged_keys
proof (unfold_locales, goal_cases)
  case (1 e w applied w')
  then show ?case by (auto simp: memory_Append_def logged_keys_def dom_map_of_conv_image_fst [symmetric] update_conv' split: if_splits)
next
  case (2 e w err w') then show ?case by (auto simp: memory_Append_def split: if_splits)
next
  case (3 c w) then show ?case by (simp add: memory_checkpoints_def memory_Save_def Let_def logged_keys_def)
next
  case (4 publish ev w)
  then have "snd (publish ev w) = w\<lparr>yw_events := yw_events w @ [ev]\<rparr>" unfolding sync_bus_def by auto
  then show ?case by (simp add: logged_keys_def)
qed

section \<open>Properties\<close>

text \<open>
  C29: A change is applied once, also when a run fails and is repeated. Take any apply run over some changes that
  reports its counts, whether it succeeded or stopped at a failing change, and then a successful run over the same
  changes for the same binding and direction: together they process exactly the keys the log did not hold before,
  and the log then holds the keys of all changes.
\<close>

theorem sync_change_applied_once:
  assumes "sync_log (sy_log env) (sy_checkpoints env) (sy_eventBus env) keys"
    and "run env now plan changes m d w = ((r, e), w')" and "ru_Status r \<noteq> []" and "sp_Mode plan = SyncRunModeApply"
    and "run env now' plan' changes m' d w' = ((r', None), w'')" and "sp_Mode plan' = SyncRunModeApply"
    and "TrimSpace (sp_BindingID plan') = TrimSpace (sp_BindingID plan)"
  shows "ru_ProcessedCount r + ru_ProcessedCount r' = int (card (change_key env (TrimSpace (sp_BindingID plan)) d ` set changes - keys w)) \<and>
    keys w'' = keys w \<union> change_key env (TrimSpace (sp_BindingID plan)) d ` set changes"
proof -
  let ?K = "change_key env (TrimSpace (sp_BindingID plan)) d ` set changes"
  have a: "keys w \<subseteq> keys w'" "keys w' \<subseteq> keys w \<union> ?K" "ru_ProcessedCount r = int (card (keys w' - keys w))"
    using sync_log.run_counted [OF assms(1) refl refl refl assms(4,2,3)] by auto
  have b: "keys w'' = keys w' \<union> ?K" "ru_ProcessedCount r' = int (card (keys w'' - keys w'))"
    using sync_log.run_succeeded [OF assms(1) refl refl refl assms(6,5)] assms(7) by auto
  have "?K - keys w = (keys w' - keys w) \<union> (keys w'' - keys w')" "(keys w' - keys w) \<inter> (keys w'' - keys w') = {}"
    using a(1,2) b(1) by auto
  moreover have "finite (keys w' - keys w)" "finite (keys w'' - keys w')"
    using a(2) b(1) by (auto intro: finite_subset [of _ ?K])
  ultimately have "card (?K - keys w) = card (keys w' - keys w) + card (keys w'' - keys w')" by (simp add: card_Un_disjoint)
  then show ?thesis using a b by auto
qed

text \<open>A run over three changes, two of which share a key, made twice.\<close>

definition sample_sync_env :: "sync_world sync_env" where
  "sample_sync_env = \<lparr>sy_checkpoints = memory_checkpoints, sy_log = memory_Append, sy_eventBus = sync_bus, sy_text = (\<lambda>_. []),
     sy_sha256 = filter (\<lambda>c. c = CHR ''x''), sy_marshal = (\<lambda>_. Inr []), sy_rfc3339nano = (\<lambda>_. [])\<rparr>"

definition sample_change :: "string \<Rightarrow> SyncChange" where
  "sample_change i = \<lparr>sg_SourceObject = ''o'', sg_ExternalID = i, sg_SourceVersion = ''1'', sg_Payload = [], sg_Metadata = []\<rparr>"

definition sample_plan :: SyncRunPlan where
  "sample_plan = \<lparr>sp_ID = ''r'', sp_BindingID = ''b'', sp_Mode = ''apply'',
     sp_Checkpoint = first_checkpoint \<lparr>sb_ID = ''b'', sb_ProviderID = ''p'', sb_Scope = \<lparr>scope_Type = ''org'', scope_ID = ''o''\<rparr>, sb_ConnectionID = ''c'',
       sb_MappingSpecID = ''m'', sb_SourceObject = ''o'', sb_TargetModel = ''t'', sb_Direction = ''import'', sb_Status = ''active'', sb_Metadata = [],
       sb_CreatedAt = 0, sb_UpdatedAt = 0\<rparr> ''import'',
     sp_EstimatedChanges = 100, sp_IdempotencySeed = [], sp_DeterministicHash = [], sp_Metadata = [], sp_GeneratedAt = 0\<rparr>"

abbreviation sample_sync_world :: sync_world where
  "sample_sync_world \<equiv> \<lparr>yw_saveCount = 0, yw_latest = [], yw_byID = [], yw_entries = [], yw_events = []\<rparr>"

abbreviation sample_changes :: "SyncChange list" where
  "sample_changes \<equiv> [sample_change ''x'', sample_change ''y'', sample_change ''X'']"

abbreviation sample_run :: "sync_world \<Rightarrow> (SyncRunResult \<times> goerr option) \<times> sync_world" where
  "sample_run w \<equiv> run sample_sync_env (\<lambda>_ _. 0) sample_plan sample_changes [] ''import'' w"

lemma sample_run_completes:
  obtains r w' where "sample_run w = ((r, None), w')" and "ru_Status r = SyncRunStatusSucceeded"
proof -
  have "working sample_sync_env"
    by (auto simp: working_def sample_sync_env_def memory_Append_def memory_checkpoints_def memory_Save_def Let_def sync_bus_def)
  moreover have "isl (run_start sample_plan ''import'') = False" by code_simp
  moreover have "\<forall>c \<in> set sample_changes. TrimSpace (sg_ExternalID c) \<noteq> []" by code_simp
  ultimately show ?thesis using run_completes that by metis
qed

theorem sync_change_applied_once_witness:
  "ru_ProcessedCount (fst (fst (sample_run sample_sync_world))) +
     ru_ProcessedCount (fst (fst (sample_run (snd (sample_run sample_sync_world))))) =
   int (card (change_key sample_sync_env ''b'' ''import'' ` set sample_changes - logged_keys sample_sync_world))"
proof -
  have t: "TrimSpace ''b'' = ''b''" and b: "sp_BindingID sample_plan = ''b''" by code_simp (simp add: sample_plan_def)
  obtain r w' where 1: "sample_run sample_sync_world = ((r, None), w')" "ru_Status r = SyncRunStatusSucceeded" by (rule sample_run_completes)
  obtain r' w'' where 2: "sample_run w' = ((r', None), w'')" by (rule sample_run_completes)
  have "ru_ProcessedCount r + ru_ProcessedCount r' =
      int (card (change_key sample_sync_env (TrimSpace (sp_BindingID sample_plan)) ''import'' ` set sample_changes - logged_keys sample_sync_world))"
    using sync_change_applied_once [of sample_sync_env logged_keys, OF _ 1(1) _ _ 2] 1(2) memory_log.sync_log_axioms
    by (simp add: sample_sync_env_def sample_plan_def)
  then show ?thesis using 1 2 t b by simp
qed

section \<open>Plans, keys and failed runs\<close>

text \<open>The runner accepts every plan of the planner for a binding with an id, and starts from its checkpoint, when the
  store returns as latest a checkpoint of the binding and direction it is asked for.\<close>

theorem plan_accepted_by_run:
  assumes "PlanSyncRun env now req w = Inr plan" and "TrimSpace (sb_ID (pl_Binding req)) \<noteq> []"
    and "\<And>p s b d c. chk_GetLatest (sy_checkpoints env) p s b d w = Inr (Some c) \<Longrightarrow> ck_SyncBindingID c = b \<and> ck_Direction c = d"
  shows "run_start plan (sb_Direction (normalizeSyncBinding (pl_Binding req))) = Inr (plan, sp_Checkpoint plan)"
proof -
  let ?b = "normalizeSyncBinding (pl_Binding req)"
  obtain found where f: "resolvePlanCheckpoint (sy_checkpoints env) req ?b (sb_Direction ?b) w = Inr found"
    and v: "SyncBinding_Validate ?b = None" "SyncRunMode_IsValid (sp_Mode plan)" "sp_BindingID plan = sb_ID ?b"
    and k: "sp_Checkpoint plan = (case found of Some c \<Rightarrow> c | None \<Rightarrow> first_checkpoint ?b (sb_Direction ?b))"
    using assms(1) by (auto simp: PlanSyncRun_def Let_def split: option.splits if_splits sum.splits)
  have "ck_SyncBindingID c = sb_ID ?b \<and> ck_Direction c = sb_Direction ?b" if "found = Some c" for c
    using f that assms(3) by (auto simp: resolvePlanCheckpoint_def Let_def split: if_splits sum.splits option.splits)
  then have "ck_SyncBindingID (sp_Checkpoint plan) = sb_ID ?b" "ck_Direction (sp_Checkpoint plan) = sb_Direction ?b"
    using k by (auto simp: first_checkpoint_def split: option.splits)
  moreover have "TrimSpace (sb_ID ?b) = sb_ID ?b" "sb_ID ?b \<noteq> []" using assms(2) by (simp_all add: normalizeSyncBinding_def)
  ultimately show ?thesis using v by (cases plan) (auto simp: run_start_def Let_def)
qed

text \<open>Ids that differ only in case, and changes without a version, share a key.\<close>

lemma key_ignores_case:
  "ToLower i = ToLower j \<Longrightarrow> BuildSyncIdempotencyKey h b d i v = BuildSyncIdempotencyKey h b d j v"
  by (simp add: BuildSyncIdempotencyKey_def)

text \<open>When a change cannot be logged, the checkpoint the run returns is already that of the change that failed.\<close>

lemma failed_change_checkpoint:
  assumes "sy_log env (change_entry env plan m d (rs_checkpoint (advance now plan d (normalizeSyncChange c) st)) (normalizeSyncChange c) (now 1)) w = (Inl err, w1)"
    and "TrimSpace (sg_ExternalID c) \<noteq> []" and "sp_Mode plan = SyncRunModeApply"
  obtains r w2 where "run_change env now plan m d c st w = (Inl (r, Some err), w2)"
    and "map_option ck_Sequence (ru_NextCheckpoint r) = Some (wrap64 (rs_sequence st + 1))"
    and "map_option ck_SourceVersion (ru_NextCheckpoint r) = Some (TrimSpace (sg_SourceVersion c))"
proof -
  have "sg_ExternalID (normalizeSyncChange c) \<noteq> []" using assms(2) by (simp add: normalizeSyncChange_def)
  then have "run_change env now plan m d c st w = apfst Inl (fail_run env (advance now plan d (normalizeSyncChange c) st) (sy_text env err) err (now 2) w1)"
    using assms(1,3) by (simp add: run_change_def Let_def)
  then show ?thesis by (intro that) (auto simp: fail_run_def Let_def advance_def normalizeSyncChange_def)
qed

end
