(* ===== verification/Sync_Conflicts.thy ===== *)
theory Sync_Conflicts
  imports Sync_Runs
begin

text \<open>
  The ledger of synchronisation conflicts (\<open>src/core/sync_conflict_service.go\<close>): recording a conflict with its
  payloads redacted, and resolving it once. Store, policy hook and event bus are behind their interfaces; each of
  the readings of the clock is an argument.
\<close>

record 'w SyncConflictPolicyHook =
  hk_ApplyRecordPolicy :: "SyncConflict \<Rightarrow> ('w, SyncConflict) effect"
  hk_ApplyResolutionPolicy :: "SyncConflict \<Rightarrow> SyncConflictResolution \<Rightarrow> ('w, SyncConflictResolution) effect"

record 'w SyncConflictLedgerService =
  cs_store :: "'w SyncConflictStore"
  cs_eventBus :: "'w event_bus"
  cs_policyHook :: "'w SyncConflictPolicyHook option"
  cs_sha256 :: "string \<Rightarrow> string"
  cs_rfc3339nano :: "int \<Rightarrow> string"

section \<open>Operations\<close>

definition normalizeSyncConflict :: "SyncConflict \<Rightarrow> SyncConflict" where
  "normalizeSyncConflict c =
     c\<lparr>sc_ID := TrimSpace (sc_ID c), sc_ProviderID := TrimSpace (sc_ProviderID c), sc_Scope := normalized_scope (sc_Scope c),
       sc_ConnectionID := TrimSpace (sc_ConnectionID c), sc_SyncBindingID := TrimSpace (sc_SyncBindingID c),
       sc_CheckpointID := TrimSpace (sc_CheckpointID c), sc_SourceObject := TrimSpace (sc_SourceObject c),
       sc_ExternalID := TrimSpace (sc_ExternalID c), sc_SourceVersion := TrimSpace (sc_SourceVersion c),
       sc_IdempotencyKey := TrimSpace (sc_IdempotencyKey c), sc_Policy := TrimSpace (sc_Policy c), sc_Reason := TrimSpace (sc_Reason c),
       sc_ResolvedBy := TrimSpace (sc_ResolvedBy c)\<rparr>"

definition normalizeSyncConflictResolution :: "SyncConflictResolution \<Rightarrow> SyncConflictResolution" where
  "normalizeSyncConflictResolution r =
     r\<lparr>rz_Action := TrimSpace (ToLower (rz_Action r)), rz_Reason := TrimSpace (rz_Reason r), rz_ResolvedBy := TrimSpace (rz_ResolvedBy r)\<rparr>"

definition audit_event :: "'w SyncConflictLedgerService \<Rightarrow> SyncConflict \<Rightarrow> string \<Rightarrow> meta \<Rightarrow> int \<Rightarrow> LifecycleEvent" where
  "audit_event s c eventName payload occurredAt =
     \<lparr>ev_ID = buildSyncConflictAuditEventID (cs_sha256 s) (cs_rfc3339nano s) (sc_ID c) eventName occurredAt, ev_Name = eventName,
      ev_ProviderID = sc_ProviderID c, ev_ScopeType = scope_Type (sc_Scope c), ev_ScopeID = scope_ID (sc_Scope c),
      ev_ConnectionID = sc_ConnectionID c, ev_Source = ''services.sync.conflicts'', ev_OccurredAt = occurredAt,
      ev_Payload = mergeMetadata payload [(''conflict_id'', AStr (sc_ID c)), (''sync_binding_id'', AStr (sc_SyncBindingID c)),
        (''status'', AStr (sc_Status c)), (''source_object'', AStr (sc_SourceObject c)), (''external_id'', AStr (sc_ExternalID c)),
        (''source_version'', AStr (sc_SourceVersion c)), (''idempotency_key'', AStr (sc_IdempotencyKey c)), (''resolution_state'', AStr (sc_Status c))],
      ev_Metadata = copyMetadata (sc_Metadata c)\<rparr>"

definition publishAuditEvent :: "'w SyncConflictLedgerService \<Rightarrow> SyncConflict \<Rightarrow> string \<Rightarrow> meta \<Rightarrow> int \<Rightarrow> ('w, unit) effect" where
  "publishAuditEvent s c eventName payload occurredAt =
     (case cs_eventBus s of None \<Rightarrow> ret () | Some publish \<Rightarrow> publish (audit_event s c eventName payload occurredAt))"

definition recorded_conflict :: "RecordSyncConflictRequest \<Rightarrow> SyncConflict" where
  "recorded_conflict req =
     (let c = normalizeSyncConflict (rd_Conflict req)
      in c\<lparr>sc_SourcePayload := RedactSensitiveMap (sc_SourcePayload c), sc_TargetPayload := RedactSensitiveMap (sc_TargetPayload c),
           sc_Metadata := RedactSensitiveMap (mergeMetadata (sc_Metadata c) (rd_Metadata req)), sc_Status := SyncConflictStatusPending\<rparr>)"

definition RecordSyncConflict :: "'w SyncConflictLedgerService \<Rightarrow> int \<Rightarrow> RecordSyncConflictRequest \<Rightarrow> ('w, SyncConflict) effect" where
  "RecordSyncConflict s occurredAt req =
     bindE (case cs_policyHook s of
         None \<Rightarrow> ret (recorded_conflict req)
       | Some hook \<Rightarrow> bindE (hk_ApplyRecordPolicy hook (recorded_conflict req))
           (\<lambda>policyConflict. ret ((normalizeSyncConflict policyConflict)\<lparr>sc_Status := SyncConflictStatusPending\<rparr>)))
       (\<lambda>conflict. case SyncConflict_Validate conflict of
           Some err \<Rightarrow> fail err
         | None \<Rightarrow> bindE (cfs_Append (cs_store s) conflict)
             (\<lambda>saved. bindE (publishAuditEvent s saved ''services.sync.conflict.recorded'' [(''status'', AStr SyncConflictStatusPending)] occurredAt)
               (\<lambda>_. ret saved)))"

definition resolution_event :: "SyncConflictResolutionAction \<Rightarrow> string" where
  "resolution_event action =
     (if action = SyncConflictResolutionIgnore then ''services.sync.conflict.ignored''
      else if action = SyncConflictResolutionRetry then ''services.sync.conflict.retry_requested''
      else ''services.sync.conflict.resolved'')"

definition invalid_action :: "SyncConflictResolutionAction \<Rightarrow> goerr" where
  "invalid_action action = Plain (''core: invalid sync conflict resolution action '' @ quote action)"

text \<open>The checks of a request, with its normal form.\<close>

definition resolve_request :: "ResolveSyncConflictRequest \<Rightarrow> ResolveSyncConflictRequest result" where
  "resolve_request req0 =
     (let req = req0\<lparr>rx_ConflictID := TrimSpace (rx_ConflictID req0), rx_ProviderID := TrimSpace (rx_ProviderID req0),
            rx_Scope := normalized_scope (rx_Scope req0)\<rparr>;
          res = normalizeSyncConflictResolution (rx_Resolution req0);
          res = res\<lparr>rz_Patch := RedactSensitiveMap (rz_Patch res)\<rparr> in
      if rx_ConflictID req = [] then Inl (Plain ''core: conflict id is required'')
      else if rx_ProviderID req = [] then Inl (Plain ''core: provider id is required'')
      else case ScopeRef_Validate (rx_Scope req) of
        Some err \<Rightarrow> Inl err
      | None \<Rightarrow> if \<not> SyncConflictResolutionAction_IsValid (rz_Action res) then Inl (invalid_action (rz_Action res))
          else Inr (req\<lparr>rx_Resolution := res\<rparr>))"

definition apply_resolution_policy :: "'w SyncConflictLedgerService \<Rightarrow> SyncConflict \<Rightarrow> SyncConflictResolution \<Rightarrow> ('w, SyncConflictResolution) effect" where
  "apply_resolution_policy s current resolution =
     (case cs_policyHook s of
        None \<Rightarrow> ret resolution
      | Some hook \<Rightarrow> bindE (hk_ApplyResolutionPolicy hook current resolution)
          (\<lambda>resolution. let res = normalizeSyncConflictResolution resolution in
             if \<not> SyncConflictResolutionAction_IsValid (rz_Action res) then fail (invalid_action (rz_Action res)) else ret res))"

definition resolve_pending :: "'w SyncConflictLedgerService \<Rightarrow> int \<Rightarrow> int \<Rightarrow> ResolveSyncConflictRequest \<Rightarrow> SyncConflict \<Rightarrow> ('w, SyncConflict) effect" where
  "resolve_pending s resolvedAt occurredAt req current =
     bindE (apply_resolution_policy s current (rx_Resolution req))
       (\<lambda>res. bindE (cfs_Resolve (cs_store s) (rx_ProviderID req) (rx_Scope req) (rx_ConflictID req) res resolvedAt)
         (\<lambda>resolved. bindE (publishAuditEvent s resolved (resolution_event (rz_Action res))
             [(''action'', AStr (rz_Action res)), (''reason'', AStr (rz_Reason res)), (''resolved_by'', AStr (rz_ResolvedBy res))] occurredAt)
           (\<lambda>_. ret resolved)))"

definition ResolveSyncConflict :: "'w SyncConflictLedgerService \<Rightarrow> int \<Rightarrow> int \<Rightarrow> ResolveSyncConflictRequest \<Rightarrow> ('w, SyncConflict) effect" where
  "ResolveSyncConflict s resolvedAt occurredAt req0 w =
     (case resolve_request req0 of
        Inl err \<Rightarrow> (Inl err, w)
      | Inr req \<Rightarrow>
          (case cfs_Get (cs_store s) (rx_ProviderID req) (rx_Scope req) (rx_ConflictID req) w of
             Inl err \<Rightarrow> (Inl err, w)
           | Inr current \<Rightarrow>
               if \<not> sameProviderScope (sc_ProviderID current) (sc_Scope current) (rx_ProviderID req) (rx_Scope req)
               then (Inl (Plain ''core: conflict scope mismatch''), w)
               else if sc_Status current = SyncConflictStatusResolved \<or> sc_Status current = SyncConflictStatusIgnored then (Inr current, w)
               else resolve_pending s resolvedAt occurredAt req current w))"

section \<open>Resolved conflicts are final\<close>

text \<open>
  The contract: \<open>Get\<close> returns the stored conflict, \<open>Resolve\<close> changes no other conflict than the one it names, and
  hooks and events change none.
\<close>

locale conflict_store =
  fixes store :: "'w SyncConflictStore" and hook :: "'w SyncConflictPolicyHook option" and bus :: "'w event_bus"
    and conflicts :: "'w \<Rightarrow> string \<Rightarrow> SyncConflict option"
  assumes get: "cfs_Get store p sc i w = Inr c \<Longrightarrow> conflicts w i = Some c"
    and resolve: "j \<noteq> i \<Longrightarrow> conflicts (snd (cfs_Resolve store p sc i res t w)) j = conflicts w j"
    and resolution_hook: "hook = Some h \<Longrightarrow> conflicts (snd (hk_ApplyResolutionPolicy h c res w)) = conflicts w"
    and conflict_event: "bus = Some publish \<Longrightarrow> conflicts (snd (publish ev w)) = conflicts w"
begin

lemma audit_keeps: "conflicts (snd (publishAuditEvent s c n p t w)) = conflicts w" if "cs_eventBus s = bus"
  using that by (cases bus) (auto simp: publishAuditEvent_def effects conflict_event)

lemma policy_keeps: "conflicts (snd (apply_resolution_policy s c r w)) = conflicts w" if "cs_policyHook s = hook"
proof (cases hook)
  case (Some h)
  then show ?thesis using that resolution_hook [OF Some, of c r w]
    by (auto simp: apply_resolution_policy_def bindE_def Let_def effects split: prod.splits sum.splits)
qed (use that in \<open>simp add: apply_resolution_policy_def effects\<close>)

lemma pending_keeps_others:
  assumes "cs_store s = store" "cs_policyHook s = hook" "cs_eventBus s = bus" and "i \<noteq> rx_ConflictID req"
  shows "conflicts (snd (resolve_pending s t t' req c w)) i = conflicts w i"
proof -
  obtain a w1 where p: "apply_resolution_policy s c (rx_Resolution req) w = (a, w1)" by fastforce
  have w1: "conflicts w1 = conflicts w" using policy_keeps [OF assms(2), of c "rx_Resolution req" w] p by simp
  show ?thesis
  proof (cases a)
    case (Inl e) then show ?thesis using p w1 by (simp add: resolve_pending_def bindE_def)
  next
    case (Inr res)
    obtain b w2 where r: "cfs_Resolve store (rx_ProviderID req) (rx_Scope req) (rx_ConflictID req) res t w1 = (b, w2)" by fastforce
    have "conflicts w2 i = conflicts w1 i" using resolve [OF assms(4), of _ _ res t w1] r by (metis snd_conv)
    then show ?thesis
      using p r Inr w1 audit_keeps [OF assms(3)]
      by (cases b) (auto simp: resolve_pending_def bindE_def assms(1) effects split: prod.splits sum.splits, (metis snd_conv)+)
  qed
qed

lemma resolve_keeps_final:
  assumes "cs_store s = store" "cs_policyHook s = hook" "cs_eventBus s = bus"
    and "conflicts w i = Some c" and "sc_Status c \<in> {SyncConflictStatusResolved, SyncConflictStatusIgnored}"
  shows "conflicts (snd (ResolveSyncConflict s t t' req w)) i = Some c"
proof (cases "resolve_request req")
  case (Inl e) then show ?thesis using assms(4) by (simp add: ResolveSyncConflict_def)
next
  case (Inr q)
  show ?thesis
  proof (cases "cfs_Get store (rx_ProviderID q) (rx_Scope q) (rx_ConflictID q) w")
    case (Inr d)
    then have d: "conflicts w (rx_ConflictID q) = Some d" by (rule get)
    show ?thesis
    proof (cases "rx_ConflictID q = i")
      case True then show ?thesis using assms(4,5) d \<open>resolve_request req = Inr q\<close> Inr by (auto simp: ResolveSyncConflict_def assms(1))
    next
      case False
      then show ?thesis using pending_keeps_others [OF assms(1-3), of i q t t' d w] assms(4) \<open>resolve_request req = Inr q\<close> Inr
        by (auto simp: ResolveSyncConflict_def assms(1))
    qed
  qed (use Inr assms(4) in \<open>simp add: ResolveSyncConflict_def assms(1)\<close>)
qed

end

section \<open>The store in memory\<close>

record conflict_world =
  fw_records :: "(string, SyncConflict) gomap"
  fw_nextID :: int
  fw_events :: "LifecycleEvent list"

definition memory_AppendConflict :: "SyncConflict \<Rightarrow> (conflict_world, SyncConflict) effect" where
  "memory_AppendConflict c0 w0 =
     (let (c, w) = (if sc_ID c0 = [] then (c0\<lparr>sc_ID := ''conflict_'' @ Itoa (fw_nextID w0)\<rparr>, w0\<lparr>fw_nextID := fw_nextID w0 + 1\<rparr>) else (c0, w0));
          c = (if sc_Status c = [] then c\<lparr>sc_Status := SyncConflictStatusPending\<rparr> else c)
      in (Inr c, w\<lparr>fw_records := AList.update (sc_ID c) c (fw_records w)\<rparr>))"

definition memory_GetConflict :: "string \<Rightarrow> ScopeRef \<Rightarrow> string \<Rightarrow> conflict_world \<Rightarrow> SyncConflict result" where
  "memory_GetConflict providerID scope i w =
     (case map_of (fw_records w) i of
        None \<Rightarrow> Inl (Plain ''conflict not found'')
      | Some c \<Rightarrow> if \<not> sameProviderScope (sc_ProviderID c) (sc_Scope c) providerID scope then Inl (Plain ''conflict not found'') else Inr c)"

definition resolved_record :: "SyncConflictResolution \<Rightarrow> int \<Rightarrow> SyncConflict \<Rightarrow> SyncConflict" where
  "resolved_record res resolvedAt c =
     (let patched = maps_Copy (sc_Resolution c) (rz_Patch res)
      in c\<lparr>sc_Status := (if rz_Action res = ''resolve'' then SyncConflictStatusResolved
              else if rz_Action res = SyncConflictResolutionIgnore then SyncConflictStatusIgnored
              else if rz_Action res = SyncConflictResolutionRetry then SyncConflictStatusPending else sc_Status c),
           sc_ResolvedBy := rz_ResolvedBy res, sc_ResolvedAt := Some resolvedAt,
           sc_Resolution := (if rz_Reason res \<noteq> [] then AList.update ''reason'' (AStr (rz_Reason res)) patched else patched)\<rparr>)"

definition memory_ResolveConflict :: "string \<Rightarrow> ScopeRef \<Rightarrow> string \<Rightarrow> SyncConflictResolution \<Rightarrow> int \<Rightarrow> (conflict_world, SyncConflict) effect" where
  "memory_ResolveConflict providerID scope i res resolvedAt w =
     (case memory_GetConflict providerID scope i w of
        Inl err \<Rightarrow> (Inl err, w)
      | Inr c \<Rightarrow> (Inr (resolved_record res resolvedAt c), w\<lparr>fw_records := AList.update i (resolved_record res resolvedAt c) (fw_records w)\<rparr>))"

definition memory_conflicts :: "conflict_world SyncConflictStore" where
  "memory_conflicts = \<lparr>cfs_Append = memory_AppendConflict, cfs_Get = memory_GetConflict, cfs_Resolve = memory_ResolveConflict\<rparr>"

definition conflict_bus :: "conflict_world event_bus" where
  "conflict_bus = Some (\<lambda>event w. (Inr (), w\<lparr>fw_events := fw_events w @ [event]\<rparr>))"

interpretation memory_ledger: conflict_store memory_conflicts None conflict_bus "\<lambda>w. map_of (fw_records w)"
proof (unfold_locales, goal_cases)
  case (1 p sc i w c) then show ?case by (auto simp: memory_conflicts_def memory_GetConflict_def split: option.splits if_splits)
next
  case (2 j i p sc res t w)
  then show ?case by (auto simp: memory_conflicts_def memory_ResolveConflict_def update_conv' split: sum.splits)
next
  case (4 publish ev w)
  then have "snd (publish ev w) = w\<lparr>fw_events := fw_events w @ [ev]\<rparr>" unfolding conflict_bus_def by auto
  then show ?case by simp
qed simp

section \<open>Properties\<close>

text \<open>
  A conflict is decided once: when it has been resolved or ignored, no later request to resolve it or another
  conflict changes it, whatever the policy hook decides, for every store, hook and bus that keep their contracts.
\<close>

theorem resolved_conflict_final:
  assumes "conflict_store (cs_store s) (cs_policyHook s) (cs_eventBus s) conflicts"
    and "conflicts w i = Some c" and "sc_Status c \<in> {SyncConflictStatusResolved, SyncConflictStatusIgnored}"
  shows "conflicts (fold (\<lambda>(req, t, t') w. snd (ResolveSyncConflict s t t' req w)) requests w) i = Some c"
  using assms(2)
proof (induction requests arbitrary: w)
  case (Cons q qs)
  obtain req t t' where q: "q = (req, t, t')" by (cases q)
  then show ?case using Cons conflict_store.resolve_keeps_final [OF assms(1) refl refl refl Cons.prems assms(3)] by simp
qed simp

definition sample_ledger :: "conflict_world SyncConflictLedgerService" where
  "sample_ledger = \<lparr>cs_store = memory_conflicts, cs_eventBus = conflict_bus, cs_policyHook = None, cs_sha256 = (\<lambda>_. []), cs_rfc3339nano = (\<lambda>_. [])\<rparr>"

definition sample_conflict :: SyncConflict where
  "sample_conflict = \<lparr>sc_ID = ''k'', sc_ProviderID = ''p'', sc_Scope = \<lparr>scope_Type = ''org'', scope_ID = ''o''\<rparr>, sc_ConnectionID = ''c'', sc_SyncBindingID = ''b'',
     sc_CheckpointID = [], sc_SourceObject = ''s'', sc_ExternalID = ''x'', sc_SourceVersion = [], sc_IdempotencyKey = [], sc_Policy = [], sc_Reason = ''r'',
     sc_Status = [], sc_SourcePayload = [(''token'', AStr ''t'')], sc_TargetPayload = [], sc_Resolution = [], sc_ResolvedBy = [], sc_ResolvedAt = None,
     sc_Metadata = [], sc_CreatedAt = 0, sc_UpdatedAt = 0\<rparr>"

definition sample_resolution :: "string \<Rightarrow> ResolveSyncConflictRequest" where
  "sample_resolution action = \<lparr>rx_ProviderID = ''p'', rx_Scope = \<lparr>scope_Type = ''org'', scope_ID = ''o''\<rparr>, rx_ConflictID = ''k'',
     rx_Resolution = \<lparr>rz_Action = action, rz_Patch = [], rz_Reason = [], rz_ResolvedBy = ''u''\<rparr>\<rparr>"

definition resolved_world :: conflict_world where
  "resolved_world = snd (ResolveSyncConflict sample_ledger 1 1 (sample_resolution ''resolve'')
     (snd (RecordSyncConflict sample_ledger 0 \<lparr>rd_Conflict = sample_conflict, rd_Metadata = []\<rparr> \<lparr>fw_records = [], fw_nextID = 1, fw_events = []\<rparr>)))"

lemma resolved_world_status: "map_option sc_Status (map_of (fw_records resolved_world) ''k'') = Some SyncConflictStatusResolved"
  by code_simp

theorem resolved_conflict_final_witness:
  "map_option sc_Status (map_of (fw_records (snd (ResolveSyncConflict sample_ledger 2 2 (sample_resolution ''ignore'') resolved_world))) ''k'') =
   Some SyncConflictStatusResolved"
proof -
  obtain c where c: "map_of (fw_records resolved_world) ''k'' = Some c" "sc_Status c = SyncConflictStatusResolved"
    using resolved_world_status by (auto simp: map_option_case split: option.splits)
  have "conflict_store (cs_store sample_ledger) (cs_policyHook sample_ledger) (cs_eventBus sample_ledger) (\<lambda>w. map_of (fw_records w))"
    using memory_ledger.conflict_store_axioms by (simp add: sample_ledger_def)
  from resolved_conflict_final [where requests = "[(sample_resolution ''ignore'', 2, 2)]", OF this c(1)] c(2)
  show ?thesis by (simp only: fold_simps prod.case insertI1 option.map)
qed

end
