(* ===== verification/Identity_Reconciler.thy ===== *)
theory Identity_Reconciler
  imports Formdata "HOL-Library.Product_Lexorder" "HOL-Library.Multiset"
begin

text \<open>
  The reconciler of external and internal identities (\<open>src/core/identity_binding_reconciler.go\<close>). Confidences and
  thresholds are numbers (the NaN that a float64 can be is not modelled); the rounded subtraction of two of them and
  their form in the metadata are arguments.
\<close>

record 'w IdentityBindingReconciler =
  ir_store :: "'w IdentityBindingStore option"
  ir_exactThreshold :: rat
  ir_confidentThreshold :: rat
  ir_ambiguousDelta :: rat
  ir_sub :: "rat \<Rightarrow> rat \<Rightarrow> rat"
  ir_float :: "rat \<Rightarrow> any"

section \<open>Operations\<close>

definition normalizeReconcileIdentityRequest :: "ReconcileIdentityRequest \<Rightarrow> ReconcileIdentityRequest" where
  "normalizeReconcileIdentityRequest req =
     req\<lparr>ri_ProviderID := TrimSpace (ri_ProviderID req), ri_Scope := normalized_scope (ri_Scope req),
       ri_ConnectionID := TrimSpace (ri_ConnectionID req), ri_SyncBindingID := TrimSpace (ri_SyncBindingID req),
       ri_SourceObject := TrimSpace (ri_SourceObject req), ri_ExternalID := TrimSpace (ri_ExternalID req)\<rparr>"

definition trimmed_candidate :: "IdentityCandidate \<Rightarrow> IdentityCandidate" where
  "trimmed_candidate c = c\<lparr>ic_InternalType := TrimSpace (ic_InternalType c), ic_InternalID := TrimSpace (ic_InternalID c)\<rparr>"

definition usable_candidate :: "IdentityCandidate \<Rightarrow> bool" where
  "usable_candidate c \<longleftrightarrow> \<not> (ic_InternalType c = [] \<or> ic_InternalID c = []) \<and> \<not> (ic_Confidence c < 0 \<or> ic_Confidence c > 1)"

definition normalizeCandidates :: "IdentityCandidate list \<Rightarrow> IdentityCandidate list" where
  "normalizeCandidates raw =
     sort_key (\<lambda>c. (- ic_Confidence c, ic_InternalType c, ic_InternalID c)) (filter usable_candidate (map trimmed_candidate raw))"

definition resolveMatchKind :: "'w IdentityBindingReconciler \<Rightarrow> IdentityCandidate list \<Rightarrow> IdentityBindingMatchKind \<times> IdentityCandidate option \<times> rat" where
  "resolveMatchKind r candidates =
     (case candidates of
        [] \<Rightarrow> (IdentityBindingMatchUnresolved, None, 0)
      | best # rest \<Rightarrow>
          let secondConfidence = (case rest of c # _ \<Rightarrow> ic_Confidence c | [] \<Rightarrow> 0) in
          if rest \<noteq> [] \<and> ir_sub r (ic_Confidence best) secondConfidence \<le> ir_ambiguousDelta r then (IdentityBindingMatchAmbiguous, Some best, secondConfidence)
          else if ic_Confidence best \<ge> ir_exactThreshold r then (IdentityBindingMatchExact, Some best, secondConfidence)
          else if ic_Confidence best \<ge> ir_confidentThreshold r then (IdentityBindingMatchConfident, Some best, secondConfidence)
          else (IdentityBindingMatchUnresolved, Some best, secondConfidence))"

definition reconcile_metadata :: "'w IdentityBindingReconciler \<Rightarrow> meta \<Rightarrow> nat \<Rightarrow> IdentityCandidate option \<Rightarrow> rat \<Rightarrow> meta" where
  "reconcile_metadata r metadata0 n selected secondConfidence =
     (let metadata = AList.update ''reconcile.second_confidence'' (ir_float r secondConfidence)
            (AList.update ''reconcile.candidate_count'' (AInt (int n)) (copyMetadata metadata0)) in
      case selected of
        None \<Rightarrow> metadata
      | Some c \<Rightarrow> AList.update ''reconcile.top_internal_id'' (AStr (ic_InternalID c))
          (AList.update ''reconcile.top_internal_type'' (AStr (ic_InternalType c))
            (AList.update ''reconcile.top_confidence'' (ir_float r (ic_Confidence c)) metadata)))"

definition reconciled_binding :: "'w IdentityBindingReconciler \<Rightarrow> ReconcileIdentityRequest \<Rightarrow> IdentityBinding" where
  "reconciled_binding r req =
     (let candidates = normalizeCandidates (ri_Candidates req); (matchKind, selected, secondConfidence) = resolveMatchKind r candidates;
          binding = \<lparr>ib_ID = [], ib_ProviderID = ri_ProviderID req, ib_Scope = ri_Scope req, ib_ConnectionID = ri_ConnectionID req,
            ib_SyncBindingID = ri_SyncBindingID req, ib_SourceObject = ri_SourceObject req, ib_ExternalID = ri_ExternalID req,
            ib_InternalType = [], ib_InternalID = [], ib_MatchKind = matchKind, ib_Confidence = 0,
            ib_Metadata = reconcile_metadata r (ri_Metadata req) (length candidates) selected secondConfidence,
            ib_CreatedAt = 0, ib_UpdatedAt = 0\<rparr> in
      if matchKind = IdentityBindingMatchExact \<or> matchKind = IdentityBindingMatchConfident then
        (case selected of None \<Rightarrow> binding
         | Some c \<Rightarrow> binding\<lparr>ib_InternalType := ic_InternalType c, ib_InternalID := ic_InternalID c, ib_Confidence := ic_Confidence c\<rparr>)
      else if matchKind = IdentityBindingMatchAmbiguous then
        (case selected of None \<Rightarrow> binding | Some c \<Rightarrow> binding\<lparr>ib_Confidence := ic_Confidence c\<rparr>)
      else binding)"

definition ReconcileIdentity :: "'w IdentityBindingReconciler \<Rightarrow> ReconcileIdentityRequest \<Rightarrow> ('w, ReconcileIdentityResult) effect" where
  "ReconcileIdentity r req0 w =
     (case ir_store r of
        None \<Rightarrow> (Inl (Plain ''core: identity binding reconciler store is required''), w)
      | Some store \<Rightarrow>
          (let req = normalizeReconcileIdentityRequest req0 in
           if ri_ProviderID req = [] then (Inl (Plain ''core: provider id is required''), w)
           else case ScopeRef_Validate (ri_Scope req) of
             Some err \<Rightarrow> (Inl err, w)
           | None \<Rightarrow>
               if ri_ConnectionID req = [] \<or> ri_SyncBindingID req = [] then (Inl (Plain ''core: connection id and sync binding id are required''), w)
               else if ri_SourceObject req = [] \<or> ri_ExternalID req = [] then (Inl (Plain ''core: source object and external id are required''), w)
               else case ist_GetByExternalID store (ri_SyncBindingID req) (ri_ExternalID req) w of
                 Inl err \<Rightarrow> (Inl err, w)
               | Inr (Some existing) \<Rightarrow> (Inr \<lparr>rr_Binding = existing, rr_Created = False\<rparr>, w)
               | Inr None \<Rightarrow>
                   bindE (ist_Upsert store (reconciled_binding r req)) (\<lambda>saved. ret \<lparr>rr_Binding = saved, rr_Created = True\<rparr>) w))"

section \<open>What is bound\<close>

lemma normalized_set: "set (normalizeCandidates raw) = {c \<in> trimmed_candidate ` set raw. usable_candidate c}"
  by (auto simp: normalizeCandidates_def)

lemma normalized_descending: "normalizeCandidates raw = best # rest \<Longrightarrow> sorted_wrt (\<lambda>c d. ic_Confidence d \<le> ic_Confidence c) (best # rest)"
proof -
  assume a: "normalizeCandidates raw = best # rest"
  have "sorted (map (\<lambda>c. (- ic_Confidence c, ic_InternalType c, ic_InternalID c)) (normalizeCandidates raw))"
    by (simp add: normalizeCandidates_def)
  then show ?thesis
    unfolding a sorted_map by (rule sorted_wrt_mono_rel [rotated]) (auto simp: less_eq_prod_def)
qed

text \<open>
  The condition under which an internal id is bound: a usable candidate of at least the threshold, and every other
  candidate stays behind it by more than the delta.
\<close>

definition clear_winner :: "'w IdentityBindingReconciler \<Rightarrow> IdentityCandidate list \<Rightarrow> IdentityCandidate \<Rightarrow> bool" where
  "clear_winner r raw c \<longleftrightarrow>
     min (ir_exactThreshold r) (ir_confidentThreshold r) \<le> ic_Confidence c \<and>
     (\<exists>rest. mset (filter usable_candidate (map trimmed_candidate raw)) = add_mset c (mset rest) \<and>
        (\<forall>d \<in> set rest. ir_ambiguousDelta r < ir_sub r (ic_Confidence c) (ic_Confidence d)))"

lemma bound_candidate:
  assumes mono: "\<And>a b b'. b \<le> b' \<Longrightarrow> ir_sub r a b' \<le> ir_sub r a b"
    and "ib_InternalID (reconciled_binding r req) \<noteq> []"
  shows "\<exists>c. clear_winner r (ri_Candidates req) c \<and> ib_InternalID (reconciled_binding r req) = ic_InternalID c \<and>
    ib_InternalType (reconciled_binding r req) = ic_InternalType c \<and> ib_Confidence (reconciled_binding r req) = ic_Confidence c"
proof (cases "normalizeCandidates (ri_Candidates req)")
  case Nil then show ?thesis using assms(2) by (simp add: reconciled_binding_def resolveMatchKind_def)
next
  case (Cons best rest)
  have bound: "ib_InternalID (reconciled_binding r req) = ic_InternalID best" "ib_InternalType (reconciled_binding r req) = ic_InternalType best"
      "ib_Confidence (reconciled_binding r req) = ic_Confidence best"
    and conf: "min (ir_exactThreshold r) (ir_confidentThreshold r) \<le> ic_Confidence best"
    and lead: "rest \<noteq> [] \<Longrightarrow> ir_ambiguousDelta r < ir_sub r (ic_Confidence best) (ic_Confidence (hd rest))"
    using assms(2) Cons by (auto simp: reconciled_binding_def resolveMatchKind_def Let_def split: if_splits list.splits)
  have "ir_ambiguousDelta r < ir_sub r (ic_Confidence best) (ic_Confidence d)" if "d \<in> set rest" for d
  proof -
    have "rest = hd rest # tl rest" using that by (cases rest) auto
    moreover have "sorted_wrt (\<lambda>c d. ic_Confidence d \<le> ic_Confidence c) (best # rest)" using normalized_descending [OF Cons] .
    ultimately have "ic_Confidence d \<le> ic_Confidence (hd rest)" using that by (cases rest) auto
    then show ?thesis using lead mono [of "ic_Confidence d" "ic_Confidence (hd rest)" "ic_Confidence best"] that by force
  qed
  moreover have "mset (normalizeCandidates (ri_Candidates req)) = mset (filter usable_candidate (map trimmed_candidate (ri_Candidates req)))"
    by (simp only: normalizeCandidates_def mset_sort)
  then have "mset (filter usable_candidate (map trimmed_candidate (ri_Candidates req))) = add_mset best (mset rest)"
    unfolding Cons by simp
  ultimately have "clear_winner r (ri_Candidates req) best" using conf unfolding clear_winner_def by blast
  then show ?thesis using bound by blast
qed

section \<open>The contract of the store\<close>

text \<open>
  \<open>Upsert\<close> stores a binding with the decision it is given under its key and returns it; \<open>GetByExternalID\<close> returns
  what is stored under the key.
\<close>

definition same_decision :: "IdentityBinding \<Rightarrow> IdentityBinding \<Rightarrow> bool" where
  "same_decision b b' \<longleftrightarrow> b' = b\<lparr>ib_ID := ib_ID b', ib_CreatedAt := ib_CreatedAt b', ib_UpdatedAt := ib_UpdatedAt b'\<rparr>"

locale identity_store =
  fixes store :: "'w IdentityBindingStore" and key :: "string \<Rightarrow> string \<Rightarrow> 'k" and bindings :: "'w \<Rightarrow> 'k \<Rightarrow> IdentityBinding option"
  assumes upsert: "ist_Upsert store b w = (Inr saved, w') \<Longrightarrow>
      same_decision b saved \<and> bindings w' = (bindings w)(key (ib_SyncBindingID b) (ib_ExternalID b) \<mapsto> saved)"
    and get_binding: "ist_GetByExternalID store sb ext w = Inr found \<Longrightarrow> found = bindings w (key sb ext)"
begin

lemma reconcile_Inr:
  assumes "ir_store r = Some store" and "ReconcileIdentity r req w = (Inr res, w')"
  shows "bindings w' (key (TrimSpace (ri_SyncBindingID req)) (TrimSpace (ri_ExternalID req))) = Some (rr_Binding res) \<and>
    (if rr_Created res then same_decision (reconciled_binding r (normalizeReconcileIdentityRequest req)) (rr_Binding res) else w' = w)"
proof -
  let ?q = "normalizeReconcileIdentityRequest req"
  have q: "ri_SyncBindingID ?q = TrimSpace (ri_SyncBindingID req)" "ri_ExternalID ?q = TrimSpace (ri_ExternalID req)"
    by (simp_all add: normalizeReconcileIdentityRequest_def)
  have k: "ib_SyncBindingID (reconciled_binding r ?q) = ri_SyncBindingID ?q" "ib_ExternalID (reconciled_binding r ?q) = ri_ExternalID ?q"
    by (auto simp: reconciled_binding_def Let_def split: prod.splits option.splits)
  obtain found where f: "ist_GetByExternalID store (ri_SyncBindingID ?q) (ri_ExternalID ?q) w = Inr found"
    and r: "case found of Some b \<Rightarrow> res = \<lparr>rr_Binding = b, rr_Created = False\<rparr> \<and> w' = w
      | None \<Rightarrow> bindE (ist_Upsert store (reconciled_binding r ?q)) (\<lambda>saved. ret \<lparr>rr_Binding = saved, rr_Created = True\<rparr>) w = (Inr res, w')"
    using assms by (auto simp: ReconcileIdentity_def Let_def split: if_splits option.splits sum.splits)
  show ?thesis
  proof (cases found)
    case None
    then obtain saved where "ist_Upsert store (reconciled_binding r ?q) w = (Inr saved, w')" "res = \<lparr>rr_Binding = saved, rr_Created = True\<rparr>"
      using r by (auto simp: bindE_eq_Inr effects)
    then show ?thesis using upsert k q by fastforce
  next
    case (Some b) then show ?thesis using r get_binding [OF f] q by auto
  qed
qed

end

section \<open>The store in memory\<close>

definition identity_key :: "string \<Rightarrow> string \<Rightarrow> string" where
  "identity_key syncBindingID externalID = syncBindingID @ ''::'' @ externalID"

definition memory_identities :: "(string, IdentityBinding) gomap IdentityBindingStore" where
  "memory_identities =
     \<lparr>ist_Upsert = (\<lambda>b m. (Inr b, AList.update (identity_key (ib_SyncBindingID b) (ib_ExternalID b)) b m)),
      ist_GetByExternalID = (\<lambda>sb ext m. Inr (map_of m (identity_key sb ext)))\<rparr>"

interpretation memory_identity: identity_store memory_identities identity_key map_of
  by unfold_locales (auto simp: memory_identities_def same_decision_def update_conv')

section \<open>Properties\<close>

text \<open>
  C30: Only a clear winner is bound. When the reconciler stores a new binding with an internal id, that id is the one
  of a usable candidate whose confidence reaches a threshold and leads that of every other candidate by more than the
  ambiguity delta; and whatever it decided, a later reconciliation of the same external id, with whatever candidates,
  returns that binding and changes nothing.
\<close>

theorem reconcile_binds_clear_winner:
  assumes "identity_store store key bindings" and "ir_store r = Some store"
    and "\<And>a b b'. b \<le> b' \<Longrightarrow> ir_sub r a b' \<le> ir_sub r a b"
    and "ReconcileIdentity r req w = (Inr res, w')"
    and "ReconcileIdentity r req' w' = (Inr res', w'')"
    and "TrimSpace (ri_SyncBindingID req') = TrimSpace (ri_SyncBindingID req)" and "TrimSpace (ri_ExternalID req') = TrimSpace (ri_ExternalID req)"
  shows "(rr_Created res \<longrightarrow> ib_InternalID (rr_Binding res) \<noteq> [] \<longrightarrow>
      (\<exists>c. clear_winner r (ri_Candidates req) c \<and> ib_InternalID (rr_Binding res) = ic_InternalID c \<and> ib_InternalType (rr_Binding res) = ic_InternalType c)) \<and>
    res' = \<lparr>rr_Binding = rr_Binding res, rr_Created = False\<rparr> \<and> w'' = w'"
proof -
  note a = identity_store.reconcile_Inr [OF assms(1,2,4)] and b = identity_store.reconcile_Inr [OF assms(1,2,5)]
  have 1: "\<exists>c. clear_winner r (ri_Candidates req) c \<and> ib_InternalID (rr_Binding res) = ic_InternalID c \<and> ib_InternalType (rr_Binding res) = ic_InternalType c"
    if "rr_Created res" "ib_InternalID (rr_Binding res) \<noteq> []"
  proof -
    have d: "same_decision (reconciled_binding r (normalizeReconcileIdentityRequest req)) (rr_Binding res)" using a that(1) by simp
    have e: "ib_InternalID (rr_Binding res) = ib_InternalID (reconciled_binding r (normalizeReconcileIdentityRequest req))"
      "ib_InternalType (rr_Binding res) = ib_InternalType (reconciled_binding r (normalizeReconcileIdentityRequest req))"
      by (subst d [unfolded same_decision_def], simp)+
    show ?thesis
      using bound_candidate [of r "normalizeReconcileIdentityRequest req", OF assms(3)] that(2) e
      by (auto simp: normalizeReconcileIdentityRequest_def)
  qed
  have "rr_Created res' = False" using assms(2,5) a assms(6,7) identity_store.get_binding [OF assms(1)]
    by (auto simp: ReconcileIdentity_def Let_def normalizeReconcileIdentityRequest_def split: if_splits option.splits sum.splits)
  then show ?thesis using 1 a b assms(6,7) by (cases res') auto
qed

definition sample_reconciler :: "(string, IdentityBinding) gomap IdentityBindingReconciler" where
  "sample_reconciler = \<lparr>ir_store = Some memory_identities, ir_exactThreshold = 99 / 100, ir_confidentThreshold = 4 / 5, ir_ambiguousDelta = 1 / 20,
     ir_sub = (\<lambda>a b. a - b), ir_float = (\<lambda>_. ANil)\<rparr>"

definition sample_reconcile :: "IdentityCandidate list \<Rightarrow> ReconcileIdentityRequest" where
  "sample_reconcile cs = \<lparr>ri_ProviderID = ''p'', ri_Scope = \<lparr>scope_Type = ''org'', scope_ID = ''o''\<rparr>, ri_ConnectionID = ''c'', ri_SyncBindingID = ''b'',
     ri_SourceObject = ''s'', ri_ExternalID = ''x'', ri_Candidates = cs, ri_Metadata = []\<rparr>"

definition sample_candidate :: "string \<Rightarrow> rat \<Rightarrow> IdentityCandidate" where
  "sample_candidate i c = \<lparr>ic_InternalType = ''user'', ic_InternalID = i, ic_Confidence = c, ic_Metadata = []\<rparr>"

lemma sample_reconciled:
  "case ReconcileIdentity sample_reconciler (sample_reconcile [sample_candidate ''u1'' (1 / 2), sample_candidate ''u2'' (9 / 10)]) [] of
      (Inr res, w) \<Rightarrow> rr_Created res \<and> ib_InternalID (rr_Binding res) = ''u2'' \<and>
        \<not> isl (fst (ReconcileIdentity sample_reconciler (sample_reconcile [sample_candidate ''u1'' (1 / 2), sample_candidate ''u2'' (9 / 10)]) w))
    | (Inl _, w) \<Rightarrow> False"
  by code_simp

theorem reconcile_binds_clear_winner_witness:
  "\<exists>c. clear_winner sample_reconciler [sample_candidate ''u1'' (1 / 2), sample_candidate ''u2'' (9 / 10)] c \<and> ic_InternalID c = ''u2''"
proof -
  let ?q = "sample_reconcile [sample_candidate ''u1'' (1 / 2), sample_candidate ''u2'' (9 / 10)]"
  obtain res w' where 1: "ReconcileIdentity sample_reconciler ?q [] = (Inr res, w')" "rr_Created res" "ib_InternalID (rr_Binding res) = ''u2''"
    and n: "\<not> isl (fst (ReconcileIdentity sample_reconciler ?q w'))"
    using sample_reconciled by (cases "ReconcileIdentity sample_reconciler ?q []") (auto split: sum.splits)
  obtain res' w'' where 2: "ReconcileIdentity sample_reconciler ?q w' = (Inr res', w'')"
    using n by (cases "ReconcileIdentity sample_reconciler ?q w'"; cases "fst (ReconcileIdentity sample_reconciler ?q w')") auto
  show ?thesis
    using reconcile_binds_clear_winner [OF memory_identity.identity_store_axioms _ _ 1(1) 2 refl refl] 1(2,3)
    by (auto simp: sample_reconciler_def sample_reconcile_def)
qed

end
