(* ===== verification/Base64.thy ===== *)
theory Base64
  imports Go_Prelude
begin

text \<open>
  \<open>encoding/base64\<close> as the sources use it: \<open>StdEncoding\<close> with padding and \<open>RawURLEncoding\<close> without. Bytes are
  characters. The decoder skips line breaks and does not look at the bits that a short last group leaves over, as the
  decoder of the library does when it is not strict.
\<close>

definition alphabet :: "bool \<Rightarrow> string" where
  "alphabet url = ''ABCDEFGHIJKLMNOPQRSTUVWXYZabcdefghijklmnopqrstuvwxyz0123456789'' @ (if url then ''-_'' else ''+/'')"

definition digit64 :: "bool \<Rightarrow> nat \<Rightarrow> char" where
  "digit64 url n = alphabet url ! n"

fun index_of :: "char \<Rightarrow> string \<Rightarrow> nat option" where
  "index_of c [] = None"
| "index_of c (x # xs) = (if x = c then Some 0 else map_option Suc (index_of c xs))"

definition value64 :: "bool \<Rightarrow> char \<Rightarrow> nat option" where
  "value64 url c = index_of c (alphabet url)"

abbreviation byte :: "nat \<Rightarrow> char" where "byte n \<equiv> char_of n"

text \<open>\<open>pad\<close>: the last group is filled up with the padding character.\<close>

fun encode64 :: "bool \<Rightarrow> bool \<Rightarrow> string \<Rightarrow> string" where
  "encode64 url pad (a # b # c # rest) =
     (let x = of_char a; y = of_char b; z = of_char c in
      [digit64 url (x div 4), digit64 url (x mod 4 * 16 + y div 16), digit64 url (y mod 16 * 4 + z div 64), digit64 url (z mod 64)]
        @ encode64 url pad rest)"
| "encode64 url pad [a, b] =
     (let x = of_char a; y = of_char b in
      [digit64 url (x div 4), digit64 url (x mod 4 * 16 + y div 16), digit64 url (y mod 16 * 4)] @ (if pad then ''='' else []))"
| "encode64 url pad [a] =
     (let x = of_char a in [digit64 url (x div 4), digit64 url (x mod 4 * 16)] @ (if pad then ''=='' else []))"
| "encode64 url pad [] = []"

text \<open>The bytes of a group of two, three and four digits.\<close>

definition group2 :: "nat \<Rightarrow> nat \<Rightarrow> string" where
  "group2 p q = [byte (p * 4 + q div 16)]"

definition group3 :: "nat \<Rightarrow> nat \<Rightarrow> nat \<Rightarrow> string" where
  "group3 p q r = [byte (p * 4 + q div 16), byte (q mod 16 * 16 + r div 4)]"

definition group4 :: "nat \<Rightarrow> nat \<Rightarrow> nat \<Rightarrow> nat \<Rightarrow> string" where
  "group4 p q r s = [byte (p * 4 + q div 16), byte (q mod 16 * 16 + r div 4), byte (r mod 4 * 64 + s)]"

fun decode_digits :: "bool \<Rightarrow> bool \<Rightarrow> string \<Rightarrow> string option" where
  "decode_digits url pad [] = Some []"
| "decode_digits url pad [a] = None"
| "decode_digits url pad [a, b] =
     (if pad then None else case (value64 url a, value64 url b) of (Some p, Some q) \<Rightarrow> Some (group2 p q) | _ \<Rightarrow> None)"
| "decode_digits url pad [a, b, c] =
     (if pad then None else case (value64 url a, value64 url b, value64 url c) of (Some p, Some q, Some r) \<Rightarrow> Some (group3 p q r) | _ \<Rightarrow> None)"
| "decode_digits url pad (a # b # c # d # rest) =
     (case (value64 url a, value64 url b) of
        (Some p, Some q) \<Rightarrow>
          (if pad \<and> rest = [] \<and> c = CHR ''='' \<and> d = CHR ''='' then Some (group2 p q)
           else case value64 url c of
             None \<Rightarrow> None
           | Some r \<Rightarrow>
               (if pad \<and> rest = [] \<and> d = CHR ''='' then Some (group3 p q r)
                else case value64 url d of
                  None \<Rightarrow> None
                | Some s \<Rightarrow> map_option ((@) (group4 p q r s)) (decode_digits url pad rest)))
      | _ \<Rightarrow> None)"

definition decode64 :: "bool \<Rightarrow> bool \<Rightarrow> string \<Rightarrow> string option" where
  "decode64 url pad s = decode_digits url pad (filter (\<lambda>c. c \<noteq> CHR 0x0A \<and> c \<noteq> CHR 0x0D) s)"

section \<open>Round trip\<close>

lemma index_of_nth: "distinct xs \<Longrightarrow> n < length xs \<Longrightarrow> index_of (xs ! n) xs = Some n"
proof (induction xs arbitrary: n)
  case (Cons x xs) then show ?case by (cases n) (auto simp: nth_mem)
qed simp

lemma alphabet_facts: "distinct (alphabet url)" "length (alphabet url) = 64"
  by (cases url; simp add: alphabet_def; code_simp)+

lemma alphabet_members: "\<forall>c \<in> set (alphabet url). c \<noteq> CHR ''='' \<and> \<not> is_space c \<and> c \<noteq> CHR ''.''"
  by (cases url) (simp_all add: alphabet_def is_space_def)

lemma digit64_member: "n < 64 \<Longrightarrow> digit64 url n \<in> set (alphabet url)"
  by (simp add: digit64_def alphabet_facts)

lemma value64_digit64 [simp]: "n < 64 \<Longrightarrow> value64 url (digit64 url n) = Some n"
  by (simp add: value64_def digit64_def index_of_nth alphabet_facts)

lemma digit64_not_pad [simp]: "n < 64 \<Longrightarrow> digit64 url n \<noteq> CHR ''=''"
  using digit64_member alphabet_members by blast

lemma of_char_256: "of_char (c :: char) < (256 :: nat)"
  by simp

lemma byte_of_char [simp]: "byte (of_char c) = c"
  by simp

lemma unpack: "b < m \<Longrightarrow> (a * m + b) div m = a" "b < m \<Longrightarrow> (a * m + b) mod m = b" for a b m :: nat
  by (simp_all add: add.commute)

text \<open>The digits of three, two and one bytes, and the bytes they give back.\<close>

lemma pack_bounds:
  fixes x y :: nat
  assumes "x < 256" "y < 256"
  shows "x div 4 < 64" "x mod 64 < 64" "x mod 4 * 16 + y div 16 < 64" "x mod 16 * 4 + y div 64 < 64" "x mod 4 * 16 < 64" "x mod 16 * 4 < 64"
proof -
  have "x mod 4 \<le> 3" "y div 16 \<le> 15" "x mod 16 \<le> 15" "y div 64 \<le> 3" "x div 4 \<le> 63" using assms by simp_all
  then show "x div 4 < 64" "x mod 64 < 64" "x mod 4 * 16 + y div 16 < 64" "x mod 16 * 4 + y div 64 < 64" "x mod 4 * 16 < 64" "x mod 16 * 4 < 64"
    by linarith+
qed

lemma pack_values:
  fixes x y :: nat
  assumes "x < 256" "y < 256"
  shows "x div 4 * 4 + (x mod 4 * 16 + y div 16) div 16 = x" and "(x mod 4 * 16 + y div 16) mod 16 = y div 16"
    and "(x mod 16 * 4 + y div 64) div 4 = x mod 16" and "(x mod 16 * 4 + y div 64) mod 4 = y div 64"
    and "y div 16 * 16 + y mod 16 = y" and "y div 64 * 64 + y mod 64 = y"
proof -
  have b: "y div 16 < 16" "y div 64 < 4" using assms by simp_all
  show "x div 4 * 4 + (x mod 4 * 16 + y div 16) div 16 = x" unfolding unpack(1) [OF b(1)] by simp
  show "(x mod 4 * 16 + y div 16) mod 16 = y div 16" by (rule unpack(2) [OF b(1)])
  show "(x mod 16 * 4 + y div 64) div 4 = x mod 16" by (rule unpack(1) [OF b(2)])
  show "(x mod 16 * 4 + y div 64) mod 4 = y div 64" by (rule unpack(2) [OF b(2)])
qed simp_all

lemma groups_of_bytes:
  fixes a b c :: char
  defines "x \<equiv> of_char a :: nat" and "y \<equiv> of_char b :: nat" and "z \<equiv> of_char c :: nat"
  shows "group4 (x div 4) (x mod 4 * 16 + y div 16) (y mod 16 * 4 + z div 64) (z mod 64) = [a, b, c]"
    and "group3 (x div 4) (x mod 4 * 16 + y div 16) (y mod 16 * 4) = [a, b]"
    and "group2 (x div 4) (x mod 4 * 16) = [a]"
proof -
  have l: "x < 256" "y < 256" "z < 256" by (simp_all add: x_def y_def z_def)
  note v = pack_values [OF l(1,2)] pack_values [OF l(2,3)]
  have z: "(y mod 16 * 4) div 4 = y mod 16" "x div 4 * 4 + (x mod 4 * 16) div 16 = x" using pack_values(1,3) [OF l(1), of 0] pack_values(3) [OF l(2), of 0] by simp_all
  show "group4 (x div 4) (x mod 4 * 16 + y div 16) (y mod 16 * 4 + z div 64) (z mod 64) = [a, b, c]"
    unfolding group4_def v by (simp add: x_def y_def z_def)
  show "group3 (x div 4) (x mod 4 * 16 + y div 16) (y mod 16 * 4) = [a, b]"
    unfolding group3_def v z by (simp add: x_def y_def)
  show "group2 (x div 4) (x mod 4 * 16) = [a]" unfolding group2_def z by (simp add: x_def)
qed

lemma char_bounds:
  fixes a b :: char
  shows "(of_char a :: nat) div 4 < 64" "(of_char a :: nat) mod 64 < 64" "of_char a mod 4 * 16 + of_char b div 16 < (64 :: nat)"
    "of_char a mod 16 * 4 + of_char b div 64 < (64 :: nat)" "of_char a mod 4 * 16 < (64 :: nat)" "of_char a mod 16 * 4 < (64 :: nat)"
  by (rule pack_bounds [OF of_char_256 [of a] of_char_256 [of b]])+

lemma decode_group:
  "p < 64 \<Longrightarrow> q < 64 \<Longrightarrow> r < 64 \<Longrightarrow> t < 64 \<Longrightarrow>
     decode_digits url pad (digit64 url p # digit64 url q # digit64 url r # digit64 url t # rest) = map_option ((@) (group4 p q r t)) (decode_digits url pad rest)"
  "p < 64 \<Longrightarrow> q < 64 \<Longrightarrow> r < 64 \<Longrightarrow> decode_digits url pad ([digit64 url p, digit64 url q, digit64 url r] @ (if pad then ''='' else [])) = Some (group3 p q r)"
  "p < 64 \<Longrightarrow> q < 64 \<Longrightarrow> decode_digits url pad ([digit64 url p, digit64 url q] @ (if pad then ''=='' else [])) = Some (group2 p q)"
  by simp_all

lemma decode_encode_digits: "decode_digits url pad (encode64 url pad s) = Some s"
proof (induction url pad s rule: encode64.induct)
  case (1 url pad a b c rest)
  then show ?case
    unfolding encode64.simps Let_def append_Cons append_Nil decode_group(1) [OF char_bounds(1,3,4,2)] groups_of_bytes by simp
next
  case (2 url pad a b) show ?case unfolding encode64.simps Let_def decode_group(2) [OF char_bounds(1,3,6)] groups_of_bytes ..
next
  case (3 url pad a) show ?case unfolding encode64.simps Let_def decode_group(3) [OF char_bounds(1,5)] groups_of_bytes ..
qed simp

lemma encode64_chars: "c \<in> set (encode64 url pad s) \<Longrightarrow> c \<in> set (alphabet url) \<or> c = CHR ''=''"
proof (induction url pad s rule: encode64.induct)
  case (1 url pad a b c' rest)
  have "c \<in> set (encode64 url pad rest) \<or> c \<in> {digit64 url (of_char a div 4), digit64 url (of_char a mod 4 * 16 + of_char b div 16),
      digit64 url (of_char b mod 16 * 4 + of_char c' div 64), digit64 url (of_char c' mod 64)}"
    using 1(2) unfolding encode64.simps Let_def by auto
  then show ?case using 1(1) [OF refl refl refl] digit64_member char_bounds by blast
next
  case (2 url pad a b)
  have "c = CHR ''='' \<or> c \<in> {digit64 url (of_char a div 4), digit64 url (of_char a mod 4 * 16 + of_char b div 16), digit64 url (of_char b mod 16 * 4)}"
    using 2 unfolding encode64.simps Let_def by (auto split: if_splits)
  then show ?case using digit64_member char_bounds by blast
next
  case (3 url pad a)
  have "c = CHR ''='' \<or> c \<in> {digit64 url (of_char a div 4), digit64 url (of_char a mod 4 * 16)}"
    using 3 unfolding encode64.simps Let_def by (auto split: if_splits)
  then show ?case using digit64_member char_bounds by blast
qed simp

lemma encode64_not_space: "c \<in> set (encode64 url pad s) \<Longrightarrow> \<not> is_space c \<and> c \<noteq> CHR ''.''"
  using encode64_chars [of c] alphabet_members by (fastforce simp: is_space_def)

lemma decode64_encode64 [simp]: "decode64 url pad (encode64 url pad s) = Some s"
proof -
  have "filter (\<lambda>c. c \<noteq> CHR 0x0A \<and> c \<noteq> CHR 0x0D) (encode64 url pad s) = encode64 url pad s"
    using encode64_not_space by (fastforce simp: filter_id_conv is_space_def)
  then show ?thesis by (simp add: decode64_def decode_encode_digits)
qed

lemma encode64_trim [simp]: "TrimSpace (encode64 url pad s) = encode64 url pad s"
  using encode64_not_space by (intro TrimSpace_id) blast

lemma encode64_Nil [simp]: "encode64 url pad s = [] \<longleftrightarrow> s = []"
  by (cases "(url, pad, s)" rule: encode64.cases) (auto simp: Let_def)

end
