(* ===== verification/Secrets.thy ===== *)
theory Secrets
  imports Effects Domain Http_Values Base64
begin

text \<open>
  The secret providers of \<open>src/security\<close>: the ciphertext envelope, encryption under the application key, under a key
  of a KMS or of Vault with rotation windows, and failover from one provider to another. AES-GCM, SHA-256, the JSON
  form of an envelope, the random source and the KMS and Vault clients are arguments; base64 is modelled. The loops
  over a Go map of metadata run in the order of the association list.
\<close>

section \<open>Envelope\<close>

record envelope =
  en_KeyID :: string
  en_Version :: int
  en_Algorithm :: string
  en_Nonce :: string
  en_Ciphertext :: string
  en_Metadata :: "(string, string) gomap"

record crypto_env =
  cr_text :: "goerr \<Rightarrow> string"
  cr_marshal :: "envelope \<Rightarrow> string result"
  cr_unmarshal :: "string \<Rightarrow> envelope result"
  cr_sha256 :: "string \<Rightarrow> string"
  cr_seal :: "string \<Rightarrow> string \<Rightarrow> string \<Rightarrow> string \<Rightarrow> string"
  cr_open :: "string \<Rightarrow> string \<Rightarrow> string \<Rightarrow> string \<Rightarrow> string result"

abbreviation envelopePrefix :: string where "envelopePrefix \<equiv> ''services.secret.v1:''"
abbreviation envelopeAlgorithm :: string where "envelopeAlgorithm \<equiv> ''aes-256-gcm''"
abbreviation envelopeAlgorithmKMS :: string where "envelopeAlgorithmKMS \<equiv> ''kms''"
abbreviation envelopeAlgorithmVault :: string where "envelopeAlgorithmVault \<equiv> ''vault''"

definition security_wrap :: "crypto_env \<Rightarrow> string \<Rightarrow> goerr \<Rightarrow> goerr" where
  "security_wrap cr prefix err = Wrapped (''security: '' @ prefix @ cr_text cr err) [err]"

definition security_error :: "string \<Rightarrow> goerr" where
  "security_error message = Plain (''security: '' @ message)"

text \<open>The loop over the metadata that \<open>normalizeEnvelope\<close> and \<open>copyStringMap\<close> share.\<close>

definition trimmed_entries :: "(string, string) gomap \<Rightarrow> (string, string) gomap" where
  "trimmed_entries m = fold (\<lambda>(k, v) out. if TrimSpace k = [] then out else AList.update (TrimSpace k) (TrimSpace v) out) m []"

definition normalizeEnvelope :: "envelope \<Rightarrow> envelope" where
  "normalizeEnvelope e =
     e\<lparr>en_KeyID := TrimSpace (en_KeyID e), en_Algorithm := ToLower (TrimSpace (en_Algorithm e)), en_Metadata := trimmed_entries (en_Metadata e)\<rparr>"

definition copy_string_map :: "(string, string) gomap \<Rightarrow> (string, string) gomap" where
  "copy_string_map input = (if length input = 0 then [] else trimmed_entries input)"

definition encodeEnvelope :: "crypto_env \<Rightarrow> envelope \<Rightarrow> string result" where
  "encodeEnvelope cr env =
     (case cr_marshal cr (normalizeEnvelope env) of
        Inl err \<Rightarrow> Inl (security_wrap cr ''encode envelope: '' err)
      | Inr data \<Rightarrow> Inr (envelopePrefix @ data))"

definition decodeEnvelope :: "crypto_env \<Rightarrow> bool \<Rightarrow> string \<Rightarrow> string \<Rightarrow> (envelope \<times> bool) result" where
  "decodeEnvelope cr allowMissingPrefix defaultAlgorithm ciphertext =
     (if length ciphertext = 0 then Inl (security_error ''ciphertext is required'')
      else let hasPrefix = HasPrefix ciphertext envelopePrefix in
      if \<not> hasPrefix \<and> \<not> allowMissingPrefix then Inl (security_error ''invalid ciphertext envelope prefix'')
      else case cr_unmarshal cr (TrimPrefix ciphertext envelopePrefix) of
        Inl err \<Rightarrow> Inl (security_wrap cr ''decode envelope: '' err)
      | Inr parsed0 \<Rightarrow>
          let parsed1 = normalizeEnvelope parsed0;
              parsed = (if en_Algorithm parsed1 = [] then parsed1\<lparr>en_Algorithm := ToLower (TrimSpace defaultAlgorithm)\<rparr> else parsed1) in
          if en_Ciphertext parsed = [] then Inl (security_error ''envelope ciphertext is required'')
          else Inr (parsed, hasPrefix))"

record EnvelopeMetadata =
  em_HasPrefix :: bool
  em_KeyID :: string
  em_Version :: int
  em_Algorithm :: string

definition ParseEnvelopeMetadata :: "crypto_env \<Rightarrow> string \<Rightarrow> bool \<Rightarrow> EnvelopeMetadata result" where
  "ParseEnvelopeMetadata cr ciphertext allowMissingPrefix =
     (case decodeEnvelope cr allowMissingPrefix [] ciphertext of
        Inl err \<Rightarrow> Inl err
      | Inr (env, hasPrefix) \<Rightarrow>
          Inr \<lparr>em_HasPrefix = hasPrefix, em_KeyID = en_KeyID env, em_Version = en_Version env, em_Algorithm = en_Algorithm env\<rparr>)"

definition encodeCiphertextPayload :: "string \<Rightarrow> string" where
  "encodeCiphertextPayload value = (if length value = 0 then [] else encode64 False True value)"

text \<open>The \<open>CorruptInputError\<close> of the decoder carries an offset that is not modelled.\<close>

definition decodeCiphertextPayload :: "crypto_env \<Rightarrow> string \<Rightarrow> string result" where
  "decodeCiphertextPayload cr value =
     (if TrimSpace value = [] then Inl (security_error ''envelope ciphertext is required'')
      else case decode64 False True (TrimSpace value) of
        None \<Rightarrow> Inl (security_wrap cr ''decode ciphertext payload: '' (Plain ''illegal base64 data''))
      | Some decoded \<Rightarrow> Inr decoded)"

section \<open>Application key\<close>

record AppKeySecretProvider =
  ak_key :: string
  ak_keyID :: string
  ak_version :: int
  ak_allowLegacyDecrypt :: bool

definition WithKeyID :: "string \<Rightarrow> AppKeySecretProvider \<Rightarrow> AppKeySecretProvider" where
  "WithKeyID i p = (if TrimSpace i \<noteq> [] then p\<lparr>ak_keyID := TrimSpace i\<rparr> else p)"

definition WithVersion :: "int \<Rightarrow> AppKeySecretProvider \<Rightarrow> AppKeySecretProvider" where
  "WithVersion version p = (if version > 0 then p\<lparr>ak_version := version\<rparr> else p)"

definition WithAllowLegacyDecrypt :: "bool \<Rightarrow> AppKeySecretProvider \<Rightarrow> AppKeySecretProvider" where
  "WithAllowLegacyDecrypt allow p = p\<lparr>ak_allowLegacyDecrypt := allow\<rparr>"

definition normalizeKey :: "crypto_env \<Rightarrow> string \<Rightarrow> string" where
  "normalizeKey cr value = (if length value \<in> {16, 24, 32} then value else cr_sha256 cr value)"

definition NewAppKeySecretProvider :: "crypto_env \<Rightarrow> string \<Rightarrow> (AppKeySecretProvider \<Rightarrow> AppKeySecretProvider) list \<Rightarrow> AppKeySecretProvider result" where
  "NewAppKeySecretProvider cr keyMaterial opts =
     (if length (TrimSpace keyMaterial) = 0 then Inl (security_error ''key material is required'')
      else Inr (fold (\<lambda>opt p. opt p) opts
        \<lparr>ak_key = normalizeKey cr (TrimSpace keyMaterial), ak_keyID = ''app-key'', ak_version = 1, ak_allowLegacyDecrypt = False\<rparr>))"

definition envelopeAAD :: "string \<Rightarrow> int \<Rightarrow> string \<Rightarrow> string" where
  "envelopeAAD keyID version algorithm =
     envelopePrefix @ ''|'' @ TrimSpace keyID @ ''|'' @ Itoa version @ ''|'' @ ToLower (TrimSpace algorithm)"

definition aes_NewCipher :: "crypto_env \<Rightarrow> string \<Rightarrow> unit result" where
  "aes_NewCipher cr key =
     (if length key \<in> {16, 24, 32} then Inr ()
      else Inl (security_wrap cr ''create cipher: '' (Plain (''crypto/aes: invalid key size '' @ Itoa (int (length key))))))"

abbreviation gcm_NonceSize :: nat where "gcm_NonceSize \<equiv> 12"

text \<open>\<open>rand\<close> reads that many bytes of the random source.\<close>

definition AppKey_Encrypt :: "crypto_env \<Rightarrow> (nat \<Rightarrow> ('w, string) effect) \<Rightarrow> AppKeySecretProvider \<Rightarrow> string \<Rightarrow> ('w, string) effect" where
  "AppKey_Encrypt cr rand p plaintext =
     (if length plaintext = 0 then fail (security_error ''plaintext is required'')
      else if TrimSpace (ak_keyID p) = [] then fail (security_error ''key id is required'')
      else if ak_version p \<le> 0 then fail (security_error ''key version must be greater than zero'')
      else bindE (lift (aes_NewCipher cr (ak_key p))) (\<lambda>_.
        bindE (mapE (security_wrap cr ''nonce generation failed: '') (rand gcm_NonceSize)) (\<lambda>nonce.
          let aad = envelopeAAD (ak_keyID p) (ak_version p) envelopeAlgorithm
          in lift (encodeEnvelope cr \<lparr>en_KeyID = ak_keyID p, en_Version = ak_version p, en_Algorithm = envelopeAlgorithm,
               en_Nonce = encodeCiphertextPayload nonce, en_Ciphertext = encodeCiphertextPayload (cr_seal cr (ak_key p) nonce plaintext aad),
               en_Metadata = []\<rparr>))))"

definition open_sealed :: "crypto_env \<Rightarrow> AppKeySecretProvider \<Rightarrow> envelope \<Rightarrow> string \<Rightarrow> string \<Rightarrow> string result" where
  "open_sealed cr p parsed nonce payload =
     (let aad = (if en_KeyID parsed \<noteq> [] \<and> en_Version parsed > 0 then envelopeAAD (en_KeyID parsed) (en_Version parsed) (en_Algorithm parsed) else []);
          first = cr_open cr (ak_key p) nonce payload aad;
          second = (if isl first \<and> ak_allowLegacyDecrypt p \<and> length aad > 0 then cr_open cr (ak_key p) nonce payload [] else first)
      in case second of Inl err \<Rightarrow> Inl (security_wrap cr ''decrypt payload: '' err) | Inr plaintext \<Rightarrow> Inr plaintext)"

definition AppKey_Decrypt :: "crypto_env \<Rightarrow> AppKeySecretProvider \<Rightarrow> string \<Rightarrow> string result" where
  "AppKey_Decrypt cr p ciphertext =
     (if length ciphertext = 0 then Inl (security_error ''ciphertext is required'')
      else case decodeEnvelope cr (ak_allowLegacyDecrypt p) envelopeAlgorithm ciphertext of
        Inl err \<Rightarrow> Inl err
      | Inr (parsed, _) \<Rightarrow>
          if en_Algorithm parsed \<noteq> envelopeAlgorithm then Inl (security_error (''unsupported envelope algorithm '' @ quote (en_Algorithm parsed)))
          else if (en_KeyID parsed = [] \<or> en_Version parsed \<le> 0) \<and> \<not> ak_allowLegacyDecrypt p then Inl (security_error ''envelope metadata is incomplete'')
          else if en_KeyID parsed \<noteq> [] \<and> en_KeyID parsed \<noteq> ak_keyID p
          then Inl (security_error (''key id mismatch: got '' @ quote (en_KeyID parsed) @ '' want '' @ quote (ak_keyID p)))
          else if en_Version parsed > 0 \<and> en_Version parsed \<noteq> ak_version p
          then Inl (security_error (''key version mismatch: got '' @ Itoa (en_Version parsed) @ '' want '' @ Itoa (ak_version p)))
          else case decodeCiphertextPayload cr (en_Nonce parsed) of
            Inl err \<Rightarrow> Inl (security_wrap cr ''decode nonce: '' err)
          | Inr nonce \<Rightarrow>
              if length nonce = 0 then Inl (security_error ''nonce is required'')
              else case decodeCiphertextPayload cr (en_Ciphertext parsed) of
                Inl err \<Rightarrow> Inl err
              | Inr payload \<Rightarrow>
                  (case aes_NewCipher cr (ak_key p) of
                     Inl err \<Rightarrow> Inl err
                   | Inr _ \<Rightarrow>
                       if length nonce \<noteq> gcm_NonceSize then Inl (security_error ''invalid nonce length'')
                       else open_sealed cr p parsed nonce payload))"

definition AppKey_Metadata :: "AppKeySecretProvider \<Rightarrow> string \<times> int" where
  "AppKey_Metadata p = (ak_keyID p, ak_version p)"

section \<open>Keys of a KMS and of Vault\<close>

text \<open>
  \<open>KMSSecretProvider\<close> and \<open>VaultSecretProvider\<close> are the same code with other names; \<open>mg_label\<close>, \<open>mg_algorithm\<close> and
  \<open>mg_key_name\<close> are what differs. A zero time leaves a bound of a window open.
\<close>

record KeyRotationWindow =
  kw_NotBefore :: "int option"
  kw_NotAfter :: "int option"

definition KeyRotationWindow_Allows :: "KeyRotationWindow \<Rightarrow> int \<Rightarrow> bool" where
  "KeyRotationWindow_Allows w ts \<longleftrightarrow>
     \<not> (case kw_NotBefore w of Some b \<Rightarrow> ts < b | None \<Rightarrow> False) \<and> \<not> (case kw_NotAfter w of Some a \<Rightarrow> ts > a | None \<Rightarrow> False)"

record managed_request =
  mq_KeyID :: string
  mq_KeyVersion :: int
  mq_Data :: string
  mq_Metadata :: "(string, string) gomap"

record 'w managed_client =
  mc_Encrypt :: "managed_request \<Rightarrow> ('w, string) effect"
  mc_Decrypt :: "managed_request \<Rightarrow> ('w, string) effect"

type_synonym key_ref = "string \<times> int"

record 'w managed_provider =
  mg_label :: string
  mg_algorithm :: string
  mg_key_name :: string
  mg_client :: "'w managed_client"
  mg_active :: key_ref
  mg_decryptAllowed :: "(string, key_ref) gomap"
  mg_rotationWindows :: "(string, KeyRotationWindow) gomap"
  mg_allowAnyDecrypt :: bool
  mg_metadata :: "(string, string) gomap"

definition ref_id :: "key_ref \<Rightarrow> string" where
  "ref_id r = fst r @ '':'' @ Itoa (snd r)"

definition newKeyRef :: "string \<Rightarrow> string \<Rightarrow> int \<Rightarrow> key_ref result" where
  "newKeyRef key_name keyID version =
     (if TrimSpace keyID = [] then Inl (security_error (key_name @ '' is required''))
      else if version \<le> 0 then Inl (security_error ''key version must be greater than zero'')
      else Inr (TrimSpace keyID, version))"

definition new_managed :: "string \<Rightarrow> string \<Rightarrow> string \<Rightarrow> 'w managed_client \<Rightarrow> string \<Rightarrow> int \<Rightarrow> ('w managed_provider \<Rightarrow> 'w managed_provider) list \<Rightarrow> 'w managed_provider result" where
  "new_managed label algorithm key_name client keyID version opts =
     (case newKeyRef key_name keyID version of
        Inl err \<Rightarrow> Inl err
      | Inr ref \<Rightarrow> Inr (fold (\<lambda>opt p. opt p) opts
          \<lparr>mg_label = label, mg_algorithm = algorithm, mg_key_name = key_name, mg_client = client, mg_active = ref,
           mg_decryptAllowed = [(ref_id ref, ref)], mg_rotationWindows = [], mg_allowAnyDecrypt = False, mg_metadata = []\<rparr>))"

definition with_compatibility_key :: "string \<Rightarrow> int \<Rightarrow> 'w managed_provider \<Rightarrow> 'w managed_provider" where
  "with_compatibility_key keyID version p =
     (case newKeyRef (mg_key_name p) keyID version of
        Inl _ \<Rightarrow> p | Inr ref \<Rightarrow> p\<lparr>mg_decryptAllowed := AList.update (ref_id ref) ref (mg_decryptAllowed p)\<rparr>)"

definition with_rotation_window :: "string \<Rightarrow> int \<Rightarrow> KeyRotationWindow \<Rightarrow> 'w managed_provider \<Rightarrow> 'w managed_provider" where
  "with_rotation_window keyID version window p =
     (case newKeyRef (mg_key_name p) keyID version of
        Inl _ \<Rightarrow> p | Inr ref \<Rightarrow> p\<lparr>mg_rotationWindows := AList.update (ref_id ref) window (mg_rotationWindows p)\<rparr>)"

definition with_allow_any :: "bool \<Rightarrow> 'w managed_provider \<Rightarrow> 'w managed_provider" where
  "with_allow_any allow p = p\<lparr>mg_allowAnyDecrypt := allow\<rparr>"

definition with_metadata :: "(string, string) gomap \<Rightarrow> 'w managed_provider \<Rightarrow> 'w managed_provider" where
  "with_metadata metadata p = p\<lparr>mg_metadata := copy_string_map metadata\<rparr>"

definition NewKMSSecretProvider :: "'w managed_client \<Rightarrow> string \<Rightarrow> int \<Rightarrow> ('w managed_provider \<Rightarrow> 'w managed_provider) list \<Rightarrow> 'w managed_provider result" where
  "NewKMSSecretProvider = new_managed ''kms'' envelopeAlgorithmKMS ''key id''"

definition NewVaultSecretProvider :: "'w managed_client \<Rightarrow> string \<Rightarrow> int \<Rightarrow> ('w managed_provider \<Rightarrow> 'w managed_provider) list \<Rightarrow> 'w managed_provider result" where
  "NewVaultSecretProvider = new_managed ''vault'' envelopeAlgorithmVault ''key path''"

definition rotationWindowAllows :: "'w managed_provider \<Rightarrow> int \<Rightarrow> key_ref \<Rightarrow> bool" where
  "rotationWindowAllows p now ref =
     (case map_of (mg_rotationWindows p) (ref_id ref) of None \<Rightarrow> True | Some window \<Rightarrow> KeyRotationWindow_Allows window now)"

definition outside_window :: "'w managed_provider \<Rightarrow> key_ref \<Rightarrow> goerr" where
  "outside_window p ref = security_error (mg_label p @ '' key '' @ quote (fst ref) @ '' version '' @ Itoa (snd ref) @
     '' is outside the configured rotation window'')"

definition managed_Encrypt :: "crypto_env \<Rightarrow> 'w managed_provider \<Rightarrow> int \<Rightarrow> string \<Rightarrow> ('w, string) effect" where
  "managed_Encrypt cr p now plaintext =
     (if length plaintext = 0 then fail (security_error ''plaintext is required'')
      else if \<not> rotationWindowAllows p now (mg_active p) then fail (outside_window p (mg_active p))
      else bindE (mapE (security_wrap cr (mg_label p @ '' encrypt: ''))
          (mc_Encrypt (mg_client p) \<lparr>mq_KeyID = fst (mg_active p), mq_KeyVersion = snd (mg_active p), mq_Data = plaintext, mq_Metadata = copy_string_map (mg_metadata p)\<rparr>))
        (\<lambda>ciphertext. if length ciphertext = 0 then fail (security_error (mg_label p @ '' encrypt returned empty ciphertext''))
          else lift (encodeEnvelope cr \<lparr>en_KeyID = fst (mg_active p), en_Version = snd (mg_active p), en_Algorithm = mg_algorithm p, en_Nonce = [],
            en_Ciphertext = encodeCiphertextPayload ciphertext, en_Metadata = copy_string_map (mg_metadata p)\<rparr>)))"

text \<open>The checks of a ciphertext before the client is asked, and the request to it.\<close>

definition decrypt_request :: "crypto_env \<Rightarrow> 'w managed_provider \<Rightarrow> int \<Rightarrow> string \<Rightarrow> managed_request result" where
  "decrypt_request cr p now ciphertext =
     (case decodeEnvelope cr False (mg_algorithm p) ciphertext of
        Inl err \<Rightarrow> Inl err
      | Inr (env, _) \<Rightarrow>
          if en_Algorithm env \<noteq> mg_algorithm p then Inl (security_error (''unsupported envelope algorithm '' @ quote (en_Algorithm env)))
          else case newKeyRef (mg_key_name p) (en_KeyID env) (en_Version env) of
            Inl err \<Rightarrow> Inl err
          | Inr ref \<Rightarrow>
              if \<not> mg_allowAnyDecrypt p \<and> map_of (mg_decryptAllowed p) (ref_id ref) = None
              then Inl (security_error (mg_label p @ '' decrypt key '' @ quote (fst ref) @ '' version '' @ Itoa (snd ref) @ '' is not configured''))
              else if \<not> rotationWindowAllows p now ref then Inl (outside_window p ref)
              else case decodeCiphertextPayload cr (en_Ciphertext env) of
                Inl err \<Rightarrow> Inl err
              | Inr payload \<Rightarrow> Inr \<lparr>mq_KeyID = fst ref, mq_KeyVersion = snd ref, mq_Data = payload, mq_Metadata = copy_string_map (en_Metadata env)\<rparr>)"

definition managed_Decrypt :: "crypto_env \<Rightarrow> 'w managed_provider \<Rightarrow> int \<Rightarrow> string \<Rightarrow> ('w, string) effect" where
  "managed_Decrypt cr p now ciphertext =
     bindE (lift (decrypt_request cr p now ciphertext)) (\<lambda>req.
       bindE (mapE (security_wrap cr (mg_label p @ '' decrypt: '')) (mc_Decrypt (mg_client p) req)) (\<lambda>plaintext.
         if length plaintext = 0 then fail (security_error (mg_label p @ '' decrypt returned empty plaintext'')) else ret plaintext))"

text \<open>The methods of the Vault provider.\<close>

definition VaultSecretProvider_Encrypt :: "crypto_env \<Rightarrow> 'w managed_provider \<Rightarrow> int \<Rightarrow> string \<Rightarrow> ('w, string) effect" where
  "VaultSecretProvider_Encrypt = managed_Encrypt"

definition VaultSecretProvider_Decrypt :: "crypto_env \<Rightarrow> 'w managed_provider \<Rightarrow> int \<Rightarrow> string \<Rightarrow> ('w, string) effect" where
  "VaultSecretProvider_Decrypt = managed_Decrypt"

definition managed_Metadata :: "'w managed_provider \<Rightarrow> string \<times> int" where
  "managed_Metadata p = mg_active p"

section \<open>Failover\<close>

text \<open>
  A provider behind \<open>core.SecretProvider\<close>; \<open>so_Metadata\<close> is the method \<open>Metadata\<close> where the provider has one and
  \<open>so_label\<close> the name of its type. The state of the failover provider is the pair of the last encryption beside the
  world; the hook for diagnostics is called for its effect.
\<close>

record 'w secret_ops =
  so_label :: string
  so_Encrypt :: "string \<Rightarrow> ('w, string) effect"
  so_Decrypt :: "string \<Rightarrow> ('w, string) effect"
  so_Metadata :: "('w \<Rightarrow> string \<times> int) option"

record SecretProviderDiagnostic =
  dg_OccurredAt :: int
  dg_Operation :: string
  dg_Policy :: string
  dg_Outcome :: string
  dg_Primary :: string
  dg_Fallback :: string
  dg_Error :: string

abbreviation policy_strict :: string where "policy_strict \<equiv> ''strict_fail''"
abbreviation policy_fallback :: string where "policy_fallback \<equiv> ''fallback_allowed''"

record 'w FailoverSecretProvider =
  fo_primary :: "'w secret_ops"
  fo_fallback :: "'w secret_ops option"
  fo_policy :: string
  fo_diagnosticHook :: "(SecretProviderDiagnostic \<Rightarrow> 'w \<Rightarrow> 'w) option"

type_synonym 'w failover_state = "(string \<times> int) \<times> 'w"

definition normalizeFailurePolicy :: "string \<Rightarrow> string" where
  "normalizeFailurePolicy policy = (if ToLower (TrimSpace policy) = policy_fallback then policy_fallback else policy_strict)"

definition readProviderMetadata :: "'w secret_ops option \<Rightarrow> 'w \<Rightarrow> (string \<times> int) option" where
  "readProviderMetadata provider w =
     (case provider of
        None \<Rightarrow> None
      | Some ops \<Rightarrow>
          (case so_Metadata ops of
             None \<Rightarrow> None
           | Some f \<Rightarrow> let (keyID, version) = f w in if TrimSpace keyID = [] \<or> version \<le> 0 then None else Some (TrimSpace keyID, version)))"

definition describeSecretProvider :: "'w secret_ops option \<Rightarrow> 'w \<Rightarrow> string" where
  "describeSecretProvider provider w =
     (case provider of
        None \<Rightarrow> []
      | Some ops \<Rightarrow>
          (case readProviderMetadata provider w of
             Some (keyID, version) \<Rightarrow> so_label ops @ ''('' @ keyID @ '':'' @ Itoa version @ '')''
           | None \<Rightarrow> so_label ops))"

definition recordMetadata :: "'w secret_ops option \<Rightarrow> 'w failover_state \<Rightarrow> 'w failover_state" where
  "recordMetadata provider s = (case readProviderMetadata provider (snd s) of None \<Rightarrow> s | Some m \<Rightarrow> (m, snd s))"

definition emit :: "crypto_env \<Rightarrow> 'w FailoverSecretProvider \<Rightarrow> int \<Rightarrow> string \<Rightarrow> string \<Rightarrow> goerr \<Rightarrow> 'w failover_state \<Rightarrow> 'w failover_state" where
  "emit cr p now operation outcome err s =
     (case fo_diagnosticHook p of
        None \<Rightarrow> s
      | Some hook \<Rightarrow> (fst s, hook \<lparr>dg_OccurredAt = now, dg_Operation = operation, dg_Policy = fo_policy p, dg_Outcome = outcome,
          dg_Primary = describeSecretProvider (Some (fo_primary p)) (snd s), dg_Fallback = describeSecretProvider (fo_fallback p) (snd s),
          dg_Error = cr_text cr err\<rparr> (snd s)))"

definition within :: "('w, 'a) effect \<Rightarrow> ('w failover_state, 'a) effect" where
  "within act s = (case act (snd s) of (r, w) \<Rightarrow> (r, (fst s, w)))"

definition NewFailoverSecretProvider :: "'w secret_ops option \<Rightarrow> ('w FailoverSecretProvider \<Rightarrow> 'w FailoverSecretProvider) list \<Rightarrow> 'w \<Rightarrow>
    ('w FailoverSecretProvider \<times> 'w failover_state) result" where
  "NewFailoverSecretProvider primary opts w =
     (case primary of
        None \<Rightarrow> Inl (security_error ''primary secret provider is required'')
      | Some ops \<Rightarrow>
          let p = fold (\<lambda>opt p. opt p) opts \<lparr>fo_primary = ops, fo_fallback = None, fo_policy = policy_strict, fo_diagnosticHook = None\<rparr>;
              p = p\<lparr>fo_policy := normalizeFailurePolicy (fo_policy p)\<rparr> in
          if fo_policy p = policy_fallback \<and> fo_fallback p = None then Inl (security_error ''fallback policy requires a configured fallback secret provider'')
          else Inr (p, recordMetadata (Some (fo_primary p)) (([], 0), w)))"

definition Failover_Encrypt :: "crypto_env \<Rightarrow> 'w FailoverSecretProvider \<Rightarrow> (nat \<Rightarrow> int) \<Rightarrow> string \<Rightarrow> ('w failover_state, string) effect" where
  "Failover_Encrypt cr p now plaintext s =
     (if length plaintext = 0 then (Inl (security_error ''plaintext is required''), s)
      else case within (so_Encrypt (fo_primary p) plaintext) s of
        (Inr ciphertext, s) \<Rightarrow> (Inr ciphertext, recordMetadata (Some (fo_primary p)) s)
      | (Inl err, s) \<Rightarrow>
          (let s = emit cr p (now 0) ''encrypt'' ''primary_failed'' err s in
           case fo_fallback p of
             None \<Rightarrow> (Inl (security_wrap cr (''primary encrypt failed with '' @ fo_policy p @ '' policy: '') err), s)
           | Some fallback \<Rightarrow>
               if fo_policy p = policy_strict then (Inl (security_wrap cr (''primary encrypt failed with '' @ fo_policy p @ '' policy: '') err), s)
               else case within (so_Encrypt fallback plaintext) s of
                 (Inl fallbackErr, s) \<Rightarrow>
                   (Inl (security_wrap cr (''primary encrypt failed: '' @ cr_text cr err @ ''; fallback encrypt failed: '') fallbackErr),
                    emit cr p (now 1) ''encrypt'' ''fallback_failed'' fallbackErr s)
               | (Inr ciphertext, s) \<Rightarrow> (Inr ciphertext, emit cr p (now 1) ''encrypt'' ''fallback_succeeded'' err (recordMetadata (Some fallback) s))))"

definition Failover_Decrypt :: "crypto_env \<Rightarrow> 'w FailoverSecretProvider \<Rightarrow> (nat \<Rightarrow> int) \<Rightarrow> string \<Rightarrow> ('w failover_state, string) effect" where
  "Failover_Decrypt cr p now ciphertext s =
     (if length ciphertext = 0 then (Inl (security_error ''ciphertext is required''), s)
      else case within (so_Decrypt (fo_primary p) ciphertext) s of
        (Inr plaintext, s) \<Rightarrow> (Inr plaintext, s)
      | (Inl err, s) \<Rightarrow>
          (let s = emit cr p (now 0) ''decrypt'' ''primary_failed'' err s in
           case fo_fallback p of
             None \<Rightarrow> (Inl (security_wrap cr (''primary decrypt failed with '' @ fo_policy p @ '' policy: '') err), s)
           | Some fallback \<Rightarrow>
               if fo_policy p = policy_strict then (Inl (security_wrap cr (''primary decrypt failed with '' @ fo_policy p @ '' policy: '') err), s)
               else case within (so_Decrypt fallback ciphertext) s of
                 (Inl fallbackErr, s) \<Rightarrow>
                   (Inl (security_wrap cr (''primary decrypt failed: '' @ cr_text cr err @ ''; fallback decrypt failed: '') fallbackErr),
                    emit cr p (now 1) ''decrypt'' ''fallback_failed'' fallbackErr s)
               | (Inr plaintext, s) \<Rightarrow> (Inr plaintext, emit cr p (now 1) ''decrypt'' ''fallback_succeeded'' err s)))"

definition Failover_Metadata :: "'w FailoverSecretProvider \<Rightarrow> 'w failover_state \<Rightarrow> string \<times> int" where
  "Failover_Metadata p s =
     (if TrimSpace (fst (fst s)) \<noteq> [] \<and> snd (fst s) > 0 then fst s
      else case readProviderMetadata (Some (fo_primary p)) (snd s) of
        Some m \<Rightarrow> m
      | None \<Rightarrow> (case readProviderMetadata (fo_fallback p) (snd s) of Some m \<Rightarrow> m | None \<Rightarrow> ([], 0)))"

section \<open>Normal forms\<close>

definition trimmed_ok :: "(string, string) gomap \<Rightarrow> bool" where
  "trimmed_ok m \<longleftrightarrow> distinct (map fst m) \<and> (\<forall>(k, v) \<in> set m. TrimSpace k = k \<and> k \<noteq> [] \<and> TrimSpace v = v)"

lemma set_update_in: "x \<in> set (AList.update k v m) \<Longrightarrow> x = (k, v) \<or> x \<in> set m"
  by (induction m) (auto split: if_splits)

lemma trimmed_entries_ok: "trimmed_ok (trimmed_entries m)"
proof -
  have "trimmed_ok out \<Longrightarrow> trimmed_ok (fold (\<lambda>(k, v) out. if TrimSpace k = [] then out else AList.update (TrimSpace k) (TrimSpace v) out) m out)" for out
  proof (induction m arbitrary: out)
    case (Cons x m)
    have "trimmed_ok (AList.update (TrimSpace (fst x)) (TrimSpace (snd x)) out)" if "TrimSpace (fst x) \<noteq> []"
      using Cons.prems that unfolding trimmed_ok_def by (auto simp: distinct_update dest!: set_update_in)
    then show ?case using Cons by (simp add: case_prod_beta)
  qed simp
  from this [of "[]"] show ?thesis by (simp add: trimmed_entries_def trimmed_ok_def)
qed

lemma trimmed_entries_id: "trimmed_entries m = m" if "trimmed_ok m"
proof -
  have "fold (\<lambda>(k, v) out. if TrimSpace k = [] then out else AList.update (TrimSpace k) (TrimSpace v) out) n pre = pre @ n"
    if "\<forall>(k, v) \<in> set n. TrimSpace k = k \<and> k \<noteq> [] \<and> TrimSpace v = v" "distinct (map fst (pre @ n))" for pre n
    using that
  proof (induction n arbitrary: pre)
    case (Cons x n)
    then have "AList.update (fst x) (snd x) pre = pre @ [x]" by (auto simp: update_fresh)
    then show ?case using Cons.IH [of "pre @ [x]"] Cons.prems by (auto split: prod.splits)
  qed simp
  from this [of m "[]"] show ?thesis using that by (simp add: trimmed_entries_def trimmed_ok_def)
qed

lemma normalizeEnvelope_idem: "normalizeEnvelope (normalizeEnvelope e) = normalizeEnvelope e"
  by (simp add: normalizeEnvelope_def trimmed_entries_id trimmed_entries_ok TrimSpace_ToLower flip: TrimSpace_ToLower)

lemma payload_roundtrip: "x \<noteq> [] \<Longrightarrow> decodeCiphertextPayload cr (encodeCiphertextPayload x) = Inr x" "encodeCiphertextPayload x = [] \<longleftrightarrow> x = []"
  by (simp_all add: decodeCiphertextPayload_def encodeCiphertextPayload_def)

section \<open>Contracts\<close>

text \<open>
  What the envelope relies on: JSON gives back the envelope it was made from, SHA-256 has 32 bytes, and AES-GCM opens
  what it sealed under the same key, nonce and associated data, with a tag in every ciphertext.
\<close>

locale crypto =
  fixes cr :: crypto_env
  assumes json: "cr_marshal cr e = Inr s \<Longrightarrow> cr_unmarshal cr s = Inr e"
    and sha256_length: "length (cr_sha256 cr x) = 32"
    and gcm: "length k \<in> {16, 24, 32} \<Longrightarrow> length n = gcm_NonceSize \<Longrightarrow> cr_open cr k n (cr_seal cr k n m a) a = Inr m"
    and gcm_tag: "cr_seal cr k n m a \<noteq> []"
begin

lemma decode_encoded:
  assumes "encodeEnvelope cr env = Inr c" and "en_Ciphertext env \<noteq> []" and "TrimSpace (en_Algorithm env) \<noteq> []"
  shows "c \<noteq> [] \<and> decodeEnvelope cr legacy alg c = Inr (normalizeEnvelope env, True)"
proof -
  obtain d where d: "cr_marshal cr (normalizeEnvelope env) = Inr d" "c = envelopePrefix @ d"
    using assms(1) by (auto simp: encodeEnvelope_def split: sum.splits)
  have "HasPrefix c envelopePrefix" "TrimPrefix c envelopePrefix = d" "c \<noteq> []"
    using HasPrefix_append [of envelopePrefix d] TrimPrefix_append [of envelopePrefix d] d(2) by simp_all
  moreover have "en_Algorithm (normalizeEnvelope env) \<noteq> []" "en_Ciphertext (normalizeEnvelope env) \<noteq> []" using assms(2,3) by (simp_all add: normalizeEnvelope_def)
  ultimately show ?thesis using json [OF d(1)] by (simp add: decodeEnvelope_def Let_def normalizeEnvelope_idem)
qed

text \<open>What a ciphertext of the application key, or of a managed key, looks like when it is parsed.\<close>

lemma appkey_encrypted:
  assumes "AppKey_Encrypt cr rand p m w = (Inr c, w')"
  obtains nonce w0 where "rand gcm_NonceSize w = (Inr nonce, w0)" and "length (ak_key p) \<in> {16, 24, 32}" and "m \<noteq> []" and "c \<noteq> []" and "0 < ak_version p"
    and "\<And>legacy alg. decodeEnvelope cr legacy alg c = Inr (normalizeEnvelope \<lparr>en_KeyID = ak_keyID p, en_Version = ak_version p,
      en_Algorithm = envelopeAlgorithm, en_Nonce = encodeCiphertextPayload nonce, en_Ciphertext = encodeCiphertextPayload
        (cr_seal cr (ak_key p) nonce m (envelopeAAD (ak_keyID p) (ak_version p) envelopeAlgorithm)), en_Metadata = []\<rparr>, True)"
proof -
  obtain nonce w0 where r: "rand gcm_NonceSize w = (Inr nonce, w0)" and l: "length (ak_key p) \<in> {16, 24, 32}" "m \<noteq> []" "0 < ak_version p"
    and e: "encodeEnvelope cr \<lparr>en_KeyID = ak_keyID p, en_Version = ak_version p, en_Algorithm = envelopeAlgorithm,
      en_Nonce = encodeCiphertextPayload nonce, en_Ciphertext = encodeCiphertextPayload
        (cr_seal cr (ak_key p) nonce m (envelopeAAD (ak_keyID p) (ak_version p) envelopeAlgorithm)), en_Metadata = []\<rparr> = Inr c"
    using assms by (auto simp: AppKey_Encrypt_def aes_NewCipher_def Let_def bindE_eq_Inr mapE_eq_Inr effects split: if_splits)
  have t: "TrimSpace envelopeAlgorithm \<noteq> []" by code_simp
  show ?thesis
    using that [OF r l(1,2) _ l(3)] decode_encoded [OF e] t gcm_tag by (simp add: payload_roundtrip)
qed

lemma appkey_roundtrip:
  assumes "AppKey_Encrypt cr rand p m w = (Inr c, w')" and "TrimSpace (ak_keyID p) = ak_keyID p"
    and "\<And>n w b w'. rand n w = (Inr b, w') \<Longrightarrow> length b = n"
  shows "AppKey_Decrypt cr p c = Inr m"
  using assms(1)
proof (rule appkey_encrypted)
  fix nonce w0
  let ?aad = "envelopeAAD (ak_keyID p) (ak_version p) envelopeAlgorithm"
  let ?seal = "cr_seal cr (ak_key p) nonce m ?aad"
  assume r: "rand gcm_NonceSize w = (Inr nonce, w0)" and l: "length (ak_key p) \<in> {16, 24, 32}" and c: "c \<noteq> []" and v: "0 < ak_version p"
    and d: "\<And>legacy alg. decodeEnvelope cr legacy alg c = Inr (normalizeEnvelope \<lparr>en_KeyID = ak_keyID p, en_Version = ak_version p,
      en_Algorithm = envelopeAlgorithm, en_Nonce = encodeCiphertextPayload nonce, en_Ciphertext = encodeCiphertextPayload ?seal, en_Metadata = []\<rparr>, True)"
  have n: "length nonce = gcm_NonceSize" using assms(3) r by blast
  have a: "ToLower (TrimSpace envelopeAlgorithm) = envelopeAlgorithm" by code_simp
  have k: "ak_keyID p \<noteq> []" using assms(1) by (auto simp: AppKey_Encrypt_def effects split: if_splits)
  define e where "e = normalizeEnvelope \<lparr>en_KeyID = ak_keyID p, en_Version = ak_version p, en_Algorithm = envelopeAlgorithm,
    en_Nonce = encodeCiphertextPayload nonce, en_Ciphertext = encodeCiphertextPayload ?seal, en_Metadata = []\<rparr>"
  have e: "en_KeyID e = ak_keyID p" "en_Version e = ak_version p" "en_Algorithm e = envelopeAlgorithm"
    "en_Nonce e = encodeCiphertextPayload nonce" "en_Ciphertext e = encodeCiphertextPayload ?seal"
    using a by (simp_all add: e_def normalizeEnvelope_def assms(2))
  have "open_sealed cr p e nonce ?seal = Inr m" using gcm [OF l n] k v e by (simp add: open_sealed_def)
  moreover have "nonce \<noteq> []" using n by auto
  ultimately show ?thesis
    using d [folded e_def] c l n k v e by (simp add: AppKey_Decrypt_def aes_NewCipher_def payload_roundtrip gcm_tag)
qed

lemma managed_encrypted:
  assumes "managed_Encrypt cr p now m w = (Inr c, w')" and "TrimSpace (mg_algorithm p) \<noteq> []"
  obtains ct where "mc_Encrypt (mg_client p) \<lparr>mq_KeyID = fst (mg_active p), mq_KeyVersion = snd (mg_active p), mq_Data = m,
      mq_Metadata = copy_string_map (mg_metadata p)\<rparr> w = (Inr ct, w')" and "ct \<noteq> []"
    and "\<And>legacy alg. decodeEnvelope cr legacy alg c = Inr (normalizeEnvelope \<lparr>en_KeyID = fst (mg_active p), en_Version = snd (mg_active p),
      en_Algorithm = mg_algorithm p, en_Nonce = [], en_Ciphertext = encodeCiphertextPayload ct, en_Metadata = copy_string_map (mg_metadata p)\<rparr>, True)"
proof -
  obtain ct where ct: "mc_Encrypt (mg_client p) \<lparr>mq_KeyID = fst (mg_active p), mq_KeyVersion = snd (mg_active p), mq_Data = m,
      mq_Metadata = copy_string_map (mg_metadata p)\<rparr> w = (Inr ct, w')" "ct \<noteq> []"
    and e: "encodeEnvelope cr \<lparr>en_KeyID = fst (mg_active p), en_Version = snd (mg_active p), en_Algorithm = mg_algorithm p, en_Nonce = [],
      en_Ciphertext = encodeCiphertextPayload ct, en_Metadata = copy_string_map (mg_metadata p)\<rparr> = Inr c"
    using assms by (auto simp: managed_Encrypt_def bindE_eq_Inr mapE_eq_Inr effects split: if_splits)
  show ?thesis using that [OF ct] decode_encoded [OF e] ct(2) assms(2) by (simp add: payload_roundtrip)
qed

lemma copy_string_map_idem: "copy_string_map (trimmed_entries (copy_string_map m)) = copy_string_map m"
  by (simp add: copy_string_map_def trimmed_entries_id trimmed_entries_ok) (simp add: trimmed_entries_def)

lemma managed_roundtrip:
  assumes "managed_Encrypt cr p now m w = (Inr c, w')" and "managed_Decrypt cr p now' c v = (Inr q, v')"
    and "ToLower (TrimSpace (mg_algorithm p)) = mg_algorithm p" and "mg_algorithm p \<noteq> []" and "TrimSpace (fst (mg_active p)) = fst (mg_active p)"
    and client: "\<And>req w ct w' v q v'. mc_Encrypt (mg_client p) req w = (Inr ct, w') \<Longrightarrow>
      mc_Decrypt (mg_client p) (req\<lparr>mq_Data := ct\<rparr>) v = (Inr q, v') \<Longrightarrow> q = mq_Data req"
  shows "q = m"
proof -
  have alg: "TrimSpace (mg_algorithm p) \<noteq> []" using assms(3,4) by auto
  obtain ct where ct: "mc_Encrypt (mg_client p) \<lparr>mq_KeyID = fst (mg_active p), mq_KeyVersion = snd (mg_active p), mq_Data = m,
      mq_Metadata = copy_string_map (mg_metadata p)\<rparr> w = (Inr ct, w')" "ct \<noteq> []"
    and d: "\<And>legacy alg. decodeEnvelope cr legacy alg c = Inr (normalizeEnvelope \<lparr>en_KeyID = fst (mg_active p), en_Version = snd (mg_active p),
      en_Algorithm = mg_algorithm p, en_Nonce = [], en_Ciphertext = encodeCiphertextPayload ct, en_Metadata = copy_string_map (mg_metadata p)\<rparr>, True)"
    by (rule managed_encrypted [OF assms(1) alg], rule that)
  obtain req where req: "decrypt_request cr p now' c = Inr req" and q: "\<exists>v'. mc_Decrypt (mg_client p) req v = (Inr q, v')"
    using assms(2) by (auto simp: managed_Decrypt_def bindE_eq_Inr mapE_eq_Inr effects split: if_splits)
  have "req = \<lparr>mq_KeyID = fst (mg_active p), mq_KeyVersion = snd (mg_active p), mq_Data = ct, mq_Metadata = copy_string_map (mg_metadata p)\<rparr>"
    using req assms(5) d [of False "mg_algorithm p"] ct(2)
    by (auto simp: decrypt_request_def newKeyRef_def normalizeEnvelope_def payload_roundtrip copy_string_map_idem split: if_splits)
  then show ?thesis using q client [OF ct(1), of v q] by auto
qed

text \<open>A provider refuses the ciphertexts of a provider with another algorithm.\<close>

lemma appkey_refuses_managed:
  assumes "managed_Encrypt cr mp now m w = (Inr c, w')" and "TrimSpace (mg_algorithm mp) \<noteq> []" and "ToLower (TrimSpace (mg_algorithm mp)) \<noteq> envelopeAlgorithm"
  shows "isl (AppKey_Decrypt cr p c)"
  using assms(1,2)
proof (rule managed_encrypted)
  fix ct assume d: "\<And>legacy alg. decodeEnvelope cr legacy alg c = Inr (normalizeEnvelope \<lparr>en_KeyID = fst (mg_active mp), en_Version = snd (mg_active mp),
      en_Algorithm = mg_algorithm mp, en_Nonce = [], en_Ciphertext = encodeCiphertextPayload ct, en_Metadata = copy_string_map (mg_metadata mp)\<rparr>, True)"
  show ?thesis using d [of "ak_allowLegacyDecrypt p" envelopeAlgorithm] assms(3) by (simp add: AppKey_Decrypt_def) (simp add: normalizeEnvelope_def)
qed

lemma managed_refuses_appkey:
  assumes "AppKey_Encrypt cr rand p m w = (Inr c, w')" and "mg_algorithm mp \<noteq> envelopeAlgorithm"
  shows "isl (fst (managed_Decrypt cr mp now c v))"
  using assms(1)
proof (rule appkey_encrypted)
  fix nonce w0 assume d: "\<And>legacy alg. decodeEnvelope cr legacy alg c = Inr (normalizeEnvelope \<lparr>en_KeyID = ak_keyID p, en_Version = ak_version p,
      en_Algorithm = envelopeAlgorithm, en_Nonce = encodeCiphertextPayload nonce, en_Ciphertext = encodeCiphertextPayload
        (cr_seal cr (ak_key p) nonce m (envelopeAAD (ak_keyID p) (ak_version p) envelopeAlgorithm)), en_Metadata = []\<rparr>, True)"
  have "ToLower (TrimSpace envelopeAlgorithm) = envelopeAlgorithm" by code_simp
  then have "isl (decrypt_request cr mp now c)"
    using d [of False "mg_algorithm mp"] assms(2) by (simp add: decrypt_request_def) (simp add: normalizeEnvelope_def)
  then show ?thesis by (cases "decrypt_request cr mp now c") (simp_all add: managed_Decrypt_def bindE_def effects)
qed

end

section \<open>Failover of any two providers\<close>

text \<open>
  Two providers that each give back what they encrypted, when they answer, and refuse what the other one encrypted.
\<close>

locale secret_pair =
  fixes first :: "'w secret_ops" and second :: "'w secret_ops"
  assumes first_roundtrip: "so_Encrypt first m w = (Inr c, w') \<Longrightarrow> so_Decrypt first c v = (Inr q, v') \<Longrightarrow> q = m"
    and second_roundtrip: "so_Encrypt second m w = (Inr c, w') \<Longrightarrow> so_Decrypt second c v = (Inr q, v') \<Longrightarrow> q = m"
    and first_refuses: "so_Encrypt second m w = (Inr c, w') \<Longrightarrow> isl (fst (so_Decrypt first c v))"
    and second_refuses: "so_Encrypt first m w = (Inr c, w') \<Longrightarrow> isl (fst (so_Decrypt second c v))"
begin

lemma failover_encrypted:
  assumes "Failover_Encrypt cr p now m s = (Inr c, s')" and "fo_primary p = first" and "fo_fallback p = Some second"
  obtains (primary) w w' where "so_Encrypt first m w = (Inr c, w')"
  | (fallback) w w' where "so_Encrypt second m w = (Inr c, w')" and "isl (fst (so_Encrypt first m (snd s)))" and "fo_policy p \<noteq> policy_strict"
proof -
  obtain r w1 where r: "so_Encrypt first m (snd s) = (r, w1)" by fastforce
  show ?thesis
  proof (cases r)
    case (Inr c') then show ?thesis using assms r primary by (simp add: Failover_Encrypt_def within_def split: if_splits)
  next
    case (Inl err)
    let ?t = "emit cr p (now 0) ''encrypt'' ''primary_failed'' err (fst s, w1)"
    obtain r2 w2 where r2: "so_Encrypt second m (snd ?t) = (r2, w2)" by fastforce
    then show ?thesis
      using assms r Inl fallback [OF _ _, of "snd ?t" w2] by (cases r2) (simp_all add: Failover_Encrypt_def within_def Let_def split: if_splits)
  qed
qed

lemma failover_roundtrip:
  assumes "Failover_Encrypt cr p now m s = (Inr c, s')" and "Failover_Decrypt cr p now' c t = (Inr q, t')"
    and "fo_primary p = first" and "fo_fallback p = Some second"
  shows "q = m"
proof -
  obtain r w1 where r: "so_Decrypt first c (snd t) = (r, w1)" by fastforce
  have "(\<exists>v'. so_Decrypt first c (snd t) = (Inr q, v')) \<or> (\<exists>v v'. so_Decrypt second c v = (Inr q, v'))"
  proof (cases r)
    case (Inr q') then show ?thesis using assms(2,3) r by (auto simp: Failover_Decrypt_def within_def split: if_splits)
  next
    case (Inl err)
    let ?t = "emit cr p (now' 0) ''decrypt'' ''primary_failed'' err (fst t, w1)"
    obtain r2 w2 where r2: "so_Decrypt second c (snd ?t) = (r2, w2)" by fastforce
    then show ?thesis using assms(2-4) r Inl by (cases r2) (auto simp: Failover_Decrypt_def within_def Let_def split: if_splits)
  qed
  then show ?thesis
    using assms(1,3,4)
  proof (cases rule: failover_encrypted [OF assms(1,3,4), case_names primary fallback])
    case (primary w w') then show ?thesis using first_roundtrip second_refuses \<open>_ \<or> _\<close> by (metis fst_conv sum.disc(2))
  next
    case (fallback w w') then show ?thesis using second_roundtrip first_refuses \<open>_ \<or> _\<close> by (metis fst_conv sum.disc(2))
  qed
qed

end

section \<open>Properties\<close>

text \<open>The providers as \<open>core.SecretProvider\<close>; a managed key reads the clock of the world.\<close>

definition appkey_ops :: "crypto_env \<Rightarrow> (nat \<Rightarrow> ('w, string) effect) \<Rightarrow> AppKeySecretProvider \<Rightarrow> 'w secret_ops" where
  "appkey_ops cr rand p = \<lparr>so_label = ''*security.AppKeySecretProvider'', so_Encrypt = AppKey_Encrypt cr rand p,
     so_Decrypt = (\<lambda>c. lift (AppKey_Decrypt cr p c)), so_Metadata = Some (\<lambda>_. AppKey_Metadata p)\<rparr>"

definition kms_ops :: "crypto_env \<Rightarrow> ('w \<Rightarrow> int) \<Rightarrow> 'w managed_provider \<Rightarrow> 'w secret_ops" where
  "kms_ops cr clock p = \<lparr>so_label = ''*security.KMSSecretProvider'', so_Encrypt = (\<lambda>m w. managed_Encrypt cr p (clock w) m w),
     so_Decrypt = (\<lambda>c w. managed_Decrypt cr p (clock w) c w), so_Metadata = Some (\<lambda>_. managed_Metadata p)\<rparr>"

definition managed_options :: "('w managed_provider \<Rightarrow> 'w managed_provider) set" where
  "managed_options = {with_compatibility_key k v |k v. True} \<union> {with_rotation_window k v r |k v r. True} \<union> range with_allow_any \<union> range with_metadata"

lemma fold_options:
  assumes "\<And>opt q. opt \<in> S \<Longrightarrow> P q \<Longrightarrow> P (opt q)" and "set opts \<subseteq> S" and "P q"
  shows "P (fold (\<lambda>opt p. opt p) opts q)"
  using assms(2,3) by (induction opts arbitrary: q) (auto intro: assms(1))

definition appkey_options :: "(AppKeySecretProvider \<Rightarrow> AppKeySecretProvider) set" where
  "appkey_options = range WithKeyID \<union> range WithVersion \<union> range WithAllowLegacyDecrypt"

lemma new_appkey_trimmed:
  assumes "NewAppKeySecretProvider cr key opts = Inr p" and "set opts \<subseteq> appkey_options"
  shows "TrimSpace (ak_keyID p) = ak_keyID p"
proof -
  have "TrimSpace (ak_keyID (opt q)) = ak_keyID (opt q)" if "opt \<in> appkey_options" "TrimSpace (ak_keyID q) = ak_keyID q" for opt q
    using that by (auto simp: appkey_options_def WithKeyID_def WithVersion_def WithAllowLegacyDecrypt_def)
  then have inv: "TrimSpace (ak_keyID q) = ak_keyID q \<Longrightarrow> TrimSpace (ak_keyID (fold (\<lambda>opt p. opt p) opts q)) = ak_keyID (fold (\<lambda>opt p. opt p) opts q)" for q
    using assms(2) by (intro fold_options [where P = "\<lambda>q. TrimSpace (ak_keyID q) = ak_keyID q" and S = appkey_options])
  have "TrimSpace ''app-key'' = ''app-key''" by code_simp
  then show ?thesis using assms(1) inv by (auto simp: NewAppKeySecretProvider_def split: if_splits)
qed

lemma new_kms_facts:
  assumes "NewKMSSecretProvider client keyID version opts = Inr p"
    and "set opts \<subseteq> managed_options"
  shows "mg_algorithm p = envelopeAlgorithmKMS \<and> mg_client p = client \<and> TrimSpace (fst (mg_active p)) = fst (mg_active p)"
proof -
  let ?ok = "\<lambda>q. mg_algorithm q = envelopeAlgorithmKMS \<and> mg_client q = client \<and> TrimSpace (fst (mg_active q)) = fst (mg_active q)"
  have "?ok (opt q)" if "opt \<in> managed_options" "?ok q" for opt q
    using that by (auto simp: managed_options_def with_compatibility_key_def with_rotation_window_def with_allow_any_def with_metadata_def split: sum.splits)
  then have inv: "?ok q \<Longrightarrow> ?ok (fold (\<lambda>opt p. opt p) opts q)" for q
    using assms(2) by (intro fold_options [where P = ?ok and S = managed_options])
  show ?thesis using assms(1) inv by (auto simp: NewKMSSecretProvider_def new_managed_def newKeyRef_def split: sum.splits if_splits)
qed

lemma kms_appkey_pair:
  assumes "crypto cr"
    and "NewKMSSecretProvider client keyID version kms_options = Inr kms"
    and "set kms_options \<subseteq> managed_options"
    and "\<And>req w ct w' v q v'. mc_Encrypt client req w = (Inr ct, w') \<Longrightarrow> mc_Decrypt client (req\<lparr>mq_Data := ct\<rparr>) v = (Inr q, v') \<Longrightarrow> q = mq_Data req"
    and "NewAppKeySecretProvider cr key opts = Inr app" and "set opts \<subseteq> appkey_options"
    and "\<And>n w b w'. rand n w = (Inr b, w') \<Longrightarrow> length b = n"
  shows "secret_pair (kms_ops cr clock kms) (appkey_ops cr rand app)"
proof
  have k: "mg_algorithm kms = envelopeAlgorithmKMS" "mg_client kms = client" "TrimSpace (fst (mg_active kms)) = fst (mg_active kms)"
    using new_kms_facts [OF assms(2,3)] by simp_all
  have a: "ToLower (TrimSpace envelopeAlgorithmKMS) = envelopeAlgorithmKMS" "TrimSpace envelopeAlgorithmKMS \<noteq> []" by code_simp+
  note t = new_appkey_trimmed [OF assms(5,6)]
  fix m w c w' v q v'
  { assume "so_Encrypt (kms_ops cr clock kms) m w = (Inr c, w')" "so_Decrypt (kms_ops cr clock kms) c v = (Inr q, v')"
    then show "q = m" using crypto.managed_roundtrip [OF assms(1), of kms "clock w" m w c w' "clock v" v q v'] k a assms(4) by (simp add: kms_ops_def) }
  { assume "so_Encrypt (appkey_ops cr rand app) m w = (Inr c, w')" "so_Decrypt (appkey_ops cr rand app) c v = (Inr q, v')"
    then show "q = m" using crypto.appkey_roundtrip [OF assms(1) _ t, of rand m w c w'] assms(7) by (simp add: appkey_ops_def effects) }
  { assume "so_Encrypt (appkey_ops cr rand app) m w = (Inr c, w')"
    then show "isl (fst (so_Decrypt (kms_ops cr clock kms) c v))"
      using crypto.managed_refuses_appkey [OF assms(1), of rand app m w c w' kms "clock v" v] k by (simp add: appkey_ops_def kms_ops_def) }
  { assume "so_Encrypt (kms_ops cr clock kms) m w = (Inr c, w')"
    then show "isl (fst (so_Decrypt (appkey_ops cr rand app) c v))"
      using crypto.appkey_refuses_managed [OF assms(1), of kms "clock w" m w c w' app] k a by (simp add: appkey_ops_def kms_ops_def effects) }
qed

section \<open>An instance\<close>

text \<open>
  A crypto environment that satisfies the contract: fields in base64 joined by dots in place of JSON, and a seal that
  only adds a tag.
\<close>

definition dotted :: "envelope \<Rightarrow> string" where
  "dotted e = encode64 True False (en_KeyID e) @ CHR ''.'' # encode64 True False (Itoa (en_Version e)) @ CHR ''.'' #
     encode64 True False (en_Algorithm e) @ CHR ''.'' # encode64 True False (en_Nonce e) @ CHR ''.'' # encode64 True False (en_Ciphertext e)"

definition undotted :: "string \<Rightarrow> envelope result" where
  "undotted s =
     (case map (decode64 True False) (Split s (CHR ''.'')) of
        [Some k, Some v, Some a, Some n, Some c] \<Rightarrow>
          (case Atoi v of
             Some v \<Rightarrow> Inr \<lparr>en_KeyID = k, en_Version = v, en_Algorithm = a, en_Nonce = n, en_Ciphertext = c, en_Metadata = []\<rparr>
           | None \<Rightarrow> Inl (Plain ''syntax''))
      | _ \<Rightarrow> Inl (Plain ''syntax''))"

definition sample_crypto :: crypto_env where
  "sample_crypto = \<lparr>cr_text = (\<lambda>_. []), cr_marshal = (\<lambda>e. if en_Metadata e = [] \<and> int64 (en_Version e) then Inr (dotted e) else Inl (Plain ''unsupported'')),
     cr_unmarshal = undotted, cr_sha256 = (\<lambda>x. replicate 32 CHR ''h''), cr_seal = (\<lambda>k n m a. CHR ''#'' # m),
     cr_open = (\<lambda>k n c a. case c of [] \<Rightarrow> Inl (Plain ''open'') | _ # m \<Rightarrow> Inr m)\<rparr>"

lemma undotted_dotted: "en_Metadata e = [] \<Longrightarrow> int64 (en_Version e) \<Longrightarrow> undotted (dotted e) = Inr e"
proof -
  assume a: "en_Metadata e = []" "int64 (en_Version e)"
  have n: "CHR ''.'' \<notin> set (encode64 True False x)" for x using encode64_not_space by blast
  have "map (decode64 True False) (Split (dotted e) (CHR ''.'')) =
      [Some (en_KeyID e), Some (Itoa (en_Version e)), Some (en_Algorithm e), Some (en_Nonce e), Some (en_Ciphertext e)]"
    by (simp add: dotted_def Split_append [OF n] Split_none [OF n])
  then show ?thesis using a by (simp add: undotted_def Atoi_Itoa)
qed

interpretation sample_crypto: crypto sample_crypto
  by unfold_locales (auto simp: sample_crypto_def undotted_dotted split: if_splits)


definition sample_rand :: "nat \<Rightarrow> (unit, string) effect" where
  "sample_rand n = ret (replicate n CHR ''n'')"

lemma sample_rand_length: "sample_rand n w = (Inr b, w') \<Longrightarrow> length b = n"
  by (auto simp: sample_rand_def effects)

definition sample_app :: AppKeySecretProvider where
  "sample_app = WithKeyID '' k1 '' \<lparr>ak_key = replicate 32 CHR ''h'', ak_keyID = ''app-key'', ak_version = 1, ak_allowLegacyDecrypt = False\<rparr>"

lemma sample_app_new: "NewAppKeySecretProvider sample_crypto ''secret'' [WithKeyID '' k1 ''] = Inr sample_app"
proof -
  have "TrimSpace ''secret'' = ''secret''" by code_simp
  then show ?thesis by (simp add: NewAppKeySecretProvider_def sample_app_def normalizeKey_def sample_crypto_def)
qed

lemma sample_app_encrypts: "\<exists>c. AppKey_Encrypt sample_crypto sample_rand sample_app ''token'' w = (Inr c, w)"
proof -
  have "TrimSpace '' k1 '' = ''k1''" "TrimSpace ''k1'' = ''k1''" by code_simp+
  then have "TrimSpace (ak_keyID sample_app) \<noteq> []" "ak_version sample_app = 1" "length (ak_key sample_app) = 32" by (simp_all add: sample_app_def WithKeyID_def)
  moreover have "encodeEnvelope sample_crypto e = Inr (envelopePrefix @ dotted (normalizeEnvelope e))" if "en_Metadata e = []" "en_Version e = 1" for e
    using that by (simp add: encodeEnvelope_def sample_crypto_def normalizeEnvelope_def trimmed_entries_def int64_def)
  ultimately show ?thesis by (simp add: AppKey_Encrypt_def aes_NewCipher_def sample_rand_def bindE_def mapE_def effects Let_def)
qed


text \<open>
  Failover never mixes up secrets. With a KMS key as primary and the application key as fallback, whichever of the
  two encrypted a secret and whatever failures happen then or later, a decryption that succeeds gives the secret, never
  another one; and what the fallback encrypted is decrypted whether or not the KMS answers.
\<close>

theorem failover_secret_roundtrip:
  assumes "crypto cr"
    and "NewKMSSecretProvider client keyID version kms_options = Inr kms"
    and "set kms_options \<subseteq> managed_options"
    and "\<And>req w ct w' v q v'. mc_Encrypt client req w = (Inr ct, w') \<Longrightarrow> mc_Decrypt client (req\<lparr>mq_Data := ct\<rparr>) v = (Inr q, v') \<Longrightarrow> q = mq_Data req"
    and "NewAppKeySecretProvider cr key opts = Inr app" and "set opts \<subseteq> appkey_options"
    and "\<And>n w b w'. rand n w = (Inr b, w') \<Longrightarrow> length b = n"
    and "fo_primary p = kms_ops cr clock kms" and "fo_fallback p = Some (appkey_ops cr rand app)"
    and "Failover_Encrypt cr p now m s = (Inr c, s')"
  shows "(Failover_Decrypt cr p now' c t = (Inr q, t') \<longrightarrow> q = m) \<and>
    (isl (fst (managed_Encrypt cr kms (clock (snd s)) m (snd s))) \<longrightarrow> fst (Failover_Decrypt cr p now' c t) = Inr m)"
proof -
  note pair = kms_appkey_pair [OF assms(1-7), where clock = clock]
  have 1: "q = m" if "Failover_Decrypt cr p now' c t = (Inr q, t')" by (rule secret_pair.failover_roundtrip [OF pair assms(10) that assms(8,9)])
  have 2: "fst (Failover_Decrypt cr p now' c t) = Inr m" if f: "isl (fst (managed_Encrypt cr kms (clock (snd s)) m (snd s)))"
  proof -
    obtain w w' where e: "AppKey_Encrypt cr rand app m w = (Inr c, w')" and pol: "fo_policy p \<noteq> policy_strict"
      using assms(8-10) f
      by (auto simp: Failover_Encrypt_def within_def Let_def kms_ops_def appkey_ops_def split: if_splits prod.splits sum.splits)
    have d: "AppKey_Decrypt cr app c = Inr m" by (rule crypto.appkey_roundtrip [OF assms(1) e new_appkey_trimmed [OF assms(5,6)] assms(7)])
    have "isl (fst (so_Decrypt (kms_ops cr clock kms) c (snd t)))"
      using secret_pair.first_refuses [OF pair] e by (simp add: appkey_ops_def)
    moreover have "c \<noteq> []" using e by (rule crypto.appkey_encrypted [OF assms(1)])
    ultimately show ?thesis
      using pol d assms(8,9) by (auto simp: Failover_Decrypt_def within_def Let_def appkey_ops_def effects split: prod.splits sum.splits)
  qed
  show ?thesis using 1 2 by blast
qed

text \<open>A KMS that is down.\<close>

definition down_client :: "unit managed_client" where
  "down_client = \<lparr>mc_Encrypt = (\<lambda>_. fail (Plain ''down'')), mc_Decrypt = (\<lambda>_. fail (Plain ''down''))\<rparr>"

definition sample_kms :: "unit managed_provider" where
  "sample_kms = projr (NewKMSSecretProvider down_client ''alias/key'' 1 [])"

definition sample_failover :: "unit FailoverSecretProvider" where
  "sample_failover = \<lparr>fo_primary = kms_ops sample_crypto (\<lambda>_. 0) sample_kms, fo_fallback = Some (appkey_ops sample_crypto sample_rand sample_app),
     fo_policy = policy_fallback, fo_diagnosticHook = None\<rparr>"

lemma sample_kms_new: "NewKMSSecretProvider down_client ''alias/key'' 1 [] = Inr sample_kms"
proof -
  have "\<not> isl (NewKMSSecretProvider down_client ''alias/key'' 1 [])" by code_simp
  then show ?thesis by (cases "NewKMSSecretProvider down_client ''alias/key'' 1 []") (auto simp: sample_kms_def)
qed

interpretation sample_pair: secret_pair "kms_ops sample_crypto (\<lambda>_. 0) sample_kms" "appkey_ops sample_crypto sample_rand sample_app"
  by (rule kms_appkey_pair [OF sample_crypto.crypto_axioms sample_kms_new _ _ sample_app_new _ sample_rand_length])
    (simp_all add: down_client_def effects appkey_options_def)

theorem failover_secret_roundtrip_witness:
  "\<exists>c. fst (Failover_Encrypt sample_crypto sample_failover (\<lambda>_. 0) ''token'' (([], 0), ())) = Inr c \<and>
     fst (Failover_Decrypt sample_crypto sample_failover (\<lambda>_. 0) c (([], 0), ())) = Inr ''token''"
proof -
  note k = sample_kms_new
  have down: "isl (fst (managed_Encrypt sample_crypto sample_kms 0 ''token'' ()))"
    using new_kms_facts [OF k] by (simp add: managed_Encrypt_def down_client_def bindE_def mapE_def effects)
  obtain c where c: "AppKey_Encrypt sample_crypto sample_rand sample_app ''token'' () = (Inr c, ())" using sample_app_encrypts by blast
  obtain err where "managed_Encrypt sample_crypto sample_kms 0 ''token'' () = (Inl err, ())"
    using down by (cases "managed_Encrypt sample_crypto sample_kms 0 ''token'' ()"; cases "fst (managed_Encrypt sample_crypto sample_kms 0 ''token'' ())") auto
  then have "fst (Failover_Encrypt sample_crypto sample_failover (\<lambda>_. 0) ''token'' (([], 0), ())) = Inr c"
    using c by (simp add: Failover_Encrypt_def sample_failover_def within_def kms_ops_def appkey_ops_def Let_def emit_def)
  then obtain s' where e: "Failover_Encrypt sample_crypto sample_failover (\<lambda>_. 0) ''token'' (([], 0), ()) = (Inr c, s')" by (metis prod.collapse)
  have "fst (Failover_Decrypt sample_crypto sample_failover (\<lambda>_. 0) c (([], 0), ())) = Inr ''token''"
    using failover_secret_roundtrip [OF sample_crypto.crypto_axioms k _ _ sample_app_new _ sample_rand_length _ _ e] down
    by (simp add: sample_failover_def down_client_def effects appkey_options_def)
  then show ?thesis using e by auto
qed

end
