(* ===== verification/Http_Client.thy ===== *)
theory Http_Client
  imports Http_Values Base64 Effects
begin

text \<open>
  What the clients of provider endpoints use of \<open>net/url\<close>, \<open>net\<close>, \<open>net/http\<close> and \<open>time\<close>: hosts and ports, points in
  time, responses, basic authentication, and the functions of the standard library that stay arguments.
\<close>

section \<open>Library functions\<close>

text \<open>A parsed URL with what the validator asks for: whether it has user information.\<close>

record parsed_url = URL +
  u_hasUser :: bool

text \<open>\<open>URL.Hostname\<close> and \<open>URL.Port\<close>: the host is cut at its last colon when digits (or nothing) follow.\<close>

definition split_last :: "char \<Rightarrow> string \<Rightarrow> (string \<times> string) option" where
  "split_last c s =
     (if c \<in> set s
      then Some (rev (drop 1 (dropWhile (\<lambda>d. d \<noteq> c) (rev s))), rev (takeWhile (\<lambda>d. d \<noteq> c) (rev s)))
      else None)"

definition url_splitHostPort :: "string \<Rightarrow> string \<times> string" where
  "url_splitHostPort hostPort =
     (let (host, port) = (case split_last (CHR '':'') hostPort of
            Some (a, b) \<Rightarrow> if list_all is_digit b then (a, b) else (hostPort, [])
          | None \<Rightarrow> (hostPort, []));
          host = (if host \<noteq> [] \<and> hd host = CHR ''['' \<and> last host = CHR '']'' then butlast (tl host) else host)
      in (host, port))"

definition URL_Hostname :: "parsed_url \<Rightarrow> string" where
  "URL_Hostname u = fst (url_splitHostPort (u_Host u))"

definition URL_Port :: "parsed_url \<Rightarrow> string" where
  "URL_Port u = snd (url_splitHostPort (u_Host u))"

text \<open>The host of \<open>net.SplitHostPort\<close>, or that it fails.\<close>

definition SplitHostPort :: "string \<Rightarrow> string option" where
  "SplitHostPort hostport =
     (case split_last (CHR '':'') hostport of
        None \<Rightarrow> None
      | Some (a, b) \<Rightarrow>
          if hd hostport = CHR ''[''
          then (case split_last (CHR '']'') hostport of
                  None \<Rightarrow> None
                | Some (x, y) \<Rightarrow>
                    if CHR '']'' \<in> set x \<or> x @ '']'' \<noteq> a \<or> CHR ''['' \<in> set (tl hostport) then None else Some (tl x))
          else if CHR '':'' \<in> set a \<or> CHR ''['' \<in> set hostport \<or> CHR '']'' \<in> set hostport then None
          else Some a)"

definition HasSuffix :: "string \<Rightarrow> string \<Rightarrow> bool" where
  "HasSuffix s p \<longleftrightarrow> HasPrefix (rev s) (rev p)"

lemma HasSuffix_iff: "HasSuffix s p \<longleftrightarrow> (\<exists>a. s = a @ p)"
proof
  assume "HasSuffix s p"
  then have "take (length (rev p)) (rev s) = rev p" by (simp add: HasSuffix_def HasPrefix_def)
  then have "rev s = rev p @ drop (length p) (rev s)" by (metis append_take_drop_id length_rev)
  then have "s = rev (drop (length p) (rev s)) @ p" by (metis rev_append rev_rev_ident)
  then show "\<exists>a. s = a @ p" by blast
qed (auto simp: HasSuffix_def HasPrefix_def)

text \<open>
  \<open>time.Unix(sec, 0)\<close> and \<open>Time.Add\<close> on nanoseconds since 1970. A \<open>time.Time\<close> counts its seconds from the year 1
  in 64 bits; \<open>Unix\<close> wraps around, \<open>Add\<close> stops at the ends.
\<close>

definition unixToInternal :: int where
  "unixToInternal = 62135596800"

definition time_Unix :: "int \<Rightarrow> int" where
  "time_Unix sec = (wrap64 (sec + unixToInternal) - unixToInternal) * Second"

definition time_Add :: "int \<Rightarrow> int \<Rightarrow> int" where
  "time_Add t d =
     (let sec = (t + d) div Second + unixToInternal; nsec = (t + d) mod Second in
      if sec > 2 ^ 63 - 1 then (2 ^ 63 - 1 - unixToInternal) * Second + nsec
      else if sec < - (2 ^ 63) then (- (2 ^ 63 - 1) - unixToInternal) * Second + nsec
      else t + d)"

lemma time_Add_le: "- (2 ^ 63) \<le> (t + d) div Second + unixToInternal \<Longrightarrow> time_Add t d \<le> t + d"
proof -
  assume "- (2 ^ 63) \<le> (t + d) div Second + unixToInternal"
  moreover have "t + d = (t + d) div Second * Second + (t + d) mod Second" by simp
  moreover have "(2 ^ 63 - 1 - unixToInternal) * Second \<le> (t + d) div Second * Second"
    if "(t + d) div Second + unixToInternal > 2 ^ 63 - 1"
    using that by (intro mult_right_mono) (auto simp: Second_def)
  ultimately show ?thesis unfolding time_Add_def Let_def by (smt (verit))
qed

lemma time_Add_range: "- (2 ^ 63) \<le> t div Second + unixToInternal \<Longrightarrow> 0 \<le> d \<Longrightarrow> time_Add t d \<le> t + d"
  by (rule time_Add_le) (smt (verit) Second_def zdiv_mono1)

lemma time_Unix_range: "- (2 ^ 63) \<le> time_Unix s div Second + unixToInternal"
  using int64_wrap64 [of "s + unixToInternal"] by (simp add: time_Unix_def Second_def int64_def)

lemma time_Add_unix: "0 \<le> d \<Longrightarrow> time_Add (time_Unix s) d \<le> time_Unix s + d"
  by (rule time_Add_range [OF time_Unix_range])

lemma time_Add_after_1970: "0 \<le> t \<Longrightarrow> 0 \<le> d \<Longrightarrow> time_Add t d \<le> t + d"
  by (rule time_Add_range) (smt (verit) Second_def div_int_pos_iff unixToInternal_def zero_le_power)

text \<open>
  \<open>cl_hmac\<close> is HMAC-SHA256 of a key and a message, \<open>cl_json\<close> decodes a JSON object, \<open>cl_parseURL\<close> is \<open>url.Parse\<close>,
  \<open>cl_printURL\<close> is \<open>URL.String\<close>, \<open>cl_float\<close> prints a float, \<open>cl_int_of_float\<close> converts one to \<open>int64\<close>, \<open>cl_render\<close> prints
  errors of other packages.
\<close>

record client_env =
  cl_hmac :: "string \<Rightarrow> string \<Rightarrow> string"
  cl_json :: "string \<Rightarrow> meta result"
  cl_parseURL :: "string \<Rightarrow> parsed_url result"
  cl_printURL :: "URL \<Rightarrow> string"
  cl_float :: "int \<Rightarrow> int \<Rightarrow> string"
  cl_int_of_float :: "int \<Rightarrow> int \<Rightarrow> int"
  cl_render :: "goerr \<Rightarrow> string"

text \<open>A response: its status, its headers and what reading at most \<open>n\<close> bytes of its body gives.\<close>

record http_response =
  hs_StatusCode :: int
  hs_Header :: http_header
  hs_Read :: "nat \<Rightarrow> string result"

type_synonym 'n http_client = "http_request \<Rightarrow> ('n, http_response) effect"

text \<open>\<open>url.ParseQuery\<close> reports a piece that does not parse.\<close>

definition query_piece_ok :: "string \<Rightarrow> bool" where
  "query_piece_ok piece \<longleftrightarrow> piece = [] \<or> query_pair piece \<noteq> None"

definition url_ParseQuery :: "string \<Rightarrow> url_values option" where
  "url_ParseQuery q = (if list_all query_piece_ok (Split q (CHR ''&'')) then Some (ParseQuery q) else None)"

text \<open>\<open>Request.SetBasicAuth\<close>\<close>

definition basic_auth :: "string \<Rightarrow> string \<Rightarrow> string" where
  "basic_auth username password = ''Basic '' @ encode64 False True (username @ '':'' @ password)"

section \<open>Encoded queries\<close>

lemma escape_char_safe: "d \<in> set (escape_char c) \<Longrightarrow> d \<notin> set ''&;=''"
proof -
  assume d: "d \<in> set (escape_char c)"
  have h: "hex_digit n \<notin> set ''&;=''" if "n < 16" for n
  proof -
    have "(of_char (hex_digit n) :: nat) = (if n < 10 then 48 + n else 55 + n)" using that by (simp add: hex_digit_def)
    then show ?thesis using that by (auto split: if_splits)
  qed
  have b: "of_char c div 16 < (16 :: nat)" "of_char c mod 16 < (16 :: nat)" using of_char_less_256 [of c] by (simp_all add: less_mult_imp_div_less)
  show ?thesis using d h [OF b(1)] h [OF b(2)] by (auto simp: escape_char_def unreserved_def Let_def split: if_splits)
qed

lemma escaper_QueryEscape: "escaper QueryEscape"
proof -
  have "set (QueryEscape s) \<inter> set ''&;='' = {}" for s unfolding QueryEscape_def by (auto dest: escape_char_safe)
  then show ?thesis unfolding escaper_def by simp
qed

text \<open>Values with one item per key, and what parsing their encoding gives.\<close>

definition single_valued :: "url_values \<Rightarrow> bool" where
  "single_valued m \<longleftrightarrow> gomap_ok m \<and> (\<forall>kv \<in> set m. length (snd kv) = 1)"

lemma single_valued_Nil [simp]: "single_valued []"
  by (simp add: single_valued_def)

lemma single_valued_Set [simp]: "single_valued m \<Longrightarrow> single_valued (Values_Set k v m)"
proof -
  have "kv \<in> set (AList.update k [v] m) \<Longrightarrow> kv = (k, [v]) \<or> kv \<in> set m" for kv by (induction m) (auto split: if_splits)
  then show "single_valued m \<Longrightarrow> single_valued (Values_Set k v m)" by (fastforce simp: single_valued_def Values_Set_def)
qed

lemma fold_values_add_fresh:
  "distinct (map fst ps @ map fst m) \<Longrightarrow> fold values_add ps m = m @ map (\<lambda>(k, v). (k, [v])) ps"
proof (induction ps arbitrary: m)
  case (Cons p ps)
  obtain k v where p: "p = (k, v)" by fastforce
  have k: "k \<notin> fst ` set m" using Cons.prems by (auto simp: p)
  then have "values_add p m = m @ [(k, [v])]" by (simp add: p values_add_def values_list_def update_fresh map_of_eq_None_iff [symmetric])
  then show ?case using Cons.IH [of "m @ [(k, [v])]"] Cons.prems by (simp add: p)
qed simp

lemma ParseQuery_Values_Encode:
  assumes "single_valued m"
  shows "ParseQuery (Values_Encode m) = sort_key fst m"
proof -
  let ?s = "sort_key fst m"
  have s: "\<forall>kv \<in> set ?s. length (snd kv) = 1" "distinct (map fst ?s)"
    using assms by (auto simp: single_valued_def distinct_map)
  have p: "values_pairs xs = map (\<lambda>(k, vs). (k, hd vs)) xs" if "\<forall>kv \<in> set xs. length (snd kv) = 1" for xs :: url_values
    using that
  proof (induction xs)
    case (Cons kv xs) then show ?case by (cases kv; cases "snd kv") (auto simp: values_pairs_def)
  qed (simp add: values_pairs_def)
  have inv: "map (\<lambda>(k, v). (k, [v])) (map (\<lambda>(k, vs). (k, hd vs)) xs) = xs" if "\<forall>kv \<in> set xs. length (snd kv) = 1" for xs :: url_values
    using that
  proof (induction xs)
    case (Cons kv xs) then show ?case by (cases kv; cases "snd kv") auto
  qed simp
  have "ParseQuery (Values_Encode m) = fold values_add (values_pairs ?s) []"
    using ParseQuery_query_of [OF escaper_QueryEscape, of "values_pairs ?s"] by (simp add: Values_Encode_def query_of_def)
  also have "\<dots> = map (\<lambda>(k, v). (k, [v])) (values_pairs ?s)"
    using s by (subst fold_values_add_fresh) (simp_all add: p comp_def case_prod_beta)
  finally show ?thesis using inv [OF s(1)] p [OF s(1)] by simp
qed

lemma Values_Get_encoded:
  assumes "single_valued m"
  shows "Values_Get (ParseQuery (Values_Encode m)) k = Values_Get m k"
proof -
  have "gomap_ok m" "distinct (map fst (sort_key fst m))" using assms by (auto simp: single_valued_def distinct_map)
  then have "map_of (sort_key fst m) = map_of m" by (intro map_of_eqI) auto
  then show ?thesis by (simp add: ParseQuery_Values_Encode [OF assms] Values_Get_def)
qed

lemma Values_Get_Set [simp]: "Values_Get (Values_Set k v m) k' = (if k' = k then v else Values_Get m k')"
  by (simp add: Values_Get_def Values_Set_def)

lemma Values_Get_Nil [simp]: "Values_Get [] k = []"
  by (simp add: Values_Get_def)

end
