(* ===== verification/Embedded_Auth.thy ===== *)
theory Embedded_Auth
  imports Service_Flows Replay_Ledger Http_Client
begin

text \<open>
  \<open>src/providers/shopify/embedded\<close>: an embedded Shopify app sends a session token, a JWT signed with the app's
  secret; it is validated (\<open>validator.go\<close>), claimed in the replay ledger and exchanged for an access token of the
  shop (\<open>service.go\<close>, \<open>exchange_client.go\<close>). HMAC-SHA256, the JSON decoder, \<open>url.Parse\<close> and the printing of
  URLs and floats are arguments.
\<close>

section \<open>Errors\<close>

text \<open>\<open>errors.go\<close>. The sentinel errors of the package; the invalid token type is wrapped with the value.\<close>

datatype embedded_err =
    ErrInvalidSessionToken | ErrUnsupportedJWTAlgorithm | ErrInvalidAudience | ErrInvalidDestination
  | ErrMissingJTI | ErrReplayDetected | ErrTokenExchangeFailed
  | InvalidRequestedTokenType string

fun embedded_msg :: "embedded_err \<Rightarrow> string" where
  "embedded_msg ErrInvalidSessionToken = ''providers/shopify/embedded: invalid session token''"
| "embedded_msg ErrUnsupportedJWTAlgorithm = ''providers/shopify/embedded: unsupported jwt algorithm''"
| "embedded_msg ErrInvalidAudience = ''providers/shopify/embedded: invalid audience''"
| "embedded_msg ErrInvalidDestination = ''providers/shopify/embedded: invalid destination''"
| "embedded_msg ErrMissingJTI = ''providers/shopify/embedded: missing jti claim''"
| "embedded_msg ErrReplayDetected = ''providers/shopify/embedded: replay detected''"
| "embedded_msg ErrTokenExchangeFailed = ''providers/shopify/embedded: token exchange failed''"
| "embedded_msg (InvalidRequestedTokenType value) = ''providers/shopify/embedded: invalid requested token type: '' @ quote value"

definition embedded_error :: "embedded_err \<Rightarrow> goerr" where
  "embedded_error e = Plain (embedded_msg e)"

record ValidationError =
  ve_Code :: string
  ve_Field :: string
  ve_Cause :: embedded_err

definition ValidationError_Error :: "ValidationError \<Rightarrow> string" where
  "ValidationError_Error e =
     join_with '': ''
       ([embedded_msg ErrInvalidSessionToken] @
        (if TrimSpace (ve_Code e) \<noteq> [] then [''code='' @ TrimSpace (ve_Code e)] else []) @
        (if TrimSpace (ve_Field e) \<noteq> [] then [''field='' @ TrimSpace (ve_Field e)] else []) @
        [embedded_msg (ve_Cause e)])"

definition ValidationError_ToServiceError :: "ValidationError \<Rightarrow> rich_error" where
  "ValidationError_ToServiceError e =
     (let (category, code, textCode) =
        (if ve_Cause e \<in> {ErrInvalidSessionToken, ErrInvalidAudience, ErrInvalidDestination, ErrUnsupportedJWTAlgorithm, ErrMissingJTI}
         then (CategoryAuth, StatusUnauthorized, code_text ServiceErrorEmbeddedSessionInvalid)
         else case ve_Cause e of
           InvalidRequestedTokenType _ \<Rightarrow> (CategoryBadInput, StatusBadRequest, code_text ServiceErrorBadInput)
         | _ \<Rightarrow> (CategoryValidation, StatusBadRequest, code_text ServiceErrorBadInput))
      in \<lparr>Category = category, Code = code, TextCode = textCode, Message = ValidationError_Error e,
          ErrMeta = [(''code'', AStr (TrimSpace (ve_Code e))), (''field'', AStr (TrimSpace (ve_Field e)))]\<rparr>)"

definition invalid :: "string \<Rightarrow> string \<Rightarrow> embedded_err \<Rightarrow> 'a result" where
  "invalid code field cause =
     (let e = \<lparr>ve_Code = code, ve_Field = field, ve_Cause = cause\<rparr> in
      Inl (Convertible (ValidationError_Error e) (Some (ValidationError_ToServiceError e)) [embedded_error cause]))"

record ExchangeError =
  xe_StatusCode :: int
  xe_ErrorCode :: string
  xe_Message :: string
  xe_Cause :: goerr

definition ExchangeError_Error :: "(goerr \<Rightarrow> string) \<Rightarrow> ExchangeError \<Rightarrow> string" where
  "ExchangeError_Error render e =
     embedded_msg ErrTokenExchangeFailed @
     (if TrimSpace (xe_ErrorCode e) \<noteq> [] then '': '' @ TrimSpace (xe_ErrorCode e) else []) @
     (if TrimSpace (xe_Message e) \<noteq> [] then '': '' @ TrimSpace (xe_Message e) else []) @
     (if xe_StatusCode e > 0 then '' (status='' @ Itoa (xe_StatusCode e) @ '')'' else []) @
     '': '' @ err_Error render (xe_Cause e)"

definition ExchangeError_ToServiceError :: "(goerr \<Rightarrow> string) \<Rightarrow> ExchangeError \<Rightarrow> rich_error" where
  "ExchangeError_ToServiceError render e =
     (let (category, textCode, code) =
        (if xe_StatusCode e = StatusTooManyRequests then (CategoryRateLimit, code_text ServiceErrorRateLimited, StatusTooManyRequests)
         else if xe_StatusCode e = StatusUnauthorized then (CategoryAuth, code_text ServiceErrorUnauthorized, StatusUnauthorized)
         else if xe_StatusCode e = StatusForbidden then (CategoryAuthz, code_text ServiceErrorForbidden, StatusForbidden)
         else (CategoryExternal, code_text ServiceErrorEmbeddedExchangeFailed,
               if xe_StatusCode e \<ge> 400 then xe_StatusCode e else StatusBadGateway))
      in \<lparr>Category = category, Code = code, TextCode = textCode, Message = ExchangeError_Error render e,
          ErrMeta = [(''exchange_error_code'', AStr (TrimSpace (xe_ErrorCode e)))]\<rparr>)"

definition exchange_failed :: "(goerr \<Rightarrow> string) \<Rightarrow> int \<Rightarrow> string \<Rightarrow> string \<Rightarrow> goerr \<Rightarrow> goerr" where
  "exchange_failed render status errorCode message cause =
     (let e = \<lparr>xe_StatusCode = status, xe_ErrorCode = errorCode, xe_Message = message, xe_Cause = cause\<rparr> in
      Convertible (ExchangeError_Error render e) (Some (ExchangeError_ToServiceError render e)) [cause])"

section \<open>The validator\<close>

record SessionTokenValidatorConfig =
  vc_AppSecret :: string
  vc_ClientID :: string
  vc_ClockSkew :: int
  vc_MaxIssuedAtAge :: int

definition defaultClockSkew :: int where "defaultClockSkew = 30 * Second"

definition defaultMaxIssuedAtAge :: int where "defaultMaxIssuedAtAge = 15 * Minute"

definition defaultShopifyDomainSuffix :: string where "defaultShopifyDomainSuffix = ''.myshopify.com''"

definition NewSessionTokenValidator :: "SessionTokenValidatorConfig \<Rightarrow> SessionTokenValidatorConfig" where
  "NewSessionTokenValidator cfg =
     \<lparr>vc_AppSecret = TrimSpace (vc_AppSecret cfg), vc_ClientID = TrimSpace (vc_ClientID cfg),
      vc_ClockSkew = (if vc_ClockSkew cfg \<le> 0 then defaultClockSkew else vc_ClockSkew cfg),
      vc_MaxIssuedAtAge = (if vc_MaxIssuedAtAge cfg \<le> 0 then defaultMaxIssuedAtAge else vc_MaxIssuedAtAge cfg)\<rparr>"

text \<open>A value the JSON decoder made is none of the cases \<open>json.Number\<close> and \<open>fmt.Stringer\<close>.\<close>

fun emb_readAnyString :: "client_env \<Rightarrow> any \<Rightarrow> string" where
  "emb_readAnyString env (AStr typed) = TrimSpace typed"
| "emb_readAnyString env ANil = []"
| "emb_readAnyString env value = TrimSpace (Sprint (cl_float env) value)"

definition decodeJWTSection :: "client_env \<Rightarrow> string \<Rightarrow> meta result" where
  "decodeJWTSection env section =
     (case decode64 True False (TrimSpace section) of
        None \<Rightarrow> Inl (Plain ''illegal base64 data'')
      | Some raw \<Rightarrow> cl_json env raw)"

fun parseUnixClaim :: "client_env \<Rightarrow> any \<Rightarrow> int option" where
  "parseUnixClaim env (AFloat64 m e) = Some (time_Unix (cl_int_of_float env m e))"
| "parseUnixClaim env (AInt64 typed) = Some (time_Unix typed)"
| "parseUnixClaim env (AInt typed) = Some (time_Unix typed)"
| "parseUnixClaim env (AStr typed) = map_option time_Unix (Atoi (TrimSpace typed))"
| "parseUnixClaim env value = None"

definition parseHTTPSURL :: "client_env \<Rightarrow> string \<Rightarrow> parsed_url option" where
  "parseHTTPSURL env value =
     (case cl_parseURL env (TrimSpace value) of
        Inl err \<Rightarrow> None
      | Inr parsed \<Rightarrow>
          if \<not> EqualFold (TrimSpace (u_Scheme parsed)) ''https'' then None
          else if TrimSpace (URL_Hostname parsed) = [] then None
          else if u_hasUser parsed then None
          else if TrimSpace (URL_Port parsed) \<noteq> [] then None
          else if TrimSpace (u_RawQuery parsed) \<noteq> [] \<or> TrimSpace (u_Fragment parsed) \<noteq> [] then None
          else Some parsed)"

definition audienceContains :: "client_env \<Rightarrow> any \<Rightarrow> string \<Rightarrow> bool" where
  "audienceContains env value expected =
     (let expected = TrimSpace expected in
      if expected = [] then False
      else case value of
        AStr typed \<Rightarrow> TrimSpace typed = expected
      | AArr typed \<Rightarrow> \<exists>item \<in> set typed. TrimSpace (emb_readAnyString env item) = expected
      | _ \<Rightarrow> False)"

definition normalize_host :: "string \<Rightarrow> string result" where
  "normalize_host trimmed0 =
     (let trimmed = (case SplitHostPort trimmed0 of Some host \<Rightarrow> TrimSpace host | None \<Rightarrow> trimmed0);
          trimmed = TrimSuffix trimmed ''/''
      in if trimmed = [] \<or> Contains trimmed ''/'' then Inl (Plain ''invalid shop domain'')
         else
           let trimmed = (if \<not> Contains trimmed ''.'' then trimmed @ defaultShopifyDomainSuffix else trimmed)
           in if \<not> HasSuffix trimmed defaultShopifyDomainSuffix
              then Inl (Plain (''shop domain must end with '' @ quote defaultShopifyDomainSuffix)) else Inr trimmed)"

definition normalizeShopDomain :: "client_env \<Rightarrow> string \<Rightarrow> string result" where
  "normalizeShopDomain env value =
     (let trimmed = TrimSpace (ToLower value) in
      if trimmed = [] then Inl (Plain ''shop domain is required'')
      else if Contains trimmed ''://''
      then (case cl_parseURL env trimmed of
              Inl err \<Rightarrow> Inl err
            | Inr parsed \<Rightarrow> normalize_host (TrimSpace (ToLower (URL_Hostname parsed))))
      else normalize_host trimmed)"

definition normalizeShopDomainStrict :: "string \<Rightarrow> string option" where
  "normalizeShopDomainStrict value =
     (let trimmed = TrimSpace (ToLower value) in
      if trimmed = [] then None
      else if Contains trimmed ''://'' then None
      else if Contains trimmed ''/'' then None
      else if \<not> Contains trimmed ''.'' then None
      else if \<not> HasSuffix trimmed defaultShopifyDomainSuffix then None
      else Some trimmed)"

definition validIssuerPath :: "string \<Rightarrow> bool" where
  "validIssuerPath path \<longleftrightarrow> TrimSpace path = ''/admin'' \<or> TrimSpace path = ''/admin/''"

definition validDestinationPath :: "string \<Rightarrow> bool" where
  "validDestinationPath path \<longleftrightarrow> TrimSpace path = [] \<or> TrimSpace path = ''/''"

text \<open>\<open>ValidateSessionToken\<close> in the order of its checks. First the three parts of the token, its algorithm and its signature.\<close>

definition verify_signature :: "client_env \<Rightarrow> string \<Rightarrow> string \<Rightarrow> meta result" where
  "verify_signature env secret token =
     (case Split token (CHR ''.'') of
        [part0, part1, part2] \<Rightarrow>
          (case decodeJWTSection env part0 of
             Inl _ \<Rightarrow> invalid ''header_decode_failed'' ''header'' ErrInvalidSessionToken
           | Inr header \<Rightarrow>
               if ToUpper (TrimSpace (emb_readAnyString env (meta_get header ''alg''))) \<noteq> ''HS256''
               then invalid ''unsupported_alg'' ''alg'' ErrUnsupportedJWTAlgorithm
               else case decode64 True False part2 of
                 None \<Rightarrow> invalid ''signature_decode_failed'' ''signature'' ErrInvalidSessionToken
               | Some signatureRaw \<Rightarrow>
                   if cl_hmac env secret (part0 @ ''.'' @ part1) \<noteq> signatureRaw
                   then invalid ''signature_mismatch'' ''signature'' ErrInvalidSessionToken
                   else case decodeJWTSection env part1 of
                     Inl _ \<Rightarrow> invalid ''payload_decode_failed'' ''payload'' ErrInvalidSessionToken
                   | Inr payload \<Rightarrow> Inr payload)
      | _ \<Rightarrow> invalid ''token_malformed'' ''session_token'' ErrInvalidSessionToken)"

text \<open>Then the issuer and the destination, which name the same shop.\<close>

definition shop_of_claims :: "client_env \<Rightarrow> meta \<Rightarrow> (string \<times> string \<times> string) result" where
  "shop_of_claims env payload =
     (let issuer = TrimSpace (emb_readAnyString env (meta_get payload ''iss'')) in
      case parseHTTPSURL env issuer of
        None \<Rightarrow> invalid ''invalid_iss'' ''iss'' ErrInvalidSessionToken
      | Some issuerURL \<Rightarrow>
          (let destination = TrimSpace (emb_readAnyString env (meta_get payload ''dest'')) in
           case parseHTTPSURL env destination of
             None \<Rightarrow> invalid ''invalid_dest'' ''dest'' ErrInvalidDestination
           | Some destinationURL \<Rightarrow>
               if \<not> validIssuerPath (u_Path issuerURL) then invalid ''invalid_iss_path'' ''iss'' ErrInvalidSessionToken
               else if \<not> validDestinationPath (u_Path destinationURL) then invalid ''invalid_dest_path'' ''dest'' ErrInvalidDestination
               else case normalizeShopDomainStrict (URL_Hostname issuerURL) of
                 None \<Rightarrow> invalid ''invalid_iss_host'' ''iss'' ErrInvalidSessionToken
               | Some issuerShop \<Rightarrow>
                   (case normalizeShopDomainStrict (URL_Hostname destinationURL) of
                      None \<Rightarrow> invalid ''invalid_dest_host'' ''dest'' ErrInvalidDestination
                    | Some destinationShop \<Rightarrow>
                        if \<not> EqualFold issuerShop destinationShop then invalid ''issuer_destination_mismatch'' ''iss,dest'' ErrInvalidDestination
                        else Inr (issuer, destination, destinationShop))))"

text \<open>Then the times and the token id, and the shop the caller expects.\<close>

definition times_of_claims :: "client_env \<Rightarrow> meta \<Rightarrow> (int \<times> int \<times> int) result" where
  "times_of_claims env payload =
     (case parseUnixClaim env (meta_get payload ''exp'') of
        None \<Rightarrow> invalid ''invalid_exp'' ''exp'' ErrInvalidSessionToken
      | Some expAt \<Rightarrow>
          (case parseUnixClaim env (meta_get payload ''nbf'') of
             None \<Rightarrow> invalid ''invalid_nbf'' ''nbf'' ErrInvalidSessionToken
           | Some nbf \<Rightarrow>
               (case parseUnixClaim env (meta_get payload ''iat'') of
                  None \<Rightarrow> invalid ''invalid_iat'' ''iat'' ErrInvalidSessionToken
                | Some iat \<Rightarrow> Inr (expAt, nbf, iat))))"

definition check_expected_shop :: "client_env \<Rightarrow> string \<Rightarrow> string \<Rightarrow> unit result" where
  "check_expected_shop env expected destinationShop =
     (let expectedShop = TrimSpace expected in
      if expectedShop \<noteq> []
      then case normalizeShopDomain env expectedShop of
        Inl _ \<Rightarrow> invalid ''invalid_expected_shop'' ''expected_shop_domain'' ErrInvalidSessionToken
      | Inr normalizedExpectedShop \<Rightarrow>
          if \<not> EqualFold normalizedExpectedShop destinationShop then invalid ''shop_mismatch'' ''expected_shop_domain'' ErrInvalidDestination
          else Inr ()
      else Inr ())"

text \<open>Last the window; \<open>now.After(t)\<close> is \<open>t < now\<close>.\<close>

definition check_window :: "SessionTokenValidatorConfig \<Rightarrow> int \<Rightarrow> int \<Rightarrow> int \<Rightarrow> int \<Rightarrow> unit result" where
  "check_window cfg now expAt nbf iat =
     (let skew = vc_ClockSkew cfg in
      if time_Add expAt skew < now then invalid ''token_expired'' ''exp'' ErrInvalidSessionToken
      else if time_Add now skew < nbf then invalid ''token_not_active'' ''nbf'' ErrInvalidSessionToken
      else if time_Add now skew < iat then invalid ''issued_in_future'' ''iat'' ErrInvalidSessionToken
      else if time_Add expAt skew < iat then invalid ''invalid_time_window'' ''iat,exp'' ErrInvalidSessionToken
      else if vc_MaxIssuedAtAge cfg > 0 \<and> time_Add iat (wrap64 (vc_MaxIssuedAtAge cfg + skew)) < now
      then invalid ''issued_too_old'' ''iat'' ErrInvalidSessionToken
      else Inr ())"

definition ValidateSessionToken ::
  "client_env \<Rightarrow> SessionTokenValidatorConfig option \<Rightarrow> int \<Rightarrow> string \<Rightarrow> string \<Rightarrow> EmbeddedSessionClaims result" where
  "ValidateSessionToken env validator now sessionToken expectedShopDomain =
     (case validator of
        None \<Rightarrow> invalid ''validator_not_configured'' ''validator'' ErrInvalidSessionToken
      | Some cfg \<Rightarrow>
     (let secret = TrimSpace (vc_AppSecret cfg) in
      if secret = [] then invalid ''app_secret_required'' ''app_secret'' ErrInvalidSessionToken
      else let clientID = TrimSpace (vc_ClientID cfg) in
      if clientID = [] then invalid ''client_id_required'' ''client_id'' ErrInvalidAudience
      else let token = TrimSpace sessionToken in
      if token = [] then invalid ''session_token_required'' ''session_token'' ErrInvalidSessionToken
      else case verify_signature env secret token of
        Inl err \<Rightarrow> Inl err
      | Inr payload \<Rightarrow>
     (case shop_of_claims env payload of
        Inl err \<Rightarrow> Inl err
      | Inr (issuer, destination, destinationShop) \<Rightarrow>
      if \<not> audienceContains env (meta_get payload ''aud'') clientID then invalid ''aud_mismatch'' ''aud'' ErrInvalidAudience
      else case times_of_claims env payload of
        Inl err \<Rightarrow> Inl err
      | Inr (expAt, nbf, iat) \<Rightarrow>
     (let jti = TrimSpace (emb_readAnyString env (meta_get payload ''jti'')) in
      if jti = [] then invalid ''missing_jti'' ''jti'' ErrMissingJTI
      else case check_expected_shop env expectedShopDomain destinationShop of
        Inl err \<Rightarrow> Inl err
      | Inr _ \<Rightarrow>
     (case check_window cfg now expAt nbf iat of
        Inl err \<Rightarrow> Inl err
      | Inr _ \<Rightarrow>
          Inr \<lparr>ec_Issuer = issuer, ec_Destination = destination, ec_Audience = clientID,
            ec_Subject = TrimSpace (emb_readAnyString env (meta_get payload ''sub'')), ec_JTI = jti, ec_ShopDomain = destinationShop,
            ec_IssuedAt = iat, ec_NotBefore = nbf, ec_ExpiresAt = expAt, ec_Raw = copyAnyMap payload\<rparr>)))))"

section \<open>The exchange\<close>

definition tokenExchangeGrantType :: string where
  "tokenExchangeGrantType = ''urn:ietf:params:oauth:grant-type:token-exchange''"

definition subjectTokenTypeIDToken :: string where
  "subjectTokenTypeIDToken = ''urn:ietf:params:oauth:token-type:id_token''"

definition requestedTypeOfflineURN :: string where
  "requestedTypeOfflineURN = ''urn:shopify:params:oauth:token-type:offline-access-token''"

definition requestedTypeOnlineURN :: string where
  "requestedTypeOnlineURN = ''urn:shopify:params:oauth:token-type:online-access-token''"

definition maxExchangeResponseBodyBytes :: nat where
  "maxExchangeResponseBodyBytes = 2 ^ 20"

fun requested_type_str :: "EmbeddedRequestedTokenType \<Rightarrow> string" where
  "requested_type_str EmbeddedRequestedTokenTypeOffline = ''offline''"
| "requested_type_str EmbeddedRequestedTokenTypeOnline = ''online''"
| "requested_type_str (EmbeddedRequestedTokenTypeOther s) = s"

definition resolveRequestedTokenType :: "EmbeddedRequestedTokenType \<Rightarrow> embedded_err + (EmbeddedRequestedTokenType \<times> string)" where
  "resolveRequestedTokenType value =
     (let normalized = ToLower (TrimSpace (requested_type_str value)) in
      if normalized = [] then Inr (EmbeddedRequestedTokenTypeOffline, requestedTypeOfflineURN)
      else if normalized = ''offline'' then Inr (EmbeddedRequestedTokenTypeOffline, requestedTypeOfflineURN)
      else if normalized = ''online'' then Inr (EmbeddedRequestedTokenTypeOnline, requestedTypeOnlineURN)
      else Inl (InvalidRequestedTokenType (requested_type_str value)))"

record 'n SessionTokenExchangeClient =
  xc_ClientID :: string
  xc_ClientSecret :: string
  xc_BuildTokenURL :: "string \<Rightarrow> string result"
  xc_Do :: "'n http_client"

definition defaultTokenURLBuilder :: "client_env \<Rightarrow> string \<Rightarrow> string result" where
  "defaultTokenURLBuilder env shopDomain =
     (case normalizeShopDomain env shopDomain of
        Inl err \<Rightarrow> Inl err
      | Inr normalized \<Rightarrow>
          Inr (cl_printURL env \<lparr>u_Scheme = ''https'', u_Host = normalized, u_Path = ''/admin/oauth/access_token'',
            u_EscapedPath = ''/admin/oauth/access_token'', u_RawQuery = [], u_Fragment = []\<rparr>))"

definition NewSessionTokenExchangeClient ::
  "client_env \<Rightarrow> string \<Rightarrow> string \<Rightarrow> (string \<Rightarrow> string result) option \<Rightarrow> 'n http_client \<Rightarrow>
   'n SessionTokenExchangeClient" where
  "NewSessionTokenExchangeClient env clientID clientSecret builder httpClient =
     \<lparr>xc_ClientID = TrimSpace clientID, xc_ClientSecret = TrimSpace clientSecret,
      xc_BuildTokenURL = (case builder of None \<Rightarrow> defaultTokenURLBuilder env | Some b \<Rightarrow> b), xc_Do = httpClient\<rparr>"

text \<open>\<open>strings.Fields\<close> leaves no empty part; the list keeps the first of equal scopes and is sorted.\<close>

fun dedupe_scopes :: "string list \<Rightarrow> string list \<Rightarrow> string list" where
  "dedupe_scopes seen [] = []"
| "dedupe_scopes seen (part # parts) =
     (let part = TrimSpace part in
      if part = [] then dedupe_scopes seen parts
      else if part \<in> set seen then dedupe_scopes seen parts
      else part # dedupe_scopes (part # seen) parts)"

definition parseScopeList :: "string \<Rightarrow> string list" where
  "parseScopeList value =
     (let trimmed = TrimSpace value in
      if trimmed = [] then [] else sort (dedupe_scopes [] (Fields (ReplaceAll '','' '' '' trimmed))))"

fun readAnyInt64 :: "client_env \<Rightarrow> any \<Rightarrow> int" where
  "readAnyInt64 env (AInt typed) = typed"
| "readAnyInt64 env (AInt64 typed) = typed"
| "readAnyInt64 env (AFloat64 m e) = cl_int_of_float env m e"
| "readAnyInt64 env (AStr typed) = (case Atoi (TrimSpace typed) of Some parsed \<Rightarrow> parsed | None \<Rightarrow> 0)"
| "readAnyInt64 env value = 0"

definition sanitizeExchangeMetadata :: "meta \<Rightarrow> meta" where
  "sanitizeExchangeMetadata payload =
     AList.delete ''id_token'' (AList.delete ''refresh_token'' (AList.delete ''access_token'' (copyAnyMap payload)))"

definition exchange_form :: "string \<Rightarrow> string \<Rightarrow> string \<Rightarrow> string \<Rightarrow> url_values" where
  "exchange_form sessionToken requestedTypeURN clientID clientSecret =
     Values_Set ''client_secret'' clientSecret (Values_Set ''client_id'' clientID
       (Values_Set ''requested_token_type'' requestedTypeURN (Values_Set ''subject_token_type'' subjectTokenTypeIDToken
         (Values_Set ''subject_token'' sessionToken (Values_Set ''grant_type'' tokenExchangeGrantType [])))))"

definition exchange_request :: "URL \<Rightarrow> url_values \<Rightarrow> http_request" where
  "exchange_request u form =
     \<lparr>hr_Method = ''POST'', hr_URL = u,
      hr_Header = Header_Set ''Accept'' ''application/json'' (Header_Set ''Content-Type'' ''application/x-www-form-urlencoded'' []),
      hr_Body = Some (Inr (Values_Encode form))\<rparr>"

text \<open>What is made of a response.\<close>

definition decode_exchange :: "client_env \<Rightarrow> http_response \<Rightarrow> meta result" where
  "decode_exchange env response =
     (case hs_Read response (maxExchangeResponseBodyBytes + 1) of
        Inl readErr \<Rightarrow> Inl (exchange_failed (cl_render env) 0 [] ''read exchange response'' readErr)
      | Inr body \<Rightarrow>
          if length body > maxExchangeResponseBodyBytes
          then Inl (exchange_failed (cl_render env) 0 [] (''exchange response exceeds '' @ show_nat maxExchangeResponseBodyBytes @ '' bytes'')
                     (embedded_error ErrTokenExchangeFailed))
          else if length (TrimSpace body) > 0
          then (case cl_json env body of
                  Inl err \<Rightarrow> Inl (exchange_failed (cl_render env) (hs_StatusCode response) [] ''decode exchange response'' err)
                | Inr payload \<Rightarrow> Inr payload)
          else Inr [])"

definition token_of_payload ::
  "client_env \<Rightarrow> int \<Rightarrow> string \<Rightarrow> EmbeddedRequestedTokenType \<Rightarrow> string \<Rightarrow> int \<Rightarrow> meta \<Rightarrow> EmbeddedAccessToken result" where
  "token_of_payload env now shopDomain normalizedTokenType requestedTypeURN status payload =
     (let errorCode = TrimSpace (emb_readAnyString env (meta_get payload ''error''));
          errorDescription = TrimSpace (emb_readAnyString env (meta_get payload ''error_description''))
      in if status < 200 \<or> status \<ge> 300 \<or> errorCode \<noteq> []
         then Inl (exchange_failed (cl_render env) status errorCode
                (if errorDescription = [] then ''shopify token exchange failed'' else errorDescription) (embedded_error ErrTokenExchangeFailed))
         else
           let accessToken = TrimSpace (emb_readAnyString env (meta_get payload ''access_token'')) in
           if accessToken = []
           then Inl (exchange_failed (cl_render env) status [] ''exchange response missing access token'' (embedded_error ErrTokenExchangeFailed))
           else
             let tokenType = ToLower (TrimSpace (emb_readAnyString env (meta_get payload ''token_type'')));
                 expiresIn = readAnyInt64 env (meta_get payload ''expires_in'')
             in Inr \<lparr>et_AccessToken = accessToken, et_TokenType = (if tokenType = [] then ''bearer'' else tokenType),
                  et_Scope = parseScopeList (emb_readAnyString env (meta_get payload ''scope'')),
                  et_ExpiresAt = (if expiresIn > 0 then Some (time_Add now (wrap64 (expiresIn * Second))) else None),
                  et_Metadata = AList.update ''shop_domain'' (AStr shopDomain)
                    (AList.update ''requested_token_mode'' (AStr (requested_type_str normalizedTokenType))
                      (AList.update ''requested_token_type'' (AStr requestedTypeURN) (sanitizeExchangeMetadata payload)))\<rparr>)"

text \<open>\<open>http.NewRequestWithContext\<close> parses the URL; the clock is read when the answer is there.\<close>

definition ExchangeSessionToken ::
  "client_env \<Rightarrow> 'n SessionTokenExchangeClient option \<Rightarrow> int \<Rightarrow> string \<Rightarrow> string \<Rightarrow> EmbeddedRequestedTokenType \<Rightarrow>
   ('n, EmbeddedAccessToken) effect" where
  "ExchangeSessionToken env client now shop token requested w =
     (case client of
        None \<Rightarrow> (Inl (exchange_failed (cl_render env) 0 [] ''http client is not configured'' (embedded_error ErrTokenExchangeFailed)), w)
      | Some c \<Rightarrow>
     (let clientID = TrimSpace (xc_ClientID c); clientSecret = TrimSpace (xc_ClientSecret c) in
      if clientID = [] \<or> clientSecret = []
      then (Inl (exchange_failed (cl_render env) 0 [] ''client id and client secret are required'' (embedded_error ErrTokenExchangeFailed)), w)
      else case normalizeShopDomain env shop of
        Inl err \<Rightarrow> (Inl (exchange_failed (cl_render env) 0 [] ''invalid shop domain'' err), w)
      | Inr shopDomain \<Rightarrow>
     (let sessionToken = TrimSpace token in
      if sessionToken = []
      then (Inl (exchange_failed (cl_render env) 0 [] ''session token is required'' (embedded_error ErrTokenExchangeFailed)), w)
      else case xc_BuildTokenURL c shopDomain of
        Inl err \<Rightarrow> (Inl (exchange_failed (cl_render env) 0 [] ''resolve token url'' err), w)
      | Inr tokenURL \<Rightarrow>
     (case resolveRequestedTokenType requested of
        Inl err \<Rightarrow> (Inl (exchange_failed (cl_render env) 0 [] ''invalid requested token type'' (embedded_error err)), w)
      | Inr (normalizedTokenType, requestedTypeURN) \<Rightarrow>
     (case cl_parseURL env tokenURL of
        Inl err \<Rightarrow> (Inl (exchange_failed (cl_render env) 0 [] ''build exchange request'' err), w)
      | Inr u \<Rightarrow>
     (case xc_Do c (exchange_request (URL.truncate u) (exchange_form sessionToken requestedTypeURN clientID clientSecret)) w of
        (Inl err, w) \<Rightarrow> (Inl (exchange_failed (cl_render env) 0 [] ''exchange request failed'' err), w)
      | (Inr response, w) \<Rightarrow>
          (case decode_exchange env response of
             Inl err \<Rightarrow> (Inl err, w)
           | Inr payload \<Rightarrow>
               (token_of_payload env now shopDomain normalizedTokenType requestedTypeURN (hs_StatusCode response) payload, w))))))))"

section \<open>The service\<close>

text \<open>
  The three parts of the service. The ledger changes the first component of the state, the exchange the second; the
  clock readings of one call are \<open>now 0\<close> (validator), \<open>now 1\<close> (ledger) and \<open>now 2\<close> (exchange).
\<close>

record ('l, 'n) embedded_service =
  es_ProviderID :: string
  es_ExpectedShopDomain :: string
  es_ReplayTTL :: int
  es_Claim :: "string \<Rightarrow> int \<Rightarrow> int \<Rightarrow> ('l, bool) effect"
  es_Validate :: "int \<Rightarrow> string \<Rightarrow> string \<Rightarrow> EmbeddedSessionClaims result"
  es_Exchange :: "int \<Rightarrow> string \<Rightarrow> string \<Rightarrow> EmbeddedRequestedTokenType \<Rightarrow> ('n, EmbeddedAccessToken) effect"

definition buildReplayKey :: "string \<Rightarrow> string \<Rightarrow> string \<Rightarrow> string" where
  "buildReplayKey providerID shopDomain jti = TrimSpace providerID @ '':'' @ TrimSpace shopDomain @ '':'' @ TrimSpace jti"

definition embedded_result ::
  "('l, 'n) embedded_service \<Rightarrow> EmbeddedAuthRequest \<Rightarrow> EmbeddedSessionClaims \<Rightarrow> EmbeddedRequestedTokenType \<Rightarrow> EmbeddedAccessToken \<Rightarrow>
   EmbeddedAuthResult" where
  "embedded_result s req claims requestedTokenType token =
     (let tokenType = ToLower (TrimSpace (et_TokenType token));
          base = [(''provider_id'', AStr (es_ProviderID s)), (''shop_domain'', AStr (ec_ShopDomain claims)),
                  (''requested_token_type'', AStr (requested_type_str requestedTokenType)), (''embedded_session_jti'', AStr (ec_JTI claims))]
      in \<lparr>ea_ProviderID = es_ProviderID s, ea_Scope = er_Scope req, ea_ShopDomain = ec_ShopDomain claims,
          ea_ExternalAccountID = ec_ShopDomain claims, ea_Claims = claims, ea_Token = token,
          ea_Credential = zero_credential\<lparr>ak_TokenType := (if tokenType = [] then ''bearer'' else tokenType),
            ak_AccessToken := et_AccessToken token, ak_RequestedScopes := et_Scope token, ak_GrantedScopes := et_Scope token,
            ak_ExpiresAt := et_ExpiresAt token, ak_Refreshable := False,
            ak_Metadata := maps_Copy (base @ [(''embedded_session_dest'', AStr (ec_Destination claims))]) (et_Metadata token)\<rparr>,
          ea_Metadata = base\<rparr>)"

definition AuthenticateEmbedded ::
  "('l, 'n) embedded_service option \<Rightarrow> (nat \<Rightarrow> int) \<Rightarrow> EmbeddedAuthRequest \<Rightarrow> ('l \<times> 'n, EmbeddedAuthResult) effect" where
  "AuthenticateEmbedded receiver now req w =
     (case receiver of
        None \<Rightarrow> (Inl (Plain ''providers/shopify/embedded: service is not configured''), w)
      | Some s \<Rightarrow>
     (case ScopeRef_Validate (er_Scope req) of
        Some err \<Rightarrow> (Inl err, w)
      | None \<Rightarrow>
     (let sessionToken = TrimSpace (er_SessionToken req) in
      if sessionToken = [] then (invalid ''session_token_required'' ''session_token'' ErrInvalidSessionToken, w)
      else let expectedShop = TrimSpace (er_ExpectedShopDomain req);
               expectedShop = (if expectedShop = [] then es_ExpectedShopDomain s else expectedShop) in
      case es_Validate s (now 0) sessionToken expectedShop of
        Inl err \<Rightarrow> (Inl err, w)
      | Inr claims \<Rightarrow>
     (case resolveRequestedTokenType (er_RequestedTokenType req) of
        Inl err \<Rightarrow> (invalid ''invalid_requested_token_type'' ''requested_token_type'' err, w)
      | Inr (requestedTokenType, _) \<Rightarrow>
     (let replayTTL = (if er_ReplayTTL req \<le> 0 then es_ReplayTTL s else er_ReplayTTL req);
          replayKey = buildReplayKey (es_ProviderID s) (ec_ShopDomain claims) (ec_JTI claims) in
      case es_Claim s replayKey replayTTL (now 1) (fst w) of
        (Inl err, l) \<Rightarrow> (Inl err, (l, snd w))
      | (Inr accepted, l) \<Rightarrow>
          if \<not> accepted then (Inl (embedded_error ErrReplayDetected), (l, snd w))
          else (case es_Exchange s (now 2) (ec_ShopDomain claims) sessionToken requestedTokenType (snd w) of
             (Inl err, n) \<Rightarrow> (Inl err, (l, n))
           | (Inr token, n) \<Rightarrow> (Inr (embedded_result s req claims requestedTokenType token), (l, n))))))))"

text \<open>\<open>NewService\<close> with the parts it makes when none are given; the in-memory ledger is the initial state.\<close>

definition ledger_Claim :: "string \<Rightarrow> int \<Rightarrow> int \<Rightarrow> (MemoryReplayLedger, bool) effect" where
  "ledger_Claim key ttl now l =
     (case MemoryReplayLedger_Claim (Some l) key ttl now of Inl err \<Rightarrow> (Inl err, l) | Inr (accepted, l') \<Rightarrow> (Inr accepted, l'))"

record embedded_config =
  sc_ProviderID :: string
  sc_ClientID :: string
  sc_ClientSecret :: string
  sc_ExpectedShopDomain :: string
  sc_ClockSkew :: int
  sc_MaxIssuedAtAge :: int
  sc_ReplayTTL :: int
  sc_ReplayMaxEntries :: int

definition replay_ttl :: "embedded_config \<Rightarrow> int" where
  "replay_ttl cfg = (if sc_ReplayTTL cfg \<le> 0 then 5 * Minute else sc_ReplayTTL cfg)"

definition NewService ::
  "client_env \<Rightarrow> embedded_config \<Rightarrow> 'n http_client \<Rightarrow> (MemoryReplayLedger, 'n) embedded_service \<times> MemoryReplayLedger" where
  "NewService env cfg httpClient =
     (let providerID = (if TrimSpace (sc_ProviderID cfg) = [] then ''shopify'' else TrimSpace (sc_ProviderID cfg));
          validator = NewSessionTokenValidator \<lparr>vc_AppSecret = sc_ClientSecret cfg, vc_ClientID = sc_ClientID cfg,
            vc_ClockSkew = sc_ClockSkew cfg, vc_MaxIssuedAtAge = sc_MaxIssuedAtAge cfg\<rparr>;
          exchanger = NewSessionTokenExchangeClient env (sc_ClientID cfg) (sc_ClientSecret cfg) None httpClient
      in (\<lparr>es_ProviderID = providerID, es_ExpectedShopDomain = TrimSpace (sc_ExpectedShopDomain cfg), es_ReplayTTL = replay_ttl cfg,
           es_Claim = ledger_Claim, es_Validate = ValidateSessionToken env (Some validator), es_Exchange = ExchangeSessionToken env (Some exchanger)\<rparr>,
          NewMemoryReplayLedgerWithLimits (replay_ttl cfg) (sc_ReplayMaxEntries cfg)))"

section \<open>What an accepted token proves\<close>

lemma invalid_Inr [simp]: "invalid code field cause \<noteq> Inr x" "isl (invalid code field cause)"
  by (simp_all add: invalid_def Let_def)

lemma Split_join: "join_with [c] (Split s c) = s"
proof (induction s)
  case (Cons d s)
  show ?case
  proof (cases "Split s c")
    case Nil with Cons show ?thesis by (cases s) (auto split: list.splits)
  next
    case (Cons p ps) with Cons.IH show ?thesis by (cases ps) auto
  qed
qed simp

lemma verify_signature_Inr:
  assumes "verify_signature env secret token = Inr payload"
  obtains part0 part1 part2 where "token = part0 @ ''.'' @ part1 @ ''.'' @ part2"
    and "decode64 True False part2 = Some (cl_hmac env secret (part0 @ ''.'' @ part1))"
    and "decodeJWTSection env part1 = Inr payload"
proof -
  obtain part0 part1 part2 where s: "Split token (CHR ''.'') = [part0, part1, part2]"
    using assms by (auto simp: verify_signature_def split: list.splits)
  have "token = part0 @ ''.'' @ part1 @ ''.'' @ part2" using Split_join [of "CHR ''.''" token] s by simp
  with s assms show thesis
    by (intro that) (auto simp: verify_signature_def split: sum.splits option.splits if_splits)
qed

lemma strict_shop:
  assumes "normalizeShopDomainStrict host = Some shop"
  shows "shop = ToLower (TrimSpace host)" "ToLower shop = shop" "TrimSpace shop = shop" "HasSuffix shop defaultShopifyDomainSuffix" "\<not> Contains shop ''/''"
  using assms by (auto simp: normalizeShopDomainStrict_def Let_def TrimSpace_ToLower split: if_splits)

lemma parseHTTPSURL_Some:
  "parseHTTPSURL env value = Some u \<Longrightarrow> cl_parseURL env (TrimSpace value) = Inr u \<and> EqualFold (TrimSpace (u_Scheme u)) ''https'' \<and>
     \<not> u_hasUser u \<and> TrimSpace (URL_Port u) = []"
  by (auto simp: parseHTTPSURL_def split: sum.splits if_splits)

lemma shop_of_claims_Inr:
  assumes "shop_of_claims env payload = Inr (issuer, destination, shop)"
  obtains iu du where "parseHTTPSURL env issuer = Some iu" "parseHTTPSURL env destination = Some du"
    and "issuer = TrimSpace (emb_readAnyString env (meta_get payload ''iss''))"
    and "destination = TrimSpace (emb_readAnyString env (meta_get payload ''dest''))"
    and "validIssuerPath (u_Path iu)" "validDestinationPath (u_Path du)"
    and "normalizeShopDomainStrict (URL_Hostname iu) = Some shop" "normalizeShopDomainStrict (URL_Hostname du) = Some shop"
proof -
  obtain iu du ishop where i: "parseHTTPSURL env issuer = Some iu" "parseHTTPSURL env destination = Some du"
      "normalizeShopDomainStrict (URL_Hostname iu) = Some ishop" "normalizeShopDomainStrict (URL_Hostname du) = Some shop"
      "EqualFold ishop shop" "validIssuerPath (u_Path iu)" "validDestinationPath (u_Path du)"
      "issuer = TrimSpace (emb_readAnyString env (meta_get payload ''iss''))"
      "destination = TrimSpace (emb_readAnyString env (meta_get payload ''dest''))"
    using assms by (auto simp: shop_of_claims_def Let_def split: option.splits if_splits)
  then have "ishop = shop" using EqualFold_ToLower_eq [OF i(5)] strict_shop(2) [OF i(3)] strict_shop(2) [OF i(4)] by simp
  with i(3) show thesis by (intro that [OF i(1,2,8,9,6,7) _ i(4)]) simp
qed

lemma times_of_claims_Inr:
  "times_of_claims env payload = Inr (expAt, nbf, iat) \<Longrightarrow>
     parseUnixClaim env (meta_get payload ''exp'') = Some expAt \<and> parseUnixClaim env (meta_get payload ''nbf'') = Some nbf \<and>
     parseUnixClaim env (meta_get payload ''iat'') = Some iat"
  by (auto simp: times_of_claims_def split: option.splits)

lemma parseUnixClaim_Unix: "parseUnixClaim env value = Some t \<Longrightarrow> \<exists>s. t = time_Unix s"
  by (cases "(env, value)" rule: parseUnixClaim.cases) auto

lemma check_window_Inr:
  assumes "check_window cfg now expAt nbf iat = Inr ()" and "0 \<le> now" and "0 \<le> vc_ClockSkew cfg" and "0 < vc_MaxIssuedAtAge cfg"
    and "vc_MaxIssuedAtAge cfg + vc_ClockSkew cfg < 2 ^ 63" and "expAt = time_Unix x" and "iat = time_Unix y"
  shows "now \<le> expAt + vc_ClockSkew cfg" "nbf \<le> now + vc_ClockSkew cfg" "iat \<le> now + vc_ClockSkew cfg" "now \<le> iat + vc_MaxIssuedAtAge cfg + vc_ClockSkew cfg"
proof -
  have "wrap64 (vc_MaxIssuedAtAge cfg + vc_ClockSkew cfg) = vc_MaxIssuedAtAge cfg + vc_ClockSkew cfg"
    using assms(3-5) by (intro wrap64_id) (simp add: int64_def)
  then show "now \<le> expAt + vc_ClockSkew cfg" "nbf \<le> now + vc_ClockSkew cfg" "iat \<le> now + vc_ClockSkew cfg" "now \<le> iat + vc_MaxIssuedAtAge cfg + vc_ClockSkew cfg"
    using assms(1) time_Add_after_1970 [OF assms(2,3)] time_Add_unix [OF assms(3), of x]
      time_Add_unix [of "vc_MaxIssuedAtAge cfg + vc_ClockSkew cfg" y] assms(2-7)
    by (auto simp: check_window_def Let_def split: if_splits)
qed

lemma ValidateSessionToken_Inr:
  assumes "ValidateSessionToken env (Some v) now token expected = Inr claims"
  obtains payload issuer destination shop expAt nbf iat where
    "verify_signature env (TrimSpace (vc_AppSecret v)) (TrimSpace token) = Inr payload"
    "shop_of_claims env payload = Inr (issuer, destination, shop)"
    "audienceContains env (meta_get payload ''aud'') (TrimSpace (vc_ClientID v))"
    "times_of_claims env payload = Inr (expAt, nbf, iat)"
    "TrimSpace (emb_readAnyString env (meta_get payload ''jti'')) \<noteq> []"
    "check_expected_shop env expected shop = Inr ()" "check_window v now expAt nbf iat = Inr ()"
    "claims = \<lparr>ec_Issuer = issuer, ec_Destination = destination, ec_Audience = TrimSpace (vc_ClientID v),
       ec_Subject = TrimSpace (emb_readAnyString env (meta_get payload ''sub'')), ec_JTI = TrimSpace (emb_readAnyString env (meta_get payload ''jti'')),
       ec_ShopDomain = shop, ec_IssuedAt = iat, ec_NotBefore = nbf, ec_ExpiresAt = expAt, ec_Raw = copyAnyMap payload\<rparr>"
  using assms unfolding ValidateSessionToken_def Let_def by (auto split: sum.splits if_splits)

text \<open>The claims that matter for replay depend on the token only.\<close>

lemma ValidateSessionToken_same:
  assumes "ValidateSessionToken env (Some v) now token expected = Inr c" and "ValidateSessionToken env (Some v) now' token expected' = Inr c'"
  shows "ec_ShopDomain c' = ec_ShopDomain c" "ec_JTI c' = ec_JTI c"
  using assms by (elim ValidateSessionToken_Inr; simp)+

lemma split_last_Some:
  assumes "split_last c s = Some (a, b)" shows "s = a @ c # b"
proof -
  let ?p = "\<lambda>d. d \<noteq> c"
  have c: "c \<in> set (rev s)" and ab: "a = rev (drop 1 (dropWhile ?p (rev s)))" "b = rev (takeWhile ?p (rev s))"
    using assms by (auto simp: split_last_def split: if_splits)
  have ne: "dropWhile ?p (rev s) \<noteq> []" using c by (auto simp: dropWhile_eq_Nil_conv)
  then have "dropWhile ?p (rev s) = c # drop 1 (dropWhile ?p (rev s))" using hd_dropWhile [OF ne] by (cases "dropWhile ?p (rev s)") auto
  then have "rev s = takeWhile ?p (rev s) @ c # drop 1 (dropWhile ?p (rev s))" by (metis takeWhile_dropWhile_id)
  then have "s = rev (takeWhile ?p (rev s) @ c # drop 1 (dropWhile ?p (rev s)))" by (metis rev_rev_ident)
  then show ?thesis by (simp add: ab)
qed

lemma SplitHostPort_set: "SplitHostPort s = Some h \<Longrightarrow> set h \<subseteq> set s"
proof -
  assume h: "SplitHostPort s = Some h"
  then obtain a b where ab: "split_last (CHR '':'') s = Some (a, b)" by (auto simp: SplitHostPort_def split: option.splits)
  show ?thesis
  proof (cases "hd s = CHR ''[''")
    case True
    then obtain x y where xy: "split_last (CHR '']'') s = Some (x, y)" "h = tl x"
      using h ab by (auto simp: SplitHostPort_def split: option.splits if_splits)
    show ?thesis using split_last_Some [OF xy(1)] xy(2) by (cases x) auto
  next
    case False
    then have "h = a" using h ab by (auto simp: SplitHostPort_def split: if_splits)
    then show ?thesis using split_last_Some [OF ab] by auto
  qed
qed

lemma set_TrimSpace: "set (TrimSpace s) \<subseteq> set s"
proof -
  have "set (TrimSpace s) \<subseteq> set (dropWhile is_space s)" unfolding TrimSpace_def
    by (metis set_dropWhileD set_rev subsetI)
  also have "\<dots> \<subseteq> set s" by (auto dest: set_dropWhileD)
  finally show ?thesis .
qed

lemma set_TrimSuffix: "set (TrimSuffix s p) \<subseteq> set s"
  by (auto simp: TrimSuffix_def TrimPrefix_def dest: in_set_dropD)

lemma ToLower_fixed: "ToLower s = s \<longleftrightarrow> (\<forall>c \<in> set s. char_lower c = c)"
  unfolding ToLower_def by (auto simp: map_idI) (metis in_set_conv_nth nth_map)

lemma ToLower_suffix: "ToLower defaultShopifyDomainSuffix = defaultShopifyDomainSuffix"
  by (simp add: defaultShopifyDomainSuffix_def ToLower_def char_lower_def)

lemma normalizeShopDomain_Inr:
  assumes "normalizeShopDomain env value = Inr shop"
  shows "ToLower shop = shop" and "HasSuffix shop defaultShopifyDomainSuffix"
proof -
  have "\<exists>v. normalize_host (ToLower v) = Inr shop"
    using assms unfolding normalizeShopDomain_def Let_def TrimSpace_ToLower by (auto split: if_splits sum.splits)
  then obtain t where t: "ToLower t = t" and r: "normalize_host t = Inr shop" by (metis ToLower_idem)
  let ?h = "TrimSuffix (case SplitHostPort t of Some host \<Rightarrow> TrimSpace host | None \<Rightarrow> t) ''/''"
  have "set ?h \<subseteq> set t"
    by (rule order_trans [OF set_TrimSuffix]) (use SplitHostPort_set set_TrimSpace in \<open>fastforce split: option.splits\<close>)
  then have h: "ToLower ?h = ?h" using t by (auto simp: ToLower_fixed)
  have "shop = ?h \<or> shop = ?h @ defaultShopifyDomainSuffix" and s: "HasSuffix shop defaultShopifyDomainSuffix"
    using r by (auto simp: normalize_host_def Let_def split: if_splits)
  then show "ToLower shop = shop" using h ToLower_suffix by (auto simp: ToLower_fixed)
  show "HasSuffix shop defaultShopifyDomainSuffix" by (rule s)
qed

lemma check_expected_shop_Inr:
  assumes "check_expected_shop env expected shop = Inr ()" and "ToLower shop = shop" and "TrimSpace expected \<noteq> []"
  shows "normalizeShopDomain env (TrimSpace expected) = Inr shop"
proof -
  obtain x where x: "normalizeShopDomain env (TrimSpace expected) = Inr x" "EqualFold x shop"
    using assms(1,3) by (auto simp: check_expected_shop_def Let_def split: sum.splits if_splits)
  then show ?thesis using EqualFold_ToLower_eq [OF x(2)] normalizeShopDomain_Inr(1) [OF x(1)] assms(2) by simp
qed

text \<open>
  C32: An accepted session token is authentic, meant for this app and this shop, and fresh: its signature is the HMAC
  of its first two parts under the app's secret; the audience of its payload contains the client id; issuer and
  destination are https URLs without port or user of the same host, which ends in .myshopify.com and is the shop
  reported, and the shop the caller expects if one is given; the clock lies between not-before and expiry and at most the
  allowed age after the time of issue, up to the clock skew.
\<close>

theorem session_token_authentic:
  assumes "v = NewSessionTokenValidator cfg" and "vc_MaxIssuedAtAge v + vc_ClockSkew v < 2 ^ 63" and "0 \<le> now"
    and "ValidateSessionToken env (Some v) now token expected = Inr claims"
  shows "\<exists>part0 part1 part2 payload iu du.
     TrimSpace token = part0 @ ''.'' @ part1 @ ''.'' @ part2 \<and>
     decode64 True False part2 = Some (cl_hmac env (TrimSpace (vc_AppSecret cfg)) (part0 @ ''.'' @ part1)) \<and>
     decodeJWTSection env part1 = Inr payload \<and>
     audienceContains env (meta_get payload ''aud'') (TrimSpace (vc_ClientID cfg)) \<and>
     ec_JTI claims = TrimSpace (emb_readAnyString env (meta_get payload ''jti'')) \<and>
     ec_JTI claims \<noteq> [] \<and>
     cl_parseURL env (ec_Issuer claims) = Inr iu \<and>
     cl_parseURL env (ec_Destination claims) = Inr du \<and>
     EqualFold (TrimSpace (u_Scheme iu)) ''https'' \<and>
     EqualFold (TrimSpace (u_Scheme du)) ''https'' \<and>
     \<not> u_hasUser iu \<and>
     \<not> u_hasUser du \<and>
     ec_ShopDomain claims = ToLower (TrimSpace (URL_Hostname iu)) \<and>
     ec_ShopDomain claims = ToLower (TrimSpace (URL_Hostname du)) \<and>
     (\<exists>name. ec_ShopDomain claims = name @ ''.myshopify.com'') \<and>
     (TrimSpace expected \<noteq> [] \<longrightarrow> normalizeShopDomain env (TrimSpace expected) = Inr (ec_ShopDomain claims)) \<and>
     ec_NotBefore claims - vc_ClockSkew v \<le> now \<and>
     ec_IssuedAt claims - vc_ClockSkew v \<le> now \<and>
     now \<le> ec_ExpiresAt claims + vc_ClockSkew v \<and>
     now \<le> ec_IssuedAt claims + vc_MaxIssuedAtAge v + vc_ClockSkew v"
proof -
  obtain payload issuer destination shop expAt nbf iat where p:
    "verify_signature env (TrimSpace (vc_AppSecret v)) (TrimSpace token) = Inr payload"
    "shop_of_claims env payload = Inr (issuer, destination, shop)" "audienceContains env (meta_get payload ''aud'') (TrimSpace (vc_ClientID v))"
    "times_of_claims env payload = Inr (expAt, nbf, iat)" "TrimSpace (emb_readAnyString env (meta_get payload ''jti'')) \<noteq> []"
    "check_expected_shop env expected shop = Inr ()" "check_window v now expAt nbf iat = Inr ()" and c:
    "ec_Issuer claims = issuer" "ec_Destination claims = destination" "ec_JTI claims = TrimSpace (emb_readAnyString env (meta_get payload ''jti''))"
    "ec_ShopDomain claims = shop" "ec_IssuedAt claims = iat" "ec_NotBefore claims = nbf" "ec_ExpiresAt claims = expAt"
    by (rule ValidateSessionToken_Inr [OF assms(4)]) auto
  obtain part0 part1 part2 where s: "TrimSpace token = part0 @ ''.'' @ part1 @ ''.'' @ part2"
    "decode64 True False part2 = Some (cl_hmac env (TrimSpace (vc_AppSecret v)) (part0 @ ''.'' @ part1))" "decodeJWTSection env part1 = Inr payload"
    by (rule verify_signature_Inr [OF p(1)])
  obtain iu du where u: "parseHTTPSURL env issuer = Some iu" "parseHTTPSURL env destination = Some du" "TrimSpace issuer = issuer"
    "TrimSpace destination = destination" "normalizeShopDomainStrict (URL_Hostname iu) = Some shop" "normalizeShopDomainStrict (URL_Hostname du) = Some shop"
    by (rule shop_of_claims_Inr [OF p(2)]) auto
  obtain x y where xy: "expAt = time_Unix x" "iat = time_Unix y" using times_of_claims_Inr [OF p(4)] parseUnixClaim_Unix by meson
  have v: "vc_AppSecret v = TrimSpace (vc_AppSecret cfg)" "vc_ClientID v = TrimSpace (vc_ClientID cfg)" "0 \<le> vc_ClockSkew v" "0 < vc_MaxIssuedAtAge v"
    by (auto simp: assms(1) NewSessionTokenValidator_def defaultClockSkew_def defaultMaxIssuedAtAge_def duration_defs)
  note w = check_window_Inr [OF p(7) assms(3) v(3,4) assms(2) xy]
  note up = parseHTTPSURL_Some [OF u(1), unfolded u(3)] parseHTTPSURL_Some [OF u(2), unfolded u(4)]
  have n: "\<exists>name. shop = name @ ''.myshopify.com''" using strict_shop(4) [OF u(5)] by (simp add: HasSuffix_iff defaultShopifyDomainSuffix_def)
  show ?thesis
    by (rule exI [of _ part0], rule exI [of _ part1], rule exI [of _ part2], rule exI [of _ payload], rule exI [of _ iu], rule exI [of _ du])
      (use s p(3,5) c up strict_shop(1) [OF u(5)] strict_shop(1) [OF u(6)] n check_expected_shop_Inr [OF p(6) strict_shop(2) [OF u(5)]] w v(1,2) in simp)
qed

text \<open>A sample app: the mac is a constant and the two JSON documents are named by one letter.\<close>

definition sample_url :: "string \<Rightarrow> parsed_url" where
  "sample_url path = \<lparr>u_Scheme = ''https'', u_Host = ''a.myshopify.com'', u_Path = path, u_EscapedPath = path, u_RawQuery = [], u_Fragment = [], u_hasUser = False\<rparr>"

definition sample_payload :: meta where
  "sample_payload = [(''iss'', AStr ''i''), (''dest'', AStr ''d''), (''aud'', AStr ''app''), (''jti'', AStr ''1''),
     (''exp'', AInt 1600), (''nbf'', AInt 1000), (''iat'', AInt 1000)]"

definition sample_embedded_env :: client_env where
  "sample_embedded_env =
     \<lparr>cl_hmac = \<lambda>k m. ''mac'',
      cl_json = \<lambda>raw. if raw = ''h'' then Inr [(''alg'', AStr ''HS256'')] else if raw = ''p'' then Inr sample_payload
        else if raw = ''t'' then Inr [(''access_token'', AStr ''at'')] else Inl (Plain ''json''),
      cl_parseURL = \<lambda>u. Inr (sample_url (if u = ''i'' then ''/admin'' else [])),
      cl_printURL = \<lambda>u. ''u'', cl_float = \<lambda>m e. [], cl_int_of_float = \<lambda>m e. m, cl_render = \<lambda>e. []\<rparr>"

definition sample_validator :: SessionTokenValidatorConfig where
  "sample_validator = \<lparr>vc_AppSecret = ''s'', vc_ClientID = ''app'', vc_ClockSkew = 0, vc_MaxIssuedAtAge = 0\<rparr>"

definition sample_token :: string where
  "sample_token = ''aA.cA.bWFj''"

lemma sample_token_valid:
  "now \<in> {1000 * Second, 1360 * Second} \<Longrightarrow>
   ValidateSessionToken sample_embedded_env (Some (NewSessionTokenValidator sample_validator)) now sample_token [] =
     Inr \<lparr>ec_Issuer = ''i'', ec_Destination = ''d'', ec_Audience = ''app'', ec_Subject = [], ec_JTI = ''1'', ec_ShopDomain = ''a.myshopify.com'',
       ec_IssuedAt = 1000 * Second, ec_NotBefore = 1000 * Second, ec_ExpiresAt = 1600 * Second, ec_Raw = sample_payload\<rparr>"
  by (elim insertE emptyE; hypsubst; code_simp)

theorem session_token_authentic_witness:
  "\<exists>part0 part1 part2. sample_token = part0 @ ''.'' @ part1 @ ''.'' @ part2 \<and> decode64 True False part2 = Some ''mac''"
proof -
  have "vc_MaxIssuedAtAge (NewSessionTokenValidator sample_validator) + vc_ClockSkew (NewSessionTokenValidator sample_validator) < 2 ^ 63"
    and "TrimSpace sample_token = sample_token" by code_simp+
  then show ?thesis using session_token_authentic [OF refl _ _ sample_token_valid [of "1000 * Second"]]
    by (auto simp: Second_def sample_embedded_env_def)
qed

section \<open>A session token is exchanged once\<close>

text \<open>
  What the service needs of a replay ledger: \<open>held l key e\<close> says that the key is claimed until \<open>e\<close> at least, \<open>room l n\<close> that
  \<open>n\<close> more claims evict nothing.
\<close>

locale replay_guard =
  fixes claim :: "string \<Rightarrow> int \<Rightarrow> int \<Rightarrow> ('l, bool) effect" and held :: "'l \<Rightarrow> string \<Rightarrow> int \<Rightarrow> bool" and room :: "'l \<Rightarrow> nat \<Rightarrow> bool"
  assumes accepted: "room l n \<Longrightarrow> 0 < ttl \<Longrightarrow> claim key ttl now l = (Inr True, l') \<Longrightarrow> held l' key (now + ttl)"
    and refused: "room l n \<Longrightarrow> held l key e \<Longrightarrow> now < e \<Longrightarrow> fst (claim key ttl now l) \<noteq> Inr True"
    and kept: "room l (Suc n) \<Longrightarrow> held l key e \<Longrightarrow> now < e \<Longrightarrow> held (snd (claim key' ttl' now l)) key e"
    and uses: "room l (Suc n) \<Longrightarrow> room (snd (claim key ttl now l)) n"
    and weaker: "held l key e \<Longrightarrow> e' \<le> e \<Longrightarrow> held l key e'"
    and less: "room l (Suc n) \<Longrightarrow> room l n"

text \<open>A call ends before the ledger, is refused by it, or makes the exchange.\<close>

definition effective_ttl :: "('l, 'n) embedded_service \<Rightarrow> EmbeddedAuthRequest \<Rightarrow> int" where
  "effective_ttl s req = (if er_ReplayTTL req \<le> 0 then es_ReplayTTL s else er_ReplayTTL req)"

definition claims_key :: "('l, 'n) embedded_service \<Rightarrow> EmbeddedSessionClaims \<Rightarrow> string" where
  "claims_key s c = buildReplayKey (es_ProviderID s) (ec_ShopDomain c) (ec_JTI c)"

lemma AuthenticateEmbedded_cases:
  fixes s :: "('l, 'n) embedded_service"
  obtains (ended) "snd (AuthenticateEmbedded (Some s) now req (l, n)) = (l, n)"
    | (refused) key ttl where "fst (es_Claim s key ttl (now 1) l) \<noteq> Inr True"
        "snd (AuthenticateEmbedded (Some s) now req (l, n)) = (snd (es_Claim s key ttl (now 1) l), n)"
    | (exchanged) expected claims ty l' where
        "es_Validate s (now 0) (TrimSpace (er_SessionToken req)) expected = Inr claims"
        "es_Claim s (claims_key s claims) (effective_ttl s req) (now 1) l = (Inr True, l')"
        "snd (AuthenticateEmbedded (Some s) now req (l, n)) =
           (l', snd (es_Exchange s (now 2) (ec_ShopDomain claims) (TrimSpace (er_SessionToken req)) ty n))"
proof -
  let ?token = "TrimSpace (er_SessionToken req)"
  let ?expected = "if TrimSpace (er_ExpectedShopDomain req) = [] then es_ExpectedShopDomain s else TrimSpace (er_ExpectedShopDomain req)"
  note d = AuthenticateEmbedded_def Let_def
  consider (bad) "ScopeRef_Validate (er_Scope req) \<noteq> None \<or> ?token = [] \<or> isl (es_Validate s (now 0) ?token ?expected) \<or>
      isl (resolveRequestedTokenType (er_RequestedTokenType req))"
    | (ok) claims ty urn where "ScopeRef_Validate (er_Scope req) = None" "?token \<noteq> []" "es_Validate s (now 0) ?token ?expected = Inr claims"
        "resolveRequestedTokenType (er_RequestedTokenType req) = Inr (ty, urn)"
    by (cases "es_Validate s (now 0) ?token ?expected"; cases "resolveRequestedTokenType (er_RequestedTokenType req)") (auto simp: isl_def)
  then show thesis
  proof cases
    case bad
    then have "snd (AuthenticateEmbedded (Some s) now req (l, n)) = (l, n)"
      unfolding d by (auto split: option.split sum.split)
    then show thesis by (rule ended)
  next
    case ok
    obtain r l' where c: "es_Claim s (claims_key s claims) (effective_ttl s req) (now 1) l = (r, l')" by fastforce
    show thesis
    proof (cases "r = Inr True")
      case True
      with ok c show thesis
        by (intro exchanged [of ?expected claims l' ty]) (auto simp: d claims_key_def effective_ttl_def split: prod.split sum.split)
    next
      case False
      with ok c show thesis
        by (intro refused [of "claims_key s claims" "effective_ttl s req"]) (auto simp: d claims_key_def effective_ttl_def split: sum.split)
    qed
  qed
qed

fun embedded_run :: "('l, 'n) embedded_service \<Rightarrow> ((nat \<Rightarrow> int) \<times> EmbeddedAuthRequest) list \<Rightarrow> 'l \<times> 'n \<Rightarrow> 'l \<times> 'n" where
  "embedded_run s [] w = w"
| "embedded_run s ((now, req) # calls) w = embedded_run s calls (snd (AuthenticateEmbedded (Some s) now req w))"

context replay_guard
begin

lemma exchanged_once:
  fixes s :: "('l, 'n) embedded_service"
  assumes "es_Claim s = claim"
    and same: "\<And>t t' tok x x' c c'. es_Validate s t tok x = Inr c \<Longrightarrow> es_Validate s t' tok x' = Inr c' \<Longrightarrow> claims_key s c' = claims_key s c"
    and logs: "\<And>t shop tok ty n. sent (snd (es_Exchange s t shop tok ty n)) = sent n @ [tok]"
    and "\<forall>(now, req) \<in> set calls. t0 \<le> now 1 \<and> now 1 < t0 + T \<and> T \<le> effective_ttl s req"
    and "room l (length calls)" and "distinct (sent n)"
    and "\<forall>tok \<in> set (sent n). \<exists>t x c. es_Validate s t tok x = Inr c \<and> held l (claims_key s c) (t0 + T)"
  shows "distinct (sent (snd (embedded_run s calls (l, n))))"
  using assms(4-)
proof (induction calls arbitrary: l n)
  case (Cons call calls)
  note [simp del] = One_nat_def
  obtain now req where call: "call = (now, req)" by fastforce
  have t: "t0 \<le> now 1" "now 1 < t0 + T" "T \<le> effective_ttl s req" and r: "room l (Suc (length calls))"
    using Cons.prems(1,2) by (auto simp: call)
  have h: "\<forall>tok \<in> set (sent n). \<exists>t x c. es_Validate s t tok x = Inr c \<and> held (snd (claim key ttl (now 1) l)) (claims_key s c) (t0 + T)" for key ttl
    using Cons.prems(4) kept [OF r _ t(2)] by blast
  show ?case
  proof (cases rule: AuthenticateEmbedded_cases [of s now req l n])
    case ended then show ?thesis using Cons.IH [of l n] Cons.prems less [OF r] by (simp add: call)
  next
    case (refused key ttl) then show ?thesis
      using Cons.IH [of "snd (claim key ttl (now 1) l)" n] Cons.prems uses [OF r] h by (simp add: call assms(1))
  next
    case (exchanged expected c ty l')
    let ?tok = "TrimSpace (er_SessionToken req)"
    let ?n = "snd (es_Exchange s (now 2) (ec_ShopDomain c) ?tok ty n)"
    have cl: "claim (claims_key s c) (effective_ttl s req) (now 1) l = (Inr True, l')" using exchanged(2) assms(1) by simp
    have l': "l' = snd (claim (claims_key s c) (effective_ttl s req) (now 1) l)" by (simp add: cl)
    have new: "?tok \<notin> set (sent n)"
    proof
      assume "?tok \<in> set (sent n)"
      then obtain u x c' where "es_Validate s u ?tok x = Inr c'" and k: "held l (claims_key s c') (t0 + T)" using Cons.prems(4) by blast
      then have "claims_key s c' = claims_key s c" using same [OF exchanged(1)] by blast
      then show False using refused [OF r _ t(2), of "claims_key s c" "effective_ttl s req"] k by (simp add: cl)
    qed
    have "held l' (claims_key s c) (t0 + T)"
      by (rule weaker [OF accepted [OF r _ cl]]) (use t in linarith)+
    then have "distinct (sent (snd (embedded_run s calls (l', ?n))))"
      using Cons.prems(1,3) new uses [OF r, of "claims_key s c" "effective_ttl s req" "now 1"] h [of "claims_key s c" "effective_ttl s req"] exchanged(1)
      by (intro Cons.IH) (auto simp: logs l' [symmetric])
    then show ?thesis using exchanged(3) by (simp add: call)
  qed
qed simp

end

text \<open>The in-memory ledger keeps these laws.\<close>

definition ledger_held :: "MemoryReplayLedger \<Rightarrow> string \<Rightarrow> int \<Rightarrow> bool" where
  "ledger_held l key e \<longleftrightarrow> (\<exists>x. map_of (rl_entries l) (TrimSpace key) = Some x \<and> e \<le> x)"

definition ledger_room :: "MemoryReplayLedger \<Rightarrow> nat \<Rightarrow> bool" where
  "ledger_room l n \<longleftrightarrow> ledger_inv l \<and> int (length (rl_entries l)) + int n \<le> rl_maxEntries l"

lemma Claim_length:
  assumes "ledger_inv l" and "int (length (rl_entries l)) < rl_maxEntries l" and ok: "MemoryReplayLedger_Claim (Some l) key ttl now = Inr (b, l')"
  shows "length (rl_entries l') \<le> Suc (length (rl_entries l))"
proof -
  let ?m = "rl_pruneExpiredLocked now (rl_entries l)"
  have key: "TrimSpace key \<noteq> []" using ok by (auto simp: MemoryReplayLedger_Claim_def Let_def split: if_splits)
  have m: "length ?m \<le> length (rl_entries l)" using length_delete_where by (simp add: rl_pruneExpiredLocked_def)
  have cap: "rl_enforceCapacityLocked (rl_maxEntries l) 1 ?m = ?m"
    using m assms(1,2) by (auto simp: rl_enforceCapacityLocked_def rl_evict_loop.simps)
  show ?thesis using assms(1) key
  proof (cases rule: Claim_cases [of l key now ttl])
    case (rejected e) with ok m show ?thesis by auto
  next
    case claimed with ok m cap show ?thesis by (auto simp: length_update)
  qed
qed

lemma ledger_Claim_cases:
  obtains (error) err where "ledger_Claim key ttl now l = (Inl err, l)"
    | (decided) b l' where "MemoryReplayLedger_Claim (Some l) key ttl now = Inr (b, l')" "ledger_Claim key ttl now l = (Inr b, l')" "TrimSpace key \<noteq> []"
proof (cases "MemoryReplayLedger_Claim (Some l) key ttl now")
  case (Inl err) then show thesis by (intro error) (simp add: ledger_Claim_def)
next
  case (Inr bl)
  obtain b l' where "bl = (b, l')" by fastforce
  with Inr show thesis by (intro decided [of b l']) (auto simp: ledger_Claim_def MemoryReplayLedger_Claim_def Let_def split: if_splits)
qed

interpretation memory_ledger: replay_guard ledger_Claim ledger_held ledger_room
proof (unfold_locales, goal_cases)
  case (1 l n ttl key now l')
  then have inv: "ledger_inv l" by (simp add: ledger_room_def)
  show ?case
  proof (cases rule: ledger_Claim_cases [of key ttl now l])
    case (decided b l'')
    show ?thesis using inv decided(3)
    proof (cases rule: Claim_cases [of l key now ttl])
      case (rejected e) with decided 1 show ?thesis by simp
    next
      case claimed with decided 1 show ?thesis by (auto simp: ledger_held_def)
    qed
  qed (use 1 in simp)
next
  case (2 l n key e now ttl)
  then obtain x where x: "map_of (rl_entries l) (TrimSpace key) = Some x" "now < x" and inv: "ledger_inv l"
    by (auto simp: ledger_held_def ledger_room_def)
  show ?case
  proof (cases rule: ledger_Claim_cases [of key ttl now l])
    case (decided b l')
    show ?thesis using inv decided(3)
    proof (cases rule: Claim_cases [of l key now ttl])
      case claimed with inv x show ?thesis by (simp add: map_of_prune ledger_inv_def)
    qed (use decided in simp)
  qed simp
next
  case (3 l n key e now key' ttl')
  then obtain x where x: "map_of (rl_entries l) (TrimSpace key) = Some x" "now < x" "e \<le> x" and inv: "ledger_inv l"
    and room: "int (length (rl_entries l)) < rl_maxEntries l" by (auto simp: ledger_held_def ledger_room_def)
  show ?case
  proof (cases rule: ledger_Claim_cases [of key' ttl' now l])
    case (decided b l') then show ?thesis using Claim_keeps_live [OF inv room x(1,2) decided(1)] x(3) by (simp add: ledger_held_def)
  qed (use 3 in simp)
next
  case (4 l n key ttl now)
  then have inv: "ledger_inv l" and room: "int (length (rl_entries l)) + int (Suc n) \<le> rl_maxEntries l" by (auto simp: ledger_room_def)
  show ?case
  proof (cases rule: ledger_Claim_cases [of key ttl now l])
    case (decided b l') then show ?thesis
      using ledger_inv_Claim [OF inv decided(1)] Claim_length [OF inv _ decided(1)] room by (simp add: ledger_room_def)
  qed (use inv room in \<open>simp add: ledger_room_def\<close>)
qed (auto simp: ledger_held_def ledger_room_def)

text \<open>
  C33: A session token is exchanged at most once while its claim lives. With the package's validator and the in-memory
  ledger, in any sequence of calls whose ledger readings lie within one replay time to live, whatever tokens, shops,
  token types and failures they have, no token is handed to the exchanger twice, as long as the ledger has room for the calls.
\<close>

theorem session_token_exchanged_once:
  fixes s :: "(MemoryReplayLedger, 'n) embedded_service" and sent :: "'n \<Rightarrow> string list"
  assumes "es_Claim s = ledger_Claim" and "es_Validate s = ValidateSessionToken env (Some v)"
    and "\<And>t shop token ty n. sent (snd (es_Exchange s t shop token ty n)) = sent n @ [token]"
    and "\<forall>(now, req) \<in> set calls. t0 \<le> now 1 \<and> now 1 < t0 + T \<and> T \<le> effective_ttl s req"
    and "int (length calls) \<le> rl_maxEntries (NewMemoryReplayLedgerWithLimits ttl maxEntries)" and "sent n = []"
  shows "distinct (sent (snd (embedded_run s calls (NewMemoryReplayLedgerWithLimits ttl maxEntries, n))))"
proof (rule memory_ledger.exchanged_once [OF assms(1) _ assms(3,4)])
  show "claims_key s c' = claims_key s c" if "es_Validate s t tok x = Inr c" "es_Validate s t' tok x' = Inr c'" for t t' tok x x' c c'
    using ValidateSessionToken_same [of env v t tok x c t' x' c'] that by (simp add: assms(2) claims_key_def)
  show "ledger_room (NewMemoryReplayLedgerWithLimits ttl maxEntries) (length calls)"
    using assms(5) ledger_inv_new by (simp add: ledger_room_def) (simp add: NewMemoryReplayLedgerWithLimits_def)
qed (simp_all add: assms(6))

definition sample_service :: "(MemoryReplayLedger, string list) embedded_service" where
  "sample_service =
     \<lparr>es_ProviderID = ''shopify'', es_ExpectedShopDomain = [], es_ReplayTTL = 5 * Minute, es_Claim = ledger_Claim,
      es_Validate = ValidateSessionToken sample_embedded_env (Some (NewSessionTokenValidator sample_validator)),
      es_Exchange = \<lambda>t shop token ty n. (Inr \<lparr>et_AccessToken = ''at'', et_TokenType = [], et_Scope = [], et_ExpiresAt = None, et_Metadata = []\<rparr>, n @ [token])\<rparr>"

definition sample_call :: "int \<Rightarrow> (nat \<Rightarrow> int) \<times> EmbeddedAuthRequest" where
  "sample_call t = (\<lambda>_. t, \<lparr>er_ProviderID = ''shopify'', er_Scope = \<lparr>scope_Type = ''user'', scope_ID = ''u''\<rparr>, er_SessionToken = sample_token,
     er_ExpectedShopDomain = [], er_RequestedTokenType = EmbeddedRequestedTokenTypeOffline, er_ReplayTTL = 0, er_Metadata = []\<rparr>)"

theorem session_token_exchanged_once_witness:
  "snd (embedded_run sample_service [sample_call (1000 * Second), sample_call (1000 * Second)] (NewMemoryReplayLedgerWithLimits 0 0, [])) = [sample_token] \<and>
   distinct (snd (embedded_run sample_service [sample_call (1000 * Second), sample_call (1000 * Second)] (NewMemoryReplayLedgerWithLimits 0 0, [])))"
proof
  show "snd (embedded_run sample_service [sample_call (1000 * Second), sample_call (1000 * Second)] (NewMemoryReplayLedgerWithLimits 0 0, [])) = [sample_token]"
    by code_simp
  show "distinct (snd (embedded_run sample_service [sample_call (1000 * Second), sample_call (1000 * Second)] (NewMemoryReplayLedgerWithLimits 0 0, [])))"
    by (rule session_token_exchanged_once [where sent = id and ?t0.0 = "1000 * Second" and T = "5 * Minute", unfolded id_apply])
      (auto simp: sample_service_def sample_call_def effective_ttl_def duration_defs NewMemoryReplayLedgerWithLimits_def defaultReplayLedgerMaxEntries_def)
qed

text \<open>
  The claim of the default configuration lives five minutes while the validator accepts a token for up to fifteen: a
  token that expires later than its claim is exchanged again.
\<close>

lemma default_ttl_exchanges_twice:
  "snd (embedded_run sample_service [sample_call (1000 * Second), sample_call (1360 * Second)] (NewMemoryReplayLedgerWithLimits 0 0, [])) =
     [sample_token, sample_token]"
  by code_simp

text \<open>The exchange of \<open>NewService\<close> addresses a host of the suffix only.\<close>

lemma token_url_of_shop:
  assumes "defaultTokenURLBuilder env shop = Inr url"
  obtains name where "url = cl_printURL env \<lparr>u_Scheme = ''https'', u_Host = name @ ''.myshopify.com'', u_Path = ''/admin/oauth/access_token'',
    u_EscapedPath = ''/admin/oauth/access_token'', u_RawQuery = [], u_Fragment = []\<rparr>"
proof -
  obtain h where h: "normalizeShopDomain env shop = Inr h" using assms by (auto simp: defaultTokenURLBuilder_def split: sum.splits)
  obtain name where "h = name @ ''.myshopify.com''"
    using normalizeShopDomain_Inr(2) [OF h] by (auto simp: HasSuffix_iff defaultShopifyDomainSuffix_def)
  with assms h show thesis by (intro that [of name]) (simp add: defaultTokenURLBuilder_def)
qed

end
