(* ===== verification/Identity_Resolver.thy ===== *)
theory Identity_Resolver
  imports Service_Flows Http_Client
begin

text \<open>
  \<open>src/identity/resolver.go\<close>: who the account behind a credential is, from its id token (verified, when a verifier is
  configured) or from the provider's userinfo endpoint. The HTTP client and the verifier are arguments.
\<close>

section \<open>Profiles\<close>

record UserProfile =
  up_ProviderID :: string
  up_Issuer :: string
  up_Subject :: string
  up_Email :: string
  up_EmailVerified :: bool
  up_Name :: string
  up_GivenName :: string
  up_FamilyName :: string
  up_PictureURL :: string
  up_Locale :: string
  up_Raw :: meta

definition UserProfile_ExternalAccountID :: "UserProfile \<Rightarrow> string" where
  "UserProfile_ExternalAccountID p =
     (let subject = TrimSpace (up_Subject p); issuer = TrimSpace (up_Issuer p) in
      if subject = [] then [] else if issuer = [] then subject else issuer @ ''|'' @ subject)"

definition UserProfile_Map :: "UserProfile \<Rightarrow> meta" where
  "UserProfile_Map p =
     [(''provider_id'', AStr (TrimSpace (up_ProviderID p))), (''issuer'', AStr (TrimSpace (up_Issuer p))),
      (''subject'', AStr (TrimSpace (up_Subject p))), (''external_id'', AStr (TrimSpace (UserProfile_ExternalAccountID p))),
      (''email'', AStr (TrimSpace (up_Email p))), (''email_verified'', ABool (up_EmailVerified p)), (''name'', AStr (TrimSpace (up_Name p))),
      (''given_name'', AStr (TrimSpace (up_GivenName p))), (''family_name'', AStr (TrimSpace (up_FamilyName p))),
      (''picture_url'', AStr (TrimSpace (up_PictureURL p))), (''locale'', AStr (TrimSpace (up_Locale p)))] @
     (if length (up_Raw p) > 0 then [(''raw'', AObj (copyAnyMap (up_Raw p)))] else [])"

text \<open>The error of a profile that was not found; it wraps its cause beside the sentinel.\<close>

definition ErrProfileNotFound :: goerr where
  "ErrProfileNotFound = Plain ''identity: profile not found''"

definition ProfileNotFoundError_Error :: "(goerr \<Rightarrow> string) \<Rightarrow> goerr option \<Rightarrow> string" where
  "ProfileNotFoundError_Error render cause =
     (case cause of None \<Rightarrow> ''identity: profile not found'' | Some c \<Rightarrow> ''identity: profile not found: '' @ err_Error render c)"

definition profileNotFound :: "(goerr \<Rightarrow> string) \<Rightarrow> goerr option \<Rightarrow> goerr" where
  "profileNotFound render cause =
     Convertible (ProfileNotFoundError_Error render cause)
       (Some ((goerrors_New (ProfileNotFoundError_Error render cause) CategoryNotFound)
          \<lparr>Code := StatusNotFound, TextCode := code_text ServiceErrorProfileNotFound\<rparr>))
       [case cause of None \<Rightarrow> ErrProfileNotFound | Some c \<Rightarrow> Joined [ErrProfileNotFound, c]]"

text \<open>Values of JSON documents; a float is cut to an integer.\<close>

fun id_readString :: "client_env \<Rightarrow> any \<Rightarrow> string" where
  "id_readString env (AStr typed) = TrimSpace typed"
| "id_readString env (AInt typed) = Itoa typed"
| "id_readString env (AInt64 typed) = Itoa typed"
| "id_readString env (AFloat64 m e) = Itoa (cl_int_of_float env m e)"
| "id_readString env ANil = []"
| "id_readString env value = TrimSpace (Sprint (cl_float env) value)"

fun id_readBool :: "any \<Rightarrow> bool" where
  "id_readBool (ABool typed) = typed"
| "id_readBool (AStr typed) = (ParseBool (TrimSpace typed) = Some True)"
| "id_readBool (AInt typed) = (typed \<noteq> 0)"
| "id_readBool (AInt64 typed) = (typed \<noteq> 0)"
| "id_readBool (AFloat64 m e) = (m \<noteq> 0)"
| "id_readBool value = False"

definition normalizeProviderID :: "string \<Rightarrow> string" where
  "normalizeProviderID value = TrimSpace (ToLower value)"

definition googleIssuer :: string where "googleIssuer = ''https://accounts.google.com''"
definition githubIssuer :: string where "githubIssuer = ''https://github.com''"
definition googleUserInfoURL :: string where "googleUserInfoURL = ''https://openidconnect.googleapis.com/v1/userinfo''"
definition githubUserInfoURL :: string where "githubUserInfoURL = ''https://api.github.com/user''"

definition defaultIssuerForProvider :: "string \<Rightarrow> string" where
  "defaultIssuerForProvider providerID =
     (let p = normalizeProviderID providerID in
      if p \<in> {''google_calendar'', ''google_docs'', ''google_drive'', ''google_gmail''} then googleIssuer
      else if p = ''github'' then githubIssuer else [])"

definition normalizeOIDCProfile :: "client_env \<Rightarrow> string \<Rightarrow> string \<Rightarrow> meta \<Rightarrow> UserProfile" where
  "normalizeOIDCProfile env providerID issuer payload =
     (let field = (\<lambda>k. TrimSpace (id_readString env (meta_get payload k)));
          profile = \<lparr>up_ProviderID = normalizeProviderID providerID, up_Issuer = TrimSpace issuer, up_Subject = field ''sub'',
            up_Email = field ''email'', up_EmailVerified = id_readBool (meta_get payload ''email_verified''), up_Name = field ''name'',
            up_GivenName = field ''given_name'', up_FamilyName = field ''family_name'', up_PictureURL = field ''picture'',
            up_Locale = field ''locale'', up_Raw = copyAnyMap payload\<rparr>
      in if TrimSpace (up_Name profile) = []
         then profile\<lparr>up_Name := TrimSpace (join_with '' '' [up_GivenName profile, up_FamilyName profile])\<rparr> else profile)"

definition normalizeGitHubProfile :: "client_env \<Rightarrow> string \<Rightarrow> string \<Rightarrow> meta \<Rightarrow> UserProfile" where
  "normalizeGitHubProfile env providerID issuer payload =
     (let field = (\<lambda>k. TrimSpace (id_readString env (meta_get payload k)));
          subject = field ''id'';
          subject = (if subject = [] then field ''node_id'' else subject);
          subject = (if subject = [] then field ''login'' else subject);
          name = field ''name'';
          name = (if name = [] then field ''login'' else name)
      in \<lparr>up_ProviderID = normalizeProviderID providerID, up_Issuer = TrimSpace issuer, up_Subject = subject, up_Email = field ''email'',
          up_EmailVerified = False, up_Name = name, up_GivenName = [], up_FamilyName = [], up_PictureURL = field ''avatar_url'',
          up_Locale = field ''locale'', up_Raw = copyAnyMap payload\<rparr>)"

section \<open>The resolver\<close>

record ProviderUserInfoConfig =
  ui_URL :: string
  ui_Issuer :: string
  ui_Normalizer :: "(string \<Rightarrow> string \<Rightarrow> meta \<Rightarrow> UserProfile) option"

record 'n Resolver =
  rv_httpClient :: "'n http_client"
  rv_idTokenVerifier :: "(string \<Rightarrow> string \<Rightarrow> meta \<Rightarrow> ('n, meta) effect) option"
  rv_providerUserInfo :: "(string, ProviderUserInfoConfig) gomap"

definition defaultProviderUserInfoConfigs :: "client_env \<Rightarrow> (string, ProviderUserInfoConfig) gomap" where
  "defaultProviderUserInfoConfigs env =
     (let google = \<lparr>ui_URL = googleUserInfoURL, ui_Issuer = googleIssuer, ui_Normalizer = None\<rparr> in
      [(''google_calendar'', google), (''google_docs'', google), (''google_drive'', google), (''google_gmail'', google),
       (''github'', \<lparr>ui_URL = githubUserInfoURL, ui_Issuer = githubIssuer, ui_Normalizer = Some (normalizeGitHubProfile env)\<rparr>)])"

definition add_userinfo :: "string \<times> ProviderUserInfoConfig \<Rightarrow> (string, ProviderUserInfoConfig) gomap \<Rightarrow> (string, ProviderUserInfoConfig) gomap" where
  "add_userinfo kv m =
     (let normalizedID = normalizeProviderID (fst kv); value = snd kv in
      if normalizedID = [] then m
      else AList.update normalizedID \<lparr>ui_URL = TrimSpace (ui_URL value), ui_Issuer = TrimSpace (ui_Issuer value), ui_Normalizer = ui_Normalizer value\<rparr> m)"

definition NewResolver ::
  "client_env \<Rightarrow> 'n http_client \<Rightarrow> (string \<Rightarrow> string \<Rightarrow> meta \<Rightarrow> ('n, meta) effect) option \<Rightarrow> (string, ProviderUserInfoConfig) gomap \<Rightarrow> 'n Resolver" where
  "NewResolver env httpClient verifier userInfo =
     \<lparr>rv_httpClient = httpClient, rv_idTokenVerifier = verifier,
      rv_providerUserInfo = fold add_userinfo userInfo (defaultProviderUserInfoConfigs env)\<rparr>"

definition add_trimmed :: "string \<times> any \<Rightarrow> meta \<Rightarrow> meta" where
  "add_trimmed kv m = (if TrimSpace (fst kv) = [] then m else AList.update (TrimSpace (fst kv)) (snd kv) m)"

definition id_mergeMetadata :: "meta \<Rightarrow> meta \<Rightarrow> meta" where
  "id_mergeMetadata base override = fold add_trimmed override (fold add_trimmed base [])"

definition decodeJWTPayload :: "client_env \<Rightarrow> string \<Rightarrow> meta result" where
  "decodeJWTPayload env token =
     (case Split (TrimSpace token) (CHR ''.'') of
        _ # part1 # _ \<Rightarrow>
          (case decode64 True False part1 of
             None \<Rightarrow> Inl (Wrapped ''identity: decode id_token payload: illegal base64 data'' [Plain ''illegal base64 data''])
           | Some decoded \<Rightarrow>
               (case cl_json env decoded of
                  Inl err \<Rightarrow> Inl (Wrapped (''identity: decode id_token claims: '' @ err_Error (cl_render env) err) [err])
                | Inr payload \<Rightarrow> Inr payload))
      | _ \<Rightarrow> Inl (Plain ''identity: invalid id_token format''))"

definition decodeVerifiedOrRawIDToken :: "client_env \<Rightarrow> 'n Resolver \<Rightarrow> string \<Rightarrow> string \<Rightarrow> meta \<Rightarrow> ('n, meta) effect" where
  "decodeVerifiedOrRawIDToken env r providerID idToken metadata n =
     (case rv_idTokenVerifier r of
        Some verify \<Rightarrow>
          (case verify providerID idToken (copyAnyMap metadata) n of
             (Inl err, n) \<Rightarrow> (Inl (Wrapped (''identity: verify id_token: '' @ err_Error (cl_render env) err) [err]), n)
           | (Inr claims, n) \<Rightarrow> (Inr (copyAnyMap claims), n))
      | None \<Rightarrow> (decodeJWTPayload env idToken, n))"

definition issuer_or_default :: "client_env \<Rightarrow> string \<Rightarrow> meta \<Rightarrow> string" where
  "issuer_or_default env providerID payload =
     (let issuer = TrimSpace (id_readString env (meta_get payload ''iss'')) in
      if issuer = [] then defaultIssuerForProvider providerID else issuer)"

definition profileFromIDToken :: "client_env \<Rightarrow> 'n Resolver \<Rightarrow> string \<Rightarrow> meta \<Rightarrow> ('n, UserProfile) effect" where
  "profileFromIDToken env r providerID metadata n =
     (let idToken = TrimSpace (id_readString env (meta_get metadata ''id_token'')) in
      if idToken = [] then (Inl (Plain ''identity: id_token is required''), n)
      else case decodeVerifiedOrRawIDToken env r providerID idToken metadata n of
        (Inl err, n) \<Rightarrow> (Inl err, n)
      | (Inr payload, n) \<Rightarrow>
          (let profile = normalizeOIDCProfile env providerID (issuer_or_default env providerID payload) payload in
           if TrimSpace (up_Subject profile) = [] then (Inl (Plain ''identity: id_token is missing subject''), n) else (Inr profile, n)))"

definition maxProfileResponseBytes :: nat where "maxProfileResponseBytes = 2 ^ 20"

definition userinfo_request :: "URL \<Rightarrow> string \<Rightarrow> http_request" where
  "userinfo_request u accessToken =
     \<lparr>hr_Method = ''GET'', hr_URL = u,
      hr_Header = Header_Set ''Authorization'' (''Bearer '' @ accessToken) (Header_Set ''Accept'' ''application/json'' []), hr_Body = None\<rparr>"

definition decode_userinfo :: "client_env \<Rightarrow> http_response \<Rightarrow> meta result" where
  "decode_userinfo env res =
     (case hs_Read res (maxProfileResponseBytes + 1) of
        Inl readErr \<Rightarrow> Inl (Wrapped (''identity: read profile response: '' @ err_Error (cl_render env) readErr) [readErr])
      | Inr body \<Rightarrow>
          if length body > maxProfileResponseBytes
          then Inl (Plain (''identity: profile response exceeds '' @ show_nat maxProfileResponseBytes @ '' bytes''))
          else if hs_StatusCode res < 200 \<or> hs_StatusCode res \<ge> 300
          then Inl (Plain (''identity: profile endpoint returned status '' @ Itoa (hs_StatusCode res)))
          else case cl_json env body of
            Inl err \<Rightarrow> Inl (Wrapped (''identity: decode profile response: '' @ err_Error (cl_render env) err) [err])
          | Inr payload \<Rightarrow> Inr payload)"

definition fetchUserInfo :: "client_env \<Rightarrow> 'n Resolver \<Rightarrow> string \<Rightarrow> string \<Rightarrow> ('n, meta) effect" where
  "fetchUserInfo env r endpoint accessToken n =
     (if TrimSpace accessToken = [] then (Inl (Plain ''identity: access token is required''), n)
      else case cl_parseURL env endpoint of
        Inl err \<Rightarrow> (Inl err, n)
      | Inr u \<Rightarrow>
          (case rv_httpClient r (userinfo_request (URL.truncate u) accessToken) n of
             (Inl err, n) \<Rightarrow> (Inl err, n)
           | (Inr res, n) \<Rightarrow> (decode_userinfo env res, n)))"

definition userinfo_profile :: "client_env \<Rightarrow> ProviderUserInfoConfig option \<Rightarrow> string \<Rightarrow> meta \<Rightarrow> UserProfile" where
  "userinfo_profile env config providerID payload =
     (let issuer = TrimSpace (id_readString env (meta_get payload ''iss''));
          issuer = (if issuer = [] then (case config of Some c \<Rightarrow> TrimSpace (ui_Issuer c) | None \<Rightarrow> []) else issuer);
          issuer = (if issuer = [] then defaultIssuerForProvider providerID else issuer);
          normalizer = (case config of
             Some c \<Rightarrow> (case ui_Normalizer c of Some f \<Rightarrow> f | None \<Rightarrow> normalizeOIDCProfile env)
           | None \<Rightarrow> normalizeOIDCProfile env)
      in normalizer providerID issuer payload)"

definition userinfo_url :: "client_env \<Rightarrow> ProviderUserInfoConfig option \<Rightarrow> meta \<Rightarrow> string" where
  "userinfo_url env config mergedMetadata =
     (let userInfoURL = TrimSpace (id_readString env (meta_get mergedMetadata ''userinfo_endpoint'')) in
      if userInfoURL = [] then (case config of Some c \<Rightarrow> TrimSpace (ui_URL c) | None \<Rightarrow> []) else userInfoURL)"

definition Resolve :: "client_env \<Rightarrow> 'n Resolver option \<Rightarrow> string \<Rightarrow> ActiveCredential \<Rightarrow> meta \<Rightarrow> ('n, UserProfile) effect" where
  "Resolve env receiver providerID cred metadata n =
     (case receiver of
        None \<Rightarrow> (Inl (profileNotFound (cl_render env) None), n)
      | Some r \<Rightarrow>
     (let normalizedProviderID = normalizeProviderID providerID;
          mergedMetadata = id_mergeMetadata (ak_Metadata cred) metadata
      in case profileFromIDToken env r normalizedProviderID mergedMetadata n of (first, n) \<Rightarrow>
     (let tokenErr = (case first of Inl err \<Rightarrow> Some err | Inr _ \<Rightarrow> None) in
      if (case first of Inl _ \<Rightarrow> False | Inr profile \<Rightarrow> TrimSpace (up_Subject profile) \<noteq> []) then (first, n)
      else
        let config = map_of (rv_providerUserInfo r) normalizedProviderID;
            userInfoURL = userinfo_url env config mergedMetadata
        in if userInfoURL = [] then (Inl (profileNotFound (cl_render env) tokenErr), n)
           else case fetchUserInfo env r userInfoURL (TrimSpace (ak_AccessToken cred)) n of
             (Inl fetchErr, n) \<Rightarrow> (Inl (profileNotFound (cl_render env) (Some fetchErr)), n)
           | (Inr payload, n) \<Rightarrow>
               (let profile = userinfo_profile env config normalizedProviderID payload in
                if TrimSpace (up_Subject profile) = [] then (Inl (profileNotFound (cl_render env) None), n) else (Inr profile, n)))))"

section \<open>Where a profile comes from\<close>

lemma profileFromIDToken_Inr:
  assumes "profileFromIDToken env r providerID metadata n = (Inr profile, n')"
  obtains payload where "TrimSpace (id_readString env (meta_get metadata ''id_token'')) \<noteq> []"
    "decodeVerifiedOrRawIDToken env r providerID (TrimSpace (id_readString env (meta_get metadata ''id_token''))) metadata n = (Inr payload, n')"
    "profile = normalizeOIDCProfile env providerID (issuer_or_default env providerID payload) payload" "TrimSpace (up_Subject profile) \<noteq> []"
  using assms unfolding profileFromIDToken_def Let_def by (auto split: if_splits prod.splits sum.splits)

lemma fetchUserInfo_Inr:
  assumes "fetchUserInfo env r endpoint token n = (Inr payload, n')"
  obtains u res where "cl_parseURL env endpoint = Inr u" "rv_httpClient r (userinfo_request (URL.truncate u) token) n = (Inr res, n')"
    "200 \<le> hs_StatusCode res" "hs_StatusCode res < 300" "decode_userinfo env res = Inr payload" "TrimSpace token \<noteq> []"
  using assms unfolding fetchUserInfo_def decode_userinfo_def by (auto split: if_splits prod.splits sum.splits)

lemma Resolve_cases:
  assumes "Resolve env (Some r) providerID cred metadata n = (Inr profile, n')"
  obtains (token) "profileFromIDToken env r (normalizeProviderID providerID) (id_mergeMetadata (ak_Metadata cred) metadata) n = (Inr profile, n')"
    | (userinfo) err n1 payload where
      "profileFromIDToken env r (normalizeProviderID providerID) (id_mergeMetadata (ak_Metadata cred) metadata) n = (Inl err, n1)"
      "fetchUserInfo env r (userinfo_url env (map_of (rv_providerUserInfo r) (normalizeProviderID providerID)) (id_mergeMetadata (ak_Metadata cred) metadata))
         (TrimSpace (ak_AccessToken cred)) n1 = (Inr payload, n')"
      "profile = userinfo_profile env (map_of (rv_providerUserInfo r) (normalizeProviderID providerID)) (normalizeProviderID providerID) payload"
      "TrimSpace (up_Subject profile) \<noteq> []"
proof -
  let ?p = "normalizeProviderID providerID" and ?m = "id_mergeMetadata (ak_Metadata cred) metadata"
  obtain first n1 where f: "profileFromIDToken env r ?p ?m n = (first, n1)" by fastforce
  show thesis
  proof (cases first)
    case (Inr profile')
    then have "TrimSpace (up_Subject profile') \<noteq> []" using f by (auto elim: profileFromIDToken_Inr)
    with f Inr assms show thesis by (intro token) (simp add: Resolve_def)
  next
    case (Inl err)
    then obtain payload where "fetchUserInfo env r (userinfo_url env (map_of (rv_providerUserInfo r) ?p) ?m) (TrimSpace (ak_AccessToken cred)) n1 = (Inr payload, n')"
        "profile = userinfo_profile env (map_of (rv_providerUserInfo r) ?p) ?p payload" "TrimSpace (up_Subject profile) \<noteq> []"
      using f assms by (auto simp: Resolve_def Let_def split: if_splits prod.splits sum.splits)
    with f Inl show thesis by (intro userinfo) auto
  qed
qed

lemma Resolve_subject: "Resolve env (Some r) providerID cred metadata n = (Inr profile, n') \<Longrightarrow> TrimSpace (up_Subject profile) \<noteq> []"
  by (erule Resolve_cases) (auto elim: profileFromIDToken_Inr)

text \<open>Two profiles with an issuer that has no bar get the same account id only when issuer and subject agree.\<close>

lemma ExternalAccountID_inject:
  assumes "UserProfile_ExternalAccountID p = UserProfile_ExternalAccountID q" "TrimSpace (up_Subject p) \<noteq> []" "TrimSpace (up_Subject q) \<noteq> []"
    and "TrimSpace (up_Issuer p) \<noteq> []" "TrimSpace (up_Issuer q) \<noteq> []" "CHR ''|'' \<notin> set (TrimSpace (up_Issuer p))" "CHR ''|'' \<notin> set (TrimSpace (up_Issuer q))"
  shows "TrimSpace (up_Issuer p) = TrimSpace (up_Issuer q)" and "TrimSpace (up_Subject p) = TrimSpace (up_Subject q)"
proof -
  have e: "Cut (TrimSpace (up_Issuer x) @ CHR ''|'' # TrimSpace (up_Subject x)) (CHR ''|'') = (TrimSpace (up_Issuer x), TrimSpace (up_Subject x))"
    if "x = p \<or> x = q" for x using assms(6,7) that by (intro Cut_append) auto
  have "TrimSpace (up_Issuer p) @ CHR ''|'' # TrimSpace (up_Subject p) = TrimSpace (up_Issuer q) @ CHR ''|'' # TrimSpace (up_Subject q)"
    using assms(1) unfolding UserProfile_ExternalAccountID_def Let_def by (simp only: assms(2-5) if_False append_Cons append_Nil)
  then have "(TrimSpace (up_Issuer p), TrimSpace (up_Subject p)) = (TrimSpace (up_Issuer q), TrimSpace (up_Subject q))"
    using e [of p] e [of q] by (simp only: simp_thms)
  then show "TrimSpace (up_Issuer p) = TrimSpace (up_Issuer q)" "TrimSpace (up_Subject p) = TrimSpace (up_Subject q)" by simp_all
qed

end
