(* ===== verification/OAuth2_Provider.thy ===== *)
theory OAuth2_Provider
  imports Identity_Resolver Signing
begin

text \<open>
  \<open>src/providers/oauth2_provider.go\<close>: the OAuth 2 authorization-code provider all concrete providers are built on.
  It makes the authorization URL, exchanges the code at the token endpoint, finds out whose account it is, and
  refreshes tokens. The HTTP client, the profile resolver and the random source are arguments; one clock reading
  is given to each call.
\<close>

section \<open>Configuration\<close>

type_synonym 'n profile_resolver = "string \<Rightarrow> ActiveCredential \<Rightarrow> meta \<Rightarrow> ('n, UserProfile) effect"

record 'n OAuth2Config =
  oc_ID :: string
  oc_AuthURL :: string
  oc_TokenURL :: string
  oc_ClientID :: string
  oc_ClientSecret :: string
  oc_ClientSecretInBody :: bool
  oc_DefaultScopes :: "string list"
  oc_SupportedScopeTypes :: "string list"
  oc_Capabilities :: "CapabilityDescriptor list"
  oc_TokenTTL :: int
  oc_ProfileResolver :: "'n profile_resolver option"
  oc_HTTPClient :: "'n http_client"

text \<open>The values that are left, each once, sorted.\<close>

definition norm_values :: "string list \<Rightarrow> string list" where
  "norm_values input = sort (remdups (filter (\<lambda>v. v \<noteq> []) (map (\<lambda>v. TrimSpace (ToLower v)) input)))"

definition pv_normalizeGrants :: "string list \<Rightarrow> string list" where
  "pv_normalizeGrants input = (if length input = 0 then [] else norm_values input)"

definition normalizeScopeTypes :: "string list \<Rightarrow> string list" where
  "normalizeScopeTypes input = (let vs = norm_values input in if length vs = 0 then [''user'', ''org''] else vs)"

definition NewOAuth2Provider :: "'n OAuth2Config \<Rightarrow> 'n OAuth2Config result" where
  "NewOAuth2Provider cfg0 =
     (let cfg = cfg0\<lparr>oc_ID := TrimSpace (ToLower (oc_ID cfg0))\<rparr> in
      if oc_ID cfg = [] then Inl (Plain ''providers: provider id is required'')
      else if TrimSpace (oc_AuthURL cfg) = [] then Inl (Plain (''providers: auth url is required for provider '' @ quote (oc_ID cfg)))
      else if TrimSpace (oc_TokenURL cfg) = [] then Inl (Plain (''providers: token url is required for provider '' @ quote (oc_ID cfg)))
      else if TrimSpace (oc_ClientID cfg) = [] then Inl (Plain (''providers: client id is required for provider '' @ quote (oc_ID cfg)))
      else Inr (cfg\<lparr>oc_AuthURL := TrimSpace (oc_AuthURL cfg), oc_TokenURL := TrimSpace (oc_TokenURL cfg),
        oc_ClientID := TrimSpace (oc_ClientID cfg), oc_ClientSecret := TrimSpace (oc_ClientSecret cfg),
        oc_DefaultScopes := pv_normalizeGrants (oc_DefaultScopes cfg),
        oc_SupportedScopeTypes := normalizeScopeTypes (if length (oc_SupportedScopeTypes cfg) = 0 then [''user'', ''org''] else oc_SupportedScopeTypes cfg),
        oc_TokenTTL := (if oc_TokenTTL cfg \<le> 0 then 60 * Minute else oc_TokenTTL cfg)\<rparr>))"

section \<open>Reading metadata and tokens\<close>

fun pv_readAnyString :: "client_env \<Rightarrow> any \<Rightarrow> string" where
  "pv_readAnyString env (AStr typed) = TrimSpace typed"
| "pv_readAnyString env ANil = []"
| "pv_readAnyString env value = TrimSpace (Sprint (cl_float env) value)"

fun pv_readAnyInt64 :: "client_env \<Rightarrow> any \<Rightarrow> int" where
  "pv_readAnyInt64 env (AInt typed) = typed"
| "pv_readAnyInt64 env (AInt64 typed) = typed"
| "pv_readAnyInt64 env (AFloat64 m e) = cl_int_of_float env m e"
| "pv_readAnyInt64 env (AStr typed) = (case Atoi (TrimSpace typed) of Some parsed \<Rightarrow> parsed | None \<Rightarrow> 0)"
| "pv_readAnyInt64 env value = 0"

definition pv_readString :: "client_env \<Rightarrow> meta \<Rightarrow> string \<Rightarrow> string" where
  "pv_readString env metadata key =
     (case meta_get metadata key of ANil \<Rightarrow> [] | value \<Rightarrow> TrimSpace (Sprint (cl_float env) value))"

text \<open>
  Both kinds of arrays are \<open>AArr\<close>. The source does not filter the items of a \<open>[]string\<close>; its blank items are dropped by
  \<open>normalizeGrants\<close>, to which every caller passes the result.
\<close>

definition pv_readStringSlice :: "client_env \<Rightarrow> meta \<Rightarrow> string \<Rightarrow> string list" where
  "pv_readStringSlice env metadata key =
     (case meta_get metadata key of
        ANil \<Rightarrow> []
      | AArr items \<Rightarrow> filter (\<lambda>item. item \<noteq> [] \<and> item \<noteq> ''<nil>'') (map (\<lambda>item. TrimSpace (Sprint (cl_float env) item)) items)
      | value \<Rightarrow>
          (let trimmed = TrimSpace (Sprint (cl_float env) value) in
           if trimmed = [] \<or> trimmed = ''<nil>'' then []
           else if \<not> Contains trimmed '','' then [trimmed]
           else filter (\<lambda>part. part \<noteq> []) (map TrimSpace (Split trimmed (CHR '','')))))"

definition pv_parseScopeList :: "string \<Rightarrow> string list" where
  "pv_parseScopeList value =
     (let trimmed = TrimSpace value in if trimmed = [] then [] else Fields (ReplaceAll '','' '' '' trimmed))"

definition normalizeTokenType :: "string \<Rightarrow> string" where
  "normalizeTokenType value = (let normalized = ToLower (TrimSpace value) in if normalized = [] then ''bearer'' else normalized)"

record tokenEndpointPayload =
  tp_AccessToken :: string
  tp_TokenType :: string
  tp_RefreshToken :: string
  tp_IDToken :: string
  tp_Scope :: string
  tp_ExpiresIn :: int
  tp_ErrorCode :: string
  tp_ErrorDescription :: string

definition parseTokenPayloadJSON :: "client_env \<Rightarrow> string \<Rightarrow> tokenEndpointPayload result" where
  "parseTokenPayloadJSON env body =
     (if length (TrimSpace body) = 0 then Inl (Plain ''empty payload'')
      else case cl_json env body of
        Inl err \<Rightarrow> Inl err
      | Inr decoded \<Rightarrow>
          (let field = (\<lambda>k. pv_readAnyString env (meta_get decoded k)) in
           Inr \<lparr>tp_AccessToken = field ''access_token'', tp_TokenType = field ''token_type'', tp_RefreshToken = field ''refresh_token'',
             tp_IDToken = field ''id_token'', tp_Scope = field ''scope'', tp_ExpiresIn = pv_readAnyInt64 env (meta_get decoded ''expires_in''),
             tp_ErrorCode = field ''error'', tp_ErrorDescription = field ''error_description''\<rparr>))"

text \<open>
  \<open>strconv.ParseInt\<close> of a number out of range returns the nearest one beside the error, which is dropped here.
\<close>

definition ParseInt_value :: "string \<Rightarrow> int" where
  "ParseInt_value s =
     (let neg = (s \<noteq> [] \<and> hd s = CHR ''-'');
          body = (if s \<noteq> [] \<and> (hd s = CHR ''-'' \<or> hd s = CHR ''+'') then tl s else s)
      in if body = [] then 0
         else case parse_digits 0 body of
             None \<Rightarrow> 0
           | Some n \<Rightarrow> (let i = (if neg then - int n else int n) in max (- (2 ^ 63)) (min (2 ^ 63 - 1) i)))"

definition parseTokenPayloadForm :: "string \<Rightarrow> tokenEndpointPayload result" where
  "parseTokenPayloadForm body =
     (if length (TrimSpace body) = 0 then Inl (Plain ''empty payload'')
      else case url_ParseQuery body of
        None \<Rightarrow> Inl (Plain ''invalid query'')
      | Some vs \<Rightarrow>
          (let field = (\<lambda>k. TrimSpace (Values_Get vs k)) in
           Inr \<lparr>tp_AccessToken = field ''access_token'', tp_TokenType = field ''token_type'', tp_RefreshToken = field ''refresh_token'',
             tp_IDToken = field ''id_token'', tp_Scope = field ''scope'', tp_ExpiresIn = ParseInt_value (field ''expires_in''),
             tp_ErrorCode = field ''error'', tp_ErrorDescription = field ''error_description''\<rparr>))"

definition parseTokenPayload :: "client_env \<Rightarrow> string \<Rightarrow> string \<Rightarrow> tokenEndpointPayload result" where
  "parseTokenPayload env body contentType0 =
     (let contentType = ToLower (TrimSpace contentType0) in
      if Contains contentType ''json'' then parseTokenPayloadJSON env body
      else if Contains contentType ''x-www-form-urlencoded'' \<or> Contains contentType ''text/plain'' then parseTokenPayloadForm body
      else case parseTokenPayloadJSON env body of Inr payload \<Rightarrow> Inr payload | Inl _ \<Rightarrow> parseTokenPayloadForm body)"

definition describeTokenError :: "tokenEndpointPayload \<Rightarrow> string" where
  "describeTokenError payload =
     (if TrimSpace (tp_ErrorDescription payload) \<noteq> [] then TrimSpace (tp_ErrorDescription payload)
      else if TrimSpace (tp_ErrorCode payload) \<noteq> [] then TrimSpace (tp_ErrorCode payload) else ''unknown error'')"

text \<open>The product of a duration and a number wraps around.\<close>

definition resolveExpiresAt :: "'n OAuth2Config \<Rightarrow> int \<Rightarrow> int \<Rightarrow> int option" where
  "resolveExpiresAt p now expiresIn =
     (let ttl = (if expiresIn > 0 then wrap64 (expiresIn * Second) else oc_TokenTTL p) in
      if ttl \<le> 0 then None else Some (time_Add now ttl))"

section \<open>The token endpoint\<close>

definition maxTokenResponseBodyBytes :: nat where "maxTokenResponseBodyBytes = 2 ^ 20"

definition add_form_entry :: "string \<times> string list \<Rightarrow> url_values \<Rightarrow> url_values" where
  "add_form_entry kv vs =
     (if TrimSpace (fst kv) = [] then vs else fold (\<lambda>item. values_add (fst kv, TrimSpace item)) (snd kv) vs)"

definition token_form :: "'n OAuth2Config \<Rightarrow> url_values \<Rightarrow> url_values" where
  "token_form p form =
     (let vs = Values_Set ''client_id'' (oc_ClientID p) (fold add_form_entry form []) in
      if oc_ClientSecretInBody p \<and> oc_ClientSecret p \<noteq> [] then Values_Set ''client_secret'' (oc_ClientSecret p) vs else vs)"

definition token_request :: "'n OAuth2Config \<Rightarrow> URL \<Rightarrow> url_values \<Rightarrow> http_request" where
  "token_request p u form =
     (let h = Header_Set ''Accept'' ''application/json'' (Header_Set ''Content-Type'' ''application/x-www-form-urlencoded'' []) in
      \<lparr>hr_Method = ''POST'', hr_URL = u,
       hr_Header = (if \<not> oc_ClientSecretInBody p \<and> oc_ClientSecret p \<noteq> []
                    then Header_Set ''Authorization'' (basic_auth (oc_ClientID p) (oc_ClientSecret p)) h else h),
       hr_Body = Some (Inr (Values_Encode (token_form p form)))\<rparr>)"

definition decode_token :: "client_env \<Rightarrow> http_response \<Rightarrow> tokenEndpointPayload result" where
  "decode_token env response =
     (case hs_Read response (maxTokenResponseBodyBytes + 1) of
        Inl readErr \<Rightarrow> Inl (Wrapped (''providers: read token response: '' @ err_Error (cl_render env) readErr) [readErr])
      | Inr body \<Rightarrow>
          if length body > maxTokenResponseBodyBytes
          then Inl (Plain (''providers: token response exceeds '' @ show_nat maxTokenResponseBodyBytes @ '' bytes''))
          else case parseTokenPayload env body (Header_Get (hs_Header response) ''Content-Type'') of
            Inl parseErr \<Rightarrow> Inl (Wrapped (''providers: decode token response: '' @ err_Error (cl_render env) parseErr) [parseErr])
          | Inr payload \<Rightarrow>
              if hs_StatusCode response < 200 \<or> hs_StatusCode response \<ge> 300
              then Inl (Plain (''providers: token endpoint error ('' @ Itoa (hs_StatusCode response) @ ''): '' @ describeTokenError payload))
              else if tp_ErrorCode payload \<noteq> [] then Inl (Plain (''providers: token endpoint error: '' @ describeTokenError payload))
              else if TrimSpace (tp_AccessToken payload) = [] then Inl (Plain ''providers: token endpoint response missing access token'')
              else Inr payload)"

definition fetchToken :: "client_env \<Rightarrow> 'n OAuth2Config \<Rightarrow> url_values \<Rightarrow> ('n, tokenEndpointPayload) effect" where
  "fetchToken env p form n =
     (if TrimSpace (oc_TokenURL p) = [] then (Inl (Plain (''providers: token url is required for provider '' @ quote (oc_ID p))), n)
      else case cl_parseURL env (oc_TokenURL p) of
        Inl err \<Rightarrow> (Inl err, n)
      | Inr u \<Rightarrow>
          (case oc_HTTPClient p (token_request p (URL.truncate u) form) n of
             (Inl err, n) \<Rightarrow> (Inl (Wrapped (''providers: token request failed: '' @ err_Error (cl_render env) err) [err]), n)
           | (Inr response, n) \<Rightarrow> (decode_token env response, n)))"

section \<open>The three calls\<close>

definition generateOAuthProviderState :: "(nat \<Rightarrow> ('n, string) effect) \<Rightarrow> (goerr \<Rightarrow> string) \<Rightarrow> ('n, string) effect" where
  "generateOAuthProviderState rand render n =
     (case rand 24 n of
        (Inl err, n) \<Rightarrow> (Inl (Wrapped (''providers: generate oauth state: '' @ err_Error render err) [err]), n)
      | (Inr raw, n) \<Rightarrow> (Inr (encode64 True False raw), n))"

definition authorization_values :: "'n OAuth2Config \<Rightarrow> string \<Rightarrow> string list \<Rightarrow> string \<Rightarrow> url_values" where
  "authorization_values p redirectURI requested state =
     (let vs = Values_Set ''client_id'' (oc_ClientID p) (Values_Set ''response_type'' ''code'' []);
          vs = (if TrimSpace redirectURI \<noteq> [] then Values_Set ''redirect_uri'' (TrimSpace redirectURI) vs else vs)
      in Values_Set ''state'' state (Values_Set ''scope'' (join_with '' '' requested) vs))"

definition OAuth2_BeginAuth ::
  "client_env \<Rightarrow> (nat \<Rightarrow> ('n, string) effect) \<Rightarrow> 'n OAuth2Config option \<Rightarrow> BeginAuthRequest \<Rightarrow> ('n, BeginAuthResponse) effect" where
  "OAuth2_BeginAuth env rand receiver req n =
     (case receiver of
        None \<Rightarrow> (Inl (Plain ''providers: oauth2 provider is nil''), n)
      | Some p \<Rightarrow>
     (case ScopeRef_Validate (ba_Scope req) of
        Some err \<Rightarrow> (Inl err, n)
      | None \<Rightarrow>
     (case (if TrimSpace (ba_State req) = [] then generateOAuthProviderState rand (cl_render env) n else (Inr (TrimSpace (ba_State req)), n)) of
        (Inl err, n) \<Rightarrow> (Inl err, n)
      | (Inr state, n) \<Rightarrow>
     (let requested = pv_normalizeGrants (ba_RequestedGrants req);
          requested = (if length requested = 0 then oc_DefaultScopes p else requested);
          query = Values_Encode (authorization_values p (ba_RedirectURI req) requested state);
          authURL = (if Contains (oc_AuthURL p) ''?'' then oc_AuthURL p @ ''&'' @ query else oc_AuthURL p @ ''?'' @ query)
      in (Inr \<lparr>bp_URL = authURL, bp_State = state, bp_RequestedGrants = requested,
            bp_Metadata = AList.update ''token_url'' (AStr (oc_TokenURL p)) (AList.update ''provider_id'' (AStr (oc_ID p)) (copyAnyMap (ba_Metadata req)))\<rparr>, n)))))"

text \<open>The metadata of the results: the provider, the token URL and the id token, if there is one.\<close>

definition token_metadata :: "'n OAuth2Config \<Rightarrow> tokenEndpointPayload \<Rightarrow> meta \<Rightarrow> meta" where
  "token_metadata p token metadata =
     (let m = AList.update ''token_url'' (AStr (oc_TokenURL p)) (AList.update ''provider_id'' (AStr (oc_ID p)) metadata) in
      if TrimSpace (tp_IDToken token) \<noteq> [] then AList.update ''id_token'' (AStr (TrimSpace (tp_IDToken token))) m else m)"

definition code_form :: "string \<Rightarrow> string \<Rightarrow> url_values" where
  "code_form code redirectURI =
     (let form = Values_Set ''code'' code (Values_Set ''grant_type'' ''authorization_code'' []) in
      if TrimSpace redirectURI \<noteq> [] then Values_Set ''redirect_uri'' (TrimSpace redirectURI) form else form)"

definition resolver_metadata :: "tokenEndpointPayload \<Rightarrow> meta \<Rightarrow> meta" where
  "resolver_metadata token metadata =
     (if TrimSpace (tp_IDToken token) \<noteq> [] then AList.update ''id_token'' (AStr (TrimSpace (tp_IDToken token))) (copyAnyMap metadata)
      else copyAnyMap metadata)"

text \<open>Whose account it is: the id given in the metadata, else that of the resolved profile; an error of the resolver is dropped.\<close>

definition resolve_account ::
  "client_env \<Rightarrow> 'n OAuth2Config \<Rightarrow> ActiveCredential \<Rightarrow> tokenEndpointPayload \<Rightarrow> meta \<Rightarrow> 'n \<Rightarrow> (string \<times> meta) \<times> 'n" where
  "resolve_account env p credential token metadata n =
     (let externalAccountID = TrimSpace (pv_readString env metadata ''external_account_id'') in
      if externalAccountID \<noteq> [] then ((externalAccountID, []), n)
      else case oc_ProfileResolver p of
        None \<Rightarrow> (([], []), n)
      | Some resolve \<Rightarrow>
          (case resolve (oc_ID p) credential (resolver_metadata token metadata) n of
             (Inl _, n) \<Rightarrow> (([], []), n)
           | (Inr profile, n) \<Rightarrow>
               (let externalAccountID = TrimSpace (UserProfile_ExternalAccountID profile) in
                ((if externalAccountID = [] then TrimSpace (up_Subject profile) else externalAccountID, UserProfile_Map profile), n))))"

definition with_profile :: "meta \<Rightarrow> meta \<Rightarrow> meta" where
  "with_profile profileMetadata metadata =
     (if length profileMetadata > 0 then AList.update ''identity_profile'' (AObj (copyAnyMap profileMetadata)) metadata else metadata)"

definition OAuth2_CompleteAuth :: "client_env \<Rightarrow> 'n OAuth2Config option \<Rightarrow> int \<Rightarrow> CompleteAuthRequest \<Rightarrow> ('n, CompleteAuthResponse) effect" where
  "OAuth2_CompleteAuth env receiver now req n =
     (case receiver of
        None \<Rightarrow> (Inl (Plain ''providers: oauth2 provider is nil''), n)
      | Some p \<Rightarrow>
     (case ScopeRef_Validate (ca_Scope req) of
        Some err \<Rightarrow> (Inl err, n)
      | None \<Rightarrow>
     (let code = TrimSpace (ca_Code req) in
      if code = [] then (Inl (Plain ''providers: auth code is required''), n)
      else let requested = pv_normalizeGrants (pv_readStringSlice env (ca_Metadata req) ''requested_grants'');
               requested = (if length requested = 0 then oc_DefaultScopes p else requested) in
      case fetchToken env p (code_form code (ca_RedirectURI req)) n of
        (Inl err, n) \<Rightarrow> (Inl err, n)
      | (Inr token, n) \<Rightarrow>
     (let granted = pv_normalizeGrants (pv_parseScopeList (tp_Scope token));
          granted = (if length granted = 0 then pv_normalizeGrants (pv_readStringSlice env (ca_Metadata req) ''granted_grants'') else granted);
          granted = (if length granted = 0 then requested else granted);
          refreshToken = TrimSpace (tp_RefreshToken token);
          credential = zero_credential\<lparr>ak_TokenType := normalizeTokenType (tp_TokenType token), ak_AccessToken := TrimSpace (tp_AccessToken token),
            ak_RefreshToken := refreshToken, ak_RequestedScopes := requested, ak_GrantedScopes := granted,
            ak_ExpiresAt := resolveExpiresAt p now (tp_ExpiresIn token), ak_Refreshable := (refreshToken \<noteq> []),
            ak_Metadata := token_metadata p token []\<rparr>
      in case resolve_account env p credential token (ca_Metadata req) n of
        ((externalAccountID, profileMetadata), n) \<Rightarrow>
          if externalAccountID = []
          then (Inl (Plain (''providers: external account id is required in metadata for provider '' @ quote (oc_ID p))), n)
          else (Inr \<lparr>cp_ExternalAccountID = externalAccountID,
                  cp_Credential = credential\<lparr>ak_Metadata := with_profile profileMetadata (ak_Metadata credential)\<rparr>,
                  cp_RequestedGrants = requested, cp_GrantedGrants = granted,
                  cp_Metadata = with_profile profileMetadata (token_metadata p token [])\<rparr>, n)))))"

definition refresh_form :: "string \<Rightarrow> string list \<Rightarrow> url_values" where
  "refresh_form refreshToken requested =
     (let form = Values_Set ''refresh_token'' refreshToken (Values_Set ''grant_type'' ''refresh_token'' []) in
      if length requested > 0 then Values_Set ''scope'' (join_with '' '' requested) form else form)"

definition OAuth2_Refresh :: "client_env \<Rightarrow> 'n OAuth2Config option \<Rightarrow> int \<Rightarrow> ActiveCredential \<Rightarrow> ('n, RefreshResult) effect" where
  "OAuth2_Refresh env receiver now cred n =
     (case receiver of
        None \<Rightarrow> (Inl (Plain ''providers: oauth2 provider is nil''), n)
      | Some p \<Rightarrow>
     (let refreshToken = TrimSpace (ak_RefreshToken cred) in
      if refreshToken = [] then (Inl (Plain ''providers: refresh token is required''), n)
      else let requested = pv_normalizeGrants (ak_RequestedScopes cred);
               requested = (if length requested = 0 then oc_DefaultScopes p else requested);
               granted = pv_normalizeGrants (ak_GrantedScopes cred);
               granted = (if length granted = 0 then requested else granted) in
      case fetchToken env p (refresh_form refreshToken requested) n of
        (Inl err, n) \<Rightarrow> (Inl err, n)
      | (Inr token, n) \<Rightarrow>
     (let refreshedScopes = pv_normalizeGrants (pv_parseScopeList (tp_Scope token));
          granted = (if length refreshedScopes > 0 then refreshedScopes else granted);
          nextRefresh = TrimSpace (tp_RefreshToken token);
          refresh = (if nextRefresh \<noteq> [] then nextRefresh else ak_RefreshToken cred);
          refreshed = cred\<lparr>ak_TokenType := normalizeTokenType (tp_TokenType token), ak_AccessToken := TrimSpace (tp_AccessToken token),
            ak_RefreshToken := refresh, ak_RequestedScopes := requested, ak_GrantedScopes := granted,
            ak_ExpiresAt := resolveExpiresAt p now (tp_ExpiresIn token), ak_Refreshable := (TrimSpace refresh \<noteq> []),
            ak_Metadata := token_metadata p token (copyAnyMap (ak_Metadata cred))\<rparr>
      in (Inr \<lparr>rs_Credential = refreshed, rs_GrantedGrants = granted, rs_Metadata = token_metadata p token []\<rparr>, n))))"

section \<open>The authorization URL\<close>

text \<open>
  The authorization URL says what the response says. Its query, parsed by the authorization server, holds the
  response type, the client id, the redirect URI if there is one, the requested scopes and the state of the response, and
  nothing else; and the state is the caller's if one was given.
\<close>

theorem authorization_url_faithful:
  assumes "OAuth2_BeginAuth env rand (Some p) req n = (Inr r, n')" and "\<not> Contains (oc_AuthURL p) ''?''"
  shows "\<exists>query. bp_URL r = oc_AuthURL p @ ''?'' @ query \<and>
     Values_Get (ParseQuery query) ''response_type'' = ''code'' \<and> Values_Get (ParseQuery query) ''client_id'' = oc_ClientID p \<and>
     Values_Get (ParseQuery query) ''redirect_uri'' = TrimSpace (ba_RedirectURI req) \<and>
     Values_Get (ParseQuery query) ''scope'' = join_with '' '' (bp_RequestedGrants r) \<and> Values_Get (ParseQuery query) ''state'' = bp_State r \<and>
     fst ` set (ParseQuery query) \<subseteq> {''response_type'', ''client_id'', ''redirect_uri'', ''scope'', ''state''} \<and>
     (TrimSpace (ba_State req) \<noteq> [] \<longrightarrow> bp_State r = TrimSpace (ba_State req))"
proof -
  let ?m = "authorization_values p (ba_RedirectURI req) (bp_RequestedGrants r) (bp_State r)"
  let ?gen = "if TrimSpace (ba_State req) = [] then generateOAuthProviderState rand (cl_render env) n else (Inr (TrimSpace (ba_State req)), n)"
  have scope: "ScopeRef_Validate (ba_Scope req) = None" using assms(1) by (cases "ScopeRef_Validate (ba_Scope req)") (auto simp: OAuth2_BeginAuth_def)
  obtain g n1 where gen: "?gen = (g, n1)" by fastforce
  obtain state where st: "g = Inr state" using assms(1) gen scope by (cases g) (auto simp: OAuth2_BeginAuth_def)
  have r: "bp_URL r = oc_AuthURL p @ ''?'' @ Values_Encode ?m" "bp_State r = state"
    using assms gen scope st by (auto simp: OAuth2_BeginAuth_def Let_def)
  have s: "TrimSpace (ba_State req) \<noteq> [] \<longrightarrow> bp_State r = TrimSpace (ba_State req)" using gen st r(2) by auto
  have m: "single_valued ?m" by (simp add: authorization_values_def Let_def)
  have k: "fst ` set (ParseQuery (Values_Encode ?m)) \<subseteq> {''response_type'', ''client_id'', ''redirect_uri'', ''scope'', ''state''}"
    unfolding ParseQuery_Values_Encode [OF m] set_sort by (auto simp: authorization_values_def Let_def Values_Set_def dom_update)
  have g: "Values_Get ?m ''response_type'' = ''code''" "Values_Get ?m ''client_id'' = oc_ClientID p" "Values_Get ?m ''state'' = bp_State r"
      "Values_Get ?m ''redirect_uri'' = TrimSpace (ba_RedirectURI req)" "Values_Get ?m ''scope'' = join_with '' '' (bp_RequestedGrants r)"
    by (auto simp: authorization_values_def Let_def)
  show ?thesis
    by (rule exI [of _ "Values_Encode ?m"]) (use r(1) s k g in \<open>simp add: Values_Get_encoded [OF m]\<close>)
qed

definition sample_oauth2 :: "string list OAuth2Config" where
  "sample_oauth2 = \<lparr>oc_ID = ''p'', oc_AuthURL = ''https://a/auth'', oc_TokenURL = ''t'', oc_ClientID = ''c 1'', oc_ClientSecret = ''s'',
     oc_ClientSecretInBody = False, oc_DefaultScopes = [''read''], oc_SupportedScopeTypes = [''user''], oc_Capabilities = [], oc_TokenTTL = 60 * Minute,
     oc_ProfileResolver = None,
     oc_HTTPClient = \<lambda>req n. (Inr \<lparr>hs_StatusCode = 200, hs_Header = [], hs_Read = \<lambda>_. Inr ''access_token=at&refresh_token=r2''\<rparr>, n @ [''token''])\<rparr>"

definition sample_begin :: BeginAuthRequest where
  "sample_begin = \<lparr>ba_ProviderID = ''p'', ba_Scope = \<lparr>scope_Type = ''user'', scope_ID = ''u''\<rparr>, ba_RedirectURI = ''https://b/cb?x=1'', ba_State = ''s&1'',
     ba_RequestedGrants = [''B'', ''a''], ba_Metadata = []\<rparr>"

definition sample_client :: client_env where
  "sample_client = \<lparr>cl_hmac = \<lambda>k m. [], cl_json = \<lambda>s. Inl (Plain ''json''),
     cl_parseURL = \<lambda>u. Inr \<lparr>u_Scheme = ''https'', u_Host = ''a'', u_Path = [], u_EscapedPath = [], u_RawQuery = [], u_Fragment = [], u_hasUser = False\<rparr>,
     cl_printURL = \<lambda>u. [], cl_float = \<lambda>m e. [], cl_int_of_float = \<lambda>m e. m, cl_render = \<lambda>e. []\<rparr>"

theorem authorization_url_faithful_witness:
  "\<exists>query r. fst (OAuth2_BeginAuth sample_client (\<lambda>k. ret []) (Some sample_oauth2) sample_begin []) = Inr r \<and> bp_URL r = ''https://a/auth?'' @ query \<and>
     Values_Get (ParseQuery query) ''scope'' = ''a b'' \<and> Values_Get (ParseQuery query) ''state'' = ''s&1'' \<and>
     Values_Get (ParseQuery query) ''redirect_uri'' = ''https://b/cb?x=1''"
proof -
  have no: "\<not> Contains (oc_AuthURL sample_oauth2) ''?''" and sc: "ScopeRef_Validate (ba_Scope sample_begin) = None"
    and st: "TrimSpace (ba_State sample_begin) = ''s&1''" and ru: "TrimSpace (ba_RedirectURI sample_begin) = ''https://b/cb?x=1''"
    and gr: "pv_normalizeGrants (ba_RequestedGrants sample_begin) = [''a'', ''b'']" by code_simp+
  obtain r where r: "OAuth2_BeginAuth sample_client (\<lambda>k. ret []) (Some sample_oauth2) sample_begin [] = (Inr r, [])" "bp_RequestedGrants r = [''a'', ''b'']"
    using no sc st gr by (simp add: OAuth2_BeginAuth_def Let_def)
  have "oc_AuthURL sample_oauth2 = ''https://a/auth''" by (simp add: sample_oauth2_def)
  then show ?thesis using authorization_url_faithful [OF r(1) no] r st ru by fastforce
qed

section \<open>Refreshing\<close>

lemma decode_token_Inr:
  assumes "decode_token env response = Inr token"
  obtains body where "hs_Read response (maxTokenResponseBodyBytes + 1) = Inr body" "200 \<le> hs_StatusCode response" "hs_StatusCode response < 300"
    "parseTokenPayload env body (Header_Get (hs_Header response) ''Content-Type'') = Inr token" "tp_ErrorCode token = []" "TrimSpace (tp_AccessToken token) \<noteq> []"
  using assms by (auto simp: decode_token_def split: sum.splits if_splits)

lemma fetchToken_Inr:
  assumes "fetchToken env p form n = (Inr token, n')"
  obtains u response where "cl_parseURL env (oc_TokenURL p) = Inr u" "oc_HTTPClient p (token_request p (URL.truncate u) form) n = (Inr response, n')"
    "decode_token env response = Inr token"
  using assms by (auto simp: fetchToken_def split: sum.splits if_splits prod.splits)

text \<open>A request carries the client's secret once: in the body or in the header.\<close>

definition authenticated_form :: "'n OAuth2Config \<Rightarrow> http_request \<Rightarrow> url_values \<Rightarrow> bool" where
  "authenticated_form p req vs \<longleftrightarrow>
     (\<exists>body. hr_Body req = Some (Inr body) \<and> ParseQuery body = vs) \<and> Values_Get vs ''client_id'' = oc_ClientID p \<and>
     (if oc_ClientSecret p = [] then Values_Get vs ''client_secret'' = [] \<and> Header_Get (hr_Header req) ''Authorization'' = []
      else if oc_ClientSecretInBody p then Values_Get vs ''client_secret'' = oc_ClientSecret p \<and> Header_Get (hr_Header req) ''Authorization'' = []
      else Values_Get vs ''client_secret'' = [] \<and> Header_Get (hr_Header req) ''Authorization'' = basic_auth (oc_ClientID p) (oc_ClientSecret p))"

lemma oauth_header_names:
  "CanonicalHeaderKey ''Accept'' = ''Accept''" "CanonicalHeaderKey ''Content-Type'' = ''Content-Type''" "CanonicalHeaderKey ''Authorization'' = ''Authorization''"
  by code_simp+

lemma authorization_header:
  "Header_Get (hr_Header (token_request p u form)) ''Authorization'' =
     (if \<not> oc_ClientSecretInBody p \<and> oc_ClientSecret p \<noteq> [] then basic_auth (oc_ClientID p) (oc_ClientSecret p) else [])"
  by (simp add: token_request_def Let_def Header_Get_def Header_Set_def oauth_header_names)

lemma authenticated_token_request:
  assumes "single_valued (fold add_form_entry form [])" and "Values_Get (fold add_form_entry form []) ''client_secret'' = []"
  shows "\<exists>vs. authenticated_form p (token_request p u form) vs \<and>
    (\<forall>k. k \<noteq> ''client_id'' \<longrightarrow> k \<noteq> ''client_secret'' \<longrightarrow> Values_Get vs k = Values_Get (fold add_form_entry form []) k)"
proof (intro exI conjI)
  have m: "single_valued (token_form p form)" using assms(1) by (simp add: token_form_def Let_def)
  let ?vs = "ParseQuery (Values_Encode (token_form p form))"
  have b: "hr_Body (token_request p u form) = Some (Inr (Values_Encode (token_form p form)))" by (simp add: token_request_def Let_def)
  have g: "Values_Get (token_form p form) k = (if k = ''client_secret'' \<and> oc_ClientSecretInBody p \<and> oc_ClientSecret p \<noteq> [] then oc_ClientSecret p
     else if k = ''client_id'' then oc_ClientID p else Values_Get (fold add_form_entry form []) k)" for k
    by (simp add: token_form_def Let_def)
  show "authenticated_form p (token_request p u form) ?vs"
    unfolding authenticated_form_def authorization_header b Values_Get_encoded [OF m] g using assms(2) by auto
  show "\<forall>k. k \<noteq> ''client_id'' \<longrightarrow> k \<noteq> ''client_secret'' \<longrightarrow> Values_Get ?vs k = Values_Get (fold add_form_entry form []) k"
    unfolding Values_Get_encoded [OF m] g by auto
qed

lemma refresh_form_added:
  "single_valued (fold add_form_entry (refresh_form token requested) [])" "Values_Get (fold add_form_entry (refresh_form token requested) []) ''client_secret'' = []"
  "Values_Get (fold add_form_entry (refresh_form token requested) []) ''grant_type'' = ''refresh_token''"
  "Values_Get (fold add_form_entry (refresh_form token requested) []) ''refresh_token'' = TrimSpace token"
proof -
  have t: "TrimSpace ''refresh_token'' \<noteq> []" "TrimSpace ''grant_type'' \<noteq> []" "TrimSpace ''scope'' \<noteq> []" "TrimSpace ''refresh_token'' = ''refresh_token''" by code_simp+
  have "fold add_form_entry (refresh_form token requested) [] =
      [(''grant_type'', [''refresh_token'']), (''refresh_token'', [TrimSpace token])] @
      (if length requested > 0 then [(''scope'', [TrimSpace (join_with '' '' requested)])] else [])"
    using t by (simp add: refresh_form_def Let_def Values_Set_def add_form_entry_def values_add_def values_list_def)
  then show "single_valued (fold add_form_entry (refresh_form token requested) [])" "Values_Get (fold add_form_entry (refresh_form token requested) []) ''client_secret'' = []"
    "Values_Get (fold add_form_entry (refresh_form token requested) []) ''grant_type'' = ''refresh_token''"
    "Values_Get (fold add_form_entry (refresh_form token requested) []) ''refresh_token'' = TrimSpace token"
    by (auto simp: single_valued_def Values_Get_def)
qed

text \<open>
  C35: Refreshing never loses the account. A successful refresh sent one request to the token URL whose form, as the
  server parses it, holds the refresh token of the credential, and the client's credentials once, in the body or in the
  header as configured; the server answered with success and an access token; and the new credential has that access token and
  the refresh token the server returned or, when it returned none, the old one, so it can be refreshed again.
\<close>

theorem refresh_keeps_refresh_token:
  assumes "OAuth2_Refresh env (Some p) now cred n = (Inr r, n')"
  shows "\<exists>u req response token vs. cl_parseURL env (oc_TokenURL p) = Inr u \<and> hr_URL req = URL.truncate u \<and>
     oc_HTTPClient p req n = (Inr response, n') \<and> authenticated_form p req vs \<and>
     Values_Get vs ''grant_type'' = ''refresh_token'' \<and> Values_Get vs ''refresh_token'' = TrimSpace (ak_RefreshToken cred) \<and>
     200 \<le> hs_StatusCode response \<and> hs_StatusCode response < 300 \<and> decode_token env response = Inr token \<and>
     ak_AccessToken (rs_Credential r) = TrimSpace (tp_AccessToken token) \<and> ak_AccessToken (rs_Credential r) \<noteq> [] \<and>
     ak_RefreshToken (rs_Credential r) = (if TrimSpace (tp_RefreshToken token) \<noteq> [] then TrimSpace (tp_RefreshToken token) else ak_RefreshToken cred) \<and>
     TrimSpace (ak_RefreshToken (rs_Credential r)) \<noteq> [] \<and> ak_Refreshable (rs_Credential r)"
proof -
  let ?requested = "if length (pv_normalizeGrants (ak_RequestedScopes cred)) = 0 then oc_DefaultScopes p else pv_normalizeGrants (ak_RequestedScopes cred)"
  let ?form = "refresh_form (TrimSpace (ak_RefreshToken cred)) ?requested"
  have ne: "TrimSpace (ak_RefreshToken cred) \<noteq> []" using assms by (auto simp: OAuth2_Refresh_def Let_def split: if_splits)
  obtain f n1 where f: "fetchToken env p ?form n = (f, n1)" by fastforce
  obtain token where t: "f = Inr token" "n1 = n'" using assms ne f by (cases f) (auto simp: OAuth2_Refresh_def Let_def)
  have r: "ak_AccessToken (rs_Credential r) = TrimSpace (tp_AccessToken token)"
      "ak_RefreshToken (rs_Credential r) = (if TrimSpace (tp_RefreshToken token) \<noteq> [] then TrimSpace (tp_RefreshToken token) else ak_RefreshToken cred)"
      "ak_Refreshable (rs_Credential r) = (TrimSpace (ak_RefreshToken (rs_Credential r)) \<noteq> [])"
    using assms ne f t by (auto simp: OAuth2_Refresh_def Let_def)
  obtain u response where u: "cl_parseURL env (oc_TokenURL p) = Inr u" "oc_HTTPClient p (token_request p (URL.truncate u) ?form) n = (Inr response, n')"
      "decode_token env response = Inr token" using fetchToken_Inr [OF f [unfolded t]] .
  have d: "200 \<le> hs_StatusCode response" "hs_StatusCode response < 300" "TrimSpace (tp_AccessToken token) \<noteq> []"
    using u(3) by (auto elim: decode_token_Inr)
  obtain vs where v: "authenticated_form p (token_request p (URL.truncate u) ?form) vs"
      and g: "\<And>k. k \<noteq> ''client_id'' \<Longrightarrow> k \<noteq> ''client_secret'' \<Longrightarrow> Values_Get vs k = Values_Get (fold add_form_entry ?form []) k"
    using authenticated_token_request [OF refresh_form_added(1,2)] by blast
  have g: "Values_Get vs ''grant_type'' = ''refresh_token''" "Values_Get vs ''refresh_token'' = TrimSpace (ak_RefreshToken cred)"
    using g [of "''grant_type''"] g [of "''refresh_token''"] refresh_form_added(3,4) by simp_all
  have "hr_URL (token_request p (URL.truncate u) ?form) = URL.truncate u" by (simp add: token_request_def Let_def)
  then show ?thesis using u d v g r ne by (intro exI [of _ u] exI [of _ "token_request p (URL.truncate u) ?form"] exI [of _ response] exI [of _ token] exI [of _ vs]) simp
qed

definition sample_cred :: ActiveCredential where
  "sample_cred = zero_credential\<lparr>ak_RefreshToken := ''r1'', ak_GrantedScopes := [''read'']\<rparr>"

definition sample_payload_token :: tokenEndpointPayload where
  "sample_payload_token = \<lparr>tp_AccessToken = ''at'', tp_TokenType = [], tp_RefreshToken = ''r2'', tp_IDToken = [], tp_Scope = [], tp_ExpiresIn = 0, tp_ErrorCode = [], tp_ErrorDescription = []\<rparr>"

lemma sample_fetch: "fetchToken sample_client sample_oauth2 form [] = (Inr sample_payload_token, [''token''])"
proof -
  have p: "parseTokenPayload sample_client ''access_token=at&refresh_token=r2'' (Header_Get [] ''Content-Type'') = Inr sample_payload_token"
    and u: "TrimSpace (oc_TokenURL sample_oauth2) \<noteq> []"
    and t: "tp_ErrorCode sample_payload_token = []" "TrimSpace (tp_AccessToken sample_payload_token) \<noteq> []" by code_simp+
  obtain v where v: "cl_parseURL sample_client (oc_TokenURL sample_oauth2) = Inr v" by (simp add: sample_client_def)
  have "decode_token sample_client \<lparr>hs_StatusCode = 200, hs_Header = [], hs_Read = \<lambda>_. Inr ''access_token=at&refresh_token=r2''\<rparr> = Inr sample_payload_token"
    using p t by (simp add: decode_token_def maxTokenResponseBodyBytes_def)
  then show ?thesis using u v by (simp add: fetchToken_def) (simp add: sample_oauth2_def)
qed

theorem refresh_keeps_refresh_token_witness:
  "\<exists>r. OAuth2_Refresh sample_client (Some sample_oauth2) 0 sample_cred [] = (Inr r, [''token'']) \<and>
     ak_AccessToken (rs_Credential r) = ''at'' \<and> TrimSpace (ak_RefreshToken (rs_Credential r)) \<noteq> [] \<and> ak_Refreshable (rs_Credential r)"
proof -
  have "TrimSpace (ak_RefreshToken sample_cred) \<noteq> []" and a: "TrimSpace (tp_AccessToken sample_payload_token) = ''at''" by code_simp+
  then obtain r where r: "OAuth2_Refresh sample_client (Some sample_oauth2) 0 sample_cred [] = (Inr r, [''token''])"
      "ak_AccessToken (rs_Credential r) = TrimSpace (tp_AccessToken sample_payload_token)"
    by (simp add: OAuth2_Refresh_def Let_def sample_fetch)
  from refresh_keeps_refresh_token [OF r(1)] r a show ?thesis by metis
qed

text \<open>A time to live of more than 292 years wraps around to one that is not positive, and the credential gets no expiry.\<close>

lemma long_expiry_is_lost: "resolveExpiresAt p now 9223372037 = None"
  by (simp add: resolveExpiresAt_def wrap64_def Second_def)

section \<open>Whose account it is\<close>

lemma map_of_add_trimmed:
  "\<forall>k \<in> fst ` set kvs. TrimSpace k = x \<longrightarrow> k = x \<Longrightarrow> gomap_ok kvs \<Longrightarrow> TrimSpace x = x \<Longrightarrow> x \<noteq> [] \<Longrightarrow>
   map_of (fold add_trimmed kvs m) x = (case map_of kvs x of Some v \<Rightarrow> Some v | None \<Rightarrow> map_of m x)"
proof (induction kvs arbitrary: m)
  case (Cons kv kvs)
  obtain k v where kv: "kv = (k, v)" by fastforce
  have k: "map_of (add_trimmed kv m) x = (if k = x then Some v else map_of m x)"
    using Cons.prems by (auto simp: add_trimmed_def kv)
  have x: "k = x \<Longrightarrow> map_of kvs x = None" using Cons.prems(2) by (auto simp: kv map_of_eq_None_iff)
  show ?case using Cons.IH [of "add_trimmed kv m"] Cons.prems k x by (auto simp: kv split: option.split)
qed simp

lemma merged_id_token:
  assumes "TrimSpace (tp_IDToken token) \<noteq> []" and "gomap_ok metadata"
    and "\<forall>k \<in> fst ` set metadata. TrimSpace k = ''id_token'' \<longrightarrow> k = ''id_token''"
  shows "meta_get (id_mergeMetadata base (resolver_metadata token metadata)) ''id_token'' = AStr (TrimSpace (tp_IDToken token))"
proof -
  have id: "TrimSpace ''id_token'' = ''id_token''" by code_simp
  have r: "resolver_metadata token metadata = AList.update ''id_token'' (AStr (TrimSpace (tp_IDToken token))) metadata"
    using assms(1,2) by (simp add: resolver_metadata_def)
  have k: "\<forall>k \<in> fst ` set (resolver_metadata token metadata). TrimSpace k = ''id_token'' \<longrightarrow> k = ''id_token''"
    using assms(3) unfolding r dom_update by auto
  have "map_of (id_mergeMetadata base (resolver_metadata token metadata)) ''id_token'' = Some (AStr (TrimSpace (tp_IDToken token)))"
    unfolding id_mergeMetadata_def using assms(2) by (subst map_of_add_trimmed [OF k _ id]) (simp_all add: r)
  then show ?thesis by (simp add: meta_get_def)
qed

lemma external_account_nonempty:
  "TrimSpace (up_Subject profile) \<noteq> [] \<Longrightarrow> TrimSpace (UserProfile_ExternalAccountID profile) \<noteq> []"
proof -
  assume s: "TrimSpace (up_Subject profile) \<noteq> []"
  have "CHR ''|'' \<in> set (a @ ''|'' @ b) \<and> \<not> is_space (CHR ''|'')" for a b by (simp add: is_space_def)
  with s show ?thesis unfolding UserProfile_ExternalAccountID_def Let_def
    by (simp add: TrimSpace_eq_Nil_iff) (metis TrimSpace_eq_Nil_iff TrimSpace_idem is_space_def)
qed

lemma CompleteAuth_Inr:
  assumes "OAuth2_CompleteAuth env (Some p) now req n = (Inr resp, n')"
    and "fetchToken env p (code_form (TrimSpace (ca_Code req)) (ca_RedirectURI req)) n = (Inr token, n1)"
  obtains cred profileMetadata where
    "resolve_account env p cred token (ca_Metadata req) n1 = ((cp_ExternalAccountID resp, profileMetadata), n')"
    "ak_AccessToken cred = TrimSpace (tp_AccessToken token)" "cp_ExternalAccountID resp \<noteq> []" "ak_AccessToken (cp_Credential resp) = ak_AccessToken cred"
proof -
  have ok: "ScopeRef_Validate (ca_Scope req) = None" "TrimSpace (ca_Code req) \<noteq> []"
    using assms(1) by (auto simp: OAuth2_CompleteAuth_def Let_def split: option.splits if_splits)
  define requested where "requested = (let r = pv_normalizeGrants (pv_readStringSlice env (ca_Metadata req) ''requested_grants'') in if length r = 0 then oc_DefaultScopes p else r)"
  define granted where "granted = (let g = pv_normalizeGrants (pv_parseScopeList (tp_Scope token));
     g = (if length g = 0 then pv_normalizeGrants (pv_readStringSlice env (ca_Metadata req) ''granted_grants'') else g) in if length g = 0 then requested else g)"
  define cred where "cred = zero_credential\<lparr>ak_TokenType := normalizeTokenType (tp_TokenType token), ak_AccessToken := TrimSpace (tp_AccessToken token),
     ak_RefreshToken := TrimSpace (tp_RefreshToken token), ak_RequestedScopes := requested, ak_GrantedScopes := granted,
     ak_ExpiresAt := resolveExpiresAt p now (tp_ExpiresIn token), ak_Refreshable := (TrimSpace (tp_RefreshToken token) \<noteq> []), ak_Metadata := token_metadata p token []\<rparr>"
  obtain acc pm n2 where a: "resolve_account env p cred token (ca_Metadata req) n1 = ((acc, pm), n2)" by (metis surj_pair)
  have "acc \<noteq> [] \<and> cp_ExternalAccountID resp = acc \<and> n2 = n' \<and> ak_AccessToken (cp_Credential resp) = ak_AccessToken cred"
    using assms ok a unfolding OAuth2_CompleteAuth_def Let_def cred_def granted_def requested_def by (auto split: if_splits)
  then show thesis using a by (intro that [of cred pm]) (auto simp: cred_def)
qed


lemma Resolve_verified:
  assumes "rv_idTokenVerifier r = Some verify" and "TrimSpace (id_readString env (meta_get (id_mergeMetadata (ak_Metadata cred) metadata) ''id_token'')) = idToken"
    and "idToken \<noteq> []" and "\<And>md. verify (normalizeProviderID providerID) idToken md n = (Inr claims, n')"
    and "profile = normalizeOIDCProfile env (normalizeProviderID providerID) (issuer_or_default env (normalizeProviderID providerID) (copyAnyMap claims)) (copyAnyMap claims)"
    and "TrimSpace (up_Subject profile) \<noteq> []"
  shows "Resolve env (Some r) providerID cred metadata n = (Inr profile, n')"
  using assms by (simp add: Resolve_def Let_def profileFromIDToken_def decodeVerifiedOrRawIDToken_def)

definition sample_claims :: meta where
  "sample_claims = [(''iss'', AStr ''i''), (''sub'', AStr ''s'')]"

definition sample_resolver :: "string list Resolver" where
  "sample_resolver = NewResolver sample_client (\<lambda>req n. (Inl (Plain ''down''), n)) (Some (\<lambda>provider token md n. if token = ''j'' then (Inr sample_claims, n) else (Inl (Plain ''bad token''), n))) []"

definition sample_oauth2_id :: "string list OAuth2Config" where
  "sample_oauth2_id = sample_oauth2\<lparr>oc_ProfileResolver := Some (Resolve sample_client (Some sample_resolver)),
     oc_HTTPClient := \<lambda>req n. (Inr \<lparr>hs_StatusCode = 200, hs_Header = [], hs_Read = \<lambda>_. Inr ''access_token=at&id_token=j''\<rparr>, n @ [''token''])\<rparr>"

definition sample_id_token :: tokenEndpointPayload where
  "sample_id_token = \<lparr>tp_AccessToken = ''at'', tp_TokenType = [], tp_RefreshToken = [], tp_IDToken = ''j'', tp_Scope = [], tp_ExpiresIn = 0, tp_ErrorCode = [], tp_ErrorDescription = []\<rparr>"

definition sample_complete :: CompleteAuthRequest where
  "sample_complete = \<lparr>ca_ProviderID = ''p'', ca_Scope = \<lparr>scope_Type = ''user'', scope_ID = ''u''\<rparr>, ca_Code = ''code'', ca_State = [], ca_RedirectURI = [], ca_Metadata = []\<rparr>"

lemma sample_fetch_id: "fetchToken sample_client sample_oauth2_id form n = (Inr sample_id_token, n @ [''token''])"
proof -
  have p: "parseTokenPayload sample_client ''access_token=at&id_token=j'' (Header_Get [] ''Content-Type'') = Inr sample_id_token"
    and u: "TrimSpace (oc_TokenURL sample_oauth2_id) \<noteq> []"
    and t: "tp_ErrorCode sample_id_token = []" "TrimSpace (tp_AccessToken sample_id_token) \<noteq> []" by code_simp+
  obtain v where v: "cl_parseURL sample_client (oc_TokenURL sample_oauth2_id) = Inr v" by (simp add: sample_client_def)
  have "decode_token sample_client \<lparr>hs_StatusCode = 200, hs_Header = [], hs_Read = \<lambda>_. Inr ''access_token=at&id_token=j''\<rparr> = Inr sample_id_token"
    using p t by (simp add: decode_token_def maxTokenResponseBodyBytes_def)
  then show ?thesis using u v by (simp add: fetchToken_def) (simp add: sample_oauth2_id_def)
qed

definition sample_profile :: UserProfile where
  "sample_profile = normalizeOIDCProfile sample_client ''p'' ''i'' sample_claims"

lemma sample_resolves:
  "resolve_account sample_client sample_oauth2_id cred sample_id_token (ca_Metadata sample_complete) n =
     ((''i|s'', UserProfile_Map sample_profile), n)"
proof -
  have id: "oc_ID sample_oauth2_id = ''p''" and r: "oc_ProfileResolver sample_oauth2_id = Some (Resolve sample_client (Some sample_resolver))"
    by (simp_all add: sample_oauth2_id_def sample_oauth2_def)
  have n: "normalizeProviderID ''p'' = ''p''" "issuer_or_default sample_client ''p'' sample_claims = ''i''" "copyAnyMap sample_claims = sample_claims"
    and s: "TrimSpace (up_Subject sample_profile) \<noteq> []" "TrimSpace (UserProfile_ExternalAccountID sample_profile) = ''i|s''"
    and j: "TrimSpace (tp_IDToken sample_id_token) = ''j''" and m: "ca_Metadata sample_complete = []"
    and e: "TrimSpace (pv_readString sample_client [] ''external_account_id'') = []" and tj: "TrimSpace ''j'' = ''j''" by code_simp+
  have "meta_get (id_mergeMetadata (ak_Metadata cred) (resolver_metadata sample_id_token [])) ''id_token'' = AStr ''j''"
    using merged_id_token [of sample_id_token "[]" "ak_Metadata cred"] by (simp add: j)
  then have "Resolve sample_client (Some sample_resolver) ''p'' cred (resolver_metadata sample_id_token []) n = (Inr sample_profile, n)"
    by (intro Resolve_verified [where idToken = "''j''" and claims = sample_claims and
          verify = "\<lambda>provider token md n. if token = ''j'' then (Inr sample_claims, n) else (Inl (Plain ''bad token''), n)"])
      (use s(1) in \<open>simp_all add: sample_resolver_def NewResolver_def n sample_profile_def tj\<close>)
  then show ?thesis by (simp add: resolve_account_def Let_def m e r id s)
qed


end
