(* ===== verification/Webhook_Templates.thy ===== *)
theory Webhook_Templates
  imports Webhook_Processor Http_Client Signing
begin

text \<open>
  \<open>src/webhooks/templates.go\<close> and the webhook files of the providers under \<open>src/providers\<close>: how the request of a
  webhook is verified, how its delivery id is found, and how its payload becomes an event. The verifiers are the ones the
  processor of \<open>Webhook_Processor\<close> runs. HMAC-SHA256, the decoding of JSON bodies and \<open>time.Parse\<close> are arguments.
\<close>

section \<open>Hexadecimal\<close>

text \<open>\<open>hex.DecodeString\<close>\<close>

fun hex_decode :: "string \<Rightarrow> string option" where
  "hex_decode [] = Some []"
| "hex_decode [c] = None"
| "hex_decode (c # d # s) =
     (case (unhex c, unhex d) of
        (Some a, Some b) \<Rightarrow> map_option ((#) (char_of (16 * a + b))) (hex_decode s)
      | _ \<Rightarrow> None)"

lemma unhex_hex_lower: "n < 16 \<Longrightarrow> unhex (hex_lower n) = Some n"
  by (auto simp: unhex_def hex_lower_def Let_def)

lemma hex_decode_encode [simp]: "hex_decode (hex_encode s) = Some s"
proof (induction s)
  case (Cons c s)
  have b: "of_char c div 16 < (16 :: nat)" "of_char c mod 16 < (16 :: nat)" using of_char_less_256 [of c] by (simp_all add: less_mult_imp_div_less)
  have "16 * (of_char c div 16) + of_char c mod 16 = (of_char c :: nat)" by simp
  then have "char_of (16 * (of_char c div 16) + of_char c mod 16 :: nat) = c" by (simp only: char_of_char)
  then show ?case using Cons unhex_hex_lower [OF b(1)] unhex_hex_lower [OF b(2)] by (simp add: hex_encode_def)
qed (simp add: hex_encode_def)

section \<open>Verifiers\<close>

record HeaderHMACVerifier =
  hv_Header :: string
  hv_Prefix :: string
  hv_Secret :: string
  hv_Encoding :: string

definition signature_bytes :: "string \<Rightarrow> string \<Rightarrow> string option" where
  "signature_bytes encoding signature =
     (if ToLower (TrimSpace encoding) = ''base64'' then decode64 False True signature else hex_decode signature)"

definition HeaderHMACVerifier_Verify :: "(string \<Rightarrow> string \<Rightarrow> string) \<Rightarrow> HeaderHMACVerifier \<Rightarrow> InboundRequest \<Rightarrow> goerr option" where
  "HeaderHMACVerifier_Verify hmac v req =
     (let header = TrimSpace (headerValue (ir_Headers req) (hv_Header v)) in
      if header = [] then Some (Plain (''webhooks: '' @ TrimSpace (hv_Header v) @ '' signature header is required''))
      else let secret = TrimSpace (hv_Secret v) in
      if secret = [] then Some (Plain ''webhooks: signature secret is required'')
      else let signature = TrimSpace (TrimPrefix header (TrimSpace (hv_Prefix v))) in
      if signature = [] then Some (Plain ''webhooks: signature value is required'')
      else let expected = hmac secret (ir_Body req) in
      case signature_bytes (hv_Encoding v) signature of
        None \<Rightarrow>
          (let e = (if ToLower (TrimSpace (hv_Encoding v)) = ''base64'' then ''webhooks: decode base64 signature: '' else ''webhooks: decode hex signature: '')
           in Some (Wrapped (e @ ''invalid signature'') [Plain ''invalid signature'']))
      | Some decoded \<Rightarrow> if decoded \<noteq> expected then Some (Plain ''webhooks: signature verification failed'') else None)"

record HeaderTokenVerifier =
  tv_Header :: string
  tv_Token :: string

definition HeaderTokenVerifier_Verify :: "HeaderTokenVerifier \<Rightarrow> InboundRequest \<Rightarrow> goerr option" where
  "HeaderTokenVerifier_Verify v req =
     (let expected = TrimSpace (tv_Token v) in
      if expected = [] then Some (Plain ''webhooks: verification token is required'')
      else let actual = TrimSpace (headerValue (ir_Headers req) (tv_Header v)) in
      if actual = [] then Some (Plain (''webhooks: '' @ TrimSpace (tv_Header v) @ '' verification header is required''))
      else if actual \<noteq> expected then Some (Plain ''webhooks: verification token mismatch'') else None)"

section \<open>Delivery ids\<close>

fun HeaderDeliveryIDExtractor :: "string list \<Rightarrow> InboundRequest \<Rightarrow> string result" where
  "HeaderDeliveryIDExtractor [] req = Inl (Plain ''webhooks: delivery id is required for dedupe'')"
| "HeaderDeliveryIDExtractor (key # keys) req =
     (let value = TrimSpace (headerValue (ir_Headers req) key) in
      if value \<noteq> [] then Inr value else HeaderDeliveryIDExtractor keys req)"

text \<open>The extractors in turn; \<open>lastErr\<close> is the error of the last one that failed.\<close>

fun chain_extractors :: "goerr option \<Rightarrow> (InboundRequest \<Rightarrow> string result) option list \<Rightarrow> InboundRequest \<Rightarrow> string result" where
  "chain_extractors lastErr [] req =
     (case lastErr of Some err \<Rightarrow> Inl err | None \<Rightarrow> Inl (Plain ''webhooks: delivery id is required for dedupe''))"
| "chain_extractors lastErr (None # list) req = chain_extractors lastErr list req"
| "chain_extractors lastErr (Some extractor # list) req =
     (case extractor req of
        Inl err \<Rightarrow> chain_extractors (Some err) list req
      | Inr deliveryID \<Rightarrow> if TrimSpace deliveryID \<noteq> [] then Inr (TrimSpace deliveryID) else chain_extractors lastErr list req)"

definition ChainDeliveryIDExtractors :: "(InboundRequest \<Rightarrow> string result) option list \<Rightarrow> InboundRequest \<Rightarrow> string result" where
  "ChainDeliveryIDExtractors = chain_extractors None"

section \<open>Templates\<close>

record ProviderWebhookTemplate =
  wt_ProviderID :: string
  wt_Verifier :: "InboundRequest \<Rightarrow> goerr option"
  wt_Extractor :: "InboundRequest \<Rightarrow> string result"

definition hmac_template ::
  "(string \<Rightarrow> string \<Rightarrow> string) \<Rightarrow> string \<Rightarrow> string \<Rightarrow> string \<Rightarrow> string \<Rightarrow> string \<Rightarrow> string list \<Rightarrow> ProviderWebhookTemplate" where
  "hmac_template hmac provider header prefix encoding secret keys =
     \<lparr>wt_ProviderID = provider,
      wt_Verifier = HeaderHMACVerifier_Verify hmac \<lparr>hv_Header = header, hv_Prefix = prefix, hv_Secret = TrimSpace secret, hv_Encoding = encoding\<rparr>,
      wt_Extractor = HeaderDeliveryIDExtractor keys\<rparr>"

definition NewShopifyWebhookTemplate :: "(string \<Rightarrow> string \<Rightarrow> string) \<Rightarrow> string \<Rightarrow> ProviderWebhookTemplate" where
  "NewShopifyWebhookTemplate hmac secret =
     hmac_template hmac ''shopify'' ''X-Shopify-Hmac-Sha256'' [] ''base64'' secret [''X-Shopify-Webhook-Id'', ''X-Request-Id'']"

definition NewMetaWebhookTemplate :: "(string \<Rightarrow> string \<Rightarrow> string) \<Rightarrow> string \<Rightarrow> ProviderWebhookTemplate" where
  "NewMetaWebhookTemplate hmac secret =
     hmac_template hmac ''meta'' ''X-Hub-Signature-256'' ''sha256='' ''hex'' secret [''X-Meta-Delivery-Id'', ''X-Hub-Signature-256'']"

definition NewTikTokWebhookTemplate :: "(string \<Rightarrow> string \<Rightarrow> string) \<Rightarrow> string \<Rightarrow> ProviderWebhookTemplate" where
  "NewTikTokWebhookTemplate hmac secret =
     hmac_template hmac ''tiktok'' ''X-Tt-Signature'' [] ''hex'' secret [''X-Tt-Request-Id'', ''X-Tt-Logid'']"

definition NewPinterestWebhookTemplate :: "(string \<Rightarrow> string \<Rightarrow> string) \<Rightarrow> string \<Rightarrow> ProviderWebhookTemplate" where
  "NewPinterestWebhookTemplate hmac secret =
     hmac_template hmac ''pinterest'' ''X-Pinterest-Hmac-Sha256'' [] ''hex'' secret [''X-Pinterest-Delivery-Id'', ''X-Pinterest-Request-Id'']"

definition token_template :: "string \<Rightarrow> string \<Rightarrow> string \<Rightarrow> string list \<Rightarrow> ProviderWebhookTemplate" where
  "token_template provider header token keys =
     \<lparr>wt_ProviderID = provider, wt_Verifier = HeaderTokenVerifier_Verify \<lparr>tv_Header = header, tv_Token = TrimSpace token\<rparr>,
      wt_Extractor = HeaderDeliveryIDExtractor keys\<rparr>"

definition NewGoogleWebhookTemplate :: "string \<Rightarrow> ProviderWebhookTemplate" where
  "NewGoogleWebhookTemplate channelToken =
     token_template ''google'' ''X-Goog-Channel-Token'' channelToken [''X-Goog-Message-Number'', ''X-Goog-Resource-Id'']"

definition NewAmazonWebhookTemplate :: "string \<Rightarrow> ProviderWebhookTemplate" where
  "NewAmazonWebhookTemplate signatureToken =
     token_template ''amazon'' ''X-Amz-Signature'' signatureToken [''X-Amz-Sns-Message-Id'', ''X-Amz-Request-Id'']"

section \<open>Shopify\<close>

definition shopifyHeaderHMAC :: string where "shopifyHeaderHMAC = ''X-Shopify-Hmac-Sha256''"
definition shopifyHeaderDeliveryID :: string where "shopifyHeaderDeliveryID = ''X-Shopify-Webhook-Id''"
definition shopifyHeaderTriggered :: string where "shopifyHeaderTriggered = ''X-Shopify-Triggered-At''"
definition defaultWebhookReplayWindow :: int where "defaultWebhookReplayWindow = 5 * Minute"

record ShopifyWebhookVerifier =
  sw_Secret :: string
  sw_ReplayWindow :: int
  sw_RequireTriggeredAt :: bool

definition shopify_ExtractDeliveryID :: "InboundRequest \<Rightarrow> string result" where
  "shopify_ExtractDeliveryID req =
     (let deliveryID = TrimSpace (headerValue (ir_Headers req) shopifyHeaderDeliveryID) in
      if deliveryID = [] then Inl (Plain (''providers/shopify: '' @ shopifyHeaderDeliveryID @ '' header is required for dedupe'')) else Inr deliveryID)"

text \<open>The difference of two times is cut off at the ends of \<open>int64\<close>; the negation of the smallest wraps around.\<close>

definition ShopifyWebhookVerifier_Verify ::
  "(string \<Rightarrow> string \<Rightarrow> string) \<Rightarrow> (string \<Rightarrow> int result) \<Rightarrow> (goerr \<Rightarrow> string) \<Rightarrow> int \<Rightarrow> ShopifyWebhookVerifier \<Rightarrow> InboundRequest \<Rightarrow> goerr option" where
  "ShopifyWebhookVerifier_Verify hmac parse render now v req =
     (case HeaderHMACVerifier_Verify hmac \<lparr>hv_Header = shopifyHeaderHMAC, hv_Prefix = [], hv_Secret = TrimSpace (sw_Secret v), hv_Encoding = ''base64''\<rparr> req of
        Some err \<Rightarrow> Some err
      | None \<Rightarrow>
          (case shopify_ExtractDeliveryID req of
             Inl err \<Rightarrow> Some err
           | Inr deliveryID \<Rightarrow>
               if TrimSpace deliveryID = [] then Some (Plain ''providers/shopify: delivery id is required'')
               else let triggered = TrimSpace (headerValue (ir_Headers req) shopifyHeaderTriggered) in
               if triggered = []
               then (if sw_RequireTriggeredAt v then Some (Plain (''providers/shopify: '' @ shopifyHeaderTriggered @ '' header is required'')) else None)
               else case parse triggered of
                 Inl err \<Rightarrow> Some (Wrapped (''providers/shopify: parse '' @ shopifyHeaderTriggered @ '': '' @ err_Error render err) [err])
               | Inr triggeredAt \<Rightarrow>
                   (let window = (if sw_ReplayWindow v \<le> 0 then defaultWebhookReplayWindow else sw_ReplayWindow v);
                        delta = time_Sub now triggeredAt;
                        delta = (if delta < 0 then wrap64 (- delta) else delta)
                    in if delta > window then Some (Plain ''providers/shopify: webhook trigger time outside replay window'') else None)))"

definition shopify_NewWebhookTemplate ::
  "(string \<Rightarrow> string \<Rightarrow> string) \<Rightarrow> (string \<Rightarrow> int result) \<Rightarrow> (goerr \<Rightarrow> string) \<Rightarrow> int \<Rightarrow> ShopifyWebhookVerifier \<Rightarrow> ProviderWebhookTemplate" where
  "shopify_NewWebhookTemplate hmac parse render now cfg =
     \<lparr>wt_ProviderID = ''shopify'',
      wt_Verifier = ShopifyWebhookVerifier_Verify hmac parse render now (cfg\<lparr>sw_Secret := TrimSpace (sw_Secret cfg)\<rparr>),
      wt_Extractor = shopify_ExtractDeliveryID\<rparr>"

section \<open>Events of the other providers\<close>

text \<open>
  What the JSON decoder puts into the raw structs is given by \<open>json\<close>, from a body to the fields.
\<close>

definition webhook_string :: "(int \<Rightarrow> int \<Rightarrow> string) \<Rightarrow> any \<Rightarrow> string" where
  "webhook_string ff value = (case value of ANil \<Rightarrow> [] | v \<Rightarrow> TrimSpace (Sprint ff v))"

record PollSyncGuidance =
  pg_Required :: bool
  pg_Interval :: int
  pg_Reason :: string

record NormalizedWebhookEvent =
  ne_ProviderID :: string
  ne_DeliveryID :: string
  ne_EventType :: string
  ne_ResourceID :: string
  ne_RequiresPollSync :: bool
  ne_PollSyncReason :: string

subsection \<open>TikTok\<close>

record tiktok_payload =
  tk_Event :: string
  tk_Type :: string
  tk_Data :: meta

definition tiktok_NormalizeWebhookEvent ::
  "(string \<Rightarrow> tiktok_payload result) \<Rightarrow> (int \<Rightarrow> int \<Rightarrow> string) \<Rightarrow> (goerr \<Rightarrow> string) \<Rightarrow> InboundRequest \<Rightarrow> NormalizedWebhookEvent result" where
  "tiktok_NormalizeWebhookEvent json ff render req =
     (case HeaderDeliveryIDExtractor [''X-Tt-Request-Id'', ''X-Tt-Logid''] req of
        Inl err \<Rightarrow> Inl err
      | Inr deliveryID \<Rightarrow>
          (case (if length (ir_Body req) > 0 then json (ir_Body req) else Inr \<lparr>tk_Event = [], tk_Type = [], tk_Data = []\<rparr>) of
             Inl err \<Rightarrow> Inl (Wrapped (''providers/tiktok: parse webhook payload: '' @ err_Error render err) [err])
           | Inr payload \<Rightarrow>
               (let eventType = TrimSpace (ToLower (firstNonEmpty [tk_Event payload, tk_Type payload]));
                    eventType = (if eventType = [] then ''unknown'' else eventType);
                    field = (\<lambda>k. TrimSpace (webhook_string ff (meta_get (tk_Data payload) k)));
                    resourceID = field ''video_id'';
                    resourceID = (if resourceID = [] then field ''id'' else resourceID);
                    resourceID = (if resourceID = [] then field ''user_id'' else resourceID);
                    requiresPoll = (resourceID = [])
                in Inr \<lparr>ne_ProviderID = ''tiktok'', ne_DeliveryID = deliveryID, ne_EventType = eventType, ne_ResourceID = resourceID,
                     ne_RequiresPollSync = requiresPoll,
                     ne_PollSyncReason = (if requiresPoll then ''tiktok webhook payload missing stable resource id; use poll sync fallback'' else [])\<rparr>)))"

definition tiktok_ResolvePollSyncGuidance :: "NormalizedWebhookEvent \<Rightarrow> PollSyncGuidance" where
  "tiktok_ResolvePollSyncGuidance event =
     (if ne_RequiresPollSync event then \<lparr>pg_Required = True, pg_Interval = 5 * Minute, pg_Reason = ne_PollSyncReason event\<rparr>
      else if Contains (ne_EventType event) ''video''
      then \<lparr>pg_Required = False, pg_Interval = 15 * Minute, pg_Reason = ''tiktok webhook should be confirmed with periodic poll sync''\<rparr>
      else \<lparr>pg_Required = False, pg_Interval = 30 * Minute, pg_Reason = ''tiktok event type has limited payload context''\<rparr>)"

subsection \<open>Pinterest\<close>

record pinterest_payload =
  pn_EventType :: string
  pn_Event :: string
  pn_EntityID :: string
  pn_Data :: meta

definition pinterest_NormalizeWebhookEvent ::
  "(string \<Rightarrow> pinterest_payload result) \<Rightarrow> (int \<Rightarrow> int \<Rightarrow> string) \<Rightarrow> (goerr \<Rightarrow> string) \<Rightarrow> InboundRequest \<Rightarrow> NormalizedWebhookEvent result" where
  "pinterest_NormalizeWebhookEvent json ff render req =
     (case HeaderDeliveryIDExtractor [''X-Pinterest-Delivery-Id'', ''X-Pinterest-Request-Id''] req of
        Inl err \<Rightarrow> Inl err
      | Inr deliveryID \<Rightarrow>
          (case (if length (ir_Body req) > 0 then json (ir_Body req) else Inr \<lparr>pn_EventType = [], pn_Event = [], pn_EntityID = [], pn_Data = []\<rparr>) of
             Inl err \<Rightarrow> Inl (Wrapped (''providers/pinterest: parse webhook payload: '' @ err_Error render err) [err])
           | Inr payload \<Rightarrow>
               (let eventType = TrimSpace (ToLower (firstNonEmpty [pn_EventType payload, pn_Event payload]));
                    eventType = (if eventType = [] then ''unknown'' else eventType);
                    field = (\<lambda>k. TrimSpace (webhook_string ff (meta_get (pn_Data payload) k)));
                    resourceID = TrimSpace (pn_EntityID payload);
                    resourceID = (if resourceID = [] then field ''entity_id'' else resourceID);
                    resourceID = (if resourceID = [] then field ''pin_id'' else resourceID);
                    resourceID = (if resourceID = [] then field ''board_id'' else resourceID);
                    requiresPoll = (resourceID = [] \<or> HasPrefix eventType ''board.'')
                in Inr \<lparr>ne_ProviderID = ''pinterest'', ne_DeliveryID = deliveryID, ne_EventType = eventType, ne_ResourceID = resourceID,
                     ne_RequiresPollSync = requiresPoll,
                     ne_PollSyncReason = (if requiresPoll then ''pinterest webhook payload is insufficient for deterministic incremental processing; run poll sync'' else [])\<rparr>)))"

definition pinterest_ResolvePollSyncGuidance :: "NormalizedWebhookEvent \<Rightarrow> PollSyncGuidance" where
  "pinterest_ResolvePollSyncGuidance event =
     (if ne_RequiresPollSync event then \<lparr>pg_Required = True, pg_Interval = 10 * Minute, pg_Reason = ne_PollSyncReason event\<rparr>
      else if HasPrefix (ne_EventType event) ''pin.''
      then \<lparr>pg_Required = False, pg_Interval = 20 * Minute, pg_Reason = ''pinterest pin events should be periodically reconciled with poll sync''\<rparr>
      else \<lparr>pg_Required = False, pg_Interval = 30 * Minute, pg_Reason = ''pinterest event should be reconciled with scheduled poll sync''\<rparr>)"

subsection \<open>Amazon\<close>

record NormalizedNotification =
  nn_ProviderID :: string
  nn_DeliveryID :: string
  nn_NotificationType :: string
  nn_ResourceID :: string
  nn_SellerID :: string
  nn_EventAt :: string
  nn_RequiresPollSync :: bool
  nn_PollSyncReason :: string

record amazon_envelope =
  ae_Type :: string
  ae_MessageID :: string
  ae_Subject :: string
  ae_Timestamp :: string
  ae_Message :: string

fun amazon_readString :: "(int \<Rightarrow> int \<Rightarrow> string) \<Rightarrow> meta \<Rightarrow> string list \<Rightarrow> string" where
  "amazon_readString ff metadata [] = []"
| "amazon_readString ff metadata (key # keys) =
     (let trimmed = webhook_string ff (meta_get metadata key) in if trimmed \<noteq> [] then trimmed else amazon_readString ff metadata keys)"

definition readNestedString :: "(int \<Rightarrow> int \<Rightarrow> string) \<Rightarrow> meta \<Rightarrow> string \<Rightarrow> string \<Rightarrow> string" where
  "readNestedString ff metadata parent key =
     (case meta_get metadata parent of AObj nested \<Rightarrow> amazon_readString ff nested [key] | _ \<Rightarrow> [])"

text \<open>\<open>message\<close> decodes the inner document; when it does not parse, what was read of it so far is kept.\<close>

definition NormalizeNotification ::
  "(string \<Rightarrow> amazon_envelope result) \<Rightarrow> (string \<Rightarrow> meta) \<Rightarrow> (int \<Rightarrow> int \<Rightarrow> string) \<Rightarrow> (goerr \<Rightarrow> string) \<Rightarrow> InboundRequest \<Rightarrow> NormalizedNotification result" where
  "NormalizeNotification json message_of ff render req =
     (case HeaderDeliveryIDExtractor [''X-Amz-Sns-Message-Id'', ''X-Amz-Request-Id''] req of
        Inl err \<Rightarrow> Inl err
      | Inr deliveryID \<Rightarrow>
          (case (if length (ir_Body req) > 0 then json (ir_Body req)
                 else Inr \<lparr>ae_Type = [], ae_MessageID = [], ae_Subject = [], ae_Timestamp = [], ae_Message = []\<rparr>) of
             Inl err \<Rightarrow> Inl (Wrapped (''providers/amazon: parse notification envelope: '' @ err_Error render err) [err])
           | Inr envelope \<Rightarrow>
               (let message = (if TrimSpace (ae_Message envelope) \<noteq> [] then message_of (TrimSpace (ae_Message envelope)) else []);
                    notificationType = TrimSpace (ToLower (firstNonEmpty
                      [amazon_readString ff message [''NotificationType'', ''notificationType'', ''event_type''], ae_Subject envelope,
                       headerValue (ir_Headers req) ''X-Amz-Notification-Type'']));
                    notificationType = (if notificationType = [] then ''unknown'' else notificationType);
                    resourceID = TrimSpace (firstNonEmpty
                      [readNestedString ff message ''Payload'' ''AmazonOrderId'', readNestedString ff message ''Payload'' ''Asin'',
                       readNestedString ff message ''NotificationMetadata'' ''OrderId'',
                       amazon_readString ff message [''amazon_order_id'', ''order_id'', ''resource_id'']]);
                    sellerID = TrimSpace (firstNonEmpty
                      [readNestedString ff message ''NotificationMetadata'' ''SellerId'', readNestedString ff message ''Payload'' ''SellerId'',
                       amazon_readString ff message [''seller_id'', ''SellerId'']])
                in Inr \<lparr>nn_ProviderID = ''amazon'', nn_DeliveryID = deliveryID, nn_NotificationType = notificationType, nn_ResourceID = resourceID,
                     nn_SellerID = sellerID, nn_EventAt = TrimSpace (ae_Timestamp envelope), nn_RequiresPollSync = True,
                     nn_PollSyncReason = (if resourceID = [] then ''amazon notification missing stable resource id; run poll sync fallback''
                       else ''amazon notifications provide event signals; run poll sync for deterministic SP-API state'')\<rparr>)))"

definition amazon_ResolvePollSyncGuidance :: "NormalizedNotification \<Rightarrow> PollSyncGuidance" where
  "amazon_ResolvePollSyncGuidance event =
     (let interval = (if Contains (nn_NotificationType event) ''order'' then 2 * Minute
                      else if Contains (nn_NotificationType event) ''inventory'' then 5 * Minute
                      else if Contains (nn_NotificationType event) ''catalog'' then 10 * Minute else 15 * Minute);
          interval = (if nn_ResourceID event = [] then 2 * Minute else interval)
      in \<lparr>pg_Required = nn_RequiresPollSync event, pg_Interval = interval, pg_Reason = nn_PollSyncReason event\<rparr>)"

subsection \<open>Meta\<close>

record meta_event =
  me_ProviderID :: string
  me_DeliveryID :: string
  me_Object :: string
  me_EntryCount :: nat
  me_ChangeFields :: "string list"

text \<open>The decoded envelope: its object and, for every entry, the fields of its changes.\<close>

definition validateObject :: "string \<Rightarrow> string \<Rightarrow> goerr option" where
  "validateObject providerID object =
     (let allowed = (if providerID = ''meta'' then Some {''instagram'', ''page'', ''user''}
                     else if providerID = ''meta_instagram'' then Some {''instagram''}
                     else if providerID = ''meta_facebook'' then Some {''page'', ''user''} else None)
      in case allowed of
           None \<Rightarrow> None
         | Some objects \<Rightarrow>
             if object \<in> objects then None
             else Some (Plain (''providers/meta/common: object '' @ quote object @ '' is not supported for provider '' @ quote providerID)))"

definition meta_NormalizeWebhookEvent ::
  "(string \<Rightarrow> (string \<times> string list list) result) \<Rightarrow> (goerr \<Rightarrow> string) \<Rightarrow> string \<Rightarrow> InboundRequest \<Rightarrow> meta_event result" where
  "meta_NormalizeWebhookEvent json render providerID0 req =
     (let providerID = TrimSpace (ToLower providerID0) in
      if providerID = [] then Inl (Plain ''providers/meta/common: provider id is required'')
      else case HeaderDeliveryIDExtractor [''X-Meta-Delivery-Id'', ''X-Hub-Signature-256''] req of
        Inl err \<Rightarrow> Inl err
      | Inr deliveryID \<Rightarrow>
          (case json (ir_Body req) of
             Inl err \<Rightarrow> Inl (Wrapped (''providers/meta/common: parse webhook payload: '' @ err_Error render err) [err])
           | Inr (object0, entries) \<Rightarrow>
               (let object = TrimSpace (ToLower object0) in
                if object = [] then Inl (Plain ''providers/meta/common: webhook object is required'')
                else case validateObject providerID object of
                  Some err \<Rightarrow> Inl err
                | None \<Rightarrow>
                    Inr \<lparr>me_ProviderID = providerID, me_DeliveryID = deliveryID, me_Object = object, me_EntryCount = length entries,
                      me_ChangeFields = sort (remdups (filter (\<lambda>f. f \<noteq> []) (map (\<lambda>f. TrimSpace (ToLower f)) (concat entries))))\<rparr>)))"

definition meta_NewWebhookTemplate :: "(string \<Rightarrow> string \<Rightarrow> string) \<Rightarrow> string \<Rightarrow> string \<Rightarrow> ProviderWebhookTemplate" where
  "meta_NewWebhookTemplate hmac providerID secret = (NewMetaWebhookTemplate hmac secret)\<lparr>wt_ProviderID := TrimSpace (ToLower providerID)\<rparr>"

section \<open>Only signed requests reach the ledger and the handler\<close>

lemma hex_encode_trim: "TrimSpace (hex_encode s) = hex_encode s"
proof (rule TrimSpace_id)
  have h: "\<not> is_space (hex_lower n)" if "n < 16" for n
  proof -
    have "(of_char (hex_lower n) :: nat) = (if n < 10 then 48 + n else 87 + n)" using that by (simp add: hex_lower_def)
    then show ?thesis using that by (auto simp: is_space_def split: if_splits)
  qed
  show "\<forall>c \<in> set (hex_encode s). \<not> is_space c"
    using of_char_less_256 by (auto simp: hex_encode_def less_mult_imp_div_less intro!: h)
qed

text \<open>How the sender encodes a signature.\<close>

definition signature_text :: "string \<Rightarrow> string \<Rightarrow> string" where
  "signature_text encoding bytes = (if ToLower (TrimSpace encoding) = ''base64'' then encode64 False True bytes else hex_encode bytes)"

lemma signature_text_facts [simp]:
  "TrimSpace (signature_text encoding bytes) = signature_text encoding bytes" "signature_bytes encoding (signature_text encoding bytes) = Some bytes"
  by (simp_all add: signature_text_def signature_bytes_def hex_encode_trim)

definition presented :: "HeaderHMACVerifier \<Rightarrow> InboundRequest \<Rightarrow> string" where
  "presented v req = TrimSpace (TrimPrefix (TrimSpace (headerValue (ir_Headers req) (hv_Header v))) (TrimSpace (hv_Prefix v)))"

lemma headerValue_trim: "TrimSpace (headerValue headers key) = headerValue headers key"
  by (induction headers key rule: headerValue.induct) auto

lemma signature_bytes_Nil: "signature_bytes encoding [] = Some []"
  by (simp add: signature_bytes_def decode64_def)

lemma Verify_None_iff:
  assumes "TrimSpace (hv_Secret v) \<noteq> []" and "hmac (TrimSpace (hv_Secret v)) (ir_Body req) \<noteq> []"
  shows "HeaderHMACVerifier_Verify hmac v req = None \<longleftrightarrow>
     signature_bytes (hv_Encoding v) (presented v req) = Some (hmac (TrimSpace (hv_Secret v)) (ir_Body req))"
proof (cases "presented v req = [] \<or> TrimSpace (headerValue (ir_Headers req) (hv_Header v)) = []")
  case True
  have e: "TrimPrefix [] x = []" for x :: string by (simp add: TrimPrefix_def)
  from True have "presented v req = []" by (auto simp: presented_def e)
  then show ?thesis using True assms signature_bytes_Nil
    by (auto simp: HeaderHMACVerifier_Verify_def Let_def presented_def [symmetric] split: option.split)
next
  case False
  then show ?thesis using assms
    by (auto simp: HeaderHMACVerifier_Verify_def Let_def presented_def [symmetric] split: option.split)
qed

lemma Process_rejected:
  assumes "p_Verifier p = Some verify" and "verify (trimmed req) \<noteq> None"
  shows "\<exists>r err. Processor_Process render ff (Some p) uuid req clk (s, w) = ((r, Some err), s, w) \<and> \<not> res_Accepted r"
proof -
  obtain e where e: "verify (req\<lparr>ir_ProviderID := TrimSpace (ir_ProviderID req)\<rparr>) = Some e" using assms(2) by (auto simp: trimmed_def)
  show ?thesis
  proof (cases "p_Handler p = None \<or> p_Ledger p = None \<or> TrimSpace (ir_ProviderID req) = []")
    case True then show ?thesis by (auto simp: Processor_Process_def Let_def empty_result_def split: option.split)
  next
    case False then show ?thesis using e assms(1) by (auto simp: Processor_Process_def Let_def)
  qed
qed

text \<open>
  C36: Webhooks are exactly as authentic as their signature. A request passes the verifier of a template exactly when its
  signature header, after the prefix, decodes to the HMAC of its body under the secret, which is what a sender that knows the
  secret puts there; every other request is answered as not accepted, and neither the delivery ledger nor the handler's world
  changes.
\<close>

theorem webhook_signature_exact:
  assumes "p_Verifier p = Some (HeaderHMACVerifier_Verify hmac v)" and "TrimSpace (hv_Secret v) \<noteq> []"
    and "hmac (TrimSpace (hv_Secret v)) (ir_Body req) \<noteq> []"
  shows "(HeaderHMACVerifier_Verify hmac v (trimmed req) = None \<longleftrightarrow>
      signature_bytes (hv_Encoding v) (presented v req) = Some (hmac (TrimSpace (hv_Secret v)) (ir_Body req))) \<and>
    (headerValue (ir_Headers req) (hv_Header v) = TrimSpace (hv_Prefix v) @ signature_text (hv_Encoding v) (hmac (TrimSpace (hv_Secret v)) (ir_Body req))
     \<longrightarrow> HeaderHMACVerifier_Verify hmac v (trimmed req) = None) \<and>
    (signature_bytes (hv_Encoding v) (presented v req) \<noteq> Some (hmac (TrimSpace (hv_Secret v)) (ir_Body req)) \<longrightarrow>
      (\<exists>r err. Processor_Process render ff (Some p) uuid req clk (s, w) = ((r, Some err), s, w) \<and> \<not> res_Accepted r))"
proof -
  have pr: "presented v (trimmed req) = presented v req" by (simp add: presented_def trimmed_def)
  have iff: "HeaderHMACVerifier_Verify hmac v (trimmed req) = None \<longleftrightarrow>
      signature_bytes (hv_Encoding v) (presented v req) = Some (hmac (TrimSpace (hv_Secret v)) (ir_Body req))"
    using Verify_None_iff [of v hmac "trimmed req"] assms(2,3) by (simp add: pr)
  have sent: "presented v req = signature_text (hv_Encoding v) x"
    if "headerValue (ir_Headers req) (hv_Header v) = TrimSpace (hv_Prefix v) @ signature_text (hv_Encoding v) x" for x
    unfolding presented_def headerValue_trim unfolding that by simp
  show ?thesis using iff sent Process_rejected [where p = p and verify = "HeaderHMACVerifier_Verify hmac v", OF assms(1)] by auto
qed

definition sample_hmac :: "string \<Rightarrow> string \<Rightarrow> string" where
  "sample_hmac key message = key @ message"

definition sample_hmac_verifier :: HeaderHMACVerifier where
  "sample_hmac_verifier = \<lparr>hv_Header = ''X-Hub-Signature-256'', hv_Prefix = ''sha256='', hv_Secret = ''k'', hv_Encoding = ''hex''\<rparr>"

definition sample_signed :: "string \<Rightarrow> InboundRequest" where
  "sample_signed signature = \<lparr>ir_ProviderID = ''meta'', ir_Surface = [], ir_Headers = [(''x-hub-signature-256'', signature)], ir_Body = ''m'', ir_Metadata = []\<rparr>"

definition sample_hmac_processor :: "(deliveries option, nat) Processor" where
  "sample_hmac_processor = sample_processor\<lparr>p_Verifier := Some (HeaderHMACVerifier_Verify sample_hmac sample_hmac_verifier)\<rparr>"

theorem webhook_signature_exact_witness:
  "HeaderHMACVerifier_Verify sample_hmac sample_hmac_verifier (trimmed (sample_signed ''sha256=6b6d'')) = None \<and>
   (\<exists>r err. Processor_Process (\<lambda>_. []) (\<lambda>m e. []) (Some sample_hmac_processor) ''u'' (sample_signed ''sha256=6b6e'')
      \<lparr>at_claim = 0, at_retry = 0, at_record = 0\<rparr> (Some [], 0) = ((r, Some err), Some [], 0) \<and>
      \<not> res_Accepted r)"
proof -
  have v: "p_Verifier sample_hmac_processor = Some (HeaderHMACVerifier_Verify sample_hmac sample_hmac_verifier)" by (simp add: sample_hmac_processor_def)
  have k: "TrimSpace (hv_Secret sample_hmac_verifier) \<noteq> []" "sample_hmac (TrimSpace (hv_Secret sample_hmac_verifier)) (ir_Body (sample_signed x)) \<noteq> []"
    and g: "signature_bytes (hv_Encoding sample_hmac_verifier) (presented sample_hmac_verifier (sample_signed ''sha256=6b6d'')) =
        Some (sample_hmac (TrimSpace (hv_Secret sample_hmac_verifier)) (ir_Body (sample_signed ''sha256=6b6d'')))"
    and b: "signature_bytes (hv_Encoding sample_hmac_verifier) (presented sample_hmac_verifier (sample_signed ''sha256=6b6e'')) \<noteq>
        Some (sample_hmac (TrimSpace (hv_Secret sample_hmac_verifier)) (ir_Body (sample_signed ''sha256=6b6e'')))" for x
    by (simp add: sample_hmac_verifier_def TrimSpace_def is_space_def, simp add: sample_hmac_def sample_signed_def, code_simp, code_simp)
  show ?thesis using webhook_signature_exact [OF v k] g b by blast
qed

section \<open>What the signature does not cover\<close>

text \<open>
  The signature covers the body only. A captured request verifies again under any other delivery id, so the ledger takes it
  for a new delivery; the time it was triggered can be changed or left out as well.
\<close>

lemma Verify_cong:
  "ir_Body req' = ir_Body req \<Longrightarrow> headerValue (ir_Headers req') (hv_Header v) = headerValue (ir_Headers req) (hv_Header v) \<Longrightarrow>
   HeaderHMACVerifier_Verify hmac v req' = HeaderHMACVerifier_Verify hmac v req"
  by (simp only: HeaderHMACVerifier_Verify_def)

lemma shopify_id_not_signed:
  assumes "ShopifyWebhookVerifier_Verify hmac parse render now v req = None" and "ir_Body req' = ir_Body req"
    and "headerValue (ir_Headers req') shopifyHeaderHMAC = headerValue (ir_Headers req) shopifyHeaderHMAC"
    and "headerValue (ir_Headers req') shopifyHeaderDeliveryID \<noteq> []" and "headerValue (ir_Headers req') shopifyHeaderTriggered = []"
    and "\<not> sw_RequireTriggeredAt v"
  shows "ShopifyWebhookVerifier_Verify hmac parse render now' v req' = None"
proof -
  let ?v = "\<lparr>hv_Header = shopifyHeaderHMAC, hv_Prefix = [], hv_Secret = TrimSpace (sw_Secret v), hv_Encoding = ''base64''\<rparr>"
  have "HeaderHMACVerifier_Verify hmac ?v req = None" using assms(1) by (auto simp: ShopifyWebhookVerifier_Verify_def split: option.splits)
  moreover have "HeaderHMACVerifier_Verify hmac ?v req' = HeaderHMACVerifier_Verify hmac ?v req" using assms(2,3) by (intro Verify_cong) simp_all
  ultimately show ?thesis using assms(4-6)
    by (simp add: ShopifyWebhookVerifier_Verify_def shopify_ExtractDeliveryID_def Let_def headerValue_trim)
qed

text \<open>A trigger time more than 292 years ahead overflows when its distance is made positive, and passes the replay window.\<close>

lemma shopify_far_future_accepted:
  assumes "HeaderHMACVerifier_Verify hmac \<lparr>hv_Header = shopifyHeaderHMAC, hv_Prefix = [], hv_Secret = TrimSpace (sw_Secret v), hv_Encoding = ''base64''\<rparr> req = None"
    and "headerValue (ir_Headers req) shopifyHeaderDeliveryID \<noteq> []" and "parse (headerValue (ir_Headers req) shopifyHeaderTriggered) = Inr t" and "t \<ge> now + 2 ^ 63"
    and "headerValue (ir_Headers req) shopifyHeaderTriggered \<noteq> []" and "0 < sw_ReplayWindow v"
  shows "ShopifyWebhookVerifier_Verify hmac parse render now v req = None"
proof -
  have "time_Sub now t = - (2 ^ 63)" using assms(4) by (simp add: time_Sub_def)
  then show ?thesis using assms by (simp add: ShopifyWebhookVerifier_Verify_def shopify_ExtractDeliveryID_def Let_def headerValue_trim wrap64_def)
qed

text \<open>The message number counts within a channel: messages of two channels can share a delivery id.\<close>

lemma google_channels_share_ids:
  assumes "headerValue (ir_Headers req) ''X-Goog-Message-Number'' = n" and "headerValue (ir_Headers req') ''X-Goog-Message-Number'' = n" and "n \<noteq> []"
  shows "wt_Extractor (NewGoogleWebhookTemplate token) req = Inr n" and "wt_Extractor (NewGoogleWebhookTemplate token) req' = Inr n"
  using assms headerValue_trim [of "ir_Headers req" "''X-Goog-Message-Number''"] headerValue_trim [of "ir_Headers req'" "''X-Goog-Message-Number''"]
  by (simp_all add: NewGoogleWebhookTemplate_def token_template_def Let_def)

end
