(* ===== verification/Client_Credentials.thy ===== *)
theory Client_Credentials
  imports OAuth2_Provider
begin

text \<open>
  \<open>src/auth/helpers.go\<close> and \<open>src/auth/oauth2_client_credentials_strategy.go\<close>: the OAuth 2 client-credentials
  strategy, which fetches tokens for an application and keeps them in a cache. The state is the cache and the world of
  the HTTP client; \<open>now 0\<close> is read for the cache and \<open>now 1\<close> for a new token.
\<close>

section \<open>Helpers\<close>

text \<open>Of the dynamic types of the model only strings count; \<open>[]byte\<close> and \<open>fmt.Stringer\<close> do not occur in it.\<close>

fun auth_readString :: "meta \<Rightarrow> string list \<Rightarrow> string" where
  "auth_readString metadata [] = []"
| "auth_readString metadata (key # keys) =
     (case meta_get metadata key of
        AStr typed \<Rightarrow> if TrimSpace typed \<noteq> [] then TrimSpace typed else auth_readString metadata keys
      | _ \<Rightarrow> auth_readString metadata keys)"

text \<open>The first of the values that agree up to case is kept.\<close>

fun dedupe_folded :: "string list \<Rightarrow> string list \<Rightarrow> string list" where
  "dedupe_folded seen [] = []"
| "dedupe_folded seen (value # vs) =
     (let trimmed = TrimSpace value; lowered = ToLower trimmed in
      if trimmed = [] then dedupe_folded seen vs
      else if lowered \<in> set seen then dedupe_folded seen vs
      else trimmed # dedupe_folded (lowered # seen) vs)"

definition normalizeValues :: "string list \<Rightarrow> string list" where
  "normalizeValues vs = (if length vs = 0 then [] else sort (dedupe_folded [] vs))"

fun any_string :: "any \<Rightarrow> string option" where
  "any_string (AStr v) = Some v"
| "any_string _ = None"

fun auth_readStringSlice :: "meta \<Rightarrow> string list \<Rightarrow> string list" where
  "auth_readStringSlice metadata [] = []"
| "auth_readStringSlice metadata (key # keys) =
     (case meta_get metadata key of
        AArr items \<Rightarrow> normalizeValues (List.map_filter any_string items)
      | AStr typed \<Rightarrow> normalizeValues (Split typed (CHR '',''))
      | _ \<Rightarrow> auth_readStringSlice metadata keys)"

section \<open>The token endpoint\<close>

abbreviation "AuthKindOAuth2ClientCredential \<equiv> ''oauth2_client_credentials''"

record 'n cc_config =
  cc_ClientID :: string
  cc_ClientSecret :: string
  cc_TokenURL :: string
  cc_ClientSecretInBody :: bool
  cc_DefaultScopes :: "string list"
  cc_TokenTTL :: int
  cc_RenewBefore :: int
  cc_ExternalAccountID :: string
  cc_HTTPClient :: "'n http_client"

definition NewOAuth2ClientCredentialsStrategy :: "'n cc_config \<Rightarrow> 'n cc_config" where
  "NewOAuth2ClientCredentialsStrategy cfg =
     cfg\<lparr>cc_ClientID := TrimSpace (cc_ClientID cfg), cc_ClientSecret := TrimSpace (cc_ClientSecret cfg), cc_TokenURL := TrimSpace (cc_TokenURL cfg),
       cc_DefaultScopes := normalizeValues (cc_DefaultScopes cfg),
       cc_TokenTTL := (if cc_TokenTTL cfg \<le> 0 then 60 * Minute else cc_TokenTTL cfg),
       cc_RenewBefore := (if cc_RenewBefore cfg \<le> 0 then 2 * Minute else cc_RenewBefore cfg),
       cc_ExternalAccountID := TrimSpace (cc_ExternalAccountID cfg)\<rparr>"

record clientCredentialsTokenPayload =
  ct_AccessToken :: string
  ct_TokenType :: string
  ct_Scope :: string
  ct_ExpiresIn :: int
  ct_ErrorCode :: string
  ct_ErrorDescription :: string

definition parseClientCredentialsTokenPayloadJSON :: "client_env \<Rightarrow> string \<Rightarrow> clientCredentialsTokenPayload result" where
  "parseClientCredentialsTokenPayloadJSON env body =
     (if length (TrimSpace body) = 0 then Inl (Plain ''empty payload'')
      else case cl_json env body of
        Inl err \<Rightarrow> Inl err
      | Inr decoded \<Rightarrow>
          (let field = (\<lambda>k. pv_readAnyString env (meta_get decoded k)) in
           Inr \<lparr>ct_AccessToken = field ''access_token'', ct_TokenType = field ''token_type'', ct_Scope = field ''scope'',
             ct_ExpiresIn = pv_readAnyInt64 env (meta_get decoded ''expires_in''), ct_ErrorCode = field ''error'', ct_ErrorDescription = field ''error_description''\<rparr>))"

definition parseClientCredentialsTokenPayloadForm :: "string \<Rightarrow> clientCredentialsTokenPayload result" where
  "parseClientCredentialsTokenPayloadForm body =
     (if length (TrimSpace body) = 0 then Inl (Plain ''empty payload'')
      else case url_ParseQuery body of
        None \<Rightarrow> Inl (Plain ''invalid query'')
      | Some vs \<Rightarrow>
          (let field = (\<lambda>k. TrimSpace (Values_Get vs k)) in
           Inr \<lparr>ct_AccessToken = field ''access_token'', ct_TokenType = field ''token_type'', ct_Scope = field ''scope'',
             ct_ExpiresIn = ParseInt_value (field ''expires_in''), ct_ErrorCode = field ''error'', ct_ErrorDescription = field ''error_description''\<rparr>))"

definition parseClientCredentialsTokenPayload :: "client_env \<Rightarrow> string \<Rightarrow> string \<Rightarrow> clientCredentialsTokenPayload result" where
  "parseClientCredentialsTokenPayload env body contentType0 =
     (let contentType = ToLower (TrimSpace contentType0) in
      if Contains contentType ''json'' then parseClientCredentialsTokenPayloadJSON env body
      else if Contains contentType ''x-www-form-urlencoded'' \<or> Contains contentType ''text/plain'' then parseClientCredentialsTokenPayloadForm body
      else case parseClientCredentialsTokenPayloadJSON env body of Inr payload \<Rightarrow> Inr payload | Inl _ \<Rightarrow> parseClientCredentialsTokenPayloadForm body)"

definition describeClientCredentialsError :: "clientCredentialsTokenPayload \<Rightarrow> string" where
  "describeClientCredentialsError payload =
     (if TrimSpace (ct_ErrorDescription payload) \<noteq> [] then TrimSpace (ct_ErrorDescription payload)
      else if TrimSpace (ct_ErrorCode payload) \<noteq> [] then TrimSpace (ct_ErrorCode payload) else ''unknown error'')"

definition maxClientCredentialsTokenResponseBodyBytes :: nat where
  "maxClientCredentialsTokenResponseBodyBytes = 2 ^ 20"

definition cc_form :: "'n cc_config \<Rightarrow> string \<Rightarrow> string \<Rightarrow> string list \<Rightarrow> url_values" where
  "cc_form s clientID clientSecret scopes =
     (let vs = Values_Set ''grant_type'' ''client_credentials'' [];
          vs = (if length scopes > 0 then Values_Set ''scope'' (join_with '' '' (normalizeValues scopes)) vs else vs);
          vs = Values_Set ''client_id'' clientID vs
      in if cc_ClientSecretInBody s then Values_Set ''client_secret'' clientSecret vs else vs)"

definition cc_request :: "'n cc_config \<Rightarrow> URL \<Rightarrow> string \<Rightarrow> string \<Rightarrow> string list \<Rightarrow> http_request" where
  "cc_request s u clientID clientSecret scopes =
     (let h = Header_Set ''Accept'' ''application/json'' (Header_Set ''Content-Type'' ''application/x-www-form-urlencoded'' []) in
      \<lparr>hr_Method = ''POST'', hr_URL = u,
       hr_Header = (if \<not> cc_ClientSecretInBody s then Header_Set ''Authorization'' (basic_auth clientID clientSecret) h else h),
       hr_Body = Some (Inr (Values_Encode (cc_form s clientID clientSecret scopes)))\<rparr>)"

definition cc_decode :: "client_env \<Rightarrow> http_response \<Rightarrow> clientCredentialsTokenPayload result" where
  "cc_decode env response =
     (case hs_Read response (maxClientCredentialsTokenResponseBodyBytes + 1) of
        Inl readErr \<Rightarrow> Inl (Wrapped (''auth: oauth2 client credentials read token response: '' @ err_Error (cl_render env) readErr) [readErr])
      | Inr body \<Rightarrow>
          if length body > maxClientCredentialsTokenResponseBodyBytes
          then Inl (Plain (''auth: oauth2 client credentials token response exceeds '' @ show_nat maxClientCredentialsTokenResponseBodyBytes @ '' bytes''))
          else case parseClientCredentialsTokenPayload env body (Header_Get (hs_Header response) ''Content-Type'') of
            Inl parseErr \<Rightarrow> Inl (Wrapped (''auth: oauth2 client credentials decode token response: '' @ err_Error (cl_render env) parseErr) [parseErr])
          | Inr payload \<Rightarrow>
              if hs_StatusCode response < 200 \<or> hs_StatusCode response \<ge> 300
              then Inl (Plain (''auth: oauth2 client credentials token endpoint error ('' @ Itoa (hs_StatusCode response) @ ''): '' @ describeClientCredentialsError payload))
              else if ct_ErrorCode payload \<noteq> []
              then Inl (Plain (''auth: oauth2 client credentials token endpoint error: '' @ describeClientCredentialsError payload))
              else if TrimSpace (ct_AccessToken payload) = [] then Inl (Plain ''auth: oauth2 client credentials token response missing access token'')
              else Inr payload)"

definition cc_fetchToken :: "client_env \<Rightarrow> 'n cc_config \<Rightarrow> string \<Rightarrow> string \<Rightarrow> string \<Rightarrow> string list \<Rightarrow> ('n, clientCredentialsTokenPayload) effect" where
  "cc_fetchToken env s tokenURL0 clientID clientSecret scopes n =
     (let tokenURL = TrimSpace tokenURL0 in
      if tokenURL = [] then (Inl (Plain ''auth: oauth2 client credentials token_url is required''), n)
      else case cl_parseURL env tokenURL of
        Inl err \<Rightarrow> (Inl err, n)
      | Inr u \<Rightarrow>
          (case cc_HTTPClient s (cc_request s (URL.truncate u) clientID clientSecret scopes) n of
             (Inl err, n) \<Rightarrow> (Inl (Wrapped (''auth: oauth2 client credentials token request failed: '' @ err_Error (cl_render env) err) [err]), n)
           | (Inr response, n) \<Rightarrow> (cc_decode env response, n)))"

section \<open>The cache\<close>

text \<open>A credential without expiry is kept with the zero time, here \<open>None\<close>.\<close>

record cachedClientCredential =
  cx_credential :: ActiveCredential
  cx_expiresAt :: "int option"

type_synonym cc_cache = "(string, cachedClientCredential) gomap"

definition buildClientCredentialsCacheKey :: "ScopeRef \<Rightarrow> string \<Rightarrow> string list \<Rightarrow> string" where
  "buildClientCredentialsCacheKey scope clientID requested =
     clientID @ '':'' @ TrimSpace (scope_Type scope) @ '':'' @ TrimSpace (scope_ID scope) @ '':'' @ join_with ''|'' (sort (normalizeValues requested))"

definition lookupCachedCredential :: "'n cc_config \<Rightarrow> int \<Rightarrow> string \<Rightarrow> cc_cache \<Rightarrow> ActiveCredential option \<times> cc_cache" where
  "lookupCachedCredential s now cacheKey cache =
     (case map_of cache cacheKey of
        None \<Rightarrow> (None, cache)
      | Some cached \<Rightarrow>
          (case cx_expiresAt cached of
             None \<Rightarrow> (None, AList.delete cacheKey cache)
           | Some expiresAt \<Rightarrow>
               if \<not> time_Add now (cc_RenewBefore s) < expiresAt then (None, AList.delete cacheKey cache)
               else (Some (cx_credential cached), cache)))"

definition storeCachedCredential :: "string \<Rightarrow> ActiveCredential \<Rightarrow> cc_cache \<Rightarrow> cc_cache" where
  "storeCachedCredential cacheKey cred cache = AList.update cacheKey \<lparr>cx_credential = cred, cx_expiresAt = ak_ExpiresAt cred\<rparr> cache"

definition resolveClientCredentialsExpiresAt :: "int \<Rightarrow> int \<Rightarrow> int \<Rightarrow> int option" where
  "resolveClientCredentialsExpiresAt now expiresIn fallback =
     (let ttl = (if expiresIn > 0 then wrap64 (expiresIn * Second) else fallback) in
      if ttl \<le> 0 then None else Some (time_Add now ttl))"

definition normalizeClientCredentialsTokenType :: "string \<Rightarrow> string" where
  "normalizeClientCredentialsTokenType value = (let normalized = ToLower (TrimSpace value) in if normalized = [] then ''bearer'' else normalized)"

definition parseClientCredentialScopes :: "string \<Rightarrow> string list" where
  "parseClientCredentialScopes value =
     (let trimmed = TrimSpace value in if trimmed = [] then [] else normalizeValues (Fields (ReplaceAll '','' '' '' trimmed)))"

section \<open>The strategy\<close>

definition cc_Begin :: "'n cc_config \<Rightarrow> AuthBeginRequest \<Rightarrow> BeginAuthResponse" where
  "cc_Begin s req =
     (let requested = normalizeValues (ab_RequestedRaw req) in
      \<lparr>bp_URL = [], bp_State = TrimSpace (ab_State req), bp_RequestedGrants = (if length requested = 0 then cc_DefaultScopes s else requested),
       bp_Metadata = [(''auth_kind'', AStr AuthKindOAuth2ClientCredential), (''token_url'', AStr (cc_TokenURL s))]\<rparr>)"

definition effective_granted :: "clientCredentialsTokenPayload \<Rightarrow> string list \<Rightarrow> string list \<Rightarrow> string list" where
  "effective_granted payload requested granted =
     (let fromToken = parseClientCredentialScopes (ct_Scope payload);
          effectiveGranted = (if length fromToken > 0 then fromToken else granted)
      in if length effectiveGranted = 0 then requested else effectiveGranted)"

definition token_credential ::
  "'n cc_config \<Rightarrow> int \<Rightarrow> ScopeRef \<Rightarrow> string \<Rightarrow> string \<Rightarrow> string list \<Rightarrow> string list \<Rightarrow> string \<Rightarrow> clientCredentialsTokenPayload \<Rightarrow> ActiveCredential" where
  "token_credential s now scope clientID tokenURL requested granted cacheKey payload =
     zero_credential\<lparr>ak_TokenType := normalizeClientCredentialsTokenType (ct_TokenType payload),
       ak_AccessToken := TrimSpace (ct_AccessToken payload), ak_RequestedScopes := requested, ak_GrantedScopes := effective_granted payload requested granted,
       ak_ExpiresAt := resolveClientCredentialsExpiresAt now (ct_ExpiresIn payload) (cc_TokenTTL s), ak_Refreshable := True,
       ak_Metadata := [(''auth_kind'', AStr AuthKindOAuth2ClientCredential), (''client_id'', AStr clientID), (''token_url'', AStr tokenURL),
         (''cache_key'', AStr cacheKey), (''scope_type'', AStr (TrimSpace (scope_Type scope))), (''scope_id'', AStr (TrimSpace (scope_ID scope)))]\<rparr>"

definition issueCredential ::
  "client_env \<Rightarrow> 'n cc_config \<Rightarrow> int \<Rightarrow> ScopeRef \<Rightarrow> string \<Rightarrow> string \<Rightarrow> string \<Rightarrow> string list \<Rightarrow> string list \<Rightarrow> string \<Rightarrow>
   ('n, ActiveCredential \<times> string list) effect" where
  "issueCredential env s now scope clientID clientSecret tokenURL requested granted cacheKey n =
     (case cc_fetchToken env s tokenURL clientID clientSecret requested n of
        (Inl err, n) \<Rightarrow> (Inl err, n)
      | (Inr payload, n) \<Rightarrow>
          (Inr (token_credential s now scope clientID tokenURL requested granted cacheKey payload, effective_granted payload requested granted), n))"

definition buildCompleteResponse ::
  "'n cc_config \<Rightarrow> AuthCompleteRequest \<Rightarrow> ActiveCredential \<Rightarrow> string list \<Rightarrow> string list \<Rightarrow> CompleteAuthResponse" where
  "buildCompleteResponse s req cred requested granted =
     \<lparr>cp_ExternalAccountID = firstNonEmpty [auth_readString (ac_Metadata req) [''external_account_id''], cc_ExternalAccountID s,
        AuthKindOAuth2ClientCredential @ '':'' @ scope_Type (ac_Scope req) @ '':'' @ scope_ID (ac_Scope req)],
      cp_Credential = cred, cp_RequestedGrants = requested, cp_GrantedGrants = granted,
      cp_Metadata = [(''auth_kind'', AStr AuthKindOAuth2ClientCredential), (''token_url'', AStr (auth_readString (ak_Metadata cred) [''token_url'']))]\<rparr>"

definition cc_Complete ::
  "client_env \<Rightarrow> 'n cc_config \<Rightarrow> (nat \<Rightarrow> int) \<Rightarrow> AuthCompleteRequest \<Rightarrow> (cc_cache \<times> 'n, CompleteAuthResponse) effect" where
  "cc_Complete env s now req w =
     (let metadata = copyAnyMap (ac_Metadata req);
          clientID = firstNonEmpty [auth_readString metadata [''client_id''], cc_ClientID s];
          clientSecret = firstNonEmpty [auth_readString metadata [''client_secret''], cc_ClientSecret s];
          tokenURL = firstNonEmpty [auth_readString metadata [''token_url''], cc_TokenURL s]
      in if clientID = [] then (Inl (Plain ''auth: oauth2 client credentials client_id is required''), w)
         else if clientSecret = [] then (Inl (Plain ''auth: oauth2 client credentials client_secret is required''), w)
         else if tokenURL = [] then (Inl (Plain ''auth: oauth2 client credentials token_url is required''), w)
         else
           let requested = auth_readStringSlice metadata [''requested_grants'', ''requested_scopes''];
               requested = (if length requested = 0 then cc_DefaultScopes s else requested);
               granted = auth_readStringSlice metadata [''granted_grants'', ''granted_scopes''];
               granted = (if length granted = 0 then requested else granted);
               cacheKey = buildClientCredentialsCacheKey (ac_Scope req) clientID requested
           in case lookupCachedCredential s (now 0) cacheKey (fst w) of
                (Some cached, cache) \<Rightarrow> (Inr (buildCompleteResponse s req cached requested (ak_GrantedScopes cached)), (cache, snd w))
              | (None, cache) \<Rightarrow>
                  (case issueCredential env s (now 1) (ac_Scope req) clientID clientSecret tokenURL requested granted cacheKey (snd w) of
                     (Inl err, n) \<Rightarrow> (Inl err, (cache, n))
                   | (Inr (issued, effectiveGranted), n) \<Rightarrow>
                       (Inr (buildCompleteResponse s req issued requested effectiveGranted), (storeCachedCredential cacheKey issued cache, n))))"

definition cc_Refresh :: "client_env \<Rightarrow> 'n cc_config \<Rightarrow> int \<Rightarrow> ActiveCredential \<Rightarrow> (cc_cache \<times> 'n, RefreshResult) effect" where
  "cc_Refresh env s now cred w =
     (let metadata = copyAnyMap (ak_Metadata cred);
          clientID = firstNonEmpty [auth_readString metadata [''client_id''], cc_ClientID s];
          clientSecret = firstNonEmpty [auth_readString metadata [''client_secret''], cc_ClientSecret s];
          tokenURL = firstNonEmpty [auth_readString metadata [''token_url''], cc_TokenURL s]
      in if clientID = [] \<or> clientSecret = [] then (Inl (Plain ''auth: oauth2 client credentials refresh requires configured client credentials''), w)
         else if tokenURL = [] then (Inl (Plain ''auth: oauth2 client credentials refresh requires token_url''), w)
         else
           let requested = normalizeValues (ak_RequestedScopes cred);
               requested = (if length requested = 0 then cc_DefaultScopes s else requested);
               granted = normalizeValues (ak_GrantedScopes cred);
               granted = (if length granted = 0 then requested else granted);
               scope = \<lparr>scope_Type = auth_readString metadata [''scope_type''], scope_ID = auth_readString metadata [''scope_id'']\<rparr>;
               cacheKey = firstNonEmpty [auth_readString metadata [''cache_key''], buildClientCredentialsCacheKey scope clientID requested]
           in case issueCredential env s now scope clientID clientSecret tokenURL requested granted cacheKey (snd w) of
                (Inl err, n) \<Rightarrow> (Inl err, (fst w, n))
              | (Inr (issued, effectiveGranted), n) \<Rightarrow>
                  (Inr \<lparr>rs_Credential = issued, rs_GrantedGrants = effectiveGranted,
                     rs_Metadata = [(''auth_kind'', AStr AuthKindOAuth2ClientCredential), (''token_url'', AStr tokenURL)]\<rparr>,
                   (storeCachedCredential cacheKey issued (fst w), n)))"

section \<open>What the cache returns\<close>

definition cc_client :: "'n cc_config \<Rightarrow> meta \<Rightarrow> string" where
  "cc_client s md = firstNonEmpty [auth_readString md [''client_id''], cc_ClientID s]"

definition cc_secret :: "'n cc_config \<Rightarrow> meta \<Rightarrow> string" where
  "cc_secret s md = firstNonEmpty [auth_readString md [''client_secret''], cc_ClientSecret s]"

definition cc_url :: "'n cc_config \<Rightarrow> meta \<Rightarrow> string" where
  "cc_url s md = firstNonEmpty [auth_readString md [''token_url''], cc_TokenURL s]"

definition cc_requested :: "'n cc_config \<Rightarrow> meta \<Rightarrow> string list" where
  "cc_requested s md =
     (let requested = auth_readStringSlice md [''requested_grants'', ''requested_scopes''] in if length requested = 0 then cc_DefaultScopes s else requested)"

definition cc_granted :: "'n cc_config \<Rightarrow> meta \<Rightarrow> string list" where
  "cc_granted s md =
     (let granted = auth_readStringSlice md [''granted_grants'', ''granted_scopes''] in if length granted = 0 then cc_requested s md else granted)"

definition cc_key :: "'n cc_config \<Rightarrow> AuthCompleteRequest \<Rightarrow> string" where
  "cc_key s req = buildClientCredentialsCacheKey (ac_Scope req) (cc_client s (copyAnyMap (ac_Metadata req))) (cc_requested s (copyAnyMap (ac_Metadata req)))"

lemma auth_readString_cong: "\<forall>k \<in> set ks. meta_get m k = meta_get m' k \<Longrightarrow> auth_readString m ks = auth_readString m' ks"
  by (induction ks) (auto split: any.split)

lemma auth_readStringSlice_cong: "\<forall>k \<in> set ks. meta_get m k = meta_get m' k \<Longrightarrow> auth_readStringSlice m ks = auth_readStringSlice m' ks"
  by (induction ks) (auto split: any.split)

declare auth_readString.simps [simp del] auth_readStringSlice.simps [simp del] firstNonEmpty.simps [simp del]

lemma cc_Complete_alt:
  "cc_Complete env s now req w =
     (let md = copyAnyMap (ac_Metadata req) in
      if cc_client s md = [] then (Inl (Plain ''auth: oauth2 client credentials client_id is required''), w)
      else if cc_secret s md = [] then (Inl (Plain ''auth: oauth2 client credentials client_secret is required''), w)
      else if cc_url s md = [] then (Inl (Plain ''auth: oauth2 client credentials token_url is required''), w)
      else case lookupCachedCredential s (now 0) (cc_key s req) (fst w) of
        (Some cached, cache) \<Rightarrow> (Inr (buildCompleteResponse s req cached (cc_requested s md) (ak_GrantedScopes cached)), (cache, snd w))
      | (None, cache) \<Rightarrow>
          (case issueCredential env s (now 1) (ac_Scope req) (cc_client s md) (cc_secret s md) (cc_url s md) (cc_requested s md) (cc_granted s md) (cc_key s req) (snd w) of
             (Inl err, n) \<Rightarrow> (Inl err, (cache, n))
           | (Inr (issued, effectiveGranted), n) \<Rightarrow>
               (Inr (buildCompleteResponse s req issued (cc_requested s md) effectiveGranted), (storeCachedCredential (cc_key s req) issued cache, n))))"
  unfolding cc_Complete_def Let_def cc_client_def cc_secret_def cc_url_def cc_key_def cc_requested_def cc_granted_def by (rule refl)

lemma cp_Credential_response [simp]: "cp_Credential (buildCompleteResponse s req cred requested granted) = cred"
  by (simp add: buildCompleteResponse_def)

lemma cc_Complete_cases:
  assumes "cc_Complete env s now req (cache, n) = (Inr resp, (cache', n'))"
  obtains (cached) cred where "lookupCachedCredential s (now 0) (cc_key s req) cache = (Some cred, cache')" "cp_Credential resp = cred" "n' = n"
    | (issued) cache1 granted where "lookupCachedCredential s (now 0) (cc_key s req) cache = (None, cache1)"
        "issueCredential env s (now 1) (ac_Scope req) (cc_client s (copyAnyMap (ac_Metadata req))) (cc_secret s (copyAnyMap (ac_Metadata req)))
           (cc_url s (copyAnyMap (ac_Metadata req))) (cc_requested s (copyAnyMap (ac_Metadata req))) (cc_granted s (copyAnyMap (ac_Metadata req))) (cc_key s req) n
         = (Inr (cp_Credential resp, granted), n')"
        "cache' = storeCachedCredential (cc_key s req) (cp_Credential resp) cache1"
proof -
  let ?md = "copyAnyMap (ac_Metadata req)"
  obtain l cache1 where l: "lookupCachedCredential s (now 0) (cc_key s req) cache = (l, cache1)" by fastforce
  obtain i n1 where i: "issueCredential env s (now 1) (ac_Scope req) (cc_client s ?md) (cc_secret s ?md) (cc_url s ?md) (cc_requested s ?md) (cc_granted s ?md) (cc_key s req) n = (i, n1)"
    by fastforce
  note eq = assms [unfolded cc_Complete_alt Let_def fst_conv snd_conv l i]
  show thesis
  proof (cases l)
    case (Some cred)
    then have "cp_Credential resp = cred \<and> cache' = cache1 \<and> n' = n" using eq by (auto split: if_splits)
    with l Some show thesis by (intro cached) auto
  next
    case None
    then obtain c g where ig: "i = Inr (c, g)" using eq by (cases i) (auto split: if_splits)
    with None have r: "cp_Credential resp = c" "cache' = storeCachedCredential (cc_key s req) c cache1" "n' = n1" using eq by (auto split: if_splits)
    show thesis by (rule issued [OF l [unfolded None]]) (simp_all only: r i ig)
  qed
qed

lemma cc_Complete_cached:
  assumes "cc_client s (copyAnyMap (ac_Metadata req)) \<noteq> []" "cc_secret s (copyAnyMap (ac_Metadata req)) \<noteq> []" "cc_url s (copyAnyMap (ac_Metadata req)) \<noteq> []"
    and "lookupCachedCredential s (now 0) (cc_key s req) cache = (Some cred, cache')"
  shows "\<exists>resp. cc_Complete env s now req (cache, n) = (Inr resp, (cache', n)) \<and> cp_Credential resp = cred"
  using assms by (simp add: cc_Complete_alt Let_def)

text \<open>Every entry expires with its credential.\<close>

definition cache_ok :: "cc_cache \<Rightarrow> bool" where
  "cache_ok cache \<longleftrightarrow> (\<forall>key c. map_of cache key = Some c \<longrightarrow> cx_expiresAt c = ak_ExpiresAt (cx_credential c))"

lemma cache_lookup_ok: "cache_ok cache \<Longrightarrow> lookupCachedCredential s now key cache = (l, cache') \<Longrightarrow> cache_ok cache'"
  by (auto simp: lookupCachedCredential_def cache_ok_def split: option.splits if_splits)

lemma cache_store_ok: "cache_ok cache \<Longrightarrow> cache_ok (storeCachedCredential key cred cache)"
  by (simp add: storeCachedCredential_def cache_ok_def)

lemma lookup_Some:
  "cache_ok cache \<Longrightarrow> lookupCachedCredential s now key cache = (Some cred, cache') \<Longrightarrow>
   cache' = cache \<and> (\<exists>e. ak_ExpiresAt cred = Some e \<and> time_Add now (cc_RenewBefore s) < e \<and> map_of cache key = Some \<lparr>cx_credential = cred, cx_expiresAt = Some e\<rparr>)"
  by (auto simp: lookupCachedCredential_def cache_ok_def split: option.splits if_splits)

lemma lookup_live:
  "map_of cache key = Some \<lparr>cx_credential = cred, cx_expiresAt = Some e\<rparr> \<Longrightarrow> time_Add now (cc_RenewBefore s) < e \<Longrightarrow>
   lookupCachedCredential s now key cache = (Some cred, cache)"
  by (simp add: lookupCachedCredential_def)

lemma issueCredential_Inr:
  "issueCredential env s now scope clientID clientSecret tokenURL requested granted cacheKey n = (Inr (c, g), n') \<Longrightarrow>
   ak_AccessToken c \<noteq> [] \<and> (\<exists>payload. cc_fetchToken env s tokenURL clientID clientSecret requested n = (Inr payload, n'))"
  by (auto simp: issueCredential_def token_credential_def cc_fetchToken_def cc_decode_def Let_def split: prod.splits sum.splits if_splits)

text \<open>
  Whoever knows the client id gets the cached token. After a successful completion, a completion for the same client and
  scope with any other client secret returns the same access token while it lives, and no request is made: the secret is not
  part of the cache key and is not checked.
\<close>

theorem cached_token_ignores_secret:
  assumes "cache_ok cache" and "gomap_ok (ac_Metadata req)"
    and "cc_Complete env s now req (cache, n) = (Inr resp, (cache1, n1))"
    and "req' = req\<lparr>ac_Metadata := AList.update ''client_secret'' (AStr other) (ac_Metadata req)\<rparr>" and "TrimSpace other \<noteq> []"
    and "ak_ExpiresAt (cp_Credential resp) = Some e" and "time_Add (now' 0) (cc_RenewBefore s) < e"
  shows "\<exists>resp'. cc_Complete env s now' req' (cache1, n1) = (Inr resp', (cache1, n1)) \<and> cp_Credential resp' = cp_Credential resp"
proof -
  let ?md = "copyAnyMap (ac_Metadata req)" and ?md' = "copyAnyMap (ac_Metadata req')"
  have g: "meta_get ?md' k = (if k = ''client_secret'' then AStr other else meta_get ?md k)" for k
    using assms(2) by (simp add: assms(4) meta_get_def)
  have rd: "auth_readString ?md' ks = auth_readString ?md ks" "auth_readStringSlice ?md' ks = auth_readStringSlice ?md ks" if "''client_secret'' \<notin> set ks" for ks
    using that g by (auto intro!: auth_readString_cong auth_readStringSlice_cong)
  have same: "cc_client s ?md' = cc_client s ?md" "cc_url s ?md' = cc_url s ?md" "cc_requested s ?md' = cc_requested s ?md"
    by (simp_all add: cc_client_def cc_url_def cc_requested_def rd)
  then have key: "cc_key s req' = cc_key s req" by (simp add: cc_key_def) (simp add: assms(4))
  have sec: "cc_secret s ?md' \<noteq> []" using assms(5) by (simp add: cc_secret_def g auth_readString.simps firstNonEmpty.simps)
  have ok: "cc_client s ?md \<noteq> []" "cc_url s ?md \<noteq> []" using assms(3) by (auto simp: cc_Complete_alt Let_def split: if_splits)
  have entry: "map_of cache1 (cc_key s req) = Some \<lparr>cx_credential = cp_Credential resp, cx_expiresAt = Some e\<rparr>"
    using assms(3)
  proof (cases rule: cc_Complete_cases)
    case (cached cred) then show ?thesis using lookup_Some [OF assms(1) cached(1)] assms(6) cached(2) by auto
  next
    case (issued cache2 granted) then show ?thesis using assms(6) by (simp add: storeCachedCredential_def)
  qed
  show ?thesis
    by (rule cc_Complete_cached) (simp_all add: same key ok sec lookup_live [OF entry assms(7)])
qed


definition sample_cc :: "string list cc_config" where
  "sample_cc = \<lparr>cc_ClientID = ''c'', cc_ClientSecret = ''s'', cc_TokenURL = ''t'', cc_ClientSecretInBody = False, cc_DefaultScopes = [], cc_TokenTTL = 60 * Minute,
     cc_RenewBefore = 2 * Minute, cc_ExternalAccountID = [],
     cc_HTTPClient = \<lambda>req n. (Inr \<lparr>hs_StatusCode = 200, hs_Header = [], hs_Read = \<lambda>_. Inr ''access_token=at''\<rparr>, n @ [''token''])\<rparr>"

definition sample_cc_req :: AuthCompleteRequest where
  "sample_cc_req = \<lparr>ac_Scope = \<lparr>scope_Type = ''user'', scope_ID = ''u''\<rparr>, ac_Code = [], ac_State = [], ac_RedirectURI = [], ac_Metadata = []\<rparr>"

definition sample_cc_payload :: clientCredentialsTokenPayload where
  "sample_cc_payload = \<lparr>ct_AccessToken = ''at'', ct_TokenType = [], ct_Scope = [], ct_ExpiresIn = 0, ct_ErrorCode = [], ct_ErrorDescription = []\<rparr>"

lemma sample_cc_fetch: "cc_fetchToken sample_client sample_cc ''t'' clientID clientSecret scopes [] = (Inr sample_cc_payload, [''token''])"
proof -
  have p: "parseClientCredentialsTokenPayload sample_client ''access_token=at'' (Header_Get [] ''Content-Type'') = Inr sample_cc_payload"
    and u: "TrimSpace ''t'' = ''t''"
    and t: "ct_ErrorCode sample_cc_payload = []" "TrimSpace (ct_AccessToken sample_cc_payload) \<noteq> []" by code_simp+
  obtain v where v: "cl_parseURL sample_client ''t'' = Inr v" by (simp add: sample_client_def)
  have "cc_decode sample_client \<lparr>hs_StatusCode = 200, hs_Header = [], hs_Read = \<lambda>_. Inr ''access_token=at''\<rparr> = Inr sample_cc_payload"
    using p t by (simp add: cc_decode_def maxClientCredentialsTokenResponseBodyBytes_def)
  then show ?thesis using u v by (simp add: cc_fetchToken_def) (simp add: sample_cc_def)
qed

theorem cached_token_ignores_secret_witness:
  "\<exists>resp cache1 resp'. cc_Complete sample_client sample_cc (\<lambda>_. 0) sample_cc_req ([], []) = (Inr resp, (cache1, [''token''])) \<and>
     cc_Complete sample_client sample_cc (\<lambda>_. 0) (sample_cc_req\<lparr>ac_Metadata := [(''client_secret'', AStr ''wrong'')]\<rparr>) (cache1, [''token'']) =
       (Inr resp', (cache1, [''token''])) \<and> cp_Credential resp' = cp_Credential resp"
proof -
  let ?md = "copyAnyMap (ac_Metadata sample_cc_req)"
  have f: "cc_client sample_cc ?md = ''c''" "cc_secret sample_cc ?md = ''s''" "cc_url sample_cc ?md = ''t''"
    and ok: "gomap_ok (ac_Metadata sample_cc_req)" and tr: "TrimSpace ''wrong'' \<noteq> []"
    and ex: "resolveClientCredentialsExpiresAt 0 (ct_ExpiresIn sample_cc_payload) (cc_TokenTTL sample_cc) = Some (60 * Minute)"
    and live: "time_Add 0 (cc_RenewBefore sample_cc) < 60 * Minute"
    and up: "AList.update ''client_secret'' (AStr ''wrong'') (ac_Metadata sample_cc_req) = [(''client_secret'', AStr ''wrong'')]" by code_simp+
  obtain c g where i: "issueCredential sample_client sample_cc 0 (ac_Scope sample_cc_req) ''c'' ''s'' ''t'' (cc_requested sample_cc ?md) (cc_granted sample_cc ?md)
      (cc_key sample_cc sample_cc_req) [] = (Inr (c, g), [''token''])" and e: "ak_ExpiresAt c = Some (60 * Minute)"
    using ex by (simp add: issueCredential_def token_credential_def sample_cc_fetch)
  have r: "\<exists>resp cache1. cc_Complete sample_client sample_cc (\<lambda>_. 0) sample_cc_req ([], []) = (Inr resp, (cache1, [''token''])) \<and> cp_Credential resp = c"
    using i f by (simp add: cc_Complete_alt Let_def lookupCachedCredential_def)
  then obtain resp cache1 where resp: "cc_Complete sample_client sample_cc (\<lambda>_. 0) sample_cc_req ([], []) = (Inr resp, (cache1, [''token'']))" "cp_Credential resp = c" by blast
  have "cache_ok []" by (simp add: cache_ok_def)
  from cached_token_ignores_secret [OF this ok resp(1) refl tr e [folded resp(2)] live, unfolded up] resp(1) show ?thesis by blast
qed

section \<open>Operations keep the cache in step with the credentials\<close>

lemma cc_Complete_ok:
  assumes "cache_ok cache" and "cc_Complete env s now req (cache, n) = (Inr resp, (cache', n'))"
  shows "cache_ok cache'"
  using assms(2)
proof (cases rule: cc_Complete_cases)
  case (cached cred) then show ?thesis using cache_lookup_ok assms(1) by blast
next
  case (issued cache1 granted) then show ?thesis using cache_store_ok cache_lookup_ok assms(1) by metis
qed

lemma cc_Refresh_ok: "cache_ok cache \<Longrightarrow> cc_Refresh env s now cred (cache, n) = (r, (cache', n')) \<Longrightarrow> cache_ok cache'"
  by (auto simp: cc_Refresh_def Let_def cache_store_ok split: prod.splits sum.splits if_splits)

text \<open>A completion either asks the token endpoint or returns a token that outlives the renewal margin.\<close>

lemma cc_Complete_live:
  assumes "cache_ok cache" and "cc_Complete env s now req (cache, n) = (Inr resp, (cache', n'))"
  shows "(\<exists>tokenURL clientID secret scopes payload. cc_fetchToken env s tokenURL clientID secret scopes n = (Inr payload, n')) \<or>
    (\<exists>e. ak_ExpiresAt (cp_Credential resp) = Some e \<and> time_Add (now 0) (cc_RenewBefore s) < e \<and> n' = n)"
  using assms(2)
proof (cases rule: cc_Complete_cases)
  case (cached cred) then show ?thesis using lookup_Some assms(1) by blast
next
  case (issued cache1 granted) then show ?thesis using issueCredential_Inr [OF issued(2)] by blast
qed

end
