(* ===== verification/Auth_Strategies.thy ===== *)
theory Auth_Strategies
  imports Client_Credentials
begin

text \<open>
  The strategies that need no server, \<open>src/auth/api_hmac_strategy.go\<close> (API key, personal access token, HMAC) and
  \<open>src/auth/mtls_basic_strategy.go\<close> (basic, mTLS), and \<open>src/auth/aws_sigv4_strategy.go\<close>, which wraps the client-credentials
  strategy. The theorems put each strategy together with the signer that \<open>src/core/signer.go\<close> chooses for its credentials.
\<close>

section \<open>API keys and personal access tokens\<close>

record APIKeyProfile =
  kp_Header :: string
  kp_Prefix :: string
  kp_QueryParam :: string

record APIKeyStrategy =
  ks_Kind :: string
  ks_Profile :: APIKeyProfile
  ks_StaticKey :: string
  ks_ExternalAccountID :: string

definition NewAPIKeyStrategy :: "APIKeyStrategy \<Rightarrow> APIKeyStrategy" where
  "NewAPIKeyStrategy cfg =
     (let kind = TrimSpace (ToLower (ks_Kind cfg));
          kind = (if kind = [] then ''api_key'' else kind);
          profile = ks_Profile cfg;
          profile = (if TrimSpace (kp_Header profile) = [] then profile\<lparr>kp_Header := ''X-API-Key''\<rparr> else profile);
          profile = (if kind = ''pat'' then
              let profile = (if TrimSpace (kp_Header profile) = [] \<or> EqualFold (kp_Header profile) ''X-API-Key'' then profile\<lparr>kp_Header := ''Authorization''\<rparr> else profile)
              in if TrimSpace (kp_Prefix profile) = [] then profile\<lparr>kp_Prefix := ''token''\<rparr> else profile
            else profile)
      in \<lparr>ks_Kind = kind, ks_Profile = profile, ks_StaticKey = TrimSpace (ks_StaticKey cfg), ks_ExternalAccountID = TrimSpace (ks_ExternalAccountID cfg)\<rparr>)"

definition NewPATStrategy :: "APIKeyStrategy \<Rightarrow> APIKeyStrategy" where
  "NewPATStrategy cfg = NewAPIKeyStrategy (cfg\<lparr>ks_Kind := ''pat''\<rparr>)"

text \<open>\<open>Begin\<close> is the same function of the kind in the four strategies.\<close>

definition strategy_Begin :: "string \<Rightarrow> AuthBeginRequest \<Rightarrow> BeginAuthResponse" where
  "strategy_Begin kind req =
     \<lparr>bp_URL = [], bp_State = TrimSpace (ab_State req), bp_RequestedGrants = normalizeValues (ab_RequestedRaw req), bp_Metadata = [(''auth_kind'', AStr kind)]\<rparr>"

definition read_requested :: "meta \<Rightarrow> string list" where
  "read_requested metadata = auth_readStringSlice metadata [''requested_grants'', ''requested_scopes'']"

definition read_granted :: "meta \<Rightarrow> string list" where
  "read_granted metadata =
     (let granted = auth_readStringSlice metadata [''granted_grants'', ''granted_scopes''] in if length granted = 0 then read_requested metadata else granted)"

text \<open>The responses of \<open>Complete\<close> differ in the token, the account and the metadata of the credential.\<close>

definition static_response :: "string \<Rightarrow> string \<Rightarrow> string \<Rightarrow> meta \<Rightarrow> meta \<Rightarrow> CompleteAuthResponse" where
  "static_response kind token account metadata credentialMetadata =
     \<lparr>cp_ExternalAccountID = account,
      cp_Credential = zero_credential\<lparr>ak_TokenType := kind, ak_AccessToken := token, ak_RequestedScopes := read_requested metadata,
        ak_GrantedScopes := read_granted metadata, ak_Refreshable := False, ak_Metadata := credentialMetadata\<rparr>,
      cp_RequestedGrants = read_requested metadata, cp_GrantedGrants = read_granted metadata, cp_Metadata = [(''auth_kind'', AStr kind)]\<rparr>"

definition default_account :: "string \<Rightarrow> ScopeRef \<Rightarrow> string" where
  "default_account kind scope = kind @ '':'' @ scope_Type scope @ '':'' @ scope_ID scope"

definition APIKey_Complete :: "APIKeyStrategy \<Rightarrow> AuthCompleteRequest \<Rightarrow> CompleteAuthResponse result" where
  "APIKey_Complete s req =
     (let metadata = copyAnyMap (ac_Metadata req);
          key = auth_readString metadata [''api_key'', ''pat'', ''token'', ''access_token''];
          key = (if key = [] then ks_StaticKey s else key)
      in if key = [] then Inl (Plain (''auth: '' @ ks_Kind s @ '' credential token is required''))
         else
           let account = auth_readString metadata [''external_account_id''];
               account = (if account = [] then ks_ExternalAccountID s else account);
               account = (if account = [] then default_account (ks_Kind s) (ac_Scope req) else account)
           in Inr (static_response (ks_Kind s) key account metadata
                [(''auth_kind'', AStr (ks_Kind s)), (''api_key_header'', AStr (TrimSpace (kp_Header (ks_Profile s)))),
                 (''api_key_prefix'', AStr (TrimSpace (kp_Prefix (ks_Profile s)))), (''api_key_query_param'', AStr (TrimSpace (kp_QueryParam (ks_Profile s))))]))"

text \<open>\<open>Refresh\<close> returns the credential; the API key and HMAC strategies keep a token type that is there.\<close>

definition static_Refresh :: "string \<Rightarrow> bool \<Rightarrow> ActiveCredential \<Rightarrow> RefreshResult" where
  "static_Refresh kind keep cred =
     (let refreshed = cred\<lparr>ak_TokenType := (if keep \<and> TrimSpace (ak_TokenType cred) \<noteq> [] then ak_TokenType cred else kind), ak_Refreshable := False,
            ak_Metadata := AList.update ''auth_kind'' (AStr kind) (copyAnyMap (ak_Metadata cred))\<rparr>
      in \<lparr>rs_Credential = refreshed, rs_GrantedGrants = ak_GrantedScopes refreshed, rs_Metadata = [(''auth_kind'', AStr kind)]\<rparr>)"

definition APIKey_Refresh :: "APIKeyStrategy \<Rightarrow> ActiveCredential \<Rightarrow> RefreshResult" where
  "APIKey_Refresh s = static_Refresh (ks_Kind s) True"

section \<open>HMAC\<close>

record HMACStrategy =
  hx_Secret :: string
  hx_KeyID :: string
  hx_SignatureHeader :: string
  hx_TimestampHeader :: string
  hx_ExternalAccount :: string

definition NewHMACStrategy :: "HMACStrategy \<Rightarrow> HMACStrategy" where
  "NewHMACStrategy cfg =
     \<lparr>hx_Secret = TrimSpace (hx_Secret cfg), hx_KeyID = TrimSpace (hx_KeyID cfg),
      hx_SignatureHeader = (if TrimSpace (hx_SignatureHeader cfg) = [] then ''X-Signature'' else TrimSpace (hx_SignatureHeader cfg)),
      hx_TimestampHeader = (if TrimSpace (hx_TimestampHeader cfg) = [] then ''X-Timestamp'' else TrimSpace (hx_TimestampHeader cfg)),
      hx_ExternalAccount = TrimSpace (hx_ExternalAccount cfg)\<rparr>"

definition HMAC_Complete :: "HMACStrategy \<Rightarrow> AuthCompleteRequest \<Rightarrow> CompleteAuthResponse result" where
  "HMAC_Complete s req =
     (let metadata = copyAnyMap (ac_Metadata req);
          secret = auth_readString metadata [''hmac_secret'', ''secret'', ''token'', ''access_token''];
          secret = (if secret = [] then hx_Secret s else secret)
      in if secret = [] then Inl (Plain ''auth: hmac secret is required'')
         else
           let keyID = auth_readString metadata [''hmac_key_id'', ''key_id''];
               keyID = (if keyID = [] then hx_KeyID s else keyID);
               keyID = (if keyID = [] then ''hmac-default'' else keyID);
               account = auth_readString metadata [''external_account_id''];
               account = (if account = [] then hx_ExternalAccount s else account);
               account = (if account = [] then default_account ''hmac'' (ac_Scope req) else account)
           in Inr (static_response ''hmac'' secret account metadata
                [(''auth_kind'', AStr ''hmac''), (''hmac_key_id'', AStr keyID),
                 (''signature_header'', AStr (hx_SignatureHeader s)), (''timestamp_header'', AStr (hx_TimestampHeader s))]))"

definition HMAC_Refresh :: "ActiveCredential \<Rightarrow> RefreshResult" where
  "HMAC_Refresh = static_Refresh ''hmac'' True"

section \<open>Basic and mTLS\<close>

record BasicStrategy =
  bx_Username :: string
  bx_Password :: string
  bx_ExternalAccountID :: string

definition NewBasicStrategy :: "BasicStrategy \<Rightarrow> BasicStrategy" where
  "NewBasicStrategy cfg =
     \<lparr>bx_Username = TrimSpace (bx_Username cfg), bx_Password = TrimSpace (bx_Password cfg), bx_ExternalAccountID = TrimSpace (bx_ExternalAccountID cfg)\<rparr>"

definition Basic_Complete :: "BasicStrategy \<Rightarrow> AuthCompleteRequest \<Rightarrow> CompleteAuthResponse result" where
  "Basic_Complete s req =
     (let metadata = copyAnyMap (ac_Metadata req);
          username = firstNonEmpty [auth_readString metadata [''username'', ''basic_username''], bx_Username s];
          password = firstNonEmpty [auth_readString metadata [''password'', ''basic_password''], bx_Password s]
      in if username = [] \<or> password = [] then Inl (Plain ''auth: basic username/password are required'')
         else Inr (static_response ''basic'' (encode64 False True (username @ '':'' @ password))
           (firstNonEmpty [auth_readString metadata [''external_account_id''], bx_ExternalAccountID s, default_account ''basic'' (ac_Scope req)]) metadata
           [(''auth_kind'', AStr ''basic''), (''username'', AStr username)]))"

definition Basic_Refresh :: "ActiveCredential \<Rightarrow> RefreshResult" where
  "Basic_Refresh = static_Refresh ''basic'' False"

record MTLSStrategy =
  mx_CertRef :: string
  mx_KeyRef :: string
  mx_Identity :: string
  mx_ExternalAccountID :: string

definition NewMTLSStrategy :: "MTLSStrategy \<Rightarrow> MTLSStrategy" where
  "NewMTLSStrategy cfg =
     \<lparr>mx_CertRef = TrimSpace (mx_CertRef cfg), mx_KeyRef = TrimSpace (mx_KeyRef cfg), mx_Identity = TrimSpace (mx_Identity cfg),
      mx_ExternalAccountID = TrimSpace (mx_ExternalAccountID cfg)\<rparr>"

definition MTLS_Complete :: "MTLSStrategy \<Rightarrow> AuthCompleteRequest \<Rightarrow> CompleteAuthResponse result" where
  "MTLS_Complete s req =
     (let metadata = copyAnyMap (ac_Metadata req);
          certRef = firstNonEmpty [auth_readString metadata [''cert_ref'', ''mtls_cert_ref''], mx_CertRef s];
          keyRef = firstNonEmpty [auth_readString metadata [''key_ref'', ''mtls_key_ref''], mx_KeyRef s]
      in if certRef = [] \<or> keyRef = [] then Inl (Plain ''auth: mtls cert/key references are required'')
         else
           let identity = firstNonEmpty [auth_readString metadata [''identity'', ''mtls_identity''], mx_Identity s, certRef]
           in Inr (static_response ''mtls'' (''mtls:'' @ identity)
                (firstNonEmpty [auth_readString metadata [''external_account_id''], mx_ExternalAccountID s, default_account ''mtls'' (ac_Scope req)]) metadata
                [(''auth_kind'', AStr ''mtls''), (''cert_ref'', AStr certRef), (''key_ref'', AStr keyRef), (''identity'', AStr identity)]))"

definition MTLS_Refresh :: "ActiveCredential \<Rightarrow> RefreshResult" where
  "MTLS_Refresh = static_Refresh ''mtls'' False"

section \<open>AWS signature version 4 over client credentials\<close>

record AWSSigV4SigningProfile =
  ap_AccessKeyID :: string
  ap_SecretAccessKey :: string
  ap_SessionToken :: string
  ap_Region :: string
  ap_Service :: string
  ap_SigningMode :: string
  ap_SigningExpiresSec :: int
  ap_UnsignedPayload :: bool
  ap_AccessTokenHeader :: string

definition normalizeSigningMode :: "string \<Rightarrow> string" where
  "normalizeSigningMode mode = (if TrimSpace (ToLower mode) = ''query'' then ''query'' else ''header'')"

definition sigv4_profile :: "AWSSigV4SigningProfile \<Rightarrow> AWSSigV4SigningProfile" where
  "sigv4_profile p = p\<lparr>ap_SigningMode := normalizeSigningMode (ap_SigningMode p),
     ap_AccessTokenHeader := (if ap_AccessTokenHeader p = [] then ''x-amz-access-token'' else ap_AccessTokenHeader p)\<rparr>"

text \<open>The keys are written one after the other; each one read from the metadata is read before it is written.\<close>

definition set_meta :: "string \<Rightarrow> any \<Rightarrow> meta \<Rightarrow> meta" where
  "set_meta key value m = AList.update key value m"

definition set_profile :: "meta \<Rightarrow> string \<Rightarrow> string \<Rightarrow> string \<Rightarrow> meta \<Rightarrow> meta" where
  "set_profile runtime key alias configured m =
     set_meta key (AStr (firstNonEmpty [auth_readString runtime [key, alias], configured, auth_readString m [key, alias]])) m"

definition set_expires :: "AWSSigV4SigningProfile \<Rightarrow> meta \<Rightarrow> meta \<Rightarrow> meta" where
  "set_expires profile runtime m =
     (let raw = firstNonEmpty [auth_readString runtime [''aws_signing_expires'', ''aws_query_expires''], Itoa (ap_SigningExpiresSec profile),
            auth_readString m [''aws_signing_expires'', ''aws_query_expires'']] in
      if raw \<noteq> [] \<and> raw \<noteq> ''0'' then
        (case Atoi (TrimSpace raw) of
           Some seconds \<Rightarrow> if seconds > 0 then set_meta ''aws_signing_expires'' (AStr (Itoa seconds)) m else m
         | None \<Rightarrow> m)
      else m)"

definition applySigV4ProfileMetadata :: "meta \<Rightarrow> AWSSigV4SigningProfile \<Rightarrow> meta \<Rightarrow> meta" where
  "applySigV4ProfileMetadata metadata profile runtime =
     (let m = set_meta ''auth_kind'' (AStr ''aws_sigv4'') metadata;
          m = set_profile runtime ''aws_access_key_id'' ''access_key_id'' (ap_AccessKeyID profile) m;
          m = set_profile runtime ''aws_secret_access_key'' ''secret_access_key'' (ap_SecretAccessKey profile) m;
          m = set_profile runtime ''aws_session_token'' ''session_token'' (ap_SessionToken profile) m;
          m = set_profile runtime ''aws_region'' ''region'' (ap_Region profile) m;
          m = set_profile runtime ''aws_service'' ''service'' (ap_Service profile) m;
          m = set_meta ''aws_signing_mode'' (AStr (normalizeSigningMode (firstNonEmpty [auth_readString runtime [''aws_signing_mode'', ''signing_mode''],
                ap_SigningMode profile, auth_readString m [''aws_signing_mode'', ''signing_mode'']]))) m;
          accessTokenHeader = firstNonEmpty [ToLower (auth_readString runtime [''aws_access_token_header'']),
                ToLower (TrimSpace (ap_AccessTokenHeader profile)), ToLower (auth_readString m [''aws_access_token_header''])];
          accessTokenHeader = (if accessTokenHeader = [] then ''x-amz-access-token'' else accessTokenHeader);
          m = set_meta ''aws_access_token_header'' (AStr accessTokenHeader) m;
          m = set_expires profile runtime m;
          value = TrimSpace (auth_readString runtime [''aws_unsigned_payload'']);
          unsignedPayload = (if value \<noteq> [] then (case ParseBool value of Some parsed \<Rightarrow> parsed | None \<Rightarrow> ap_UnsignedPayload profile) else ap_UnsignedPayload profile)
      in set_meta ''aws_unsigned_payload'' (ABool unsignedPayload) m)"

definition validateSigV4ProfileMetadata :: "meta \<Rightarrow> goerr option" where
  "validateSigV4ProfileMetadata metadata =
     (if TrimSpace (auth_readString metadata [''aws_access_key_id'', ''access_key_id'']) = [] then Some (Plain ''auth: aws sigv4 requires aws_access_key_id'')
      else if TrimSpace (auth_readString metadata [''aws_secret_access_key'', ''secret_access_key'']) = [] then Some (Plain ''auth: aws sigv4 requires aws_secret_access_key'')
      else if TrimSpace (auth_readString metadata [''aws_region'', ''region'']) = [] then Some (Plain ''auth: aws sigv4 requires aws_region'')
      else if TrimSpace (auth_readString metadata [''aws_service'', ''service'']) = [] then Some (Plain ''auth: aws sigv4 requires aws_service'')
      else None)"

record 'n OAuth2SigV4Strategy =
  sv_delegate :: "'n cc_config"
  sv_profile :: AWSSigV4SigningProfile

definition NewOAuth2SigV4Strategy :: "'n OAuth2SigV4Strategy \<Rightarrow> 'n OAuth2SigV4Strategy" where
  "NewOAuth2SigV4Strategy cfg = \<lparr>sv_delegate = NewOAuth2ClientCredentialsStrategy (sv_delegate cfg), sv_profile = sigv4_profile (sv_profile cfg)\<rparr>"

definition sigv4_marks :: "meta \<Rightarrow> meta" where
  "sigv4_marks m = set_meta ''signing_profile'' (AStr ''aws_sigv4'') (set_meta ''auth_kind'' (AStr ''aws_sigv4'') (copyAnyMap m))"

definition SigV4_Begin :: "'n OAuth2SigV4Strategy \<Rightarrow> AuthBeginRequest \<Rightarrow> BeginAuthResponse" where
  "SigV4_Begin s req = (let begun = cc_Begin (sv_delegate s) req in begun\<lparr>bp_Metadata := sigv4_marks (bp_Metadata begun)\<rparr>)"

definition SigV4_Complete ::
  "client_env \<Rightarrow> 'n OAuth2SigV4Strategy \<Rightarrow> (nat \<Rightarrow> int) \<Rightarrow> AuthCompleteRequest \<Rightarrow> (cc_cache \<times> 'n, CompleteAuthResponse) effect" where
  "SigV4_Complete env s now req w =
     (case cc_Complete env (sv_delegate s) now req w of
        (Inl err, w) \<Rightarrow> (Inl err, w)
      | (Inr completed, w) \<Rightarrow>
          (let m = applySigV4ProfileMetadata (copyAnyMap (ak_Metadata (cp_Credential completed))) (sv_profile s) (ac_Metadata req) in
           case validateSigV4ProfileMetadata m of
             Some err \<Rightarrow> (Inl err, w)
           | None \<Rightarrow> (Inr (completed\<lparr>cp_Credential := (cp_Credential completed)\<lparr>ak_Metadata := set_meta ''auth_kind'' (AStr ''aws_sigv4'') m\<rparr>,
               cp_Metadata := sigv4_marks (cp_Metadata completed)\<rparr>), w)))"

definition SigV4_Refresh ::
  "client_env \<Rightarrow> 'n OAuth2SigV4Strategy \<Rightarrow> int \<Rightarrow> ActiveCredential \<Rightarrow> (cc_cache \<times> 'n, RefreshResult) effect" where
  "SigV4_Refresh env s now cred w =
     (case cc_Refresh env (sv_delegate s) now cred w of
        (Inl err, w) \<Rightarrow> (Inl err, w)
      | (Inr refreshed, w) \<Rightarrow>
          (let m = applySigV4ProfileMetadata (copyAnyMap (ak_Metadata (rs_Credential refreshed))) (sv_profile s) (ak_Metadata cred) in
           case validateSigV4ProfileMetadata m of
             Some err \<Rightarrow> (Inl err, w)
           | None \<Rightarrow> (Inr (refreshed\<lparr>rs_Credential := (rs_Credential refreshed)\<lparr>ak_Metadata := set_meta ''auth_kind'' (AStr ''aws_sigv4'') m\<rparr>,
               rs_Metadata := sigv4_marks (rs_Metadata refreshed)\<rparr>), w)))"

section \<open>What the signer reads\<close>

lemma firstNonEmpty_trim [simp]: "TrimSpace (firstNonEmpty vs) = firstNonEmpty vs"
  by (induction vs) (auto simp: firstNonEmpty.simps)

lemma auth_readString_trim [simp]: "TrimSpace (auth_readString m ks) = auth_readString m ks"
  by (induction ks) (auto simp: auth_readString.simps split: any.split)

lemma metadataString_readString: "[] \<notin> set ks \<Longrightarrow> metadataString m ks = auth_readString m ks"
  by (induction ks) (auto simp: auth_readString.simps meta_get_def split: option.split any.split)

declare metadataString.simps [simp del]

lemma meta_get_set [simp]: "meta_get (set_meta k v m) k' = (if k' = k then v else meta_get m k')"
  by (simp add: meta_get_def set_meta_def)

lemma read_set_other: "k \<notin> set ks \<Longrightarrow> auth_readString (set_meta k v m) ks = auth_readString m ks"
  by (rule auth_readString_cong) auto

lemma read_profile_other: "key \<notin> set ks \<Longrightarrow> auth_readString (set_profile rt key alias c m) ks = auth_readString m ks"
  by (simp add: set_profile_def read_set_other)

lemma read_expires_other: "''aws_signing_expires'' \<notin> set ks \<Longrightarrow> auth_readString (set_expires p rt m) ks = auth_readString m ks"
  by (simp add: set_expires_def Let_def read_set_other split: option.split)

lemma read_alias: "auth_readString m [key, alias] = [] \<Longrightarrow> auth_readString m [alias] = []"
  by (auto simp: auth_readString.simps split: any.splits if_splits)

lemma read_set_profile:
  assumes "alias \<noteq> key"
  shows "auth_readString (set_profile rt key alias c m) [key, alias] = firstNonEmpty [auth_readString rt [key, alias], c, auth_readString m [key, alias]]"
proof -
  let ?v = "firstNonEmpty [auth_readString rt [key, alias], c, auth_readString m [key, alias]]"
  have "auth_readString (set_profile rt key alias c m) [key, alias] = (if ?v \<noteq> [] then ?v else auth_readString (set_meta key (AStr ?v) m) [alias])"
    by (simp add: set_profile_def auth_readString.simps)
  moreover have "auth_readString (set_meta key (AStr ?v) m) [alias] = auth_readString m [alias]" using assms by (simp add: read_set_other)
  moreover have "?v = [] \<Longrightarrow> auth_readString m [alias] = []" by (rule read_alias [of _ key]) (simp add: firstNonEmpty.simps split: if_splits)
  ultimately show ?thesis by auto
qed

lemmas profile_reads = read_set_profile read_profile_other read_expires_other read_set_other

definition sigv4_metadata :: "meta \<Rightarrow> AWSSigV4SigningProfile \<Rightarrow> meta \<Rightarrow> meta" where
  "sigv4_metadata m p rt = set_meta ''auth_kind'' (AStr ''aws_sigv4'') (applySigV4ProfileMetadata m p rt)"

abbreviation "key_read m \<equiv> auth_readString m [''aws_access_key_id'', ''access_key_id'']"
abbreviation "secret_read m \<equiv> auth_readString m [''aws_secret_access_key'', ''secret_access_key'']"
abbreviation "session_read m \<equiv> auth_readString m [''aws_session_token'', ''session_token'']"
abbreviation "region_read m \<equiv> auth_readString m [''aws_region'', ''region'']"
abbreviation "service_read m \<equiv> auth_readString m [''aws_service'', ''service'']"
abbreviation "mode_read m \<equiv> auth_readString m [''aws_signing_mode'', ''signing_mode'']"
abbreviation "header_read m \<equiv> auth_readString m [''aws_access_token_header'']"

lemma normalizeSigningMode_cases: "normalizeSigningMode x = ''query'' \<or> normalizeSigningMode x = ''header''"
  by (simp add: normalizeSigningMode_def)

lemma literal_modes: "TrimSpace ''query'' = ''query''" "TrimSpace ''header'' = ''header''" "normalizeSigningMode ''query'' = ''query''" "normalizeSigningMode ''header'' = ''header''"
  "TrimSpace ''x-amz-access-token'' = ''x-amz-access-token''" "ToLower ''x-amz-access-token'' = ''x-amz-access-token''" "ToLower ''query'' = ''query''" "ToLower ''header'' = ''header''"
  by code_simp+

lemma read_mode:
  "auth_readString (set_meta k (AStr (normalizeSigningMode x)) m) (k # ks) = normalizeSigningMode x"
  using normalizeSigningMode_cases [of x] by (auto simp: auth_readString.simps literal_modes)

lemma sigv4_fields:
  "key_read (sigv4_metadata m p rt) = firstNonEmpty [key_read rt, ap_AccessKeyID p, key_read m]"
  "secret_read (sigv4_metadata m p rt) = firstNonEmpty [secret_read rt, ap_SecretAccessKey p, secret_read m]"
  "session_read (sigv4_metadata m p rt) = firstNonEmpty [session_read rt, ap_SessionToken p, session_read m]"
  "region_read (sigv4_metadata m p rt) = firstNonEmpty [region_read rt, ap_Region p, region_read m]"
  "service_read (sigv4_metadata m p rt) = firstNonEmpty [service_read rt, ap_Service p, service_read m]"
  by (simp_all add: sigv4_metadata_def applySigV4ProfileMetadata_def Let_def profile_reads)

lemma sigv4_mode:
  "mode_read (sigv4_metadata m p rt) = normalizeSigningMode (firstNonEmpty [mode_read rt, ap_SigningMode p, mode_read m])"
  by (simp add: sigv4_metadata_def applySigV4ProfileMetadata_def Let_def profile_reads read_mode)

definition token_header :: "meta \<Rightarrow> AWSSigV4SigningProfile \<Rightarrow> meta \<Rightarrow> string" where
  "token_header m p rt =
     (let h = firstNonEmpty [ToLower (header_read rt), ToLower (TrimSpace (ap_AccessTokenHeader p)), ToLower (header_read m)] in
      if h = [] then ''x-amz-access-token'' else h)"

lemma firstNonEmpty_lower: "\<forall>v \<in> set vs. ToLower v = v \<Longrightarrow> ToLower (firstNonEmpty vs) = firstNonEmpty vs"
  by (induction vs) (auto simp: firstNonEmpty.simps TrimSpace_ToLower [symmetric])

lemma token_header_normal: "token_header m p rt \<noteq> []" "TrimSpace (token_header m p rt) = token_header m p rt" "ToLower (token_header m p rt) = token_header m p rt"
  by (simp_all add: token_header_def Let_def literal_modes firstNonEmpty_lower)

lemma sigv4_header: "header_read (sigv4_metadata m p rt) = token_header m p rt"
proof -
  have "auth_readString (set_meta ''aws_access_token_header'' (AStr (token_header m1 p rt)) m2) [''aws_access_token_header''] = token_header m1 p rt" for m1 m2
    using token_header_normal by (simp add: auth_readString.simps)
  then show ?thesis
    by (simp add: sigv4_metadata_def applySigV4ProfileMetadata_def Let_def profile_reads flip: token_header_def [unfolded Let_def])
      (simp add: token_header_def profile_reads)
qed

lemmas sigv4_reads = sigv4_fields sigv4_mode sigv4_header

text \<open>Applying the profile again, to metadata without AWS keys, with the result of the first time as the runtime metadata, changes none of them.\<close>

lemma sigv4_reapplied:
  fixes m p rt m2
  defines "a \<equiv> sigv4_metadata m p rt"
  defines "b \<equiv> sigv4_metadata m2 p a"
  assumes "validateSigV4ProfileMetadata a = None" and "session_read m2 = []"
  shows "key_read b = key_read a" "secret_read b = secret_read a" "session_read b = session_read a" "region_read b = region_read a"
    "service_read b = service_read a" "mode_read b = mode_read a" "header_read b = header_read a"
proof -
  have v: "key_read a \<noteq> []" "secret_read a \<noteq> []" "region_read a \<noteq> []" "service_read a \<noteq> []"
    using assms(3) by (auto simp: validateSigV4ProfileMetadata_def split: if_splits)
  then show "key_read b = key_read a" "secret_read b = secret_read a" "region_read b = region_read a" "service_read b = service_read a"
    by (simp_all add: b_def sigv4_fields firstNonEmpty.simps)
  show "session_read b = session_read a"
    using assms(4) by (auto simp: a_def b_def sigv4_fields firstNonEmpty.simps)
  have mo: "mode_read a = ''query'' \<or> mode_read a = ''header''" using normalizeSigningMode_cases by (simp add: a_def sigv4_mode)
  then show "mode_read b = mode_read a" by (auto simp: b_def sigv4_mode firstNonEmpty.simps literal_modes)
  have h: "header_read a = token_header m p rt" by (simp add: a_def sigv4_header)
  then show "header_read b = header_read a" using token_header_normal [of m p rt] by (simp add: b_def sigv4_header token_header_def [of m2 p a] firstNonEmpty.simps)
qed

definition zero_sigv4_signer :: AWSSigV4Signer where
  "zero_sigv4_signer = \<lparr>aws_AccessKeyID = [], aws_SecretAccessKey = [], aws_SessionToken = [], aws_Region = [], aws_Service = [],
     aws_Mode = [], aws_QueryExpiry = 0, aws_UnsignedPayload = False, aws_AccessTokenHeader = [], aws_Now = None\<rparr>"

lemma sigv4_signer_chosen:
  assumes "meta_get (ak_Metadata cred) ''auth_kind'' = AStr ''aws_sigv4''"
  shows "resolveAuthKindSigner cred = Some (SignAWSSigV4 zero_sigv4_signer)"
proof -
  have t: "TrimSpace ''aws_sigv4'' = ''aws_sigv4''" "TrimSpace (ToLower ''aws_sigv4'') = ''aws_sigv4''" by code_simp+
  have "metadataString (ak_Metadata cred) [''auth_kind''] = ''aws_sigv4''" using assms t by (simp add: metadataString_readString auth_readString.simps)
  then have k: "normalizeAuthKind (resolveCredentialAuthKind cred) = ''aws_sigv4''" using t by (simp add: resolveCredentialAuthKind_def normalizeAuthKind_def)
  show ?thesis unfolding resolveAuthKindSigner_def Let_def k by (simp add: zero_sigv4_signer_def)
qed

lemma sigv4_profile_resolved:
  assumes "validateSigV4ProfileMetadata m = None" and "ak_Metadata cred = m" and "mode_read m = ''query'' \<or> mode_read m = ''header''"
    and "header_read m \<noteq> []" "ToLower (header_read m) = header_read m"
  shows "\<exists>p. AWSSigV4Signer_resolveProfile env zero_sigv4_signer cred = Inr p \<and> pf_AccessKeyID p = key_read m \<and> pf_SecretAccessKey p = secret_read m \<and>
    pf_SessionToken p = session_read m \<and> pf_Region p = region_read m \<and> pf_Service p = service_read m \<and> pf_Mode p = mode_read m \<and>
    pf_AccessTokenHeader p = header_read m \<and> pf_UnsignedPayload p = metadataBool m ''aws_unsigned_payload'' \<and> pf_Now p = cx_now env"
proof -
  have v: "key_read m \<noteq> []" "secret_read m \<noteq> []" "region_read m \<noteq> []" "service_read m \<noteq> []"
    using assms(1) by (auto simp: validateSigV4ProfileMetadata_def split: if_splits)
  have mo: "ToLower (mode_read m) = mode_read m" "mode_read m \<noteq> []" using assms(3) literal_modes by auto
  have mode: "firstNonEmpty [TrimSpace (ToLower []), TrimSpace (ToLower (mode_read m)), ''header''] = mode_read m"
    using mo by (simp add: firstNonEmpty.simps)
  show ?thesis
    using assms(3)
    by (elim disjE) (simp_all add: v mo assms(4,5) mode AWSSigV4Signer_resolveProfile_def zero_sigv4_signer_def Let_def assms(2) metadataString_readString
      literal_modes firstNonEmpty.simps)
qed

lemma validate_marked: "validateSigV4ProfileMetadata (set_meta ''auth_kind'' x m) = validateSigV4ProfileMetadata m"
  by (simp add: validateSigV4ProfileMetadata_def read_set_other)

lemma SigV4_Complete_Inr:
  assumes "SigV4_Complete env s now req w = (Inr r, w1)"
  obtains m where "ak_Metadata (cp_Credential r) = sigv4_metadata m (sv_profile s) (ac_Metadata req)"
    "validateSigV4ProfileMetadata (sigv4_metadata m (sv_profile s) (ac_Metadata req)) = None"
  using assms that by (auto simp: SigV4_Complete_def Let_def sigv4_metadata_def validate_marked split: prod.splits sum.splits option.splits)

lemma cc_Refresh_metadata:
  assumes "cc_Refresh env s now cred w = (Inr r, w1)"
  shows "session_read (copyAnyMap (ak_Metadata (rs_Credential r))) = []"
proof -
  have "\<exists>a b c d e f. ak_Metadata (rs_Credential r) = [(''auth_kind'', a), (''client_id'', b), (''token_url'', c), (''cache_key'', d), (''scope_type'', e), (''scope_id'', f)]"
    using assms by (auto simp: cc_Refresh_def issueCredential_def token_credential_def Let_def split: prod.splits sum.splits if_splits)
  then show ?thesis by (auto simp: auth_readString.simps meta_get_def)
qed

lemma SigV4_Refresh_Inr:
  assumes "SigV4_Refresh env s now cred w = (Inr r, w1)"
  obtains m where "ak_Metadata (rs_Credential r) = sigv4_metadata m (sv_profile s) (ak_Metadata cred)" "session_read m = []"
    "validateSigV4ProfileMetadata (sigv4_metadata m (sv_profile s) (ak_Metadata cred)) = None"
  using assms that cc_Refresh_metadata [of env "sv_delegate s" now cred w]
  by (auto simp: SigV4_Refresh_def Let_def sigv4_metadata_def validate_marked split: prod.splits sum.splits option.splits)

text \<open>The signer accepts every credential whose metadata the strategy has validated.\<close>

lemma sigv4_credential_signs:
  assumes "ak_Metadata cred = sigv4_metadata m p rt" "validateSigV4ProfileMetadata (sigv4_metadata m p rt) = None"
  shows "resolveAuthKindSigner cred = Some (SignAWSSigV4 zero_sigv4_signer)"
    "\<exists>pf. AWSSigV4Signer_resolveProfile env zero_sigv4_signer cred = Inr pf \<and> pf_AccessKeyID pf = key_read (ak_Metadata cred) \<and>
      pf_SecretAccessKey pf = secret_read (ak_Metadata cred) \<and> pf_SessionToken pf = session_read (ak_Metadata cred) \<and> pf_Region pf = region_read (ak_Metadata cred) \<and>
      pf_Service pf = service_read (ak_Metadata cred) \<and> pf_Mode pf = mode_read (ak_Metadata cred) \<and> pf_AccessTokenHeader pf = header_read (ak_Metadata cred) \<and>
      pf_UnsignedPayload pf = metadataBool (ak_Metadata cred) ''aws_unsigned_payload'' \<and> pf_Now pf = cx_now env"
proof -
  show "resolveAuthKindSigner cred = Some (SignAWSSigV4 zero_sigv4_signer)" by (rule sigv4_signer_chosen) (simp add: assms(1) sigv4_metadata_def)
  have "mode_read (sigv4_metadata m p rt) = ''query'' \<or> mode_read (sigv4_metadata m p rt) = ''header''" by (simp only: sigv4_mode normalizeSigningMode_cases)
  then show "\<exists>pf. AWSSigV4Signer_resolveProfile env zero_sigv4_signer cred = Inr pf \<and> pf_AccessKeyID pf = key_read (ak_Metadata cred) \<and>
      pf_SecretAccessKey pf = secret_read (ak_Metadata cred) \<and> pf_SessionToken pf = session_read (ak_Metadata cred) \<and> pf_Region pf = region_read (ak_Metadata cred) \<and>
      pf_Service pf = service_read (ak_Metadata cred) \<and> pf_Mode pf = mode_read (ak_Metadata cred) \<and> pf_AccessTokenHeader pf = header_read (ak_Metadata cred) \<and>
      pf_UnsignedPayload pf = metadataBool (ak_Metadata cred) ''aws_unsigned_payload'' \<and> pf_Now pf = cx_now env"
    using sigv4_profile_resolved [OF _ refl, of cred env] assms by (simp add: sigv4_header token_header_normal)
qed

text \<open>
  C37: What the AWS strategy completes can be signed, now and after a refresh. For a completed credential the service chooses the
  AWS signer, and the signer resolves a profile; after any refresh of it the signer still signs with the same access key, secret,
  session token, region, service, mode and access token header.
\<close>

theorem sigv4_refresh_keeps_profile:
  assumes "SigV4_Complete env s now req w = (Inr r, w1)" and "SigV4_Refresh env s now' (cp_Credential r) w2 = (Inr r', w3)"
  shows "\<exists>signer p p'. resolveAuthKindSigner (cp_Credential r) = Some (SignAWSSigV4 signer) \<and> resolveAuthKindSigner (rs_Credential r') = Some (SignAWSSigV4 signer) \<and>
    AWSSigV4Signer_resolveProfile senv signer (cp_Credential r) = Inr p \<and> AWSSigV4Signer_resolveProfile senv signer (rs_Credential r') = Inr p' \<and>
    p' = p\<lparr>pf_UnsignedPayload := pf_UnsignedPayload p', pf_QueryExpiry := pf_QueryExpiry p'\<rparr>"
proof -
  obtain m where m: "ak_Metadata (cp_Credential r) = sigv4_metadata m (sv_profile s) (ac_Metadata req)"
    "validateSigV4ProfileMetadata (sigv4_metadata m (sv_profile s) (ac_Metadata req)) = None" using SigV4_Complete_Inr [OF assms(1)] .
  obtain m' where m': "ak_Metadata (rs_Credential r') = sigv4_metadata m' (sv_profile s) (ak_Metadata (cp_Credential r))" "session_read m' = []"
    "validateSigV4ProfileMetadata (sigv4_metadata m' (sv_profile s) (ak_Metadata (cp_Credential r))) = None" using SigV4_Refresh_Inr [OF assms(2)] .
  note same = sigv4_reapplied [OF m(2) m'(2), folded m(1), folded m'(1)]
  obtain p where p: "AWSSigV4Signer_resolveProfile senv zero_sigv4_signer (cp_Credential r) = Inr p" "pf_AccessKeyID p = key_read (ak_Metadata (cp_Credential r))"
      "pf_SecretAccessKey p = secret_read (ak_Metadata (cp_Credential r))" "pf_SessionToken p = session_read (ak_Metadata (cp_Credential r))"
      "pf_Region p = region_read (ak_Metadata (cp_Credential r))" "pf_Service p = service_read (ak_Metadata (cp_Credential r))"
      "pf_Mode p = mode_read (ak_Metadata (cp_Credential r))" "pf_AccessTokenHeader p = header_read (ak_Metadata (cp_Credential r))" "pf_Now p = cx_now senv"
    using sigv4_credential_signs(2) [OF m] by blast
  obtain p' where p': "AWSSigV4Signer_resolveProfile senv zero_sigv4_signer (rs_Credential r') = Inr p'" "pf_AccessKeyID p' = key_read (ak_Metadata (rs_Credential r'))"
      "pf_SecretAccessKey p' = secret_read (ak_Metadata (rs_Credential r'))" "pf_SessionToken p' = session_read (ak_Metadata (rs_Credential r'))"
      "pf_Region p' = region_read (ak_Metadata (rs_Credential r'))" "pf_Service p' = service_read (ak_Metadata (rs_Credential r'))"
      "pf_Mode p' = mode_read (ak_Metadata (rs_Credential r'))" "pf_AccessTokenHeader p' = header_read (ak_Metadata (rs_Credential r'))" "pf_Now p' = cx_now senv"
    using sigv4_credential_signs(2) [OF m'(1,3)] by blast
  have "p' = p\<lparr>pf_UnsignedPayload := pf_UnsignedPayload p', pf_QueryExpiry := pf_QueryExpiry p'\<rparr>" 
    by (rule awsSigV4Profile.equality) (simp_all add: p(2-) p'(2-) same)
  then show ?thesis using p(1) p'(1) sigv4_credential_signs(1) [OF m] sigv4_credential_signs(1) [OF m'(1,3)] by blast
qed

text \<open>Whether the payload is signed is stored as a boolean and read back as a string: a refresh loses a choice the caller made.\<close>

lemma unsigned_choice_lost:
  "metadataBool (sigv4_metadata m2 p (sigv4_metadata m p rt)) ''aws_unsigned_payload'' = ap_UnsignedPayload p"
proof -
  have t: "TrimSpace ''aws_unsigned_payload'' \<noteq> []" by code_simp
  have g: "meta_get (sigv4_metadata m p rt) ''aws_unsigned_payload'' = ABool b \<Longrightarrow> metadataBool (sigv4_metadata m p rt) ''aws_unsigned_payload'' = b" for m rt b
    using t by (auto simp: metadataBool_def meta_get_def split: option.splits)
  obtain b where b: "meta_get (sigv4_metadata m p rt) ''aws_unsigned_payload'' = ABool b" by (simp add: sigv4_metadata_def applySigV4ProfileMetadata_def Let_def)
  then have "auth_readString (sigv4_metadata m p rt) [''aws_unsigned_payload''] = []" by (simp add: auth_readString.simps)
  then have "meta_get (sigv4_metadata m2 p (sigv4_metadata m p rt)) ''aws_unsigned_payload'' = ABool (ap_UnsignedPayload p)"
    by (simp add: sigv4_metadata_def [of m2] applySigV4ProfileMetadata_def [of m2] Let_def)
  then show ?thesis by (rule g)
qed

definition sample_sigv4 :: "string list OAuth2SigV4Strategy" where
  "sample_sigv4 = \<lparr>sv_delegate = sample_cc, sv_profile = \<lparr>ap_AccessKeyID = ''AK'', ap_SecretAccessKey = ''sk'', ap_SessionToken = [], ap_Region = ''r'',
     ap_Service = ''v'', ap_SigningMode = ''header'', ap_SigningExpiresSec = 0, ap_UnsignedPayload = False, ap_AccessTokenHeader = ''x-t''\<rparr>\<rparr>"

definition sample_sigv4_cred :: ActiveCredential where
  "sample_sigv4_cred =
     (let c = token_credential sample_cc 0 (ac_Scope sample_cc_req) ''c'' ''t'' [] [] (cc_key sample_cc sample_cc_req) sample_cc_payload
      in c\<lparr>ak_Metadata := sigv4_metadata (copyAnyMap (ak_Metadata c)) (sv_profile sample_sigv4) []\<rparr>)"

lemma sample_sigv4_complete: "\<exists>r w. SigV4_Complete sample_client sample_sigv4 (\<lambda>_. 0) sample_cc_req ([], []) = (Inr r, w) \<and> cp_Credential r = sample_sigv4_cred"
proof -
  let ?md = "copyAnyMap (ac_Metadata sample_cc_req)"
  let ?c = "token_credential sample_cc 0 (ac_Scope sample_cc_req) ''c'' ''t'' [] [] (cc_key sample_cc sample_cc_req) sample_cc_payload"
  have f: "cc_client sample_cc ?md = ''c''" "cc_secret sample_cc ?md = ''s''" "cc_url sample_cc ?md = ''t''" "cc_requested sample_cc ?md = []" "cc_granted sample_cc ?md = []"
    and v: "validateSigV4ProfileMetadata (applySigV4ProfileMetadata (copyAnyMap (ak_Metadata ?c)) (sv_profile sample_sigv4) (ac_Metadata sample_cc_req)) = None"
    by code_simp+
  have d: "sv_delegate sample_sigv4 = sample_cc" "ac_Metadata sample_cc_req = []" by (simp_all add: sample_sigv4_def sample_cc_req_def)
  have "\<exists>r w. cc_Complete sample_client sample_cc (\<lambda>_. 0) sample_cc_req ([], []) = (Inr r, w) \<and> cp_Credential r = ?c"
    by (simp add: cc_Complete_alt Let_def f lookupCachedCredential_def issueCredential_def sample_cc_fetch)
  then obtain r w where r: "cc_Complete sample_client sample_cc (\<lambda>_. 0) sample_cc_req ([], []) = (Inr r, w)" "cp_Credential r = ?c" by blast
  show ?thesis using v by (simp add: SigV4_Complete_def Let_def d r sample_sigv4_cred_def sigv4_metadata_def)
qed

lemma sample_sigv4_refresh: "\<exists>r w. SigV4_Refresh sample_client sample_sigv4 0 sample_sigv4_cred ([], []) = (Inr r, w)"
proof -
  let ?md = "copyAnyMap (ak_Metadata sample_sigv4_cred)"
  have f: "firstNonEmpty [auth_readString ?md [''client_id''], cc_ClientID sample_cc] = ''c''"
    "firstNonEmpty [auth_readString ?md [''client_secret''], cc_ClientSecret sample_cc] = ''s''"
    "firstNonEmpty [auth_readString ?md [''token_url''], cc_TokenURL sample_cc] = ''t''"
    "normalizeValues (ak_RequestedScopes sample_sigv4_cred) = []" "normalizeValues (ak_GrantedScopes sample_sigv4_cred) = []" "cc_DefaultScopes sample_cc = []"
    and v: "validateSigV4ProfileMetadata (ak_Metadata sample_sigv4_cred) = None" by code_simp+
  have d: "sv_delegate sample_sigv4 = sample_cc" by (simp add: sample_sigv4_def)
  have "\<exists>r w. cc_Refresh sample_client sample_cc 0 sample_sigv4_cred ([], []) = (Inr r, w)"
    by (simp add: cc_Refresh_def Let_def f issueCredential_def sample_cc_fetch)
  then obtain r w where r: "cc_Refresh sample_client sample_cc 0 sample_sigv4_cred ([], []) = (Inr r, w)" by blast
  have a: "ak_Metadata sample_sigv4_cred = sigv4_metadata (copyAnyMap (ak_Metadata (token_credential sample_cc 0 (ac_Scope sample_cc_req) ''c'' ''t'' [] []
      (cc_key sample_cc sample_cc_req) sample_cc_payload))) (sv_profile sample_sigv4) []" by (simp add: sample_sigv4_cred_def Let_def)
  note same = sigv4_reapplied [OF v [unfolded a] cc_Refresh_metadata [OF r], folded a]
  have "validateSigV4ProfileMetadata (sigv4_metadata (copyAnyMap (ak_Metadata (rs_Credential r))) (sv_profile sample_sigv4) (ak_Metadata sample_sigv4_cred)) = None"
    using v unfolding validateSigV4ProfileMetadata_def same .
  then have "validateSigV4ProfileMetadata (applySigV4ProfileMetadata (copyAnyMap (ak_Metadata (rs_Credential r))) (sv_profile sample_sigv4) (ak_Metadata sample_sigv4_cred)) = None"
    by (simp only: sigv4_metadata_def validate_marked)
  then show ?thesis using r d by (simp add: SigV4_Refresh_def Let_def)
qed

definition sample_senv :: sign_env where
  "sample_senv = \<lparr>cx_sha256 = rev, cx_hmac = (@), cx_format = \<lambda>_ _. [], cx_now = 0, cx_text = \<lambda>_. []\<rparr>"

theorem sigv4_refresh_keeps_profile_witness:
  "\<exists>(r :: CompleteAuthResponse) r' w signer p p'. SigV4_Refresh sample_client sample_sigv4 0 (cp_Credential r) ([], []) = (Inr r', w) \<and>
     AWSSigV4Signer_resolveProfile sample_senv signer (cp_Credential r) = Inr p \<and> AWSSigV4Signer_resolveProfile sample_senv signer (rs_Credential r') = Inr p' \<and>
     pf_SecretAccessKey p' = pf_SecretAccessKey p"
proof -
  obtain r w where r: "SigV4_Complete sample_client sample_sigv4 (\<lambda>_. 0) sample_cc_req ([], []) = (Inr r, w)" "cp_Credential r = sample_sigv4_cred"
    using sample_sigv4_complete by blast
  obtain r' w' where r': "SigV4_Refresh sample_client sample_sigv4 0 (cp_Credential r) ([], []) = (Inr r', w')"
    using sample_sigv4_refresh r(2) by auto
  obtain signer p p' where p: "AWSSigV4Signer_resolveProfile sample_senv signer (cp_Credential r) = Inr p" "AWSSigV4Signer_resolveProfile sample_senv signer (rs_Credential r') = Inr p'"
      "p' = p\<lparr>pf_UnsignedPayload := pf_UnsignedPayload p', pf_QueryExpiry := pf_QueryExpiry p'\<rparr>"
    using sigv4_refresh_keeps_profile [OF r(1) r', of sample_senv] by blast
  have "pf_SecretAccessKey p' = pf_SecretAccessKey p" by (subst p(3)) simp
  with r' p(1,2) show ?thesis by (intro exI [of _ r] exI [of _ r'] exI [of _ w'] exI [of _ signer] exI [of _ p] exI [of _ p'] conjI)
qed

section \<open>The static strategies and their signers\<close>

lemma static_credential [simp]:
  "ak_AccessToken (cp_Credential (static_response kind token account md cmd)) = token" "ak_Metadata (cp_Credential (static_response kind token account md cmd)) = cmd"
  by (simp_all add: static_response_def)

lemma auth_kind_read: "TrimSpace kind = kind \<Longrightarrow> ToLower kind = kind \<Longrightarrow> kind \<noteq> [] \<Longrightarrow> meta_get (ak_Metadata cred) ''auth_kind'' = AStr kind \<Longrightarrow>
   normalizeAuthKind (resolveCredentialAuthKind cred) = kind"
  by (simp add: resolveCredentialAuthKind_def normalizeAuthKind_def metadataString_readString auth_readString.simps)

lemma static_kinds: "TrimSpace ''basic'' = ''basic''" "ToLower ''basic'' = ''basic''" "TrimSpace ''pat'' = ''pat''" "ToLower ''pat'' = ''pat''"
  by code_simp+

text \<open>A request signed with a basic credential carries the user and the password, and a server that decodes the header reads them.\<close>

lemma basic_credential_signs:
  assumes "Basic_Complete s req = Inr r"
  obtains user password where "user \<noteq> []" "password \<noteq> []" "resolveAuthKindSigner (cp_Credential r) = Some BasicAuthSigner"
    "BasicAuthSigner_Sign hreq (cp_Credential r) =
       (None, hreq\<lparr>hr_Header := Header_Set ''Authorization'' (''Basic '' @ ak_AccessToken (cp_Credential r)) (hr_Header hreq)\<rparr>)"
    "decode64 False True (ak_AccessToken (cp_Credential r)) = Some (user @ '':'' @ password)"
proof -
  obtain user password where u: "user \<noteq> []" "password \<noteq> []" "ak_AccessToken (cp_Credential r) = encode64 False True (user @ '':'' @ password)"
    "meta_get (ak_Metadata (cp_Credential r)) ''auth_kind'' = AStr ''basic''"
    using assms by (auto simp: Basic_Complete_def Let_def meta_get_def split: if_splits)
  have k: "normalizeAuthKind (resolveCredentialAuthKind (cp_Credential r)) = ''basic''" by (rule auth_kind_read) (simp_all add: static_kinds u(4))
  show thesis
    by (rule that [OF u(1,2)]) (use u(3) in \<open>simp_all add: resolveAuthKindSigner_def k BasicAuthSigner_Sign_def\<close>)
qed

text \<open>A configured header or prefix for personal access tokens is stored but not used: the signer always writes \<open>Authorization: token ...\<close>.\<close>

lemma pat_profile_ignored:
  assumes "APIKey_Complete (NewPATStrategy cfg) req = Inr r"
  shows "resolveAuthKindSigner (cp_Credential r) = Some PATSigner"
    "meta_get (ak_Metadata (cp_Credential r)) ''api_key_header'' = AStr (TrimSpace (kp_Header (ks_Profile (NewPATStrategy cfg))))"
proof -
  have "ks_Kind (NewPATStrategy cfg) = ''pat''" by (simp add: NewPATStrategy_def NewAPIKeyStrategy_def Let_def static_kinds)
  then have m: "meta_get (ak_Metadata (cp_Credential r)) ''auth_kind'' = AStr ''pat''"
      "meta_get (ak_Metadata (cp_Credential r)) ''api_key_header'' = AStr (TrimSpace (kp_Header (ks_Profile (NewPATStrategy cfg))))"
    using assms by (auto simp: APIKey_Complete_def Let_def meta_get_def split: if_splits)
  have k: "normalizeAuthKind (resolveCredentialAuthKind (cp_Credential r)) = ''pat''" by (rule auth_kind_read) (simp_all add: static_kinds m(1))
  show "resolveAuthKindSigner (cp_Credential r) = Some PATSigner" by (simp add: resolveAuthKindSigner_def k)
  show "meta_get (ak_Metadata (cp_Credential r)) ''api_key_header'' = AStr (TrimSpace (kp_Header (ks_Profile (NewPATStrategy cfg))))" by (rule m(2))
qed

end
