(* ===== verification/Service_Account.thy ===== *)
theory Service_Account
  imports Auth_Strategies Embedded_Auth
begin

text \<open>
  \<open>src/auth/jwt_support.go\<close> (signed JSON web tokens) and \<open>src/auth/service_account_jwt_strategy.go\<close> (service accounts: a token the
  strategy signs itself, or one that Google exchanges for it). \<open>json.Marshal\<close>, the parsers of PEM and of private keys, RSA and
  \<open>json.Unmarshal\<close> into the two structures are arguments; \<open>now\<close> is the clock of the strategy and \<open>clock\<close> that of the system.
\<close>

section \<open>JSON web tokens\<close>

text \<open>\<open>Time.Unix\<close>, and the zero time.\<close>

definition time_seconds :: "int \<Rightarrow> int" where
  "time_seconds t = t div Second"

definition zero_time :: int where
  "zero_time = - unixToInternal * Second"

record googleServiceAccountJSON =
  gj_ClientEmail :: string
  gj_PrivateKey :: string
  gj_PrivateKeyID :: string
  gj_TokenURI :: string
  gj_ProjectID :: string

record google_token_response =
  gt_AccessToken :: string
  gt_TokenType :: string
  gt_ExpiresIn :: int
  gt_Scope :: string

text \<open>A PEM block is its bytes and whether they are encrypted; a PKCS8 key is an RSA key or another one (\<open>None\<close>).\<close>

record 'k jwt_env =
  jw_marshal :: "meta \<Rightarrow> string result"
  jw_pem :: "string \<Rightarrow> (bool \<times> string) option"
  jw_pkcs1 :: "string \<Rightarrow> 'k result"
  jw_pkcs8 :: "string \<Rightarrow> 'k option result"
  jw_sign :: "'k \<Rightarrow> string \<Rightarrow> string result"
  jw_account :: "string \<Rightarrow> googleServiceAccountJSON result"
  jw_token :: "string \<Rightarrow> google_token_response result"

definition normalizeJWTAlgorithm :: "string \<Rightarrow> string result" where
  "normalizeJWTAlgorithm algorithm =
     (let normalized = ToUpper (TrimSpace algorithm);
          normalized = (if normalized = [] then ''RS256'' else normalized)
      in if normalized = ''HS256'' \<or> normalized = ''RS256'' then Inr normalized
         else Inl (Plain (''auth: unsupported jwt signing algorithm '' @ quote normalized)))"

definition parseRSAPrivateKey :: "client_env \<Rightarrow> 'k jwt_env \<Rightarrow> string \<Rightarrow> 'k result" where
  "parseRSAPrivateKey env j signingKey =
     (let normalized = ReplaceAll (CHR 0x5C # ''n'') [CHR 0x0A] (TrimSpace signingKey) in
      if normalized = [] then Inl (Plain ''auth: rsa private key is required'')
      else case jw_pem j normalized of
        None \<Rightarrow> Inl (Plain ''auth: invalid rsa private key pem'')
      | Some (encrypted, bytes) \<Rightarrow>
          if encrypted then Inl (Plain ''auth: encrypted rsa private key pem is not supported'')
          else (case jw_pkcs1 j bytes of
             Inr key \<Rightarrow> Inr key
           | Inl _ \<Rightarrow>
               (case jw_pkcs8 j bytes of
                  Inl err \<Rightarrow> Inl (Wrapped (''auth: parse rsa private key: '' @ err_Error (cl_render env) err) [err])
                | Inr None \<Rightarrow> Inl (Plain ''auth: parsed private key is not rsa'')
                | Inr (Some key) \<Rightarrow> Inr key)))"

definition signJWT :: "client_env \<Rightarrow> 'k jwt_env \<Rightarrow> string \<Rightarrow> string \<Rightarrow> string \<Rightarrow> string result" where
  "signJWT env j algorithm signingKey payload =
     (if algorithm = ''HS256'' then Inr (encode64 True False (cl_hmac env signingKey payload))
      else if algorithm = ''RS256'' then
        (case parseRSAPrivateKey env j signingKey of
           Inl err \<Rightarrow> Inl err
         | Inr privateKey \<Rightarrow>
             (case jw_sign j privateKey payload of
                Inl err \<Rightarrow> Inl (Wrapped (''auth: sign jwt with rs256: '' @ err_Error (cl_render env) err) [err])
              | Inr signature \<Rightarrow> Inr (encode64 True False signature)))
      else Inl (Plain (''auth: unsupported jwt signing algorithm '' @ quote algorithm)))"

definition jwt_header :: "string \<Rightarrow> string \<Rightarrow> meta" where
  "jwt_header algorithm keyID =
     (let h = [(''alg'', AStr algorithm), (''typ'', AStr ''JWT'')] in
      if TrimSpace keyID \<noteq> [] then AList.update ''kid'' (AStr (TrimSpace keyID)) h else h)"

definition buildJWT :: "client_env \<Rightarrow> 'k jwt_env \<Rightarrow> string \<Rightarrow> string \<Rightarrow> string \<Rightarrow> meta \<Rightarrow> string result" where
  "buildJWT env j keyID algorithm signingKey0 claims =
     (case normalizeJWTAlgorithm algorithm of
        Inl err \<Rightarrow> Inl err
      | Inr normalizedAlgorithm \<Rightarrow>
          let signingKey = TrimSpace signingKey0 in
          if signingKey = [] then Inl (Plain ''auth: jwt signing key is required'')
          else case jw_marshal j (jwt_header normalizedAlgorithm keyID) of
            Inl err \<Rightarrow> Inl (Wrapped (''auth: marshal jwt header: '' @ err_Error (cl_render env) err) [err])
          | Inr headerRaw \<Rightarrow>
              (case jw_marshal j claims of
                 Inl err \<Rightarrow> Inl (Wrapped (''auth: marshal jwt claims: '' @ err_Error (cl_render env) err) [err])
               | Inr claimsRaw \<Rightarrow>
                   (let payload = encode64 True False headerRaw @ ''.'' @ encode64 True False claimsRaw in
                    case signJWT env j normalizedAlgorithm signingKey payload of
                      Inl err \<Rightarrow> Inl err
                    | Inr signature \<Rightarrow> Inr (payload @ ''.'' @ signature))))"

section \<open>The strategy\<close>

abbreviation "AuthKindServiceAccountJWT \<equiv> ''service_account_jwt''"

record 'n ServiceAccountJWTStrategy =
  sa_Issuer :: string
  sa_Subject :: string
  sa_Audience :: string
  sa_PrivateKey :: string
  sa_SigningKey :: string
  sa_SigningAlgorithm :: string
  sa_KeyID :: string
  sa_TokenTTL :: int
  sa_ExternalAccountID :: string
  sa_HTTPClient :: "'n http_client"

definition NewServiceAccountJWTStrategy :: "'n ServiceAccountJWTStrategy \<Rightarrow> 'n ServiceAccountJWTStrategy" where
  "NewServiceAccountJWTStrategy cfg =
     cfg\<lparr>sa_Issuer := TrimSpace (sa_Issuer cfg), sa_Subject := TrimSpace (sa_Subject cfg), sa_Audience := TrimSpace (sa_Audience cfg),
       sa_PrivateKey := TrimSpace (sa_PrivateKey cfg),
       sa_SigningKey := (if TrimSpace (sa_SigningKey cfg) = [] then TrimSpace (sa_PrivateKey cfg) else TrimSpace (sa_SigningKey cfg)),
       sa_SigningAlgorithm := (if TrimSpace (ToUpper (sa_SigningAlgorithm cfg)) = [] then ''RS256'' else TrimSpace (ToUpper (sa_SigningAlgorithm cfg))),
       sa_KeyID := TrimSpace (sa_KeyID cfg), sa_TokenTTL := (if sa_TokenTTL cfg \<le> 0 then 60 * Minute else sa_TokenTTL cfg),
       sa_ExternalAccountID := TrimSpace (sa_ExternalAccountID cfg)\<rparr>"

record googleServiceAccountSpec =
  gs_issuer :: string
  gs_subject :: string
  gs_audience :: string
  gs_signingAlgorithm :: string
  gs_signingKey :: string
  gs_keyID :: string
  gs_tokenURI :: string
  gs_projectID :: string
  gs_scopes :: "string list"
  gs_tokenTTL :: int

text \<open>The account in JSON, empty where there is none or where it does not parse.\<close>

definition account_json :: "'k jwt_env \<Rightarrow> meta \<Rightarrow> googleServiceAccountJSON" where
  "account_json j metadata =
     (let raw = auth_readString metadata [''service_account_json'', ''google_service_account_json''];
          empty = \<lparr>gj_ClientEmail = [], gj_PrivateKey = [], gj_PrivateKeyID = [], gj_TokenURI = [], gj_ProjectID = []\<rparr>
      in if raw \<noteq> [] then (case jw_account j raw of Inr parsed \<Rightarrow> parsed | Inl _ \<Rightarrow> empty) else empty)"

definition google_exchange :: "meta \<Rightarrow> bool" where
  "google_exchange metadata \<longleftrightarrow> auth_readString metadata [''service_account_json'', ''google_service_account_json''] \<noteq> [] \<or>
     auth_readString metadata [''token_uri''] \<noteq> [] \<or> auth_readString metadata [''google_token_exchange''] = ''true''"

definition google_spec ::
  "'k jwt_env \<Rightarrow> 'n ServiceAccountJWTStrategy \<Rightarrow> meta \<Rightarrow> string \<Rightarrow> string \<Rightarrow> string \<Rightarrow> string \<Rightarrow> string \<Rightarrow> string \<Rightarrow> string list \<Rightarrow>
   googleServiceAccountSpec \<times> bool" where
  "google_spec j s metadata issuer audience subject signingAlgorithm signingKey keyID scopes =
     (let acc = account_json j metadata;
          tokenURI = firstNonEmpty [auth_readString metadata [''token_uri'', ''token_url''], TrimSpace (gj_TokenURI acc), audience];
          sub = firstNonEmpty [auth_readString metadata [''service_account_subject'', ''delegation_subject'', ''workspace_subject''], sa_Subject s];
          sub = (if TrimSpace sub = [] \<and> TrimSpace subject \<noteq> [] \<and> TrimSpace subject \<noteq> TrimSpace issuer then TrimSpace subject else sub);
          spec = \<lparr>gs_issuer = firstNonEmpty [auth_readString metadata [''client_email'', ''service_account_email''], TrimSpace (gj_ClientEmail acc), issuer],
            gs_subject = sub, gs_audience = firstNonEmpty [auth_readString metadata [''audience'', ''jwt_audience''], tokenURI, audience],
            gs_signingAlgorithm = firstNonEmpty [signingAlgorithm, sa_SigningAlgorithm s, ''RS256''],
            gs_signingKey = firstNonEmpty [auth_readString metadata [''private_key'', ''signing_key'', ''jwt_private_key'', ''jwt_signing_key''], TrimSpace (gj_PrivateKey acc), signingKey],
            gs_keyID = firstNonEmpty [auth_readString metadata [''private_key_id'', ''key_id'', ''jwt_key_id''], TrimSpace (gj_PrivateKeyID acc), keyID],
            gs_tokenURI = tokenURI, gs_projectID = firstNonEmpty [auth_readString metadata [''project_id''], TrimSpace (gj_ProjectID acc)],
            gs_scopes = normalizeValues scopes, gs_tokenTTL = (if sa_TokenTTL s \<le> 0 then 60 * Minute else sa_TokenTTL s)\<rparr>
      in (spec, google_exchange metadata))"

definition spec_metadata :: "googleServiceAccountSpec \<Rightarrow> meta" where
  "spec_metadata s =
     (let m = [(''auth_kind'', AStr AuthKindServiceAccountJWT), (''issuer'', AStr (TrimSpace (gs_issuer s))), (''client_email'', AStr (TrimSpace (gs_issuer s))),
            (''audience'', AStr (firstNonEmpty [gs_audience s, gs_tokenURI s])), (''token_uri'', AStr (TrimSpace (gs_tokenURI s))),
            (''signing_algorithm'', AStr (ToUpper (TrimSpace (gs_signingAlgorithm s)))), (''signing_key'', AStr (TrimSpace (gs_signingKey s)))];
          m = (if TrimSpace (gs_subject s) \<noteq> [] then
                 set_meta ''service_account_subject'' (AStr (TrimSpace (gs_subject s))) (set_meta ''subject'' (AStr (TrimSpace (gs_subject s))) m) else m);
          m = (if TrimSpace (gs_keyID s) \<noteq> [] then
                 set_meta ''private_key_id'' (AStr (TrimSpace (gs_keyID s))) (set_meta ''key_id'' (AStr (TrimSpace (gs_keyID s))) m) else m);
          m = (if TrimSpace (gs_projectID s) \<noteq> [] then set_meta ''project_id'' (AStr (TrimSpace (gs_projectID s))) m else m)
      in if length (gs_scopes s) > 0 then set_meta ''requested_scopes'' (AArr (map AStr (gs_scopes s))) m else m)"

definition google_claims :: "googleServiceAccountSpec \<Rightarrow> int \<Rightarrow> int \<Rightarrow> meta" where
  "google_claims spec now expiresAt =
     (let claims = [(''iss'', AStr (gs_issuer spec)), (''scope'', AStr (join_with '' '' (gs_scopes spec))),
            (''aud'', AStr (firstNonEmpty [gs_audience spec, gs_tokenURI spec])), (''iat'', AInt64 (time_seconds now)), (''exp'', AInt64 (time_seconds expiresAt))]
      in if TrimSpace (gs_subject spec) \<noteq> [] then set_meta ''sub'' (AStr (TrimSpace (gs_subject spec))) claims else claims)"

definition google_request :: "URL \<Rightarrow> string \<Rightarrow> http_request" where
  "google_request u assertion =
     \<lparr>hr_Method = ''POST'', hr_URL = u, hr_Header = Header_Set ''Content-Type'' ''application/x-www-form-urlencoded'' [],
      hr_Body = Some (Inr (Values_Encode (Values_Set ''assertion'' assertion (Values_Set ''grant_type'' ''urn:ietf:params:oauth:grant-type:jwt-bearer'' []))))\<rparr>"

definition google_credential :: "'k jwt_env \<Rightarrow> googleServiceAccountSpec \<Rightarrow> int \<Rightarrow> int \<Rightarrow> http_response \<Rightarrow> (ActiveCredential \<times> string list) result" where
  "google_credential j spec now expiresAt resp =
     (case hs_Read resp (2 ^ 20) of
        Inl _ \<Rightarrow> Inl (Plain ''auth: google service account token response read failed'')
      | Inr body \<Rightarrow>
          if hs_StatusCode resp < 200 \<or> hs_StatusCode resp > 299
          then Inl (Plain (''auth: google service account token exchange status '' @ Itoa (hs_StatusCode resp)))
          else case jw_token j body of
            Inl _ \<Rightarrow> Inl (Plain ''auth: google service account token response decode failed'')
          | Inr t \<Rightarrow>
              if TrimSpace (gt_AccessToken t) = [] then Inl (Plain ''auth: google service account token response missing access_token'')
              else
                let granted = normalizeValues (Fields (gt_Scope t)) in
                Inr (zero_credential\<lparr>ak_TokenType := firstNonEmpty [gt_TokenType t, ''Bearer''], ak_AccessToken := TrimSpace (gt_AccessToken t),
                       ak_ExpiresAt := Some (if gt_ExpiresIn t > 0 then time_Add now (wrap64 (gt_ExpiresIn t * Second)) else expiresAt),
                       ak_Refreshable := True, ak_Metadata := spec_metadata spec\<rparr>,
                     if length granted = 0 then gs_scopes spec else granted))"

definition exchangeGoogleServiceAccountJWT ::
  "client_env \<Rightarrow> 'k jwt_env \<Rightarrow> 'n ServiceAccountJWTStrategy \<Rightarrow> int \<Rightarrow> googleServiceAccountSpec \<Rightarrow> int \<Rightarrow> ('n, ActiveCredential \<times> string list) effect" where
  "exchangeGoogleServiceAccountJWT env j s clock spec now0 n =
     (if TrimSpace (gs_issuer spec) = [] then (Inl (Plain ''auth: google service account client_email is required''), n)
      else if TrimSpace (gs_signingKey spec) = [] then (Inl (Plain ''auth: google service account private_key is required''), n)
      else if TrimSpace (gs_tokenURI spec) = [] then (Inl (Plain ''auth: google service account token_uri is required''), n)
      else if length (gs_scopes spec) = 0 then (Inl (Plain ''auth: google service account scopes are required''), n)
      else
        let now = (if now0 = zero_time then clock else now0); expiresAt = time_Add now (gs_tokenTTL spec) in
        case buildJWT env j (gs_keyID spec) (gs_signingAlgorithm spec) (gs_signingKey spec) (google_claims spec now expiresAt) of
          Inl err \<Rightarrow> (Inl err, n)
        | Inr assertion \<Rightarrow>
            (case cl_parseURL env (TrimSpace (gs_tokenURI spec)) of
               Inl err \<Rightarrow> (Inl err, n)
             | Inr u \<Rightarrow>
                 (case sa_HTTPClient s (google_request (URL.truncate u) assertion) n of
                    (Inl err, n) \<Rightarrow> (Inl (Plain ''auth: google service account token exchange failed''), n)
                  | (Inr resp, n) \<Rightarrow> (google_credential j spec now expiresAt resp, n))))"

definition completeGoogleServiceAccount ::
  "client_env \<Rightarrow> 'k jwt_env \<Rightarrow> 'n ServiceAccountJWTStrategy \<Rightarrow> int \<Rightarrow> AuthCompleteRequest \<Rightarrow> googleServiceAccountSpec \<Rightarrow> string list \<Rightarrow> string list \<Rightarrow> int \<Rightarrow>
   ('n, CompleteAuthResponse) effect" where
  "completeGoogleServiceAccount env j s clock req spec requested granted now n =
     (case exchangeGoogleServiceAccountJWT env j s clock spec now n of
        (Inl err, n) \<Rightarrow> (Inl err, n)
      | (Inr (credential, tokenGranted), n) \<Rightarrow>
          (let granted = (if length tokenGranted > 0 then tokenGranted else granted);
               granted = (if length granted = 0 then requested else granted);
               credential = credential\<lparr>ak_RequestedScopes := requested, ak_GrantedScopes := granted, ak_Refreshable := True, ak_Metadata := spec_metadata spec\<rparr>
           in (Inr \<lparr>cp_ExternalAccountID = firstNonEmpty [auth_readString (ac_Metadata req) [''external_account_id''], sa_ExternalAccountID s, gs_issuer spec,
                      default_account AuthKindServiceAccountJWT (ac_Scope req)],
                    cp_Credential = credential, cp_RequestedGrants = requested, cp_GrantedGrants = granted, cp_Metadata = [(''auth_kind'', AStr AuthKindServiceAccountJWT)]\<rparr>, n)))"

definition account_claims :: "string \<Rightarrow> string \<Rightarrow> string \<Rightarrow> int \<Rightarrow> int \<Rightarrow> meta" where
  "account_claims issuer subject audience now expiresAt =
     [(''iss'', AStr issuer), (''sub'', AStr subject), (''aud'', AStr audience), (''iat'', AInt64 (time_seconds now)), (''exp'', AInt64 (time_seconds expiresAt))]"

definition account_metadata :: "string \<Rightarrow> string \<Rightarrow> string \<Rightarrow> string \<Rightarrow> string \<Rightarrow> string \<Rightarrow> meta" where
  "account_metadata issuer subject audience signingAlgorithm signingKeyFromMetadata keyID =
     (let m = [(''auth_kind'', AStr AuthKindServiceAccountJWT), (''issuer'', AStr issuer), (''subject'', AStr subject), (''audience'', AStr audience),
            (''signing_algorithm'', AStr (ToUpper (TrimSpace signingAlgorithm)))];
          m = (if signingKeyFromMetadata \<noteq> [] then set_meta ''signing_key'' (AStr signingKeyFromMetadata) m else m)
      in if keyID \<noteq> [] then set_meta ''key_id'' (AStr keyID) m else m)"

abbreviation "key_names \<equiv> [''signing_key'', ''jwt_signing_key'', ''private_key'', ''jwt_private_key'', ''jwt_secret'']"

definition SA_Begin :: "AuthBeginRequest \<Rightarrow> BeginAuthResponse" where
  "SA_Begin req =
     \<lparr>bp_URL = [], bp_State = TrimSpace (ab_State req), bp_RequestedGrants = normalizeValues (ab_RequestedRaw req),
      bp_Metadata = [(''auth_kind'', AStr AuthKindServiceAccountJWT)]\<rparr>"

definition SA_Complete ::
  "client_env \<Rightarrow> 'k jwt_env \<Rightarrow> 'n ServiceAccountJWTStrategy \<Rightarrow> int \<Rightarrow> int \<Rightarrow> AuthCompleteRequest \<Rightarrow> ('n, CompleteAuthResponse) effect" where
  "SA_Complete env j s clock now req n =
     (let metadata = copyAnyMap (ac_Metadata req);
          issuer = firstNonEmpty [auth_readString metadata [''issuer'', ''jwt_issuer'', ''client_email''], sa_Issuer s];
          audience = firstNonEmpty [auth_readString metadata [''audience'', ''jwt_audience'', ''token_url''], sa_Audience s];
          subject = firstNonEmpty [auth_readString metadata [''subject'', ''jwt_subject''], sa_Subject s, scope_ID (ac_Scope req)];
          signingAlgorithm = firstNonEmpty [auth_readString metadata [''signing_algorithm'', ''jwt_signing_algorithm'', ''alg''], sa_SigningAlgorithm s, ''RS256''];
          signingKeyFromMetadata = auth_readString metadata key_names;
          signingKey = firstNonEmpty [signingKeyFromMetadata, sa_SigningKey s, sa_PrivateKey s];
          keyID = firstNonEmpty [auth_readString metadata [''key_id'', ''jwt_key_id''], sa_KeyID s];
          expiresAt = time_Add now (sa_TokenTTL s);
          requested = auth_readStringSlice metadata [''requested_grants'', ''requested_scopes'', ''scopes''];
          granted = auth_readStringSlice metadata [''granted_grants'', ''granted_scopes''];
          granted = (if length granted = 0 then requested else granted);
          (googleSpec, googleExchange) = google_spec j s metadata issuer audience subject signingAlgorithm signingKey keyID requested
      in if googleExchange then completeGoogleServiceAccount env j s clock req googleSpec requested granted now n
         else if issuer = [] then (Inl (Plain ''auth: service_account_jwt issuer is required''), n)
         else if audience = [] then (Inl (Plain ''auth: service_account_jwt audience is required''), n)
         else if signingKey = [] then (Inl (Plain ''auth: service_account_jwt signing key is required''), n)
         else case buildJWT env j keyID signingAlgorithm signingKey (account_claims issuer subject audience now expiresAt) of
           Inl err \<Rightarrow> (Inl err, n)
         | Inr token \<Rightarrow>
             (Inr \<lparr>cp_ExternalAccountID = firstNonEmpty [auth_readString metadata [''external_account_id''], sa_ExternalAccountID s,
                     default_account AuthKindServiceAccountJWT (ac_Scope req)],
                   cp_Credential = zero_credential\<lparr>ak_TokenType := ''bearer'', ak_AccessToken := token, ak_RequestedScopes := requested, ak_GrantedScopes := granted,
                     ak_ExpiresAt := Some expiresAt, ak_Refreshable := True,
                     ak_Metadata := account_metadata issuer subject audience signingAlgorithm signingKeyFromMetadata keyID\<rparr>,
                   cp_RequestedGrants = requested, cp_GrantedGrants = granted, cp_Metadata = [(''auth_kind'', AStr AuthKindServiceAccountJWT)]\<rparr>, n))"

definition SA_Refresh ::
  "client_env \<Rightarrow> 'k jwt_env \<Rightarrow> 'n ServiceAccountJWTStrategy \<Rightarrow> int \<Rightarrow> int \<Rightarrow> ActiveCredential \<Rightarrow> ('n, RefreshResult) effect" where
  "SA_Refresh env j s clock now cred n =
     (let metadata = copyAnyMap (ak_Metadata cred);
          issuer = firstNonEmpty [auth_readString metadata [''issuer''], sa_Issuer s];
          audience = firstNonEmpty [auth_readString metadata [''audience''], sa_Audience s];
          subject = firstNonEmpty [auth_readString metadata [''subject''], sa_Subject s];
          signingAlgorithm = firstNonEmpty [auth_readString metadata [''signing_algorithm''], sa_SigningAlgorithm s, ''RS256''];
          signingKey = firstNonEmpty [auth_readString metadata key_names, sa_SigningKey s, sa_PrivateKey s];
          keyID = firstNonEmpty [auth_readString metadata [''key_id''], sa_KeyID s]
      in if issuer = [] \<or> audience = [] \<or> signingKey = [] then (Inl (Plain ''auth: service_account_jwt refresh requires issuer/audience/signing key''), n)
         else
           let expiresAt = time_Add now (sa_TokenTTL s);
               requested = auth_readStringSlice metadata [''requested_grants'', ''requested_scopes'', ''scopes''];
               requested = (if length requested = 0 then ak_RequestedScopes cred else requested);
               (googleSpec, googleExchange) = google_spec j s metadata issuer audience subject signingAlgorithm signingKey keyID requested;
               result = (\<lambda>refreshed. \<lparr>rs_Credential = refreshed, rs_GrantedGrants = ak_GrantedScopes refreshed, rs_Metadata = [(''auth_kind'', AStr AuthKindServiceAccountJWT)]\<rparr>)
           in if googleExchange then
                (case exchangeGoogleServiceAccountJWT env j s clock googleSpec now n of
                   (Inl err, n) \<Rightarrow> (Inl err, n)
                 | (Inr (refreshed, granted), n) \<Rightarrow>
                     (let granted = (if length granted = 0 then ak_GrantedScopes cred else granted);
                          granted = (if length granted = 0 then requested else granted)
                      in (Inr (result (refreshed\<lparr>ak_ConnectionID := ak_ConnectionID cred, ak_RequestedScopes := requested, ak_GrantedScopes := granted,
                           ak_Refreshable := True, ak_Metadata := spec_metadata googleSpec\<rparr>)), n)))
              else if subject = [] then (Inl (Plain ''auth: service_account_jwt refresh requires subject''), n)
              else case buildJWT env j keyID signingAlgorithm signingKey (account_claims issuer subject audience now expiresAt) of
                Inl err \<Rightarrow> (Inl err, n)
              | Inr token \<Rightarrow>
                  (let m = set_meta ''signing_algorithm'' (AStr (ToUpper (TrimSpace signingAlgorithm))) (set_meta ''auth_kind'' (AStr AuthKindServiceAccountJWT) metadata);
                       m = (if keyID \<noteq> [] then set_meta ''key_id'' (AStr keyID) m else m)
                   in (Inr (result (cred\<lparr>ak_TokenType := ''bearer'', ak_AccessToken := token, ak_Refreshable := True, ak_ExpiresAt := Some expiresAt, ak_Metadata := m\<rparr>)), n)))"

section \<open>Signed tokens verify\<close>

lemma Split_jwt: "Split (encode64 True False a @ ''.'' @ encode64 True False b @ ''.'' @ encode64 True False c) (CHR ''.'') =
    [encode64 True False a, encode64 True False b, encode64 True False c]"
proof -
  have "CHR ''.'' \<notin> set (encode64 True False x)" for x using encode64_not_space by blast
  then show ?thesis by (simp add: Split_append Split_none)
qed

text \<open>
  A token signed with HS256 verifies. When \<open>json.Unmarshal\<close> reads back the header (which has strings only) and reads the claims as
  \<open>decoded\<close>, the token that \<open>buildJWT\<close> makes passes the format, algorithm and signature checks of the session token validator under the
  same secret, and the validator sees these claims.
\<close>

theorem hs256_token_verifies:
  assumes "buildJWT env j keyID algorithm secret claims = Inr token" and "normalizeJWTAlgorithm algorithm = Inr ''HS256''"
    and "\<And>raw. jw_marshal j (jwt_header ''HS256'' keyID) = Inr raw \<Longrightarrow> cl_json env raw = Inr (jwt_header ''HS256'' keyID)"
    and "\<And>raw. jw_marshal j claims = Inr raw \<Longrightarrow> cl_json env raw = Inr decoded"
  shows "verify_signature env (TrimSpace secret) token = Inr decoded"
proof -
  obtain hr cr where r: "jw_marshal j (jwt_header ''HS256'' keyID) = Inr hr" "jw_marshal j claims = Inr cr"
      and t: "token = encode64 True False hr @ ''.'' @ encode64 True False cr @ ''.'' @
        encode64 True False (cl_hmac env (TrimSpace secret) (encode64 True False hr @ ''.'' @ encode64 True False cr))"
    using assms(1,2) by (auto simp: buildJWT_def signJWT_def Let_def split: if_splits sum.splits)
  have alg: "meta_get (jwt_header ''HS256'' keyID) ''alg'' = AStr ''HS256''" by (simp add: jwt_header_def Let_def meta_get_def)
  have l: "ToUpper (TrimSpace (TrimSpace ''HS256'')) = ''HS256''" by code_simp
  show ?thesis
    using assms(3) [OF r(1)] assms(4) [OF r(2)] l
    unfolding t verify_signature_def Split_jwt by (simp add: decodeJWTSection_def alg)
qed

definition sample_jwt :: "unit jwt_env" where
  "sample_jwt = \<lparr>jw_marshal = \<lambda>m. Inr (if m = jwt_header ''HS256'' [] then ''h'' else ''p''), jw_pem = \<lambda>_. None, jw_pkcs1 = \<lambda>_. Inl (Plain []), jw_pkcs8 = \<lambda>_. Inl (Plain []),
     jw_sign = \<lambda>_ _. Inl (Plain []), jw_account = \<lambda>_. Inl (Plain []), jw_token = \<lambda>_. Inl (Plain [])\<rparr>"

definition sample_jwt_client :: client_env where
  "sample_jwt_client = sample_client\<lparr>cl_hmac := \<lambda>k m. k @ m, cl_json := \<lambda>raw. if raw = ''h'' then Inr (jwt_header ''HS256'' []) else Inr sample_payload\<rparr>"

theorem hs256_token_verifies_witness:
  "\<exists>token. buildJWT sample_jwt_client sample_jwt [] ''hs256'' ''k'' sample_payload = Inr token \<and> verify_signature sample_jwt_client ''k'' token = Inr sample_payload"
proof -
  have n: "normalizeJWTAlgorithm ''hs256'' = Inr ''HS256''" and k: "TrimSpace ''k'' = ''k''" and d: "sample_payload \<noteq> jwt_header ''HS256'' []" by code_simp+
  obtain token where t: "buildJWT sample_jwt_client sample_jwt [] ''hs256'' ''k'' sample_payload = Inr token"
    by (simp add: buildJWT_def n k signJWT_def sample_jwt_def)
  have "verify_signature sample_jwt_client (TrimSpace ''k'') token = Inr sample_payload"
    by (rule hs256_token_verifies [OF t n]) (use d in \<open>auto simp: sample_jwt_def sample_jwt_client_def\<close>)
  then show ?thesis using t k by simp
qed

section \<open>A refresh signs for the same identity\<close>

lemma char_upper_code: "97 \<le> (of_char c :: nat) \<and> (of_char c :: nat) \<le> 122 \<Longrightarrow> (of_char (char_upper c) :: nat) = of_char c - 32"
  by (auto simp: char_upper_def intro!: mod_less)

lemma is_space_char_upper [simp]: "is_space (char_upper c) = is_space c"
proof (cases "97 \<le> (of_char c :: nat) \<and> (of_char c :: nat) \<le> 122")
  case True
  then have "(of_char (char_upper c) :: nat) = of_char c - 32" by (rule char_upper_code)
  with True show ?thesis by (auto simp: is_space_def)
next
  case False
  then have "char_upper c = c" by (auto simp: char_upper_def)
  then show ?thesis by simp
qed

lemma char_upper_idem [simp]: "char_upper (char_upper c) = char_upper c"
  using char_upper_code [of c] by (cases "97 \<le> (of_char c :: nat) \<and> (of_char c :: nat) \<le> 122") (auto simp: char_upper_def)

lemma TrimSpace_ToUpper: "TrimSpace (ToUpper s) = ToUpper (TrimSpace s)"
  by (simp add: TrimSpace_def ToUpper_def dropWhile_map rev_map comp_def)

lemma ToUpper_idem [simp]: "ToUpper (ToUpper s) = ToUpper s"
  by (simp add: ToUpper_def)

lemma ToUpper_Nil [simp]: "ToUpper [] = []"
  by (simp add: ToUpper_def)

lemma ToUpper_eq_Nil [simp]: "ToUpper s = [] \<longleftrightarrow> s = []"
  by (simp add: ToUpper_def)

lemma buildJWT_stored_algorithm: "buildJWT env j keyID (ToUpper (TrimSpace algorithm)) = buildJWT env j keyID algorithm"
proof -
  have "normalizeJWTAlgorithm (ToUpper (TrimSpace algorithm)) = normalizeJWTAlgorithm algorithm" by (simp add: normalizeJWTAlgorithm_def TrimSpace_ToUpper)
  then show ?thesis by (intro ext) (simp add: buildJWT_def)
qed

text \<open>What the metadata of a credential keeps.\<close>

lemma firstNonEmpty_Nil: "firstNonEmpty vs = [] \<longleftrightarrow> (\<forall>v \<in> set vs. TrimSpace v = [])"
  by (induction vs) (auto simp: firstNonEmpty.simps)

lemma firstNonEmpty_absorb: "firstNonEmpty [firstNonEmpty [x, y], y] = firstNonEmpty [x, y]"
  by (simp add: firstNonEmpty.simps)

lemma account_metadata_reads:
  fixes iss sub aud alg key kid
  defines "m \<equiv> copyAnyMap (account_metadata iss sub aud alg key kid)"
  assumes "TrimSpace iss = iss" "TrimSpace sub = sub" "TrimSpace aud = aud" "TrimSpace key = key" "TrimSpace kid = kid"
  shows "auth_readString m [''issuer''] = iss" "auth_readString m [''subject''] = sub" "auth_readString m [''audience''] = aud"
    "auth_readString m [''signing_algorithm''] = ToUpper (TrimSpace alg)" "auth_readString m key_names = key" "auth_readString m [''key_id''] = kid" "\<not> google_exchange m"
proof -
  have ok: "gomap_ok (account_metadata iss sub aud alg key kid)" by (simp add: account_metadata_def set_meta_def Let_def distinct_update)
  have g: "meta_get m k = (if k = ''key_id'' \<and> kid \<noteq> [] then AStr kid else if k = ''signing_key'' \<and> key \<noteq> [] then AStr key
      else if k = ''auth_kind'' then AStr AuthKindServiceAccountJWT else if k = ''issuer'' then AStr iss else if k = ''subject'' then AStr sub
      else if k = ''audience'' then AStr aud else if k = ''signing_algorithm'' then AStr (ToUpper (TrimSpace alg)) else ANil)" for k
    using ok by (simp add: m_def meta_get_def account_metadata_def Let_def set_meta_def)
  show "auth_readString m [''issuer''] = iss" "auth_readString m [''subject''] = sub" "auth_readString m [''audience''] = aud"
    "auth_readString m [''signing_algorithm''] = ToUpper (TrimSpace alg)" "auth_readString m key_names = key" "auth_readString m [''key_id''] = kid" "\<not> google_exchange m"
    using assms(2-) by (simp_all add: auth_readString.simps g TrimSpace_ToUpper google_exchange_def)
qed

lemma google_spec_eq: "google_spec j s md iss aud sub alg key kid scopes = (fst (google_spec j s md iss aud sub alg key kid scopes), google_exchange md)"
  by (simp add: google_spec_def Let_def)

lemma SA_Complete_signed:
  fixes req s
  defines "md \<equiv> copyAnyMap (ac_Metadata req)"
  defines "iss \<equiv> firstNonEmpty [auth_readString md [''issuer'', ''jwt_issuer'', ''client_email''], sa_Issuer s]"
    and "aud \<equiv> firstNonEmpty [auth_readString md [''audience'', ''jwt_audience'', ''token_url''], sa_Audience s]"
    and "sub \<equiv> firstNonEmpty [auth_readString md [''subject'', ''jwt_subject''], sa_Subject s, scope_ID (ac_Scope req)]"
    and "alg \<equiv> firstNonEmpty [auth_readString md [''signing_algorithm'', ''jwt_signing_algorithm'', ''alg''], sa_SigningAlgorithm s, ''RS256'']"
    and "key \<equiv> firstNonEmpty [auth_readString md key_names, sa_SigningKey s, sa_PrivateKey s]"
    and "kid \<equiv> firstNonEmpty [auth_readString md [''key_id'', ''jwt_key_id''], sa_KeyID s]"
  assumes "SA_Complete env j s clock now req n = (Inr r, n1)" and "\<not> google_exchange md"
  shows "iss \<noteq> []" "aud \<noteq> []" "key \<noteq> []"
    "buildJWT env j kid alg key (account_claims iss sub aud now (time_Add now (sa_TokenTTL s))) = Inr (ak_AccessToken (cp_Credential r))"
    "ak_Metadata (cp_Credential r) = account_metadata iss sub aud alg (auth_readString md key_names) kid"
  using assms(8,9)
  unfolding SA_Complete_def Let_def md_def [symmetric] iss_def [symmetric] aud_def [symmetric] sub_def [symmetric] alg_def [symmetric] key_def [symmetric] kid_def [symmetric]
  by (subst (asm) google_spec_eq; auto split: if_splits sum.splits)+

lemma SA_Refresh_signed:
  assumes "ak_Metadata cred = account_metadata iss sub aud alg mkey kid"
    and "TrimSpace iss = iss" "TrimSpace sub = sub" "TrimSpace aud = aud" "TrimSpace mkey = mkey" "TrimSpace kid = kid" "TrimSpace alg = alg"
    and "iss \<noteq> []" "aud \<noteq> []" "sub \<noteq> []" "alg \<noteq> []" "key = firstNonEmpty [mkey, sa_SigningKey s, sa_PrivateKey s]" "key \<noteq> []" "kid = firstNonEmpty [kid, sa_KeyID s]"
  shows "(case SA_Refresh env j s clock now cred n of (Inl e, n') \<Rightarrow> (Inl e, n') | (Inr r, n') \<Rightarrow> (Inr (ak_AccessToken (rs_Credential r)), n')) =
    (buildJWT env j kid alg key (account_claims iss sub aud now (time_Add now (sa_TokenTTL s))), n)"
proof -
  note reads = account_metadata_reads [OF assms(2-6), of alg, folded assms(1)]
  have up: "TrimSpace (ToUpper alg) = ToUpper alg" "ToUpper alg \<noteq> []" using assms(7,11) by (simp_all add: TrimSpace_ToUpper)
  have f: "firstNonEmpty [iss, sa_Issuer s] = iss" "firstNonEmpty [aud, sa_Audience s] = aud" "firstNonEmpty [sub, sa_Subject s] = sub"
    "firstNonEmpty [ToUpper alg, sa_SigningAlgorithm s, ''RS256''] = ToUpper alg"
    using assms(2-4,8-10) up by (simp_all add: firstNonEmpty.simps)
  have b: "buildJWT env j kid (ToUpper alg) = buildJWT env j kid alg" using buildJWT_stored_algorithm [of env j kid alg] assms(7) by simp
  show ?thesis
    unfolding SA_Refresh_def Let_def reads assms(7) f assms(12,14) [symmetric]
    by (subst google_spec_eq) (simp add: reads(7) assms(8-10,13) b split: sum.split)
qed

text \<open>
  C38: A service account keeps its identity. When a completion has signed a token itself, every later refresh of the credential calls no
  server, and signs, or fails to sign, a token with the same key id, algorithm, key, issuer, subject and audience; only the times differ.
\<close>

theorem service_account_refresh_same_identity:
  assumes "SA_Complete env j s clock now req n = (Inr r, n1)" and "\<not> google_exchange (copyAnyMap (ac_Metadata req))" and "TrimSpace (scope_ID (ac_Scope req)) \<noteq> []"
  shows "\<exists>kid alg key iss sub aud.
    buildJWT env j kid alg key (account_claims iss sub aud now (time_Add now (sa_TokenTTL s))) = Inr (ak_AccessToken (cp_Credential r)) \<and>
    (\<forall>now' n'. (case SA_Refresh env j s clock now' (cp_Credential r) n' of (Inl e, n'') \<Rightarrow> (Inl e, n'') | (Inr r', n'') \<Rightarrow> (Inr (ak_AccessToken (rs_Credential r')), n'')) =
       (buildJWT env j kid alg key (account_claims iss sub aud now' (time_Add now' (sa_TokenTTL s))), n'))"
proof -
  note c = SA_Complete_signed [OF assms(1,2)]
  have rs: "TrimSpace ''RS256'' \<noteq> []" by code_simp
  show ?thesis
    by (intro exI conjI allI, rule c(4), rule SA_Refresh_signed [OF c(5)])
      (use c(1-3) assms(3) rs in \<open>simp_all add: firstNonEmpty_Nil firstNonEmpty_absorb\<close>)
qed

definition sample_account :: "string list ServiceAccountJWTStrategy" where
  "sample_account = \<lparr>sa_Issuer = ''i'', sa_Subject = [], sa_Audience = ''a'', sa_PrivateKey = [], sa_SigningKey = ''k'', sa_SigningAlgorithm = ''HS256'', sa_KeyID = [],
     sa_TokenTTL = 60 * Minute, sa_ExternalAccountID = [], sa_HTTPClient = \<lambda>req n. (Inl (Plain ''down''), n @ [''call''])\<rparr>"

theorem service_account_refresh_same_identity_witness:
  "\<exists>(r :: CompleteAuthResponse) token. SA_Complete sample_jwt_client sample_jwt sample_account 0 0 sample_cc_req [] = (Inr r, []) \<and>
     (case SA_Refresh sample_jwt_client sample_jwt sample_account 0 (10 * Minute) (cp_Credential r) [] of
        (Inl e, n) \<Rightarrow> (Inl e, n) | (Inr r', n) \<Rightarrow> (Inr (ak_AccessToken (rs_Credential r')), n)) = (token, [])"
proof -
  let ?md = "copyAnyMap (ac_Metadata sample_cc_req)"
  let ?cl = "account_claims ''i'' ''u'' ''a'' 0 (time_Add 0 (sa_TokenTTL sample_account))"
  have f: "firstNonEmpty [auth_readString ?md [''issuer'', ''jwt_issuer'', ''client_email''], sa_Issuer sample_account] = ''i''"
    "firstNonEmpty [auth_readString ?md [''audience'', ''jwt_audience'', ''token_url''], sa_Audience sample_account] = ''a''"
    "firstNonEmpty [auth_readString ?md [''subject'', ''jwt_subject''], sa_Subject sample_account, scope_ID (ac_Scope sample_cc_req)] = ''u''"
    "firstNonEmpty [auth_readString ?md [''signing_algorithm'', ''jwt_signing_algorithm'', ''alg''], sa_SigningAlgorithm sample_account, ''RS256''] = ''HS256''"
    "firstNonEmpty [auth_readString ?md key_names, sa_SigningKey sample_account, sa_PrivateKey sample_account] = ''k''"
    "firstNonEmpty [auth_readString ?md [''key_id'', ''jwt_key_id''], sa_KeyID sample_account] = []"
    and g: "\<not> google_exchange ?md" and sc: "TrimSpace (scope_ID (ac_Scope sample_cc_req)) \<noteq> []"
    and n: "normalizeJWTAlgorithm ''HS256'' = Inr ''HS256''" "TrimSpace ''k'' = ''k''" by code_simp+
  obtain token where t: "buildJWT sample_jwt_client sample_jwt [] ''HS256'' ''k'' ?cl = Inr token" by (simp add: buildJWT_def n signJWT_def sample_jwt_def)
  have "\<exists>r. SA_Complete sample_jwt_client sample_jwt sample_account 0 0 sample_cc_req [] = (Inr r, [])"
    unfolding SA_Complete_def Let_def f by (subst google_spec_eq) (simp add: g t)
  then obtain r where r: "SA_Complete sample_jwt_client sample_jwt sample_account 0 0 sample_cc_req [] = (Inr r, [])" by blast
  from service_account_refresh_same_identity [OF r g sc] r show ?thesis by blast
qed

text \<open>Without a delegation subject, the assertion for Google asks to act for the user whose name is the id of the scope.\<close>

lemma google_acts_for_scope:
  assumes "auth_readString md [''service_account_subject'', ''delegation_subject'', ''workspace_subject''] = []" "auth_readString md [''subject'', ''jwt_subject''] = []"
    and "TrimSpace (sa_Subject s) = []" "TrimSpace (scope_ID sc) \<noteq> []" "TrimSpace (scope_ID sc) \<noteq> TrimSpace issuer"
  shows "meta_get (google_claims (fst (google_spec j s md issuer audience (firstNonEmpty [auth_readString md [''subject'', ''jwt_subject''], sa_Subject s, scope_ID sc])
    alg key kid scopes)) now e) ''sub'' = AStr (TrimSpace (scope_ID sc))"
  using assms by (simp add: google_spec_def google_claims_def Let_def firstNonEmpty.simps)

end
