(* ===== verification/Rate_Limit_Store.thy ===== *)
theory Rate_Limit_Store
  imports Rate_Limit Effects
begin

text \<open>
  \<open>src/store/sql/rate_limit_state_store.go\<close> and \<open>src/store/sql/cached_rate_limit_state_store.go\<close>: the SQL store of the
  rate-limit policy and the cache before it. The repository and the cache are third-party packages and arguments here, as
  are \<open>time.Format\<close> and \<open>time.Parse\<close> for RFC 3339, \<open>Duration.Seconds\<close> and the conversion of floats.
\<close>

section \<open>Records\<close>

record limit_env =
  le_format :: "int \<Rightarrow> string"
  le_parse :: "string \<Rightarrow> int option"
  le_seconds :: "int \<Rightarrow> int"
  le_int :: "int \<Rightarrow> int \<Rightarrow> int"

record rateLimitStateRecord =
  lr_ID :: string
  lr_ProviderID :: string
  lr_ScopeType :: string
  lr_ScopeID :: string
  lr_BucketKey :: string
  lr_Limit :: int
  lr_Remaining :: int
  lr_ResetAt :: "int option"
  lr_RetryAfter :: "int option"
  lr_Metadata :: meta
  lr_CreatedAt :: int
  lr_UpdatedAt :: int

definition stateMetaAttempts :: string where "stateMetaAttempts = ''_attempts''"

definition stateMetaLastStatus :: string where "stateMetaLastStatus = ''_last_status''"

definition stateMetaThrottledUntil :: string where "stateMetaThrottledUntil = ''_throttled_until''"

definition durationToSecondsPointer :: "limit_env \<Rightarrow> int option \<Rightarrow> int option" where
  "durationToSecondsPointer env input =
     (case input of
        None \<Rightarrow> None
      | Some d \<Rightarrow> if d \<le> 0 then None else let seconds = le_seconds env d in Some (if seconds \<le> 0 then 1 else seconds))"

fun parseTimeMetadata :: "limit_env \<Rightarrow> any \<Rightarrow> int option" where
  "parseTimeMetadata env (AStr typed) = le_parse env (TrimSpace typed)"
| "parseTimeMetadata env _ = None"

fun any_int :: "limit_env \<Rightarrow> any \<Rightarrow> int option" where
  "any_int env (AInt typed) = Some typed"
| "any_int env (AInt64 typed) = Some typed"
| "any_int env (AFloat64 m e) = Some (le_int env m e)"
| "any_int env (AStr typed) = Atoi (TrimSpace typed)"
| "any_int env _ = None"

definition readIntMetadata :: "limit_env \<Rightarrow> meta \<Rightarrow> string \<Rightarrow> int option" where
  "readIntMetadata env metadata key = (case map_of metadata key of None \<Rightarrow> None | Some raw \<Rightarrow> any_int env raw)"

definition put_or_delete :: "bool \<Rightarrow> string \<Rightarrow> any \<Rightarrow> meta \<Rightarrow> meta" where
  "put_or_delete b key value m = (if b then AList.update key value m else AList.delete key m)"

definition composeRateLimitMetadata :: "limit_env \<Rightarrow> RateLimitState \<Rightarrow> meta" where
  "composeRateLimitMetadata env st =
     (let m = copyAnyMap (rs_Metadata st);
          m = put_or_delete (rs_Attempts st > 0) stateMetaAttempts (AInt (rs_Attempts st)) m;
          m = put_or_delete (rs_LastStatus st > 0) stateMetaLastStatus (AInt (rs_LastStatus st)) m
      in case rs_ThrottledUntil st of
           Some u \<Rightarrow> AList.update stateMetaThrottledUntil (AStr (le_format env u)) m
         | None \<Rightarrow> AList.delete stateMetaThrottledUntil m)"

definition rateLimitStateFromDomain :: "limit_env \<Rightarrow> string \<Rightarrow> RateLimitState \<Rightarrow> rateLimitStateRecord" where
  "rateLimitStateFromDomain env uuid st =
     \<lparr>lr_ID = uuid, lr_ProviderID = rk_ProviderID (rs_Key st), lr_ScopeType = rk_ScopeType (rs_Key st), lr_ScopeID = rk_ScopeID (rs_Key st),
      lr_BucketKey = rk_BucketKey (rs_Key st), lr_Limit = rs_Limit st, lr_Remaining = rs_Remaining st, lr_ResetAt = rs_ResetAt st,
      lr_RetryAfter = durationToSecondsPointer env (rs_RetryAfter st), lr_Metadata = composeRateLimitMetadata env st,
      lr_CreatedAt = rs_UpdatedAt st, lr_UpdatedAt = rs_UpdatedAt st\<rparr>"

text \<open>\<open>toDomain\<close> takes the three fields out of the metadata, one after the other.\<close>

definition record_state :: "rateLimitStateRecord \<Rightarrow> RateLimitState" where
  "record_state r =
     \<lparr>rs_Key = \<lparr>rk_ProviderID = lr_ProviderID r, rk_ScopeType = lr_ScopeType r, rk_ScopeID = lr_ScopeID r, rk_BucketKey = lr_BucketKey r\<rparr>,
      rs_Limit = lr_Limit r, rs_Remaining = lr_Remaining r, rs_ResetAt = lr_ResetAt r,
      rs_RetryAfter = (case lr_RetryAfter r of Some n \<Rightarrow> if n > 0 then Some (wrap64 (n * Second)) else None | None \<Rightarrow> None),
      rs_ThrottledUntil = None, rs_LastStatus = 0, rs_Attempts = 0, rs_UpdatedAt = lr_UpdatedAt r, rs_Metadata = copyAnyMap (lr_Metadata r)\<rparr>"

definition take_attempts :: "limit_env \<Rightarrow> RateLimitState \<Rightarrow> RateLimitState" where
  "take_attempts env st =
     (case readIntMetadata env (rs_Metadata st) stateMetaAttempts of
        Some attempts \<Rightarrow> st\<lparr>rs_Attempts := attempts, rs_Metadata := AList.delete stateMetaAttempts (rs_Metadata st)\<rparr> | None \<Rightarrow> st)"

definition take_status :: "limit_env \<Rightarrow> RateLimitState \<Rightarrow> RateLimitState" where
  "take_status env st =
     (case readIntMetadata env (rs_Metadata st) stateMetaLastStatus of
        Some status \<Rightarrow> st\<lparr>rs_LastStatus := status, rs_Metadata := AList.delete stateMetaLastStatus (rs_Metadata st)\<rparr> | None \<Rightarrow> st)"

definition take_until :: "limit_env \<Rightarrow> RateLimitState \<Rightarrow> RateLimitState" where
  "take_until env st =
     (case map_of (rs_Metadata st) stateMetaThrottledUntil of
        Some raw \<Rightarrow>
          (let st = st\<lparr>rs_Metadata := AList.delete stateMetaThrottledUntil (rs_Metadata st)\<rparr> in
           case parseTimeMetadata env raw of Some parsed \<Rightarrow> st\<lparr>rs_ThrottledUntil := Some parsed\<rparr> | None \<Rightarrow> st)
      | None \<Rightarrow> st)"

definition toDomain :: "limit_env \<Rightarrow> rateLimitStateRecord \<Rightarrow> RateLimitState" where
  "toDomain env r = take_until env (take_status env (take_attempts env (record_state r)))"

definition validateRateLimitKey :: "RateLimitKey \<Rightarrow> goerr option" where
  "validateRateLimitKey key =
     (if TrimSpace (rk_ProviderID key) = [] then Some (Plain ''sqlstore: rate-limit provider id is required'')
      else if TrimSpace (rk_ScopeType key) = [] then Some (Plain ''sqlstore: rate-limit scope type is required'')
      else if TrimSpace (rk_ScopeID key) = [] then Some (Plain ''sqlstore: rate-limit scope id is required'')
      else if TrimSpace (rk_BucketKey key) = [] then Some (Plain ''sqlstore: rate-limit bucket key is required'')
      else None)"

definition normalizeRateLimitKey :: "RateLimitKey \<Rightarrow> RateLimitKey" where
  "normalizeRateLimitKey key =
     \<lparr>rk_ProviderID = TrimSpace (ToLower (rk_ProviderID key)), rk_ScopeType = TrimSpace (ToLower (rk_ScopeType key)),
      rk_ScopeID = TrimSpace (rk_ScopeID key), rk_BucketKey = TrimSpace (ToLower (rk_BucketKey key))\<rparr>"

section \<open>The store\<close>

text \<open>
  The repository: the latest row with the four columns of a key, an upsert that finds the row to update by the same columns, and
  its two classifications of errors.
\<close>

record 'w limit_repo =
  lp_Get :: "RateLimitKey \<Rightarrow> 'w \<Rightarrow> rateLimitStateRecord option result"
  lp_Upsert :: "rateLimitStateRecord \<Rightarrow> ('w, unit) effect"
  lp_IsRecordNotFound :: "goerr \<Rightarrow> bool"
  lp_IsDuplicatedKey :: "goerr \<Rightarrow> bool"

definition RateLimitStateStore_Get :: "limit_env \<Rightarrow> 'w limit_repo \<Rightarrow> RateLimitKey \<Rightarrow> 'w \<Rightarrow> RateLimitState result" where
  "RateLimitStateStore_Get env repo key0 w =
     (let key = normalizeRateLimitKey key0 in
      case validateRateLimitKey key of
        Some err \<Rightarrow> Inl err
      | None \<Rightarrow>
          (case lp_Get repo key w of
             Inl err \<Rightarrow> if lp_IsRecordNotFound repo err then Inl (Sentinel ErrStateNotFound) else Inl err
           | Inr None \<Rightarrow> Inl (Sentinel ErrStateNotFound)
           | Inr (Some r) \<Rightarrow> Inr (toDomain env r)))"

text \<open>A second attempt under a new id is made when another insert came first.\<close>

definition RateLimitStateStore_Upsert :: "limit_env \<Rightarrow> 'w limit_repo \<Rightarrow> int \<Rightarrow> string \<Rightarrow> string \<Rightarrow> RateLimitState \<Rightarrow> ('w, unit) effect" where
  "RateLimitStateStore_Upsert env repo now uuid1 uuid2 st0 w =
     (let st = st0\<lparr>rs_Key := normalizeRateLimitKey (rs_Key st0)\<rparr> in
      case validateRateLimitKey (rs_Key st) of
        Some err \<Rightarrow> (Inl err, w)
      | None \<Rightarrow>
          (let st = st\<lparr>rs_UpdatedAt := (if rs_UpdatedAt st = 0 then now else rs_UpdatedAt st), rs_Metadata := copyAnyMap (rs_Metadata st)\<rparr> in
           case lp_Upsert repo (rateLimitStateFromDomain env uuid1 st) w of
             (Inr _, w) \<Rightarrow> (Inr (), w)
           | (Inl err, w) \<Rightarrow>
               if \<not> lp_IsDuplicatedKey repo err then (Inl err, w)
               else lp_Upsert repo (rateLimitStateFromDomain env uuid2 st) w))"

section \<open>The cache\<close>

text \<open>\<open>url.PathEscape\<close> leaves more bytes as they are than \<open>url.QueryEscape\<close>, and writes a space as \<open>%20\<close>.\<close>

definition path_char :: "char \<Rightarrow> string" where
  "path_char c =
     (if unreserved c \<or> c \<in> {CHR ''$'', CHR ''&'', CHR ''+'', CHR ''='', CHR '':'', CHR ''@''} then [c]
      else [CHR ''%'', hex_digit (of_char c div 16), hex_digit (of_char c mod 16)])"

definition PathEscape :: "string \<Rightarrow> string" where
  "PathEscape s = concat (map path_char s)"

definition rateLimitStateCacheKeyPrefix :: string where
  "rateLimitStateCacheKeyPrefix = ''go-services::ratelimit_state::v1''"

definition RateLimitStateCacheKey :: "RateLimitKey \<Rightarrow> string result" where
  "RateLimitStateCacheKey key =
     (let n = normalizeRateLimitKey key in
      case validateRateLimitKey n of
        Some err \<Rightarrow> Inl err
      | None \<Rightarrow> Inr (join_with ''::'' (rateLimitStateCacheKeyPrefix # map PathEscape [rk_ProviderID n, rk_ScopeType n, rk_ScopeID n, rk_BucketKey n])))"

definition cloneRateLimitState :: "RateLimitState \<Rightarrow> RateLimitState" where
  "cloneRateLimitState st = st\<lparr>rs_Key := normalizeRateLimitKey (rs_Key st), rs_Metadata := copyAnyMap (rs_Metadata st)\<rparr>"

text \<open>The cache service, and a base store over the same world.\<close>

record 'w cache_service =
  cs_GetOrFetch :: "string \<Rightarrow> ('w, RateLimitState) effect \<Rightarrow> ('w, RateLimitState) effect"
  cs_Delete :: "string \<Rightarrow> ('w, unit) effect"

record 'w CachedRateLimitStateStore =
  cr_Get :: "RateLimitKey \<Rightarrow> ('w, RateLimitState) effect"
  cr_Upsert :: "RateLimitState \<Rightarrow> ('w, unit) effect"
  cr_cache :: "'w cache_service"

definition CachedRateLimitStateStore_Get :: "'w CachedRateLimitStateStore \<Rightarrow> RateLimitKey \<Rightarrow> ('w, RateLimitState) effect" where
  "CachedRateLimitStateStore_Get s key w =
     (let normalized = normalizeRateLimitKey key in
      case RateLimitStateCacheKey normalized of
        Inl err \<Rightarrow> (Inl err, w)
      | Inr cacheKey \<Rightarrow>
          (let fetch = (\<lambda>w. case cr_Get s normalized w of
                 (Inl err, w) \<Rightarrow> (Inl err, w)
               | (Inr fetched, w) \<Rightarrow> (Inr (cloneRateLimitState (fetched\<lparr>rs_Key := normalizeRateLimitKey (rs_Key fetched)\<rparr>)), w))
           in case cs_GetOrFetch (cr_cache s) cacheKey fetch w of
                (Inl err, w) \<Rightarrow> (Inl err, w)
              | (Inr st, w) \<Rightarrow> (Inr (cloneRateLimitState st), w)))"

definition CachedRateLimitStateStore_Upsert :: "'w CachedRateLimitStateStore \<Rightarrow> RateLimitState \<Rightarrow> ('w, unit) effect" where
  "CachedRateLimitStateStore_Upsert s st0 w =
     (let st = st0\<lparr>rs_Key := normalizeRateLimitKey (rs_Key st0)\<rparr> in
      case validateRateLimitKey (rs_Key st) of
        Some err \<Rightarrow> (Inl err, w)
      | None \<Rightarrow>
          (case cr_Upsert s (st\<lparr>rs_Metadata := copyAnyMap (rs_Metadata st)\<rparr>) w of
             (Inl err, w) \<Rightarrow> (Inl err, w)
           | (Inr _, w) \<Rightarrow>
               (case RateLimitStateCacheKey (rs_Key st) of
                  Inl err \<Rightarrow> (Inl err, w)
                | Inr cacheKey \<Rightarrow> cs_Delete (cr_cache s) cacheKey w)))"

text \<open>The cache key is not injective: a colon is not escaped.\<close>

lemma cache_keys_collide:
  "RateLimitStateCacheKey \<lparr>rk_ProviderID = ''p'', rk_ScopeType = ''user'', rk_ScopeID = ''u::x'', rk_BucketKey = ''b''\<rparr> =
   RateLimitStateCacheKey \<lparr>rk_ProviderID = ''p'', rk_ScopeType = ''user'', rk_ScopeID = ''u'', rk_BucketKey = ''x::b''\<rparr>"
  by code_simp

section \<open>A state survives the database\<close>

declare map_of_eq_Some_iff [simp del] Some_eq_map_of_iff [simp del]

text \<open>A JSON column gives back every key with its value as \<open>j\<close> makes it, such as a float for an integer.\<close>

definition json_column :: "(any \<Rightarrow> any) \<Rightarrow> meta \<Rightarrow> meta" where
  "json_column j m = map (\<lambda>(k, v). (k, j v)) m"

lemma json_column_map_of [simp]: "map_of (json_column j m) k = map_option j (map_of m k)"
  by (induction m) (auto simp: json_column_def)

lemma json_column_ok [simp]: "gomap_ok (json_column j m) = gomap_ok m"
  by (simp add: json_column_def case_prod_beta comp_def)

definition json_faithful :: "limit_env \<Rightarrow> (any \<Rightarrow> any) \<Rightarrow> bool" where
  "json_faithful env j \<longleftrightarrow> (\<forall>s. j (AStr s) = AStr s) \<and> (\<forall>n. any_int env (j (AInt n)) = Some n)"

definition reserved_keys :: "string set" where
  "reserved_keys = {stateMetaAttempts, stateMetaLastStatus, stateMetaThrottledUntil}"

lemma reserved_distinct: "stateMetaAttempts \<noteq> stateMetaLastStatus" "stateMetaAttempts \<noteq> stateMetaThrottledUntil" "stateMetaLastStatus \<noteq> stateMetaThrottledUntil"
  by code_simp+

lemma put_or_delete_ok [simp]: "gomap_ok m \<Longrightarrow> gomap_ok (put_or_delete b k v m)"
  by (simp add: put_or_delete_def distinct_update AList.distinct_delete)

lemma put_or_delete_map_of: "map_of (put_or_delete b k v m) k' = (if k' = k then if b then Some v else None else map_of m k')"
  by (simp add: put_or_delete_def AList.delete_conv' update_conv')

lemma compose_ok: "gomap_ok (rs_Metadata st) \<Longrightarrow> gomap_ok (composeRateLimitMetadata env st)"
  by (simp add: composeRateLimitMetadata_def Let_def distinct_update AList.distinct_delete split: option.split)

lemma compose_map_of:
  assumes "gomap_ok (rs_Metadata st)"
  shows "map_of (composeRateLimitMetadata env st) k =
    (if k = stateMetaThrottledUntil then map_option (\<lambda>u. AStr (le_format env u)) (rs_ThrottledUntil st)
     else if k = stateMetaLastStatus then if rs_LastStatus st > 0 then Some (AInt (rs_LastStatus st)) else None
     else if k = stateMetaAttempts then if rs_Attempts st > 0 then Some (AInt (rs_Attempts st)) else None
     else map_of (rs_Metadata st) k)"
  using assms by (simp add: composeRateLimitMetadata_def Let_def put_or_delete_map_of AList.delete_conv' update_conv' split: option.split)

text \<open>What each step leaves of the other fields and of the metadata.\<close>

lemma take_other [simp]:
  "rs_Key (take_attempts env st) = rs_Key st" "rs_Limit (take_attempts env st) = rs_Limit st" "rs_Remaining (take_attempts env st) = rs_Remaining st"
  "rs_ResetAt (take_attempts env st) = rs_ResetAt st" "rs_UpdatedAt (take_attempts env st) = rs_UpdatedAt st"
  "rs_LastStatus (take_attempts env st) = rs_LastStatus st" "rs_ThrottledUntil (take_attempts env st) = rs_ThrottledUntil st"
  "rs_Key (take_status env st) = rs_Key st" "rs_Limit (take_status env st) = rs_Limit st" "rs_Remaining (take_status env st) = rs_Remaining st"
  "rs_ResetAt (take_status env st) = rs_ResetAt st" "rs_UpdatedAt (take_status env st) = rs_UpdatedAt st"
  "rs_Attempts (take_status env st) = rs_Attempts st" "rs_ThrottledUntil (take_status env st) = rs_ThrottledUntil st"
  "rs_Key (take_until env st) = rs_Key st" "rs_Limit (take_until env st) = rs_Limit st" "rs_Remaining (take_until env st) = rs_Remaining st"
  "rs_ResetAt (take_until env st) = rs_ResetAt st" "rs_UpdatedAt (take_until env st) = rs_UpdatedAt st"
  "rs_LastStatus (take_until env st) = rs_LastStatus st" "rs_Attempts (take_until env st) = rs_Attempts st"
  by (simp_all add: take_attempts_def take_status_def take_until_def Let_def split: option.split)

lemma take_metadata:
  "map_of (rs_Metadata (take_attempts env st)) k =
     (if k = stateMetaAttempts \<and> readIntMetadata env (rs_Metadata st) stateMetaAttempts \<noteq> None then None else map_of (rs_Metadata st) k)"
  "map_of (rs_Metadata (take_status env st)) k =
     (if k = stateMetaLastStatus \<and> readIntMetadata env (rs_Metadata st) stateMetaLastStatus \<noteq> None then None else map_of (rs_Metadata st) k)"
  "map_of (rs_Metadata (take_until env st)) k = (if k = stateMetaThrottledUntil then None else map_of (rs_Metadata st) k)"
  by (auto simp: take_attempts_def take_status_def take_until_def Let_def AList.delete_conv' split: option.split)

lemma take_value:
  "rs_Attempts (take_attempts env st) = (case readIntMetadata env (rs_Metadata st) stateMetaAttempts of Some n \<Rightarrow> n | None \<Rightarrow> rs_Attempts st)"
  "rs_LastStatus (take_status env st) = (case readIntMetadata env (rs_Metadata st) stateMetaLastStatus of Some n \<Rightarrow> n | None \<Rightarrow> rs_LastStatus st)"
  "rs_ThrottledUntil (take_until env st) =
     (case map_of (rs_Metadata st) stateMetaThrottledUntil of None \<Rightarrow> rs_ThrottledUntil st
      | Some raw \<Rightarrow> (case parseTimeMetadata env raw of Some u \<Rightarrow> Some u | None \<Rightarrow> rs_ThrottledUntil st))"
  by (simp_all add: take_attempts_def take_status_def take_until_def Let_def split: option.split)

lemma readInt_json:
  "json_faithful env j \<Longrightarrow> map_of m key = map_option j (if 0 < n then Some (AInt n) else None) \<Longrightarrow> readIntMetadata env m key = (if 0 < n then Some n else None)"
  by (simp add: readIntMetadata_def json_faithful_def)

lemma state_roundtrip:
  fixes st :: RateLimitState
  assumes "json_faithful env j" and "gomap_ok (rs_Metadata st)" and "0 \<le> rs_Attempts st" "0 \<le> rs_LastStatus st"
    and "\<And>u. rs_ThrottledUntil st = Some u \<Longrightarrow> le_parse env (TrimSpace (le_format env u)) = Some u"
    and "r = (rateLimitStateFromDomain env uuid st)\<lparr>lr_ID := i, lr_CreatedAt := c, lr_Metadata := json_column j (composeRateLimitMetadata env st)\<rparr>"
  shows "rs_Key (toDomain env r) = rs_Key st" "rs_Limit (toDomain env r) = rs_Limit st" "rs_Remaining (toDomain env r) = rs_Remaining st"
    "rs_ResetAt (toDomain env r) = rs_ResetAt st" "rs_ThrottledUntil (toDomain env r) = rs_ThrottledUntil st" "rs_LastStatus (toDomain env r) = rs_LastStatus st"
    "rs_Attempts (toDomain env r) = rs_Attempts st" "rs_UpdatedAt (toDomain env r) = rs_UpdatedAt st"
    "map_of (rs_Metadata (toDomain env r)) k = (if k \<in> reserved_keys then None else map_option j (map_of (rs_Metadata st) k))"
proof -
  have m0: "map_of (rs_Metadata (record_state r)) k = map_option j (map_of (composeRateLimitMetadata env st) k)" for k
    using compose_ok [OF assms(2)] by (simp add: record_state_def assms(6))
  note m = m0 [unfolded compose_map_of [OF assms(2)]] and d = reserved_distinct reserved_distinct [symmetric]
  have a: "readIntMetadata env (rs_Metadata (record_state r)) stateMetaAttempts = (if 0 < rs_Attempts st then Some (rs_Attempts st) else None)"
    by (rule readInt_json [OF assms(1)]) (simp add: m d)
  have s: "readIntMetadata env (rs_Metadata (take_attempts env (record_state r))) stateMetaLastStatus = (if 0 < rs_LastStatus st then Some (rs_LastStatus st) else None)"
    by (rule readInt_json [OF assms(1)]) (simp add: m d take_metadata)
  have t: "map_of (rs_Metadata (take_status env (take_attempts env (record_state r)))) stateMetaThrottledUntil =
      map_option (\<lambda>u. AStr (le_format env u)) (rs_ThrottledUntil st)"
    using assms(1) by (cases "rs_ThrottledUntil st") (simp_all add: m d take_metadata json_faithful_def)
  show "rs_Key (toDomain env r) = rs_Key st" "rs_Limit (toDomain env r) = rs_Limit st" "rs_Remaining (toDomain env r) = rs_Remaining st"
    "rs_ResetAt (toDomain env r) = rs_ResetAt st" "rs_UpdatedAt (toDomain env r) = rs_UpdatedAt st"
    by (simp_all add: toDomain_def record_state_def assms(6) rateLimitStateFromDomain_def)
  show "rs_Attempts (toDomain env r) = rs_Attempts st" "rs_LastStatus (toDomain env r) = rs_LastStatus st"
    using assms(3,4) by (simp_all add: toDomain_def take_value a s) (simp_all add: record_state_def)
  show "rs_ThrottledUntil (toDomain env r) = rs_ThrottledUntil st"
    using assms(5) by (cases "rs_ThrottledUntil st") (simp_all add: toDomain_def take_value t, simp add: record_state_def)
  show "map_of (rs_Metadata (toDomain env r)) k = (if k \<in> reserved_keys then None else map_option j (map_of (rs_Metadata st) k))"
    by (simp add: toDomain_def take_metadata a s m d reserved_keys_def)
qed

definition record_key :: "rateLimitStateRecord \<Rightarrow> RateLimitKey" where
  "record_key r = \<lparr>rk_ProviderID = lr_ProviderID r, rk_ScopeType = lr_ScopeType r, rk_ScopeID = lr_ScopeID r, rk_BucketKey = lr_BucketKey r\<rparr>"

text \<open>What the store relies on of the repository: a row that was upserted is read back, its metadata through a JSON column.\<close>

definition repo_reads_back :: "(any \<Rightarrow> any) \<Rightarrow> 'w limit_repo \<Rightarrow> bool" where
  "repo_reads_back j repo \<longleftrightarrow> (\<forall>r w w'. lp_Upsert repo r w = (Inr (), w') \<longrightarrow>
     (\<exists>i c. lp_Get repo (record_key r) w' = Inr (Some (r\<lparr>lr_ID := i, lr_CreatedAt := c, lr_Metadata := json_column j (lr_Metadata r)\<rparr>))))"

lemma verdict_cong:
  "rs_Key a = rs_Key b \<Longrightarrow> rs_ThrottledUntil a = rs_ThrottledUntil b \<Longrightarrow> rs_ResetAt a = rs_ResetAt b \<Longrightarrow> rs_Remaining a = rs_Remaining b \<Longrightarrow> verdict a t = verdict b t"
  by (simp add: verdict_def Let_def split: option.split)

lemma Upsert_Inr:
  fixes st :: RateLimitState
  assumes "RateLimitStateStore_Upsert env repo now uuid1 uuid2 st w = (Inr u, w')"
  obtains uuid w0 st1 where "lp_Upsert repo (rateLimitStateFromDomain env uuid st1) w0 = (Inr (), w')"
    "validateRateLimitKey (normalizeRateLimitKey (rs_Key st)) = None"
    "st1 = st\<lparr>rs_Key := normalizeRateLimitKey (rs_Key st), rs_UpdatedAt := (if rs_UpdatedAt st = 0 then now else rs_UpdatedAt st), rs_Metadata := copyAnyMap (rs_Metadata st)\<rparr>"
  using assms by (auto simp: RateLimitStateStore_Upsert_def Let_def split: option.splits prod.splits sum.splits if_splits)


definition sample_repo :: "rateLimitStateRecord list limit_repo" where
  "sample_repo = \<lparr>lp_Get = \<lambda>k w. Inr (find (\<lambda>r. record_key r = k) w),
     lp_Upsert = \<lambda>r w. (Inr (), r\<lparr>lr_Metadata := json_column (\<lambda>v. case v of AInt n \<Rightarrow> AFloat64 n 0 | _ \<Rightarrow> v) (lr_Metadata r)\<rparr> # w),
     lp_IsRecordNotFound = \<lambda>_. False, lp_IsDuplicatedKey = \<lambda>_. False\<rparr>"

definition sample_limit_env :: limit_env where
  "sample_limit_env = \<lparr>le_format = Itoa, le_parse = Atoi, le_seconds = \<lambda>d. d div Second, le_int = \<lambda>m e. m\<rparr>"

definition sample_throttled :: RateLimitState where
  "sample_throttled = (zero_state sample_limit_key)\<lparr>rs_Attempts := 2, rs_LastStatus := 429, rs_ThrottledUntil := Some 50, rs_Metadata := [(''x'', AInt 1)]\<rparr>"


section \<open>The cache\<close>

text \<open>A write drops the cached value: when the cache then misses, the next read is that of the base store.\<close>

lemma cached_read_after_write:
  assumes "CachedRateLimitStateStore_Upsert s st w = (Inr (), w')"
    and "\<And>key f v v'. cs_Delete (cr_cache s) key v = (Inr (), v') \<Longrightarrow> cs_GetOrFetch (cr_cache s) key f v' = f v'"
  shows "CachedRateLimitStateStore_Get s (rs_Key st) w' =
    (case cr_Get s (normalizeRateLimitKey (rs_Key st)) w' of (Inl e, w'') \<Rightarrow> (Inl e, w'') | (Inr st', w'') \<Rightarrow> (Inr (cloneRateLimitState st'), w''))"
proof -
  have n: "normalizeRateLimitKey (normalizeRateLimitKey k) = normalizeRateLimitKey k" for k
    by (simp add: normalizeRateLimitKey_def TrimSpace_ToLower_idem)
  have copy_twice: "copyAnyMap (copyAnyMap m) = copyAnyMap m" for m by (rule copyAnyMap_id) (simp add: copyAnyMap_def)
  have c: "cloneRateLimitState (cloneRateLimitState (x\<lparr>rs_Key := normalizeRateLimitKey (rs_Key x)\<rparr>)) = cloneRateLimitState x" for x
    by (simp add: cloneRateLimitState_def n copy_twice)
  obtain key w1 where k: "RateLimitStateCacheKey (normalizeRateLimitKey (rs_Key st)) = Inr key" "cs_Delete (cr_cache s) key w1 = (Inr (), w')"
    using assms(1) by (auto simp: CachedRateLimitStateStore_Upsert_def Let_def split: option.splits prod.splits sum.splits)
  show ?thesis using k assms(2) [OF k(2)] by (auto simp: CachedRateLimitStateStore_Get_def Let_def n c split: prod.split sum.split)
qed

end
