(* ===== verification/Activity.thy ===== *)
theory Activity
  imports Lifecycle "HOL-Library.Multiset"
begin

text \<open>
  The activity log: \<open>src/store/sql/activity_store.go\<close> (entries in a table, pages of them and their retention) and
  \<open>src/core/activity_controls.go\<close> (the sink that queues entries before the table). The order of rows with equal times is the
  database's: \<open>by_age\<close> and \<open>by_recency\<close> are any orders it may use. \<open>ff\<close> prints a float.
\<close>

section \<open>The activity store\<close>

record activityEntryRecord =
  ae_ID :: string
  ae_ProviderID :: string
  ae_ScopeType :: string
  ae_ScopeID :: string
  ae_ConnectionID :: "string option"
  ae_InstallationID :: "string option"
  ae_SubscriptionID :: "string option"
  ae_SyncJobID :: "string option"
  ae_Channel :: string
  ae_Action :: string
  ae_ObjectType :: string
  ae_ObjectID :: string
  ae_Actor :: string
  ae_ActorType :: string
  ae_Status :: string
  ae_Metadata :: meta
  ae_CreatedAt :: int

fun activity_status_str :: "ServiceActivityStatus \<Rightarrow> string" where
  "activity_status_str ServiceActivityStatusOK = ''ok''"
| "activity_status_str ServiceActivityStatusWarn = ''warn''"
| "activity_status_str ServiceActivityStatusError = ''error''"

definition act_metadataString :: "(int \<Rightarrow> int \<Rightarrow> string) \<Rightarrow> meta \<Rightarrow> string \<Rightarrow> string" where
  "act_metadataString ff metadata key =
     (case meta_get metadata key of
        ANil \<Rightarrow> []
      | value \<Rightarrow> (let text = TrimSpace (Sprint ff value) in if text = [] \<or> text = ''<nil>'' then [] else text))"

text \<open>\<open>strings.SplitN(value, ":", 2)\<close>: the text before the first colon and, where there is one, the text after it.\<close>

definition split_colon :: "string \<Rightarrow> string \<times> string option" where
  "split_colon s = (takeWhile (\<lambda>c. c \<noteq> CHR '':'') s, if CHR '':'' \<in> set s then Some (tl (dropWhile (\<lambda>c. c \<noteq> CHR '':'') s)) else None)"

definition parseObject :: "string \<Rightarrow> string \<times> string" where
  "parseObject value0 =
     (let value = TrimSpace value0 in
      if value = [] then ([], [])
      else case split_colon value of
        (part0, None) \<Rightarrow> (''event'', part0)
      | (part0, Some part1) \<Rightarrow> (TrimSpace part0, TrimSpace part1))"

definition inferActorType :: "string \<Rightarrow> string" where
  "inferActorType actor =
     (let normalized = ToLower (TrimSpace actor) in
      if normalized \<in> {''user'', ''system'', ''job'', ''webhook''} then normalized else ''system'')"

definition or_default :: "string \<Rightarrow> string \<Rightarrow> string" where
  "or_default d s = (if s = [] then d else s)"

definition some_text :: "string \<Rightarrow> string option" where
  "some_text s = (if s \<noteq> [] then Some s else None)"

definition entry_record :: "(int \<Rightarrow> int \<Rightarrow> string) \<Rightarrow> string \<Rightarrow> int \<Rightarrow> ServiceActivityEntry \<Rightarrow> activityEntryRecord result" where
  "entry_record ff uuid now entry =
     (let metadata = copyAnyMap (sa_Metadata entry);
          text = act_metadataString ff metadata;
          providerID = text ''provider_id''; scopeType = text ''scope_type''; scopeID = text ''scope_id''
      in if providerID = [] \<or> scopeType = [] \<or> scopeID = []
         then Inl (Plain ''sqlstore: activity metadata requires provider_id, scope_type, and scope_id'')
         else
           let (objectType, objectID) = parseObject (sa_Object entry);
               actorType = or_default (inferActorType (sa_Actor entry)) (text ''actor_type'');
               i = or_default uuid (TrimSpace (sa_ID entry))
           in Inr \<lparr>ae_ID = i, ae_ProviderID = providerID, ae_ScopeType = scopeType, ae_ScopeID = scopeID,
                ae_ConnectionID = some_text (text ''connection_id''), ae_InstallationID = some_text (text ''installation_id''),
                ae_SubscriptionID = some_text (text ''subscription_id''), ae_SyncJobID = some_text (text ''sync_job_id''),
                ae_Channel = or_default ''services.lifecycle'' (TrimSpace (sa_Channel entry)), ae_Action = or_default ''lifecycle.event'' (TrimSpace (sa_Action entry)),
                ae_ObjectType = or_default ''event'' objectType, ae_ObjectID = or_default i objectID,
                ae_Actor = or_default ''system'' (TrimSpace (sa_Actor entry)), ae_ActorType = actorType,
                ae_Status = or_default ''ok'' (TrimSpace (activity_status_str (sa_Status entry))), ae_Metadata = metadata,
                ae_CreatedAt = (if sa_CreatedAt entry = 0 then now else sa_CreatedAt entry)\<rparr>)"

text \<open>The insert fails with \<open>uniq\<close> when the id is taken.\<close>

definition ActivityStore_Record ::
  "(int \<Rightarrow> int \<Rightarrow> string) \<Rightarrow> sql_env \<Rightarrow> ServiceActivityEntry \<Rightarrow> activityEntryRecord list \<Rightarrow> goerr option \<times> activityEntryRecord list" where
  "ActivityStore_Record ff env entry t =
     (case entry_record ff (se_id env) (se_now env) entry of
        Inl err \<Rightarrow> (Some err, t)
      | Inr record \<Rightarrow>
          (case se_flt env 0 of
             Some err \<Rightarrow> (Some err, t)
           | None \<Rightarrow> if ae_ID record \<in> ae_ID ` set t then (Some (se_uniq env), t) else (None, record # t)))"

definition put_opt :: "string \<Rightarrow> string option \<Rightarrow> meta \<Rightarrow> meta" where
  "put_opt key v m = (case v of Some x \<Rightarrow> AList.update key (AStr (TrimSpace x)) m | None \<Rightarrow> m)"

fun activity_status_of :: "string \<Rightarrow> ServiceActivityStatus" where
  "activity_status_of s = (if s = ''error'' then ServiceActivityStatusError else if s = ''warn'' then ServiceActivityStatusWarn else ServiceActivityStatusOK)"

definition activityRecordToDomain :: "activityEntryRecord \<Rightarrow> ServiceActivityEntry" where
  "activityRecordToDomain r =
     (let m = copyAnyMap (ae_Metadata r);
          m = AList.update ''provider_id'' (AStr (TrimSpace (ae_ProviderID r))) m;
          m = AList.update ''scope_type'' (AStr (TrimSpace (ae_ScopeType r))) m;
          m = AList.update ''scope_id'' (AStr (TrimSpace (ae_ScopeID r))) m;
          m = put_opt ''connection_id'' (ae_ConnectionID r) m;
          m = put_opt ''installation_id'' (ae_InstallationID r) m;
          m = put_opt ''subscription_id'' (ae_SubscriptionID r) m;
          m = put_opt ''sync_job_id'' (ae_SyncJobID r) m
      in \<lparr>sa_ID = ae_ID r, sa_Actor = ae_Actor r, sa_Action = ae_Action r, sa_Object = TrimSpace (ae_ObjectType r) @ '':'' @ TrimSpace (ae_ObjectID r),
          sa_Channel = ae_Channel r, sa_Status = activity_status_of (ae_Status r), sa_Metadata = m, sa_CreatedAt = ae_CreatedAt r\<rparr>)"

section \<open>Pages\<close>

record ServicesActivityFilter =
  af_ProviderID :: string
  af_ScopeType :: string
  af_ScopeID :: string
  af_Action :: string
  af_Status :: string
  af_From :: "int option"
  af_To :: "int option"
  af_Page :: int
  af_PerPage :: int
  af_Connections :: "string list"

record ServicesActivityPage =
  pg_Items :: "ServiceActivityEntry list"
  pg_Page :: int
  pg_PerPage :: int
  pg_Total :: int
  pg_HasNext :: bool
  pg_NextCursor :: string

definition selects_text :: "string \<Rightarrow> string \<Rightarrow> bool" where
  "selects_text wanted value = (TrimSpace wanted \<noteq> [] \<longrightarrow> value = TrimSpace wanted)"

definition activity_where :: "ServicesActivityFilter \<Rightarrow> activityEntryRecord \<Rightarrow> bool" where
  "activity_where f r \<longleftrightarrow>
     selects_text (af_ProviderID f) (ae_ProviderID r) \<and> selects_text (af_ScopeType f) (ae_ScopeType r) \<and> selects_text (af_ScopeID f) (ae_ScopeID r) \<and>
     selects_text (af_Action f) (ae_Action r) \<and> selects_text (af_Status f) (ae_Status r) \<and>
     (case af_From f of Some t \<Rightarrow> t \<le> ae_CreatedAt r | None \<Rightarrow> True) \<and> (case af_To f of Some t \<Rightarrow> ae_CreatedAt r \<le> t | None \<Rightarrow> True) \<and>
     (let ids = filter (\<lambda>c. c \<noteq> []) (map TrimSpace (af_Connections f)) in
      ids \<noteq> [] \<longrightarrow> (case ae_ConnectionID r of Some c \<Rightarrow> c \<in> set ids | None \<Rightarrow> False))"

definition ActivityStore_List ::
  "sql_env \<Rightarrow> (activityEntryRecord list \<Rightarrow> activityEntryRecord list) \<Rightarrow> ServicesActivityFilter \<Rightarrow> activityEntryRecord list \<Rightarrow> ServicesActivityPage result" where
  "ActivityStore_List env by_recency f t =
     (let page = (if af_Page f \<le> 0 then 1 else af_Page f);
          perPage = (if af_PerPage f \<le> 0 then 25 else af_PerPage f);
          offset = wrap64 ((page - 1) * perPage)
      in case se_flt env 0 of
           Some err \<Rightarrow> Inl err
         | None \<Rightarrow>
             (let rows = by_recency (filter (activity_where f) t);
                  total = int (length rows);
                  items = map activityRecordToDomain (take (nat perPage) (drop (nat offset) rows));
                  hasNext = (wrap64 (offset + int (length items)) < total)
              in Inr \<lparr>pg_Items = items, pg_Page = page, pg_PerPage = perPage, pg_Total = total, pg_HasNext = hasNext,
                   pg_NextCursor = (if hasNext then Itoa (offset + int (length items)) else [])\<rparr>))"

section \<open>Retention\<close>

record ActivityRetentionPolicy =
  rp_TTL :: int
  rp_RowCap :: int

definition prune_ttl :: "sql_env \<Rightarrow> ActivityRetentionPolicy \<Rightarrow> activityEntryRecord list \<Rightarrow> nat \<times> goerr option \<times> activityEntryRecord list" where
  "prune_ttl env p t =
     (if rp_TTL p > 0 then
        (case se_flt env 0 of
           Some err \<Rightarrow> (0, Some err, t)
         | None \<Rightarrow>
             (let kept = filter (\<lambda>r. \<not> ae_CreatedAt r < se_now env - rp_TTL p) t in (length t - length kept, None, kept)))
      else (0, None, t))"

definition prune_cap ::
  "sql_env \<Rightarrow> (activityEntryRecord list \<Rightarrow> activityEntryRecord list) \<Rightarrow> ActivityRetentionPolicy \<Rightarrow> activityEntryRecord list \<Rightarrow>
   nat \<times> goerr option \<times> activityEntryRecord list" where
  "prune_cap env by_age p t =
     (if rp_RowCap p > 0 then
        (case se_flt env 1 of
           Some err \<Rightarrow> (0, Some err, t)
         | None \<Rightarrow>
             (let excess = int (length t) - rp_RowCap p in
              if excess > 0 then
                (case se_flt env 2 of
                   Some err \<Rightarrow> (0, Some err, t)
                 | None \<Rightarrow>
                     (let ids = map ae_ID (take (nat excess) (by_age t)); kept = filter (\<lambda>r. ae_ID r \<notin> set ids) t
                      in (length t - length kept, None, kept)))
              else (0, None, t)))
      else (0, None, t))"

definition ActivityStore_Prune ::
  "sql_env \<Rightarrow> (activityEntryRecord list \<Rightarrow> activityEntryRecord list) \<Rightarrow> ActivityRetentionPolicy \<Rightarrow> activityEntryRecord list \<Rightarrow>
   nat \<times> goerr option \<times> activityEntryRecord list" where
  "ActivityStore_Prune env by_age p t =
     (case prune_ttl env p t of
        (n, Some err, t) \<Rightarrow> (n, Some err, t)
      | (n, None, t) \<Rightarrow> (case prune_cap env by_age p t of (m, err, t) \<Rightarrow> (n + m, err, t)))"

section \<open>Retention keeps the newest entries\<close>

definition age_order :: "(activityEntryRecord list \<Rightarrow> activityEntryRecord list) \<Rightarrow> bool" where
  "age_order by_age \<longleftrightarrow> (\<forall>xs. mset (by_age xs) = mset xs \<and> sorted (map ae_CreatedAt (by_age xs)))"

lemma age_order_split:
  fixes xs :: "activityEntryRecord list"
  assumes "age_order by_age" and "r \<in> set (take n (by_age xs))" and "s \<in> set (drop n (by_age xs))"
  shows "ae_CreatedAt r \<le> ae_CreatedAt s"
proof -
  have "sorted (map ae_CreatedAt (take n (by_age xs)) @ map ae_CreatedAt (drop n (by_age xs)))"
    using assms(1) by (simp add: age_order_def flip: map_append)
  then show ?thesis using assms(2,3) by (auto simp: sorted_append)
qed

lemma filter_not_taken:
  assumes "distinct (map k xs)" and "mset ys = mset xs"
  shows "set (filter (\<lambda>r. k r \<notin> k ` set (take n ys)) xs) = set (drop n ys)" "length (filter (\<lambda>r. k r \<notin> k ` set (take n ys)) xs) = length xs - n"
proof -
  have dy: "distinct (map k ys)" using assms mset_eq_imp_distinct_iff [of "map k ys" "map k xs"] by simp
  have sy: "set ys = set xs" using assms(2) by (metis set_mset_mset)
  have inj: "inj_on k (set ys)" using dy by (simp add: distinct_map)
  have parts: "k ` set (take n ys) \<inter> k ` set (drop n ys) = {}"
    using dy by (metis append_take_drop_id distinct_append map_append set_map)
  have un: "set ys = set (take n ys) \<union> set (drop n ys)" by (metis append_take_drop_id set_append)
  show s: "set (filter (\<lambda>r. k r \<notin> k ` set (take n ys)) xs) = set (drop n ys)"
    using un parts sy by auto
  have "distinct (filter (\<lambda>r. k r \<notin> k ` set (take n ys)) xs)" "distinct (drop n ys)"
    using assms(1) dy by (auto simp: distinct_map)
  then have "length (filter (\<lambda>r. k r \<notin> k ` set (take n ys)) xs) = length (drop n ys)" using s by (metis distinct_card)
  also have "\<dots> = length xs - n" using assms(2) by (metis length_drop size_mset)
  finally show "length (filter (\<lambda>r. k r \<notin> k ` set (take n ys)) xs) = length xs - n" .
qed

lemma prune_cap_exact:
  assumes "age_order by_age" and "distinct (map ae_ID t)" and "se_flt env = no_faults" and "0 < rp_RowCap p"
  obtains m t' where "prune_cap env by_age p t = (m, None, t')" "int (length t') = min (int (length t)) (rp_RowCap p)" "m + length t' = length t" "set t' \<subseteq> set t"
    "\<And>r s. r \<in> set t - set t' \<Longrightarrow> s \<in> set t' \<Longrightarrow> ae_CreatedAt r \<le> ae_CreatedAt s"
proof (cases "int (length t) - rp_RowCap p > 0")
  case True
  let ?n = "nat (int (length t) - rp_RowCap p)"
  let ?t = "filter (\<lambda>r. ae_ID r \<notin> ae_ID ` set (take ?n (by_age t))) t"
  have ms: "mset (by_age t) = mset t" using assms(1) by (simp add: age_order_def)
  note f = filter_not_taken [OF assms(2) ms, of ?n]
  have un: "set t = set (take ?n (by_age t)) \<union> set (drop ?n (by_age t))" by (metis append_take_drop_id ms set_append set_mset_mset)
  show thesis
  proof (rule that [of "length t - length ?t" ?t])
    show "prune_cap env by_age p t = (length t - length ?t, None, ?t)" using assms(3,4) True by (simp add: prune_cap_def Let_def)
    show "int (length ?t) = min (int (length t)) (rp_RowCap p)" using f(2) True assms(4) by simp
    show "length t - length ?t + length ?t = length t" by simp
    show "set ?t \<subseteq> set t" by auto
    fix r s assume "r \<in> set t - set ?t" "s \<in> set ?t"
    then show "ae_CreatedAt r \<le> ae_CreatedAt s" using f(1) un age_order_split [OF assms(1), of r ?n t s] by blast
  qed
next
  case False
  then show thesis using assms(3,4) by (intro that [of 0 t]) (auto simp: prune_cap_def Let_def)
qed

text \<open>
  C39: Retention is exact. Pruning removes the expired entries and then, when more than the cap are left, the oldest of them: what is
  kept are unexpired entries, as many as the cap allows, none of them older than an unexpired entry that was removed, and the
  number reported is the number removed.
\<close>

theorem prune_exact:
  assumes "age_order by_age" and "distinct (map ae_ID t)" and "se_flt env = no_faults" and "0 < rp_TTL p" "0 < rp_RowCap p"
  shows "\<exists>n t'. ActivityStore_Prune env by_age p t = (n, None, t') \<and> n + length t' = length t \<and> set t' \<subseteq> set t \<and>
    (let live = filter (\<lambda>r. se_now env - rp_TTL p \<le> ae_CreatedAt r) t in
     set t' \<subseteq> set live \<and> int (length t') = min (int (length live)) (rp_RowCap p) \<and>
     (\<forall>r \<in> set live - set t'. \<forall>s \<in> set t'. ae_CreatedAt r \<le> ae_CreatedAt s))"
proof -
  let ?live = "filter (\<lambda>r. \<not> ae_CreatedAt r < se_now env - rp_TTL p) t"
  have d: "distinct (map ae_ID ?live)" using assms(2) by (rule distinct_map_filter)
  obtain m t' where c: "prune_cap env by_age p ?live = (m, None, t')" "int (length t') = min (int (length ?live)) (rp_RowCap p)" "m + length t' = length ?live"
      "set t' \<subseteq> set ?live" "\<And>r s. r \<in> set ?live - set t' \<Longrightarrow> s \<in> set t' \<Longrightarrow> ae_CreatedAt r \<le> ae_CreatedAt s"
    by (rule prune_cap_exact [OF assms(1) d assms(3,5)]) blast
  have le: "length ?live \<le> length t" by (rule length_filter_le)
  have "ActivityStore_Prune env by_age p t = (length t - length ?live + m, None, t')"
    using assms(3,4) c(1) by (simp add: ActivityStore_Prune_def prune_ttl_def Let_def)
  moreover have "length t - length ?live + m + length t' = length t" using c(3) le by linarith
  moreover have "filter (\<lambda>r. se_now env - rp_TTL p \<le> ae_CreatedAt r) t = ?live" by (rule filter_cong) auto
  ultimately show ?thesis using c(2,4,5) by (intro exI conjI) (auto simp: Let_def)
qed

definition sample_entry :: "nat \<Rightarrow> activityEntryRecord" where
  "sample_entry n = \<lparr>ae_ID = show_nat n, ae_ProviderID = ''p'', ae_ScopeType = ''user'', ae_ScopeID = ''u'', ae_ConnectionID = None, ae_InstallationID = None,
     ae_SubscriptionID = None, ae_SyncJobID = None, ae_Channel = ''c'', ae_Action = ''a'', ae_ObjectType = ''o'', ae_ObjectID = ''i'', ae_Actor = ''s'',
     ae_ActorType = ''system'', ae_Status = ''ok'', ae_Metadata = [], ae_CreatedAt = 10 * int n\<rparr>"

definition sample_activity_env :: sql_env where
  "sample_activity_env = \<lparr>se_id = ''x'', se_id2 = ''y'', se_now = 45, se_uniq = Plain [], se_render = \<lambda>_. [], se_flt = no_faults\<rparr>"

theorem prune_exact_witness:
  "\<exists>n t'. ActivityStore_Prune sample_activity_env (sort_key ae_CreatedAt) \<lparr>rp_TTL = 30, rp_RowCap = 2\<rparr> (map sample_entry [1, 2, 3, 4]) = (n, None, t') \<and> length t' = 2"
proof -
  have o: "age_order (sort_key ae_CreatedAt)" by (simp add: age_order_def)
  have d: "distinct (map ae_ID (map sample_entry [1, 2, 3, 4]))"
    and l: "length (filter (\<lambda>r. se_now sample_activity_env - rp_TTL \<lparr>rp_TTL = 30, rp_RowCap = 2\<rparr> \<le> ae_CreatedAt r) (map sample_entry [1, 2, 3, 4])) = 3" by code_simp+
  have f: "se_flt sample_activity_env = no_faults" "0 < rp_TTL \<lparr>rp_TTL = 30, rp_RowCap = 2\<rparr>" "0 < rp_RowCap \<lparr>rp_TTL = 30, rp_RowCap = 2\<rparr>"
    by (simp_all add: sample_activity_env_def)
  from prune_exact [OF o d f] l show ?thesis by (fastforce simp: Let_def)
qed

section \<open>The pages of a listing\<close>

definition rows_of :: "(activityEntryRecord list \<Rightarrow> activityEntryRecord list) \<Rightarrow> ServicesActivityFilter \<Rightarrow> activityEntryRecord list \<Rightarrow> activityEntryRecord list" where
  "rows_of by_recency f t = by_recency (filter (activity_where f) t)"

lemma page_more: "0 < n \<Longrightarrow> i * n + min n (L - i * n) < L \<longleftrightarrow> Suc i * n < (L :: nat)"
  by (auto simp: min_def)

lemma page_eq:
  assumes "se_flt env = no_faults" and "0 < af_PerPage f" and "int (Suc i) * af_PerPage f < 2 ^ 63"
  shows "\<exists>pg. ActivityStore_List env by_recency (f\<lparr>af_Page := int (Suc i)\<rparr>) t = Inr pg \<and>
    pg_Items pg = map activityRecordToDomain (take (nat (af_PerPage f)) (drop (i * nat (af_PerPage f)) (rows_of by_recency f t))) \<and>
    (pg_HasNext pg \<longleftrightarrow> Suc i * nat (af_PerPage f) < length (rows_of by_recency f t))"
proof -
  obtain n where n: "af_PerPage f = int n" "0 < n" using assms(2) by (metis of_nat_0_less_iff zero_less_imp_eq_int)
  let ?rows = "rows_of by_recency f t" and ?items = "take n (drop (i * n) (rows_of by_recency f t))"
  have w: "activity_where (f\<lparr>af_Page := p\<rparr>) = activity_where f" for p by (rule ext) (simp add: activity_where_def)
  have b: "int (Suc i * n) < 2 ^ 63" using assms(3) n(1) by (metis of_nat_mult)
  have len: "length ?items = min n (length ?rows - i * n)" by simp
  have "int (i * n + length ?items) < 2 ^ 63" "int (i * n) < 2 ^ 63" using b len by (simp_all add: min_def split: if_splits)
  moreover have "wrap64 (int x) = int x" if "int x < 2 ^ 63" for x using that by (intro wrap64_id) (simp add: int64_def)
  ultimately have "wrap64 (int (i * n + length ?items)) = int (i * n + length ?items)" "wrap64 (int (i * n)) = int (i * n)" by blast+
  then have small: "wrap64 (int i * int n + int (length ?items)) = int i * int n + int (length ?items)" "wrap64 (int i * int n) = int i * int n"
    by (simp_all only: of_nat_add of_nat_mult)
  have "int (i * n + length ?items) < int (length ?rows) \<longleftrightarrow> Suc i * n < length ?rows"
    using page_more [OF n(2), of i "length ?rows"] len by (metis of_nat_less_iff)
  then have more: "int i * int n + int (length ?items) < int (length ?rows) \<longleftrightarrow> n + i * n < length ?rows" by simp
  show ?thesis
    using n(2) small more by (simp add: ActivityStore_List_def Let_def rows_of_def [symmetric] w n(1) assms(1) nat_mult_distrib del: length_take length_drop)
qed

lemma concat_pages: "concat (map (\<lambda>i. take n (drop (i * n) xs)) [0..<k]) = take (k * n) xs"
proof (induction k)
  case (Suc k)
  have "take (Suc k * n) xs = take (k * n) xs @ take n (drop (k * n) xs)" using take_add [of "k * n" n xs] by (simp only: mult_Suc add.commute)
  then show ?case using Suc by simp
qed simp

text \<open>The pages of a listing, one after the other, are the rows it selects, each once and in their order; the last of them has no next page.\<close>

lemma pages_cover:
  assumes "se_flt env = no_faults" and "0 < af_PerPage f" and "int k * af_PerPage f < 2 ^ 63"
    and "page = (\<lambda>i. case ActivityStore_List env by_recency (f\<lparr>af_Page := int (Suc i)\<rparr>) t of Inr pg \<Rightarrow> pg_Items pg | Inl _ \<Rightarrow> [])"
  shows "concat (map page [0..<k]) = map activityRecordToDomain (take (k * nat (af_PerPage f)) (rows_of by_recency f t))"
proof -
  have "page i = map activityRecordToDomain (take (nat (af_PerPage f)) (drop (i * nat (af_PerPage f)) (rows_of by_recency f t)))" if "i < k" for i
  proof -
    have "int (Suc i) * af_PerPage f \<le> int k * af_PerPage f" using that assms(2) by (intro mult_right_mono) auto
    then have "int (Suc i) * af_PerPage f < 2 ^ 63" using assms(3) by linarith
    from page_eq [OF assms(1,2) this, of by_recency t] show ?thesis by (auto simp: assms(4))
  qed
  then have "map page [0..<k] = map (map activityRecordToDomain) (map (\<lambda>i. take (nat (af_PerPage f)) (drop (i * nat (af_PerPage f)) (rows_of by_recency f t))) [0..<k])" by simp
  then show ?thesis using concat_pages [of "nat (af_PerPage f)" "rows_of by_recency f t" k] by (simp only: flip: map_concat)
qed

section \<open>The queue before the sink\<close>

text \<open>
  \<open>OperationalActivitySink\<close>: a buffered channel, a worker that takes entries from it, and a channel that stops the worker. The
  primary and the fallback sink are two logs; whether a call of one fails is chosen by the step. When the context is done and the
  queue has room, Go chooses either case of the \<open>select\<close>.
\<close>

record 'e sink_state =
  sk_queue :: "'e list"
  sk_primary :: "'e list"
  sk_fallback :: "'e list"
  sk_dropped :: "'e list"
  sk_stopped :: bool

record sink_config =
  sc_capacity :: nat
  sc_fallback :: bool

definition NewOperationalActivitySink :: "int \<Rightarrow> bool \<Rightarrow> sink_config" where
  "NewOperationalActivitySink bufferSize fallback = \<lparr>sc_capacity = nat (if bufferSize \<le> 0 then 128 else bufferSize), sc_fallback = fallback\<rparr>"

definition to_fallback :: "sink_config \<Rightarrow> bool \<Rightarrow> 'e \<Rightarrow> 'e sink_state \<Rightarrow> 'e sink_state" where
  "to_fallback c fails e s =
     (if sc_fallback c \<and> \<not> fails then s\<lparr>sk_fallback := e # sk_fallback s\<rparr> else s\<lparr>sk_dropped := e # sk_dropped s\<rparr>)"

text \<open>\<open>Record\<close>: \<open>cancelled\<close> says that the case of the context was taken. It reports an error then, or when the fallback sink fails.\<close>

definition Sink_Record :: "sink_config \<Rightarrow> bool \<Rightarrow> bool \<Rightarrow> 'e \<Rightarrow> 'e sink_state \<Rightarrow> bool \<times> 'e sink_state" where
  "Sink_Record c cancelled fails e s =
     (if cancelled then (False, s)
      else if length (sk_queue s) < sc_capacity c then (True, s\<lparr>sk_queue := sk_queue s @ [e]\<rparr>)
      else if sc_fallback c \<and> fails then (False, s) else (True, to_fallback c fails e s))"

text \<open>One round of \<open>run\<close>.\<close>

definition sink_deliver :: "sink_config \<Rightarrow> bool \<Rightarrow> bool \<Rightarrow> 'e sink_state \<Rightarrow> 'e sink_state" where
  "sink_deliver c primary_fails fallback_fails s =
     (case sk_queue s of
        [] \<Rightarrow> s
      | e # q \<Rightarrow>
          (let s = s\<lparr>sk_queue := q\<rparr> in
           if primary_fails then to_fallback c fallback_fails e s else s\<lparr>sk_primary := e # sk_primary s\<rparr>))"

inductive sink_step :: "sink_config \<Rightarrow> 'e list \<times> 'e sink_state \<Rightarrow> 'e list \<times> 'e sink_state \<Rightarrow> bool" for c where
  recorded: "Sink_Record c cancelled fails e s = (True, s') \<Longrightarrow> sink_step c (acc, s) (e # acc, s')"
| refused: "Sink_Record c cancelled fails e s = (False, s') \<Longrightarrow> sink_step c (acc, s) (acc, s')"
| delivered: "\<not> sk_stopped s \<Longrightarrow> sk_queue s \<noteq> [] \<Longrightarrow> sink_step c (acc, s) (acc, sink_deliver c pf ff s)"
| closed: "sink_step c (acc, s) (acc, s\<lparr>sk_stopped := True\<rparr>)"

inductive sink_reach :: "sink_config \<Rightarrow> 'e list \<Rightarrow> 'e sink_state \<Rightarrow> bool" for c where
  start: "sink_reach c [] \<lparr>sk_queue = [], sk_primary = [], sk_fallback = [], sk_dropped = [], sk_stopped = False\<rparr>"
| step: "sink_reach c acc s \<Longrightarrow> sink_step c (acc, s) (acc', s') \<Longrightarrow> sink_reach c acc' s'"

definition sink_account :: "'e sink_state \<Rightarrow> 'e multiset" where
  "sink_account s = mset (sk_queue s) + mset (sk_primary s) + mset (sk_fallback s) + mset (sk_dropped s)"

text \<open>Every entry that \<open>Record\<close> accepted is in the queue, in one of the two sinks, or dropped, and nowhere twice; the queue keeps to its capacity.\<close>

lemma sink_accounts: "sink_reach c acc s \<Longrightarrow> sink_account s = mset acc \<and> length (sk_queue s) \<le> sc_capacity c"
proof (induction rule: sink_reach.induct)
  case (step acc s acc' s')
  from step.hyps(2) step.IH show ?case
    by (cases rule: sink_step.cases)
      (auto simp: Sink_Record_def to_fallback_def sink_deliver_def sink_account_def Let_def neq_Nil_conv split: if_splits)
qed (simp add: sink_account_def)

text \<open>What is queued when the sink is closed stays in the queue for ever: no sink records it, although \<open>Record\<close> has reported success.\<close>

lemma closed_queue_never_recorded:
  assumes "(sink_step c)\<^sup>*\<^sup>* (acc, s) (acc', s')" and "sk_stopped s"
  shows "sk_stopped s' \<and> sk_primary s' = sk_primary s \<and> (\<exists>q. sk_queue s' = sk_queue s @ q)"
  using assms(1)
proof (induction "(acc', s')" arbitrary: acc' s' rule: rtranclp_induct)
  case (step y)
  obtain acc1 s1 where y: "y = (acc1, s1)" by (cases y)
  from step.hyps(2) step.hyps(3) [OF y] show ?case
    unfolding y by (cases rule: sink_step.cases) (auto simp: Sink_Record_def to_fallback_def split: if_splits)
qed (use assms(2) in simp)

end
