(* ===== verification/Transport.thy ===== *)
theory Transport
  imports Provider_Operation Http_Client
begin

text \<open>
  \<open>src/transport\<close>: the registry of transport adapters (\<open>registry.go\<close>), the REST adapter (\<open>rest_adapter.go\<close>), the GraphQL, SOAP, bulk,
  stream and file adapters on top of it (\<open>graphql_adapter.go\<close>, \<open>protocol_adapters.go\<close>), the adapter for unsupported kinds
  (\<open>noop_adapter.go\<close>) and the errors (\<open>errors.go\<close>). The HTTP client is an argument, as are \<open>json.Marshal\<close> and the
  milliseconds a call takes; timeouts are not modelled. The order of an association list is the order in which Go ranges over the map.
\<close>

section \<open>Errors\<close>

fun transportTextCode :: "category \<Rightarrow> service_code" where
  "transportTextCode CategoryBadInput = ServiceErrorBadInput"
| "transportTextCode CategoryValidation = ServiceErrorBadInput"
| "transportTextCode CategoryAuth = ServiceErrorUnauthorized"
| "transportTextCode CategoryAuthz = ServiceErrorForbidden"
| "transportTextCode CategoryRateLimit = ServiceErrorRateLimited"
| "transportTextCode CategoryOperation = ServiceErrorOperationFailed"
| "transportTextCode CategoryExternal = ServiceErrorExternalFailure"
| "transportTextCode _ = ServiceErrorInternal"

definition transport_rich :: "string \<Rightarrow> category \<Rightarrow> int \<Rightarrow> meta \<Rightarrow> rich_error" where
  "transport_rich message category code metadata =
     (let err = (goerrors_New message category)\<lparr>Code := code, TextCode := code_text (transportTextCode category)\<rparr>
      in if length metadata > 0 then err\<lparr>ErrMeta := metadata\<rparr> else err)"

definition transportError :: "string \<Rightarrow> category \<Rightarrow> int \<Rightarrow> meta \<Rightarrow> goerr" where
  "transportError message category code metadata = Rich (transport_rich message category code metadata) None"

definition transportWrapError :: "goerr \<Rightarrow> category \<Rightarrow> string \<Rightarrow> int \<Rightarrow> meta \<Rightarrow> goerr" where
  "transportWrapError source category message code metadata = Rich (transport_rich message category code metadata) (Some source)"

section \<open>The registry\<close>

definition normalizeKind :: "string \<Rightarrow> string" where
  "normalizeKind kind = TrimSpace (ToLower kind)"

type_synonym 'w adapter_factory = "meta \<Rightarrow> 'w TransportAdapter option result"

record 'w Registry =
  rg_adapters :: "(string, 'w TransportAdapter) gomap"
  rg_factories :: "(string, 'w adapter_factory) gomap"

definition NewRegistry :: "'w Registry" where
  "NewRegistry = \<lparr>rg_adapters = [], rg_factories = []\<rparr>"

abbreviation in_registry :: meta where
  "in_registry \<equiv> [(''component'', AStr ''registry'')]"

abbreviation in_registry_kind :: "string \<Rightarrow> meta" where
  "in_registry_kind kind \<equiv> [(''component'', AStr ''registry''), (''adapter'', AStr kind)]"

definition Registry_Register :: "'w TransportAdapter option \<Rightarrow> 'w Registry \<Rightarrow> goerr option \<times> 'w Registry" where
  "Registry_Register adapter r =
     (case adapter of
        None \<Rightarrow> (Some (transportError ''transport: adapter is nil'' CategoryBadInput StatusBadRequest in_registry), r)
      | Some a \<Rightarrow>
          let kind = normalizeKind (ta_Kind a) in
          if kind = [] then (Some (transportError ''transport: adapter kind is required'' CategoryBadInput StatusBadRequest in_registry), r)
          else if map_of (rg_adapters r) kind \<noteq> None
          then (Some (transportError (''transport: adapter kind '' @ quote kind @ '' already registered'') CategoryConflict StatusConflict (in_registry_kind kind)), r)
          else (None, r\<lparr>rg_adapters := AList.update kind a (rg_adapters r)\<rparr>))"

definition Registry_RegisterFactory :: "string \<Rightarrow> 'w adapter_factory option \<Rightarrow> 'w Registry \<Rightarrow> goerr option \<times> 'w Registry" where
  "Registry_RegisterFactory kind0 factory r =
     (let kind = normalizeKind kind0 in
      if kind = [] then (Some (transportError ''transport: adapter kind is required'' CategoryBadInput StatusBadRequest in_registry), r)
      else case factory of
        None \<Rightarrow> (Some (transportError ''transport: adapter factory is nil'' CategoryBadInput StatusBadRequest (in_registry_kind kind)), r)
      | Some f \<Rightarrow>
          if map_of (rg_factories r) kind \<noteq> None
          then (Some (transportError (''transport: adapter factory kind '' @ quote kind @ '' already registered'') CategoryConflict StatusConflict (in_registry_kind kind)), r)
          else (None, r\<lparr>rg_factories := AList.update kind f (rg_factories r)\<rparr>))"

definition Registry_Build :: "string \<Rightarrow> meta \<Rightarrow> 'w Registry \<Rightarrow> 'w TransportAdapter result" where
  "Registry_Build kind0 config r =
     (let kind = normalizeKind kind0 in
      if kind = [] then Inl (transportError ''transport: adapter kind is required'' CategoryBadInput StatusBadRequest in_registry)
      else case map_of (rg_adapters r) kind of
        Some adapter \<Rightarrow> Inr adapter
      | None \<Rightarrow>
          (case map_of (rg_factories r) kind of
             None \<Rightarrow> Inl (transportError (''transport: adapter kind '' @ quote kind @ '' not registered'') CategoryNotFound StatusNotFound (in_registry_kind kind))
           | Some factory \<Rightarrow>
               (case factory (cloneMap config) of
                  Inl err \<Rightarrow> Inl (transportWrapError err CategoryOperation (''transport: build adapter '' @ quote kind) StatusInternalServerError (in_registry_kind kind))
                | Inr None \<Rightarrow> Inl (transportError (''transport: factory for '' @ quote kind @ '' returned nil adapter'') CategoryOperation StatusInternalServerError (in_registry_kind kind))
                | Inr (Some built) \<Rightarrow> Inr built)))"

definition Registry_Get :: "string \<Rightarrow> 'w Registry \<Rightarrow> 'w TransportAdapter option" where
  "Registry_Get kind r = map_of (rg_adapters r) (normalizeKind kind)"

definition Registry_List :: "'w Registry \<Rightarrow> 'w TransportAdapter list" where
  "Registry_List r = map (\<lambda>kind. the (map_of (rg_adapters r) kind)) (sort (map fst (rg_adapters r)))"

section \<open>REST\<close>

definition KindREST :: string where "KindREST = ''rest''"

definition defaultRESTResponseBodyLimit :: int where
  "defaultRESTResponseBodyLimit = 10 * 2 ^ 20"

record 'w RESTAdapter =
  ra_Client :: "'w http_client"
  ra_DefaultHeaders :: "(string, string) gomap"
  ra_MaxResponseBodyBytes :: int

definition NewRESTAdapter :: "'w http_client \<Rightarrow> 'w RESTAdapter" where
  "NewRESTAdapter client = \<lparr>ra_Client = client, ra_DefaultHeaders = [], ra_MaxResponseBodyBytes = defaultRESTResponseBodyLimit\<rparr>"

fun set_headers :: "(string, string) gomap \<Rightarrow> http_header \<Rightarrow> http_header" where
  "set_headers [] h = h"
| "set_headers ((key, value) # hs) h = set_headers hs (if TrimSpace key = [] then h else Header_Set (TrimSpace key) (TrimSpace value) h)"

fun set_query :: "(string, string) gomap \<Rightarrow> url_values \<Rightarrow> url_values" where
  "set_query [] q = q"
| "set_query ((key, value) # qs) q = set_query qs (if TrimSpace key = [] then q else Values_Set (TrimSpace key) (TrimSpace value) q)"

definition flattenHeaders :: "http_header \<Rightarrow> (string, string) gomap" where
  "flattenHeaders headers = map (\<lambda>(key, vs). (key, join_with '','' vs)) headers"

definition resolveResponseBodyLimit :: "int \<Rightarrow> int \<Rightarrow> int" where
  "resolveResponseBodyLimit requestLimit adapterLimit =
     (if requestLimit > 0 then requestLimit else if adapterLimit > 0 then adapterLimit else defaultRESTResponseBodyLimit)"

text \<open>\<open>io.LimitReader\<close> with a bound that is not positive reads nothing.\<close>

definition rest_response :: "client_env \<Rightarrow> 'w RESTAdapter \<Rightarrow> int \<Rightarrow> TransportRequest \<Rightarrow> http_response \<Rightarrow> TransportResponse result" where
  "rest_response env a ms req res =
     (let maxBodyBytes = resolveResponseBodyLimit (tr_MaxResponseBodyBytes req) (ra_MaxResponseBodyBytes a) in
      case hs_Read res (nat (wrap64 (maxBodyBytes + 1))) of
        Inl err \<Rightarrow> Inl (transportWrapError err CategoryExternal ''transport: read response body'' StatusBadGateway
          [(''adapter'', AStr KindREST), (''status_code'', AInt (hs_StatusCode res))])
      | Inr body \<Rightarrow>
          if int (length body) > maxBodyBytes
          then Inl (transportError (''transport: response body exceeds limit of '' @ Itoa maxBodyBytes @ '' bytes'') CategoryExternal StatusBadGateway
            [(''adapter'', AStr KindREST), (''status_code'', AInt (hs_StatusCode res)), (''response_limit_b'', AInt64 maxBodyBytes)])
          else Inr \<lparr>tp_StatusCode = hs_StatusCode res, tp_Headers = flattenHeaders (hs_Header res), tp_Body = body,
            tp_Metadata = [(''duration_ms'', AInt64 ms), (''kind'', AStr KindREST)]\<rparr>)"

definition validMethod :: "string \<Rightarrow> bool" where
  "validMethod m \<longleftrightarrow> m \<noteq> [] \<and> list_all header_byte m"

definition rest_request :: "client_env \<Rightarrow> 'w RESTAdapter \<Rightarrow> TransportRequest \<Rightarrow> (http_request \<times> string) result" where
  "rest_request env a req =
     (let m = TrimSpace (ToUpper (tr_Method req));
          m = (if m = [] then ''GET'' else m)
      in case cl_parseURL env (TrimSpace (tr_URL req)) of
           Inl err \<Rightarrow> Inl (transportWrapError err CategoryBadInput ''transport: invalid request url'' StatusBadRequest
             [(''adapter'', AStr KindREST), (''url'', AStr (TrimSpace (tr_URL req)))])
         | Inr parsed \<Rightarrow>
             if cl_printURL env (URL.truncate parsed) = []
             then Inl (transportError ''transport: request url is required'' CategoryBadInput StatusBadRequest [(''adapter'', AStr KindREST)])
             else
               let u = (URL.truncate parsed)\<lparr>u_RawQuery := Values_Encode (set_query (tr_Query req) (URL_Query (URL.truncate parsed)))\<rparr>;
                   text = cl_printURL env u;
                   details = [(''adapter'', AStr KindREST), (''method'', AStr m), (''url'', AStr text)];
                   failed = (\<lambda>err. Inl (transportWrapError err CategoryBadInput ''transport: create http request'' StatusBadRequest details))
               in if \<not> validMethod m then failed (Plain (''net/http: invalid method '' @ quote m))
                  else case cl_parseURL env text of
                    Inl err \<Rightarrow> failed err
                  | Inr v \<Rightarrow> Inr (\<lparr>hr_Method = m, hr_URL = URL.truncate v, hr_Header = set_headers (tr_Headers req) (set_headers (ra_DefaultHeaders a) []),
                      hr_Body = Some (Inr (tr_Body req))\<rparr>, text))"

definition REST_Do :: "client_env \<Rightarrow> 'w RESTAdapter \<Rightarrow> int \<Rightarrow> TransportRequest \<Rightarrow> ('w, TransportResponse) effect" where
  "REST_Do env a ms req w =
     (case rest_request env a req of
        Inl err \<Rightarrow> (Inl err, w)
      | Inr (httpReq, text) \<Rightarrow>
          (case ra_Client a httpReq w of
             (Inl err, w) \<Rightarrow> (Inl (transportWrapError err CategoryExternal ''transport: execute http request'' StatusBadGateway
               [(''adapter'', AStr KindREST), (''method'', AStr (hr_Method httpReq)), (''url'', AStr text)]), w)
           | (Inr res, w) \<Rightarrow> (rest_response env a ms req res, w)))"

section \<open>GraphQL\<close>

definition KindGraphQL :: string where "KindGraphQL = ''graphql''"

record 'w GraphQLAdapter =
  ga_Endpoint :: string
  ga_REST :: "'w RESTAdapter"

definition NewGraphQLAdapter :: "string \<Rightarrow> 'w http_client \<Rightarrow> 'w GraphQLAdapter" where
  "NewGraphQLAdapter endpoint client = \<lparr>ga_Endpoint = TrimSpace endpoint, ga_REST = NewRESTAdapter client\<rparr>"

definition printed :: "(int \<Rightarrow> int \<Rightarrow> string) \<Rightarrow> any \<Rightarrow> string" where
  "printed ff v = (let text = TrimSpace (Sprint ff v) in if text = ''<nil>'' then [] else text)"

definition readGraphQLQuery :: "(int \<Rightarrow> int \<Rightarrow> string) \<Rightarrow> TransportRequest \<Rightarrow> string option" where
  "readGraphQLQuery ff req =
     (if printed ff (meta_get (tr_Metadata req) ''query'') \<noteq> [] then Some (printed ff (meta_get (tr_Metadata req) ''query''))
      else if length (tr_Body req) = 0 then None
      else let query = TrimSpace (tr_Body req) in if query = [] then None else Some query)"

definition readGraphQLOperationName :: "(int \<Rightarrow> int \<Rightarrow> string) \<Rightarrow> meta \<Rightarrow> string" where
  "readGraphQLOperationName ff metadata = (if length metadata = 0 then [] else printed ff (meta_get metadata ''operation_name''))"

definition readGraphQLVariables :: "meta \<Rightarrow> meta option" where
  "readGraphQLVariables metadata = (case meta_get metadata ''variables'' of AObj typed \<Rightarrow> Some (copyAnyMap typed) | _ \<Rightarrow> None)"

definition graphql_payload :: "(int \<Rightarrow> int \<Rightarrow> string) \<Rightarrow> TransportRequest \<Rightarrow> string \<Rightarrow> meta" where
  "graphql_payload ff req query =
     (let m = [(''query'', AStr query)];
          m = (if readGraphQLOperationName ff (tr_Metadata req) \<noteq> [] then AList.update ''operationName'' (AStr (readGraphQLOperationName ff (tr_Metadata req))) m else m)
      in case readGraphQLVariables (tr_Metadata req) of Some vars \<Rightarrow> AList.update ''variables'' (AObj vars) m | None \<Rightarrow> m)"

definition GraphQL_Do :: "client_env \<Rightarrow> (meta \<Rightarrow> string result) \<Rightarrow> 'w GraphQLAdapter \<Rightarrow> int \<Rightarrow> TransportRequest \<Rightarrow> ('w, TransportResponse) effect" where
  "GraphQL_Do env marshal a ms req w =
     (let endpoint = TrimSpace (tr_URL req);
          endpoint = (if endpoint = [] then ga_Endpoint a else endpoint);
          details = [(''adapter'', AStr KindGraphQL), (''endpoint'', AStr endpoint)]
      in if endpoint = [] then (Inl (transportError ''transport: graphql endpoint is required'' CategoryBadInput StatusBadRequest [(''adapter'', AStr KindGraphQL)]), w)
         else case readGraphQLQuery (cl_float env) req of
           None \<Rightarrow> (Inl (transportError ''transport: graphql query is required'' CategoryBadInput StatusBadRequest details), w)
         | Some query \<Rightarrow>
             (case marshal (graphql_payload (cl_float env) req query) of
                Inl err \<Rightarrow> (Inl (transportWrapError err CategoryBadInput ''transport: marshal graphql payload'' StatusBadRequest details), w)
              | Inr body \<Rightarrow>
                  (case REST_Do env (ga_REST a) ms \<lparr>tr_Method = ''POST'', tr_URL = endpoint, tr_Headers = maps_Copy [(''Content-Type'', ''application/json'')] (tr_Headers req),
                       tr_Query = [], tr_Body = body, tr_Metadata = tr_Metadata req, tr_Timeout = tr_Timeout req,
                       tr_MaxResponseBodyBytes = tr_MaxResponseBodyBytes req, tr_Idempotency = []\<rparr> w of
                     (Inl err, w) \<Rightarrow> (Inl (transportWrapError err CategoryExternal ''transport: graphql request failed'' StatusBadGateway details), w)
                   | (Inr response, w) \<Rightarrow> (Inr (response\<lparr>tp_Metadata := AList.update ''kind'' (AStr KindGraphQL) (tp_Metadata response)\<rparr>), w))))"

section \<open>Other protocols over HTTP\<close>

record 'w ProtocolHTTPAdapter =
  pa_kind :: string
  pa_defaultMethod :: string
  pa_defaultHeader :: "(string, string) gomap"
  pa_rest :: "'w RESTAdapter"

fun trim_into :: "(string, string) gomap \<Rightarrow> (string, string) gomap \<Rightarrow> (string, string) gomap" where
  "trim_into [] out = out"
| "trim_into ((key, value) # hs) out = trim_into hs (if TrimSpace key = [] then out else AList.update (TrimSpace key) (TrimSpace value) out)"

definition cloneHeaders :: "(string, string) gomap \<Rightarrow> (string, string) gomap" where
  "cloneHeaders input = trim_into input []"

definition newProtocolHTTPAdapter :: "string \<Rightarrow> 'w http_client \<Rightarrow> string \<Rightarrow> (string, string) gomap \<Rightarrow> 'w ProtocolHTTPAdapter" where
  "newProtocolHTTPAdapter kind client defaultMethod defaultHeaders =
     \<lparr>pa_kind = TrimSpace (ToLower kind), pa_defaultMethod = TrimSpace (ToUpper defaultMethod), pa_defaultHeader = cloneHeaders defaultHeaders,
      pa_rest = NewRESTAdapter client\<rparr>"

definition NewSOAPAdapter :: "'w http_client \<Rightarrow> 'w ProtocolHTTPAdapter" where
  "NewSOAPAdapter client = newProtocolHTTPAdapter ''soap'' client ''POST'' [(''Content-Type'', ''text/xml; charset=utf-8'')]"

definition NewBulkAdapter :: "'w http_client \<Rightarrow> 'w ProtocolHTTPAdapter" where
  "NewBulkAdapter client = newProtocolHTTPAdapter ''bulk'' client ''POST'' [(''Content-Type'', ''application/json''), (''Accept'', ''application/json'')]"

definition NewStreamAdapter :: "'w http_client \<Rightarrow> 'w ProtocolHTTPAdapter" where
  "NewStreamAdapter client = newProtocolHTTPAdapter ''stream'' client ''GET'' [(''Accept'', ''text/event-stream'')]"

definition NewFileAdapter :: "'w http_client \<Rightarrow> 'w ProtocolHTTPAdapter" where
  "NewFileAdapter client = newProtocolHTTPAdapter ''file'' client ''POST'' [(''Content-Type'', ''application/octet-stream'')]"

definition Protocol_Do :: "client_env \<Rightarrow> 'w ProtocolHTTPAdapter \<Rightarrow> int \<Rightarrow> TransportRequest \<Rightarrow> ('w, TransportResponse) effect" where
  "Protocol_Do env a ms req w =
     (case REST_Do env (pa_rest a) ms (req\<lparr>tr_Method := (if TrimSpace (tr_Method req) = [] then pa_defaultMethod a else tr_Method req),
            tr_Headers := trim_into (tr_Headers req) (cloneHeaders (pa_defaultHeader a))\<rparr>) w of
        (Inl err, w) \<Rightarrow> (Inl err, w)
      | (Inr response, w) \<Rightarrow>
          (Inr (response\<lparr>tp_Metadata := AList.update ''protocol_adapter'' (AStr (pa_kind a)) (AList.update ''kind'' (AStr (pa_kind a)) (copyAnyMap (tp_Metadata response)))\<rparr>), w))"

definition UnsupportedAdapter_Do :: "string \<Rightarrow> string \<Rightarrow> ('w, TransportResponse) effect" where
  "UnsupportedAdapter_Do kind0 reason0 w =
     (let kind = TrimSpace (ToLower kind0); reason = TrimSpace reason0 in
      if reason \<noteq> [] then (Inl (transportError (''transport: '' @ kind @ '' adapter is not configured: '' @ reason) CategoryOperation 501
        [(''adapter'', AStr kind), (''reason'', AStr reason)]), w)
      else (Inl (transportError (''transport: '' @ kind @ '' adapter is not configured'') CategoryOperation 501 [(''adapter'', AStr kind)]), w))"

section \<open>The default registry\<close>

text \<open>The factories of the four protocols; another kind is unsupported, with the reason of its configuration.\<close>

definition protocol_adapter :: "client_env \<Rightarrow> int \<Rightarrow> 'w ProtocolHTTPAdapter \<Rightarrow> 'w TransportAdapter" where
  "protocol_adapter env ms a = \<lparr>ta_Kind = pa_kind a, ta_Do = Protocol_Do env a ms\<rparr>"

definition defaultProtocolFactory :: "client_env \<Rightarrow> int \<Rightarrow> 'w http_client \<Rightarrow> string \<Rightarrow> 'w adapter_factory" where
  "defaultProtocolFactory env ms client kind config =
     (let k = normalizeKind kind in
      if k = ''soap'' then Inr (Some (protocol_adapter env ms (NewSOAPAdapter client)))
      else if k = ''bulk'' then Inr (Some (protocol_adapter env ms (NewBulkAdapter client)))
      else if k = ''stream'' then Inr (Some (protocol_adapter env ms (NewStreamAdapter client)))
      else if k = ''file'' then Inr (Some (protocol_adapter env ms (NewFileAdapter client)))
      else Inr (Some \<lparr>ta_Kind = TrimSpace (ToLower kind), ta_Do = \<lambda>_. UnsupportedAdapter_Do kind (Sprint (cl_float env) (meta_get config ''reason''))\<rparr>))"

definition NewDefaultRegistry :: "client_env \<Rightarrow> (meta \<Rightarrow> string result) \<Rightarrow> int \<Rightarrow> 'w http_client \<Rightarrow> 'w Registry" where
  "NewDefaultRegistry env marshal ms client =
     (let r = snd (Registry_Register (Some \<lparr>ta_Kind = KindREST, ta_Do = REST_Do env (NewRESTAdapter client) ms\<rparr>) NewRegistry);
          r = snd (Registry_Register (Some \<lparr>ta_Kind = KindGraphQL, ta_Do = GraphQL_Do env marshal (NewGraphQLAdapter [] client) ms\<rparr>) r)
      in fold (\<lambda>kind r. snd (Registry_RegisterFactory kind (Some (defaultProtocolFactory env ms client kind)) r)) [''soap'', ''bulk'', ''stream'', ''file''] r)"

section \<open>What a REST call sends and returns\<close>

definition header_name :: "string \<times> string \<Rightarrow> string" where
  "header_name kv = CanonicalHeaderKey (TrimSpace (fst kv))"

definition named :: "string \<times> string \<Rightarrow> bool" where
  "named kv \<longleftrightarrow> TrimSpace (fst kv) \<noteq> []"

lemma set_headers_other: "\<forall>kv \<in> set hs. named kv \<longrightarrow> header_name kv \<noteq> CanonicalHeaderKey k \<Longrightarrow> Header_Get (set_headers hs h) k = Header_Get h k"
  by (induction hs h rule: set_headers.induct) (auto simp: Header_Get_Set named_def header_name_def)

lemma set_headers_get:
  assumes "distinct (map header_name (filter named hs))" and "(k, v) \<in> set hs" and "TrimSpace k \<noteq> []"
  shows "Header_Get (set_headers hs h) (TrimSpace k) = TrimSpace v"
  using assms
proof (induction hs h rule: set_headers.induct)
  case (2 key val hs h)
  show ?case
  proof (cases "(k, v) = (key, val)")
    case True
    then have n: "named (key, val)" "header_name (key, val) = CanonicalHeaderKey (TrimSpace k)" using 2(4) by (simp_all add: named_def header_name_def)
    then have "header_name (key, val) \<notin> header_name ` {kv \<in> set hs. named kv}" using 2(2) by simp
    then have "\<forall>kv \<in> set hs. named kv \<longrightarrow> header_name kv \<noteq> CanonicalHeaderKey (TrimSpace k)"
      unfolding n(2) by (metis (mono_tags, lifting) image_eqI mem_Collect_eq)
    with True 2(4) show ?thesis by (simp add: set_headers_other Header_Get_Set)
  next
    case False
    then have "(k, v) \<in> set hs" "distinct (map header_name (filter named hs))" using 2(2,3) by (auto split: if_splits)
    from 2(1) [OF this(2,1) 2(4)] show ?thesis by simp
  qed
qed simp

lemma rest_response_exact:
  assumes "\<And>n. hs_Read res n = Inr (take n content)" and "m = resolveResponseBodyLimit (tr_MaxResponseBodyBytes req) (ra_MaxResponseBodyBytes a)" and "m < 2 ^ 63 - 1"
  shows "rest_response env a ms req res =
    (if int (length content) \<le> m
     then Inr \<lparr>tp_StatusCode = hs_StatusCode res, tp_Headers = flattenHeaders (hs_Header res), tp_Body = content, tp_Metadata = [(''duration_ms'', AInt64 ms), (''kind'', AStr KindREST)]\<rparr>
     else Inl (transportError (''transport: response body exceeds limit of '' @ Itoa m @ '' bytes'') CategoryExternal StatusBadGateway
            [(''adapter'', AStr KindREST), (''status_code'', AInt (hs_StatusCode res)), (''response_limit_b'', AInt64 m)]))"
proof -
  have pos: "0 < m" using assms(2) by (simp add: resolveResponseBodyLimit_def defaultRESTResponseBodyLimit_def split: if_splits)
  have w: "wrap64 (m + 1) = m + 1" using pos assms(3) by (intro wrap64_id) (simp add: int64_def)
  have long: "int (length (take (nat (m + 1)) content)) > m \<longleftrightarrow> int (length content) > m" using pos by (auto simp: min_def)
  have all: "take (nat (m + 1)) content = content" if "int (length content) \<le> m" using that by simp
  show ?thesis using assms(1) long all by (simp add: rest_response_def Let_def w assms(2) [symmetric])
qed

lemma REST_Do_Inr:
  assumes "REST_Do env a ms req w = (Inr resp, w')"
  obtains httpReq shown res where "rest_request env a req = Inr (httpReq, shown)" "ra_Client a httpReq w = (Inr res, w')" "rest_response env a ms req res = Inr resp"
  using assms by (auto simp: REST_Do_def split: sum.splits prod.splits)

text \<open>
  A REST call is one request and its whole answer. When a call succeeds, the client was called once, with the headers of the
  request before the defaults of the adapter and with the body given, and the response has the status and the complete body of the
  answer, which is within the limit of the request or else of the adapter: a body is never cut off.
\<close>

theorem rest_call_exact:
  assumes "REST_Do env a ms req w = (Inr resp, w')" and "distinct (map header_name (filter named (tr_Headers req)))"
    and "m = resolveResponseBodyLimit (tr_MaxResponseBodyBytes req) (ra_MaxResponseBodyBytes a)" and "m < 2 ^ 63 - 1"
    and "\<And>httpReq res. ra_Client a httpReq w = (Inr res, w') \<Longrightarrow> \<exists>content. \<forall>n. hs_Read res n = Inr (take n content)"
  shows "\<exists>httpReq res content. ra_Client a httpReq w = (Inr res, w') \<and> (\<forall>n. hs_Read res n = Inr (take n content)) \<and>
    hr_Body httpReq = Some (Inr (tr_Body req)) \<and>
    (\<forall>k v. (k, v) \<in> set (tr_Headers req) \<and> TrimSpace k \<noteq> [] \<longrightarrow> Header_Get (hr_Header httpReq) (TrimSpace k) = TrimSpace v) \<and>
    (\<forall>k. (\<forall>kv \<in> set (tr_Headers req). named kv \<longrightarrow> header_name kv \<noteq> CanonicalHeaderKey k) \<longrightarrow>
       Header_Get (hr_Header httpReq) k = Header_Get (set_headers (ra_DefaultHeaders a) []) k) \<and>
    tp_StatusCode resp = hs_StatusCode res \<and> tp_Body resp = content \<and> int (length content) \<le> m"
proof -
  obtain httpReq shown res where r: "rest_request env a req = Inr (httpReq, shown)" "ra_Client a httpReq w = (Inr res, w')" "rest_response env a ms req res = Inr resp"
    using REST_Do_Inr [OF assms(1)] .
  obtain content where c: "\<And>n. hs_Read res n = Inr (take n content)" using assms(5) [OF r(2)] by blast
  have b: "hr_Body httpReq = Some (Inr (tr_Body req))" "hr_Header httpReq = set_headers (tr_Headers req) (set_headers (ra_DefaultHeaders a) [])"
    using r(1) by (auto simp: rest_request_def Let_def split: sum.splits if_splits)
  have "tp_StatusCode resp = hs_StatusCode res \<and> tp_Body resp = content \<and> int (length content) \<le> m"
    using r(3) rest_response_exact [OF c assms(3,4)] by (auto split: if_splits)
  moreover have "Header_Get (hr_Header httpReq) (TrimSpace k) = TrimSpace v" if "(k, v) \<in> set (tr_Headers req)" "TrimSpace k \<noteq> []" for k v
    unfolding b(2) using set_headers_get [OF assms(2) that] .
  moreover have "Header_Get (hr_Header httpReq) k = Header_Get (set_headers (ra_DefaultHeaders a) []) k"
    if "\<forall>kv \<in> set (tr_Headers req). named kv \<longrightarrow> header_name kv \<noteq> CanonicalHeaderKey k" for k
    unfolding b(2) using set_headers_other [OF that] .
  ultimately show ?thesis using r(2) c b(1) by blast
qed

text \<open>A limit of the largest 64-bit integer overflows: nothing of the body is read, and the call succeeds with an empty one.\<close>

lemma largest_limit_reads_nothing:
  assumes "\<And>n. hs_Read res n = Inr (take n content)" and "tr_MaxResponseBodyBytes req = 2 ^ 63 - 1"
  shows "\<exists>resp. rest_response env a ms req res = Inr resp \<and> tp_Body resp = []"
proof -
  have "wrap64 (2 ^ 63 - 1 + 1) \<le> 0" by code_simp
  then show ?thesis using assms by (simp add: rest_response_def resolveResponseBodyLimit_def Let_def)
qed

text \<open>Two spellings of one header compete: which value is sent depends on the order in which the map is ranged over.\<close>

lemma header_spellings_compete:
  "Header_Get (set_headers [(''Content-Type'', ''application/json''), (''content-type'', ''text/plain'')] []) ''Content-Type'' = ''text/plain''"
  "Header_Get (set_headers [(''content-type'', ''text/plain''), (''Content-Type'', ''application/json'')] []) ''Content-Type'' = ''application/json''"
  by code_simp+

text \<open>An unknown adapter is reported as 404 but with the text code of an internal error.\<close>

lemma unknown_kind_code:
  assumes "normalizeKind kind \<noteq> []" "map_of (rg_adapters r) (normalizeKind kind) = None" "map_of (rg_factories r) (normalizeKind kind) = None"
  shows "\<exists>e. Registry_Build kind config r = Inl (Rich e None) \<and> Code e = 404 \<and> TextCode e = code_text ServiceErrorInternal"
  using assms by (simp add: Registry_Build_def transportError_def transport_rich_def Let_def)

section \<open>The registry\<close>

lemma Register_new:
  assumes "Registry_Register (Some a) r = (None, r')"
  shows "Registry_Build (ta_Kind a) config r' = Inr a" "Registry_Get (ta_Kind a) r' = Some a"
    "\<And>kind b. Registry_Get kind r = Some b \<Longrightarrow> Registry_Get kind r' = Some b"
  using assms by (auto simp: Registry_Register_def Registry_Build_def Registry_Get_def Let_def update_conv' split: if_splits)

lemma Registry_List_sorted: "gomap_ok (rg_adapters r) \<Longrightarrow> set (Registry_List r) = snd ` set (rg_adapters r)"
  by (force simp: Registry_List_def image_iff)

section \<open>A sample call\<close>

definition sample_rest_env :: client_env where
  "sample_rest_env = \<lparr>cl_hmac = \<lambda>k m. [], cl_json = \<lambda>s. Inl (Plain ''json''),
     cl_parseURL = \<lambda>u. Inr \<lparr>u_Scheme = ''https'', u_Host = ''a'', u_Path = [], u_EscapedPath = [], u_RawQuery = [], u_Fragment = [], u_hasUser = False\<rparr>,
     cl_printURL = \<lambda>u. ''https://a'', cl_float = \<lambda>m e. [], cl_int_of_float = \<lambda>m e. m, cl_render = \<lambda>e. []\<rparr>"

definition sample_rest :: "http_request list RESTAdapter" where
  "sample_rest = \<lparr>ra_Client = \<lambda>req w. (Inr \<lparr>hs_StatusCode = 200, hs_Header = [], hs_Read = \<lambda>n. Inr (take n ''done'')\<rparr>, w @ [req]),
     ra_DefaultHeaders = [(''Accept'', ''text/plain'')], ra_MaxResponseBodyBytes = 4\<rparr>"

definition sample_transport_request :: TransportRequest where
  "sample_transport_request = \<lparr>tr_Method = [], tr_URL = ''https://a'', tr_Headers = [('' accept '', ''text/csv'')], tr_Query = [], tr_Body = ''b'', tr_Metadata = [],
     tr_Timeout = 0, tr_MaxResponseBodyBytes = 0, tr_Idempotency = []\<rparr>"

theorem rest_call_exact_witness:
  "\<exists>resp w. REST_Do sample_rest_env sample_rest 0 sample_transport_request [] = (Inr resp, w) \<and> tp_Body resp = ''done''"
proof -
  let ?res = "\<lparr>hs_StatusCode = 200, hs_Header = [], hs_Read = \<lambda>n. Inr (take n ''done'')\<rparr> :: http_response"
  have limit: "resolveResponseBodyLimit (tr_MaxResponseBodyBytes sample_transport_request) (ra_MaxResponseBodyBytes sample_rest) = 4"
    and h: "distinct (map header_name (filter named (tr_Headers sample_transport_request)))" and v: "validMethod ''GET''" and m: "TrimSpace (ToUpper (tr_Method sample_transport_request)) = []"
    by (simp add: sample_transport_request_def sample_rest_def resolveResponseBodyLimit_def) code_simp+
  obtain httpReq shown where rq: "rest_request sample_rest_env sample_rest sample_transport_request = Inr (httpReq, shown)"
    using v m by (simp add: rest_request_def Let_def) (simp add: sample_rest_env_def)
  have cl: "ra_Client sample_rest r w = (Inr ?res, w @ [r])" for r w by (simp add: sample_rest_def)
  have rs: "\<exists>resp. rest_response sample_rest_env sample_rest 0 sample_transport_request ?res = Inr resp"
    using rest_response_exact [of ?res "''done''" 4 sample_transport_request sample_rest] limit by simp
  then obtain resp where r: "REST_Do sample_rest_env sample_rest 0 sample_transport_request [] = (Inr resp, [httpReq])" using rq cl by (auto simp: REST_Do_def)
  have read: "\<And>httpReq' res. ra_Client sample_rest httpReq' [] = (Inr res, [httpReq]) \<Longrightarrow> \<exists>content. \<forall>n. hs_Read res n = Inr (take n content)"
    using cl by (metis Pair_inject http_response.select_convs(3) sum.inject(2))
  have lim: "resolveResponseBodyLimit (tr_MaxResponseBodyBytes sample_transport_request) (ra_MaxResponseBodyBytes sample_rest) < 2 ^ 63 - 1" using limit by simp
  obtain httpReq' res content where x: "ra_Client sample_rest httpReq' [] = (Inr res, [httpReq])" "\<forall>n. hs_Read res n = Inr (take n content)" "tp_Body resp = content"
    using rest_call_exact [OF r h refl lim] read by blast
  have "res = ?res" using x(1) cl [of httpReq' "[]"] by simp
  then have "take n content = take n ''done''" for n using x(2) by simp
  then have "content = ''done''" by (metis take_equalityI)
  then show ?thesis using r x(3) by blast
qed

end
