(* ===== verification/Spec2Isabelle.thy ===== *)
theory Spec2Isabelle
  imports Backoff Replay_Ledger OAuth_State Refresh_Runner Inbound_Dispatcher Webhook_Processor Rate_Limit Lifecycle Sync_Orchestrator Account_World Callback_State Installations Subscriptions Provider_Operation Mapping_Lifecycle Sync_Conflicts Identity_Reconciler Secrets Embedded_Auth OAuth2_Provider Webhook_Templates Service_Account Rate_Limit_Store Activity Transport
begin

text \<open>
  \<^bold>\<open>Verification of the core of go-services.\<close>

  go-services connects an application to third-party providers: it runs the OAuth flows, keeps connections,
  credentials, grants, installations and subscriptions, receives webhooks and other inbound requests exactly
  once, calls providers under rate limits and retries, refreshes credentials under a lock, runs sync jobs, and
  publishes lifecycle events through an outbox. The state is in SQL stores (\<open>src/store/sql\<close>) or in memory
  behind a mutex (\<open>src/core\<close>, \<open>src/inbound\<close>, \<open>src/webhooks\<close>, \<open>src/ratelimit\<close>);
  \<open>src/core/service.go\<close> composes the stores, the registry of providers and the policies.

  \<^bold>\<open>Conventions of the model.\<close>

  \<^item> A Go function or method is one HOL function of the same name, \<open>Type_Method\<close> for a method. A struct is a
    record, a string enum a datatype with the declared constants and one constructor for any other text. A
    pointer or interface that may be nil is an option; \<open>(T, error)\<close> is a sum with the error on the left;
    \<open>(T, bool)\<close> is an option. Errors keep their text and the chain that \<open>errors.Is\<close> walks
    (\<open>Go_Prelude\<close>, \<open>Domain\<close>).
  \<^item> A method that changes state returns the changed state; a method under a mutex is one atomic step. The SQL
    statements of one method are separate steps where other workers can come in between them
    (\<open>Delivery_Ledger\<close>, \<open>Outbox\<close>, \<open>Sync_Cursors\<close>), and a method that calls several stores is a
    sequence in the error-and-state monad of \<open>Effects\<close>, which keeps the changes of a call that failed.
  \<^item> A SQL table is the list of its rows (\<open>Sql_Table\<close>); the unique indexes of the migrations are checked
    by the inserts and are part of the tables' invariants. \<open>se_flt\<close> says which statements of a call fail;
    a failed transaction leaves its tables as they were. The statements are those that the repository and query
    builder calls name.
  \<^item> Strings are byte lists on which case folding and trimming are the ASCII ones. A point in time is an integer of
    nanoseconds with 0 for Go's zero time; durations are integers, and wrap at 64 bits where the code multiplies
    them (\<open>wrap64\<close> in \<open>Backoff\<close>). Counters of attempts, versions and list lengths are unbounded.
  \<^item> A Go map is an association list with distinct keys. The order of the list is the order of the iteration, so a
    theorem for every list is a theorem for every iteration order.
  \<^item> The clock, fresh ids, random strings, JSON encoding, SHA-256, URL parsing, time formatting, encryption,
    the providers, and the packages go-errors and go-repository-bun are arguments. What a theorem needs of
    them is one of its hypotheses, and its witness gives a function that satisfies it.

  \<^bold>\<open>Theories and sources.\<close>

  \<^item> \<open>Go_Prelude\<close>, \<open>Url_Encoding\<close>, \<open>Eviction\<close>, \<open>Effects\<close>, \<open>Sql_Table\<close>: the part of Go, of its
    standard library and of SQL that the components share, with the lemmas on lists and maps.
  \<^item> \<open>Domain\<close> (\<open>core/domain.go\<close>): entities and status machines. \<open>Service_Errors\<close>
    (\<open>core/errors.go\<close>): the error envelope. \<open>Redaction\<close>: the redaction of both packages.
  \<^item> \<open>Backoff\<close>: the four backoff policies. \<open>Replay_Ledger\<close>, \<open>OAuth_State\<close>, \<open>Refresh_Runner\<close>: the
    in-memory ledger of nonces, store of OAuth states, and lock with its retry loop (\<open>core/replay_ledger.go\<close>,
    \<open>core/oauth_state.go\<close>, \<open>core/refresh_runner.go\<close>).
  \<^item> \<open>Claim_Store\<close>, \<open>Inbound_Dispatcher\<close> (\<open>inbound/dispatcher.go\<close>, \<open>inbound/errors.go\<close>): claims of
    idempotency keys and the dispatch of inbound requests.
  \<^item> \<open>Delivery_Ledger\<close>, \<open>Burst_Control\<close>, \<open>Webhook_Processor\<close> (\<open>webhooks/*.go\<close>,
    \<open>store/sql/webhook_delivery_store.go\<close>): deliveries of webhooks and their retries.
  \<^item> \<open>Rate_Limit\<close> (\<open>ratelimit/policy.go\<close>): the adaptive rate-limit policy.
  \<^item> \<open>Grants\<close>, \<open>Permissions\<close> (\<open>core/grants.go\<close>, \<open>core/registry.go\<close>, \<open>core/inheritance.go\<close>,
    \<open>core/permission_evaluator.go\<close>, the grant store of \<open>store/sql/event_stores.go\<close>): permissions, their
    history, and the decision on a capability.
  \<^item> \<open>Connection_Store\<close>, \<open>Credential_Store\<close>, \<open>Service_Flows\<close>, \<open>Account_Stores\<close>,
    \<open>Account_World\<close>, \<open>Callback_State\<close> (\<open>core/service.go\<close>, \<open>core/credential_*.go\<close>,
    \<open>core/auth_strategy_runtime.go\<close>, \<open>store/sql/connection_store.go\<close>,
    \<open>store/sql/credential_store.go\<close>): connecting, completing callbacks, refreshing, revoking, and invoking
    capabilities, first over any stores that satisfy the locale \<open>account_stores\<close>, then over one SQL database.
  \<^item> \<open>Installations\<close>, \<open>Subscriptions\<close>: their SQL stores and the operations of the service on them.
  \<^item> \<open>Outbox\<close>, \<open>Lifecycle\<close> (\<open>store/sql/outbox_store.go\<close>, \<open>core/outbox_dispatcher.go\<close>,
    \<open>core/lifecycle_hooks.go\<close>, \<open>core/lifecycle_projectors.go\<close>): the outbox and the consumers of its events.
  \<^item> \<open>Sync_Jobs\<close>, \<open>Sync_Cursors\<close>, \<open>Sync_Orchestrator\<close> (\<open>store/sql/sync_*.go\<close>,
    \<open>core/service_sync_*.go\<close>, \<open>sync/orchestrator.go\<close>): jobs, their idempotency keys, cursors.
  \<^item> \<open>Http_Values\<close>, \<open>Base64\<close>, \<open>Http_Client\<close>: what the sources use of \<open>net/url\<close>, \<open>net/http\<close> and
    \<open>encoding/base64\<close>. In the theories above \<open>Http_Client\<close> a point in time counts nanoseconds from the Unix epoch.
  \<^item> \<open>Signing\<close> (\<open>core/signer.go\<close>, \<open>core/sigv4_signer.go\<close>): the signers of requests. \<open>Provider_Operation\<close>
    (\<open>core/provider_operation_runtime.go\<close>, \<open>core/capability_operation_runtime.go\<close>): calls of a provider with
    their signature, rate limit, retries and idempotency key.
  \<^item> \<open>Formdata\<close>, \<open>Mapping_Compiler\<close>, \<open>Mapping_Lifecycle\<close> (\<open>core/formdata_contracts.go\<close>,
    \<open>core/mapping_*.go\<close>): mapping specifications, their type check, their preview and their versions.
  \<^item> \<open>Sync_Runs\<close>, \<open>Sync_Conflicts\<close>, \<open>Identity_Reconciler\<close> (\<open>core/sync_planner_service.go\<close>,
    \<open>core/sync_execution_service.go\<close>, \<open>core/sync_conflict_service.go\<close>,
    \<open>core/identity_binding_reconciler.go\<close>): runs of a synchronisation, their conflicts, and the binding of
    external to internal records.
  \<^item> \<open>Secrets\<close> (\<open>security/*.go\<close>): the envelope of ciphertexts, the providers of keys, failover.
  \<^item> \<open>Embedded_Auth\<close> (\<open>providers/shopify/embedded/*.go\<close>): session tokens and their exchange.
    \<open>Identity_Resolver\<close> (\<open>identity/resolver.go\<close>), \<open>OAuth2_Provider\<close> (\<open>providers/oauth2_provider.go\<close>):
    the authorization-code flow and whose account it is for.
  \<^item> \<open>Webhook_Templates\<close> (\<open>webhooks/templates.go\<close>, \<open>providers/*/webhook.go\<close>): verification of webhooks.
  \<^item> \<open>Client_Credentials\<close>, \<open>Auth_Strategies\<close>, \<open>Service_Account\<close> (\<open>auth/*.go\<close>): the authentication
    strategies, with the signer that is chosen for their credentials.
  \<^item> \<open>Rate_Limit_Store\<close> (\<open>store/sql/rate_limit_state_store.go\<close>,
    \<open>store/sql/cached_rate_limit_state_store.go\<close>): the database of the rate-limit policy and its cache.
    \<open>Activity\<close> (\<open>store/sql/activity_store.go\<close>, \<open>core/activity_controls.go\<close>): the activity log.
  \<^item> \<open>Transport\<close> (\<open>transport/*.go\<close>): the registry of adapters, REST, GraphQL and the other protocols over HTTP.

  \<^bold>\<open>What the theorems show.\<close>

  \<^item> Exactly-once processing: an accepted inbound request or webhook is not handled again, a failed one is; every
    attempt of a delivery and every claim of an outbox event goes to one worker however their statements
    interleave; attempts and notifications are bounded.
  \<^item> Accounts: a completed callback installs a connection with the credential and the grants obtained; a revoked
    connection can no longer be used; a capability is only allowed with the permissions it needs; OAuth states and
    nonces are used once; credential versions are numbered; the newest grant snapshot is the replay of the events.
  \<^item> Stores: upserts and keyed creations implement maps and get-or-create, cursors a compare-and-set; the unique
    indexes and the versions are invariants of every sequence of operations.
  \<^item> Provider calls: a call sends one idempotency key and only the credential of its connection; a signed request verifies
    at a server that recomputes the signature; a body under a limit below the largest integer is returned whole or not at all.
  \<^item> Credentials and identities: encrypted secrets are recovered; session tokens and webhook signatures are accepted only
    under the secret; a refresh keeps the identity, the keys and the refresh token of a credential.
  \<^item> Mapping and synchronisation: the compiler accepts exactly the specifications that fit, transforms respect types, published
    versions do not change, a change is applied once, and a binding names a clear winner.
  \<^item> Arithmetic: the backoff loops equal their closed form, with wrap-around excluded where the bounds allow it.
  \<^item> Errors: every error gets a complete envelope; no redacted value leaves a sensitive key; and the branches
    where the code does something else than its comments or status machines say are theorems of their own.

  \<^bold>\<open>Bounds and fuel.\<close> No theorem rests on fuel: eviction loops, retry loops and batch loops are total
  functions with termination proofs or recursions over their input; the loops of the in-memory stores return
  \<open>None\<close> when they would not end, and the theorems show that they return.

  \<^bold>\<open>Not modelled.\<close> The catalogue of concrete providers (endpoints, scopes and requests as literals around the modelled OAuth 2
  provider and strategies), the readers of their rate-limit headers, the command and query messages that each call one modelled
  method, the adapters to other packages, the migrations, the construction of services and stores from options, and logging and
  metrics: they are configuration, I/O or calls of third-party packages. Deadlines and cancellation of contexts are not
  modelled, nor, in most theories, is a nil receiver.
\<close>

end
